(* ===== verification/Prelude.thy ===== *)
theory Prelude
  imports Complex_Main "HOL-Library.Word" "HOL-Library.Multiset"
begin

text \<open>
  Shared vocabulary of the development: the integer types of the program and their
  saturating arithmetic, panics, instants and durations, the iterator and sorting routines
  of the standard library that the code calls, and two interfaces several components rely
  on, a total comparison and a time-windowed queue.
\<close>

section \<open>Collections of rewrite rules\<close>

named_theorems sat_simps \<open>unsigned readings of the saturating machine operations\<close>
named_theorems word_simps \<open>comparisons and conversions of words, read as integers\<close>

section \<open>Machine types\<close>

type_synonym u8 = "8 word"
type_synonym u32 = "32 word"
type_synonym u64 = "64 word"
type_synonym u256 = "256 word"
type_synonym address = "160 word"
type_synonym h256 = "256 word"
type_synonym bytes = "8 word list"
type_synonym selector = "8 word list"

text \<open>
  An \<open>Instant\<close> is a number of nanoseconds since some fixed origin, a \<open>Duration\<close> a
  non-negative number of nanoseconds. \<open>Instant::now()\<close> is an argument of every
  operation that reads the clock.
\<close>

type_synonym instant = int
type_synonym duration = int

definition nanos_of_secs :: "int \<Rightarrow> duration" where
  "nanos_of_secs s = s * 1000000000"

definition nanos_of_millis :: "int \<Rightarrow> duration" where
  "nanos_of_millis ms = ms * 1000000"

definition as_secs :: "duration \<Rightarrow> int" where
  "as_secs d = d div 1000000000"

definition as_millis :: "duration \<Rightarrow> int" where
  "as_millis d = d div 1000000"

text \<open>\<open>Instant::duration_since\<close> saturates at zero when the argument is later.\<close>

definition duration_since :: "instant \<Rightarrow> instant \<Rightarrow> duration" where
  "duration_since now earlier = max 0 (now - earlier)"

text \<open>The panics that the modelled code can reach.\<close>

datatype panic = DivisionByZero | IndexOutOfBounds | IntegerOverflow | UnwrapNone | AssertionFailed

text \<open>
  A value behind a \<open>Mutex\<close> or an \<open>RwLock\<close>. A thread that panics while it holds the lock poisons
  it, after which \<open>lock()\<close>, \<open>read()\<close> and \<open>write()\<close> return an error.
\<close>

datatype 'a lock = Healthy 'a | Poisoned 'a

fun read_lock :: "'a lock \<Rightarrow> 'a option" where
  "read_lock (Healthy x) = Some x"
| "read_lock (Poisoned x) = None"

text \<open>\<open>Result\<close> is a sum with the error on the left; \<open>and_then\<close> is the \<open>?\<close> operator.\<close>

fun and_then :: "'e + 'a \<Rightarrow> ('a \<Rightarrow> 'e + 'b) \<Rightarrow> 'e + 'b" where
  "and_then (Inl e) f = Inl e"
| "and_then (Inr x) f = f x"

fun ok_or :: "'e \<Rightarrow> 'a option \<Rightarrow> 'e + 'a" where
  "ok_or e None = Inl e"
| "ok_or e (Some x) = Inr x"

lemma and_then_eq_Inr: "and_then r f = Inr y \<longleftrightarrow> (\<exists>x. r = Inr x \<and> f x = Inr y)"
  by (cases r) auto

lemma ok_or_eq_Inr [simp]: "ok_or e r = Inr x \<longleftrightarrow> r = Some x"
  by (cases r) auto

section \<open>Saturating arithmetic\<close>

definition sat_add :: "'a::len word \<Rightarrow> 'a word \<Rightarrow> 'a word" where
  "sat_add a b = (if uint a + uint b < 2 ^ LENGTH('a) then a + b else - 1)"

definition sat_sub :: "'a::len word \<Rightarrow> 'a word \<Rightarrow> 'a word" where
  "sat_sub a b = (if b \<le> a then a - b else 0)"

definition sat_mul :: "'a::len word \<Rightarrow> 'a word \<Rightarrow> 'a word" where
  "sat_mul a b = (if uint a * uint b < 2 ^ LENGTH('a) then a * b else - 1)"

definition clampw :: "'a::len word \<Rightarrow> 'a word \<Rightarrow> 'a word \<Rightarrow> 'a word" where
  "clampw lo hi x = (if x < lo then lo else if hi < x then hi else x)"

text \<open>
  \<open>x.min(m).as_u64()\<close> with \<open>m\<close> at most \<open>u64::MAX\<close>: the conversion cannot panic.
\<close>

definition min_as_u64 :: "u256 \<Rightarrow> u64 \<Rightarrow> u64" where
  "min_as_u64 x m = (if x \<le> ucast m then ucast x else m)"

definition u64_max :: u64 where
  "u64_max = - 1"

lemma uint_less_exp: "uint (a :: 'a::len word) < 2 ^ LENGTH('a)"
  by (fact uint_bounded)

lemma uint_nonneg [simp]: "0 \<le> uint (a :: 'a::len word)"
  by simp

lemma uint_minus_1 [sat_simps]: "uint (- 1 :: 'a::len word) = 2 ^ LENGTH('a) - 1"
  by (simp add: unsigned_minus_1_eq_mask mask_eq_exp_minus_1)

lemma uint_add_small: "uint a + uint b < 2 ^ LENGTH('a) \<Longrightarrow> uint (a + b :: 'a::len word) = uint a + uint b"
  by (simp add: uint_word_ariths)

lemma uint_mul_small: "uint a * uint b < 2 ^ LENGTH('a) \<Longrightarrow> uint (a * b :: 'a::len word) = uint a * uint b"
  by (simp add: uint_word_ariths)

lemma uint_sat_add [sat_simps]:
  "uint (sat_add a b :: 'a::len word) = min (2 ^ LENGTH('a) - 1) (uint a + uint b)"
  using uint_minus_1 [where 'a = 'a] by (simp add: sat_add_def uint_add_small min_def)

lemma uint_sat_sub [sat_simps]: "uint (sat_sub a b) = max 0 (uint a - uint b)"
proof (cases "b \<le> a")
  case True
  then have le: "uint b \<le> uint a" by (simp add: word_le_def)
  then have "uint (a - b) = uint a - uint b"
    using uint_bounded [of a] by (simp add: uint_word_ariths take_bit_int_eq_self_iff)
  with True le show ?thesis by (simp add: sat_sub_def)
next
  case False
  then show ?thesis by (simp add: sat_sub_def word_le_def)
qed

lemma uint_sat_mul [sat_simps]:
  "uint (sat_mul a b :: 'a::len word) = min (2 ^ LENGTH('a) - 1) (uint a * uint b)"
  using uint_minus_1 [where 'a = 'a] by (simp add: sat_mul_def uint_mul_small min_def)

lemma uint_div_word [sat_simps]: "uint (a div b :: 'a::len word) = uint a div uint b"
  by (fact uint_div)

lemma uint_min_word [sat_simps]: "uint (min a b :: 'a::len word) = min (uint a) (uint b)"
  by (simp add: min_def word_le_def)

lemma uint_max_word [sat_simps]: "uint (max a b :: 'a::len word) = max (uint a) (uint b)"
  by (simp add: max_def word_le_def)

lemma uint_ucast_u64 [sat_simps]: "uint (ucast (m :: u64) :: u256) = uint m"
  by (simp add: unsigned_ucast_eq take_bit_int_eq_self_iff less_le_trans [OF uint_bounded])

lemma uint_min_as_u64 [sat_simps]: "uint (min_as_u64 x m) = min (uint x) (uint m)"
proof (cases "x \<le> ucast m")
  case True
  then have le: "uint x \<le> uint m" by (simp add: word_le_def uint_ucast_u64)
  then have "uint x < 2 ^ 64" using uint_bounded [of m] by simp
  then have "uint (ucast x :: u64) = uint x"
    by (simp add: unsigned_ucast_eq take_bit_int_eq_self_iff)
  with True le show ?thesis by (simp add: min_as_u64_def)
next
  case False
  then show ?thesis by (simp add: min_as_u64_def word_le_def uint_ucast_u64)
qed

lemma word_eq_iff_uint [word_simps]: "(a = b) = (uint a = uint (b :: 'a::len word))"
  by (fact word_uint_eq_iff)

lemmas word_compare [word_simps] = word_less_def word_le_def

lemma clampw_bounds:
  "lo \<le> hi \<Longrightarrow> lo \<le> clampw lo hi x \<and> clampw lo hi x \<le> (hi :: 'a::len word)"
  by (auto simp: clampw_def)

lemma word_pos_iff: "(a \<noteq> 0) = (0 < uint (a :: 'a::len word))"
  by (metis less_le uint_0_eq uint_nonneg word_uint_eq_iff)

section \<open>Iterators and sorting\<close>

text \<open>
  \<open>Iterator::max_by\<close> folds from the left and keeps the later element when the comparison
  is not \<open>Greater\<close>; \<open>le x y\<close> stands for \<open>compare(x, y) != Greater\<close>.
\<close>

fun max_by_from :: "('a \<Rightarrow> 'a \<Rightarrow> bool) \<Rightarrow> 'a \<Rightarrow> 'a list \<Rightarrow> 'a" where
  "max_by_from le acc [] = acc"
| "max_by_from le acc (x # xs) = max_by_from le (if le acc x then x else acc) xs"

fun max_by :: "('a \<Rightarrow> 'a \<Rightarrow> bool) \<Rightarrow> 'a list \<Rightarrow> 'a option" where
  "max_by le [] = None"
| "max_by le (x # xs) = Some (max_by_from le x xs)"

text \<open>
  \<open>slice::sort_by\<close> is stable. Inserting each element before the first one that is not
  smaller, from the right end of the slice, gives the stable order.
\<close>

fun insert_by :: "('a \<Rightarrow> 'a \<Rightarrow> bool) \<Rightarrow> 'a \<Rightarrow> 'a list \<Rightarrow> 'a list" where
  "insert_by le x [] = [x]"
| "insert_by le x (y # ys) = (if le x y then x # y # ys else y # insert_by le x ys)"

fun sort_by :: "('a \<Rightarrow> 'a \<Rightarrow> bool) \<Rightarrow> 'a list \<Rightarrow> 'a list" where
  "sort_by le [] = []"
| "sort_by le (x # xs) = insert_by le x (sort_by le xs)"

lemma max_by_eq_None [simp]: "max_by le xs = None \<longleftrightarrow> xs = []"
  by (cases xs) auto

lemma mset_insert_by [simp]: "mset (insert_by le x xs) = add_mset x (mset xs)"
  by (induction xs) auto

lemma mset_sort_by [simp]: "mset (sort_by le xs) = mset xs"
  by (induction xs) auto

lemma set_sort_by [simp]: "set (sort_by le xs) = set xs"
  by (metis mset_sort_by set_mset_mset)

lemma length_sort_by [simp]: "length (sort_by le xs) = length xs"
  by (metis mset_sort_by size_mset)

text \<open>A total comparison, as \<open>max_by\<close> and \<open>sort_by\<close> require of their argument.\<close>

locale total_comparison =
  fixes le :: "'a \<Rightarrow> 'a \<Rightarrow> bool"
  assumes total: "le x y \<or> le y x"
    and trans: "le x y \<Longrightarrow> le y z \<Longrightarrow> le x z"
begin

lemma reflexive: "le x x"
  using total by blast

lemma max_by_from_in: "max_by_from le acc xs \<in> insert acc (set xs)"
  by (induction xs arbitrary: acc) (auto split: if_splits)

lemma max_by_from_upper: "y \<in> insert acc (set xs) \<Longrightarrow> le y (max_by_from le acc xs)"
proof (induction xs arbitrary: acc y)
  case Nil
  then show ?case by (simp add: reflexive)
next
  case (Cons x xs)
  let ?a = "if le acc x then x else acc"
  have a: "le acc ?a" "le x ?a" using total reflexive by auto
  have top: "le ?a (max_by_from le ?a xs)" by (rule Cons.IH) simp
  from Cons.prems consider "y = acc" | "y = x" | "y \<in> set xs" by auto
  then have "le y (max_by_from le ?a xs)"
  proof cases
    case 1
    then show ?thesis using a(1) top by (blast intro: trans)
  next
    case 2
    then show ?thesis using a(2) top by (blast intro: trans)
  next
    case 3
    then show ?thesis by (intro Cons.IH) simp
  qed
  then show ?case by simp
qed

lemma max_by_in: "max_by le xs = Some m \<Longrightarrow> m \<in> set xs"
  using max_by_from_in by (cases xs) auto

lemma max_by_upper: "max_by le xs = Some m \<Longrightarrow> y \<in> set xs \<Longrightarrow> le y m"
  using max_by_from_upper by (cases xs) auto

lemma sorted_insert_by: "sorted_wrt le xs \<Longrightarrow> sorted_wrt le (insert_by le x xs)"
proof (induction xs)
  case Nil
  then show ?case by simp
next
  case (Cons y ys)
  show ?case
  proof (cases "le x y")
    case True
    then show ?thesis using Cons.prems by (auto intro: trans)
  next
    case False
    then have "le y x" using total by blast
    moreover have "set (insert_by le x ys) = insert x (set ys)"
      by (metis mset_insert_by set_mset_add_mset_insert set_mset_mset)
    ultimately show ?thesis using False Cons by auto
  qed
qed

lemma sorted_sort_by: "sorted_wrt le (sort_by le xs)"
  by (induction xs) (auto intro: sorted_insert_by)

lemma sort_by_hd_lower: "sort_by le xs = y # ys \<Longrightarrow> z \<in> set xs \<Longrightarrow> le y z"
proof -
  assume s: "sort_by le xs = y # ys" and z: "z \<in> set xs"
  have "z \<in> set (y # ys)" using z s by (metis set_sort_by)
  moreover have "sorted_wrt le (y # ys)" using sorted_sort_by [of xs] s by simp
  ultimately show "le y z" using reflexive by auto
qed

end

section \<open>Time-windowed queues\<close>

text \<open>
  Three components keep a \<open>VecDeque\<close> of time-stamped entries and drop expired entries from
  its front before each use: \<open>AdaptivePolicy::recent_flows\<close>, \<open>CapitalBudget::reservations\<close>
  and \<open>RpcEndpointState::recent_burst_reservations\<close>. The loop
  \<open>while matches!(front, Some(x) if expired(x)) { pop_front }\<close> is \<^const>\<open>dropWhile\<close>.
  The interface: entries expire in the order of their stamps, and once expired stay so.
\<close>

locale windowed_queue =
  fixes stamp :: "'a \<Rightarrow> instant"
    and expired :: "instant \<Rightarrow> 'a \<Rightarrow> bool"
  assumes expired_older: "expired now b \<Longrightarrow> stamp a \<le> stamp b \<Longrightarrow> expired now a"
    and expired_later: "expired now a \<Longrightarrow> now \<le> later \<Longrightarrow> expired later a"
begin

lemma prune_eq_filter:
  "sorted (map stamp q) \<Longrightarrow> dropWhile (expired now) q = filter (\<lambda>a. \<not> expired now a) q"
proof (induction q)
  case Nil
  then show ?case by simp
next
  case (Cons x q)
  show ?case
  proof (cases "expired now x")
    case True
    then show ?thesis using Cons by simp
  next
    case False
    then have "\<not> expired now a" if "a \<in> set q" for a
      using Cons.prems that expired_older by fastforce
    then have "filter (\<lambda>a. \<not> expired now a) q = q" by (simp add: filter_id_conv)
    then show ?thesis using False by simp
  qed
qed

lemma prune_none_expired:
  "sorted (map stamp q) \<Longrightarrow> a \<in> set (dropWhile (expired now) q) \<Longrightarrow> \<not> expired now a"
  by (simp add: prune_eq_filter)

lemma prune_keeps_live:
  "sorted (map stamp q) \<Longrightarrow> a \<in> set q \<Longrightarrow> \<not> expired now a \<Longrightarrow> a \<in> set (dropWhile (expired now) q)"
  by (simp add: prune_eq_filter)

lemma prune_sorted: "sorted (map stamp q) \<Longrightarrow> sorted (map stamp (dropWhile (expired now) q))"
  by (simp add: prune_eq_filter sorted_filter)

lemma prune_push_sorted:
  assumes "sorted (map stamp q)" "\<forall>a\<in>set q. stamp a \<le> stamp x"
  shows "sorted (map stamp (dropWhile (expired now) q @ [x]))"
  using prune_sorted [OF assms(1), of now] assms(2)
  by (auto simp: sorted_append dest: set_dropWhileD)

lemma prune_prune:
  assumes "sorted (map stamp q)" "now \<le> later"
  shows "dropWhile (expired later) (dropWhile (expired now) q) = dropWhile (expired later) q"
  using assms expired_later
  by (simp add: prune_eq_filter prune_sorted sorted_filter) (rule filter_cong; auto)

end

end
