(* ===== verification/F64.thy ===== *)
theory F64
  imports Prelude
begin

text \<open>
  The \<open>f64\<close> of the program: IEEE-754 binary64 with round to nearest, ties to even, written
  over integers so that it evaluates in the kernel. \<open>Fin s m e\<close> is the number
  \<open>(-1)^s * m * 2^e\<close> (zeros carry their sign), infinities carry their sign, and all NaNs are
  one value (the source never looks at a NaN's payload). The arithmetic type classes are
  instantiated, so the model's expressions read as the source's do; \<open>x = y\<close> of HOL is never used
  for the source's \<open>==\<close>. The second half relates every operation to the correctly rounded exact
  result (\<open>rounds_to\<close>) and shows that rounding is monotone and leaves representable values alone;
  the bounds proved of the program's formulas rest on these two facts. \<open>exp\<close>, \<open>ln\<close>, \<open>ln_1p\<close>
  and \<open>powf\<close> come from the platform's mathematical library, with a precision the language leaves
  unspecified; they are the fields of the record \<open>libm\<close>, an argument of the code that uses them.
\<close>

section \<open>Representation and rounding\<close>

datatype f64 = NaN | Infty bool | Fin bool int int

text \<open>The integer nearest to \<open>n / d\<close>, ties to the even one.\<close>

definition rne :: "int \<Rightarrow> int \<Rightarrow> int" where
  "rne n d = (let q = n div d; r = n mod d in
     if 2 * r < d \<or> (2 * r = d \<and> even q) then q else q + 1)"

text \<open>The number of binary digits of a positive integer.\<close>

fun bitlen :: "int \<Rightarrow> int" where
  "bitlen n = (if n \<le> 0 then 0 else 1 + bitlen (n div 2))"

declare bitlen.simps [simp del]

text \<open>Whether \<open>2^e\<close> is at most \<open>n / d\<close>, and the integer part of \<open>log2 (n / d)\<close>.\<close>

definition scale_le :: "int \<Rightarrow> int \<Rightarrow> int \<Rightarrow> bool" where
  "scale_le n d e = (if 0 \<le> e then 2 ^ nat e * d \<le> n else d \<le> n * 2 ^ nat (- e))"

definition flog2 :: "int \<Rightarrow> int \<Rightarrow> int" where
  "flog2 n d = (let k = bitlen n - bitlen d in if scale_le n d k then k else k - 1)"

text \<open>
  The binary64 value nearest to \<open>(-1)^s * n / d\<close>: 53 significant bits, or the subnormal
  spacing \<open>2^-1074\<close> below the normal range, or an infinity above the largest finite value.
\<close>

definition fround :: "bool \<Rightarrow> int \<Rightarrow> int \<Rightarrow> f64" where
  "fround s n d = (if n = 0 then Fin s 0 0 else
     let q = max (flog2 n d - 52) (- 1074);
         m = (if 0 \<le> q then rne n (d * 2 ^ nat q) else rne (n * 2 ^ nat (- q)) d)
     in if m = 0 then Fin s 0 0
        else if m = 2 ^ 53 then (if 970 < q then Infty s else Fin s (2 ^ 52) (q + 1))
        else if 971 < q then Infty s else Fin s m q)"

definition fround_scaled :: "bool \<Rightarrow> int \<Rightarrow> int \<Rightarrow> int \<Rightarrow> f64" where
  "fround_scaled s n d e = (if 0 \<le> e then fround s (n * 2 ^ nat e) d else fround s n (d * 2 ^ nat (- e)))"

definition signed :: "bool \<Rightarrow> int \<Rightarrow> int" where
  "signed s m = (if s then - \<bar>m\<bar> else \<bar>m\<bar>)"

section \<open>Arithmetic and comparison\<close>

instantiation f64 :: "{zero, one, plus, minus, times, inverse, uminus, abs, ord}"
begin

definition zero_f64 :: f64 where "zero_f64 = Fin False 0 0"
definition one_f64 :: f64 where "one_f64 = Fin False (2 ^ 52) (- 52)"

fun uminus_f64 :: "f64 \<Rightarrow> f64" where
  "uminus_f64 NaN = NaN"
| "uminus_f64 (Infty s) = Infty (\<not> s)"
| "uminus_f64 (Fin s m e) = Fin (\<not> s) m e"

fun abs_f64 :: "f64 \<Rightarrow> f64" where
  "abs_f64 NaN = NaN"
| "abs_f64 (Infty s) = Infty False"
| "abs_f64 (Fin s m e) = Fin False m e"

fun plus_f64 :: "f64 \<Rightarrow> f64 \<Rightarrow> f64" where
  "plus_f64 NaN y = NaN"
| "plus_f64 x NaN = NaN"
| "plus_f64 (Infty s) (Infty t) = (if s = t then Infty s else NaN)"
| "plus_f64 (Infty s) (Fin t b f) = Infty s"
| "plus_f64 (Fin s a e) (Infty t) = Infty t"
| "plus_f64 (Fin s a e) (Fin t b f) =
     (let g = min e f;
          r = signed s a * 2 ^ nat (e - g) + signed t b * 2 ^ nat (f - g)
      in if r = 0 then Fin (s \<and> t) 0 0 else fround_scaled (r < 0) \<bar>r\<bar> 1 g)"

definition minus_f64 :: "f64 \<Rightarrow> f64 \<Rightarrow> f64" where
  "minus_f64 x y = x + - y"

fun times_f64 :: "f64 \<Rightarrow> f64 \<Rightarrow> f64" where
  "times_f64 NaN y = NaN"
| "times_f64 x NaN = NaN"
| "times_f64 (Infty s) (Infty t) = Infty (s \<noteq> t)"
| "times_f64 (Infty s) (Fin t b f) = (if b = 0 then NaN else Infty (s \<noteq> t))"
| "times_f64 (Fin s a e) (Infty t) = (if a = 0 then NaN else Infty (s \<noteq> t))"
| "times_f64 (Fin s a e) (Fin t b f) = fround_scaled (s \<noteq> t) \<bar>a * b\<bar> 1 (e + f)"

fun divide_f64 :: "f64 \<Rightarrow> f64 \<Rightarrow> f64" where
  "divide_f64 NaN y = NaN"
| "divide_f64 x NaN = NaN"
| "divide_f64 (Infty s) (Infty t) = NaN"
| "divide_f64 (Infty s) (Fin t b f) = Infty (s \<noteq> t)"
| "divide_f64 (Fin s a e) (Infty t) = Fin (s \<noteq> t) 0 0"
| "divide_f64 (Fin s a e) (Fin t b f) =
     (if b = 0 then (if a = 0 then NaN else Infty (s \<noteq> t))
      else fround_scaled (s \<noteq> t) \<bar>a\<bar> \<bar>b\<bar> (e - f))"

definition inverse_f64 :: "f64 \<Rightarrow> f64" where
  "inverse_f64 x = Fin False (2 ^ 52) (- 52) div x"

fun less_f64 :: "f64 \<Rightarrow> f64 \<Rightarrow> bool" where
  "less_f64 NaN y = False"
| "less_f64 x NaN = False"
| "less_f64 (Infty s) (Infty t) = (s \<and> \<not> t)"
| "less_f64 (Infty s) (Fin t b f) = s"
| "less_f64 (Fin s a e) (Infty t) = (\<not> t)"
| "less_f64 (Fin s a e) (Fin t b f) =
     (let g = min e f in signed s a * 2 ^ nat (e - g) < signed t b * 2 ^ nat (f - g))"

fun less_eq_f64 :: "f64 \<Rightarrow> f64 \<Rightarrow> bool" where
  "less_eq_f64 NaN y = False"
| "less_eq_f64 x NaN = False"
| "less_eq_f64 (Infty s) (Infty t) = (s \<or> \<not> t)"
| "less_eq_f64 (Infty s) (Fin t b f) = s"
| "less_eq_f64 (Fin s a e) (Infty t) = (\<not> t)"
| "less_eq_f64 (Fin s a e) (Fin t b f) =
     (let g = min e f in signed s a * 2 ^ nat (e - g) \<le> signed t b * 2 ^ nat (f - g))"

instance ..

end

section \<open>Literals, conversions and library methods\<close>

text \<open>
  \<open>dec m k\<close> is the literal with digits \<open>m\<close> and \<open>k\<close> places after the point: \<open>0.35\<close> is
  \<open>dec 35 2\<close>, \<open>1e18\<close> is \<open>dec (10 ^ 18) 0\<close>. Literals are correctly rounded.
\<close>

definition dec :: "int \<Rightarrow> int \<Rightarrow> f64" where
  "dec m k = fround False m (10 ^ nat k)"

text \<open>\<open>w as f64\<close> for an unsigned integer; also \<open>U256::to_string().parse::<f64>()\<close>, since the
  decimal parser is correctly rounded and never fails on digits.\<close>

definition of_uw :: "'a::len word \<Rightarrow> f64" where
  "of_uw w = fround False (uint w) 1"

text \<open>\<open>n as f64\<close> for a \<open>usize\<close> kept as an integer.\<close>

definition of_usize :: "int \<Rightarrow> f64" where
  "of_usize n = fround False n 1"

fun is_nan :: "f64 \<Rightarrow> bool" where
  "is_nan NaN = True"
| "is_nan x = False"

fun is_finite :: "f64 \<Rightarrow> bool" where
  "is_finite (Fin s m e) = True"
| "is_finite x = False"

text \<open>\<open>f64::max\<close> and \<open>f64::min\<close> ignore a NaN operand; \<open>f64::clamp\<close> keeps one.\<close>

definition fmax :: "f64 \<Rightarrow> f64 \<Rightarrow> f64" where
  "fmax x y = (if is_nan x then y else if is_nan y then x else if x < y then y else x)"

definition fmin :: "f64 \<Rightarrow> f64 \<Rightarrow> f64" where
  "fmin x y = (if is_nan x then y else if is_nan y then x else if y < x then y else x)"

definition fclamp :: "f64 \<Rightarrow> f64 \<Rightarrow> f64 \<Rightarrow> f64" where
  "fclamp lo hi x = (let y = (if x < lo then lo else x) in if hi < y then hi else y)"

text \<open>\<open>f64::EPSILON\<close>.\<close>

definition epsilon :: f64 where
  "epsilon = Fin False (2 ^ 52) (- 104)"

text \<open>\<open>f64::powi\<close> for a non-negative exponent, by repeated squaring.\<close>

fun powi_loop :: "f64 \<Rightarrow> f64 \<Rightarrow> int \<Rightarrow> f64" where
  "powi_loop r a b = (if b \<le> 0 then r
     else powi_loop (if odd b then r * a else r) (a * a) (b div 2))"

declare powi_loop.simps [simp del]

definition fpowi :: "f64 \<Rightarrow> int \<Rightarrow> f64" where
  "fpowi a b = powi_loop 1 a b"

text \<open>\<open>f64::floor\<close> and \<open>f64::round\<close> (ties away from zero).\<close>

fun ffloor :: "f64 \<Rightarrow> f64" where
  "ffloor (Fin s m e) = (if 0 \<le> e then Fin s m e
     else let k = signed s m div 2 ^ nat (- e) in
       if k = 0 then Fin s 0 0 else fround (k < 0) \<bar>k\<bar> 1)"
| "ffloor x = x"

fun fround_away :: "f64 \<Rightarrow> f64" where
  "fround_away (Fin s m e) = (if 0 \<le> e then Fin s m e
     else let k = (2 * \<bar>m\<bar> + 2 ^ nat (- e)) div (2 * 2 ^ nat (- e)) in
       if k = 0 then Fin s 0 0 else fround s k 1)"
| "fround_away x = x"

text \<open>\<open>x as uN\<close>: truncation towards zero, saturating, NaN to zero.\<close>

fun magnitude :: "int \<Rightarrow> int \<Rightarrow> int" where
  "magnitude m e = (if 0 \<le> e then \<bar>m\<bar> * 2 ^ nat e else \<bar>m\<bar> div 2 ^ nat (- e))"

fun f_as_word :: "f64 \<Rightarrow> 'a::len word" where
  "f_as_word NaN = 0"
| "f_as_word (Infty s) = (if s then 0 else - 1)"
| "f_as_word (Fin s m e) = (if s then 0
     else if 2 ^ LENGTH('a) \<le> magnitude m e then - 1 else word_of_int (magnitude m e))"

text \<open>
  \<open>U256::from_dec_str(&format!("{value:.0}"))\<close> on a finite value: the formatter rounds to the
  nearest integer, ties to even, and prints a minus sign for a negative zero, which the parser
  refuses; the parser also refuses an integer of more than 256 bits.
\<close>

fun fmt0_u256 :: "f64 \<Rightarrow> u256 option" where
  "fmt0_u256 (Fin s m e) = (if s then None
     else let k = (if 0 \<le> e then \<bar>m\<bar> * 2 ^ nat e else rne \<bar>m\<bar> (2 ^ nat (- e))) in
       if k < 2 ^ 256 then Some (word_of_int k) else None)"
| "fmt0_u256 x = None"

definition fin_total_le :: "bool \<Rightarrow> int \<Rightarrow> int \<Rightarrow> bool \<Rightarrow> int \<Rightarrow> int \<Rightarrow> bool" where
  "fin_total_le s a e t b f =
     (Fin s a e < Fin t b f \<or> (Fin s a e \<le> Fin t b f \<and> (s \<or> \<not> t)))"

text \<open>\<open>f64::total_cmp\<close>, as \<open>x.total_cmp(&y) != Greater\<close>.\<close>

fun total_le :: "f64 \<Rightarrow> f64 \<Rightarrow> bool" where
  "total_le x NaN = True"
| "total_le NaN y = False"
| "total_le (Infty s) (Infty t) = (s \<or> \<not> t)"
| "total_le (Infty s) (Fin t b f) = s"
| "total_le (Fin s a e) (Infty t) = (\<not> t)"
| "total_le (Fin s a e) (Fin t b f) = fin_total_le s a e t b f"

text \<open>The functions of the platform's mathematical library that the code calls.\<close>

record libm =
  m_exp :: "f64 \<Rightarrow> f64"
  m_ln :: "f64 \<Rightarrow> f64"
  m_ln_1p :: "f64 \<Rightarrow> f64"
  m_powf :: "f64 \<Rightarrow> f64 \<Rightarrow> f64"

text \<open>Faster evaluation: digits are counted in blocks, powers of two are squared.\<close>

lemma bitlen_block:
  assumes "2 ^ k \<le> n"
  shows "bitlen n = int k + bitlen (n div 2 ^ k)"
  using assms
proof (induction k arbitrary: n)
  case (Suc k)
  have p: "0 < n" using Suc.prems by (meson less_le_trans zero_less_power zero_less_numeral)
  have "2 ^ k = (2 * 2 ^ k) div (2 :: int)" by simp
  also have "\<dots> \<le> n div 2" using Suc.prems by (intro zdiv_mono1) simp_all
  finally have "2 ^ k \<le> n div 2" .
  then have "bitlen (n div 2) = int k + bitlen (n div 2 div 2 ^ k)" by (rule Suc.IH)
  moreover have "bitlen n = 1 + bitlen (n div 2)" using p by (subst bitlen.simps) simp
  ultimately show ?case by (simp add: zdiv_zmult2_eq)
qed simp

lemma bitlen_code [code]:
  "bitlen n = (if n \<le> 0 then 0 else if 18446744073709551616 \<le> n then 64 + bitlen (n div 18446744073709551616)
     else if 65536 \<le> n then 16 + bitlen (n div 65536) else if 16 \<le> n then 4 + bitlen (n div 16)
     else 1 + bitlen (n div 2))"
  using bitlen_block [of 64 n] bitlen_block [of 16 n] bitlen_block [of 4 n] bitlen.simps [of n] by simp

definition pow2 :: "int \<Rightarrow> int" where
  "pow2 e = 2 ^ nat e"

lemma pow2_code [code]:
  "pow2 e = (if e \<le> 0 then 1 else let h = pow2 (e div 2) in if even e then h * h else 2 * (h * h))"
proof (cases "e \<le> 0")
  case False
  then have n: "nat e = 2 * nat (e div 2) + (if even e then 0 else 1)" by (cases "even e") (auto elim!: oddE)
  have "(2 :: int) ^ nat e = 2 ^ nat (e div 2) * 2 ^ nat (e div 2) * (if even e then 1 else 2)"
    by (subst n) (simp add: power_add mult_2)
  with False show ?thesis by (simp add: pow2_def Let_def)
qed (simp add: pow2_def)

lemma pow2_unfold [code_unfold]: "2 ^ nat e = pow2 e"
  by (simp add: pow2_def)

text \<open>Products and sums are integers times a power of two: their rounding needs shifts only.\<close>

definition halve :: "int \<Rightarrow> int" where "halve n = n div 2"
definition is_odd :: "int \<Rightarrow> bool" where "is_odd n = odd n"

lemma halve_code [code]:
  "halve 0 = 0" "halve (Int.Pos Num.One) = 0" "halve (Int.Pos (Num.Bit0 m)) = Int.Pos m"
  "halve (Int.Pos (Num.Bit1 m)) = Int.Pos m" "halve (Int.Neg m) = Int.Neg m div 2"
  by (simp_all add: halve_def)

lemma is_odd_code [code]:
  "is_odd 0 = False" "is_odd (Int.Pos Num.One) = True" "is_odd (Int.Pos (Num.Bit0 m)) = False"
  "is_odd (Int.Pos (Num.Bit1 m)) = True" "is_odd (Int.Neg m) = is_odd (Int.Pos m)"
  by (simp_all add: is_odd_def)

text \<open>The number without its \<open>k\<close> lowest binary digits, and whether one of them was set.\<close>

fun shift_sticky :: "int \<Rightarrow> bool \<Rightarrow> int \<Rightarrow> int \<times> bool" where
  "shift_sticky n st k = (if k \<le> 0 then (n, st) else shift_sticky (halve n) (st \<or> is_odd n) (k - 1))"

declare shift_sticky.simps [simp del]

definition rne_shift :: "int \<Rightarrow> int \<Rightarrow> int" where
  "rne_shift n k = rne n (2 ^ nat k)"

lemma shift_sticky_value:
  "shift_sticky n st k = (n div 2 ^ nat k, st \<or> n mod 2 ^ nat k \<noteq> 0)"
proof (induction n st k rule: shift_sticky.induct)
  case (1 n st k)
  show ?case
  proof (cases "k \<le> 0")
    case True
    then show ?thesis by (simp add: shift_sticky.simps)
  next
    case False
    then have p: "(2 :: int) ^ nat k = 2 * 2 ^ nat (k - 1)" by (simp flip: power_Suc add: Suc_nat_eq_nat_zadd1)
    have "n mod (2 * 2 ^ nat (k - 1)) = 2 * (n div 2 mod 2 ^ nat (k - 1)) + n mod 2"
      by (simp add: zmod_zmult2_eq)
    moreover have "0 \<le> n div 2 mod 2 ^ nat (k - 1)" by simp
    moreover have "(2 * t + n mod 2 \<noteq> 0) = (odd n \<or> t \<noteq> 0)" if "0 \<le> t" for t :: int
      using that by presburger
    ultimately have "(n mod 2 ^ nat k \<noteq> 0) = (odd n \<or> n div 2 mod 2 ^ nat (k - 1) \<noteq> 0)"
      unfolding p by metis
    moreover have "n div 2 ^ nat k = n div 2 div 2 ^ nat (k - 1)" unfolding p by (rule zdiv_zmult2_eq) simp
    ultimately show ?thesis using False 1
      by (subst shift_sticky.simps) (auto simp: halve_def is_odd_def)
  qed
qed

lemma rne_shift_code [code]:
  "rne_shift n k = (if k \<le> 0 then n
     else let (m, st) = shift_sticky n False (k - 1); h = halve m
          in if is_odd m \<and> (st \<or> is_odd h) then h + 1 else h)"
proof (cases "k \<le> 0")
  case True
  then show ?thesis by (simp add: rne_shift_def rne_def)
next
  case False
  let ?d = "(2 :: int) ^ nat (k - 1)"
  have p: "(2 :: int) ^ nat k = 2 * ?d" using False by (simp flip: power_Suc add: Suc_nat_eq_nat_zadd1)
  let ?m = "n div ?d" and ?s = "n mod ?d"
  have n: "n = ?d * ?m + ?s" by simp
  have s: "0 \<le> ?s" "?s < ?d" by simp_all
  have q: "n div (2 * ?d) = ?m div 2" using zdiv_zmult2_eq [of 2 n ?d] by (simp add: mult.commute)
  have "n mod (2 * ?d) = ?d * (?m mod 2) + ?s" using zmod_zmult2_eq [of 2 n ?d] by (simp add: mult.commute)
  then have r: "n mod (2 * ?d) = (if odd ?m then ?d + ?s else ?s)"
    by (cases "even ?m") (auto simp: odd_iff_mod_2_eq_one)
  show ?thesis
    using False s
    by (auto simp: rne_shift_def rne_def Let_def p q r shift_sticky_value halve_def is_odd_def not_less
        leD [OF s(1)])
qed

definition fround_int :: "bool \<Rightarrow> int \<Rightarrow> int \<Rightarrow> f64" where
  "fround_int s n e = (if n = 0 then Fin s 0 0 else
     let q = max (bitlen n + e - 53) (- 1074);
         m = (if q \<le> e then n * 2 ^ nat (e - q) else rne_shift n (q - e))
     in if m = 0 then Fin s 0 0
        else if m = 2 ^ 53 then (if 970 < q then Infty s else Fin s (2 ^ 52) (q + 1))
        else if 971 < q then Infty s else Fin s m q)"

section \<open>Rounding of the reals\<close>

definition rne_real :: "real \<Rightarrow> int" where
  "rne_real x = (let r = x - of_int \<lfloor>x\<rfloor> in
     if 2 * r < 1 \<or> (2 * r = 1 \<and> even \<lfloor>x\<rfloor>) then \<lfloor>x\<rfloor> else \<lfloor>x\<rfloor> + 1)"

lemma rne_eq_rne_real:
  assumes "0 < d"
  shows "rne n d = rne_real (of_int n / of_int d)"
proof -
  have fl: "\<lfloor>of_int n / of_int d :: real\<rfloor> = n div d"
    by (simp add: floor_divide_of_int_eq)
  have nd: "real_of_int n = of_int d * of_int (n div d) + of_int (n mod d)"
    by (metis of_int_add of_int_mult mult_div_mod_eq)
  have fr: "of_int n / of_int d - real_of_int (n div d) = of_int (n mod d) / of_int d"
    using assms by (simp add: nd field_simps)
  have c1: "(2 * (real_of_int (n mod d) / of_int d) < 1) = (2 * (n mod d) < d)"
  proof -
    have "(2 * (real_of_int (n mod d) / of_int d) < 1) = (real_of_int (2 * (n mod d)) < of_int d)"
      using assms by (simp add: field_simps)
    then show ?thesis by (simp only: of_int_less_iff)
  qed
  have c2: "(2 * (real_of_int (n mod d) / of_int d) = 1) = (2 * (n mod d) = d)"
  proof -
    have "(2 * (real_of_int (n mod d) / of_int d) = 1) = (real_of_int (2 * (n mod d)) = of_int d)"
      using assms by (auto simp: field_simps)
    then show ?thesis by (simp only: of_int_eq_iff)
  qed
  show ?thesis
    unfolding rne_def rne_real_def Let_def fl fr c1 c2 ..
qed

lemma rne_real_bounds: "\<bar>of_int (rne_real x) - x\<bar> \<le> 1 / 2"
  unfolding rne_real_def Let_def by (simp split: if_splits)

lemma rne_real_of_int [simp]: "rne_real (of_int k) = k"
  by (simp add: rne_real_def)

lemma rne_real_cases:
  obtains (down) "rne_real x = \<lfloor>x\<rfloor>" "2 * (x - of_int \<lfloor>x\<rfloor>) < 1 \<or> (2 * (x - of_int \<lfloor>x\<rfloor>) = 1 \<and> even \<lfloor>x\<rfloor>)"
  | (up) "rne_real x = \<lfloor>x\<rfloor> + 1" "2 * (x - of_int \<lfloor>x\<rfloor>) > 1 \<or> (2 * (x - of_int \<lfloor>x\<rfloor>) = 1 \<and> odd \<lfloor>x\<rfloor>)"
  unfolding rne_real_def Let_def by (metis linorder_neqE_linordered_idom)

lemma rne_real_mono:
  assumes "x \<le> y"
  shows "rne_real x \<le> rne_real y"
proof (rule ccontr)
  assume "\<not> ?thesis"
  then have lt: "rne_real y < rne_real x" by simp
  have fl: "\<lfloor>x\<rfloor> \<le> \<lfloor>y\<rfloor>" using assms by (rule floor_mono)
  show False
    by (cases x rule: rne_real_cases; cases y rule: rne_real_cases)
       (use lt fl assms in \<open>auto\<close>)
qed

lemma rne_real_le_int: "x \<le> of_int k \<Longrightarrow> rne_real x \<le> k"
  using rne_real_mono [of x "of_int k"] by simp

lemma rne_real_ge_int: "of_int k \<le> x \<Longrightarrow> k \<le> rne_real x"
  using rne_real_mono [of "of_int k" x] by simp

lemma bitlen_bounds:
  "0 < n \<Longrightarrow> 0 < bitlen n \<and> 2 powi (bitlen n - 1) \<le> real_of_int n \<and> real_of_int n < 2 powi bitlen n"
proof (induction n rule: bitlen.induct)
  case (1 n)
  show ?case
  proof (cases "n = 1")
    case True
    then show ?thesis by (simp add: bitlen.simps)
  next
    case False
    with "1.prems" have n2: "0 < n div 2" by linarith
    with "1.IH" "1.prems" have ih: "0 < bitlen (n div 2)"
      "2 powi (bitlen (n div 2) - 1) \<le> real_of_int (n div 2)" "real_of_int (n div 2) < 2 powi bitlen (n div 2)"
      by auto
    have eq: "bitlen n = 1 + bitlen (n div 2)"
      using "1.prems" by (simp add: bitlen.simps [of n])
    have p1: "(2::real) powi (1 + bitlen (n div 2)) = 2 * 2 powi bitlen (n div 2)"
      by (simp add: power_int_add)
    have p0: "(2::real) powi bitlen (n div 2) = 2 * 2 powi (bitlen (n div 2) - 1)"
      by (simp add: power_int_diff)
    have isint: "\<exists>j::int. (2::real) powi bitlen (n div 2) = of_int j"
    proof
      show "(2::real) powi bitlen (n div 2) = of_int (2 ^ nat (bitlen (n div 2)))"
        using ih(1) by (simp add: power_int_def)
    qed
    then obtain j :: int where j: "(2::real) powi bitlen (n div 2) = of_int j" by blast
    have "n div 2 < j" using ih(3) j by simp
    then have "n < 2 * j" by linarith
    then have up: "real_of_int n < 2 * 2 powi bitlen (n div 2)"
      using j by (metis of_int_less_iff of_int_mult of_int_numeral)
    have "2 * real_of_int (n div 2) \<le> of_int n" by linarith
    with ih(2) p0 have "2 powi bitlen (n div 2) \<le> real_of_int n" by linarith
    with up p1 eq ih(1) show ?thesis by simp
  qed
qed

lemma scale_le_iff:
  assumes "0 < d"
  shows "scale_le n d e = (2 powi e \<le> (of_int n / of_int d :: real))"
proof (cases "0 \<le> e")
  case True
  have "(2 ^ nat e * d \<le> n) = (real_of_int (2 ^ nat e * d) \<le> of_int n)"
    by (simp only: of_int_le_iff)
  with True assms show ?thesis
    by (simp add: scale_le_def power_int_def pos_le_divide_eq)
next
  case False
  have "(d \<le> n * 2 ^ nat (- e)) = (real_of_int d \<le> of_int (n * 2 ^ nat (- e)))"
    by (simp only: of_int_le_iff)
  with False assms show ?thesis
    by (simp add: scale_le_def power_int_def field_simps)
qed

lemma flog2_eq:
  assumes "0 < n" "0 < d"
  shows "flog2 n d = \<lfloor>log 2 (of_int n / of_int d)\<rfloor>"
proof -
  let ?x = "of_int n / of_int d :: real"
  let ?k = "bitlen n - bitlen d"
  have x0: "0 < ?x" using assms by simp
  note bn = bitlen_bounds [OF assms(1)] and bd = bitlen_bounds [OF assms(2)]
  have d0: "0 < real_of_int d" using assms by simp
  have hi: "?x < 2 powi (?k + 1)"
  proof -
    have "?x < 2 powi bitlen n / of_int d"
      using bn d0 by (simp add: divide_strict_right_mono)
    also have "\<dots> \<le> 2 powi bitlen n / 2 powi (bitlen d - 1)"
      using bd d0 by (intro divide_left_mono) auto
    also have "\<dots> = 2 powi (?k + 1)"
      by (simp add: power_int_diff [symmetric] algebra_simps)
    finally show ?thesis .
  qed
  have lo: "2 powi (?k - 1) \<le> ?x"
  proof -
    have "2 powi (?k - 1) = 2 powi (bitlen n - 1) / (2::real) powi bitlen d"
      by (simp add: power_int_diff [symmetric] algebra_simps)
    also have "\<dots> \<le> 2 powi (bitlen n - 1) / of_int d"
      using bd d0 by (intro divide_left_mono) auto
    also have "\<dots> \<le> ?x"
      using bn d0 by (intro divide_right_mono) auto
    finally show ?thesis .
  qed
  have L: "\<lfloor>log 2 ?x\<rfloor> = j" if "2 powi j \<le> ?x" "?x < 2 powi (j + 1)" for j
  proof -
    have "2 powr of_int j \<le> ?x" "?x < 2 powr of_int (j + 1)"
      using that by (simp_all add: powr_real_of_int' del: of_int_add)
    then show ?thesis using x0 by (simp add: floor_eq_iff le_log_iff log_less_iff)
  qed
  show ?thesis
    unfolding flog2_def Let_def scale_le_iff [OF assms(2)]
    using L [of ?k] L [of "?k - 1"] hi lo by auto
qed

text \<open>The exponent of the last place of a positive real, and the rounding of a real.\<close>

definition ulpe :: "real \<Rightarrow> int" where
  "ulpe x = max (\<lfloor>log 2 x\<rfloor> - 52) (- 1074)"

definition rnd :: "real \<Rightarrow> real" where
  "rnd x = (if x = 0 then 0 else sgn x * of_int (rne_real (\<bar>x\<bar> / 2 powi ulpe \<bar>x\<bar>)) * 2 powi ulpe \<bar>x\<bar>)"

lemma rnd_0 [simp]: "rnd 0 = 0" by (simp add: rnd_def)

lemma rnd_minus [simp]: "rnd (- x) = - rnd x"
  by (simp add: rnd_def sgn_minus)

lemma rnd_pos: "0 < x \<Longrightarrow> rnd x = of_int (rne_real (x / 2 powi ulpe x)) * 2 powi ulpe x"
  by (simp add: rnd_def)

lemma floor_log2_powi:
  assumes "0 < x"
  shows "2 powi \<lfloor>log 2 x\<rfloor> \<le> x" "x < 2 powi (\<lfloor>log 2 x\<rfloor> + 1)"
proof -
  have "2 powr of_int \<lfloor>log 2 x\<rfloor> \<le> 2 powr log 2 x" by simp
  then show "2 powi \<lfloor>log 2 x\<rfloor> \<le> x" using assms by (simp add: powr_real_of_int')
  have "2 powr log 2 x < 2 powr (of_int (\<lfloor>log 2 x\<rfloor> + 1))" by simp
  then show "x < 2 powi (\<lfloor>log 2 x\<rfloor> + 1)" using assms by (simp add: powr_real_of_int' del: of_int_add)
qed

lemma powi_div_int:
  assumes "q \<le> (e::int)"
  shows "\<exists>k::int. (2::real) powi e / 2 powi q = of_int k"
proof
  show "(2::real) powi e / 2 powi q = of_int (2 ^ nat (e - q))"
  proof -
    have "(2::real) powi e / 2 powi q = 2 powi (e - q)"
      by (simp add: power_int_diff)
    also have "\<dots> = 2 ^ nat (e - q)" using assms by (simp add: power_int_def)
    finally show ?thesis by simp
  qed
qed

lemma rnd_mono_pos:
  assumes "0 < x" "x \<le> y"
  shows "rnd x \<le> rnd y"
proof -
  from assms have y: "0 < y" by simp
  have lg: "\<lfloor>log 2 x\<rfloor> \<le> \<lfloor>log 2 y\<rfloor>"
    using assms by (intro floor_mono) simp
  then have ule: "ulpe x \<le> ulpe y" by (simp add: ulpe_def)
  show ?thesis
  proof (cases "ulpe x = ulpe y")
    case True
    have "x / 2 powi ulpe y \<le> y / 2 powi ulpe y"
      using assms by (intro divide_right_mono) auto
    then have "rne_real (x / 2 powi ulpe y) \<le> rne_real (y / 2 powi ulpe y)"
      by (rule rne_real_mono)
    then show ?thesis
      using True assms y by (simp add: rnd_pos mult_right_mono)
  next
    case False
    let ?b = "\<lfloor>log 2 y\<rfloor>"
    from False ule have lt: "ulpe x < ulpe y" by simp
    then have uy: "ulpe y = ?b - 52" and lxy: "\<lfloor>log 2 x\<rfloor> + 1 \<le> ?b"
      by (auto simp: ulpe_def)
    have "x < 2 powi (\<lfloor>log 2 x\<rfloor> + 1)" using floor_log2_powi assms by blast
    also have "\<dots> \<le> 2 powi ?b" using lxy by (intro power_int_increasing) auto
    finally have xb: "x \<le> 2 powi ?b" by simp
    obtain k :: int where k: "(2::real) powi ?b / 2 powi ulpe x = of_int k"
      using powi_div_int [of "ulpe x" ?b] lt uy by auto
    have "x / 2 powi ulpe x \<le> of_int k"
      using xb by (simp flip: k add: divide_right_mono)
    then have "rne_real (x / 2 powi ulpe x) \<le> k" by (rule rne_real_le_int)
    then have "rnd x \<le> of_int k * 2 powi ulpe x"
      using assms by (simp add: rnd_pos mult_right_mono)
    also have "\<dots> = 2 powi ?b" by (simp flip: k)
    also have "\<dots> \<le> rnd y"
    proof -
      obtain j :: int where j: "(2::real) powi ?b / 2 powi ulpe y = of_int j"
        using powi_div_int [of "ulpe y" ?b] uy by auto
      have "of_int j \<le> y / 2 powi ulpe y"
        using floor_log2_powi(1) [OF y] by (simp flip: j add: divide_right_mono)
      then have "j \<le> rne_real (y / 2 powi ulpe y)" by (rule rne_real_ge_int)
      then have "of_int j * 2 powi ulpe y \<le> rnd y"
        using y by (simp add: rnd_pos mult_right_mono)
      then show ?thesis by (simp flip: j)
    qed
    finally show ?thesis .
  qed
qed

lemma rnd_nonneg: "0 \<le> x \<Longrightarrow> 0 \<le> rnd x"
proof (cases "x = 0")
  case False
  assume "0 \<le> x"
  with False have "0 < x" by simp
  moreover have "0 \<le> rne_real (x / 2 powi ulpe x)"
    using \<open>0 < x\<close> by (intro rne_real_ge_int) simp
  ultimately show ?thesis by (simp add: rnd_pos)
qed simp

lemma rnd_mono:
  assumes "x \<le> y"
  shows "rnd x \<le> rnd y"
proof -
  consider "0 < x" | "x \<le> 0" "0 \<le> y" | "y < 0" using assms by linarith
  then show ?thesis
  proof cases
    case 1
    then show ?thesis using assms by (rule rnd_mono_pos)
  next
    case 2
    then have "0 \<le> rnd (- x)" "0 \<le> rnd y" by (intro rnd_nonneg; simp)+
    then show ?thesis by simp
  next
    case 3
    then have "rnd (- y) \<le> rnd (- x)" using assms by (intro rnd_mono_pos) auto
    then show ?thesis by simp
  qed
qed

text \<open>The reals that a binary64 value of unbounded exponent range represents exactly.\<close>

definition repr :: "real \<Rightarrow> bool" where
  "repr x \<longleftrightarrow> (\<exists>m e::int. \<bar>m\<bar> \<le> 2 ^ 53 \<and> - 1074 \<le> e \<and> x = of_int m * 2 powi e)"

lemma rnd_repr_pos:
  assumes m: "0 < m" "m \<le> 2 ^ 53" and e: "- 1074 \<le> e" and x: "x = of_int m * 2 powi e"
  shows "rnd x = x"
proof -
  have x0: "0 < x" using m x by simp
  obtain k :: int where k: "x / 2 powi ulpe x = of_int k"
  proof (cases "m = 2 ^ 53")
    case True
    have xe: "x = 2 powi (53 + e)" using True x by (simp add: power_int_add)
    have "log 2 x = of_int (53 + e)"
      unfolding xe by (simp add: powr_real_of_int' [symmetric] del: of_int_add)
    then have lf: "\<lfloor>log 2 x\<rfloor> = 53 + e" by linarith
    then have "ulpe x \<le> 53 + e" using e by (simp add: ulpe_def)
    then show ?thesis using powi_div_int [of "ulpe x" "53 + e"] xe that by auto
  next
    case False
    with m have m53: "real_of_int m < 2 ^ 53" 
      by (metis of_int_less_iff of_int_numeral of_int_power order_less_le)
    have "2 powi \<lfloor>log 2 x\<rfloor> \<le> x" using x0 by (rule floor_log2_powi)
    also have "x < 2 powi (53 + e)"
      using m53 x by (simp add: power_int_add mult_strict_right_mono)
    finally have "\<lfloor>log 2 x\<rfloor> < 53 + e"
      using power_int_increasing [of "53 + e" "\<lfloor>log 2 x\<rfloor>" "2::real"] by (cases "\<lfloor>log 2 x\<rfloor> < 53 + e") auto
    then have "ulpe x \<le> e" using e by (simp add: ulpe_def)
    then obtain j :: int where j: "(2::real) powi e / 2 powi ulpe x = of_int j"
      using powi_div_int [of "ulpe x" e] by auto
    have "x / 2 powi ulpe x = of_int m * (2 powi e / 2 powi ulpe x)"
      by (subst (1) x) simp
    then have "x / 2 powi ulpe x = of_int (m * j)" by (simp add: j)
    then show ?thesis by (rule that)
  qed
  have "rnd x = of_int k * 2 powi ulpe x" using x0 by (simp add: rnd_pos k)
  also have "\<dots> = x" by (simp flip: k)
  finally show ?thesis .
qed

lemma rnd_repr: "repr x \<Longrightarrow> rnd x = x"
proof -
  assume "repr x"
  then obtain m e :: int where r: "\<bar>m\<bar> \<le> 2 ^ 53" "- 1074 \<le> e" "x = of_int m * 2 powi e"
    unfolding repr_def by blast
  consider "m = 0" | "0 < m" | "m < 0" by linarith
  then show ?thesis
  proof cases
    case 1 then show ?thesis using r by simp
  next
    case 2 then show ?thesis using r rnd_repr_pos [of m e x] by simp
  next
    case 3
    then have "rnd (- x) = - x" using r by (intro rnd_repr_pos [of "- m" e]) auto
    then show ?thesis by simp
  qed
qed

section \<open>Values of the operations\<close>

fun fval :: "f64 \<Rightarrow> real" where
  "fval NaN = 0"
| "fval (Infty s) = 0"
| "fval (Fin s m e) = of_int (signed s m) * 2 powi e"

definition fbig :: real where "fbig = 2 powi 1024"

lemma fbig_pos [simp]: "0 < fbig"
  unfolding fbig_def by (rule zero_less_power_int) simp

lemma fround_core:
  assumes "0 < n" "0 < d"
  defines "x \<equiv> of_int n / of_int d"
  shows "fround s n d = (let m = rne_real (x / 2 powi ulpe x) in
     if m = 0 then Fin s 0 0
     else if m = 2 ^ 53 then (if 970 < ulpe x then Infty s else Fin s (2 ^ 52) (ulpe x + 1))
     else if 971 < ulpe x then Infty s else Fin s m (ulpe x))"
proof -
  have q: "max (flog2 n d - 52) (- 1074) = ulpe x"
    using assms by (simp add: flog2_eq ulpe_def)
  have m: "(if 0 \<le> ulpe x then rne n (d * 2 ^ nat (ulpe x)) else rne (n * 2 ^ nat (- ulpe x)) d)
      = rne_real (x / 2 powi ulpe x)"
    using assms by (simp add: rne_eq_rne_real x_def power_int_def field_simps)
  show ?thesis
    unfolding fround_def q m Let_def using assms by simp
qed

lemma rne_ulpe_bounds:
  assumes "0 < x"
  defines "m \<equiv> rne_real (x / 2 powi ulpe x)"
  shows "0 \<le> m" "m \<le> 2 ^ 53" "- 1074 < ulpe x \<Longrightarrow> 2 ^ 52 \<le> m"
proof -
  show "0 \<le> m" unfolding m_def using assms by (intro rne_real_ge_int) simp
  have "x / 2 powi ulpe x \<le> 2 powi (\<lfloor>log 2 x\<rfloor> + 1) / 2 powi ulpe x"
    using floor_log2_powi(2) [OF assms(1)] by (intro divide_right_mono) auto
  also have "\<dots> = 2 powi (\<lfloor>log 2 x\<rfloor> + 1 - ulpe x)" by (simp add: power_int_diff)
  also have "\<dots> \<le> 2 powi 53" by (intro power_int_increasing) (auto simp: ulpe_def)
  finally have "x / 2 powi ulpe x \<le> of_int (2 ^ 53)" by simp
  then show "m \<le> 2 ^ 53" unfolding m_def by (rule rne_real_le_int)
  assume "- 1074 < ulpe x"
  then have "\<lfloor>log 2 x\<rfloor> = ulpe x + 52" by (simp add: ulpe_def)
  then have "2 powi (ulpe x + 52) / 2 powi ulpe x \<le> x / 2 powi ulpe x"
    using floor_log2_powi(1) [OF assms(1)] by (intro divide_right_mono) auto
  then have "of_int (2 ^ 52) \<le> x / 2 powi ulpe x" by (simp add: power_int_add)
  then show "2 ^ 52 \<le> m" unfolding m_def by (rule rne_real_ge_int)
qed

lemma powi_prod_less_fbig: "0 \<le> m \<Longrightarrow> m < 2 ^ 53 \<Longrightarrow> q \<le> 971 \<Longrightarrow> of_int m * 2 powi q < fbig"
proof -
  assume a: "0 \<le> m" "m < 2 ^ 53" "q \<le> (971::int)"
  have m: "real_of_int m < 2 powi 53"
    using a by (metis of_int_less_iff of_int_numeral of_int_power power_int_numeral)
  have "of_int m * 2 powi q \<le> of_int m * (2::real) powi 971"
    using a by (intro mult_left_mono power_int_increasing) auto
  also have "\<dots> < 2 powi 53 * 2 powi 971" using m by (intro mult_strict_right_mono) auto
  also have "\<dots> = fbig" unfolding fbig_def by (subst power_int_add [symmetric]) auto
  finally show ?thesis .
qed

lemma powi_ge_fbig: "1024 \<le> q \<Longrightarrow> fbig \<le> 2 powi q"
  unfolding fbig_def by (intro power_int_increasing) auto

lemma fround_spec:
  assumes "0 \<le> n" "0 < d"
  defines "r \<equiv> rnd (of_int n / of_int d)"
  shows "(r < fbig \<and> is_finite (fround s n d) \<and> fval (fround s n d) = (if s then - r else r))
       \<or> (fbig \<le> r \<and> fround s n d = Infty s)"
proof (cases "n = 0")
  case True
  then show ?thesis by (simp add: fround_def r_def signed_def)
next
  case False
  define x where "x = (of_int n / of_int d :: real)"
  define m where "m = rne_real (x / 2 powi ulpe x)"
  have x0: "0 < x" using False assms by (simp add: x_def)
  have fr: "fround s n d = (if m = 0 then Fin s 0 0
     else if m = 2 ^ 53 then (if 970 < ulpe x then Infty s else Fin s (2 ^ 52) (ulpe x + 1))
     else if 971 < ulpe x then Infty s else Fin s m (ulpe x))"
    using fround_core [of n d s] False assms by (simp add: x_def m_def Let_def)
  have r: "r = of_int m * 2 powi ulpe x"
    using x0 by (simp add: r_def m_def rnd_pos flip: x_def)
  note b = rne_ulpe_bounds [OF x0, folded m_def]
  consider (z) "m = 0" | (top) "m = 2 ^ 53" | (mid) "m \<noteq> 0" "m < 2 ^ 53" using b(2) by linarith
  then show ?thesis
  proof cases
    case z
    then show ?thesis using r by (simp add: fr signed_def)
  next
    case top
    then have r': "r = 2 powi (ulpe x + 53)" using r by (simp add: power_int_add)
    show ?thesis
    proof (cases "970 < ulpe x")
      case True
      then have "fbig \<le> r" unfolding r' by (intro powi_ge_fbig) simp
      with True top show ?thesis by (simp add: fr)
    next
      case False
      have "r = of_int (2 ^ 52) * 2 powi (ulpe x + 1)" using r' by (simp add: power_int_add)
      with False powi_prod_less_fbig [of "2 ^ 52" "ulpe x + 1"] top show ?thesis
        by (simp add: fr signed_def)
    qed
  next
    case mid
    show ?thesis
    proof (cases "971 < ulpe x")
      case True
      with b(3) have "2 ^ 52 \<le> m" by simp
      then have "(2::real) powi 52 \<le> of_int m"
        by (metis of_int_le_iff of_int_numeral of_int_power power_int_numeral)
      then have "2 powi 52 * 2 powi ulpe x \<le> r"
        unfolding r by (rule mult_right_mono) simp
      moreover have "fbig \<le> 2 powi 52 * 2 powi ulpe x"
        using powi_ge_fbig [of "52 + ulpe x"] True by (simp add: power_int_add)
      ultimately show ?thesis using True mid by (simp add: fr)
    next
      case False
      with powi_prod_less_fbig [of m "ulpe x"] mid b(1) show ?thesis
        by (simp add: fr r signed_def)
    qed
  qed
qed


definition rounds_to :: "f64 \<Rightarrow> real \<Rightarrow> bool" where
  "rounds_to x r \<longleftrightarrow>
     (\<bar>rnd r\<bar> < fbig \<and> is_finite x \<and> fval x = rnd r)
   \<or> (fbig \<le> rnd r \<and> x = Infty False) \<or> (rnd r \<le> - fbig \<and> x = Infty True)"

lemma fround_rounds_to:
  assumes "0 \<le> n" "0 < d"
  shows "rounds_to (fround s n d) ((if s then - 1 else 1) * (of_int n / of_int d))"
proof -
  have "0 \<le> rnd (of_int n / of_int d)" using assms by (intro rnd_nonneg) simp
  with fround_spec [OF assms, of s] show ?thesis
    unfolding rounds_to_def by (cases s) auto
qed

lemma fround_scaled_rounds_to:
  assumes "0 \<le> n" "0 < d"
  shows "rounds_to (fround_scaled s n d e) ((if s then - 1 else 1) * (of_int n / of_int d * 2 powi e))"
proof (cases "0 \<le> e")
  case True
  have v: "of_int n / of_int d * 2 powi e = (of_int (n * 2 ^ nat e) / of_int d :: real)"
    using True by (simp add: power_int_def)
  have f: "fround_scaled s n d e = fround s (n * 2 ^ nat e) d"
    using True by (simp add: fround_scaled_def)
  show ?thesis unfolding v f using assms by (intro fround_rounds_to) auto
next
  case False
  have v: "of_int n / of_int d * 2 powi e = (of_int n / of_int (d * 2 ^ nat (- e)) :: real)"
    using False by (simp add: power_int_def field_simps)
  have f: "fround_scaled s n d e = fround s n (d * 2 ^ nat (- e))"
    using False by (simp add: fround_scaled_def)
  show ?thesis unfolding v f using assms by (intro fround_rounds_to) auto
qed

lemma signed_scale:
  assumes "g \<le> e"
  shows "real_of_int (signed s a * 2 ^ nat (e - g)) * 2 powi g = fval (Fin s a e)"
proof -
  have "(2::real) ^ nat (e - g) = 2 powi (e - g)" using assms by (simp add: power_int_def)
  then show ?thesis by (simp add: power_int_diff)
qed

lemma scaled_compare:
  defines "k g s a e \<equiv> signed s a * 2 ^ nat (e - g)"
  shows "(k (min e f) s a e < k (min e f) t b f) = (fval (Fin s a e) < fval (Fin t b f))"
    and "(k (min e f) s a e \<le> k (min e f) t b f) = (fval (Fin s a e) \<le> fval (Fin t b f))"
proof -
  have v: "fval (Fin s a e) = of_int (k (min e f) s a e) * 2 powi min e f"
    "fval (Fin t b f) = of_int (k (min e f) t b f) * 2 powi min e f"
    unfolding k_def by (rule signed_scale [symmetric]; simp)+
  show "(k (min e f) s a e < k (min e f) t b f) = (fval (Fin s a e) < fval (Fin t b f))"
    "(k (min e f) s a e \<le> k (min e f) t b f) = (fval (Fin s a e) \<le> fval (Fin t b f))"
    unfolding v by auto
qed

lemma less_f64_iff: "is_finite x \<Longrightarrow> is_finite y \<Longrightarrow> (x < y) = (fval x < fval y)"
  by (cases x; cases y) (simp_all add: Let_def scaled_compare del: fval.simps)

lemma less_eq_f64_iff: "is_finite x \<Longrightarrow> is_finite y \<Longrightarrow> (x \<le> y) = (fval x \<le> fval y)"
  by (cases x; cases y) (simp_all add: Let_def scaled_compare del: fval.simps)

lemma plus_f64_rounds_to:
  assumes "is_finite x" "is_finite y"
  shows "rounds_to (x + y) (fval x + fval y)"
proof -
  obtain s a e t b f where xy: "x = Fin s a e" "y = Fin t b f"
    using assms by (cases x; cases y) auto
  define g where "g = min e f"
  define r where "r = signed s a * 2 ^ nat (e - g) + signed t b * 2 ^ nat (f - g)"
  have val: "fval x + fval y = of_int r * 2 powi g"
    unfolding r_def of_int_add distrib_right xy
    by (simp only: signed_scale g_def min.cobounded1 min.cobounded2)
  have eq: "x + y = (if r = 0 then Fin (s \<and> t) 0 0 else fround_scaled (r < 0) \<bar>r\<bar> 1 g)"
    by (simp add: xy r_def g_def Let_def)
  show ?thesis
  proof (cases "r = 0")
    case True
    then show ?thesis by (simp add: eq val rounds_to_def signed_def)
  next
    case False
    have "(if r < 0 then - 1 else 1) * (of_int \<bar>r\<bar> / of_int 1 * 2 powi g) = fval x + fval y"
      by (simp add: val)
    then show ?thesis
      using False fround_scaled_rounds_to [of "\<bar>r\<bar>" 1 "r < 0" g] by (simp add: eq)
  qed
qed

lemma is_finite_uminus [simp]: "is_finite (- x) = is_finite (x::f64)"
  by (cases x) auto

lemma fval_uminus [simp]: "fval (- x) = - fval x"
  by (cases x) (auto simp: signed_def)

lemma minus_f64_rounds_to:
  "is_finite x \<Longrightarrow> is_finite y \<Longrightarrow> rounds_to (x - y) (fval x - fval y)"
  using plus_f64_rounds_to [of x "- y"] by (simp add: minus_f64_def)

lemma times_f64_rounds_to:
  assumes "is_finite x" "is_finite y"
  shows "rounds_to (x * y) (fval x * fval y)"
proof -
  obtain s a e t b f where xy: "x = Fin s a e" "y = Fin t b f"
    using assms by (cases x; cases y) auto
  have "(if s \<noteq> t then - 1 else 1) * (of_int \<bar>a * b\<bar> / of_int 1 * 2 powi (e + f)) = fval x * fval y"
    by (simp add: xy signed_def power_int_add abs_mult)
  then show ?thesis
    using fround_scaled_rounds_to [of "\<bar>a * b\<bar>" 1 "s \<noteq> t" "e + f"] by (simp add: xy)
qed

lemma divide_f64_rounds_to:
  assumes "is_finite x" "is_finite y" "fval y \<noteq> 0"
  shows "rounds_to (x / y) (fval x / fval y)"
proof -
  obtain s a e t b f where xy: "x = Fin s a e" "y = Fin t b f"
    using assms by (cases x; cases y) auto
  have b: "b \<noteq> 0" using assms by (auto simp: xy signed_def split: if_splits)
  have "(if s \<noteq> t then - 1 else 1) * (of_int \<bar>a\<bar> / of_int \<bar>b\<bar> * 2 powi (e - f)) = fval x / fval y"
    by (simp add: xy signed_def power_int_diff)
  then show ?thesis
    using fround_scaled_rounds_to [of "\<bar>a\<bar>" "\<bar>b\<bar>" "s \<noteq> t" "e - f"] b by (simp add: xy)
qed

lemma rounds_to_interval:
  assumes "rounds_to x r" "lo \<le> r" "r \<le> hi" "repr lo" "repr hi" "- fbig < lo" "hi < fbig"
  shows "is_finite x" "lo \<le> fval x" "fval x \<le> hi"
proof -
  have l: "lo \<le> rnd r" using rnd_mono [OF assms(2)] rnd_repr [OF assms(4)] by simp
  have h: "rnd r \<le> hi" using rnd_mono [OF assms(3)] rnd_repr [OF assms(5)] by simp
  from assms l h show "is_finite x" "lo \<le> fval x" "fval x \<le> hi"
    unfolding rounds_to_def by auto
qed

lemma reprI: "\<bar>m\<bar> \<le> 2 ^ 53 \<Longrightarrow> - 1074 \<le> e \<Longrightarrow> repr (of_int m * 2 powi e)"
  unfolding repr_def by blast

lemma repr_fval: "- 1074 \<le> e \<Longrightarrow> 0 \<le> m \<Longrightarrow> m \<le> 2 ^ 53 \<Longrightarrow> repr (fval (Fin s m e))"
  unfolding fval.simps by (rule reprI) (auto simp: signed_def)

lemma repr_0 [simp]: "repr 0" using reprI [of 0 0] by simp

lemma repr_uminus_imp:
  assumes "repr x"
  shows "repr (- x)"
proof -
  from assms obtain m e :: int where r: "\<bar>m\<bar> \<le> 2 ^ 53" "- 1074 \<le> e" "x = of_int m * 2 powi e"
    unfolding repr_def by blast
  then have "repr (of_int (- m) * 2 powi e)" by (intro reprI) auto
  then show ?thesis by (simp add: r)
qed

lemma repr_uminus [simp]: "repr (- x) = repr x"
  using repr_uminus_imp [of x] repr_uminus_imp [of "- x"] by auto

lemma repr_pow2: "- 1074 \<le> e \<Longrightarrow> repr (2 powi e)"
  using reprI [of 1 e] by simp
lemma repr_1 [simp]: "repr 1" using repr_pow2 [of 0] by simp
lemma repr_of_int: "\<bar>k\<bar> \<le> 2 ^ 53 \<Longrightarrow> repr (of_int k)"
  using reprI [of k 0] by simp


section \<open>The total order of \<open>total_cmp\<close>\<close>

lemma fin_total_le_iff:
  "fin_total_le s a e t b f \<longleftrightarrow>
     fval (Fin s a e) < fval (Fin t b f) \<or> (fval (Fin s a e) = fval (Fin t b f) \<and> (s \<or> \<not> t))"
proof -
  have "(Fin s a e < Fin t b f) = (fval (Fin s a e) < fval (Fin t b f))"
    "(Fin s a e \<le> Fin t b f) = (fval (Fin s a e) \<le> fval (Fin t b f))"
    by (rule less_f64_iff less_eq_f64_iff; simp)+
  then show ?thesis unfolding fin_total_le_def by linarith
qed

lemma total_le_total: "total_le x y \<or> total_le y x"
  by (cases x; cases y) (auto simp: fin_total_le_iff simp del: fval.simps)

lemma total_le_trans: "total_le x y \<Longrightarrow> total_le y z \<Longrightarrow> total_le x z"
  by (cases x; cases y; cases z) (auto simp: fin_total_le_iff simp del: fval.simps)

interpretation f64_total: total_comparison total_le
  by unfold_locales (rule total_le_total, rule total_le_trans)

text \<open>Comparing by a key inherits totality.\<close>

lemma total_comparison_key:
  "total_comparison le \<Longrightarrow> total_comparison (\<lambda>x y. le (f x) (f y))"
  unfolding total_comparison_def by blast

lemma total_comparison_linorder: "total_comparison ((\<le>) :: 'a::linorder \<Rightarrow> 'a \<Rightarrow> bool)"
  by unfold_locales auto

lemma total_le_imp_le: "total_le x y \<Longrightarrow> \<not> is_nan x \<Longrightarrow> \<not> is_nan y \<Longrightarrow> x \<le> y"
proof (cases x; cases y)
  fix s a e t b f
  assume "total_le x y" and xy: "x = Fin s a e" "y = Fin t b f"
  then show ?thesis by (auto simp: fin_total_le_iff less_eq_f64_iff simp del: fval.simps less_eq_f64.simps)
qed auto

section \<open>Intervals\<close>

text \<open>
  \<open>in_range lo hi x\<close>: \<open>x\<close> is a finite number between two exact bounds. The rules below carry a
  bound through a formula; a bound survives an operation when the exact result respects it and
  the bound itself is representable.
\<close>

named_theorems f64_within \<open>introduction rules for \<open>in_range\<close>\<close>

definition in_range :: "real \<Rightarrow> real \<Rightarrow> f64 \<Rightarrow> bool" where
  "in_range lo hi x \<longleftrightarrow> is_finite x \<and> lo \<le> fval x \<and> fval x \<le> hi"

lemma within_finite: "in_range lo hi x \<Longrightarrow> is_finite x"
  by (simp add: in_range_def)

lemma within_not_nan: "in_range lo hi x \<Longrightarrow> \<not> is_nan x"
  by (cases x) (auto simp: in_range_def)

lemma within_mono: "in_range lo hi x \<Longrightarrow> lo' \<le> lo \<Longrightarrow> hi \<le> hi' \<Longrightarrow> in_range lo' hi' x"
  by (auto simp: in_range_def)

lemma rounds_to_within:
  assumes "rounds_to x r" "lo \<le> r" "r \<le> hi" "repr lo" "repr hi" "- fbig < lo" "hi < fbig"
  shows "in_range lo hi x"
  using rounds_to_interval [OF assms] by (simp add: in_range_def)

lemma fbig_gt: "2 ^ 60 < fbig"
proof -
  have "(2::real) powi 60 < fbig"
    unfolding fbig_def by (rule power_int_strict_increasing) auto
  then show ?thesis by simp
qed

text \<open>Representable bounds small enough not to overflow.\<close>

definition bound_ok :: "real \<Rightarrow> bool" where
  "bound_ok b \<longleftrightarrow> repr b \<and> \<bar>b\<bar> \<le> 2 ^ 60"

lemma bound_ok_fbig: "bound_ok b \<Longrightarrow> - fbig < b \<and> b < fbig"
  using fbig_gt by (auto simp: bound_ok_def abs_le_iff)

lemma bound_ok_int: "\<bar>k\<bar> \<le> 2 ^ 53 \<Longrightarrow> bound_ok (of_int k)"
proof -
  assume k: "\<bar>k\<bar> \<le> 2 ^ 53"
  then have "\<bar>real_of_int k\<bar> \<le> 2 ^ 53"
    by (metis of_int_abs of_int_le_iff of_int_numeral of_int_power)
  with repr_of_int [OF k] show ?thesis by (simp add: bound_ok_def)
qed

lemma bound_ok_0 [simp]: "bound_ok 0" and bound_ok_1 [simp]: "bound_ok 1"
  using bound_ok_int [of 0] bound_ok_int [of 1] by auto

lemma bound_ok_numeral: "numeral k \<le> (2 ^ 53 :: int) \<Longrightarrow> bound_ok (numeral k)"
  using bound_ok_int [of "numeral k"] by simp

lemma bound_ok_uminus [simp]: "bound_ok (- b) = bound_ok b"
  by (simp add: bound_ok_def)

lemma rounds_to_within_ok:
  "rounds_to x r \<Longrightarrow> lo \<le> r \<Longrightarrow> r \<le> hi \<Longrightarrow> bound_ok lo \<Longrightarrow> bound_ok hi \<Longrightarrow> in_range lo hi x"
  using bound_ok_fbig [of lo] bound_ok_fbig [of hi]
  by (intro rounds_to_within [of x r]) (auto simp: bound_ok_def)

lemma dec_rounds_to: "0 \<le> m \<Longrightarrow> rounds_to (dec m k) (of_int m / 10 ^ nat k)"
  using fround_rounds_to [of m "10 ^ nat k" False] by (simp add: dec_def)

lemma of_uw_rounds_to: "rounds_to (of_uw w) (of_int (uint w))"
  using fround_rounds_to [of "uint w" 1 False] by (simp add: of_uw_def)

lemma of_usize_rounds_to: "0 \<le> n \<Longrightarrow> rounds_to (of_usize n) (of_int n)"
  using fround_rounds_to [of n 1 False] by (simp add: of_usize_def)

lemma fval_one [simp]: "fval 1 = 1" and fval_zero [simp]: "fval 0 = 0"
  by (simp_all add: one_f64_def zero_f64_def signed_def power_int_def power_one_over)

lemma is_finite_one [simp]: "is_finite 1" and is_finite_zero [simp]: "is_finite 0"
  by (simp_all add: one_f64_def zero_f64_def)

lemma within_dec [f64_within]:
  "0 \<le> m \<Longrightarrow> lo \<le> of_int m / 10 ^ nat k \<Longrightarrow> of_int m / 10 ^ nat k \<le> hi \<Longrightarrow>
   bound_ok lo \<Longrightarrow> bound_ok hi \<Longrightarrow> in_range lo hi (dec m k)"
  by (blast intro: rounds_to_within_ok dec_rounds_to)

lemma within_one: "lo \<le> 1 \<Longrightarrow> 1 \<le> hi \<Longrightarrow> in_range lo hi 1"
  and within_zero: "lo \<le> 0 \<Longrightarrow> 0 \<le> hi \<Longrightarrow> in_range lo hi 0"
  by (simp_all add: in_range_def)

lemma within_plus [f64_within]:
  "in_range a b x \<Longrightarrow> in_range c d y \<Longrightarrow> lo \<le> a + c \<Longrightarrow> b + d \<le> hi \<Longrightarrow>
   bound_ok lo \<Longrightarrow> bound_ok hi \<Longrightarrow> in_range lo hi (x + y)"
  by (rule rounds_to_within_ok [OF plus_f64_rounds_to]) (auto simp: in_range_def)

lemma within_minus [f64_within]:
  "in_range a b x \<Longrightarrow> in_range c d y \<Longrightarrow> lo \<le> a - d \<Longrightarrow> b - c \<le> hi \<Longrightarrow>
   bound_ok lo \<Longrightarrow> bound_ok hi \<Longrightarrow> in_range lo hi (x - y)"
  by (rule rounds_to_within_ok [OF minus_f64_rounds_to]) (auto simp: in_range_def)

lemma within_times [f64_within]:
  assumes "in_range 0 b x" "in_range 0 d y" "b * d \<le> hi" "bound_ok hi"
  shows "in_range 0 hi (x * y)"
proof (rule rounds_to_within_ok [OF times_f64_rounds_to])
  have "0 \<le> fval x" "fval x \<le> b" "0 \<le> fval y" "fval y \<le> d" using assms by (auto simp: in_range_def)
  then show "0 \<le> fval x * fval y" "fval x * fval y \<le> hi"
    using mult_mono [of "fval x" b "fval y" d] assms(3) by auto
qed (use assms in \<open>auto simp: in_range_def\<close>)

lemma within_divide:
  assumes "in_range 0 b x" "in_range c d y" "0 < c" "b / c \<le> hi" "bound_ok hi"
  shows "in_range 0 hi (x / y)"
proof (rule rounds_to_within_ok [OF divide_f64_rounds_to])
  have v: "0 \<le> fval x" "fval x \<le> b" "c \<le> fval y" using assms by (auto simp: in_range_def)
  then have "fval x / fval y \<le> b / c" using assms(3) by (intro frac_le) auto
  then show "0 \<le> fval x / fval y" "fval x / fval y \<le> hi" "fval y \<noteq> 0"
    using v assms(3,4) by auto
qed (use assms in \<open>auto simp: in_range_def\<close>)

lemma within_clamp [f64_within]:
  assumes "\<not> is_nan x" "is_finite lo" "is_finite hi" "fval lo \<le> fval hi"
  shows "in_range (fval lo) (fval hi) (fclamp lo hi x)"
proof (cases "is_finite x")
  case True
  then show ?thesis
    using assms by (simp add: fclamp_def Let_def in_range_def less_f64_iff)
next
  case False
  then obtain s where "x = Infty s" using assms(1) by (cases x) auto
  then show ?thesis using assms
    by (cases lo; cases hi) (auto simp: fclamp_def Let_def in_range_def less_f64_iff simp del: fval.simps)
qed

lemma fclamp_nan [simp]: "fclamp lo hi NaN = NaN"
  by (cases hi; cases lo) (auto simp: fclamp_def)

lemma within_clamp01 [f64_within]: "\<not> is_nan x \<Longrightarrow> in_range 0 1 (fclamp 0 1 x)"
  using within_clamp [of x 0 1] by simp

lemma within_max0: "is_finite x \<Longrightarrow> in_range 0 (max 0 (fval x)) (fmax x 0)"
proof -
  assume x: "is_finite x"
  then have "\<not> is_nan x" "\<not> is_nan 0" by (cases x; simp add: zero_f64_def)+
  with x show ?thesis by (auto simp: fmax_def in_range_def less_f64_iff)
qed


section \<open>Rounding of integers, and integers read back\<close>

lemma repr_rnd: "repr (rnd x)"
proof -
  have *: "repr (rnd x)" if "0 < x" for x
    unfolding rnd_pos [OF that] using rne_ulpe_bounds [OF that]
    by (intro reprI) (auto simp: ulpe_def)
  consider "x = 0" | "0 < x" | "x < 0" by linarith
  then show ?thesis
  proof cases
    case 3
    then show ?thesis using * [of "- x"] by simp
  qed (use * in auto)
qed

lemma repr_fval_rounded: "rounds_to x r \<Longrightarrow> repr (fval x)"
  by (auto simp: rounds_to_def repr_rnd)

text \<open>The rounding of an integer is an integer.\<close>

lemma rnd_of_int_in_Ints: "rnd (of_int k) \<in> \<int>"
proof -
  have *: "rnd (of_int k) \<in> \<int>" if k: "0 < k" for k :: int
  proof (cases "k \<le> 2 ^ 53")
    case True
    then show ?thesis using k rnd_repr [OF repr_of_int [of k]] by simp
  next
    case False
    then have "(2::int) ^ 53 \<le> k" by simp
    then have "(2::real) ^ 53 \<le> of_int k" by (metis of_int_le_iff of_int_numeral of_int_power)
    then have "(2::real) powi 53 \<le> real_of_int k" by (simp add: power_int_def)
    also have "real_of_int k < 2 powi (\<lfloor>log 2 (of_int k)\<rfloor> + 1)"
      using k by (intro floor_log2_powi) simp
    finally have "(2::real) powi 53 < 2 powi (\<lfloor>log 2 (of_int k)\<rfloor> + 1)" .
    then have "52 < \<lfloor>log 2 (of_int k)\<rfloor> + 1"
      using power_int_increasing [of "\<lfloor>log 2 (of_int k)\<rfloor> + 1" 53 "2::real"] by linarith
    then have "0 \<le> ulpe (of_int k)" by (simp add: ulpe_def)
    then have "(2::real) powi ulpe (of_int k) \<in> \<int>" by (simp add: power_int_def)
    then show ?thesis using k by (simp add: rnd_pos)
  qed
  consider "k = 0" | "0 < k" | "k < 0" by linarith
  then show ?thesis
  proof cases
    case 3
    then have "rnd (of_int (- k)) \<in> \<int>" by (intro *) simp
    then show ?thesis by simp
  qed (use * in auto)
qed

lemma rne_abs_eq: "0 < d \<Longrightarrow> rne \<bar>m\<bar> d = rne_real (of_int \<bar>m\<bar> / of_int d)"
  by (rule rne_eq_rne_real)

lemma fmt0_u256_value:
  assumes "fmt0_u256 x = Some w"
  shows "is_finite x" "uint w = rne_real (fval x)" "0 \<le> fval x"
proof -
  from assms obtain m e where x: "x = Fin False m e" by (cases x) (auto split: if_splits)
  let ?k = "if 0 \<le> e then \<bar>m\<bar> * 2 ^ nat e else rne \<bar>m\<bar> (2 ^ nat (- e))"
  have k: "?k = rne_real (fval x)"
  proof (cases "0 \<le> e")
    case True
    then have "fval x = of_int (\<bar>m\<bar> * 2 ^ nat e)" by (simp add: x signed_def power_int_def)
    then have "rne_real (fval x) = \<bar>m\<bar> * 2 ^ nat e" by (simp only: rne_real_of_int)
    then show ?thesis using True by simp
  next
    case False
    then have "fval x = of_int \<bar>m\<bar> / of_int (2 ^ nat (- e))"
      by (simp add: x signed_def power_int_def field_simps)
    then show ?thesis using False rne_abs_eq [of "2 ^ nat (- e)" m] by simp
  qed
  show nn: "0 \<le> fval x" by (simp add: x signed_def)
  have "0 \<le> rne_real (fval x)" using nn by (intro rne_real_ge_int) simp
  moreover have "?k < 2 ^ 256" "w = word_of_int ?k"
    using assms by (auto simp: x Let_def split: if_splits)
  ultimately show "uint w = rne_real (fval x)"
    using k by (simp only: uint_word_of_int_eq) (simp add: take_bit_int_eq_self)
  show "is_finite x" by (simp add: x)
qed

lemma f_as_word_le:
  assumes "\<not> is_nan x \<Longrightarrow> x \<le> of_uw b" "uint b \<le> 2 ^ 53"
  shows "f_as_word x \<le> (b :: 'a::len word)"
proof -
  have b: "is_finite (of_uw b)" "fval (of_uw b) = of_int (uint b)"
  proof -
    have "in_range (of_int (uint b)) (of_int (uint b)) (of_uw b)"
      using assms(2) by (intro rounds_to_within_ok [OF of_uw_rounds_to] bound_ok_int) auto
    then show "is_finite (of_uw b)" "fval (of_uw b) = of_int (uint b)" by (auto simp: in_range_def)
  qed
  show ?thesis
  proof (cases x)
    case (Infty s)
    then show ?thesis using assms(1) b(1) by (cases "of_uw b") auto
  next
    case (Fin s m e)
    show ?thesis
    proof (cases s)
      case False
      have "fval x \<le> of_int (uint b)" using assms(1) b Fin by (simp add: less_eq_f64_iff del: less_eq_f64.simps)
      moreover have "of_int (magnitude m e) \<le> fval x"
        using Fin False real_of_int_div4 [of "\<bar>m\<bar>" "2 ^ nat (- e)"]
        by (auto simp: signed_def power_int_def field_simps)
      ultimately have "magnitude m e \<le> uint b" by linarith
      moreover have "0 \<le> magnitude m e" by (simp add: pos_imp_zdiv_nonneg_iff)
      moreover from calculation have "magnitude m e < 2 ^ LENGTH('a)"
        using uint_bounded [of b] by linarith
      ultimately show ?thesis using Fin False
        by (simp add: word_le_def uint_word_of_int del: magnitude.simps)
    qed (use Fin in auto)
  qed auto
qed

section \<open>Order of rounded results, and finite results\<close>

lemma rounds_to_mono: "rounds_to x r \<Longrightarrow> rounds_to y s \<Longrightarrow> r \<le> s \<Longrightarrow> x \<le> y"
  using rnd_mono [of r s] fbig_pos
  by (auto simp: rounds_to_def less_eq_f64_iff simp del: fbig_pos)
    (auto elim!: is_finite.elims)

lemma rounds_to_finite: "rounds_to x r \<Longrightarrow> is_finite x \<Longrightarrow> fval x = rnd r"
  by (auto simp: rounds_to_def)

lemma rnd_le_imp: "rnd r < rnd s \<Longrightarrow> r < s"
  using rnd_mono [of s r] by linarith

lemma rnd_pos_imp: "0 < rnd r \<Longrightarrow> 0 < r"
  using rnd_le_imp [of 0 r] by simp

lemma finite_plusD: "is_finite (x + y) \<Longrightarrow> is_finite x \<and> is_finite y"
  by (cases x; cases y) (auto split: if_splits)

lemma finite_minusD: "is_finite (x - y) \<Longrightarrow> is_finite x \<and> is_finite y"
  using finite_plusD [of x "- y"] by (simp add: minus_f64_def)

lemma finite_timesD: "is_finite (x * y) \<Longrightarrow> is_finite x \<and> is_finite y"
  by (cases x; cases y) (auto split: if_splits)

lemma fval_plus: "is_finite (x + y) \<Longrightarrow> fval (x + y) = rnd (fval x + fval y)"
  by (meson finite_plusD plus_f64_rounds_to rounds_to_finite)

lemma fval_minus: "is_finite (x - y) \<Longrightarrow> fval (x - y) = rnd (fval x - fval y)"
  by (meson finite_minusD minus_f64_rounds_to rounds_to_finite)

lemma fval_times: "is_finite (x * y) \<Longrightarrow> fval (x * y) = rnd (fval x * fval y)"
  by (meson finite_timesD times_f64_rounds_to rounds_to_finite)

lemma fval_divide:
  "is_finite (x / y) \<Longrightarrow> is_finite x \<Longrightarrow> is_finite y \<Longrightarrow> fval y \<noteq> 0 \<Longrightarrow> fval (x / y) = rnd (fval x / fval y)"
  by (meson divide_f64_rounds_to rounds_to_finite)

lemma rnd_fval_rounded: "rounds_to x r \<Longrightarrow> rnd (fval x) = fval x"
  by (rule rnd_repr [OF repr_fval_rounded])

lemma pow2_less_fbig: "k < 1024 \<Longrightarrow> (2::real) powi k < fbig"
  unfolding fbig_def by (rule power_int_strict_increasing) simp_all

lemma of_uw_u256: "is_finite (of_uw (w :: u256))" "fval (of_uw w) = rnd (of_int (uint w))"
  "0 \<le> fval (of_uw w)" "fval (of_uw w) \<le> 2 powi 256"
proof -
  have "real_of_int (uint w) \<le> real_of_int (2 ^ 256)"
    using uint_bounded [of w] by (simp only: of_int_le_iff) simp
  then have b: "real_of_int (uint w) \<le> 2 powi 256" by (simp add: power_int_def)
  have "0 \<le> real_of_int (uint w)" by (simp only: of_int_0_le_iff uint_nonneg)
  note i = rounds_to_interval [OF of_uw_rounds_to this b repr_0 repr_pow2 _ pow2_less_fbig]
  show f: "is_finite (of_uw w)" "0 \<le> fval (of_uw w)" "fval (of_uw w) \<le> 2 powi 256"
    by (rule i; simp)+
  show "fval (of_uw w) = rnd (of_int (uint w))"
    by (rule rounds_to_finite [OF of_uw_rounds_to f(1)])
qed

lemma of_uw_mono: "a \<le> b \<Longrightarrow> of_uw a \<le> of_uw b"
  by (rule rounds_to_mono [OF of_uw_rounds_to of_uw_rounds_to]) (simp only: of_int_le_iff word_le_def)

lemma not_less_f64: "\<not> is_nan x \<Longrightarrow> \<not> is_nan y \<Longrightarrow> \<not> y < x \<Longrightarrow> x \<le> y"
  by (cases x; cases y) (auto simp: Let_def min.commute not_less)

text \<open>\<open>x.min(hi).max(0.0)\<close> never exceeds \<open>hi\<close>, even when \<open>x\<close> is NaN.\<close>

lemma fmax_fmin_le:
  assumes "in_range 0 b hi"
  shows "fmax (fmin x hi) 0 \<le> hi"
proof -
  have h: "\<not> is_nan hi" "hi \<le> hi" "0 \<le> hi" "\<not> is_nan 0"
    using assms within_not_nan [OF assms] by (auto simp: in_range_def less_eq_f64_iff zero_f64_def signed_def)
  have "fmin x hi \<le> hi" using not_less_f64 [of x hi] h(1,2) by (auto simp: fmin_def)
  then show ?thesis using h by (auto simp: fmax_def)
qed

section \<open>Order laws\<close>

text \<open>The order on numbers other than NaN is a total preorder.\<close>

lemma le_f64_refl: "\<not> is_nan x \<Longrightarrow> x \<le> (x :: f64)"
  by (cases x) simp_all

lemma le_f64_not_nan: "x \<le> (y :: f64) \<Longrightarrow> \<not> is_nan x \<and> \<not> is_nan y"
  by (cases x; cases y) simp_all

lemma le_f64_trans:
  assumes "x \<le> y" "y \<le> (z :: f64)"
  shows "x \<le> z"
proof (cases "is_finite x \<and> is_finite y \<and> is_finite z")
  case True
  then show ?thesis using assms by (simp add: less_eq_f64_iff)
next
  case False
  then show ?thesis using assms
    by (cases x; cases y; cases z) auto
qed

lemma less_f64_imp_le: "x < y \<Longrightarrow> x \<le> (y :: f64)"
  by (cases x; cases y) (auto simp: Let_def)

lemma fmax_upper: "\<not> is_nan c \<Longrightarrow> c \<le> fmax x c"
  using not_less_f64 [of c x] by (auto simp: fmax_def le_f64_refl)

lemma fmax_upper_left: "\<not> is_nan x \<Longrightarrow> x \<le> fmax x c"
  by (simp add: fmax_def le_f64_refl less_f64_imp_le)

lemma fmax_mono:
  assumes "x \<le> y" "\<not> is_nan c"
  shows "fmax x c \<le> fmax y c"
proof -
  have n: "\<not> is_nan x" "\<not> is_nan y" using le_f64_not_nan [OF assms(1)] by auto
  have "x \<le> fmax y c" by (rule le_f64_trans [OF assms(1) fmax_upper_left [OF n(2)]])
  moreover have "fmax x c = x \<or> fmax x c = c" by (simp add: fmax_def)
  ultimately show ?thesis using fmax_upper [OF assms(2), of y] by metis
qed

text \<open>A value that the processor can hold: 53 significant bits and an exponent in range.\<close>

definition canonical :: "f64 \<Rightarrow> bool" where
  "canonical x = (case x of Fin s m e \<Rightarrow> 0 \<le> m \<and> m < 2 ^ 53 \<and> - 1074 \<le> e \<and> e \<le> 971 | _ \<Rightarrow> True)"

lemma canonical_rounds_to:
  assumes "canonical x" "is_finite x"
  shows "rounds_to x (fval x)"
proof -
  obtain s m e where x: "x = Fin s m e" using assms(2) by (cases x) auto
  then have m: "0 \<le> m" "m < 2 ^ 53" "- 1074 \<le> e" "e \<le> 971" using assms(1) by (auto simp: canonical_def)
  then have "rnd (fval x) = fval x" unfolding x by (intro rnd_repr repr_fval) auto
  moreover have "\<bar>fval x\<bar> < fbig"
    using powi_prod_less_fbig [OF m(1,2,4)] m(1) by (simp add: x signed_def abs_mult)
  ultimately show ?thesis by (simp add: rounds_to_def assms(2))
qed

lemma positive_form: "is_finite c \<Longrightarrow> 0 < fval c \<Longrightarrow> \<exists>m e. c = Fin False m e \<and> m \<noteq> 0"
proof (cases c)
  case (Fin s m e)
  assume pos: "0 < fval c"
  have "0 \<le> real_of_int \<bar>m\<bar> * 2 powi e" by simp
  moreover have "fval c = - (real_of_int \<bar>m\<bar> * 2 powi e)" if s using that by (simp add: Fin signed_def)
  ultimately have "\<not> s" using pos by linarith
  then show ?thesis using pos by (cases "m = 0") (simp_all add: Fin signed_def)
qed simp_all

lemma nonneg_form: "0 \<le> x \<Longrightarrow> \<not> is_finite x \<Longrightarrow> x = Infty False"
  by (cases x) (auto simp: zero_f64_def)

lemma scale_mono:
  assumes "0 \<le> x" "is_finite c" "is_finite d" "0 < fval c" "fval c \<le> fval d"
  shows "x * c \<le> x * d"
proof (cases "is_finite x")
  case True
  then show ?thesis using assms
    by (intro rounds_to_mono [OF times_f64_rounds_to times_f64_rounds_to])
      (auto simp: less_eq_f64_iff intro: mult_left_mono)
next
  case False
  have "x = Infty False" by (rule nonneg_form [OF assms(1) False])
  moreover have "0 < fval d" using assms(4,5) by simp
  ultimately show ?thesis
    using positive_form [OF assms(2,4)] positive_form [OF assms(3)] by auto
qed

lemma scale_down:
  assumes "0 \<le> x" "canonical x" "is_finite c" "0 < fval c" "fval c \<le> 1"
  shows "x * c \<le> x"
proof (cases "is_finite x")
  case True
  then show ?thesis using assms
    by (intro rounds_to_mono [OF times_f64_rounds_to canonical_rounds_to])
      (auto simp: less_eq_f64_iff intro: mult_right_le_one_le)
next
  case False
  then show ?thesis using nonneg_form [OF assms(1) False] positive_form [OF assms(3,4)] by auto
qed

lemma less_dec:
  assumes "is_finite x" "is_finite y"
  shows "x < y \<Longrightarrow> fval x < fval y" "x \<le> y \<Longrightarrow> fval x \<le> fval y"
  using assms by (simp_all add: less_f64_iff less_eq_f64_iff)

section \<open>Evaluation of scaled results\<close>

lemma floor_log2_unique:
  assumes "2 powi j \<le> x" "x < 2 powi (j + 1)"
  shows "\<lfloor>log 2 x\<rfloor> = j"
proof -
  have "0 < (2 :: real) powi j" by (rule zero_less_power_int) simp
  then have x0: "0 < x" using assms(1) by linarith
  have "2 powr of_int j \<le> x" "x < 2 powr of_int (j + 1)"
    using assms by (simp_all add: powr_real_of_int' del: of_int_add)
  then show ?thesis using x0 by (simp add: floor_eq_iff le_log_iff log_less_iff)
qed

lemma floor_log2_scaled:
  assumes "0 < n"
  shows "\<lfloor>log 2 (of_int n * 2 powi e)\<rfloor> = bitlen n - 1 + e"
proof (rule floor_log2_unique)
  have p: "0 < (2 :: real) powi e" by (rule zero_less_power_int) simp
  note b = bitlen_bounds [OF assms]
  have "2 powi (bitlen n - 1) * 2 powi e \<le> of_int n * (2 :: real) powi e"
    using b p by (intro mult_right_mono) auto
  then show "2 powi (bitlen n - 1 + e) \<le> of_int n * (2 :: real) powi e" by (simp add: power_int_add)
  have "of_int n * (2 :: real) powi e < 2 powi bitlen n * 2 powi e"
    using b p by (intro mult_strict_right_mono) auto
  then show "of_int n * (2 :: real) powi e < 2 powi (bitlen n - 1 + e + 1)"
    by (simp add: power_int_add [symmetric] algebra_simps)
qed

lemma fround_int_mantissa:
  assumes "0 < n"
  shows "(if q \<le> e then n * 2 ^ nat (e - q) else rne_shift n (q - e)) = rne_real (of_int n * 2 powi (e - q))"
proof (cases "q \<le> e")
  case True
  then have "of_int n * 2 powi (e - q) = real_of_int (n * 2 ^ nat (e - q))" by (simp add: power_int_def)
  then have "rne_real (of_int n * 2 powi (e - q)) = n * 2 ^ nat (e - q)" by (simp only: rne_real_of_int)
  then show ?thesis using True by simp
next
  case False
  then have "of_int n * 2 powi (e - q) = real_of_int n / of_int (2 ^ nat (q - e))"
    by (simp add: power_int_def field_simps)
  then show ?thesis using False by (simp add: rne_shift_def rne_eq_rne_real)
qed

lemma fround_scaled_int:
  assumes "0 \<le> n"
  shows "fround_scaled s n 1 e = fround_int s n e"
proof (cases "n = 0")
  case True
  then show ?thesis by (simp add: fround_scaled_def fround_def fround_int_def)
next
  case False
  with assms have n: "0 < n" by simp
  let ?N = "if 0 \<le> e then n * 2 ^ nat e else n" and ?D = "if 0 \<le> e then 1 else 2 ^ nat (- e) :: int"
  have ND: "fround_scaled s n 1 e = fround s ?N ?D" by (simp add: fround_scaled_def)
  have pos: "0 < ?N" "0 < ?D" using n by auto
  have x: "real_of_int ?N / real_of_int ?D = of_int n * 2 powi e" by (simp add: power_int_def field_simps)
  have xq: "real_of_int n * 2 powi e / 2 powi q = of_int n * 2 powi (e - q)" for q by (simp add: power_int_diff)
  have q: "max (bitlen n + e - 53) (- 1074) = ulpe (of_int n * 2 powi e)"
    by (simp add: ulpe_def floor_log2_scaled [OF n])
  show ?thesis
    unfolding ND fround_core [OF pos] fround_int_def x xq Let_def q
    using n fround_int_mantissa [OF n] by simp
qed

lemma fround_scaled_code [code]:
  "fround_scaled s n d e = (if d = 1 \<and> 0 \<le> n then fround_int s n e
     else if 0 \<le> e then fround s (n * 2 ^ nat e) d else fround s n (d * 2 ^ nat (- e)))"
  using fround_scaled_int [of n s e] by (auto simp: fround_scaled_def)

lemma fround_code [code]:
  "fround s n d = (if d = 1 \<and> 0 \<le> n then fround_int s n 0 else if n = 0 then Fin s 0 0 else
     let q = max (flog2 n d - 52) (- 1074);
         m = (if 0 \<le> q then rne n (d * 2 ^ nat q) else rne (n * 2 ^ nat (- q)) d)
     in if m = 0 then Fin s 0 0
        else if m = 2 ^ 53 then (if 970 < q then Infty s else Fin s (2 ^ 52) (q + 1))
        else if 971 < q then Infty s else Fin s m q)"
  using fround_scaled_int [of n s 0] by (auto simp: fround_scaled_def fround_def)

lemma rne_code [code]:
  "rne n d = (let q = n div d; r = n - q * d in if 2 * r < d \<or> (2 * r = d \<and> \<not> is_odd q) then q else q + 1)"
  unfolding rne_def is_odd_def Let_def minus_div_mult_eq_mod by simp

end
