(* ===== verification/UniswapV2.thy ===== *)
theory UniswapV2
  imports F64
begin

text \<open>
  The constant-product pool model of \<open>src/mev/amm/uniswap_v2.rs\<close>: exact-input quotes with a fee,
  the swap that moves the reserves, price impact, and the choice of a trade size. All amounts are
  256-bit words with the saturating operations the code uses. The interface \<open>exact_in_quoter\<close>
  states what a quote promises (it never beats the constant product); the invariant of the pool
  and the absence of a free round trip are proved from it.
\<close>

section \<open>State and results\<close>

record v2_pool_state =
  v2_pair :: address
  v2_token0 :: address
  v2_token1 :: address
  v2_reserve0 :: u256
  v2_reserve1 :: u256
  v2_fee_bps :: u64

record v2_swap_result =
  sr_amount_in :: u256
  sr_amount_out :: u256
  sr_new_reserve_in :: u256
  sr_new_reserve_out :: u256
  sr_price_impact_bps :: u64

record size_candidate =
  sc_capital_fraction_bps :: u64
  sc_amount_in :: u256
  sc_amount_out :: u256
  sc_gross_profit_wei :: u256
  sc_net_profit_wei :: u256
  sc_roi_bps :: u64
  sc_self_slippage_bps :: u64

section \<open>Operations\<close>

definition reserves_for :: "v2_pool_state \<Rightarrow> address \<Rightarrow> address \<Rightarrow> (u256 \<times> u256) option" where
  "reserves_for p token_in token_out =
     (if token_in = v2_token0 p \<and> token_out = v2_token1 p then Some (v2_reserve0 p, v2_reserve1 p)
      else if token_in = v2_token1 p \<and> token_out = v2_token0 p then Some (v2_reserve1 p, v2_reserve0 p)
      else None)"

definition amount_out_exact_in :: "u256 \<Rightarrow> u256 \<Rightarrow> u256 \<Rightarrow> u64 \<Rightarrow> u256 option" where
  "amount_out_exact_in amount_in reserve_in reserve_out fee_bps =
     (if amount_in = 0 \<or> reserve_in = 0 \<or> reserve_out = 0 \<or> 10000 \<le> fee_bps then None
      else let amount_in_with_fee = sat_mul amount_in (ucast (10000 - fee_bps));
               numerator = sat_mul amount_in_with_fee reserve_out;
               denominator = sat_add (sat_mul reserve_in 10000) amount_in_with_fee
           in if denominator = 0 then None else Some (numerator div denominator))"

definition price_impact_bps :: "u256 \<Rightarrow> u256 \<Rightarrow> u256 \<Rightarrow> u256 \<Rightarrow> u64" where
  "price_impact_bps amount_in amount_out reserve_in reserve_out =
     (if amount_in = 0 \<or> amount_out = 0 \<or> reserve_in = 0 \<or> reserve_out = 0 then 10000
      else let ideal_out = sat_mul amount_in reserve_out div reserve_in
           in if ideal_out = 0 \<or> ideal_out \<le> amount_out then 0
              else let impact = sat_sub ideal_out amount_out
                   in min_as_u64 (sat_mul impact 10000 div ideal_out) 10000)"

definition apply_swap_exact_in ::
  "v2_pool_state \<Rightarrow> address \<Rightarrow> address \<Rightarrow> u256 \<Rightarrow> (v2_pool_state \<times> v2_swap_result) option" where
  "apply_swap_exact_in p token_in token_out amount_in =
     (case reserves_for p token_in token_out of
        None \<Rightarrow> None
      | Some (reserve_in, reserve_out) \<Rightarrow>
          if amount_in = 0 \<or> reserve_in = 0 \<or> reserve_out = 0 then None
          else (case amount_out_exact_in amount_in reserve_in reserve_out (v2_fee_bps p) of
              None \<Rightarrow> None
            | Some amount_out \<Rightarrow>
                if amount_out = 0 \<or> reserve_out \<le> amount_out then None
                else let new_reserve_in = sat_add reserve_in amount_in;
                         new_reserve_out = sat_sub reserve_out amount_out;
                         impact = price_impact_bps amount_in amount_out reserve_in reserve_out;
                         p' = (if token_in = v2_token0 p
                               then p\<lparr>v2_reserve0 := new_reserve_in, v2_reserve1 := new_reserve_out\<rparr>
                               else p\<lparr>v2_reserve1 := new_reserve_in, v2_reserve0 := new_reserve_out\<rparr>)
                     in Some (p', \<lparr>sr_amount_in = amount_in, sr_amount_out = amount_out,
                                  sr_new_reserve_in = new_reserve_in,
                                  sr_new_reserve_out = new_reserve_out,
                                  sr_price_impact_bps = impact\<rparr>)))"

text \<open>The body of the sizing loop for one fraction of the capital.\<close>

definition size_candidate_for ::
  "u256 \<Rightarrow> u256 \<Rightarrow> u256 \<Rightarrow> u256 \<Rightarrow> u64 \<Rightarrow> u64 \<Rightarrow> size_candidate option" where
  "size_candidate_for reserve_in reserve_out capital_cap gas_cost_wei fee_bps bps =
     (let amount_in = sat_mul capital_cap (ucast bps) div 10000
      in if amount_in = 0 then None
         else (case amount_out_exact_in amount_in reserve_in reserve_out fee_bps of
             None \<Rightarrow> None
           | Some amount_out \<Rightarrow>
               let gross = sat_sub amount_out amount_in;
                   net = sat_sub gross gas_cost_wei
               in if net = 0 then None
                  else Some \<lparr>sc_capital_fraction_bps = bps, sc_amount_in = amount_in,
                             sc_amount_out = amount_out, sc_gross_profit_wei = gross,
                             sc_net_profit_wei = net,
                             sc_roi_bps = min_as_u64 (sat_mul net 10000 div amount_in) u64_max,
                             sc_self_slippage_bps =
                               price_impact_bps amount_in amount_out reserve_in reserve_out\<rparr>))"

definition size_candidates ::
  "u256 \<Rightarrow> u256 \<Rightarrow> u256 \<Rightarrow> u256 \<Rightarrow> u64 \<Rightarrow> u64 list \<Rightarrow> size_candidate list" where
  "size_candidates reserve_in reserve_out capital_cap gas_cost_wei fee_bps fractions_bps =
     (if capital_cap = 0 \<or> reserve_in = 0 \<or> reserve_out = 0 then []
      else List.map_filter
             (size_candidate_for reserve_in reserve_out capital_cap gas_cost_wei fee_bps)
             fractions_bps)"

definition sizing_score :: "size_candidate \<Rightarrow> f64 \<Rightarrow> f64 \<Rightarrow> f64" where
  "sizing_score c context_priority_score context_toxicity_score =
     (let net_profit = of_uw (sc_net_profit_wei c);
          roi_component = of_uw (sc_roi_bps c) / dec 10000 0;
          size_component = of_uw (sc_capital_fraction_bps c) / dec 10000 0;
          slippage_penalty = of_uw (sc_self_slippage_bps c) / dec 10000 0
      in net_profit
         * (1 + context_priority_score * dec 20 2)
         * (1 + roi_component * dec 45 2)
         * (1 + size_component * dec 10 2)
         * (1 - context_toxicity_score * dec 42 2)
         * (1 - slippage_penalty * dec 55 2))"

definition select_best_size_candidate ::
  "size_candidate list \<Rightarrow> f64 \<Rightarrow> f64 \<Rightarrow> size_candidate option" where
  "select_best_size_candidate candidates context_priority_score context_toxicity_score =
     (let priority = fclamp 0 (dec 15 1) context_priority_score;
          toxicity = fclamp 0 1 context_toxicity_score
      in max_by (\<lambda>l r. total_le (sizing_score l priority toxicity) (sizing_score r priority toxicity))
           candidates)"

definition find_roi_optimal_input :: "u256 \<Rightarrow> u256 \<Rightarrow> u256 \<Rightarrow> u256 \<Rightarrow> u64 \<Rightarrow> (u256 \<times> u256) option" where
  "find_roi_optimal_input reserve_in reserve_out capital_cap gas_cost_wei fee_bps =
     (case select_best_size_candidate
             (size_candidates reserve_in reserve_out capital_cap gas_cost_wei fee_bps
                [50, 100, 200, 350, 500, 750, 1000, 1500, 2000, 2500, 3000])
             1 0 of
        None \<Rightarrow> None
      | Some best \<Rightarrow> Some (sc_amount_in best, sc_net_profit_wei best))"

section \<open>What an exact-input quote promises\<close>

text \<open>
  \<open>fits\<close> is the range in which the denominator of the quote does not saturate. Pair reserves are
  112-bit numbers on chain, so every pool the program loads is far inside it.
\<close>

definition fits :: "u256 \<Rightarrow> u256 \<Rightarrow> bool" where
  "fits reserve_in amount_in \<longleftrightarrow> 10000 * (uint reserve_in + uint amount_in) < 2 ^ 256"

locale exact_in_quoter =
  fixes quote :: "u256 \<Rightarrow> u256 \<Rightarrow> u256 \<Rightarrow> u256 option"
    and ok :: "u256 \<Rightarrow> u256 \<Rightarrow> bool"
  assumes quote_bound: "quote a rin rout = Some out \<Longrightarrow> ok rin a \<Longrightarrow>
      uint out * (uint rin + uint a) \<le> uint a * uint rout"
    and quote_pos: "quote a rin rout = Some out \<Longrightarrow> 0 < uint a \<and> 0 < uint rin \<and> 0 < uint rout"
begin

text \<open>The output stays below the reserve it is paid from.\<close>

lemma quote_below_reserve:
  assumes "quote a rin rout = Some out" "ok rin a"
  shows "uint out < uint rout"
proof -
  note b = quote_bound [OF assms] and p = quote_pos [OF assms(1)]
  have "uint out * (uint rin + uint a) < uint rout * (uint rin + uint a)"
    using b p by (simp add: algebra_simps) (smt (verit) mult_pos_pos)
  then show ?thesis using p by (simp add: mult_less_cancel_right)
qed

text \<open>The product of the reserves does not decrease.\<close>

lemma product_grows:
  assumes "quote a rin rout = Some out" "ok rin a"
  shows "uint rin * uint rout \<le> (uint rin + uint a) * (uint rout - uint out)"
  using quote_bound [OF assms] by (simp add: algebra_simps)

text \<open>Trading the output back gives at most what was put in.\<close>

lemma no_free_round_trip:
  assumes "quote a rin rout = Some out" "ok rin a"
    and rin': "uint rin' = uint rin + uint a" and rout': "uint rout' = uint rout - uint out"
    and "quote out rout' rin' = Some ret" "ok rout' out"
  shows "uint ret \<le> uint a"
proof -
  have b1: "uint out * (uint rin + uint a) \<le> uint a * uint rout" by (rule quote_bound [OF assms(1,2)])
  have "uint ret * (uint rout' + uint out) \<le> uint out * uint rin'" by (rule quote_bound [OF assms(5,6)])
  then have "uint ret * uint rout \<le> uint out * (uint rin + uint a)" by (simp add: rin' rout')
  with b1 have "uint ret * uint rout \<le> uint a * uint rout" by linarith
  then show ?thesis using quote_pos [OF assms(1)] by (simp add: mult_le_cancel_right)
qed

end

lemma quote_arith:
  fixes a r q f n d :: int
  assumes "0 \<le> a" "0 < r" "0 \<le> q" "0 \<le> f" "f \<le> 10000"
    and n: "n \<le> a * f * q" and d: "d = r * 10000 + a * f"
  shows "n div d * (r + a) \<le> a * q"
proof -
  let ?o = "n div d"
  have d0: "0 < d" using assms by (simp add: add_pos_nonneg)
  have "?o * d \<le> n" using d0 pos_mod_sign [OF d0, of n] minus_mod_eq_div_mult [of n d] by linarith
  then have od: "?o * d \<le> a * f * q" using n by linarith
  have "a * f * q \<le> d * q" using assms by (intro mult_right_mono) auto
  with od have "?o * d \<le> q * d" by (simp add: mult.commute)
  then have oq: "?o \<le> q" using d0 by (simp add: mult_le_cancel_right)
  have "10000 * (?o * r) \<le> a * f * (q - ?o)" using od unfolding d by (simp add: algebra_simps)
  also have "\<dots> \<le> 10000 * (a * (q - ?o))"
  proof -
    have "f * (a * (q - ?o)) \<le> 10000 * (a * (q - ?o))"
      using assms oq by (intro mult_right_mono mult_nonneg_nonneg) auto
    then show ?thesis by (simp add: algebra_simps)
  qed
  finally have "?o * r \<le> a * (q - ?o)" by linarith
  then show ?thesis by (simp add: algebra_simps)
qed

lemma amount_out_exact_in_SomeD:
  assumes "amount_out_exact_in a r q fee = Some out"
  shows "0 < uint a" "0 < uint r" "0 < uint q" "uint fee < 10000"
    and "out = sat_mul (sat_mul a (ucast (10000 - fee))) q
               div sat_add (sat_mul r 10000) (sat_mul a (ucast (10000 - fee)))"
  using assms
  by (auto simp: amount_out_exact_in_def Let_def not_le word_less_def word_pos_iff split: if_splits)

lemma uint_fee_factor: "uint fee < 10000 \<Longrightarrow> uint (ucast (10000 - fee :: u64) :: u256) = 10000 - uint fee"
proof -
  assume f: "uint fee < 10000"
  have "sat_sub 10000 fee = 10000 - fee" using f by (simp add: sat_sub_def word_le_def)
  then have "uint (10000 - fee) = 10000 - uint fee" using f uint_sat_sub [of "10000 :: u64" fee] by simp
  then show ?thesis by (simp add: uint_ucast_u64)
qed

interpretation v2_quoter: exact_in_quoter "\<lambda>a rin rout. amount_out_exact_in a rin rout fee" fits for fee
proof
  fix a rin rout out
  assume q: "amount_out_exact_in a rin rout fee = Some out"
  note pos = amount_out_exact_in_SomeD(1-4) [OF q]
  show "0 < uint a \<and> 0 < uint rin \<and> 0 < uint rout" using pos by blast
  assume ok: "fits rin a"
  let ?f = "10000 - uint fee"
  have f: "0 < ?f" "?f \<le> 10000" using pos by auto
  have "uint a * ?f \<le> uint a * 10000" using f pos by (intro mult_left_mono) auto
  then have small: "uint a * ?f + uint rin * 10000 < 2 ^ 256" using ok by (simp add: fits_def)
  have "0 \<le> uint a * ?f" using f pos by simp
  with small have rin: "uint rin * 10000 < 2 ^ 256" "uint a * ?f < 2 ^ 256"
    using uint_nonneg [of rin] by linarith+
  have af: "uint (sat_mul a (ucast (10000 - fee))) = uint a * ?f"
    using rin pos f by (simp add: uint_sat_mul uint_fee_factor)
  have d: "uint (sat_add (sat_mul rin 10000) (sat_mul a (ucast (10000 - fee)))) = uint rin * 10000 + uint a * ?f"
    using small rin pos f by (simp add: uint_sat_add uint_sat_mul uint_fee_factor min_def)
  have n: "uint (sat_mul (sat_mul a (ucast (10000 - fee))) rout) \<le> uint a * ?f * uint rout"
    by (simp add: uint_sat_mul [of "sat_mul a _"] af)
  show "uint out * (uint rin + uint a) \<le> uint a * uint rout"
    unfolding amount_out_exact_in_SomeD(5) [OF q] uint_div_word
    by (rule quote_arith [of _ _ _ ?f]) (use pos f n d in auto)
qed


section \<open>Facts about the operations\<close>

lemma price_impact_bps_le: "price_impact_bps a out r q \<le> 10000"
proof -
  have "uint (price_impact_bps a out r q) \<le> 10000"
    by (auto simp: price_impact_bps_def Let_def uint_min_as_u64)
  then show ?thesis by (simp add: word_le_def)
qed

lemma apply_swap_exact_in_SomeD:
  assumes "apply_swap_exact_in p ti to a = Some (p', res)"
  obtains rin rout out where "reserves_for p ti to = Some (rin, rout)"
    "amount_out_exact_in a rin rout (v2_fee_bps p) = Some out"
    "0 < uint out" "uint out < uint rout"
    "sr_amount_in res = a" "sr_amount_out res = out"
    "sr_new_reserve_in res = sat_add rin a" "sr_new_reserve_out res = sat_sub rout out"
    "sr_price_impact_bps res = price_impact_bps a out rin rout"
    "p' = (if ti = v2_token0 p
           then p\<lparr>v2_reserve0 := sat_add rin a, v2_reserve1 := sat_sub rout out\<rparr>
           else p\<lparr>v2_reserve1 := sat_add rin a, v2_reserve0 := sat_sub rout out\<rparr>)"
  using assms
  by (auto simp: apply_swap_exact_in_def Let_def not_le word_less_def word_pos_iff
      split: option.splits if_splits prod.splits)

lemma reserves_for_cases:
  assumes "reserves_for p ti to = Some (rin, rout)"
  shows "(ti = v2_token0 p \<and> to = v2_token1 p \<and> rin = v2_reserve0 p \<and> rout = v2_reserve1 p)
       \<or> (ti \<noteq> v2_token0 p \<or> to \<noteq> v2_token1 p) \<and> ti = v2_token1 p \<and> to = v2_token0 p
           \<and> rin = v2_reserve1 p \<and> rout = v2_reserve0 p"
  using assms by (auto simp: reserves_for_def split: if_splits)

lemma size_candidates_member:
  "c \<in> set (size_candidates rin rout cap gas fee fs) \<Longrightarrow>
   \<exists>bps\<in>set fs. size_candidate_for rin rout cap gas fee bps = Some c"
  by (auto simp: size_candidates_def List.map_filter_def split: if_splits)

lemma bps_share_le:
  assumes "bps \<le> (10000 :: u64)"
  shows "sat_mul cap (ucast bps) div 10000 \<le> (cap :: u256)"
proof -
  have "uint bps \<le> 10000" using assms by (simp add: word_le_def)
  then have "uint cap * uint bps \<le> uint cap * 10000" by (intro mult_left_mono) auto
  then have "uint (sat_mul cap (ucast bps)) \<le> uint cap * 10000"
    by (simp add: uint_sat_mul uint_ucast_u64)
  then have "uint (sat_mul cap (ucast bps)) div 10000 \<le> uint cap" by linarith
  then show ?thesis by (simp add: word_le_def uint_div_word)
qed

lemma v2_quote_parts:
  fixes fee :: u64
  assumes "uint fee < 10000" "fits r a" "10000 * uint a * uint q < 2 ^ 256"
  shows "uint (sat_mul (sat_mul a (ucast (10000 - fee))) q) = uint a * (10000 - uint fee) * uint q"
    and "uint (sat_add (sat_mul r 10000) (sat_mul a (ucast (10000 - fee)))) = 10000 * uint r + uint a * (10000 - uint fee)"
proof -
  let ?f = "10000 - uint fee"
  have f: "0 \<le> ?f" "?f \<le> 10000" using assms(1) uint_nonneg [of fee] by linarith+
  have af: "0 \<le> uint a * ?f" "uint a * ?f \<le> uint a * 10000"
    using f by (auto intro: mult_left_mono)
  have r: "uint r * 10000 + uint a * ?f < 2 ^ 256"
    using af assms(2) by (simp add: fits_def)
  have a: "uint (sat_mul a (ucast (10000 - fee))) = uint a * ?f"
  proof -
    have "uint a * ?f < 2 ^ 256" using r uint_nonneg [of r] by linarith
    then show ?thesis using assms(1) by (simp add: uint_sat_mul uint_fee_factor)
  qed
  have "uint a * ?f * uint q \<le> uint a * 10000 * uint q" using af by (intro mult_right_mono) auto
  then show "uint (sat_mul (sat_mul a (ucast (10000 - fee))) q) = uint a * ?f * uint q"
    using assms(3) by (simp add: uint_sat_mul [of "sat_mul a _"] a)
  have "uint r * 10000 < 2 ^ 256" using r af(1) by linarith
  then show "uint (sat_add (sat_mul r 10000) (sat_mul a (ucast (10000 - fee)))) = 10000 * uint r + uint a * ?f"
    using r by (simp add: uint_sat_add a uint_sat_mul [of r])
qed

interpretation v2_by_score: total_comparison
  "\<lambda>l r. total_le (sizing_score l pri tox) (sizing_score r pri tox)" for pri tox
  by (rule total_comparison_key) (rule f64_total.total_comparison_axioms)

lemma v2_swap_effects:
  assumes "apply_swap_exact_in p ti to a = Some (p', res)"
    and "v2_token0 p \<noteq> v2_token1 p"
    and "reserves_for p ti to = Some (rin, rout)" "fits rin a"
  shows "reserves_for p' ti to = Some (rin + a, rout - sr_amount_out res)"
    and "uint (rin + a) = uint rin + uint a"
    and "uint (rout - sr_amount_out res) = uint rout - uint (sr_amount_out res)"
    and "0 < uint rout - uint (sr_amount_out res)"
    and "(v2_pair p', v2_token0 p', v2_token1 p', v2_fee_bps p')
         = (v2_pair p, v2_token0 p, v2_token1 p, v2_fee_bps p)"
    and "uint (v2_reserve0 p) * uint (v2_reserve1 p) \<le> uint (v2_reserve0 p') * uint (v2_reserve1 p')"
proof -
  from assms(1,3) obtain out where q: "amount_out_exact_in a rin rout (v2_fee_bps p) = Some out"
    and out: "0 < uint out" "uint out < uint rout" "sr_amount_out res = out"
    and p': "p' = (if ti = v2_token0 p
           then p\<lparr>v2_reserve0 := sat_add rin a, v2_reserve1 := sat_sub rout out\<rparr>
           else p\<lparr>v2_reserve1 := sat_add rin a, v2_reserve0 := sat_sub rout out\<rparr>)"
    by (elim apply_swap_exact_in_SomeD) auto
  have sum: "uint rin + uint a < 2 ^ 256" using assms(4) by (simp add: fits_def)
  have in_eq: "sat_add rin a = rin + a" using sum by (simp add: sat_add_def)
  have out_eq: "sat_sub rout out = rout - out" using out by (simp add: sat_sub_def word_le_def)
  show in_val: "uint (rin + a) = uint rin + uint a" using sum by (simp add: uint_add_small)
  show out_val: "uint (rout - sr_amount_out res) = uint rout - uint (sr_amount_out res)"
    using uint_sat_sub [of rout out] out by (simp add: out_eq)
  show "0 < uint rout - uint (sr_amount_out res)" using out by simp
  note side = reserves_for_cases [OF assms(3)]
  show "reserves_for p' ti to = Some (rin + a, rout - sr_amount_out res)"
    using side assms(2) out by (auto simp: p' in_eq out_eq reserves_for_def)
  show "(v2_pair p', v2_token0 p', v2_token1 p', v2_fee_bps p')
         = (v2_pair p, v2_token0 p, v2_token1 p, v2_fee_bps p)"
    by (simp add: p')
  have "uint rin * uint rout \<le> uint (rin + a) * uint (rout - out)"
    using v2_quoter.product_grows [OF q assms(4)] in_val out_val out by simp
  then show "uint (v2_reserve0 p) * uint (v2_reserve1 p) \<le> uint (v2_reserve0 p') * uint (v2_reserve1 p')"
    using side assms(2) by (auto simp: p' in_eq out_eq mult.commute)
qed

section \<open>Properties\<close>

text \<open>
  C8: a successful V2 swap, with reserves inside the range where the quote's arithmetic does not
  saturate, adds the input to one reserve, pays the output from the other, leaves that reserve
  positive, keeps the identity of the pool, and never lowers the product of the two reserves.
\<close>

theorem v2_swap_constant_product:
  assumes "apply_swap_exact_in p ti to a = Some (p', res)"
    and "v2_token0 p \<noteq> v2_token1 p"
    and "reserves_for p ti to = Some (rin, rout)" "fits rin a"
  shows "reserves_for p' ti to = Some (rin + a, rout - sr_amount_out res)
    \<and> uint (rin + a) = uint rin + uint a
    \<and> uint (rout - sr_amount_out res) = uint rout - uint (sr_amount_out res)
    \<and> 0 < uint rout - uint (sr_amount_out res)
    \<and> (v2_pair p', v2_token0 p', v2_token1 p', v2_fee_bps p')
         = (v2_pair p, v2_token0 p, v2_token1 p, v2_fee_bps p)
    \<and> uint (v2_reserve0 p) * uint (v2_reserve1 p) \<le> uint (v2_reserve0 p') * uint (v2_reserve1 p')"
  by (intro conjI; rule v2_swap_effects [OF assms])

definition demo_pool :: v2_pool_state where
  "demo_pool = \<lparr>v2_pair = 0, v2_token0 = 1, v2_token1 = 2, v2_reserve0 = 10000,
                v2_reserve1 = 10000, v2_fee_bps = 30\<rparr>"

theorem v2_swap_constant_product_witness:
  "apply_swap_exact_in demo_pool 1 2 1000
     = Some (demo_pool\<lparr>v2_reserve0 := 11000, v2_reserve1 := 9094\<rparr>,
             \<lparr>sr_amount_in = 1000, sr_amount_out = 906, sr_new_reserve_in = 11000,
              sr_new_reserve_out = 9094, sr_price_impact_bps = 940\<rparr>)
   \<and> uint (v2_reserve0 demo_pool) * uint (v2_reserve1 demo_pool) \<le> uint (11000 :: u256) * uint (9094 :: u256)"
proof -
  have run: "apply_swap_exact_in demo_pool 1 2 1000
     = Some (demo_pool\<lparr>v2_reserve0 := 11000, v2_reserve1 := 9094\<rparr>,
             \<lparr>sr_amount_in = 1000, sr_amount_out = 906, sr_new_reserve_in = 11000,
              sr_new_reserve_out = 9094, sr_price_impact_bps = 940\<rparr>)"
    by code_simp
  have r: "reserves_for demo_pool 1 2 = Some (10000, 10000)" by code_simp
  have f: "fits 10000 1000" by code_simp
  have d: "v2_token0 demo_pool \<noteq> v2_token1 demo_pool" by code_simp
  show ?thesis using run v2_swap_constant_product [OF run d r f] by simp
qed

text \<open>
  Swapping an amount through a pool and swapping the whole output straight back through the
  resulting pool returns at most the amount put in.
\<close>

theorem v2_no_free_round_trip:
  assumes "apply_swap_exact_in p ti to a = Some (p', res)"
    and "v2_token0 p \<noteq> v2_token1 p"
    and "reserves_for p ti to = Some (rin, rout)" "fits rin a" "fits rout 0"
    and "apply_swap_exact_in p' to ti (sr_amount_out res) = Some (p'', res')"
  shows "uint (sr_amount_out res') \<le> uint a"
proof -
  note eff = v2_swap_effects [OF assms(1-4)]
  let ?out = "sr_amount_out res"
  from assms(1,3) have q: "amount_out_exact_in a rin rout (v2_fee_bps p) = Some ?out"
    by (elim apply_swap_exact_in_SomeD) auto
  have ret: "reserves_for p' to ti = Some (rout - ?out, rin + a)"
    using eff(1,5) assms(2) by (auto simp: reserves_for_def split: if_splits)
  with assms(6) eff(5) have q': "amount_out_exact_in ?out (rout - ?out) (rin + a) (v2_fee_bps p) = Some (sr_amount_out res')"
    by (elim apply_swap_exact_in_SomeD) auto
  have "fits (rout - ?out) ?out" using eff(3) assms(5) by (simp add: fits_def)
  from v2_quoter.no_free_round_trip [OF q assms(4) eff(2,3) q' this] show ?thesis .
qed

theorem v2_no_free_round_trip_witness:
  "apply_swap_exact_in (demo_pool\<lparr>v2_reserve0 := 11000, v2_reserve1 := 9094\<rparr>) 2 1 906
     = Some (demo_pool\<lparr>v2_reserve0 := 10007, v2_reserve1 := 10000\<rparr>,
             \<lparr>sr_amount_in = 906, sr_amount_out = 993, sr_new_reserve_in = 10000,
              sr_new_reserve_out = 10007, sr_price_impact_bps = 931\<rparr>)
   \<and> uint (993 :: u256) \<le> uint (1000 :: u256)"
proof -
  have run: "apply_swap_exact_in demo_pool 1 2 1000
     = Some (demo_pool\<lparr>v2_reserve0 := 11000, v2_reserve1 := 9094\<rparr>,
             \<lparr>sr_amount_in = 1000, sr_amount_out = 906, sr_new_reserve_in = 11000,
              sr_new_reserve_out = 9094, sr_price_impact_bps = 940\<rparr>)"
    by code_simp
  have run': "apply_swap_exact_in (demo_pool\<lparr>v2_reserve0 := 11000, v2_reserve1 := 9094\<rparr>) 2 1 906
     = Some (demo_pool\<lparr>v2_reserve0 := 10007, v2_reserve1 := 10000\<rparr>,
             \<lparr>sr_amount_in = 906, sr_amount_out = 993, sr_new_reserve_in = 10000,
              sr_new_reserve_out = 10007, sr_price_impact_bps = 931\<rparr>)"
    by code_simp
  have r: "reserves_for demo_pool 1 2 = Some (10000, 10000)" by code_simp
  have f: "fits 10000 1000" "fits 10000 0" by code_simp+
  have d: "v2_token0 demo_pool \<noteq> v2_token1 demo_pool" by code_simp
  show ?thesis using run' v2_no_free_round_trip [OF run d r f, simplified, OF run'] by simp
qed

text \<open>
  Outside its guards and without overflow the quote is the integer part of
  \<open>a * f * q / (10000 * r + a * f)\<close> with \<open>f = 10000 - fee\<close>, and it refuses exactly a zero
  amount, a zero reserve and a fee of 100 percent or more.
\<close>

theorem v2_quote_exact:
  assumes "fits r a" "10000 * uint a * uint q < 2 ^ 256"
  shows "amount_out_exact_in a r q fee =
     (if a = 0 \<or> r = 0 \<or> q = 0 \<or> 10000 \<le> fee then None
      else Some (word_of_int (uint a * (10000 - uint fee) * uint q
                              div (10000 * uint r + uint a * (10000 - uint fee)))))"
proof (cases "a = 0 \<or> r = 0 \<or> q = 0 \<or> 10000 \<le> fee")
  case True
  then show ?thesis by (auto simp: amount_out_exact_in_def)
next
  case False
  then have fee: "uint fee < 10000" by (simp add: not_le word_less_def)
  note parts = v2_quote_parts [OF fee assms]
  have "sat_add (sat_mul r 10000) (sat_mul a (ucast (10000 - fee))) \<noteq> 0"
    using False fee parts(2) by (auto simp: word_pos_iff intro!: add_pos_nonneg)
  then have "amount_out_exact_in a r q fee = Some (sat_mul (sat_mul a (ucast (10000 - fee))) q
        div sat_add (sat_mul r 10000) (sat_mul a (ucast (10000 - fee))))"
    using False by (auto simp: amount_out_exact_in_def Let_def)
  also have "\<dots> = Some (word_of_int (uint a * (10000 - uint fee) * uint q
                              div (10000 * uint r + uint a * (10000 - uint fee))))"
    by (metis parts uint_div_word word_of_int_uint)
  finally show ?thesis using False by auto
qed

theorem v2_quote_exact_witness:
  "amount_out_exact_in 1000 10000 10000 30 = Some 906"
  using v2_quote_exact [of 10000 1000 10000 30] by (simp add: fits_def)

text \<open>
  Every sizing candidate commits \<open>bps/10000\<close> of the capital cap (rounded down), never more
  than the cap when the fraction is at most 100 percent, is quoted by the pool, and pays back the
  input, the gas and a positive net profit out of its output.
\<close>

theorem v2_size_candidates_profitable:
  assumes "c \<in> set (size_candidates rin rout cap gas fee fs)"
  shows "sc_capital_fraction_bps c \<in> set fs
    \<and> sc_amount_in c = sat_mul cap (ucast (sc_capital_fraction_bps c)) div 10000
    \<and> (sc_capital_fraction_bps c \<le> 10000 \<longrightarrow> sc_amount_in c \<le> cap)
    \<and> amount_out_exact_in (sc_amount_in c) rin rout fee = Some (sc_amount_out c)
    \<and> 0 < uint (sc_net_profit_wei c)
    \<and> uint (sc_amount_out c) = uint (sc_amount_in c) + uint gas + uint (sc_net_profit_wei c)
    \<and> sc_self_slippage_bps c \<le> 10000"
proof -
  from size_candidates_member [OF assms] obtain bps where bps: "bps \<in> set fs"
    and c: "size_candidate_for rin rout cap gas fee bps = Some c" by blast
  from c have d: "sc_capital_fraction_bps c = bps"
    "sc_amount_in c = sat_mul cap (ucast bps) div 10000"
    "amount_out_exact_in (sc_amount_in c) rin rout fee = Some (sc_amount_out c)"
    "sc_net_profit_wei c = sat_sub (sat_sub (sc_amount_out c) (sc_amount_in c)) gas"
    "sc_net_profit_wei c \<noteq> 0"
    "sc_self_slippage_bps c = price_impact_bps (sc_amount_in c) (sc_amount_out c) rin rout"
    by (auto simp: size_candidate_for_def Let_def split: if_splits option.splits)
  have net: "0 < uint (sc_net_profit_wei c)" using d(5) by (simp add: word_pos_iff)
  have "uint (sc_amount_out c) = uint (sc_amount_in c) + uint gas + uint (sc_net_profit_wei c)"
    using net uint_nonneg [of gas] unfolding d(4) uint_sat_sub by (simp add: max_def split: if_splits)
  moreover have "bps \<le> 10000 \<longrightarrow> sc_amount_in c \<le> cap"
    unfolding d(2) by (rule impI, rule bps_share_le)
  ultimately show ?thesis using bps d net by (simp add: price_impact_bps_le)
qed

definition demo_candidate :: size_candidate where
  "demo_candidate = \<lparr>sc_capital_fraction_bps = 500, sc_amount_in = 50, sc_amount_out = 99,
     sc_gross_profit_wei = 49, sc_net_profit_wei = 39, sc_roi_bps = 7800, sc_self_slippage_bps = 100\<rparr>"

theorem v2_size_candidates_profitable_witness:
  "size_candidates 10000 20000 1000 10 30 [500, 0] = [demo_candidate]
   \<and> uint (sc_amount_out demo_candidate)
      = uint (sc_amount_in demo_candidate) + uint (10 :: u256) + uint (sc_net_profit_wei demo_candidate)"
proof -
  have run: "size_candidates 10000 20000 1000 10 30 [500, 0] = [demo_candidate]" by code_simp
  then have "demo_candidate \<in> set (size_candidates 10000 20000 1000 10 30 [500, 0])" by simp
  from v2_size_candidates_profitable [OF this] run show ?thesis by blast
qed

text \<open>
  The size chosen for a V2 trade is one of the candidates and no candidate has a larger score
  in the total order of floating-point numbers; there is a choice whenever there is a candidate.
\<close>

theorem v2_best_size_is_maximal:
  "(select_best_size_candidate cs pri tox = None \<longleftrightarrow> cs = [])
   \<and> (\<forall>best. select_best_size_candidate cs pri tox = Some best \<longrightarrow>
        best \<in> set cs \<and> (\<forall>c\<in>set cs.
          total_le (sizing_score c (fclamp 0 (dec 15 1) pri) (fclamp 0 1 tox))
                   (sizing_score best (fclamp 0 (dec 15 1) pri) (fclamp 0 1 tox))))"
  using v2_by_score.max_by_in v2_by_score.max_by_upper
  by (auto simp: select_best_size_candidate_def Let_def)

theorem v2_best_size_is_maximal_witness:
  "select_best_size_candidate
     [demo_candidate, demo_candidate\<lparr>sc_net_profit_wei := 40\<rparr>] (dec 5 1) (dec 5 1)
     = Some (demo_candidate\<lparr>sc_net_profit_wei := 40\<rparr>)
   \<and> demo_candidate\<lparr>sc_net_profit_wei := 40\<rparr> \<in> {demo_candidate, demo_candidate\<lparr>sc_net_profit_wei := 40\<rparr>}"
proof -
  have run: "select_best_size_candidate
     [demo_candidate, demo_candidate\<lparr>sc_net_profit_wei := 40\<rparr>] (dec 5 1) (dec 5 1)
     = Some (demo_candidate\<lparr>sc_net_profit_wei := 40\<rparr>)" by code_simp
  from v2_best_size_is_maximal [of "[demo_candidate, demo_candidate\<lparr>sc_net_profit_wei := 40\<rparr>]" "dec 5 1" "dec 5 1"] run
  show ?thesis by simp
qed

end
