(* ===== verification/UniswapV3.thy ===== *)
theory UniswapV3
  imports F64
begin

text \<open>
  The concentrated-liquidity pool model of \<open>src/mev/amm/uniswap_v3.rs\<close>. The swap is computed in
  floating point from the pool's current liquidity and square-root price; only the tick of the
  new price needs the logarithm of the mathematical library, which is a parameter. Tick indices
  are 32-bit integers kept as \<^typ>\<open>int\<close>; \<open>liquidity_net\<close> is a 256-bit two's complement word.
\<close>

section \<open>State and results\<close>

record v3_tick =
  tick_index :: int
  tick_liquidity_net :: u256

record v3_pool_state =
  v3_pool :: address
  v3_token0 :: address
  v3_token1 :: address
  v3_sqrt_price_x96 :: u256
  v3_liquidity :: u256
  v3_current_tick :: int
  v3_fee_bps :: u64
  v3_initialized_ticks :: "v3_tick list"

record v3_swap_result =
  v3r_amount_in :: u256
  v3r_amount_out :: u256
  v3r_sqrt_price_x96_after :: u256
  v3r_tick_after :: int
  v3r_price_impact_bps :: u64

record v3_size_candidate =
  v3c_capital_fraction_bps :: u64
  v3c_amount_in :: u256
  v3c_amount_out :: u256
  v3c_gross_profit_wei :: u256
  v3c_net_profit_wei :: u256
  v3c_roi_bps :: u64
  v3c_self_slippage_bps :: u64

section \<open>Operations\<close>

definition Q96_F64 :: f64 where
  "Q96_F64 = dec 79228162514264337593543950336 0"

definition u256_to_f64 :: "u256 \<Rightarrow> f64 option" where
  "u256_to_f64 value = Some (of_uw value)"

definition f64_to_u256 :: "f64 \<Rightarrow> u256 option" where
  "f64_to_u256 value = (if \<not> is_finite value \<or> value < 0 then None else fmt0_u256 value)"

text \<open>\<open>x as i32\<close>: saturating truncation.\<close>

definition f_as_i32 :: "f64 \<Rightarrow> int" where
  "f_as_i32 x =
     (case x of NaN \<Rightarrow> 0
      | Infty s \<Rightarrow> (if s then - (2 ^ 31) else 2 ^ 31 - 1)
      | Fin s m e \<Rightarrow>
          max (- (2 ^ 31)) (min (2 ^ 31 - 1) (if s then - magnitude m e else magnitude m e)))"

definition sqrt_price_to_tick :: "libm \<Rightarrow> f64 \<Rightarrow> int" where
  "sqrt_price_to_tick lm sqrt_price =
     (let price = sqrt_price * sqrt_price
      in f_as_i32 (ffloor (m_ln lm price / m_ln lm (dec 10001 4))))"

definition v3_price_impact_bps :: "f64 \<Rightarrow> f64 \<Rightarrow> u64" where
  "v3_price_impact_bps sqrt_before sqrt_after =
     (let price_before = sqrt_before * sqrt_before;
          price_after = sqrt_after * sqrt_after
      in if price_before \<le> 0 then 10000
         else f_as_word (fmax (fmin ((\<bar>price_after - price_before\<bar> / price_before) * dec 10000 0)
                               (dec 10000 0)) 0))"

text \<open>Whether a tick lies between the two ticks of a price move, and the loop over the ticks.\<close>

definition tick_crossed :: "bool \<Rightarrow> int \<Rightarrow> int \<Rightarrow> v3_tick \<Rightarrow> bool" where
  "tick_crossed ascending before after tick =
     (if ascending then before < tick_index tick \<and> tick_index tick \<le> after
      else tick_index tick \<le> before \<and> after < tick_index tick)"

definition cross_tick :: "u256 \<Rightarrow> v3_tick \<Rightarrow> u256" where
  "cross_tick liquidity tick =
     (if 0 \<le> sint (tick_liquidity_net tick) then sat_add liquidity (tick_liquidity_net tick)
      else sat_sub liquidity (- tick_liquidity_net tick))"

fun cross_ticks :: "bool \<Rightarrow> int \<Rightarrow> int \<Rightarrow> u256 \<Rightarrow> v3_tick list \<Rightarrow> u256" where
  "cross_ticks ascending before after liquidity [] = liquidity"
| "cross_ticks ascending before after liquidity (tick # ticks) =
     (if tick_crossed ascending before after tick
      then cross_ticks ascending before after (cross_tick liquidity tick) ticks
      else cross_ticks ascending before after liquidity ticks)"

definition apply_crossed_tick_liquidity :: "u256 \<Rightarrow> int \<Rightarrow> int \<Rightarrow> v3_tick list \<Rightarrow> u256" where
  "apply_crossed_tick_liquidity liquidity before after ticks =
     (if before = after then liquidity else cross_ticks (before < after) before after liquidity ticks)"

text \<open>The two branches of the price move: the new square-root price and the output.\<close>

definition v3_move :: "bool \<Rightarrow> f64 \<Rightarrow> f64 \<Rightarrow> f64 \<Rightarrow> f64 \<times> f64" where
  "v3_move zero_for_one liquidity sqrt_before amount =
     (if zero_for_one
      then let sqrt_after = liquidity * sqrt_before / (liquidity + amount * sqrt_before)
           in (sqrt_after, liquidity * (sqrt_before - sqrt_after))
      else let sqrt_after = sqrt_before + amount / liquidity
           in (sqrt_after, liquidity * (1 / sqrt_before - 1 / sqrt_after)))"

definition simulate_exact_in ::
  "libm \<Rightarrow> v3_pool_state \<Rightarrow> address \<Rightarrow> address \<Rightarrow> u256 \<Rightarrow> (v3_pool_state \<times> v3_swap_result) option" where
  "simulate_exact_in lm p token_in token_out amount_in =
     (if amount_in = 0 \<or> v3_liquidity p = 0 then None
      else let zero_for_one = (token_in = v3_token0 p \<and> token_out = v3_token1 p);
               one_for_zero = (token_in = v3_token1 p \<and> token_out = v3_token0 p)
      in if \<not> zero_for_one \<and> \<not> one_for_zero then None
      else let amount_less_fee = sat_mul amount_in (ucast (sat_sub 10000 (v3_fee_bps p))) div 10000;
               sqrt_before = of_uw (v3_sqrt_price_x96 p) / Q96_F64;
               liquidity = of_uw (v3_liquidity p);
               amount = of_uw amount_less_fee
      in if sqrt_before \<le> 0 \<or> liquidity \<le> 0 then None
      else case v3_move zero_for_one liquidity sqrt_before amount of (sqrt_after, amount_out_f64) \<Rightarrow>
        if \<not> is_finite sqrt_after \<or> \<not> is_finite amount_out_f64 \<or> amount_out_f64 \<le> 0 then None
        else case f64_to_u256 (sqrt_after * Q96_F64) of
            None \<Rightarrow> None
          | Some sqrt_price_x96_after \<Rightarrow>
              let tick_after = sqrt_price_to_tick lm sqrt_after;
                  impact = v3_price_impact_bps sqrt_before sqrt_after
              in case f64_to_u256 amount_out_f64 of
                  None \<Rightarrow> None
                | Some amount_out \<Rightarrow>
                    Some (p\<lparr>v3_sqrt_price_x96 := sqrt_price_x96_after,
                            v3_current_tick := tick_after,
                            v3_liquidity := apply_crossed_tick_liquidity (v3_liquidity p)
                              (v3_current_tick p) tick_after (v3_initialized_ticks p)\<rparr>,
                          \<lparr>v3r_amount_in = amount_in, v3r_amount_out = amount_out,
                           v3r_sqrt_price_x96_after = sqrt_price_x96_after,
                           v3r_tick_after = tick_after, v3r_price_impact_bps = impact\<rparr>))"

section \<open>Facts about the operations\<close>

lemma f_as_i32_bounds: "- (2 ^ 31) \<le> f_as_i32 x \<and> f_as_i32 x \<le> 2 ^ 31 - 1"
  by (cases x) (simp_all add: f_as_i32_def)

lemma tick_crossed_swap:
  "before \<noteq> after \<Longrightarrow> tick_crossed (before < after) before after t = tick_crossed (after < before) after before t"
  by (auto simp: tick_crossed_def)

lemma cross_ticks_swap:
  "before \<noteq> after \<Longrightarrow>
   cross_ticks (before < after) before after l ts = cross_ticks (after < before) after before l ts"
  by (induction ts arbitrary: l) (simp_all add: tick_crossed_swap)

lemma uint_neg_of_sint_neg:
  assumes neg: "sint (w :: u256) < 0"
  shows "uint (- w) = - sint w"
proof -
  have b: "- (2 ^ 255) \<le> sint w" using sint_ge [of w] by simp
  have "- w = word_of_int (- sint w)" by simp
  then have "uint (- w) = take_bit 256 (- sint w)" by (simp only: uint_word_of_int_eq) simp
  also have "\<dots> = - sint w" using neg b by (simp add: take_bit_int_eq_self_iff)
  finally show ?thesis .
qed

lemma Q96_F64_value: "is_finite Q96_F64" "fval Q96_F64 = 2 powi 96"
proof -
  have q: "Q96_F64 = Fin False (2 ^ 52) 44" by code_simp
  show "is_finite Q96_F64" "fval Q96_F64 = 2 powi 96"
    unfolding q by (simp_all add: signed_def power_int_def)
qed

text \<open>Scaling a rounded integer by a power of two is exact.\<close>

lemma repr_rnd_int_scaled:
  assumes "0 \<le> n" "j \<le> 1000"
  shows "repr (rnd (of_int n) / 2 powi j)"
proof (cases "n = 0")
  case False
  with assms have n: "0 < real_of_int n" "1 \<le> real_of_int n" by auto
  then have "0 \<le> \<lfloor>log 2 (real_of_int n)\<rfloor>" by simp
  then have q: "- 52 \<le> ulpe (of_int n)" by (simp add: ulpe_def)
  have "rnd (of_int n) / 2 powi j
      = of_int (rne_real (of_int n / 2 powi ulpe (of_int n))) * 2 powi (ulpe (of_int n) - j)"
    by (simp add: rnd_pos [OF n(1)] power_int_diff)
  also have "repr \<dots>" using rne_ulpe_bounds [OF n(1)] q assms(2) by (intro reprI) auto
  finally show ?thesis .
qed simp

lemma sqrt_before_value:
  fixes s :: u256
  shows "is_finite (of_uw s / Q96_F64)" "fval (of_uw s / Q96_F64) = fval (of_uw s) / 2 powi 96"
proof -
  let ?v = "fval (of_uw s) / 2 powi 96"
  have r: "rounds_to (of_uw s / Q96_F64) ?v"
    using divide_f64_rounds_to [of "of_uw s" Q96_F64] by (simp add: Q96_F64_value of_uw_u256(1))
  have "repr ?v" unfolding of_uw_u256(2) by (rule repr_rnd_int_scaled) simp_all
  then have v: "rnd ?v = ?v" by (rule rnd_repr)
  have "?v \<le> 2 powi 256 / 1" "0 \<le> ?v"
    using of_uw_u256(3,4) [of s] by (intro frac_le, auto simp: power_int_def)
  then have "\<bar>?v\<bar> < fbig" using pow2_less_fbig [of 256] by linarith
  then have f: "is_finite (of_uw s / Q96_F64)" using r v fbig_pos by (auto simp: rounds_to_def)
  show "is_finite (of_uw s / Q96_F64)" "fval (of_uw s / Q96_F64) = ?v"
    using f rounds_to_finite [OF r] v by auto
qed

lemma rnd_sqrt_before: "rnd (fval (of_uw (s :: u256) / Q96_F64)) = fval (of_uw s / Q96_F64)"
  using divide_f64_rounds_to [of "of_uw s" Q96_F64] by (intro rnd_fval_rounded) (simp add: Q96_F64_value of_uw_u256(1))

text \<open>The new price, read back: it stays on the side of the old one that the move is on.\<close>

lemma new_sqrt_price:
  assumes w: "f64_to_u256 (x * Q96_F64) = Some w"
  shows "fval x \<le> fval (of_uw s / Q96_F64) \<Longrightarrow> of_uw w \<le> of_uw (s :: u256)"
    and "fval (of_uw s / Q96_F64) \<le> fval x \<Longrightarrow> of_uw s \<le> of_uw w"
proof -
  have f: "is_finite (x * Q96_F64)" and u: "uint w = rne_real (fval (x * Q96_F64))"
    using w fmt0_u256_value [of "x * Q96_F64" w] by (auto simp: f64_to_u256_def split: if_splits)
  let ?n = "rnd (of_int (uint s))"
  obtain k where k: "?n = of_int k" using rnd_of_int_in_Ints [of "uint s"] by (auto elim: Ints_cases)
  have xv: "fval (x * Q96_F64) = rnd (fval x * 2 powi 96)" using fval_times [OF f] Q96_F64_value by simp
  have sv: "fval (of_uw s / Q96_F64) * 2 powi 96 = ?n"
    by (simp add: sqrt_before_value of_uw_u256(2))
  have rr: "rnd ?n = ?n" by (rule rnd_repr [OF repr_rnd])
  { assume "fval x \<le> fval (of_uw s / Q96_F64)"
    then have "fval x * 2 powi 96 \<le> ?n" unfolding sv [symmetric] by simp
    then have "fval (x * Q96_F64) \<le> of_int k" using rnd_mono xv rr k by metis
    then have "real_of_int (uint w) \<le> ?n" unfolding u k by (simp only: rne_real_le_int of_int_le_iff)
    from rnd_mono [OF this] rr show "of_uw w \<le> of_uw s" by (simp add: less_eq_f64_iff of_uw_u256)
  }
  { assume "fval (of_uw s / Q96_F64) \<le> fval x"
    then have "?n \<le> fval x * 2 powi 96" unfolding sv [symmetric] by simp
    then have "of_int k \<le> fval (x * Q96_F64)" using rnd_mono xv rr k by metis
    then have "?n \<le> real_of_int (uint w)" unfolding u k by (simp only: rne_real_ge_int of_int_le_iff)
    from rnd_mono [OF this] rr show "of_uw s \<le> of_uw w" by (simp add: less_eq_f64_iff of_uw_u256)
  }
qed

lemma product_pos_right:
  assumes "is_finite (x * y)" "0 < fval (x * y)" "0 < fval x"
  shows "0 < fval y"
  using rnd_pos_imp [of "fval x * fval y"] assms fval_times [OF assms(1)]
  by (simp add: zero_less_mult_iff)

lemma v3_move_direction:
  assumes m: "v3_move z l s a = (sa, out)" and fin: "is_finite sa" "is_finite out" and pos: "0 < fval out"
    and l: "is_finite l" "0 < fval l" and s: "is_finite s" "0 < fval s" "rnd (fval s) = fval s"
    and a: "is_finite a" "0 \<le> fval a"
  shows "z \<Longrightarrow> fval sa \<le> fval s" and "\<not> z \<Longrightarrow> fval s \<le> fval sa"
proof -
  { assume z
    then have o: "out = l * (s - sa)" using m by (auto simp: v3_move_def Let_def)
    have "is_finite (s - sa)" using finite_timesD fin(2) unfolding o by blast
    moreover have "0 < fval (s - sa)" using product_pos_right fin(2) pos l(2) unfolding o by blast
    ultimately show "fval sa \<le> fval s"
      using rnd_pos_imp [of "fval s - fval sa"] fval_minus [of s sa] by simp }
  { assume "\<not> z"
    then have o: "sa = s + a / l" using m by (auto simp: v3_move_def Let_def)
    have q: "is_finite (a / l)" using finite_plusD fin(1) unfolding o by blast
    have "0 \<le> fval (a / l)" using fval_divide [OF q] a l by (simp add: rnd_nonneg)
    then show "fval s \<le> fval sa"
      using fval_plus [of s "a / l"] fin(1) s(3) rnd_mono [of "fval s" "fval s + fval (a / l)"]
      by (simp add: o) }
qed

lemma fval_divide_nonneg:
  assumes "is_finite (x / y)" "0 \<le> fval x" "0 \<le> fval y"
  shows "0 \<le> fval (x / y)"
proof (cases "is_finite x \<and> is_finite y \<and> fval y \<noteq> 0")
  case True
  then show ?thesis using assms fval_divide [OF assms(1)] by (simp add: rnd_nonneg)
next
  case False
  then show ?thesis using assms(1) by (cases x; cases y) (auto simp: signed_def split: if_splits)
qed

lemma product_le_of_difference:
  assumes fin: "is_finite (l * (s - t))" and l: "0 < fval l" and t: "0 \<le> fval t"
    and s: "rnd (fval s) = fval s"
  shows "l * (s - t) \<le> l * s"
proof -
  have f: "is_finite l" "is_finite (s - t)" "is_finite s"
    using finite_timesD [OF fin] finite_minusD [of s t] by auto
  have "fval (s - t) \<le> fval s"
    using fval_minus [OF f(2)] rnd_mono [of "fval s - fval t" "fval s"] s t by simp
  then show ?thesis
    using rounds_to_mono [OF times_f64_rounds_to times_f64_rounds_to, of l "s - t" l s] f l by simp
qed

lemma v3_move_output:
  assumes m: "v3_move z l s a = (sa, out)" and fin: "is_finite sa" "is_finite out"
    and l: "is_finite l" "0 < fval l" and s: "is_finite s" "0 < fval s" "rnd (fval s) = fval s"
    and a: "is_finite a" "0 \<le> fval a"
  shows "out \<le> (if z then l * s else l * (1 / s))"
proof (cases z)
  case True
  then have o: "sa = l * s / (l + a * s)" "out = l * (s - sa)"
    using m by (auto simp: v3_move_def Let_def)
  have nn: "0 \<le> fval (x * y)" if "0 \<le> fval x" "0 \<le> fval y" for x y
    using fval_times [of x y] that by (cases "x * y") (auto simp: rnd_nonneg simp del: fval.simps(3))
  have nn': "0 \<le> fval (x + y)" if "0 \<le> fval x" "0 \<le> fval y" for x y
    using fval_plus [of x y] that by (cases "x + y") (auto simp: rnd_nonneg simp del: fval.simps(3))
  have "0 \<le> fval (l * s)" "0 \<le> fval (l + a * s)" using nn nn' a(2) l(2) s(2) by simp_all
  then have "0 \<le> fval sa" using fval_divide_nonneg [of "l * s" "l + a * s"] fin(1) o(1) by simp
  then show ?thesis using product_le_of_difference [OF _ l(2) _ s(3)] fin(2) True o(2) by simp
next
  case False
  then have o: "sa = s + a / l" "out = l * (1 / s - 1 / sa)"
    using m by (auto simp: v3_move_def Let_def)
  have f: "is_finite (1 / s)" "is_finite (1 / sa)"
    using finite_minusD finite_timesD fin(2) unfolding o(2) by blast+
  have sa: "0 \<le> fval sa"
    using fval_plus [of s "a / l"] fin(1) finite_plusD [of s "a / l"] fval_divide_nonneg [of a l] a l s
    by (simp add: o(1) rnd_nonneg)
  have t: "0 \<le> fval (1 / sa)" using fval_divide_nonneg [OF f(2)] sa by simp
  have "rnd (fval (1 / s)) = fval (1 / s)"
    using divide_f64_rounds_to [of 1 s] s by (intro rnd_fval_rounded) auto
  then show ?thesis using product_le_of_difference [OF _ l(2) t] fin(2) False o(2) by simp
qed

lemma f64_to_u256_mono:
  assumes "f64_to_u256 x = Some v" "f64_to_u256 y = Some w" "x \<le> y"
  shows "v \<le> w"
proof -
  have "fmt0_u256 x = Some v" "fmt0_u256 y = Some w"
    using assms(1,2) by (auto simp: f64_to_u256_def split: if_splits)
  note u = this [THEN fmt0_u256_value(1)] this [THEN fmt0_u256_value(2)]
  then have "fval x \<le> fval y" using assms(3) by (simp add: less_eq_f64_iff)
  then show ?thesis unfolding word_le_def u(3,4) by (rule rne_real_mono)
qed

text \<open>What a successful simulation computed.\<close>

lemma simulate_exact_in_SomeD:
  assumes "simulate_exact_in lm p token_in token_out amount_in = Some (p', r)"
  defines "z \<equiv> token_in = v3_token0 p \<and> token_out = v3_token1 p"
    and "s \<equiv> of_uw (v3_sqrt_price_x96 p) / Q96_F64"
    and "l \<equiv> of_uw (v3_liquidity p)"
    and "a \<equiv> of_uw (sat_mul amount_in (ucast (sat_sub 10000 (v3_fee_bps p))) div 10000)"
  obtains sa out where
    "v3_move z l s a = (sa, out)" "is_finite sa" "is_finite out" "0 < fval out"
    "0 < fval s" "0 < fval l"
    "f64_to_u256 (sa * Q96_F64) = Some (v3r_sqrt_price_x96_after r)"
    "f64_to_u256 out = Some (v3r_amount_out r)"
    "v3r_tick_after r = sqrt_price_to_tick lm sa"
    "v3r_price_impact_bps r = v3_price_impact_bps s sa"
    "v3r_amount_in r = amount_in"
    "p' = p\<lparr>v3_sqrt_price_x96 := v3r_sqrt_price_x96_after r, v3_current_tick := v3r_tick_after r,
            v3_liquidity := apply_crossed_tick_liquidity (v3_liquidity p) (v3_current_tick p)
              (v3r_tick_after r) (v3_initialized_ticks p)\<rparr>"
    "token_in = v3_token0 p \<and> token_out = v3_token1 p \<or> token_in = v3_token1 p \<and> token_out = v3_token0 p"
proof -
  obtain sa out where m: "v3_move z l s a = (sa, out)" by (cases "v3_move z l s a")
  have fs: "is_finite s" "is_finite l" unfolding s_def l_def by (simp_all add: sqrt_before_value of_uw_u256)
  have *: "\<not> s \<le> 0" "\<not> l \<le> 0" "is_finite sa" "is_finite out" "\<not> out \<le> 0"
    "f64_to_u256 (sa * Q96_F64) = Some (v3r_sqrt_price_x96_after r)"
    "f64_to_u256 out = Some (v3r_amount_out r)"
    "v3r_tick_after r = sqrt_price_to_tick lm sa"
    "v3r_price_impact_bps r = v3_price_impact_bps s sa" "v3r_amount_in r = amount_in"
    "p' = p\<lparr>v3_sqrt_price_x96 := v3r_sqrt_price_x96_after r, v3_current_tick := v3r_tick_after r,
            v3_liquidity := apply_crossed_tick_liquidity (v3_liquidity p) (v3_current_tick p)
              (v3r_tick_after r) (v3_initialized_ticks p)\<rparr>"
    "token_in = v3_token0 p \<and> token_out = v3_token1 p \<or> token_in = v3_token1 p \<and> token_out = v3_token0 p"
    using assms(1) m unfolding simulate_exact_in_def Let_def z_def [symmetric] s_def [symmetric]
      l_def [symmetric] a_def [symmetric]
    by (auto simp: z_def split: if_splits option.splits)
  with fs show ?thesis using that [OF m] by (simp add: less_eq_f64_iff)
qed

lemma v3_price_impact_bps_le: "v3_price_impact_bps s t \<le> 10000"
proof -
  have d: "dec 10000 0 = of_uw (10000 :: u64)" by code_simp
  have "in_range 0 10000 (of_uw (10000 :: u64))"
    unfolding d [symmetric] by (rule within_dec) (simp_all add: bound_ok_numeral)
  then have "fmax (fmin x (of_uw (10000 :: u64))) 0 \<le> of_uw (10000 :: u64)" for x
    by (rule fmax_fmin_le)
  then show ?thesis unfolding v3_price_impact_bps_def Let_def d
    using f_as_word_le [of _ "10000 :: u64"] by (simp add: word_le_def)
qed

section \<open>Correctness of the swap simulation\<close>

text \<open>The exact liquidity after a list of ticks, in unbounded integers clamped to 256 bits.\<close>

definition net_liquidity :: "int \<Rightarrow> v3_tick \<Rightarrow> int" where
  "net_liquidity l t = max 0 (min (2 ^ 256 - 1) (l + sint (tick_liquidity_net t)))"

lemma uint_cross_tick: "uint (cross_tick l t) = net_liquidity (uint l) t"
proof (cases "0 \<le> sint (tick_liquidity_net t)")
  case True
  then have "uint (tick_liquidity_net t) = sint (tick_liquidity_net t)"
    using sint_lt [of "tick_liquidity_net t"] by (subst uint_sint) (simp add: take_bit_int_eq_self_iff)
  then show ?thesis using True uint_nonneg [of l]
    by (simp add: cross_tick_def net_liquidity_def uint_sat_add)
next
  case False
  then have "uint (- tick_liquidity_net t) = - sint (tick_liquidity_net t)"
    by (intro uint_neg_of_sint_neg) simp
  then show ?thesis using False uint_bounded [of l]
    by (simp add: cross_tick_def net_liquidity_def uint_sat_sub)
qed

lemma uint_cross_ticks:
  "uint (cross_ticks asc before after l ts)
     = foldl net_liquidity (uint l) (filter (tick_crossed asc before after) ts)"
  by (induction ts arbitrary: l) (simp_all add: uint_cross_tick)

text \<open>
  The liquidity after a price move is the starting liquidity plus the net liquidity of exactly
  the initialised ticks between the two prices, in list order, each sum clamped to 256 bits; no
  tick is crossed when the tick does not change.
\<close>

theorem v3_crossed_liquidity:
  "uint (apply_crossed_tick_liquidity l before after ts) =
     foldl net_liquidity (uint l)
       (filter (\<lambda>t. min before after < tick_index t \<and> tick_index t \<le> max before after) ts)"
proof (cases "before = after")
  case True
  then have "filter (\<lambda>t. min before after < tick_index t \<and> tick_index t \<le> max before after) ts = []"
    by (auto simp: filter_empty_conv)
  with True show ?thesis by (simp add: apply_crossed_tick_liquidity_def)
next
  case False
  then have "tick_crossed (before < after) before after
      = (\<lambda>t. min before after < tick_index t \<and> tick_index t \<le> max before after)"
    by (auto simp: tick_crossed_def fun_eq_iff)
  with False show ?thesis by (simp add: apply_crossed_tick_liquidity_def uint_cross_ticks)
qed

text \<open>
  The direction of the move does not enter: a price that falls through a tick adds the tick's
  net liquidity instead of removing it.
\<close>

lemma v3_crossing_ignores_direction:
  "apply_crossed_tick_liquidity l before after ts = apply_crossed_tick_liquidity l after before ts"
  by (simp add: apply_crossed_tick_liquidity_def cross_ticks_swap)

definition demo_v3_pool :: v3_pool_state where
  "demo_v3_pool = \<lparr>v3_pool = 0, v3_token0 = 1, v3_token1 = 2,
     v3_sqrt_price_x96 = 79228162514264337593543950336, v3_liquidity = 1000000,
     v3_current_tick = 0, v3_fee_bps = 30,
     v3_initialized_ticks = [\<lparr>tick_index = - 10, tick_liquidity_net = 500\<rparr>]\<rparr>"

text \<open>A linear approximation of the logarithm near one, for running the examples.\<close>

definition demo_libm :: libm where
  "demo_libm = \<lparr>m_exp = (\<lambda>x. 1 + x), m_ln = (\<lambda>x. x - 1), m_ln_1p = (\<lambda>x. x), m_powf = (\<lambda>x y. x)\<rparr>"

text \<open>
  A successful simulation moves the square-root price in the direction of the trade (down when
  token 0 is sold, up when token 1 is sold, as binary64 numbers), leaves the pool's identity, fee
  and ticks as they were, and reports the new price and tick of the pool it returns, an impact of
  at most 10000 basis points and a tick that fits in 32 bits.
\<close>

theorem v3_price_moves_with_trade:
  assumes run: "simulate_exact_in lm p token_in token_out amount_in = Some (p', r)"
  shows "(if token_in = v3_token0 p \<and> token_out = v3_token1 p
          then of_uw (v3_sqrt_price_x96 p') \<le> of_uw (v3_sqrt_price_x96 p)
          else of_uw (v3_sqrt_price_x96 p) \<le> of_uw (v3_sqrt_price_x96 p'))
    \<and> v3_pool p' = v3_pool p \<and> v3_token0 p' = v3_token0 p \<and> v3_token1 p' = v3_token1 p
    \<and> v3_fee_bps p' = v3_fee_bps p \<and> v3_initialized_ticks p' = v3_initialized_ticks p
    \<and> v3r_sqrt_price_x96_after r = v3_sqrt_price_x96 p' \<and> v3r_tick_after r = v3_current_tick p'
    \<and> v3r_price_impact_bps r \<le> 10000
    \<and> - (2 ^ 31) \<le> v3_current_tick p' \<and> v3_current_tick p' < 2 ^ 31"
proof -
  let ?z = "token_in = v3_token0 p \<and> token_out = v3_token1 p"
  from run obtain sa out where
    m: "v3_move ?z (of_uw (v3_liquidity p)) (of_uw (v3_sqrt_price_x96 p) / Q96_F64)
          (of_uw (sat_mul amount_in (ucast (sat_sub 10000 (v3_fee_bps p))) div 10000)) = (sa, out)"
      "is_finite sa" "is_finite out" "0 < fval out"
    and pos: "0 < fval (of_uw (v3_sqrt_price_x96 p) / Q96_F64)" "0 < fval (of_uw (v3_liquidity p))"
    and w: "f64_to_u256 (sa * Q96_F64) = Some (v3r_sqrt_price_x96_after r)"
    and r: "v3r_tick_after r = sqrt_price_to_tick lm sa"
      "v3r_price_impact_bps r = v3_price_impact_bps (of_uw (v3_sqrt_price_x96 p) / Q96_F64) sa"
    and p': "p' = p\<lparr>v3_sqrt_price_x96 := v3r_sqrt_price_x96_after r, v3_current_tick := v3r_tick_after r,
            v3_liquidity := apply_crossed_tick_liquidity (v3_liquidity p) (v3_current_tick p)
              (v3r_tick_after r) (v3_initialized_ticks p)\<rparr>"
    by (rule simulate_exact_in_SomeD)
  note d = v3_move_direction [OF m of_uw_u256(1) pos(2) sqrt_before_value(1) pos(1)
      rnd_sqrt_before of_uw_u256(1,3)]
  have "if ?z then of_uw (v3_sqrt_price_x96 p') \<le> of_uw (v3_sqrt_price_x96 p)
        else of_uw (v3_sqrt_price_x96 p) \<le> of_uw (v3_sqrt_price_x96 p')"
    using d new_sqrt_price [OF w, of "v3_sqrt_price_x96 p"] by (simp add: p')
  moreover have "- (2 ^ 31) \<le> v3r_tick_after r" "v3r_tick_after r \<le> 2 ^ 31 - 1"
    unfolding r sqrt_price_to_tick_def Let_def using f_as_i32_bounds by blast+
  ultimately show ?thesis using r v3_price_impact_bps_le by (simp add: p')
qed

theorem v3_price_moves_with_trade_witness:
  "\<exists>p' r. simulate_exact_in demo_libm demo_v3_pool 1 2 1000 = Some (p', r)
     \<and> of_uw (v3_sqrt_price_x96 p') \<le> of_uw (v3_sqrt_price_x96 demo_v3_pool)
     \<and> v3r_amount_out r = 996 \<and> v3_liquidity p' = 1000500"
proof -
  have run: "map_option (\<lambda>(p, r). (v3r_amount_out r, v3_liquidity p))
      (simulate_exact_in demo_libm demo_v3_pool 1 2 1000) = Some (996, 1000500)" by code_simp
  then obtain p' r where *: "simulate_exact_in demo_libm demo_v3_pool 1 2 1000 = Some (p', r)"
    "v3r_amount_out r = 996" "v3_liquidity p' = 1000500" by auto
  have "v3_token0 demo_v3_pool = 1" "v3_token1 demo_v3_pool = 2" by (simp_all add: demo_v3_pool_def)
  with v3_price_moves_with_trade [OF *(1)] * show ?thesis by auto
qed

text \<open>
  The simulated output never exceeds the pool's virtual reserve of the token paid out, which is
  liquidity times square-root price for token 1 and liquidity over square-root price for token 0.
\<close>

theorem v3_output_within_virtual_reserve:
  assumes run: "simulate_exact_in lm p token_in token_out amount_in = Some (p', r)"
    and reserve: "f64_to_u256
       (if token_in = v3_token0 p \<and> token_out = v3_token1 p
        then of_uw (v3_liquidity p) * (of_uw (v3_sqrt_price_x96 p) / Q96_F64)
        else of_uw (v3_liquidity p) * (1 / (of_uw (v3_sqrt_price_x96 p) / Q96_F64))) = Some reserve"
  shows "v3r_amount_out r \<le> reserve"
proof -
  let ?z = "token_in = v3_token0 p \<and> token_out = v3_token1 p"
  from run obtain sa out where
    m: "v3_move ?z (of_uw (v3_liquidity p)) (of_uw (v3_sqrt_price_x96 p) / Q96_F64)
          (of_uw (sat_mul amount_in (ucast (sat_sub 10000 (v3_fee_bps p))) div 10000)) = (sa, out)"
      "is_finite sa" "is_finite out"
    and pos: "0 < fval (of_uw (v3_sqrt_price_x96 p) / Q96_F64)" "0 < fval (of_uw (v3_liquidity p))"
    and o: "f64_to_u256 out = Some (v3r_amount_out r)"
    by (rule simulate_exact_in_SomeD)
  show ?thesis
    using v3_move_output [OF m of_uw_u256(1) pos(2) sqrt_before_value(1) pos(1)
        rnd_sqrt_before of_uw_u256(1,3)]
    by (intro f64_to_u256_mono [OF o reserve]) simp
qed

theorem v3_output_within_virtual_reserve_witness:
  "\<exists>p' r. simulate_exact_in demo_libm demo_v3_pool 1 2 1000 = Some (p', r) \<and> v3r_amount_out r \<le> 1000000"
proof -
  have run: "(simulate_exact_in demo_libm demo_v3_pool 1 2 1000 \<noteq> None) = True" by code_simp
  have res: "f64_to_u256 (if (1::address) = v3_token0 demo_v3_pool \<and> (2::address) = v3_token1 demo_v3_pool
      then of_uw (v3_liquidity demo_v3_pool) * (of_uw (v3_sqrt_price_x96 demo_v3_pool) / Q96_F64)
      else of_uw (v3_liquidity demo_v3_pool) * (1 / (of_uw (v3_sqrt_price_x96 demo_v3_pool) / Q96_F64)))
      = Some 1000000" by code_simp
  from run obtain p' r where "simulate_exact_in demo_libm demo_v3_pool 1 2 1000 = Some (p', r)" by auto
  from v3_output_within_virtual_reserve [OF this res] this show ?thesis by blast
qed

end
