(* ===== verification/Config.thy ===== *)
theory Config
  imports F64
begin

text \<open>
  The configuration of \<open>src/config.rs\<close> after it has been loaded: its records and the methods
  that compute the thresholds in force from the opportunity mode. The mode and the thresholds
  are behind locks, because the dashboard changes them while the engine runs; a poisoned lock
  is read as the documented fallback. Paths and socket addresses are strings.
\<close>

section \<open>Records\<close>

datatype rpc_preference = Auto | GetBlock | Alchemy | Infura

datatype opportunity_mode = Conservative | Aggressive | Scavenger

record opportunity_thresholds =
  th_min_large_swap_eth :: f64
  th_min_net_profit_eth :: f64
  th_min_profit_usd :: f64
  th_min_liquidity_eth :: f64

record monitored_token_config =
  mt_address :: address
  mt_decimals :: u8
  mt_price_eth :: f64

record mev_config =
  enabled :: bool
  opportunity_mode_lock :: "opportunity_mode lock"
  runtime_thresholds_lock :: "opportunity_thresholds lock"
  capital_eth :: f64
  capital_window_secs :: u64
  max_window_exposure_eth :: f64
  max_cluster_window_exposure_eth :: f64
  max_pair_window_exposure_eth :: f64
  min_net_profit_eth :: f64
  min_roi_bps :: u64
  min_large_swap_eth :: f64
  gas_safety_margin_bps :: u64
  max_pending_age_ms :: u64
  max_gas_per_tx :: u64
  max_gas_price_gwei :: "u64 option"
  max_price_impact_bps :: u64
  slippage_protection_bps :: u64
  min_profit_usd :: f64
  eth_usd_price :: f64
  min_liquidity_eth :: f64
  latency_trace :: bool
  latency_trace_warn_us :: u64
  pool_state_cache_ttl_ms :: u64
  executor_min_buffer_eth :: f64
  executor_target_buffer_eth :: f64
  executor_max_buffer_eth :: f64
  relay_fanout_count :: int
  rpc_fanout_count :: int
  gas_overpay_base_extra_bps :: u64
  gas_overpay_miss_extra_bps :: u64
  gas_overpay_revert_extra_bps :: u64
  gas_overpay_submit_failure_extra_bps :: u64
  gas_overpay_max_extra_bps :: u64
  finality_confirmations :: u64
  stop_loss_consecutive_losses :: u32
  stop_loss_freeze_secs :: u64
  context_stop_loss_consecutive_losses :: u32
  context_stop_loss_freeze_secs :: u64
  capital_multiplier_aggressive :: f64
  capital_multiplier_neutral :: f64
  capital_multiplier_defensive :: f64
  capital_multiplier_priority_threshold :: f64
  capital_multiplier_toxicity_threshold :: f64
  uniswap_v2_factory :: "address option"
  uniswap_v3_factory :: "address option"
  mev_executor :: "address option"
  mev_executor_v3 :: "address option"

record config =
  cfg_wallets :: string
  cfg_network :: string
  chain_id :: u64
  allow_send :: bool
  tenderly_rpc_only :: bool
  alchemy_keys :: "(string \<times> string) list"
  infura_ids :: "string list"
  flashbots_relay :: string
  builder_relays :: "string list"
  executor_private_key :: string
  executor_address :: address
  vault_address :: address
  profit_address :: address
  control_address :: address
  monitored_tokens :: "monitored_token_config list"
  estimated_exec_gas :: u64
  estimated_bundle_overhead_gas :: u64
  max_infura_endpoints :: int
  rpc_read_preference :: rpc_preference
  rpc_send_preference :: rpc_preference
  storage_path :: string
  dashboard_addr :: string
  explicit_rpc_urls :: "(string \<times> string) list"
  mempool_ws_urls :: "string list"
  mev :: mev_config

section \<open>Methods\<close>

fun opportunity_mode_as_str :: "opportunity_mode \<Rightarrow> string" where
  "opportunity_mode_as_str Conservative = ''conservative''"
| "opportunity_mode_as_str Aggressive = ''sangrento''"
| "opportunity_mode_as_str Scavenger = ''scavenger''"

fun rpc_preference_as_str :: "rpc_preference \<Rightarrow> string" where
  "rpc_preference_as_str Auto = ''auto''"
| "rpc_preference_as_str GetBlock = ''getblock''"
| "rpc_preference_as_str Alchemy = ''alchemy''"
| "rpc_preference_as_str Infura = ''infura''"

definition uses_bundle_relays :: "config \<Rightarrow> bool" where
  "uses_bundle_relays c = (cfg_network c = ''ethereum'' \<and> builder_relays c \<noteq> [])"

definition native_asset_symbol :: "config \<Rightarrow> string" where
  "native_asset_symbol c =
     (if cfg_network c \<in> {''bsc'', ''bnb''} then ''BNB''
      else if cfg_network c = ''polygon'' then ''POL''
      else if cfg_network c = ''ethereum'' then ''ETH''
      else if cfg_network c \<in> {''arbitrum'', ''optimism'', ''base''} then ''ETH''
      else ''NATIVE'')"

definition runtime_thresholds :: "mev_config \<Rightarrow> opportunity_thresholds" where
  "runtime_thresholds m =
     (case read_lock (runtime_thresholds_lock m) of Some t \<Rightarrow> t
      | None \<Rightarrow> \<lparr>th_min_large_swap_eth = min_large_swap_eth m,
                 th_min_net_profit_eth = min_net_profit_eth m,
                 th_min_profit_usd = min_profit_usd m,
                 th_min_liquidity_eth = min_liquidity_eth m\<rparr>)"

definition opportunity_mode :: "mev_config \<Rightarrow> opportunity_mode" where
  "opportunity_mode m =
     (case read_lock (opportunity_mode_lock m) of Some mode \<Rightarrow> mode | None \<Rightarrow> Conservative)"

definition effective_min_large_swap_eth :: "mev_config \<Rightarrow> f64" where
  "effective_min_large_swap_eth m =
     (let base = th_min_large_swap_eth (runtime_thresholds m)
      in fmax (case opportunity_mode m of
          Conservative \<Rightarrow> base
        | Aggressive \<Rightarrow> base * dec 12 2
        | Scavenger \<Rightarrow> base * dec 2 2) (dec 1 6))"

definition effective_min_net_profit_eth :: "mev_config \<Rightarrow> f64" where
  "effective_min_net_profit_eth m =
     (let base = th_min_net_profit_eth (runtime_thresholds m)
      in fmax (case opportunity_mode m of
          Conservative \<Rightarrow> base
        | Aggressive \<Rightarrow> base * dec 15 2
        | Scavenger \<Rightarrow> base * dec 3 2) (dec 1 7))"

definition effective_min_profit_usd :: "mev_config \<Rightarrow> f64" where
  "effective_min_profit_usd m =
     (let base = th_min_profit_usd (runtime_thresholds m)
      in fmax (case opportunity_mode m of
          Conservative \<Rightarrow> base
        | Aggressive \<Rightarrow> base * dec 10 2
        | Scavenger \<Rightarrow> base * dec 2 2) (dec 1 6))"

definition effective_min_liquidity_eth :: "mev_config \<Rightarrow> f64" where
  "effective_min_liquidity_eth m =
     (let base = th_min_liquidity_eth (runtime_thresholds m)
      in fmax (case opportunity_mode m of
          Conservative \<Rightarrow> base
        | Aggressive \<Rightarrow> base * dec 25 2
        | Scavenger \<Rightarrow> base * dec 8 2) (dec 1 6))"

definition effective_min_roi_bps :: "mev_config \<Rightarrow> u64" where
  "effective_min_roi_bps m =
     (let value = (case opportunity_mode m of
          Conservative \<Rightarrow> of_uw (min_roi_bps m)
        | Aggressive \<Rightarrow> of_uw (min_roi_bps m) * dec 25 2
        | Scavenger \<Rightarrow> of_uw (min_roi_bps m) * dec 5 2)
      in f_as_word (fmax (fround_away value) 1))"

definition effective_max_price_impact_bps :: "mev_config \<Rightarrow> u64" where
  "effective_max_price_impact_bps m =
     (let value = (case opportunity_mode m of
          Conservative \<Rightarrow> of_uw (max_price_impact_bps m)
        | Aggressive \<Rightarrow> of_uw (max_price_impact_bps m) * dec 220 2
        | Scavenger \<Rightarrow> of_uw (max_price_impact_bps m) * dec 400 2)
      in f_as_word (fmax (fround_away value) 1))"

definition effective_max_pending_age_ms :: "mev_config \<Rightarrow> u64" where
  "effective_max_pending_age_ms m =
     (let value = (case opportunity_mode m of
          Conservative \<Rightarrow> of_uw (max_pending_age_ms m)
        | Aggressive \<Rightarrow> of_uw (max_pending_age_ms m) * dec 200 2
        | Scavenger \<Rightarrow> of_uw (max_pending_age_ms m) * dec 300 2)
      in f_as_word (fmax (fround_away value) 1))"

definition max_gas_price_wei :: "mev_config \<Rightarrow> u256 option" where
  "max_gas_price_wei m =
     (case max_gas_price_gwei m of None \<Rightarrow> None
      | Some value \<Rightarrow> Some (sat_mul (ucast value) 1000000000))"

definition contextual_capital_multiplier :: "mev_config \<Rightarrow> f64 \<Rightarrow> f64 \<Rightarrow> f64" where
  "contextual_capital_multiplier m priority_score toxicity_score =
     (if capital_multiplier_toxicity_threshold m \<le> toxicity_score
      then capital_multiplier_defensive m
      else if capital_multiplier_priority_threshold m \<le> priority_score
        \<and> toxicity_score \<le> capital_multiplier_toxicity_threshold m * dec 5 1
      then capital_multiplier_aggressive m
      else capital_multiplier_neutral m)"

section \<open>The modes as a scale of thresholds\<close>

text \<open>A threshold scaled by the mode and raised to its floor.\<close>

lemma scaled_threshold:
  assumes base: "0 \<le> base" "canonical base"
    and s: "in_range 0 1 s" "0 < fval s" and a: "in_range 0 1 a" "fval s \<le> fval a"
    and fl: "\<not> is_nan fl"
  shows "fmax (base * s) fl \<le> fmax (base * a) fl" "fmax (base * a) fl \<le> fmax base fl"
proof -
  have "base * s \<le> base * a" "base * a \<le> base"
    using base s a by (auto simp: in_range_def intro!: scale_mono scale_down)
  then show "fmax (base * s) fl \<le> fmax (base * a) fl" "fmax (base * a) fl \<le> fmax base fl"
    using fl by (auto intro: fmax_mono)
qed

definition with_mode :: "opportunity_mode \<Rightarrow> mev_config \<Rightarrow> mev_config" where
  "with_mode mode m = m\<lparr>opportunity_mode_lock := Healthy mode\<rparr>"

lemma with_mode_simps [simp]:
  "opportunity_mode (with_mode mode m) = mode"
  "runtime_thresholds (with_mode mode m) = runtime_thresholds m"
  by (simp_all add: with_mode_def opportunity_mode_def runtime_thresholds_def split: option.split)

lemma mode_factors:
  "0 < fval (dec 2 2)" "fval (dec 2 2) \<le> fval (dec 12 2)" "0 < fval (dec 3 2)"
  "fval (dec 3 2) \<le> fval (dec 15 2)" "fval (dec 2 2) \<le> fval (dec 10 2)"
  "0 < fval (dec 8 2)" "fval (dec 8 2) \<le> fval (dec 25 2)"
proof -
  have f: "is_finite (dec 2 2)" "is_finite (dec 3 2)" "is_finite (dec 8 2)" "is_finite (dec 12 2)"
    "is_finite (dec 15 2)" "is_finite (dec 10 2)" "is_finite (dec 25 2)" by code_simp+
  have z: "0 < dec 2 2" "0 < dec 3 2" "0 < dec 8 2" by code_simp+
  have l: "dec 2 2 \<le> dec 12 2" "dec 3 2 \<le> dec 15 2" "dec 2 2 \<le> dec 10 2" "dec 8 2 \<le> dec 25 2"
    by code_simp+
  show "0 < fval (dec 2 2)" "0 < fval (dec 3 2)" "0 < fval (dec 8 2)"
    using z f less_dec(1) [OF is_finite_zero] by (auto simp del: less_f64.simps)
  show "fval (dec 2 2) \<le> fval (dec 12 2)" "fval (dec 3 2) \<le> fval (dec 15 2)"
    "fval (dec 2 2) \<le> fval (dec 10 2)" "fval (dec 8 2) \<le> fval (dec 25 2)"
    using l f by (auto intro: less_dec(2))
qed

lemma mode_factor_ranges:
  "in_range 0 1 (dec 2 2)" "in_range 0 1 (dec 3 2)" "in_range 0 1 (dec 8 2)" "in_range 0 1 (dec 12 2)"
  "in_range 0 1 (dec 15 2)" "in_range 0 1 (dec 10 2)" "in_range 0 1 (dec 25 2)"
  by (rule within_dec; simp)+

lemma threshold_floors: "\<not> is_nan (dec 1 6)" "\<not> is_nan (dec 1 7)"
  by code_simp+

lemmas mode_rules = mode_factors mode_factor_ranges threshold_floors

definition nonneg_thresholds :: "opportunity_thresholds \<Rightarrow> bool" where
  "nonneg_thresholds t =
     (0 \<le> th_min_large_swap_eth t \<and> canonical (th_min_large_swap_eth t)
      \<and> 0 \<le> th_min_net_profit_eth t \<and> canonical (th_min_net_profit_eth t)
      \<and> 0 \<le> th_min_profit_usd t \<and> canonical (th_min_profit_usd t)
      \<and> 0 \<le> th_min_liquidity_eth t \<and> canonical (th_min_liquidity_eth t))"

definition demo_mev :: mev_config where
  "demo_mev = \<lparr>enabled = True, opportunity_mode_lock = Healthy Aggressive,
     runtime_thresholds_lock = Healthy \<lparr>th_min_large_swap_eth = dec 5 1, th_min_net_profit_eth = dec 2 3,
       th_min_profit_usd = dec 5 0, th_min_liquidity_eth = dec 10 0\<rparr>,
     capital_eth = dec 1 0, capital_window_secs = 60, max_window_exposure_eth = dec 2 0,
     max_cluster_window_exposure_eth = dec 1 0, max_pair_window_exposure_eth = dec 5 1,
     min_net_profit_eth = dec 2 3, min_roi_bps = 50, min_large_swap_eth = dec 5 1,
     gas_safety_margin_bps = 1500, max_pending_age_ms = 800, max_gas_per_tx = 900000,
     max_gas_price_gwei = Some 60, max_price_impact_bps = 300, slippage_protection_bps = 50,
     min_profit_usd = dec 5 0, eth_usd_price = dec 3000 0, min_liquidity_eth = dec 10 0,
     latency_trace = False, latency_trace_warn_us = 5000, pool_state_cache_ttl_ms = 400,
     executor_min_buffer_eth = dec 5 2, executor_target_buffer_eth = dec 1 1,
     executor_max_buffer_eth = dec 2 1, relay_fanout_count = 3, rpc_fanout_count = 2,
     gas_overpay_base_extra_bps = 0, gas_overpay_miss_extra_bps = 1000,
     gas_overpay_revert_extra_bps = 300, gas_overpay_submit_failure_extra_bps = 500,
     gas_overpay_max_extra_bps = 3000, finality_confirmations = 2, stop_loss_consecutive_losses = 3,
     stop_loss_freeze_secs = 300, context_stop_loss_consecutive_losses = 2,
     context_stop_loss_freeze_secs = 180, capital_multiplier_aggressive = dec 13 1,
     capital_multiplier_neutral = 1, capital_multiplier_defensive = dec 5 1,
     capital_multiplier_priority_threshold = dec 7 1, capital_multiplier_toxicity_threshold = dec 6 1,
     uniswap_v2_factory = Some 10, uniswap_v3_factory = Some 11, mev_executor = Some 12,
     mev_executor_v3 = None\<rparr>"

definition demo_config :: config where
  "demo_config = \<lparr>cfg_wallets = ''keys.txt'', cfg_network = ''ethereum'', chain_id = 1, allow_send = False,
     tenderly_rpc_only = False, alchemy_keys = [], infura_ids = [], flashbots_relay = ''https://relay'',
     builder_relays = [''https://builder''], executor_private_key = [], executor_address = 20,
     vault_address = 21, profit_address = 22, control_address = 23, monitored_tokens = [],
     estimated_exec_gas = 350000, estimated_bundle_overhead_gas = 50000, max_infura_endpoints = 3,
     rpc_read_preference = Auto, rpc_send_preference = Auto, storage_path = ''db'',
     dashboard_addr = ''127.0.0.1:8787'', explicit_rpc_urls = [], mempool_ws_urls = [], mev = demo_mev\<rparr>"

text \<open>
  With non-negative base thresholds each of the four minimum thresholds in force is no larger in
  a more aggressive mode than in a more cautious one, and none is below its fixed floor.
\<close>

theorem modes_relax_thresholds:
  assumes "nonneg_thresholds (runtime_thresholds m)"
  shows "\<forall>(eff, fl) \<in> {(effective_min_large_swap_eth, dec 1 6), (effective_min_net_profit_eth, dec 1 7),
                         (effective_min_profit_usd, dec 1 6), (effective_min_liquidity_eth, dec 1 6)}.
    eff (with_mode Scavenger m) \<le> eff (with_mode Aggressive m)
    \<and> eff (with_mode Aggressive m) \<le> eff (with_mode Conservative m)
    \<and> fl \<le> eff m"
  using assms mode_rules
  by (simp add: effective_min_large_swap_eth_def effective_min_net_profit_eth_def nonneg_thresholds_def
      effective_min_profit_usd_def effective_min_liquidity_eth_def Let_def scaled_threshold fmax_upper)

theorem modes_relax_thresholds_witness:
  "nonneg_thresholds (runtime_thresholds demo_mev)
   \<and> effective_min_net_profit_eth (with_mode Scavenger demo_mev)
      \<le> effective_min_net_profit_eth (with_mode Aggressive demo_mev)"
proof -
  have h: "nonneg_thresholds (runtime_thresholds demo_mev)" by code_simp
  from modes_relax_thresholds [OF h] h show ?thesis by auto
qed

text \<open>
  A gas price cap in gwei converts to wei exactly; the saturating product never saturates.
\<close>

lemma max_gas_price_wei_exact:
  "max_gas_price_wei m = Some w \<Longrightarrow> \<exists>g. max_gas_price_gwei m = Some g \<and> uint w = uint g * 10 ^ 9"
proof -
  assume "max_gas_price_wei m = Some w"
  then obtain g where g: "max_gas_price_gwei m = Some g" "w = sat_mul (ucast g) 1000000000"
    by (auto simp: max_gas_price_wei_def split: option.splits)
  have "uint g < 2 ^ 64" using uint_bounded [of g] by simp
  then show ?thesis using g by (simp add: uint_sat_mul uint_ucast_u64)
qed

end
