(* ===== verification/StateSimulator.thy ===== *)
theory StateSimulator
  imports UniswapV2 UniswapV3 Config
begin

text \<open>
  The state simulator of \<open>src/mev/simulation/state_simulator.rs\<close>: the victim's swap on either kind
  of pool, and the preflight of a transaction in an in-memory virtual machine. The machine and its
  database belong to the \<open>revm\<close> crate; they are the record \<open>revm\<close>, an argument of the preflight.
  A \<open>HashMap\<close> that is iterated is a list of its bindings in iteration order.
\<close>

section \<open>State\<close>

datatype amm_state = AmmUniswapV2 v2_pool_state | AmmUniswapV3 v3_pool_state

record post_swap_simulation =
  state_after :: amm_state
  slippage_impact_bps :: u64

record evm_log =
  log_address :: address
  log_topics :: "h256 list"
  log_data :: bytes

record evm_preflight_result =
  pf_success :: bool
  pf_gas_used :: u64
  pf_profit_wei :: u256
  pf_revert_reason :: "int list option"
  pf_logs :: "evm_log list"

record account_state =
  as_balance :: u256
  as_nonce :: u64
  as_code :: "bytes option"
  as_storage :: "(u256 \<times> u256) list"

definition account_state_empty :: account_state where
  "account_state_empty = \<lparr>as_balance = 0, as_nonce = 0, as_code = None, as_storage = []\<rparr>"

definition account_state_with_balance :: "u256 \<Rightarrow> account_state" where
  "account_state_with_balance balance =
     \<lparr>as_balance = balance, as_nonce = 0, as_code = None, as_storage = []\<rparr>"

text \<open>The fields of \<open>ethers::types::Transaction\<close> that the preflight reads.\<close>

record transaction =
  tx_from :: address
  tx_to :: "address option"
  tx_input :: bytes
  tx_value :: u256
  tx_gas_price :: "u256 option"
  tx_gas :: u256
  tx_nonce :: u256
  tx_chain_id :: "u256 option"

section \<open>The machine\<close>

datatype transact_to = TransactCall address | TransactCreate

record evm_env =
  env_caller :: address
  env_transact_to :: transact_to
  env_data :: bytes
  env_value :: u256
  env_gas_price :: u256
  env_gas_limit :: u64
  env_nonce :: "u64 option"
  env_chain_id :: "u64 option"
  env_block_number :: u256
  env_timestamp :: u256
  env_coinbase :: address
  env_difficulty :: u256
  env_prevrandao :: "h256 option"
  env_block_gas_limit :: u256
  env_basefee :: u256

record account_info =
  ai_balance :: u256
  ai_nonce :: u64
  ai_code_hash :: h256
  ai_code :: "bytes option"

record evm_outcome =
  eo_success :: bool
  eo_gas_used :: u64
  eo_logs :: "evm_log list"
  eo_output :: "bytes option"

record 'db revm =
  r_empty_db :: 'db
  r_insert_account_info :: "'db \<Rightarrow> address \<Rightarrow> account_info \<Rightarrow> 'db"
  r_insert_account_storage :: "'db \<Rightarrow> address \<Rightarrow> u256 \<Rightarrow> u256 \<Rightarrow> 'db option"
  r_transact :: "evm_env \<Rightarrow> 'db \<Rightarrow> string + evm_outcome"

datatype preflight_error = PreflightPanic panic | EvmExecutionError string

section \<open>Operations\<close>

definition simulate_victim_exact_in ::
  "libm \<Rightarrow> amm_state \<Rightarrow> address \<Rightarrow> address \<Rightarrow> u256 \<Rightarrow> post_swap_simulation option" where
  "simulate_victim_exact_in lm st token_in token_out amount_in =
     (case st of
        AmmUniswapV2 pool \<Rightarrow>
          map_option (\<lambda>(next_pool, result). \<lparr>state_after = AmmUniswapV2 next_pool,
              slippage_impact_bps = sr_price_impact_bps result\<rparr>)
            (apply_swap_exact_in pool token_in token_out amount_in)
      | AmmUniswapV3 pool \<Rightarrow>
          map_option (\<lambda>(next_pool, result). \<lparr>state_after = AmmUniswapV3 next_pool,
              slippage_impact_bps = v3r_price_impact_bps result\<rparr>)
            (simulate_exact_in lm pool token_in token_out amount_in))"

text \<open>\<open>H256::from_str("0xddf252ad...")\<close>, \<open>U256::from_big_endian\<close> and \<open>Address::from_slice(&topic[12..])\<close>.\<close>

definition transfer_topic :: h256 where
  "transfer_topic = 0xddf252ad1be2c89b69c2b068fc378daa952ba7f163c4a11628f55a4df523b3ef"

definition from_big_endian :: "bytes \<Rightarrow> u256" where
  "from_big_endian bs = word_of_int (foldl (\<lambda>acc b. acc * 256 + uint b) 0 bs)"

definition topic_address :: "h256 \<Rightarrow> address" where
  "topic_address t = ucast t"

definition profit_of_log :: "address \<Rightarrow> u256 \<Rightarrow> evm_log \<Rightarrow> u256" where
  "profit_of_log profit_recipient profit lg =
     (case log_topics lg of
        t0 # t1 # t2 # rest \<Rightarrow>
          if t0 = transfer_topic \<and> topic_address t2 = profit_recipient \<and> 32 \<le> length (log_data lg)
          then sat_add profit (from_big_endian (take 32 (log_data lg)))
          else profit
      | _ \<Rightarrow> profit)"

definition extract_profit_from_logs :: "evm_log list \<Rightarrow> address \<Rightarrow> u256" where
  "extract_profit_from_logs logs profit_recipient = foldl (profit_of_log profit_recipient) 0 logs"

text \<open>
  \<open>String::from_utf8_lossy\<close>, as the list of code points: a sequence that breaks off is replaced by
  one U+FFFD and decoding resumes at the byte that broke it.
\<close>

fun utf8_seq :: "int \<Rightarrow> int \<Rightarrow> int \<Rightarrow> int \<Rightarrow> int list \<Rightarrow> int \<times> int list" where
  "utf8_seq n lo hi acc [] = (if n \<le> 0 then acc else 0xFFFD, [])"
| "utf8_seq n lo hi acc (b # bs) =
     (if n \<le> 0 then (acc, b # bs)
      else if lo \<le> b \<and> b \<le> hi then utf8_seq (n - 1) 0x80 0xBF (acc * 64 + (b - 0x80)) bs
      else (0xFFFD, b # bs))"

lemma utf8_seq_length: "length (snd (utf8_seq n lo hi acc bs)) \<le> length bs"
  by (induction n lo hi acc bs rule: utf8_seq.induct) (auto simp: le_SucI)

text \<open>Continuation bytes still expected, the range of the first of them, and the payload of the lead byte.\<close>

definition utf8_lead :: "int \<Rightarrow> int \<times> int \<times> int \<times> int" where
  "utf8_lead b =
     (if 0xC2 \<le> b \<and> b \<le> 0xDF then (1, 0x80, 0xBF, b - 0xC0)
      else if b = 0xE0 then (2, 0xA0, 0xBF, 0)
      else if b = 0xED then (2, 0x80, 0x9F, 13)
      else if 0xE1 \<le> b \<and> b \<le> 0xEF then (2, 0x80, 0xBF, b - 0xE0)
      else if b = 0xF0 then (3, 0x90, 0xBF, 0)
      else if 0xF1 \<le> b \<and> b \<le> 0xF3 then (3, 0x80, 0xBF, b - 0xF0)
      else if b = 0xF4 then (3, 0x80, 0x8F, 4)
      else (0, 0, 0, 0xFFFD))"

function utf8_lossy :: "int list \<Rightarrow> int list" where
  "utf8_lossy [] = []"
| "utf8_lossy (b # bs) =
     (if b < 0x80 then b # utf8_lossy bs
      else case utf8_lead b of (n, lo, hi, acc) \<Rightarrow>
        (case utf8_seq n lo hi acc bs of (c, rest) \<Rightarrow> c # utf8_lossy rest))"
  by pat_completeness auto
termination
  by (relation "measure length") (auto, metis le_imp_less_Suc snd_conv utf8_seq_length)

text \<open>\<open>U256::as_u64\<close> panics above 64 bits.\<close>

definition as_u64 :: "u256 \<Rightarrow> panic + u64" where
  "as_u64 x = (if uint x < 2 ^ 64 then Inr (ucast x) else Inl IntegerOverflow)"

fun insert_storage :: "'db revm \<Rightarrow> address \<Rightarrow> 'db \<Rightarrow> (u256 \<times> u256) list \<Rightarrow> panic + 'db" where
  "insert_storage vm addr db [] = Inr db"
| "insert_storage vm addr db ((slot, value) # rest) =
     (case r_insert_account_storage vm db addr slot value of
        None \<Rightarrow> Inl UnwrapNone
      | Some db' \<Rightarrow> insert_storage vm addr db' rest)"

text \<open>\<open>keccak_empty\<close> is the hash of the empty string, a constant of the crate.\<close>

fun apply_overrides ::
  "'db revm \<Rightarrow> h256 \<Rightarrow> 'db \<Rightarrow> (address \<times> account_state) list \<Rightarrow> panic + 'db" where
  "apply_overrides vm keccak_empty db [] = Inr db"
| "apply_overrides vm keccak_empty db ((addr, st) # rest) =
     (case insert_storage vm addr
        (r_insert_account_info vm db addr \<lparr>ai_balance = as_balance st, ai_nonce = as_nonce st,
           ai_code_hash = keccak_empty, ai_code = as_code st\<rparr>) (as_storage st) of
        Inl p \<Rightarrow> Inl p
      | Inr db' \<Rightarrow> apply_overrides vm keccak_empty db' rest)"

definition preflight_env :: "transaction \<Rightarrow> u64 \<Rightarrow> u64 \<Rightarrow> panic + evm_env" where
  "preflight_env tx block_number timestamp =
     (case as_u64 (tx_gas tx) of Inl p \<Rightarrow> Inl p | Inr gas_limit \<Rightarrow>
      (case as_u64 (tx_nonce tx) of Inl p \<Rightarrow> Inl p | Inr nonce \<Rightarrow>
       (case (case tx_chain_id tx of None \<Rightarrow> Inr None | Some c \<Rightarrow> map_sum id Some (as_u64 c)) of
          Inl p \<Rightarrow> Inl p
        | Inr chain \<Rightarrow>
          Inr \<lparr>env_caller = tx_from tx,
               env_transact_to = (case tx_to tx of Some a \<Rightarrow> TransactCall a | None \<Rightarrow> TransactCreate),
               env_data = tx_input tx, env_value = tx_value tx,
               env_gas_price = (case tx_gas_price tx of Some g \<Rightarrow> g | None \<Rightarrow> 0),
               env_gas_limit = gas_limit, env_nonce = Some nonce, env_chain_id = chain,
               env_block_number = ucast block_number, env_timestamp = ucast timestamp,
               env_coinbase = 0, env_difficulty = 0, env_prevrandao = Some 0,
               env_block_gas_limit = 30000000, env_basefee = 0\<rparr>)))"

definition evm_preflight_execution ::
  "'db revm \<Rightarrow> h256 \<Rightarrow> config \<Rightarrow> transaction \<Rightarrow> u64 \<Rightarrow> u64 \<Rightarrow> (address \<times> account_state) list
   \<Rightarrow> preflight_error + evm_preflight_result" where
  "evm_preflight_execution vm keccak_empty cfg tx block_number timestamp state_overrides =
     (case preflight_env tx block_number timestamp of
        Inl p \<Rightarrow> Inl (PreflightPanic p)
      | Inr env \<Rightarrow>
     (case apply_overrides vm keccak_empty (r_empty_db vm) state_overrides of
        Inl p \<Rightarrow> Inl (PreflightPanic p)
      | Inr db \<Rightarrow>
     (case r_transact vm env db of
        Inl err \<Rightarrow> Inl (EvmExecutionError (''EVm execution error: '' @ err))
      | Inr out \<Rightarrow>
          Inr \<lparr>pf_success = eo_success out, pf_gas_used = eo_gas_used out,
               pf_profit_wei = extract_profit_from_logs (eo_logs out) (profit_address cfg),
               pf_revert_reason = (if \<not> eo_success out
                 then map_option (\<lambda>o'. utf8_lossy (map uint o')) (eo_output out) else None),
               pf_logs = eo_logs out\<rparr>)))"

section \<open>Correctness\<close>

text \<open>A log that is a transfer to the profit recipient, and the amount it carries.\<close>

definition is_profit_transfer :: "address \<Rightarrow> evm_log \<Rightarrow> bool" where
  "is_profit_transfer who lg =
     (3 \<le> length (log_topics lg) \<and> log_topics lg ! 0 = transfer_topic
      \<and> topic_address (log_topics lg ! 2) = who \<and> 32 \<le> length (log_data lg))"

definition transfer_amount :: "evm_log \<Rightarrow> u256" where
  "transfer_amount lg = from_big_endian (take 32 (log_data lg))"

lemma profit_of_log_eq:
  "profit_of_log who p lg = (if is_profit_transfer who lg then sat_add p (transfer_amount lg) else p)"
proof (cases "log_topics lg")
  case (Cons t0 ts)
  then show ?thesis
    by (cases ts; cases "tl ts")
      (auto simp: profit_of_log_def is_profit_transfer_def transfer_amount_def)
qed (simp add: profit_of_log_def is_profit_transfer_def)

lemma min_min_add: "0 \<le> (s :: int) \<Longrightarrow> min m (min m x + s) = min m (x + s)"
  by (auto simp: min_def)

lemma profit_fold:
  "uint (foldl (profit_of_log who) p logs) = min (2 ^ 256 - 1)
     (uint p + sum_list (map (\<lambda>l. uint (transfer_amount l)) (filter (is_profit_transfer who) logs)))"
proof (induction logs arbitrary: p)
  case Nil
  then show ?case using uint_bounded [of p] by simp
next
  case (Cons l logs)
  have "0 \<le> sum_list (map (\<lambda>l. uint (transfer_amount l)) (filter (is_profit_transfer who) logs))"
    by (rule sum_list_nonneg) auto
  then show ?case by (simp add: Cons.IH) (simp add: profit_of_log_eq uint_sat_add min_min_add add.assoc [symmetric])
qed

text \<open>
  C26: the profit read from the logs of a preflight is the sum, saturating at 256 bits, of the
  amounts of exactly those logs that are ERC-20 transfers to the profit recipient (at least three
  topics, the transfer signature first, the recipient third, at least 32 bytes of data).
\<close>

theorem extracted_profit_is_transfer_sum:
  "uint (extract_profit_from_logs logs who) = min (2 ^ 256 - 1)
     (sum_list (map (\<lambda>l. uint (transfer_amount l)) (filter (is_profit_transfer who) logs)))"
  using profit_fold [of who 0 logs] by (simp add: extract_profit_from_logs_def)

section \<open>Swaps on either kind of pool\<close>

text \<open>
  What the simulator and its clients rely on of a pool: a swap names the two tokens of the pool,
  keeps the pool's identity and fee, and reports an impact of at most 10000 basis points.
\<close>

locale exact_in_pool =
  fixes swap :: "'p \<Rightarrow> address \<Rightarrow> address \<Rightarrow> u256 \<Rightarrow> ('p \<times> u64) option"
    and identity :: "'p \<Rightarrow> address \<times> address \<times> address \<times> u64"
  assumes swap_identity: "swap p i j a = Some (p', imp) \<Longrightarrow> identity p' = identity p"
    and swap_impact: "swap p i j a = Some (p', imp) \<Longrightarrow> imp \<le> 10000"
    and swap_tokens: "swap p i j a = Some (p', imp) \<Longrightarrow>
      {i, j} = {fst (snd (identity p)), fst (snd (snd (identity p)))}"
    and swap_zero: "swap p i j 0 = None"

text \<open>A sequence of swaps, with the impact of each; it stops when one is refused.\<close>

fun swap_run :: "('p \<Rightarrow> address \<Rightarrow> address \<Rightarrow> u256 \<Rightarrow> ('p \<times> u64) option) \<Rightarrow> 'p
    \<Rightarrow> (address \<times> address \<times> u256) list \<Rightarrow> ('p \<times> u64 list) option" where
  "swap_run swap p [] = Some (p, [])"
| "swap_run swap p ((i, j, a) # ts) =
     (case swap p i j a of None \<Rightarrow> None
      | Some (p', imp) \<Rightarrow> map_option (\<lambda>(q, imps). (q, imp # imps)) (swap_run swap p' ts))"

context exact_in_pool
begin

lemma swap_run_sound:
  "swap_run swap p ts = Some (q, imps) \<Longrightarrow>
   identity q = identity p \<and> length imps = length ts \<and> (\<forall>imp\<in>set imps. imp \<le> 10000)
   \<and> (\<forall>(i, j, a)\<in>set ts. {i, j} = {fst (snd (identity p)), fst (snd (snd (identity p)))} \<and> a \<noteq> 0)"
proof (induction ts arbitrary: p imps)
  case Nil
  then show ?case by simp
next
  case (Cons t ts)
  obtain i j a where t: "t = (i, j, a)" by (cases t)
  from Cons.prems t obtain p' imp imps' where s: "swap p i j a = Some (p', imp)"
    and r: "swap_run swap p' ts = Some (q, imps')" "imps = imp # imps'"
    by (auto split: option.splits)
  from s have "a \<noteq> 0" using swap_zero by auto
  with Cons.IH [OF r(1)] r(2) t swap_identity [OF s] swap_impact [OF s] swap_tokens [OF s]
  show ?case by auto
qed

end

definition v2_swap :: "v2_pool_state \<Rightarrow> address \<Rightarrow> address \<Rightarrow> u256 \<Rightarrow> (v2_pool_state \<times> u64) option" where
  "v2_swap p i j a = map_option (\<lambda>(p', r). (p', sr_price_impact_bps r)) (apply_swap_exact_in p i j a)"

definition v3_swap ::
  "libm \<Rightarrow> v3_pool_state \<Rightarrow> address \<Rightarrow> address \<Rightarrow> u256 \<Rightarrow> (v3_pool_state \<times> u64) option" where
  "v3_swap lm p i j a = map_option (\<lambda>(p', r). (p', v3r_price_impact_bps r)) (simulate_exact_in lm p i j a)"

definition victim_swap :: "libm \<Rightarrow> amm_state \<Rightarrow> address \<Rightarrow> address \<Rightarrow> u256 \<Rightarrow> (amm_state \<times> u64) option" where
  "victim_swap lm p i j a =
     map_option (\<lambda>r. (state_after r, slippage_impact_bps r)) (simulate_victim_exact_in lm p i j a)"

definition v2_identity :: "v2_pool_state \<Rightarrow> address \<times> address \<times> address \<times> u64" where
  "v2_identity p = (v2_pair p, v2_token0 p, v2_token1 p, v2_fee_bps p)"

definition v3_identity :: "v3_pool_state \<Rightarrow> address \<times> address \<times> address \<times> u64" where
  "v3_identity p = (v3_pool p, v3_token0 p, v3_token1 p, v3_fee_bps p)"

fun amm_identity :: "amm_state \<Rightarrow> address \<times> address \<times> address \<times> u64" where
  "amm_identity (AmmUniswapV2 p) = v2_identity p"
| "amm_identity (AmmUniswapV3 p) = v3_identity p"

lemma victim_swap_eq:
  "victim_swap lm (AmmUniswapV2 p) i j a = map_option (\<lambda>(q, b). (AmmUniswapV2 q, b)) (v2_swap p i j a)"
  "victim_swap lm (AmmUniswapV3 r) i j a = map_option (\<lambda>(q, b). (AmmUniswapV3 q, b)) (v3_swap lm r i j a)"
  by (auto simp: victim_swap_def simulate_victim_exact_in_def v2_swap_def v3_swap_def
      option.map_comp o_def split_def)

interpretation v2_amm: exact_in_pool v2_swap v2_identity
proof
  fix p i j a p' imp
  assume "v2_swap p i j a = Some (p', imp)"
  then obtain r where r: "apply_swap_exact_in p i j a = Some (p', r)" "imp = sr_price_impact_bps r"
    by (auto simp: v2_swap_def)
  show "v2_identity p' = v2_identity p"
    by (rule apply_swap_exact_in_SomeD [OF r(1)]) (simp add: v2_identity_def)
  show "imp \<le> 10000"
    by (rule apply_swap_exact_in_SomeD [OF r(1)]) (simp add: r(2) price_impact_bps_le)
  show "{i, j} = {fst (snd (v2_identity p)), fst (snd (snd (v2_identity p)))}"
    by (rule apply_swap_exact_in_SomeD [OF r(1)])
      (auto simp: v2_identity_def dest: reserves_for_cases)
next
  fix p i j
  show "v2_swap p i j 0 = None"
    by (auto simp: v2_swap_def apply_swap_exact_in_def amount_out_exact_in_def split: option.splits)
qed

interpretation v3_amm: exact_in_pool "v3_swap lm" v3_identity for lm
proof
  fix p i j a p' imp
  assume "v3_swap lm p i j a = Some (p', imp)"
  then obtain r where r: "simulate_exact_in lm p i j a = Some (p', r)" "imp = v3r_price_impact_bps r"
    by (auto simp: v3_swap_def)
  show "v3_identity p' = v3_identity p"
    by (rule simulate_exact_in_SomeD [OF r(1)]) (simp add: v3_identity_def)
  show "imp \<le> 10000"
    by (rule simulate_exact_in_SomeD [OF r(1)]) (simp add: r(2) v3_price_impact_bps_le)
  show "{i, j} = {fst (snd (v3_identity p)), fst (snd (snd (v3_identity p)))}"
    by (rule simulate_exact_in_SomeD [OF r(1)]) (auto simp: v3_identity_def)
next
  fix p i j
  show "v3_swap lm p i j 0 = None" by (simp add: v3_swap_def simulate_exact_in_def)
qed

interpretation victim_amm: exact_in_pool "victim_swap lm" amm_identity for lm
proof
  fix p i j a p' imp
  assume s: "victim_swap lm p i j a = Some (p', imp)"
  show "amm_identity p' = amm_identity p"
    using s v2_amm.swap_identity v3_amm.swap_identity by (cases p) (auto simp: victim_swap_eq)
  show "imp \<le> 10000"
    using s v2_amm.swap_impact v3_amm.swap_impact by (cases p) (auto simp: victim_swap_eq)
  show "{i, j} = {fst (snd (amm_identity p)), fst (snd (snd (amm_identity p)))}"
    using s v2_amm.swap_tokens v3_amm.swap_tokens by (cases p) (fastforce simp: victim_swap_eq)+
next
  fix p i j
  show "victim_swap lm p i j 0 = None"
    by (cases p) (simp_all add: victim_swap_eq v2_amm.swap_zero v3_amm.swap_zero)
qed

text \<open>
  Along any sequence of simulated victim swaps on a pool of either kind, the pool keeps its
  address, its tokens and its fee, every swap was of the pool's own two tokens and of a non-zero
  amount, and every reported price impact is at most 10000 basis points.
\<close>

theorem victim_swaps_keep_pool:
  assumes "swap_run (victim_swap lm) p ts = Some (q, imps)"
  shows "amm_identity q = amm_identity p \<and> length imps = length ts \<and> (\<forall>imp\<in>set imps. imp \<le> 10000)
    \<and> (\<forall>(i, j, a)\<in>set ts. {i, j} = {fst (snd (amm_identity p)), fst (snd (snd (amm_identity p)))} \<and> a \<noteq> 0)"
  by (rule victim_amm.swap_run_sound [OF assms])

theorem victim_swaps_keep_pool_witness:
  "\<exists>q imps. swap_run (victim_swap demo_libm) (AmmUniswapV2 demo_pool) [(1, 2, 1000), (2, 1, 500)] = Some (q, imps)
     \<and> amm_identity q = (0, 1, 2, 30)"
proof -
  have "(swap_run (victim_swap demo_libm) (AmmUniswapV2 demo_pool) [(1, 2, 1000), (2, 1, 500)] \<noteq> None) = True"
    by code_simp
  then obtain q imps where
    run: "swap_run (victim_swap demo_libm) (AmmUniswapV2 demo_pool) [(1, 2, 1000), (2, 1, 500)] = Some (q, imps)"
    by auto
  from victim_swaps_keep_pool [OF run] run show ?thesis by (auto simp: v2_identity_def demo_pool_def)
qed

section \<open>Preflight\<close>

text \<open>What a preflight that returns has done, and each way in which it fails.\<close>

lemma as_u64_cases:
  "as_u64 x = Inr y \<Longrightarrow> uint y = uint x" "as_u64 x = Inl p \<Longrightarrow> p = IntegerOverflow \<and> 2 ^ 64 \<le> uint x"
  by (auto simp: as_u64_def unsigned_ucast_eq take_bit_int_eq_self split: if_splits)

text \<open>Steps that can fail, in either order.\<close>

definition commute :: "('d \<Rightarrow> 'd option) \<Rightarrow> ('d \<Rightarrow> 'd option) \<Rightarrow> bool" where
  "commute f g = (\<forall>d. Option.bind (f d) g = Option.bind (g d) f)"

lemma commute_sym: "commute f g \<Longrightarrow> commute g f"
  by (simp add: commute_def)

lemma commute_Some: "commute Some g"
  by (simp add: commute_def)

lemma commute_compose:
  assumes "commute f h" "commute g h"
  shows "commute (\<lambda>d. Option.bind (f d) g) h"
proof -
  have "Option.bind (Option.bind (f d) g) h = Option.bind (h d) (\<lambda>d. Option.bind (f d) g)" for d
  proof -
    have "Option.bind (Option.bind (f d) g) h = Option.bind (f d) (\<lambda>x. Option.bind (h x) g)"
      using assms(2) by (simp add: commute_def)
    also have "\<dots> = Option.bind (Option.bind (f d) h) g" by simp
    also have "\<dots> = Option.bind (h d) (\<lambda>d. Option.bind (f d) g)"
      using assms(1) by (simp add: commute_def)
    finally show ?thesis .
  qed
  then show ?thesis by (simp add: commute_def)
qed

fun run_steps :: "('x \<Rightarrow> 'd \<Rightarrow> 'd option) \<Rightarrow> 'x list \<Rightarrow> 'd \<Rightarrow> 'd option" where
  "run_steps step [] = Some"
| "run_steps step (x # xs) = (\<lambda>d. Option.bind (step x d) (run_steps step xs))"

lemma commute_run_steps: "\<forall>x\<in>set xs. commute (step x) g \<Longrightarrow> commute (run_steps step xs) g"
  by (induction xs) (simp_all add: commute_Some commute_compose)

lemma run_steps_append: "run_steps step (xs @ ys) d = Option.bind (run_steps step xs d) (run_steps step ys)"
  by (induction xs arbitrary: d) (simp_all cong: Option.bind_cong)

lemma run_steps_permuted:
  assumes "mset xs = mset ys" "distinct (map key xs)"
    and comm: "\<And>x y. key x \<noteq> key y \<Longrightarrow> commute (step x) (step y)"
  shows "run_steps step xs = run_steps step ys"
  using assms(1,2)
proof (induction xs arbitrary: ys)
  case Nil
  then show ?case by simp
next
  case (Cons x xs)
  then have "x \<in> set ys" by (metis list.set_intros(1) mset_eq_setD)
  then obtain us vs where ys: "ys = us @ x # vs" by (meson split_list)
  with Cons.prems have "mset xs = mset (us @ vs)" by simp
  then have ih: "run_steps step xs = run_steps step (us @ vs)" and set: "set xs = set (us @ vs)"
    using Cons.IH [of "us @ vs"] Cons.prems(2) mset_eq_setD [of xs "us @ vs"] by simp_all
  have "key x \<notin> key ` set xs" using Cons.prems(2) by simp
  then have "key y \<noteq> key x" if "y \<in> set us" for y
    using that set by (metis UnI1 image_eqI set_append)
  then have "commute (run_steps step us) (step x)" by (intro commute_run_steps ballI comm)
  then have swap: "Option.bind (run_steps step us d) (step x) = Option.bind (step x d) (run_steps step us)" for d
    by (simp add: commute_def)
  have "run_steps step ys d = run_steps step (x # xs) d" for d
  proof -
    have "run_steps step ys d = Option.bind (Option.bind (run_steps step us d) (step x)) (run_steps step vs)"
      by (simp add: ys run_steps_append)
    also have "\<dots> = Option.bind (step x d) (\<lambda>d. Option.bind (run_steps step us d) (run_steps step vs))"
      unfolding swap by simp
    also have "\<dots> = run_steps step (x # xs) d" by (simp add: ih run_steps_append cong: Option.bind_cong)
    finally show ?thesis .
  qed
  then show ?case by (simp add: fun_eq_iff)
qed

text \<open>What the database promises: insertions for different accounts commute.\<close>

definition insert_info :: "'db revm \<Rightarrow> address \<Rightarrow> account_info \<Rightarrow> 'db \<Rightarrow> 'db option" where
  "insert_info vm a i db = Some (r_insert_account_info vm db a i)"

definition insert_slot :: "'db revm \<Rightarrow> address \<Rightarrow> u256 \<times> u256 \<Rightarrow> 'db \<Rightarrow> 'db option" where
  "insert_slot vm a sv db = r_insert_account_storage vm db a (fst sv) (snd sv)"

definition accounts_independent :: "'db revm \<Rightarrow> bool" where
  "accounts_independent vm = (\<forall>a b. a \<noteq> b \<longrightarrow>
     (\<forall>i j. commute (insert_info vm a i) (insert_info vm b j))
     \<and> (\<forall>i s. commute (insert_info vm a i) (insert_slot vm b s))
     \<and> (\<forall>s t. commute (insert_slot vm a s) (insert_slot vm b t)))"

definition override_step :: "'db revm \<Rightarrow> h256 \<Rightarrow> address \<times> account_state \<Rightarrow> 'db \<Rightarrow> 'db option" where
  "override_step vm h ov = (\<lambda>db. Option.bind
     (insert_info vm (fst ov) \<lparr>ai_balance = as_balance (snd ov), ai_nonce = as_nonce (snd ov),
        ai_code_hash = h, ai_code = as_code (snd ov)\<rparr> db)
     (run_steps (insert_slot vm (fst ov)) (as_storage (snd ov))))"

lemma insert_storage_eq:
  "insert_storage vm a db svs =
     (case run_steps (insert_slot vm a) svs db of None \<Rightarrow> Inl UnwrapNone | Some db' \<Rightarrow> Inr db')"
  by (induction svs arbitrary: db) (auto simp: insert_slot_def bind_eq_Some_conv split: option.splits)

lemma apply_overrides_eq:
  "apply_overrides vm h db ovs =
     (case run_steps (override_step vm h) ovs db of None \<Rightarrow> Inl UnwrapNone | Some db' \<Rightarrow> Inr db')"
  by (induction ovs arbitrary: db)
    (auto simp: override_step_def insert_info_def insert_storage_eq bind_eq_Some_conv split: option.splits)

lemma override_steps_commute:
  assumes "accounts_independent vm" "fst x \<noteq> fst y"
  shows "commute (override_step vm h x) (override_step vm h y)"
proof -
  let ?sx = "run_steps (insert_slot vm (fst x)) (as_storage (snd x))"
  have ne: "fst y \<noteq> fst x" using assms(2) by simp
  have i: "commute (insert_info vm (fst x) i) (insert_info vm (fst y) j)"
    and si: "commute (insert_slot vm (fst x) s) (insert_info vm (fst y) j)"
    and ist: "commute (insert_info vm (fst x) i) (insert_slot vm (fst y) t)"
    and ss: "commute (insert_slot vm (fst x) s) (insert_slot vm (fst y) t)" for i j s t
    using assms ne unfolding accounts_independent_def by (blast intro: commute_sym)+
  have "commute (insert_info vm (fst x) i) (override_step vm h y)" for i
    unfolding override_step_def
    by (rule commute_sym) (intro commute_compose commute_run_steps ballI commute_sym [OF i] commute_sym [OF ist])
  moreover have "commute ?sx (override_step vm h y)"
    by (rule commute_run_steps)
      (auto simp: override_step_def intro!: commute_sym [OF commute_compose] commute_run_steps
        commute_sym [OF si] commute_sym [OF ss])
  ultimately show ?thesis unfolding override_step_def [of vm h x] by (rule commute_compose)
qed

text \<open>
  The outcome of a preflight, its error included, does not depend on the order in which the
  map of account overrides is iterated, provided that insertions for different accounts commute in
  the machine's database.
\<close>

theorem preflight_ignores_override_order:
  assumes "accounts_independent vm" "mset ovs = mset ovs'" "distinct (map fst ovs)"
  shows "evm_preflight_execution vm h cfg tx block_number timestamp ovs
       = evm_preflight_execution vm h cfg tx block_number timestamp ovs'"
proof -
  have "run_steps (override_step vm h) ovs = run_steps (override_step vm h) ovs'"
    using assms by (intro run_steps_permuted override_steps_commute)
  then have "apply_overrides vm h (r_empty_db vm) ovs = apply_overrides vm h (r_empty_db vm) ovs'"
    by (simp add: apply_overrides_eq)
  then show ?thesis by (simp only: evm_preflight_execution_def)
qed

definition demo_vm :: "((address \<rightharpoonup> account_info) \<times> (address \<times> u256 \<rightharpoonup> u256)) revm" where
  "demo_vm = \<lparr>r_empty_db = (Map.empty, Map.empty),
     r_insert_account_info = (\<lambda>(acc, slots) a i. (acc(a \<mapsto> i), slots)),
     r_insert_account_storage = (\<lambda>(acc, slots) a s v. Some (acc, slots((a, s) \<mapsto> v))),
     r_transact = (\<lambda>env (acc, slots). case acc (env_caller env) of
         None \<Rightarrow> Inl ''no account''
       | Some i \<Rightarrow> Inr \<lparr>eo_success = env_value env \<le> ai_balance i, eo_gas_used = 21000, eo_logs = [], eo_output = None\<rparr>)\<rparr>"

definition demo_tx :: transaction where
  "demo_tx = \<lparr>tx_from = 7, tx_to = Some 8, tx_input = [], tx_value = 5, tx_gas_price = None,
     tx_gas = 100000, tx_nonce = 0, tx_chain_id = Some 1\<rparr>"

lemma demo_vm_independent: "accounts_independent demo_vm"
  by (auto simp: accounts_independent_def demo_vm_def commute_def insert_info_def insert_slot_def fun_upd_twist)

theorem preflight_ignores_override_order_witness:
  "evm_preflight_execution demo_vm 0 demo_config demo_tx 1 2
       [(7, account_state_with_balance 9), (8, account_state_empty)]
     = evm_preflight_execution demo_vm 0 demo_config demo_tx 1 2
       [(8, account_state_empty), (7, account_state_with_balance 9)]"
  by (rule preflight_ignores_override_order [OF demo_vm_independent]) simp_all

end
