(* ===== verification/Opportunity.thy ===== *)
theory Opportunity
  imports F64
begin

text \<open>
  The unit conversions of \<open>src/mev/opportunity.rs\<close> and the profit and loss counters of
  \<open>src/mev/pnl/tracker.rs\<close>.
\<close>

section \<open>Conversions\<close>

definition wei_to_eth_f64 :: "u256 \<Rightarrow> f64" where
  "wei_to_eth_f64 wei = of_uw wei / dec (10 ^ 18) 0"

definition roi_bps :: "u256 \<Rightarrow> u256 \<Rightarrow> u64" where
  "roi_bps profit_wei cost_wei =
     (if cost_wei = 0 then 0
      else let profit = of_uw profit_wei; cost = of_uw cost_wei
      in if \<not> is_finite profit \<or> \<not> is_finite cost \<or> cost \<le> 0 then 0
      else f_as_word (fmin ((profit / cost) * dec 10000 0) (of_uw (u64_max))))"

text \<open>\<open>MevOpportunity::age_ms\<close>.\<close>

definition age_ms :: "instant \<Rightarrow> instant \<Rightarrow> int" where
  "age_ms now detected_at = as_millis (duration_since now detected_at)"

section \<open>Profit and loss\<close>

record execution_result =
  er_realized_profit :: f64
  er_gas_used :: u64
  er_success :: bool

record pnl_tracker =
  daily_pnl_eth :: f64
  realized_profit_eth :: f64
  realized_loss_eth :: f64
  executions :: u64
  failures :: u64

definition pnl_default :: pnl_tracker where
  "pnl_default = \<lparr>daily_pnl_eth = 0, realized_profit_eth = 0, realized_loss_eth = 0,
                  executions = 0, failures = 0\<rparr>"

definition pnl_record :: "pnl_tracker \<Rightarrow> execution_result \<Rightarrow> pnl_tracker" where
  "pnl_record t result =
     (let t1 = t\<lparr>executions := sat_add (executions t) 1,
                 daily_pnl_eth := daily_pnl_eth t + er_realized_profit result\<rparr>
      in if er_success result
         then t1\<lparr>realized_profit_eth := realized_profit_eth t1 + fmax (er_realized_profit result) 0\<rparr>
         else t1\<lparr>failures := sat_add (failures t1) 1,
                 realized_loss_eth := realized_loss_eth t1 + \<bar>fmin (er_realized_profit result) 0\<bar>\<rparr>)"

section \<open>Facts\<close>

lemma dec_1e18_value: "is_finite (dec (10 ^ 18) 0)" "0 < fval (dec (10 ^ 18) 0)"
proof -
  have *: "dec (10 ^ 18) 0 = Fin False (10 ^ 18 div 128) 7" by code_simp
  show "is_finite (dec (10 ^ 18) 0)" "0 < fval (dec (10 ^ 18) 0)"
    unfolding * by (simp_all add: signed_def)
qed

lemma wei_to_eth_f64_mono: "a \<le> b \<Longrightarrow> wei_to_eth_f64 a \<le> wei_to_eth_f64 b"
  unfolding wei_to_eth_f64_def
  by (rule rounds_to_mono [OF divide_f64_rounds_to divide_f64_rounds_to])
    (use dec_1e18_value of_uw_mono [of a b] of_uw_u256(1) in
      \<open>auto simp: less_eq_f64_iff intro!: divide_right_mono\<close>)

lemma pnl_counters:
  "failures t \<le> executions t \<Longrightarrow> failures (pnl_record t r) \<le> executions (pnl_record t r)"
  using uint_bounded [of "failures t"]
  by (auto simp: pnl_record_def Let_def word_le_def uint_sat_add)

text \<open>
  Failures never exceed executions, and neither counter decreases, along any sequence of results.
\<close>

lemma pnl_run_counters:
  "failures t \<le> executions t \<Longrightarrow>
   failures (foldl pnl_record t rs) \<le> executions (foldl pnl_record t rs)"
  by (induction rs arbitrary: t) (simp_all add: pnl_counters)

lemma pnl_executions_run:
  "uint (executions (foldl pnl_record t rs)) = min (2 ^ 64 - 1) (uint (executions t) + int (length rs))"
proof (induction rs arbitrary: t)
  case Nil
  then show ?case using uint_bounded [of "executions t"] by simp
next
  case (Cons r rs)
  have "uint (executions (pnl_record t r)) = min (2 ^ 64 - 1) (uint (executions t) + 1)"
    by (simp add: pnl_record_def Let_def uint_sat_add)
  with Cons show ?case by simp
qed


lemma zero_le_plus_f64: "0 \<le> x \<Longrightarrow> 0 \<le> y \<Longrightarrow> 0 \<le> x + (y :: f64)"
proof -
  assume xy: "0 \<le> x" "0 \<le> y"
  show "0 \<le> x + y"
  proof (cases "is_finite x \<and> is_finite y")
    case True
    then have "0 \<le> fval x + fval y" using xy by (simp add: less_eq_f64_iff)
    moreover have "rounds_to 0 0" by (simp add: rounds_to_def)
    ultimately show ?thesis using True rounds_to_mono plus_f64_rounds_to by blast
  next
    case False
    then show ?thesis using xy
      by (cases x; cases y) (auto simp: zero_f64_def)
  qed
qed

lemma zero_le_fmax: "0 \<le> fmax x 0"
  using not_less_f64 [of 0 x] by (cases "is_nan x") (auto simp: fmax_def zero_f64_def)

lemma zero_le_abs_fmin: "0 \<le> \<bar>fmin x 0\<bar>"
  by (cases x) (auto simp: fmin_def zero_f64_def signed_def Let_def)

lemma pnl_accumulators:
  assumes "0 \<le> realized_profit_eth t" "0 \<le> realized_loss_eth t"
  shows "0 \<le> realized_profit_eth (foldl pnl_record t rs) \<and> 0 \<le> realized_loss_eth (foldl pnl_record t rs)"
  using assms
  by (induction rs arbitrary: t)
    (simp_all add: pnl_record_def Let_def zero_le_plus_f64 zero_le_fmax zero_le_abs_fmin)

text \<open>
  After any sequence of execution results the tracker has counted each of them (up to the
  saturation of the counter), has no more failures than executions, and its accumulated profit and
  its accumulated loss are numbers at least zero, whatever the results are, NaN included.
\<close>

theorem pnl_tracker_sound:
  "uint (executions (foldl pnl_record pnl_default rs)) = min (2 ^ 64 - 1) (int (length rs))
   \<and> failures (foldl pnl_record pnl_default rs) \<le> executions (foldl pnl_record pnl_default rs)
   \<and> 0 \<le> realized_profit_eth (foldl pnl_record pnl_default rs)
   \<and> 0 \<le> realized_loss_eth (foldl pnl_record pnl_default rs)"
  using pnl_executions_run [of pnl_default rs] pnl_run_counters [of pnl_default rs]
    pnl_accumulators [of pnl_default rs]
  by (simp add: pnl_default_def less_eq_f64_iff)

end
