(* ===== verification/ContractEncoder.thy ===== *)
theory ContractEncoder
  imports Prelude
begin

text \<open>
  The calldata of the executor contract: \<open>src/mev/execution/contract_encoder.rs\<close> and
  \<open>src/mev/execution/flashloan_builder.rs\<close>. The ABI encoder and the hash belong to the
  \<open>ethers\<close> crate and are the fields of the record \<open>abi\<close>.
\<close>

section \<open>Tokens and steps\<close>

datatype token = TAddress address | TFixedBytes bytes | TBytes bytes | TInt u256 | TUint u256 | TBool bool
  | TString string | TFixedArray "token list" | TArray "token list" | TTuple "token list"

record abi =
  abi_encode :: "token list \<Rightarrow> bytes"
  keccak256 :: "string \<Rightarrow> bytes"

record encoded_swap_step =
  ss_router :: address
  ss_path :: "address list"
  ss_amount_in :: u256
  ss_min_out :: u256

record encoded_v3_swap_step =
  ss3_router :: address
  ss3_path :: bytes
  ss3_amount_in :: u256
  ss3_min_out :: u256

record flash_swap_call =
  fc_target_contract :: address
  fc_calldata :: bytes

section \<open>Encoding\<close>

definition step_token :: "encoded_swap_step \<Rightarrow> token" where
  "step_token s = TTuple [TAddress (ss_router s), TArray (map TAddress (ss_path s)),
     TUint (ss_amount_in s), TUint (ss_min_out s)]"

definition v3_step_token :: "encoded_v3_swap_step \<Rightarrow> token" where
  "v3_step_token s = TTuple [TAddress (ss3_router s), TBytes (ss3_path s),
     TUint (ss3_amount_in s), TUint (ss3_min_out s)]"

text \<open>The first four bytes of the hash of the signature.\<close>

definition fn_selector :: "abi \<Rightarrow> string \<Rightarrow> selector" where
  "fn_selector ab signature = take 4 (keccak256 ab signature)"

definition encode_with_selector :: "abi \<Rightarrow> selector \<Rightarrow> token list \<Rightarrow> bytes" where
  "encode_with_selector ab sel tokens = sel @ abi_encode ab tokens"

definition v2_signature :: string where
  "v2_signature = ''startV2FlashSwap(address,address,uint256,uint256,address,address,(address,address[],uint256,uint256)[])''"

definition v3_signature :: string where
  "v3_signature = ''startV3FlashSwap(address,address,uint256,uint24,uint256,address,address,(address,bytes,uint256,uint256)[])''"

definition encode_start_v2_flash_swap ::
  "abi \<Rightarrow> address \<Rightarrow> address \<Rightarrow> u256 \<Rightarrow> u256 \<Rightarrow> address \<Rightarrow> address \<Rightarrow> encoded_swap_step list \<Rightarrow> bytes" where
  "encode_start_v2_flash_swap ab pair borrow_token borrow_amount min_profit profit_token profit_recipient steps =
     encode_with_selector ab (fn_selector ab v2_signature)
       [TAddress pair, TAddress borrow_token, TUint borrow_amount, TUint min_profit,
        TAddress profit_token, TAddress profit_recipient, TArray (map step_token steps)]"

definition encode_start_v3_flash_swap ::
  "abi \<Rightarrow> address \<Rightarrow> address \<Rightarrow> u256 \<Rightarrow> u32 \<Rightarrow> u256 \<Rightarrow> address \<Rightarrow> address \<Rightarrow> encoded_v3_swap_step list \<Rightarrow> bytes" where
  "encode_start_v3_flash_swap ab pool borrow_token borrow_amount fee_tier min_profit profit_token profit_recipient steps =
     encode_with_selector ab (fn_selector ab v3_signature)
       [TAddress pool, TAddress borrow_token, TUint borrow_amount, TUint (ucast fee_tier), TUint min_profit,
        TAddress profit_token, TAddress profit_recipient, TArray (map v3_step_token steps)]"

definition build_v2_flashswap_call ::
  "abi \<Rightarrow> address \<Rightarrow> address \<Rightarrow> address \<Rightarrow> u256 \<Rightarrow> u256 \<Rightarrow> address \<Rightarrow> address \<Rightarrow> encoded_swap_step list
   \<Rightarrow> flash_swap_call" where
  "build_v2_flashswap_call ab executor pair borrow_token borrow_amount min_profit profit_token profit_recipient steps =
     \<lparr>fc_target_contract = executor,
      fc_calldata = encode_start_v2_flash_swap ab pair borrow_token borrow_amount min_profit
        profit_token profit_recipient steps\<rparr>"

definition build_v3_flashswap_call ::
  "abi \<Rightarrow> address \<Rightarrow> address \<Rightarrow> address \<Rightarrow> u256 \<Rightarrow> u32 \<Rightarrow> u256 \<Rightarrow> address \<Rightarrow> address \<Rightarrow> encoded_v3_swap_step list
   \<Rightarrow> flash_swap_call" where
  "build_v3_flashswap_call ab executor pool borrow_token borrow_amount fee_tier min_profit profit_token profit_recipient steps =
     \<lparr>fc_target_contract = executor,
      fc_calldata = encode_start_v3_flash_swap ab pool borrow_token borrow_amount fee_tier min_profit
        profit_token profit_recipient steps\<rparr>"

section \<open>Reading calldata back\<close>

text \<open>The contract's view: the arguments of a call, read from its tokens.\<close>

fun token_address :: "token \<Rightarrow> address option" where
  "token_address (TAddress a) = Some a"
| "token_address t = None"

fun all_some :: "'a option list \<Rightarrow> 'a list option" where
  "all_some [] = Some []"
| "all_some (x # xs) = (case x of None \<Rightarrow> None | Some y \<Rightarrow> map_option ((#) y) (all_some xs))"

lemma all_some_map: "(\<And>x. f (g x) = Some x) \<Longrightarrow> all_some (map f (map g xs)) = Some xs"
  by (induction xs) simp_all

definition read_step :: "token \<Rightarrow> encoded_swap_step option" where
  "read_step t = (case t of
     TTuple [TAddress r, TArray p, TUint a, TUint m] \<Rightarrow>
       map_option (\<lambda>path. \<lparr>ss_router = r, ss_path = path, ss_amount_in = a, ss_min_out = m\<rparr>)
         (all_some (map token_address p))
   | _ \<Rightarrow> None)"

definition read_v3_step :: "token \<Rightarrow> encoded_v3_swap_step option" where
  "read_v3_step t = (case t of
     TTuple [TAddress r, TBytes p, TUint a, TUint m] \<Rightarrow>
       Some \<lparr>ss3_router = r, ss3_path = p, ss3_amount_in = a, ss3_min_out = m\<rparr>
   | _ \<Rightarrow> None)"

definition read_v2_call :: "token list \<Rightarrow>
    (address \<times> address \<times> u256 \<times> u256 \<times> address \<times> address \<times> encoded_swap_step list) option" where
  "read_v2_call ts = (case ts of
     [TAddress pair, TAddress b, TUint a, TUint m, TAddress p, TAddress r, TArray ss] \<Rightarrow>
       map_option (\<lambda>steps. (pair, b, a, m, p, r, steps)) (all_some (map read_step ss))
   | _ \<Rightarrow> None)"

definition read_v3_call :: "token list \<Rightarrow>
    (address \<times> address \<times> u256 \<times> u256 \<times> u256 \<times> address \<times> address \<times> encoded_v3_swap_step list) option" where
  "read_v3_call ts = (case ts of
     [TAddress pool, TAddress b, TUint a, TUint f, TUint m, TAddress p, TAddress r, TArray ss] \<Rightarrow>
       map_option (\<lambda>steps. (pool, b, a, f, m, p, r, steps)) (all_some (map read_v3_step ss))
   | _ \<Rightarrow> None)"

lemma read_step_token: "read_step (step_token s) = Some s"
  using all_some_map [of token_address TAddress] by (simp add: read_step_def step_token_def)

lemma read_v3_step_token: "read_v3_step (v3_step_token s) = Some s"
  by (simp add: read_v3_step_def v3_step_token_def)

text \<open>What the calldata of the flash-swap call is made of.\<close>

lemma encode_v2_parts:
  "length (keccak256 ab v2_signature) = 32 \<Longrightarrow>
   take 4 (encode_start_v2_flash_swap ab p b a m pt pr ss) = take 4 (keccak256 ab v2_signature)
   \<and> drop 4 (encode_start_v2_flash_swap ab p b a m pt pr ss)
     = abi_encode ab [TAddress p, TAddress b, TUint a, TUint m, TAddress pt, TAddress pr, TArray (map step_token ss)]"
  by (simp add: encode_start_v2_flash_swap_def encode_with_selector_def fn_selector_def)

lemma encode_v3_parts:
  "length (keccak256 ab v3_signature) = 32 \<Longrightarrow>
   take 4 (encode_start_v3_flash_swap ab p b a f m pt pr ss) = take 4 (keccak256 ab v3_signature)
   \<and> drop 4 (encode_start_v3_flash_swap ab p b a f m pt pr ss)
     = abi_encode ab [TAddress p, TAddress b, TUint a, TUint (ucast f), TUint m, TAddress pt, TAddress pr,
         TArray (map v3_step_token ss)]"
  by (simp add: encode_start_v3_flash_swap_def encode_with_selector_def fn_selector_def)

end
