(* ===== verification/PayloadBuilder.thy ===== *)
theory PayloadBuilder
  imports StateSimulator Opportunity ContractEncoder
begin

text \<open>
  The payload builder of \<open>src/mev/execution/payload_builder.rs\<close>: it simulates the victim, sizes a
  flash swap on the pool it leaves behind, checks profit against the configured minimum and encodes
  the call to the executor contract. Formatted text is a list of the pieces that \<open>format!\<close>
  concatenates. The ABI encoder, the JSON serialiser, the ether parser, the environment and the
  mathematical library are the fields of the record \<open>payload_ext\<close>.
\<close>

section \<open>Data\<close>

datatype piece = Lit string | Dec u256 | DecU64 u64 | DecU32 u32 | DecI32 int | Hex address
  | F64Fixed int f64 | F64Shown f64 | BoolText bool | StateText amm_state

type_synonym message = "piece list"

datatype amm_route_kind = RouteV2 | RouteV3 u32 bytes

record edge_metadata =
  em_victim_tx :: message
  em_selector :: message
  em_status :: message
  em_reason :: message
  em_route_kind :: message
  em_path :: "message list"
  em_hops :: u64
  em_impacted_pools :: "message list"
  em_slippage_window_score :: f64
  em_pool_imbalance_score :: f64
  em_cross_dex_deviation_bps :: int
  em_gas_estimate :: u64
  em_simulated_extraction_native :: f64
  em_aggregator_type :: message
  em_route_complexity :: u64
  em_split_ratio_bps :: u64
  em_dex_sequence :: "message list"
  em_route_inefficiency_score :: f64
  em_liquidity_distortion_score :: f64
  em_hop_profitability_rank :: "message list"
  em_best_size_bps :: u64
  em_amount_in_wei :: message
  em_amount_out_wei :: message
  em_gross_edge_wei :: message
  em_gross_edge_native :: f64
  em_repayment_wei :: message
  em_repayment_native :: f64
  em_price_impact_bps :: u64
  em_self_slippage_bps :: u64
  em_pool :: message
  em_factory :: message
  em_router :: message
  em_token_in :: message
  em_token_out :: message

record execution_payload =
  pl_tx :: bytes
  pl_calldata :: bytes
  pl_target_contract :: address
  pl_value :: u256
  pl_pair :: address
  pl_amm_kind :: amm_route_kind
  pl_capital_committed_wei :: u256
  pl_expected_profit_wei :: u256
  pl_gas_limit :: u64
  pl_price_impact_bps :: u64
  pl_profit_token :: address
  pl_profit_recipient :: address
  pl_context_priority_score :: f64
  pl_context_toxicity_score :: f64
  pl_edge_metadata :: "edge_metadata option"
  pl_pool_state_before :: amm_state

record fee_extraction_build_input =
  fi_router :: address
  fi_factory :: "address option"
  fi_pair :: address
  fi_recipient :: address
  fi_token_in :: address
  fi_token_out :: address
  fi_victim_amount_in :: u256
  fi_state_before :: amm_state
  fi_capital_available_wei :: u256
  fi_gas_price_wei :: u256
  fi_context_priority_score :: f64
  fi_context_toxicity_score :: f64
  fi_route_kind :: amm_route_kind
  fi_v2_swap_path :: "address list option"
  fi_v2_swap_pools :: "v2_pool_state list"

record normalized_v3_candidate =
  n3_candidate :: v3_size_candidate
  n3_repayment_wei :: u256
  n3_amount_out_native_wei :: u256
  n3_repayment_native_wei :: u256
  n3_gross_profit_native_wei :: u256
  n3_net_profit_native_wei :: u256
  n3_edge_positive :: bool
  n3_edge_abs_native_wei :: u256

record payload_ext =
  px_abi :: abi
  px_libm :: libm
  px_parse_ether :: "f64 \<Rightarrow> message + u256"
  px_to_json :: "edge_metadata \<Rightarrow> string option"
  px_tolerance_usd :: "f64 option"

datatype build_error = BuildPanic panic | BuildErr message

section \<open>Units and thresholds\<close>

definition token_metadata :: "config \<Rightarrow> address \<Rightarrow> monitored_token_config option" where
  "token_metadata cfg token = find (\<lambda>c. mt_address c = token) (monitored_tokens cfg)"

definition f64_to_u256_floor :: "f64 \<Rightarrow> u256 option" where
  "f64_to_u256_floor value = (if \<not> is_finite value \<or> value < 0 then None else fmt0_u256 (ffloor value))"

definition pow10 :: "u8 \<Rightarrow> f64" where
  "pow10 decimals = fpowi (dec 10 0) (uint decimals)"

definition token_amount_to_native_f64 :: "config \<Rightarrow> address \<Rightarrow> u256 \<Rightarrow> f64 option" where
  "token_amount_to_native_f64 cfg token amount =
     (case token_metadata cfg token of None \<Rightarrow> None
      | Some metadata \<Rightarrow>
          let raw = of_uw amount; units = raw / pow10 (mt_decimals metadata)
          in Some (units * mt_price_eth metadata))"

definition token_amount_to_native_wei :: "config \<Rightarrow> address \<Rightarrow> u256 \<Rightarrow> u256 option" where
  "token_amount_to_native_wei cfg token amount =
     (case token_amount_to_native_f64 cfg token amount of None \<Rightarrow> None
      | Some native \<Rightarrow> f64_to_u256_floor (native * dec (10 ^ 18) 0))"

definition native_wei_to_token_amount :: "config \<Rightarrow> address \<Rightarrow> u256 \<Rightarrow> u256 option" where
  "native_wei_to_token_amount cfg token native_wei =
     (case token_metadata cfg token of None \<Rightarrow> None
      | Some metadata \<Rightarrow>
          if mt_price_eth metadata \<le> 0 then None
          else let native = wei_to_eth_f64 native_wei; token_units = native / mt_price_eth metadata
               in f64_to_u256_floor (token_units * pow10 (mt_decimals metadata)))"

definition v2_borrow_cap_from_native ::
  "config \<Rightarrow> address \<Rightarrow> address \<Rightarrow> u256 \<Rightarrow> u256 \<Rightarrow> u256 \<Rightarrow> u256 option" where
  "v2_borrow_cap_from_native cfg borrow_token profit_token native_wei borrow_reserve profit_reserve =
     (case native_wei_to_token_amount cfg borrow_token native_wei of
        Some amount \<Rightarrow> Some amount
      | None \<Rightarrow>
          if borrow_reserve = 0 \<or> profit_reserve = 0 then None
          else (case native_wei_to_token_amount cfg profit_token native_wei of
              None \<Rightarrow> None
            | Some profit_amount \<Rightarrow> Some (sat_mul profit_amount borrow_reserve div profit_reserve)))"

definition payload_shadow_research_mode :: "config \<Rightarrow> bool" where
  "payload_shadow_research_mode cfg =
     (opportunity_mode (mev cfg) = Scavenger
      \<or> opportunity_mode (mev cfg) = Aggressive \<and> \<not> allow_send cfg)"

definition effective_payload_min_profit_wei :: "payload_ext \<Rightarrow> config \<Rightarrow> build_error + u256" where
  "effective_payload_min_profit_wei px cfg =
     (if opportunity_mode (mev cfg) = Scavenger then Inr 1
      else map_sum BuildErr id (px_parse_ether px (effective_min_net_profit_eth (mev cfg))))"

definition effective_payload_slippage_bps :: "config \<Rightarrow> u64" where
  "effective_payload_slippage_bps cfg =
     (if opportunity_mode (mev cfg) = Scavenger
      then clampw 100 1500 (sat_mul (slippage_protection_bps (mev cfg)) 8)
      else slippage_protection_bps (mev cfg))"

definition effective_payload_price_impact_cap_bps :: "config \<Rightarrow> u64" where
  "effective_payload_price_impact_cap_bps cfg =
     (if opportunity_mode (mev cfg) = Scavenger
      then clampw 600 3000 (sat_mul (effective_max_price_impact_bps (mev cfg)) 12)
      else effective_max_price_impact_bps (mev cfg))"

definition scavenger_shadow_negative_tolerance_native :: "payload_ext \<Rightarrow> config \<Rightarrow> f64" where
  "scavenger_shadow_negative_tolerance_native px cfg =
     (let tolerance_usd = \<bar>case px_tolerance_usd px of Some v \<Rightarrow> v | None \<Rightarrow> dec 15 0\<bar>
      in tolerance_usd / fmax (eth_usd_price (mev cfg)) 1)"

definition scavenger_shadow_sample ::
  "payload_ext \<Rightarrow> config \<Rightarrow> edge_metadata \<Rightarrow> string \<Rightarrow> string \<Rightarrow> edge_metadata" where
  "scavenger_shadow_sample px cfg sample status reason =
     (if payload_shadow_research_mode cfg
        \<and> - scavenger_shadow_negative_tolerance_native px cfg \<le> em_gross_edge_native sample
      then sample\<lparr>em_status := [Lit status], em_reason := [Lit reason]\<rparr> else sample)"

definition payload_error_with_edge_sample :: "payload_ext \<Rightarrow> string \<Rightarrow> edge_metadata option \<Rightarrow> message" where
  "payload_error_with_edge_sample px reason sample =
     (case sample of None \<Rightarrow> [Lit reason]
      | Some s \<Rightarrow> (case px_to_json px s of
          Some json \<Rightarrow> [Lit reason, Lit '' | edge_sample='', Lit json]
        | None \<Rightarrow> [Lit reason]))"

definition format_optional_address :: "address option \<Rightarrow> message" where
  "format_optional_address a = (case a of Some x \<Rightarrow> [Hex x] | None \<Rightarrow> [Lit ''unknown''])"

section \<open>Quotes and repayments\<close>

definition v3_flash_repayment_wei :: "u256 \<Rightarrow> u32 \<Rightarrow> u256" where
  "v3_flash_repayment_wei amount fee_tier =
     (if amount = 0 then 0
      else let fee_denominator = 1000000;
               fee = sat_add (sat_mul amount (ucast fee_tier)) (fee_denominator - 1) div fee_denominator
           in sat_add amount fee)"

definition v2_repayment_amount_in_profit_token :: "u256 \<Rightarrow> u256 \<Rightarrow> u256 \<Rightarrow> u256 option" where
  "v2_repayment_amount_in_profit_token borrow_reserve profit_reserve borrowed_amount =
     (if borrowed_amount = 0 \<or> borrow_reserve = 0 \<or> profit_reserve = 0 \<or> borrow_reserve \<le> borrowed_amount
      then None
      else let numerator = sat_mul (sat_mul profit_reserve borrowed_amount) 1000;
               denominator = sat_mul (sat_sub borrow_reserve borrowed_amount) 997
           in if denominator = 0 then None else Some (sat_add (numerator div denominator) 1))"

text \<open>The hops of a route, one pool per consecutive pair of tokens.\<close>

fun quote_hops :: "u64 \<Rightarrow> u256 \<Rightarrow> address list \<Rightarrow> v2_pool_state list \<Rightarrow> u256 option" where
  "quote_hops fallback_fee_bps amount (token_in # token_out # path) (pool # pools) =
     (case reserves_for pool token_in token_out of None \<Rightarrow> None
      | Some (reserve_in, reserve_out) \<Rightarrow>
          (case amount_out_exact_in amount reserve_in reserve_out
              (if v2_fee_bps pool = 0 then fallback_fee_bps else v2_fee_bps pool) of
             None \<Rightarrow> None
           | Some amount' \<Rightarrow> quote_hops fallback_fee_bps amount' (token_out # path) pools))"
| "quote_hops fallback_fee_bps amount path [] = Some amount"
| "quote_hops fallback_fee_bps amount path (pool # pools) = None"

definition quote_v2_route_exact_in ::
  "u256 \<Rightarrow> address list \<Rightarrow> v2_pool_state list \<Rightarrow> u64 \<Rightarrow> u256 option" where
  "quote_v2_route_exact_in amount_in route_path route_pools fallback_fee_bps =
     (if length route_path < 2 \<or> length route_pools + 1 \<noteq> length route_path then None
      else quote_hops fallback_fee_bps amount_in route_path route_pools)"

section \<open>Sizes of a V2 trade\<close>

definition fee_extraction_v2_candidate ::
  "config \<Rightarrow> u256 \<Rightarrow> u256 \<Rightarrow> address list \<Rightarrow> v2_pool_state list \<Rightarrow> u256 \<Rightarrow> address \<Rightarrow> u256 \<Rightarrow> u64 \<Rightarrow> bool
   \<Rightarrow> u64 \<Rightarrow> panic + size_candidate option" where
  "fee_extraction_v2_candidate cfg borrow_reserve profit_reserve route_path route_pools capital_cap
     profit_token gas_cost_wei fee_bps scavenger bps =
   (let amount_in = sat_mul capital_cap (ucast bps) div 10000
    in if amount_in = 0 \<or> borrow_reserve \<le> amount_in then Inr None
    else case quote_v2_route_exact_in amount_in route_path route_pools fee_bps of None \<Rightarrow> Inr None
    | Some amount_out \<Rightarrow>
    (case v2_repayment_amount_in_profit_token borrow_reserve profit_reserve amount_in of None \<Rightarrow> Inr None
     | Some repayment_in_profit_token \<Rightarrow>
     let gross_profit_token = sat_sub amount_out repayment_in_profit_token
     in (case token_amount_to_native_wei cfg profit_token gross_profit_token of None \<Rightarrow> Inr None
      | Some gross_native_wei \<Rightarrow>
      let net_native_wei = (if scavenger then gross_native_wei else sat_sub gross_native_wei gas_cost_wei)
      in if net_native_wei = 0 then Inr None
      else (case token_amount_to_native_wei cfg profit_token repayment_in_profit_token of None \<Rightarrow> Inr None
       | Some repayment_native_wei \<Rightarrow>
         and_then (if repayment_in_profit_token = 0 then Inr 0
           else if repayment_native_wei = 0 then Inl DivisionByZero
           else Inr (min_as_u64 (sat_mul net_native_wei 10000 div repayment_native_wei) u64_max))
         (\<lambda>roi. Inr (Some \<lparr>sc_capital_fraction_bps = bps, sc_amount_in = amount_in,
            sc_amount_out = amount_out, sc_gross_profit_wei = gross_native_wei,
            sc_net_profit_wei = net_native_wei, sc_roi_bps = roi,
            sc_self_slippage_bps = price_impact_bps amount_in amount_out borrow_reserve profit_reserve\<rparr>))))))"

text \<open>The loop over the fractions: candidates are pushed, a panic ends it.\<close>

fun collect_candidates :: "(u64 \<Rightarrow> panic + 'c option) \<Rightarrow> u64 list \<Rightarrow> panic + 'c list" where
  "collect_candidates f [] = Inr []"
| "collect_candidates f (bps # rest) =
     and_then (f bps) (\<lambda>c. map_sum id (\<lambda>cs. case c of None \<Rightarrow> cs | Some x \<Rightarrow> x # cs) (collect_candidates f rest))"

definition fee_extraction_v2_size_candidates ::
  "config \<Rightarrow> u256 \<Rightarrow> u256 \<Rightarrow> address list \<Rightarrow> v2_pool_state list \<Rightarrow> u256 \<Rightarrow> address \<Rightarrow> u256 \<Rightarrow> u64 \<Rightarrow> u64 list
   \<Rightarrow> bool \<Rightarrow> panic + size_candidate list" where
  "fee_extraction_v2_size_candidates cfg borrow_reserve profit_reserve route_path route_pools capital_cap
     profit_token gas_cost_wei fee_bps fractions_bps scavenger =
   (if capital_cap = 0 \<or> borrow_reserve = 0 \<or> profit_reserve = 0 then Inr []
    else collect_candidates
      (fee_extraction_v2_candidate cfg borrow_reserve profit_reserve route_path route_pools capital_cap
         profit_token gas_cost_wei fee_bps scavenger) fractions_bps)"

definition select_scavenger_v2_candidate :: "size_candidate list \<Rightarrow> size_candidate option" where
  "select_scavenger_v2_candidate candidates =
     max_by (\<lambda>l r. sc_gross_profit_wei l \<le> sc_gross_profit_wei r)
       (filter (\<lambda>c. sc_amount_in c \<noteq> 0 \<and> sc_gross_profit_wei c \<noteq> 0 \<and> sc_self_slippage_bps c \<le> 2500) candidates)"

section \<open>Sizes of a V3 trade\<close>

definition normalized_v3_candidate_for ::
  "libm \<Rightarrow> config \<Rightarrow> v3_pool_state \<Rightarrow> fee_extraction_build_input \<Rightarrow> u256 \<Rightarrow> u32 \<Rightarrow> u256 \<Rightarrow> u64
   \<Rightarrow> normalized_v3_candidate option" where
  "normalized_v3_candidate_for lm cfg pool inp capital_cap fee_tier gas_cost_wei bps =
   (let amount_in = sat_mul capital_cap (ucast bps) div 10000
    in if amount_in = 0 then None
    else case simulate_exact_in lm pool (fi_token_out inp) (fi_token_in inp) amount_in of None \<Rightarrow> None
    | Some (next_pool, result) \<Rightarrow>
    let repayment_wei = v3_flash_repayment_wei amount_in fee_tier
    in (case token_amount_to_native_wei cfg (fi_token_in inp) (v3r_amount_out result) of None \<Rightarrow> None
    | Some amount_out_native_wei \<Rightarrow>
    (case token_amount_to_native_wei cfg (fi_token_out inp) repayment_wei of None \<Rightarrow> None
    | Some repayment_native_wei \<Rightarrow>
    let edge_positive = (repayment_native_wei \<le> amount_out_native_wei);
        edge_abs = (if edge_positive then sat_sub amount_out_native_wei repayment_native_wei
                    else sat_sub repayment_native_wei amount_out_native_wei);
        gross = (if edge_positive then edge_abs else 0);
        net = sat_sub gross gas_cost_wei;
        roi = (if repayment_native_wei = 0 then 0
               else min_as_u64 (sat_mul net 10000 div repayment_native_wei) u64_max)
    in Some \<lparr>n3_candidate = \<lparr>v3c_capital_fraction_bps = bps, v3c_amount_in = amount_in,
               v3c_amount_out = v3r_amount_out result, v3c_gross_profit_wei = gross,
               v3c_net_profit_wei = net, v3c_roi_bps = roi,
               v3c_self_slippage_bps = v3r_price_impact_bps result\<rparr>,
             n3_repayment_wei = repayment_wei, n3_amount_out_native_wei = amount_out_native_wei,
             n3_repayment_native_wei = repayment_native_wei, n3_gross_profit_native_wei = gross,
             n3_net_profit_native_wei = net, n3_edge_positive = edge_positive,
             n3_edge_abs_native_wei = edge_abs\<rparr>)))"

definition normalized_v3_size_candidates ::
  "libm \<Rightarrow> config \<Rightarrow> v3_pool_state \<Rightarrow> fee_extraction_build_input \<Rightarrow> u256 \<Rightarrow> u32 \<Rightarrow> u256 \<Rightarrow> u64 list
   \<Rightarrow> normalized_v3_candidate list" where
  "normalized_v3_size_candidates lm cfg pool inp capital_cap fee_tier gas_cost_wei fractions_bps =
     (if capital_cap = 0 then []
      else List.map_filter (normalized_v3_candidate_for lm cfg pool inp capital_cap fee_tier gas_cost_wei)
             fractions_bps)"

definition select_scavenger_v3_candidate :: "normalized_v3_candidate list \<Rightarrow> normalized_v3_candidate option" where
  "select_scavenger_v3_candidate candidates =
     max_by (\<lambda>l r. n3_gross_profit_native_wei l \<le> n3_gross_profit_native_wei r)
       (filter (\<lambda>c. v3c_amount_in (n3_candidate c) \<noteq> 0 \<and> n3_edge_positive c
          \<and> n3_gross_profit_native_wei c \<noteq> 0 \<and> v3c_self_slippage_bps (n3_candidate c) \<le> 2500) candidates)"

definition normalized_v3_sizing_score :: "normalized_v3_candidate \<Rightarrow> f64 \<Rightarrow> f64 \<Rightarrow> f64" where
  "normalized_v3_sizing_score c context_priority_score context_toxicity_score =
     (let net_profit = of_uw (n3_net_profit_native_wei c);
          roi_component = of_uw (v3c_roi_bps (n3_candidate c)) / dec 10000 0;
          size_component = of_uw (v3c_capital_fraction_bps (n3_candidate c)) / dec 10000 0;
          slippage_penalty = of_uw (v3c_self_slippage_bps (n3_candidate c)) / dec 10000 0
      in net_profit
         * (1 + context_priority_score * dec 18 2)
         * (1 + roi_component * dec 42 2)
         * (1 + size_component * dec 10 2)
         * (1 - context_toxicity_score * dec 46 2)
         * (1 - slippage_penalty * dec 62 2))"

definition select_best_v3_candidate ::
  "normalized_v3_candidate list \<Rightarrow> f64 \<Rightarrow> f64 \<Rightarrow> normalized_v3_candidate option" where
  "select_best_v3_candidate candidates context_priority_score context_toxicity_score =
     (let priority = fclamp 0 (dec 15 1) context_priority_score;
          toxicity = fclamp 0 1 context_toxicity_score
      in max_by (\<lambda>l r. total_le (normalized_v3_sizing_score l priority toxicity)
                                (normalized_v3_sizing_score r priority toxicity))
           (filter (\<lambda>c. n3_edge_positive c \<and> n3_net_profit_native_wei c \<noteq> 0
              \<and> v3c_self_slippage_bps (n3_candidate c) \<le> 2500) candidates))"

section \<open>Samples of the edge\<close>

definition len_minus_1 :: "'a list \<Rightarrow> u64" where
  "len_minus_1 xs = word_of_int (max 0 (int (length xs) - 1))"

text \<open>The fields that every sample fills in the same way.\<close>

definition edge_sample ::
  "fee_extraction_build_input \<Rightarrow> string \<Rightarrow> message \<Rightarrow> message \<Rightarrow> message list \<Rightarrow> u64 \<Rightarrow> message list \<Rightarrow> u64
   \<Rightarrow> message list \<Rightarrow> u64 \<Rightarrow> u256 \<Rightarrow> u256 \<Rightarrow> message \<Rightarrow> f64 \<Rightarrow> u256 \<Rightarrow> f64 \<Rightarrow> u64 \<Rightarrow> u64 \<Rightarrow> edge_metadata" where
  "edge_sample inp kind status reason path hops pools gas rank bps amount_in amount_out gross_edge_wei
     gross_edge_native repayment_wei repayment_native impact slippage =
   \<lparr>em_victim_tx = [], em_selector = [], em_status = status, em_reason = reason,
    em_route_kind = [Lit kind], em_path = path, em_hops = hops, em_impacted_pools = pools,
    em_slippage_window_score = 0, em_pool_imbalance_score = 0, em_cross_dex_deviation_bps = 0,
    em_gas_estimate = gas, em_simulated_extraction_native = gross_edge_native,
    em_aggregator_type = [Lit ''direct_router''], em_route_complexity = hops, em_split_ratio_bps = 0,
    em_dex_sequence = [[Lit kind]], em_route_inefficiency_score = 0, em_liquidity_distortion_score = 0,
    em_hop_profitability_rank = rank, em_best_size_bps = bps, em_amount_in_wei = [Dec amount_in],
    em_amount_out_wei = [Dec amount_out], em_gross_edge_wei = gross_edge_wei,
    em_gross_edge_native = gross_edge_native, em_repayment_wei = [Dec repayment_wei],
    em_repayment_native = repayment_native, em_price_impact_bps = impact, em_self_slippage_bps = slippage,
    em_pool = [Hex (fi_pair inp)], em_factory = format_optional_address (fi_factory inp),
    em_router = [Hex (fi_router inp)], em_token_in = [Hex (fi_token_in inp)],
    em_token_out = [Hex (fi_token_out inp)]\<rparr>"

text \<open>One turn of the loop of \<open>best_v2_edge_metadata\<close>: the sign, the size and the sample of a fraction.\<close>

definition v2_edge_of_fraction ::
  "config \<Rightarrow> u256 \<Rightarrow> u256 \<Rightarrow> address list \<Rightarrow> v2_pool_state list \<Rightarrow> u256 \<Rightarrow> u64 \<Rightarrow> fee_extraction_build_input
   \<Rightarrow> u64 \<Rightarrow> string \<Rightarrow> string \<Rightarrow> u64 \<Rightarrow> (bool \<times> u256 \<times> edge_metadata) option" where
  "v2_edge_of_fraction cfg borrow_reserve profit_reserve route_path route_pools capital_cap fee_bps inp
     impact status reason bps =
   (let amount_in = sat_mul capital_cap (ucast bps) div 10000
    in if amount_in = 0 \<or> borrow_reserve \<le> amount_in then None
    else case quote_v2_route_exact_in amount_in route_path route_pools fee_bps of None \<Rightarrow> None
    | Some amount_out \<Rightarrow>
    (case v2_repayment_amount_in_profit_token borrow_reserve profit_reserve amount_in of None \<Rightarrow> None
    | Some repayment \<Rightarrow>
    let positive = (repayment \<le> amount_out);
        edge = (if positive then sat_sub amount_out repayment else sat_sub repayment amount_out)
    in (case token_amount_to_native_wei cfg (fi_token_in inp) edge of None \<Rightarrow> None
    | Some edge_native_wei \<Rightarrow>
    (case token_amount_to_native_f64 cfg (fi_token_in inp) repayment of None \<Rightarrow> None
    | Some repayment_native \<Rightarrow>
    let hops = len_minus_1 route_path
    in Some (positive, edge,
         edge_sample inp ''v2'' [Lit status] [Lit reason] (map (\<lambda>a. [Hex a]) route_path) hops
           (map (\<lambda>p. [Hex (v2_pair p)]) route_pools) 0 [] bps amount_in amount_out
           (if positive then [Dec edge_native_wei] else [Lit ''-'', Dec edge_native_wei])
           (if positive then wei_to_eth_f64 edge_native_wei else - wei_to_eth_f64 edge_native_wei)
           repayment repayment_native impact
           (price_impact_bps amount_in amount_out borrow_reserve profit_reserve))))))"

definition better_edge :: "(bool \<times> u256 \<times> edge_metadata) option \<Rightarrow> bool \<times> u256 \<times> edge_metadata \<Rightarrow> bool" where
  "better_edge best new =
     (case best of None \<Rightarrow> True
      | Some (best_positive, best_abs, sample) \<Rightarrow>
          (case new of (positive, edge_abs, sample') \<Rightarrow>
             positive \<and> \<not> best_positive
             \<or> positive = best_positive \<and> (if positive then best_abs < edge_abs else edge_abs < best_abs)))"

definition best_v2_edge_metadata ::
  "config \<Rightarrow> u256 \<Rightarrow> u256 \<Rightarrow> address list \<Rightarrow> v2_pool_state list \<Rightarrow> u256 \<Rightarrow> u64 \<Rightarrow> u64 list
   \<Rightarrow> fee_extraction_build_input \<Rightarrow> u64 \<Rightarrow> string \<Rightarrow> string \<Rightarrow> edge_metadata option" where
  "best_v2_edge_metadata cfg borrow_reserve profit_reserve route_path route_pools capital_cap fee_bps
     fractions_bps inp impact status reason =
   map_option (\<lambda>(positive, edge_abs, sample). sample)
     (foldl (\<lambda>best bps. case v2_edge_of_fraction cfg borrow_reserve profit_reserve route_path route_pools
                capital_cap fee_bps inp impact status reason bps of
           None \<Rightarrow> best
         | Some new \<Rightarrow> if better_edge best new then Some new else best) None fractions_bps)"

text \<open>The comparison of \<open>best_v3_edge_metadata\<close>, as \<open>compare(left, right) != Greater\<close>.\<close>

definition v3_edge_le :: "normalized_v3_candidate \<Rightarrow> normalized_v3_candidate \<Rightarrow> bool" where
  "v3_edge_le l r =
     (if n3_edge_positive l \<noteq> n3_edge_positive r then n3_edge_positive r
      else if n3_edge_positive l then n3_edge_abs_native_wei l \<le> n3_edge_abs_native_wei r
      else n3_edge_abs_native_wei r \<le> n3_edge_abs_native_wei l)"

definition best_v3_edge_metadata ::
  "normalized_v3_candidate list \<Rightarrow> fee_extraction_build_input \<Rightarrow> u64 \<Rightarrow> string \<Rightarrow> string \<Rightarrow> edge_metadata option" where
  "best_v3_edge_metadata candidates inp impact status reason =
   (case max_by v3_edge_le candidates of None \<Rightarrow> None
    | Some c \<Rightarrow>
      let fee_tier = (case fi_route_kind inp of RouteV3 fee path \<Rightarrow> fee | RouteV2 \<Rightarrow> 0);
          cand = n3_candidate c;
          gross_edge_wei = (if n3_edge_positive c then [Dec (n3_gross_profit_native_wei c)]
                            else [Lit ''-'', Dec (n3_edge_abs_native_wei c)]);
          gross_edge_native = (if n3_edge_positive c then wei_to_eth_f64 (n3_gross_profit_native_wei c)
                               else - wei_to_eth_f64 (n3_edge_abs_native_wei c));
          amount_out_native = wei_to_eth_f64 (n3_amount_out_native_wei c);
          repayment_native = wei_to_eth_f64 (n3_repayment_native_wei c)
      in Some (edge_sample inp ''v3'' [Lit status] [Lit reason]
           [[Hex (fi_token_out inp)], [Hex (fi_token_in inp)]] 1 [[Hex (fi_pair inp)]] 0
           [[Lit ''amount_in='', Dec (v3c_amount_in cand)], [Lit ''amount_out='', Dec (v3c_amount_out cand)],
            [Lit ''repayment='', Dec (n3_repayment_wei c)],
            [Lit ''amount_out_native='', F64Fixed 12 amount_out_native],
            [Lit ''repayment_native='', F64Fixed 12 repayment_native],
            [Lit ''gross_edge_native_wei='', Dec (n3_gross_profit_native_wei c)],
            [Lit ''edge_positive='', BoolText (n3_edge_positive c)],
            [Lit ''route_kind=v3 fee_tier='', DecU32 fee_tier]]
           (v3c_capital_fraction_bps cand) (v3c_amount_in cand) (v3c_amount_out cand) gross_edge_wei
           gross_edge_native (n3_repayment_wei c) repayment_native impact (v3c_self_slippage_bps cand)))"

section \<open>Building a V2 payload\<close>

definition v2_gas_estimate :: "config \<Rightarrow> u64" where
  "v2_gas_estimate cfg =
     min (max_gas_per_tx (mev cfg))
       (max (sat_add (estimated_exec_gas cfg) (estimated_bundle_overhead_gas cfg))
            (if payload_shadow_research_mode cfg then 140000 else 180000))"

text \<open>The V3 estimate adds its surcharge with a wrapping addition before the saturating one.\<close>

definition v3_gas_estimate :: "config \<Rightarrow> u64" where
  "v3_gas_estimate cfg =
     min (max_gas_per_tx (mev cfg))
       (if payload_shadow_research_mode cfg
        then max (sat_add (estimated_exec_gas cfg) (estimated_bundle_overhead_gas cfg + 20000)) 160000
        else max (sat_add (estimated_exec_gas cfg) (estimated_bundle_overhead_gas cfg + 35000)) 210000)"

definition payload_gas_cost :: "config \<Rightarrow> u256 \<Rightarrow> u64 \<Rightarrow> u256" where
  "payload_gas_cost cfg gas_price_wei gas_estimate =
     sat_mul (sat_mul gas_price_wei (ucast gas_estimate)) (ucast (gas_safety_margin_bps (mev cfg))) div 10000"

definition sizing_fractions :: "config \<Rightarrow> u64 list" where
  "sizing_fractions cfg =
     (if payload_shadow_research_mode cfg then [25, 50, 100, 200, 350, 500, 750, 1000, 1500]
      else [1000, 2000, 3500, 5000, 7500])"

definition min_amount_out_for :: "config \<Rightarrow> u256 \<Rightarrow> u256" where
  "min_amount_out_for cfg amount_out =
     sat_mul amount_out (ucast (sat_sub 10000 (effective_payload_slippage_bps cfg))) div 10000"

definition profit_too_small :: "string \<Rightarrow> config \<Rightarrow> u256 \<Rightarrow> u256 \<Rightarrow> message" where
  "profit_too_small what cfg simulated_profit_wei min_profit_wei =
     [Lit what, F64Fixed 6 (wei_to_eth_f64 simulated_profit_wei), Lit '' '', Lit (native_asset_symbol cfg),
      Lit '' below minimum '', F64Fixed 6 (wei_to_eth_f64 min_profit_wei), Lit '' '',
      Lit (native_asset_symbol cfg)]"

text \<open>From the inputs to the selected size: the guards, the candidates and the choice.\<close>

definition v2_select ::
  "payload_ext \<Rightarrow> config \<Rightarrow> fee_extraction_build_input \<Rightarrow> v2_pool_state \<Rightarrow> u64 \<Rightarrow> u256 \<Rightarrow> u256
   \<Rightarrow> address list \<Rightarrow> v2_pool_state list \<Rightarrow> u64 \<Rightarrow> build_error + size_candidate" where
  "v2_select px cfg inp pool_after impact reserve_in reserve_out swap_path route_pools gas_estimate =
   (let scavenger = (opportunity_mode (mev cfg) = Scavenger);
        shadow_research = payload_shadow_research_mode cfg;
        gas_cost = payload_gas_cost cfg (fi_gas_price_wei inp) gas_estimate
    in and_then (ok_or (BuildErr [Lit ''token normalization failed for borrow token '', Hex (fi_token_out inp),
           Lit '': missing decimals/price metadata and pool-derived fallback unavailable profit_token='',
           Hex (fi_token_in inp), Lit '' reserve_in='', Dec reserve_in, Lit '' reserve_out='', Dec reserve_out])
         (v2_borrow_cap_from_native cfg (fi_token_out inp) (fi_token_in inp) (fi_capital_available_wei inp)
            reserve_in reserve_out)) (\<lambda>capital_cap_token.
       and_then (map_sum BuildPanic id
         (fee_extraction_v2_size_candidates cfg reserve_in reserve_out swap_path route_pools capital_cap_token
            (fi_token_in inp) gas_cost (v2_fee_bps pool_after) (sizing_fractions cfg) scavenger)) (\<lambda>candidates.
       let blocked_sample = best_v2_edge_metadata cfg reserve_in reserve_out swap_path route_pools
             capital_cap_token (v2_fee_bps pool_after) (sizing_fractions cfg) inp impact ''blocked''
             ''no positive gross edge''
       in if shadow_research
          then ok_or (BuildErr (payload_error_with_edge_sample px ''no positive gross edge for scavenger payload''
                 (map_option (\<lambda>sample. scavenger_shadow_sample px cfg sample ''shadow_candidate''
                    ''gross edge below live threshold'') blocked_sample)))
                 (select_scavenger_v2_candidate candidates)
          else ok_or (BuildErr [Lit ''no ROI-positive trade size after gas''])
                 (select_best_size_candidate candidates (fi_context_priority_score inp)
                    (fi_context_toxicity_score inp)))))"

definition v2_edge_metadata ::
  "config \<Rightarrow> fee_extraction_build_input \<Rightarrow> u64 \<Rightarrow> u64 \<Rightarrow> u64 \<Rightarrow> address list \<Rightarrow> v2_pool_state list \<Rightarrow> size_candidate
   \<Rightarrow> u256 \<Rightarrow> f64 \<Rightarrow> edge_metadata" where
  "v2_edge_metadata cfg inp fee_bps impact gas_estimate swap_path route_pools c repayment_wei repayment_native =
     edge_sample inp ''v2'' [Lit ''payload_built''] [Lit ''selected positive gross edge'']
       (map (\<lambda>a. [Hex a]) swap_path) (len_minus_1 swap_path) (map (\<lambda>p. [Hex (v2_pair p)]) route_pools)
       gas_estimate
       [[Lit ''amount_in='', Dec (sc_amount_in c)], [Lit ''amount_out='', Dec (sc_amount_out c)],
        [Lit ''repayment='', Dec repayment_wei], [Lit ''gross_edge_native_wei='', Dec (sc_gross_profit_wei c)],
        [Lit ''route_kind=v2 fee_bps='', DecU64 fee_bps]]
       (sc_capital_fraction_bps c) (sc_amount_in c) (sc_amount_out c) [Dec (sc_gross_profit_wei c)]
       (wei_to_eth_f64 (sc_gross_profit_wei c)) repayment_wei repayment_native impact (sc_self_slippage_bps c)"

text \<open>From the selected size to the payload.\<close>

definition v2_finish ::
  "payload_ext \<Rightarrow> config \<Rightarrow> fee_extraction_build_input \<Rightarrow> u64 \<Rightarrow> u64 \<Rightarrow> u256 \<Rightarrow> u256 \<Rightarrow> address list
   \<Rightarrow> v2_pool_state list \<Rightarrow> u64 \<Rightarrow> size_candidate \<Rightarrow> build_error + execution_payload" where
  "v2_finish px cfg inp fee_bps impact reserve_in reserve_out swap_path route_pools gas_estimate c =
   (let shadow_research = payload_shadow_research_mode cfg;
        repayment_wei = (case v2_repayment_amount_in_profit_token reserve_in reserve_out (sc_amount_in c) of
            Some r \<Rightarrow> r | None \<Rightarrow> 0)
    in and_then (ok_or (BuildErr [Lit ''token normalization failed for profit token '', Hex (fi_token_in inp),
           Lit '': missing decimals/price metadata''])
         (token_amount_to_native_f64 cfg (fi_token_in inp) repayment_wei)) (\<lambda>repayment_native.
       let simulated_profit_wei = (if shadow_research then sc_gross_profit_wei c else sc_net_profit_wei c);
           min_amount_out = min_amount_out_for cfg (sc_amount_out c)
       in and_then (effective_payload_min_profit_wei px cfg) (\<lambda>min_profit_wei.
          if \<not> shadow_research \<and> simulated_profit_wei < min_profit_wei
          then Inl (BuildErr (profit_too_small ''simulated profit '' cfg simulated_profit_wei min_profit_wei))
          else let metadata = v2_edge_metadata cfg inp fee_bps impact gas_estimate swap_path route_pools c
                     repayment_wei repayment_native
          in and_then (ok_or (BuildErr (payload_error_with_edge_sample px
                 ''MEV_EXECUTOR_ADDRESS is required to build V2 atomic payload''
                 (Some (scavenger_shadow_sample px cfg metadata ''shadow_candidate''
                    ''executor contract not configured'')))) (mev_executor (mev cfg))) (\<lambda>executor.
             let step = \<lparr>ss_router = fi_router inp, ss_path = swap_path, ss_amount_in = sc_amount_in c,
                         ss_min_out = min_amount_out\<rparr>;
                 call = build_v2_flashswap_call (px_abi px) executor (fi_pair inp) (fi_token_out inp)
                   (sc_amount_in c) min_profit_wei (fi_token_in inp) (fi_recipient inp) [step]
             in Inr \<lparr>pl_tx = [], pl_calldata = fc_calldata call, pl_target_contract = fc_target_contract call,
                     pl_value = 0, pl_pair = fi_pair inp, pl_amm_kind = RouteV2,
                     pl_capital_committed_wei = sc_amount_in c, pl_expected_profit_wei = simulated_profit_wei,
                     pl_gas_limit = gas_estimate, pl_price_impact_bps = impact,
                     pl_profit_token = fi_token_in inp, pl_profit_recipient = fi_recipient inp,
                     pl_context_priority_score = fi_context_priority_score inp,
                     pl_context_toxicity_score = fi_context_toxicity_score inp,
                     pl_edge_metadata = Some metadata, pl_pool_state_before = fi_state_before inp\<rparr>))))"

definition victim_failed :: "string \<Rightarrow> fee_extraction_build_input \<Rightarrow> message" where
  "victim_failed what inp =
     [Lit ''victim post-swap simulation failed token_in='', Hex (fi_token_in inp), Lit '' token_out='',
      Hex (fi_token_out inp), Lit '' amount_in='', Dec (fi_victim_amount_in inp), Lit what,
      Hex (fi_pair inp), Lit '' state_before='', StateText (fi_state_before inp)]"

definition build_fee_extraction_v2 ::
  "payload_ext \<Rightarrow> config \<Rightarrow> fee_extraction_build_input \<Rightarrow> build_error + execution_payload" where
  "build_fee_extraction_v2 px cfg inp =
   and_then (ok_or (BuildErr (victim_failed '' pair='' inp))
     (simulate_victim_exact_in (px_libm px) (fi_state_before inp) (fi_token_in inp) (fi_token_out inp)
        (fi_victim_amount_in inp))) (\<lambda>post_victim.
   case state_after post_victim of
     AmmUniswapV3 p \<Rightarrow> Inl (BuildErr [Lit ''v2 payload requires UniswapV2 simulated state''])
   | AmmUniswapV2 pool_after \<Rightarrow>
     let impact = slippage_impact_bps post_victim
     in if effective_payload_price_impact_cap_bps cfg < impact
        then Inl (BuildErr [Lit ''victim price impact too high: '', DecU64 impact, Lit ''bps''])
        else and_then (ok_or (BuildErr [Lit ''pool after victim does not support reverse path''])
            (reserves_for pool_after (fi_token_out inp) (fi_token_in inp))) (\<lambda>(reserve_in, reserve_out).
          let gas_estimate = v2_gas_estimate cfg;
              swap_path = (case fi_v2_swap_path inp of Some p \<Rightarrow> p | None \<Rightarrow> [fi_token_out inp, fi_token_in inp]);
              route_pools = (if fi_v2_swap_pools inp = [] then [pool_after] else fi_v2_swap_pools inp)
          in and_then (v2_select px cfg inp pool_after impact reserve_in reserve_out swap_path route_pools
                gas_estimate)
               (v2_finish px cfg inp (v2_fee_bps pool_after) impact reserve_in reserve_out swap_path
                  route_pools gas_estimate)))"

section \<open>Building a V3 payload\<close>

definition v3_select ::
  "payload_ext \<Rightarrow> config \<Rightarrow> fee_extraction_build_input \<Rightarrow> v3_pool_state \<Rightarrow> u64 \<Rightarrow> u32 \<Rightarrow> u64
   \<Rightarrow> build_error + normalized_v3_candidate" where
  "v3_select px cfg inp reverse_pool impact fee_tier gas_estimate =
   (let gas_cost = payload_gas_cost cfg (fi_gas_price_wei inp) gas_estimate
    in and_then (ok_or (BuildErr [Lit ''token normalization failed for borrow token '', Hex (fi_token_out inp),
           Lit '': missing decimals/price metadata''])
         (native_wei_to_token_amount cfg (fi_token_out inp) (fi_capital_available_wei inp))) (\<lambda>capital_cap_token.
       let candidates = normalized_v3_size_candidates (px_libm px) cfg reverse_pool inp capital_cap_token
             fee_tier gas_cost (sizing_fractions cfg)
       in if payload_shadow_research_mode cfg
          then ok_or (BuildErr (payload_error_with_edge_sample px ''no positive gross v3 edge for scavenger payload''
                 (map_option (\<lambda>sample. scavenger_shadow_sample px cfg sample ''shadow_candidate''
                    ''gross v3 edge below live threshold'')
                    (best_v3_edge_metadata candidates inp impact ''blocked'' ''no positive gross v3 edge''))))
                 (select_scavenger_v3_candidate candidates)
          else ok_or (BuildErr [Lit ''no ROI-positive v3 trade size after gas''])
                 (select_best_v3_candidate candidates (fi_context_priority_score inp)
                    (fi_context_toxicity_score inp))))"

definition v3_edge_metadata ::
  "fee_extraction_build_input \<Rightarrow> u32 \<Rightarrow> u64 \<Rightarrow> u64 \<Rightarrow> normalized_v3_candidate \<Rightarrow> f64 \<Rightarrow> f64 \<Rightarrow> edge_metadata" where
  "v3_edge_metadata inp fee_tier impact gas_estimate c amount_out_native repayment_native =
   (let cand = n3_candidate c
    in edge_sample inp ''v3'' [Lit ''payload_built''] [Lit ''selected positive v3 gross edge'']
       [[Hex (fi_token_out inp)], [Hex (fi_token_in inp)]] 1 [[Hex (fi_pair inp)]] gas_estimate
       [[Lit ''amount_in='', Dec (v3c_amount_in cand)], [Lit ''amount_out='', Dec (v3c_amount_out cand)],
        [Lit ''repayment='', Dec (n3_repayment_wei c)],
        [Lit ''amount_out_native='', F64Fixed 12 amount_out_native],
        [Lit ''repayment_native='', F64Fixed 12 repayment_native],
        [Lit ''gross_edge_native_wei='', Dec (n3_gross_profit_native_wei c)],
        [Lit ''route_kind=v3 fee_tier='', DecU32 fee_tier]]
       (v3c_capital_fraction_bps cand) (v3c_amount_in cand) (v3c_amount_out cand)
       [Dec (n3_gross_profit_native_wei c)] (wei_to_eth_f64 (n3_gross_profit_native_wei c))
       (n3_repayment_wei c) repayment_native impact (v3c_self_slippage_bps cand))"

text \<open>The status that a shadow build or a live scavenger build writes into its metadata.\<close>

definition v3_shadow_status ::
  "payload_ext \<Rightarrow> config \<Rightarrow> u256 \<Rightarrow> edge_metadata \<Rightarrow> build_error + edge_metadata" where
  "v3_shadow_status px cfg net_profit_native_wei m =
   (if \<not> payload_shadow_research_mode cfg then Inr m
    else if \<not> allow_send cfg
    then Inr (m\<lparr>em_status := [Lit ''v3_shadow_ready''],
          em_reason := em_reason m @ [Lit '' unit_safe=true shadow_payload_built=true allow_send=false normalized_net_after_gas='',
            F64Shown (wei_to_eth_f64 net_profit_native_wei)]\<rparr>)
    else if opportunity_mode (mev cfg) = Scavenger
    then if net_profit_native_wei = 0
         then Inl (BuildErr (payload_error_with_edge_sample px
            ''v3 scavenger payload blocked for live send: normalized net edge is zero'' (Some m)))
         else Inr (m\<lparr>em_status := [Lit ''v3_live_ready''],
            em_reason := em_reason m @ [Lit '' normalized_units=true live_send_allowed=true'']\<rparr>)
    else Inr m)"

definition v3_finish ::
  "payload_ext \<Rightarrow> config \<Rightarrow> fee_extraction_build_input \<Rightarrow> u32 \<Rightarrow> bytes \<Rightarrow> u64 \<Rightarrow> u64 \<Rightarrow> normalized_v3_candidate
   \<Rightarrow> build_error + execution_payload" where
  "v3_finish px cfg inp fee_tier path impact gas_estimate c =
   (let shadow_research = payload_shadow_research_mode cfg;
        amount_in = v3c_amount_in (n3_candidate c);
        amount_out = v3c_amount_out (n3_candidate c);
        net_profit_native_wei = n3_net_profit_native_wei c
    in if n3_gross_profit_native_wei c = 0 then Inl (BuildErr [Lit ''no positive normalized v3 gross edge''])
    else and_then (ok_or (BuildErr [Lit ''token normalization failed for v3 output token '', Hex (fi_token_in inp),
           Lit '': missing decimals/price metadata''])
         (token_amount_to_native_f64 cfg (fi_token_in inp) amount_out)) (\<lambda>amount_out_native.
       and_then (ok_or (BuildErr [Lit ''token normalization failed for v3 repayment token '', Hex (fi_token_out inp),
           Lit '': missing decimals/price metadata''])
         (token_amount_to_native_f64 cfg (fi_token_out inp) (n3_repayment_wei c))) (\<lambda>repayment_native.
       let simulated_profit_wei = (if shadow_research then n3_gross_profit_native_wei c else net_profit_native_wei);
           min_amount_out = min_amount_out_for cfg amount_out
       in and_then (effective_payload_min_profit_wei px cfg) (\<lambda>min_profit_wei.
          if \<not> shadow_research \<and> simulated_profit_wei < min_profit_wei
          then Inl (BuildErr (profit_too_small ''simulated v3 profit '' cfg simulated_profit_wei min_profit_wei))
          else and_then (v3_shadow_status px cfg net_profit_native_wei
              (v3_edge_metadata inp fee_tier impact gas_estimate c amount_out_native repayment_native)) (\<lambda>metadata.
          and_then (ok_or (BuildErr (payload_error_with_edge_sample px
                 ''MEV_EXECUTOR_V3_ADDRESS or MEV_EXECUTOR_ADDRESS is required to build V3 atomic payload''
                 (Some (scavenger_shadow_sample px cfg metadata ''shadow_candidate''
                    ''executor contract not configured''))))
               (case mev_executor_v3 (mev cfg) of Some a \<Rightarrow> Some a | None \<Rightarrow> mev_executor (mev cfg))) (\<lambda>executor.
             let step = \<lparr>ss3_router = fi_router inp, ss3_path = path, ss3_amount_in = amount_in,
                         ss3_min_out = min_amount_out\<rparr>;
                 call = build_v3_flashswap_call (px_abi px) executor (fi_pair inp) (fi_token_out inp)
                   amount_in fee_tier min_profit_wei (fi_token_in inp) (fi_recipient inp) [step]
             in Inr \<lparr>pl_tx = [], pl_calldata = fc_calldata call, pl_target_contract = fc_target_contract call,
                     pl_value = 0, pl_pair = fi_pair inp, pl_amm_kind = RouteV3 fee_tier path,
                     pl_capital_committed_wei = amount_in, pl_expected_profit_wei = simulated_profit_wei,
                     pl_gas_limit = gas_estimate, pl_price_impact_bps = impact,
                     pl_profit_token = fi_token_in inp, pl_profit_recipient = fi_recipient inp,
                     pl_context_priority_score = fi_context_priority_score inp,
                     pl_context_toxicity_score = fi_context_toxicity_score inp,
                     pl_edge_metadata = Some metadata, pl_pool_state_before = fi_state_before inp\<rparr>))))))"

definition build_fee_extraction_v3 ::
  "payload_ext \<Rightarrow> config \<Rightarrow> fee_extraction_build_input \<Rightarrow> build_error + execution_payload" where
  "build_fee_extraction_v3 px cfg inp =
   (case fi_route_kind inp of
      RouteV2 \<Rightarrow> Inl (BuildErr [Lit ''v3 payload requires UniswapV3 route kind''])
    | RouteV3 fee_tier path \<Rightarrow>
   and_then (ok_or (BuildErr (victim_failed '' pool='' inp))
     (simulate_victim_exact_in (px_libm px) (fi_state_before inp) (fi_token_in inp) (fi_token_out inp)
        (fi_victim_amount_in inp))) (\<lambda>post_victim.
   case state_after post_victim of
     AmmUniswapV2 p \<Rightarrow> Inl (BuildErr [Lit ''v3 payload requires UniswapV3 simulated state''])
   | AmmUniswapV3 pool_after \<Rightarrow>
     let impact = slippage_impact_bps post_victim; gas_estimate = v3_gas_estimate cfg
     in if v3_initialized_ticks pool_after = []
        then Inl (BuildErr [Lit ''v3_tick_data_missing_for_shadow_ev pool='', Hex (v3_pool pool_after),
               Lit '' liquidity='', Dec (v3_liquidity pool_after), Lit '' sqrtPriceX96='',
               Dec (v3_sqrt_price_x96 pool_after), Lit '' current_tick='', DecI32 (v3_current_tick pool_after),
               Lit '' shadow_v3_ev_blocked=true''])
        else if effective_payload_price_impact_cap_bps cfg < impact
        then Inl (BuildErr [Lit ''victim price impact too high: '', DecU64 impact, Lit ''bps''])
        else and_then (v3_select px cfg inp pool_after impact fee_tier gas_estimate)
               (v3_finish px cfg inp fee_tier path impact gas_estimate)))"

end
