(* ===== verification/PayloadSafety.thy ===== *)
theory PayloadSafety
  imports PayloadBuilder
begin

text \<open>
  Correctness of the payload builder: the repayment formulas against the pools' own invariants,
  what every sizing candidate satisfies, the selection, and what holds of every payload that is
  built. Facts about the builder's parts come first; the properties follow.
\<close>

section \<open>Repayments\<close>

lemma uint_1000: "uint (1000 :: u256) = 1000" "uint (997 :: u256) = 997" "uint (10000 :: u256) = 10000"
  "uint (1000000 :: u256) = 1000000" "uint (999999 :: u256) = 999999"
  by simp_all

lemma quotient_room: "0 \<le> (n :: int) \<Longrightarrow> n < 2 ^ 256 \<Longrightarrow> n div 997 < 2 ^ 256 - 1"
  by simp

lemma v2_repayment_value:
  assumes r: "v2_repayment_amount_in_profit_token rb rp b = Some r"
    and fits: "uint rp * uint b * 1000 < 2 ^ 256" "uint rb * 997 < 2 ^ 256"
  shows "0 < uint b" "uint b < uint rb"
    "uint r = (uint rp * uint b * 1000) div ((uint rb - uint b) * 997) + 1"
proof -
  let ?num = "sat_mul (sat_mul rp b) 1000" and ?den = "sat_mul (sat_sub rb b) 997"
  have nz: "b \<noteq> 0" "rp \<noteq> 0" "\<not> rb \<le> b" "?den \<noteq> 0" and rv: "r = sat_add (?num div ?den) 1"
    using r by (auto simp: v2_repayment_amount_in_profit_token_def Let_def split: if_splits)
  show b: "0 < uint b" "uint b < uint rb" using nz by (simp_all add: word_pos_iff word_le_def)
  have nn: "0 \<le> uint rp * uint b" by simp
  have "uint rp * uint b < 2 ^ 256" using fits(1) nn by linarith
  then have "uint (sat_mul rp b) = uint rp * uint b" by (simp add: uint_sat_mul)
  then have num: "uint ?num = uint rp * uint b * 1000" using fits(1) by (simp add: uint_sat_mul)
  have den: "uint ?den = (uint rb - uint b) * 997"
    using fits(2) b uint_nonneg [of b] by (simp add: uint_sat_mul uint_sat_sub)
  have "uint rp * uint b * 1000 div ((uint rb - uint b) * 997) \<le> uint rp * uint b * 1000 div 997"
    using b nn by (intro zdiv_mono2) auto
  also have "\<dots> < 2 ^ 256 - 1" using quotient_room fits(1) nn by simp
  finally show "uint r = (uint rp * uint b * 1000) div ((uint rb - uint b) * 997) + 1"
    by (simp add: rv uint_sat_add uint_div_word num den)
qed

text \<open>
  C20: the repayment of a V2 flash swap is what the pair asks for. When the products fit in 256 bits,
  paying it back in the other token satisfies the pair's constant-product check with the 0.3 percent
  fee, strictly, and one unit less would at best meet the check with equality.
\<close>

theorem v2_repayment_satisfies_pair:
  assumes r: "v2_repayment_amount_in_profit_token rb rp b = Some r"
    and fits: "uint rp * uint b * 1000 < 2 ^ 256" "uint rb * 997 < 2 ^ 256"
  shows "1000 * uint rp * uint rb < (1000 * uint rp + 997 * uint r) * (uint rb - uint b)
    \<and> (1000 * uint rp + 997 * (uint r - 1)) * (uint rb - uint b) \<le> 1000 * uint rp * uint rb"
proof -
  let ?n = "uint rp * uint b * 1000" and ?d = "(uint rb - uint b) * 997"
  note v = v2_repayment_value [OF assms]
  have d: "0 < ?d" using v(2) by simp
  have "?n = ?d * (?n div ?d) + ?n mod ?d" by simp
  then have e: "?n = ?d * (uint r - 1) + ?n mod ?d" using v(3) by simp
  moreover have "0 \<le> ?n mod ?d" "?n mod ?d < ?d" using d by simp_all
  ultimately have "?d * (uint r - 1) \<le> ?n" "?n < ?d * uint r" by (simp_all add: algebra_simps)
  then show ?thesis by (simp add: algebra_simps)
qed

theorem v2_repayment_satisfies_pair_witness:
  "v2_repayment_amount_in_profit_token 10000 20000 100 = Some 203
   \<and> (1000 * 20000 :: int) * 10000 < (1000 * 20000 + 997 * 203) * (10000 - 100)"
proof -
  have "v2_repayment_amount_in_profit_token 10000 20000 100 = Some 203" by code_simp
  from v2_repayment_satisfies_pair [OF this] this show ?thesis by simp
qed

text \<open>
  The repayment of a V3 flash swap is the borrowed amount plus the fee rounded up, when neither
  the product nor the sum leaves 256 bits.
\<close>

theorem v3_repayment_is_ceiling:
  assumes "uint amount * uint fee + 999999 < 2 ^ 256"
    and "uint amount + (uint amount * uint fee + 999999) div 1000000 < 2 ^ 256"
  shows "uint (v3_flash_repayment_wei amount fee) = uint amount + \<lceil>of_int (uint amount * uint fee) / (1000000 :: real)\<rceil>"
proof -
  let ?p = "uint amount * uint fee"
  have f: "uint (ucast fee :: u256) = uint fee"
    using uint_bounded [of fee] by (simp add: unsigned_ucast_eq take_bit_int_eq_self)
  have c: "\<lceil>of_int ?p / (1000000 :: real)\<rceil> = (?p + 999999) div 1000000"
    using ceiling_divide_eq_div [where ?'a = real, of ?p 1000000] by simp
  have "uint (v3_flash_repayment_wei amount fee) = uint amount + (?p + 999999) div 1000000"
  proof (cases "amount = 0")
    case False
    then show ?thesis using assms
      by (simp add: v3_flash_repayment_wei_def Let_def uint_sat_add uint_sat_mul uint_div_word f)
  qed (simp add: v3_flash_repayment_wei_def)
  with c show ?thesis by simp
qed

theorem v3_repayment_is_ceiling_witness:
  "uint (v3_flash_repayment_wei 1000 3000) = 1000 + \<lceil>of_int (1000 * 3000) / (1000000 :: real)\<rceil>"
  using v3_repayment_is_ceiling [of 1000 3000] by simp

section \<open>Candidates and selection\<close>

lemma map_sum_eq_Inr: "map_sum f g x = Inr y \<longleftrightarrow> (\<exists>z. x = Inr z \<and> y = g z)"
  by (cases x) auto

lemma map_sum_eq_Inl: "map_sum f g x = Inl y \<longleftrightarrow> (\<exists>z. x = Inl z \<and> y = f z)"
  by (cases x) auto

interpretation by_gross: total_comparison "\<lambda>l r. sc_gross_profit_wei l \<le> sc_gross_profit_wei r"
  by unfold_locales auto

interpretation by_v3_gross: total_comparison "\<lambda>l r. n3_gross_profit_native_wei l \<le> n3_gross_profit_native_wei r"
  by unfold_locales auto

interpretation by_v3_score: total_comparison
  "\<lambda>l r. total_le (normalized_v3_sizing_score l pri tox) (normalized_v3_sizing_score r pri tox)" for pri tox
  by (rule total_comparison_key [OF f64_total.total_comparison_axioms])

interpretation by_v3_edge: total_comparison v3_edge_le
  by unfold_locales (auto simp: v3_edge_le_def split: if_splits)

lemma collect_candidates_member:
  "collect_candidates f fs = Inr cs \<Longrightarrow> c \<in> set cs \<Longrightarrow> \<exists>bps\<in>set fs. f bps = Inr (Some c)"
proof (induction fs arbitrary: cs)
  case (Cons bps fs)
  then show ?case by (cases "f bps"; cases "collect_candidates f fs") (auto split: option.splits)
qed simp

lemma collect_candidates_panic:
  "collect_candidates f fs = Inl p \<Longrightarrow> \<exists>bps\<in>set fs. f bps = Inl p"
proof (induction fs)
  case (Cons bps fs)
  then show ?case by (cases "f bps"; cases "collect_candidates f fs") auto
qed simp

text \<open>What the loop body guarantees of a candidate, and when it panics.\<close>

definition sound_v2_candidate ::
  "config \<Rightarrow> u256 \<Rightarrow> u256 \<Rightarrow> address list \<Rightarrow> v2_pool_state list \<Rightarrow> u256 \<Rightarrow> address \<Rightarrow> u256 \<Rightarrow> u64 \<Rightarrow> bool
   \<Rightarrow> size_candidate \<Rightarrow> bool" where
  "sound_v2_candidate cfg rb rp path pools cap pt gas fee scav c =
     (sc_amount_in c = sat_mul cap (ucast (sc_capital_fraction_bps c)) div 10000
      \<and> sc_amount_in c \<noteq> 0 \<and> sc_amount_in c < rb
      \<and> quote_v2_route_exact_in (sc_amount_in c) path pools fee = Some (sc_amount_out c)
      \<and> (\<exists>rep. v2_repayment_amount_in_profit_token rb rp (sc_amount_in c) = Some rep
           \<and> token_amount_to_native_wei cfg pt (sat_sub (sc_amount_out c) rep) = Some (sc_gross_profit_wei c))
      \<and> sc_net_profit_wei c = (if scav then sc_gross_profit_wei c else sat_sub (sc_gross_profit_wei c) gas)
      \<and> sc_net_profit_wei c \<noteq> 0 \<and> sc_self_slippage_bps c \<le> 10000)"

lemma fee_extraction_v2_candidate_sound:
  assumes "fee_extraction_v2_candidate cfg rb rp path pools cap pt gas fee scav bps = Inr (Some c)"
  shows "sound_v2_candidate cfg rb rp path pools cap pt gas fee scav c \<and> sc_capital_fraction_bps c = bps"
  using assms unfolding fee_extraction_v2_candidate_def Let_def sound_v2_candidate_def
  by (auto simp: and_then_eq_Inr not_le price_impact_bps_le split: if_splits option.splits)

lemma fee_extraction_v2_candidate_panic:
  assumes "fee_extraction_v2_candidate cfg rb rp path pools cap pt gas fee scav bps = Inl p"
  shows "p = DivisionByZero \<and> (\<exists>rep. v2_repayment_amount_in_profit_token rb rp
      (sat_mul cap (ucast bps) div 10000) = Some rep \<and> rep \<noteq> 0 \<and> token_amount_to_native_wei cfg pt rep = Some 0)"
  using assms unfolding fee_extraction_v2_candidate_def Let_def
  by (auto split: if_splits option.splits)

lemma v2_candidates_sound:
  assumes "fee_extraction_v2_size_candidates cfg rb rp path pools cap pt gas fee fs scav = Inr cs" "c \<in> set cs"
  shows "sound_v2_candidate cfg rb rp path pools cap pt gas fee scav c \<and> sc_capital_fraction_bps c \<in> set fs"
proof -
  have "collect_candidates (fee_extraction_v2_candidate cfg rb rp path pools cap pt gas fee scav) fs = Inr cs"
    using assms by (auto simp: fee_extraction_v2_size_candidates_def split: if_splits)
  from collect_candidates_member [OF this assms(2)] fee_extraction_v2_candidate_sound show ?thesis by blast
qed

lemma share_bound: "uint (sat_mul cap (ucast (bps :: u64)) div 10000 :: u256) * 10000 \<le> uint cap * uint bps"
proof -
  have "uint (sat_mul cap (ucast bps) div 10000 :: u256) = uint (sat_mul cap (ucast bps)) div 10000"
    by (simp add: uint_div_word)
  also have "\<dots> * 10000 \<le> uint (sat_mul cap (ucast bps))"
    using div_mult_mod_eq [of "uint (sat_mul cap (ucast bps))" 10000] pos_mod_sign [of 10000 "uint (sat_mul cap (ucast bps))"]
    by linarith
  also have "\<dots> \<le> uint cap * uint bps" by (simp add: uint_sat_mul uint_ucast_u64)
  finally show ?thesis by simp
qed

lemma min_amount_out_le: "min_amount_out_for cfg amount \<le> amount"
  unfolding min_amount_out_for_def by (rule bps_share_le) (simp add: word_le_def uint_sat_sub)

definition max_fraction :: "config \<Rightarrow> int" where
  "max_fraction cfg = (if payload_shadow_research_mode cfg then 1500 else 7500)"

lemma sizing_fractions_le: "bps \<in> set (sizing_fractions cfg) \<Longrightarrow> uint bps \<le> max_fraction cfg"
  by (auto simp: sizing_fractions_def max_fraction_def split: if_splits)

lemma v2_select_InrD:
  assumes "v2_select px cfg inp pool impact rb rp path pools gas = Inr c"
  obtains cap where
    "v2_borrow_cap_from_native cfg (fi_token_out inp) (fi_token_in inp) (fi_capital_available_wei inp) rb rp = Some cap"
    "sound_v2_candidate cfg rb rp path pools cap (fi_token_in inp)
       (payload_gas_cost cfg (fi_gas_price_wei inp) gas) (v2_fee_bps pool) (opportunity_mode (mev cfg) = Scavenger) c"
    "uint (sc_amount_in c) * 10000 \<le> uint cap * max_fraction cfg"
    "payload_shadow_research_mode cfg \<longrightarrow> sc_gross_profit_wei c \<noteq> 0 \<and> sc_self_slippage_bps c \<le> 2500"
proof -
  from assms obtain cap cs where
    cap: "v2_borrow_cap_from_native cfg (fi_token_out inp) (fi_token_in inp) (fi_capital_available_wei inp) rb rp = Some cap"
    and cs: "fee_extraction_v2_size_candidates cfg rb rp path pools cap (fi_token_in inp)
       (payload_gas_cost cfg (fi_gas_price_wei inp) gas) (v2_fee_bps pool) (sizing_fractions cfg)
       (opportunity_mode (mev cfg) = Scavenger) = Inr cs"
    and sel: "(if payload_shadow_research_mode cfg then select_scavenger_v2_candidate cs
       else select_best_size_candidate cs (fi_context_priority_score inp) (fi_context_toxicity_score inp)) = Some c"
    unfolding v2_select_def Let_def
    by (auto simp: and_then_eq_Inr map_sum_eq_Inr split: if_splits)
  have "c \<in> set cs"
    using sel by (auto simp: select_scavenger_v2_candidate_def select_best_size_candidate_def Let_def
        split: if_splits dest!: by_gross.max_by_in v2_by_score.max_by_in)
  from v2_candidates_sound [OF cs this]
  have snd: "sound_v2_candidate cfg rb rp path pools cap (fi_token_in inp)
       (payload_gas_cost cfg (fi_gas_price_wei inp) gas) (v2_fee_bps pool) (opportunity_mode (mev cfg) = Scavenger) c"
    and f: "uint (sc_capital_fraction_bps c) \<le> max_fraction cfg"
    using sizing_fractions_le by auto
  have "uint (sc_amount_in c) * 10000 \<le> uint cap * uint (sc_capital_fraction_bps c)"
    using snd share_bound by (simp add: sound_v2_candidate_def)
  also have "\<dots> \<le> uint cap * max_fraction cfg" using f by (simp add: mult_left_mono)
  finally have "uint (sc_amount_in c) * 10000 \<le> uint cap * max_fraction cfg" .
  moreover have "sc_gross_profit_wei c \<noteq> 0 \<and> sc_self_slippage_bps c \<le> 2500" if "payload_shadow_research_mode cfg"
    using sel that by (auto simp: select_scavenger_v2_candidate_def dest!: by_gross.max_by_in)
  ultimately show ?thesis using that [OF cap snd] by simp
qed

lemma v2_finish_InrD:
  assumes "v2_finish px cfg inp fee impact rb rp path pools gas c = Inr pl"
  obtains executor min_profit where
    "mev_executor (mev cfg) = Some executor" "effective_payload_min_profit_wei px cfg = Inr min_profit"
    "pl_target_contract pl = executor"
    "pl_calldata pl = encode_start_v2_flash_swap (px_abi px) (fi_pair inp) (fi_token_out inp) (sc_amount_in c)
       min_profit (fi_token_in inp) (fi_recipient inp)
       [\<lparr>ss_router = fi_router inp, ss_path = path, ss_amount_in = sc_amount_in c,
         ss_min_out = min_amount_out_for cfg (sc_amount_out c)\<rparr>]"
    "pl_expected_profit_wei pl = (if payload_shadow_research_mode cfg then sc_gross_profit_wei c else sc_net_profit_wei c)"
    "payload_shadow_research_mode cfg \<or> min_profit \<le> pl_expected_profit_wei pl"
    "pl_value pl = 0" "pl_pair pl = fi_pair inp" "pl_profit_token pl = fi_token_in inp"
    "pl_profit_recipient pl = fi_recipient inp" "pl_capital_committed_wei pl = sc_amount_in c"
    "pl_gas_limit pl = gas" "pl_price_impact_bps pl = impact"
  using assms unfolding v2_finish_def Let_def
  by (auto simp: and_then_eq_Inr build_v2_flashswap_call_def not_less split: if_splits)

lemma build_v2_InrD:
  assumes "build_fee_extraction_v2 px cfg inp = Inr pl"
  obtains pv pool rb rp path pools c where
    "simulate_victim_exact_in (px_libm px) (fi_state_before inp) (fi_token_in inp) (fi_token_out inp)
       (fi_victim_amount_in inp) = Some pv"
    "state_after pv = AmmUniswapV2 pool" "slippage_impact_bps pv \<le> effective_payload_price_impact_cap_bps cfg"
    "reserves_for pool (fi_token_out inp) (fi_token_in inp) = Some (rb, rp)"
    "path = (case fi_v2_swap_path inp of Some p \<Rightarrow> p | None \<Rightarrow> [fi_token_out inp, fi_token_in inp])"
    "pools = (if fi_v2_swap_pools inp = [] then [pool] else fi_v2_swap_pools inp)"
    "v2_select px cfg inp pool (slippage_impact_bps pv) rb rp path pools (v2_gas_estimate cfg) = Inr c"
    "v2_finish px cfg inp (v2_fee_bps pool) (slippage_impact_bps pv) rb rp path pools (v2_gas_estimate cfg) c = Inr pl"
proof -
  from assms obtain pv where pv: "simulate_victim_exact_in (px_libm px) (fi_state_before inp) (fi_token_in inp)
      (fi_token_out inp) (fi_victim_amount_in inp) = Some pv"
    by (auto simp: build_fee_extraction_v2_def and_then_eq_Inr)
  with assms obtain pool where pool: "state_after pv = AmmUniswapV2 pool"
    by (cases "state_after pv") (auto simp: build_fee_extraction_v2_def)
  from assms pv pool have lim: "slippage_impact_bps pv \<le> effective_payload_price_impact_cap_bps cfg"
    by (auto simp: build_fee_extraction_v2_def Let_def not_less split: if_splits)
  obtain rb rp where r: "reserves_for pool (fi_token_out inp) (fi_token_in inp) = Some (rb, rp)"
    using assms pv pool lim by (auto simp: build_fee_extraction_v2_def Let_def and_then_eq_Inr split: if_splits)
  show ?thesis
    using assms that [OF pv pool lim r refl refl]
    by (simp add: build_fee_extraction_v2_def pv pool r Let_def and_then_eq_Inr not_less [symmetric] lim
        split: if_splits del: if_split) (use lim in auto)
qed

text \<open>
  C1: every V2 payload that is built is within its limits. The victim's price impact is at most the
  cap, the gas limit at most the configured maximum; the call goes to the configured executor and
  carries no value; the capital committed is not zero, is below the borrowed reserve of the pool the
  victim leaves and is at most the permitted fraction of the capital available; the expected profit
  is not zero and, outside the research modes, reaches the minimum that the calldata asks the
  contract to enforce; and the calldata is that of one step of the same amount whose minimum output
  does not exceed the simulated output of the route.
\<close>

theorem v2_payload_within_limits:
  assumes built: "build_fee_extraction_v2 px cfg inp = Inr pl"
  shows "pl_price_impact_bps pl \<le> effective_payload_price_impact_cap_bps cfg
    \<and> pl_gas_limit pl \<le> max_gas_per_tx (mev cfg) \<and> mev_executor (mev cfg) = Some (pl_target_contract pl)
    \<and> pl_value pl = 0 \<and> pl_expected_profit_wei pl \<noteq> 0 \<and> pl_capital_committed_wei pl \<noteq> 0
    \<and> (\<exists>pv pool rb rp cap min_profit path pools out min_out.
         simulate_victim_exact_in (px_libm px) (fi_state_before inp) (fi_token_in inp) (fi_token_out inp)
           (fi_victim_amount_in inp) = Some pv
       \<and> state_after pv = AmmUniswapV2 pool \<and> slippage_impact_bps pv = pl_price_impact_bps pl
       \<and> path = (case fi_v2_swap_path inp of Some p \<Rightarrow> p | None \<Rightarrow> [fi_token_out inp, fi_token_in inp])
       \<and> pools = (if fi_v2_swap_pools inp = [] then [pool] else fi_v2_swap_pools inp)
       \<and> reserves_for pool (fi_token_out inp) (fi_token_in inp) = Some (rb, rp)
       \<and> pl_capital_committed_wei pl < rb
       \<and> v2_borrow_cap_from_native cfg (fi_token_out inp) (fi_token_in inp) (fi_capital_available_wei inp) rb rp = Some cap
       \<and> uint (pl_capital_committed_wei pl) * 10000 \<le> uint cap * max_fraction cfg
       \<and> effective_payload_min_profit_wei px cfg = Inr min_profit
       \<and> (payload_shadow_research_mode cfg \<or> min_profit \<le> pl_expected_profit_wei pl)
       \<and> quote_v2_route_exact_in (pl_capital_committed_wei pl) path pools (v2_fee_bps pool) = Some out \<and> min_out \<le> out
       \<and> pl_calldata pl = encode_start_v2_flash_swap (px_abi px) (fi_pair inp) (fi_token_out inp)
           (pl_capital_committed_wei pl) min_profit (fi_token_in inp) (fi_recipient inp)
           [\<lparr>ss_router = fi_router inp, ss_path = path, ss_amount_in = pl_capital_committed_wei pl, ss_min_out = min_out\<rparr>])"
proof -
  obtain pv pool rb rp path pools c where
    pv: "simulate_victim_exact_in (px_libm px) (fi_state_before inp) (fi_token_in inp) (fi_token_out inp)
       (fi_victim_amount_in inp) = Some pv" "state_after pv = AmmUniswapV2 pool"
    and lim: "slippage_impact_bps pv \<le> effective_payload_price_impact_cap_bps cfg"
    and res: "reserves_for pool (fi_token_out inp) (fi_token_in inp) = Some (rb, rp)"
    and route: "path = (case fi_v2_swap_path inp of Some p \<Rightarrow> p | None \<Rightarrow> [fi_token_out inp, fi_token_in inp])"
      "pools = (if fi_v2_swap_pools inp = [] then [pool] else fi_v2_swap_pools inp)"
    and sel: "v2_select px cfg inp pool (slippage_impact_bps pv) rb rp path pools (v2_gas_estimate cfg) = Inr c"
    and fin: "v2_finish px cfg inp (v2_fee_bps pool) (slippage_impact_bps pv) rb rp path pools (v2_gas_estimate cfg) c = Inr pl"
    by (rule build_v2_InrD [OF built])
  obtain cap where cap: "v2_borrow_cap_from_native cfg (fi_token_out inp) (fi_token_in inp)
      (fi_capital_available_wei inp) rb rp = Some cap"
    and snd: "sound_v2_candidate cfg rb rp path pools cap (fi_token_in inp)
       (payload_gas_cost cfg (fi_gas_price_wei inp) (v2_gas_estimate cfg)) (v2_fee_bps pool)
       (opportunity_mode (mev cfg) = Scavenger) c"
    and frac: "uint (sc_amount_in c) * 10000 \<le> uint cap * max_fraction cfg"
    and sh: "payload_shadow_research_mode cfg \<longrightarrow> sc_gross_profit_wei c \<noteq> 0 \<and> sc_self_slippage_bps c \<le> 2500"
    by (rule v2_select_InrD [OF sel])
  have gas: "v2_gas_estimate cfg \<le> max_gas_per_tx (mev cfg)" by (simp add: v2_gas_estimate_def)
  note snd' = snd [unfolded sound_v2_candidate_def]
  obtain min_profit where fin':
    "mev_executor (mev cfg) = Some (pl_target_contract pl)" "effective_payload_min_profit_wei px cfg = Inr min_profit"
    "pl_calldata pl = encode_start_v2_flash_swap (px_abi px) (fi_pair inp) (fi_token_out inp) (sc_amount_in c)
       min_profit (fi_token_in inp) (fi_recipient inp)
       [\<lparr>ss_router = fi_router inp, ss_path = path, ss_amount_in = sc_amount_in c,
         ss_min_out = min_amount_out_for cfg (sc_amount_out c)\<rparr>]"
    "pl_expected_profit_wei pl = (if payload_shadow_research_mode cfg then sc_gross_profit_wei c else sc_net_profit_wei c)"
    "payload_shadow_research_mode cfg \<or> min_profit \<le> pl_expected_profit_wei pl"
    "pl_value pl = 0" "pl_capital_committed_wei pl = sc_amount_in c"
    "pl_gas_limit pl = v2_gas_estimate cfg" "pl_price_impact_bps pl = slippage_impact_bps pv"
    by (rule v2_finish_InrD [OF fin]) simp
  from snd' have nz: "sc_net_profit_wei c \<noteq> 0" "sc_amount_in c \<noteq> 0" "sc_amount_in c < rb"
    "quote_v2_route_exact_in (sc_amount_in c) path pools (v2_fee_bps pool) = Some (sc_amount_out c)"
    by blast+
  have "pl_price_impact_bps pl \<le> effective_payload_price_impact_cap_bps cfg"
    "slippage_impact_bps pv = pl_price_impact_bps pl" "pl_gas_limit pl \<le> max_gas_per_tx (mev cfg)"
    "pl_expected_profit_wei pl \<noteq> 0" "pl_capital_committed_wei pl \<noteq> 0" "pl_capital_committed_wei pl < rb"
    "uint (pl_capital_committed_wei pl) * 10000 \<le> uint cap * max_fraction cfg"
    "quote_v2_route_exact_in (pl_capital_committed_wei pl) path pools (v2_fee_bps pool) = Some (sc_amount_out c)"
    "pl_calldata pl = encode_start_v2_flash_swap (px_abi px) (fi_pair inp) (fi_token_out inp)
       (pl_capital_committed_wei pl) min_profit (fi_token_in inp) (fi_recipient inp)
       [\<lparr>ss_router = fi_router inp, ss_path = path, ss_amount_in = pl_capital_committed_wei pl,
         ss_min_out = min_amount_out_for cfg (sc_amount_out c)\<rparr>]"
    unfolding fin'(3,4,7,8,9) using lim gas sh nz frac by simp_all
  note facts = this pv route res cap fin' min_amount_out_le [of cfg "sc_amount_out c"]
  show ?thesis
    by (intro conjI exI [of _ pv] exI [of _ pool] exI [of _ rb] exI [of _ rp] exI [of _ cap]
        exI [of _ min_profit] exI [of _ path] exI [of _ pools] exI [of _ "sc_amount_out c"]
        exI [of _ "min_amount_out_for cfg (sc_amount_out c)"];
        fact facts)
qed

text \<open>A victim swap, and a second pool on which the borrowed token sells for more.\<close>

definition demo_px :: payload_ext where
  "demo_px = \<lparr>px_abi = \<lparr>abi_encode = (\<lambda>ts. []), keccak256 = (\<lambda>s. [1, 2, 3, 4])\<rparr>, px_libm = demo_libm,
     px_parse_ether = (\<lambda>x. Inr 1000), px_to_json = (\<lambda>m. None), px_tolerance_usd = None\<rparr>"

definition demo_payload_config :: config where
  "demo_payload_config = demo_config\<lparr>monitored_tokens :=
       [\<lparr>mt_address = 1, mt_decimals = 18, mt_price_eth = 1\<rparr>, \<lparr>mt_address = 2, mt_decimals = 18, mt_price_eth = 1\<rparr>],
     allow_send := True\<rparr>"

definition demo_input :: fee_extraction_build_input where
  "demo_input = \<lparr>fi_router = 30, fi_factory = None, fi_pair = 31, fi_recipient = 32, fi_token_in = 1,
     fi_token_out = 2, fi_victim_amount_in = 1000000,
     fi_state_before = AmmUniswapV2 \<lparr>v2_pair = 31, v2_token0 = 1, v2_token1 = 2, v2_reserve0 = 1000000000,
       v2_reserve1 = 1000000000, v2_fee_bps = 30\<rparr>,
     fi_capital_available_wei = 6000000000, fi_gas_price_wei = 0, fi_context_priority_score = dec 5 1,
     fi_context_toxicity_score = dec 1 1, fi_route_kind = RouteV2, fi_v2_swap_path = None,
     fi_v2_swap_pools = [\<lparr>v2_pair = 33, v2_token0 = 2, v2_token1 = 1, v2_reserve0 = 1000000000000,
       v2_reserve1 = 10000000000000, v2_fee_bps = 30\<rparr>]\<rparr>"

theorem v2_payload_within_limits_witness:
  "\<exists>pl. build_fee_extraction_v2 demo_px demo_payload_config demo_input = Inr pl
     \<and> pl_capital_committed_wei pl \<noteq> 0 \<and> pl_target_contract pl = 12"
proof -
  have "(case build_fee_extraction_v2 demo_px demo_payload_config demo_input of Inl e \<Rightarrow> False | Inr pl \<Rightarrow> True) = True"
    by code_simp
  then obtain pl where b: "build_fee_extraction_v2 demo_px demo_payload_config demo_input = Inr pl"
    by (auto split: sum.splits)
  have "mev_executor (mev demo_payload_config) = Some 12" by code_simp
  with v2_payload_within_limits [OF b] b show ?thesis by auto
qed

section \<open>V3 payloads\<close>

definition sound_v3_candidate ::
  "libm \<Rightarrow> config \<Rightarrow> v3_pool_state \<Rightarrow> fee_extraction_build_input \<Rightarrow> u256 \<Rightarrow> u32 \<Rightarrow> u256 \<Rightarrow> normalized_v3_candidate \<Rightarrow> bool" where
  "sound_v3_candidate lm cfg pool inp cap fee_tier gas c =
     (v3c_amount_in (n3_candidate c) = sat_mul cap (ucast (v3c_capital_fraction_bps (n3_candidate c))) div 10000
      \<and> v3c_amount_in (n3_candidate c) \<noteq> 0
      \<and> (\<exists>p' r. simulate_exact_in lm pool (fi_token_out inp) (fi_token_in inp) (v3c_amount_in (n3_candidate c)) = Some (p', r)
           \<and> v3r_amount_out r = v3c_amount_out (n3_candidate c))
      \<and> n3_repayment_wei c = v3_flash_repayment_wei (v3c_amount_in (n3_candidate c)) fee_tier
      \<and> token_amount_to_native_wei cfg (fi_token_in inp) (v3c_amount_out (n3_candidate c)) = Some (n3_amount_out_native_wei c)
      \<and> token_amount_to_native_wei cfg (fi_token_out inp) (n3_repayment_wei c) = Some (n3_repayment_native_wei c)
      \<and> (n3_edge_positive c \<longrightarrow> uint (n3_repayment_native_wei c) + uint (n3_gross_profit_native_wei c)
             = uint (n3_amount_out_native_wei c))
      \<and> (\<not> n3_edge_positive c \<longrightarrow> n3_gross_profit_native_wei c = 0)
      \<and> n3_net_profit_native_wei c = sat_sub (n3_gross_profit_native_wei c) gas)"

lemma normalized_v3_candidate_for_sound:
  assumes "normalized_v3_candidate_for lm cfg pool inp cap fee_tier gas bps = Some c"
  shows "sound_v3_candidate lm cfg pool inp cap fee_tier gas c" "v3c_capital_fraction_bps (n3_candidate c) = bps"
  using assms unfolding normalized_v3_candidate_for_def Let_def sound_v3_candidate_def
  by (auto simp: uint_sat_sub word_le_def split: if_splits option.splits prod.splits)

lemma v3_candidates_sound:
  assumes "c \<in> set (normalized_v3_size_candidates lm cfg pool inp cap fee_tier gas fs)"
  shows "sound_v3_candidate lm cfg pool inp cap fee_tier gas c" "v3c_capital_fraction_bps (n3_candidate c) \<in> set fs"
proof -
  obtain bps where "bps \<in> set fs" "normalized_v3_candidate_for lm cfg pool inp cap fee_tier gas bps = Some c"
    using assms by (auto simp: normalized_v3_size_candidates_def List.map_filter_def split: if_splits)
  then show "sound_v3_candidate lm cfg pool inp cap fee_tier gas c"
    "v3c_capital_fraction_bps (n3_candidate c) \<in> set fs"
    using normalized_v3_candidate_for_sound by auto
qed

lemma v3_select_InrD:
  assumes "v3_select px cfg inp pool impact fee_tier gas = Inr c"
  obtains cap where
    "native_wei_to_token_amount cfg (fi_token_out inp) (fi_capital_available_wei inp) = Some cap"
    "sound_v3_candidate (px_libm px) cfg pool inp cap fee_tier (payload_gas_cost cfg (fi_gas_price_wei inp) gas) c"
    "uint (v3c_amount_in (n3_candidate c)) * 10000 \<le> uint cap * max_fraction cfg"
    "n3_edge_positive c" "v3c_self_slippage_bps (n3_candidate c) \<le> 2500"
    "payload_shadow_research_mode cfg \<or> n3_net_profit_native_wei c \<noteq> 0"
proof -
  let ?cs = "\<lambda>cap. normalized_v3_size_candidates (px_libm px) cfg pool inp cap fee_tier
    (payload_gas_cost cfg (fi_gas_price_wei inp) gas) (sizing_fractions cfg)"
  from assms obtain cap where
    cap: "native_wei_to_token_amount cfg (fi_token_out inp) (fi_capital_available_wei inp) = Some cap"
    and sel: "(if payload_shadow_research_mode cfg then select_scavenger_v3_candidate (?cs cap)
       else select_best_v3_candidate (?cs cap) (fi_context_priority_score inp) (fi_context_toxicity_score inp)) = Some c"
    unfolding v3_select_def Let_def by (auto simp: and_then_eq_Inr split: if_splits)
  have mem: "c \<in> set (?cs cap)" and flt: "n3_edge_positive c" "v3c_self_slippage_bps (n3_candidate c) \<le> 2500"
    "payload_shadow_research_mode cfg \<or> n3_net_profit_native_wei c \<noteq> 0"
    using sel by (auto simp: select_scavenger_v3_candidate_def select_best_v3_candidate_def Let_def
        split: if_splits dest!: by_v3_gross.max_by_in by_v3_score.max_by_in)
  note snd = v3_candidates_sound [OF mem]
  have "uint (v3c_amount_in (n3_candidate c)) * 10000 \<le> uint cap * uint (v3c_capital_fraction_bps (n3_candidate c))"
    using snd(1) share_bound by (simp add: sound_v3_candidate_def)
  also have "\<dots> \<le> uint cap * max_fraction cfg"
    using sizing_fractions_le [OF snd(2)] by (simp add: mult_left_mono)
  finally show ?thesis using that [OF cap snd(1)] flt by simp
qed

lemma v3_finish_InrD:
  assumes "v3_finish px cfg inp fee_tier path impact gas c = Inr pl"
  obtains min_profit where
    "(case mev_executor_v3 (mev cfg) of Some a \<Rightarrow> Some a | None \<Rightarrow> mev_executor (mev cfg)) = Some (pl_target_contract pl)"
    "effective_payload_min_profit_wei px cfg = Inr min_profit" "n3_gross_profit_native_wei c \<noteq> 0"
    "pl_calldata pl = encode_start_v3_flash_swap (px_abi px) (fi_pair inp) (fi_token_out inp)
       (v3c_amount_in (n3_candidate c)) fee_tier min_profit (fi_token_in inp) (fi_recipient inp)
       [\<lparr>ss3_router = fi_router inp, ss3_path = path, ss3_amount_in = v3c_amount_in (n3_candidate c),
         ss3_min_out = min_amount_out_for cfg (v3c_amount_out (n3_candidate c))\<rparr>]"
    "pl_expected_profit_wei pl =
       (if payload_shadow_research_mode cfg then n3_gross_profit_native_wei c else n3_net_profit_native_wei c)"
    "payload_shadow_research_mode cfg \<or> min_profit \<le> pl_expected_profit_wei pl"
    "opportunity_mode (mev cfg) = Scavenger \<and> allow_send cfg \<longrightarrow> n3_net_profit_native_wei c \<noteq> 0"
    "pl_value pl = 0" "pl_capital_committed_wei pl = v3c_amount_in (n3_candidate c)"
    "pl_gas_limit pl = gas" "pl_price_impact_bps pl = impact"
  using assms unfolding v3_finish_def Let_def
  by (auto simp: and_then_eq_Inr build_v3_flashswap_call_def not_less v3_shadow_status_def
      payload_shadow_research_mode_def split: if_splits)

lemma build_v3_InrD:
  assumes "build_fee_extraction_v3 px cfg inp = Inr pl"
  obtains fee_tier path pv pool c where
    "fi_route_kind inp = RouteV3 fee_tier path"
    "simulate_victim_exact_in (px_libm px) (fi_state_before inp) (fi_token_in inp) (fi_token_out inp)
       (fi_victim_amount_in inp) = Some pv"
    "state_after pv = AmmUniswapV3 pool" "v3_initialized_ticks pool \<noteq> []"
    "slippage_impact_bps pv \<le> effective_payload_price_impact_cap_bps cfg"
    "v3_select px cfg inp pool (slippage_impact_bps pv) fee_tier (v3_gas_estimate cfg) = Inr c"
    "v3_finish px cfg inp fee_tier path (slippage_impact_bps pv) (v3_gas_estimate cfg) c = Inr pl"
proof -
  from assms obtain fee_tier path where k: "fi_route_kind inp = RouteV3 fee_tier path"
    by (cases "fi_route_kind inp") (auto simp: build_fee_extraction_v3_def)
  from assms obtain pv where pv: "simulate_victim_exact_in (px_libm px) (fi_state_before inp) (fi_token_in inp)
      (fi_token_out inp) (fi_victim_amount_in inp) = Some pv"
    by (auto simp: build_fee_extraction_v3_def k and_then_eq_Inr)
  with assms obtain pool where pool: "state_after pv = AmmUniswapV3 pool"
    by (cases "state_after pv") (auto simp: build_fee_extraction_v3_def k)
  from assms show ?thesis
    using that [OF k pv pool]
    by (auto simp: build_fee_extraction_v3_def k pv pool Let_def and_then_eq_Inr not_less split: if_splits)
qed

text \<open>
  C2: every V3 payload that is built is within its limits. The victim's price impact is at most the
  cap, the pool has tick data, the gas limit is at most the configured maximum; the call goes to the
  configured V3 executor (or the common one) and carries no value; the capital committed is not zero
  and at most the permitted fraction of the capital available; the trade's own price impact is at
  most 2500 basis points; the proceeds in the native asset cover the repayment and the gross profit
  exactly; the expected profit is not zero and, outside the research modes, reaches the minimum
  written into the calldata; and a scavenger payload that may be sent has a profit after gas.
\<close>

theorem v3_payload_within_limits:
  assumes built: "build_fee_extraction_v3 px cfg inp = Inr pl"
  shows "pl_price_impact_bps pl \<le> effective_payload_price_impact_cap_bps cfg
    \<and> pl_gas_limit pl \<le> max_gas_per_tx (mev cfg) \<and> pl_value pl = 0
    \<and> (case mev_executor_v3 (mev cfg) of Some a \<Rightarrow> Some a | None \<Rightarrow> mev_executor (mev cfg)) = Some (pl_target_contract pl)
    \<and> pl_expected_profit_wei pl \<noteq> 0 \<and> pl_capital_committed_wei pl \<noteq> 0
    \<and> (\<exists>pv pool fee_tier path cap min_profit c.
         simulate_victim_exact_in (px_libm px) (fi_state_before inp) (fi_token_in inp) (fi_token_out inp)
           (fi_victim_amount_in inp) = Some pv
       \<and> state_after pv = AmmUniswapV3 pool \<and> v3_initialized_ticks pool \<noteq> []
       \<and> fi_route_kind inp = RouteV3 fee_tier path
       \<and> native_wei_to_token_amount cfg (fi_token_out inp) (fi_capital_available_wei inp) = Some cap
       \<and> uint (pl_capital_committed_wei pl) * 10000 \<le> uint cap * max_fraction cfg
       \<and> sound_v3_candidate (px_libm px) cfg pool inp cap fee_tier
           (payload_gas_cost cfg (fi_gas_price_wei inp) (pl_gas_limit pl)) c
       \<and> pl_capital_committed_wei pl = v3c_amount_in (n3_candidate c) \<and> v3c_self_slippage_bps (n3_candidate c) \<le> 2500
       \<and> uint (n3_repayment_native_wei c) + uint (n3_gross_profit_native_wei c) = uint (n3_amount_out_native_wei c)
       \<and> pl_expected_profit_wei pl =
           (if payload_shadow_research_mode cfg then n3_gross_profit_native_wei c else n3_net_profit_native_wei c)
       \<and> effective_payload_min_profit_wei px cfg = Inr min_profit
       \<and> (payload_shadow_research_mode cfg \<or> min_profit \<le> pl_expected_profit_wei pl)
       \<and> (opportunity_mode (mev cfg) = Scavenger \<and> allow_send cfg \<longrightarrow> n3_net_profit_native_wei c \<noteq> 0)
       \<and> pl_calldata pl = encode_start_v3_flash_swap (px_abi px) (fi_pair inp) (fi_token_out inp)
           (pl_capital_committed_wei pl) fee_tier min_profit (fi_token_in inp) (fi_recipient inp)
           [\<lparr>ss3_router = fi_router inp, ss3_path = path, ss3_amount_in = pl_capital_committed_wei pl,
             ss3_min_out = min_amount_out_for cfg (v3c_amount_out (n3_candidate c))\<rparr>])"
proof -
  obtain fee_tier path pv pool c where b: "fi_route_kind inp = RouteV3 fee_tier path"
    "simulate_victim_exact_in (px_libm px) (fi_state_before inp) (fi_token_in inp) (fi_token_out inp)
       (fi_victim_amount_in inp) = Some pv"
    "state_after pv = AmmUniswapV3 pool" "v3_initialized_ticks pool \<noteq> []"
    "slippage_impact_bps pv \<le> effective_payload_price_impact_cap_bps cfg"
    and sel: "v3_select px cfg inp pool (slippage_impact_bps pv) fee_tier (v3_gas_estimate cfg) = Inr c"
    and fin: "v3_finish px cfg inp fee_tier path (slippage_impact_bps pv) (v3_gas_estimate cfg) c = Inr pl"
    by (rule build_v3_InrD [OF built])
  obtain cap where
    s: "native_wei_to_token_amount cfg (fi_token_out inp) (fi_capital_available_wei inp) = Some cap"
    "sound_v3_candidate (px_libm px) cfg pool inp cap fee_tier
       (payload_gas_cost cfg (fi_gas_price_wei inp) (v3_gas_estimate cfg)) c"
    "uint (v3c_amount_in (n3_candidate c)) * 10000 \<le> uint cap * max_fraction cfg"
    "n3_edge_positive c" "v3c_self_slippage_bps (n3_candidate c) \<le> 2500"
    "payload_shadow_research_mode cfg \<or> n3_net_profit_native_wei c \<noteq> 0"
    by (rule v3_select_InrD [OF sel])
  have sum: "uint (n3_repayment_native_wei c) + uint (n3_gross_profit_native_wei c) = uint (n3_amount_out_native_wei c)"
    and nz: "v3c_amount_in (n3_candidate c) \<noteq> 0"
    using s(2,4) unfolding sound_v3_candidate_def by blast+
  have gas: "v3_gas_estimate cfg \<le> max_gas_per_tx (mev cfg)" by (simp add: v3_gas_estimate_def)
  obtain min_profit where f:
    "(case mev_executor_v3 (mev cfg) of Some a \<Rightarrow> Some a | None \<Rightarrow> mev_executor (mev cfg)) = Some (pl_target_contract pl)"
    "effective_payload_min_profit_wei px cfg = Inr min_profit" "n3_gross_profit_native_wei c \<noteq> 0"
    "pl_calldata pl = encode_start_v3_flash_swap (px_abi px) (fi_pair inp) (fi_token_out inp)
       (v3c_amount_in (n3_candidate c)) fee_tier min_profit (fi_token_in inp) (fi_recipient inp)
       [\<lparr>ss3_router = fi_router inp, ss3_path = path, ss3_amount_in = v3c_amount_in (n3_candidate c),
         ss3_min_out = min_amount_out_for cfg (v3c_amount_out (n3_candidate c))\<rparr>]"
    "pl_expected_profit_wei pl =
       (if payload_shadow_research_mode cfg then n3_gross_profit_native_wei c else n3_net_profit_native_wei c)"
    "payload_shadow_research_mode cfg \<or> min_profit \<le> pl_expected_profit_wei pl"
    "opportunity_mode (mev cfg) = Scavenger \<and> allow_send cfg \<longrightarrow> n3_net_profit_native_wei c \<noteq> 0"
    "pl_value pl = 0" "pl_capital_committed_wei pl = v3c_amount_in (n3_candidate c)"
    "pl_gas_limit pl = v3_gas_estimate cfg" "pl_price_impact_bps pl = slippage_impact_bps pv"
    by (rule v3_finish_InrD [OF fin])
  have "pl_expected_profit_wei pl \<noteq> 0" using f(3,5) s(6) by auto
  note facts = this b s sum nz gas f
  show ?thesis unfolding f(9,10,11)
    by (intro conjI exI [of _ pv] exI [of _ pool] exI [of _ fee_tier] exI [of _ path] exI [of _ cap]
        exI [of _ min_profit] exI [of _ c]; (fact facts | rule refl))
qed

definition demo_v3_config :: config where
  "demo_v3_config = demo_config\<lparr>monitored_tokens :=
       [\<lparr>mt_address = 1, mt_decimals = 18, mt_price_eth = dec 2 0\<rparr>, \<lparr>mt_address = 2, mt_decimals = 18, mt_price_eth = 1\<rparr>],
     allow_send := True\<rparr>"

definition demo_v3_input :: fee_extraction_build_input where
  "demo_v3_input = demo_input\<lparr>fi_victim_amount_in := 1000, fi_route_kind := RouteV3 0 [],
     fi_state_before := AmmUniswapV3 (demo_v3_pool\<lparr>v3_fee_bps := 0\<rparr>), fi_capital_available_wei := 2,
     fi_v2_swap_pools := []\<rparr>"

definition demo_v3_px :: payload_ext where
  "demo_v3_px = demo_px\<lparr>px_parse_ether := (\<lambda>x. Inr 1)\<rparr>"

theorem v3_payload_within_limits_witness:
  "\<exists>pl. build_fee_extraction_v3 demo_v3_px demo_v3_config demo_v3_input = Inr pl
     \<and> pl_capital_committed_wei pl \<noteq> 0 \<and> pl_target_contract pl = 12"
proof -
  have "(case build_fee_extraction_v3 demo_v3_px demo_v3_config demo_v3_input of Inl e \<Rightarrow> False | Inr pl \<Rightarrow> True) = True"
    by code_simp
  then obtain pl where b: "build_fee_extraction_v3 demo_v3_px demo_v3_config demo_v3_input = Inr pl"
    by (auto split: sum.splits)
  have "mev_executor (mev demo_v3_config) = Some 12" "mev_executor_v3 (mev demo_v3_config) = None" by code_simp+
  with v3_payload_within_limits [OF b] b show ?thesis by auto
qed

section \<open>Panics\<close>

text \<open>
  C29: sizing a V2 trade can only panic in one way, the division by the native value of the
  repayment: the guard before it tests the repayment in token units, so a repayment that is not zero
  but is worth less than one wei divides by zero.
\<close>

theorem v2_sizing_panic_cause:
  assumes "fee_extraction_v2_size_candidates cfg rb rp path pools cap pt gas fee fs scav = Inl p"
  shows "p = DivisionByZero \<and> (\<exists>bps\<in>set fs. \<exists>rep. v2_repayment_amount_in_profit_token rb rp
      (sat_mul cap (ucast bps) div 10000) = Some rep \<and> rep \<noteq> 0 \<and> token_amount_to_native_wei cfg pt rep = Some 0)"
proof -
  have "collect_candidates (fee_extraction_v2_candidate cfg rb rp path pools cap pt gas fee scav) fs = Inl p"
    using assms by (auto simp: fee_extraction_v2_size_candidates_def split: if_splits)
  from collect_candidates_panic [OF this] fee_extraction_v2_candidate_panic show ?thesis by blast
qed

definition demo_panic_config :: config where
  "demo_panic_config = demo_config\<lparr>monitored_tokens := [\<lparr>mt_address = 1, mt_decimals = 18, mt_price_eth = dec 5 1\<rparr>]\<rparr>"

theorem v2_sizing_panic_cause_witness:
  "fee_extraction_v2_size_candidates demo_panic_config 1000000 1 [2, 1]
     [\<lparr>v2_pair = 33, v2_token0 = 2, v2_token1 = 1, v2_reserve0 = 1000000, v2_reserve1 = 1000000, v2_fee_bps = 30\<rparr>]
     1000 1 0 30 [1000] False = Inl DivisionByZero
   \<and> (\<exists>rep. token_amount_to_native_wei demo_panic_config 1 rep = Some 0 \<and> rep \<noteq> 0)"
proof -
  have p: "fee_extraction_v2_size_candidates demo_panic_config 1000000 1 [2, 1]
     [\<lparr>v2_pair = 33, v2_token0 = 2, v2_token1 = 1, v2_reserve0 = 1000000, v2_reserve1 = 1000000, v2_fee_bps = 30\<rparr>]
     1000 1 0 30 [1000] False = Inl DivisionByZero" by code_simp
  from v2_sizing_panic_cause [OF p] p show ?thesis by auto
qed

end
