(* ===== verification/PoolCache.thy ===== *)
theory PoolCache
  imports Prelude
begin

text \<open>
  The pool cache of \<open>src/mev/cache/pool_cache.rs\<close>. A lookup runs in two phases with the network
  calls between them: a check of the map under its read lock, and, after a miss and a successful
  fetch, a store under the write lock. Other tasks run their phases in between, so the phases are
  separate operations here, composed sequentially by \<open>get_or_fetch_v2\<close> and \<open>get_or_fetch_v3\<close> and
  interleaved freely by the step relation. The contract calls of the provider are an argument:
  \<open>None\<close> when one of the joined calls fails. The counters are 64-bit and wrap.
\<close>

section \<open>State\<close>

record cached_v2_pool =
  c2_pair :: address
  c2_token0 :: address
  c2_token1 :: address
  c2_reserve0 :: u256
  c2_reserve1 :: u256
  c2_block_number :: u64
  c2_cached_at :: instant

record cached_v3_pool =
  c3_pool :: address
  c3_token0 :: address
  c3_token1 :: address
  c3_sqrt_price_x96 :: u256
  c3_liquidity :: u256
  c3_current_tick :: int
  c3_block_number :: u64
  c3_cached_at :: instant

record 'a pool_cache_entry =
  pce_data :: 'a
  pce_cached_at :: instant
  pce_block_number :: u64

record cache_stats =
  v2_hits :: u64
  v2_misses :: u64
  v3_hits :: u64
  v3_misses :: u64
  stale_reads :: u64
  refresh_count :: u64

record pool_cache =
  v2_pools :: "address \<rightharpoonup> cached_v2_pool pool_cache_entry"
  v3_pools :: "address \<rightharpoonup> cached_v3_pool pool_cache_entry"
  ttl_ms :: u64
  stats :: cache_stats

definition pool_cache_new :: "u64 \<Rightarrow> pool_cache" where
  "pool_cache_new ttl = \<lparr>v2_pools = Map.empty, v3_pools = Map.empty, ttl_ms = ttl,
     stats = \<lparr>v2_hits = 0, v2_misses = 0, v3_hits = 0, v3_misses = 0, stale_reads = 0, refresh_count = 0\<rparr>\<rparr>"

section \<open>Operations\<close>

text \<open>\<open>entry.cached_at.elapsed().as_millis() as u64\<close>.\<close>

definition entry_age_ms :: "instant \<Rightarrow> 'a pool_cache_entry \<Rightarrow> u64" where
  "entry_age_ms now e = word_of_int (as_millis (duration_since now (pce_cached_at e)))"

definition entry_fresh :: "u64 \<Rightarrow> instant \<Rightarrow> u64 \<Rightarrow> 'a pool_cache_entry \<Rightarrow> bool" where
  "entry_fresh ttl now current_block e =
     (entry_age_ms now e < ttl \<and> sat_sub current_block 5 \<le> pce_block_number e)"

definition check_v2 :: "pool_cache \<Rightarrow> instant \<Rightarrow> address \<Rightarrow> u64 \<Rightarrow> pool_cache \<times> cached_v2_pool option" where
  "check_v2 c now pair current_block =
     (let miss = (\<lambda>s. s\<lparr>v2_misses := v2_misses s + 1\<rparr>)
      in case v2_pools c pair of
           None \<Rightarrow> (c\<lparr>stats := miss (stats c)\<rparr>, None)
         | Some entry \<Rightarrow>
             if entry_fresh (ttl_ms c) now current_block entry
             then (c\<lparr>stats := (stats c)\<lparr>v2_hits := v2_hits (stats c) + 1\<rparr>\<rparr>, Some (pce_data entry))
             else if ttl_ms c \<le> entry_age_ms now entry
             then (c\<lparr>stats := miss ((stats c)\<lparr>stale_reads := stale_reads (stats c) + 1\<rparr>)\<rparr>, None)
             else (c\<lparr>stats := miss (stats c)\<rparr>, None))"

text \<open>The answers of \<open>token_0\<close>, \<open>token_1\<close> and \<open>get_reserves\<close>; the reserves are 112-bit numbers.\<close>

type_synonym v2_answer = "address \<times> address \<times> 112 word \<times> 112 word"

text \<open>\<open>built\<close> is the instant at which the pool is built, \<open>now\<close> the one at which it is stored.\<close>

definition build_v2 :: "instant \<Rightarrow> address \<Rightarrow> u64 \<Rightarrow> v2_answer \<Rightarrow> cached_v2_pool" where
  "build_v2 built pair current_block answer =
     (case answer of (token0, token1, r0, r1) \<Rightarrow>
        \<lparr>c2_pair = pair, c2_token0 = token0, c2_token1 = token1, c2_reserve0 = ucast r0,
         c2_reserve1 = ucast r1, c2_block_number = current_block, c2_cached_at = built\<rparr>)"

definition store_v2 :: "pool_cache \<Rightarrow> instant \<Rightarrow> address \<Rightarrow> u64 \<Rightarrow> cached_v2_pool \<Rightarrow> pool_cache" where
  "store_v2 c now pair current_block cached =
     c\<lparr>v2_pools := (v2_pools c)(pair \<mapsto>
         \<lparr>pce_data = cached, pce_cached_at = now, pce_block_number = current_block\<rparr>),
       stats := (stats c)\<lparr>refresh_count := refresh_count (stats c) + 1\<rparr>\<rparr>"

definition get_or_fetch_v2 ::
  "pool_cache \<Rightarrow> instant \<Rightarrow> instant \<Rightarrow> instant \<Rightarrow> address \<Rightarrow> u64 \<Rightarrow> v2_answer option
   \<Rightarrow> pool_cache \<times> cached_v2_pool option" where
  "get_or_fetch_v2 c now built stored pair current_block answer =
     (case check_v2 c now pair current_block of
        (c', Some cached) \<Rightarrow> (c', Some cached)
      | (c', None) \<Rightarrow>
          (case answer of None \<Rightarrow> (c', None)
           | Some a \<Rightarrow>
               let cached = build_v2 built pair current_block a
               in (store_v2 c' stored pair current_block cached, Some cached)))"

definition check_v3 :: "pool_cache \<Rightarrow> instant \<Rightarrow> address \<Rightarrow> u64 \<Rightarrow> pool_cache \<times> cached_v3_pool option" where
  "check_v3 c now pool current_block =
     (let miss = c\<lparr>stats := (stats c)\<lparr>v3_misses := v3_misses (stats c) + 1\<rparr>\<rparr>
      in case v3_pools c pool of
           None \<Rightarrow> (miss, None)
         | Some entry \<Rightarrow>
             if entry_fresh (ttl_ms c) now current_block entry
             then (c\<lparr>stats := (stats c)\<lparr>v3_hits := v3_hits (stats c) + 1\<rparr>\<rparr>, Some (pce_data entry))
             else (miss, None))"

text \<open>The answers of \<open>token_0\<close>, \<open>token_1\<close>, \<open>liquidity\<close> and \<open>slot_0\<close> (square-root price and tick).\<close>

type_synonym v3_answer = "address \<times> address \<times> 128 word \<times> u256 \<times> int"

definition build_v3 :: "instant \<Rightarrow> address \<Rightarrow> u64 \<Rightarrow> v3_answer \<Rightarrow> cached_v3_pool" where
  "build_v3 built pool current_block answer =
     (case answer of (token0, token1, liquidity, sqrt_price_x96, tick) \<Rightarrow>
        \<lparr>c3_pool = pool, c3_token0 = token0, c3_token1 = token1, c3_sqrt_price_x96 = sqrt_price_x96,
         c3_liquidity = ucast liquidity, c3_current_tick = tick, c3_block_number = current_block,
         c3_cached_at = built\<rparr>)"

definition store_v3 :: "pool_cache \<Rightarrow> instant \<Rightarrow> address \<Rightarrow> u64 \<Rightarrow> cached_v3_pool \<Rightarrow> pool_cache" where
  "store_v3 c now pool current_block cached =
     c\<lparr>v3_pools := (v3_pools c)(pool \<mapsto>
         \<lparr>pce_data = cached, pce_cached_at = now, pce_block_number = current_block\<rparr>)\<rparr>"

definition get_or_fetch_v3 ::
  "pool_cache \<Rightarrow> instant \<Rightarrow> instant \<Rightarrow> instant \<Rightarrow> address \<Rightarrow> u64 \<Rightarrow> v3_answer option
   \<Rightarrow> pool_cache \<times> cached_v3_pool option" where
  "get_or_fetch_v3 c now built stored pool current_block answer =
     (case check_v3 c now pool current_block of
        (c', Some cached) \<Rightarrow> (c', Some cached)
      | (c', None) \<Rightarrow>
          (case answer of None \<Rightarrow> (c', None)
           | Some a \<Rightarrow>
               let cached = build_v3 built pool current_block a
               in (store_v3 c' stored pool current_block cached, Some cached)))"

definition get_stats :: "pool_cache \<Rightarrow> cache_stats" where
  "get_stats c = stats c"

section \<open>The contract of a cache\<close>

text \<open>
  What the two caches promise: a check does not change the entries and answers with the stored
  data exactly when the entry is fresh; a store replaces one entry.
\<close>

locale ttl_cache =
  fixes entries :: "pool_cache \<Rightarrow> address \<rightharpoonup> 'd pool_cache_entry"
    and check :: "pool_cache \<Rightarrow> instant \<Rightarrow> address \<Rightarrow> u64 \<Rightarrow> pool_cache \<times> 'd option"
    and store :: "pool_cache \<Rightarrow> instant \<Rightarrow> address \<Rightarrow> u64 \<Rightarrow> 'd \<Rightarrow> pool_cache"
  assumes check_result: "snd (check c now k b) =
      (case entries c k of None \<Rightarrow> None
       | Some e \<Rightarrow> if entry_fresh (ttl_ms c) now b e then Some (pce_data e) else None)"
    and check_entries: "entries (fst (check c now k b)) = entries c"
    and check_ttl: "ttl_ms (fst (check c now k b)) = ttl_ms c"
    and store_entries: "entries (store c now k b d) =
      (entries c)(k \<mapsto> \<lparr>pce_data = d, pce_cached_at = now, pce_block_number = b\<rparr>)"
    and store_ttl: "ttl_ms (store c now k b d) = ttl_ms c"
begin

lemma check_after_store:
  assumes "entry_fresh (ttl_ms c) now b' \<lparr>pce_data = d, pce_cached_at = stored, pce_block_number = b\<rparr>"
  shows "snd (check (store c stored k b d) now k b') = Some d"
  using assms by (simp add: check_result store_entries store_ttl)

lemma check_after_other_store:
  "k' \<noteq> k \<Longrightarrow> snd (check (store c stored k b d) now k' b') = snd (check c now k' b')"
  by (simp add: check_result store_entries store_ttl split: option.split)

lemma check_same_entries:
  "entries c = entries c' \<Longrightarrow> ttl_ms c = ttl_ms c' \<Longrightarrow> snd (check c now k b) = snd (check c' now k b)"
  by (simp add: check_result split: option.split)

lemma hit_entry:
  assumes "snd (check c now k b) = Some d"
  obtains e where "entries c k = Some e" "pce_data e = d" "entry_fresh (ttl_ms c) now b e"
  using assms by (auto simp: check_result split: option.splits if_splits)

end

lemma check_v2_cases:
  "check_v2 c now pair b = (c', d) \<Longrightarrow> v2_pools c' = v2_pools c \<and> v3_pools c' = v3_pools c \<and> ttl_ms c' = ttl_ms c
   \<and> d = (case v2_pools c pair of None \<Rightarrow> None
       | Some e \<Rightarrow> if entry_fresh (ttl_ms c) now b e then Some (pce_data e) else None)"
  by (auto simp: check_v2_def Let_def split: option.splits if_splits)

lemma check_v3_cases:
  "check_v3 c now pool b = (c', d) \<Longrightarrow> v2_pools c' = v2_pools c \<and> v3_pools c' = v3_pools c \<and> ttl_ms c' = ttl_ms c
   \<and> d = (case v3_pools c pool of None \<Rightarrow> None
       | Some e \<Rightarrow> if entry_fresh (ttl_ms c) now b e then Some (pce_data e) else None)"
  by (auto simp: check_v3_def Let_def split: option.splits if_splits)

interpretation v2_cache: ttl_cache v2_pools check_v2 store_v2
  by unfold_locales
    (use check_v2_cases [OF prod.collapse [symmetric]] in \<open>auto simp: store_v2_def\<close>)

interpretation v3_cache: ttl_cache v3_pools check_v3 store_v3
  by unfold_locales
    (use check_v3_cases [OF prod.collapse [symmetric]] in \<open>auto simp: store_v3_def\<close>)

section \<open>Interleaved use\<close>

text \<open>One phase of one task, or the passing of time.\<close>

inductive cache_step :: "pool_cache \<times> instant \<Rightarrow> pool_cache \<times> instant \<Rightarrow> bool" where
  time: "now \<le> later \<Longrightarrow> cache_step (c, now) (c, later)"
| check2: "check_v2 c now pair b = (c', d) \<Longrightarrow> cache_step (c, now) (c', now)"
| store2: "built \<le> now \<Longrightarrow> cache_step (c, now) (store_v2 c now pair b (build_v2 built pair b a), now)"
| check3: "check_v3 c now pool b = (c', d3) \<Longrightarrow> cache_step (c, now) (c', now)"
| store3: "built \<le> now \<Longrightarrow> cache_step (c, now) (store_v3 c now pool b (build_v3 built pool b a3), now)"

inductive cache_reachable :: "u64 \<Rightarrow> pool_cache \<times> instant \<Rightarrow> bool" for ttl where
  start: "cache_reachable ttl (pool_cache_new ttl, now)"
| step: "cache_reachable ttl s \<Longrightarrow> cache_step s s' \<Longrightarrow> cache_reachable ttl s'"

inductive_cases cache_stepE: "cache_step (c, now) (c', now')"

text \<open>Every entry is stored under its own address, with its own block, and was built in the past.\<close>

definition cache_ok :: "u64 \<Rightarrow> pool_cache \<times> instant \<Rightarrow> bool" where
  "cache_ok ttl s = (case s of (c, now) \<Rightarrow> ttl_ms c = ttl
     \<and> (\<forall>k e. v2_pools c k = Some e \<longrightarrow> c2_pair (pce_data e) = k
          \<and> c2_block_number (pce_data e) = pce_block_number e
          \<and> c2_cached_at (pce_data e) \<le> pce_cached_at e \<and> pce_cached_at e \<le> now)
     \<and> (\<forall>k e. v3_pools c k = Some e \<longrightarrow> c3_pool (pce_data e) = k
          \<and> c3_block_number (pce_data e) = pce_block_number e
          \<and> c3_cached_at (pce_data e) \<le> pce_cached_at e \<and> pce_cached_at e \<le> now))"

lemma cache_step_ok: "cache_step s s' \<Longrightarrow> cache_ok ttl s \<Longrightarrow> cache_ok ttl s'"
proof (induction rule: cache_step.induct)
  case (time now later c)
  then show ?case by (fastforce simp: cache_ok_def)
next
  case (check2 c now pair b c' d)
  then show ?case using check_v2_cases [OF check2(1)] by (auto simp: cache_ok_def)
next
  case (store2 built now c pair b a)
  then show ?case by (auto simp: cache_ok_def store_v2_def build_v2_def split: prod.splits if_splits)
next
  case (check3 c now pool b c' d3)
  then show ?case using check_v3_cases [OF check3(1)] by (auto simp: cache_ok_def)
next
  case (store3 built now c pool b a3)
  then show ?case by (auto simp: cache_ok_def store_v3_def build_v3_def split: prod.splits if_splits)
qed

lemma cache_reachable_ok: "cache_reachable ttl s \<Longrightarrow> cache_ok ttl s"
  by (induction rule: cache_reachable.induct)
    (auto simp: cache_ok_def pool_cache_new_def dest: cache_step_ok)

lemma entry_fresh_bounds:
  assumes "entry_fresh ttl now b e" "pce_cached_at e \<le> now"
  shows "uint b - 5 \<le> uint (pce_block_number e)"
    "as_millis (now - pce_cached_at e) mod 2 ^ 64 < uint ttl"
  using assms
  by (auto simp: entry_fresh_def entry_age_ms_def duration_since_def word_less_def word_le_def
      uint_sat_sub uint_word_of_int)

text \<open>
  C25: in every state that any interleaving of lookups reaches, a V2 hit returns a pool of the pair
  asked for, read no more than five blocks before the current one, built in the past, and stored
  less than the time-to-live ago (the age in milliseconds is kept in 64 bits).
\<close>

theorem cache_v2_hit_is_fresh:
  assumes reach: "cache_reachable ttl (c, now)" and hit: "check_v2 c now pair b = (c', Some d)"
  shows "c2_pair d = pair \<and> uint b - 5 \<le> uint (c2_block_number d) \<and> c2_cached_at d \<le> now
    \<and> (\<exists>stored\<ge>c2_cached_at d. stored \<le> now \<and> as_millis (now - stored) mod 2 ^ 64 < uint ttl)"
proof -
  from hit have "snd (check_v2 c now pair b) = Some d" by simp
  then obtain e where e: "v2_pools c pair = Some e" "pce_data e = d" "entry_fresh (ttl_ms c) now b e"
    by (rule v2_cache.hit_entry)
  with cache_reachable_ok [OF reach]
  have "c2_pair d = pair" "c2_block_number d = pce_block_number e" "c2_cached_at d \<le> pce_cached_at e"
    "pce_cached_at e \<le> now" "ttl_ms c = ttl"
    by (auto simp: cache_ok_def)
  with entry_fresh_bounds [OF e(3)] show ?thesis by auto
qed

definition demo_v2_answer :: v2_answer where
  "demo_v2_answer = (1, 2, 5000, 7000)"

theorem cache_v2_hit_is_fresh_witness:
  "\<exists>c c' d. cache_reachable 400 (c, 2000000) \<and> check_v2 c 2000000 9 103 = (c', Some d) \<and> c2_pair d = 9"
proof -
  let ?c = "store_v2 (pool_cache_new 400) 0 9 100 (build_v2 0 9 100 demo_v2_answer)"
  have "cache_reachable 400 (pool_cache_new 400, 0)" by (rule cache_reachable.start)
  then have "cache_reachable 400 (?c, 0)" by (rule cache_reachable.step) (rule cache_step.store2, simp)
  then have r: "cache_reachable 400 (?c, 2000000)" by (rule cache_reachable.step) (rule cache_step.time, simp)
  have "(snd (check_v2 ?c 2000000 9 103) \<noteq> None) = True" by code_simp
  then obtain c' d where h: "check_v2 ?c 2000000 9 103 = (c', Some d)"
    by (cases "check_v2 ?c 2000000 9 103") auto
  from cache_v2_hit_is_fresh [OF r h] r h show ?thesis by blast
qed

text \<open>
  After a lookup has fetched and stored a pool, a later lookup of the same pair within the
  time-to-live and at most five blocks on returns the same data and leaves the stored pools alone,
  whatever the provider would answer; a lookup of another pair finds what it would have found
  before. The counters advance by one hit for the first and one miss and one refresh for the fetch.
\<close>

theorem cache_v2_refetch_is_hit:
  assumes miss: "snd (check_v2 c t pair b) = None"
    and fetch: "get_or_fetch_v2 c t built stored pair b (Some a) = (c1, r)"
    and fresh: "stored \<le> now" "as_millis (now - stored) < uint (ttl_ms c)" "uint b' \<le> uint b + 5"
  shows "r = Some (build_v2 built pair b a)
    \<and> (\<exists>c2. get_or_fetch_v2 c1 now built' stored' pair b' answer = (c2, r) \<and> v2_pools c2 = v2_pools c1
        \<and> v2_hits (stats c2) = v2_hits (stats c) + 1 \<and> v2_misses (stats c2) = v2_misses (stats c) + 1
        \<and> refresh_count (stats c2) = refresh_count (stats c) + 1)
    \<and> (\<forall>other. other \<noteq> pair \<longrightarrow> snd (check_v2 c1 now other b') = snd (check_v2 c now other b'))"
proof -
  obtain c0 where c0: "check_v2 c t pair b = (c0, None)" using miss by (cases "check_v2 c t pair b") auto
  note c0' = check_v2_cases [OF c0]
  have c1: "c1 = store_v2 c0 stored pair b (build_v2 built pair b a)" and r: "r = Some (build_v2 built pair b a)"
    using fetch by (auto simp: get_or_fetch_v2_def c0 Let_def)
  have s0: "v2_hits (stats c0) = v2_hits (stats c)" "v2_misses (stats c0) = v2_misses (stats c) + 1"
    "refresh_count (stats c0) = refresh_count (stats c)"
    using c0 by (auto simp: check_v2_def Let_def split: option.splits if_splits)
  have "as_millis (now - stored) < 2 ^ 64" "0 \<le> as_millis (now - stored)"
    using fresh uint_bounded [of "ttl_ms c"] by (auto simp: as_millis_def pos_imp_zdiv_nonneg_iff)
  then have f: "entry_fresh (ttl_ms c0) now b' \<lparr>pce_data = d, pce_cached_at = stored, pce_block_number = b\<rparr>" for d
    using fresh c0' uint_nonneg [of b]
    by (simp add: entry_fresh_def entry_age_ms_def duration_since_def word_less_def word_le_def
        uint_sat_sub uint_word_of_int)
  have hit: "snd (check_v2 c1 now pair b') = r" unfolding c1 r by (rule v2_cache.check_after_store [OF f])
  then obtain c2 where c2: "check_v2 c1 now pair b' = (c2, r)" by (cases "check_v2 c1 now pair b'") auto
  then have s2: "v2_hits (stats c2) = v2_hits (stats c1) + 1" "v2_misses (stats c2) = v2_misses (stats c1)"
    "refresh_count (stats c2) = refresh_count (stats c1)"
    unfolding r by (auto simp: check_v2_def Let_def split: option.splits if_splits)
  have g: "get_or_fetch_v2 c1 now built' stored' pair b' answer = (c2, r)"
    by (simp add: get_or_fetch_v2_def c2 r)
  have s1: "v2_hits (stats c1) = v2_hits (stats c)" "v2_misses (stats c1) = v2_misses (stats c) + 1"
    "refresh_count (stats c1) = refresh_count (stats c) + 1"
    using s0 by (simp_all add: c1 store_v2_def)
  have "snd (check_v2 c1 now other b') = snd (check_v2 c now other b')" if "other \<noteq> pair" for other
    unfolding c1 v2_cache.check_after_other_store [OF that]
    using c0' by (intro v2_cache.check_same_entries) simp_all
  moreover have "v2_pools c2 = v2_pools c1" using check_v2_cases [OF c2] by simp
  ultimately show ?thesis using r g s1 s2 by auto
qed

theorem cache_v2_refetch_is_hit_witness:
  "\<exists>c1 c2. get_or_fetch_v2 (pool_cache_new 400) 0 1 2 9 100 (Some demo_v2_answer)
        = (c1, Some (build_v2 1 9 100 demo_v2_answer))
     \<and> get_or_fetch_v2 c1 3000000 4 5 9 105 None = (c2, Some (build_v2 1 9 100 demo_v2_answer))"
proof -
  let ?f = "get_or_fetch_v2 (pool_cache_new 400) 0 1 2 9 100 (Some demo_v2_answer)"
  have miss: "snd (check_v2 (pool_cache_new 400) 0 9 100) = None" by (simp add: pool_cache_new_def check_v2_def)
  obtain c1 r where f: "?f = (c1, r)" by (cases ?f) auto
  have "as_millis (3000000 - 2) < uint (ttl_ms (pool_cache_new 400))" by code_simp
  from cache_v2_refetch_is_hit [OF miss f _ this, of 105 4 5 None] f show ?thesis by auto
qed

end
