(* ===== verification/SelectorScan.thy ===== *)
theory SelectorScan
  imports Prelude
begin

text \<open>
  The selector scan of \<open>src/mev/decoder/simd.rs\<close>: the scalar search and the search with 128-bit
  vector instructions, whose operands are lists of sixteen byte lanes, lowest lane first. An index
  out of bounds is a panic.
\<close>

section \<open>The scalar search\<close>

definition SELECTORS :: "selector list" where
  "SELECTORS = [
     [0x38, 0xed, 0x17, 0x39],
     [0x7f, 0xf3, 0x6a, 0xb5],
     [0x18, 0xcb, 0xaf, 0xe5],
     [0x5c, 0x11, 0xd7, 0x95],
     [0xb6, 0xf9, 0xde, 0x95],
     [0x79, 0x1a, 0xc9, 0x47],
     [0x41, 0x4b, 0xf3, 0x89],
     [0xc0, 0x4b, 0x8d, 0x59]]"

text \<open>\<open>Iterator::position\<close>, counting from \<open>i\<close>.\<close>

fun position_from :: "int \<Rightarrow> ('a \<Rightarrow> bool) \<Rightarrow> 'a list \<Rightarrow> int option" where
  "position_from i f [] = None"
| "position_from i f (x # xs) = (if f x then Some i else position_from (i + 1) f xs)"

text \<open>\<open>[data[0], data[1], data[2], data[3]]\<close>.\<close>

definition first4 :: "bytes \<Rightarrow> panic + selector" where
  "first4 data =
     (case data of d0 # d1 # d2 # d3 # rest \<Rightarrow> Inr [d0, d1, d2, d3] | _ \<Rightarrow> Inl IndexOutOfBounds)"

definition find_selector_scalar :: "bytes \<Rightarrow> panic + int option" where
  "find_selector_scalar data =
     map_sum id (\<lambda>sel. position_from 0 (\<lambda>candidate. candidate = sel) SELECTORS) (first4 data)"

section \<open>The vector search\<close>

text \<open>\<open>i32::from_le_bytes\<close>, kept as its 32 bits.\<close>

definition from_le_bytes :: "selector \<Rightarrow> u32" where
  "from_le_bytes bs = word_of_int (foldr (\<lambda>b acc. uint b + 256 * acc) bs 0)"

text \<open>\<open>_mm_cvtsi32_si128\<close>: the integer in the four low lanes, zeros above.\<close>

definition cvtsi32_si128 :: "u32 \<Rightarrow> u8 list" where
  "cvtsi32_si128 w = [ucast w, ucast (drop_bit 8 w), ucast (drop_bit 16 w), ucast (drop_bit 24 w)]
     @ replicate 12 0"

text \<open>\<open>_mm_cmpeq_epi8\<close>: all ones in the lanes that agree.\<close>

definition cmpeq_epi8 :: "u8 list \<Rightarrow> u8 list \<Rightarrow> u8 list" where
  "cmpeq_epi8 xs ys = map2 (\<lambda>x y. if x = y then 0xff else 0) xs ys"

text \<open>\<open>_mm_movemask_epi8\<close>: the top bits of the lanes, lowest lane in the lowest bit.\<close>

definition movemask_epi8 :: "u8 list \<Rightarrow> u32" where
  "movemask_epi8 xs = foldr (\<lambda>x acc. (if bit x 7 then 1 else 0) + 2 * acc) xs 0"

unbundle bit_operations_syntax

definition simd_match :: "u8 list \<Rightarrow> selector \<Rightarrow> bool" where
  "simd_match target sel =
     (let candidate = cvtsi32_si128 (from_le_bytes sel);
          cmp = cmpeq_epi8 target candidate
      in movemask_epi8 cmp AND 0x0f = 0x0f)"

definition find_selector_simd :: "bytes \<Rightarrow> panic + int option" where
  "find_selector_simd data =
     (if length data < 4 then Inr None
      else map_sum id (\<lambda>sel. let target = cvtsi32_si128 (from_le_bytes sel)
                              in position_from 0 (simd_match target) SELECTORS) (first4 data))"

text \<open>The entry point, with the compile-time choice of the backend as an argument.\<close>

definition find_selector :: "bool \<Rightarrow> bytes \<Rightarrow> panic + int option" where
  "find_selector avx2 data =
     (if length data < 4 then Inr None
      else if avx2 then find_selector_simd data else find_selector_scalar data)"

section \<open>Equivalence of the two searches\<close>

lemma position_from_cong:
  "(\<And>x. x \<in> set xs \<Longrightarrow> f x = g x) \<Longrightarrow> position_from i f xs = position_from i g xs"
  by (induction xs arbitrary: i) auto

lemma first4_cases:
  "first4 data = (if length data < 4 then Inl IndexOutOfBounds else Inr (take 4 data))"
  by (auto simp: first4_def eval_nat_numeral split: list.split)

lemma base256: "0 \<le> (a :: int) \<Longrightarrow> a < 256 \<Longrightarrow> (a + 256 * k) div 256 = k \<and> (a + 256 * k) mod 256 = a"
  by (simp add: div_pos_pos_trivial mod_pos_pos_trivial)

lemma lanes_from_le_bytes:
  "cvtsi32_si128 (from_le_bytes [a, b, c, d]) = [a, b, c, d] @ replicate 12 0"
proof -
  have u: "uint a < 256" "uint b < 256" "uint c < 256" "uint d < 256"
    using uint_bounded [of a] uint_bounded [of b] uint_bounded [of c] uint_bounded [of d] by simp_all
  let ?w = "from_le_bytes [a, b, c, d]"
  have w: "uint ?w = uint a + 256 * (uint b + 256 * (uint c + 256 * uint d))"
  proof -
    let ?v = "uint a + 256 * (uint b + 256 * (uint c + 256 * uint d))"
    have "0 \<le> ?v" "?v < 2 ^ 32"
      using u uint_nonneg [of a] uint_nonneg [of b] uint_nonneg [of c] uint_nonneg [of d] by simp_all
    then have "uint (word_of_int ?v :: u32) = ?v"
      by (simp only: uint_word_of_int_eq) (simp add: take_bit_int_eq_self)
    moreover have "?w = word_of_int ?v" by (simp only: from_le_bytes_def foldr.simps o_apply id_apply) simp
    ultimately show ?thesis by (simp only:)
  qed
  have lane: "uint (ucast (drop_bit n ?w) :: u8) = (uint ?w div 2 ^ n) mod 256" for n
    using uint_bounded [of ?w]
    by (simp only: unsigned_ucast_eq unsigned_drop_bit_eq) (simp add: take_bit_eq_mod drop_bit_eq_div)
  note digit = base256 [OF uint_nonneg u(1)] base256 [OF uint_nonneg u(2)] base256 [OF uint_nonneg u(3)]
  have q: "uint ?w div 2 ^ 8 = uint b + 256 * (uint c + 256 * uint d)"
    "uint ?w div 2 ^ 16 = uint c + 256 * uint d" "uint ?w div 2 ^ 24 = uint d"
  proof -
    have "(2 :: int) ^ 16 = 256 * 256" "(2 :: int) ^ 24 = 256 * 256 * 256" "(2 :: int) ^ 8 = 256" by simp_all
    then show "uint ?w div 2 ^ 8 = uint b + 256 * (uint c + 256 * uint d)"
      "uint ?w div 2 ^ 16 = uint c + 256 * uint d" "uint ?w div 2 ^ 24 = uint d"
      by (simp_all only: w zdiv_zmult2_eq digit)
  qed
  have "uint (ucast ?w :: u8) = uint a" using lane [of 0] by (simp only: drop_bit_0 id_apply power_0 div_by_1 w digit)
  moreover have "uint (ucast (drop_bit 8 ?w) :: u8) = uint b" by (simp only: lane q digit)
  moreover have "uint (ucast (drop_bit 16 ?w) :: u8) = uint c" by (simp only: lane q digit)
  moreover have "uint (ucast (drop_bit 24 ?w) :: u8) = uint d" unfolding lane q using u(4) by simp
  ultimately have "(ucast ?w :: u8) = a" "(ucast (drop_bit 8 ?w) :: u8) = b"
    "(ucast (drop_bit 16 ?w) :: u8) = c" "(ucast (drop_bit 24 ?w) :: u8) = d"
    by (simp_all only: word_eq_iff_uint)
  then show ?thesis by (simp add: cvtsi32_si128_def)
qed

lemma simd_match_iff:
  assumes "length x = 4" "length y = 4"
  shows "simd_match (cvtsi32_si128 (from_le_bytes x)) y \<longleftrightarrow> y = x"
proof -
  obtain a b c d where x: "x = [a, b, c, d]" using assms(1) by (auto simp: eval_nat_numeral length_Suc_conv)
  obtain a' b' c' d' where y: "y = [a', b', c', d']" using assms(2) by (auto simp: eval_nat_numeral length_Suc_conv)
  have zeros: "replicate 12 (0 :: u8) = [0, 0, 0, 0, 0, 0, 0, 0, 0, 0, 0, 0]" by (simp add: eval_nat_numeral)
  show ?thesis
    unfolding x y simd_match_def Let_def lanes_from_le_bytes zeros
    by (cases "a = a'"; cases "b = b'"; cases "c = c'"; cases "d = d'")
      (simp_all add: cmpeq_epi8_def movemask_epi8_def)
qed

text \<open>
  C27: the vector search and the scalar search agree on every input, whichever backend the build
  selects: neither panics, and the result is the index of the first known selector that equals the
  first four bytes, or nothing when there is none or the input is shorter.
\<close>

theorem selector_backends_agree:
  "find_selector True data = find_selector False data
   \<and> find_selector avx2 data = Inr (if length data < 4 then None
       else position_from 0 (\<lambda>candidate. candidate = take 4 data) SELECTORS)"
proof -
  have s: "position_from 0 (simd_match (cvtsi32_si128 (from_le_bytes x))) SELECTORS
      = position_from 0 (\<lambda>candidate. candidate = x) SELECTORS" if "length x = 4" for x
    by (rule position_from_cong) (use that in \<open>auto simp: SELECTORS_def simd_match_iff\<close>)
  have "find_selector b data = Inr (if length data < 4 then None
       else position_from 0 (\<lambda>candidate. candidate = take 4 data) SELECTORS)" for b
    using s [of "take 4 data"]
    by (simp add: find_selector_def find_selector_simd_def find_selector_scalar_def first4_cases)
  then show ?thesis by simp
qed

end
