(* ===== verification/Adaptive.thy ===== *)
theory Adaptive
  imports Config Opportunity
begin

text \<open>
  The adaptive policy of \<open>src/mev/adaptive.rs\<close>: it watches the flow of candidate transactions and
  the outcomes of its own bundles, scores an opportunity before and after simulation, ranks relays
  and decides whether to execute. The exponential and the logarithm are those of the mathematical
  library; every method that reads the clock takes the instant as an argument.
\<close>

section \<open>Constants and data\<close>

definition FLOW_CAPACITY :: int where "FLOW_CAPACITY = 2048"
definition FLOW_HORIZON_SECS :: int where "FLOW_HORIZON_SECS = 12"
definition LOOKUP_TARGET_MS :: f64 where "LOOKUP_TARGET_MS = dec 140 0"
definition SUBMIT_TARGET_MS :: f64 where "SUBMIT_TARGET_MS = dec 120 0"
definition FINALIZE_TARGET_MS :: f64 where "FINALIZE_TARGET_MS = dec 6000 0"
definition EWMA_FAST :: f64 where "EWMA_FAST = dec 20 2"
definition EWMA_SLOW :: f64 where "EWMA_SLOW = dec 8 2"

record cluster_key =
  ck_router :: address
  ck_token_in :: address
  ck_token_out :: address
  ck_selector :: selector

record flow_observation =
  fo_key :: cluster_key
  fo_observed_at :: instant
  fo_gas_price_gwei :: f64
  fo_notional_eth :: f64

datatype market_regime = Calm | Normal | Hot | Toxic

record adaptive_quote_input =
  qi_cluster :: cluster_key
  qi_pair :: address
  qi_hour_utc :: u8
  qi_context_priority_score :: f64
  qi_context_toxicity_score :: f64
  qi_expected_profit_wei :: u256
  qi_execution_cost_wei :: u256
  qi_gas_price_wei :: u256
  qi_lookup_latency_ms :: f64
  qi_notional_eth :: f64
  qi_price_impact_bps :: u64
  qi_relay_pressure_override :: "f64 option"

record preflight_input =
  pi_cluster :: cluster_key
  pi_notional_eth :: f64
  pi_gas_price_wei :: u256
  pi_path_len :: int

record preflight_quote =
  pq_should_continue :: bool
  pq_regime :: market_regime
  pq_reject_reason :: "string option"
  pq_preflight_score :: f64
  pq_upper_bound_ev_usd :: f64
  pq_estimated_gas_cost_usd :: f64
  pq_mempool_density :: f64
  pq_cluster_heat :: f64
  pq_gas_pressure :: f64
  pq_impact_hint :: f64
  pq_size_score :: f64

record adaptive_quote =
  aq_should_execute :: bool
  aq_regime :: market_regime
  aq_reject_reason :: "string option"
  aq_selected_relay :: "string option"
  aq_ev_real_usd :: f64
  aq_threshold_dynamic_usd :: f64
  aq_p_positive :: f64
  aq_competition_score :: f64
  aq_risk_score :: f64
  aq_competition_penalty_usd :: f64
  aq_risk_penalty_usd :: f64
  aq_path_penalty_usd :: f64
  aq_mempool_density :: f64
  aq_cluster_heat :: f64
  aq_builder_pressure :: f64
  aq_latency_penalty :: f64
  aq_gas_pressure :: f64
  aq_context_priority_score :: f64
  aq_context_toxicity_score :: f64

record relay_quote =
  rq_relay :: string
  rq_relay_pressure :: f64
  rq_accept_rate :: f64
  rq_inclusion_rate :: f64
  rq_accepted_not_included_rate :: f64
  rq_revert_rate :: f64
  rq_submit_latency_ms :: f64
  rq_finalization_latency_ms :: f64
  rq_score :: f64

record relay_stats =
  rs_submit_latency_ewma_ms :: f64
  rs_finalization_latency_ewma_ms :: f64
  rs_relay_accept_rate_ewma :: f64
  rs_relay_reject_rate_ewma :: f64
  rs_inclusion_success_rate_ewma :: f64
  rs_accepted_not_included_rate_ewma :: f64
  rs_included_revert_rate_ewma :: f64
  rs_realized_capture_ewma :: f64

record relay_context_stats =
  rc_inclusion_success_rate_ewma :: f64
  rc_accepted_not_included_rate_ewma :: f64
  rc_included_revert_rate_ewma :: f64
  rc_realized_capture_ewma :: f64
  rc_samples :: u64

record historical_outcome_stats =
  ho_samples :: u64
  ho_success_rate :: f64
  ho_accepted_not_included_rate :: f64
  ho_revert_rate :: f64
  ho_realized_capture :: f64

record historical_calibration =
  hc_competition_mult :: f64
  hc_risk_mult :: f64
  hc_threshold_mult :: f64
  hc_regime_shift :: int

record context_signal =
  cs_priority_score :: f64
  cs_toxicity_score :: f64
  cs_samples :: u64

text \<open>Keys of the profile maps: router, pair and hour, and router and hour.\<close>

type_synonym historical_profile_key = "address \<times> address \<times> u8"
type_synonym router_hour_key = "address \<times> u8"

record historical_outcome_profile =
  hp_hour_utc :: u8
  hp_pair :: address
  hp_router :: address
  hp_samples :: u64
  hp_success_rate :: f64
  hp_accepted_not_included_rate :: f64
  hp_revert_rate :: f64
  hp_realized_capture :: f64

datatype contextual_outcome_kind = SubmitFailed | AcceptedNotIncluded | IncludedRevert | IncludedSuccess

record adaptive_policy =
  ap_eth_usd_price :: f64
  ap_base_threshold_usd :: f64
  ap_max_price_impact_bps :: u64
  ap_min_large_swap_eth :: f64
  ap_min_profit_eth :: f64
  ap_preflight_gas_estimate :: u64
  ap_recent_flows :: "flow_observation list"
  ap_gas_price_ewma_gwei :: f64
  ap_lookup_latency_ewma_ms :: f64
  ap_submit_latency_ewma_ms :: f64
  ap_finalize_latency_ewma_ms :: f64
  ap_relay_accept_rate_ewma :: f64
  ap_relay_reject_rate_ewma :: f64
  ap_inclusion_success_rate_ewma :: f64
  ap_accepted_not_included_rate_ewma :: f64
  ap_included_revert_rate_ewma :: f64
  ap_success_rate_ewma :: f64
  ap_failure_rate_ewma :: f64
  ap_timeout_rate_ewma :: f64
  ap_realized_capture_ewma :: f64
  ap_relay_stats :: "string \<rightharpoonup> relay_stats"
  ap_relay_context_stats :: "string \<times> cluster_key \<rightharpoonup> relay_context_stats"
  ap_historical_profiles :: "historical_profile_key \<rightharpoonup> historical_outcome_stats"
  ap_router_hour_profiles :: "router_hour_key \<rightharpoonup> context_signal"
  ap_chain_competition_mult :: f64
  ap_chain_risk_mult :: f64
  ap_chain_threshold_mult :: f64

section \<open>Helpers\<close>

definition ewma :: "f64 \<Rightarrow> f64 \<Rightarrow> f64 \<Rightarrow> f64" where
  "ewma current sample alpha = current * (1 - alpha) + sample * alpha"

definition wei_to_gwei_f64 :: "u256 \<Rightarrow> f64" where
  "wei_to_gwei_f64 value = of_uw value / dec (10 ^ 9) 0"

definition size_pressure :: "libm \<Rightarrow> f64 \<Rightarrow> f64" where
  "size_pressure lm notional_eth = fclamp 0 1 (m_ln_1p lm (fmax notional_eth 0) / dec 8 0)"

definition path_penalty :: "int \<Rightarrow> f64" where
  "path_penalty path_len = of_usize (min (max 0 (path_len - 2)) 3) / dec 3 0"

definition logistic :: "libm \<Rightarrow> f64 \<Rightarrow> f64" where
  "logistic lm x = 1 / (1 + m_exp lm (- x))"

definition capture_ratio :: "u256 \<Rightarrow> f64 \<Rightarrow> f64" where
  "capture_ratio expected_profit_wei realized_profit =
     (let expected_profit_eth = wei_to_eth_f64 expected_profit_wei
      in if epsilon < expected_profit_eth
         then fclamp 0 (dec 125 2) (realized_profit / expected_profit_eth) else 0)"

text \<open>\<open>Duration::as_secs_f64\<close>.\<close>

definition as_secs_f64 :: "duration \<Rightarrow> f64" where
  "as_secs_f64 d = of_usize (d div 1000000000) + of_usize (d mod 1000000000) / dec (10 ^ 9) 0"

definition is_better_quote :: "adaptive_quote \<Rightarrow> adaptive_quote \<Rightarrow> bool" where
  "is_better_quote candidate current =
     (let candidate_margin = aq_ev_real_usd candidate - aq_threshold_dynamic_usd candidate;
          current_margin = aq_ev_real_usd current - aq_threshold_dynamic_usd current
      in if aq_should_execute candidate \<noteq> aq_should_execute current then aq_should_execute candidate
         else if epsilon < \<bar>candidate_margin - current_margin\<bar> then current_margin < candidate_margin
         else if epsilon < \<bar>aq_p_positive candidate - aq_p_positive current\<bar>
         then aq_p_positive current < aq_p_positive candidate
         else aq_builder_pressure candidate < aq_builder_pressure current)"

definition chain_adaptive_preset :: "string \<Rightarrow> f64 \<times> f64 \<times> f64 \<times> f64 \<times> f64 \<times> f64 \<times> f64" where
  "chain_adaptive_preset network =
     (if network = ''bsc'' then (dec 30 1, dec 86 2, dec 76 2, dec 16 2, dec 94 2, dec 106 2, dec 92 2)
      else if network = ''polygon'' then (dec 800 1, dec 108 2, dec 70 2, dec 20 2, dec 105 2, dec 102 2, dec 108 2)
      else (dec 250 1, 1, dec 72 2, dec 18 2, 1, 1, 1))"

definition relay_stats_default :: relay_stats where
  "relay_stats_default = \<lparr>rs_submit_latency_ewma_ms = SUBMIT_TARGET_MS,
     rs_finalization_latency_ewma_ms = FINALIZE_TARGET_MS, rs_relay_accept_rate_ewma = dec 76 2,
     rs_relay_reject_rate_ewma = dec 16 2, rs_inclusion_success_rate_ewma = dec 58 2,
     rs_accepted_not_included_rate_ewma = dec 14 2, rs_included_revert_rate_ewma = dec 8 2,
     rs_realized_capture_ewma = dec 82 2\<rparr>"

definition historical_calibration_default :: historical_calibration where
  "historical_calibration_default = \<lparr>hc_competition_mult = 1, hc_risk_mult = 1, hc_threshold_mult = 1,
     hc_regime_shift = 0\<rparr>"

definition relay_context_stats_default :: relay_context_stats where
  "relay_context_stats_default = \<lparr>rc_inclusion_success_rate_ewma = dec 58 2,
     rc_accepted_not_included_rate_ewma = dec 14 2, rc_included_revert_rate_ewma = dec 8 2,
     rc_realized_capture_ewma = dec 82 2, rc_samples = 0\<rparr>"

fun market_regime_as_str :: "market_regime \<Rightarrow> string" where
  "market_regime_as_str Calm = ''calm''"
| "market_regime_as_str Normal = ''normal''"
| "market_regime_as_str Hot = ''hot''"
| "market_regime_as_str Toxic = ''toxic''"

definition adaptive_policy_new :: "config \<Rightarrow> adaptive_policy" where
  "adaptive_policy_new cfg =
     (case chain_adaptive_preset (cfg_network cfg) of
        (gas_baseline_gwei, threshold_bias, success_bias, failure_bias, competition_mult, risk_mult,
         threshold_mult) \<Rightarrow>
        \<lparr>ap_eth_usd_price = eth_usd_price (mev cfg),
         ap_base_threshold_usd =
           fmax (effective_min_profit_usd (mev cfg))
             (effective_min_net_profit_eth (mev cfg) * eth_usd_price (mev cfg)) * threshold_bias,
         ap_max_price_impact_bps = max (effective_max_price_impact_bps (mev cfg)) 1,
         ap_min_large_swap_eth = fmax (effective_min_large_swap_eth (mev cfg)) (dec 1 4),
         ap_min_profit_eth = fmax (effective_min_net_profit_eth (mev cfg)) (dec 1 6),
         ap_preflight_gas_estimate =
           max (sat_add (estimated_exec_gas cfg) (estimated_bundle_overhead_gas cfg)) 180000,
         ap_recent_flows = [], ap_gas_price_ewma_gwei = gas_baseline_gwei,
         ap_lookup_latency_ewma_ms = LOOKUP_TARGET_MS, ap_submit_latency_ewma_ms = SUBMIT_TARGET_MS,
         ap_finalize_latency_ewma_ms = FINALIZE_TARGET_MS, ap_relay_accept_rate_ewma = dec 76 2,
         ap_relay_reject_rate_ewma = dec 16 2, ap_inclusion_success_rate_ewma = dec 58 2,
         ap_accepted_not_included_rate_ewma = dec 14 2, ap_included_revert_rate_ewma = dec 8 2,
         ap_success_rate_ewma = success_bias, ap_failure_rate_ewma = failure_bias,
         ap_timeout_rate_ewma = dec 8 2, ap_realized_capture_ewma = dec 82 2,
         ap_relay_stats = Map.empty, ap_relay_context_stats = Map.empty,
         ap_historical_profiles = Map.empty, ap_router_hour_profiles = Map.empty,
         ap_chain_competition_mult = competition_mult, ap_chain_risk_mult = risk_mult,
         ap_chain_threshold_mult = threshold_mult\<rparr>)"

section \<open>Historical profiles\<close>

definition stats_of_profile :: "historical_outcome_profile \<Rightarrow> historical_outcome_stats" where
  "stats_of_profile p = \<lparr>ho_samples = hp_samples p, ho_success_rate = hp_success_rate p,
     ho_accepted_not_included_rate = hp_accepted_not_included_rate p, ho_revert_rate = hp_revert_rate p,
     ho_realized_capture = hp_realized_capture p\<rparr>"

text \<open>\<open>Iterator::sum::<f64>\<close> starts from negative zero.\<close>

definition f64_sum :: "f64 list \<Rightarrow> f64" where
  "f64_sum xs = foldl (+) (- 0) xs"

definition context_signal_of :: "historical_outcome_stats list \<Rightarrow> context_signal" where
  "context_signal_of values =
     (let samples = max (sum_list (map ho_samples values)) 1;
          weighted = (\<lambda>f. f64_sum (map (\<lambda>value. f value * of_uw (ho_samples value)) values) / of_uw samples);
          success_rate = weighted ho_success_rate;
          miss_rate = weighted ho_accepted_not_included_rate;
          revert_rate = weighted ho_revert_rate;
          realized_capture = weighted ho_realized_capture
      in \<lparr>cs_priority_score = fclamp 0 1 (success_rate * dec 46 2
            + fclamp 0 1 realized_capture * dec 34 2
            + fclamp 0 1 (1 - miss_rate) * dec 12 2
            + fclamp 0 1 (1 - revert_rate) * dec 8 2),
          cs_toxicity_score = fclamp 0 1 (fclamp 0 1 (1 - success_rate) * dec 28 2
            + fclamp 0 1 miss_rate * dec 36 2
            + fclamp 0 1 revert_rate * dec 22 2
            + fclamp 0 1 (1 - realized_capture) * dec 14 2),
          cs_samples = samples\<rparr>)"

definition apply_historical_profiles :: "adaptive_policy \<Rightarrow> historical_outcome_profile list \<Rightarrow> adaptive_policy" where
  "apply_historical_profiles p profiles =
     (let hist = foldl (\<lambda>m pr. m((hp_router pr, hp_pair pr, hp_hour_utc pr) \<mapsto> stats_of_profile pr)) Map.empty profiles;
          rollup = foldl (\<lambda>m pr. let k = (hp_router pr, hp_hour_utc pr);
                                      old = (case m k of Some vs \<Rightarrow> vs | None \<Rightarrow> [])
                                  in m(k \<mapsto> old @ [stats_of_profile pr])) Map.empty profiles
      in p\<lparr>ap_historical_profiles := hist,
           ap_router_hour_profiles := (\<lambda>k. map_option context_signal_of (rollup k))\<rparr>)"

definition context_signal_for :: "adaptive_policy \<Rightarrow> address \<Rightarrow> u8 \<Rightarrow> context_signal" where
  "context_signal_for p router hour_utc =
     (case ap_router_hour_profiles p (router, hour_utc) of Some s \<Rightarrow> s
      | None \<Rightarrow> \<lparr>cs_priority_score = dec 50 2, cs_toxicity_score = dec 50 2, cs_samples = 0\<rparr>)"

definition historical_profile ::
  "adaptive_policy \<Rightarrow> address \<Rightarrow> address \<Rightarrow> u8 \<Rightarrow> historical_outcome_stats option" where
  "historical_profile p pair router hour_utc = ap_historical_profiles p (router, pair, hour_utc)"

definition historical_pressure :: "historical_outcome_stats \<Rightarrow> f64" where
  "historical_pressure h =
     fclamp 0 1 (fclamp 0 1 (1 - ho_success_rate h) * dec 24 2
       + fclamp 0 1 (ho_accepted_not_included_rate h) * dec 36 2
       + fclamp 0 1 (ho_revert_rate h) * dec 24 2
       + fclamp 0 1 (1 - ho_realized_capture h) * dec 16 2)"

definition historical_calibration_of :: "historical_outcome_stats \<Rightarrow> f64 \<Rightarrow> historical_calibration" where
  "historical_calibration_of h confidence =
     (let instability = fclamp 0 1 (1 - ho_success_rate h);
          miss = fclamp 0 1 (ho_accepted_not_included_rate h);
          revert = fclamp 0 1 (ho_revert_rate h);
          poor_realization = fclamp 0 1 (1 - ho_realized_capture h);
          stress = fclamp 0 1 (instability * dec 28 2 + miss * dec 34 2 + revert * dec 22 2
            + poor_realization * dec 16 2)
      in \<lparr>hc_competition_mult = 1 + (miss * dec 34 2 + instability * dec 18 2) * confidence,
          hc_risk_mult = 1 + (revert * dec 42 2 + poor_realization * dec 24 2 + instability * dec 10 2) * confidence,
          hc_threshold_mult = 1 + (miss * dec 26 2 + revert * dec 18 2 + instability * dec 18 2
            + poor_realization * dec 14 2) * confidence,
          hc_regime_shift =
            (if 12 \<le> ho_samples h \<and> dec 54 2 \<le> stress then 2
             else if 6 \<le> ho_samples h \<and> dec 42 2 \<le> stress then 1
             else if 12 \<le> ho_samples h \<and> stress \<le> dec 18 2 \<and> dec 82 2 \<le> ho_success_rate h
               \<and> dec 82 2 \<le> ho_realized_capture h then - 1
             else 0)\<rparr>)"

section \<open>Observation of the flow\<close>

definition flow_expired :: "instant \<Rightarrow> flow_observation \<Rightarrow> bool" where
  "flow_expired now flow = (nanos_of_secs FLOW_HORIZON_SECS < duration_since now (fo_observed_at flow))"

definition ap_prune :: "adaptive_policy \<Rightarrow> instant \<Rightarrow> adaptive_policy" where
  "ap_prune p now = p\<lparr>ap_recent_flows := dropWhile (flow_expired now) (ap_recent_flows p)\<rparr>"

definition observe_lookup_latency :: "adaptive_policy \<Rightarrow> f64 \<Rightarrow> adaptive_policy" where
  "observe_lookup_latency p latency_ms =
     p\<lparr>ap_lookup_latency_ewma_ms := ewma (ap_lookup_latency_ewma_ms p) latency_ms EWMA_FAST\<rparr>"

definition observe_candidate_flow ::
  "adaptive_policy \<Rightarrow> instant \<Rightarrow> cluster_key \<Rightarrow> u256 \<Rightarrow> u256 \<Rightarrow> adaptive_policy" where
  "observe_candidate_flow p now key notional_wei gas_price_wei =
     (let p1 = ap_prune p now;
          gas_price_gwei = wei_to_gwei_f64 gas_price_wei;
          notional_eth = wei_to_eth_f64 notional_wei;
          gas = (if ap_gas_price_ewma_gwei p1 \<le> epsilon then fmax gas_price_gwei (dec 1 9)
                 else ewma (ap_gas_price_ewma_gwei p1) gas_price_gwei EWMA_SLOW);
          flows = (if int (length (ap_recent_flows p1)) = FLOW_CAPACITY then tl (ap_recent_flows p1)
                   else ap_recent_flows p1)
      in p1\<lparr>ap_gas_price_ewma_gwei := gas,
            ap_recent_flows := flows @ [\<lparr>fo_key = key, fo_observed_at = now,
              fo_gas_price_gwei = gas_price_gwei, fo_notional_eth = notional_eth\<rparr>]\<rparr>)"

text \<open>The six accumulators of \<open>cluster_heat\<close> and one turn of its loop.\<close>

record heat =
  ht_total_weight :: f64
  ht_cluster_weight :: f64
  ht_total_recent :: f64
  ht_cluster_recent :: f64
  ht_aggressive_cluster :: f64
  ht_aggressive_total :: f64

definition heat_step :: "libm \<Rightarrow> f64 \<Rightarrow> cluster_key \<Rightarrow> instant \<Rightarrow> heat \<Rightarrow> flow_observation \<Rightarrow> heat" where
  "heat_step lm gas_ewma key now h flow =
     (let age_secs = as_secs_f64 (duration_since now (fo_observed_at flow));
          recency_weight = m_exp lm (- age_secs / dec 4 0);
          size_weight = 1 + fclamp 0 (dec 5 1) (m_ln_1p lm (fmax (fo_notional_eth flow) 0) / dec 8 0);
          gas_weight = 1 + fclamp 0 (dec 2 0) (fo_gas_price_gwei flow / fmax gas_ewma 1) * dec 10 2;
          weight = recency_weight * size_weight * gas_weight;
          is_aggressive = (if epsilon < gas_ewma \<and> gas_ewma * dec 118 2 < fo_gas_price_gwei flow
                           then recency_weight else 0);
          h1 = h\<lparr>ht_total_weight := ht_total_weight h + weight,
                 ht_total_recent := ht_total_recent h + recency_weight,
                 ht_aggressive_total := ht_aggressive_total h + is_aggressive\<rparr>
      in if fo_key flow = key
         then h1\<lparr>ht_cluster_weight := ht_cluster_weight h1 + weight,
                 ht_cluster_recent := ht_cluster_recent h1 + recency_weight,
                 ht_aggressive_cluster := ht_aggressive_cluster h1 + is_aggressive\<rparr>
         else h1)"

definition cluster_heat :: "libm \<Rightarrow> adaptive_policy \<Rightarrow> cluster_key \<Rightarrow> instant \<Rightarrow> f64" where
  "cluster_heat lm p key now =
     (if ap_recent_flows p = [] then 0
      else let h = foldl (heat_step lm (ap_gas_price_ewma_gwei p) key now)
             \<lparr>ht_total_weight = 0, ht_cluster_weight = 0, ht_total_recent = 0, ht_cluster_recent = 0,
              ht_aggressive_cluster = 0, ht_aggressive_total = 0\<rparr> (ap_recent_flows p)
      in if ht_total_weight h \<le> epsilon then 0
      else let local_share = fclamp 0 1 (ht_cluster_weight h / ht_total_weight h);
               burst_share = (if ht_total_recent h \<le> epsilon then 0
                              else fclamp 0 1 (ht_cluster_recent h / ht_total_recent h));
               aggression_share = (if ht_aggressive_total h \<le> epsilon then 0
                              else fclamp 0 1 (ht_aggressive_cluster h / ht_aggressive_total h));
               dominance = (if dec 24 2 < local_share \<and> dec 20 2 < burst_share
                  then fclamp 0 1 ((local_share - dec 24 2) * dec 18 1 + (burst_share - dec 20 2) * dec 14 1)
                  else 0)
      in fclamp 0 1 (local_share * dec 42 2 + burst_share * dec 28 2 + aggression_share * dec 15 2
           + dominance * dec 15 2))"

section \<open>Pressures and scores\<close>

text \<open>\<open>((x / target) - 1.0).clamp(0.0, 2.0) / 2.0\<close>.\<close>

definition over_target :: "f64 \<Rightarrow> f64 \<Rightarrow> f64" where
  "over_target x target = fclamp 0 (dec 2 0) (x / target - 1) / dec 2 0"

definition gas_pressure :: "adaptive_policy \<Rightarrow> f64 \<Rightarrow> f64" where
  "gas_pressure p current_gwei =
     (if ap_gas_price_ewma_gwei p \<le> epsilon then 0 else over_target current_gwei (ap_gas_price_ewma_gwei p))"

definition latency_penalty :: "adaptive_policy \<Rightarrow> f64 \<Rightarrow> f64" where
  "latency_penalty p current_lookup_ms =
     (let lookup = over_target current_lookup_ms LOOKUP_TARGET_MS;
          lookup_baseline = over_target (ap_lookup_latency_ewma_ms p) LOOKUP_TARGET_MS;
          submit = over_target (ap_submit_latency_ewma_ms p) SUBMIT_TARGET_MS;
          finalize = over_target (ap_finalize_latency_ewma_ms p) FINALIZE_TARGET_MS
      in fclamp 0 1 (lookup * dec 35 2 + lookup_baseline * dec 20 2 + submit * dec 25 2 + finalize * dec 20 2))"

definition impact_hint :: "libm \<Rightarrow> adaptive_policy \<Rightarrow> f64 \<Rightarrow> int \<Rightarrow> f64" where
  "impact_hint lm p notional_eth path_len =
     (let size_multiple = fmax notional_eth 0 / fmax (ap_min_large_swap_eth p) (dec 1 9);
          size_curve = fclamp 0 1 (m_ln_1p lm size_multiple / dec 36 1);
          profit_curve = fclamp 0 1 (m_ln_1p lm (notional_eth / fmax (ap_min_profit_eth p) (dec 1 9)) / dec 14 0);
          multi_hop_penalty = path_penalty path_len * dec 18 2
      in fclamp 0 1 (size_curve * dec 58 2 + profit_curve * dec 42 2 - multi_hop_penalty))"

definition market_regime_of :: "f64 \<Rightarrow> f64 \<Rightarrow> f64 \<Rightarrow> f64 \<Rightarrow> f64 \<Rightarrow> f64 \<Rightarrow> f64 \<Rightarrow> market_regime" where
  "market_regime_of mempool_density heat gas latency failure_pressure poor_realization builder_pressure =
     (let stress = fclamp 0 1 (mempool_density * dec 20 2 + heat * dec 20 2 + gas * dec 10 2
            + latency * dec 12 2 + failure_pressure * dec 14 2 + poor_realization * dec 10 2
            + builder_pressure * dec 14 2)
      in if dec 82 2 \<le> stress \<or> dec 72 2 \<le> failure_pressure \<or> dec 62 2 \<le> poor_realization
           \<or> dec 72 2 \<le> builder_pressure then Toxic
         else if dec 58 2 \<le> stress \<or> dec 55 2 \<le> heat \<or> dec 52 2 \<le> gas \<or> dec 48 2 \<le> builder_pressure then Hot
         else if dec 30 2 \<le> stress then Normal else Calm)"

fun competition_bump :: "market_regime \<Rightarrow> f64" where
  "competition_bump Calm = 0" | "competition_bump Normal = dec 3 2"
| "competition_bump Hot = dec 10 2" | "competition_bump Toxic = dec 18 2"

definition competition_score ::
  "libm \<Rightarrow> f64 \<Rightarrow> f64 \<Rightarrow> f64 \<Rightarrow> f64 \<Rightarrow> f64 \<Rightarrow> f64 \<Rightarrow> market_regime \<Rightarrow> f64" where
  "competition_score lm heat mempool_density gas size_p impact builder_pressure regime =
     (let base = fclamp 0 1 (heat * dec 38 2 + mempool_density * dec 15 2 + gas * dec 15 2 + size_p * dec 12 2
            + impact * dec 10 2 + builder_pressure * dec 10 2);
          jump = logistic lm ((heat - dec 52 2) * dec 9 0) * dec 18 2
            + logistic lm ((mempool_density - dec 62 2) * dec 8 0) * dec 10 2
            + logistic lm ((gas - dec 58 2) * dec 85 1) * dec 8 2
            + logistic lm ((builder_pressure - dec 45 2) * dec 10 0) * dec 16 2
      in fclamp 0 1 (base + jump + competition_bump regime))"

fun risk_bump :: "market_regime \<Rightarrow> f64" where
  "risk_bump Calm = 0" | "risk_bump Normal = dec 2 2" | "risk_bump Hot = dec 8 2" | "risk_bump Toxic = dec 15 2"

definition risk_score ::
  "libm \<Rightarrow> f64 \<Rightarrow> f64 \<Rightarrow> f64 \<Rightarrow> f64 \<Rightarrow> f64 \<Rightarrow> f64 \<Rightarrow> market_regime \<Rightarrow> f64" where
  "risk_score lm failure_pressure latency poor_realization gas impact builder_pressure regime =
     (let base = fclamp 0 1 (failure_pressure * dec 42 2 + latency * dec 20 2 + poor_realization * dec 16 2
            + gas * dec 7 2 + impact * dec 5 2);
          jump = logistic lm ((failure_pressure - dec 48 2) * dec 10 0) * dec 16 2
            + logistic lm ((latency - dec 45 2) * dec 8 0) * dec 9 2
            + logistic lm ((poor_realization - dec 32 2) * dec 9 0) * dec 11 2
            + logistic lm ((builder_pressure - dec 42 2) * dec 105 1) * dec 18 2
      in fclamp 0 1 (base + jump + risk_bump regime))"

fun regime_drag :: "market_regime \<Rightarrow> f64" where
  "regime_drag Calm = 0" | "regime_drag Normal = dec 3 2" | "regime_drag Hot = dec 8 2" | "regime_drag Toxic = dec 16 2"

definition probability_positive ::
  "f64 \<Rightarrow> f64 \<Rightarrow> f64 \<Rightarrow> f64 \<Rightarrow> f64 \<Rightarrow> f64 \<Rightarrow> f64 \<Rightarrow> market_regime \<Rightarrow> f64" where
  "probability_positive competition risk failure_pressure latency poor_realization gas builder_pressure regime =
     (let base_drag = competition * dec 29 2 + risk * dec 23 2 + failure_pressure * dec 17 2
            + latency * dec 10 2 + poor_realization * dec 9 2 + gas * dec 6 2 + builder_pressure * dec 6 2
      in fclamp (dec 4 2) (dec 985 3) (1 - base_drag - regime_drag regime))"

fun competition_multiplier :: "market_regime \<Rightarrow> f64" where
  "competition_multiplier Calm = dec 30 2" | "competition_multiplier Normal = dec 40 2"
| "competition_multiplier Hot = dec 56 2" | "competition_multiplier Toxic = dec 78 2"

definition competition_penalty :: "libm \<Rightarrow> f64 \<Rightarrow> f64 \<Rightarrow> f64 \<Rightarrow> f64 \<Rightarrow> market_regime \<Rightarrow> f64" where
  "competition_penalty lm expected_profit_usd competition heat builder_pressure regime =
     (let jump = (if dec 58 2 < heat then logistic lm ((heat - dec 58 2) * dec 11 0) * dec 34 2 else 0)
            + (if dec 44 2 < builder_pressure
               then logistic lm ((builder_pressure - dec 44 2) * dec 105 1) * dec 28 2 else 0)
      in expected_profit_usd * competition * (competition_multiplier regime + jump))"

fun risk_multiplier :: "market_regime \<Rightarrow> f64" where
  "risk_multiplier Calm = dec 42 2" | "risk_multiplier Normal = dec 54 2"
| "risk_multiplier Hot = dec 68 2" | "risk_multiplier Toxic = dec 88 2"

definition risk_penalty :: "libm \<Rightarrow> f64 \<Rightarrow> f64 \<Rightarrow> f64 \<Rightarrow> f64 \<Rightarrow> market_regime \<Rightarrow> f64" where
  "risk_penalty lm expected_profit_usd risk failure_pressure builder_pressure regime =
     (let jump = (if dec 42 2 < failure_pressure
               then logistic lm ((failure_pressure - dec 42 2) * dec 12 0) * dec 26 2 else 0)
            + (if dec 46 2 < builder_pressure
               then logistic lm ((builder_pressure - dec 46 2) * dec 95 1) * dec 22 2 else 0)
      in expected_profit_usd * risk * (risk_multiplier regime + jump))"

fun regime_base :: "market_regime \<Rightarrow> f64" where
  "regime_base Calm = dec 92 2" | "regime_base Normal = dec 108 2"
| "regime_base Hot = dec 142 2" | "regime_base Toxic = dec 195 2"

definition dynamic_threshold ::
  "adaptive_policy \<Rightarrow> f64 \<Rightarrow> f64 \<Rightarrow> f64 \<Rightarrow> f64 \<Rightarrow> f64 \<Rightarrow> f64 \<Rightarrow> f64 \<Rightarrow> market_regime \<Rightarrow> f64" where
  "dynamic_threshold p mempool_density failure_pressure gas latency poor_realization heat builder_pressure regime =
     (let continuous = 1 + mempool_density * dec 28 2 + failure_pressure * dec 52 2 + gas * dec 22 2
            + latency * dec 24 2 + poor_realization * dec 30 2 + heat * dec 24 2 + builder_pressure * dec 38 2
      in ap_base_threshold_usd p * regime_base regime * continuous)"

definition path_execution_penalty_usd :: "f64 \<Rightarrow> f64 \<Rightarrow> f64 \<Rightarrow> f64 \<Rightarrow> f64 \<Rightarrow> f64 \<Rightarrow> f64" where
  "path_execution_penalty_usd expected_profit_usd builder_pressure failure_pressure latency gas context_toxicity_score =
     (let path_stress = fclamp 0 1 (builder_pressure * dec 34 2 + failure_pressure * dec 24 2
            + latency * dec 18 2 + gas * dec 12 2 + context_toxicity_score * dec 12 2)
      in expected_profit_usd * path_stress * dec 18 2)"

fun min_probability_threshold :: "market_regime \<Rightarrow> f64" where
  "min_probability_threshold Calm = dec 54 2" | "min_probability_threshold Normal = dec 60 2"
| "min_probability_threshold Hot = dec 66 2" | "min_probability_threshold Toxic = dec 74 2"

fun max_competition_threshold :: "market_regime \<Rightarrow> f64" where
  "max_competition_threshold Calm = dec 78 2" | "max_competition_threshold Normal = dec 72 2"
| "max_competition_threshold Hot = dec 64 2" | "max_competition_threshold Toxic = dec 52 2"

fun max_risk_threshold :: "market_regime \<Rightarrow> f64" where
  "max_risk_threshold Calm = dec 80 2" | "max_risk_threshold Normal = dec 74 2"
| "max_risk_threshold Hot = dec 66 2" | "max_risk_threshold Toxic = dec 56 2"

definition recalibrated_regime :: "market_regime \<Rightarrow> int \<Rightarrow> market_regime" where
  "recalibrated_regime regime shift =
     (if shift \<le> - 2 then Calm
      else if shift = - 1 then (case regime of Toxic \<Rightarrow> Hot | Hot \<Rightarrow> Normal | Normal \<Rightarrow> Calm | Calm \<Rightarrow> Calm)
      else if shift = 0 then regime
      else if shift = 1 then (case regime of Calm \<Rightarrow> Normal | Normal \<Rightarrow> Hot | Hot \<Rightarrow> Toxic | Toxic \<Rightarrow> Toxic)
      else Toxic)"

section \<open>Builder pressure and relays\<close>

definition builder_path_pressure :: "adaptive_policy \<Rightarrow> f64" where
  "builder_path_pressure p =
     (let relay_rejection = fclamp 0 1 (ap_relay_reject_rate_ewma p);
          relay_instability = fclamp 0 1 (1 - ap_relay_accept_rate_ewma p);
          inclusion_instability = fclamp 0 1 (1 - ap_inclusion_success_rate_ewma p);
          accepted_not_included = fclamp 0 1 (ap_accepted_not_included_rate_ewma p);
          included_revert = fclamp 0 1 (ap_included_revert_rate_ewma p);
          submit_latency = over_target (ap_submit_latency_ewma_ms p) SUBMIT_TARGET_MS;
          finalization_latency = over_target (ap_finalize_latency_ewma_ms p) FINALIZE_TARGET_MS;
          poor_realization = fclamp 0 1 (1 - ap_realized_capture_ewma p)
      in fclamp 0 1 (relay_rejection * dec 24 2 + relay_instability * dec 12 2
           + inclusion_instability * dec 12 2 + accepted_not_included * dec 24 2 + included_revert * dec 16 2
           + submit_latency * dec 10 2 + finalization_latency * dec 8 2 + poor_realization * dec 6 2))"

definition builder_path_pressure_for_relay :: "adaptive_policy \<Rightarrow> string \<Rightarrow> f64" where
  "builder_path_pressure_for_relay p relay =
     (case ap_relay_stats p relay of None \<Rightarrow> builder_path_pressure p
      | Some s \<Rightarrow>
        let relay_rejection = fclamp 0 1 (rs_relay_reject_rate_ewma s);
            relay_instability = fclamp 0 1 (1 - rs_relay_accept_rate_ewma s);
            inclusion_instability = fclamp 0 1 (1 - rs_inclusion_success_rate_ewma s);
            accepted_not_included = fclamp 0 1 (rs_accepted_not_included_rate_ewma s);
            included_revert = fclamp 0 1 (rs_included_revert_rate_ewma s);
            submit_latency = over_target (rs_submit_latency_ewma_ms s) SUBMIT_TARGET_MS;
            finalization_latency = over_target (rs_finalization_latency_ewma_ms s) FINALIZE_TARGET_MS;
            poor_realization = fclamp 0 1 (1 - rs_realized_capture_ewma s)
        in fclamp 0 1 (relay_rejection * dec 26 2 + relay_instability * dec 12 2
             + inclusion_instability * dec 12 2 + accepted_not_included * dec 24 2 + included_revert * dec 14 2
             + submit_latency * dec 10 2 + finalization_latency * dec 8 2 + poor_realization * dec 4 2))"

text \<open>\<open>(samples.min(n) as f64 / n).clamp(0.0, 1.0)\<close>.\<close>

definition sample_confidence :: "u64 \<Rightarrow> u64 \<Rightarrow> f64" where
  "sample_confidence samples n = fclamp 0 1 (of_uw (min samples n) / of_uw n)"

definition builder_path_pressure_for_cluster :: "adaptive_policy \<Rightarrow> string option \<Rightarrow> cluster_key \<Rightarrow> f64" where
  "builder_path_pressure_for_cluster p relay cluster =
     (let base = (case relay of Some r \<Rightarrow> builder_path_pressure_for_relay p r | None \<Rightarrow> builder_path_pressure p)
      in case (case relay of Some r \<Rightarrow> ap_relay_context_stats p (r, cluster) | None \<Rightarrow> None) of
           None \<Rightarrow> base
         | Some context \<Rightarrow>
             let success_drag = fclamp 0 1 (1 - rc_inclusion_success_rate_ewma context);
                 miss = fclamp 0 1 (rc_accepted_not_included_rate_ewma context);
                 revert = fclamp 0 1 (rc_included_revert_rate_ewma context);
                 poor_realization = fclamp 0 1 (1 - rc_realized_capture_ewma context);
                 confidence = sample_confidence (rc_samples context) 24;
                 contextual = fclamp 0 1 (success_drag * dec 24 2 + miss * dec 36 2 + revert * dec 24 2
                   + poor_realization * dec 16 2)
             in fclamp 0 1 (base * (1 - confidence * dec 35 2) + contextual * confidence * dec 65 2))"

definition relay_quote_of :: "adaptive_policy \<Rightarrow> string \<Rightarrow> relay_quote" where
  "relay_quote_of p relay =
     (let st = ap_relay_stats p relay;
          pick = (\<lambda>f d. case st of Some s \<Rightarrow> f s | None \<Rightarrow> d);
          relay_pressure = builder_path_pressure_for_relay p relay;
          accept_rate = pick rs_relay_accept_rate_ewma (ap_relay_accept_rate_ewma p);
          inclusion_rate = pick rs_inclusion_success_rate_ewma (ap_inclusion_success_rate_ewma p);
          accepted_not_included_rate = pick rs_accepted_not_included_rate_ewma (ap_accepted_not_included_rate_ewma p);
          revert_rate = pick rs_included_revert_rate_ewma (ap_included_revert_rate_ewma p);
          submit_latency_ms = pick rs_submit_latency_ewma_ms (ap_submit_latency_ewma_ms p);
          finalization_latency_ms = pick rs_finalization_latency_ewma_ms (ap_finalize_latency_ewma_ms p);
          submit_penalty = over_target submit_latency_ms SUBMIT_TARGET_MS;
          finalize_penalty = over_target finalization_latency_ms FINALIZE_TARGET_MS;
          score = relay_pressure * dec 48 2 + fclamp 0 1 (1 - accept_rate) * dec 20 2
            + fclamp 0 1 accepted_not_included_rate * dec 14 2 + fclamp 0 1 revert_rate * dec 8 2
            + fclamp 0 1 (1 - inclusion_rate) * dec 5 2 + submit_penalty * dec 3 2 + finalize_penalty * dec 2 2
      in \<lparr>rq_relay = relay, rq_relay_pressure = relay_pressure, rq_accept_rate = accept_rate,
          rq_inclusion_rate = inclusion_rate, rq_accepted_not_included_rate = accepted_not_included_rate,
          rq_revert_rate = revert_rate, rq_submit_latency_ms = submit_latency_ms,
          rq_finalization_latency_ms = finalization_latency_ms, rq_score = score\<rparr>)"

definition relay_quote_for_cluster :: "adaptive_policy \<Rightarrow> string \<Rightarrow> cluster_key \<Rightarrow> relay_quote" where
  "relay_quote_for_cluster p relay cluster =
     (let quote = relay_quote_of p relay
      in case ap_relay_context_stats p (relay, cluster) of None \<Rightarrow> quote
         | Some context \<Rightarrow>
             let confidence = sample_confidence (rc_samples context) 24;
                 miss_penalty = fclamp 0 1 (rc_accepted_not_included_rate_ewma context) * confidence * dec 22 2;
                 revert_penalty = fclamp 0 1 (rc_included_revert_rate_ewma context) * confidence * dec 10 2;
                 success_credit = fclamp 0 1 (rc_inclusion_success_rate_ewma context) * confidence * dec 6 2
             in quote\<lparr>rq_relay_pressure := builder_path_pressure_for_cluster p (Some relay) cluster,
                  rq_score := fclamp 0 (dec 2 0) (rq_score quote + miss_penalty + revert_penalty - success_credit)\<rparr>)"

definition rank_relays :: "adaptive_policy \<Rightarrow> string list \<Rightarrow> relay_quote list" where
  "rank_relays p relays =
     sort_by (\<lambda>l r. total_le (rq_score l) (rq_score r)) (map (relay_quote_of p) relays)"

definition rank_relays_for_cluster :: "adaptive_policy \<Rightarrow> string list \<Rightarrow> cluster_key \<Rightarrow> relay_quote list" where
  "rank_relays_for_cluster p relays cluster =
     sort_by (\<lambda>l r. total_le (rq_score l) (rq_score r)) (map (\<lambda>r. relay_quote_for_cluster p r cluster) relays)"

section \<open>Scoring an opportunity\<close>

definition mempool_density_of :: "adaptive_policy \<Rightarrow> f64" where
  "mempool_density_of p =
     fclamp 0 1 (of_usize (int (length (ap_recent_flows p))) / of_usize FLOW_CAPACITY)"

definition failure_pressure_of :: "adaptive_policy \<Rightarrow> f64" where
  "failure_pressure_of p = fclamp 0 1 (ap_failure_rate_ewma p * dec 65 2 + ap_timeout_rate_ewma p * dec 35 2)"

definition poor_realization_of :: "adaptive_policy \<Rightarrow> f64" where
  "poor_realization_of p = fclamp 0 1 (1 - ap_realized_capture_ewma p)"

definition preflight_should_continue ::
  "adaptive_policy \<Rightarrow> f64 \<Rightarrow> f64 \<Rightarrow> f64 \<Rightarrow> f64 \<Rightarrow> f64 \<Rightarrow> f64 \<Rightarrow> f64 \<Rightarrow> bool" where
  "preflight_should_continue p notional_eth upper_bound_ev_usd score impact heat gas builder_pressure =
     (ap_min_large_swap_eth p \<le> notional_eth
      \<and> ap_base_threshold_usd p * dec 55 2 < upper_bound_ev_usd
      \<and> dec 28 2 \<le> score \<and> dec 18 2 \<le> impact \<and> heat \<le> dec 92 2 \<and> gas \<le> dec 96 2
      \<and> builder_pressure \<le> dec 94 2)"

definition preflight_reject_reason ::
  "adaptive_policy \<Rightarrow> f64 \<Rightarrow> f64 \<Rightarrow> f64 \<Rightarrow> f64 \<Rightarrow> f64 \<Rightarrow> f64 \<Rightarrow> f64 \<Rightarrow> string option" where
  "preflight_reject_reason p notional_eth upper_bound_ev_usd score impact heat gas builder_pressure =
     (if preflight_should_continue p notional_eth upper_bound_ev_usd score impact heat gas builder_pressure
      then None
      else if notional_eth < ap_min_large_swap_eth p then Some ''notional_below_min''
      else if upper_bound_ev_usd \<le> ap_base_threshold_usd p * dec 55 2 then Some ''ev_upper_bound_below_min''
      else if score < dec 28 2 then Some ''preflight_score_too_low''
      else if impact < dec 18 2 then Some ''impact_hint_too_low''
      else if dec 92 2 < heat then Some ''cluster_saturated''
      else if dec 96 2 < gas then Some ''gas_pressure_too_high''
      else if dec 94 2 < builder_pressure then Some ''builder_path_toxic''
      else Some ''preflight_reject'')"

definition preflight_score ::
  "libm \<Rightarrow> adaptive_policy \<Rightarrow> instant \<Rightarrow> preflight_input \<Rightarrow> adaptive_policy \<times> preflight_quote" where
  "preflight_score lm p0 now inp =
     (let p = ap_prune p0 now;
          mempool_density = mempool_density_of p;
          heat = cluster_heat lm p (pi_cluster inp) now;
          gas = gas_pressure p (wei_to_gwei_f64 (pi_gas_price_wei inp));
          size_score = size_pressure lm (pi_notional_eth inp);
          impact = impact_hint lm p (pi_notional_eth inp) (pi_path_len inp);
          path = path_penalty (pi_path_len inp);
          latency = latency_penalty p (ap_lookup_latency_ewma_ms p);
          builder_pressure = builder_path_pressure p;
          regime = market_regime_of mempool_density heat gas latency (failure_pressure_of p)
            (poor_realization_of p) builder_pressure;
          gas_floor_usd = wei_to_eth_f64 (sat_mul (pi_gas_price_wei inp) (ucast (ap_preflight_gas_estimate p)))
            * ap_eth_usd_price p;
          notional_usd = fmax (pi_notional_eth inp) 0 * ap_eth_usd_price p;
          gross_edge_upper_usd = notional_usd * (dec 20 5 + impact * dec 115 5) * (1 - heat * dec 16 2)
            * (1 - path * dec 12 2);
          gas_drag_usd = gas_floor_usd * (1 + gas * dec 85 2);
          competition_drag_usd = gross_edge_upper_usd
            * (heat * dec 42 2 + mempool_density * dec 18 2 + gas * dec 12 2);
          upper_bound_ev_usd = gross_edge_upper_usd - gas_drag_usd - competition_drag_usd;
          score = fclamp 0 1 (impact * dec 36 2 + size_score * dec 24 2 + (1 - heat) * dec 20 2
            + (1 - mempool_density) * dec 10 2 + (1 - gas) * dec 10 2 - path * dec 10 2)
      in (p, \<lparr>pq_should_continue = preflight_should_continue p (pi_notional_eth inp) upper_bound_ev_usd score
                impact heat gas builder_pressure,
              pq_regime = regime,
              pq_reject_reason = preflight_reject_reason p (pi_notional_eth inp) upper_bound_ev_usd score
                impact heat gas builder_pressure,
              pq_preflight_score = score, pq_upper_bound_ev_usd = upper_bound_ev_usd,
              pq_estimated_gas_cost_usd = gas_drag_usd, pq_mempool_density = mempool_density,
              pq_cluster_heat = heat, pq_gas_pressure = gas, pq_impact_hint = impact,
              pq_size_score = size_score\<rparr>))"

text \<open>The blend of the model's probability with the historical one.\<close>

definition blended_probability :: "historical_outcome_stats option \<Rightarrow> f64 \<Rightarrow> f64 \<Rightarrow> f64" where
  "blended_probability historical confidence p_positive =
     (case historical of None \<Rightarrow> p_positive
      | Some profile \<Rightarrow>
        let target = fclamp (dec 4 2) (dec 99 2) (ho_success_rate profile * dec 62 2
              + (1 - ho_accepted_not_included_rate profile) * dec 18 2
              + (1 - ho_revert_rate profile) * dec 10 2
              + fclamp 0 1 (ho_realized_capture profile) * dec 10 2)
        in fclamp (dec 4 2) (dec 99 2) (p_positive * (1 - confidence * dec 40 2) + target * confidence * dec 40 2))"

definition historical_threshold :: "historical_outcome_stats option \<Rightarrow> f64 \<Rightarrow> f64 \<Rightarrow> f64" where
  "historical_threshold historical confidence threshold_usd =
     (case historical of None \<Rightarrow> threshold_usd
      | Some profile \<Rightarrow>
        let threshold_penalty = fclamp 0 1 (ho_accepted_not_included_rate profile * dec 34 2
              + ho_revert_rate profile * dec 26 2
              + fclamp 0 1 (1 - ho_success_rate profile) * dec 24 2
              + fclamp 0 1 (1 - ho_realized_capture profile) * dec 16 2)
        in threshold_usd * (1 + threshold_penalty * confidence * dec 75 2))"

definition quote_should_execute :: "f64 \<Rightarrow> f64 \<Rightarrow> f64 \<Rightarrow> f64 \<Rightarrow> f64 \<Rightarrow> market_regime \<Rightarrow> bool" where
  "quote_should_execute ev threshold p_positive competition risk regime =
     (threshold < ev \<and> min_probability_threshold regime \<le> p_positive
      \<and> competition \<le> max_competition_threshold regime \<and> risk \<le> max_risk_threshold regime)"

definition quote_reject_reason ::
  "f64 \<Rightarrow> f64 \<Rightarrow> f64 \<Rightarrow> f64 \<Rightarrow> f64 \<Rightarrow> f64 \<Rightarrow> market_regime \<Rightarrow> string option" where
  "quote_reject_reason ev threshold p_positive competition risk builder_pressure regime =
     (if quote_should_execute ev threshold p_positive competition risk regime then None
      else if ev \<le> threshold then Some ''ev_real_below_threshold''
      else if p_positive < min_probability_threshold regime then Some ''probability_too_low''
      else if max_competition_threshold regime < competition then Some ''competition_too_high''
      else if max_risk_threshold regime < risk then Some ''risk_too_high''
      else if dec 76 2 < builder_pressure then Some ''builder_pressure_too_high''
      else Some ''adaptive_reject'')"

definition quote ::
  "libm \<Rightarrow> adaptive_policy \<Rightarrow> instant \<Rightarrow> adaptive_quote_input \<Rightarrow> adaptive_policy \<times> adaptive_quote" where
  "quote lm p0 now inp =
     (let p = ap_prune p0 now;
          expected_profit_usd = wei_to_eth_f64 (qi_expected_profit_wei inp) * ap_eth_usd_price p;
          gas_cost_usd = wei_to_eth_f64 (qi_execution_cost_wei inp) * ap_eth_usd_price p;
          mempool_density = mempool_density_of p;
          heat = cluster_heat lm p (qi_cluster inp) now;
          gas = gas_pressure p (wei_to_gwei_f64 (qi_gas_price_wei inp));
          size_p = size_pressure lm (qi_notional_eth inp);
          impact = fclamp 0 1 (of_uw (qi_price_impact_bps inp) / of_uw (ap_max_price_impact_bps p));
          latency = latency_penalty p (qi_lookup_latency_ms inp);
          failure_pressure = failure_pressure_of p;
          poor_realization = poor_realization_of p;
          historical = historical_profile p (qi_pair inp) (ck_router (qi_cluster inp)) (qi_hour_utc inp);
          builder0 = (case qi_relay_pressure_override inp of Some b \<Rightarrow> b
                      | None \<Rightarrow> builder_path_pressure_for_cluster p None (qi_cluster inp));
          hist_pressure = (case historical of Some profile \<Rightarrow> historical_pressure profile | None \<Rightarrow> 0);
          confidence = (case historical of Some profile \<Rightarrow> sample_confidence (ho_samples profile) 48 | None \<Rightarrow> 0);
          calibration = (case historical of Some profile \<Rightarrow> historical_calibration_of profile confidence
                         | None \<Rightarrow> historical_calibration_default);
          builder_pressure = fclamp 0 1 (builder0 * (1 - confidence * dec 45 2)
            + hist_pressure * confidence * dec 55 2);
          regime = recalibrated_regime (market_regime_of mempool_density heat gas latency failure_pressure
            poor_realization builder_pressure) (hc_regime_shift calibration);
          priority = fclamp 0 (dec 15 1) (qi_context_priority_score inp);
          toxicity = fclamp 0 1 (qi_context_toxicity_score inp);
          competition = fclamp 0 1 (competition_score lm heat mempool_density gas size_p impact builder_pressure regime
            * ap_chain_competition_mult p * (1 + (1 - fclamp 0 1 priority) * dec 6 2)
            * (1 + toxicity * dec 20 2) * fmax (hc_competition_mult calibration) (dec 1 9));
          risk = fclamp 0 1 (risk_score lm failure_pressure latency poor_realization gas impact builder_pressure regime
            * ap_chain_risk_mult p * (1 + toxicity * dec 24 2) * (1 - fclamp 0 1 priority * dec 8 2)
            * fmax (hc_risk_mult calibration) (dec 1 9));
          p_positive = blended_probability historical confidence
            (probability_positive competition risk failure_pressure latency poor_realization gas
               builder_pressure regime);
          competition_penalty_usd = competition_penalty lm expected_profit_usd competition heat builder_pressure regime;
          risk_penalty_usd = risk_penalty lm expected_profit_usd risk failure_pressure builder_pressure regime;
          path_penalty_usd = path_execution_penalty_usd expected_profit_usd builder_pressure failure_pressure
            latency gas toxicity;
          ev_real_usd = p_positive * expected_profit_usd - gas_cost_usd - competition_penalty_usd
            - risk_penalty_usd - path_penalty_usd;
          threshold = historical_threshold historical confidence
            (dynamic_threshold p mempool_density failure_pressure gas latency poor_realization heat
               builder_pressure regime * ap_chain_threshold_mult p * (1 + toxicity * dec 18 2)
             * (1 - fclamp 0 1 priority * dec 8 2) * fmax (hc_threshold_mult calibration) (dec 1 9))
      in (p, \<lparr>aq_should_execute = quote_should_execute ev_real_usd threshold p_positive competition risk regime,
              aq_regime = regime,
              aq_reject_reason = quote_reject_reason ev_real_usd threshold p_positive competition risk
                builder_pressure regime,
              aq_selected_relay = None, aq_ev_real_usd = ev_real_usd, aq_threshold_dynamic_usd = threshold,
              aq_p_positive = p_positive, aq_competition_score = competition, aq_risk_score = risk,
              aq_competition_penalty_usd = competition_penalty_usd, aq_risk_penalty_usd = risk_penalty_usd,
              aq_path_penalty_usd = path_penalty_usd, aq_mempool_density = mempool_density,
              aq_cluster_heat = heat, aq_builder_pressure = builder_pressure, aq_latency_penalty = latency,
              aq_gas_pressure = gas, aq_context_priority_score = priority, aq_context_toxicity_score = toxicity\<rparr>))"

text \<open>
  \<open>quote_for_relays\<close> quotes the best-ranked relay, then the others in order, and keeps the better
  quote. Each quote reads the clock: \<open>clock k\<close> is what the \<open>k\<close>-th reading returns.
\<close>

definition with_relay_pressure :: "adaptive_policy \<Rightarrow> adaptive_quote_input \<Rightarrow> relay_quote \<Rightarrow> adaptive_quote_input" where
  "with_relay_pressure p inp rq = inp\<lparr>qi_relay_pressure_override :=
     Some (builder_path_pressure_for_cluster p (Some (rq_relay rq)) (qi_cluster inp))\<rparr>"

fun quote_relays_loop ::
  "libm \<Rightarrow> (nat \<Rightarrow> instant) \<Rightarrow> nat \<Rightarrow> adaptive_quote_input \<Rightarrow> adaptive_policy \<Rightarrow> adaptive_quote
    \<Rightarrow> relay_quote list \<Rightarrow> adaptive_policy \<times> adaptive_quote" where
  "quote_relays_loop lm clock k inp p best [] = (p, best)"
| "quote_relays_loop lm clock k inp p best (rq # rqs) =
     (case quote lm p (clock k) (with_relay_pressure p inp rq) of (p', q) \<Rightarrow>
        let candidate = q\<lparr>aq_selected_relay := Some (rq_relay rq)\<rparr>
        in quote_relays_loop lm clock (Suc k) inp p' (if is_better_quote candidate best then candidate else best) rqs)"

definition quote_for_relays ::
  "libm \<Rightarrow> (nat \<Rightarrow> instant) \<Rightarrow> adaptive_policy \<Rightarrow> adaptive_quote_input \<Rightarrow> string list
    \<Rightarrow> adaptive_policy \<times> adaptive_quote" where
  "quote_for_relays lm clock p inp relays =
     (case rank_relays p relays of
        [] \<Rightarrow> quote lm p (clock 0) (inp\<lparr>qi_relay_pressure_override := None\<rparr>)
      | rq # rqs \<Rightarrow>
          (case quote lm p (clock 0) (with_relay_pressure p inp rq) of (p', q) \<Rightarrow>
             quote_relays_loop lm clock 1 inp p' (q\<lparr>aq_selected_relay := Some (rq_relay rq)\<rparr>) rqs))"

section \<open>Learning from outcomes\<close>

definition indicator_of :: "bool \<Rightarrow> f64" where
  "indicator_of b = (if b then 1 else 0)"

definition record_submit_success :: "adaptive_policy \<Rightarrow> f64 \<Rightarrow> adaptive_policy" where
  "record_submit_success p latency_ms =
     p\<lparr>ap_submit_latency_ewma_ms := ewma (ap_submit_latency_ewma_ms p) latency_ms EWMA_FAST,
       ap_relay_accept_rate_ewma := ewma (ap_relay_accept_rate_ewma p) 1 EWMA_FAST,
       ap_relay_reject_rate_ewma := ewma (ap_relay_reject_rate_ewma p) 0 EWMA_FAST,
       ap_accepted_not_included_rate_ewma := ewma (ap_accepted_not_included_rate_ewma p) 0 EWMA_FAST,
       ap_included_revert_rate_ewma := ewma (ap_included_revert_rate_ewma p) 0 EWMA_FAST\<rparr>"

definition entry_relay_stats :: "adaptive_policy \<Rightarrow> string \<Rightarrow> relay_stats" where
  "entry_relay_stats p relay = (case ap_relay_stats p relay of Some s \<Rightarrow> s | None \<Rightarrow> relay_stats_default)"

definition record_submit_success_for_relay :: "adaptive_policy \<Rightarrow> string \<Rightarrow> f64 \<Rightarrow> adaptive_policy" where
  "record_submit_success_for_relay p relay latency_ms =
     (let s = entry_relay_stats p relay;
          s' = s\<lparr>rs_submit_latency_ewma_ms := ewma (rs_submit_latency_ewma_ms s) latency_ms EWMA_FAST,
                 rs_relay_accept_rate_ewma := ewma (rs_relay_accept_rate_ewma s) 1 EWMA_FAST,
                 rs_relay_reject_rate_ewma := ewma (rs_relay_reject_rate_ewma s) 0 EWMA_FAST,
                 rs_accepted_not_included_rate_ewma := ewma (rs_accepted_not_included_rate_ewma s) 0 EWMA_FAST,
                 rs_included_revert_rate_ewma := ewma (rs_included_revert_rate_ewma s) 0 EWMA_FAST\<rparr>
      in record_submit_success (p\<lparr>ap_relay_stats := (ap_relay_stats p)(relay \<mapsto> s')\<rparr>) latency_ms)"

definition record_submit_failure :: "adaptive_policy \<Rightarrow> f64 \<Rightarrow> adaptive_policy" where
  "record_submit_failure p latency_ms =
     p\<lparr>ap_submit_latency_ewma_ms := ewma (ap_submit_latency_ewma_ms p) latency_ms EWMA_FAST,
       ap_relay_accept_rate_ewma := ewma (ap_relay_accept_rate_ewma p) 0 EWMA_FAST,
       ap_relay_reject_rate_ewma := ewma (ap_relay_reject_rate_ewma p) 1 EWMA_FAST,
       ap_success_rate_ewma := ewma (ap_success_rate_ewma p) 0 EWMA_FAST,
       ap_failure_rate_ewma := ewma (ap_failure_rate_ewma p) 1 EWMA_FAST\<rparr>"

definition record_submit_failure_for_relay :: "adaptive_policy \<Rightarrow> string \<Rightarrow> f64 \<Rightarrow> adaptive_policy" where
  "record_submit_failure_for_relay p relay latency_ms =
     (let s = entry_relay_stats p relay;
          s' = s\<lparr>rs_submit_latency_ewma_ms := ewma (rs_submit_latency_ewma_ms s) latency_ms EWMA_FAST,
                 rs_relay_accept_rate_ewma := ewma (rs_relay_accept_rate_ewma s) 0 EWMA_FAST,
                 rs_relay_reject_rate_ewma := ewma (rs_relay_reject_rate_ewma s) 1 EWMA_FAST\<rparr>
      in record_submit_failure (p\<lparr>ap_relay_stats := (ap_relay_stats p)(relay \<mapsto> s')\<rparr>) latency_ms)"

definition record_finalization :: "adaptive_policy \<Rightarrow> u256 \<Rightarrow> f64 \<Rightarrow> bool \<Rightarrow> f64 \<Rightarrow> adaptive_policy" where
  "record_finalization p expected_profit_wei realized success finalization_latency_ms =
     p\<lparr>ap_finalize_latency_ewma_ms := ewma (ap_finalize_latency_ewma_ms p) finalization_latency_ms EWMA_FAST,
       ap_timeout_rate_ewma := ewma (ap_timeout_rate_ewma p) 0 EWMA_FAST,
       ap_success_rate_ewma := ewma (ap_success_rate_ewma p) (indicator_of success) EWMA_FAST,
       ap_inclusion_success_rate_ewma := ewma (ap_inclusion_success_rate_ewma p) (indicator_of success) EWMA_FAST,
       ap_accepted_not_included_rate_ewma := ewma (ap_accepted_not_included_rate_ewma p) 0 EWMA_FAST,
       ap_included_revert_rate_ewma := ewma (ap_included_revert_rate_ewma p) (indicator_of (\<not> success)) EWMA_FAST,
       ap_failure_rate_ewma := ewma (ap_failure_rate_ewma p) (indicator_of (\<not> success)) EWMA_FAST,
       ap_realized_capture_ewma :=
         ewma (ap_realized_capture_ewma p) (capture_ratio expected_profit_wei realized) EWMA_SLOW\<rparr>"

definition record_finalization_for_relay ::
  "adaptive_policy \<Rightarrow> string \<Rightarrow> u256 \<Rightarrow> f64 \<Rightarrow> bool \<Rightarrow> f64 \<Rightarrow> adaptive_policy" where
  "record_finalization_for_relay p relay expected_profit_wei realized success finalization_latency_ms =
     (let s = entry_relay_stats p relay;
          s' = s\<lparr>rs_finalization_latency_ewma_ms :=
                   ewma (rs_finalization_latency_ewma_ms s) finalization_latency_ms EWMA_FAST,
                 rs_inclusion_success_rate_ewma :=
                   ewma (rs_inclusion_success_rate_ewma s) (indicator_of success) EWMA_FAST,
                 rs_accepted_not_included_rate_ewma := ewma (rs_accepted_not_included_rate_ewma s) 0 EWMA_FAST,
                 rs_included_revert_rate_ewma :=
                   ewma (rs_included_revert_rate_ewma s) (indicator_of (\<not> success)) EWMA_FAST,
                 rs_realized_capture_ewma :=
                   ewma (rs_realized_capture_ewma s) (capture_ratio expected_profit_wei realized) EWMA_SLOW\<rparr>
      in record_finalization (p\<lparr>ap_relay_stats := (ap_relay_stats p)(relay \<mapsto> s')\<rparr>) expected_profit_wei
           realized success finalization_latency_ms)"

fun outcome_indicators :: "contextual_outcome_kind \<Rightarrow> f64 \<times> f64 \<times> f64" where
  "outcome_indicators IncludedSuccess = (1, 0, 0)"
| "outcome_indicators AcceptedNotIncluded = (0, 1, 0)"
| "outcome_indicators IncludedRevert = (0, 0, 1)"
| "outcome_indicators SubmitFailed = (0, 0, 0)"

definition record_contextual_outcome ::
  "adaptive_policy \<Rightarrow> string \<Rightarrow> cluster_key \<Rightarrow> u256 \<Rightarrow> f64 \<Rightarrow> contextual_outcome_kind \<Rightarrow> adaptive_policy" where
  "record_contextual_outcome p relay cluster expected_profit_wei realized outcome =
     (case outcome_indicators outcome of (success, miss, revert) \<Rightarrow>
        let s = (case ap_relay_context_stats p (relay, cluster) of Some c \<Rightarrow> c | None \<Rightarrow> relay_context_stats_default);
            s' = s\<lparr>rc_inclusion_success_rate_ewma := ewma (rc_inclusion_success_rate_ewma s) success EWMA_FAST,
                   rc_accepted_not_included_rate_ewma := ewma (rc_accepted_not_included_rate_ewma s) miss EWMA_FAST,
                   rc_included_revert_rate_ewma := ewma (rc_included_revert_rate_ewma s) revert EWMA_FAST,
                   rc_realized_capture_ewma :=
                     ewma (rc_realized_capture_ewma s) (capture_ratio expected_profit_wei realized) EWMA_FAST,
                   rc_samples := sat_add (rc_samples s) 1\<rparr>
        in p\<lparr>ap_relay_context_stats := (ap_relay_context_stats p)((relay, cluster) \<mapsto> s')\<rparr>)"

definition record_receipt_timeout :: "adaptive_policy \<Rightarrow> f64 \<Rightarrow> adaptive_policy" where
  "record_receipt_timeout p finalization_latency_ms =
     p\<lparr>ap_finalize_latency_ewma_ms := ewma (ap_finalize_latency_ewma_ms p) finalization_latency_ms EWMA_FAST,
       ap_timeout_rate_ewma := ewma (ap_timeout_rate_ewma p) 1 EWMA_FAST,
       ap_inclusion_success_rate_ewma := ewma (ap_inclusion_success_rate_ewma p) 0 EWMA_FAST,
       ap_accepted_not_included_rate_ewma := ewma (ap_accepted_not_included_rate_ewma p) 1 EWMA_FAST,
       ap_included_revert_rate_ewma := ewma (ap_included_revert_rate_ewma p) 0 EWMA_FAST,
       ap_success_rate_ewma := ewma (ap_success_rate_ewma p) 0 EWMA_FAST,
       ap_failure_rate_ewma := ewma (ap_failure_rate_ewma p) 1 EWMA_FAST\<rparr>"

definition record_receipt_timeout_for_relay :: "adaptive_policy \<Rightarrow> string \<Rightarrow> f64 \<Rightarrow> adaptive_policy" where
  "record_receipt_timeout_for_relay p relay finalization_latency_ms =
     (let s = entry_relay_stats p relay;
          s' = s\<lparr>rs_finalization_latency_ewma_ms :=
                   ewma (rs_finalization_latency_ewma_ms s) finalization_latency_ms EWMA_FAST,
                 rs_inclusion_success_rate_ewma := ewma (rs_inclusion_success_rate_ewma s) 0 EWMA_FAST,
                 rs_accepted_not_included_rate_ewma := ewma (rs_accepted_not_included_rate_ewma s) 1 EWMA_FAST,
                 rs_included_revert_rate_ewma := ewma (rs_included_revert_rate_ewma s) 0 EWMA_FAST\<rparr>
      in record_receipt_timeout (p\<lparr>ap_relay_stats := (ap_relay_stats p)(relay \<mapsto> s')\<rparr>) finalization_latency_ms)"

end
