(* ===== verification/AdaptiveSafety.thy ===== *)
theory AdaptiveSafety
  imports Adaptive
begin

text \<open>
  Correctness of the adaptive policy: an opportunity it executes pays for its gas, and its
  rejection reasons agree with its decisions. The step relation of its runs is defined here.
\<close>

section \<open>Numbers that are not negative\<close>

text \<open>
  A NaN compares false with everything, so the guards of the code let through what is \<^emph>\<open>not less\<close>
  than zero. That property is closed under the operations that build the penalties.
\<close>

named_theorems not_neg_intros \<open>introduction rules for \<open>not_neg\<close>\<close>

definition not_neg :: "f64 \<Rightarrow> bool" where
  "not_neg x = (\<not> x < 0)"

lemma zero_rounds_to: "rounds_to 0 0"
  by (simp add: rounds_to_def)

lemma not_le_less_f64: "x \<le> y \<Longrightarrow> \<not> y < (x :: f64)"
  by (cases x; cases y) (auto simp: Let_def min.commute)

lemma less_le_f64_trans:
  assumes "x < y" "y \<le> (z :: f64)"
  shows "x < z"
proof (cases "is_finite x \<and> is_finite y \<and> is_finite z")
  case True
  then show ?thesis using assms by (simp add: less_eq_f64_iff less_f64_iff)
next
  case False
  then show ?thesis using assms by (cases x; cases y; cases z) auto
qed

lemma le_less_f64_trans:
  assumes "x \<le> y" "y < (z :: f64)"
  shows "x < z"
proof (cases "is_finite x \<and> is_finite y \<and> is_finite z")
  case True
  then show ?thesis using assms by (simp add: less_eq_f64_iff less_f64_iff)
next
  case False
  then show ?thesis using assms by (cases x; cases y; cases z) auto
qed

lemma not_neg_cases: "not_neg x \<longleftrightarrow> is_nan x \<or> 0 \<le> x"
proof -
  have "x < 0 \<Longrightarrow> \<not> is_nan x" by (cases x) auto
  moreover have "\<not> is_nan 0" by (simp add: zero_f64_def)
  ultimately show ?thesis
    using not_less_f64 [of 0 x] not_le_less_f64 [of 0 x] by (auto simp: not_neg_def)
qed

lemma not_neg_finite: "is_finite x \<Longrightarrow> not_neg x = (0 \<le> fval x)"
  by (auto simp: not_neg_def less_f64_iff)

lemma not_neg_infinite: "\<not> is_finite x \<Longrightarrow> not_neg x = (x = NaN \<or> x = Infty False)"
  by (cases x) (auto simp: not_neg_def zero_f64_def)

lemma rounds_to_not_neg: "rounds_to x r \<Longrightarrow> 0 \<le> r \<Longrightarrow> not_neg x"
  using rounds_to_mono [OF zero_rounds_to] by (auto simp: not_neg_cases)

lemma nan_plus: "is_nan x \<or> is_nan y \<Longrightarrow> is_nan (x + y)"
  by (cases x; cases y) auto

lemma not_neg_plus [not_neg_intros]: "not_neg x \<Longrightarrow> not_neg y \<Longrightarrow> not_neg (x + y)"
  unfolding not_neg_cases using nan_plus zero_le_plus_f64 by blast

lemma not_neg_times [not_neg_intros]:
  assumes "not_neg x" "not_neg y"
  shows "not_neg (x * y)"
proof (cases "is_finite x \<and> is_finite y")
  case True
  then show ?thesis using assms
    by (auto simp: not_neg_finite intro!: rounds_to_not_neg [OF times_f64_rounds_to])
next
  case False
  have fin: "x = Fin s m e \<Longrightarrow> not_neg x \<Longrightarrow> m \<noteq> 0 \<Longrightarrow> \<not> s" for x s m e
    by (cases x) (auto simp: not_neg_def less_f64_iff signed_def mult_less_0_iff)
  show ?thesis using False assms fin
    by (cases x; cases y) (auto simp: not_neg_infinite)
qed

lemma not_neg_one [not_neg_intros]: "not_neg 1" and not_neg_zero [not_neg_intros]: "not_neg 0"
  by (simp_all add: not_neg_finite)

lemma not_neg_dec [not_neg_intros]: "0 \<le> m \<Longrightarrow> not_neg (dec m k)"
  by (rule rounds_to_not_neg [OF dec_rounds_to]) simp_all

lemma not_neg_of_uw [not_neg_intros]: "not_neg (of_uw w)"
  by (rule rounds_to_not_neg [OF of_uw_rounds_to]) (simp only: of_int_0_le_iff uint_nonneg)

lemma not_neg_clamp [not_neg_intros]: "0 \<le> lo \<Longrightarrow> not_neg hi \<Longrightarrow> not_neg (fclamp lo hi x)"
  using less_le_f64_trans [of x 0 lo]
  by (auto simp: fclamp_def Let_def not_neg_def dest: not_le_less_f64)

lemma zero_le_one_f64 [simp]: "0 \<le> (1 :: f64)" and zero_le_zero_f64 [simp]: "0 \<le> (0 :: f64)"
  by (simp_all add: less_eq_f64_iff)

lemma not_neg_fmax [not_neg_intros]: "0 \<le> c \<Longrightarrow> not_neg (fmax x c)"
  using le_f64_trans [of 0 c "fmax x c"] fmax_upper [of c x] le_f64_not_nan [of 0 c]
  by (auto simp: not_neg_cases)

lemma zero_le_dec: "0 \<le> m \<Longrightarrow> 0 \<le> dec m k"
  by (rule rounds_to_mono [OF zero_rounds_to dec_rounds_to]) simp_all

lemma not_neg_sign: "not_neg (Fin s m e) \<Longrightarrow> m \<noteq> 0 \<Longrightarrow> \<not> s"
  by (auto simp: not_neg_def less_f64_iff signed_def mult_less_0_iff)

lemma not_neg_Fin_0 [simp]: "not_neg (Fin s 0 e)"
  by (simp add: not_neg_finite signed_def)

lemma not_neg_divide [not_neg_intros]:
  assumes "not_neg x" "is_nan y \<or> 0 < y"
  shows "not_neg (x / y)"
proof (cases "is_finite x \<and> is_finite y")
  case True
  then have "0 < fval y" using assms(2) by (cases y) (auto simp: less_f64_iff simp del: fval.simps)
  then show ?thesis using True assms(1)
    by (auto simp: not_neg_finite intro!: rounds_to_not_neg [OF divide_f64_rounds_to])
next
  case False
  have y: "s \<Longrightarrow> \<not> 0 < Fin s m e" for s m e
    by (auto simp: less_f64_iff signed_def mult_less_0_iff not_less)
  show ?thesis using False assms y
    by (cases x; cases y) (auto simp: not_neg_infinite zero_f64_def)
qed

text \<open>A result that has been rounded, and what subtraction and scaling do to it.\<close>

definition rounded :: "f64 \<Rightarrow> bool" where
  "rounded x \<longleftrightarrow> (is_finite x \<longrightarrow> rounds_to x (fval x))"

lemma rounds_to_rounded: "rounds_to x r \<Longrightarrow> rounded x"
  using rnd_fval_rounded [of x r] by (auto simp: rounded_def rounds_to_def)

lemma rounded_minus: "rounded (x - y)"
  using rounds_to_rounded [OF minus_f64_rounds_to] finite_minusD [of x y] by (auto simp: rounded_def)

lemma rounded_times: "rounded (x * y)"
  using rounds_to_rounded [OF times_f64_rounds_to] finite_timesD [of x y] by (auto simp: rounded_def)

lemma less_minus_imp_less:
  assumes "t < x - y" "not_neg y" "rounded x"
  shows "t < x"
proof (cases "is_finite x \<and> is_finite y")
  case True
  then have "x - y \<le> x" using assms
    by (intro rounds_to_mono [OF minus_f64_rounds_to]) (auto simp: rounded_def not_neg_finite)
  then show ?thesis using assms(1) less_le_f64_trans by blast
next
  case False
  then show ?thesis using assms
    by (cases x; cases y; cases t) (auto simp: minus_f64_def not_neg_infinite split: if_splits)
qed

lemma less_times_imp_less:
  assumes "t < q * x" "q \<le> 1" "not_neg q" "not_neg x" "rounded x"
  shows "t < x"
proof (cases "is_finite x")
  case True
  have q: "is_finite q" using assms(2,3) by (cases q) (auto simp: one_f64_def not_neg_infinite)
  then have "0 \<le> fval x" "0 \<le> fval q" "fval q \<le> 1"
    using True assms by (auto simp: not_neg_finite less_eq_f64_iff)
  then have "q * x \<le> x" using True q assms(5)
    by (intro rounds_to_mono [OF times_f64_rounds_to]) (auto simp: rounded_def mult_left_le_one_le)
  then show ?thesis using assms(1) less_le_f64_trans by blast
next
  case False
  then show ?thesis using assms(1,4)
    by (cases t; cases q; cases x) (auto simp: not_neg_infinite split: if_splits)
qed

lemma nonneg_less_minus:
  assumes "0 \<le> t" "t < x - (y :: f64)"
  shows "y < x"
proof (cases "is_finite x \<and> is_finite y")
  case True
  have pos: "0 < x - y" using assms(1,2) le_less_f64_trans by blast
  show ?thesis
  proof (rule ccontr)
    assume "\<not> y < x"
    then have "fval x - fval y \<le> 0" using True by (simp add: less_f64_iff)
    then have "x - y \<le> 0" using True by (intro rounds_to_mono [OF minus_f64_rounds_to zero_rounds_to]) auto
    then show False using pos not_le_less_f64 by blast
  qed
next
  case False
  then show ?thesis using assms
    by (cases x; cases y; cases t) (auto simp: minus_f64_def zero_f64_def split: if_splits)
qed

section \<open>Signs of the pressures and the penalties\<close>

text \<open>The exponential of the mathematical library is never negative.\<close>

definition exp_not_negative :: "libm \<Rightarrow> bool" where
  "exp_not_negative lm \<longleftrightarrow> (\<forall>x. not_neg (m_exp lm x))"

lemma one_plus_positive: "not_neg x \<Longrightarrow> is_nan (1 + x) \<or> 0 < 1 + x"
proof (cases "is_finite x")
  case True
  assume "not_neg x"
  then have "1 \<le> 1 + x" using True canonical_rounds_to [of 1]
    by (intro rounds_to_mono [OF _ plus_f64_rounds_to])
      (auto simp: not_neg_finite canonical_def one_f64_def)
  moreover have "0 < (1 :: f64)" by (simp add: less_f64_iff)
  ultimately show ?thesis using less_le_f64_trans by blast
next
  case False
  assume "not_neg x"
  then show ?thesis using False by (cases x) (auto simp: not_neg_infinite one_f64_def zero_f64_def)
qed

lemma not_neg_logistic [not_neg_intros]: "exp_not_negative lm \<Longrightarrow> not_neg (logistic lm x)"
  unfolding logistic_def exp_not_negative_def
  by (intro not_neg_divide not_neg_one one_plus_positive) blast

lemma not_neg_clamp01 [not_neg_intros]: "not_neg (fclamp 0 1 x)"
  by (intro not_neg_clamp not_neg_one zero_le_zero_f64)

lemma not_neg_multipliers [not_neg_intros]:
  "not_neg (competition_multiplier r)" "not_neg (risk_multiplier r)" "not_neg (regime_base r)"
  by (cases r; simp add: not_neg_dec)+

lemma not_neg_if [not_neg_intros]: "not_neg x \<Longrightarrow> not_neg y \<Longrightarrow> not_neg (if b then x else y)"
  by simp

lemma not_neg_competition_penalty [not_neg_intros]:
  "exp_not_negative lm \<Longrightarrow> not_neg e \<Longrightarrow> not_neg c \<Longrightarrow> not_neg (competition_penalty lm e c h b r)"
  unfolding competition_penalty_def Let_def by (intro not_neg_intros) simp_all

lemma not_neg_risk_penalty [not_neg_intros]:
  "exp_not_negative lm \<Longrightarrow> not_neg e \<Longrightarrow> not_neg c \<Longrightarrow> not_neg (risk_penalty lm e c f b r)"
  unfolding risk_penalty_def Let_def by (intro not_neg_intros) simp_all

lemma not_neg_path_execution_penalty [not_neg_intros]:
  "not_neg e \<Longrightarrow> not_neg (path_execution_penalty_usd e b f l g t)"
  unfolding path_execution_penalty_usd_def Let_def by (intro not_neg_intros) simp_all

lemma not_neg_over_target [not_neg_intros]: "not_neg (over_target x t)"
proof -
  have "0 < dec 2 0" by code_simp
  then show ?thesis unfolding over_target_def by (intro not_neg_intros) (simp_all)
qed

lemma not_neg_pressures [not_neg_intros]:
  "not_neg (gas_pressure p g)" "not_neg (latency_penalty p l)" "not_neg (mempool_density_of p)"
  "not_neg (failure_pressure_of p)" "not_neg (poor_realization_of p)" "not_neg (cluster_heat lm p k now)"
  unfolding gas_pressure_def latency_penalty_def mempool_density_of_def failure_pressure_of_def
    poor_realization_of_def cluster_heat_def Let_def
  by (intro not_neg_intros)+

lemma not_neg_dynamic_threshold [not_neg_intros]:
  assumes "not_neg (ap_base_threshold_usd p)" "not_neg d" "not_neg f" "not_neg g" "not_neg l" "not_neg r"
    "not_neg h" "not_neg b"
  shows "not_neg (dynamic_threshold p d f g l r h b regime)"
  unfolding dynamic_threshold_def Let_def using assms by (intro not_neg_intros) simp_all

lemma not_neg_historical_threshold [not_neg_intros]:
  "not_neg c \<Longrightarrow> not_neg t \<Longrightarrow> not_neg (historical_threshold h c t)"
  unfolding historical_threshold_def Let_def
  by (cases h) (simp_all add: not_neg_intros)

lemma not_neg_one_minus:
  assumes "in_range 0 1 c"
  shows "not_neg (1 - fclamp 0 1 x * c)"
proof (cases "is_nan x")
  case True
  then have "1 - fclamp 0 1 x * c = NaN" by (cases x; cases c) (auto simp: minus_f64_def one_f64_def)
  then show ?thesis by (simp add: not_neg_def)
next
  case False
  have "in_range 0 1 (fclamp 0 1 x * c)"
    by (rule within_times [OF within_clamp01 [OF False] assms]) simp_all
  with within_one [of 1 1] have "in_range 0 1 (1 - fclamp 0 1 x * c)"
    using within_minus [of 1 1 1 0 1 "fclamp 0 1 x * c" 0 1] by simp
  then show ?thesis by (simp add: not_neg_finite in_range_def)
qed

section \<open>The verdict of a quote\<close>

lemma let_rule: "(\<And>x. x = a \<Longrightarrow> P (f x)) \<Longrightarrow> P (let x = a in f x)"
  and let_any: "(\<And>x. P (f x)) \<Longrightarrow> P (let x = a in f x)"
  by (simp_all add: Let_def)

text \<open>What every quote satisfies: its verdict and its reason follow from the numbers it reports.\<close>

definition verdict_ok :: "adaptive_quote \<Rightarrow> bool" where
  "verdict_ok q =
     (aq_should_execute q = quote_should_execute (aq_ev_real_usd q) (aq_threshold_dynamic_usd q)
        (aq_p_positive q) (aq_competition_score q) (aq_risk_score q) (aq_regime q)
      \<and> aq_reject_reason q = quote_reject_reason (aq_ev_real_usd q) (aq_threshold_dynamic_usd q)
        (aq_p_positive q) (aq_competition_score q) (aq_risk_score q) (aq_builder_pressure q) (aq_regime q))"

lemma quote_verdict: "verdict_ok (snd (quote lm p now inp))"
  unfolding quote_def by (rule let_any [of "\<lambda>r. verdict_ok (snd r)"])+ (simp add: verdict_ok_def)

lemma quote_policy: "fst (quote lm p now inp) = ap_prune p now"
  unfolding quote_def
  by (rule let_rule [of _ "\<lambda>r. fst r = ap_prune p now"], (rule let_any [of "\<lambda>r. fst r = ap_prune p now"])+) simp

lemma quote_no_relay: "aq_selected_relay (snd (quote lm p now inp)) = None"
  unfolding quote_def by (rule let_any [of "\<lambda>r. aq_selected_relay (snd r) = None"])+ simp

lemma reject_reason_None: "quote_reject_reason e t q c r b g = None \<longleftrightarrow> quote_should_execute e t q c r g"
  by (simp add: quote_reject_reason_def)

lemma verdict_reason: "verdict_ok q \<Longrightarrow> aq_reject_reason q = None \<longleftrightarrow> aq_should_execute q"
  by (simp add: verdict_ok_def reject_reason_None)

lemma ap_prune_simps [simp]:
  "ap_eth_usd_price (ap_prune p now) = ap_eth_usd_price p"
  "ap_base_threshold_usd (ap_prune p now) = ap_base_threshold_usd p"
  "ap_chain_threshold_mult (ap_prune p now) = ap_chain_threshold_mult p"
  by (simp_all add: ap_prune_def)

lemma not_neg_wei_to_eth [not_neg_intros]: "not_neg (wei_to_eth_f64 w)"
proof -
  have "0 < dec (10 ^ 18) 0" using dec_1e18_value by (simp add: less_f64_iff)
  then show ?thesis unfolding wei_to_eth_f64_def by (intro not_neg_intros disjI2)
qed

lemma not_neg_sample_confidence [not_neg_intros]: "not_neg (sample_confidence n m)"
  unfolding sample_confidence_def by (rule not_neg_clamp01)

lemma not_neg_confidence [not_neg_intros]:
  "not_neg (case h of None \<Rightarrow> 0 | Some profile \<Rightarrow> sample_confidence (ho_samples profile) 48)"
  by (cases h) (simp_all add: not_neg_intros)

lemma clamp_le_upper:
  assumes "\<not> is_nan (fclamp lo hi x)" "is_finite lo" "is_finite hi" "fval lo \<le> fval hi"
  shows "fclamp lo hi x \<le> hi"
proof -
  have "\<not> is_nan x" using assms(1) by (cases x) auto
  from within_clamp [OF this assms(2-4)] assms(3) show ?thesis by (simp add: in_range_def less_eq_f64_iff)
qed

lemma probability_bounds: "is_finite (dec 4 2)" "is_finite (dec 99 2)" "fval (dec 4 2) \<le> fval (dec 99 2)"
  "is_finite (dec 985 3)" "fval (dec 4 2) \<le> fval (dec 985 3)" "dec 985 3 \<le> dec 99 2" "dec 99 2 \<le> 1"
proof -
  have f: "is_finite (dec 4 2)" "is_finite (dec 99 2)" "is_finite (dec 985 3)" by code_simp+
  have o: "dec 4 2 \<le> dec 99 2" "dec 4 2 \<le> dec 985 3" by code_simp+
  show "is_finite (dec 4 2)" "is_finite (dec 99 2)" "is_finite (dec 985 3)" by (fact f)+
  show "fval (dec 4 2) \<le> fval (dec 99 2)" "fval (dec 4 2) \<le> fval (dec 985 3)"
    using f o by (simp_all add: less_eq_f64_iff)
  show "dec 985 3 \<le> dec 99 2" "dec 99 2 \<le> 1" by code_simp+
qed

lemma blended_probability_le:
  assumes "q = blended_probability h c (probability_positive k r f l pr g b regime)" "\<not> is_nan q"
  shows "q \<le> dec 99 2"
proof (cases h)
  case None
  then have "q \<le> dec 985 3" using assms probability_bounds
    by (auto simp: blended_probability_def probability_positive_def Let_def intro!: clamp_le_upper)
  then show ?thesis using probability_bounds(6) le_f64_trans by blast
next
  case (Some s)
  then show ?thesis using assms probability_bounds
    by (auto simp: blended_probability_def Let_def intro!: clamp_le_upper)
qed

text \<open>The arithmetic of the verdict, over any numbers the quote may compute.\<close>

lemma ev_above_threshold:
  assumes ev: "t < q * e - g - c - r - l" and nn: "not_neg g" "not_neg c" "not_neg r" "not_neg l"
    and t: "not_neg t" and e: "not_neg e" "rounded e" and q: "not_neg q" "q \<le> 1"
  shows "g < e \<and> t < e"
proof -
  have 1: "t < q * e - g"
    using ev nn rounded_minus less_minus_imp_less by meson
  then have "t < q * e" using nn(1) rounded_times less_minus_imp_less by blast
  moreover have "0 \<le> t" using t 1 by (cases t) (auto simp: not_neg_cases)
  ultimately have "t < q * e" "g < q * e" using 1 nonneg_less_minus by blast+
  then show ?thesis using q e less_times_imp_less by blast
qed

definition nonneg_policy :: "adaptive_policy \<Rightarrow> bool" where
  "nonneg_policy p = (not_neg (ap_eth_usd_price p) \<and> not_neg (ap_base_threshold_usd p)
     \<and> not_neg (ap_chain_threshold_mult p))"

definition quote_pays :: "adaptive_policy \<Rightarrow> adaptive_quote_input \<Rightarrow> adaptive_quote \<Rightarrow> bool" where
  "quote_pays p inp q = (aq_should_execute q \<longrightarrow>
     wei_to_eth_f64 (qi_execution_cost_wei inp) * ap_eth_usd_price p
       < wei_to_eth_f64 (qi_expected_profit_wei inp) * ap_eth_usd_price p
     \<and> aq_threshold_dynamic_usd q < wei_to_eth_f64 (qi_expected_profit_wei inp) * ap_eth_usd_price p
     \<and> aq_p_positive q \<le> dec 99 2)"

lemma quote_pays_arith:
  assumes x: "quote_should_execute ev t pp k r g" and "ev = pp * e - c - k1 - k2 - k3"
    "not_neg c" "not_neg k1" "not_neg k2" "not_neg k3" "not_neg t" "not_neg e" "rounded e"
    "\<not> is_nan pp \<Longrightarrow> pp \<le> dec 99 2"
  shows "c < e \<and> t < e \<and> pp \<le> dec 99 2"
proof -
  have x: "t < ev" "min_probability_threshold g \<le> pp"
    using x by (simp_all add: quote_should_execute_def)
  have "not_neg (min_probability_threshold g)" by (cases g) (simp_all add: not_neg_dec)
  then have pp: "not_neg pp" "\<not> is_nan pp"
    using x(2) le_f64_trans le_f64_not_nan by (auto simp: not_neg_cases)
  have le: "pp \<le> dec 99 2" by (rule assms(10) [OF pp(2)])
  then have "pp \<le> 1" using probability_bounds(7) le_f64_trans by blast
  with ev_above_threshold [OF x(1) [unfolded assms(2)] assms(3-9) pp(1)] le show ?thesis by simp
qed

lemma quote_pays_ok:
  assumes nn: "nonneg_policy p" and lm: "exp_not_negative lm"
  shows "quote_pays p inp (snd (quote lm p now inp))"
  unfolding quote_def
proof ((rule let_rule [of _ "\<lambda>r. quote_pays p inp (snd r)"])+, goal_cases)
  case (1 p' e c md heat gas sz imp lat fp pr hist b0 hp conf cal b reg prio tox comp risk pp cp rp pathp ev thr)
  note eqs = 1
  have price: "ap_eth_usd_price p' = ap_eth_usd_price p" using eqs(1) by simp
  have small: "in_range 0 1 (dec 8 2)" by (rule within_dec) simp_all
  have e: "not_neg e" "not_neg c" "rounded e"
    using nn unfolding eqs(2,3) price nonneg_policy_def by (auto intro: not_neg_intros rounded_times)
  have pens: "not_neg cp" "not_neg rp" "not_neg pathp"
    unfolding eqs(24-26) by (intro not_neg_intros lm e; unfold eqs(21,22); intro not_neg_intros)+
  have parts: "not_neg md" "not_neg heat" "not_neg gas" "not_neg lat" "not_neg fp" "not_neg pr" "not_neg b"
      "not_neg conf" "not_neg tox"
    unfolding eqs(4-6,9-11,15,17,20) by (intro not_neg_intros)+
  have base: "not_neg (ap_base_threshold_usd p')" "not_neg (ap_chain_threshold_mult p')"
    using nn by (simp_all add: eqs(1) nonneg_policy_def)
  have thr: "not_neg thr"
    unfolding eqs(28)
    by (intro not_neg_intros parts base not_neg_one_minus small zero_le_dec) simp_all
  show ?case
    using quote_pays_arith [OF _ eqs(27) e(2) pens thr e(1,3) blended_probability_le [OF eqs(23)]]
    by (simp add: quote_pays_def eqs(2,3) price)
qed

section \<open>Runs of the policy\<close>

text \<open>
  The policy lives behind a mutex: a run is a sequence of calls, in any order, with clock readings
  that never go back. The state is the policy and the last reading.
\<close>

inductive policy_step :: "libm \<Rightarrow> adaptive_policy \<times> instant \<Rightarrow> adaptive_policy \<times> instant \<Rightarrow> bool" for lm where
  step_historical: "policy_step lm (p, t) (apply_historical_profiles p profiles, t)"
| step_lookup: "policy_step lm (p, t) (observe_lookup_latency p latency, t)"
| step_flow: "t \<le> now \<Longrightarrow> policy_step lm (p, t) (observe_candidate_flow p now key notional gas, now)"
| step_preflight: "t \<le> now \<Longrightarrow> policy_step lm (p, t) (fst (preflight_score lm p now pin), now)"
| step_quote: "t \<le> now \<Longrightarrow> policy_step lm (p, t) (fst (quote lm p now inp), now)"
| step_submit_success: "policy_step lm (p, t) (record_submit_success p latency, t)"
| step_submit_success_for: "policy_step lm (p, t) (record_submit_success_for_relay p relay latency, t)"
| step_submit_failure: "policy_step lm (p, t) (record_submit_failure p latency, t)"
| step_submit_failure_for: "policy_step lm (p, t) (record_submit_failure_for_relay p relay latency, t)"
| step_finalization: "policy_step lm (p, t) (record_finalization p expected realized success latency, t)"
| step_finalization_for:
    "policy_step lm (p, t) (record_finalization_for_relay p relay expected realized success latency, t)"
| step_outcome: "policy_step lm (p, t) (record_contextual_outcome p relay key expected realized outcome, t)"
| step_timeout: "policy_step lm (p, t) (record_receipt_timeout p latency, t)"
| step_timeout_for: "policy_step lm (p, t) (record_receipt_timeout_for_relay p relay latency, t)"

inductive policy_reachable :: "libm \<Rightarrow> config \<Rightarrow> adaptive_policy \<times> instant \<Rightarrow> bool" for lm cfg where
  reach_new: "policy_reachable lm cfg (adaptive_policy_new cfg, t)"
| reach_step: "policy_reachable lm cfg s \<Longrightarrow> policy_step lm s s' \<Longrightarrow> policy_reachable lm cfg s'"

text \<open>The fields no operation writes.\<close>

definition policy_frame :: "adaptive_policy \<Rightarrow> f64 \<times> f64 \<times> f64 \<times> f64 \<times> f64 \<times> u64" where
  "policy_frame p = (ap_eth_usd_price p, ap_base_threshold_usd p, ap_chain_competition_mult p,
     ap_chain_risk_mult p, ap_chain_threshold_mult p, ap_max_price_impact_bps p)"

lemma preflight_policy: "fst (preflight_score lm p now pin) = ap_prune p now"
  unfolding preflight_score_def
  by (rule let_rule [of _ "\<lambda>r. fst r = ap_prune p now"], (rule let_any [of "\<lambda>r. fst r = ap_prune p now"])+) simp

lemmas policy_operations = apply_historical_profiles_def observe_lookup_latency_def observe_candidate_flow_def
  record_submit_success_def record_submit_success_for_relay_def record_submit_failure_def
  record_submit_failure_for_relay_def record_finalization_def record_finalization_for_relay_def
  record_receipt_timeout_def record_receipt_timeout_for_relay_def record_contextual_outcome_def
  preflight_policy quote_policy ap_prune_def

lemma policy_step_frame: "policy_step lm s s' \<Longrightarrow> policy_frame (fst s') = policy_frame (fst s)"
  by (induction rule: policy_step.induct)
    (simp_all add: policy_operations policy_frame_def Let_def split: prod.split)

lemma policy_reachable_frame:
  "policy_reachable lm cfg s \<Longrightarrow> policy_frame (fst s) = policy_frame (adaptive_policy_new cfg)"
  by (induction rule: policy_reachable.induct) (simp_all add: policy_step_frame)

lemma not_neg_fmax_left: "0 \<le> x \<Longrightarrow> not_neg (fmax x c)"
  using le_f64_trans [of 0 x "fmax x c"] fmax_upper_left [of x c] le_f64_not_nan [of 0 x]
  by (auto simp: not_neg_cases)

lemma effective_min_profit_positive: "0 \<le> effective_min_profit_usd m"
proof -
  have z: "0 \<le> dec 1 6" by (rule zero_le_dec) simp
  then have "\<not> is_nan (dec 1 6)" using le_f64_not_nan by blast
  then show ?thesis
    unfolding effective_min_profit_usd_def Let_def by (intro le_f64_trans [OF z fmax_upper])
qed

lemma preset_not_neg:
  "chain_adaptive_preset n = (g, tb, sb, fb, cm, rm, tm) \<Longrightarrow> not_neg tb \<and> not_neg tm"
  by (auto simp: chain_adaptive_preset_def not_neg_dec not_neg_one split: if_splits)

lemma new_policy_nonneg:
  assumes "not_neg (eth_usd_price (mev cfg))"
  shows "nonneg_policy (adaptive_policy_new cfg)"
proof -
  obtain g tb sb fb cm rm tm where c: "chain_adaptive_preset (cfg_network cfg) = (g, tb, sb, fb, cm, rm, tm)"
    by (metis prod_cases7)
  show ?thesis
    using assms preset_not_neg [OF c] not_neg_fmax_left [OF effective_min_profit_positive]
    by (simp add: adaptive_policy_new_def c nonneg_policy_def not_neg_times)
qed

lemma reachable_nonneg:
  "policy_reachable lm cfg (p, t) \<Longrightarrow> not_neg (eth_usd_price (mev cfg)) \<Longrightarrow> nonneg_policy p"
  using policy_reachable_frame [of lm cfg "(p, t)"] new_policy_nonneg [of cfg]
  by (simp add: policy_frame_def nonneg_policy_def)

text \<open>
  C7: in every policy that a run reaches from a configuration whose ETH price is not negative, a quote
  that says to execute has an expected profit in USD above the gas cost and above the dynamic
  threshold, an expected value above that threshold, a success probability between the minimum of its
  regime and 0.99, competition and risk within the caps of its regime, and no rejection reason.
  The exponential of the mathematical library is assumed never negative.
\<close>

theorem executed_quote_pays:
  assumes "policy_reachable lm cfg (p, t)" "not_neg (eth_usd_price (mev cfg))" "exp_not_negative lm"
    and "quote lm p now inp = (p', q)" "aq_should_execute q"
  shows "wei_to_eth_f64 (qi_execution_cost_wei inp) * ap_eth_usd_price p
           < wei_to_eth_f64 (qi_expected_profit_wei inp) * ap_eth_usd_price p
    \<and> aq_threshold_dynamic_usd q < wei_to_eth_f64 (qi_expected_profit_wei inp) * ap_eth_usd_price p
    \<and> aq_threshold_dynamic_usd q < aq_ev_real_usd q
    \<and> min_probability_threshold (aq_regime q) \<le> aq_p_positive q \<and> aq_p_positive q \<le> dec 99 2
    \<and> aq_competition_score q \<le> max_competition_threshold (aq_regime q)
    \<and> aq_risk_score q \<le> max_risk_threshold (aq_regime q)
    \<and> aq_reject_reason q = None"
  using quote_pays_ok [OF reachable_nonneg [OF assms(1,2)] assms(3), of inp now]
    quote_verdict [of lm p now inp] assms(4,5)
  by (simp add: quote_pays_def verdict_ok_def reject_reason_None quote_should_execute_def)

definition demo_lm :: libm where
  "demo_lm = \<lparr>m_exp = (\<lambda>x. fmax (1 + x) 0), m_ln = (\<lambda>x. x), m_ln_1p = (\<lambda>x. x), m_powf = (\<lambda>x y. x)\<rparr>"

definition demo_cluster :: cluster_key where
  "demo_cluster = \<lparr>ck_router = 1, ck_token_in = 2, ck_token_out = 3, ck_selector = [56, 237, 23, 57]\<rparr>"

definition demo_input :: adaptive_quote_input where
  "demo_input = \<lparr>qi_cluster = demo_cluster, qi_pair = 5, qi_hour_utc = 6, qi_context_priority_score = 1,
     qi_context_toxicity_score = 0, qi_expected_profit_wei = 10 ^ 18, qi_execution_cost_wei = 10 ^ 15,
     qi_gas_price_wei = 20 * 10 ^ 9, qi_lookup_latency_ms = dec 100 0, qi_notional_eth = 1,
     qi_price_impact_bps = 10, qi_relay_pressure_override = None\<rparr>"

lemma demo_quote_executes: "aq_should_execute (snd (quote demo_lm (adaptive_policy_new demo_config) 0 demo_input))"
  by code_simp

theorem executed_quote_pays_witness:
  "wei_to_eth_f64 (10 ^ 15) * ap_eth_usd_price (adaptive_policy_new demo_config)
     < wei_to_eth_f64 (10 ^ 18) * ap_eth_usd_price (adaptive_policy_new demo_config)
   \<and> aq_reject_reason (snd (quote demo_lm (adaptive_policy_new demo_config) 0 demo_input)) = None"
proof -
  have price: "not_neg (eth_usd_price (mev demo_config))" by code_simp
  have lm: "exp_not_negative demo_lm"
    by (simp add: exp_not_negative_def demo_lm_def not_neg_fmax)
  show ?thesis
    using executed_quote_pays [OF reach_new price lm surjective_pairing demo_quote_executes]
    by (simp add: demo_input_def)
qed

end
