(* ===== verification/AdaptiveRuns.thy ===== *)
theory AdaptiveRuns
  imports AdaptiveSafety
begin

text \<open>
  Invariants of the runs of the adaptive policy: its learned rates stay rates, its flow window stays
  ordered, bounded and exact, regimes only tighten the gates, and the relay choice keeps the best quote.
\<close>

section \<open>Learned rates\<close>

lemma times_mono_f64:
  assumes "0 \<le> x" "x \<le> y" "is_finite y" "is_finite c" "0 \<le> c"
  shows "x * c \<le> y * c"
proof -
  have "is_finite x" using assms(1-3) by (cases x; cases y) (auto simp: zero_f64_def)
  then show ?thesis using assms
    by (intro rounds_to_mono [OF times_f64_rounds_to times_f64_rounds_to])
      (auto simp: less_eq_f64_iff intro: mult_right_mono)
qed

lemma plus_mono_f64:
  assumes "x \<le> x'" "y \<le> y'" "is_finite x" "is_finite x'" "is_finite y" "is_finite y'"
  shows "x + y \<le> x' + y'"
  using assms by (intro rounds_to_mono [OF plus_f64_rounds_to plus_f64_rounds_to]) (auto simp: less_eq_f64_iff)

lemma between_finite: "0 \<le> x \<Longrightarrow> x \<le> y \<Longrightarrow> is_finite y \<Longrightarrow> is_finite x"
  by (cases x; cases y) (auto simp: zero_f64_def)

lemma zero_le_times_f64: "is_finite x \<Longrightarrow> is_finite y \<Longrightarrow> 0 \<le> x \<Longrightarrow> 0 \<le> y \<Longrightarrow> 0 \<le> x * y"
  by (rule rounds_to_mono [OF zero_rounds_to times_f64_rounds_to]) (simp_all add: less_eq_f64_iff)

text \<open>
  An average of a number of \<open>[0, h]\<close> and a sample of \<open>[0, k]\<close> stays in \<open>[0, h]\<close> when the average of
  the two upper bounds does.
\<close>

definition unit_upto :: "f64 \<Rightarrow> f64 \<Rightarrow> bool" where
  "unit_upto h x = (0 \<le> x \<and> x \<le> h)"

definition ewma_stable :: "f64 \<Rightarrow> f64 \<Rightarrow> f64 \<Rightarrow> bool" where
  "ewma_stable a h k = (is_finite h \<and> is_finite k \<and> is_finite a \<and> 0 \<le> a \<and> is_finite (1 - a) \<and> 0 \<le> 1 - a
     \<and> is_finite (h * (1 - a)) \<and> is_finite (k * a) \<and> ewma h k a \<le> h)"

lemma ewma_range:
  assumes st: "ewma_stable a h k" and c: "unit_upto h c" and s: "unit_upto k s"
  shows "unit_upto h (ewma c s a)"
proof -
  note u = c [unfolded unit_upto_def] s [unfolded unit_upto_def] and st = st [unfolded ewma_stable_def]
  have fc: "is_finite c" "is_finite s" using u st between_finite by blast+
  have le: "c * (1 - a) \<le> h * (1 - a)" "s * a \<le> k * a"
    using u st by (auto intro: times_mono_f64)
  have nn: "0 \<le> c * (1 - a)" "0 \<le> s * a" using u st fc zero_le_times_f64 by blast+
  have "is_finite (c * (1 - a))" "is_finite (s * a)" using nn le st between_finite by blast+
  then have "ewma c s a \<le> h"
    using le st plus_mono_f64 le_f64_trans unfolding ewma_def by blast
  moreover have "0 \<le> ewma c s a" unfolding ewma_def using nn zero_le_plus_f64 by blast
  ultimately show ?thesis by (simp add: unit_upto_def)
qed

lemma ewma_stable_all:
  "ewma_stable EWMA_FAST 1 1" "ewma_stable EWMA_FAST (dec 1251 3) (dec 125 2)"
  "ewma_stable EWMA_SLOW (dec 1251 3) (dec 125 2)"
  by code_simp+

text \<open>A capture is NaN when a realized profit was; otherwise it is bounded.\<close>

definition capture_ok :: "f64 \<Rightarrow> bool" where
  "capture_ok x = (is_nan x \<or> unit_upto (dec 1251 3) x)"

lemma nan_times: "is_nan x \<or> is_nan y \<Longrightarrow> is_nan (x * y)"
  by (cases x; cases y) auto

lemma capture_ratio_cases: "is_nan (capture_ratio e r) \<or> unit_upto (dec 125 2) (capture_ratio e r)"
proof -
  have f: "is_finite (dec 125 2)" "0 \<le> dec 125 2" by code_simp+
  have "is_nan (fclamp 0 (dec 125 2) x) \<or> unit_upto (dec 125 2) (fclamp 0 (dec 125 2) x)" for x
  proof (cases "is_nan x")
    case True
    then show ?thesis by (cases x) auto
  next
    case False
    then show ?thesis using within_clamp [of x 0 "dec 125 2"] f
      by (simp add: in_range_def unit_upto_def less_eq_f64_iff)
  qed
  then show ?thesis using f by (auto simp: capture_ratio_def Let_def unit_upto_def)
qed

lemma ewma_capture:
  assumes "a = EWMA_FAST \<or> a = EWMA_SLOW" "capture_ok c"
  shows "capture_ok (ewma c (capture_ratio e r) a)"
proof (cases "is_nan c \<or> is_nan (capture_ratio e r)")
  case True
  then have "is_nan (ewma c (capture_ratio e r) a)" unfolding ewma_def by (intro nan_plus) (auto intro: nan_times)
  then show ?thesis by (simp add: capture_ok_def)
next
  case False
  then have "unit_upto (dec 1251 3) c" "unit_upto (dec 125 2) (capture_ratio e r)"
    using assms(2) capture_ratio_cases [of e r] by (auto simp: capture_ok_def)
  then show ?thesis using assms(1) ewma_range ewma_stable_all(2,3) unfolding capture_ok_def by blast
qed

lemma ewma_rate [simp]:
  "unit_upto 1 c \<Longrightarrow> unit_upto 1 s \<Longrightarrow> unit_upto 1 (ewma c s EWMA_FAST)"
  by (rule ewma_range [OF ewma_stable_all(1)])

lemma unit_upto_samples [simp]: "unit_upto 1 0" "unit_upto 1 1" "unit_upto 1 (indicator_of b)"
  by (simp_all add: unit_upto_def indicator_of_def less_eq_f64_iff)

section \<open>The invariant of a run\<close>

definition relay_stats_ok :: "relay_stats \<Rightarrow> bool" where
  "relay_stats_ok s = (list_all (\<lambda>f. unit_upto 1 (f s))
     [rs_relay_accept_rate_ewma, rs_relay_reject_rate_ewma, rs_inclusion_success_rate_ewma,
      rs_accepted_not_included_rate_ewma, rs_included_revert_rate_ewma]
     \<and> capture_ok (rs_realized_capture_ewma s))"

definition context_stats_ok :: "relay_context_stats \<Rightarrow> bool" where
  "context_stats_ok s = (list_all (\<lambda>f. unit_upto 1 (f s))
     [rc_inclusion_success_rate_ewma, rc_accepted_not_included_rate_ewma, rc_included_revert_rate_ewma]
     \<and> capture_ok (rc_realized_capture_ewma s))"

definition global_rates_ok :: "adaptive_policy \<Rightarrow> bool" where
  "global_rates_ok p = (list_all (\<lambda>f. unit_upto 1 (f p))
     [ap_relay_accept_rate_ewma, ap_relay_reject_rate_ewma, ap_inclusion_success_rate_ewma,
      ap_accepted_not_included_rate_ewma, ap_included_revert_rate_ewma, ap_success_rate_ewma,
      ap_failure_rate_ewma, ap_timeout_rate_ewma]
     \<and> capture_ok (ap_realized_capture_ewma p))"

definition all_values :: "('v \<Rightarrow> bool) \<Rightarrow> ('k \<rightharpoonup> 'v) \<Rightarrow> bool" where
  "all_values P m = (\<forall>v \<in> ran m. P v)"

definition rates_ok :: "adaptive_policy \<Rightarrow> bool" where
  "rates_ok p = (global_rates_ok p \<and> all_values relay_stats_ok (ap_relay_stats p)
     \<and> all_values context_stats_ok (ap_relay_context_stats p))"

definition window_ok :: "adaptive_policy \<times> instant \<Rightarrow> bool" where
  "window_ok s = (sorted (map fo_observed_at (ap_recent_flows (fst s)))
     \<and> (\<forall>f \<in> set (ap_recent_flows (fst s)). fo_observed_at f \<le> snd s)
     \<and> int (length (ap_recent_flows (fst s))) \<le> FLOW_CAPACITY)"

interpretation flow_window: windowed_queue fo_observed_at flow_expired
  by unfold_locales (auto simp: flow_expired_def duration_since_def nanos_of_secs_def FLOW_HORIZON_SECS_def)

lemma default_stats_ok: "relay_stats_ok relay_stats_default" "context_stats_ok relay_context_stats_default"
  by code_simp+

lemma all_values_empty [simp]: "all_values P Map.empty"
  by (simp add: all_values_def)

lemma all_values_upd: "all_values P m \<Longrightarrow> P x \<Longrightarrow> all_values P (m(k \<mapsto> x))"
  by (auto simp: all_values_def ran_def)

lemma all_values_get: "all_values P m \<Longrightarrow> P d \<Longrightarrow> P (case m k of Some v \<Rightarrow> v | None \<Rightarrow> d)"
  by (auto simp: all_values_def ran_def split: option.split)

lemma entry_stats_ok: "all_values relay_stats_ok (ap_relay_stats p) \<Longrightarrow> relay_stats_ok (entry_relay_stats p relay)"
  unfolding entry_relay_stats_def
  using all_values_get [of relay_stats_ok "ap_relay_stats p" relay_stats_default relay] default_stats_ok(1) by blast

lemma new_rates_ok: "rates_ok (adaptive_policy_new cfg)"
proof -
  have "list_all (unit_upto 1) [dec 76 2, dec 16 2, dec 58 2, dec 14 2, dec 8 2, dec 70 2, dec 20 2, dec 72 2, dec 18 2]"
    "capture_ok (dec 82 2)" by code_simp+
  then show ?thesis
    by (simp add: rates_ok_def global_rates_ok_def adaptive_policy_new_def chain_adaptive_preset_def)
qed

lemmas ewma_capture_rules = ewma_capture [OF disjI1 [OF refl]] ewma_capture [OF disjI2 [OF refl]]

lemma outcome_samples: "outcome_indicators k = (a, b, c) \<Longrightarrow> unit_upto 1 a \<and> unit_upto 1 b \<and> unit_upto 1 c"
  by (cases k) auto

lemma relay_steps_ok:
  assumes "all_values relay_stats_ok (ap_relay_stats p)"
  shows "all_values relay_stats_ok (ap_relay_stats (record_submit_success_for_relay p relay l))"
    and "all_values relay_stats_ok (ap_relay_stats (record_submit_failure_for_relay p relay l))"
    and "all_values relay_stats_ok (ap_relay_stats (record_finalization_for_relay p relay e r ok l))"
    and "all_values relay_stats_ok (ap_relay_stats (record_receipt_timeout_for_relay p relay l))"
  using entry_stats_ok [OF assms, of relay] ewma_capture_rules
  by (simp add: policy_operations Let_def, intro all_values_upd [OF assms], simp add: relay_stats_ok_def)+

lemma context_step_ok:
  assumes "all_values context_stats_ok (ap_relay_context_stats p)"
  shows "all_values context_stats_ok (ap_relay_context_stats (record_contextual_outcome p relay key e r k))"
proof -
  obtain a b c where k: "outcome_indicators k = (a, b, c)" by (metis prod_cases3)
  show ?thesis
    using outcome_samples [OF k] ewma_capture_rules all_values_get [of context_stats_ok "ap_relay_context_stats p" _ "(relay, key)", OF assms default_stats_ok(2)]
    by (simp add: record_contextual_outcome_def k Let_def, intro all_values_upd [OF assms])
      (simp add: context_stats_ok_def)
qed

lemma step_global_rates: "policy_step lm s s' \<Longrightarrow> global_rates_ok (fst s) \<Longrightarrow> global_rates_ok (fst s')"
  by (induction rule: policy_step.induct)
    (simp_all add: policy_operations global_rates_ok_def Let_def ewma_capture_rules split: prod.split)

lemma step_relay_rates:
  assumes "policy_step lm s s'" "all_values relay_stats_ok (ap_relay_stats (fst s))"
  shows "all_values relay_stats_ok (ap_relay_stats (fst s'))"
  using assms
proof (induction rule: policy_step.induct)
qed (simp_all add: relay_steps_ok, simp_all add: policy_operations Let_def split: prod.split)

lemma step_context_rates:
  assumes "policy_step lm s s'" "all_values context_stats_ok (ap_relay_context_stats (fst s))"
  shows "all_values context_stats_ok (ap_relay_context_stats (fst s'))"
  using assms
proof (induction rule: policy_step.induct)
qed (simp_all add: context_step_ok, simp_all add: policy_operations Let_def)

lemma step_rates_ok: "policy_step lm s s' \<Longrightarrow> rates_ok (fst s) \<Longrightarrow> rates_ok (fst s')"
  unfolding rates_ok_def using step_global_rates step_relay_rates step_context_rates by blast

lemma prune_window:
  assumes "window_ok (p, t)" "t \<le> now"
  shows "window_ok (ap_prune p now, now)"
proof -
  have "int (length (dropWhile (flow_expired now) (ap_recent_flows p))) \<le> FLOW_CAPACITY"
    using length_dropWhile_le [of "flow_expired now" "ap_recent_flows p"] assms(1)
    by (simp add: window_ok_def)
  then show ?thesis using assms flow_window.prune_sorted
    by (fastforce simp: window_ok_def ap_prune_def dest: set_dropWhileD)
qed

lemma push_window:
  assumes "window_ok (p, now)"
  shows "window_ok (p\<lparr>ap_gas_price_ewma_gwei := g, ap_recent_flows :=
     (if int (length (ap_recent_flows p)) = FLOW_CAPACITY then tl (ap_recent_flows p) else ap_recent_flows p)
     @ [\<lparr>fo_key = k, fo_observed_at = now, fo_gas_price_gwei = a, fo_notional_eth = b\<rparr>]\<rparr>, now)"
proof -
  have tl: "sorted (map fo_observed_at (tl (ap_recent_flows p)))"
    "\<forall>f \<in> set (tl (ap_recent_flows p)). fo_observed_at f \<le> now"
    using assms by (cases "ap_recent_flows p"; simp add: window_ok_def)+
  show ?thesis using assms tl by (auto simp: window_ok_def sorted_append FLOW_CAPACITY_def)
qed

lemma observe_flow_window:
  assumes "window_ok (p, t)" "t \<le> now"
  shows "window_ok (observe_candidate_flow p now key notional gas, now)"
  unfolding observe_candidate_flow_def Let_def by (rule push_window [OF prune_window [OF assms]])

lemma window_ok_frame: "ap_recent_flows p' = ap_recent_flows p \<Longrightarrow> window_ok (p', t) = window_ok (p, t)"
  by (simp add: window_ok_def)

lemma same_flows:
  "ap_recent_flows (apply_historical_profiles p profiles) = ap_recent_flows p"
  "ap_recent_flows (observe_lookup_latency p l) = ap_recent_flows p"
  "ap_recent_flows (record_submit_success p l) = ap_recent_flows p"
  "ap_recent_flows (record_submit_success_for_relay p relay l) = ap_recent_flows p"
  "ap_recent_flows (record_submit_failure p l) = ap_recent_flows p"
  "ap_recent_flows (record_submit_failure_for_relay p relay l) = ap_recent_flows p"
  "ap_recent_flows (record_finalization p e r ok l) = ap_recent_flows p"
  "ap_recent_flows (record_finalization_for_relay p relay e r ok l) = ap_recent_flows p"
  "ap_recent_flows (record_contextual_outcome p relay key e r k) = ap_recent_flows p"
  "ap_recent_flows (record_receipt_timeout p l) = ap_recent_flows p"
  "ap_recent_flows (record_receipt_timeout_for_relay p relay l) = ap_recent_flows p"
  by (simp_all add: policy_operations Let_def split: prod.split)

lemma step_window_ok: "policy_step lm s s' \<Longrightarrow> window_ok s \<Longrightarrow> window_ok s'"
  by (induction rule: policy_step.induct)
    (simp_all add: same_flows [THEN window_ok_frame] preflight_policy quote_policy prune_window observe_flow_window)

lemma reachable_invariant: "policy_reachable lm cfg s \<Longrightarrow> rates_ok (fst s) \<and> window_ok s"
proof (induction rule: policy_reachable.induct)
  case (reach_new t)
  have "window_ok (adaptive_policy_new cfg, t)"
    by (simp add: window_ok_def adaptive_policy_new_def FLOW_CAPACITY_def split: prod.split)
  then show ?case using new_rates_ok by simp
next
  case (reach_step s s')
  then show ?case using step_rates_ok step_window_ok by blast
qed

text \<open>
  C23: along every run of the policy, whatever outcomes and latencies it is told, each learned rate
  (global, per relay, per relay and cluster) stays between 0 and 1, each learned capture is NaN or
  between 0 and 1.251, and the flow window is ordered by time, never ahead of the clock and never
  longer than its capacity.
\<close>

theorem adaptive_run_invariant:
  assumes "policy_reachable lm cfg (p, t)"
  shows "rates_ok p \<and> window_ok (p, t)"
  using reachable_invariant [OF assms] by simp

text \<open>
  At a later clock reading the pruning of a reachable policy keeps exactly the observations of
  the last twelve seconds, although it looks only at the front of the queue; a later pruning makes an
  earlier one redundant.
\<close>

theorem flow_window_exact:
  assumes "policy_reachable lm cfg (p, t)" "t \<le> now" "now \<le> later"
  shows "ap_recent_flows (ap_prune p now)
      = filter (\<lambda>f. now - fo_observed_at f \<le> 12 * 10 ^ 9) (ap_recent_flows p)
    \<and> ap_prune (ap_prune p now) later = ap_prune p later"
proof -
  have s: "sorted (map fo_observed_at (ap_recent_flows p))"
    using reachable_invariant [OF assms(1)] by (simp add: window_ok_def)
  have "(\<lambda>f. \<not> flow_expired now f) = (\<lambda>f. now - fo_observed_at f \<le> 12 * 10 ^ 9)"
    by (auto simp: flow_expired_def duration_since_def nanos_of_secs_def FLOW_HORIZON_SECS_def)
  then show ?thesis
    using flow_window.prune_eq_filter [OF s, of now] flow_window.prune_prune [OF s assms(3)]
    by (simp add: ap_prune_def)
qed

definition demo_run :: adaptive_policy where
  "demo_run = observe_candidate_flow (adaptive_policy_new demo_config) 5 demo_cluster (10 ^ 18) (10 ^ 10)"

lemma demo_run_reachable: "policy_reachable demo_lm demo_config (demo_run, 5)"
  unfolding demo_run_def by (rule reach_step [OF reach_new [where t = 0] step_flow]) simp

theorem adaptive_run_invariant_witness:
  "rates_ok (record_receipt_timeout_for_relay demo_run ''flashbots'' (dec 5 1))
   \<and> window_ok (record_receipt_timeout_for_relay demo_run ''flashbots'' (dec 5 1), 5)"
  by (rule adaptive_run_invariant [OF reach_step [OF demo_run_reachable step_timeout_for]])

theorem flow_window_exact_witness:
  "ap_recent_flows (ap_prune demo_run (13 * 10 ^ 9)) = [] \<and> length (ap_recent_flows demo_run) = 1"
proof -
  have "ap_recent_flows (ap_prune demo_run (13 * 10 ^ 9))
      = filter (\<lambda>f. 13 * 10 ^ 9 - fo_observed_at f \<le> 12 * 10 ^ 9) (ap_recent_flows demo_run)"
    using flow_window_exact [OF demo_run_reachable, of "13 * 10 ^ 9" "13 * 10 ^ 9"] by simp
  moreover have "map fo_observed_at (ap_recent_flows demo_run) = [5]"
    by (simp add: demo_run_def observe_candidate_flow_def Let_def ap_prune_def adaptive_policy_new_def
        FLOW_CAPACITY_def split: prod.split)
  ultimately show ?thesis by (cases "ap_recent_flows demo_run") auto
qed

section \<open>Choosing a relay\<close>

interpretation relay_rank: total_comparison "\<lambda>l r. total_le (rq_score l) (rq_score r)"
  by (rule total_comparison_key [OF f64_total.total_comparison_axioms])

text \<open>The quotes \<open>quote_for_relays\<close> compares, one per ranked relay, all on the policy it starts from.\<close>

definition relay_candidate ::
  "libm \<Rightarrow> adaptive_policy \<Rightarrow> instant \<Rightarrow> adaptive_quote_input \<Rightarrow> relay_quote \<Rightarrow> adaptive_quote" where
  "relay_candidate lm p now inp rq =
     (snd (quote lm p now (with_relay_pressure p inp rq)))\<lparr>aq_selected_relay := Some (rq_relay rq)\<rparr>"

fun relay_candidates ::
  "libm \<Rightarrow> (nat \<Rightarrow> instant) \<Rightarrow> nat \<Rightarrow> adaptive_policy \<Rightarrow> adaptive_quote_input \<Rightarrow> relay_quote list
    \<Rightarrow> adaptive_quote list" where
  "relay_candidates lm clock k p inp [] = []"
| "relay_candidates lm clock k p inp (rq # rqs) =
     relay_candidate lm p (clock k) inp rq # relay_candidates lm clock (Suc k) p inp rqs"

definition better_of :: "adaptive_quote \<Rightarrow> adaptive_quote \<Rightarrow> adaptive_quote" where
  "better_of best candidate = (if is_better_quote candidate best then candidate else best)"

lemma quote_after_prune:
  assumes "ap_prune (ap_prune p t) now = ap_prune p now"
  shows "quote lm (ap_prune p t) now inp = quote lm p now inp"
  unfolding quote_def assms ..

lemma ap_prune_fields:
  "ap_relay_stats (ap_prune p t) = ap_relay_stats p"
  "ap_relay_context_stats (ap_prune p t) = ap_relay_context_stats p"
  "builder_path_pressure (ap_prune p t) = builder_path_pressure p"
  by (simp_all add: ap_prune_def builder_path_pressure_def)

lemma relay_pressure_after_prune: "with_relay_pressure (ap_prune p t) inp rq = with_relay_pressure p inp rq"
proof -
  have "builder_path_pressure_for_relay (ap_prune p t) = builder_path_pressure_for_relay p"
    by (rule ext) (simp only: builder_path_pressure_for_relay_def ap_prune_fields)
  then show ?thesis
    by (simp only: with_relay_pressure_def builder_path_pressure_for_cluster_def ap_prune_fields)
qed

lemma quote_loop_refines:
  assumes "sorted (map fo_observed_at (ap_recent_flows p))" "mono clock" "t \<le> clock k"
  shows "snd (quote_relays_loop lm clock k inp (ap_prune p t) best rqs)
       = foldl better_of best (relay_candidates lm clock k p inp rqs)"
  using assms(3)
proof (induction rqs arbitrary: k t best)
  case Nil
  then show ?case by simp
next
  case (Cons rq rqs)
  have pp: "ap_prune (ap_prune p t) (clock k) = ap_prune p (clock k)"
    using flow_window.prune_prune [OF assms(1) Cons.prems] by (simp add: ap_prune_def)
  have "quote lm (ap_prune p t) (clock k) (with_relay_pressure (ap_prune p t) inp rq)
      = quote lm p (clock k) (with_relay_pressure p inp rq)"
    by (simp only: quote_after_prune [OF pp] relay_pressure_after_prune)
  moreover have "clock k \<le> clock (Suc k)" using assms(2) by (simp add: mono_def)
  ultimately show ?case
    using Cons.IH [of "clock k" "Suc k"] by (simp add: relay_candidate_def better_of_def Let_def split_beta quote_policy)
qed

lemma quote_for_relays_refines:
  assumes "sorted (map fo_observed_at (ap_recent_flows p))" "mono clock"
    and "relay_candidates lm clock 0 p inp (rank_relays p relays) = c # cs"
  shows "snd (quote_for_relays lm clock p inp relays) = foldl better_of c cs"
proof -
  obtain rq rqs where r: "rank_relays p relays = rq # rqs"
    using assms(3) by (cases "rank_relays p relays") auto
  have c: "c = relay_candidate lm p (clock 0) inp rq" "cs = relay_candidates lm clock 1 p inp rqs"
    using assms(3) by (simp_all add: r)
  have "clock 0 \<le> clock 1" using assms(2) by (simp add: mono_def)
  from quote_loop_refines [OF assms(1,2) this] show ?thesis
    by (simp add: quote_for_relays_def r c relay_candidate_def split_beta quote_policy)
qed

lemma better_of_executes: "aq_should_execute (better_of b c) = (aq_should_execute b \<or> aq_should_execute c)"
  by (auto simp: better_of_def is_better_quote_def Let_def)

lemma fold_better_executes:
  "aq_should_execute (foldl better_of b cs) = (\<exists>c \<in> insert b (set cs). aq_should_execute c)"
  by (induction cs arbitrary: b) (auto simp: better_of_executes)

lemma fold_better_in: "foldl better_of b cs \<in> insert b (set cs)"
proof (induction cs arbitrary: b)
  case (Cons c cs)
  have "better_of b c = b \<or> better_of b c = c" by (simp add: better_of_def)
  with Cons [of "better_of b c"] show ?case by auto
qed simp

lemma relay_candidates_relay:
  "c \<in> set (relay_candidates lm clock k p inp rqs) \<Longrightarrow> \<exists>rq \<in> set rqs. aq_selected_relay c = Some (rq_relay rq)"
  by (induction rqs arbitrary: k) (auto simp: relay_candidate_def)

lemma relay_candidates_verdict:
  "c \<in> set (relay_candidates lm clock k p inp rqs) \<Longrightarrow> verdict_ok c"
proof (induction rqs arbitrary: k)
  case (Cons rq rqs)
  have "verdict_ok (relay_candidate lm p (clock k) inp rq)"
    using quote_verdict [of lm p "clock k" "with_relay_pressure p inp rq"]
    by (simp add: verdict_ok_def relay_candidate_def)
  then show ?case using Cons by auto
qed simp

lemma map_rq_relay: "map rq_relay (map (relay_quote_of p) relays) = relays"
  by (induction relays) (simp_all add: relay_quote_of_def Let_def)

lemma relay_quote_for_cluster_relay: "rq_relay (relay_quote_for_cluster p r k) = r"
  by (simp add: relay_quote_for_cluster_def relay_quote_of_def Let_def split: option.split)

lemma rank_relays_relays: "rq_relay ` set (rank_relays p relays) = set relays"
  using arg_cong [OF map_rq_relay [of p relays], of set] by (simp add: rank_relays_def image_image)

text \<open>
  C24: on a policy reached by a run, with a clock that does not go back and at least one relay, the
  quote chosen over the relays is one of the per-relay quotes computed on that same policy, its relay
  is one of those given, it executes exactly when some relay's quote does, and it carries a rejection
  reason exactly when it does not execute.
\<close>

theorem relay_choice_sound:
  assumes "policy_reachable lm cfg (p, t)" "mono clock" "relays \<noteq> []"
  shows "snd (quote_for_relays lm clock p inp relays)
           \<in> set (relay_candidates lm clock 0 p inp (rank_relays p relays))
    \<and> aq_selected_relay (snd (quote_for_relays lm clock p inp relays)) \<in> Some ` set relays
    \<and> aq_should_execute (snd (quote_for_relays lm clock p inp relays))
        = (\<exists>c \<in> set (relay_candidates lm clock 0 p inp (rank_relays p relays)). aq_should_execute c)
    \<and> (aq_reject_reason (snd (quote_for_relays lm clock p inp relays)) = None)
        = aq_should_execute (snd (quote_for_relays lm clock p inp relays))"
proof -
  let ?cs = "relay_candidates lm clock 0 p inp (rank_relays p relays)"
    and ?q = "snd (quote_for_relays lm clock p inp relays)"
  have "length (rank_relays p relays) = length relays" by (simp add: rank_relays_def)
  then obtain c cs where c: "?cs = c # cs" using assms(3) by (cases "rank_relays p relays") auto
  have s: "sorted (map fo_observed_at (ap_recent_flows p))"
    using reachable_invariant [OF assms(1)] by (simp add: window_ok_def)
  have q: "?q = foldl better_of c cs" by (rule quote_for_relays_refines [OF s assms(2) c])
  have mem: "?q \<in> set ?cs" using fold_better_in [of c cs] by (simp add: q c)
  have "aq_selected_relay ?q \<in> Some ` set relays"
    using relay_candidates_relay [OF mem] rank_relays_relays [of p relays] by auto
  then show ?thesis
    using mem fold_better_executes [of c cs] verdict_reason [OF relay_candidates_verdict [OF mem]]
    by (simp add: q c)
qed

theorem relay_choice_sound_witness:
  "aq_selected_relay (snd (quote_for_relays demo_lm int demo_run demo_input [''a'', ''b''])) \<in> Some ` {''a'', ''b''}"
  using relay_choice_sound [OF demo_run_reachable, of int "[''a'', ''b'']" demo_input]
  by (simp add: mono_def)

text \<open>
  Both rankings are permutations of the given relays, ordered by score in the total order of
  floating-point numbers, so that the relay tried first has the lowest score.
\<close>

theorem relay_rankings_sorted:
  "sorted_wrt (\<lambda>l r. total_le (rq_score l) (rq_score r)) (rank_relays p relays)
   \<and> mset (map rq_relay (rank_relays p relays)) = mset relays
   \<and> sorted_wrt (\<lambda>l r. total_le (rq_score l) (rq_score r)) (rank_relays_for_cluster p relays cluster)
   \<and> mset (map rq_relay (rank_relays_for_cluster p relays cluster)) = mset relays"
proof -
  have c: "map rq_relay (map (\<lambda>r. relay_quote_for_cluster p r cluster) relays) = relays"
    by (induction relays) (simp_all add: relay_quote_for_cluster_relay)
  have m: "mset (map rq_relay (sort_by le xs)) = mset (map rq_relay xs)" for le xs
    by (simp only: mset_map mset_sort_by)
  show ?thesis
    unfolding rank_relays_def rank_relays_for_cluster_def m map_rq_relay c
    by (intro conjI relay_rank.sorted_sort_by refl)
qed

section \<open>Regimes\<close>

text \<open>Regimes are ordered by stress.\<close>

fun regime_level :: "market_regime \<Rightarrow> nat" where
  "regime_level Calm = 0" | "regime_level Normal = 1" | "regime_level Hot = 2" | "regime_level Toxic = 3"

instantiation market_regime :: linorder
begin

definition less_eq_market_regime :: "market_regime \<Rightarrow> market_regime \<Rightarrow> bool" where
  "r \<le> s \<longleftrightarrow> regime_level r \<le> regime_level s"

definition less_market_regime :: "market_regime \<Rightarrow> market_regime \<Rightarrow> bool" where
  "r < s \<longleftrightarrow> regime_level r < regime_level s"

instance
proof
  fix r s :: market_regime
  assume "r \<le> s" "s \<le> r"
  then show "r = s" by (cases r; cases s) (simp_all add: less_eq_market_regime_def)
qed (auto simp: less_eq_market_regime_def less_market_regime_def)

end

lemma regime_tables:
  "r \<le> s \<Longrightarrow> min_probability_threshold r \<le> min_probability_threshold s"
  "r \<le> s \<Longrightarrow> max_competition_threshold s \<le> max_competition_threshold r"
  "r \<le> s \<Longrightarrow> max_risk_threshold s \<le> max_risk_threshold r"
  "r \<le> s \<Longrightarrow> regime_base r \<le> regime_base s"
proof -
  have o: "dec 54 2 \<le> dec 54 2" "dec 54 2 \<le> dec 60 2" "dec 60 2 \<le> dec 60 2" "dec 60 2 \<le> dec 66 2"
    "dec 66 2 \<le> dec 66 2" "dec 66 2 \<le> dec 74 2" "dec 74 2 \<le> dec 74 2" "dec 52 2 \<le> dec 52 2"
    "dec 52 2 \<le> dec 64 2" "dec 64 2 \<le> dec 64 2" "dec 64 2 \<le> dec 72 2" "dec 72 2 \<le> dec 72 2"
    "dec 72 2 \<le> dec 78 2" "dec 78 2 \<le> dec 78 2" "dec 56 2 \<le> dec 56 2" "dec 56 2 \<le> dec 66 2"
    "dec 74 2 \<le> dec 80 2" "dec 80 2 \<le> dec 80 2" "dec 92 2 \<le> dec 92 2" "dec 92 2 \<le> dec 108 2"
    "dec 108 2 \<le> dec 108 2" "dec 108 2 \<le> dec 142 2" "dec 142 2 \<le> dec 142 2" "dec 142 2 \<le> dec 195 2"
    "dec 195 2 \<le> dec 195 2"
    by code_simp+
  note t = le_f64_trans
  show "r \<le> s \<Longrightarrow> min_probability_threshold r \<le> min_probability_threshold s"
    by (cases r; cases s) (simp_all add: less_eq_market_regime_def o t [OF o(2,4)] t [OF o(4,6)] t [OF t [OF o(2,4)] o(6)])
  show "r \<le> s \<Longrightarrow> max_competition_threshold s \<le> max_competition_threshold r"
    by (cases r; cases s) (simp_all add: less_eq_market_regime_def o t [OF o(9,11)] t [OF o(11,13)] t [OF t [OF o(9,11)] o(13)])
  show "r \<le> s \<Longrightarrow> max_risk_threshold s \<le> max_risk_threshold r"
    by (cases r; cases s) (simp_all add: less_eq_market_regime_def o t [OF o(16,6)] t [OF o(6,17)] t [OF t [OF o(16,6)] o(17)])
  show "r \<le> s \<Longrightarrow> regime_base r \<le> regime_base s"
    by (cases r; cases s) (simp_all add: less_eq_market_regime_def o t [OF o(20,22)] t [OF o(22,24)] t [OF t [OF o(20,22)] o(24)])
qed

text \<open>
  A more stressed regime never opens a gate. If a quote passes in the regime that a calibration
  shift gives, it passes in every regime that a smaller shift of a calmer regime gives, with the same
  numbers.
\<close>

theorem stress_never_opens_gate:
  assumes "r \<le> s" "i \<le> j"
    and "quote_should_execute ev t q c k (recalibrated_regime s j)"
  shows "recalibrated_regime r i \<le> recalibrated_regime s j
    \<and> quote_should_execute ev t q c k (recalibrated_regime r i)"
proof -
  have le: "recalibrated_regime r i \<le> recalibrated_regime s j"
    using assms(1,2)
    by (cases r; cases s) (auto simp: recalibrated_regime_def less_eq_market_regime_def split: market_regime.splits)
  show ?thesis using le assms(3) regime_tables [OF le] le_f64_trans
    unfolding quote_should_execute_def by blast
qed

theorem stress_never_opens_gate_witness:
  "quote_should_execute (dec 2 0) 1 (dec 9 1) (dec 1 1) (dec 1 1) (recalibrated_regime Calm 0)"
proof -
  have "quote_should_execute (dec 2 0) 1 (dec 9 1) (dec 1 1) (dec 1 1) (recalibrated_regime Hot 1)" by code_simp
  from stress_never_opens_gate [of Calm Hot 0 1, OF _ _ this] show ?thesis
    by (simp add: less_eq_market_regime_def)
qed

end
