(* ===== verification/Rpc.thy ===== *)
theory Rpc
  imports Config Adaptive
begin

text \<open>
  The fleet of RPC endpoints of \<open>src/rpc.rs\<close>: health counters with decay, cooldowns, burst
  reservations, the score cache and the selection of candidates. The HTTP provider and client of an
  endpoint are determined by its URL and left out; the locks are taken as healthy, and the clock
  readings inside one call as one instant.
\<close>

section \<open>Text\<close>

definition ascii_lower_char :: "char \<Rightarrow> char" where
  "ascii_lower_char c = (let n = of_char c :: nat in if 65 \<le> n \<and> n \<le> 90 then char_of (n + 32) else c)"

definition to_ascii_lowercase :: "string \<Rightarrow> string" where
  "to_ascii_lowercase s = map ascii_lower_char s"

fun starts_with :: "string \<Rightarrow> string \<Rightarrow> bool" where
  "starts_with [] s = True"
| "starts_with (p # ps) [] = False"
| "starts_with (p # ps) (c # cs) = (p = c \<and> starts_with ps cs)"

fun str_contains :: "string \<Rightarrow> string \<Rightarrow> bool" where
  "str_contains pat [] = (pat = [])"
| "str_contains pat (c # cs) = (starts_with pat (c # cs) \<or> str_contains pat cs)"

section \<open>Data\<close>

datatype rpc_kind = RkTenderly | RkGetBlock | RkGeneric | RkAlchemy | RkInfura

fun rpc_kind_as_str :: "rpc_kind \<Rightarrow> string" where
  "rpc_kind_as_str RkTenderly = ''tenderly''"
| "rpc_kind_as_str RkGetBlock = ''getblock''"
| "rpc_kind_as_str RkGeneric = ''generic''"
| "rpc_kind_as_str RkAlchemy = ''alchemy''"
| "rpc_kind_as_str RkInfura = ''infura''"

datatype rpc_failure_kind = FkTimeout | FkRateLimited | FkCapacityExhausted | FkStale | FkTransport | FkRemote

record burst_reservation =
  br_reserved_at :: instant
  br_units :: u32

record rpc_endpoint_state =
  es_failures :: u32
  es_timeout_failures :: u32
  es_rate_limit_failures :: u32
  es_stale_failures :: u32
  es_last_failure_decay_at :: instant
  es_disabled :: bool
  es_disabled_reason :: "string option"
  es_cooldown_until :: "instant option"
  es_avg_latency :: "duration option"
  es_last_block :: "u64 option"
  es_last_block_at :: "instant option"
  es_recent_burst_reservations :: "burst_reservation list"
  es_last_selected_at :: "instant option"

record score_cache_state =
  sc_updated_at :: instant
  sc_read_scores :: "f64 option list"
  sc_send_scores :: "f64 option list"

record rpc_endpoint =
  re_id :: nat
  re_name :: string
  re_url :: string
  re_kind :: rpc_kind
  re_state :: rpc_endpoint_state

record rpc_handle =
  rh_id :: nat
  rh_name :: string
  rh_url :: string

record rpc_fleet =
  rf_endpoints :: "rpc_endpoint list"
  rf_rotation :: u64
  rf_read_preference :: rpc_preference
  rf_send_preference :: rpc_preference
  rf_score_cache :: score_cache_state

record rpc_endpoint_snapshot =
  sn_id :: nat
  sn_name :: string
  sn_url :: string
  sn_kind :: string
  sn_failures :: u32
  sn_timeout_failures :: u32
  sn_rate_limit_failures :: u32
  sn_stale_failures :: u32
  sn_disabled :: bool
  sn_disabled_reason :: "string option"
  sn_cooldown_remaining_secs :: int
  sn_avg_latency_ms :: "int option"
  sn_last_block :: "u64 option"
  sn_block_age_secs :: "int option"
  sn_recent_burst_units :: u32
  sn_burst_capacity_units :: u32
  sn_read_capacity_per_sec :: u64

section \<open>Counters, bursts and capacities\<close>

definition BURST_WINDOW_MS :: int where "BURST_WINDOW_MS = 1200"
definition FAILURE_DECAY_SECS :: int where "FAILURE_DECAY_SECS = 20"

definition burst_expired :: "instant \<Rightarrow> burst_reservation \<Rightarrow> bool" where
  "burst_expired now item = (nanos_of_millis BURST_WINDOW_MS < duration_since now (br_reserved_at item))"

definition prune_burst_reservations :: "rpc_endpoint_state \<Rightarrow> instant \<Rightarrow> rpc_endpoint_state" where
  "prune_burst_reservations st now =
     st\<lparr>es_recent_burst_reservations := dropWhile (burst_expired now) (es_recent_burst_reservations st)\<rparr>"

definition decay_failure_counters :: "rpc_endpoint_state \<Rightarrow> instant \<Rightarrow> rpc_endpoint_state" where
  "decay_failure_counters st now =
     (let elapsed = duration_since now (es_last_failure_decay_at st);
          steps = word_of_int (as_secs elapsed div FAILURE_DECAY_SECS) :: u32
      in if steps = 0 then st
         else st\<lparr>es_last_failure_decay_at := es_last_failure_decay_at st
                   + nanos_of_secs (FAILURE_DECAY_SECS * uint steps),
                 es_failures := sat_sub (es_failures st) (sat_mul steps 2),
                 es_timeout_failures := sat_sub (es_timeout_failures st) (sat_mul steps 2),
                 es_stale_failures := sat_sub (es_stale_failures st) (sat_mul steps 2),
                 es_rate_limit_failures := sat_sub (es_rate_limit_failures st) (sat_mul steps 4)\<rparr>)"

definition burst_load_units :: "rpc_endpoint_state \<Rightarrow> instant \<Rightarrow> u32" where
  "burst_load_units st now =
     sum_list (map br_units (filter (\<lambda>item. \<not> burst_expired now item) (es_recent_burst_reservations st)))"

fun endpoint_burst_capacity_units :: "rpc_kind \<Rightarrow> bool \<Rightarrow> u32" where
  "endpoint_burst_capacity_units RkAlchemy send_mode = (if send_mode then 18 else 24)"
| "endpoint_burst_capacity_units RkInfura send_mode = (if send_mode then 12 else 30)"
| "endpoint_burst_capacity_units RkTenderly send_mode = (if send_mode then 8 else 10)"
| "endpoint_burst_capacity_units RkGetBlock send_mode = (if send_mode then 8 else 10)"
| "endpoint_burst_capacity_units RkGeneric send_mode = (if send_mode then 10 else 12)"

fun endpoint_burst_cost_units :: "rpc_kind \<Rightarrow> bool \<Rightarrow> u32" where
  "endpoint_burst_cost_units RkAlchemy send_mode = (if send_mode then 7 else 1)"
| "endpoint_burst_cost_units RkInfura send_mode = (if send_mode then 6 else 1)"
| "endpoint_burst_cost_units RkTenderly send_mode = (if send_mode then 8 else 2)"
| "endpoint_burst_cost_units RkGetBlock send_mode = (if send_mode then 5 else 1)"
| "endpoint_burst_cost_units RkGeneric send_mode = (if send_mode then 6 else 2)"

definition endpoint_read_capacity_per_sec :: "rpc_kind \<Rightarrow> u64" where
  "endpoint_read_capacity_per_sec kind =
     (let capacity = ucast (endpoint_burst_capacity_units kind False) :: u64;
          cost = ucast (max (endpoint_burst_cost_units kind False) 1) :: u64
      in max (sat_mul capacity 1000 div word_of_int BURST_WINDOW_MS div cost) 1)"

text \<open>Every operation on an endpoint first drops old reservations and decays the counters.\<close>

definition touch :: "instant \<Rightarrow> rpc_endpoint_state \<Rightarrow> rpc_endpoint_state" where
  "touch now st = decay_failure_counters (prune_burst_reservations st now) now"

definition cooling :: "instant \<Rightarrow> rpc_endpoint_state \<Rightarrow> bool" where
  "cooling now st = (case es_cooldown_until st of Some until \<Rightarrow> now < until | None \<Rightarrow> False)"

section \<open>Construction\<close>

definition kind_of_name :: "string \<Rightarrow> rpc_kind" where
  "kind_of_name name =
     (if starts_with ''tenderly-'' name then RkTenderly
      else if starts_with ''getblock-'' name then RkGetBlock
      else if starts_with ''alchemy-'' name then RkAlchemy
      else if starts_with ''infura-'' name then RkInfura
      else RkGeneric)"

definition rpc_state_new :: "instant \<Rightarrow> rpc_endpoint_state" where
  "rpc_state_new now = \<lparr>es_failures = 0, es_timeout_failures = 0, es_rate_limit_failures = 0,
     es_stale_failures = 0, es_last_failure_decay_at = now, es_disabled = False, es_disabled_reason = None,
     es_cooldown_until = None, es_avg_latency = None, es_last_block = None, es_last_block_at = None,
     es_recent_burst_reservations = [], es_last_selected_at = None\<rparr>"

text \<open>
  \<open>urls\<close> is what \<open>config.rpc_urls()\<close> returns; \<open>valid_url\<close> is whether the provider library accepts
  an URL, with its error message.
\<close>

fun build_endpoints ::
  "(string \<Rightarrow> string option) \<Rightarrow> instant \<Rightarrow> nat \<Rightarrow> (string \<times> string) list \<Rightarrow> string + rpc_endpoint list" where
  "build_endpoints url_error now idx [] = Inr []"
| "build_endpoints url_error now idx ((name, url) # rest) =
     (case url_error url of Some err \<Rightarrow> Inl err
      | None \<Rightarrow> and_then (build_endpoints url_error now (Suc idx) rest) (\<lambda>es.
          Inr (\<lparr>re_id = idx, re_name = name, re_url = url, re_kind = kind_of_name name,
                re_state = rpc_state_new now\<rparr> # es)))"

definition rpc_fleet_from_config ::
  "(string \<Rightarrow> string option) \<Rightarrow> (string \<times> string) list \<Rightarrow> config \<Rightarrow> instant \<Rightarrow> string + rpc_fleet" where
  "rpc_fleet_from_config url_error urls cfg now =
     and_then (build_endpoints url_error now 0 urls) (\<lambda>endpoints.
       if endpoints = [] then Inl ''no RPC endpoints configured''
       else Inr \<lparr>rf_endpoints = endpoints, rf_rotation = 0, rf_read_preference = rpc_read_preference cfg,
                 rf_send_preference = rpc_send_preference cfg,
                 rf_score_cache = \<lparr>sc_updated_at = now - nanos_of_secs 1,
                   sc_read_scores = replicate (length endpoints) None,
                   sc_send_scores = replicate (length endpoints) None\<rparr>\<rparr>)"

section \<open>Operations on one endpoint\<close>

definition invalidate_score_cache :: "rpc_fleet \<Rightarrow> instant \<Rightarrow> rpc_fleet" where
  "invalidate_score_cache f now =
     f\<lparr>rf_score_cache := (rf_score_cache f)\<lparr>sc_updated_at := now - nanos_of_secs 2\<rparr>\<rparr>"

fun find_endpoint :: "nat \<Rightarrow> rpc_endpoint list \<Rightarrow> rpc_endpoint option" where
  "find_endpoint endpoint_id [] = None"
| "find_endpoint endpoint_id (e # es) = (if re_id e = endpoint_id then Some e else find_endpoint endpoint_id es)"

fun update_endpoint ::
  "nat \<Rightarrow> (rpc_endpoint_state \<Rightarrow> rpc_endpoint_state) \<Rightarrow> rpc_endpoint list \<Rightarrow> rpc_endpoint list" where
  "update_endpoint endpoint_id g [] = []"
| "update_endpoint endpoint_id g (e # es) =
     (if re_id e = endpoint_id then e\<lparr>re_state := g (re_state e)\<rparr> # es else e # update_endpoint endpoint_id g es)"

definition set_enabled :: "bool \<Rightarrow> string option \<Rightarrow> rpc_endpoint_state \<Rightarrow> rpc_endpoint_state" where
  "set_enabled on reason st =
     st\<lparr>es_disabled := \<not> on,
        es_disabled_reason := (if on then None
          else Some (case reason of Some r \<Rightarrow> r | None \<Rightarrow> ''disabled from dashboard''))\<rparr>"

text \<open>The error is the identifier that the message \<open>unknown RPC endpoint id\<close> carries.\<close>

definition set_endpoint_enabled ::
  "rpc_fleet \<Rightarrow> instant \<Rightarrow> nat \<Rightarrow> bool \<Rightarrow> string option \<Rightarrow> nat + rpc_fleet" where
  "set_endpoint_enabled f now endpoint_id on reason =
     (case find_endpoint endpoint_id (rf_endpoints f) of None \<Rightarrow> Inl endpoint_id
      | Some e \<Rightarrow> Inr (invalidate_score_cache
          (f\<lparr>rf_endpoints := update_endpoint endpoint_id (set_enabled on reason) (rf_endpoints f)\<rparr>) now))"

definition getblock_only :: "rpc_endpoint \<Rightarrow> rpc_endpoint" where
  "getblock_only e =
     (if re_kind e = RkGetBlock then e\<lparr>re_state := (re_state e)\<lparr>es_disabled := False, es_disabled_reason := None\<rparr>\<rparr>
      else if \<not> es_disabled (re_state e)
      then e\<lparr>re_state := (re_state e)\<lparr>es_disabled := True,
             es_disabled_reason := Some ''disabled by getblock-only control''\<rparr>\<rparr>
      else e)"

definition keep_only_getblock_enabled :: "rpc_fleet \<Rightarrow> instant \<Rightarrow> rpc_fleet \<times> nat" where
  "keep_only_getblock_enabled f now =
     (invalidate_score_cache (f\<lparr>rf_endpoints := map getblock_only (rf_endpoints f)\<rparr>) now,
      length (filter (\<lambda>e. re_kind e \<noteq> RkGetBlock \<and> \<not> es_disabled (re_state e)) (rf_endpoints f)))"

text \<open>
  \<open>Duration::from_secs_f64\<close> rounds to the nearest nanosecond, ties to even; it panics on what is
  negative, not finite or too large.
\<close>

fun duration_from_secs_f64 :: "f64 \<Rightarrow> duration option" where
  "duration_from_secs_f64 (Fin s m e) =
     (if s \<and> m \<noteq> 0 then None
      else let d = (if 0 \<le> e then m * 2 ^ nat e * 1000000000 else rne (m * 1000000000) (2 ^ nat (- e)))
           in if d < 2 ^ 64 * 1000000000 then Some d else None)"
| "duration_from_secs_f64 x = None"

definition blended_latency :: "duration option \<Rightarrow> duration \<Rightarrow> duration option" where
  "blended_latency avg latency =
     (case avg of None \<Rightarrow> Some latency
      | Some previous \<Rightarrow> duration_from_secs_f64 (as_secs_f64 previous * dec 72 2 + as_secs_f64 latency * dec 28 2))"

definition success_state ::
  "instant \<Rightarrow> duration \<Rightarrow> u64 option \<Rightarrow> rpc_endpoint_state \<Rightarrow> rpc_endpoint_state" where
  "success_state now avg observed_block st0 =
     (let st = touch now st0
      in st\<lparr>es_avg_latency := Some avg,
            es_failures := sat_sub (es_failures st) 1,
            es_timeout_failures := sat_sub (es_timeout_failures st) 1,
            es_rate_limit_failures := sat_sub (es_rate_limit_failures st) 1,
            es_stale_failures := sat_sub (es_stale_failures st) 1,
            es_last_block := (case observed_block of Some b \<Rightarrow> Some b | None \<Rightarrow> es_last_block st),
            es_last_block_at := (case observed_block of Some b \<Rightarrow> Some now | None \<Rightarrow> es_last_block_at st),
            es_cooldown_until := (case es_cooldown_until st of
               Some until \<Rightarrow> if until \<le> now then None else Some until | None \<Rightarrow> None)\<rparr>)"

text \<open>\<open>rpc_record_success\<close> panics, as \<open>Inl\<close>, only in the conversion of the blended latency.\<close>

definition rpc_record_success ::
  "rpc_fleet \<Rightarrow> instant \<Rightarrow> nat \<Rightarrow> duration \<Rightarrow> u64 option \<Rightarrow> panic + rpc_fleet" where
  "rpc_record_success f now endpoint_id latency observed_block =
     (case find_endpoint endpoint_id (rf_endpoints f) of None \<Rightarrow> Inr f
      | Some e \<Rightarrow>
          (case blended_latency (es_avg_latency (re_state e)) latency of None \<Rightarrow> Inl IntegerOverflow
           | Some avg \<Rightarrow> Inr (invalidate_score_cache (f\<lparr>rf_endpoints :=
               update_endpoint endpoint_id (success_state now avg observed_block) (rf_endpoints f)\<rparr>) now)))"

definition failure_state :: "instant \<Rightarrow> rpc_failure_kind \<Rightarrow> rpc_endpoint_state \<Rightarrow> rpc_endpoint_state \<times> duration" where
  "failure_state now kind st0 =
     (let st1 = touch now st0;
          st = st1\<lparr>es_failures := sat_add (es_failures st1) 1\<rparr>
      in case kind of
           FkRateLimited \<Rightarrow>
             let n = sat_add (es_rate_limit_failures st) 1
             in (st\<lparr>es_rate_limit_failures := n\<rparr>, nanos_of_secs (2 ^ unat (min n 4) * 2))
         | FkCapacityExhausted \<Rightarrow>
             (st\<lparr>es_rate_limit_failures := sat_add (es_rate_limit_failures st) 10, es_disabled := True,
                 es_disabled_reason :=
                   Some ''provider monthly capacity exhausted; rotate key or re-enable manually''\<rparr>,
              nanos_of_secs (24 * 60 * 60))
         | FkTimeout \<Rightarrow>
             let n = sat_add (es_timeout_failures st) 1
             in (st\<lparr>es_timeout_failures := n\<rparr>, nanos_of_millis (400 * 2 ^ unat (min n 5)))
         | FkStale \<Rightarrow> (st\<lparr>es_stale_failures := sat_add (es_stale_failures st) 1\<rparr>, nanos_of_millis 900)
         | FkTransport \<Rightarrow> (st, nanos_of_millis 700)
         | FkRemote \<Rightarrow> (st, nanos_of_millis 500))"

definition apply_failure :: "instant \<Rightarrow> rpc_failure_kind \<Rightarrow> rpc_endpoint_state \<Rightarrow> rpc_endpoint_state" where
  "apply_failure now kind st0 =
     (case failure_state now kind st0 of (st, cooldown) \<Rightarrow>
        let until = now + min cooldown (nanos_of_secs 45)
        in st\<lparr>es_cooldown_until := Some (case es_cooldown_until st of
             Some existing \<Rightarrow> if until < existing then existing else until | None \<Rightarrow> until)\<rparr>)"

definition rpc_record_failure :: "rpc_fleet \<Rightarrow> instant \<Rightarrow> nat \<Rightarrow> rpc_failure_kind \<Rightarrow> rpc_fleet" where
  "rpc_record_failure f now endpoint_id kind =
     (case find_endpoint endpoint_id (rf_endpoints f) of None \<Rightarrow> f
      | Some e \<Rightarrow> invalidate_score_cache
          (f\<lparr>rf_endpoints := update_endpoint endpoint_id (apply_failure now kind) (rf_endpoints f)\<rparr>) now)"

definition classify_failure :: "string \<Rightarrow> rpc_failure_kind" where
  "classify_failure error =
     (let lower = to_ascii_lowercase error; has = (\<lambda>pat. str_contains pat lower)
      in if has ''monthly capacity limit exceeded'' \<or> has ''capacity limit exceeded'' \<or> has ''quota exceeded''
           \<or> has ''billing'' then FkCapacityExhausted
         else if has ''429'' \<or> has ''rate limit'' \<or> has ''too many requests'' \<or> has ''throughput limit''
         then FkRateLimited
         else if has ''timeout'' \<or> has ''timed out'' \<or> has ''deadline exceeded'' then FkTimeout
         else if has ''stale'' then FkStale
         else if has ''connection'' \<or> has ''socket'' \<or> has ''dns'' \<or> has ''econnreset'' \<or> has ''broken pipe''
           \<or> has ''eof while parsing'' \<or> has ''empty response'' \<or> has ''response:'' then FkTransport
         else FkRemote)"

definition reserve_burst_units :: "rpc_kind \<Rightarrow> u32 \<Rightarrow> instant \<Rightarrow> rpc_endpoint_state \<Rightarrow> rpc_endpoint_state" where
  "reserve_burst_units kind units now st0 =
     (let st1 = touch now st0;
          st = st1\<lparr>es_recent_burst_reservations := es_recent_burst_reservations st1
                     @ [\<lparr>br_reserved_at = now, br_units = units\<rparr>],
                   es_last_selected_at := Some now\<rparr>
      in if sat_mul (endpoint_burst_capacity_units kind True) 2 \<le> burst_load_units st now
         then st\<lparr>es_cooldown_until := Some (now + nanos_of_millis 900)\<rparr> else st)"

definition reserve_selection :: "rpc_fleet \<Rightarrow> instant \<Rightarrow> nat \<Rightarrow> bool \<Rightarrow> rpc_fleet" where
  "reserve_selection f now endpoint_id send_mode =
     (case find_endpoint endpoint_id (rf_endpoints f) of None \<Rightarrow> f
      | Some e \<Rightarrow> invalidate_score_cache (f\<lparr>rf_endpoints := update_endpoint endpoint_id
          (reserve_burst_units (re_kind e) (endpoint_burst_cost_units (re_kind e) send_mode) now)
          (rf_endpoints f)\<rparr>) now)"

definition reserve_read_selection :: "rpc_fleet \<Rightarrow> instant \<Rightarrow> nat \<Rightarrow> rpc_fleet" where
  "reserve_read_selection f now endpoint_id = reserve_selection f now endpoint_id False"

definition reserve_send_selection :: "rpc_fleet \<Rightarrow> instant \<Rightarrow> nat \<Rightarrow> rpc_fleet" where
  "reserve_send_selection f now endpoint_id = reserve_selection f now endpoint_id True"

section \<open>Scores\<close>

fun kind_bias :: "rpc_kind \<Rightarrow> bool \<Rightarrow> f64" where
  "kind_bias RkTenderly send_mode = (if send_mode then - dec 80 0 else - dec 120 0)"
| "kind_bias RkGetBlock send_mode = - dec 140 0"
| "kind_bias RkGeneric send_mode = - dec 20 0"
| "kind_bias RkAlchemy send_mode = (if send_mode then 0 else - dec 100 0)"
| "kind_bias RkInfura send_mode = (if send_mode then - dec 50 0 else 0)"

definition burst_penalty :: "libm \<Rightarrow> f64 \<Rightarrow> f64" where
  "burst_penalty lm burst_ratio =
     (if 1 \<le> burst_ratio then dec 25000 0 + (burst_ratio - 1) * dec 8000 0
      else m_powf lm burst_ratio (dec 22 1) * dec 2200 0)"

definition recency_penalty :: "instant \<Rightarrow> instant option \<Rightarrow> f64" where
  "recency_penalty now last_selected =
     (case last_selected of None \<Rightarrow> 0
      | Some at_time \<Rightarrow>
          let elapsed_ms = of_usize (as_millis (duration_since now at_time))
          in if elapsed_ms < dec 180 0 then (dec 180 0 - elapsed_ms) * dec 24 1 else 0)"

text \<open>\<open>endpoint_score\<close> without the cache, on the state it has just pruned and decayed.\<close>

definition endpoint_score :: "libm \<Rightarrow> rpc_kind \<Rightarrow> rpc_endpoint_state \<Rightarrow> instant \<Rightarrow> bool \<Rightarrow> f64 option" where
  "endpoint_score lm kind st now send_mode =
     (if es_disabled st then None
      else if cooling now st then None
      else
        let burst_ratio = of_uw (burst_load_units st now) / of_uw (max (endpoint_burst_capacity_units kind send_mode) 1);
            latency_ms = (case es_avg_latency st of Some value \<Rightarrow> as_secs_f64 value * dec 1000 0 | None \<Rightarrow> dec 120 0);
            failure_penalty = of_uw (min (es_failures st) 20) * dec 180 0;
            rate_limit_penalty = of_uw (min (es_rate_limit_failures st) 12) * dec 900 0;
            stale_penalty = (case es_last_block_at st of
               Some seen \<Rightarrow> if nanos_of_secs 30 < duration_since now seen then dec 500 0 else 0 | None \<Rightarrow> 0);
            infura_penalty = (if kind = RkInfura \<and> 0 < es_rate_limit_failures st then dec 2500 0 else 0)
        in Some (latency_ms + failure_penalty + rate_limit_penalty + stale_penalty + infura_penalty
             + burst_penalty lm burst_ratio + recency_penalty now (es_last_selected_at st) + kind_bias kind send_mode))"

definition recompute_scores :: "libm \<Rightarrow> rpc_fleet \<Rightarrow> instant \<Rightarrow> rpc_fleet" where
  "recompute_scores lm f now =
     (let endpoints = map (\<lambda>e. e\<lparr>re_state := touch now (re_state e)\<rparr>) (rf_endpoints f);
          scores = (\<lambda>send_mode. foldl (\<lambda>acc e. acc[re_id e := endpoint_score lm (re_kind e) (re_state e) now send_mode])
             (replicate (length endpoints) None) endpoints)
      in f\<lparr>rf_endpoints := endpoints,
           rf_score_cache := \<lparr>sc_updated_at = now, sc_read_scores = scores False, sc_send_scores = scores True\<rparr>\<rparr>)"

definition cached_score :: "rpc_fleet \<Rightarrow> nat \<Rightarrow> bool \<Rightarrow> f64 option" where
  "cached_score f endpoint_id send_mode =
     (let scores = (if send_mode then sc_send_scores (rf_score_cache f) else sc_read_scores (rf_score_cache f))
      in if endpoint_id < length scores then scores ! endpoint_id else None)"

definition cache_fresh :: "rpc_fleet \<Rightarrow> instant \<Rightarrow> bool" where
  "cache_fresh f now = (duration_since now (sc_updated_at (rf_score_cache f)) \<le> nanos_of_millis 500)"

definition get_cached_score ::
  "libm \<Rightarrow> rpc_fleet \<Rightarrow> instant \<Rightarrow> nat \<Rightarrow> bool \<Rightarrow> rpc_fleet \<times> f64 option" where
  "get_cached_score lm f now endpoint_id send_mode =
     (let f' = (if cache_fresh f now then f else recompute_scores lm f now)
      in (f', cached_score f' endpoint_id send_mode))"

section \<open>Selection\<close>

fun matches_preference :: "rpc_kind \<Rightarrow> rpc_preference \<Rightarrow> bool" where
  "matches_preference kind Auto = True"
| "matches_preference kind GetBlock = (kind = RkGetBlock)"
| "matches_preference kind Alchemy = (kind = RkAlchemy)"
| "matches_preference kind Infura = (kind = RkInfura)"

text \<open>The \<open>filter_map\<close> over the endpoints, whose closure may refresh the cache.\<close>

fun score_endpoints ::
  "libm \<Rightarrow> instant \<Rightarrow> bool \<Rightarrow> rpc_endpoint list \<Rightarrow> rpc_fleet \<Rightarrow> rpc_fleet \<times> (rpc_endpoint \<times> f64) list" where
  "score_endpoints lm now send_mode [] f = (f, [])"
| "score_endpoints lm now send_mode (e # es) f =
     (case get_cached_score lm f now (re_id e) send_mode of (f', sc) \<Rightarrow>
      case score_endpoints lm now send_mode es f' of (f'', xs) \<Rightarrow>
        (f'', (case sc of Some s \<Rightarrow> (e, s) # xs | None \<Rightarrow> xs)))"

definition read_healthy :: "rpc_kind \<Rightarrow> rpc_endpoint_state \<Rightarrow> instant \<Rightarrow> bool" where
  "read_healthy kind st now =
     (if es_disabled st \<or> cooling now st then False
      else es_failures st = 0 \<and> es_rate_limit_failures st = 0 \<and> es_timeout_failures st = 0
        \<and> es_stale_failures st = 0 \<and> burst_load_units st now < endpoint_burst_capacity_units kind False
        \<and> (case es_last_block_at st of Some seen \<Rightarrow> duration_since now seen \<le> nanos_of_secs 20 | None \<Rightarrow> True))"

definition endpoint_is_read_healthy :: "rpc_fleet \<Rightarrow> instant \<Rightarrow> nat \<Rightarrow> rpc_fleet \<times> bool" where
  "endpoint_is_read_healthy f now endpoint_id =
     (f\<lparr>rf_endpoints := update_endpoint endpoint_id (touch now) (rf_endpoints f)\<rparr>,
      (case find_endpoint endpoint_id (rf_endpoints f) of
         Some e \<Rightarrow> read_healthy (re_kind e) (touch now (re_state e)) now | None \<Rightarrow> False))"

fun keep_read_healthy ::
  "instant \<Rightarrow> (rpc_endpoint \<times> f64) list \<Rightarrow> rpc_fleet \<Rightarrow> rpc_fleet \<times> (rpc_endpoint \<times> f64) list" where
  "keep_read_healthy now [] f = (f, [])"
| "keep_read_healthy now ((e, s) # xs) f =
     (case endpoint_is_read_healthy f now (re_id e) of (f', ok) \<Rightarrow>
      case keep_read_healthy now xs f' of (f'', ys) \<Rightarrow> (f'', if ok then (e, s) # ys else ys))"

text \<open>\<open>partial_cmp(..).unwrap_or(Equal)\<close>: the left one stays first unless the right one is smaller.\<close>

definition sort_by_score :: "(rpc_endpoint \<times> f64) list \<Rightarrow> (rpc_endpoint \<times> f64) list" where
  "sort_by_score xs = sort_by (\<lambda>l r. \<not> snd r < snd l) xs"

definition to_handle :: "rpc_endpoint \<Rightarrow> rpc_handle" where
  "to_handle e = \<lparr>rh_id = re_id e, rh_name = re_name e, rh_url = re_url e\<rparr>"

text \<open>Preferred endpoints first; when none has a score, all of them.\<close>

definition scored_candidates ::
  "libm \<Rightarrow> rpc_fleet \<Rightarrow> instant \<Rightarrow> bool \<Rightarrow> rpc_fleet \<times> (rpc_endpoint \<times> f64) list" where
  "scored_candidates lm f now send_mode =
     (let preference = (if send_mode then rf_send_preference f else rf_read_preference f)
      in case score_endpoints lm now send_mode
                (filter (\<lambda>e. matches_preference (re_kind e) preference) (rf_endpoints f)) f of
           (f1, []) \<Rightarrow> score_endpoints lm now send_mode (rf_endpoints f1) f1
         | (f1, x # xs) \<Rightarrow> (f1, x # xs))"

definition healthy_candidates ::
  "libm \<Rightarrow> rpc_fleet \<Rightarrow> instant \<Rightarrow> (rpc_endpoint \<times> f64) list \<Rightarrow> rpc_fleet \<times> (rpc_endpoint \<times> f64) list" where
  "healthy_candidates lm f now candidates =
     (case keep_read_healthy now candidates f of
        (f1, x # xs) \<Rightarrow> (f1, x # xs)
      | (f1, []) \<Rightarrow>
          (case score_endpoints lm now False (rf_endpoints f1) f1 of (f2, scored) \<Rightarrow>
           case keep_read_healthy now scored f2 of (f3, any_healthy) \<Rightarrow>
             (f3, if any_healthy \<noteq> [] then sort_by_score any_healthy else candidates)))"

text \<open>\<open>rotate_env\<close> is the parsed value of \<open>RPC_READ_ROTATE_TOP_N\<close>, when there is one.\<close>

definition rotate_top_n :: "nat option \<Rightarrow> bool \<Rightarrow> nat \<Rightarrow> nat" where
  "rotate_top_n rotate_env send_mode n =
     (if send_mode then min n 2
      else min (min (max (case rotate_env of Some v \<Rightarrow> v | None \<Rightarrow> 1) 1) 6) n)"

definition rotate_candidates ::
  "nat \<Rightarrow> rpc_fleet \<Rightarrow> (rpc_endpoint \<times> f64) list \<Rightarrow> rpc_fleet \<times> (rpc_endpoint \<times> f64) list" where
  "rotate_candidates top_n f candidates =
     (if 1 < top_n
      then (f\<lparr>rf_rotation := rf_rotation f + 1\<rparr>,
            rotate (unat (rf_rotation f) mod top_n) (take top_n candidates) @ drop top_n candidates)
      else (f, candidates))"

definition select_candidates ::
  "libm \<Rightarrow> nat option \<Rightarrow> rpc_fleet \<Rightarrow> instant \<Rightarrow> bool \<Rightarrow> nat \<Rightarrow> rpc_fleet \<times> rpc_handle list" where
  "select_candidates lm rotate_env f now send_mode limit =
     (case scored_candidates lm f now send_mode of (f1, scored) \<Rightarrow>
      case (if send_mode then (f1, sort_by_score scored)
            else healthy_candidates lm f1 now (sort_by_score scored)) of (f2, candidates) \<Rightarrow>
      case rotate_candidates (rotate_top_n rotate_env send_mode (length candidates)) f2 candidates of
        (f3, rotated) \<Rightarrow> (f3, map (to_handle \<circ> fst) (take (max limit 1) rotated)))"

definition read_candidates :: "libm \<Rightarrow> nat option \<Rightarrow> rpc_fleet \<Rightarrow> instant \<Rightarrow> nat \<Rightarrow> rpc_fleet \<times> rpc_handle list" where
  "read_candidates lm rotate_env f now limit = select_candidates lm rotate_env f now False limit"

definition send_candidates :: "libm \<Rightarrow> rpc_fleet \<Rightarrow> instant \<Rightarrow> nat \<Rightarrow> rpc_fleet \<times> rpc_handle list" where
  "send_candidates lm f now limit = select_candidates lm None f now True limit"

definition endpoint_count :: "rpc_fleet \<Rightarrow> nat" where
  "endpoint_count f = length (rf_endpoints f)"

definition all_handles :: "rpc_fleet \<Rightarrow> rpc_handle list" where
  "all_handles f = map to_handle (rf_endpoints f)"

definition snapshot_endpoint :: "instant \<Rightarrow> rpc_endpoint \<Rightarrow> rpc_endpoint_snapshot" where
  "snapshot_endpoint now e =
     (let st = touch now (re_state e)
      in \<lparr>sn_id = re_id e, sn_name = re_name e, sn_url = re_url e, sn_kind = rpc_kind_as_str (re_kind e),
          sn_failures = es_failures st, sn_timeout_failures = es_timeout_failures st,
          sn_rate_limit_failures = es_rate_limit_failures st, sn_stale_failures = es_stale_failures st,
          sn_disabled = es_disabled st, sn_disabled_reason = es_disabled_reason st,
          sn_cooldown_remaining_secs = (case es_cooldown_until st of
             Some until \<Rightarrow> if now \<le> until then as_secs (until - now) else 0 | None \<Rightarrow> 0),
          sn_avg_latency_ms = map_option as_millis (es_avg_latency st), sn_last_block = es_last_block st,
          sn_block_age_secs = map_option (\<lambda>seen. as_secs (duration_since now seen)) (es_last_block_at st),
          sn_recent_burst_units = burst_load_units st now,
          sn_burst_capacity_units = endpoint_burst_capacity_units (re_kind e) False,
          sn_read_capacity_per_sec = endpoint_read_capacity_per_sec (re_kind e)\<rparr>)"

definition rpc_snapshot :: "rpc_fleet \<Rightarrow> instant \<Rightarrow> rpc_fleet \<times> rpc_endpoint_snapshot list" where
  "rpc_snapshot f now =
     (f\<lparr>rf_endpoints := map (\<lambda>e. e\<lparr>re_state := touch now (re_state e)\<rparr>) (rf_endpoints f)\<rparr>,
      map (snapshot_endpoint now) (rf_endpoints f))"

end
