(* ===== verification/RpcSafety.thy ===== *)
theory RpcSafety
  imports Rpc "HOL-Library.Sublist"
begin

text \<open>
  Correctness of the RPC fleet: along every sequence of calls the score cache agrees with the state of
  the endpoints, so that a selection returns only endpoints that are enabled and out of cooldown,
  although it reads cached scores; an available endpoint is found as soon as the cache has expired;
  cooldowns after failures are bounded and never shortened, burst reservations are counted exactly.
\<close>

section \<open>What a selection depends on\<close>

text \<open>
  The face of an endpoint: everything but its counters and reservations. Pruning and decay keep it.
\<close>

type_synonym face = "rpc_handle \<times> rpc_kind \<times> bool \<times> instant option"

definition face :: "rpc_endpoint \<Rightarrow> face" where
  "face e = (to_handle e, re_kind e, es_disabled (re_state e), es_cooldown_until (re_state e))"

definition faces :: "rpc_fleet \<Rightarrow> face list" where
  "faces f = map face (rf_endpoints f)"

definition available :: "instant \<Rightarrow> rpc_endpoint \<Rightarrow> bool" where
  "available now e = (\<not> es_disabled (re_state e) \<and> \<not> cooling now (re_state e))"

definition face_available :: "instant \<Rightarrow> face \<Rightarrow> bool" where
  "face_available now = (\<lambda>(h, k, d, c). \<not> d \<and> (case c of Some until \<Rightarrow> \<not> now < until | None \<Rightarrow> True))"

lemma available_face: "available now e = face_available now (face e)"
  by (auto simp: available_def face_available_def face_def cooling_def split: option.split)

lemma face_available_later: "face_available t x \<Longrightarrow> t \<le> now \<Longrightarrow> face_available now x"
  by (auto simp: face_available_def split: prod.splits option.splits)

lemma touch_simps [simp]:
  "es_disabled (touch now st) = es_disabled st" "es_cooldown_until (touch now st) = es_cooldown_until st"
  "es_last_block_at (touch now st) = es_last_block_at st" "es_avg_latency (touch now st) = es_avg_latency st"
  by (simp_all add: touch_def decay_failure_counters_def prune_burst_reservations_def Let_def)

lemma face_touch [simp]: "face (e\<lparr>re_state := touch now (re_state e)\<rparr>) = face e"
  by (simp add: face_def to_handle_def)

lemma map_face_touch [simp]: "map face (map (\<lambda>e. e\<lparr>re_state := touch now (re_state e)\<rparr>) es) = map face es"
  by (induction es) simp_all

lemma map_face_update_touch [simp]: "map face (update_endpoint i (touch now) es) = map face es"
  by (induction es) simp_all

lemma map_id_update [simp]: "map re_id (update_endpoint i g es) = map re_id es"
  by (induction es) simp_all

lemma find_update_None: "find_endpoint i es = None \<Longrightarrow> update_endpoint i g es = es"
  by (induction es) (auto split: if_splits)

lemma face_id: "map face es = map face es' \<Longrightarrow> map re_id es = map re_id es'"
proof -
  have "re_id e = rh_id (fst (face e))" for e by (simp add: face_def to_handle_def)
  then have "map re_id xs = map (rh_id \<circ> fst) (map face xs)" for xs by simp
  then show "map face es = map face es' \<Longrightarrow> map re_id es = map re_id es'" by metis
qed

section \<open>The cache\<close>

definition fleet_ids :: "rpc_fleet \<Rightarrow> bool" where
  "fleet_ids f = (map re_id (rf_endpoints f) = [0..<length (rf_endpoints f)])"

definition coherent :: "rpc_fleet \<Rightarrow> instant \<Rightarrow> bool" where
  "coherent f t = (sc_updated_at (rf_score_cache f) \<le> t \<and> (cache_fresh f t \<longrightarrow>
     (\<forall>x \<in> set (faces f). \<forall>m. cached_score f (rh_id (fst x)) m \<noteq> None \<longrightarrow>
        face_available (sc_updated_at (rf_score_cache f)) x)))"

lemma coherent_later: "coherent f t \<Longrightarrow> t \<le> now \<Longrightarrow> coherent f now"
  by (auto simp: coherent_def cache_fresh_def duration_since_def)

lemma update_scores:
  "map re_id es = [k..<k + length es] \<Longrightarrow> k + length es \<le> length acc \<Longrightarrow>
   foldl (\<lambda>acc e. acc[re_id e := g e]) acc es = take k acc @ map g es @ drop (k + length es) acc"
proof (induction es arbitrary: k acc)
  case Nil
  then show ?case by simp
next
  case (Cons e es)
  have u: "[k..<k + length (e # es)] = k # [Suc k..<Suc k + length es]"
    using upt_conv_Cons [of k "k + length (e # es)"] by (simp del: upt_Suc)
  have k: "re_id e = k" "map re_id es = [Suc k..<Suc k + length es]"
    using Cons.prems(1) unfolding u by simp_all
  have "foldl (\<lambda>acc e. acc[re_id e := g e]) (acc[k := g e]) es
      = take (Suc k) (acc[k := g e]) @ map g es @ drop (Suc k + length es) (acc[k := g e])"
    using Cons.IH [OF k(2), of "acc[k := g e]"] Cons.prems(2) by simp
  moreover have "take (Suc k) (acc[k := g e]) = take k acc @ [g e]"
    using Cons.prems(2) by (simp add: take_Suc_conv_app_nth)
  ultimately show ?case using Cons.prems(2) by (simp add: k(1))
qed

lemma recompute_scores_cached:
  assumes "fleet_ids f" "i < length (rf_endpoints f)"
  shows "cached_score (recompute_scores lm f now) i m
    = (let e = rf_endpoints f ! i in endpoint_score lm (re_kind e) (touch now (re_state e)) now m)"
proof -
  let ?es = "map (\<lambda>e. e\<lparr>re_state := touch now (re_state e)\<rparr>) (rf_endpoints f)"
  have ids: "map re_id ?es = [0..<0 + length ?es]" using assms(1) by (simp add: fleet_ids_def comp_def)
  have "foldl (\<lambda>acc e. acc[re_id e := endpoint_score lm (re_kind e) (re_state e) now md])
      (replicate (length ?es) None) ?es = map (\<lambda>e. endpoint_score lm (re_kind e) (re_state e) now md) ?es" for md
    using update_scores [OF ids, of "replicate (length ?es) None"
        "\<lambda>e. endpoint_score lm (re_kind e) (re_state e) now md"] by simp
  from this [of True] this [of False] assms(2) show ?thesis
    unfolding recompute_scores_def cached_score_def Let_def by simp
qed

lemma recompute_frame [simp]:
  "faces (recompute_scores lm f now) = faces f"
  "length (rf_endpoints (recompute_scores lm f now)) = length (rf_endpoints f)"
  "sc_updated_at (rf_score_cache (recompute_scores lm f now)) = now"
  "cache_fresh (recompute_scores lm f now) now"
  by (simp_all add: recompute_scores_def faces_def Let_def cache_fresh_def duration_since_def nanos_of_millis_def
      del: map_map)

lemma faces_ids: "faces f' = faces f \<Longrightarrow> fleet_ids f \<Longrightarrow> fleet_ids f'"
  unfolding faces_def fleet_ids_def using face_id map_eq_imp_length_eq by metis

lemma endpoint_score_available: "endpoint_score lm k st now m \<noteq> None \<longleftrightarrow> \<not> es_disabled st \<and> \<not> cooling now st"
  by (simp add: endpoint_score_def Let_def)

lemma cached_some_index:
  "fleet_ids f \<Longrightarrow> x \<in> set (faces f) \<Longrightarrow>
   \<exists>i < length (rf_endpoints f). rh_id (fst x) = i \<and> x = face (rf_endpoints f ! i)"
proof -
  assume ids: "fleet_ids f" and "x \<in> set (faces f)"
  then obtain i where i: "i < length (rf_endpoints f)" "x = face (rf_endpoints f ! i)"
    by (auto simp: faces_def in_set_conv_nth)
  have "re_id (rf_endpoints f ! i) = i"
    using ids i(1) by (metis add_0 fleet_ids_def length_map nth_map nth_upt)
  then show ?thesis using i by (auto simp: face_def to_handle_def)
qed

lemma recompute_coherent:
  assumes "fleet_ids f"
  shows "coherent (recompute_scores lm f now) now"
  unfolding coherent_def recompute_frame
proof (intro conjI impI ballI allI)
  fix x m
  assume x: "x \<in> set (faces f)" and s: "cached_score (recompute_scores lm f now) (rh_id (fst x)) m \<noteq> None"
  obtain i where i: "i < length (rf_endpoints f)" "rh_id (fst x) = i" "x = face (rf_endpoints f ! i)"
    using cached_some_index [OF assms x] by blast
  have "available now (rf_endpoints f ! i)"
    using s unfolding i(2) recompute_scores_cached [OF assms i(1)] Let_def endpoint_score_available
    by (simp add: available_def cooling_def)
  then show "face_available now x" by (simp add: i(3) available_face)
qed simp_all

definition refreshed :: "libm \<Rightarrow> rpc_fleet \<Rightarrow> instant \<Rightarrow> rpc_fleet" where
  "refreshed lm f now = (if cache_fresh f now then f else recompute_scores lm f now)"

lemma refreshed_frame [simp]:
  "faces (refreshed lm f now) = faces f" "cache_fresh (refreshed lm f now) now"
  by (simp_all add: refreshed_def)

lemma refreshed_idem [simp]: "refreshed lm (refreshed lm f now) now = refreshed lm f now"
  by (simp add: refreshed_def)

lemma refreshed_coherent: "fleet_ids f \<Longrightarrow> coherent f t \<Longrightarrow> t \<le> now \<Longrightarrow> coherent (refreshed lm f now) now"
  by (simp add: refreshed_def coherent_later recompute_coherent)

lemma get_cached_score_eq:
  "get_cached_score lm f now i m = (refreshed lm f now, cached_score (refreshed lm f now) i m)"
  by (simp add: get_cached_score_def refreshed_def Let_def)

lemma score_endpoints_fresh:
  assumes "refreshed lm f now = f"
  shows "score_endpoints lm now m es f
    = (f, List.map_filter (\<lambda>e. map_option (Pair e) (cached_score f (re_id e) m)) es)"
proof (induction es)
  case Nil
  then show ?case by (simp add: List.map_filter_def)
next
  case (Cons e es)
  then show ?case
    by (simp add: get_cached_score_eq assms List.map_filter_def split: option.split)
qed

lemma score_endpoints_eq:
  "es \<noteq> [] \<Longrightarrow> score_endpoints lm now m es f = (refreshed lm f now,
     List.map_filter (\<lambda>e. map_option (Pair e) (cached_score (refreshed lm f now) (re_id e) m)) es)"
proof (cases es)
  case (Cons e rest)
  have "refreshed lm (refreshed lm f now) now = refreshed lm f now" by simp
  from score_endpoints_fresh [OF this, of m rest] show ?thesis
    by (simp add: Cons get_cached_score_eq List.map_filter_def split: option.split)
qed simp

text \<open>A list of candidates drawn from the faces of a fleet, all of them available.\<close>

definition sound_candidates :: "rpc_fleet \<Rightarrow> instant \<Rightarrow> (rpc_endpoint \<times> f64) list \<Rightarrow> bool" where
  "sound_candidates f now xs = (distinct (map (re_id \<circ> fst) xs)
     \<and> (\<forall>x \<in> set xs. \<exists>y \<in> set (faces f). to_handle (fst x) = fst y \<and> face_available now y))"

lemma map_filter_fst:
  "map fst (List.map_filter (\<lambda>e. map_option (Pair e) (g e)) es) = filter (\<lambda>e. g e \<noteq> None) es"
  by (induction es) (auto simp: List.map_filter_def split: option.split)

lemma map_filter_sound:
  assumes "coherent f now" "cache_fresh f now" "map face es = faces f" "fleet_ids f"
  shows "sound_candidates f now
    (List.map_filter (\<lambda>e. map_option (Pair e) (cached_score f (re_id e) m)) (filter P es))"
    (is "sound_candidates f now ?xs")
proof -
  have ids: "map re_id es = [0..<length (rf_endpoints f)]"
    using assms(3,4) face_id unfolding fleet_ids_def faces_def by metis
  have fst: "map fst ?xs = filter (\<lambda>e. cached_score f (re_id e) m \<noteq> None) (filter P es)" by (rule map_filter_fst)
  have "distinct (map re_id (map fst ?xs))"
    unfolding fst using ids by (metis distinct_map_filter distinct_upt)
  then have d: "distinct (map (re_id \<circ> fst) ?xs)" by simp
  have "\<exists>y \<in> set (faces f). to_handle (fst x) = fst y \<and> face_available now y" if "x \<in> set ?xs" for x
  proof -
    have "fst x \<in> set (map fst ?xs)" using that by simp
    then have x: "fst x \<in> set es" "cached_score f (re_id (fst x)) m \<noteq> None" unfolding fst by auto
    then have m: "face (fst x) \<in> set (faces f)" unfolding assms(3) [symmetric] by simp
    have "rh_id (fst (face (fst x))) = re_id (fst x)" by (simp add: face_def to_handle_def)
    then have "face_available (sc_updated_at (rf_score_cache f)) (face (fst x))"
      using assms(1,2) m x(2) by (auto simp: coherent_def)
    then have "face_available now (face (fst x))"
      using face_available_later assms(1) by (auto simp: coherent_def)
    then show ?thesis using m by (intro bexI [of _ "face (fst x)"]) (auto simp: face_def)
  qed
  then show ?thesis using d by (simp add: sound_candidates_def)
qed

lemma coherent_cong:
  "faces f' = faces f \<Longrightarrow> rf_score_cache f' = rf_score_cache f \<Longrightarrow> coherent f' t = coherent f t"
  by (simp add: coherent_def cache_fresh_def cached_score_def)

lemma sound_faces: "faces f' = faces f \<Longrightarrow> sound_candidates f' now xs = sound_candidates f now xs"
  by (simp add: sound_candidates_def)

lemma sound_mset:
  assumes "mset ys = mset xs"
  shows "sound_candidates f now ys = sound_candidates f now xs"
proof -
  have "mset (map (re_id \<circ> fst) ys) = mset (map (re_id \<circ> fst) xs)" using assms by (metis mset_map)
  then have "distinct (map (re_id \<circ> fst) ys) = distinct (map (re_id \<circ> fst) xs)"
    by (metis mset_eq_imp_distinct_iff)
  moreover have "set ys = set xs" using assms by (metis set_mset_mset)
  ultimately show ?thesis by (simp add: sound_candidates_def)
qed

text \<open>What each stage of a selection keeps: the faces, the coherence of the cache and sound candidates.\<close>

definition stage_ok :: "rpc_fleet \<Rightarrow> instant \<Rightarrow> rpc_fleet \<times> (rpc_endpoint \<times> f64) list \<Rightarrow> bool" where
  "stage_ok f now r = (faces (fst r) = faces f \<and> coherent (fst r) now \<and> sound_candidates f now (snd r))"

lemma keep_read_healthy_frame:
  "keep_read_healthy now xs f = (f', ys) \<Longrightarrow>
   faces f' = faces f \<and> rf_score_cache f' = rf_score_cache f \<and> subseq ys xs"
proof (induction xs arbitrary: f f' ys)
  case (Cons x xs)
  obtain e s where x: "x = (e, s)" by (meson surj_pair)
  obtain f1 ok where h: "endpoint_is_read_healthy f now (re_id e) = (f1, ok)" by (meson surj_pair)
  obtain f2 zs where k: "keep_read_healthy now xs f1 = (f2, zs)" by (meson surj_pair)
  have f1: "faces f1 = faces f" "rf_score_cache f1 = rf_score_cache f"
    using h by (auto simp: endpoint_is_read_healthy_def faces_def)
  have "f' = f2" "ys = (if ok then x # zs else zs)" using Cons.prems by (auto simp: x h k)
  then show ?case using Cons.IH [OF k] f1 by (simp add: list_emb_Cons)
qed simp

lemma sound_subseq:
  assumes "sound_candidates f now xs" "subseq ys xs"
  shows "sound_candidates f now ys"
proof -
  have "distinct (map (re_id \<circ> fst) ys)"
    using assms by (auto simp: sound_candidates_def subseq_conv_nths nths_map [symmetric] distinct_nthsI)
  moreover have "set ys \<subseteq> set xs" using assms(2) set_nths_subset by (metis subseq_conv_nths)
  ultimately show ?thesis using assms(1) by (auto simp: sound_candidates_def)
qed

lemma keep_read_healthy_stage:
  assumes "stage_ok f now (f1, xs)"
  shows "stage_ok f now (keep_read_healthy now xs f1)"
proof -
  obtain f2 ys where k: "keep_read_healthy now xs f1 = (f2, ys)" by (meson surj_pair)
  have fr: "faces f2 = faces f1" "rf_score_cache f2 = rf_score_cache f1" "subseq ys xs"
    using keep_read_healthy_frame [OF k] by blast+
  have st: "faces f1 = faces f" "coherent f1 now" "sound_candidates f now xs"
    using assms by (simp_all add: stage_ok_def)
  have "coherent f2 now" using coherent_cong [OF fr(1,2)] st(2) by simp
  then show ?thesis using sound_subseq [OF st(3) fr(3)] st(1) fr(1) by (simp only: stage_ok_def k fst_conv snd_conv)
qed

lemma score_endpoints_stage:
  assumes "fleet_ids f" "coherent f1 t" "t \<le> now" "faces f1 = faces f" "map face es = faces f"
  shows "stage_ok f now (score_endpoints lm now m (filter P es) f1)"
proof (cases "filter P es = []")
  case True
  then show ?thesis using assms coherent_later
    by (auto simp: stage_ok_def sound_candidates_def)
next
  case False
  let ?f = "refreshed lm f1 now"
  have ids: "fleet_ids f1" by (rule faces_ids [OF assms(4,1)])
  have c: "coherent ?f now" by (rule refreshed_coherent [OF ids assms(2,3)])
  have fa: "faces ?f = faces f" by (simp add: assms(4))
  have "sound_candidates ?f now (List.map_filter (\<lambda>e. map_option (Pair e) (cached_score ?f (re_id e) m)) (filter P es))"
    using c fa assms(5) faces_ids [OF fa assms(1)] by (intro map_filter_sound) simp_all
  then show ?thesis
    using c fa sound_faces [OF fa] by (simp add: stage_ok_def score_endpoints_eq [OF False])
qed

lemma scored_candidates_stage:
  assumes "fleet_ids f" "coherent f t" "t \<le> now"
  shows "stage_ok f now (scored_candidates lm f now m)"
proof -
  let ?P = "\<lambda>e. matches_preference (re_kind e) (if m then rf_send_preference f else rf_read_preference f)"
  obtain f1 xs where s: "score_endpoints lm now m (filter ?P (rf_endpoints f)) f = (f1, xs)" by (meson surj_pair)
  have 1: "stage_ok f now (f1, xs)"
    using score_endpoints_stage [OF assms refl, of "rf_endpoints f" lm m ?P] s by (simp add: faces_def)
  have "stage_ok f now (score_endpoints lm now m (filter (\<lambda>_. True) (rf_endpoints f1)) f1)"
    using 1 by (intro score_endpoints_stage [OF assms(1), where t = now]) (auto simp: stage_ok_def faces_def)
  then show ?thesis using 1 s by (cases xs) (simp_all add: scored_candidates_def Let_def)
qed

lemma stage_sort: "stage_ok f now (f1, xs) \<Longrightarrow> stage_ok f now (f1, sort_by_score xs)"
  using sound_mset [of "sort_by_score xs" xs] by (simp add: stage_ok_def sort_by_score_def)

lemma healthy_candidates_stage:
  assumes "fleet_ids f" "stage_ok f now (f1, xs)"
  shows "stage_ok f now (healthy_candidates lm f1 now xs)"
proof -
  obtain f2 ys where k: "keep_read_healthy now xs f1 = (f2, ys)" by (meson surj_pair)
  have 2: "stage_ok f now (f2, ys)" using keep_read_healthy_stage [OF assms(2)] k by simp
  obtain f3 zs where s: "score_endpoints lm now False (rf_endpoints f2) f2 = (f3, zs)" by (meson surj_pair)
  have "stage_ok f now (score_endpoints lm now False (filter (\<lambda>_. True) (rf_endpoints f2)) f2)"
    using 2 by (intro score_endpoints_stage [OF assms(1), where t = now]) (auto simp: stage_ok_def faces_def)
  then have 3: "stage_ok f now (f3, zs)" using s by simp
  obtain f4 ws where h: "keep_read_healthy now zs f3 = (f4, ws)" by (meson surj_pair)
  have 4: "stage_ok f now (f4, ws)" using keep_read_healthy_stage [OF 3] h by simp
  have 5: "stage_ok f now (f4, xs)" using 4 assms(2) by (simp add: stage_ok_def)
  show ?thesis
    using 2 stage_sort [OF 4] 5 by (cases ys) (simp_all add: healthy_candidates_def k s h)
qed

lemma select_stage:
  assumes "fleet_ids f" "coherent f t" "t \<le> now"
  shows "\<exists>f2 cs. stage_ok f now (f2, cs)
    \<and> snd (select_candidates lm env f now m limit)
        = map (to_handle \<circ> fst) (take (max limit 1) (snd (rotate_candidates (rotate_top_n env m (length cs)) f2 cs)))
    \<and> fst (select_candidates lm env f now m limit) = fst (rotate_candidates (rotate_top_n env m (length cs)) f2 cs)"
proof -
  obtain f1 xs where s: "scored_candidates lm f now m = (f1, xs)" by (meson surj_pair)
  have 1: "stage_ok f now (f1, sort_by_score xs)"
    using stage_sort scored_candidates_stage [OF assms, of lm m] s by simp
  obtain f2 cs where c: "(if m then (f1, sort_by_score xs) else healthy_candidates lm f1 now (sort_by_score xs)) = (f2, cs)"
    by (meson surj_pair)
  have "stage_ok f now (f2, cs)"
    using 1 healthy_candidates_stage [OF assms(1) 1, of lm] c by (cases m) simp_all
  moreover obtain f3 rs where "rotate_candidates (rotate_top_n env m (length cs)) f2 cs = (f3, rs)" by (meson surj_pair)
  ultimately show ?thesis
    by (intro exI [of _ f2] exI [of _ cs]) (simp add: select_candidates_def s c)
qed

lemma rotate_mset: "mset (snd (rotate_candidates n f cs)) = mset cs"
proof -
  have "mset (rotate1 xs) = mset xs" for xs :: "(rpc_endpoint \<times> f64) list" by (cases xs) simp_all
  then have "mset (rotate k xs) = mset xs" for k and xs :: "(rpc_endpoint \<times> f64) list"
    by (induction k) simp_all
  then have "mset (rotate k (take n cs) @ drop n cs) = mset (take n cs @ drop n cs)" for k
    by (simp only: mset_append)
  then show ?thesis by (simp add: rotate_candidates_def)
qed

lemma rotate_frame: "faces (fst (rotate_candidates n f cs)) = faces f"
  "rf_score_cache (fst (rotate_candidates n f cs)) = rf_score_cache f"
  by (simp_all add: rotate_candidates_def faces_def)

lemma select_sound:
  assumes "fleet_ids f" "coherent f t" "t \<le> now" "select_candidates lm env f now m limit = (f', hs)"
  shows "faces f' = faces f" "coherent f' now" "distinct (map rh_id hs)" "length hs \<le> max limit 1"
    "h \<in> set hs \<Longrightarrow> \<exists>y \<in> set (faces f). h = fst y \<and> face_available now y"
proof -
  obtain f2 cs where st: "stage_ok f now (f2, cs)"
    and hs: "hs = map (to_handle \<circ> fst) (take (max limit 1) (snd (rotate_candidates (rotate_top_n env m (length cs)) f2 cs)))"
    and f': "f' = fst (rotate_candidates (rotate_top_n env m (length cs)) f2 cs)"
    using select_stage [OF assms(1-3), of lm env m limit] assms(4) by auto
  let ?rs = "snd (rotate_candidates (rotate_top_n env m (length cs)) f2 cs)"
  have st': "faces f2 = faces f" "coherent f2 now" "sound_candidates f now ?rs"
    using st sound_mset [OF rotate_mset] by (simp_all add: stage_ok_def)
  show "faces f' = faces f" by (simp add: f' rotate_frame st')
  show "coherent f' now" unfolding f' using coherent_cong [OF rotate_frame] st'(2) by blast
  have "map rh_id hs = take (max limit 1) (map (re_id \<circ> fst) ?rs)"
    by (simp add: hs take_map to_handle_def)
  then show "distinct (map rh_id hs)" using st'(3) by (simp add: sound_candidates_def)
  show "length hs \<le> max limit 1" by (simp add: hs)
  show "\<exists>y \<in> set (faces f). h = fst y \<and> face_available now y" if "h \<in> set hs"
  proof -
    from that obtain x where "x \<in> set ?rs" "h = to_handle (fst x)"
      unfolding hs by (auto dest: in_set_takeD)
    then show ?thesis using st'(3) by (auto simp: sound_candidates_def)
  qed
qed

section \<open>Runs of the fleet\<close>

inductive fleet_step :: "libm \<Rightarrow> rpc_fleet \<times> instant \<Rightarrow> rpc_fleet \<times> instant \<Rightarrow> bool" for lm where
  fleet_select: "t \<le> now \<Longrightarrow> select_candidates lm env f now m limit = (f', hs) \<Longrightarrow> fleet_step lm (f, t) (f', now)"
| fleet_success: "t \<le> now \<Longrightarrow> rpc_record_success f now i latency block = Inr f' \<Longrightarrow> fleet_step lm (f, t) (f', now)"
| fleet_failure: "t \<le> now \<Longrightarrow> fleet_step lm (f, t) (rpc_record_failure f now i kind, now)"
| fleet_reserve: "t \<le> now \<Longrightarrow> fleet_step lm (f, t) (reserve_selection f now i m, now)"
| fleet_enable: "t \<le> now \<Longrightarrow> set_endpoint_enabled f now i on reason = Inr f' \<Longrightarrow> fleet_step lm (f, t) (f', now)"
| fleet_getblock: "t \<le> now \<Longrightarrow> fleet_step lm (f, t) (fst (keep_only_getblock_enabled f now), now)"
| fleet_snapshot: "t \<le> now \<Longrightarrow> fleet_step lm (f, t) (fst (rpc_snapshot f now), now)"

inductive fleet_reachable :: "libm \<Rightarrow> rpc_fleet \<times> instant \<Rightarrow> bool" for lm where
  fleet_new: "rpc_fleet_from_config url_error urls cfg t = Inr f \<Longrightarrow> fleet_reachable lm (f, t)"
| fleet_more: "fleet_reachable lm s \<Longrightarrow> fleet_step lm s s' \<Longrightarrow> fleet_reachable lm s'"

definition fleet_ok :: "rpc_fleet \<times> instant \<Rightarrow> bool" where
  "fleet_ok s = (fleet_ids (fst s) \<and> coherent (fst s) (snd s))"

lemma invalidate_ok: "fleet_ids f \<Longrightarrow> fleet_ok (invalidate_score_cache f now, now)"
  by (simp add: fleet_ok_def fleet_ids_def coherent_def invalidate_score_cache_def cache_fresh_def
      duration_since_def nanos_of_secs_def nanos_of_millis_def)

lemma update_ids: "fleet_ids f \<Longrightarrow> fleet_ids (f\<lparr>rf_endpoints := update_endpoint i g (rf_endpoints f)\<rparr>)"
  unfolding fleet_ids_def using map_id_update [of i g "rf_endpoints f"]
  by (simp del: map_id_update) (metis length_map)

lemma getblock_ids: "map re_id (map getblock_only es) = map re_id es"
  by (induction es) (simp_all add: getblock_only_def)

lemma fleet_step_ok: "fleet_step lm s s' \<Longrightarrow> fleet_ok s \<Longrightarrow> fleet_ok s'"
proof (induction rule: fleet_step.induct)
  case (fleet_select t now env f m limit f' hs)
  then have "fleet_ids f" "coherent f t" by (simp_all add: fleet_ok_def)
  note sel = select_sound [OF this fleet_select.hyps]
  show ?case using sel(1,2) faces_ids [OF sel(1)] fleet_select.prems by (simp add: fleet_ok_def)
next
  case (fleet_success t now f i latency block f')
  then show ?case using invalidate_ok update_ids coherent_later
    by (auto simp: rpc_record_success_def fleet_ok_def split: option.splits)
next
  case (fleet_failure t now f i kind)
  then show ?case using invalidate_ok update_ids coherent_later
    by (auto simp: rpc_record_failure_def fleet_ok_def split: option.splits)
next
  case (fleet_reserve t now f i m)
  then show ?case using invalidate_ok update_ids coherent_later
    by (auto simp: reserve_selection_def fleet_ok_def split: option.splits)
next
  case (fleet_enable t now f i on reason f')
  then show ?case using invalidate_ok update_ids
    by (auto simp: set_endpoint_enabled_def fleet_ok_def split: option.splits)
next
  case (fleet_getblock t now f)
  have "fleet_ids (f\<lparr>rf_endpoints := map getblock_only (rf_endpoints f)\<rparr>)"
    using fleet_getblock getblock_ids by (simp add: fleet_ok_def fleet_ids_def del: map_map)
  then show ?case using invalidate_ok by (simp add: keep_only_getblock_enabled_def)
next
  case (fleet_snapshot t now f)
  have fa: "faces (fst (rpc_snapshot f now)) = faces f" by (simp add: rpc_snapshot_def faces_def del: map_map)
  have "rf_score_cache (fst (rpc_snapshot f now)) = rf_score_cache f" by (simp add: rpc_snapshot_def)
  from coherent_cong [OF fa this] faces_ids [OF fa] fleet_snapshot coherent_later show ?case
    by (auto simp: fleet_ok_def)
qed

lemma build_endpoints_ids:
  "build_endpoints url_error now idx urls = Inr es \<Longrightarrow> map re_id es = [idx..<idx + length es]"
proof (induction urls arbitrary: idx es)
  case (Cons u urls)
  obtain name url where u: "u = (name, url)" by (meson surj_pair)
  from Cons.prems obtain e rest where r: "build_endpoints url_error now (Suc idx) urls = Inr rest"
      "es = e # rest" "re_id e = idx"
    by (auto simp: u and_then_eq_Inr split: option.splits)
  have "[idx..<idx + length es] = idx # [Suc idx..<Suc idx + length rest]"
    using upt_conv_Cons [of idx "idx + length es"] by (simp add: r(2) del: upt_Suc)
  then show ?case using Cons.IH [OF r(1)] r by simp
qed simp

lemma fleet_reachable_ok: "fleet_reachable lm s \<Longrightarrow> fleet_ok s"
proof (induction rule: fleet_reachable.induct)
  case (fleet_new url_error urls cfg t f)
  then obtain es where es: "build_endpoints url_error t 0 urls = Inr es" "rf_endpoints f = es"
    "sc_updated_at (rf_score_cache f) = t - nanos_of_secs 1"
    by (auto simp: rpc_fleet_from_config_def and_then_eq_Inr split: if_splits)
  show ?case using build_endpoints_ids [OF es(1)]
    by (simp add: fleet_ok_def fleet_ids_def es coherent_def cache_fresh_def duration_since_def
        nanos_of_secs_def nanos_of_millis_def)
next
  case (fleet_more s s')
  then show ?case using fleet_step_ok by blast
qed

lemma faces_available: "(\<exists>y \<in> set (faces f). h = fst y \<and> face_available now y)
    = (\<exists>e \<in> set (rf_endpoints f). h = to_handle e \<and> available now e)"
  by (auto simp: faces_def available_face face_def)

lemma reached_selection:
  assumes "fleet_reachable lm (f, t)" "t \<le> now" "select_candidates lm env f now m limit = (f', hs)"
  shows "(\<forall>h \<in> set hs. \<exists>e \<in> set (rf_endpoints f). h = to_handle e \<and> available now e)
    \<and> distinct (map rh_id hs) \<and> length hs \<le> max limit 1"
proof -
  have "fleet_ids f" "coherent f t" using fleet_reachable_ok [OF assms(1)] by (simp_all add: fleet_ok_def)
  from select_sound [OF this assms(2,3)] show ?thesis unfolding faces_available by blast
qed

text \<open>
  C17: as long as the calls on the fleet do not overlap in time, whatever calls came before, a selection
  returns only endpoints that are enabled and not in cooldown at that instant, although it reads scores
  cached up to half a second earlier; it returns no endpoint twice and at most the number asked for (one
  when asked for none). \<open>overlapping_refresh_serves_cooling\<close> below shows what happens when they do overlap.
\<close>

theorem selection_only_available:
  assumes "fleet_reachable lm (f, t)" "t \<le> now" "select_candidates lm env f now m limit = (f', hs)"
  shows "(\<forall>h \<in> set hs. \<exists>e \<in> set (rf_endpoints f). h = to_handle e \<and> available now e)
    \<and> distinct (map rh_id hs) \<and> length hs \<le> max limit 1"
  by (rule reached_selection [OF assms])

text \<open>
  \<open>recompute_scores\<close> locks one endpoint after the other and the cache only at the end. A call \<open>g\<close> of
  another worker that runs between the two invalidates a cache that is then overwritten by older scores.
\<close>

definition overlapped_refresh :: "libm \<Rightarrow> rpc_fleet \<Rightarrow> instant \<Rightarrow> (rpc_fleet \<Rightarrow> rpc_fleet) \<Rightarrow> rpc_fleet" where
  "overlapped_refresh lm f now g =
     (let scored = recompute_scores lm f now in (g scored)\<lparr>rf_score_cache := rf_score_cache scored\<rparr>)"

lemma map_filter_nonempty:
  "e \<in> set es \<Longrightarrow> g e \<noteq> None \<Longrightarrow> List.map_filter (\<lambda>e. map_option (Pair e) (g e)) es \<noteq> []"
  by (auto simp: List.map_filter_def filter_empty_conv)

lemma score_endpoints_finds:
  assumes "e \<in> set es" "cached_score (refreshed lm f now) (re_id e) m \<noteq> None"
  shows "snd (score_endpoints lm now m es f) \<noteq> []"
proof -
  have "es \<noteq> []" using assms(1) by auto
  then show ?thesis
    using map_filter_nonempty [of e es "\<lambda>e. cached_score (refreshed lm f now) (re_id e) m"] assms
    by (simp add: score_endpoints_eq)
qed

lemma score_endpoints_refreshed: "fst (score_endpoints lm now m es f) \<in> {f, refreshed lm f now}"
  by (cases "es = []") (simp_all add: score_endpoints_eq)

lemma scored_candidates_finds:
  assumes "e \<in> set (rf_endpoints f)" "cached_score (refreshed lm f now) (re_id e) m \<noteq> None"
  shows "snd (scored_candidates lm f now m) \<noteq> []"
proof -
  let ?es = "filter (\<lambda>e. matches_preference (re_kind e) (if m then rf_send_preference f else rf_read_preference f)) (rf_endpoints f)"
  obtain f1 xs where s: "score_endpoints lm now m ?es f = (f1, xs)" by (meson surj_pair)
  have f1: "refreshed lm f1 now = refreshed lm f now" "faces f1 = faces f"
    using score_endpoints_refreshed [of lm now m ?es f] by (auto simp: s)
  obtain e' where e': "e' \<in> set (rf_endpoints f1)" "re_id e' = re_id e"
    using assms(1) face_id [of "rf_endpoints f1" "rf_endpoints f"] f1(2)
    by (metis (no_types, lifting) faces_def image_iff image_set)
  have "snd (score_endpoints lm now m (rf_endpoints f1) f1) \<noteq> []"
    by (rule score_endpoints_finds [OF e'(1)]) (simp add: e'(2) f1(1) assms(2))
  then show ?thesis by (cases xs) (simp_all add: scored_candidates_def s)
qed

lemma sort_by_score_Nil: "sort_by_score xs = [] \<longleftrightarrow> xs = []"
  by (metis length_0_conv length_sort_by sort_by_score_def)

lemma healthy_candidates_nonempty: "xs \<noteq> [] \<Longrightarrow> snd (healthy_candidates lm f now xs) \<noteq> []"
  by (simp add: healthy_candidates_def sort_by_score_Nil split: prod.split list.split)

lemma select_nonempty:
  assumes "snd (scored_candidates lm f now m) \<noteq> []"
  shows "snd (select_candidates lm env f now m limit) \<noteq> []"
proof -
  obtain f1 xs where s: "scored_candidates lm f now m = (f1, xs)" by (meson surj_pair)
  obtain f2 cs where c: "(if m then (f1, sort_by_score xs) else healthy_candidates lm f1 now (sort_by_score xs)) = (f2, cs)"
    by (meson surj_pair)
  obtain f3 rs where r: "rotate_candidates (rotate_top_n env m (length cs)) f2 cs = (f3, rs)" by (meson surj_pair)
  have "sort_by_score xs \<noteq> []" using assms by (simp add: s sort_by_score_Nil)
  then have "cs \<noteq> []" using c healthy_candidates_nonempty [of "sort_by_score xs" lm f1 now] by (auto split: if_splits)
  moreover have "mset rs = mset cs" using rotate_mset [of "rotate_top_n env m (length cs)" f2 cs] by (simp add: r)
  ultimately have "rs \<noteq> []" by auto
  then show ?thesis by (simp add: select_candidates_def s c r)
qed

text \<open>
  C30: when the score cache has expired and some endpoint is enabled and out of cooldown, a selection
  of either mode returns an endpoint, whatever the configured preference and the health counters are.
\<close>

theorem selection_finds_available:
  assumes "fleet_reachable lm (f, t)" "t \<le> now" "\<not> cache_fresh f now"
    and "e \<in> set (rf_endpoints f)" "available now e"
  shows "snd (select_candidates lm env f now m limit) \<noteq> []"
proof -
  have ids: "fleet_ids f" using fleet_reachable_ok [OF assms(1)] by (simp add: fleet_ok_def)
  obtain i where i: "i < length (rf_endpoints f)" "rf_endpoints f ! i = e"
    using assms(4) by (auto simp: in_set_conv_nth)
  have id: "re_id e = i" using ids i by (metis add_0 fleet_ids_def length_map nth_map nth_upt)
  have "cached_score (refreshed lm f now) (re_id e) m \<noteq> None"
    unfolding refreshed_def id using assms(3,5) recompute_scores_cached [OF ids i(1)]
      endpoint_score_available [of lm "re_kind e" "touch now (re_state e)" now m]
    by (simp add: i(2) Let_def available_def cooling_def)
  from select_nonempty [OF scored_candidates_finds [OF assms(4) this]] show ?thesis .
qed

section \<open>Cooldowns\<close>

lemma update_endpoint_id:
  assumes "distinct (map re_id es)" "e' \<in> set (update_endpoint i g es)" "re_id e' = i"
  shows "\<exists>e \<in> set es. re_id e = i \<and> re_state e' = g (re_state e)"
  using assms
proof (induction es)
  case (Cons e es)
  show ?case
  proof (cases "re_id e = i")
    case True
    then have "e' = e\<lparr>re_state := g (re_state e)\<rparr> \<or> e' \<in> set es" using Cons.prems(2) by simp
    moreover have "e' \<notin> set es" using Cons.prems(1,3) True by auto
    ultimately show ?thesis using True by simp
  next
    case False
    then have "e' \<in> set (update_endpoint i g es)" using Cons.prems(2,3) by auto
    then show ?thesis using Cons by simp
  qed
qed simp

lemma unat_min_succ:
  fixes n k :: u32
  assumes "1 \<le> unat k"
  shows "1 \<le> unat (min (sat_add n 1) k)"
proof -
  have "uint (sat_add n 1) = min 4294967295 (uint n + 1)" by (simp only: uint_sat_add) simp
  moreover have "0 \<le> uint n" by (rule uint_nonneg)
  ultimately have "1 \<le> uint (sat_add n 1)" by linarith
  then have "1 \<le> unat (sat_add n 1)" by (metis nat_mono nat_one_as_int unat_eq_nat_uint)
  then show ?thesis using assms by (metis min_def)
qed

lemma failure_cooldown_bounds:
  assumes "failure_state now kind st = (st', d)"
  shows "es_cooldown_until st' = es_cooldown_until st \<and> nanos_of_millis 500 \<le> d"
proof -
  have p4: "(2::int) \<le> 2 ^ unat (min (sat_add n 1) 4)" for n :: u32
    using power_increasing [OF unat_min_succ [of 4 n], of "2::int"] by simp
  have p5: "(2::int) \<le> 2 ^ unat (min (sat_add n 1) 5)" for n :: u32
    using power_increasing [OF unat_min_succ [of 5 n], of "2::int"] by simp
  let ?st = "touch now st"
  show ?thesis
    using assms p4 [of "es_rate_limit_failures ?st"] p5 [of "es_timeout_failures ?st"]
    by (cases kind) (auto simp: failure_state_def Let_def nanos_of_secs_def nanos_of_millis_def)
qed

definition cooldown_end :: "rpc_endpoint_state \<Rightarrow> instant \<Rightarrow> instant" where
  "cooldown_end st now = (case es_cooldown_until st of Some c \<Rightarrow> c | None \<Rightarrow> now)"

lemma apply_failure_cooldown:
  "\<exists>c. es_cooldown_until (apply_failure now kind st) = Some c \<and> now + nanos_of_millis 500 \<le> c
     \<and> cooldown_end st now \<le> c \<and> c \<le> max (cooldown_end st now) (now + nanos_of_secs 45)"
proof -
  obtain st' d where f: "failure_state now kind st = (st', d)" by (meson surj_pair)
  show ?thesis using failure_cooldown_bounds [OF f]
    by (auto simp: apply_failure_def f Let_def cooldown_end_def nanos_of_millis_def nanos_of_secs_def split: option.split)
qed

text \<open>
  Recording a failure of any kind puts the endpoint in a cooldown that ends at least half a second
  later, never before the cooldown it already had, and at most 45 seconds later unless that one was
  longer (the 24 hours of an exhausted quota are cut to 45 seconds); no selection in the next half
  second returns it.
\<close>

theorem failed_endpoint_quarantined:
  assumes "fleet_reachable lm (f, t)" "t \<le> failed" "find_endpoint i (rf_endpoints f) = Some e"
    and "failed \<le> now" "now < failed + nanos_of_millis 500"
    and "select_candidates lm env (rpc_record_failure f failed i kind) now m limit = (f', hs)"
  shows "i \<notin> rh_id ` set hs
    \<and> (\<exists>c. es_cooldown_until (apply_failure failed kind (re_state e)) = Some c
         \<and> failed + nanos_of_millis 500 \<le> c \<and> cooldown_end (re_state e) failed \<le> c
         \<and> c \<le> max (cooldown_end (re_state e) failed) (failed + nanos_of_secs 45))"
proof -
  let ?f = "rpc_record_failure f failed i kind"
  have r: "fleet_reachable lm (?f, failed)" by (rule fleet_more [OF assms(1) fleet_failure [OF assms(2)]])
  have "distinct (map re_id (rf_endpoints f))"
    using fleet_reachable_ok [OF assms(1)] by (simp add: fleet_ok_def fleet_ids_def)
  then have u: "\<exists>e \<in> set (rf_endpoints f). re_id e = i \<and> re_state e' = apply_failure failed kind (re_state e)"
    if "e' \<in> set (rf_endpoints ?f)" "re_id e' = i" for e'
    using that update_endpoint_id [of "rf_endpoints f" e' i]
    by (simp add: rpc_record_failure_def assms(3) invalidate_score_cache_def)
  have "\<not> available now e'" if "e' \<in> set (rf_endpoints ?f)" "re_id e' = i" for e'
  proof -
    from u [OF that] obtain st where st: "re_state e' = apply_failure failed kind st" by blast
    from apply_failure_cooldown [of failed kind st] assms(5) show ?thesis
      by (auto simp: available_def cooling_def st)
  qed
  then have "i \<notin> rh_id ` set hs"
    using reached_selection [OF r assms(4,6)] by (fastforce simp: to_handle_def)
  then show ?thesis using apply_failure_cooldown by blast
qed

text \<open>
  A reservation that brings the load of the burst window to twice the send capacity sets the end
  of the cooldown to 0.9 seconds from now whatever it was, so an endpoint under a longer cooldown is
  released early; below that load the cooldown is kept.
\<close>

theorem reservation_overwrites_cooldown:
  "es_cooldown_until (reserve_burst_units kind units now st) =
     (if sat_mul (endpoint_burst_capacity_units kind True) 2
         \<le> burst_load_units (touch now st) now + units
      then Some (now + nanos_of_millis 900) else es_cooldown_until st)"
proof -
  have "\<not> burst_expired now \<lparr>br_reserved_at = now, br_units = units\<rparr>"
    by (simp add: burst_expired_def duration_since_def nanos_of_millis_def BURST_WINDOW_MS_def)
  then show ?thesis by (simp add: reserve_burst_units_def Let_def burst_load_units_def)
qed

interpretation burst_window: windowed_queue br_reserved_at burst_expired
  by unfold_locales (auto simp: burst_expired_def duration_since_def nanos_of_millis_def BURST_WINDOW_MS_def)

text \<open>On an ordered queue pruning keeps exactly the reservations that the load counts.\<close>

lemma pruned_load:
  "sorted (map br_reserved_at (es_recent_burst_reservations st)) \<Longrightarrow>
   burst_load_units st now = sum_list (map br_units (es_recent_burst_reservations (prune_burst_reservations st now)))"
  by (simp add: burst_load_units_def prune_burst_reservations_def burst_window.prune_eq_filter)

section \<open>A fleet of two endpoints\<close>

definition demo_math :: libm where
  "demo_math = \<lparr>m_exp = (\<lambda>x. 1), m_ln = (\<lambda>x. x), m_ln_1p = (\<lambda>x. x), m_powf = (\<lambda>x y. x)\<rparr>"

definition demo_fleet :: rpc_fleet where
  "demo_fleet = projr (rpc_fleet_from_config (\<lambda>_. None)
     [(''infura-1'', ''https://a''), (''getblock-1'', ''https://b'')] demo_config 0)"

lemma demo_fleet_endpoints:
  "rf_endpoints demo_fleet =
     [\<lparr>re_id = 0, re_name = ''infura-1'', re_url = ''https://a'', re_kind = RkInfura, re_state = rpc_state_new 0\<rparr>,
      \<lparr>re_id = 1, re_name = ''getblock-1'', re_url = ''https://b'', re_kind = RkGetBlock, re_state = rpc_state_new 0\<rparr>]"
  by (simp add: demo_fleet_def rpc_fleet_from_config_def kind_of_name_def)

lemma demo_fleet_reachable: "fleet_reachable lm (demo_fleet, 0)"
  by (rule fleet_new [of "\<lambda>_. None" "[(''infura-1'', ''https://a''), (''getblock-1'', ''https://b'')]" demo_config])
    (simp add: demo_fleet_def rpc_fleet_from_config_def)

lemma demo_fleet_available:
  "e \<in> set (rf_endpoints demo_fleet) \<Longrightarrow> available now e"
  by (auto simp: demo_fleet_endpoints available_def cooling_def rpc_state_new_def)

theorem selection_only_available_witness:
  "length (snd (select_candidates demo_math None demo_fleet 5 True 2)) \<le> 2
   \<and> distinct (map rh_id (snd (select_candidates demo_math None demo_fleet 5 True 2)))"
  using selection_only_available [OF demo_fleet_reachable _ surjective_pairing,
      of 5 demo_math None True 2] by simp

text \<open>
  With overlapping calls an endpoint that has just failed is selected, although it is in cooldown: here
  the GetBlock endpoint of the two fails while the scores are being recomputed.
\<close>

definition overlapped_fleet :: rpc_fleet where
  "overlapped_fleet = overlapped_refresh demo_math demo_fleet 5 (\<lambda>f. rpc_record_failure f 5 1 FkTimeout)"

theorem overlapping_refresh_serves_cooling:
  "1 \<in> rh_id ` set (snd (select_candidates demo_math None overlapped_fleet 6 True 2))
   \<and> (\<forall>e \<in> set (rf_endpoints overlapped_fleet). re_id e = 1 \<longrightarrow> \<not> available 6 e)"
proof
  have "list_all (\<lambda>e. re_id e = 1 \<longrightarrow> es_disabled (re_state e) \<or> cooling 6 (re_state e)) (rf_endpoints overlapped_fleet)"
    by code_simp
  then show "\<forall>e \<in> set (rf_endpoints overlapped_fleet). re_id e = 1 \<longrightarrow> \<not> available 6 e"
    by (auto simp: list_all_iff available_def)
  have "list_ex (\<lambda>h. rh_id h = 1) (snd (select_candidates demo_math None overlapped_fleet 6 True 2))"
    by code_simp
  then show "1 \<in> rh_id ` set (snd (select_candidates demo_math None overlapped_fleet 6 True 2))"
    unfolding list_ex_iff by (metis image_eqI)
qed

theorem selection_finds_available_witness:
  "snd (select_candidates demo_math None demo_fleet 5 False 3) \<noteq> []"
proof -
  have stale: "\<not> cache_fresh demo_fleet 5"
    by (simp add: cache_fresh_def demo_fleet_def rpc_fleet_from_config_def duration_since_def nanos_of_secs_def
        nanos_of_millis_def)
  have e: "rf_endpoints demo_fleet ! 1 \<in> set (rf_endpoints demo_fleet)" by (simp add: demo_fleet_endpoints)
  show ?thesis
    by (rule selection_finds_available [OF demo_fleet_reachable _ stale e demo_fleet_available [OF e]]) simp
qed

theorem failed_endpoint_quarantined_witness:
  "1 \<notin> rh_id ` set (snd (select_candidates demo_math None
     (rpc_record_failure demo_fleet 3 1 FkTimeout) 7 True 2))"
proof -
  have e: "find_endpoint 1 (rf_endpoints demo_fleet) = Some (rf_endpoints demo_fleet ! 1)"
    by (simp add: demo_fleet_endpoints)
  show ?thesis
    using failed_endpoint_quarantined [OF demo_fleet_reachable _ e _ _ surjective_pairing,
        of 3 7 demo_math None FkTimeout True 2] by (simp add: nanos_of_millis_def)
qed

end
