(* ===== verification/Executor.thy ===== *)
theory Executor
  imports Rpc PayloadBuilder
begin

text \<open>
  The execution engine of \<open>src/mev/execution/executor.rs\<close>: stop-loss guards, the capital budget, gas
  escalation, the choice of submit paths, treasury signals, the realised profit and the handling of
  one opportunity from its first check to the recorded result. What the network answers is an
  argument; reports to the dashboard are output and left out; the clock readings inside one method
  are one instant.
\<close>

section \<open>State\<close>

record context_freeze_key =
  fk_pair :: address
  fk_router :: address
  fk_submit_path :: string

record context_execution_guard =
  cg_consecutive_losses :: u32
  cg_frozen_until :: "instant option"
  cg_last_event_at :: "instant option"
  cg_regime_pressure_ewma :: f64

record execution_guard =
  eg_consecutive_losses :: u32
  eg_frozen_until :: "instant option"
  eg_context_guards :: "context_freeze_key \<rightharpoonup> context_execution_guard"

datatype guard_scope = GlobalScope | ContextualScope

record stop_loss_snapshot_t =
  sl_consecutive_losses :: u32
  sl_remaining_freeze_secs :: int
  sl_scope :: guard_scope

record budget_reservation =
  bu_reserved_at :: instant
  bu_cluster :: cluster_key
  bu_pair :: address
  bu_victim_tx :: h256
  bu_capital_eth :: f64

type_synonym capital_budget = "budget_reservation list"

record budget_decision =
  bd_allowed :: bool
  bd_reject_reason :: string
  bd_capital_eth :: f64
  bd_total_window_eth :: f64
  bd_cluster_window_eth :: f64
  bd_pair_window_eth :: f64

record treasury_signal =
  ts_action :: string
  ts_status :: string
  ts_rounded_amount :: u64

record treasury_signal_view =
  tv_action :: string
  tv_status :: string
  tv_recommended_amount_eth :: f64
  tv_note :: string

record execution_engine =
  en_rpc_fleet :: rpc_fleet
  en_pnl :: "pnl_tracker lock"
  en_adaptive :: "adaptive_policy lock"
  en_last_treasury_signal :: "treasury_signal option lock"
  en_capital_budget :: "capital_budget lock"
  en_execution_guard :: "execution_guard lock"

fun update_lock :: "('a \<Rightarrow> 'a) \<Rightarrow> 'a lock \<Rightarrow> 'a lock" where
  "update_lock f (Healthy x) = Healthy (f x)"
| "update_lock f (Poisoned x) = Poisoned x"

definition execution_guard_default :: execution_guard where
  "execution_guard_default = \<lparr>eg_consecutive_losses = 0, eg_frozen_until = None, eg_context_guards = Map.empty\<rparr>"

definition context_guard_default :: context_execution_guard where
  "context_guard_default = \<lparr>cg_consecutive_losses = 0, cg_frozen_until = None, cg_last_event_at = None,
     cg_regime_pressure_ewma = 0\<rparr>"

definition execution_engine_new :: "rpc_fleet \<Rightarrow> adaptive_policy lock \<Rightarrow> execution_engine" where
  "execution_engine_new fleet adaptive = \<lparr>en_rpc_fleet = fleet, en_pnl = Healthy pnl_default,
     en_adaptive = adaptive, en_last_treasury_signal = Healthy None, en_capital_budget = Healthy [],
     en_execution_guard = Healthy execution_guard_default\<rparr>"

section \<open>Stop-loss guards\<close>

definition ewma_f64 :: "f64 \<Rightarrow> f64 \<Rightarrow> f64 \<Rightarrow> f64" where
  "ewma_f64 current sample alpha =
     (if current \<le> epsilon then sample else current + (sample - current) * alpha)"

definition contextual_freeze_secs :: "u64 \<Rightarrow> f64 \<Rightarrow> u64" where
  "contextual_freeze_secs base_freeze_secs regime_pressure =
     (let multiplier = (if dec 90 2 \<le> regime_pressure then dec 200 2
          else if dec 78 2 \<le> regime_pressure then dec 150 2
          else if dec 62 2 \<le> regime_pressure then dec 120 2 else 1)
      in f_as_word (fround_away (of_uw base_freeze_secs * multiplier)))"

definition contextual_stop_loss_threshold :: "u32 \<Rightarrow> f64 \<Rightarrow> u32" where
  "contextual_stop_loss_threshold base_threshold regime_pressure =
     (if dec 78 2 \<le> regime_pressure then max (sat_sub base_threshold 1) 1 else max base_threshold 1)"

definition winning :: "execution_result \<Rightarrow> bool" where
  "winning r = (er_success r \<and> 0 < er_realized_profit r)"

definition contextual_regime_pressure :: "f64 \<Rightarrow> f64 \<Rightarrow> execution_result \<Rightarrow> f64" where
  "contextual_regime_pressure priority_score toxicity_score result =
     (let toxicity = fclamp 0 1 toxicity_score;
          low_priority = fclamp 0 1 (1 - fclamp 0 1 priority_score);
          outcome_penalty = (if winning result then 0 else dec 24 2)
      in fclamp 0 1 (toxicity * dec 62 2 + low_priority * dec 22 2 + outcome_penalty))"

definition decay_context_guard :: "context_execution_guard \<Rightarrow> instant \<Rightarrow> u64 \<Rightarrow> context_execution_guard" where
  "decay_context_guard st now base_freeze_secs =
     (case cg_last_event_at st of None \<Rightarrow> st
      | Some last_event_at \<Rightarrow>
        let decay_window_secs = uint (max (base_freeze_secs div 2) 30);
            elapsed_secs = as_secs (duration_since now last_event_at)
        in if elapsed_secs < decay_window_secs \<or> cg_consecutive_losses st = 0 then st
           else let decay_steps = word_of_int (elapsed_secs div decay_window_secs) :: u32
                in st\<lparr>cg_consecutive_losses := sat_sub (cg_consecutive_losses st) (max decay_steps 1),
                      cg_last_event_at := Some now,
                      cg_regime_pressure_ewma := cg_regime_pressure_ewma st
                        * fpowi (dec 88 2) (sint (max decay_steps 1))\<rparr>)"

definition guard_retained :: "instant \<Rightarrow> context_execution_guard \<Rightarrow> bool" where
  "guard_retained now st =
     (case cg_frozen_until st of
        Some frozen_until \<Rightarrow> now < frozen_until \<or> 0 < cg_consecutive_losses st
      | None \<Rightarrow> 0 < cg_consecutive_losses st)"

definition prune_context_guards ::
  "(context_freeze_key \<rightharpoonup> context_execution_guard) \<Rightarrow> instant \<Rightarrow> (context_freeze_key \<rightharpoonup> context_execution_guard)" where
  "prune_context_guards guards now =
     (\<lambda>k. case guards k of Some st \<Rightarrow> if guard_retained now st then Some st else None | None \<Rightarrow> None)"

text \<open>The global part of \<open>record_result\<close>.\<close>

definition record_global :: "mev_config \<Rightarrow> instant \<Rightarrow> execution_result \<Rightarrow> execution_guard \<Rightarrow> execution_guard" where
  "record_global m now result g =
     (if winning result then g\<lparr>eg_consecutive_losses := 0, eg_frozen_until := None\<rparr>
      else let losses = sat_add (eg_consecutive_losses g) 1;
               g1 = g\<lparr>eg_consecutive_losses := losses\<rparr>
           in if stop_loss_consecutive_losses m \<le> losses
              then g1\<lparr>eg_frozen_until := Some (now + nanos_of_secs (uint (stop_loss_freeze_secs m)))\<rparr> else g1)"

text \<open>The contextual part, for one key.\<close>

definition record_context ::
  "mev_config \<Rightarrow> instant \<Rightarrow> execution_result \<Rightarrow> f64 option \<Rightarrow> f64 option \<Rightarrow> context_execution_guard
    \<Rightarrow> context_execution_guard" where
  "record_context m now result priority toxicity st0 =
     (let st1 = decay_context_guard st0 now (max (context_stop_loss_freeze_secs m) 1);
          regime_pressure = contextual_regime_pressure (case priority of Some x \<Rightarrow> x | None \<Rightarrow> dec 5 1)
            (case toxicity of Some x \<Rightarrow> x | None \<Rightarrow> dec 5 1) result;
          pressure = ewma_f64 (cg_regime_pressure_ewma st1) regime_pressure (dec 35 2);
          st = st1\<lparr>cg_regime_pressure_ewma := pressure, cg_last_event_at := Some now\<rparr>
      in if winning result then st\<lparr>cg_consecutive_losses := 0, cg_frozen_until := None\<rparr>
         else let losses = sat_add (cg_consecutive_losses st) (if dec 82 2 \<le> pressure then 2 else 1);
                  st2 = st\<lparr>cg_consecutive_losses := losses\<rparr>
              in if contextual_stop_loss_threshold (context_stop_loss_consecutive_losses m) pressure \<le> losses
                 then st2\<lparr>cg_frozen_until := Some (now + nanos_of_secs (uint
                        (contextual_freeze_secs (context_stop_loss_freeze_secs m) pressure)))\<rparr>
                 else st2)"

definition record_guard ::
  "mev_config \<Rightarrow> instant \<Rightarrow> execution_result \<Rightarrow> address option \<Rightarrow> address option \<Rightarrow> string option
    \<Rightarrow> f64 option \<Rightarrow> f64 option \<Rightarrow> execution_guard \<Rightarrow> execution_guard" where
  "record_guard m now result pair router submit_path priority toxicity g0 =
     (let g = record_global m now result g0;
          guards = (case (pair, router, submit_path) of
             (Some a, Some r, Some path) \<Rightarrow>
               let key = \<lparr>fk_pair = a, fk_router = r, fk_submit_path = path\<rparr>;
                   st = (case eg_context_guards g key of Some st \<Rightarrow> st | None \<Rightarrow> context_guard_default)
               in (eg_context_guards g)(key \<mapsto> record_context m now result priority toxicity st)
           | _ \<Rightarrow> eg_context_guards g)
      in g\<lparr>eg_context_guards := prune_context_guards guards now\<rparr>)"

definition record_result ::
  "config \<Rightarrow> execution_engine \<Rightarrow> instant \<Rightarrow> execution_result \<Rightarrow> address option \<Rightarrow> address option
    \<Rightarrow> string option \<Rightarrow> f64 option \<Rightarrow> f64 option \<Rightarrow> execution_engine" where
  "record_result cfg en now result pair router submit_path priority toxicity =
     (case en_execution_guard en of Poisoned g \<Rightarrow> en
      | Healthy g \<Rightarrow> en\<lparr>en_execution_guard :=
            Healthy (record_guard (mev cfg) now result pair router submit_path priority toxicity g),
          en_pnl := update_lock (\<lambda>t. pnl_record t result) (en_pnl en)\<rparr>)"

definition global_snapshot :: "execution_guard \<Rightarrow> instant \<Rightarrow> execution_guard \<times> stop_loss_snapshot_t option" where
  "global_snapshot g now =
     (case eg_frozen_until g of None \<Rightarrow> (g, None)
      | Some frozen_until \<Rightarrow>
          if frozen_until \<le> now then (g\<lparr>eg_frozen_until := None, eg_consecutive_losses := 0\<rparr>, None)
          else (g, Some \<lparr>sl_consecutive_losses = eg_consecutive_losses g,
                         sl_remaining_freeze_secs = as_secs (duration_since frozen_until now),
                         sl_scope = GlobalScope\<rparr>))"

definition stop_loss_snapshot :: "execution_engine \<Rightarrow> instant \<Rightarrow> execution_engine \<times> stop_loss_snapshot_t option" where
  "stop_loss_snapshot en now =
     (case en_execution_guard en of Poisoned g \<Rightarrow> (en, None)
      | Healthy g \<Rightarrow> (case global_snapshot g now of (g', s) \<Rightarrow> (en\<lparr>en_execution_guard := Healthy g'\<rparr>, s)))"

definition context_snapshot ::
  "mev_config \<Rightarrow> execution_guard \<Rightarrow> instant \<Rightarrow> context_freeze_key \<Rightarrow> execution_guard \<times> stop_loss_snapshot_t option" where
  "context_snapshot m g now key =
     (case eg_context_guards g key of None \<Rightarrow> (g, None)
      | Some st0 \<Rightarrow>
        let st = decay_context_guard st0 now (max (context_stop_loss_freeze_secs m) 1);
            g1 = g\<lparr>eg_context_guards := (eg_context_guards g)(key \<mapsto> st)\<rparr>
        in case cg_frozen_until st of None \<Rightarrow> (g1, None)
           | Some frozen_until \<Rightarrow>
               if frozen_until \<le> now then (g\<lparr>eg_context_guards := (eg_context_guards g)(key := None)\<rparr>, None)
               else (g1, Some \<lparr>sl_consecutive_losses = cg_consecutive_losses st,
                               sl_remaining_freeze_secs = as_secs (duration_since frozen_until now),
                               sl_scope = ContextualScope\<rparr>))"

definition context_stop_loss_snapshot ::
  "config \<Rightarrow> execution_engine \<Rightarrow> instant \<Rightarrow> address \<Rightarrow> address \<Rightarrow> string
    \<Rightarrow> execution_engine \<times> stop_loss_snapshot_t option" where
  "context_stop_loss_snapshot cfg en now pair router submit_path =
     (case en_execution_guard en of Poisoned g \<Rightarrow> (en, None)
      | Healthy g \<Rightarrow>
          (case context_snapshot (mev cfg) g now \<lparr>fk_pair = pair, fk_router = router, fk_submit_path = submit_path\<rparr> of
             (g', s) \<Rightarrow> (en\<lparr>en_execution_guard := Healthy g'\<rparr>, s)))"

section \<open>Capital budget\<close>

definition reservation_expired :: "u64 \<Rightarrow> instant \<Rightarrow> budget_reservation \<Rightarrow> bool" where
  "reservation_expired window_secs now entry =
     (uint window_secs < as_secs (duration_since now (bu_reserved_at entry)))"

definition budget_prune :: "capital_budget \<Rightarrow> u64 \<Rightarrow> instant \<Rightarrow> capital_budget" where
  "budget_prune b window_secs now = dropWhile (reservation_expired window_secs now) b"

text \<open>The three sums of the loop over the reservations, in its order.\<close>

definition exposure :: "(budget_reservation \<Rightarrow> bool) \<Rightarrow> capital_budget \<Rightarrow> f64" where
  "exposure P b = foldl (\<lambda>acc r. if P r then acc + bu_capital_eth r else acc) 0 b"

definition check_and_reserve ::
  "config \<Rightarrow> capital_budget \<Rightarrow> instant \<Rightarrow> f64 \<Rightarrow> cluster_key \<Rightarrow> address \<Rightarrow> h256 \<Rightarrow> capital_budget \<times> budget_decision" where
  "check_and_reserve cfg b0 now capital cluster pair victim =
     (let b = budget_prune b0 (capital_window_secs (mev cfg)) now;
          total_after = exposure (\<lambda>_. True) b + capital;
          cluster_after = exposure (\<lambda>r. bu_cluster r = cluster) b + capital;
          pair_after = exposure (\<lambda>r. bu_pair r = pair) b + capital;
          reject_reason =
            (if max_window_exposure_eth (mev cfg) < total_after then Some ''window_exposure_limit''
             else if max_cluster_window_exposure_eth (mev cfg) < cluster_after then Some ''cluster_window_limit''
             else if max_pair_window_exposure_eth (mev cfg) < pair_after then Some ''pair_window_limit''
             else None)
      in (if reject_reason = None
          then b @ [\<lparr>bu_reserved_at = now, bu_cluster = cluster, bu_pair = pair, bu_victim_tx = victim,
                     bu_capital_eth = capital\<rparr>] else b,
          \<lparr>bd_allowed = (reject_reason = None),
           bd_reject_reason = (case reject_reason of Some r \<Rightarrow> r | None \<Rightarrow> ''allowed''),
           bd_capital_eth = capital, bd_total_window_eth = total_after, bd_cluster_window_eth = cluster_after,
           bd_pair_window_eth = pair_after\<rparr>))"

definition budget_release :: "capital_budget \<Rightarrow> h256 \<Rightarrow> capital_budget" where
  "budget_release b victim = filter (\<lambda>r. bu_victim_tx r \<noteq> victim) b"

definition check_and_reserve_budget ::
  "config \<Rightarrow> execution_engine \<Rightarrow> instant \<Rightarrow> h256 \<Rightarrow> execution_payload \<Rightarrow> cluster_key
    \<Rightarrow> execution_engine \<times> budget_decision" where
  "check_and_reserve_budget cfg en now victim payload cluster =
     (let capital = wei_to_eth_f64 (pl_capital_committed_wei payload)
      in case en_capital_budget en of
           Poisoned b \<Rightarrow> (en, \<lparr>bd_allowed = True, bd_reject_reason = ''budget_lock_unavailable'',
             bd_capital_eth = capital, bd_total_window_eth = 0, bd_cluster_window_eth = 0, bd_pair_window_eth = 0\<rparr>)
         | Healthy b \<Rightarrow>
             (case check_and_reserve cfg b now capital cluster (pl_pair payload) victim of
                (b', d) \<Rightarrow> (en\<lparr>en_capital_budget := Healthy b'\<rparr>, d)))"

definition release_budget :: "execution_engine \<Rightarrow> h256 \<Rightarrow> execution_engine" where
  "release_budget en victim = en\<lparr>en_capital_budget := update_lock (\<lambda>b. budget_release b victim) (en_capital_budget en)\<rparr>"

section \<open>Gas\<close>

definition overpay_bps :: "mev_config \<Rightarrow> relay_quote option \<Rightarrow> execution_payload \<Rightarrow> u64" where
  "overpay_bps m best_relay payload =
     (let base = gas_overpay_base_extra_bps m;
          relay_bps = (case best_relay of None \<Rightarrow> base
            | Some relay \<Rightarrow>
              let e1 = (if dec 10 2 \<le> rq_accepted_not_included_rate relay
                        then sat_add base (gas_overpay_miss_extra_bps m) else base);
                  e2 = (if dec 5 2 \<le> rq_revert_rate relay then sat_add e1 (gas_overpay_revert_extra_bps m) else e1)
              in if rq_accept_rate relay \<le> dec 60 2
                 then sat_add e2 (gas_overpay_submit_failure_extra_bps m) else e2);
          context_bps =
            (if capital_multiplier_toxicity_threshold m \<le> pl_context_toxicity_score payload
             then sat_add relay_bps (gas_overpay_miss_extra_bps m div 2)
             else if capital_multiplier_priority_threshold m \<le> pl_context_priority_score payload
             then sat_add relay_bps (gas_overpay_base_extra_bps m div 2)
             else relay_bps)
      in min context_bps (gas_overpay_max_extra_bps m))"

definition dynamic_gas_price :: "mev_config \<Rightarrow> u256 \<Rightarrow> relay_quote option \<Rightarrow> execution_payload \<Rightarrow> u256" where
  "dynamic_gas_price m base_gas_price best_relay payload =
     (let adjusted = sat_mul base_gas_price (ucast (10000 + overpay_bps m best_relay payload)) div 10000
      in case max_gas_price_wei m of Some cap \<Rightarrow> min adjusted cap | None \<Rightarrow> adjusted)"

text \<open>
  The unsigned transaction that \<open>sign_executor_transaction\<close> hands to the wallet: maximum and priority
  fee when the block has a base fee, a gas price otherwise.
\<close>

datatype fee_fields = Eip1559Fees u256 u256 | LegacyGasPrice u256

record unsigned_tx =
  ut_to :: address
  ut_data :: bytes
  ut_value :: u256
  ut_gas :: u64
  ut_fees :: fee_fields
  ut_nonce :: u256
  ut_from :: address
  ut_chain_id :: "u64 option"

definition executor_fees :: "u256 \<Rightarrow> u256 option \<Rightarrow> fee_fields" where
  "executor_fees gas_price base_fee_per_gas =
     (case base_fee_per_gas of
        Some base_fee \<Rightarrow>
          let min_priority = gas_price div 4;
              priority_fee = max (sat_sub gas_price base_fee) min_priority;
              max_fee = max (sat_add base_fee priority_fee) gas_price
          in Eip1559Fees max_fee priority_fee
      | None \<Rightarrow> LegacyGasPrice gas_price)"

definition executor_transaction ::
  "config \<Rightarrow> address \<Rightarrow> execution_payload \<Rightarrow> u256 \<Rightarrow> u256 \<Rightarrow> u256 option \<Rightarrow> unsigned_tx" where
  "executor_transaction cfg wallet payload nonce gas_price base_fee_per_gas =
     \<lparr>ut_to = pl_target_contract payload, ut_data = pl_calldata payload, ut_value = pl_value payload,
      ut_gas = pl_gas_limit payload, ut_fees = executor_fees gas_price base_fee_per_gas, ut_nonce = nonce,
      ut_from = wallet, ut_chain_id = (if base_fee_per_gas = None then None else Some (chain_id cfg))\<rparr>"

section \<open>Submit paths\<close>

definition neutral_quote :: "string \<Rightarrow> relay_quote" where
  "neutral_quote relay = \<lparr>rq_relay = relay, rq_relay_pressure = 0, rq_accept_rate = 1, rq_inclusion_rate = 1,
     rq_accepted_not_included_rate = 0, rq_revert_rate = 0, rq_submit_latency_ms = 0,
     rq_finalization_latency_ms = 0, rq_score = 0\<rparr>"

text \<open>\<open>position\<close> then \<open>remove\<close>: the first match, and the list without it.\<close>

fun take_first :: "('a \<Rightarrow> bool) \<Rightarrow> 'a list \<Rightarrow> ('a \<times> 'a list) option" where
  "take_first P [] = None"
| "take_first P (x # xs) = (if P x then Some (x, xs) else map_option (\<lambda>(y, ys). (y, x # ys)) (take_first P xs))"

definition engine_rank_relays :: "config \<Rightarrow> adaptive_policy lock \<Rightarrow> string option \<Rightarrow> cluster_key \<Rightarrow> relay_quote list" where
  "engine_rank_relays cfg adaptive preferred_relay cluster =
     (let relays = (case read_lock adaptive of
            Some p \<Rightarrow> rank_relays_for_cluster p (builder_relays cfg) cluster
          | None \<Rightarrow> map neutral_quote (builder_relays cfg))
      in case preferred_relay of None \<Rightarrow> relays
         | Some preferred \<Rightarrow>
             (case take_first (\<lambda>q. rq_relay q = preferred) relays of
                Some (q, rest) \<Rightarrow> q # rest | None \<Rightarrow> relays))"

definition rpc_label :: "string \<Rightarrow> string" where
  "rpc_label name = ''rpc://'' @ name"

definition rank_direct_from_candidates :: "adaptive_policy lock \<Rightarrow> rpc_handle list \<Rightarrow> relay_quote list" where
  "rank_direct_from_candidates adaptive candidates =
     (let relay_labels = map (\<lambda>h. rpc_label (rh_name h)) candidates
      in case read_lock adaptive of Some p \<Rightarrow> rank_relays p relay_labels | None \<Rightarrow> map neutral_quote relay_labels)"

definition push_new :: "rpc_handle list \<Rightarrow> rpc_handle \<Rightarrow> rpc_handle list" where
  "push_new ordered h = (if \<exists>x \<in> set ordered. rh_id x = rh_id h then ordered else ordered @ [h])"

definition rpc_fanout :: "config \<Rightarrow> nat" where
  "rpc_fanout cfg = max (nat (rpc_fanout_count (mev cfg))) 1"

definition push_labelled :: "rpc_handle list \<Rightarrow> rpc_handle list \<Rightarrow> relay_quote \<Rightarrow> rpc_handle list" where
  "push_labelled candidates ordered q =
     (case find (\<lambda>h. rq_relay q = rpc_label (rh_name h)) candidates of
        Some h \<Rightarrow> push_new ordered h | None \<Rightarrow> ordered)"

definition direct_rpc_submit_endpoints ::
  "libm \<Rightarrow> config \<Rightarrow> execution_engine \<Rightarrow> instant \<Rightarrow> rpc_handle \<Rightarrow> execution_engine \<times> rpc_handle list" where
  "direct_rpc_submit_endpoints lm cfg en now preferred =
     (case send_candidates lm (en_rpc_fleet en) now (rpc_fanout cfg) of (fleet, selected) \<Rightarrow>
        let ranked_by_health = (if \<exists>h \<in> set selected. rh_id h = rh_id preferred then selected else preferred # selected);
            ranked_by_path = rank_direct_from_candidates (en_adaptive en) ranked_by_health;
            ordered = foldl (push_labelled ranked_by_health) [] ranked_by_path;
            ordered_all = foldl push_new ordered ranked_by_health
        in (en\<lparr>en_rpc_fleet := fleet\<rparr>, take (rpc_fanout cfg) ordered_all))"

definition rank_direct_rpc_submit_paths ::
  "libm \<Rightarrow> config \<Rightarrow> execution_engine \<Rightarrow> instant \<Rightarrow> rpc_handle \<Rightarrow> cluster_key \<Rightarrow> execution_engine \<times> relay_quote list" where
  "rank_direct_rpc_submit_paths lm cfg en now preferred cluster =
     (case direct_rpc_submit_endpoints lm cfg en now preferred of (en', endpoints) \<Rightarrow>
        let relay_labels = map (\<lambda>h. rpc_label (rh_name h)) endpoints
        in (en', (case read_lock (en_adaptive en') of
                    Some p \<Rightarrow> rank_relays_for_cluster p relay_labels cluster
                  | None \<Rightarrow> map neutral_quote relay_labels)))"

definition move_labelled :: "rpc_handle list \<times> rpc_handle list \<Rightarrow> relay_quote \<Rightarrow> rpc_handle list \<times> rpc_handle list" where
  "move_labelled st q =
     (case st of (candidates, ordered) \<Rightarrow>
        if starts_with ''rpc://'' (rq_relay q)
        then (case take_first (\<lambda>h. rh_name h = drop 6 (rq_relay q)) candidates of
                Some (h, rest) \<Rightarrow> (rest, ordered @ [h]) | None \<Rightarrow> (candidates, ordered))
        else (candidates, ordered))"

definition direct_rpc_submit_endpoints_from_ranked_paths ::
  "libm \<Rightarrow> config \<Rightarrow> execution_engine \<Rightarrow> instant \<Rightarrow> relay_quote list \<Rightarrow> execution_engine \<times> rpc_handle list" where
  "direct_rpc_submit_endpoints_from_ranked_paths lm cfg en now ranked =
     (case send_candidates lm (en_rpc_fleet en) now (rpc_fanout cfg) of (fleet, candidates) \<Rightarrow>
      case foldl move_labelled (candidates, []) ranked of (rest, ordered) \<Rightarrow>
        (en\<lparr>en_rpc_fleet := fleet\<rparr>, take (rpc_fanout cfg) (ordered @ rest)))"

text \<open>The handles on which receipts are looked up: the submitting one first.\<close>

definition read_probe_handles ::
  "libm \<Rightarrow> nat option \<Rightarrow> execution_engine \<Rightarrow> instant \<Rightarrow> nat \<Rightarrow> execution_engine \<times> rpc_handle list" where
  "read_probe_handles lm rotate_env en now preferred_endpoint_id =
     (let primary = (case find (\<lambda>h. rh_id h = preferred_endpoint_id) (all_handles (en_rpc_fleet en)) of
            Some h \<Rightarrow> [h] | None \<Rightarrow> [])
      in case read_candidates lm rotate_env (en_rpc_fleet en) now 3 of (fleet, handles) \<Rightarrow>
           (en\<lparr>en_rpc_fleet := fleet\<rparr>, foldl push_new primary handles))"

section \<open>Treasury\<close>

definition hot_wallet_status :: "mev_config \<Rightarrow> f64 \<Rightarrow> string" where
  "hot_wallet_status m balance_eth =
     (if balance_eth < executor_min_buffer_eth m then ''underfunded''
      else if executor_max_buffer_eth m < balance_eth then ''overfunded''
      else if balance_eth < executor_target_buffer_eth m then ''below_target''
      else ''healthy'')"

definition treasury_signal_of :: "mev_config \<Rightarrow> f64 \<Rightarrow> treasury_signal_view" where
  "treasury_signal_of m balance_eth =
     (let target = executor_target_buffer_eth m; low = executor_min_buffer_eth m; high = executor_max_buffer_eth m
      in if balance_eth < low then
           \<lparr>tv_action = ''fund_executor'', tv_status = ''critical'',
            tv_recommended_amount_eth = fmax (target - balance_eth) 0,
            tv_note = ''executor below min buffer; fund from vault before next execution burst''\<rparr>
         else if balance_eth < target then
           \<lparr>tv_action = ''fund_executor'', tv_status = ''recommended'',
            tv_recommended_amount_eth = fmax (target - balance_eth) 0,
            tv_note = ''executor below target buffer; top up from vault to restore burst capacity''\<rparr>
         else if high < balance_eth then
           \<lparr>tv_action = ''sweep_to_vault'', tv_status = ''critical'',
            tv_recommended_amount_eth = fmax (balance_eth - target) 0,
            tv_note = ''executor above max buffer; sweep excess back to vault to reduce hot-wallet exposure''\<rparr>
         else if target < balance_eth then
           \<lparr>tv_action = ''sweep_to_vault'', tv_status = ''recommended'',
            tv_recommended_amount_eth = fmax (balance_eth - target) 0,
            tv_note = ''executor above target buffer; sweep excess to vault while keeping execution headroom''\<rparr>
         else
           \<lparr>tv_action = ''hold'', tv_status = ''healthy'', tv_recommended_amount_eth = 0,
            tv_note = ''executor buffer aligned with target; no treasury rebalance required''\<rparr>)"

text \<open>The signal is emitted when it differs from the last one; the second component says so.\<close>

definition maybe_emit_treasury_signal :: "config \<Rightarrow> execution_engine \<Rightarrow> f64 \<Rightarrow> execution_engine \<times> bool" where
  "maybe_emit_treasury_signal cfg en balance_eth =
     (let signal = treasury_signal_of (mev cfg) balance_eth;
          entry = \<lparr>ts_action = tv_action signal, ts_status = tv_status signal,
            ts_rounded_amount = f_as_word (fround_away (tv_recommended_amount_eth signal * dec 1000000 0))\<rparr>
      in case en_last_treasury_signal en of Poisoned s \<Rightarrow> (en, False)
         | Healthy previous \<Rightarrow>
             if previous = Some entry then (en, False)
             else (en\<lparr>en_last_treasury_signal := Healthy (Some entry)\<rparr>, True))"

section \<open>Realised profit\<close>

record receipt =
  rx_block_number :: "u64 option"
  rx_gas_used :: "u256 option"
  rx_effective_gas_price :: "u256 option"
  rx_status :: "u64 option"

text \<open>
  \<open>current_block\<close> is the answer to the block number request; \<open>pre\<close> and \<open>post\<close> the answers to the two
  balance requests.
\<close>

definition receipt_has_required_confirmations :: "mev_config \<Rightarrow> u64 option \<Rightarrow> receipt \<Rightarrow> bool" where
  "receipt_has_required_confirmations m current_block rx =
     (if finality_confirmations m = 0 then True
      else case rx_block_number rx of None \<Rightarrow> False
        | Some receipt_block \<Rightarrow>
            (case current_block of None \<Rightarrow> False
             | Some current \<Rightarrow> sat_add receipt_block (finality_confirmations m) \<le> current))"

definition engine_realized_profit_eth ::
  "config \<Rightarrow> execution_payload \<Rightarrow> receipt \<Rightarrow> u256 \<Rightarrow> u256 option \<Rightarrow> u256 option \<Rightarrow> f64 option" where
  "engine_realized_profit_eth cfg payload rx gas_paid_wei pre post =
     (case (rx_block_number rx, pre, post) of
        (Some _, Some pre_balance, Some post_balance) \<Rightarrow>
          (case find (\<lambda>t. mt_address t = pl_profit_token payload) (monitored_tokens cfg) of None \<Rightarrow> None
           | Some token_meta \<Rightarrow>
               let token_units = fpowi (dec 10 0) (uint (mt_decimals token_meta));
                   delta_tokens = of_uw (sat_sub post_balance pre_balance) / token_units;
                   gross_eth = delta_tokens * mt_price_eth token_meta
               in Some (gross_eth - wei_to_eth_f64 gas_paid_wei))
      | _ \<Rightarrow> None)"

text \<open>\<open>gas_used.as_u64()\<close> panics when the value does not fit.\<close>

definition result_of_receipt ::
  "config \<Rightarrow> execution_payload \<Rightarrow> receipt \<Rightarrow> u256 option \<Rightarrow> u256 option \<Rightarrow> panic + execution_result" where
  "result_of_receipt cfg payload rx pre post =
     (let gas = (case rx_gas_used rx of Some g \<Rightarrow> g | None \<Rightarrow> 0);
          price = (case rx_effective_gas_price rx of Some g \<Rightarrow> g | None \<Rightarrow> 0);
          gas_paid_wei = sat_mul gas price;
          success = (rx_status rx = Some 1);
          realized = (if success
            then (case engine_realized_profit_eth cfg payload rx gas_paid_wei pre post of
                    Some x \<Rightarrow> x
                  | None \<Rightarrow> wei_to_eth_f64 (pl_expected_profit_wei payload) - wei_to_eth_f64 gas_paid_wei)
            else - wei_to_eth_f64 gas_paid_wei)
      in case as_u64 gas of Inl p \<Rightarrow> Inl p
         | Inr gas_used \<Rightarrow> Inr \<lparr>er_realized_profit = realized, er_gas_used = gas_used, er_success = success\<rparr>)"

end
