(* ===== verification/ExecutorHandle.thy ===== *)
theory ExecutorHandle
  imports Executor
begin

text \<open>
  \<open>ExecutionEngine::handle\<close> of \<open>src/mev/execution/executor.rs\<close> and the methods it awaits. The record
  \<open>net\<close> holds what the outside answers: the wallet library, the environment variables, the RPC
  providers, the relays and the virtual machine. Concurrent submissions are a list of completions in
  the order in which they arrive; a task that is aborted or panics does not appear in it.
\<close>

section \<open>Inputs\<close>

record mev_opportunity =
  op_detected_at :: instant
  op_victim_tx :: h256
  op_victim_transaction :: "transaction option"
  op_execution_payload :: "execution_payload option"
  op_router :: address
  op_token_in :: address
  op_token_out :: address
  op_selector :: selector
  op_decode_source :: string
  op_decode_confidence :: f64
  op_preferred_relay :: "string option"

record context_answer =
  ca_hot_balance :: u256
  ca_chain_nonce :: u256
  ca_gas_price :: u256
  ca_base_fee_per_gas :: "u256 option"
  ca_block :: u64

record send_context =
  sx_endpoint :: rpc_handle
  sx_hot_balance :: u256
  sx_chain_nonce :: u256
  sx_gas_price :: u256
  sx_base_fee_per_gas :: "u256 option"
  sx_block :: u64

datatype probe_answer =
    ProbeFailed string
  | ProbeNoReceipt
  | ProbeReceipt receipt "u64 option" duration "u256 option" "u256 option"

record bundle_request =
  bl_block :: u64
  bl_revertible :: "transaction option"
  bl_tx :: bytes

record 'db net =
  nt_libm :: libm
  nt_rotate_env :: "nat option"
  nt_parse_wallet :: "string \<Rightarrow> string + address"
  nt_context :: "nat \<Rightarrow> duration \<times> (string + context_answer)"
  nt_preflight_enabled :: bool
  nt_preflight_hard_fail :: bool
  nt_vm :: "'db revm"
  nt_keccak_empty :: h256
  nt_timestamp :: u64
  nt_sign :: "address \<Rightarrow> unsigned_tx \<Rightarrow> string + bytes"
  nt_tx_hash :: "bytes \<Rightarrow> h256"
  nt_url_error :: "string \<Rightarrow> string option"
  nt_gate_time :: instant
  nt_rpc_completions :: "bytes \<Rightarrow> rpc_handle list \<Rightarrow> (rpc_handle \<times> instant \<times> duration \<times> (string + h256)) list"
  nt_relay_completions :: "bundle_request \<Rightarrow> relay_quote list \<Rightarrow> (relay_quote \<times> instant \<times> duration \<times> (string + h256)) list"
  nt_done_time :: instant
  nt_probe :: "h256 \<Rightarrow> nat \<Rightarrow> nat \<Rightarrow> probe_answer"
  nt_probe_time :: "nat \<Rightarrow> instant"

definition cluster_of :: "mev_opportunity \<Rightarrow> cluster_key" where
  "cluster_of opp = \<lparr>ck_router = op_router opp, ck_token_in = op_token_in opp,
     ck_token_out = op_token_out opp, ck_selector = op_selector opp\<rparr>"

definition millis_f64 :: "duration \<Rightarrow> f64" where
  "millis_f64 d = of_usize (as_millis d)"

section \<open>Preflight\<close>

definition hm_insert :: "'k \<Rightarrow> 'v \<Rightarrow> ('k \<times> 'v) list \<Rightarrow> ('k \<times> 'v) list" where
  "hm_insert k v xs = filter (\<lambda>p. fst p \<noteq> k) xs @ [(k, v)]"

text \<open>\<open>U256::from(i128)\<close> panics on a negative number.\<close>

definition pool_override :: "amm_state \<Rightarrow> panic + (address \<times> account_state)" where
  "pool_override st =
     (case st of
        AmmUniswapV2 pool \<Rightarrow>
          Inr (v2_pair pool, account_state_empty\<lparr>as_storage := [(0, v2_reserve0 pool), (1, v2_reserve1 pool)]\<rparr>)
      | AmmUniswapV3 pool \<Rightarrow>
          if v3_current_tick pool < 0 then Inl IntegerOverflow
          else Inr (v3_pool pool, account_state_empty\<lparr>as_storage := [(0, v3_sqrt_price_x96 pool),
                 (1, v3_liquidity pool), (2, word_of_int (v3_current_tick pool))]\<rparr>))"

definition preflight_overrides :: "config \<Rightarrow> address \<times> account_state \<Rightarrow> (address \<times> account_state) list" where
  "preflight_overrides cfg pool =
     (let o1 = [pool];
          o2 = (case mev_executor (mev cfg) of Some a \<Rightarrow> hm_insert a account_state_empty o1 | None \<Rightarrow> o1);
          o3 = (case mev_executor_v3 (mev cfg) of Some a \<Rightarrow> hm_insert a account_state_empty o2 | None \<Rightarrow> o2)
      in hm_insert (profit_address cfg) account_state_empty o3)"

definition validate_with_evm_preflight ::
  "'db net \<Rightarrow> config \<Rightarrow> execution_payload \<Rightarrow> u64 \<Rightarrow> amm_state \<Rightarrow> preflight_error + evm_preflight_result" where
  "validate_with_evm_preflight nt cfg payload block_number pool_state =
     (case pool_override pool_state of Inl p \<Rightarrow> Inl (PreflightPanic p)
      | Inr pool \<Rightarrow> evm_preflight_execution (nt_vm nt) (nt_keccak_empty nt) cfg
          \<lparr>tx_from = executor_address cfg, tx_to = Some (pl_target_contract payload),
           tx_input = pl_calldata payload, tx_value = pl_value payload, tx_gas_price = Some 0,
           tx_gas = ucast (pl_gas_limit payload), tx_nonce = 0, tx_chain_id = Some (ucast (chain_id cfg))\<rparr>
          block_number (nt_timestamp nt) (preflight_overrides cfg pool))"

text \<open>The placeholder pool that \<open>handle\<close> builds from the payload.\<close>

definition placeholder_pool :: "execution_payload \<Rightarrow> amm_state" where
  "placeholder_pool payload =
     (case pl_amm_kind payload of
        RouteV2 \<Rightarrow> AmmUniswapV2 \<lparr>v2_pair = pl_pair payload, v2_token0 = 0, v2_token1 = 0, v2_reserve0 = 0,
          v2_reserve1 = 0, v2_fee_bps = 30\<rparr>
      | RouteV3 fee_tier path \<Rightarrow> AmmUniswapV3 \<lparr>v3_pool = pl_pair payload, v3_token0 = 0, v3_token1 = 0,
          v3_sqrt_price_x96 = 0, v3_liquidity = 0, v3_current_tick = 0,
          v3_fee_bps = ucast fee_tier div 100, v3_initialized_ticks = []\<rparr>)"

datatype preflight_verdict = PreflightPass | PreflightBlock | PreflightPanics panic

definition preflight_gate :: "'db net \<Rightarrow> config \<Rightarrow> execution_payload \<Rightarrow> u64 \<Rightarrow> preflight_verdict" where
  "preflight_gate nt cfg payload target_block =
     (if \<not> nt_preflight_enabled nt then PreflightPass
      else case validate_with_evm_preflight nt cfg payload target_block (placeholder_pool payload) of
             Inr result \<Rightarrow> if pf_success result then PreflightPass else PreflightBlock
           | Inl (PreflightPanic p) \<Rightarrow> PreflightPanics p
           | Inl err \<Rightarrow> if nt_preflight_hard_fail nt then PreflightBlock else PreflightPass)"

section \<open>Network loops\<close>

text \<open>\<open>load_send_context\<close>: up to three endpoints, the first that answers.\<close>

fun try_contexts ::
  "'db net \<Rightarrow> instant \<Rightarrow> rpc_handle list \<Rightarrow> rpc_fleet \<Rightarrow> string option \<Rightarrow> panic + (rpc_fleet \<times> (string + send_context))" where
  "try_contexts nt now [] fleet last_error =
     Inr (fleet, Inl (case last_error of Some e \<Rightarrow> e | None \<Rightarrow> ''no rpc endpoint available for send context''))"
| "try_contexts nt now (h # hs) fleet last_error =
     (let f1 = reserve_send_selection fleet now (rh_id h)
      in case nt_context nt (rh_id h) of (latency, answer) \<Rightarrow>
        (case answer of
           Inr a \<Rightarrow>
             and_then (rpc_record_success f1 now (rh_id h) latency (Some (ca_block a))) (\<lambda>f2.
               Inr (f2, Inr \<lparr>sx_endpoint = h, sx_hot_balance = ca_hot_balance a, sx_chain_nonce = ca_chain_nonce a,
                 sx_gas_price = ca_gas_price a, sx_base_fee_per_gas = ca_base_fee_per_gas a, sx_block = ca_block a\<rparr>))
         | Inl err \<Rightarrow>
             try_contexts nt now hs (rpc_record_failure f1 now (rh_id h) (classify_failure err))
               (Some (err @ '' via '' @ rh_name h))))"

definition load_send_context ::
  "'db net \<Rightarrow> execution_engine \<Rightarrow> instant \<Rightarrow> panic + (execution_engine \<times> (string + send_context))" where
  "load_send_context nt en now =
     (case send_candidates (nt_libm nt) (en_rpc_fleet en) now 3 of (fleet, hs) \<Rightarrow>
        and_then (try_contexts nt now hs fleet None) (\<lambda>(f, r). Inr (en\<lparr>en_rpc_fleet := f\<rparr>, r)))"

definition with_adaptive :: "(adaptive_policy \<Rightarrow> adaptive_policy) \<Rightarrow> execution_engine \<Rightarrow> execution_engine" where
  "with_adaptive g en = en\<lparr>en_adaptive := update_lock g (en_adaptive en)\<rparr>"

text \<open>One round over the probe handles; \<open>elapsed\<close> is the time since the observation started.\<close>

fun probe_handles ::
  "'db net \<Rightarrow> config \<Rightarrow> h256 \<Rightarrow> nat \<Rightarrow> instant \<Rightarrow> duration \<Rightarrow> cluster_key \<Rightarrow> execution_payload \<Rightarrow> string \<Rightarrow> rpc_handle list
    \<Rightarrow> execution_engine \<Rightarrow> panic + (execution_engine \<times> execution_result option)" where
  "probe_handles nt cfg tx_hash k now elapsed cluster payload relay [] en = Inr (en, None)"
| "probe_handles nt cfg tx_hash k now elapsed cluster payload relay (h # hs) en =
     (case nt_probe nt tx_hash k (rh_id h) of
        ProbeFailed err \<Rightarrow>
          probe_handles nt cfg tx_hash k now elapsed cluster payload relay hs
            (en\<lparr>en_rpc_fleet := rpc_record_failure (en_rpc_fleet en) now (rh_id h) (classify_failure err)\<rparr>)
      | ProbeNoReceipt \<Rightarrow> probe_handles nt cfg tx_hash k now elapsed cluster payload relay hs en
      | ProbeReceipt rx current latency pre post \<Rightarrow>
          if \<not> receipt_has_required_confirmations (mev cfg) current rx
          then probe_handles nt cfg tx_hash k now elapsed cluster payload relay hs en
          else and_then (rpc_record_success (en_rpc_fleet en) now (rh_id h) latency None) (\<lambda>fleet.
               and_then (result_of_receipt cfg payload rx pre post) (\<lambda>result.
                 Inr (with_adaptive (\<lambda>p. record_contextual_outcome
                          (record_finalization_for_relay p relay (pl_expected_profit_wei payload)
                             (er_realized_profit result) (er_success result) (millis_f64 elapsed))
                          relay cluster (pl_expected_profit_wei payload) (er_realized_profit result)
                          (if er_success result then IncludedSuccess else IncludedRevert))
                        (en\<lparr>en_rpc_fleet := fleet\<rparr>), Some result))))"

definition no_result :: execution_result where
  "no_result = \<lparr>er_realized_profit = 0, er_gas_used = 0, er_success = False\<rparr>"

text \<open>\<open>observe_realized_pnl\<close>: ten rounds, \<open>n\<close> of them left.\<close>

fun observe_rounds ::
  "'db net \<Rightarrow> config \<Rightarrow> h256 \<Rightarrow> nat \<Rightarrow> instant \<Rightarrow> nat \<Rightarrow> cluster_key \<Rightarrow> execution_payload \<Rightarrow> string \<Rightarrow> execution_engine
    \<Rightarrow> panic + (execution_engine \<times> execution_result)" where
  "observe_rounds nt cfg tx_hash endpoint_id started 0 cluster payload relay en =
     (let elapsed = millis_f64 (duration_since (nt_probe_time nt 10) started)
      in Inr (with_adaptive (\<lambda>p. record_contextual_outcome (record_receipt_timeout_for_relay p relay elapsed)
                relay cluster (pl_expected_profit_wei payload) 0 AcceptedNotIncluded) en, no_result))"
| "observe_rounds nt cfg tx_hash endpoint_id started (Suc n) cluster payload relay en =
     (let k = 9 - n; now = nt_probe_time nt k
      in case read_probe_handles (nt_libm nt) (nt_rotate_env nt) en now endpoint_id of (en1, hs) \<Rightarrow>
         and_then (probe_handles nt cfg tx_hash k now (duration_since now started) cluster payload relay hs en1)
           (\<lambda>(en2, found). case found of Some result \<Rightarrow> Inr (en2, result)
              | None \<Rightarrow> observe_rounds nt cfg tx_hash endpoint_id started n cluster payload relay en2))"

definition observe_realized_pnl ::
  "'db net \<Rightarrow> config \<Rightarrow> execution_engine \<Rightarrow> instant \<Rightarrow> h256 \<Rightarrow> nat \<Rightarrow> cluster_key \<Rightarrow> execution_payload \<Rightarrow> string
    \<Rightarrow> panic + (execution_engine \<times> execution_result)" where
  "observe_realized_pnl nt cfg en started tx_hash endpoint_id cluster payload relay =
     observe_rounds nt cfg tx_hash endpoint_id started 10 cluster payload relay en"

section \<open>Submission\<close>

text \<open>The bundle of \<open>build_bundle\<close>: the next block, the victim (allowed to revert), the own transaction.\<close>

definition build_bundle :: "u64 \<Rightarrow> mev_opportunity \<Rightarrow> bytes \<Rightarrow> bundle_request" where
  "build_bundle block opp raw = \<lparr>bl_block = sat_add block 1, bl_revertible = op_victim_transaction opp, bl_tx = raw\<rparr>"

text \<open>The end of an attempt: the reservation is given back and the result recorded.\<close>

definition settle ::
  "config \<Rightarrow> execution_engine \<Rightarrow> instant \<Rightarrow> mev_opportunity \<Rightarrow> execution_payload \<Rightarrow> string option \<Rightarrow> execution_result
    \<Rightarrow> execution_engine" where
  "settle cfg en now opp payload path result =
     record_result cfg (release_budget en (op_victim_tx opp)) now result (Some (pl_pair payload))
       (Some (op_router opp)) path (Some (pl_context_priority_score payload)) (Some (pl_context_toxicity_score payload))"

fun rpc_submissions ::
  "'db net \<Rightarrow> config \<Rightarrow> mev_opportunity \<Rightarrow> execution_payload \<Rightarrow> u64
    \<Rightarrow> (rpc_handle \<times> instant \<times> duration \<times> (string + h256)) list \<Rightarrow> execution_engine \<Rightarrow> string option
    \<Rightarrow> panic + (execution_engine \<times> (string + execution_result))" where
  "rpc_submissions nt cfg opp payload target_block [] en last_error =
     Inr (en, Inl (case last_error of Some e \<Rightarrow> e | None \<Rightarrow> ''all rpc submit endpoints failed''))"
| "rpc_submissions nt cfg opp payload target_block ((h, now, latency, answer) # cs) en last_error =
     (let f1 = reserve_send_selection (en_rpc_fleet en) now (rh_id h)
      in case answer of
           Inr tx_hash \<Rightarrow>
             and_then (rpc_record_success f1 now (rh_id h) latency (Some target_block)) (\<lambda>f2.
               let label = rpc_label (rh_name h);
                   en1 = with_adaptive (\<lambda>p. record_submit_success_for_relay p label (millis_f64 latency))
                           (en\<lparr>en_rpc_fleet := f2\<rparr>)
               in and_then (observe_realized_pnl nt cfg en1 now tx_hash (rh_id h) (cluster_of opp) payload label)
                    (\<lambda>(en2, realized). Inr (settle cfg en2 (nt_done_time nt) opp payload (Some label) realized, Inr realized)))
         | Inl err \<Rightarrow>
             rpc_submissions nt cfg opp payload target_block cs
               (en\<lparr>en_rpc_fleet := rpc_record_failure f1 now (rh_id h) (classify_failure err)\<rparr>) (Some err))"

fun relay_submissions ::
  "'db net \<Rightarrow> config \<Rightarrow> mev_opportunity \<Rightarrow> execution_payload \<Rightarrow> send_context \<Rightarrow> h256
    \<Rightarrow> (relay_quote \<times> instant \<times> duration \<times> (string + h256)) list \<Rightarrow> execution_engine \<Rightarrow> string option
    \<Rightarrow> panic + (execution_engine \<times> (string + execution_result))" where
  "relay_submissions nt cfg opp payload sx tx_hash [] en last_error =
     Inr (en, Inl (case last_error of Some e \<Rightarrow> e | None \<Rightarrow> ''no relay submission path available''))"
| "relay_submissions nt cfg opp payload sx tx_hash ((q, now, latency, answer) # cs) en last_error =
     (case answer of
        Inr bundle_hash \<Rightarrow>
          and_then (observe_realized_pnl nt cfg
               (with_adaptive (\<lambda>p. record_submit_success_for_relay p (rq_relay q) (millis_f64 latency)) en)
               now tx_hash (rh_id (sx_endpoint sx)) (cluster_of opp) payload (rq_relay q))
            (\<lambda>(en2, realized).
               Inr (settle cfg en2 (nt_done_time nt) opp payload (Some (rq_relay q)) realized, Inr realized))
      | Inl err \<Rightarrow>
          relay_submissions nt cfg opp payload sx tx_hash cs
            (with_adaptive (\<lambda>p. record_contextual_outcome
               (record_submit_failure_for_relay p (rq_relay q) (millis_f64 latency))
               (rq_relay q) (cluster_of opp) (pl_expected_profit_wei payload) 0 SubmitFailed) en)
            (Some err))"

text \<open>The relays that get a task, and the last error of a URL that does not parse.\<close>

definition relay_targets :: "'db net \<Rightarrow> config \<Rightarrow> relay_quote list \<Rightarrow> relay_quote list \<times> string option" where
  "relay_targets nt cfg ranked =
     (let tried = take (max (nat (relay_fanout_count (mev cfg))) 1) ranked
      in (filter (\<lambda>q. nt_url_error nt (rq_relay q) = None) tried,
          foldl (\<lambda>e q. case nt_url_error nt (rq_relay q) of Some err \<Rightarrow> Some err | None \<Rightarrow> e) None tried))"

definition first_path :: "relay_quote list \<Rightarrow> string option" where
  "first_path ranked = (case ranked of [] \<Rightarrow> None | q # _ \<Rightarrow> Some (rq_relay q))"

definition submit_direct ::
  "'db net \<Rightarrow> config \<Rightarrow> mev_opportunity \<Rightarrow> execution_payload \<Rightarrow> u64 \<Rightarrow> relay_quote list \<Rightarrow> bytes \<Rightarrow> execution_engine
    \<Rightarrow> panic + (execution_engine \<times> (string + execution_result))" where
  "submit_direct nt cfg opp payload target_block ranked raw en =
     (case direct_rpc_submit_endpoints_from_ranked_paths (nt_libm nt) cfg en (nt_gate_time nt) ranked of (en1, hs) \<Rightarrow>
        and_then (rpc_submissions nt cfg opp payload target_block (nt_rpc_completions nt raw hs) en1 None)
          (\<lambda>(en2, r). case r of
             Inr realized \<Rightarrow> Inr (en2, Inr realized)
           | Inl err \<Rightarrow> Inr (if ranked = [] then en2
                             else settle cfg en2 (nt_done_time nt) opp payload (first_path ranked) no_result, Inl err)))"

definition submit_relays ::
  "'db net \<Rightarrow> config \<Rightarrow> mev_opportunity \<Rightarrow> execution_payload \<Rightarrow> send_context \<Rightarrow> relay_quote list \<Rightarrow> bytes
    \<Rightarrow> execution_engine \<Rightarrow> panic + (execution_engine \<times> (string + execution_result))" where
  "submit_relays nt cfg opp payload sx ranked raw en =
     (case relay_targets nt cfg ranked of (targets, last_error) \<Rightarrow>
        and_then (relay_submissions nt cfg opp payload sx (nt_tx_hash nt raw)
            (nt_relay_completions nt (build_bundle (sx_block sx) opp raw) targets) en last_error)
          (\<lambda>(en2, r). case r of
             Inr realized \<Rightarrow> Inr (en2, Inr realized)
           | Inl err \<Rightarrow> Inr (settle cfg en2 (nt_done_time nt) opp payload (first_path ranked) no_result, Inl err)))"

section \<open>Handling an opportunity\<close>

text \<open>
  Where \<open>handle\<close> ends: the early returns with \<open>Ok(())\<close>, the errors, a transaction that some path
  accepted with the result observed for it, and a transaction that every path refused.
\<close>

datatype handle_outcome =
    ObservationMode
  | StaleOpportunity
  | NoPayload
  | FrozenGlobal stop_loss_snapshot_t
  | WalletError string
  | ContextError string
  | GasCapExceeded
  | WalletUnderfunded
  | WalletOverfunded
  | PreflightRejected
  | BudgetBlocked budget_decision
  | FrozenContext
  | SignError string
  | Settled unsigned_tx execution_result
  | NotAccepted unsigned_tx string

text \<open>The \<open>retain\<close> over the ranked paths, whose closure decays and clears the guards it looks at.\<close>

fun retain_paths ::
  "config \<Rightarrow> instant \<Rightarrow> address \<Rightarrow> address \<Rightarrow> relay_quote list \<Rightarrow> execution_engine \<Rightarrow> execution_engine \<times> relay_quote list" where
  "retain_paths cfg now pair router [] en = (en, [])"
| "retain_paths cfg now pair router (q # qs) en =
     (case context_stop_loss_snapshot cfg en now pair router (rq_relay q) of (en1, s) \<Rightarrow>
      case retain_paths cfg now pair router qs en1 of (en2, kept) \<Rightarrow>
        (en2, if s = None then q # kept else kept))"

definition rank_submit_paths ::
  "'db net \<Rightarrow> config \<Rightarrow> mev_opportunity \<Rightarrow> send_context \<Rightarrow> execution_engine \<Rightarrow> execution_engine \<times> relay_quote list" where
  "rank_submit_paths nt cfg opp sx en =
     (if uses_bundle_relays cfg
      then (en, engine_rank_relays cfg (en_adaptive en) (op_preferred_relay opp) (cluster_of opp))
      else rank_direct_rpc_submit_paths (nt_libm nt) cfg en (nt_gate_time nt) (sx_endpoint sx) (cluster_of opp))"

text \<open>From the ranking on, with the capital reserved.\<close>

definition handle_submit ::
  "'db net \<Rightarrow> config \<Rightarrow> mev_opportunity \<Rightarrow> execution_payload \<Rightarrow> address \<Rightarrow> send_context \<Rightarrow> execution_engine
    \<Rightarrow> panic + (execution_engine \<times> handle_outcome)" where
  "handle_submit nt cfg opp payload wallet sx en =
     (case rank_submit_paths nt cfg opp sx en of (en1, paths) \<Rightarrow>
      case retain_paths cfg (nt_gate_time nt) (pl_pair payload) (op_router opp) paths en1 of (en2, ranked) \<Rightarrow>
        if ranked = [] then Inr (en2, FrozenContext)
        else
          let gas_price = dynamic_gas_price (mev cfg) (sx_gas_price sx) (Some (hd ranked)) payload;
              tx = executor_transaction cfg wallet payload (sx_chain_nonce sx) gas_price (sx_base_fee_per_gas sx)
          in case nt_sign nt wallet tx of
               Inl err \<Rightarrow> Inr (en2, SignError err)
             | Inr raw \<Rightarrow>
                 and_then (if uses_bundle_relays cfg then submit_relays nt cfg opp payload sx ranked raw en2
                           else submit_direct nt cfg opp payload (sat_add (sx_block sx) 1) ranked raw en2)
                   (\<lambda>(en3, r). Inr (en3, case r of Inl err \<Rightarrow> NotAccepted tx err | Inr realized \<Rightarrow> Settled tx realized)))"

text \<open>The gates on the wallet, the preflight and the budget.\<close>

definition handle_gates ::
  "'db net \<Rightarrow> config \<Rightarrow> mev_opportunity \<Rightarrow> execution_payload \<Rightarrow> address \<Rightarrow> send_context \<Rightarrow> execution_engine
    \<Rightarrow> panic + (execution_engine \<times> handle_outcome)" where
  "handle_gates nt cfg opp payload wallet sx en =
     (let balance = wei_to_eth_f64 (sx_hot_balance sx);
          en1 = fst (maybe_emit_treasury_signal cfg en balance)
      in if (case max_gas_price_wei (mev cfg) of Some cap \<Rightarrow> cap < sx_gas_price sx | None \<Rightarrow> False)
         then Inr (en1, GasCapExceeded)
         else if balance < executor_min_buffer_eth (mev cfg) then Inr (en1, WalletUnderfunded)
         else if executor_max_buffer_eth (mev cfg) < balance then Inr (en1, WalletOverfunded)
         else case preflight_gate nt cfg payload (sat_add (sx_block sx) 1) of
                PreflightPanics p \<Rightarrow> Inl p
              | PreflightBlock \<Rightarrow> Inr (en1, PreflightRejected)
              | PreflightPass \<Rightarrow>
                  (case check_and_reserve_budget cfg en1 (nt_gate_time nt) (op_victim_tx opp) payload (cluster_of opp) of
                     (en2, d) \<Rightarrow> if \<not> bd_allowed d then Inr (en2, BudgetBlocked d)
                                 else handle_submit nt cfg opp payload wallet sx en2))"

definition age_ms :: "mev_opportunity \<Rightarrow> instant \<Rightarrow> int" where
  "age_ms opp now = as_millis (duration_since now (op_detected_at opp))"

definition handle ::
  "'db net \<Rightarrow> config \<Rightarrow> execution_engine \<Rightarrow> instant \<Rightarrow> mev_opportunity \<Rightarrow> panic + (execution_engine \<times> handle_outcome)" where
  "handle nt cfg en now opp =
     (if \<not> allow_send cfg then Inr (en, ObservationMode)
      else if uint (max (max_pending_age_ms (mev cfg)) 1) < age_ms opp now then Inr (en, StaleOpportunity)
      else case op_execution_payload opp of None \<Rightarrow> Inr (en, NoPayload)
      | Some payload \<Rightarrow>
        (case stop_loss_snapshot en now of
           (en1, Some snapshot) \<Rightarrow> Inr (en1, FrozenGlobal snapshot)
         | (en1, None) \<Rightarrow>
           (case nt_parse_wallet nt (executor_private_key cfg) of
              Inl err \<Rightarrow> Inr (en1, WalletError err)
            | Inr wallet \<Rightarrow>
                and_then (load_send_context nt en1 now) (\<lambda>(en2, r).
                  case r of Inl err \<Rightarrow> Inr (en2, ContextError err)
                  | Inr sx \<Rightarrow> handle_gates nt cfg opp payload wallet sx en2))))"

end
