(* ===== verification/ExecutorSafety.thy ===== *)
theory ExecutorSafety
  imports ExecutorHandle RpcSafety AdaptiveRuns "HOL-Library.Sublist"
begin

text \<open>
  What the execution engine promises: reserved capital stays within the three exposure limits under
  every interleaving of reservations and releases, the stop loss counts the losing streak and freezes
  for its period, and gas escalation stays within its bounds.
\<close>

section \<open>Capital budget\<close>

text \<open>Sums of floats that are not negative.\<close>

lemma rounded_plus: "rounded (x + y)"
  using rounds_to_rounded [OF plus_f64_rounds_to] finite_plusD [of x y] by (auto simp: rounded_def)

lemma rounded_zero: "rounded 0"
  by (rule rounds_to_rounded [OF zero_rounds_to])

lemma le_plus_f64:
  assumes "0 \<le> x" "0 \<le> c" "rounded x"
  shows "x \<le> x + c"
proof (cases "is_finite x \<and> is_finite c")
  case True
  then show ?thesis using assms
    by (intro rounds_to_mono [OF _ plus_f64_rounds_to]) (auto simp: rounded_def less_eq_f64_iff)
next
  case False
  then show ?thesis using assms(1,2) by (cases x; cases c) (auto simp: zero_f64_def)
qed

lemma plus_right_mono_f64:
  assumes "0 \<le> x" "x \<le> y" "0 \<le> (c :: f64)"
  shows "x + c \<le> y + c"
proof (cases "is_finite x \<and> is_finite y \<and> is_finite c")
  case True
  then show ?thesis using assms by (intro plus_mono_f64) (simp_all add: less_eq_f64_iff)
next
  case False
  have "\<not> is_nan (x + c)" using zero_le_plus_f64 [OF assms(1,3)] le_f64_not_nan by blast
  moreover have "y + c = Infty False"
    using False assms by (cases x; cases y; cases c) (auto simp: zero_f64_def)
  moreover have "z \<le> Infty False" if "\<not> is_nan z" for z using that by (cases z) auto
  ultimately show ?thesis by simp
qed

definition exposure_from :: "(budget_reservation \<Rightarrow> bool) \<Rightarrow> f64 \<Rightarrow> capital_budget \<Rightarrow> f64" where
  "exposure_from P = foldl (\<lambda>acc r. if P r then acc + bu_capital_eth r else acc)"

lemma exposure_from_simps [simp]:
  "exposure_from P acc [] = acc"
  "exposure_from P acc (r # b) = exposure_from P (if P r then acc + bu_capital_eth r else acc) b"
  "exposure_from P acc (b @ b') = exposure_from P (exposure_from P acc b) b'"
  by (simp_all add: exposure_from_def)

lemma exposure_eq: "exposure P b = exposure_from P 0 b"
  by (simp add: exposure_def exposure_from_def)

definition capital_ok :: "capital_budget \<Rightarrow> bool" where
  "capital_ok b = list_all (\<lambda>r. 0 \<le> bu_capital_eth r) b"

lemma exposure_from_nonneg: "capital_ok b \<Longrightarrow> 0 \<le> acc \<Longrightarrow> 0 \<le> exposure_from P acc b"
  by (induction b arbitrary: acc) (auto simp: capital_ok_def zero_le_plus_f64)

lemma exposure_from_mono:
  "subseq b' b \<Longrightarrow> capital_ok b \<Longrightarrow> 0 \<le> acc' \<Longrightarrow> rounded acc' \<Longrightarrow> acc' \<le> acc \<Longrightarrow> rounded acc
    \<Longrightarrow> exposure_from P acc' b' \<le> exposure_from P acc b"
proof (induction b' b arbitrary: acc acc' rule: list_emb.induct)
  case (list_emb_Nil b)
  then show ?case
  proof (induction b arbitrary: acc)
    case (Cons r b)
    then have "0 \<le> acc" "0 \<le> bu_capital_eth r" using le_f64_trans [of 0 acc'] by (auto simp: capital_ok_def)
    then have "acc' \<le> acc + bu_capital_eth r"
      using Cons.prems le_plus_f64 [of acc "bu_capital_eth r"] le_f64_trans by blast
    then show ?case using Cons by (simp add: capital_ok_def rounded_plus)
  qed simp
next
  case (list_emb_Cons b' b r)
  then have acc: "0 \<le> acc" "0 \<le> bu_capital_eth r" using le_f64_trans [of 0 acc'] by (auto simp: capital_ok_def)
  then have "acc' \<le> acc + bu_capital_eth r"
    using list_emb_Cons.prems le_plus_f64 [of acc "bu_capital_eth r"] le_f64_trans by blast
  then show ?case using list_emb_Cons by (simp add: capital_ok_def rounded_plus)
next
  case (list_emb_Cons2 r' r b' b)
  then have "acc' + bu_capital_eth r \<le> acc + bu_capital_eth r" "0 \<le> acc' + bu_capital_eth r"
    by (auto simp: capital_ok_def intro: plus_right_mono_f64 zero_le_plus_f64)
  then show ?case using list_emb_Cons2 by (simp add: capital_ok_def rounded_plus)
qed

lemma exposure_subseq: "subseq b' b \<Longrightarrow> capital_ok b \<Longrightarrow> exposure P b' \<le> exposure P b"
  unfolding exposure_eq by (rule exposure_from_mono) (simp_all add: rounded_zero)

lemma wei_to_eth_nonneg: "0 \<le> wei_to_eth_f64 wei"
proof -
  have "0 < dec (10 ^ 18) 0" "is_finite (dec (10 ^ 18) 0)" by code_simp+
  then show ?thesis
    unfolding wei_to_eth_f64_def using of_uw_u256(1) [of wei] not_neg_of_uw [of wei]
    by (intro rounds_to_mono [OF zero_rounds_to divide_f64_rounds_to])
      (auto simp: less_f64_iff not_neg_finite)
qed

text \<open>
  Reservations and releases of concurrent handlers interleave in any order; each holds the lock, so
  each is one step. The clock does not run backwards.
\<close>

inductive budget_reachable :: "config \<Rightarrow> instant \<Rightarrow> capital_budget \<Rightarrow> bool" for cfg where
  start: "budget_reachable cfg now []"
| wait: "budget_reachable cfg now b \<Longrightarrow> now \<le> later \<Longrightarrow> budget_reachable cfg later b"
| reserve: "budget_reachable cfg now b
    \<Longrightarrow> budget_reachable cfg now (fst (check_and_reserve cfg b now (wei_to_eth_f64 wei) cluster pair victim))"
| release: "budget_reachable cfg now b \<Longrightarrow> budget_reachable cfg now (budget_release b victim)"

definition exposure_limits_ok :: "config \<Rightarrow> bool" where
  "exposure_limits_ok cfg = (0 \<le> max_window_exposure_eth (mev cfg) \<and> 0 \<le> max_cluster_window_exposure_eth (mev cfg)
     \<and> 0 \<le> max_pair_window_exposure_eth (mev cfg))"

definition within_limits :: "config \<Rightarrow> capital_budget \<Rightarrow> bool" where
  "within_limits cfg b \<longleftrightarrow> exposure (\<lambda>_. True) b \<le> max_window_exposure_eth (mev cfg)
     \<and> (\<forall>c. exposure (\<lambda>r. bu_cluster r = c) b \<le> max_cluster_window_exposure_eth (mev cfg))
     \<and> (\<forall>a. exposure (\<lambda>r. bu_pair r = a) b \<le> max_pair_window_exposure_eth (mev cfg))"

definition budget_ok :: "config \<Rightarrow> instant \<Rightarrow> capital_budget \<Rightarrow> bool" where
  "budget_ok cfg now b \<longleftrightarrow> capital_ok b \<and> within_limits cfg b \<and> sorted (map bu_reserved_at b)
     \<and> (\<forall>r\<in>set b. bu_reserved_at r \<le> now)"

interpretation budget_window: windowed_queue bu_reserved_at "reservation_expired w" for w
  by unfold_locales
    (auto simp: reservation_expired_def duration_since_def as_secs_def elim!: less_le_trans intro!: zdiv_mono1)

lemma budget_prune_subseq: "subseq (budget_prune b w now) b"
  unfolding budget_prune_def by (rule suffix_imp_subseq) (rule suffix_dropWhile)

lemma subseq_set: "subseq xs ys \<Longrightarrow> set xs \<subseteq> set ys"
  by (induction rule: list_emb.induct) auto

lemma subseq_sorted_map: "subseq xs ys \<Longrightarrow> sorted (map f ys) \<Longrightarrow> sorted (map f xs)"
  by (induction rule: list_emb.induct) (auto dest: subseq_set)

lemma budget_ok_subseq:
  assumes "budget_ok cfg now b" "subseq b' b"
  shows "budget_ok cfg now b'"
proof -
  have "capital_ok b'" "\<forall>r\<in>set b'. bu_reserved_at r \<le> now"
    using assms subseq_set [OF assms(2)] by (auto simp: budget_ok_def capital_ok_def list_all_iff)
  moreover have "sorted (map bu_reserved_at b')"
    using assms subseq_sorted_map by (auto simp: budget_ok_def)
  moreover have "within_limits cfg b'"
    using assms(1) exposure_subseq [OF assms(2)] unfolding budget_ok_def within_limits_def
    by (meson le_f64_trans)
  ultimately show ?thesis by (simp add: budget_ok_def)
qed

lemma exposure_snoc: "exposure P (b @ [r]) = (if P r then exposure P b + bu_capital_eth r else exposure P b)"
  by (simp add: exposure_eq)

lemma exposure_plus_not_nan:
  "capital_ok b \<Longrightarrow> 0 \<le> c \<Longrightarrow> 0 \<le> exposure P b + c"
  unfolding exposure_eq by (intro zero_le_plus_f64 exposure_from_nonneg) simp_all

lemma budget_ok_reserve:
  assumes "budget_ok cfg now b0" "exposure_limits_ok cfg" "0 \<le> capital"
  shows "budget_ok cfg now (fst (check_and_reserve cfg b0 now capital cluster pair victim))"
proof -
  define b where "b = budget_prune b0 (capital_window_secs (mev cfg)) now"
  have ok: "budget_ok cfg now b" unfolding b_def by (rule budget_ok_subseq [OF assms(1) budget_prune_subseq])
  have le: "exposure P b + capital \<le> limit" if "\<not> limit < exposure P b + capital" "0 \<le> limit" for P limit
    using that ok exposure_plus_not_nan [of b capital P] assms(3) le_f64_not_nan
    by (intro not_less_f64) (auto simp: budget_ok_def)
  show ?thesis
    using ok assms(2,3)
    by (auto simp: check_and_reserve_def Let_def b_def [symmetric] budget_ok_def within_limits_def
        exposure_snoc exposure_limits_ok_def capital_ok_def sorted_append le split: if_splits)
qed

lemma budget_reachable_ok:
  "budget_reachable cfg now b \<Longrightarrow> exposure_limits_ok cfg \<Longrightarrow> budget_ok cfg now b"
proof (induction rule: budget_reachable.induct)
  case (start now)
  then show ?case by (auto simp: budget_ok_def within_limits_def exposure_limits_ok_def capital_ok_def exposure_def)
next
  case (wait now b later)
  then show ?case by (fastforce simp: budget_ok_def)
next
  case (reserve now b wei cluster pair victim)
  then show ?case using budget_ok_reserve wei_to_eth_nonneg by blast
next
  case (release now b victim)
  then show ?case unfolding budget_release_def using budget_ok_subseq subseq_filter_left by blast
qed

text \<open>
  C6: Whatever order reservations and releases come in, the capital reserved within the window never
  exceeds the limits: not in total, not for any cluster of router, tokens and selector, not for any
  pair. The sums are the floating-point sums that the code compares.
\<close>
theorem budget_never_exceeded:
  assumes "budget_reachable cfg now b" "exposure_limits_ok cfg"
  shows "exposure (\<lambda>_. True) b \<le> max_window_exposure_eth (mev cfg)
    \<and> (\<forall>c. exposure (\<lambda>r. bu_cluster r = c) b \<le> max_cluster_window_exposure_eth (mev cfg))
    \<and> (\<forall>a. exposure (\<lambda>r. bu_pair r = a) b \<le> max_pair_window_exposure_eth (mev cfg))"
  using budget_reachable_ok [OF assms] by (simp add: budget_ok_def within_limits_def)

definition demo_budget :: capital_budget where
  "demo_budget = fst (check_and_reserve demo_config [] 0 (wei_to_eth_f64 1000000000000000) demo_cluster 7 9)"

lemma demo_budget_reachable: "budget_reachable demo_config 0 demo_budget" "exposure_limits_ok demo_config"
  using budget_reachable.reserve [OF budget_reachable.start]
  unfolding demo_budget_def by blast (code_simp)

theorem budget_never_exceeded_witness:
  "length demo_budget = 1 \<and> exposure (\<lambda>r. bu_pair r = 7) demo_budget \<le> max_pair_window_exposure_eth (mev demo_config)"
proof -
  have "length demo_budget = 1" by code_simp
  then show ?thesis using budget_never_exceeded [OF demo_budget_reachable] by blast
qed

section \<open>Stop loss\<close>

record result_event =
  ev_at :: instant
  ev_result :: execution_result
  ev_pair :: "address option"
  ev_router :: "address option"
  ev_path :: "string option"
  ev_priority :: "f64 option"
  ev_toxicity :: "f64 option"

definition record_event :: "config \<Rightarrow> result_event \<Rightarrow> execution_engine \<Rightarrow> execution_engine" where
  "record_event cfg e en = record_result cfg en (ev_at e) (ev_result e) (ev_pair e) (ev_router e) (ev_path e)
     (ev_priority e) (ev_toxicity e)"

text \<open>
  The guard is read and written by three operations: the recording of a result, the look at the global
  stop loss, which lifts a freeze that is over, and the look at a contextual one. \<open>handle\<close> and the
  tracker of outcomes use it only through them, in any order.
\<close>

datatype guard_call = Recorded result_event | Looked instant | LookedContext instant address address string

fun guard_step :: "config \<Rightarrow> guard_call \<Rightarrow> execution_engine \<Rightarrow> execution_engine" where
  "guard_step cfg (Recorded e) en = record_event cfg e en"
| "guard_step cfg (Looked now) en = fst (stop_loss_snapshot en now)"
| "guard_step cfg (LookedContext now pair router path) en = fst (context_stop_loss_snapshot cfg en now pair router path)"

text \<open>
  What the guard is meant to know: the number of losses since the last win or the last freeze that was
  lifted, without a bound, and the instant of the last result. The engine is frozen while the streak is
  not empty, has reached the threshold, and its last loss is not yet the freeze period ago.
\<close>

record loss_streak =
  ls_losses :: nat
  ls_last :: instant

definition streak_frozen :: "mev_config \<Rightarrow> loss_streak \<Rightarrow> bool" where
  "streak_frozen m k = (0 < ls_losses k \<and> uint (stop_loss_consecutive_losses m) \<le> int (ls_losses k))"

definition streak_thaw :: "mev_config \<Rightarrow> loss_streak \<Rightarrow> instant" where
  "streak_thaw m k = ls_last k + nanos_of_secs (uint (stop_loss_freeze_secs m))"

fun streak_step :: "mev_config \<Rightarrow> guard_call \<Rightarrow> loss_streak \<Rightarrow> loss_streak" where
  "streak_step m (Recorded e) k =
     \<lparr>ls_losses = (if winning (ev_result e) then 0 else Suc (ls_losses k)), ls_last = ev_at e\<rparr>"
| "streak_step m (Looked now) k =
     (if streak_frozen m k \<and> streak_thaw m k \<le> now then k\<lparr>ls_losses := 0\<rparr> else k)"
| "streak_step m (LookedContext now pair router path) k = k"

definition no_losses :: loss_streak where
  "no_losses = \<lparr>ls_losses = 0, ls_last = 0\<rparr>"

definition guard_shows :: "mev_config \<Rightarrow> loss_streak \<Rightarrow> execution_guard \<Rightarrow> bool" where
  "guard_shows m k g \<longleftrightarrow> uint (eg_consecutive_losses g) = min (2 ^ 32 - 1) (int (ls_losses k))
     \<and> eg_frozen_until g = (if streak_frozen m k then Some (streak_thaw m k) else None)"

lemma record_guard_global:
  "eg_consecutive_losses (record_guard m now r pair router path pri tox g) = eg_consecutive_losses (record_global m now r g)"
  "eg_frozen_until (record_guard m now r pair router path pri tox g) = eg_frozen_until (record_global m now r g)"
  by (simp_all add: record_guard_def Let_def)

lemma context_snapshot_global:
  "eg_consecutive_losses (fst (context_snapshot m g now key)) = eg_consecutive_losses g"
  "eg_frozen_until (fst (context_snapshot m g now key)) = eg_frozen_until g"
  by (simp_all add: context_snapshot_def Let_def split: option.split)

lemma guard_shows_record:
  assumes "guard_shows m k g"
  shows "guard_shows m (streak_step m (Recorded e) k)
           (record_guard m (ev_at e) (ev_result e) pair router path pri tox g)"
proof (cases "winning (ev_result e)")
  case True
  then show ?thesis by (simp add: guard_shows_def streak_frozen_def record_guard_global record_global_def)
next
  case False
  have losses: "uint (sat_add (eg_consecutive_losses g) 1) = min (2 ^ 32 - 1) (int (Suc (ls_losses k)))"
    using assms by (simp add: guard_shows_def uint_sat_add)
  have frozen: "eg_frozen_until g = None" if "\<not> uint (stop_loss_consecutive_losses m) \<le> int (Suc (ls_losses k))"
    using assms that by (simp add: guard_shows_def streak_frozen_def)
  have "uint (stop_loss_consecutive_losses m) \<le> 4294967295"
    using uint_lt2p [of "stop_loss_consecutive_losses m"] by simp
  then show ?thesis
    using False losses frozen
    by (simp add: guard_shows_def streak_frozen_def streak_thaw_def record_guard_global record_global_def Let_def word_le_def)
qed

lemma guard_shows_look: "guard_shows m k g \<Longrightarrow> guard_shows m (streak_step m (Looked now) k) (fst (global_snapshot g now))"
  by (auto simp: guard_shows_def global_snapshot_def streak_frozen_def)

lemma guard_shows_step:
  assumes "en_execution_guard en = Healthy g" "guard_shows (mev cfg) k g"
  shows "\<exists>g'. en_execution_guard (guard_step cfg c en) = Healthy g' \<and> guard_shows (mev cfg) (streak_step (mev cfg) c k) g'"
proof (cases c)
  case (Recorded e)
  then show ?thesis using guard_shows_record [OF assms(2)] assms(1) by (simp add: record_event_def record_result_def)
next
  case (Looked now)
  then show ?thesis using guard_shows_look [OF assms(2)] assms(1) by (simp add: stop_loss_snapshot_def split_beta)
next
  case (LookedContext now pair router path)
  then show ?thesis
    using assms by (simp add: context_stop_loss_snapshot_def split_beta guard_shows_def context_snapshot_global)
qed

lemma guard_shows_run:
  assumes "en_execution_guard en = Healthy g" "guard_shows (mev cfg) k g"
  shows "\<exists>g'. en_execution_guard (fold (guard_step cfg) calls en) = Healthy g'
    \<and> guard_shows (mev cfg) (fold (streak_step (mev cfg)) calls k) g'"
  using assms
proof (induction calls arbitrary: en g k)
  case (Cons c calls)
  from guard_shows_step [OF Cons.prems, of c] obtain g' where
    "en_execution_guard (guard_step cfg c en) = Healthy g'" "guard_shows (mev cfg) (streak_step (mev cfg) c k) g'" by blast
  from Cons.IH [OF this] show ?case by simp
qed auto

lemma guard_shows_default: "guard_shows m no_losses execution_guard_default"
  by (simp add: guard_shows_def streak_frozen_def no_losses_def execution_guard_default_def)

text \<open>
  C31: From a fresh engine, over any sequence of recorded results and of looks at the global and the
  contextual stop losses, the guard of the engine refines the streak of losses: its counter is the number
  of losses since the last win or the last freeze lifted by a look (saturating at the largest \<open>u32\<close>), and
  the freeze is set exactly when that number is not zero and has reached the threshold, to the last loss
  plus the freeze period.
\<close>
theorem stop_loss_counts_losing_streak:
  fixes cfg :: config and calls :: "guard_call list"
  assumes "en_execution_guard en = Healthy execution_guard_default"
  defines "k \<equiv> fold (streak_step (mev cfg)) calls no_losses"
  shows "\<exists>g. en_execution_guard (fold (guard_step cfg) calls en) = Healthy g
    \<and> uint (eg_consecutive_losses g) = min (2 ^ 32 - 1) (int (ls_losses k))
    \<and> eg_frozen_until g =
        (if 0 < ls_losses k \<and> uint (stop_loss_consecutive_losses (mev cfg)) \<le> int (ls_losses k)
         then Some (ls_last k + nanos_of_secs (uint (stop_loss_freeze_secs (mev cfg)))) else None)"
  using guard_shows_run [OF assms(1) guard_shows_default, of cfg calls]
  unfolding guard_shows_def streak_frozen_def streak_thaw_def k_def .

definition demo_engine :: execution_engine where
  "demo_engine = execution_engine_new demo_fleet (Healthy demo_run)"

definition demo_payload :: execution_payload where
  "demo_payload = \<lparr>pl_tx = [], pl_calldata = [1, 2, 3, 4], pl_target_contract = 12, pl_value = 0, pl_pair = 7,
     pl_amm_kind = RouteV2, pl_capital_committed_wei = 1000000000000000, pl_expected_profit_wei = 50000000000000000,
     pl_gas_limit = 400000, pl_price_impact_bps = 20, pl_profit_token = 3, pl_profit_recipient = 22,
     pl_context_priority_score = dec 5 1, pl_context_toxicity_score = dec 2 1, pl_edge_metadata = None,
     pl_pool_state_before = AmmUniswapV2 \<lparr>v2_pair = 7, v2_token0 = 2, v2_token1 = 3,
       v2_reserve0 = 1000, v2_reserve1 = 1000, v2_fee_bps = 30\<rparr>\<rparr>"

definition demo_opportunity :: mev_opportunity where
  "demo_opportunity = \<lparr>op_detected_at = 0, op_victim_tx = 99, op_victim_transaction = None,
     op_execution_payload = Some demo_payload, op_router = 1, op_token_in = 2, op_token_out = 3,
     op_selector = [56, 237, 23, 57], op_decode_source = ''router'', op_decode_confidence = 1,
     op_preferred_relay = None\<rparr>"

text \<open>A network on which every node answers, every relay accepts and no receipt ever shows up.\<close>

definition demo_net :: "((address \<rightharpoonup> account_info) \<times> (address \<times> u256 \<rightharpoonup> u256)) net" where
  "demo_net = \<lparr>nt_libm = demo_math, nt_rotate_env = None, nt_parse_wallet = (\<lambda>key. Inr 20),
     nt_context = (\<lambda>_. (1000000, Inr \<lparr>ca_hot_balance = 100000000000000000, ca_chain_nonce = 4,
        ca_gas_price = 50000000000, ca_base_fee_per_gas = Some 30000000000, ca_block = 100\<rparr>)),
     nt_preflight_enabled = False, nt_preflight_hard_fail = False, nt_vm = demo_vm, nt_keccak_empty = 0,
     nt_timestamp = 0, nt_sign = (\<lambda>_ _. Inr [1, 2, 3]), nt_tx_hash = (\<lambda>_. 77), nt_url_error = (\<lambda>_. None),
     nt_gate_time = 2000000, nt_rpc_completions = (\<lambda>_ hs. map (\<lambda>h. (h, 3000000, 1000000, Inr 77)) hs),
     nt_relay_completions = (\<lambda>_ qs. map (\<lambda>q. (q, 3000000, 1000000, Inr 77)) qs), nt_done_time = 9000000000,
     nt_probe = (\<lambda>_ _ _. ProbeNoReceipt), nt_probe_time = (\<lambda>k. 4000000 + int k)\<rparr>"

definition demo_loss :: "instant \<Rightarrow> result_event" where
  "demo_loss t = \<lparr>ev_at = t, ev_result = \<lparr>er_realized_profit = 0, er_gas_used = 0, er_success = False\<rparr>,
     ev_pair = Some 7, ev_router = Some 5, ev_path = Some ''rpc://a'', ev_priority = None, ev_toxicity = None\<rparr>"

lemma demo_engine_fresh: "en_execution_guard demo_engine = Healthy execution_guard_default"
  by (simp add: demo_engine_def execution_engine_new_def)

text \<open>Three losses freeze the engine, a look lifts the freeze, and a fourth loss follows.\<close>

definition three_losses :: "guard_call list" where
  "three_losses = map (\<lambda>t. Recorded (demo_loss t)) [1, 2, 3]"

lemma demo_streaks:
  "fold (streak_step (mev demo_config)) three_losses no_losses = \<lparr>ls_losses = 3, ls_last = 3\<rparr>"
  "fold (streak_step (mev demo_config)) (three_losses @ [Looked (nanos_of_secs 400), Recorded (demo_loss 5)]) no_losses
     = \<lparr>ls_losses = 1, ls_last = 5\<rparr>"
  by (simp_all add: three_losses_def no_losses_def demo_loss_def winning_def streak_frozen_def streak_thaw_def
      nanos_of_secs_def demo_config_def demo_mev_def)

lemma demo_stop_loss:
  "uint (stop_loss_consecutive_losses (mev demo_config)) = 3" "uint (stop_loss_freeze_secs (mev demo_config)) = 300"
  by (simp_all add: demo_config_def demo_mev_def)

theorem stop_loss_counts_losing_streak_witness:
  "\<exists>g. en_execution_guard (fold (guard_step demo_config)
         (three_losses @ [Looked (nanos_of_secs 400), Recorded (demo_loss 5)]) demo_engine) = Healthy g
     \<and> uint (eg_consecutive_losses g) = 1 \<and> eg_frozen_until g = None"
  using stop_loss_counts_losing_streak [OF demo_engine_fresh, of demo_config
      "three_losses @ [Looked (nanos_of_secs 400), Recorded (demo_loss 5)]"]
  by (simp only: demo_streaks demo_stop_loss) simp

definition refused_early :: "handle_outcome \<Rightarrow> bool" where
  "refused_early out = (case out of ObservationMode \<Rightarrow> True | StaleOpportunity \<Rightarrow> True | NoPayload \<Rightarrow> True
     | FrozenGlobal s \<Rightarrow> sl_scope s = GlobalScope | _ \<Rightarrow> False)"

lemma stop_loss_snapshot_frozen:
  assumes "en_execution_guard en = Healthy g" "eg_frozen_until g = Some u"
  shows "now < u \<Longrightarrow> \<exists>s. stop_loss_snapshot en now = (en, Some s) \<and> sl_scope s = GlobalScope"
    and "u \<le> now \<Longrightarrow> stop_loss_snapshot en now =
           (en\<lparr>en_execution_guard := Healthy (g\<lparr>eg_frozen_until := None, eg_consecutive_losses := 0\<rparr>)\<rparr>, None)"
  using assms by (auto simp: stop_loss_snapshot_def global_snapshot_def)

lemma handle_frozen:
  assumes "stop_loss_snapshot en now = (en, Some s)" "sl_scope s = GlobalScope"
  shows "\<exists>out. handle nt cfg en now opp = Inr (en, out) \<and> refused_early out"
  using assms by (simp add: handle_def refused_early_def split: option.split)

text \<open>
  C15: Over any sequence of recorded results and looks at the stop losses of a fresh engine: while the
  losses since the last win or lifted freeze have reached the threshold and the freeze period after the
  last of them is not over, every opportunity is refused no later than at the stop loss and the engine is
  left as it was. The first look after that period lifts the freeze and clears the counter.
\<close>
theorem stop_loss_blocks_handling:
  assumes "en_execution_guard en0 = Healthy execution_guard_default"
    and "en = fold (guard_step cfg) calls en0" and "k = fold (streak_step (mev cfg)) calls no_losses"
    and "0 < ls_losses k" "uint (stop_loss_consecutive_losses (mev cfg)) \<le> int (ls_losses k)"
    and "thaw = ls_last k + nanos_of_secs (uint (stop_loss_freeze_secs (mev cfg)))"
  shows "(now < thaw \<longrightarrow> (\<exists>out. handle nt cfg en now opp = Inr (en, out) \<and> refused_early out))
    \<and> (thaw \<le> now \<longrightarrow> (\<exists>g. stop_loss_snapshot en now = (en\<lparr>en_execution_guard := Healthy g\<rparr>, None)
          \<and> eg_consecutive_losses g = 0 \<and> eg_frozen_until g = None))"
proof -
  obtain g where "en_execution_guard en = Healthy g" "eg_frozen_until g = Some thaw"
    using guard_shows_run [OF assms(1) guard_shows_default, of cfg calls] assms(2-6)
    by (auto simp: guard_shows_def streak_frozen_def streak_thaw_def)
  then show ?thesis using stop_loss_snapshot_frozen [of en g thaw now] handle_frozen by fastforce
qed

theorem stop_loss_blocks_handling_witness:
  "\<exists>out. handle demo_net demo_config (fold (guard_step demo_config) three_losses demo_engine) 10 demo_opportunity
    = Inr (fold (guard_step demo_config) three_losses demo_engine, out) \<and> refused_early out"
  using stop_loss_blocks_handling [OF demo_engine_fresh refl refl _ _ refl, of demo_config three_losses 10]
  by (simp only: demo_streaks demo_stop_loss) (simp add: nanos_of_secs_def)

section \<open>Gas\<close>

lemma overpay_capped: "overpay_bps m q payload \<le> gas_overpay_max_extra_bps m"
  unfolding overpay_bps_def Let_def by (rule min.cobounded2)

lemma uint_overpay_factor:
  assumes "10000 + uint (gas_overpay_max_extra_bps m) < 2 ^ 64"
  shows "uint (ucast (10000 + overpay_bps m q payload) :: u256) = 10000 + uint (overpay_bps m q payload)"
proof -
  have "uint (overpay_bps m q payload) \<le> uint (gas_overpay_max_extra_bps m)"
    using overpay_capped by (simp add: word_le_def)
  then have "uint (10000 + overpay_bps m q payload) = 10000 + uint (overpay_bps m q payload)"
    using assms by (subst uint_add_small) simp_all
  then show ?thesis by (simp add: uint_up_ucast is_up)
qed

text \<open>
  The escalated gas price is at most the configured cap, at most the node's price plus the largest
  configured extra, and, when the product does not saturate and the node's price is within the cap, at
  least the node's price.
\<close>
theorem dynamic_gas_price_bounds:
  assumes "10000 + uint (gas_overpay_max_extra_bps m) < 2 ^ 64"
    and "uint base * (10000 + uint (gas_overpay_max_extra_bps m)) < 2 ^ 256"
    and "case max_gas_price_wei m of Some cap \<Rightarrow> base \<le> cap | None \<Rightarrow> True"
  shows "base \<le> dynamic_gas_price m base q payload
    \<and> uint (dynamic_gas_price m base q payload) * 10000 \<le> uint base * (10000 + uint (gas_overpay_max_extra_bps m))
    \<and> (case max_gas_price_wei m of Some cap \<Rightarrow> dynamic_gas_price m base q payload \<le> cap | None \<Rightarrow> True)"
proof -
  define x where "x = overpay_bps m q payload"
  define adjusted where "adjusted = sat_mul base (ucast (10000 + x)) div 10000"
  have x: "uint x \<le> uint (gas_overpay_max_extra_bps m)" using overpay_capped by (simp add: x_def word_le_def)
  have le: "uint base * (10000 + uint x) \<le> uint base * (10000 + uint (gas_overpay_max_extra_bps m))"
    using x by (intro mult_left_mono) simp_all
  then have adj: "uint adjusted = uint base * (10000 + uint x) div 10000"
    using assms(2) uint_overpay_factor [OF assms(1), of q payload]
    by (simp add: adjusted_def x_def uint_div uint_sat_mul)
  have "uint base = uint base * 10000 div 10000" by simp
  also have "\<dots> \<le> uint adjusted" unfolding adj by (intro zdiv_mono1 mult_left_mono) simp_all
  finally have low: "base \<le> adjusted" by (simp add: word_le_def)
  have high: "uint adjusted * 10000 \<le> uint base * (10000 + uint (gas_overpay_max_extra_bps m))"
    using le unfolding adj by linarith
  have eq: "dynamic_gas_price m base q payload = (case max_gas_price_wei m of Some cap \<Rightarrow> min adjusted cap | None \<Rightarrow> adjusted)"
    unfolding dynamic_gas_price_def Let_def adjusted_def x_def ..
  show ?thesis
  proof (cases "max_gas_price_wei m")
    case None
    then show ?thesis using low high by (simp add: eq)
  next
    case (Some cap)
    have "uint (min adjusted cap) \<le> uint adjusted" by (simp add: min_def word_le_def)
    then show ?thesis using Some low high assms(3) by (simp add: eq)
  qed
qed

text \<open>The maximum fee of the signed transaction in closed form.\<close>

lemma fee_arith:
  assumes "0 \<le> g" "g \<le> hi" "0 \<le> b" "b \<le> hi" "0 \<le> q" "q \<le> (g :: int)"
  shows "max (min hi (b + max (max 0 (g - b)) q)) g = max g (min hi (b + q))"
    and "max (max 0 (g - b)) q \<le> max g (min hi (b + q))"
  using assms by (auto simp: max_def min_def)

lemma executor_fees_eip1559:
  obtains max_fee priority_fee where "executor_fees g (Some b) = Eip1559Fees max_fee priority_fee"
    "uint max_fee = max (uint g) (min (2 ^ 256 - 1) (uint b + uint g div 4))" "uint priority_fee \<le> uint max_fee"
proof -
  define p where "p = max (sat_sub g b) (g div 4)"
  define f where "f = max (sat_add b p) g"
  have p: "uint p = max (max 0 (uint g - uint b)) (uint g div 4)"
    by (simp add: p_def uint_max_word uint_sat_sub uint_div)
  have f: "uint f = max (min (2 ^ 256 - 1) (uint b + uint p)) (uint g)"
    by (simp add: f_def uint_max_word uint_sat_add)
  have "uint g div 4 \<le> uint g" "0 \<le> uint g div 4" using uint_nonneg [of g] by linarith+
  then have bounds: "0 \<le> uint g" "uint g \<le> 2 ^ 256 - 1" "0 \<le> uint b" "uint b \<le> 2 ^ 256 - 1"
      "0 \<le> uint g div 4" "uint g div 4 \<le> uint g"
    using uint_lt2p [of g] uint_lt2p [of b] by simp_all
  have eq: "uint f = max (uint g) (min (2 ^ 256 - 1) (uint b + uint g div 4))"
    unfolding f p by (rule fee_arith(1) [OF bounds])
  moreover have "uint p \<le> uint f" unfolding eq unfolding p by (rule fee_arith(2) [OF bounds])
  ultimately show ?thesis using that [of f p] by (simp add: executor_fees_def Let_def p_def f_def)
qed


text \<open>
  With a base fee in the block, the cap on the gas price does not bound the fee that is signed:
  whenever the base fee plus a quarter of the escalated price is above the cap, so is the maximum fee
  per gas of the transaction.
\<close>
theorem signed_fee_exceeds_cap:
  assumes "max_gas_price_wei (mev cfg) = Some cap"
    and "gas_price = dynamic_gas_price (mev cfg) base q payload"
    and "uint cap < uint base_fee + uint gas_price div 4"
  shows "gas_price \<le> cap \<and> (\<exists>max_fee priority_fee.
      ut_fees (executor_transaction cfg wallet payload nonce gas_price (Some base_fee)) = Eip1559Fees max_fee priority_fee
      \<and> cap < max_fee)"
proof -
  obtain f p where fees: "executor_fees gas_price (Some base_fee) = Eip1559Fees f p"
    and f: "uint f = max (uint gas_price) (min (2 ^ 256 - 1) (uint base_fee + uint gas_price div 4))"
    by (rule executor_fees_eip1559)
  have "uint cap < 2 ^ 256 - 1"
    using max_gas_price_wei_exact [OF assms(1)] uint_lt2p [where 'a = 64 and x = "the (max_gas_price_gwei (mev cfg))"]
    by auto
  then have "uint cap < uint f" unfolding f using assms(3) by simp
  then have "cap < f" by (simp add: word_less_def)
  moreover have "gas_price \<le> cap" by (simp add: assms(1,2) dynamic_gas_price_def Let_def)
  ultimately show ?thesis using fees by (simp add: executor_transaction_def)
qed

lemma demo_gas:
  "max_gas_price_wei (mev demo_config) = Some 60000000000"
  "dynamic_gas_price (mev demo_config) 50000000000 None demo_payload = 50000000000"
  by code_simp+

theorem dynamic_gas_price_bounds_witness:
  "(50000000000 :: u256) \<le> dynamic_gas_price (mev demo_config) 50000000000 None demo_payload"
proof -
  have "uint (gas_overpay_max_extra_bps (mev demo_config)) = 3000" by (simp add: demo_config_def demo_mev_def)
  then show ?thesis
    using dynamic_gas_price_bounds [of "mev demo_config" 50000000000 None demo_payload] by (simp add: demo_gas)
qed

theorem signed_fee_exceeds_cap_witness:
  "\<exists>max_fee priority_fee. ut_fees (executor_transaction demo_config 1 demo_payload 0 50000000000 (Some 50000000000))
     = Eip1559Fees max_fee priority_fee \<and> 60000000000 < max_fee"
  using signed_fee_exceeds_cap [OF demo_gas(1) demo_gas(2) [symmetric], of 50000000000 1 0] by simp

end
