(* ===== verification/HandleSafety.thy ===== *)
theory HandleSafety
  imports ExecutorSafety
begin

text \<open>
  Handling one opportunity end to end: what has been checked when a transaction is signed and
  submitted, what handling does to the reserved capital on every way out, and which submit paths are
  tried.
\<close>

section \<open>What the parts leave alone\<close>

named_theorems budget_frame

lemma with_adaptive_fields [simp]:
  "en_capital_budget (with_adaptive f en) = en_capital_budget en"
  "en_execution_guard (with_adaptive f en) = en_execution_guard en"
  "en_rpc_fleet (with_adaptive f en) = en_rpc_fleet en"
  by (simp_all add: with_adaptive_def)

lemma load_send_context_budget [budget_frame]:
  "load_send_context nt en now = Inr (en', r) \<Longrightarrow> en_capital_budget en' = en_capital_budget en"
  by (auto simp: load_send_context_def and_then_eq_Inr split: prod.splits)

lemma treasury_budget [budget_frame]:
  "en_capital_budget (fst (maybe_emit_treasury_signal cfg en x)) = en_capital_budget en"
  by (simp add: maybe_emit_treasury_signal_def Let_def split: lock.split)

lemma stop_loss_budget [budget_frame]:
  "stop_loss_snapshot en now = (en', s) \<Longrightarrow> en_capital_budget en' = en_capital_budget en"
  by (auto simp: stop_loss_snapshot_def split: lock.splits prod.splits)

lemma context_stop_loss_budget [budget_frame]:
  "context_stop_loss_snapshot cfg en now a r path = (en', s) \<Longrightarrow> en_capital_budget en' = en_capital_budget en"
  by (auto simp: context_stop_loss_snapshot_def split: lock.splits prod.splits)

lemma retain_paths_budget [budget_frame]:
  "retain_paths cfg now a r qs en = (en', kept) \<Longrightarrow> en_capital_budget en' = en_capital_budget en"
  by (induction qs arbitrary: en en' kept) (auto dest: context_stop_loss_budget split: prod.splits)

lemma rank_submit_paths_budget [budget_frame]:
  "rank_submit_paths nt cfg opp sx en = (en', qs) \<Longrightarrow> en_capital_budget en' = en_capital_budget en"
  by (auto simp: rank_submit_paths_def rank_direct_rpc_submit_paths_def direct_rpc_submit_endpoints_def Let_def
      split: prod.splits if_splits)

lemma probe_handles_budget [budget_frame]:
  "probe_handles nt cfg h k now d c payload relay hs en = Inr (en', r)
    \<Longrightarrow> en_capital_budget en' = en_capital_budget en"
  by (induction hs arbitrary: en) (auto simp: and_then_eq_Inr split: probe_answer.splits if_splits)

lemma read_probe_handles_budget [budget_frame]:
  "read_probe_handles lm env en now i = (en', hs) \<Longrightarrow> en_capital_budget en' = en_capital_budget en"
  by (auto simp: read_probe_handles_def Let_def split: prod.splits)

lemma observe_rounds_budget:
  "observe_rounds nt cfg h i started n c payload relay en = Inr (en', r)
    \<Longrightarrow> en_capital_budget en' = en_capital_budget en"
proof (induction n arbitrary: en)
  case 0
  then show ?case by (auto simp: Let_def)
next
  case (Suc n)
  obtain en1 hs where rp: "read_probe_handles (nt_libm nt) (nt_rotate_env nt) en (nt_probe_time nt (9 - n)) i = (en1, hs)"
    by (meson surj_pair)
  from Suc.prems rp obtain en2 found where
    ph: "probe_handles nt cfg h (9 - n) (nt_probe_time nt (9 - n)) (duration_since (nt_probe_time nt (9 - n)) started)
           c payload relay hs en1 = Inr (en2, found)"
    and rest: "(case found of Some result \<Rightarrow> Inr (en2, result)
              | None \<Rightarrow> observe_rounds nt cfg h i started n c payload relay en2) = Inr (en', r)"
    by (auto simp: Let_def and_then_eq_Inr)
  show ?case
    using rest read_probe_handles_budget [OF rp] probe_handles_budget [OF ph] Suc.IH [of en2]
    by (auto split: option.splits)
qed

lemma observe_realized_pnl_budget [budget_frame]:
  "observe_realized_pnl nt cfg en started h i c payload relay = Inr (en', r)
    \<Longrightarrow> en_capital_budget en' = en_capital_budget en"
  unfolding observe_realized_pnl_def by (rule observe_rounds_budget)

lemma settle_budget [simp]:
  "en_capital_budget (settle cfg en now opp payload path r) =
     update_lock (\<lambda>b. budget_release b (op_victim_tx opp)) (en_capital_budget en)"
  by (simp add: settle_def record_result_def release_budget_def split: lock.split)

section \<open>Submission\<close>

lemma rpc_submissions_budget:
  "rpc_submissions nt cfg opp payload tb cs en le = Inr (en', r) \<Longrightarrow>
     en_capital_budget en' = (case r of Inl _ \<Rightarrow> en_capital_budget en
       | Inr _ \<Rightarrow> update_lock (\<lambda>b. budget_release b (op_victim_tx opp)) (en_capital_budget en))"
proof (induction cs arbitrary: en le)
  case Nil
  then show ?case by auto
next
  case (Cons c cs)
  obtain h t d a where c: "c = (h, t, d, a)" by (cases c) auto
  show ?case
  proof (cases a)
    case (Inl err)
    then show ?thesis using Cons by (simp add: c Let_def cong: sum.case_cong)
  next
    case (Inr tx_hash)
    then show ?thesis using Cons.prems observe_realized_pnl_budget
      by (fastforce simp: c Let_def and_then_eq_Inr)
  qed
qed

lemma relay_submissions_budget:
  "relay_submissions nt cfg opp payload sx h cs en le = Inr (en', r) \<Longrightarrow>
     en_capital_budget en' = (case r of Inl _ \<Rightarrow> en_capital_budget en
       | Inr _ \<Rightarrow> update_lock (\<lambda>b. budget_release b (op_victim_tx opp)) (en_capital_budget en))"
proof (induction cs arbitrary: en le)
  case Nil
  then show ?case by auto
next
  case (Cons c cs)
  obtain q t d a where c: "c = (q, t, d, a)" by (cases c) auto
  show ?case
  proof (cases a)
    case (Inl err)
    then show ?thesis using Cons by (simp add: c cong: sum.case_cong)
  next
    case (Inr bundle_hash)
    then show ?thesis using Cons.prems observe_realized_pnl_budget
      by (fastforce simp: c and_then_eq_Inr)
  qed
qed

lemma submit_direct_budget:
  assumes "submit_direct nt cfg opp payload tb ranked raw en = Inr (en', r)" "ranked \<noteq> []"
  shows "en_capital_budget en' = update_lock (\<lambda>b. budget_release b (op_victim_tx opp)) (en_capital_budget en)"
proof -
  obtain en1 hs where ep: "direct_rpc_submit_endpoints_from_ranked_paths (nt_libm nt) cfg en (nt_gate_time nt) ranked = (en1, hs)"
    by (meson surj_pair)
  then have b1: "en_capital_budget en1 = en_capital_budget en"
    by (auto simp: direct_rpc_submit_endpoints_from_ranked_paths_def split: prod.splits)
  obtain en2 r2 where rs: "rpc_submissions nt cfg opp payload tb (nt_rpc_completions nt raw hs) en1 None = Inr (en2, r2)"
    using assms(1) by (auto simp: submit_direct_def ep and_then_eq_Inr)
  show ?thesis
    using assms rpc_submissions_budget [OF rs] b1
    by (cases r2) (auto simp: submit_direct_def ep rs)
qed

lemma submit_relays_budget:
  assumes "submit_relays nt cfg opp payload sx ranked raw en = Inr (en', r)"
  shows "en_capital_budget en' = update_lock (\<lambda>b. budget_release b (op_victim_tx opp)) (en_capital_budget en)"
proof -
  obtain targets le where t: "relay_targets nt cfg ranked = (targets, le)" by (meson surj_pair)
  obtain en2 r2 where rs: "relay_submissions nt cfg opp payload sx (nt_tx_hash nt raw)
      (nt_relay_completions nt (build_bundle (sx_block sx) opp raw) targets) en le = Inr (en2, r2)"
    using assms by (auto simp: submit_relays_def t and_then_eq_Inr)
  show ?thesis
    using assms relay_submissions_budget [OF rs] by (cases r2) (auto simp: submit_relays_def t rs)
qed

definition attempted :: "handle_outcome \<Rightarrow> unsigned_tx option" where
  "attempted out = (case out of Settled tx _ \<Rightarrow> Some tx | NotAccepted tx _ \<Rightarrow> Some tx | _ \<Rightarrow> None)"

text \<open>The way through \<open>handle_submit\<close>.\<close>

lemma handle_submit_cases:
  assumes "handle_submit nt cfg opp payload wallet sx en = Inr (en', out)"
  obtains (frozen) "out = FrozenContext" "en_capital_budget en' = en_capital_budget en"
  | (unsigned) err where "out = SignError err" "en_capital_budget en' = en_capital_budget en"
  | (submitted) q where
      "attempted out = Some (executor_transaction cfg wallet payload (sx_chain_nonce sx)
         (dynamic_gas_price (mev cfg) (sx_gas_price sx) (Some q) payload) (sx_base_fee_per_gas sx))"
      "en_capital_budget en' = update_lock (\<lambda>b. budget_release b (op_victim_tx opp)) (en_capital_budget en)"
proof -
  obtain en1 paths where r1: "rank_submit_paths nt cfg opp sx en = (en1, paths)" by (meson surj_pair)
  obtain en2 ranked where r2: "retain_paths cfg (nt_gate_time nt) (pl_pair payload) (op_router opp) paths en1 = (en2, ranked)"
    by (meson surj_pair)
  have b: "en_capital_budget en2 = en_capital_budget en"
    using rank_submit_paths_budget [OF r1] retain_paths_budget [OF r2] by simp
  define tx where "tx = executor_transaction cfg wallet payload (sx_chain_nonce sx)
     (dynamic_gas_price (mev cfg) (sx_gas_price sx) (Some (hd ranked)) payload) (sx_base_fee_per_gas sx)"
  have run: "(if ranked = [] then Inr (en2, FrozenContext)
     else case nt_sign nt wallet tx of Inl err \<Rightarrow> Inr (en2, SignError err)
       | Inr raw \<Rightarrow> and_then (if uses_bundle_relays cfg then submit_relays nt cfg opp payload sx ranked raw en2
                           else submit_direct nt cfg opp payload (sat_add (sx_block sx) 1) ranked raw en2)
           (\<lambda>(en3, r). Inr (en3, case r of Inl err \<Rightarrow> NotAccepted tx err | Inr realized \<Rightarrow> Settled tx realized)))
     = Inr (en', out)"
    using assms unfolding handle_submit_def Let_def r1 prod.case r2 tx_def .
  consider "ranked = []" | err where "ranked \<noteq> []" "nt_sign nt wallet tx = Inl err"
    | raw where "ranked \<noteq> []" "nt_sign nt wallet tx = Inr raw"
    by (cases "nt_sign nt wallet tx") auto
  then show thesis
  proof cases
    case 1
    then show ?thesis using run b frozen by simp
  next
    case 2
    then show ?thesis using run b unsigned [of err] by auto
  next
    case 3
    then obtain r where "(if uses_bundle_relays cfg then submit_relays nt cfg opp payload sx ranked raw en2
                           else submit_direct nt cfg opp payload (sat_add (sx_block sx) 1) ranked raw en2) = Inr (en', r)"
      and out: "out = (case r of Inl err \<Rightarrow> NotAccepted tx err | Inr realized \<Rightarrow> Settled tx realized)"
      using run by (auto simp: and_then_eq_Inr)
    then have "en_capital_budget en' = update_lock (\<lambda>b. budget_release b (op_victim_tx opp)) (en_capital_budget en)"
      using b by (auto dest: submit_direct_budget [OF _ 3(1)] submit_relays_budget split: if_splits)
    moreover have "attempted out = Some tx" by (simp add: out attempted_def split: sum.split)
    ultimately show ?thesis using submitted [of "hd ranked"] by (simp add: tx_def)
  qed
qed

text \<open>The send context is the answer of one node.\<close>

definition context_from_node :: "'db net \<Rightarrow> send_context \<Rightarrow> bool" where
  "context_from_node nt sx \<longleftrightarrow> (\<exists>latency a. nt_context nt (rh_id (sx_endpoint sx)) = (latency, Inr a)
     \<and> sx_hot_balance sx = ca_hot_balance a \<and> sx_chain_nonce sx = ca_chain_nonce a \<and> sx_gas_price sx = ca_gas_price a
     \<and> sx_base_fee_per_gas sx = ca_base_fee_per_gas a \<and> sx_block sx = ca_block a)"

lemma try_contexts_from_node:
  "try_contexts nt now hs fleet le = Inr (fleet', Inr sx) \<Longrightarrow> context_from_node nt sx"
proof (induction hs arbitrary: fleet le)
  case Nil
  then show ?case by simp
next
  case (Cons h hs)
  then show ?case
    by (auto simp: Let_def and_then_eq_Inr context_from_node_def split: prod.splits sum.splits)
qed

lemma load_send_context_from_node:
  "load_send_context nt en now = Inr (en', Inr sx) \<Longrightarrow> context_from_node nt sx"
  by (auto simp: load_send_context_def and_then_eq_Inr dest: try_contexts_from_node split: prod.splits)

section \<open>From the first check to the reservation\<close>

definition gates_passed ::
  "'db net \<Rightarrow> config \<Rightarrow> execution_engine \<Rightarrow> instant \<Rightarrow> mev_opportunity \<Rightarrow> execution_payload \<Rightarrow> address \<Rightarrow> send_context \<Rightarrow> bool" where
  "gates_passed nt cfg en now opp payload wallet sx \<longleftrightarrow>
     allow_send cfg \<and> age_ms opp now \<le> uint (max (max_pending_age_ms (mev cfg)) 1)
     \<and> op_execution_payload opp = Some payload \<and> snd (stop_loss_snapshot en now) = None
     \<and> nt_parse_wallet nt (executor_private_key cfg) = Inr wallet \<and> context_from_node nt sx
     \<and> (case max_gas_price_wei (mev cfg) of Some cap \<Rightarrow> sx_gas_price sx \<le> cap | None \<Rightarrow> True)
     \<and> \<not> wei_to_eth_f64 (sx_hot_balance sx) < executor_min_buffer_eth (mev cfg)
     \<and> \<not> executor_max_buffer_eth (mev cfg) < wei_to_eth_f64 (sx_hot_balance sx)
     \<and> preflight_gate nt cfg payload (sat_add (sx_block sx) 1) = PreflightPass"

definition before_budget :: "handle_outcome \<Rightarrow> bool" where
  "before_budget out = (case out of ObservationMode \<Rightarrow> True | StaleOpportunity \<Rightarrow> True | NoPayload \<Rightarrow> True
     | FrozenGlobal _ \<Rightarrow> True | WalletError _ \<Rightarrow> True | ContextError _ \<Rightarrow> True | GasCapExceeded \<Rightarrow> True
     | WalletUnderfunded \<Rightarrow> True | WalletOverfunded \<Rightarrow> True | PreflightRejected \<Rightarrow> True | _ \<Rightarrow> False)"

lemma handle_gates_cases:
  assumes "handle_gates nt cfg opp payload wallet sx en = Inr (en', out)"
  obtains (stopped) "before_budget out" "en_capital_budget en' = en_capital_budget en"
  | (open_gates) en1 en2 d where
      "case max_gas_price_wei (mev cfg) of Some cap \<Rightarrow> sx_gas_price sx \<le> cap | None \<Rightarrow> True"
      "\<not> wei_to_eth_f64 (sx_hot_balance sx) < executor_min_buffer_eth (mev cfg)"
      "\<not> executor_max_buffer_eth (mev cfg) < wei_to_eth_f64 (sx_hot_balance sx)"
      "preflight_gate nt cfg payload (sat_add (sx_block sx) 1) = PreflightPass"
      "en_capital_budget en1 = en_capital_budget en"
      "check_and_reserve_budget cfg en1 (nt_gate_time nt) (op_victim_tx opp) payload (cluster_of opp) = (en2, d)"
      "(if bd_allowed d then handle_submit nt cfg opp payload wallet sx en2 else Inr (en2, BudgetBlocked d)) = Inr (en', out)"
proof -
  define x where "x = wei_to_eth_f64 (sx_hot_balance sx)"
  define en1 where "en1 = fst (maybe_emit_treasury_signal cfg en x)"
  obtain en2 d where c: "check_and_reserve_budget cfg en1 (nt_gate_time nt) (op_victim_tx opp) payload (cluster_of opp) = (en2, d)"
    by (meson surj_pair)
  have b: "en_capital_budget en1 = en_capital_budget en" by (simp add: en1_def treasury_budget)
  note run = assms [unfolded handle_gates_def Let_def, folded x_def, folded en1_def, unfolded c prod.case]
  consider "before_budget out" "en' = en1"
    | "\<not> (case max_gas_price_wei (mev cfg) of Some cap \<Rightarrow> cap < sx_gas_price sx | None \<Rightarrow> False)"
      "\<not> x < executor_min_buffer_eth (mev cfg)" "\<not> executor_max_buffer_eth (mev cfg) < x"
      "preflight_gate nt cfg payload (sat_add (sx_block sx) 1) = PreflightPass"
      "(if \<not> bd_allowed d then Inr (en2, BudgetBlocked d) else handle_submit nt cfg opp payload wallet sx en2) = Inr (en', out)"
    using run by (auto simp: before_budget_def split: if_splits preflight_verdict.splits)
  then show thesis
  proof cases
    case 1
    then show ?thesis using stopped b by simp
  next
    case 2
    show ?thesis
      by (rule open_gates [OF _ 2(2,3) [unfolded x_def] 2(4) b c]) (use 2 in \<open>auto split: option.splits\<close>)
  qed
qed

lemma handle_cases:
  assumes "handle nt cfg en now opp = Inr (en', out)"
  obtains (stopped) "before_budget out" "en_capital_budget en' = en_capital_budget en"
  | (gated) payload wallet sx en1 en2 d where "gates_passed nt cfg en now opp payload wallet sx"
      "en_capital_budget en1 = en_capital_budget en"
      "check_and_reserve_budget cfg en1 (nt_gate_time nt) (op_victim_tx opp) payload (cluster_of opp) = (en2, d)"
      "(if bd_allowed d then handle_submit nt cfg opp payload wallet sx en2 else Inr (en2, BudgetBlocked d)) = Inr (en', out)"
proof -
  obtain ens s where sl: "stop_loss_snapshot en now = (ens, s)" by (meson surj_pair)
  note run = assms [unfolded handle_def sl prod.case]
  consider "before_budget out" "en_capital_budget en' = en_capital_budget en"
    | payload wallet where "allow_send cfg" "age_ms opp now \<le> uint (max (max_pending_age_ms (mev cfg)) 1)"
      "op_execution_payload opp = Some payload" "s = None" "nt_parse_wallet nt (executor_private_key cfg) = Inr wallet"
      "and_then (load_send_context nt ens now) (\<lambda>(en2, r).
                  case r of Inl err \<Rightarrow> Inr (en2, ContextError err)
                  | Inr sx \<Rightarrow> handle_gates nt cfg opp payload wallet sx en2) = Inr (en', out)"
    using run stop_loss_budget [OF sl]
    by (auto simp: before_budget_def not_less split: if_splits option.splits sum.splits)
  then show thesis
  proof cases
    case 1
    then show ?thesis by (rule stopped)
  next
    case 2
    then obtain enl r where ld: "load_send_context nt ens now = Inr (enl, r)"
      and k: "(case r of Inl err \<Rightarrow> Inr (enl, ContextError err)
                  | Inr sx \<Rightarrow> handle_gates nt cfg opp payload wallet sx enl) = Inr (en', out)"
      by (auto simp: and_then_eq_Inr)
    have b: "en_capital_budget enl = en_capital_budget en"
      using load_send_context_budget [OF ld] stop_loss_budget [OF sl] by simp
    show ?thesis
    proof (cases r)
      case (Inl err)
      then show ?thesis using k b stopped by (auto simp: before_budget_def)
    next
      case (Inr sx)
      note node = load_send_context_from_node [OF ld [unfolded Inr]]
      have hg: "handle_gates nt cfg opp payload wallet sx enl = Inr (en', out)" using k Inr by simp
      then show ?thesis
      proof (cases rule: handle_gates_cases)
        case stopped
        then show ?thesis using b that(1) by simp
      next
        case (open_gates en1 en2 d)
        show ?thesis
          by (rule gated [OF _ _ open_gates(6,7)]) (use 2 sl node b open_gates in \<open>simp_all add: gates_passed_def\<close>)
      qed
    qed
  qed
qed

section \<open>Where a direct submission goes\<close>

lemma take_first_mset: "take_first P xs = Some (y, ys) \<Longrightarrow> mset xs = add_mset y (mset ys)"
  by (induction xs arbitrary: y ys) (auto split: if_splits)

lemma move_labelled_mset:
  "mset (fst (move_labelled st q)) + mset (snd (move_labelled st q)) = mset (fst st) + mset (snd st)"
  by (auto simp: move_labelled_def dest: take_first_mset split: prod.split option.split)

lemma move_all_mset:
  "foldl move_labelled st qs = (rest, ordered) \<Longrightarrow> mset rest + mset ordered = mset (fst st) + mset (snd st)"
  by (induction qs arbitrary: st) (auto simp: move_labelled_mset)

lemma send_candidates_length: "length (snd (send_candidates lm f now n)) \<le> max n 1"
  by (simp add: send_candidates_def select_candidates_def Let_def split: prod.split)

text \<open>
  A direct submission goes to every send candidate, whatever the ranked paths are: the ranking
  decides the order alone. In particular an endpoint whose path the contextual stop loss has taken
  out of the ranking is still submitted to, as long as another path is left.
\<close>
theorem direct_submission_reaches_all_candidates:
  "mset (snd (direct_rpc_submit_endpoints_from_ranked_paths lm cfg en now ranked))
     = mset (snd (send_candidates lm (en_rpc_fleet en) now (rpc_fanout cfg)))"
proof -
  obtain fleet cs where c: "send_candidates lm (en_rpc_fleet en) now (rpc_fanout cfg) = (fleet, cs)" by (meson surj_pair)
  obtain rest ordered where f: "foldl move_labelled (cs, []) ranked = (rest, ordered)" by (meson surj_pair)
  have m: "mset (ordered @ rest) = mset cs" using move_all_mset [OF f] by (simp add: add.commute)
  have pos: "max (rpc_fanout cfg) 1 = rpc_fanout cfg" by (simp add: rpc_fanout_def)
  have "length (ordered @ rest) = length cs" using m by (metis size_mset)
  also have "\<dots> \<le> rpc_fanout cfg"
    using send_candidates_length [of lm "en_rpc_fleet en" now "rpc_fanout cfg"] unfolding pos by (simp add: c)
  finally show ?thesis using m by (simp add: direct_rpc_submit_endpoints_from_ranked_paths_def c f)
qed

section \<open>What handling guarantees\<close>

lemma check_and_reserve_budget_healthy:
  assumes "en_capital_budget en = Healthy b"
    and "check_and_reserve_budget cfg en now victim payload cluster = (en', d)"
  shows "en_capital_budget en' = Healthy (fst (check_and_reserve cfg b now
           (wei_to_eth_f64 (pl_capital_committed_wei payload)) cluster (pl_pair payload) victim))"
    and "d = snd (check_and_reserve cfg b now
           (wei_to_eth_f64 (pl_capital_committed_wei payload)) cluster (pl_pair payload) victim)"
  using assms by (auto simp: check_and_reserve_budget_def Let_def split: prod.splits)

lemma before_budget_not_attempted: "before_budget out \<Longrightarrow> attempted out = None"
  by (simp add: before_budget_def attempted_def split: handle_outcome.splits)

text \<open>
  C3: A transaction is signed and submitted only after every gate: sending is allowed, the opportunity
  is fresh and has a payload, no global stop loss is active, the node's gas price is within the cap, the
  wallet balance lies between its buffers, the preflight passed and the budget admitted the capital.
  Freezes of a single context are not among these gates. The transaction is the payload's call with the
  nonce of that node and the escalated price.
\<close>
theorem handle_attempt_gated:
  assumes "handle nt cfg en now opp = Inr (en', out)" "attempted out = Some tx"
  shows "\<exists>payload wallet sx q. gates_passed nt cfg en now opp payload wallet sx
    \<and> tx = executor_transaction cfg wallet payload (sx_chain_nonce sx)
             (dynamic_gas_price (mev cfg) (sx_gas_price sx) (Some q) payload) (sx_base_fee_per_gas sx)
    \<and> (\<forall>b. en_capital_budget en = Healthy b \<longrightarrow> bd_allowed (snd (check_and_reserve cfg b (nt_gate_time nt)
         (wei_to_eth_f64 (pl_capital_committed_wei payload)) (cluster_of opp) (pl_pair payload) (op_victim_tx opp))))"
  using assms(1)
proof (cases rule: handle_cases)
  case stopped
  then show ?thesis using assms(2) before_budget_not_attempted by simp
next
  case (gated payload wallet sx en1 en2 d)
  have allowed: "bd_allowed d" and sub: "handle_submit nt cfg opp payload wallet sx en2 = Inr (en', out)"
    using gated(4) assms(2) by (auto simp: attempted_def split: if_splits)
  have admitted: "\<forall>b. en_capital_budget en = Healthy b \<longrightarrow> bd_allowed (snd (check_and_reserve cfg b (nt_gate_time nt)
         (wei_to_eth_f64 (pl_capital_committed_wei payload)) (cluster_of opp) (pl_pair payload) (op_victim_tx opp)))"
    using allowed gated(2) check_and_reserve_budget_healthy(2) [OF _ gated(3)] by auto
  show ?thesis
    using sub
  proof (cases rule: handle_submit_cases)
    case (submitted q)
    then show ?thesis using gated(1) admitted assms(2) by auto
  qed (use assms(2) in \<open>simp_all add: attempted_def\<close>)
qed

lemma handle_budget_step:
  assumes "handle nt cfg en now opp = Inr (en', out)" "en_capital_budget en = Healthy b"
    and "budget_reachable cfg t b" "t \<le> nt_gate_time nt"
  shows "\<exists>b'. en_capital_budget en' = Healthy b' \<and> budget_reachable cfg (nt_gate_time nt) b'
    \<and> (attempted out \<noteq> None \<longrightarrow> (\<forall>r\<in>set b'. bu_victim_tx r \<noteq> op_victim_tx opp))"
  using assms(1)
proof (cases rule: handle_cases)
  case stopped
  then show ?thesis using assms budget_reachable.wait before_budget_not_attempted by auto
next
  case (gated payload wallet sx en1 en2 d)
  define b1 where "b1 = fst (check_and_reserve cfg b (nt_gate_time nt)
    (wei_to_eth_f64 (pl_capital_committed_wei payload)) (cluster_of opp) (pl_pair payload) (op_victim_tx opp))"
  have en2: "en_capital_budget en2 = Healthy b1"
    using check_and_reserve_budget_healthy(1) [OF _ gated(3)] gated(2) assms(2) by (simp add: b1_def)
  have r1: "budget_reachable cfg (nt_gate_time nt) b1"
    unfolding b1_def by (rule budget_reachable.reserve [OF budget_reachable.wait [OF assms(3,4)]])
  show ?thesis
  proof (cases "bd_allowed d")
    case False
    then show ?thesis using gated(4) en2 r1 by (auto simp: attempted_def)
  next
    case True
    then have "handle_submit nt cfg opp payload wallet sx en2 = Inr (en', out)" using gated(4) by simp
    then show ?thesis
    proof (cases rule: handle_submit_cases)
      case (submitted q)
      then show ?thesis using en2 budget_reachable.release [OF r1] by (auto simp: budget_release_def)
    qed (use en2 r1 in \<open>auto simp: attempted_def\<close>)
  qed
qed

text \<open>
  C12: Handling an opportunity moves a reachable budget to a reachable budget, whatever its outcome, so
  the exposure limits hold after it; and once a transaction was submitted, accepted or not, nothing
  stays reserved for that opportunity.
\<close>
theorem handle_keeps_budget:
  assumes "handle nt cfg en now opp = Inr (en', out)" "en_capital_budget en = Healthy b"
    and "budget_reachable cfg t b" "t \<le> nt_gate_time nt"
  shows "\<exists>b'. en_capital_budget en' = Healthy b' \<and> budget_reachable cfg (nt_gate_time nt) b'
    \<and> (attempted out \<noteq> None \<longrightarrow> (\<forall>r\<in>set b'. bu_victim_tx r \<noteq> op_victim_tx opp))"
  using assms by (rule handle_budget_step)

text \<open>
  C32: When the budget has admitted the capital and then every path turns out to be frozen by its
  contextual stop loss, or signing fails, handling ends with the reservation still in the budget: it
  counts against the limits until the window has passed although nothing was submitted.
\<close>
theorem refused_after_reserving_keeps_capital:
  assumes "handle nt cfg en now opp = Inr (en', out)" "en_capital_budget en = Healthy b"
    and "out = FrozenContext \<or> out = SignError err" "op_execution_payload opp = Some payload"
  shows "\<exists>b' r. en_capital_budget en' = Healthy (b' @ [r]) \<and> bu_victim_tx r = op_victim_tx opp
    \<and> bu_reserved_at r = nt_gate_time nt \<and> bu_capital_eth r = wei_to_eth_f64 (pl_capital_committed_wei payload)"
  using assms(1)
proof (cases rule: handle_cases)
  case stopped
  then show ?thesis using assms(3) by (auto simp: before_budget_def)
next
  case (gated payload' wallet sx en1 en2 d)
  have p: "payload' = payload" using gated(1) assms(4) by (simp add: gates_passed_def)
  have allowed: "bd_allowed d" and sub: "handle_submit nt cfg opp payload' wallet sx en2 = Inr (en', out)"
    using gated(4) assms(3) by (auto split: if_splits)
  have b2: "en_capital_budget en2 = Healthy (fst (check_and_reserve cfg b (nt_gate_time nt)
      (wei_to_eth_f64 (pl_capital_committed_wei payload)) (cluster_of opp) (pl_pair payload) (op_victim_tx opp)))"
    and d: "d = snd (check_and_reserve cfg b (nt_gate_time nt)
      (wei_to_eth_f64 (pl_capital_committed_wei payload)) (cluster_of opp) (pl_pair payload) (op_victim_tx opp))"
    using check_and_reserve_budget_healthy [OF _ gated(3)] gated(2) assms(2) p by simp_all
  have "en_capital_budget en' = en_capital_budget en2"
    using sub by (cases rule: handle_submit_cases) (use assms(3) in \<open>auto simp: attempted_def\<close>)
  then show ?thesis
    using b2 allowed [unfolded d] by (simp add: check_and_reserve_def Let_def)
qed

definition demo_live :: config where
  "demo_live = demo_config\<lparr>allow_send := True\<rparr>"

definition outcome_of :: "panic + (execution_engine \<times> handle_outcome) \<Rightarrow> handle_outcome option" where
  "outcome_of r = (case r of Inr (_, out) \<Rightarrow> Some out | Inl _ \<Rightarrow> None)"

lemma outcome_of_Some: "outcome_of r = Some out \<Longrightarrow> \<exists>en'. r = Inr (en', out)"
  by (auto simp: outcome_of_def split: sum.splits)

text \<open>The demonstration network with relays that refuse the bundle.\<close>

definition demo_refusing_net :: "((address \<rightharpoonup> account_info) \<times> (address \<times> u256 \<rightharpoonup> u256)) net" where
  "demo_refusing_net = demo_net\<lparr>nt_relay_completions :=
     \<lambda>_ qs. map (\<lambda>q. (q, 3000000, 1000000, Inl ''refused'')) qs\<rparr>"

lemma demo_submitted:
  "map_option (\<lambda>out. attempted out \<noteq> None) (outcome_of (handle demo_refusing_net demo_live demo_engine 1000000 demo_opportunity)) = Some True"
  by code_simp

lemma demo_unsigned:
  "outcome_of (handle (demo_net\<lparr>nt_sign := \<lambda>_ _. Inl ''key''\<rparr>) demo_live demo_engine 1000000 demo_opportunity)
     = Some (SignError ''key'')"
  by code_simp

theorem handle_attempt_gated_witness:
  "\<exists>payload wallet sx. gates_passed demo_refusing_net demo_live demo_engine 1000000 demo_opportunity payload wallet sx"
proof -
  obtain out tx where o: "outcome_of (handle demo_refusing_net demo_live demo_engine 1000000 demo_opportunity) = Some out"
    and a: "attempted out = Some tx"
    using demo_submitted by auto
  obtain en' where "handle demo_refusing_net demo_live demo_engine 1000000 demo_opportunity = Inr (en', out)"
    using outcome_of_Some [OF o] by blast
  then show ?thesis using handle_attempt_gated a by blast
qed

lemma demo_engine_budget: "en_capital_budget demo_engine = Healthy []"
  by (simp add: demo_engine_def execution_engine_new_def)

lemma demo_net_gate: "nt_gate_time demo_refusing_net = 2000000"
  by (simp add: demo_refusing_net_def demo_net_def)

theorem handle_keeps_budget_witness:
  "\<exists>en' out b'. handle demo_refusing_net demo_live demo_engine 1000000 demo_opportunity = Inr (en', out)
     \<and> attempted out \<noteq> None \<and> en_capital_budget en' = Healthy b' \<and> budget_reachable demo_live 2000000 b'
     \<and> op_victim_tx demo_opportunity \<notin> bu_victim_tx ` set b'"
proof -
  obtain out tx where o: "outcome_of (handle demo_refusing_net demo_live demo_engine 1000000 demo_opportunity) = Some out"
    and a: "attempted out = Some tx"
    using demo_submitted by auto
  obtain en' where run: "handle demo_refusing_net demo_live demo_engine 1000000 demo_opportunity = Inr (en', out)"
    using outcome_of_Some [OF o] by blast
  from handle_keeps_budget [OF run demo_engine_budget budget_reachable.start [of _ 0]]
  show ?thesis using run a by (fastforce simp: demo_net_gate)
qed

theorem refused_after_reserving_keeps_capital_witness:
  "\<exists>en' b' r. handle (demo_net\<lparr>nt_sign := \<lambda>_ _. Inl ''key''\<rparr>) demo_live demo_engine 1000000 demo_opportunity
       = Inr (en', SignError ''key'')
     \<and> en_capital_budget en' = Healthy (b' @ [r]) \<and> bu_victim_tx r = op_victim_tx demo_opportunity"
proof -
  obtain en' where run: "handle (demo_net\<lparr>nt_sign := \<lambda>_ _. Inl ''key''\<rparr>) demo_live demo_engine 1000000 demo_opportunity
       = Inr (en', SignError ''key'')"
    using outcome_of_Some [OF demo_unsigned] by blast
  have "op_execution_payload demo_opportunity = Some demo_payload" by (simp add: demo_opportunity_def)
  then show ?thesis using refused_after_reserving_keeps_capital [OF run demo_engine_budget] run by blast
qed

end
