(* ===== verification/RuntimeGates.thy ===== *)
theory RuntimeGates
  imports Rpc PayloadBuilder ExecutorHandle
begin

text \<open>
  The synchronous part of \<open>src/mev/runtime.rs\<close>: the decoded swap, the micro batch of candidates, the
  duplicate filter, the lookup throttle, the candidate lanes and the gates a candidate passes on its
  way to the executor. Environment variables are the fields of \<open>runtime_env\<close>, already parsed, \<open>None\<close>
  when unset or unreadable. The formatted \<open>detail\<close> of a diagnostic is text for the log and left out.
\<close>

section \<open>Data\<close>

datatype swap_kind = KindV2 | KindV3 (kind_fee_tier: u32) (kind_encoded_path: bytes) (kind_hops: nat) (kind_exact_out: bool)

record swap_signal =
  sg_selector :: selector
  sg_amount_in :: u256
  sg_amount_out_min :: "u256 option"
  sg_notional_wei :: u256
  sg_path :: "address list"
  sg_router :: address
  sg_kind :: swap_kind
  sg_decode_confidence :: f64
  sg_decode_source :: string

record fast_preflight_decision =
  fp_should_continue :: bool
  fp_reject_reason :: "string option"
  fp_ev_upper_bound_usd :: f64
  fp_estimated_gas_cost_usd :: f64
  fp_competition_score_fast :: f64
  fp_gas_ratio :: f64
  fp_scavenger_try_score :: f64

record pending_execution_candidate =
  pc_opportunity :: mev_opportunity
  pc_ev_real_usd :: f64
  pc_p_positive :: f64
  pc_capital_efficiency :: f64
  pc_relay_score :: f64
  pc_context_priority_score :: f64

record micro_batcher =
  mb_opened_at :: "instant option"
  mb_candidates :: "pending_execution_candidate list"

record rpc_lookup_pressure_t =
  lp_available_readers :: nat
  lp_available_read_capacity_per_sec :: u64
  lp_rate_limited_readers :: nat
  lp_failing_readers :: nat

record pending_lookup_backpressure =
  bp_window_started :: instant
  bp_accepted_in_window :: u64
  bp_pressure_refreshed_at :: instant
  bp_pressure :: rpc_lookup_pressure_t
  bp_dropped_since_event :: u64
  bp_last_event_at :: instant

datatype candidate_lane = LaneSmall | LaneMedium | LaneLarge | LaneUniversal

record small_swap_budget =
  sb_window_started :: instant
  sb_accepted :: u64

record gate_diagnostic =
  gd_pass :: bool
  gd_reason :: string
  gd_expected_profit_wei :: u256
  gd_execution_cost_wei :: u256
  gd_min_profit_wei :: u256
  gd_net_ev_usd :: f64
  gd_roi_bps :: u64

record ev_validation_report =
  vr_pass :: bool
  vr_reason :: string
  vr_gross_edge_usd :: f64
  vr_net_edge_usd :: f64
  vr_gas_cost_usd :: f64
  vr_roi_bps :: u64

text \<open>
  What the environment and the \<open>ethers\<close> crate answer. \<open>parse_ether\<close> fails on a text that is not a number
  and panics when the amount times \<open>10\<^sup>1\<^sup>8\<close> does not fit 256 bits (\<open>rv_ether_overflows\<close>). Only amounts that
  a transaction names can be that large; where a configured amount is parsed, it is taken to fit.
\<close>

record runtime_env =
  rv_pending_lookup_max_per_sec :: "u64 option"
  rv_scavenger_min_gas_fraction_bps :: "u64 option"
  rv_scavenger_min_economic_edge_usd :: "f64 option"
  rv_scavenger_require_net_positive :: bool
  rv_scavenger_gas_cap_research_bypass :: bool
  rv_scavenger_research_max_gas_ratio :: f64
  rv_pre_decode_gas_cap_multiplier :: f64
  rv_ws_reconnect_base_ms :: "u64 option"
  rv_ws_reconnect_max_secs :: "u64 option"
  rv_payload_build_fanout :: "nat option"
  rv_unhealthy_rpc_fallback :: bool
  rv_evm_preflight_enabled :: bool
  rv_parse_ether_shown :: "f64 \<Rightarrow> string + u256"
  rv_ether_overflows :: "f64 \<Rightarrow> bool"
  rv_parse_ether_18 :: "f64 \<Rightarrow> string + u256"

section \<open>Selectors\<close>

definition SWAP_EXACT_TOKENS_FOR_TOKENS :: selector where "SWAP_EXACT_TOKENS_FOR_TOKENS = [0x38, 0xed, 0x17, 0x39]"
definition SWAP_EXACT_ETH_FOR_TOKENS :: selector where "SWAP_EXACT_ETH_FOR_TOKENS = [0x7f, 0xf3, 0x6a, 0xb5]"
definition SWAP_EXACT_TOKENS_FOR_ETH :: selector where "SWAP_EXACT_TOKENS_FOR_ETH = [0x18, 0xcb, 0xaf, 0xe5]"
definition SWAP_EXACT_TOKENS_FOR_TOKENS_SUPPORTING_FEE :: selector where
  "SWAP_EXACT_TOKENS_FOR_TOKENS_SUPPORTING_FEE = [0x5c, 0x11, 0xd7, 0x95]"
definition SWAP_EXACT_ETH_FOR_TOKENS_SUPPORTING_FEE :: selector where
  "SWAP_EXACT_ETH_FOR_TOKENS_SUPPORTING_FEE = [0xb6, 0xf9, 0xde, 0x95]"
definition SWAP_EXACT_TOKENS_FOR_ETH_SUPPORTING_FEE :: selector where
  "SWAP_EXACT_TOKENS_FOR_ETH_SUPPORTING_FEE = [0x79, 0x1a, 0xc9, 0x47]"
definition V3_EXACT_INPUT_SINGLE :: selector where "V3_EXACT_INPUT_SINGLE = [0x41, 0x4b, 0xf3, 0x89]"
definition V3_EXACT_INPUT :: selector where "V3_EXACT_INPUT = [0xc0, 0x4b, 0x8d, 0x59]"
definition UNIVERSAL_ROUTER_EXECUTE :: selector where "UNIVERSAL_ROUTER_EXECUTE = [0x35, 0x93, 0x56, 0x4c]"
definition UNIVERSAL_ROUTER_EXECUTE_NO_DEADLINE :: selector where
  "UNIVERSAL_ROUTER_EXECUTE_NO_DEADLINE = [0x24, 0x85, 0x6b, 0xc3]"

section \<open>The decoded swap\<close>

definition path_len :: "swap_signal \<Rightarrow> nat" where
  "path_len s = (case sg_kind s of KindV2 \<Rightarrow> length (sg_path s)
     | KindV3 _ _ hops _ \<Rightarrow> max (min (hops + 1) (2 ^ 64 - 1)) (length (sg_path s)))"

definition is_partial_decode :: "swap_signal \<Rightarrow> bool" where
  "is_partial_decode s = (sg_decode_confidence s < dec 99 2)"

section \<open>Micro batch\<close>

definition MICROBATCH_WINDOW_MS :: int where "MICROBATCH_WINDOW_MS = 45"
definition MICROBATCH_MAX_CANDIDATES :: nat where "MICROBATCH_MAX_CANDIDATES = 4"

definition ranking_score :: "pending_execution_candidate \<Rightarrow> f64" where
  "ranking_score c = fmax (pc_ev_real_usd c) 0
     * (dec 65 2 + fclamp 0 1 (pc_p_positive c) * dec 35 2)
     * (dec 70 2 + fclamp 0 1 (pc_context_priority_score c) * dec 30 2)
     * (dec 72 2 + fclamp 0 1 (pc_capital_efficiency c) * dec 28 2)
     * (1 - fclamp 0 1 (pc_relay_score c) * dec 20 2)"

definition batch_push :: "micro_batcher \<Rightarrow> instant \<Rightarrow> pending_execution_candidate \<Rightarrow> micro_batcher" where
  "batch_push b now c = \<lparr>mb_opened_at = (if mb_opened_at b = None then Some now else mb_opened_at b),
     mb_candidates = mb_candidates b @ [c]\<rparr>"

definition should_flush :: "micro_batcher \<Rightarrow> instant \<Rightarrow> bool" where
  "should_flush b now \<longleftrightarrow> MICROBATCH_MAX_CANDIDATES \<le> length (mb_candidates b)
     \<or> (case mb_opened_at b of Some opened \<Rightarrow> nanos_of_millis MICROBATCH_WINDOW_MS \<le> duration_since now opened
        | None \<Rightarrow> False)"

definition has_pending :: "micro_batcher \<Rightarrow> bool" where
  "has_pending b = (mb_candidates b \<noteq> [])"

text \<open>\<open>Vec::swap_remove\<close>: the last element takes the place of the removed one.\<close>

definition swap_remove :: "nat \<Rightarrow> 'a list \<Rightarrow> 'a list" where
  "swap_remove i xs = butlast (xs[i := last xs])"

definition drain_best :: "micro_batcher \<Rightarrow> instant \<Rightarrow> micro_batcher \<times> (pending_execution_candidate \<times> nat) option" where
  "drain_best b now =
     (case max_by (\<lambda>l r. total_le (ranking_score (snd l)) (ranking_score (snd r))) (enumerate 0 (mb_candidates b)) of
        None \<Rightarrow> (b, None)
      | Some (best_index, best) \<Rightarrow>
          let rest = swap_remove best_index (mb_candidates b)
          in (\<lparr>mb_opened_at = (if rest = [] then None else Some now), mb_candidates = rest\<rparr>, Some (best, length rest)))"

section \<open>Duplicate filter\<close>

fun evict_oldest :: "h256 set \<Rightarrow> h256 list \<Rightarrow> h256 set \<times> h256 list" where
  "evict_oldest seen [] = (seen, [])"
| "evict_oldest seen (old # order) =
     (if 8192 < length (old # order) then evict_oldest (seen - {old}) order else (seen, old # order))"

definition mark_seen_tx :: "h256 set \<Rightarrow> h256 list \<Rightarrow> h256 \<Rightarrow> (h256 set \<times> h256 list) \<times> bool" where
  "mark_seen_tx seen order tx_hash =
     (if tx_hash \<in> seen then ((seen, order), False)
      else (evict_oldest (insert tx_hash seen) (order @ [tx_hash]), True))"

section \<open>Reconnects\<close>

definition sat_pow2 :: "u32 \<Rightarrow> u64" where
  "sat_pow2 e = (if uint e < 64 then push_bit (unat e) 1 else - 1)"

definition mempool_ws_reconnect_delay :: "runtime_env \<Rightarrow> string \<Rightarrow> u32 \<Rightarrow> duration" where
  "mempool_ws_reconnect_delay env ws_url fails =
     (let base_ms = (case rv_ws_reconnect_base_ms env of Some v \<Rightarrow> v | None \<Rightarrow> 1500);
          max_secs = (case rv_ws_reconnect_max_secs env of Some v \<Rightarrow> v
            | None \<Rightarrow> if str_contains ''alchemy.com'' (to_ascii_lowercase ws_url) then 300 else 60);
          exponent = min (sat_sub fails 1) 7;
          delay_ms = sat_mul base_ms (sat_pow2 exponent)
      in min (nanos_of_millis (uint delay_ms)) (nanos_of_secs (uint max_secs)))"

definition is_provider_capacity_exhausted :: "string \<Rightarrow> bool" where
  "is_provider_capacity_exhausted error =
     (let lower = to_ascii_lowercase error
      in list_ex (\<lambda>part. str_contains part lower)
           [''monthly capacity limit exceeded'', ''capacity limit exceeded'', ''quota exceeded'', ''billing''])"

definition is_blocked_bnb_alchemy_ws :: "string \<Rightarrow> bool" where
  "is_blocked_bnb_alchemy_ws url =
     (let normalized = to_ascii_lowercase url
      in starts_with ''wss://bnb-mainnet.g.alchemy.com/'' normalized
         \<or> starts_with ''wss://bnb-mainnet.g.alchemy.com:'' normalized)"

definition is_alchemy_ws :: "string \<Rightarrow> bool" where
  "is_alchemy_ws url = str_contains ''.alchemy.com/'' (to_ascii_lowercase url)"

section \<open>Lookup throttle\<close>

definition LOOKUP_DECODE_QUEUE_CAPACITY :: nat where "LOOKUP_DECODE_QUEUE_CAPACITY = 8192"
definition SMALL_SCAVENGER_BUDGET_PER_SEC :: u64 where "SMALL_SCAVENGER_BUDGET_PER_SEC = 8"

definition lookup_pressure_default :: rpc_lookup_pressure_t where
  "lookup_pressure_default = \<lparr>lp_available_readers = 1, lp_available_read_capacity_per_sec = 25,
     lp_rate_limited_readers = 0, lp_failing_readers = 0\<rparr>"

definition pressure_step :: "rpc_lookup_pressure_t \<Rightarrow> rpc_endpoint_snapshot \<Rightarrow> rpc_lookup_pressure_t" where
  "pressure_step p e =
     (if sn_disabled e then p
      else let p1 = (if 0 < sn_rate_limit_failures e
                     then p\<lparr>lp_rate_limited_readers := lp_rate_limited_readers p + 1\<rparr> else p);
               p2 = (if 0 < sn_failures e \<or> 0 < sn_timeout_failures e \<or> 0 < sn_stale_failures e
                     then p1\<lparr>lp_failing_readers := lp_failing_readers p1 + 1\<rparr> else p1)
           in if sn_cooldown_remaining_secs e = 0 \<and> sn_rate_limit_failures e = 0
              then p2\<lparr>lp_available_readers := lp_available_readers p2 + 1,
                      lp_available_read_capacity_per_sec :=
                        sat_add (lp_available_read_capacity_per_sec p2) (sn_read_capacity_per_sec e)\<rparr>
              else p2)"

definition rpc_lookup_pressure :: "rpc_fleet \<Rightarrow> instant \<Rightarrow> rpc_fleet \<times> rpc_lookup_pressure_t" where
  "rpc_lookup_pressure f now =
     (case rpc_snapshot f now of (f', snaps) \<Rightarrow>
        (f', foldl pressure_step (lookup_pressure_default\<lparr>lp_available_readers := 0,
               lp_available_read_capacity_per_sec := 0\<rparr>) snaps))"

definition pressure_multiplier :: "bool \<Rightarrow> rpc_lookup_pressure_t \<Rightarrow> f64" where
  "pressure_multiplier configured p =
     (if configured then
        (if lp_available_readers p = 0 then dec 5 2
         else if 0 < lp_rate_limited_readers p then dec 25 2
         else if lp_available_readers p < lp_failing_readers p then dec 60 2 else 1)
      else if lp_available_readers p = 0 then dec 3 2
      else if lp_available_readers p \<le> 1 \<and> 0 < lp_rate_limited_readers p then dec 18 2
      else if lp_available_readers p \<le> 1 \<or> 0 < lp_rate_limited_readers p then dec 28 2
      else if lp_available_readers p < lp_failing_readers p then dec 45 2 else 1)"

definition effective_pending_lookup_budget_for_mode ::
  "opportunity_mode \<Rightarrow> u64 option \<Rightarrow> rpc_lookup_pressure_t \<Rightarrow> u64" where
  "effective_pending_lookup_budget_for_mode mode configured p =
     (let base0 = (case configured of Some v \<Rightarrow> v
            | None \<Rightarrow> (case mode of Conservative \<Rightarrow> 60 | Aggressive \<Rightarrow> 90 | Scavenger \<Rightarrow> 25));
          healthy_reader_cap = max (lp_available_read_capacity_per_sec p)
            (case mode of Scavenger \<Rightarrow> 4 | Aggressive \<Rightarrow> 10 | Conservative \<Rightarrow> 8);
          base = (if configured \<noteq> None then min (clampw 1 1000 base0) healthy_reader_cap
                  else min base0 healthy_reader_cap);
          lowest = (if lp_available_readers p = 0 then dec 4 0 else dec 10 0)
      in f_as_word (fmax (fround_away (of_uw base * pressure_multiplier (configured \<noteq> None) p)) lowest))"

definition effective_pending_lookup_budget :: "runtime_env \<Rightarrow> config \<Rightarrow> rpc_lookup_pressure_t \<Rightarrow> u64" where
  "effective_pending_lookup_budget env cfg p =
     effective_pending_lookup_budget_for_mode (opportunity_mode (mev cfg)) (rv_pending_lookup_max_per_sec env) p"

definition backpressure_new :: "instant \<Rightarrow> pending_lookup_backpressure" where
  "backpressure_new now = \<lparr>bp_window_started = now, bp_accepted_in_window = 0,
     bp_pressure_refreshed_at = now - nanos_of_secs 2, bp_pressure = lookup_pressure_default,
     bp_dropped_since_event = 0, bp_last_event_at = now\<rparr>"

definition open_window :: "instant \<Rightarrow> pending_lookup_backpressure \<Rightarrow> pending_lookup_backpressure" where
  "open_window now b =
     (if nanos_of_secs 1 \<le> duration_since now (bp_window_started b)
      then b\<lparr>bp_window_started := now, bp_accepted_in_window := 0\<rparr> else b)"

definition should_enqueue ::
  "runtime_env \<Rightarrow> config \<Rightarrow> rpc_fleet \<Rightarrow> pending_lookup_backpressure \<Rightarrow> instant \<Rightarrow> nat
    \<Rightarrow> (rpc_fleet \<times> pending_lookup_backpressure) \<times> bool" where
  "should_enqueue env cfg fleet b0 now queue_remaining =
     (let b1 = open_window now b0;
          (f, b) = (if nanos_of_millis 900 \<le> duration_since now (bp_pressure_refreshed_at b1)
                    then (case rpc_lookup_pressure fleet now of (f', p) \<Rightarrow>
                            (f', b1\<lparr>bp_pressure := p, bp_pressure_refreshed_at := now\<rparr>))
                    else (fleet, b1));
          max_per_sec = effective_pending_lookup_budget env cfg (bp_pressure b);
          queue_soft_full = (queue_remaining \<le> LOOKUP_DECODE_QUEUE_CAPACITY div 16)
      in if bp_accepted_in_window b < max_per_sec \<and> \<not> queue_soft_full
         then ((f, b\<lparr>bp_accepted_in_window := sat_add (bp_accepted_in_window b) 1\<rparr>), True)
         else let b' = b\<lparr>bp_dropped_since_event := sat_add (bp_dropped_since_event b) 1\<rparr>
              in ((f, if nanos_of_secs 5 \<le> duration_since now (bp_last_event_at b)
                      then b'\<lparr>bp_dropped_since_event := 0, bp_last_event_at := now\<rparr> else b'), False))"

section \<open>Lanes\<close>

definition classify_candidate_lane :: "swap_signal \<Rightarrow> u256 \<Rightarrow> candidate_lane" where
  "classify_candidate_lane s min_large_swap_wei =
     (if sg_selector s = UNIVERSAL_ROUTER_EXECUTE \<or> sg_selector s = UNIVERSAL_ROUTER_EXECUTE_NO_DEADLINE
      then LaneUniversal
      else let medium_threshold = max (sat_mul min_large_swap_wei 25) 50000000000000000;
               large_threshold = max (sat_mul min_large_swap_wei 250) 500000000000000000
           in if large_threshold \<le> sg_notional_wei s then LaneLarge
              else if medium_threshold \<le> sg_notional_wei s then LaneMedium else LaneSmall)"

fun candidate_lane_as_str :: "candidate_lane \<Rightarrow> string" where
  "candidate_lane_as_str LaneSmall = ''small''"
| "candidate_lane_as_str LaneMedium = ''medium''"
| "candidate_lane_as_str LaneLarge = ''large''"
| "candidate_lane_as_str LaneUniversal = ''universal''"

text \<open>The budget behind its mutex, created on first use.\<close>

definition allow_small_scavenger_candidate ::
  "small_swap_budget lock option \<Rightarrow> instant \<Rightarrow> small_swap_budget lock option \<times> bool" where
  "allow_small_scavenger_candidate slot now =
     (case (case slot of Some l \<Rightarrow> l | None \<Rightarrow> Healthy \<lparr>sb_window_started = now, sb_accepted = 0\<rparr>) of
        Poisoned b \<Rightarrow> (Some (Poisoned b), True)
      | Healthy b \<Rightarrow>
          let b1 = (if nanos_of_secs 1 \<le> duration_since now (sb_window_started b)
                    then \<lparr>sb_window_started = now, sb_accepted = 0\<rparr> else b)
          in if sb_accepted b1 < SMALL_SCAVENGER_BUDGET_PER_SEC
             then (Some (Healthy (b1\<lparr>sb_accepted := sat_add (sb_accepted b1) 1\<rparr>)), True)
             else (Some (Healthy b1), False))"

section \<open>Fast preflight\<close>

definition heuristic_gas_baseline_gwei :: "config \<Rightarrow> f64" where
  "heuristic_gas_baseline_gwei cfg =
     (if cfg_network cfg = ''arbitrum'' then dec 15 2
      else if cfg_network cfg = ''polygon'' then dec 80 0
      else if cfg_network cfg = ''bsc'' then dec 3 0 else dec 25 0)"

definition selector_heuristic_factor :: "selector \<Rightarrow> f64" where
  "selector_heuristic_factor sel =
     (if sel = V3_EXACT_INPUT_SINGLE then dec 116 2
      else if sel = V3_EXACT_INPUT then dec 104 2
      else if sel = SWAP_EXACT_ETH_FOR_TOKENS \<or> sel = SWAP_EXACT_ETH_FOR_TOKENS_SUPPORTING_FEE then dec 118 2
      else if sel = SWAP_EXACT_TOKENS_FOR_ETH \<or> sel = SWAP_EXACT_TOKENS_FOR_ETH_SUPPORTING_FEE then dec 108 2
      else if sel = SWAP_EXACT_TOKENS_FOR_TOKENS \<or> sel = SWAP_EXACT_TOKENS_FOR_TOKENS_SUPPORTING_FEE then dec 94 2
      else dec 82 2)"

definition notional_size_bucket :: "f64 \<Rightarrow> f64 \<Rightarrow> nat" where
  "notional_size_bucket notional_eth min_large =
     (if notional_eth < min_large * dec 125 2 then 0
      else if notional_eth < min_large * dec 25 1 then 1 else 2)"

definition fast_path_penalty :: "nat \<Rightarrow> f64" where
  "fast_path_penalty n = (if n \<le> 2 then 0 else if n = 3 then dec 18 2 else if n = 4 then dec 30 2 else dec 42 2)"

definition scavenger_slippage_window_hint :: "swap_signal \<Rightarrow> f64" where
  "scavenger_slippage_window_hint s =
     (if sg_amount_out_min s = Some 0 then dec 95 2
      else if sg_selector s \<in> {SWAP_EXACT_TOKENS_FOR_TOKENS_SUPPORTING_FEE, SWAP_EXACT_ETH_FOR_TOKENS_SUPPORTING_FEE,
                 SWAP_EXACT_TOKENS_FOR_ETH_SUPPORTING_FEE} then dec 72 2
      else if 3 \<le> path_len s then dec 52 2 else dec 30 2)"

definition scavenger_impact_imbalance_hint :: "f64 \<Rightarrow> f64 \<Rightarrow> nat \<Rightarrow> f64" where
  "scavenger_impact_imbalance_hint notional_eth min_large n =
     (let size_pressure = fclamp 0 1 (notional_eth / fmax min_large (dec 1 6) / dec 3 0);
          simple_pool_bonus = (if n \<le> 2 then dec 22 2 else dec 8 2)
      in fclamp 0 1 (size_pressure * dec 78 2 + simple_pool_bonus))"

definition scavenger_route_inefficiency_hint :: "swap_signal \<Rightarrow> f64" where
  "scavenger_route_inefficiency_hint s =
     (case sg_kind s of
        KindV3 _ _ hops _ \<Rightarrow> if 2 \<le> hops then dec 78 2 else dec 46 2
      | KindV2 \<Rightarrow> if 3 \<le> path_len s then dec 72 2 else dec 38 2)"

definition scavenger_fast_try_score :: "swap_signal \<Rightarrow> f64 \<Rightarrow> f64 \<Rightarrow> config \<Rightarrow> context_signal \<Rightarrow> f64" where
  "scavenger_fast_try_score s gas_ratio notional_eth cfg ctx =
     (let slippage_window = scavenger_slippage_window_hint s;
          pool_imbalance = scavenger_impact_imbalance_hint notional_eth (effective_min_large_swap_eth (mev cfg)) (path_len s);
          low_competition = fclamp 0 1 ((dec 135 2 - gas_ratio) / dec 135 2) * dec 55 2
            + fclamp 0 1 (cs_priority_score ctx) * dec 25 2
            + (1 - fclamp 0 1 (cs_toxicity_score ctx)) * dec 20 2;
          route_quality = scavenger_route_inefficiency_hint s;
          victim_size_factor = fclamp 0 1 (notional_eth / fmax (effective_min_large_swap_eth (mev cfg)) (dec 1 6) / dec 4 0)
      in fclamp 0 1 (slippage_window * dec 35 2 + pool_imbalance * dec 25 2 + low_competition * dec 20 2
           + route_quality * dec 10 2 + victim_size_factor * dec 10 2))"

definition fast_reject :: "string \<Rightarrow> fast_preflight_decision" where
  "fast_reject reason = \<lparr>fp_should_continue = False, fp_reject_reason = Some reason, fp_ev_upper_bound_usd = 0,
     fp_estimated_gas_cost_usd = 0, fp_competition_score_fast = 1, fp_gas_ratio = 0, fp_scavenger_try_score = 0\<rparr>"

text \<open>The upper bound of the expected value in dollars, and the gas cost it subtracts.\<close>

definition fast_gas_cost_usd :: "config \<Rightarrow> u256 \<Rightarrow> f64" where
  "fast_gas_cost_usd cfg gas_price =
     wei_to_eth_f64 (sat_mul gas_price (ucast (max (sat_add (estimated_exec_gas cfg) (estimated_bundle_overhead_gas cfg)) 180000)))
       * eth_usd_price (mev cfg)"

definition fast_ev_upper_bound :: "swap_signal \<Rightarrow> u256 \<Rightarrow> config \<Rightarrow> context_signal \<Rightarrow> nat \<Rightarrow> f64 \<Rightarrow> f64" where
  "fast_ev_upper_bound s gas_price cfg ctx size_bucket notional_eth =
     (let size_factor = (if size_bucket = 0 then dec 22 5 else if size_bucket = 1 then dec 38 5 else dec 60 5);
          heuristic_factor = fmax (selector_heuristic_factor (sg_selector s) * size_factor
            * (1 - fast_path_penalty (path_len s))
            * (dec 88 2 + fclamp 0 1 (cs_priority_score ctx) * dec 18 2)
            * (1 - fclamp 0 1 (cs_toxicity_score ctx) * dec 20 2)) (dec 5 5)
      in notional_eth * eth_usd_price (mev cfg) * heuristic_factor - fast_gas_cost_usd cfg gas_price)"

definition fast_competition :: "f64 \<Rightarrow> nat \<Rightarrow> nat \<Rightarrow> context_signal \<Rightarrow> f64" where
  "fast_competition gas_ratio size_bucket n ctx =
     (let gas_pressure = fclamp 0 1 ((gas_ratio - 1) / dec 8 1);
          size_pressure = (if size_bucket = 0 then dec 20 2 else if size_bucket = 1 then dec 48 2 else dec 72 2);
          context_confidence = fclamp 0 1 (of_uw (min (cs_samples ctx) 24) / dec 24 0);
          path_risk = of_usize (int (min (n - 2) 3)) / dec 3 0
      in fclamp 0 1 (gas_pressure * dec 46 2 + size_pressure * dec 34 2 + path_risk * dec 14 2
           + fclamp 0 1 (cs_toxicity_score ctx) * (dec 8 2 + context_confidence * dec 8 2)
           - fclamp 0 1 (cs_priority_score ctx) * (dec 3 2 + context_confidence * dec 5 2)))"

definition fast_preflight_gate ::
  "swap_signal \<Rightarrow> u256 \<Rightarrow> u256 \<Rightarrow> config \<Rightarrow> context_signal \<Rightarrow> fast_preflight_decision" where
  "fast_preflight_gate s gas_price min_large_swap_wei cfg ctx =
     (if path_len s < 2 then fast_reject ''invalid_path''
      else if sg_notional_wei s < min_large_swap_wei then fast_reject ''notional_below_min''
      else
        let notional_eth = wei_to_eth_f64 (sg_notional_wei s);
            gas_ratio = fmax (wei_to_gwei_f64 gas_price / fmax (heuristic_gas_baseline_gwei cfg) (dec 1 9)) 0;
            size_bucket = notional_size_bucket notional_eth (effective_min_large_swap_eth (mev cfg));
            gas_cost = fast_gas_cost_usd cfg gas_price;
            ev = fast_ev_upper_bound s gas_price cfg ctx size_bucket notional_eth;
            decide = (\<lambda>reason competition try_score. \<lparr>fp_should_continue = (reason = None), fp_reject_reason = reason,
              fp_ev_upper_bound_usd = ev, fp_estimated_gas_cost_usd = gas_cost,
              fp_competition_score_fast = competition, fp_gas_ratio = gas_ratio, fp_scavenger_try_score = try_score\<rparr>)
        in case opportunity_mode (mev cfg) of
             Scavenger \<Rightarrow>
               let try_score = scavenger_fast_try_score s gas_ratio notional_eth cfg ctx
               in decide (if try_score < dec 18 2 \<and> dec 145 2 < gas_ratio
                          then Some ''scavenger_score_below_cheap_threshold'' else None) (1 - try_score) try_score
           | Aggressive \<Rightarrow>
               let try_score = scavenger_fast_try_score s gas_ratio notional_eth cfg ctx;
                   min_usd = effective_min_profit_usd (mev cfg)
               in decide (if try_score < dec 24 2 \<and> ev < min_usd * dec 35 2
                          then Some ''bloody_score_below_research_threshold''
                          else if dec 185 2 < gas_ratio \<and> ev < min_usd
                          then Some ''bloody_gas_pressure_without_edge'' else None) (1 - try_score) try_score
           | Conservative \<Rightarrow>
               let competition = fast_competition gas_ratio size_bucket (path_len s) ctx
               in decide (if ev < effective_min_profit_usd (mev cfg) * dec 15 1 then Some ''ev_upper_bound_below_min''
                          else if dec 75 2 < competition then Some ''competition_fast_too_high'' else None)
                    competition 0)"

text \<open>\<open>f64::clamp\<close> panics unless its bounds are in order.\<close>

definition clamp_checked :: "f64 \<Rightarrow> f64 \<Rightarrow> f64 \<Rightarrow> panic + f64" where
  "clamp_checked lo hi x = (if lo \<le> hi then Inr (fclamp lo hi x) else Inl AssertionFailed)"

definition gas_tier_floor :: "f64 \<Rightarrow> f64 \<Rightarrow> f64" where
  "gas_tier_floor ev hard_cap_gwei =
     (if dec 25 2 \<le> ev then dec 1000 0
      else if dec 14 2 \<le> ev then hard_cap_gwei * dec 98 2
      else if dec 10 2 \<le> ev then dec 850 0
      else if dec 5 2 \<le> ev then dec 450 0
      else if dec 2 2 \<le> ev then hard_cap_gwei * dec 95 2
      else if dec 5 3 \<le> ev then dec 350 0
      else if dec 1 3 \<le> ev then dec 300 0
      else if 0 < ev then dec 250 0
      else if - dec 2 2 \<le> ev then dec 150 0 else dec 120 0)"

definition adaptive_gas_cap_gwei :: "f64 \<Rightarrow> f64 \<Rightarrow> f64 \<Rightarrow> panic + f64" where
  "adaptive_gas_cap_gwei ev notional_eth hard_cap_gwei =
     (let tier_floor = gas_tier_floor ev hard_cap_gwei;
          continuous_cap = (if 0 < ev then dec 100 0 + ev * dec 3000 0 else dec 150 0 + ev * dec 1500 0);
          edge_cap = (if dec 2 2 \<le> ev then tier_floor else fmax tier_floor continuous_cap);
          size_multiplier = (if 0 < ev then fclamp 1 (dec 118 2) (dec 95 2 + notional_eth / dec 40 0)
                             else fclamp (dec 75 2) (dec 115 2) (notional_eth / dec 10 0))
      in clamp_checked (dec 120 0) (fmax hard_cap_gwei 1) (edge_cap * size_multiplier))"

definition scavenger_gas_cap_research_bypass :: "runtime_env \<Rightarrow> config \<Rightarrow> swap_signal \<Rightarrow> fast_preflight_decision \<Rightarrow> bool" where
  "scavenger_gas_cap_research_bypass env cfg s g \<longleftrightarrow> opportunity_mode (mev cfg) = Scavenger \<and> \<not> allow_send cfg
     \<and> rv_scavenger_gas_cap_research_bypass env \<and> dec 35 2 \<le> sg_decode_confidence s
     \<and> fp_gas_ratio g \<le> rv_scavenger_research_max_gas_ratio env"

section \<open>Overrides of the adaptive policy\<close>

definition should_override_preflight_reject :: "config \<Rightarrow> preflight_quote \<Rightarrow> bool" where
  "should_override_preflight_reject cfg q =
     (case opportunity_mode (mev cfg) of Conservative \<Rightarrow> False
      | Aggressive \<Rightarrow> effective_min_profit_usd (mev cfg) * dec 45 2 \<le> pq_upper_bound_ev_usd q
          \<and> dec 12 2 \<le> pq_preflight_score q \<and> pq_gas_pressure q \<le> dec 105 2
      | Scavenger \<Rightarrow> True)"

definition should_override_adaptive_reject :: "config \<Rightarrow> adaptive_quote \<Rightarrow> bool" where
  "should_override_adaptive_reject cfg q =
     (case opportunity_mode (mev cfg) of Conservative \<Rightarrow> False
      | Aggressive \<Rightarrow> effective_min_profit_usd (mev cfg) \<le> aq_ev_real_usd q \<and> dec 20 2 \<le> aq_p_positive q
          \<and> aq_risk_score q \<le> dec 95 2 \<and> aq_gas_pressure q \<le> dec 100 2
      | Scavenger \<Rightarrow> True)"

section \<open>Quality gate\<close>

definition scavenger_quality_price_impact_cap_bps :: "config \<Rightarrow> u64" where
  "scavenger_quality_price_impact_cap_bps cfg = clampw 600 4000 (sat_mul (effective_max_price_impact_bps (mev cfg)) 15)"

definition impact_score :: "config \<Rightarrow> execution_payload \<Rightarrow> 16 word" where
  "impact_score cfg payload = f_as_word (fclamp 0 (dec 100 0)
     (of_uw (pl_price_impact_bps payload) / of_uw (max (effective_max_price_impact_bps (mev cfg)) 1) * dec 100 0))"

definition quality_gate_diagnostic :: "config \<Rightarrow> execution_payload \<Rightarrow> u256 \<Rightarrow> gate_diagnostic" where
  "quality_gate_diagnostic cfg payload execution_cost_wei =
     (let profit = pl_expected_profit_wei payload;
          roi = roi_bps profit execution_cost_wei;
          result = (\<lambda>pass reason. \<lparr>gd_pass = pass, gd_reason = reason, gd_expected_profit_wei = profit,
            gd_execution_cost_wei = execution_cost_wei, gd_min_profit_wei = 0,
            gd_net_ev_usd = wei_to_eth_f64 profit * eth_usd_price (mev cfg), gd_roi_bps = roi\<rparr>)
      in if opportunity_mode (mev cfg) = Scavenger then
           let impact_cap = scavenger_quality_price_impact_cap_bps cfg
           in result (profit \<noteq> 0 \<and> pl_price_impact_bps payload \<le> impact_cap)
                (if profit = 0 then ''quality_zero_expected_profit''
                 else if impact_cap < pl_price_impact_bps payload then ''quality_price_impact_above_cap''
                 else ''quality_gate_pass'')
         else
           let min_roi = effective_min_roi_bps (mev cfg); score = impact_score cfg payload
           in result (min_roi \<le> roi \<and> score \<le> 100)
                (if roi < min_roi then ''quality_roi_below_min''
                 else if 100 < score then ''quality_impact_score_above_cap'' else ''quality_gate_pass''))"

definition passes_quality_gate :: "config \<Rightarrow> execution_payload \<Rightarrow> u256 \<Rightarrow> bool" where
  "passes_quality_gate cfg payload cost = gd_pass (quality_gate_diagnostic cfg payload cost)"

section \<open>Validation of the expected value\<close>

definition safety_gas_cost :: "config \<Rightarrow> execution_payload \<Rightarrow> u256 \<Rightarrow> u256" where
  "safety_gas_cost cfg payload gas_price =
     sat_mul (sat_mul gas_price (ucast (pl_gas_limit payload))) (ucast (gas_safety_margin_bps (mev cfg))) div 10000"

definition tick_from_sqrt_price_x96 :: "libm \<Rightarrow> u256 \<Rightarrow> int option" where
  "tick_from_sqrt_price_x96 lm value =
     (let sqrt = of_uw value / Q96_F64
      in if \<not> is_finite sqrt \<or> sqrt \<le> 0 then None
         else Some (f_as_i32 (ffloor (m_ln lm (sqrt * sqrt) / m_ln lm (dec 10001 4)))))"

text \<open>The difference of two 32-bit ticks and its absolute value wrap.\<close>

definition tick_distance :: "int \<Rightarrow> int \<Rightarrow> int" where
  "tick_distance a b = sint (word_of_int \<bar>sint (word_of_int (a - b) :: u32)\<bar> :: u32)"

definition pool_problem :: "libm \<Rightarrow> execution_payload \<Rightarrow> swap_signal \<Rightarrow> string option" where
  "pool_problem lm payload s =
     (case pl_pool_state_before payload of
        AmmUniswapV2 pool \<Rightarrow>
          if v2_reserve0 pool = 0 \<or> v2_reserve1 pool = 0 then Some ''reserve_normalization_zero''
          else (case sg_path s of
                  a # b # _ \<Rightarrow> if reserves_for pool a b = None \<and> reserves_for pool b a = None
                               then Some ''pool_token_mismatch'' else None
                | _ \<Rightarrow> None)
      | AmmUniswapV3 pool \<Rightarrow>
          if v3_liquidity pool = 0 then Some ''v3_liquidity_zero''
          else if v3_initialized_ticks pool = [] then Some ''v3_tick_data_missing''
          else if v3_sqrt_price_x96 pool = 0 then Some ''sqrt_price_x96_zero''
          else (case tick_from_sqrt_price_x96 lm (v3_sqrt_price_x96 pool) of None \<Rightarrow> None
                | Some derived_tick \<Rightarrow> if 250 < tick_distance derived_tick (v3_current_tick pool)
                                      then Some ''tick_sqrt_price_mismatch'' else None))"

definition validate_payload_ev ::
  "libm \<Rightarrow> config \<Rightarrow> execution_payload \<Rightarrow> swap_signal \<Rightarrow> u256 \<Rightarrow> ev_validation_report" where
  "validate_payload_ev lm cfg payload s gas_price =
     (let gas_cost_wei = safety_gas_cost cfg payload gas_price;
          gross = wei_to_eth_f64 (pl_expected_profit_wei payload) * eth_usd_price (mev cfg);
          gas = wei_to_eth_f64 gas_cost_wei * eth_usd_price (mev cfg);
          net = gross - gas;
          roi = roi_bps (pl_expected_profit_wei payload) gas_cost_wei;
          result = (\<lambda>pass reason. \<lparr>vr_pass = pass, vr_reason = reason, vr_gross_edge_usd = gross,
            vr_net_edge_usd = net, vr_gas_cost_usd = gas, vr_roi_bps = roi\<rparr>)
      in case find (\<lambda>t. mt_address t = pl_profit_token payload) (monitored_tokens cfg) of
           None \<Rightarrow> result False ''token_decimals_unknown''
         | Some meta \<Rightarrow>
             if 30 < mt_decimals meta \<or> \<not> is_finite (mt_price_eth meta) \<or> mt_price_eth meta \<le> 0
             then result False ''invalid_token_metadata''
             else if \<not> is_finite gross \<or> \<not> is_finite net \<or> \<not> is_finite gas then result False ''non_finite_ev''
             else if dec 10000 0 < gross \<or> 100000 < roi then result False ''ev_outlier_profit_or_roi''
             else if pl_capital_committed_wei payload = 0 then result False ''capital_usage_zero''
             else case pool_problem lm payload s of Some reason \<Rightarrow> result False reason
                  | None \<Rightarrow> result True ''ev_validation_pass'')"

section \<open>Scavenger gates\<close>

definition passes_scavenger_sanity_gate :: "config \<Rightarrow> execution_payload \<Rightarrow> duration \<Rightarrow> string + unit" where
  "passes_scavenger_sanity_gate cfg payload lookup_latency =
     (if pl_tx payload = [] \<or> pl_calldata payload = [] then Inl ''scavenger_empty_payload''
      else if pl_target_contract payload = 0 then Inl ''scavenger_missing_target''
      else if pl_capital_committed_wei payload = 0 then Inl ''scavenger_zero_capital''
      else if pl_expected_profit_wei payload = 0 then Inl ''scavenger_no_positive_gross_edge''
      else if max_gas_per_tx (mev cfg) < pl_gas_limit payload then Inl ''scavenger_gas_limit_above_cap''
      else if scavenger_quality_price_impact_cap_bps cfg < pl_price_impact_bps payload
      then Inl ''scavenger_price_impact_above_cap''
      else if uint (max (sat_mul (effective_max_pending_age_ms (mev cfg)) 3) 1) < as_millis lookup_latency
      then Inl ''scavenger_lookup_stale''
      else Inr ())"

definition required_edge_wei :: "runtime_env \<Rightarrow> config \<Rightarrow> u256 \<Rightarrow> u256" where
  "required_edge_wei env cfg gas_cost_wei =
     (let fraction = clampw 1 10000 (case rv_scavenger_min_gas_fraction_bps env of Some v \<Rightarrow> v | None \<Rightarrow> 100);
          min_edge_wei = sat_mul gas_cost_wei (ucast fraction) div 10000;
          min_edge_usd = fmax (case rv_scavenger_min_economic_edge_usd env of Some v \<Rightarrow> v | None \<Rightarrow> dec 5 4) 0;
          min_edge_native = min_edge_usd / fmax (eth_usd_price (mev cfg)) (dec 1 6);
          min_edge_from_usd = (case rv_parse_ether_18 env min_edge_native of Inr v \<Rightarrow> v | Inl _ \<Rightarrow> 0);
          edge_floor = max min_edge_wei min_edge_from_usd
      in if rv_scavenger_require_net_positive env then sat_add gas_cost_wei edge_floor else edge_floor)"

definition scavenger_payload_has_economic_edge :: "runtime_env \<Rightarrow> config \<Rightarrow> execution_payload \<Rightarrow> u256 \<Rightarrow> bool" where
  "scavenger_payload_has_economic_edge env cfg payload gas_price =
     (pl_expected_profit_wei payload \<noteq> 0
      \<and> required_edge_wei env cfg (sat_mul gas_price (ucast (pl_gas_limit payload))) \<le> pl_expected_profit_wei payload)"

definition scavenger_economic_edge_diagnostic :: "runtime_env \<Rightarrow> config \<Rightarrow> execution_payload \<Rightarrow> u256 \<Rightarrow> gate_diagnostic" where
  "scavenger_economic_edge_diagnostic env cfg payload gas_price =
     (let gas_cost_wei = sat_mul gas_price (ucast (pl_gas_limit payload));
          required_edge = required_edge_wei env cfg gas_cost_wei;
          profit = pl_expected_profit_wei payload;
          pass = (required_edge \<le> profit)
      in \<lparr>gd_pass = pass,
          gd_reason = (if profit = 0 then ''ev_zero_expected_profit''
            else if \<not> pass then ''ev_scavenger_edge_below_floor'' else ''ev_gate_pass''),
          gd_expected_profit_wei = profit, gd_execution_cost_wei = gas_cost_wei, gd_min_profit_wei = required_edge,
          gd_net_ev_usd = wei_to_eth_f64 (sat_sub profit gas_cost_wei) * eth_usd_price (mev cfg),
          gd_roi_bps = roi_bps profit gas_cost_wei\<rparr>)"

definition pool_state_valid :: "execution_payload \<Rightarrow> swap_signal \<Rightarrow> bool" where
  "pool_state_valid payload s =
     (case pl_pool_state_before payload of
        AmmUniswapV2 pool \<Rightarrow> v2_reserve0 pool \<noteq> 0 \<and> v2_reserve1 pool \<noteq> 0
          \<and> (case sg_path s of a # b # _ \<Rightarrow> reserves_for pool a b \<noteq> None \<or> reserves_for pool b a \<noteq> None | _ \<Rightarrow> False)
      | AmmUniswapV3 pool \<Rightarrow> v3_liquidity pool \<noteq> 0 \<and> v3_sqrt_price_x96 pool \<noteq> 0 \<and> v3_initialized_ticks pool \<noteq> [])"

definition scavenger_war_quote_diagnostic ::
  "config \<Rightarrow> execution_payload \<Rightarrow> swap_signal \<Rightarrow> u256 \<Rightarrow> gate_diagnostic \<Rightarrow> gate_diagnostic" where
  "scavenger_war_quote_diagnostic cfg payload s gas_price economic =
     (let gas = safety_gas_cost cfg payload gas_price;
          profit = pl_expected_profit_wei payload;
          economic_floor_wei = sat_sub (gd_min_profit_wei economic) (gd_execution_cost_wei economic);
          required_edge = sat_add gas economic_floor_wei;
          roi = roi_bps profit gas;
          min_roi = effective_min_roi_bps (mev cfg);
          impact_ok = (pl_price_impact_bps payload \<le> scavenger_quality_price_impact_cap_bps cfg)
      in \<lparr>gd_pass = (gd_pass economic \<and> pool_state_valid payload s \<and> gas < profit \<and> required_edge \<le> profit
                     \<and> min_roi \<le> roi \<and> impact_ok),
          gd_reason = (if \<not> gd_pass economic then gd_reason economic
            else if \<not> pool_state_valid payload s then ''scavenger_quote_invalid_pool_state''
            else if profit \<le> gas then ''scavenger_quote_net_after_gas_not_positive''
            else if profit < required_edge then ''scavenger_quote_edge_below_safety_floor''
            else if roi < min_roi then ''scavenger_quote_roi_below_min''
            else if \<not> impact_ok then ''scavenger_quote_price_impact_above_cap'' else ''scavenger_quote_pass''),
          gd_expected_profit_wei = profit, gd_execution_cost_wei = gas, gd_min_profit_wei = required_edge,
          gd_net_ev_usd = wei_to_eth_f64 (sat_sub profit gas) * eth_usd_price (mev cfg), gd_roi_bps = roi\<rparr>)"

definition scavenger_sanity_diagnostic :: "config \<Rightarrow> execution_payload \<Rightarrow> string \<Rightarrow> gate_diagnostic" where
  "scavenger_sanity_diagnostic cfg payload reason =
     \<lparr>gd_pass = False, gd_reason = reason, gd_expected_profit_wei = pl_expected_profit_wei payload,
      gd_execution_cost_wei = 0, gd_min_profit_wei = 0,
      gd_net_ev_usd = wei_to_eth_f64 (pl_expected_profit_wei payload) * eth_usd_price (mev cfg), gd_roi_bps = 0\<rparr>"

section \<open>Expected value gate\<close>

definition lookup_is_fresh :: "config \<Rightarrow> duration \<Rightarrow> bool" where
  "lookup_is_fresh cfg lookup_latency = (as_millis lookup_latency \<le> uint (max (effective_max_pending_age_ms (mev cfg)) 1))"

definition scavenger_ev_gate_result :: "config \<Rightarrow> execution_payload \<Rightarrow> duration \<Rightarrow> bool \<Rightarrow> gate_diagnostic" where
  "scavenger_ev_gate_result cfg payload lookup_latency pass =
     \<lparr>gd_pass = pass,
      gd_reason = (if \<not> lookup_is_fresh cfg lookup_latency then ''ev_lookup_stale''
        else if pl_expected_profit_wei payload = 0 then ''ev_zero_expected_profit''
        else if max_gas_per_tx (mev cfg) < pl_gas_limit payload then ''ev_gas_limit_above_cap'' else ''ev_gate_pass''),
      gd_expected_profit_wei = pl_expected_profit_wei payload, gd_execution_cost_wei = 0, gd_min_profit_wei = 0,
      gd_net_ev_usd = wei_to_eth_f64 (pl_expected_profit_wei payload) * eth_usd_price (mev cfg), gd_roi_bps = 0\<rparr>"

definition standard_ev_gate_result ::
  "config \<Rightarrow> execution_payload \<Rightarrow> u256 \<Rightarrow> bool \<Rightarrow> bool \<Rightarrow> bool \<Rightarrow> bool \<Rightarrow> bool \<Rightarrow> f64 \<Rightarrow> bool \<Rightarrow> gate_diagnostic" where
  "standard_ev_gate_result cfg payload min_profit_wei pass fresh large_enough inevitable_impact profit_above_threshold
     net_ev_usd gas_budget_ok =
     \<lparr>gd_pass = pass,
      gd_reason = (if \<not> fresh then ''ev_lookup_stale''
        else if \<not> large_enough then ''ev_notional_below_min''
        else if \<not> inevitable_impact then ''ev_price_impact_too_low''
        else if \<not> profit_above_threshold then ''ev_profit_below_min_wei''
        else if net_ev_usd < effective_min_profit_usd (mev cfg) then ''ev_profit_below_min_usd''
        else if \<not> gas_budget_ok then ''ev_gas_limit_above_cap'' else ''ev_gate_pass''),
      gd_expected_profit_wei = pl_expected_profit_wei payload, gd_execution_cost_wei = 0,
      gd_min_profit_wei = min_profit_wei, gd_net_ev_usd = net_ev_usd, gd_roi_bps = 0\<rparr>"

definition large_swap_wei :: "runtime_env \<Rightarrow> config \<Rightarrow> u256" where
  "large_swap_wei env cfg = (case rv_parse_ether_shown env (effective_min_large_swap_eth (mev cfg)) of Inr v \<Rightarrow> v | Inl _ \<Rightarrow> 0)"

text \<open>The two gates differ in the smallest price impact alone, 8 basis points for V2 and 6 for V3.\<close>

definition ev_gate_with_impact ::
  "u64 \<Rightarrow> runtime_env \<Rightarrow> config \<Rightarrow> execution_payload \<Rightarrow> swap_signal \<Rightarrow> duration \<Rightarrow> u256 \<Rightarrow> gate_diagnostic" where
  "ev_gate_with_impact least_impact env cfg payload s lookup_latency min_profit_wei =
     (let fresh = lookup_is_fresh cfg lookup_latency;
          gas_budget_ok = (pl_gas_limit payload \<le> max_gas_per_tx (mev cfg))
      in if opportunity_mode (mev cfg) = Scavenger
         then scavenger_ev_gate_result cfg payload lookup_latency
                (fresh \<and> pl_expected_profit_wei payload \<noteq> 0 \<and> gas_budget_ok)
         else
           let large_enough = (large_swap_wei env cfg \<le> sg_notional_wei s);
               inevitable_impact = (least_impact \<le> pl_price_impact_bps payload);
               profit_above_threshold = (min_profit_wei \<le> pl_expected_profit_wei payload);
               net_ev_usd = wei_to_eth_f64 (pl_expected_profit_wei payload) * eth_usd_price (mev cfg)
           in standard_ev_gate_result cfg payload min_profit_wei
                (fresh \<and> large_enough \<and> inevitable_impact \<and> profit_above_threshold
                 \<and> effective_min_profit_usd (mev cfg) \<le> net_ev_usd \<and> gas_budget_ok)
                fresh large_enough inevitable_impact profit_above_threshold net_ev_usd gas_budget_ok)"

definition ev_gate_diagnostic_v2 ::
  "runtime_env \<Rightarrow> config \<Rightarrow> execution_payload \<Rightarrow> swap_signal \<Rightarrow> duration \<Rightarrow> u256 \<Rightarrow> gate_diagnostic" where
  "ev_gate_diagnostic_v2 = ev_gate_with_impact 8"

definition ev_gate_diagnostic_v3 ::
  "runtime_env \<Rightarrow> config \<Rightarrow> execution_payload \<Rightarrow> swap_signal \<Rightarrow> duration \<Rightarrow> u256 \<Rightarrow> gate_diagnostic" where
  "ev_gate_diagnostic_v3 = ev_gate_with_impact 6"

definition ev_gate_diagnostic ::
  "runtime_env \<Rightarrow> config \<Rightarrow> execution_payload \<Rightarrow> swap_signal \<Rightarrow> duration \<Rightarrow> u256 \<Rightarrow> gate_diagnostic" where
  "ev_gate_diagnostic env cfg payload s lookup_latency min_profit_wei =
     (case sg_kind s of
        KindV2 \<Rightarrow> ev_gate_diagnostic_v2 env cfg payload s lookup_latency min_profit_wei
      | KindV3 _ _ _ _ \<Rightarrow> ev_gate_diagnostic_v3 env cfg payload s lookup_latency min_profit_wei)"

definition passes_ev_gate ::
  "runtime_env \<Rightarrow> config \<Rightarrow> execution_payload \<Rightarrow> swap_signal \<Rightarrow> duration \<Rightarrow> u256 \<Rightarrow> bool" where
  "passes_ev_gate env cfg payload s lookup_latency min_profit_wei =
     gd_pass (ev_gate_diagnostic env cfg payload s lookup_latency min_profit_wei)"

end
