(* ===== verification/RuntimeBuild.thy ===== *)
theory RuntimeBuild
  imports RuntimeGates PoolCache
begin

text \<open>
  Payload building in \<open>src/mev/runtime.rs\<close>: which pair or pool is asked for, which checks the cached
  pool state passes, the reverse routes of scavenger mode, and the builder tasks over several nodes.
  What a node answers is the record \<open>chain_view\<close>; failures are a datatype with one constructor per
  message, and \<open>rt_error_text\<close> gives the formatted text where the code inspects it.
\<close>

section \<open>Addresses by network\<close>

definition default_v2_router :: "string \<Rightarrow> address option" where
  "default_v2_router network =
     (if network = ''polygon'' then Some 0xa5e0829caced8ffdd4de3c43696c57f7d7a678ff
      else if network = ''bsc'' \<or> network = ''bnb'' then Some 0x10ed43c718714eb63d5aa57b78b54704e256024e
      else if network = ''ethereum'' then Some 0x7a250d5630b4cf539739df2c5dacb4c659f2488d else None)"

definition default_v3_router :: "string \<Rightarrow> address option" where
  "default_v3_router network =
     (if network \<in> {''polygon'', ''ethereum'', ''arbitrum''} then Some 0xe592427a0aece92de3edee1f18e0157c05861564
      else if network = ''bsc'' \<or> network = ''bnb'' then Some 0x13f4ea83d0bd40e75c8222255bc855a974568dd4 else None)"

definition default_v2_factories :: "string \<Rightarrow> address list" where
  "default_v2_factories network =
     (if network = ''polygon''
      then [0x5757371414417b8c6caad45baef941abc7d3ab32, 0xc35dadb65012ec5796536bd9864ed8773abc74c4]
      else if network = ''bsc'' \<or> network = ''bnb''
      then [0xca143ce32fe78f1f7019d7d551a6402fc5350c73, 0xc35dadb65012ec5796536bd9864ed8773abc74c4]
      else if network = ''ethereum''
      then [0x5c69bee701ef814a2b6a3edd4b1652cb9cc5aa6f, 0xc0aee478e3658e2610c5f7a4a2e1777ce9e4f2ac] else [])"

definition default_v3_factories :: "string \<Rightarrow> address list" where
  "default_v3_factories network =
     (if network \<in> {''polygon'', ''ethereum'', ''arbitrum''} then [0x1f98431c8ad98523631ae4a59f267346ea31f984]
      else if network = ''bsc'' \<or> network = ''bnb'' then [0x0bfbcf9fa4f9c56b0f40a671ad40e0805a091865] else [])"

definition polygon_v3_shadow_fee_tiers :: "u32 list" where
  "polygon_v3_shadow_fee_tiers = [100, 500, 3000, 10000]"

definition execution_v2_router :: "config \<Rightarrow> address \<Rightarrow> address" where
  "execution_v2_router cfg fallback = (case default_v2_router (cfg_network cfg) of Some a \<Rightarrow> a | None \<Rightarrow> fallback)"

definition execution_v3_router :: "config \<Rightarrow> address \<Rightarrow> address" where
  "execution_v3_router cfg fallback = (case default_v3_router (cfg_network cfg) of Some a \<Rightarrow> a | None \<Rightarrow> fallback)"

section \<open>Encoded V3 paths\<close>

definition be_bytes :: "nat \<Rightarrow> 'a::len word \<Rightarrow> bytes" where
  "be_bytes n w = map (\<lambda>i. ucast (drop_bit (8 * i) w)) (rev [0..<n])"

definition encode_v3_path :: "address \<Rightarrow> u32 \<Rightarrow> address \<Rightarrow> bytes" where
  "encode_v3_path token_in fee_tier token_out = be_bytes 20 token_in @ be_bytes 3 fee_tier @ be_bytes 20 token_out"

section \<open>Finding the pool\<close>

record chain_view =
  cv_router_factory :: "address \<Rightarrow> address option"
  cv_get_pair :: "address \<Rightarrow> address \<Rightarrow> address \<Rightarrow> string + address"
  cv_get_pool :: "address \<Rightarrow> address \<Rightarrow> address \<Rightarrow> u32 \<Rightarrow> string + address"
  cv_v2_state :: "address \<Rightarrow> v2_answer option"
  cv_v3_state :: "address \<Rightarrow> v3_answer option"

datatype lookup_error = NotOnFactory address | FactoryLookupFailed address string

datatype build_failure =
    MissingTokenIn
  | MissingTokenOut
  | FactoryUnavailable
  | NoPool "lookup_error list"
  | NoPoolAtAnyFee "build_failure list"
  | PoolNotFound
  | PoolStateUnavailable address
  | PoolTokenMismatch address
  | ZeroReserves address
  | EmptyLiquidityOrPrice address
  | CapitalUnparsable string
  | ExactOutWithoutMinimum
  | ExactOutBelowGasCost u256 u256
  | ExactOutNoEdge
  | BuilderFailed build_error

definition push_unique_address :: "address list \<Rightarrow> address \<Rightarrow> address list" where
  "push_unique_address addresses a = (if a \<noteq> 0 \<and> a \<notin> set addresses then addresses @ [a] else addresses)"

fun first_pool :: "(address \<Rightarrow> string + address) \<Rightarrow> address list \<Rightarrow> lookup_error list \<Rightarrow> build_failure + (address \<times> address)" where
  "first_pool ask [] errors = Inl (NoPool errors)"
| "first_pool ask (factory # factories) errors =
     (case ask factory of
        Inr pool \<Rightarrow> if pool \<noteq> 0 then Inr (factory, pool)
                    else first_pool ask factories (errors @ [NotOnFactory factory])
      | Inl err \<Rightarrow> first_pool ask factories (errors @ [FactoryLookupFailed factory err]))"

definition v2_factories :: "chain_view \<Rightarrow> config \<Rightarrow> address \<Rightarrow> address list" where
  "v2_factories cv cfg router =
     (let f0 = (case cv_router_factory cv router of Some f \<Rightarrow> push_unique_address [] f | None \<Rightarrow> []);
          f1 = (case uniswap_v2_factory (mev cfg) of Some f \<Rightarrow> push_unique_address f0 f | None \<Rightarrow> f0)
      in foldl push_unique_address f1 (default_v2_factories (cfg_network cfg)))"

definition find_v2_pair ::
  "chain_view \<Rightarrow> config \<Rightarrow> address \<Rightarrow> address \<Rightarrow> address \<Rightarrow> build_failure + (address \<times> address)" where
  "find_v2_pair cv cfg router token_in token_out =
     (let factories = v2_factories cv cfg router
      in if factories = [] then Inl FactoryUnavailable
         else first_pool (\<lambda>f. cv_get_pair cv f token_in token_out) factories [])"

definition v3_factories :: "config \<Rightarrow> address list" where
  "v3_factories cfg =
     foldl push_unique_address (case uniswap_v3_factory (mev cfg) of Some f \<Rightarrow> push_unique_address [] f | None \<Rightarrow> [])
       (default_v3_factories (cfg_network cfg))"

definition find_v3_pool ::
  "chain_view \<Rightarrow> config \<Rightarrow> address \<Rightarrow> address \<Rightarrow> u32 \<Rightarrow> build_failure + (address \<times> address)" where
  "find_v3_pool cv cfg token_in token_out fee_tier =
     (let factories = v3_factories cfg
      in if factories = [] then Inl FactoryUnavailable
         else first_pool (\<lambda>f. cv_get_pool cv f token_in token_out fee_tier) factories [])"

fun try_fees ::
  "chain_view \<Rightarrow> config \<Rightarrow> address \<Rightarrow> address \<Rightarrow> u32 \<Rightarrow> u32 list \<Rightarrow> build_failure list
    \<Rightarrow> build_failure + (address \<times> address \<times> u32)" where
  "try_fees cv cfg token_in token_out fee_tier [] errors = Inl (NoPoolAtAnyFee errors)"
| "try_fees cv cfg token_in token_out fee_tier (fee # fees) errors =
     (if fee = fee_tier then try_fees cv cfg token_in token_out fee_tier fees errors
      else case find_v3_pool cv cfg token_in token_out fee of
             Inr (factory, pool) \<Rightarrow> Inr (factory, pool, fee)
           | Inl err \<Rightarrow> try_fees cv cfg token_in token_out fee_tier fees (errors @ [err]))"

definition find_v3_pool_with_shadow_fee_fallback ::
  "chain_view \<Rightarrow> config \<Rightarrow> swap_signal \<Rightarrow> address \<Rightarrow> address \<Rightarrow> u32 \<Rightarrow> build_failure + (address \<times> address \<times> u32)" where
  "find_v3_pool_with_shadow_fee_fallback cv cfg s token_in token_out fee_tier =
     (case find_v3_pool cv cfg token_in token_out fee_tier of
        Inr (factory, pool) \<Rightarrow> Inr (factory, pool, fee_tier)
      | Inl primary \<Rightarrow>
          if allow_send cfg \<or> \<not> is_partial_decode s then Inl primary
          else try_fees cv cfg token_in token_out fee_tier polygon_v3_shadow_fee_tiers [primary])"

definition pool_tokens_match :: "address \<Rightarrow> address \<Rightarrow> address \<Rightarrow> address \<Rightarrow> bool" where
  "pool_tokens_match t0 t1 token_in token_out = ((t0 = token_in \<and> t1 = token_out) \<or> (t0 = token_out \<and> t1 = token_in))"

definition contextual_capital_available_wei :: "runtime_env \<Rightarrow> config \<Rightarrow> context_signal \<Rightarrow> build_failure + u256" where
  "contextual_capital_available_wei env cfg ctx =
     (let multiplier = contextual_capital_multiplier (mev cfg) (cs_priority_score ctx) (cs_toxicity_score ctx);
          capital = fmax (capital_eth (mev cfg) * multiplier) (dec 1 6)
      in map_sum CapitalUnparsable id (rv_parse_ether_shown env capital))"

section \<open>Reverse routes of scavenger mode\<close>

text \<open>Windows of two over a route, each with its pool.\<close>

fun route_edges :: "address list \<Rightarrow> (address \<times> address) list" where
  "route_edges (a # b # rest) = (a, b) # route_edges (b # rest)"
| "route_edges _ = []"

fun route_quote :: "u256 \<Rightarrow> (address \<times> address) list \<Rightarrow> v2_pool_state list \<Rightarrow> u256 option" where
  "route_quote amount ((a, b) # edges) (pool # pools) =
     (case reserves_for pool a b of None \<Rightarrow> None
      | Some (rin, rout) \<Rightarrow>
          (case amount_out_exact_in amount rin rout (v2_fee_bps pool) of None \<Rightarrow> None
           | Some out \<Rightarrow> route_quote out edges pools))"
| "route_quote amount _ _ = Some amount"

definition route_shape_ok :: "address list \<Rightarrow> v2_pool_state list \<Rightarrow> bool" where
  "route_shape_ok route pools = (2 \<le> length route \<and> length pools + 1 = length route)"

definition quote_v2_runtime_route_exact_in :: "u256 \<Rightarrow> address list \<Rightarrow> v2_pool_state list \<Rightarrow> u256 option" where
  "quote_v2_runtime_route_exact_in amount_in route pools =
     (if \<not> route_shape_ok route pools then None else route_quote amount_in (route_edges route) pools)"

fun route_impact :: "u256 \<Rightarrow> u64 \<Rightarrow> (address \<times> address) list \<Rightarrow> v2_pool_state list \<Rightarrow> u64 option" where
  "route_impact amount worst ((a, b) # edges) (pool # pools) =
     (case reserves_for pool a b of None \<Rightarrow> None
      | Some (rin, rout) \<Rightarrow>
          (case amount_out_exact_in amount rin rout (v2_fee_bps pool) of None \<Rightarrow> None
           | Some out \<Rightarrow> route_impact out (max worst (price_impact_bps amount out rin rout)) edges pools))"
| "route_impact amount worst _ _ = Some worst"

definition quote_v2_runtime_route_impact_bps :: "u256 \<Rightarrow> address list \<Rightarrow> v2_pool_state list \<Rightarrow> u64 option" where
  "quote_v2_runtime_route_impact_bps amount_in route pools =
     (if \<not> route_shape_ok route pools then None else route_impact amount_in 0 (route_edges route) pools)"

definition low_liquidity_edge :: "u256 \<Rightarrow> (address \<times> address) \<times> v2_pool_state \<Rightarrow> bool" where
  "low_liquidity_edge probe_amount ep =
     (case ep of ((a, b), pool) \<Rightarrow>
        (case reserves_for pool a b of None \<Rightarrow> True
         | Some (rin, rout) \<Rightarrow> rin \<le> sat_mul probe_amount 20 \<or> rout \<le> 1))"

definition route_has_low_liquidity_probe :: "u256 \<Rightarrow> address list \<Rightarrow> v2_pool_state list \<Rightarrow> bool" where
  "route_has_low_liquidity_probe probe_amount route pools =
     (if \<not> route_shape_ok route pools then True
      else list_ex (low_liquidity_edge probe_amount) (zip (route_edges route) pools))"

definition scavenger_v2_route_score :: "u256 \<Rightarrow> u64 \<Rightarrow> nat \<Rightarrow> u256" where
  "scavenger_v2_route_score amount_out impact_bps route_len =
     (let hop_count = of_nat (max (route_len - 1) 1) :: u64;
          penalty_bps = sat_add (sat_add 10000 (sat_mul impact_bps 2)) (sat_mul (sat_sub hop_count 1) 250)
      in sat_mul amount_out 10000 div ucast (max penalty_bps 1))"

definition dedup_routes :: "address list list \<Rightarrow> address list list" where
  "dedup_routes routes = foldl (\<lambda>out route. if route \<in> set out then out else out @ [route]) [] routes"

definition scavenger_reverse_route_candidates :: "config \<Rightarrow> swap_signal \<Rightarrow> address \<Rightarrow> address \<Rightarrow> address list list" where
  "scavenger_reverse_route_candidates cfg s token_in token_out =
     dedup_routes ([token_out, token_in]
       # map (\<lambda>mid. [token_out, mid, token_in])
           (filter (\<lambda>mid. mid \<noteq> token_in \<and> mid \<noteq> token_out)
              (map mt_address (take 6 (monitored_tokens cfg)) @ take 2 (drop 2 (sg_path s)))))"

definition pool_of_cached_v2 :: "address \<Rightarrow> cached_v2_pool \<Rightarrow> v2_pool_state" where
  "pool_of_cached_v2 pair c = \<lparr>v2_pair = pair, v2_token0 = c2_token0 c, v2_token1 = c2_token1 c,
     v2_reserve0 = c2_reserve0 c, v2_reserve1 = c2_reserve1 c, v2_fee_bps = 30\<rparr>"

definition cached_v2 :: "chain_view \<Rightarrow> pool_cache \<Rightarrow> instant \<Rightarrow> address \<Rightarrow> u64 \<Rightarrow> pool_cache \<times> cached_v2_pool option" where
  "cached_v2 cv cache now pair block = get_or_fetch_v2 cache now now now pair block (cv_v2_state cv pair)"

fun load_edges ::
  "chain_view \<Rightarrow> config \<Rightarrow> address \<Rightarrow> bool \<Rightarrow> address \<Rightarrow> instant \<Rightarrow> u64 \<Rightarrow> (address \<times> address) list \<Rightarrow> pool_cache
    \<Rightarrow> pool_cache \<times> v2_pool_state list option" where
  "load_edges cv cfg router multi victim_pair now block [] cache = (cache, Some [])"
| "load_edges cv cfg router multi victim_pair now block ((a, b) # edges) cache =
     (case find_v2_pair cv cfg router a b of Inl _ \<Rightarrow> (cache, None)
      | Inr (factory, pair) \<Rightarrow>
          if pair = 0 \<or> (multi \<and> pair = victim_pair) then (cache, None)
          else (case cached_v2 cv cache now pair block of
                  (cache1, None) \<Rightarrow> (cache1, None)
                | (cache1, Some c) \<Rightarrow>
                    (case load_edges cv cfg router multi victim_pair now block edges cache1 of
                       (cache2, r) \<Rightarrow> (cache2, map_option (Cons (pool_of_cached_v2 pair c)) r))))"

definition load_v2_route_pools ::
  "chain_view \<Rightarrow> config \<Rightarrow> address \<Rightarrow> address list \<Rightarrow> address \<Rightarrow> pool_cache \<Rightarrow> instant \<Rightarrow> u64
    \<Rightarrow> pool_cache \<times> v2_pool_state list option" where
  "load_v2_route_pools cv cfg router route victim_pair cache now block =
     (if length route < 2 then (cache, None)
      else load_edges cv cfg router (2 < length route) victim_pair now block (route_edges route) cache)"

fun best_route ::
  "chain_view \<Rightarrow> config \<Rightarrow> address \<Rightarrow> u256 \<Rightarrow> address \<Rightarrow> instant \<Rightarrow> u64 \<Rightarrow> address list list \<Rightarrow> pool_cache
    \<Rightarrow> (u256 \<times> address list \<times> v2_pool_state list) option
    \<Rightarrow> pool_cache \<times> (u256 \<times> address list \<times> v2_pool_state list) option" where
  "best_route cv cfg router probe victim_pair now block [] cache best = (cache, best)"
| "best_route cv cfg router probe victim_pair now block (route # routes) cache best =
     (case load_v2_route_pools cv cfg router route victim_pair cache now block of
        (cache1, None) \<Rightarrow> best_route cv cfg router probe victim_pair now block routes cache1 best
      | (cache1, Some pools) \<Rightarrow>
          (case quote_v2_runtime_route_exact_in probe route pools of
             None \<Rightarrow> best_route cv cfg router probe victim_pair now block routes cache1 best
           | Some amount_out \<Rightarrow>
               let impact = (case quote_v2_runtime_route_impact_bps probe route pools of Some i \<Rightarrow> i | None \<Rightarrow> 10000);
                   score = scavenger_v2_route_score amount_out impact (length route);
                   skip = (scavenger_quality_price_impact_cap_bps cfg < impact
                     \<or> route_has_low_liquidity_probe probe route pools);
                   better = (case best of Some (best_score, _) \<Rightarrow> best_score < score | None \<Rightarrow> True)
               in best_route cv cfg router probe victim_pair now block routes cache1
                    (if \<not> skip \<and> better then Some (score, route, pools) else best)))"

definition best_scavenger_v2_reverse_route ::
  "chain_view \<Rightarrow> config \<Rightarrow> swap_signal \<Rightarrow> address \<Rightarrow> address \<Rightarrow> address \<Rightarrow> address \<Rightarrow> u256 \<Rightarrow> pool_cache \<Rightarrow> instant \<Rightarrow> u64
    \<Rightarrow> pool_cache \<times> (address list \<times> v2_pool_state list) option" where
  "best_scavenger_v2_reverse_route cv cfg s token_in token_out victim_pair router capital cache now block =
     (let probe = sat_mul capital 25 div 10000
      in if probe = 0 then (cache, None)
         else case best_route cv cfg router probe victim_pair now block
                     (scavenger_reverse_route_candidates cfg s token_in token_out) cache None of
                (cache1, best) \<Rightarrow> (cache1, map_option snd best))"

section \<open>Building a payload on one node\<close>

definition build_v2_payload ::
  "payload_ext \<Rightarrow> runtime_env \<Rightarrow> chain_view \<Rightarrow> config \<Rightarrow> swap_signal \<Rightarrow> u256 \<Rightarrow> context_signal \<Rightarrow> pool_cache \<Rightarrow> instant \<Rightarrow> u64
    \<Rightarrow> pool_cache \<times> (build_failure + execution_payload)" where
  "build_v2_payload px env cv cfg s gas_price ctx cache now block =
     (case sg_path s of [] \<Rightarrow> (cache, Inl MissingTokenIn) | [_] \<Rightarrow> (cache, Inl MissingTokenOut)
      | token_in # token_out # _ \<Rightarrow>
        let router = execution_v2_router cfg (sg_router s)
        in case find_v2_pair cv cfg router token_in token_out of Inl err \<Rightarrow> (cache, Inl err)
        | Inr (factory, pair) \<Rightarrow>
          if pair = 0 then (cache, Inl PoolNotFound)
          else case cached_v2 cv cache now pair block of (cache1, None) \<Rightarrow> (cache1, Inl (PoolStateUnavailable pair))
          | (cache1, Some c) \<Rightarrow>
            if \<not> pool_tokens_match (c2_token0 c) (c2_token1 c) token_in token_out
            then (cache1, Inl (PoolTokenMismatch pair))
            else if c2_reserve0 c = 0 \<or> c2_reserve1 c = 0 then (cache1, Inl (ZeroReserves pair))
            else let pool = pool_of_cached_v2 pair c
                 in case contextual_capital_available_wei env cfg ctx of Inl err \<Rightarrow> (cache1, Inl err)
                 | Inr capital \<Rightarrow>
                   (case (if opportunity_mode (mev cfg) = Scavenger
                          then best_scavenger_v2_reverse_route cv cfg s token_in token_out pair router capital cache1 now block
                          else (cache1, None)) of (cache2, found) \<Rightarrow>
                      let (swap_path, swap_pools) =
                            (case found of Some r \<Rightarrow> r | None \<Rightarrow> ([token_out, token_in], [pool]))
                      in (cache2, map_sum BuilderFailed id (build_fee_extraction_v2 px cfg
                           \<lparr>fi_router = router, fi_factory = Some factory, fi_pair = pair, fi_recipient = profit_address cfg,
                            fi_token_in = token_in, fi_token_out = token_out, fi_victim_amount_in = sg_amount_in s,
                            fi_state_before = AmmUniswapV2 pool, fi_capital_available_wei = capital,
                            fi_gas_price_wei = gas_price, fi_context_priority_score = cs_priority_score ctx,
                            fi_context_toxicity_score = cs_toxicity_score ctx, fi_route_kind = RouteV2,
                            fi_v2_swap_path = Some swap_path, fi_v2_swap_pools = swap_pools\<rparr>))))"

definition exact_out_check :: "swap_signal \<Rightarrow> u256 \<Rightarrow> build_failure + unit" where
  "exact_out_check s gas_price =
     (case sg_kind s of
        KindV3 _ _ _ True \<Rightarrow>
          (case sg_amount_out_min s of None \<Rightarrow> Inl ExactOutWithoutMinimum
           | Some _ \<Rightarrow>
               let gas_cost_wei = sat_mul gas_price 300000
               in if sg_amount_in s \<le> gas_cost_wei then Inl (ExactOutBelowGasCost (sg_amount_in s) gas_cost_wei)
                  else if sat_sub (sg_amount_in s) gas_cost_wei = 0 then Inl ExactOutNoEdge else Inr ())
      | _ \<Rightarrow> Inr ())"

definition pool_of_cached_v3 :: "address \<Rightarrow> u32 \<Rightarrow> cached_v3_pool \<Rightarrow> v3_pool_state" where
  "pool_of_cached_v3 pool fee_tier c = \<lparr>v3_pool = pool, v3_token0 = c3_token0 c, v3_token1 = c3_token1 c,
     v3_sqrt_price_x96 = c3_sqrt_price_x96 c, v3_liquidity = c3_liquidity c, v3_current_tick = c3_current_tick c,
     v3_fee_bps = ucast fee_tier div 100, v3_initialized_ticks = []\<rparr>"

definition build_v3_payload ::
  "payload_ext \<Rightarrow> runtime_env \<Rightarrow> chain_view \<Rightarrow> config \<Rightarrow> swap_signal \<Rightarrow> u256 \<Rightarrow> context_signal \<Rightarrow> u32 \<Rightarrow> bytes
    \<Rightarrow> pool_cache \<Rightarrow> instant \<Rightarrow> u64 \<Rightarrow> pool_cache \<times> (build_failure + execution_payload)" where
  "build_v3_payload px env cv cfg s gas_price ctx fee_tier encoded_path cache now block =
     (case sg_path s of [] \<Rightarrow> (cache, Inl MissingTokenIn) | [_] \<Rightarrow> (cache, Inl MissingTokenOut)
      | token_in # token_out # _ \<Rightarrow>
        (case find_v3_pool_with_shadow_fee_fallback cv cfg s token_in token_out fee_tier of Inl err \<Rightarrow> (cache, Inl err)
        | Inr (factory, pool, discovered) \<Rightarrow>
          let router = execution_v3_router cfg (sg_router s);
              execution_path = (if discovered = fee_tier then encoded_path else encode_v3_path token_out discovered token_in)
          in if pool = 0 then (cache, Inl PoolNotFound)
          else case get_or_fetch_v3 cache now now now pool block (cv_v3_state cv pool) of
            (cache1, None) \<Rightarrow> (cache1, Inl (PoolStateUnavailable pool))
          | (cache1, Some c) \<Rightarrow>
            if \<not> pool_tokens_match (c3_token0 c) (c3_token1 c) token_in token_out
            then (cache1, Inl (PoolTokenMismatch pool))
            else if c3_liquidity c = 0 \<or> c3_sqrt_price_x96 c = 0 then (cache1, Inl (EmptyLiquidityOrPrice pool))
            else (cache1,
              and_then (contextual_capital_available_wei env cfg ctx) (\<lambda>capital.
              and_then (exact_out_check s gas_price) (\<lambda>_.
              map_sum BuilderFailed id (build_fee_extraction_v3 px cfg
                \<lparr>fi_router = router, fi_factory = Some factory, fi_pair = pool, fi_recipient = profit_address cfg,
                 fi_token_in = token_in, fi_token_out = token_out, fi_victim_amount_in = sg_amount_in s,
                 fi_state_before = AmmUniswapV3 (pool_of_cached_v3 pool discovered c), fi_capital_available_wei = capital,
                 fi_gas_price_wei = gas_price, fi_context_priority_score = cs_priority_score ctx,
                 fi_context_toxicity_score = cs_toxicity_score ctx, fi_route_kind = RouteV3 discovered execution_path,
                 fi_v2_swap_path = None, fi_v2_swap_pools = []\<rparr>))))))"

definition build_payload ::
  "payload_ext \<Rightarrow> runtime_env \<Rightarrow> chain_view \<Rightarrow> config \<Rightarrow> swap_signal \<Rightarrow> u256 \<Rightarrow> context_signal \<Rightarrow> pool_cache \<Rightarrow> instant \<Rightarrow> u64
    \<Rightarrow> pool_cache \<times> (build_failure + execution_payload)" where
  "build_payload px env cv cfg s gas_price ctx cache now block =
     (case sg_kind s of
        KindV2 \<Rightarrow> build_v2_payload px env cv cfg s gas_price ctx cache now block
      | KindV3 fee_tier encoded_path _ _ \<Rightarrow>
          build_v3_payload px env cv cfg s gas_price ctx fee_tier encoded_path cache now block)"

section \<open>Reading error texts\<close>

text \<open>The part before the first \<open>pat\<close>, the whole text when there is none.\<close>

fun before_first :: "string \<Rightarrow> string \<Rightarrow> string" where
  "before_first pat [] = []"
| "before_first pat (c # cs) = (if starts_with pat (c # cs) then [] else c # before_first pat cs)"

definition strip_edge_sample :: "string \<Rightarrow> string" where
  "strip_edge_sample error = before_first '' | edge_sample='' error"

definition mentions :: "string list \<Rightarrow> string \<Rightarrow> bool" where
  "mentions parts text = list_ex (\<lambda>part. str_contains part text) parts"

definition economic_reject_texts :: "string list" where
  "economic_reject_texts = [''no positive gross'', ''no roi-positive'', ''victim price impact too high'',
     ''token normalization failed'', ''missing decimals/price metadata'', ''v3_tick_data_missing_for_shadow_ev'',
     ''pool after victim does not support reverse path'', ''pool_token_mismatch'', ''zero_reserves'',
     ''empty_liquidity'', ''liquidity_or_price'', ''executor_address'']"

definition rpc_failure_texts :: "string list" where
  "rpc_failure_texts = [''deserialization error'', ''eof while parsing'', ''empty response'', ''provider error'',
     ''request error'', ''connection'', ''socket'', ''dns'', ''econnreset'', ''broken pipe'', ''timeout'', ''timed out'',
     ''deadline exceeded'', ''429'', ''rate limit'', ''too many requests'', ''throughput limit'',
     ''capacity limit exceeded'', ''quota exceeded'', ''billing'', ''lookup failed'']"

definition payload_builder_rpc_failure_kind :: "string \<Rightarrow> rpc_failure_kind option" where
  "payload_builder_rpc_failure_kind error =
     (let lower = to_ascii_lowercase (strip_edge_sample error)
      in if mentions economic_reject_texts lower then None
         else if mentions rpc_failure_texts lower then Some (classify_failure lower) else None)"

definition human_reason :: "string \<Rightarrow> string" where
  "human_reason lower =
     (if mentions [''missing uniswap v2 factory'', ''missing uniswap v3 factory''] lower then ''factory not configured''
      else if mentions [''pair not found'', ''pool not found''] lower then ''pool not found''
      else if mentions [''failed to fetch pool state'', ''pool_state_unavailable''] lower then ''pool state unavailable''
      else if mentions [''pool_token_mismatch''] lower then ''pool token mismatch''
      else if mentions [''zero_reserves'', ''empty_liquidity'', ''liquidity_or_price''] lower then ''pool has no usable liquidity''
      else if mentions [''payload_builder_no_rpc_read_candidates''] lower then ''no RPC builder available''
      else if mentions [''payload_builder_no_result''] lower then ''payload builder returned no result''
      else if mentions [''v3_tick_data_missing_for_shadow_ev''] lower then ''v3 tick data missing''
      else if mentions [''no positive gross''] lower then ''no exploitable micro edge''
      else if mentions [''no roi-positive''] lower then ''no profitable size after gas''
      else if mentions [''below minimum''] lower then ''profit below configured floor''
      else if mentions [''reverse path'', ''does not support''] lower then ''unsupported reverse path''
      else if mentions [''executor_address''] lower then ''executor contract not configured''
      else ''payload build failed'')"

definition payload_error_category :: "string \<Rightarrow> swap_signal \<Rightarrow> string" where
  "payload_error_category lower s =
     (if mentions [''v2 factory unavailable'', ''v3 factory unavailable'', ''missing uniswap v2 factory'',
                   ''missing uniswap v3 factory''] lower then ''factory_wrong_or_unavailable''
      else if mentions [''v3 pool not found''] lower then ''v3_fee_tier_or_pool_not_found''
      else if mentions [''pair not found''] lower
      then (case sg_kind s of KindV3 _ _ _ _ \<Rightarrow> ''v3_routed_to_v2_pair_lookup'' | KindV2 \<Rightarrow> ''v2_pair_not_found'')
      else if mentions [''pool after victim does not support reverse path'', ''reverse path''] lower
      then ''path_inverted_or_pool_token_mismatch''
      else if mentions [''failed to fetch pool state'', ''pool_state_unavailable''] lower then ''pool_state_unavailable''
      else if mentions [''pool_token_mismatch''] lower then ''path_inverted_or_pool_token_mismatch''
      else if mentions [''zero_reserves''] lower then ''pool_real_zero_reserves''
      else if mentions [''empty_liquidity'', ''liquidity_or_price''] lower then ''pool_real_no_liquidity''
      else if mentions [''payload_builder_no_rpc_read_candidates''] lower then ''payload_builder_no_rpc_read_candidates''
      else if mentions [''payload_builder_no_result''] lower then ''payload_builder_no_result''
      else if mentions [''victim price impact too high''] lower then ''victim_price_impact_too_high''
      else if mentions [''v3_tick_data_missing_for_shadow_ev''] lower then ''v3_tick_data_missing_for_shadow_ev''
      else if mentions [''no positive gross''] lower then ''economic_no_positive_gross_edge''
      else if mentions [''no roi-positive''] lower then ''economic_no_positive_net_after_gas''
      else if mentions [''below minimum''] lower then ''economic_profit_below_floor''
      else ''payload_builder_unclassified'')"

section \<open>Building on several nodes\<close>

record build_net =
  bn_views :: "nat \<Rightarrow> chain_view"
  bn_latency :: "nat \<Rightarrow> duration"
  bn_finish_order :: "rpc_handle list \<Rightarrow> rpc_handle list"
  bn_error_text :: "build_failure \<Rightarrow> string"
  bn_rotate_env :: "nat option"

definition payload_build_fanout :: "runtime_env \<Rightarrow> nat" where
  "payload_build_fanout env = (case rv_payload_build_fanout env of Some n \<Rightarrow> max 1 (min n 6) | None \<Rightarrow> 3)"

definition payload_builder_unhealthy_rpc_fallback :: "runtime_env \<Rightarrow> config \<Rightarrow> bool" where
  "payload_builder_unhealthy_rpc_fallback env cfg \<longleftrightarrow>
     opportunity_mode (mev cfg) = Scavenger \<and> \<not> allow_send cfg \<and> rv_unhealthy_rpc_fallback env"

datatype build_report = NoReadCandidates | AllBuildersFailed "build_failure list"

text \<open>
  The builder tasks in the order in which they finish. A task that panics, in the builder or while its
  success is recorded, ends as an error of the join; after the first success the others are aborted.
\<close>

fun builder_tasks ::
  "payload_ext \<Rightarrow> runtime_env \<Rightarrow> build_net \<Rightarrow> config \<Rightarrow> swap_signal \<Rightarrow> u256 \<Rightarrow> context_signal \<Rightarrow> instant \<Rightarrow> u64
    \<Rightarrow> rpc_handle list \<Rightarrow> rpc_fleet \<times> pool_cache \<Rightarrow> build_failure list
    \<Rightarrow> (rpc_fleet \<times> pool_cache) \<times> (build_report + execution_payload)" where
  "builder_tasks px env bn cfg s gas_price ctx now block [] st errors = (st, Inl (AllBuildersFailed errors))"
| "builder_tasks px env bn cfg s gas_price ctx now block (h # hs) (fleet, cache) errors =
     (case build_payload px env (bn_views bn (rh_id h)) cfg s gas_price ctx cache now block of
        (cache1, Inr payload) \<Rightarrow>
          (case rpc_record_success fleet now (rh_id h) (bn_latency bn (rh_id h)) (Some block) of
             Inr fleet1 \<Rightarrow> ((fleet1, cache1), Inr payload)
           | Inl p \<Rightarrow> builder_tasks px env bn cfg s gas_price ctx now block hs (fleet, cache1)
                        (errors @ [BuilderFailed (BuildPanic p)]))
      | (cache1, Inl err) \<Rightarrow>
          let fleet1 = (case err of BuilderFailed (BuildPanic _) \<Rightarrow> fleet
                | _ \<Rightarrow> (case payload_builder_rpc_failure_kind (bn_error_text bn err) of
                          Some kind \<Rightarrow> rpc_record_failure fleet now (rh_id h) kind | None \<Rightarrow> fleet))
          in builder_tasks px env bn cfg s gas_price ctx now block hs (fleet1, cache1) (errors @ [err]))"

definition build_payload_with_fallback_parallel ::
  "payload_ext \<Rightarrow> runtime_env \<Rightarrow> build_net \<Rightarrow> config \<Rightarrow> swap_signal \<Rightarrow> u256 \<Rightarrow> context_signal \<Rightarrow> instant \<Rightarrow> u64
    \<Rightarrow> rpc_fleet \<times> pool_cache \<Rightarrow> (rpc_fleet \<times> pool_cache) \<times> (build_report + execution_payload)" where
  "build_payload_with_fallback_parallel px env bn cfg s gas_price ctx now block st =
     (let fanout = payload_build_fanout env
      in case st of (fleet0, cache) \<Rightarrow>
         (case read_candidates (px_libm px) (bn_rotate_env bn) fleet0 now fanout of (fleet1, selected) \<Rightarrow>
            let handles = (if selected = [] \<and> payload_builder_unhealthy_rpc_fallback env cfg
                           then take fanout (all_handles fleet1) else selected)
            in if handles = [] then ((fleet1, cache), Inl NoReadCandidates)
               else let fleet2 = foldl (\<lambda>f h. reserve_read_selection f now (rh_id h)) fleet1 handles
                    in builder_tasks px env bn cfg s gas_price ctx now block (bn_finish_order bn handles) (fleet2, cache) []))"

end
