(* ===== verification/RuntimeDecode.thy ===== *)
theory RuntimeDecode
  imports RuntimeBuild SelectorScan
begin

text \<open>
  The decoders of \<open>src/mev/runtime.rs\<close>: packed V3 paths, the search for monitored tokens in calldata, the
  decoders per selector with the calls nested in multicalls, batches and safes, and the commands of the
  universal router. The ABI decoder of the \<open>ethabi\<close> crate is the parameter \<open>ad\<close>. Decoders return
  \<open>panic + swap_signal option\<close>: \<open>Inr None\<close> is a failed decode, \<open>Inl\<close> a panic of the worker.
\<close>

section \<open>Byte strings\<close>

definition from_be :: "bytes \<Rightarrow> 'a::len word" where
  "from_be bs = word_of_int (foldl (\<lambda>acc b. acc * 256 + uint b) 0 bs)"

record parsed_v3_path =
  vp_token_in :: address
  vp_edge_token_out :: address
  vp_first_fee_tier :: u32
  vp_hops :: nat

record v3_path_segment =
  vs_token_in :: address
  vs_token_out :: address
  vs_fee_tier :: u32

definition slice :: "nat \<Rightarrow> nat \<Rightarrow> bytes \<Rightarrow> bytes" where
  "slice a b bs = take (b - a) (drop a bs)"

definition parse_v3_path :: "bytes \<Rightarrow> parsed_v3_path option" where
  "parse_v3_path path =
     (if length path < 43 then None
      else Some \<lparr>vp_token_in = from_be (slice 0 20 path), vp_edge_token_out = from_be (slice 23 43 path),
        vp_first_fee_tier = from_be (0 # slice 20 23 path), vp_hops = (length path - 20) div 23\<rparr>)"

text \<open>The loop over the hops stops at the first that does not fit.\<close>

fun segments_from :: "bytes \<Rightarrow> nat list \<Rightarrow> v3_path_segment list" where
  "segments_from path [] = []"
| "segments_from path (hop # hops) =
     (let token_in_offset = hop * 23; fee_offset = token_in_offset + 20; token_out_offset = fee_offset + 3
      in if length path < token_out_offset + 20 then []
         else \<lparr>vs_token_in = from_be (slice token_in_offset (token_in_offset + 20) path),
               vs_token_out = from_be (slice token_out_offset (token_out_offset + 20) path),
               vs_fee_tier = from_be (0 # slice fee_offset (fee_offset + 3) path)\<rparr> # segments_from path hops)"

definition parse_v3_path_segments :: "bytes \<Rightarrow> v3_path_segment list" where
  "parse_v3_path_segments path =
     (if length path < 43 then [] else segments_from path [0..<(length path - 20) div 23])"

definition parse_v3_exact_out_path :: "bytes \<Rightarrow> parsed_v3_path option" where
  "parse_v3_exact_out_path path =
     (case parse_v3_path path of None \<Rightarrow> None
      | Some forward \<Rightarrow>
          if vp_hops forward \<noteq> 1 then None
          else Some \<lparr>vp_token_in = vp_edge_token_out forward, vp_edge_token_out = vp_token_in forward,
                 vp_first_fee_tier = vp_first_fee_tier forward, vp_hops = vp_hops forward\<rparr>)"

text \<open>The first position of a 20-byte window equal to the bytes of an address.\<close>

fun window_position :: "nat \<Rightarrow> bytes \<Rightarrow> bytes \<Rightarrow> nat option" where
  "window_position i pat [] = None"
| "window_position i pat (b # bs) =
     (if take (length pat) (b # bs) = pat then Some i else window_position (i + 1) pat bs)"

definition monitored_token_addresses_in_input :: "monitored_token_config list \<Rightarrow> bytes \<Rightarrow> address list" where
  "monitored_token_addresses_in_input monitored input =
     (let found = List.map_filter (\<lambda>t. map_option (\<lambda>position. (position, mt_address t))
            (window_position 0 (be_bytes 20 (mt_address t)) input)) monitored
      in take 6 (map snd (sort_by (\<lambda>l r. fst l \<le> fst r) found)))"

definition input_contains_address :: "bytes \<Rightarrow> address \<Rightarrow> bool" where
  "input_contains_address input a = (window_position 0 (be_bytes 20 a) input \<noteq> None)"

fun chunks_exact32 :: "bytes \<Rightarrow> bytes list" where
  "chunks_exact32 bs = (if length bs < 32 then [] else take 32 bs # chunks_exact32 (drop 32 bs))"

declare chunks_exact32.simps [simp del]

definition amount_hint_from_calldata :: "bytes \<Rightarrow> u256 option" where
  "amount_hint_from_calldata input =
     (case filter (\<lambda>v. 10000 \<le> v \<and> v \<le> 1000000000000000000000000) (map from_be (chunks_exact32 input)) of
        [] \<Rightarrow> None | v # vs \<Rightarrow> Some (foldl min v vs))"

section \<open>Selectors\<close>

definition UNIVERSAL_ROUTER_COMMAND_MASK :: u8 where "UNIVERSAL_ROUTER_COMMAND_MASK = 0x7f"
definition ZERO_EX_TRANSFORM_ERC20 :: selector where "ZERO_EX_TRANSFORM_ERC20 = [0x41, 0x55, 0x65, 0xb0]"
definition ZERO_EX_SELL_TO_UNISWAP :: selector where "ZERO_EX_SELL_TO_UNISWAP = [0xd9, 0x62, 0x7a, 0xa4]"
definition ONE_INCH_SWAP :: selector where "ONE_INCH_SWAP = [0x12, 0xaa, 0x3c, 0x6a]"
definition ONE_INCH_UNOSWAP :: selector where "ONE_INCH_UNOSWAP = [0x2e, 0x95, 0xb6, 0xc8]"
definition PARASWAP_SIMPLE_SWAP :: selector where "PARASWAP_SIMPLE_SWAP = [0x54, 0xe3, 0xf3, 0x1b]"
definition ODOS_SWAP_COMPACT :: selector where "ODOS_SWAP_COMPACT = [0x83, 0xbd, 0x37, 0xf9]"
definition KYBER_SWAP :: selector where "KYBER_SWAP = [0x3f, 0x2d, 0x5c, 0xf5]"
definition SAFE_EXEC_TRANSACTION :: selector where "SAFE_EXEC_TRANSACTION = [0x6a, 0x76, 0x12, 0x02]"
definition TRANSIT_SWAP_V5 :: selector where "TRANSIT_SWAP_V5 = [0xd8, 0x08, 0xd8, 0x89]"
definition TRANSIT_EXACT_INPUT_V3_SWAP :: selector where "TRANSIT_EXACT_INPUT_V3_SWAP = [0xb9, 0xb5, 0x14, 0x9b]"
definition TRANSIT_EXACT_INPUT_V2_SWAP :: selector where "TRANSIT_EXACT_INPUT_V2_SWAP = [0x0d, 0xc4, 0xbd, 0xae]"
definition AGGREGATOR_SELECTOR_01B7037C :: selector where "AGGREGATOR_SELECTOR_01B7037C = [0x01, 0xb7, 0x03, 0x7c]"
definition AGGREGATOR_SELECTOR_0A3C4405 :: selector where "AGGREGATOR_SELECTOR_0A3C4405 = [0x0a, 0x3c, 0x44, 0x05]"
definition AGGREGATOR_SELECTOR_0A2B8F36 :: selector where "AGGREGATOR_SELECTOR_0A2B8F36 = [0x0a, 0x2b, 0x8f, 0x36]"
definition AGGREGATOR_SELECTOR_405CEC67 :: selector where "AGGREGATOR_SELECTOR_405CEC67 = [0x40, 0x5c, 0xec, 0x67]"
definition AGGREGATOR_SELECTOR_0060EA13 :: selector where "AGGREGATOR_SELECTOR_0060EA13 = [0x00, 0x60, 0xea, 0x13]"
definition AGGREGATOR_SELECTOR_448E340E :: selector where "AGGREGATOR_SELECTOR_448E340E = [0x44, 0x8e, 0x34, 0x0e]"
definition AGGREGATOR_SELECTOR_9265BB9D :: selector where "AGGREGATOR_SELECTOR_9265BB9D = [0x92, 0x65, 0xbb, 0x9d]"
definition AGGREGATOR_SELECTOR_C3192F1F :: selector where "AGGREGATOR_SELECTOR_C3192F1F = [0xc3, 0x19, 0x2f, 0x1f]"
definition AGGREGATOR_SELECTOR_CDD1B25D :: selector where "AGGREGATOR_SELECTOR_CDD1B25D = [0xcd, 0xd1, 0xb2, 0x5d]"
definition AGGREGATOR_SELECTOR_F2881E21 :: selector where "AGGREGATOR_SELECTOR_F2881E21 = [0xf2, 0x88, 0x1e, 0x21]"
definition PRIVATE_SEARCHER_SELECTOR_D00BA30B :: selector where
  "PRIVATE_SEARCHER_SELECTOR_D00BA30B = [0xd0, 0x0b, 0xa3, 0x0b]"
definition PRIVATE_SWAP_WRAPPER_2E35732F :: selector where "PRIVATE_SWAP_WRAPPER_2E35732F = [0x2e, 0x35, 0x73, 0x2f]"
definition POLYMARKET_BATCH_EXECUTE :: selector where "POLYMARKET_BATCH_EXECUTE = [0x02, 0x3e, 0x8d, 0x84]"
definition UNISWAP_V3_EXACT_INPUT_SINGLE_NO_DEADLINE :: selector where
  "UNISWAP_V3_EXACT_INPUT_SINGLE_NO_DEADLINE = [0x04, 0xe4, 0x5a, 0xaf]"
definition ALGEBRA_EXACT_INPUT_SINGLE :: selector where "ALGEBRA_EXACT_INPUT_SINGLE = [0xbc, 0x65, 0x11, 0x88]"
definition MULTICALL_BYTES :: selector where "MULTICALL_BYTES = [0xac, 0x96, 0x50, 0xd8]"
definition MULTICALL_DEADLINE_BYTES :: selector where "MULTICALL_DEADLINE_BYTES = [0x5a, 0xe4, 0x01, 0xdc]"
definition CONTEXT_WRAP_SELECTOR :: selector where "CONTEXT_WRAP_SELECTOR = [0x62, 0x35, 0x56, 0x38]"
definition ENTRYPOINT_HANDLE_OPS :: selector where "ENTRYPOINT_HANDLE_OPS = [0x76, 0x5e, 0x82, 0x7f]"
definition SELECTOR_NOISE_00000000 :: selector where "SELECTOR_NOISE_00000000 = [0x00, 0x00, 0x00, 0x00]"
definition SELECTOR_NOISE_00000008 :: selector where "SELECTOR_NOISE_00000008 = [0x00, 0x00, 0x00, 0x08]"
definition OBSERVED_UNSUPPORTED_SELECTOR_5F052516 :: selector where
  "OBSERVED_UNSUPPORTED_SELECTOR_5F052516 = [0x5f, 0x05, 0x25, 0x16]"
definition OBSERVED_UNSUPPORTED_SELECTOR_3D6684A8 :: selector where
  "OBSERVED_UNSUPPORTED_SELECTOR_3D6684A8 = [0x3d, 0x66, 0x84, 0xa8]"
definition OBSERVED_UNSUPPORTED_SELECTOR_3A66E301 :: selector where
  "OBSERVED_UNSUPPORTED_SELECTOR_3A66E301 = [0x3a, 0x66, 0xe3, 0x01]"
definition OBSERVED_UNSUPPORTED_SELECTOR_4A502F39 :: selector where
  "OBSERVED_UNSUPPORTED_SELECTOR_4A502F39 = [0x4a, 0x50, 0x2f, 0x39]"
definition OBSERVED_UNSUPPORTED_SELECTOR_E3EAD59E :: selector where
  "OBSERVED_UNSUPPORTED_SELECTOR_E3EAD59E = [0xe3, 0xea, 0xd5, 0x9e]"
definition OBSERVED_UNSUPPORTED_SELECTOR_3C02F856 :: selector where
  "OBSERVED_UNSUPPORTED_SELECTOR_3C02F856 = [0x3c, 0x02, 0xf8, 0x56]"
definition PRIVATE_MEV_SELECTOR_A00597A0 :: selector where "PRIVATE_MEV_SELECTOR_A00597A0 = [0xa0, 0x05, 0x97, 0xa0]"
definition PRIVATE_MEV_SELECTOR_EAA79076 :: selector where "PRIVATE_MEV_SELECTOR_EAA79076 = [0xea, 0xa7, 0x90, 0x76]"
definition PRIVATE_MEV_SELECTOR_34EE9791 :: selector where "PRIVATE_MEV_SELECTOR_34EE9791 = [0x34, 0xee, 0x97, 0x91]"
definition PRIVATE_MEV_SELECTOR_669DC5B6 :: selector where "PRIVATE_MEV_SELECTOR_669DC5B6 = [0x66, 0x9d, 0xc5, 0xb6]"
definition SAFE_INNER_SELECTOR_8CC7104F :: selector where "SAFE_INNER_SELECTOR_8CC7104F = [0x8c, 0xc7, 0x10, 0x4f]"
definition SAFE_INNER_SELECTOR_9E7212AD :: selector where "SAFE_INNER_SELECTOR_9E7212AD = [0x9e, 0x72, 0x12, 0xad]"


section \<open>Tokens\<close>

datatype param_type = PAddress | PBytes | PUint nat | PBool | PString | PArray param_type | PTuple "param_type list"

type_synonym abi_decoder = "param_type list \<Rightarrow> bytes \<Rightarrow> token list option"

fun token_as_uint :: "token \<Rightarrow> u256 option" where
  "token_as_uint (TUint v) = Some v"
| "token_as_uint _ = None"

fun token_as_address :: "token \<Rightarrow> address option" where
  "token_as_address (TAddress a) = Some a"
| "token_as_address _ = None"

fun collect_options :: "'a option list \<Rightarrow> 'a list option" where
  "collect_options [] = Some []"
| "collect_options (x # xs) =
     (case x of None \<Rightarrow> None | Some v \<Rightarrow> map_option (Cons v) (collect_options xs))"

fun token_as_address_vec :: "token \<Rightarrow> address list option" where
  "token_as_address_vec (TArray values) = collect_options (map token_as_address values)"
| "token_as_address_vec _ = None"

fun token_as_bytes :: "token \<Rightarrow> bytes option" where
  "token_as_bytes (TBytes bs) = Some bs"
| "token_as_bytes _ = None"

fun token_as_tuple :: "token \<Rightarrow> token list option" where
  "token_as_tuple (TTuple values) = Some values"
| "token_as_tuple _ = None"

fun token_as_array :: "token \<Rightarrow> token list option" where
  "token_as_array (TArray values) = Some values"
| "token_as_array _ = None"

definition field :: "(token \<Rightarrow> 'a option) \<Rightarrow> nat \<Rightarrow> token list \<Rightarrow> 'a option" where
  "field read i values = (if i < length values then read (values ! i) else None)"

definition path_contains_monitored_token :: "address list \<Rightarrow> monitored_token_config list \<Rightarrow> bool" where
  "path_contains_monitored_token path monitored = list_ex (\<lambda>a. list_ex (\<lambda>t. mt_address t = a) monitored) path"

fun token_find_v3_path_bytes :: "token \<Rightarrow> bytes option"
  and token_tree_find_v3_path_bytes :: "token list \<Rightarrow> bytes option" where
  "token_find_v3_path_bytes (TBytes v) = (if parse_v3_path v \<noteq> None then Some v else None)"
| "token_find_v3_path_bytes (TFixedBytes v) = (if parse_v3_path v \<noteq> None then Some v else None)"
| "token_find_v3_path_bytes (TArray values) = token_tree_find_v3_path_bytes values"
| "token_find_v3_path_bytes (TFixedArray values) = token_tree_find_v3_path_bytes values"
| "token_find_v3_path_bytes (TTuple values) = token_tree_find_v3_path_bytes values"
| "token_find_v3_path_bytes _ = None"
| "token_tree_find_v3_path_bytes [] = None"
| "token_tree_find_v3_path_bytes (t # ts) =
     (case token_find_v3_path_bytes t of Some path \<Rightarrow> Some path | None \<Rightarrow> token_tree_find_v3_path_bytes ts)"

definition address_path_of :: "monitored_token_config list \<Rightarrow> token list \<Rightarrow> address list option" where
  "address_path_of monitored values =
     (case collect_options (map token_as_address values) of None \<Rightarrow> None
      | Some path \<Rightarrow> if 2 \<le> length path \<and> path_contains_monitored_token path monitored then Some path else None)"

fun token_find_address_path :: "monitored_token_config list \<Rightarrow> token \<Rightarrow> address list option"
  and token_tree_find_address_path :: "monitored_token_config list \<Rightarrow> token list \<Rightarrow> address list option" where
  "token_find_address_path m (TArray values) =
     (case address_path_of m values of Some path \<Rightarrow> Some path | None \<Rightarrow> token_tree_find_address_path m values)"
| "token_find_address_path m (TFixedArray values) =
     (case address_path_of m values of Some path \<Rightarrow> Some path | None \<Rightarrow> token_tree_find_address_path m values)"
| "token_find_address_path m (TTuple values) = token_tree_find_address_path m values"
| "token_find_address_path m _ = None"
| "token_tree_find_address_path m [] = None"
| "token_tree_find_address_path m (t # ts) =
     (case token_find_address_path m t of Some path \<Rightarrow> Some path | None \<Rightarrow> token_tree_find_address_path m ts)"

section \<open>Attempts\<close>

type_synonym 'a attempt = "panic + 'a option"

fun or_try :: "'a attempt \<Rightarrow> 'a attempt \<Rightarrow> 'a attempt" where
  "or_try (Inr None) alternative = alternative"
| "or_try r alternative = r"

fun first_attempt :: "('a \<Rightarrow> 'b attempt) \<Rightarrow> 'a list \<Rightarrow> 'b attempt" where
  "first_attempt f [] = Inr None"
| "first_attempt f (x # xs) = or_try (f x) (first_attempt f xs)"

definition map_attempt :: "('a \<Rightarrow> 'b) \<Rightarrow> 'a attempt \<Rightarrow> 'b attempt" where
  "map_attempt f = map_sum id (map_option f)"

text \<open>\<open>U256::as_u32\<close> panics when the number does not fit.\<close>

definition as_u32 :: "u256 \<Rightarrow> panic + u32" where
  "as_u32 v = (if uint v < 2 ^ 32 then Inr (ucast v) else Inl IntegerOverflow)"

section \<open>Decoders of single calls\<close>

definition v2_signal :: "selector \<Rightarrow> address \<Rightarrow> u256 \<Rightarrow> u256 option \<Rightarrow> address list \<Rightarrow> f64 \<Rightarrow> string \<Rightarrow> swap_signal" where
  "v2_signal sel router amount_in amount_out_min path confidence source =
     \<lparr>sg_selector = sel, sg_amount_in = amount_in, sg_amount_out_min = amount_out_min, sg_notional_wei = 0,
      sg_path = path, sg_router = router, sg_kind = KindV2, sg_decode_confidence = confidence,
      sg_decode_source = source\<rparr>"

definition v3_signal ::
  "selector \<Rightarrow> address \<Rightarrow> u256 \<Rightarrow> u256 option \<Rightarrow> address \<Rightarrow> address \<Rightarrow> u32 \<Rightarrow> nat \<Rightarrow> bool \<Rightarrow> f64 \<Rightarrow> string \<Rightarrow> swap_signal" where
  "v3_signal sel router amount_in amount_out_min token_in token_out fee_tier hops exact_out confidence source =
     \<lparr>sg_selector = sel, sg_amount_in = amount_in, sg_amount_out_min = amount_out_min, sg_notional_wei = 0,
      sg_path = [token_in, token_out], sg_router = router,
      sg_kind = KindV3 fee_tier (encode_v3_path token_out fee_tier token_in) hops exact_out,
      sg_decode_confidence = confidence, sg_decode_source = source\<rparr>"

definition decode_eth_swap :: "abi_decoder \<Rightarrow> selector \<Rightarrow> address \<Rightarrow> u256 \<Rightarrow> bytes \<Rightarrow> swap_signal option" where
  "decode_eth_swap ad sel router v args =
     (case ad [PUint 256, PArray PAddress, PAddress, PUint 256] args of None \<Rightarrow> None
      | Some decoded \<Rightarrow>
          map_option (\<lambda>path. v2_signal sel router v (field token_as_uint 0 decoded) path 1 ''abi''\<lparr>sg_notional_wei := v\<rparr>)
            (field token_as_address_vec 1 decoded))"

definition decode_token_swap :: "abi_decoder \<Rightarrow> selector \<Rightarrow> address \<Rightarrow> bytes \<Rightarrow> swap_signal option" where
  "decode_token_swap ad sel router args =
     (case ad [PUint 256, PUint 256, PArray PAddress, PAddress, PUint 256] args of None \<Rightarrow> None
      | Some decoded \<Rightarrow>
          (case (field token_as_uint 0 decoded, field token_as_address_vec 2 decoded) of
             (Some amount_in, Some path) \<Rightarrow>
               Some (v2_signal sel router amount_in (field token_as_uint 1 decoded) path 1 ''abi'')
           | _ \<Rightarrow> None))"

definition decode_v3_exact_input :: "abi_decoder \<Rightarrow> selector \<Rightarrow> address \<Rightarrow> bytes \<Rightarrow> swap_signal option" where
  "decode_v3_exact_input ad sel router args =
     (case ad [PTuple [PBytes, PAddress, PUint 256, PUint 256, PUint 256]] args of None \<Rightarrow> None
      | Some decoded \<Rightarrow>
        (case field token_as_tuple 0 decoded of None \<Rightarrow> None
         | Some values \<Rightarrow>
           (case Option.bind (field token_as_bytes 0 values) parse_v3_path of None \<Rightarrow> None
            | Some parsed \<Rightarrow>
                map_option (\<lambda>amount_in. v3_signal sel router amount_in (field token_as_uint 4 values)
                    (vp_token_in parsed) (vp_edge_token_out parsed) (vp_first_fee_tier parsed) (vp_hops parsed) False 1 ''abi'')
                  (field token_as_uint 3 values))))"

definition decode_v3_exact_input_single_values ::
  "selector \<Rightarrow> address \<Rightarrow> token list \<Rightarrow> nat \<Rightarrow> nat \<Rightarrow> f64 \<Rightarrow> string \<Rightarrow> swap_signal attempt" where
  "decode_v3_exact_input_single_values sel router values amount_in_index amount_out_min_index confidence source =
     (case (field token_as_address 0 values, field token_as_address 1 values, field token_as_uint 2 values) of
        (Some token_in, Some token_out, Some fee) \<Rightarrow>
          and_then (as_u32 fee) (\<lambda>fee_tier.
            Inr (map_option (\<lambda>amount_in. v3_signal sel router amount_in (field token_as_uint amount_out_min_index values)
                   token_in token_out fee_tier 1 False confidence source) (field token_as_uint amount_in_index values)))
      | _ \<Rightarrow> Inr None)"

definition single_tuple :: "abi_decoder \<Rightarrow> param_type list \<Rightarrow> bytes \<Rightarrow> token list option" where
  "single_tuple ad params args = Option.bind (ad [PTuple params] args) (field token_as_tuple 0)"

definition decode_v3_exact_input_single_with_deadline ::
  "abi_decoder \<Rightarrow> selector \<Rightarrow> address \<Rightarrow> bytes \<Rightarrow> swap_signal attempt" where
  "decode_v3_exact_input_single_with_deadline ad sel router args =
     (case single_tuple ad [PAddress, PAddress, PUint 24, PAddress, PUint 256, PUint 256, PUint 256, PUint 160] args of
        None \<Rightarrow> Inr None
      | Some values \<Rightarrow> decode_v3_exact_input_single_values sel router values 5 6 1 ''abi'')"

definition decode_v3_exact_input_single_no_deadline ::
  "abi_decoder \<Rightarrow> selector \<Rightarrow> address \<Rightarrow> bytes \<Rightarrow> swap_signal attempt" where
  "decode_v3_exact_input_single_no_deadline ad sel router args =
     (case single_tuple ad [PAddress, PAddress, PUint 24, PAddress, PUint 256, PUint 256, PUint 160] args of
        None \<Rightarrow> Inr None
      | Some values \<Rightarrow> decode_v3_exact_input_single_values sel router values 4 5 (dec 98 2)
                         ''uniswap_v3_exact_input_single_no_deadline'')"

definition decode_algebra_exact_input_single :: "abi_decoder \<Rightarrow> selector \<Rightarrow> address \<Rightarrow> bytes \<Rightarrow> swap_signal option" where
  "decode_algebra_exact_input_single ad sel router args =
     (case single_tuple ad [PAddress, PAddress, PAddress, PUint 256, PUint 256, PUint 160] args of None \<Rightarrow> None
      | Some values \<Rightarrow>
          (case (field token_as_address 0 values, field token_as_address 1 values, field token_as_uint 3 values) of
             (Some token_in, Some token_out, Some amount_in) \<Rightarrow>
               Some (v3_signal sel router amount_in (field token_as_uint 4 values) token_in token_out 3000 1 False
                 (dec 86 2) ''algebra_exact_input_single'')
           | _ \<Rightarrow> None))"

definition decode_zero_ex_sell_to_uniswap :: "abi_decoder \<Rightarrow> selector \<Rightarrow> address \<Rightarrow> bytes \<Rightarrow> swap_signal option" where
  "decode_zero_ex_sell_to_uniswap ad sel router args =
     (case ad [PArray PAddress, PUint 256, PUint 256, PBool] args of None \<Rightarrow> None
      | Some decoded \<Rightarrow>
          (case (field token_as_address_vec 0 decoded, field token_as_uint 1 decoded) of
             (Some path, Some amount_in) \<Rightarrow>
               Some (v2_signal sel router amount_in (field token_as_uint 2 decoded) path 1 ''0x_uniswap'')
           | _ \<Rightarrow> None))"


section \<open>Partial decoders\<close>

fun dedup_from :: "'a set \<Rightarrow> 'a list \<Rightarrow> 'a list" where
  "dedup_from seen [] = []"
| "dedup_from seen (x # xs) = (if x \<in> seen then dedup_from seen xs else x # dedup_from (insert x seen) xs)"

definition dedup_address_path :: "address list \<Rightarrow> address list" where
  "dedup_address_path path = dedup_from {} path"

definition polygon_partial_counterpart_tokens :: "address list" where
  "polygon_partial_counterpart_tokens =
     [0x2791bca1f2de4661ed88a30c99a7a9449aa84174, 0xc2132d05d31c914a87c6611c10748aeb04b58e8f,
      0x0d500b1d8e8ef31e21c99d1db9a6444d3adf1270, 0x7ceb23fd6bc0add59e62ac25578270cff1b9f619,
      0x8f3cf7ad23cd3cadbd9735aff958023239c6a063]"

definition partial_path_from_monitored_tokens :: "monitored_token_config list \<Rightarrow> bytes \<Rightarrow> address list" where
  "partial_path_from_monitored_tokens monitored args =
     (let path = dedup_address_path (monitored_token_addresses_in_input monitored args)
      in if 2 \<le> length path then path
         else (case path of [] \<Rightarrow> path
               | anchor # _ \<Rightarrow>
                   (case find (\<lambda>a. a \<noteq> anchor) (map mt_address monitored @ polygon_partial_counterpart_tokens) of
                      Some a \<Rightarrow> path @ [a] | None \<Rightarrow> path)))"

definition hinted_amount :: "u256 \<Rightarrow> bytes \<Rightarrow> u256" where
  "hinted_amount v args = (if 0 < v then v else case amount_hint_from_calldata args of Some a \<Rightarrow> a | None \<Rightarrow> 1)"

definition decode_partial_swap_from_monitored_tokens ::
  "selector \<Rightarrow> address \<Rightarrow> u256 \<Rightarrow> bytes \<Rightarrow> monitored_token_config list \<Rightarrow> f64 \<Rightarrow> string \<Rightarrow> swap_signal option" where
  "decode_partial_swap_from_monitored_tokens sel router v args monitored confidence source =
     (let path = partial_path_from_monitored_tokens monitored args
      in case path of
           a # b # _ \<Rightarrow> if a = b then None
                        else Some (v2_signal sel router (hinted_amount v args) None path confidence source)
         | _ \<Rightarrow> None)"

definition decode_transit_v5_v2_partial ::
  "abi_decoder \<Rightarrow> selector \<Rightarrow> address \<Rightarrow> u256 \<Rightarrow> bytes \<Rightarrow> monitored_token_config list \<Rightarrow> swap_signal option" where
  "decode_transit_v5_v2_partial ad sel router v args monitored =
     (case Option.bind (ad [PTuple [PAddress, PAddress, PUint 256, PUint 256, PUint 256, PUint 256, PArray PAddress,
                                    PArray PAddress, PBytes, PString], PUint 256] args) (field token_as_tuple 0) of None \<Rightarrow> None
      | Some values \<Rightarrow>
        (case token_tree_find_address_path monitored values of None \<Rightarrow> None
         | Some found \<Rightarrow>
             let path = dedup_address_path found
             in if length path < 2 \<or> \<not> path_contains_monitored_token path monitored then None
                else Some (v2_signal sel router (hinted_amount v args) None path (dec 68 2) ''transit_v5_v2_path_partial'')))"

definition decode_transit_v5_v3_partial ::
  "abi_decoder \<Rightarrow> selector \<Rightarrow> address \<Rightarrow> u256 \<Rightarrow> bytes \<Rightarrow> monitored_token_config list \<Rightarrow> swap_signal option" where
  "decode_transit_v5_v3_partial ad sel router v args monitored =
     (case single_tuple ad [PAddress, PAddress, PAddress, PAddress, PUint 256, PUint 256, PUint 256, PUint 256,
                            PArray (PUint 256), PBytes, PString] args of None \<Rightarrow> None
      | Some values \<Rightarrow>
        (case token_tree_find_v3_path_bytes values of None \<Rightarrow> None
         | Some path_bytes \<Rightarrow>
           (case parse_v3_path path_bytes of None \<Rightarrow> None
            | Some parsed \<Rightarrow>
                let path = (case parse_v3_path_segments path_bytes of
                       segment # _ \<Rightarrow> [vs_token_in segment, vs_token_out segment]
                     | [] \<Rightarrow> [vp_token_in parsed, vp_edge_token_out parsed])
                in if \<not> path_contains_monitored_token path monitored then None
                   else Some (v3_signal sel router (hinted_amount v args) None (vp_token_in parsed) (vp_edge_token_out parsed)
                          (vp_first_fee_tier parsed) (vp_hops parsed) False (dec 72 2) ''transit_v5_v3_path_partial''
                          \<lparr>sg_path := path\<rparr>))))"

definition decode_swap_exact_eth_for_token_partial ::
  "abi_decoder \<Rightarrow> selector \<Rightarrow> address \<Rightarrow> u256 \<Rightarrow> bytes \<Rightarrow> monitored_token_config list \<Rightarrow> swap_signal option" where
  "decode_swap_exact_eth_for_token_partial ad sel router v args monitored =
     (case ad [PUint 256, PUint 256, PAddress, PAddress, PBytes, PUint 256] args of None \<Rightarrow> None
      | Some decoded \<Rightarrow>
        (case (field token_as_uint 0 decoded, field token_as_address 2 decoded, field token_as_bytes 4 decoded) of
           (Some amount_in, Some token_out, Some path_bytes) \<Rightarrow>
             let found = monitored_token_addresses_in_input monitored path_bytes;
                 path = dedup_address_path (if token_out \<in> set found then found else found @ [token_out])
             in if length path < 2 \<or> \<not> path_contains_monitored_token path monitored then None
                else Some (v2_signal sel router (if 0 < v then v else max amount_in 1) (field token_as_uint 1 decoded) path
                       (dec 62 2) ''swap_exact_eth_for_token_path_partial'')
         | _ \<Rightarrow> None))"

definition decode_safe_inner_aggregator_partial ::
  "selector \<Rightarrow> address \<Rightarrow> u256 \<Rightarrow> bytes \<Rightarrow> monitored_token_config list \<Rightarrow> swap_signal option" where
  "decode_safe_inner_aggregator_partial sel target v args monitored =
     (if sel = SAFE_INNER_SELECTOR_9E7212AD then None
      else if sel = SAFE_INNER_SELECTOR_8CC7104F
      then decode_partial_swap_from_monitored_tokens sel target v args monitored (dec 75 2) ''safe_inner_partial''
      else decode_partial_swap_from_monitored_tokens sel target v args monitored (dec 55 2) ''safe_inner_token_hint'')"

section \<open>Notional\<close>

definition estimate_notional_wei :: "runtime_env \<Rightarrow> swap_signal \<Rightarrow> monitored_token_config list \<Rightarrow> u256 attempt" where
  "estimate_notional_wei env s monitored =
     (if sg_selector s = SWAP_EXACT_ETH_FOR_TOKENS \<or> sg_selector s = SWAP_EXACT_ETH_FOR_TOKENS_SUPPORTING_FEE
      then Inr (Some (sg_amount_in s))
      else case sg_path s of [] \<Rightarrow> Inr None
        | token_in # _ \<Rightarrow>
          (case find (\<lambda>t. mt_address t = token_in) monitored of None \<Rightarrow> Inr None
           | Some t \<Rightarrow>
               let normalized = of_uw (sg_amount_in s) / fpowi (dec 10 0) (uint (mt_decimals t));
                   value_eth = normalized * mt_price_eth t
               in if rv_ether_overflows env value_eth then Inl IntegerOverflow
                  else Inr (case rv_parse_ether_shown env value_eth of Inr v \<Rightarrow> Some v | Inl _ \<Rightarrow> None)))"

section \<open>Universal router\<close>

record universal_router_hop =
  uh_dex :: string
  uh_command :: string
  uh_token_in :: address
  uh_token_out :: address
  uh_amount_in :: "u256 option"
  uh_amount_out :: "u256 option"
  uh_fee_tier :: "u32 option"
  uh_exact_out :: bool
  uh_depth :: nat

record universal_router_route_graph =
  ug_command_count :: u64
  ug_swap_command_count :: u64
  ug_hops :: "universal_router_hop list"
  ug_unsupported_commands :: "string list"

unbundle bit_operations_syntax

definition opcode_of :: "u8 \<Rightarrow> u8" where
  "opcode_of command = command AND UNIVERSAL_ROUTER_COMMAND_MASK"

definition v2_command_params :: "param_type list" where
  "v2_command_params = [PAddress, PUint 256, PUint 256, PArray PAddress, PBool]"

definition v3_command_params :: "param_type list" where
  "v3_command_params = [PAddress, PUint 256, PUint 256, PBytes, PBool]"

definition decode_universal_router_v2_exact_in :: "abi_decoder \<Rightarrow> selector \<Rightarrow> address \<Rightarrow> bytes \<Rightarrow> swap_signal option" where
  "decode_universal_router_v2_exact_in ad sel router input =
     (case ad v2_command_params input of None \<Rightarrow> None
      | Some decoded \<Rightarrow>
          (case (field token_as_uint 1 decoded, field token_as_address_vec 3 decoded) of
             (Some amount_in, Some path) \<Rightarrow>
               Some (v2_signal sel router amount_in (field token_as_uint 2 decoded) path 1 ''universal_router'')
           | _ \<Rightarrow> None))"

definition decode_universal_router_v2_exact_out :: "abi_decoder \<Rightarrow> selector \<Rightarrow> address \<Rightarrow> bytes \<Rightarrow> swap_signal option" where
  "decode_universal_router_v2_exact_out ad sel router input =
     (case ad v2_command_params input of None \<Rightarrow> None
      | Some decoded \<Rightarrow>
          (case (field token_as_uint 1 decoded, field token_as_uint 2 decoded, field token_as_address_vec 3 decoded) of
             (Some amount_out, Some amount_in_max, Some path) \<Rightarrow>
               Some (v2_signal sel router amount_in_max (Some amount_out) path 1 ''universal_router'')
           | _ \<Rightarrow> None))"

definition decode_universal_router_v3_exact_in :: "abi_decoder \<Rightarrow> selector \<Rightarrow> address \<Rightarrow> bytes \<Rightarrow> swap_signal option" where
  "decode_universal_router_v3_exact_in ad sel router input =
     (case ad v3_command_params input of None \<Rightarrow> None
      | Some decoded \<Rightarrow>
          (case (field token_as_uint 1 decoded, Option.bind (field token_as_bytes 3 decoded) parse_v3_path) of
             (Some amount_in, Some parsed) \<Rightarrow>
               Some (v3_signal sel router amount_in (field token_as_uint 2 decoded) (vp_token_in parsed)
                 (vp_edge_token_out parsed) (vp_first_fee_tier parsed) (vp_hops parsed) False 1 ''universal_router'')
           | _ \<Rightarrow> None))"

definition decode_universal_router_v3_exact_out :: "abi_decoder \<Rightarrow> selector \<Rightarrow> address \<Rightarrow> bytes \<Rightarrow> swap_signal option" where
  "decode_universal_router_v3_exact_out ad sel router input =
     (case ad v3_command_params input of None \<Rightarrow> None
      | Some decoded \<Rightarrow>
          (case (field token_as_uint 1 decoded, field token_as_uint 2 decoded,
                 Option.bind (field token_as_bytes 3 decoded) parse_v3_exact_out_path) of
             (Some amount_out, Some amount_in_max, Some parsed) \<Rightarrow>
               Some (v3_signal sel router amount_in_max (Some amount_out) (vp_token_in parsed)
                 (vp_edge_token_out parsed) (vp_first_fee_tier parsed) (vp_hops parsed) True 1 ''universal_router'')
           | _ \<Rightarrow> None))"

definition decode_universal_router_sub_plan :: "abi_decoder \<Rightarrow> bytes \<Rightarrow> (bytes \<times> token list) option" where
  "decode_universal_router_sub_plan ad input =
     (case ad [PBytes, PArray PBytes] input of None \<Rightarrow> None
      | Some decoded \<Rightarrow>
          (case (field token_as_bytes 0 decoded, field token_as_array 1 decoded) of
             (Some commands, Some inputs) \<Rightarrow> Some (commands, inputs) | _ \<Rightarrow> None))"

text \<open>
  The commands with their inputs in parallel; a sub-plan is decoded one level deeper, down to the third
  level. A missing input ends the loop, an input of another kind is skipped.
\<close>

definition swap_of_command :: "abi_decoder \<Rightarrow> selector \<Rightarrow> address \<Rightarrow> u8 \<Rightarrow> bytes \<Rightarrow> swap_signal list" where
  "swap_of_command ad sel router opcode input =
     (case (if opcode = 0x00 then decode_universal_router_v3_exact_in ad sel router input
            else if opcode = 0x01 then decode_universal_router_v3_exact_out ad sel router input
            else if opcode = 0x08 then decode_universal_router_v2_exact_in ad sel router input
            else if opcode = 0x09 then decode_universal_router_v2_exact_out ad sel router input else None) of
        Some s \<Rightarrow> [s] | None \<Rightarrow> [])"

function decode_universal_router_parts ::
  "abi_decoder \<Rightarrow> selector \<Rightarrow> address \<Rightarrow> bytes \<Rightarrow> token list \<Rightarrow> nat \<Rightarrow> swap_signal list" where
  "decode_universal_router_parts ad sel router commands inputs depth =
     (if 3 < depth then []
      else case (commands, inputs) of
        (command # commands', token # inputs') \<Rightarrow>
          (case token of
             TBytes input \<Rightarrow>
               (if opcode_of command = 0x21
                then (case decode_universal_router_sub_plan ad input of
                        Some (sub_commands, sub_inputs) \<Rightarrow>
                          decode_universal_router_parts ad sel router sub_commands sub_inputs (depth + 1)
                      | None \<Rightarrow> [])
                else swap_of_command ad sel router (opcode_of command) input)
               @ decode_universal_router_parts ad sel router commands' inputs' depth
           | _ \<Rightarrow> decode_universal_router_parts ad sel router commands' inputs' depth)
      | _ \<Rightarrow> [])"
  by pat_completeness auto
termination
  by (relation "measures [\<lambda>(ad, sel, router, commands, inputs, depth). 4 - depth,
                          \<lambda>(ad, sel, router, commands, inputs, depth). length commands]") auto

declare decode_universal_router_parts.simps [simp del]

definition universal_router_command_name :: "u8 \<Rightarrow> string" where
  "universal_router_command_name opcode =
     (if opcode = 0x00 then ''v3_exact_in'' else if opcode = 0x01 then ''v3_exact_out''
      else if opcode = 0x02 then ''permit2_transfer_from'' else if opcode = 0x03 then ''permit2_permit_batch''
      else if opcode = 0x04 then ''sweep'' else if opcode = 0x05 then ''transfer'' else if opcode = 0x06 then ''pay_portion''
      else if opcode = 0x08 then ''v2_exact_in'' else if opcode = 0x09 then ''v2_exact_out''
      else if opcode = 0x0a then ''permit2_permit'' else if opcode = 0x0b then ''wrap_eth''
      else if opcode = 0x0c then ''unwrap_weth'' else if opcode = 0x0d then ''permit2_transfer_from_batch''
      else if opcode = 0x0e then ''balance_check_erc20'' else if opcode = 0x10 then ''v4_swap''
      else if opcode = 0x21 then ''execute_sub_plan'' else if opcode = 0x40 then ''across_v4_deposit_v3'' else ''unknown'')"

definition universal_router_v2_hops :: "abi_decoder \<Rightarrow> bytes \<Rightarrow> bool \<Rightarrow> nat \<Rightarrow> universal_router_hop list" where
  "universal_router_v2_hops ad input exact_out depth =
     (case ad v2_command_params input of None \<Rightarrow> []
      | Some decoded \<Rightarrow>
          let primary = field token_as_uint 1 decoded; secondary = field token_as_uint 2 decoded
          in (case field token_as_address_vec 3 decoded of None \<Rightarrow> []
              | Some path \<Rightarrow>
                  map (\<lambda>(a, b). \<lparr>uh_dex = ''v2'', uh_command = (if exact_out then ''v2_exact_out'' else ''v2_exact_in''),
                     uh_token_in = a, uh_token_out = b, uh_amount_in = (if exact_out then secondary else primary),
                     uh_amount_out = (if exact_out then primary else secondary), uh_fee_tier = None,
                     uh_exact_out = exact_out, uh_depth = depth\<rparr>) (route_edges path)))"

definition universal_router_v3_hops :: "abi_decoder \<Rightarrow> bytes \<Rightarrow> bool \<Rightarrow> nat \<Rightarrow> universal_router_hop list" where
  "universal_router_v3_hops ad input exact_out depth =
     (case ad v3_command_params input of None \<Rightarrow> []
      | Some decoded \<Rightarrow>
          let primary = field token_as_uint 1 decoded; secondary = field token_as_uint 2 decoded
          in (case field token_as_bytes 3 decoded of None \<Rightarrow> []
              | Some path \<Rightarrow>
                  if exact_out then
                    map (\<lambda>g. \<lparr>uh_dex = ''v3'', uh_command = ''v3_exact_out'', uh_token_in = vs_token_out g,
                       uh_token_out = vs_token_in g, uh_amount_in = secondary, uh_amount_out = primary,
                       uh_fee_tier = Some (vs_fee_tier g), uh_exact_out = exact_out, uh_depth = depth\<rparr>)
                      (rev (parse_v3_path_segments path))
                  else
                    map (\<lambda>g. \<lparr>uh_dex = ''v3'', uh_command = ''v3_exact_in'', uh_token_in = vs_token_in g,
                       uh_token_out = vs_token_out g, uh_amount_in = primary, uh_amount_out = secondary,
                       uh_fee_tier = Some (vs_fee_tier g), uh_exact_out = exact_out, uh_depth = depth\<rparr>)
                      (parse_v3_path_segments path)))"

definition add_hops :: "universal_router_route_graph \<Rightarrow> universal_router_hop list \<Rightarrow> universal_router_route_graph" where
  "add_hops g hops = g\<lparr>ug_swap_command_count := sat_add (ug_swap_command_count g) 1, ug_hops := ug_hops g @ hops\<rparr>"

definition add_unsupported :: "universal_router_route_graph \<Rightarrow> string \<Rightarrow> universal_router_route_graph" where
  "add_unsupported g name = g\<lparr>ug_unsupported_commands := ug_unsupported_commands g @ [name]\<rparr>"

definition graph_of_command ::
  "abi_decoder \<Rightarrow> u8 \<Rightarrow> bytes \<Rightarrow> nat \<Rightarrow> universal_router_route_graph \<Rightarrow> universal_router_route_graph" where
  "graph_of_command ad opcode input depth g =
     (if opcode = 0x00 then add_hops g (universal_router_v3_hops ad input False depth)
      else if opcode = 0x01 then add_hops g (universal_router_v3_hops ad input True depth)
      else if opcode = 0x08 then add_hops g (universal_router_v2_hops ad input False depth)
      else if opcode = 0x09 then add_hops g (universal_router_v2_hops ad input True depth)
      else if opcode = 0x10 \<or> opcode = 0x40 then add_unsupported g (universal_router_command_name opcode)
      else g)"

text \<open>The loop over the commands is \<open>collect_commands\<close>, entered only down to the third level.\<close>

function collect_universal_router_graph ::
  "abi_decoder \<Rightarrow> bytes \<Rightarrow> token list \<Rightarrow> nat \<Rightarrow> universal_router_route_graph \<Rightarrow> universal_router_route_graph"
  and collect_commands ::
  "abi_decoder \<Rightarrow> bytes \<Rightarrow> token list \<Rightarrow> nat \<Rightarrow> universal_router_route_graph \<Rightarrow> universal_router_route_graph" where
  "collect_universal_router_graph ad commands inputs depth g =
     (if 3 < depth then add_unsupported g ''subplan_depth_limit'' else collect_commands ad commands inputs depth g)"
| "collect_commands ad commands inputs depth g =
     (if 3 < depth then g
      else case commands of [] \<Rightarrow> g
        | command # commands' \<Rightarrow>
          let g1 = g\<lparr>ug_command_count := sat_add (ug_command_count g) 1\<rparr>; opcode = opcode_of command
          in (case inputs of
                [] \<Rightarrow> add_unsupported g1 (universal_router_command_name opcode @ '':missing_input'')
              | TBytes input # inputs' \<Rightarrow>
                  collect_commands ad commands' inputs' depth
                    (if opcode = 0x21
                     then (case decode_universal_router_sub_plan ad input of
                             Some (sub_commands, sub_inputs) \<Rightarrow>
                               collect_universal_router_graph ad sub_commands sub_inputs (depth + 1) g1
                           | None \<Rightarrow> add_unsupported g1 ''execute_sub_plan:decode_failed'')
                     else graph_of_command ad opcode input depth g1)
              | _ # inputs' \<Rightarrow>
                  collect_commands ad commands' inputs' depth
                    (add_unsupported g1 (universal_router_command_name opcode @ '':input_not_bytes''))))"
  by pat_completeness auto
termination
  by (relation "measures [case_sum (\<lambda>(ad, commands, inputs, depth, g). 4 - depth) (\<lambda>(ad, commands, inputs, depth, g). 4 - depth),
        case_sum (\<lambda>_. 1) (\<lambda>_. 0),
        case_sum (\<lambda>(ad, commands, inputs, depth, g). length commands) (\<lambda>(ad, commands, inputs, depth, g). length commands)]") auto

declare collect_universal_router_graph.simps [simp del] collect_commands.simps [simp del]

definition empty_graph :: universal_router_route_graph where
  "empty_graph = \<lparr>ug_command_count = 0, ug_swap_command_count = 0, ug_hops = [], ug_unsupported_commands = []\<rparr>"

definition router_plan :: "abi_decoder \<Rightarrow> bytes \<Rightarrow> (bytes \<times> token list) option" where
  "router_plan ad args =
     (case (case ad [PBytes, PArray PBytes, PUint 256] args of Some d \<Rightarrow> Some d | None \<Rightarrow> ad [PBytes, PArray PBytes] args) of
        None \<Rightarrow> None
      | Some decoded \<Rightarrow>
          (case (field token_as_bytes 0 decoded, field token_as_array 1 decoded) of
             (Some commands, Some inputs) \<Rightarrow> Some (commands, inputs) | _ \<Rightarrow> None))"

definition universal_router_route_graph_of :: "abi_decoder \<Rightarrow> bytes \<Rightarrow> universal_router_route_graph option" where
  "universal_router_route_graph_of ad args =
     map_option (\<lambda>(commands, inputs). collect_universal_router_graph ad commands inputs 0 empty_graph) (router_plan ad args)"

definition universal_router_hop_to_signal :: "selector \<Rightarrow> address \<Rightarrow> universal_router_hop \<Rightarrow> swap_signal option" where
  "universal_router_hop_to_signal sel router hop =
     (case uh_amount_in hop of None \<Rightarrow> None
      | Some amount_in \<Rightarrow>
          if amount_in = 0 then None
          else if uh_dex hop = ''v3''
          then map_option (\<lambda>fee_tier. v3_signal sel router amount_in (uh_amount_out hop) (uh_token_in hop) (uh_token_out hop)
                  fee_tier 1 (uh_exact_out hop) 1 ''universal_router'') (uh_fee_tier hop)
          else Some (v2_signal sel router amount_in (uh_amount_out hop) [uh_token_in hop, uh_token_out hop] 1 ''universal_router''))"

definition decode_universal_router_graph_candidates ::
  "abi_decoder \<Rightarrow> selector \<Rightarrow> address \<Rightarrow> bytes \<Rightarrow> token list \<Rightarrow> swap_signal list" where
  "decode_universal_router_graph_candidates ad sel router commands inputs =
     List.map_filter (universal_router_hop_to_signal sel router)
       (ug_hops (collect_universal_router_graph ad commands inputs 0 empty_graph))"

definition decode_universal_router_swap_candidates :: "abi_decoder \<Rightarrow> selector \<Rightarrow> address \<Rightarrow> bytes \<Rightarrow> swap_signal list" where
  "decode_universal_router_swap_candidates ad sel router args =
     (case router_plan ad args of None \<Rightarrow> []
      | Some (commands, inputs) \<Rightarrow>
          let signals = decode_universal_router_parts ad sel router commands inputs 0
          in if signals = [] then decode_universal_router_graph_candidates ad sel router commands inputs else signals)"

definition decode_universal_router_swap :: "abi_decoder \<Rightarrow> selector \<Rightarrow> address \<Rightarrow> bytes \<Rightarrow> swap_signal option" where
  "decode_universal_router_swap ad sel router args =
     (case decode_universal_router_swap_candidates ad sel router args of [] \<Rightarrow> None | s # _ \<Rightarrow> Some s)"

text \<open>The rank is compared as a tuple: notional, exact input before exact output, fewer tokens first.\<close>

definition universal_router_candidate_rank :: "swap_signal \<Rightarrow> u256 \<times> nat \<times> int" where
  "universal_router_candidate_rank s =
     (sg_notional_wei s, (case sg_kind s of KindV3 _ _ _ True \<Rightarrow> 0 | _ \<Rightarrow> 1), - int (path_len s))"

definition rank_le :: "u256 \<times> nat \<times> int \<Rightarrow> u256 \<times> nat \<times> int \<Rightarrow> bool" where
  "rank_le l r = (case (l, r) of ((n1, e1, p1), (n2, e2, p2)) \<Rightarrow>
     n1 < n2 \<or> (n1 = n2 \<and> (e1 < e2 \<or> (e1 = e2 \<and> p1 \<le> p2))))"

fun with_notionals ::
  "runtime_env \<Rightarrow> monitored_token_config list \<Rightarrow> swap_signal list \<Rightarrow> panic + swap_signal list" where
  "with_notionals env monitored [] = Inr []"
| "with_notionals env monitored (s # ss) =
     and_then (estimate_notional_wei env s monitored) (\<lambda>notional.
       and_then (with_notionals env monitored ss) (\<lambda>rest.
         Inr (case notional of Some n \<Rightarrow> s\<lparr>sg_notional_wei := n\<rparr> # rest | None \<Rightarrow> rest)))"

definition decode_universal_router_swap_for_monitored ::
  "abi_decoder \<Rightarrow> runtime_env \<Rightarrow> selector \<Rightarrow> address \<Rightarrow> bytes \<Rightarrow> monitored_token_config list \<Rightarrow> swap_signal attempt" where
  "decode_universal_router_swap_for_monitored ad env sel router args monitored =
     map_sum id (max_by (\<lambda>l r. rank_le (universal_router_candidate_rank l) (universal_router_candidate_rank r)))
       (with_notionals env monitored (decode_universal_router_swap_candidates ad sel router args))"

section \<open>Nested calls\<close>

type_synonym decoder = "selector \<Rightarrow> address \<Rightarrow> u256 \<Rightarrow> bytes \<Rightarrow> swap_signal attempt"

definition CHILD_SELECTORS :: "selector list" where
  "CHILD_SELECTORS = [V3_EXACT_INPUT_SINGLE, UNISWAP_V3_EXACT_INPUT_SINGLE_NO_DEADLINE, ALGEBRA_EXACT_INPUT_SINGLE,
     SWAP_EXACT_TOKENS_FOR_TOKENS, SWAP_EXACT_TOKENS_FOR_TOKENS_SUPPORTING_FEE]"

text \<open>A nested signal takes the selector of the outer call, a lower confidence and its own source.\<close>

definition relabel :: "selector \<Rightarrow> f64 \<Rightarrow> string \<Rightarrow> swap_signal \<Rightarrow> swap_signal" where
  "relabel sel cap source s =
     s\<lparr>sg_selector := sel, sg_decode_confidence := fmin (sg_decode_confidence s) cap, sg_decode_source := source\<rparr>"

text \<open>The scan tries every offset; the recursive decoder is the argument \<open>rec\<close>.\<close>

fun decode_nested_swap_from_calldata ::
  "decoder \<Rightarrow> address \<Rightarrow> u256 \<Rightarrow> bytes \<Rightarrow> monitored_token_config list \<Rightarrow> swap_signal attempt" where
  "decode_nested_swap_from_calldata rec router v [] monitored = Inr None"
| "decode_nested_swap_from_calldata rec router v (b # bs) monitored =
     (if length (b # bs) < 4 then Inr None
      else if take 4 (b # bs) \<notin> set CHILD_SELECTORS then decode_nested_swap_from_calldata rec router v bs monitored
      else (case rec (take 4 (b # bs)) router v (drop 4 (b # bs)) of
              Inl p \<Rightarrow> Inl p
            | Inr (Some s) \<Rightarrow>
                if path_contains_monitored_token (sg_path s) monitored then Inr (Some s)
                else decode_nested_swap_from_calldata rec router v bs monitored
            | Inr None \<Rightarrow> decode_nested_swap_from_calldata rec router v bs monitored))"

definition child_call :: "decoder \<Rightarrow> address \<Rightarrow> u256 \<Rightarrow> bytes \<Rightarrow> swap_signal attempt" where
  "child_call rec target v calldata =
     (if length calldata < 4 then Inr None else rec (take 4 calldata) target v (drop 4 calldata))"

definition multicall_calls :: "abi_decoder \<Rightarrow> selector \<Rightarrow> bytes \<Rightarrow> token list option" where
  "multicall_calls ad sel args =
     (if sel = MULTICALL_BYTES then Option.bind (ad [PArray PBytes] args) (field token_as_array 0)
      else Option.bind (ad [PUint 256, PArray PBytes] args) (field token_as_array 1))"

definition decode_multicall_nested_swap ::
  "decoder \<Rightarrow> abi_decoder \<Rightarrow> selector \<Rightarrow> address \<Rightarrow> u256 \<Rightarrow> bytes \<Rightarrow> monitored_token_config list \<Rightarrow> swap_signal attempt" where
  "decode_multicall_nested_swap rec ad sel router v args monitored =
     (case multicall_calls ad sel args of None \<Rightarrow> Inr None
      | Some calls \<Rightarrow>
          or_try (first_attempt (\<lambda>call. case call of
                      TBytes calldata \<Rightarrow> map_attempt (relabel sel (dec 92 2) ''multicall_nested'') (child_call rec router v calldata)
                    | _ \<Rightarrow> Inr None) calls)
            (map_attempt (relabel sel (dec 68 2) ''multicall_selector_scan'')
               (decode_nested_swap_from_calldata rec router v args monitored)))"

definition decode_private_swap_wrapper ::
  "decoder \<Rightarrow> selector \<Rightarrow> address \<Rightarrow> u256 \<Rightarrow> bytes \<Rightarrow> monitored_token_config list \<Rightarrow> swap_signal attempt" where
  "decode_private_swap_wrapper rec sel router v args monitored =
     map_attempt (relabel sel (dec 88 2) ''private_swap_wrapper_nested'')
       (decode_nested_swap_from_calldata rec router v args monitored)"

definition batch_call :: "decoder \<Rightarrow> selector \<Rightarrow> token \<Rightarrow> swap_signal attempt" where
  "batch_call rec sel call =
     (case call of
        TTuple members \<Rightarrow>
          (case (field token_as_address 0 members, field token_as_bytes 2 members) of
             (Some target, Some calldata) \<Rightarrow>
               map_attempt (relabel sel (dec 82 2) ''batch_execute_nested'')
                 (child_call rec target (case field token_as_uint 1 members of Some v \<Rightarrow> v | None \<Rightarrow> 0) calldata)
           | _ \<Rightarrow> Inr None)
      | _ \<Rightarrow> Inr None)"

definition decode_batch_execute_nested_swap ::
  "decoder \<Rightarrow> abi_decoder \<Rightarrow> selector \<Rightarrow> address \<Rightarrow> u256 \<Rightarrow> bytes \<Rightarrow> monitored_token_config list \<Rightarrow> swap_signal attempt" where
  "decode_batch_execute_nested_swap rec ad sel router v args monitored =
     or_try (case Option.bind (ad [PArray (PTuple [PAddress, PUint 256, PBytes])] args) (field token_as_array 0) of
               None \<Rightarrow> Inr None | Some calls \<Rightarrow> first_attempt (batch_call rec sel) calls)
       (map_attempt (relabel sel (dec 58 2) ''batch_execute_selector_scan'')
          (decode_nested_swap_from_calldata rec router v args monitored))"

definition decode_safe_exec_transaction_swap ::
  "decoder \<Rightarrow> abi_decoder \<Rightarrow> bytes \<Rightarrow> monitored_token_config list \<Rightarrow> swap_signal attempt" where
  "decode_safe_exec_transaction_swap rec ad args monitored =
     (case ad [PAddress, PUint 256, PBytes, PUint 8, PUint 256, PUint 256, PUint 256, PAddress, PAddress, PBytes] args of
        None \<Rightarrow> Inr None
      | Some decoded \<Rightarrow>
          (case (field token_as_address 0 decoded, field token_as_uint 1 decoded, field token_as_bytes 2 decoded,
                 field token_as_uint 3 decoded) of
             (Some target, Some v, Some inner, Some operation) \<Rightarrow>
               if operation \<noteq> 0 \<or> length inner < 4 then Inr None
               else or_try (rec (take 4 inner) target v (drop 4 inner))
                      (Inr (decode_safe_inner_aggregator_partial (take 4 inner) target v (drop 4 inner) monitored))
           | _ \<Rightarrow> Inr None))"

definition decode_private_searcher_fingerprint ::
  "decoder \<Rightarrow> selector \<Rightarrow> address \<Rightarrow> u256 \<Rightarrow> bytes \<Rightarrow> monitored_token_config list \<Rightarrow> swap_signal attempt" where
  "decode_private_searcher_fingerprint rec sel router v args monitored =
     or_try (map_attempt (relabel sel (dec 62 2) ''private_searcher_nested_fingerprint'')
               (decode_nested_swap_from_calldata rec router v args monitored))
       (Inr (decode_partial_swap_from_monitored_tokens sel router v args monitored (dec 42 2) ''private_searcher_token_fingerprint''))"

definition decode_known_aggregator_partial ::
  "decoder \<Rightarrow> abi_decoder \<Rightarrow> selector \<Rightarrow> address \<Rightarrow> u256 \<Rightarrow> bytes \<Rightarrow> monitored_token_config list \<Rightarrow> swap_signal attempt" where
  "decode_known_aggregator_partial rec ad sel router v args monitored =
     (let partial = (\<lambda>confidence source.
            Inr (decode_partial_swap_from_monitored_tokens sel router v args monitored confidence source))
      in if sel = TRANSIT_EXACT_INPUT_V3_SWAP
         then or_try (Inr (decode_transit_v5_v3_partial ad sel router v args monitored))
                (partial (dec 45 2) ''transit_v5_token_order_partial'')
         else if sel = TRANSIT_EXACT_INPUT_V2_SWAP
         then or_try (Inr (decode_transit_v5_v2_partial ad sel router v args monitored))
                (partial (dec 52 2) ''transit_v5_v2_token_order_partial'')
         else if sel \<in> {TRANSIT_SWAP_V5, AGGREGATOR_SELECTOR_0A2B8F36, AGGREGATOR_SELECTOR_0060EA13,
                        AGGREGATOR_SELECTOR_448E340E, AGGREGATOR_SELECTOR_9265BB9D}
         then partial (dec 35 2) ''token_order_partial''
         else if sel = AGGREGATOR_SELECTOR_C3192F1F
         then or_try (Inr (decode_swap_exact_eth_for_token_partial ad sel router v args monitored))
                (partial (dec 35 2) ''token_order_partial'')
         else if sel = PRIVATE_SEARCHER_SELECTOR_D00BA30B
         then decode_private_searcher_fingerprint rec sel router v args monitored
         else Inr None)"

text \<open>One call of \<open>decode_swap_signal\<close>, with its recursive calls through \<open>rec\<close>.\<close>

definition decode_step :: "decoder \<Rightarrow> abi_decoder \<Rightarrow> runtime_env \<Rightarrow> monitored_token_config list \<Rightarrow> decoder" where
  "decode_step rec ad env monitored sel router v args =
     (if sel = SWAP_EXACT_ETH_FOR_TOKENS \<or> sel = SWAP_EXACT_ETH_FOR_TOKENS_SUPPORTING_FEE
      then Inr (decode_eth_swap ad sel router v args)
      else if sel \<in> {SWAP_EXACT_TOKENS_FOR_TOKENS, SWAP_EXACT_TOKENS_FOR_ETH,
                     SWAP_EXACT_TOKENS_FOR_TOKENS_SUPPORTING_FEE, SWAP_EXACT_TOKENS_FOR_ETH_SUPPORTING_FEE}
      then Inr (decode_token_swap ad sel router args)
      else if sel = V3_EXACT_INPUT_SINGLE then decode_v3_exact_input_single_with_deadline ad sel router args
      else if sel = UNISWAP_V3_EXACT_INPUT_SINGLE_NO_DEADLINE then decode_v3_exact_input_single_no_deadline ad sel router args
      else if sel = ALGEBRA_EXACT_INPUT_SINGLE then Inr (decode_algebra_exact_input_single ad sel router args)
      else if sel = V3_EXACT_INPUT then Inr (decode_v3_exact_input ad sel router args)
      else if sel = UNIVERSAL_ROUTER_EXECUTE \<or> sel = UNIVERSAL_ROUTER_EXECUTE_NO_DEADLINE
      then or_try (decode_universal_router_swap_for_monitored ad env sel router args monitored)
             (Inr (decode_universal_router_swap ad sel router args))
      else if sel = ZERO_EX_SELL_TO_UNISWAP then Inr (decode_zero_ex_sell_to_uniswap ad sel router args)
      else if sel = SAFE_EXEC_TRANSACTION then decode_safe_exec_transaction_swap rec ad args monitored
      else if sel = MULTICALL_BYTES \<or> sel = MULTICALL_DEADLINE_BYTES
      then decode_multicall_nested_swap rec ad sel router v args monitored
      else if sel = PRIVATE_SWAP_WRAPPER_2E35732F then decode_private_swap_wrapper rec sel router v args monitored
      else if sel = POLYMARKET_BATCH_EXECUTE then decode_batch_execute_nested_swap rec ad sel router v args monitored
      else decode_known_aggregator_partial rec ad sel router v args monitored)"

text \<open>
  The recursion has no depth limit in the source. \<open>decode_with n\<close> follows it \<open>n\<close> calls deep, and the
  bound taken is one more than the number of argument bytes; \<open>decode_recursion\<close> below shows that this
  satisfies the recursive equation of the source.
\<close>

fun decode_with :: "nat \<Rightarrow> abi_decoder \<Rightarrow> runtime_env \<Rightarrow> monitored_token_config list \<Rightarrow> decoder" where
  "decode_with 0 ad env monitored sel router v args = Inr None"
| "decode_with (Suc n) ad env monitored sel router v args =
     decode_step (decode_with n ad env monitored) ad env monitored sel router v args"

definition decode_swap_signal :: "abi_decoder \<Rightarrow> runtime_env \<Rightarrow> monitored_token_config list \<Rightarrow> decoder" where
  "decode_swap_signal ad env monitored sel router v args = decode_with (Suc (length args)) ad env monitored sel router v args"

section \<open>Transactions\<close>

text \<open>A pending transaction has the fields of \<open>transaction\<close> and those that only the runtime reads.\<close>

record pending_transaction = transaction +
  ptx_hash :: h256
  ptx_max_fee_per_gas :: "u256 option"
  ptx_block_number :: "u64 option"

definition selector_of :: "bool \<Rightarrow> pending_transaction \<Rightarrow> panic + selector option" where
  "selector_of avx2 tx =
     map_sum id (\<lambda>found. case found of Some index \<Rightarrow> Some (SELECTORS ! nat index)
        | None \<Rightarrow> if 4 \<le> length (tx_input tx) then Some (take 4 (tx_input tx)) else None)
       (find_selector avx2 (tx_input tx))"

definition mode_allows_partial_shadow_decode :: "opportunity_mode \<Rightarrow> bool" where
  "mode_allows_partial_shadow_decode mode = (mode = Aggressive \<or> mode = Scavenger)"

definition decode_relevant_swap ::
  "bool \<Rightarrow> abi_decoder \<Rightarrow> runtime_env \<Rightarrow> pending_transaction \<Rightarrow> monitored_token_config list \<Rightarrow> u256 \<Rightarrow> opportunity_mode
    \<Rightarrow> swap_signal attempt" where
  "decode_relevant_swap avx2 ad env tx monitored min_large_swap_wei mode =
     and_then (selector_of avx2 tx) (\<lambda>found.
       case (found, tx_to tx) of
         (Some sel, Some router) \<Rightarrow>
           and_then (decode_swap_signal ad env monitored sel router (tx_value tx) (drop 4 (tx_input tx))) (\<lambda>decoded.
             case decoded of None \<Rightarrow> Inr None
             | Some s \<Rightarrow>
               and_then (estimate_notional_wei env s monitored) (\<lambda>estimate.
                 Inr (case (case estimate of Some n \<Rightarrow> Some n
                        | None \<Rightarrow> if mode_allows_partial_shadow_decode mode \<and> path_contains_monitored_token (sg_path s) monitored
                                  then Some (max min_large_swap_wei 1) else None) of None \<Rightarrow> None
                  | Some notional \<Rightarrow>
                      if length (sg_path s) < 2 then None
                      else if mode \<noteq> Scavenger \<and> notional < min_large_swap_wei then None
                      else Some (s\<lparr>sg_notional_wei := notional\<rparr>))))
       | _ \<Rightarrow> Inr None)"

section \<open>Gate before decoding\<close>

definition known_target_label :: "address \<Rightarrow> string option" where
  "known_target_label a =
     (if a = 0x07964f135f276412b3182a3b2407b8dd45000000 then Some ''transit_swap_router_v5''
      else if a = 0x4337084d9e255ff0702461cf8895ce9e3b5ff108 then Some ''entrypoint_v0_8''
      else if a = 0x0000000071727de22e5e9d8baf0edac6f37da032 then Some ''entrypoint_v0_7''
      else if a = 0x00000000000fb5c9adea0298d729a0cb3823cc07 then Some ''aggregator_or_permit_router''
      else if a = 0xd216153c06e857cd7f72665e0af1d7d82172f494 then Some ''unknown_high_frequency_polygon_target''
      else if a = 0x278d858f05b94576c1e6f73285886876ff6ef8d2 then Some ''private_mev_executor_polygon_a''
      else if a = 0xc37184b6ab8d18be826af019cfa6bb71c6a0ab39 then Some ''private_mev_executor_polygon_b''
      else if a = 0xab45c5a4b0c941a2f231c04c3f49182e1a254052 then Some ''private_mev_executor_polygon_c''
      else if a = 0xada100db00ca00073811820692005400218fce1f then Some ''safe_inner_target'' else None)"

definition is_account_abstraction_target :: "address option \<Rightarrow> bool" where
  "is_account_abstraction_target a =
     (case Option.bind a known_target_label of Some label \<Rightarrow> starts_with ''entrypoint_'' label | None \<Rightarrow> False)"

definition is_private_mev_executor_noise :: "address option \<Rightarrow> selector \<Rightarrow> bool" where
  "is_private_mev_executor_noise a sel =
     (case Option.bind a known_target_label of None \<Rightarrow> False
      | Some label \<Rightarrow> starts_with ''private_mev_executor_'' label
          \<and> sel \<in> {PRIVATE_MEV_SELECTOR_A00597A0, PRIVATE_MEV_SELECTOR_EAA79076, PRIVATE_MEV_SELECTOR_34EE9791,
                    PRIVATE_MEV_SELECTOR_669DC5B6})"

definition is_context_only_or_helper_selector :: "selector \<Rightarrow> bool" where
  "is_context_only_or_helper_selector sel =
     (sel \<in> {AGGREGATOR_SELECTOR_01B7037C, AGGREGATOR_SELECTOR_0A3C4405, AGGREGATOR_SELECTOR_405CEC67,
              AGGREGATOR_SELECTOR_CDD1B25D, AGGREGATOR_SELECTOR_F2881E21, CONTEXT_WRAP_SELECTOR})"

definition is_observed_unsupported_selector_noise :: "selector \<Rightarrow> bool" where
  "is_observed_unsupported_selector_noise sel =
     (sel \<in> {SELECTOR_NOISE_00000000, OBSERVED_UNSUPPORTED_SELECTOR_5F052516, OBSERVED_UNSUPPORTED_SELECTOR_3D6684A8,
              OBSERVED_UNSUPPORTED_SELECTOR_3A66E301, OBSERVED_UNSUPPORTED_SELECTOR_4A502F39,
              OBSERVED_UNSUPPORTED_SELECTOR_E3EAD59E, OBSERVED_UNSUPPORTED_SELECTOR_3C02F856})"

definition victim_gas_price :: "pending_transaction \<Rightarrow> u256" where
  "victim_gas_price tx = (case ptx_max_fee_per_gas tx of Some v \<Rightarrow> v
     | None \<Rightarrow> (case tx_gas_price tx of Some v \<Rightarrow> v | None \<Rightarrow> 0))"

definition pre_decode_tx_gate_with_cap :: "bool \<Rightarrow> runtime_env \<Rightarrow> pending_transaction \<Rightarrow> u64 option \<Rightarrow> panic + string option" where
  "pre_decode_tx_gate_with_cap avx2 env tx cap_gwei =
     map_sum id (\<lambda>found. case found of None \<Rightarrow> None
       | Some sel \<Rightarrow>
           if is_account_abstraction_target (tx_to tx) \<or> sel = ENTRYPOINT_HANDLE_OPS then Some ''account_abstraction_noise''
           else if is_private_mev_executor_noise (tx_to tx) sel then Some ''private_mev_executor_noise''
           else if sel = CONTEXT_WRAP_SELECTOR then Some ''context_command_not_swap''
           else if is_context_only_or_helper_selector sel then Some ''router_helper_or_context_only''
           else if sel = SELECTOR_NOISE_00000008 then Some ''selector_noise_or_mev_trap''
           else if is_observed_unsupported_selector_noise sel then Some ''observed_unsupported_selector_noise''
           else if victim_gas_price tx = 0 then Some ''zero_gas_price''
           else (case cap_gwei of
                   Some cap \<Rightarrow> if of_uw cap * rv_pre_decode_gas_cap_multiplier env < wei_to_gwei_f64 (victim_gas_price tx)
                               then Some ''victim_gas_price_above_pre_decode_cap'' else None
                 | None \<Rightarrow> None))
       (selector_of avx2 tx)"

definition pre_decode_tx_gate :: "bool \<Rightarrow> runtime_env \<Rightarrow> config \<Rightarrow> pending_transaction \<Rightarrow> panic + string option" where
  "pre_decode_tx_gate avx2 env cfg tx = pre_decode_tx_gate_with_cap avx2 env tx (max_gas_price_gwei (mev cfg))"

definition aggregator_name_from_tx :: "bool \<Rightarrow> pending_transaction \<Rightarrow> panic + string option" where
  "aggregator_name_from_tx avx2 tx =
     map_sum id (\<lambda>found. case found of None \<Rightarrow> None
       | Some sel \<Rightarrow>
           if sel = UNIVERSAL_ROUTER_EXECUTE \<or> sel = UNIVERSAL_ROUTER_EXECUTE_NO_DEADLINE then Some ''universal_router''
           else if sel = ZERO_EX_TRANSFORM_ERC20 \<or> sel = ZERO_EX_SELL_TO_UNISWAP then Some ''0x_matcha''
           else if sel = ONE_INCH_SWAP \<or> sel = ONE_INCH_UNOSWAP then Some ''1inch''
           else if sel = PARASWAP_SIMPLE_SWAP then Some ''paraswap''
           else if sel = ODOS_SWAP_COMPACT then Some ''odos''
           else if sel = KYBER_SWAP then Some ''kyber'' else None)
       (selector_of avx2 tx)"

end
