(* ===== verification/RuntimeEval.thy ===== *)
theory RuntimeEval
  imports RuntimeDecode
begin

text \<open>
  The two worker bodies of \<open>src/mev/runtime.rs\<close>: \<open>process_lookup_decode_task\<close>, which turns a hash or a
  pending transaction into a decoded candidate, and \<open>process_evaluation_task\<close>, which takes a candidate
  through every gate to the micro batch; and the batch flush that hands the best candidate to the
  executor. A stage returns the state it leaves together with a value or the reason it stopped.
  The stages counted by \<open>record_opportunity_funnel\<close> are kept as a list; other telemetry is left out.
\<close>

section \<open>State and inputs\<close>

record replay_candidate =
  rc_tx_hash :: h256
  rc_selector :: selector
  rc_target :: address
  rc_pool :: message
  rc_path :: "address list"
  rc_amount_in :: u256
  rc_amount_out_min :: "u256 option"
  rc_gas_gwei :: f64
  rc_block_number :: u64
  rc_expected_profit :: f64
  rc_confidence :: f64
  rc_decode_source :: string
  rc_gas_limit :: u64

record lookup_decoded_candidate =
  lc_tx :: pending_transaction
  lc_signal :: swap_signal
  lc_lane :: candidate_lane
  lc_hour_utc :: u8
  lc_gas_price :: u256
  lc_context_signal :: context_signal
  lc_cluster :: cluster_key
  lc_lookup_latency :: duration
  lc_block_number :: u64

record eval_state =
  es_fleet :: rpc_fleet
  es_cache :: pool_cache
  es_adaptive :: "adaptive_policy lock"
  es_small_budget :: "small_swap_budget lock option"
  es_replay_counts :: "((selector \<times> address \<times> message) \<Rightarrow> u64 option) lock"
  es_replay_queue :: "replay_candidate list"
  es_funnel :: "string list"

record pending_hash_task =
  pt_tx_hash :: h256
  pt_pending_tx :: "pending_transaction option"

text \<open>What the network, the clock and the environment answer.\<close>

record 'db eval_ext =
  ex_px :: payload_ext
  ex_env :: runtime_env
  ex_net :: build_net
  ex_vm :: "'db revm"
  ex_keccak_empty :: h256
  ex_timestamp :: u64
  ex_avx2 :: bool
  ex_abi :: abi_decoder
  ex_now :: instant
  ex_quote_times :: "nat \<Rightarrow> instant"
  ex_hour_utc :: u8
  ex_lookup_fanout :: "nat option"
  ex_block_fanout :: "nat option"
  ex_rotate_env :: "nat option"
  ex_get_transaction :: "nat \<Rightarrow> duration \<times> (string + pending_transaction option)"
  ex_get_block :: "nat \<Rightarrow> duration \<times> (string + u64)"
  ex_lookup_latency :: duration
  ex_min_partial_confidence :: "f64 option"
  ex_has_edge_sample :: "build_report \<Rightarrow> bool"
  ex_replay_enabled :: bool
  ex_replay_capacity :: nat
  ex_replay_min_confidence :: "f64 option"
  ex_replay_min_repeat :: "nat option"

datatype eval_reject =
    TxLookupMiss
  | PreDecodeGate string
  | MinSwapUnparsable
  | NotDecoded
  | PartialConfidence
  | ZeroGasPrice
  | SmallScavengerBudget
  | BlockLookup
  | GasPriceAdaptiveCap
  | FastPreflight string
  | PolicyLockFailed
  | AdaptivePreflight "string option"
  | PayloadBuild build_report
  | EvValidation string
  | EvmPreflightFailed
  | EvmPreflightError
  | ScavengerDustEdge string
  | ScavengerSanity string
  | ScavengerQuote string
  | EvGate string
  | QualityGate string
  | AdaptiveModelLockFailed
  | AdaptiveReject "string option"

datatype eval_stop = Panics panic | Rejects eval_reject

type_synonym 'a stage = "eval_state \<times> (eval_stop + 'a)"

fun stage_then :: "'a stage \<Rightarrow> (eval_state \<Rightarrow> 'a \<Rightarrow> 'b stage) \<Rightarrow> 'b stage" where
  "stage_then (st, Inr x) k = k st x"
| "stage_then (st, Inl e) k = (st, Inl e)"

definition funnel :: "string list \<Rightarrow> eval_state \<Rightarrow> eval_state" where
  "funnel stages st = st\<lparr>es_funnel := es_funnel st @ stages\<rparr>"

definition reject :: "string list \<Rightarrow> eval_state \<Rightarrow> eval_reject \<Rightarrow> 'a stage" where
  "reject stages st r = (funnel stages st, Inl (Rejects r))"

section \<open>Asking several nodes\<close>

definition fanout_of :: "nat option \<Rightarrow> nat" where
  "fanout_of configured = max 1 (min (case configured of Some n \<Rightarrow> n | None \<Rightarrow> 1) 3)"

text \<open>
  The tasks in the order in which they finish; the first that has an answer wins and the others are
  aborted. A task that panics while it records its success ends without an answer.
\<close>

fun first_transaction ::
  "'db eval_ext \<Rightarrow> rpc_handle list \<Rightarrow> rpc_fleet \<Rightarrow> rpc_fleet \<times> pending_transaction option" where
  "first_transaction ex [] fleet = (fleet, None)"
| "first_transaction ex (h # hs) fleet =
     (case ex_get_transaction ex (rh_id h) of (latency, answer) \<Rightarrow>
        (case answer of
           Inr (Some tx) \<Rightarrow>
             (case rpc_record_success fleet (ex_now ex) (rh_id h) latency
                     (Some (case ptx_block_number tx of Some b \<Rightarrow> b | None \<Rightarrow> 0)) of
                Inr fleet1 \<Rightarrow> (fleet1, Some tx)
              | Inl _ \<Rightarrow> first_transaction ex hs fleet)
         | Inr None \<Rightarrow>
             (case rpc_record_success fleet (ex_now ex) (rh_id h) latency None of
                Inr fleet1 \<Rightarrow> first_transaction ex hs fleet1 | Inl _ \<Rightarrow> first_transaction ex hs fleet)
         | Inl err \<Rightarrow>
             first_transaction ex hs (rpc_record_failure fleet (ex_now ex) (rh_id h) (classify_failure err))))"

definition lookup_pending_tx_parallel :: "'db eval_ext \<Rightarrow> rpc_fleet \<Rightarrow> rpc_fleet \<times> pending_transaction option" where
  "lookup_pending_tx_parallel ex fleet =
     (case read_candidates (px_libm (ex_px ex)) (ex_rotate_env ex) fleet (ex_now ex) (fanout_of (ex_lookup_fanout ex)) of
        (fleet1, handles) \<Rightarrow>
          first_transaction ex (bn_finish_order (ex_net ex) handles)
            (foldl (\<lambda>f h. reserve_read_selection f (ex_now ex) (rh_id h)) fleet1 handles))"

fun first_block :: "'db eval_ext \<Rightarrow> rpc_handle list \<Rightarrow> rpc_fleet \<Rightarrow> rpc_fleet \<times> u64 option" where
  "first_block ex [] fleet = (fleet, None)"
| "first_block ex (h # hs) fleet =
     (case ex_get_block ex (rh_id h) of (latency, answer) \<Rightarrow>
        (case answer of
           Inr block \<Rightarrow>
             (case rpc_record_success fleet (ex_now ex) (rh_id h) latency (Some block) of
                Inr fleet1 \<Rightarrow> (fleet1, Some block) | Inl _ \<Rightarrow> first_block ex hs fleet)
         | Inl err \<Rightarrow>
             first_block ex hs (rpc_record_failure fleet (ex_now ex) (rh_id h) (classify_failure err))))"

definition get_current_block_parallel :: "'db eval_ext \<Rightarrow> rpc_fleet \<Rightarrow> rpc_fleet \<times> u64 option" where
  "get_current_block_parallel ex fleet =
     (case read_candidates (px_libm (ex_px ex)) (ex_rotate_env ex) fleet (ex_now ex) (fanout_of (ex_block_fanout ex)) of
        (fleet1, handles) \<Rightarrow>
          first_block ex (bn_finish_order (ex_net ex) handles)
            (foldl (\<lambda>f h. reserve_read_selection f (ex_now ex) (rh_id h)) fleet1 handles))"

section \<open>Looking up and decoding\<close>

definition lookup_stage :: "'db eval_ext \<Rightarrow> eval_state \<Rightarrow> pending_hash_task \<Rightarrow> pending_transaction stage" where
  "lookup_stage ex st task =
     (case pt_pending_tx task of
        Some tx \<Rightarrow> (funnel [''tx_lookup_skipped_full_pending''] st, Inr tx)
      | None \<Rightarrow>
          (case lookup_pending_tx_parallel ex (es_fleet st) of (fleet, found) \<Rightarrow>
             let st1 = st\<lparr>es_fleet := fleet\<rparr>
             in (case found of
                   None \<Rightarrow> reject [''tx_lookup_miss''] st1 TxLookupMiss
                 | Some tx \<Rightarrow>
                     (funnel [''tx_lookup_success''] (st1\<lparr>es_adaptive :=
                        update_lock (\<lambda>p. observe_lookup_latency p (millis_f64 (ex_lookup_latency ex))) (es_adaptive st1)\<rparr>), Inr tx))))"

definition min_partial_decode_confidence :: "'db eval_ext \<Rightarrow> f64" where
  "min_partial_decode_confidence ex =
     fclamp 0 1 (case ex_min_partial_confidence ex of Some v \<Rightarrow> v | None \<Rightarrow> dec 30 2)"

definition decode_stage ::
  "'db eval_ext \<Rightarrow> config \<Rightarrow> eval_state \<Rightarrow> pending_transaction \<Rightarrow> (swap_signal \<times> u256) stage" where
  "decode_stage ex cfg st tx =
     (case pre_decode_tx_gate (ex_avx2 ex) (ex_env ex) cfg tx of
        Inl p \<Rightarrow> (st, Inl (Panics p))
      | Inr (Some reason) \<Rightarrow> reject [''decode_reject''] st (PreDecodeGate reason)
      | Inr None \<Rightarrow>
          (case rv_parse_ether_shown (ex_env ex) (effective_min_large_swap_eth (mev cfg)) of
             Inl _ \<Rightarrow> (st, Inl (Rejects MinSwapUnparsable))
           | Inr min_large_swap_wei \<Rightarrow>
               (case decode_relevant_swap (ex_avx2 ex) (ex_abi ex) (ex_env ex) tx (monitored_tokens cfg) min_large_swap_wei
                       (opportunity_mode (mev cfg)) of
                  Inl p \<Rightarrow> (st, Inl (Panics p))
                | Inr None \<Rightarrow> reject [''decode_reject''] st NotDecoded
                | Inr (Some s) \<Rightarrow>
                    let st1 = funnel ([''decode_pass''] @ (if is_partial_decode s then [''partial_signal''] else [])) st
                    in if sg_decode_confidence s < min_partial_decode_confidence ex
                       then reject [''decode_reject''] st1 PartialConfidence
                       else if victim_gas_price tx = 0 then reject [''decode_reject''] st1 ZeroGasPrice
                       else (st1, Inr (s, min_large_swap_wei)))))"

definition neutral_context :: context_signal where
  "neutral_context = \<lparr>cs_priority_score = dec 50 2, cs_toxicity_score = dec 50 2, cs_samples = 0\<rparr>"

definition lane_stage :: "'db eval_ext \<Rightarrow> config \<Rightarrow> eval_state \<Rightarrow> candidate_lane \<Rightarrow> unit stage" where
  "lane_stage ex cfg st lane =
     (if lane = LaneSmall \<and> opportunity_mode (mev cfg) = Scavenger
      then (case allow_small_scavenger_candidate (es_small_budget st) (ex_now ex) of (slot, allowed) \<Rightarrow>
              let st1 = st\<lparr>es_small_budget := slot\<rparr>
              in if allowed then (st1, Inr ()) else reject [''small_scavenger_throttled''] st1 SmallScavengerBudget)
      else (st, Inr ()))"

definition cluster_of_signal :: "swap_signal \<Rightarrow> panic + cluster_key" where
  "cluster_of_signal s =
     (case sg_path s of [] \<Rightarrow> Inl IndexOutOfBounds
      | token_in # _ \<Rightarrow> Inr \<lparr>ck_router = sg_router s, ck_token_in = token_in, ck_token_out = last (sg_path s),
                             ck_selector = sg_selector s\<rparr>)"

definition process_lookup_decode_task ::
  "'db eval_ext \<Rightarrow> config \<Rightarrow> eval_state \<Rightarrow> pending_hash_task \<Rightarrow> lookup_decoded_candidate stage" where
  "process_lookup_decode_task ex cfg st task =
     stage_then (lookup_stage ex st task) (\<lambda>st tx.
     stage_then (decode_stage ex cfg st tx) (\<lambda>st (s, min_large_swap_wei).
       let ctx = (case read_lock (es_adaptive st) of
                    Some model \<Rightarrow> context_signal_for model (sg_router s) (ex_hour_utc ex) | None \<Rightarrow> neutral_context);
           lane = classify_candidate_lane s min_large_swap_wei
       in stage_then (lane_stage ex cfg st lane) (\<lambda>st _.
            case get_current_block_parallel ex (es_fleet st) of (fleet, found) \<Rightarrow>
              let st1 = st\<lparr>es_fleet := fleet\<rparr>
              in (case found of None \<Rightarrow> reject [''block_lookup_fail''] st1 BlockLookup
                  | Some block_number \<Rightarrow>
                      let st2 = funnel [''block_lookup_success''] st1
                      in (case cluster_of_signal s of Inl p \<Rightarrow> (st2, Inl (Panics p))
                          | Inr cluster \<Rightarrow>
                              (st2, Inr \<lparr>lc_tx = tx, lc_signal = s, lc_lane = lane, lc_hour_utc = ex_hour_utc ex,
                                 lc_gas_price = victim_gas_price tx, lc_context_signal = ctx, lc_cluster = cluster,
                                 lc_lookup_latency = ex_lookup_latency ex, lc_block_number = block_number\<rparr>))))))"


section \<open>Evaluation: gates before the payload\<close>

definition fast_stage ::
  "'db eval_ext \<Rightarrow> config \<Rightarrow> u256 \<Rightarrow> eval_state \<Rightarrow> lookup_decoded_candidate \<Rightarrow> fast_preflight_decision stage" where
  "fast_stage ex cfg min_large_swap_wei st c =
     (let gate = fast_preflight_gate (lc_signal c) (lc_gas_price c) min_large_swap_wei cfg (lc_context_signal c);
          continue = (if \<not> fp_should_continue gate
            then reject [''fast_preflight_reject''] st
                   (FastPreflight (case fp_reject_reason gate of Some r \<Rightarrow> r | None \<Rightarrow> ''fast_preflight''))
            else (funnel [''fast_preflight_pass''] st, Inr gate))
      in case max_gas_price_gwei (mev cfg) of None \<Rightarrow> continue
         | Some hard_cap \<Rightarrow>
             (case adaptive_gas_cap_gwei (fp_ev_upper_bound_usd gate) (wei_to_eth_f64 (sg_notional_wei (lc_signal c)))
                     (of_uw hard_cap) of
                Inl p \<Rightarrow> (st, Inl (Panics p))
              | Inr adaptive_cap \<Rightarrow>
                  if adaptive_cap < wei_to_gwei_f64 (lc_gas_price c)
                     \<and> \<not> scavenger_gas_cap_research_bypass (ex_env ex) cfg (lc_signal c) gate
                  then reject [''fast_preflight_reject''] st GasPriceAdaptiveCap
                  else continue))"

definition policy_stage :: "'db eval_ext \<Rightarrow> config \<Rightarrow> eval_state \<Rightarrow> lookup_decoded_candidate \<Rightarrow> unit stage" where
  "policy_stage ex cfg st c =
     (let st1 = st\<lparr>es_adaptive := update_lock (\<lambda>p. observe_candidate_flow p (ex_now ex) (lc_cluster c)
                      (sg_notional_wei (lc_signal c)) (lc_gas_price c)) (es_adaptive st)\<rparr>
      in if opportunity_mode (mev cfg) = Scavenger then (funnel [''adaptive_preflight_pass''] st1, Inr ())
         else case es_adaptive st1 of
                Poisoned _ \<Rightarrow> (st1, Inl (Rejects PolicyLockFailed))
              | Healthy model \<Rightarrow>
                  (case preflight_score (px_libm (ex_px ex)) model (ex_now ex)
                          \<lparr>pi_cluster = lc_cluster c, pi_notional_eth = wei_to_eth_f64 (sg_notional_wei (lc_signal c)),
                           pi_gas_price_wei = lc_gas_price c, pi_path_len = int (path_len (lc_signal c))\<rparr> of
                     (model', q) \<Rightarrow>
                       let st2 = st1\<lparr>es_adaptive := Healthy model'\<rparr>
                       in if \<not> pq_should_continue q \<and> \<not> should_override_preflight_reject cfg q
                          then reject [''adaptive_preflight_reject''] st2 (AdaptivePreflight (pq_reject_reason q))
                          else (funnel [''adaptive_preflight_pass''] st2, Inr ())))"

section \<open>Evaluation: payload and validation\<close>

text \<open>A failure without an embedded sample is reported with \<open>gas_price.as_u64()\<close>, which may panic.\<close>

definition payload_stage ::
  "'db eval_ext \<Rightarrow> config \<Rightarrow> eval_state \<Rightarrow> lookup_decoded_candidate \<Rightarrow> execution_payload stage" where
  "payload_stage ex cfg st c =
     (case build_payload_with_fallback_parallel (ex_px ex) (ex_env ex) (ex_net ex) cfg (lc_signal c) (lc_gas_price c)
             (lc_context_signal c) (ex_now ex) (lc_block_number c) (es_fleet st, es_cache st) of
        ((fleet, cache), built) \<Rightarrow>
          let st1 = st\<lparr>es_fleet := fleet, es_cache := cache\<rparr>
          in (case built of
                Inr payload \<Rightarrow>
                  (funnel ([''payload_built''] @ (if allow_send cfg then [] else [''shadow_payload_built''])) st1, Inr payload)
              | Inl report \<Rightarrow>
                  if \<not> ex_has_edge_sample ex report \<and> 2 ^ 64 \<le> uint (lc_gas_price c)
                  then (funnel [''payload_reject''] st1, Inl (Panics IntegerOverflow))
                  else reject [''payload_reject''] st1 (PayloadBuild report)))"

definition validation_stage ::
  "'db eval_ext \<Rightarrow> config \<Rightarrow> eval_state \<Rightarrow> lookup_decoded_candidate \<Rightarrow> execution_payload \<Rightarrow> unit stage" where
  "validation_stage ex cfg st c payload =
     (let report = validate_payload_ev (px_libm (ex_px ex)) cfg payload (lc_signal c) (lc_gas_price c)
      in if vr_pass report then (funnel [''ev_validation_pass''] st, Inr ())
         else reject [''ev_validation_failed'', ''ev_gate_reject''] st (EvValidation (vr_reason report)))"

section \<open>Evaluation: replay queue\<close>

definition replay_min_confidence :: "'db eval_ext \<Rightarrow> f64" where
  "replay_min_confidence ex = fclamp 0 1 (case ex_replay_min_confidence ex of Some v \<Rightarrow> v | None \<Rightarrow> dec 35 2)"

definition replay_min_repeat_count :: "'db eval_ext \<Rightarrow> u64" where
  "replay_min_repeat_count ex = of_nat (max 1 (min (case ex_replay_min_repeat ex of Some n \<Rightarrow> n | None \<Rightarrow> 3) 100))"

definition replay_repeat_count ::
  "((selector \<times> address \<times> message) \<Rightarrow> u64 option) lock \<Rightarrow> selector \<times> address \<times> message
    \<Rightarrow> ((selector \<times> address \<times> message) \<Rightarrow> u64 option) lock \<times> u64" where
  "replay_repeat_count counts key =
     (case counts of Poisoned m \<Rightarrow> (counts, 1)
      | Healthy m \<Rightarrow> let n = sat_add (case m key of Some v \<Rightarrow> v | None \<Rightarrow> 0) 1 in (Healthy (m(key \<mapsto> n)), n))"

fun blank_piece :: "piece \<Rightarrow> bool" where
  "blank_piece (Lit s) = list_all (\<lambda>c. c \<in> {CHR '' '', CHR 0x09, CHR 0x0A, CHR 0x0B, CHR 0x0C, CHR 0x0D}) s"
| "blank_piece _ = False"

definition replay_pool :: "execution_payload \<Rightarrow> message" where
  "replay_pool payload =
     (case pl_edge_metadata payload of
        Some sample \<Rightarrow> if list_all blank_piece (em_pool sample) \<or> em_pool sample = [Lit ''unknown'']
                       then [Hex (pl_pair payload)] else em_pool sample
      | None \<Rightarrow> [Hex (pl_pair payload)])"

definition maybe_enqueue_replay_candidate ::
  "'db eval_ext \<Rightarrow> eval_state \<Rightarrow> lookup_decoded_candidate \<Rightarrow> execution_payload \<Rightarrow> bool \<Rightarrow> eval_state" where
  "maybe_enqueue_replay_candidate ex st c payload economic_payload =
     (let s = lc_signal c; expected_profit = wei_to_eth_f64 (pl_expected_profit_wei payload)
      in if \<not> ex_replay_enabled ex \<or> \<not> economic_payload \<or> expected_profit \<le> 0
            \<or> sg_decode_confidence s < replay_min_confidence ex then st
         else let pool = replay_pool payload
              in case replay_repeat_count (es_replay_counts st) (sg_selector s, sg_router s, pool) of (counts, n) \<Rightarrow>
                   let st1 = st\<lparr>es_replay_counts := counts\<rparr>
                   in if n < replay_min_repeat_count ex \<or> ex_replay_capacity ex \<le> length (es_replay_queue st1) then st1
                      else funnel [''replay_candidate''] (st1\<lparr>es_replay_queue := es_replay_queue st1 @
                        [\<lparr>rc_tx_hash = ptx_hash (lc_tx c), rc_selector = sg_selector s, rc_target = sg_router s, rc_pool = pool,
                          rc_path = sg_path s, rc_amount_in = sg_amount_in s, rc_amount_out_min = sg_amount_out_min s,
                          rc_gas_gwei = wei_to_gwei_f64 (lc_gas_price c), rc_block_number = lc_block_number c,
                          rc_expected_profit = expected_profit, rc_confidence = sg_decode_confidence s,
                          rc_decode_source = sg_decode_source s, rc_gas_limit = pl_gas_limit payload\<rparr>]\<rparr>))"

definition economic_stage ::
  "'db eval_ext \<Rightarrow> config \<Rightarrow> eval_state \<Rightarrow> lookup_decoded_candidate \<Rightarrow> execution_payload \<Rightarrow> gate_diagnostic option stage" where
  "economic_stage ex cfg st c payload =
     (let diag = (if opportunity_mode (mev cfg) = Scavenger
            then Some (scavenger_economic_edge_diagnostic (ex_env ex) cfg payload (lc_gas_price c)) else None);
          economic_payload = (case diag of Some d \<Rightarrow> gd_pass d | None \<Rightarrow> True);
          st1 = funnel [if economic_payload then ''payload_to_quote_pass'' else ''payload_to_quote_reject''] st
      in (maybe_enqueue_replay_candidate ex st1 c payload economic_payload, Inr diag))"

section \<open>Evaluation: virtual machine\<close>

text \<open>Unlike the executor, the runtime clips a negative tick to zero and never replaces an account.\<close>

definition runtime_pool_override :: "amm_state \<Rightarrow> address \<times> account_state" where
  "runtime_pool_override st =
     (case st of
        AmmUniswapV2 pool \<Rightarrow>
          (v2_pair pool, account_state_empty\<lparr>as_storage := [(0, v2_reserve0 pool), (1, v2_reserve1 pool)]\<rparr>)
      | AmmUniswapV3 pool \<Rightarrow>
          (v3_pool pool, account_state_empty\<lparr>as_storage := [(0, v3_sqrt_price_x96 pool), (1, v3_liquidity pool),
             (2, word_of_int (max (v3_current_tick pool) 0))]\<rparr>))"

definition hm_or_insert :: "'k \<Rightarrow> 'v \<Rightarrow> ('k \<times> 'v) list \<Rightarrow> ('k \<times> 'v) list" where
  "hm_or_insert k v xs = (if k \<in> fst ` set xs then xs else xs @ [(k, v)])"

definition runtime_overrides :: "config \<Rightarrow> address \<times> account_state \<Rightarrow> (address \<times> account_state) list" where
  "runtime_overrides cfg pool =
     (let o1 = [pool];
          o2 = (case mev_executor (mev cfg) of Some a \<Rightarrow> hm_or_insert a account_state_empty o1 | None \<Rightarrow> o1);
          o3 = (case mev_executor_v3 (mev cfg) of Some a \<Rightarrow> hm_or_insert a account_state_empty o2 | None \<Rightarrow> o2)
      in hm_or_insert (profit_address cfg) account_state_empty o3)"

definition runtime_evm_preflight ::
  "'db eval_ext \<Rightarrow> config \<Rightarrow> lookup_decoded_candidate \<Rightarrow> execution_payload \<Rightarrow> preflight_error + evm_preflight_result" where
  "runtime_evm_preflight ex cfg c payload =
     evm_preflight_execution (ex_vm ex) (ex_keccak_empty ex) cfg
       \<lparr>tx_from = executor_address cfg, tx_to = Some (pl_target_contract payload), tx_input = pl_calldata payload,
        tx_value = pl_value payload, tx_gas_price = Some (victim_gas_price (lc_tx c)),
        tx_gas = ucast (pl_gas_limit payload), tx_nonce = tx_nonce (lc_tx c), tx_chain_id = Some (ucast (chain_id cfg))\<rparr>
       (lc_block_number c) (ex_timestamp ex) (runtime_overrides cfg (runtime_pool_override (pl_pool_state_before payload)))"

definition evm_stage ::
  "'db eval_ext \<Rightarrow> config \<Rightarrow> eval_state \<Rightarrow> lookup_decoded_candidate \<Rightarrow> execution_payload \<Rightarrow> unit stage" where
  "evm_stage ex cfg st c payload =
     (if \<not> rv_evm_preflight_enabled (ex_env ex) \<or> opportunity_mode (mev cfg) = Scavenger then (st, Inr ())
      else case runtime_evm_preflight ex cfg c payload of
             Inr result \<Rightarrow> if pf_success result then (st, Inr ()) else (st, Inl (Rejects EvmPreflightFailed))
           | Inl (PreflightPanic p) \<Rightarrow> (st, Inl (Panics p))
           | Inl _ \<Rightarrow> (st, Inl (Rejects EvmPreflightError)))"

section \<open>Evaluation: the opportunity\<close>

definition build_opportunity ::
  "instant \<Rightarrow> pending_transaction \<Rightarrow> swap_signal \<Rightarrow> execution_payload \<Rightarrow> string option \<Rightarrow> panic + mev_opportunity" where
  "build_opportunity now tx s payload preferred_relay =
     (case sg_path s of [] \<Rightarrow> Inl IndexOutOfBounds
      | token_in # _ \<Rightarrow>
          Inr \<lparr>op_detected_at = now, op_victim_tx = ptx_hash tx, op_victim_transaction = Some (transaction.truncate tx),
            op_execution_payload = Some payload, op_router = sg_router s, op_token_in = token_in,
            op_token_out = last (sg_path s), op_selector = sg_selector s, op_decode_source = sg_decode_source s,
            op_decode_confidence = sg_decode_confidence s, op_preferred_relay = preferred_relay\<rparr>)"

definition capital_efficiency_of :: "config \<Rightarrow> execution_payload \<Rightarrow> f64 \<Rightarrow> f64" where
  "capital_efficiency_of cfg payload ev_usd =
     fclamp 0 1 (fmax (ev_usd / fmax (wei_to_eth_f64 (pl_capital_committed_wei payload)) (dec 1 9)) 0
       / fmax (eth_usd_price (mev cfg)) 1)"

definition ready ::
  "'db eval_ext \<Rightarrow> config \<Rightarrow> string list \<Rightarrow> eval_state \<Rightarrow> lookup_decoded_candidate \<Rightarrow> execution_payload \<Rightarrow> string option
    \<Rightarrow> f64 \<Rightarrow> f64 \<Rightarrow> f64 \<Rightarrow> f64 \<Rightarrow> pending_execution_candidate stage" where
  "ready ex cfg stages st c payload relay ev p_positive relay_score priority =
     (case build_opportunity (ex_now ex) (lc_tx c) (lc_signal c) payload relay of
        Inl p \<Rightarrow> (st, Inl (Panics p))
      | Inr opportunity \<Rightarrow>
          (funnel stages st, Inr \<lparr>pc_opportunity = opportunity, pc_ev_real_usd = ev, pc_p_positive = p_positive,
             pc_capital_efficiency = capital_efficiency_of cfg payload ev, pc_relay_score = relay_score,
             pc_context_priority_score = priority\<rparr>))"

definition scavenger_stage ::
  "'db eval_ext \<Rightarrow> config \<Rightarrow> fast_preflight_decision \<Rightarrow> eval_state \<Rightarrow> lookup_decoded_candidate \<Rightarrow> execution_payload
    \<Rightarrow> gate_diagnostic \<Rightarrow> pending_execution_candidate stage" where
  "scavenger_stage ex cfg gate st c payload economic =
     (if \<not> gd_pass economic then reject [''shadow_research_reject''] st (ScavengerDustEdge (gd_reason economic))
      else case passes_scavenger_sanity_gate cfg payload (lc_lookup_latency c) of
        Inl reason \<Rightarrow> reject [''ev_gate_reject''] st (ScavengerSanity reason)
      | Inr _ \<Rightarrow>
          let st1 = funnel [''ev_gate_pass'', ''quote_attempt'', ''adaptive_quote_candidate''] st;
              quote_diag = scavenger_war_quote_diagnostic cfg payload (lc_signal c) (lc_gas_price c) economic
          in if \<not> gd_pass quote_diag
             then reject [''quote_failure'', ''adaptive_quote_reject'', ''execution_ready_candidate'', ''execution_ready_reject'']
                    st1 (ScavengerQuote (gd_reason quote_diag))
             else ready ex cfg [''execution_ready'']
                    (funnel [''quote_success'', ''adaptive_quote_pass'', ''execution_ready_candidate''] st1) c payload None
                    (fmax (gd_net_ev_usd quote_diag) 0)
                    (fclamp (dec 5 2) (dec 98 2) (dec 45 2 + fp_scavenger_try_score gate * dec 50 2))
                    (fclamp 0 1 (fp_gas_ratio gate)) (cs_priority_score (lc_context_signal c)))"

definition adaptive_input ::
  "config \<Rightarrow> lookup_decoded_candidate \<Rightarrow> execution_payload \<Rightarrow> u256 \<Rightarrow> adaptive_quote_input" where
  "adaptive_input cfg c payload execution_cost_wei =
     \<lparr>qi_cluster = lc_cluster c, qi_pair = pl_pair payload, qi_hour_utc = lc_hour_utc c,
      qi_context_priority_score = cs_priority_score (lc_context_signal c),
      qi_context_toxicity_score = cs_toxicity_score (lc_context_signal c),
      qi_expected_profit_wei = pl_expected_profit_wei payload, qi_execution_cost_wei = execution_cost_wei,
      qi_gas_price_wei = lc_gas_price c, qi_lookup_latency_ms = millis_f64 (lc_lookup_latency c),
      qi_notional_eth = wei_to_eth_f64 (sg_notional_wei (lc_signal c)), qi_price_impact_bps = pl_price_impact_bps payload,
      qi_relay_pressure_override = None\<rparr>"

definition quote_stage ::
  "'db eval_ext \<Rightarrow> config \<Rightarrow> eval_state \<Rightarrow> lookup_decoded_candidate \<Rightarrow> execution_payload \<Rightarrow> u256 \<Rightarrow> adaptive_quote stage" where
  "quote_stage ex cfg st c payload execution_cost_wei =
     (let st1 = funnel [''quote_attempt'', ''adaptive_quote_candidate''] st
      in case es_adaptive st1 of
           Poisoned _ \<Rightarrow>
             reject [''quote_failure'', ''adaptive_quote_error'', ''execution_ready_candidate'', ''execution_ready_reject'']
               st1 AdaptiveModelLockFailed
         | Healthy model \<Rightarrow>
             (case quote_for_relays (px_libm (ex_px ex)) (ex_quote_times ex) model
                     (adaptive_input cfg c payload execution_cost_wei) (builder_relays cfg) of (model', q) \<Rightarrow>
                let st2 = st1\<lparr>es_adaptive := Healthy model'\<rparr>
                in if \<not> aq_should_execute q \<and> \<not> should_override_adaptive_reject cfg q
                   then reject [''quote_failure'', ''adaptive_quote_reject'', ''execution_ready_candidate'',
                                ''execution_ready_reject''] st2 (AdaptiveReject (aq_reject_reason q))
                   else (funnel [''quote_success'', ''adaptive_quote_pass''] st2, Inr q)))"

definition standard_stage ::
  "'db eval_ext \<Rightarrow> config \<Rightarrow> u256 \<Rightarrow> eval_state \<Rightarrow> lookup_decoded_candidate \<Rightarrow> execution_payload
    \<Rightarrow> pending_execution_candidate stage" where
  "standard_stage ex cfg min_profit_wei st c payload =
     (let ev_diag = ev_gate_diagnostic (ex_env ex) cfg payload (lc_signal c) (lc_lookup_latency c) min_profit_wei
      in if \<not> gd_pass ev_diag then reject [''ev_gate_reject''] st (EvGate (gd_reason ev_diag))
         else let st1 = funnel [''ev_gate_pass''] st;
                  execution_cost_wei = safety_gas_cost cfg payload (lc_gas_price c);
                  quality = quality_gate_diagnostic cfg payload execution_cost_wei
              in if \<not> gd_pass quality
                 then reject [''execution_ready_candidate'', ''execution_ready_reject''] st1 (QualityGate (gd_reason quality))
                 else stage_then (quote_stage ex cfg st1 c payload execution_cost_wei) (\<lambda>st2 q.
                        ready ex cfg [''execution_ready_candidate'', ''execution_ready''] st2 c payload (aq_selected_relay q)
                          (aq_ev_real_usd q) (aq_p_positive q) (aq_builder_pressure q) (aq_context_priority_score q)))"

definition process_evaluation_task ::
  "'db eval_ext \<Rightarrow> config \<Rightarrow> u256 \<Rightarrow> u256 \<Rightarrow> eval_state \<Rightarrow> lookup_decoded_candidate \<Rightarrow> pending_execution_candidate stage" where
  "process_evaluation_task ex cfg min_large_default min_profit_default st c =
     (let parse = rv_parse_ether_shown (ex_env ex);
          min_large_swap_wei = (case parse (effective_min_large_swap_eth (mev cfg)) of Inr v \<Rightarrow> v | Inl _ \<Rightarrow> min_large_default);
          min_profit_wei = (case parse (effective_min_net_profit_eth (mev cfg)) of Inr v \<Rightarrow> v | Inl _ \<Rightarrow> min_profit_default)
      in stage_then (fast_stage ex cfg min_large_swap_wei st c) (\<lambda>st gate.
         stage_then (policy_stage ex cfg st c) (\<lambda>st _.
         stage_then (payload_stage ex cfg st c) (\<lambda>st payload.
         stage_then (validation_stage ex cfg st c payload) (\<lambda>st _.
         stage_then (economic_stage ex cfg st c payload) (\<lambda>st diag.
         stage_then (evm_stage ex cfg st c payload) (\<lambda>st _.
           case diag of
             Some economic \<Rightarrow> scavenger_stage ex cfg gate st c payload economic
           | None \<Rightarrow> standard_stage ex cfg min_profit_wei st c payload)))))))"

section \<open>The main loop\<close>

datatype mempool_item = MempoolHash h256 | MempoolFull pending_transaction

fun mempool_item_hash :: "mempool_item \<Rightarrow> h256" where
  "mempool_item_hash (MempoolHash h) = h"
| "mempool_item_hash (MempoolFull tx) = ptx_hash tx"

record runtime_state =
  rs_seen :: "h256 set"
  rs_order :: "h256 list"
  rs_backpressure :: pending_lookup_backpressure
  rs_queue :: "pending_hash_task list"
  rs_batch :: micro_batcher
  rs_engine :: execution_engine

datatype run_error = HandleError string | RunPanic panic

text \<open>
  The outcomes with which \<open>handle\<close> returns an error. A transaction that every path refused is one of them.
\<close>

fun handle_error :: "handle_outcome \<Rightarrow> string option" where
  "handle_error (WalletError e) = Some e"
| "handle_error (ContextError e) = Some e"
| "handle_error (SignError e) = Some e"
| "handle_error (NotAccepted tx e) = Some e"
| "handle_error _ = None"

definition flush_candidate_batch :: "'db net \<Rightarrow> config \<Rightarrow> instant \<Rightarrow> runtime_state \<Rightarrow> run_error + runtime_state" where
  "flush_candidate_batch nt cfg now rs =
     (case drain_best (rs_batch rs) now of
        (b, None) \<Rightarrow> Inr rs
      | (b, Some (best, dropped)) \<Rightarrow>
          (case handle nt cfg (rs_engine rs) now (pc_opportunity best) of
             Inl p \<Rightarrow> Inl (RunPanic p)
           | Inr (en, outcome) \<Rightarrow>
               (case handle_error outcome of Some e \<Rightarrow> Inl (HandleError e)
                | None \<Rightarrow> Inr (rs\<lparr>rs_batch := b, rs_engine := en\<rparr>))))"

text \<open>
  What the select of the loop yields. \<open>PausedItem\<close> is an item that arrives while the dashboard has paused
  the runtime.
\<close>

datatype run_event =
  MempoolItem mempool_item | PausedItem mempool_item | ReadyCandidate pending_execution_candidate | FlushTick

text \<open>A lookup task is enqueued when the channel has room; with no room the loop waits for the workers.\<close>

definition receive_item ::
  "bool \<Rightarrow> runtime_env \<Rightarrow> config \<Rightarrow> instant \<Rightarrow> nat \<Rightarrow> mempool_item \<Rightarrow> runtime_state \<Rightarrow> run_error + runtime_state" where
  "receive_item avx2 env cfg now queue_remaining item rs =
     (case mark_seen_tx (rs_seen rs) (rs_order rs) (mempool_item_hash item) of ((seen, order), fresh) \<Rightarrow>
        let rs1 = rs\<lparr>rs_seen := seen, rs_order := order\<rparr>
        in if \<not> fresh then Inr rs1
           else case item of
             MempoolHash h \<Rightarrow>
               (case should_enqueue env cfg (en_rpc_fleet (rs_engine rs1)) (rs_backpressure rs1) now queue_remaining of
                  ((fleet, bp), allowed) \<Rightarrow>
                    let rs2 = rs1\<lparr>rs_backpressure := bp, rs_engine := (rs_engine rs1)\<lparr>en_rpc_fleet := fleet\<rparr>\<rparr>
                    in Inr (if allowed then rs2\<lparr>rs_queue := rs_queue rs2 @ [\<lparr>pt_tx_hash = h, pt_pending_tx = None\<rparr>]\<rparr>
                            else rs2))
           | MempoolFull tx \<Rightarrow>
               (case pre_decode_tx_gate avx2 env cfg tx of
                  Inl p \<Rightarrow> Inl (RunPanic p)
                | Inr (Some reason) \<Rightarrow> Inr rs1
                | Inr None \<Rightarrow> Inr (rs1\<lparr>rs_queue := rs_queue rs1 @ [\<lparr>pt_tx_hash = ptx_hash tx, pt_pending_tx = Some tx\<rparr>]\<rparr>)))"

definition run_step ::
  "'db net \<Rightarrow> bool \<Rightarrow> runtime_env \<Rightarrow> config \<Rightarrow> instant \<Rightarrow> nat \<Rightarrow> run_event \<Rightarrow> runtime_state \<Rightarrow> run_error + runtime_state" where
  "run_step nt avx2 env cfg now queue_remaining e rs =
     (case e of
        MempoolItem item \<Rightarrow> receive_item avx2 env cfg now queue_remaining item rs
      | PausedItem item \<Rightarrow> Inr rs
      | ReadyCandidate c \<Rightarrow>
          let rs1 = rs\<lparr>rs_batch := batch_push (rs_batch rs) now c\<rparr>
          in if should_flush (rs_batch rs1) now then flush_candidate_batch nt cfg now rs1 else Inr rs1
      | FlushTick \<Rightarrow> if should_flush (rs_batch rs) now then flush_candidate_batch nt cfg now rs else Inr rs)"

text \<open>
  An event comes with the answers of the network while it is handled, its instant and the room in the
  task queue. Once a step fails the loop has returned; \<open>main\<close> reports the error and does not start it
  again.
\<close>

fun run_events ::
  "bool \<Rightarrow> runtime_env \<Rightarrow> config \<Rightarrow> ('db net \<times> instant \<times> nat \<times> run_event) list \<Rightarrow> runtime_state
    \<Rightarrow> run_error + runtime_state" where
  "run_events avx2 env cfg [] rs = Inr rs"
| "run_events avx2 env cfg ((nt, now, queue_remaining, e) # es) rs =
     and_then (run_step nt avx2 env cfg now queue_remaining e rs) (run_events avx2 env cfg es)"

text \<open>When its channels are closed the loop ends, and what is still in the batch is flushed once.\<close>

definition run_loop ::
  "bool \<Rightarrow> runtime_env \<Rightarrow> config \<Rightarrow> ('db net \<times> instant \<times> nat \<times> run_event) list \<Rightarrow> 'db net \<times> instant \<Rightarrow> runtime_state
    \<Rightarrow> run_error + runtime_state" where
  "run_loop avx2 env cfg es final rs =
     and_then (run_events avx2 env cfg es rs) (\<lambda>rs1.
       if mb_candidates (rs_batch rs1) \<noteq> [] then flush_candidate_batch (fst final) cfg (snd final) rs1 else Inr rs1)"

end
