(* ===== verification/RuntimeSafety.thy ===== *)
theory RuntimeSafety
  imports RuntimeGates "HOL-Library.Multiset"
begin

text \<open>
  Correctness of the runtime's own state: the filter of duplicate hashes refines a bounded first-in
  first-out window, the micro batch hands out its candidates best first and loses none, the lookup
  throttle keeps its counters within the budget, reconnects back off within their cap. Two gates do less
  than they mean to, and one panics under a permitted configuration.
\<close>

section \<open>Duplicate filter\<close>

definition seen_window :: "h256 list \<Rightarrow> h256 list" where
  "seen_window fresh = drop (length fresh - 8192) fresh"

lemma length_seen_window: "length (seen_window fresh) \<le> 8192"
  by (simp add: seen_window_def)

lemma evict_oldest_set:
  "distinct order \<Longrightarrow> evict_oldest (set order) order = (set (seen_window order), seen_window order)"
proof (induction order)
  case Nil
  then show ?case by (simp add: seen_window_def)
next
  case (Cons old order)
  have same: "set (old # order) - {old} = set order" using Cons.prems by auto
  show ?case
  proof (cases "8192 < length (old # order)")
    case True
    then have "seen_window (old # order) = seen_window order" by (simp add: seen_window_def drop_Cons')
    with True Cons show ?thesis by (simp only: evict_oldest.simps if_True same) simp
  next
    case False
    then show ?thesis by (simp add: seen_window_def)
  qed
qed

text \<open>Every hash received, in order: the filter's state and the hashes it let through.\<close>

fun filter_hashes :: "h256 set \<times> h256 list \<Rightarrow> h256 list \<Rightarrow> (h256 set \<times> h256 list) \<times> h256 list" where
  "filter_hashes st [] = (st, [])"
| "filter_hashes st (h # hs) =
     (case mark_seen_tx (fst st) (snd st) h of (st', fresh) \<Rightarrow>
        case filter_hashes st' hs of (st'', passed) \<Rightarrow> (st'', if fresh then h # passed else passed))"

lemma filter_hashes_append:
  "filter_hashes st (hs @ hs') =
     (case filter_hashes st hs of (st', passed) \<Rightarrow> case filter_hashes st' hs' of (st'', passed') \<Rightarrow> (st'', passed @ passed'))"
  by (induction hs arbitrary: st) (auto split: prod.splits)

text \<open>The specification: a hash passes unless it is among the last 8192 that passed.\<close>

fun pass_unless_recent :: "h256 list \<Rightarrow> h256 list \<Rightarrow> h256 list" where
  "pass_unless_recent passed [] = passed"
| "pass_unless_recent passed (h # hs) =
     pass_unless_recent (if h \<in> set (seen_window passed) then passed else passed @ [h]) hs"

lemma pass_unless_recent_append:
  "pass_unless_recent passed (hs @ hs') = pass_unless_recent (pass_unless_recent passed hs) hs'"
  by (induction hs arbitrary: passed) auto

lemma seen_window_snoc: "seen_window (seen_window fresh @ [h]) = seen_window (fresh @ [h])"
proof (cases "8192 \<le> length fresh")
  case True
  then have "length fresh - 8191 = Suc (length fresh - 8192)" by simp
  with True show ?thesis by (simp add: seen_window_def)
qed (simp add: seen_window_def)

definition windows_distinct :: "h256 list \<Rightarrow> bool" where
  "windows_distinct passed \<longleftrightarrow> distinct (seen_window passed)"

lemma windows_distinct_pass:
  assumes "windows_distinct passed" and "h \<notin> set (seen_window passed)"
  shows "distinct (seen_window passed @ [h])" and "windows_distinct (passed @ [h])"
proof -
  show d: "distinct (seen_window passed @ [h])" using assms by (simp add: windows_distinct_def)
  then have "distinct (seen_window (seen_window passed @ [h]))"
    unfolding seen_window_def [of "seen_window passed @ [h]"] by (rule distinct_drop)
  then show "windows_distinct (passed @ [h])" by (simp add: windows_distinct_def seen_window_snoc)
qed

lemma filter_hashes_refines:
  assumes "windows_distinct passed"
  shows "filter_hashes (set (seen_window passed), seen_window passed) hs
       = (let all = pass_unless_recent passed hs in ((set (seen_window all), seen_window all), drop (length passed) all))
     \<and> windows_distinct (pass_unless_recent passed hs) \<and> take (length passed) (pass_unless_recent passed hs) = passed"
  using assms
proof (induction hs arbitrary: passed)
  case Nil
  then show ?case by simp
next
  case (Cons h hs)
  show ?case
  proof (cases "h \<in> set (seen_window passed)")
    case True
    then show ?thesis using Cons.IH [OF Cons.prems] by (simp add: mark_seen_tx_def Let_def)
  next
    case False
    note d = windows_distinct_pass [OF Cons.prems False]
    have "evict_oldest (insert h (set (seen_window passed))) (seen_window passed @ [h])
        = (set (seen_window (passed @ [h])), seen_window (passed @ [h]))"
      using evict_oldest_set [OF d(1)] by (simp add: seen_window_snoc)
    moreover
    let ?all = "pass_unless_recent (passed @ [h]) hs"
    have IH: "filter_hashes (set (seen_window (passed @ [h])), seen_window (passed @ [h])) hs
        = ((set (seen_window ?all), seen_window ?all), drop (length (passed @ [h])) ?all)"
      "windows_distinct ?all" "take (length (passed @ [h])) ?all = passed @ [h]"
      using Cons.IH [OF d(2)] by (simp_all add: Let_def)
    then have split: "?all = passed @ h # drop (Suc (length passed)) ?all"
      using append_take_drop_id [of "length (passed @ [h])" ?all] by simp
    then have "drop (length passed) ?all = h # drop (Suc (length passed)) ?all" "take (length passed) ?all = passed"
      by (metis append_eq_conv_conj)+
    ultimately show ?thesis using False IH by (simp add: mark_seen_tx_def Let_def)
  qed
qed

text \<open>
  C9: the filter of pending hashes refines a bounded window: whatever hashes arrive, those it lets
  through are exactly the ones that are not among the last 8192 let through before, its set is the
  contents of its queue, and the queue has no duplicates and at most 8192 entries.
\<close>

theorem duplicate_filter_refines_window:
  "filter_hashes ({}, []) hs =
     (let passed = pass_unless_recent [] hs in ((set (seen_window passed), seen_window passed), passed))
   \<and> distinct (seen_window (pass_unless_recent [] hs)) \<and> length (seen_window (pass_unless_recent [] hs)) \<le> 8192"
  using filter_hashes_refines [of "[]" hs]
  by (simp add: windows_distinct_def length_seen_window) (simp add: seen_window_def)

section \<open>Micro batch\<close>

text \<open>A store of candidates that is emptied best first.\<close>

locale best_first =
  fixes take_best :: "'t \<Rightarrow> 's \<Rightarrow> 's \<times> ('a \<times> nat) option"
    and contents :: "'s \<Rightarrow> 'a list"
    and better :: "'a \<Rightarrow> 'a \<Rightarrow> bool"
  assumes empty_none: "snd (take_best t s) = None \<longleftrightarrow> contents s = []"
    and takes: "take_best t s = (s', Some (x, n)) \<Longrightarrow>
        mset (contents s) = add_mset x (mset (contents s')) \<and> n = length (contents s')"
    and best: "take_best t s = (s', Some (x, n)) \<Longrightarrow> y \<in> set (contents s) \<Longrightarrow> better y x"
begin

fun take_all :: "'t list \<Rightarrow> 's \<Rightarrow> 'a list" where
  "take_all [] s = []"
| "take_all (t # ts) s = (case take_best t s of (s', Some (x, _)) \<Rightarrow> x # take_all ts s' | _ \<Rightarrow> [])"

lemma take_all_sorted:
  assumes "length (contents s) \<le> length ts"
  shows "mset (take_all ts s) = mset (contents s) \<and> sorted_wrt (\<lambda>x y. better y x) (take_all ts s)"
  using assms
proof (induction ts arbitrary: s)
  case Nil
  then show ?case by simp
next
  case (Cons t ts)
  obtain s' r where t: "take_best t s = (s', r)" by (cases "take_best t s")
  show ?case
  proof (cases r)
    case None
    then show ?thesis using t empty_none [of t s] by simp
  next
    case (Some p)
    obtain x n where p: "p = (x, n)" by (cases p)
    have m: "mset (contents s) = add_mset x (mset (contents s'))" using takes t Some p by simp
    then have "length (contents s') \<le> length ts" using Cons.prems by (metis length_Cons Suc_le_mono size_add_mset size_mset)
    note IH = Cons.IH [OF this]
    have "better y x" if "y \<in> set (take_all ts s')" for y
    proof -
      have "y \<in># mset (contents s)" using that IH m by (metis insert_iff set_mset_add_mset_insert set_mset_mset)
      then show ?thesis using best t Some p by simp
    qed
    then show ?thesis using t Some p IH m by simp
  qed
qed

end

lemma swap_remove_mset:
  assumes "i < length xs"
  shows "mset xs = add_mset (xs ! i) (mset (swap_remove i xs))" and "length (swap_remove i xs) = length xs - 1"
proof -
  obtain ys y where xs: "xs = ys @ [y]" using assms by (cases xs rule: rev_cases) auto
  show "mset xs = add_mset (xs ! i) (mset (swap_remove i xs))"
    using assms by (auto simp: xs swap_remove_def nth_append list_update_append mset_update less_Suc_eq)
  show "length (swap_remove i xs) = length xs - 1" by (simp add: swap_remove_def)
qed

lemma total_ranking: "total_comparison (\<lambda>l r. total_le (ranking_score (snd l)) (ranking_score (snd r)))"
  by unfold_locales (auto intro: total_le_trans simp: total_le_total)

lemma drain_best_Some:
  assumes "drain_best b now = (b', Some (c, n))"
  shows "\<exists>i < length (mb_candidates b). c = mb_candidates b ! i \<and> mb_candidates b' = swap_remove i (mb_candidates b)
     \<and> n = length (mb_candidates b') \<and> (mb_opened_at b' = None \<longleftrightarrow> mb_candidates b' = [])
     \<and> (\<forall>d \<in> set (mb_candidates b). total_le (ranking_score d) (ranking_score c))"
proof -
  let ?le = "\<lambda>l r. total_le (ranking_score (snd l)) (ranking_score (snd r))"
  obtain i where m: "max_by ?le (enumerate 0 (mb_candidates b)) = Some (i, c)"
    and b': "mb_candidates b' = swap_remove i (mb_candidates b)" "n = length (mb_candidates b')"
      "mb_opened_at b' = None \<longleftrightarrow> mb_candidates b' = []"
    using assms by (auto simp: drain_best_def Let_def split: option.splits)
  have "(i, c) \<in> set (enumerate 0 (mb_candidates b))" by (rule total_comparison.max_by_in [OF total_ranking m])
  then have i: "i < length (mb_candidates b)" "c = mb_candidates b ! i" by (auto simp: in_set_enumerate_eq)
  have "total_le (ranking_score d) (ranking_score c)" if d: "d \<in> set (mb_candidates b)" for d
  proof -
    obtain j where "j < length (mb_candidates b)" "mb_candidates b ! j = d" using d by (auto simp: in_set_conv_nth)
    then have "(j, d) \<in> set (enumerate 0 (mb_candidates b))" by (simp add: in_set_enumerate_eq)
    from total_comparison.max_by_upper [OF total_ranking m this] show ?thesis by simp
  qed
  with i b' show ?thesis by (intro exI [of _ i]) simp
qed

lemma drain_best_None: "snd (drain_best b now) = None \<longleftrightarrow> mb_candidates b = []"
  by (auto simp: drain_best_def Let_def split: option.splits)
    (metis length_0_conv length_enumerate)+

interpretation batch: best_first "\<lambda>now b. drain_best b now" mb_candidates
  "\<lambda>x y. total_le (ranking_score x) (ranking_score y)"
proof unfold_locales
  show "snd (drain_best b now) = None \<longleftrightarrow> mb_candidates b = []" for now b by (rule drain_best_None)
  show "mset (mb_candidates b) = add_mset c (mset (mb_candidates b')) \<and> n = length (mb_candidates b')"
    if "drain_best b now = (b', Some (c, n))" for now b b' c n
    using drain_best_Some [OF that] swap_remove_mset(1) by metis
  show "total_le (ranking_score d) (ranking_score c)"
    if "drain_best b now = (b', Some (c, n))" "d \<in> set (mb_candidates b)" for now b b' c n d
    using drain_best_Some [OF that(1)] that(2) by blast
qed

text \<open>
  C18: the micro batch loses no candidate and hands them out best first: whatever was pushed, draining
  it at as many instants returns a permutation of the pushed candidates in which no later one has a
  higher ranking score, and the window is open exactly while a candidate waits.
\<close>

theorem batch_drains_best_first:
  fixes pushes :: "(instant \<times> pending_execution_candidate) list"
  defines "b \<equiv> foldl (\<lambda>b (now, c). batch_push b now c) \<lparr>mb_opened_at = None, mb_candidates = []\<rparr> pushes"
  assumes "length pushes \<le> length nows"
  shows "mset (batch.take_all nows b) = mset (map snd pushes)
    \<and> sorted_wrt (\<lambda>earlier later. total_le (ranking_score later) (ranking_score earlier)) (batch.take_all nows b)
    \<and> (mb_opened_at b = None \<longleftrightarrow> pushes = [])
    \<and> (\<forall>now b' c n. drain_best b now = (b', Some (c, n)) \<longrightarrow> (mb_opened_at b' = None \<longleftrightarrow> mb_candidates b' = []))"
proof -
  have pushed: "mb_candidates (foldl (\<lambda>b (now, c). batch_push b now c) b0 pushes) = mb_candidates b0 @ map snd pushes
      \<and> (mb_opened_at (foldl (\<lambda>b (now, c). batch_push b now c) b0 pushes) = None
           \<longleftrightarrow> mb_opened_at b0 = None \<and> pushes = [])" for b0 pushes
    by (induction pushes arbitrary: b0) (auto simp: batch_push_def split: if_splits)
  have "mb_candidates b = map snd pushes" "mb_opened_at b = None \<longleftrightarrow> pushes = []"
    using pushed [of "\<lparr>mb_opened_at = None, mb_candidates = []\<rparr>" pushes] by (simp_all add: b_def)
  then show ?thesis
    using batch.take_all_sorted [of b nows] assms(2) drain_best_Some by (fastforce simp: drain_best_None)
qed


definition demo_scored :: "f64 \<Rightarrow> pending_execution_candidate" where
  "demo_scored ev = \<lparr>pc_opportunity = \<lparr>op_detected_at = 0, op_victim_tx = 99, op_victim_transaction = None,
       op_execution_payload = None, op_router = 1, op_token_in = 2, op_token_out = 3, op_selector = [],
       op_decode_source = [], op_decode_confidence = 1, op_preferred_relay = None\<rparr>,
     pc_ev_real_usd = ev, pc_p_positive = 1, pc_capital_efficiency = 1, pc_relay_score = 0, pc_context_priority_score = 1\<rparr>"

theorem batch_drains_best_first_witness:
  "mset (batch.take_all [6, 7] (foldl (\<lambda>b (now, c). batch_push b now c) \<lparr>mb_opened_at = None, mb_candidates = []\<rparr>
       [(0, demo_scored 1), (5, demo_scored (dec 2 0))])) = {#demo_scored 1, demo_scored (dec 2 0)#}"
  using batch_drains_best_first [of "[(0, demo_scored 1), (5, demo_scored (dec 2 0))]" "[6, 7]"] by simp

section \<open>Lookup throttle\<close>

lemma div_upto:
  assumes "0 < d" and "n < (k + 1) * d"
  shows "n div d \<le> (k :: int)"
proof -
  have "n div d * d \<le> n" using div_mult_mod_eq [of n d] pos_mod_sign [OF assms(1), of n] by linarith
  then have "n div d * d < (k + 1) * d" using assms(2) by simp
  then show ?thesis using assms(1) by (simp add: mult_less_cancel_right)
qed

lemma round_away_fraction:
  assumes "0 \<le> signed s m" "signed s m \<le> k * d" "0 < d"
  defines "r \<equiv> (2 * \<bar>m\<bar> + d) div (2 * d)"
  shows "0 \<le> r" and "r \<le> k \<or> r = 0"
proof -
  have m: "\<bar>m\<bar> = signed s m" using assms(1) by (auto simp: signed_def split: if_splits)
  show "0 \<le> r" using assms(3) by (simp add: r_def pos_imp_zdiv_nonneg_iff)
  have "(k + 1) * (2 * d) = 2 * (k * d) + 2 * d" by (simp add: algebra_simps)
  then have "2 * \<bar>m\<bar> + d < (k + 1) * (2 * d)" using assms(2,3) m by linarith
  then have "r \<le> k" using assms(3) unfolding r_def by (intro div_upto) simp_all
  then show "r \<le> k \<or> r = 0" ..
qed

lemma within_round_away:
  assumes "in_range 0 (of_int k) x" and k: "k \<le> 2 ^ 53"
  shows "in_range 0 (of_int k) (fround_away x)"
proof -
  obtain s m e where x: "x = Fin s m e" using assms(1) by (cases x) (auto simp: in_range_def)
  have k0: "0 \<le> k" using assms(1) by (auto simp: in_range_def)
  show ?thesis
  proof (cases "0 \<le> e")
    case True
    then show ?thesis using assms(1) x by simp
  next
    case False
    define d where "d = (2 :: int) ^ nat (- e)"
    have d: "0 < d" by (simp add: d_def)
    have v: "fval x = of_int (signed s m) / of_int d"
      using False by (simp add: x d_def power_int_def field_simps)
    have sm: "0 \<le> signed s m" using assms(1) d v by (simp add: in_range_def zero_le_divide_iff)
    moreover have "real_of_int (signed s m) \<le> of_int (k * d)"
      using assms(1) d v by (simp add: in_range_def divide_le_eq)
    then have "signed s m \<le> k * d" by linarith
    ultimately have r: "0 \<le> (2 * \<bar>m\<bar> + d) div (2 * d)" "(2 * \<bar>m\<bar> + d) div (2 * d) \<le> k \<or> (2 * \<bar>m\<bar> + d) div (2 * d) = 0"
      using round_away_fraction [of s m k d] d by blast+
    define r where "r = (2 * \<bar>m\<bar> + d) div (2 * d)"
    have out: "fround_away x = (if r = 0 then Fin s 0 0 else fround s r 1)"
      using False by (simp add: x r_def d_def Let_def)
    show ?thesis
    proof (cases "r = 0")
      case True
      then show ?thesis using out k0 by (simp add: in_range_def signed_def)
    next
      case False
      have "\<not> s"
      proof
        assume s
        then have "m = 0" using sm by (simp add: signed_def)
        then show False using False d by (simp add: r_def)
      qed
      then have "rounds_to (fround_away x) (of_int r)"
        using fround_rounds_to [of r 1 False] r out False by (simp add: r_def)
      then show ?thesis
        using r k k0 False by (intro rounds_to_within_ok [of _ "of_int r"] bound_ok_int) (auto simp: r_def)
    qed
  qed
qed

lemma f_as_word_ge:
  assumes "in_range (of_int k) hi x" and "0 \<le> k" and "k < 2 ^ LENGTH('a)"
  shows "word_of_int k \<le> (f_as_word x :: 'a::len word)"
proof -
  obtain s m e where x: "x = Fin s m e" using assms(1) by (cases x) (auto simp: in_range_def)
  show ?thesis
  proof (cases "k = 0")
    case False
    then have pos: "0 < fval x" "of_int k \<le> fval x" using assms by (auto simp: in_range_def)
    have s: "\<not> s" "signed s m = \<bar>m\<bar>"
      using pos(1) by (auto simp: x signed_def zero_less_mult_iff power_int_def split: if_splits)
    have "k \<le> magnitude m e"
    proof (cases "0 \<le> e")
      case True
      then have "fval x = of_int (magnitude m e)" using s by (simp add: x power_int_def)
      then show ?thesis using pos(2) by linarith
    next
      case False
      then have "fval x = of_int \<bar>m\<bar> / of_int (2 ^ nat (- e))" using s by (simp add: x power_int_def field_simps)
      then have "real_of_int (k * 2 ^ nat (- e)) \<le> of_int \<bar>m\<bar>" using pos(2) by (simp add: le_divide_eq)
      then have "k * 2 ^ nat (- e) \<le> \<bar>m\<bar>" by linarith
      then have "k * 2 ^ nat (- e) div 2 ^ nat (- e) \<le> \<bar>m\<bar> div 2 ^ nat (- e)" by (rule zdiv_mono1) simp
      then show ?thesis using False by simp
    qed
    then show ?thesis using assms(2,3) s x
      by (auto simp: word_le_def uint_word_of_int uint_minus_1 simp del: magnitude.simps)
  qed simp
qed

lemma budget_base:
  "(if configured \<noteq> None then min (clampw 1 1000 b0) cap else min (case mode of Conservative \<Rightarrow> 60 | Aggressive \<Rightarrow> 90 | Scavenger \<Rightarrow> 25) cap)
     \<le> (1000 :: u64)"
  using clampw_bounds [of 1 "1000 :: u64" b0]
  by (cases mode) (auto intro: order_trans [OF min.cobounded1])

lemma budget_bounds:
  "4 \<le> effective_pending_lookup_budget_for_mode mode configured p"
  "effective_pending_lookup_budget_for_mode mode configured p \<le> 1000"
proof -
  define base :: u64 where "base =
    (let base0 = (case configured of Some v \<Rightarrow> v
            | None \<Rightarrow> (case mode of Conservative \<Rightarrow> 60 | Aggressive \<Rightarrow> 90 | Scavenger \<Rightarrow> 25));
          healthy_reader_cap = max (lp_available_read_capacity_per_sec p)
            (case mode of Scavenger \<Rightarrow> 4 | Aggressive \<Rightarrow> 10 | Conservative \<Rightarrow> 8)
     in if configured \<noteq> None then min (clampw 1 1000 base0) healthy_reader_cap else min base0 healthy_reader_cap)"
  define y where "y = fround_away (of_uw base * pressure_multiplier (configured \<noteq> None) p)"
  define lowest where "lowest = (if lp_available_readers p = 0 then dec 4 0 else dec 10 0)"
  have "base \<le> 1000" using budget_base [of configured _ _ mode] unfolding base_def Let_def by (cases configured) auto
  then have "uint base \<le> 1000" by (simp add: word_le_def)
  then have "real_of_int (uint base) \<le> of_int 1000" "real_of_int 0 \<le> of_int (uint base)" by (simp_all only: of_int_le_iff uint_ge_0)
  then have "in_range 0 (of_int 1000) (of_uw base)"
    by (intro rounds_to_within_ok [OF of_uw_rounds_to _ _ bound_ok_0 bound_ok_int]) simp_all
  moreover have "in_range 0 1 (pressure_multiplier (configured \<noteq> None) p)"
    by (auto simp: pressure_multiplier_def intro!: within_dec within_one)
  ultimately have "in_range 0 (of_int 1000) (of_uw base * pressure_multiplier (configured \<noteq> None) p)"
    by (intro within_times [of "of_int 1000" _ 1] bound_ok_int) auto
  then have y: "in_range 0 (of_int 1000) y" unfolding y_def by (rule within_round_away) simp
  have low: "in_range (of_int 4) (of_int 1000) lowest"
    by (auto simp: lowest_def intro!: within_dec bound_ok_numeral)
  have top: "in_range (of_int 4) (of_int 1000) (fmax y lowest)"
    using y low within_not_nan [OF y] within_not_nan [OF low] by (auto simp: fmax_def in_range_def less_f64_iff)
  have eq: "effective_pending_lookup_budget_for_mode mode configured p = f_as_word (fmax y lowest)"
    by (simp add: effective_pending_lookup_budget_for_mode_def y_def lowest_def base_def Let_def)
  show "4 \<le> effective_pending_lookup_budget_for_mode mode configured p"
    using f_as_word_ge [OF top, where 'a = 64] by (simp add: eq)
  have "in_range (of_int 1000) (of_int 1000) (of_uw (1000 :: u64))"
    by (intro rounds_to_within_ok [OF of_uw_rounds_to] bound_ok_int) auto
  then show "effective_pending_lookup_budget_for_mode mode configured p \<le> 1000"
    unfolding eq using top by (intro f_as_word_le) (auto simp: in_range_def less_eq_f64_iff)
qed

text \<open>Calls of the throttle in order; the result keeps the window of every lookup that was accepted.\<close>

definition throttle_step ::
  "runtime_env \<Rightarrow> config \<Rightarrow> pending_lookup_backpressure \<times> instant list \<Rightarrow> rpc_fleet \<times> instant \<times> nat
    \<Rightarrow> pending_lookup_backpressure \<times> instant list" where
  "throttle_step env cfg st call =
     (case (st, call) of ((b, accepted), (fleet, now, queue_remaining)) \<Rightarrow>
        case should_enqueue env cfg fleet b now queue_remaining of ((_, b'), ok) \<Rightarrow>
          (b', if ok then bp_window_started b' # accepted else accepted))"

definition throttle_inv :: "pending_lookup_backpressure \<times> instant list \<Rightarrow> bool" where
  "throttle_inv st = (case st of (b, accepted) \<Rightarrow>
     (\<forall>w \<in> set accepted. w \<le> bp_window_started b)
     \<and> count_list accepted (bp_window_started b) = unat (bp_accepted_in_window b)
     \<and> (\<forall>w. count_list accepted w \<le> 1000))"

lemma throttle_open: "throttle_inv (b, accepted) \<Longrightarrow> throttle_inv (open_window now b, accepted)"
proof (cases "nanos_of_secs 1 \<le> duration_since now (bp_window_started b)")
  case True
  assume inv: "throttle_inv (b, accepted)"
  from True have "bp_window_started b < now" by (auto simp: duration_since_def nanos_of_secs_def)
  then have "now \<notin> set accepted" "\<forall>w \<in> set accepted. w \<le> now" using inv by (auto simp: throttle_inv_def)
  then show ?thesis using inv True by (simp add: throttle_inv_def open_window_def)
qed (simp add: open_window_def)


text \<open>The state after the window and the endpoint pressure were brought up to date.\<close>

definition refreshed :: "rpc_fleet \<Rightarrow> instant \<Rightarrow> pending_lookup_backpressure \<Rightarrow> rpc_fleet \<times> pending_lookup_backpressure" where
  "refreshed fleet now b =
     (if nanos_of_millis 900 \<le> duration_since now (bp_pressure_refreshed_at (open_window now b))
      then (case rpc_lookup_pressure fleet now of (f', p) \<Rightarrow>
              (f', (open_window now b)\<lparr>bp_pressure := p, bp_pressure_refreshed_at := now\<rparr>))
      else (fleet, open_window now b))"

lemma throttle_refreshed:
  "throttle_inv (b, accepted) \<Longrightarrow> refreshed fleet now b = (f, b1) \<Longrightarrow> throttle_inv (b1, accepted)"
  using throttle_open [of b accepted now]
  by (auto simp: refreshed_def throttle_inv_def split: if_splits prod.splits)

lemma should_enqueue_refreshed:
  assumes "refreshed fleet now b = (f, b1)"
  shows "should_enqueue env cfg fleet b now remaining =
     (if bp_accepted_in_window b1 < effective_pending_lookup_budget env cfg (bp_pressure b1)
         \<and> \<not> remaining \<le> LOOKUP_DECODE_QUEUE_CAPACITY div 16
      then ((f, b1\<lparr>bp_accepted_in_window := sat_add (bp_accepted_in_window b1) 1\<rparr>), True)
      else let b' = b1\<lparr>bp_dropped_since_event := sat_add (bp_dropped_since_event b1) 1\<rparr>
           in ((f, if nanos_of_secs 5 \<le> duration_since now (bp_last_event_at b1)
                   then b'\<lparr>bp_dropped_since_event := 0, bp_last_event_at := now\<rparr> else b'), False))"
  unfolding should_enqueue_def Let_def [of "open_window now b"] refreshed_def [symmetric] assms
  by (simp only: Let_def prod.case)

lemma unat_sat_Suc: "unat (a :: u64) < 1000 \<Longrightarrow> unat (sat_add a 1) = Suc (unat a)"
proof -
  assume "unat a < 1000"
  then have small: "uint a < 1000" unfolding unat_eq_nat_uint by linarith
  then have "uint (sat_add a 1) = uint a + 1" unfolding uint_sat_add by simp
  then show ?thesis by (simp only: unat_eq_nat_uint) (simp add: nat_add_distrib)
qed

lemma throttle_accept:
  "throttle_inv (b, accepted) \<Longrightarrow> unat (bp_accepted_in_window b) < 1000 \<Longrightarrow>
     throttle_inv (b\<lparr>bp_accepted_in_window := sat_add (bp_accepted_in_window b) 1\<rparr>, bp_window_started b # accepted)"
  by (simp add: throttle_inv_def unat_sat_Suc)

lemma throttle_step_inv:
  assumes "throttle_inv st"
  shows "throttle_inv (throttle_step env cfg st call)"
proof -
  obtain b accepted fleet now remaining where st: "st = (b, accepted)" and call: "call = (fleet, now, remaining)"
    by (cases st; cases call) auto
  obtain f b1 where rf: "refreshed fleet now b = (f, b1)" by (cases "refreshed fleet now b")
  have b1: "throttle_inv (b1, accepted)" using throttle_refreshed [OF _ rf] assms st by simp
  note step = throttle_step_def should_enqueue_refreshed [OF rf] st call
  show ?thesis
  proof (cases "bp_accepted_in_window b1 < effective_pending_lookup_budget env cfg (bp_pressure b1)
      \<and> \<not> remaining \<le> LOOKUP_DECODE_QUEUE_CAPACITY div 16")
    case True
    then have "bp_accepted_in_window b1 < 1000"
      using budget_bounds(2) unfolding effective_pending_lookup_budget_def by (metis less_le_trans)
    then have lt: "unat (bp_accepted_in_window b1) < 1000" by (simp add: word_less_nat_alt)
    then show ?thesis using throttle_accept [OF b1] True by (simp add: step)
  next
    case False
    then show ?thesis using b1 by (simp add: step throttle_inv_def if_not_P [OF False] Let_def del: not_le not_less)
  qed
qed

text \<open>
  C19: the throttle of transaction lookups: the budget of a window lies between 4 and 1000 whatever is
  configured and however the endpoints fare, and over any sequence of calls, with any clock, no window
  accepts more than 1000 lookups; the counter of the current window is exact.
\<close>

theorem throttle_bounds_lookups:
  fixes calls :: "(rpc_fleet \<times> instant \<times> nat) list" and env :: runtime_env and cfg :: config and start :: instant
  defines "st \<equiv> foldl (throttle_step env cfg) (backpressure_new start, []) calls"
  shows "count_list (snd st) w \<le> 1000
    \<and> count_list (snd st) (bp_window_started (fst st)) = unat (bp_accepted_in_window (fst st))
    \<and> 4 \<le> effective_pending_lookup_budget env cfg p \<and> effective_pending_lookup_budget env cfg p \<le> 1000"
proof -
  have "throttle_inv (foldl (throttle_step env cfg) st0 calls)" if "throttle_inv st0" for st0
    using that by (induction calls arbitrary: st0) (auto simp: throttle_step_inv)
  moreover have "throttle_inv (backpressure_new start, [])" by (simp add: throttle_inv_def backpressure_new_def)
  ultimately have "throttle_inv st" by (simp add: st_def)
  then show ?thesis
    by (auto simp: throttle_inv_def effective_pending_lookup_budget_def budget_bounds split: prod.splits)
qed

section \<open>Gates\<close>

lemma impact_score_le: "impact_score cfg payload \<le> 100"
proof -
  let ?x = "of_uw (pl_price_impact_bps payload) / of_uw (max (effective_max_price_impact_bps (mev cfg)) 1) * dec 100 0"
  have hundred: "in_range 100 100 (dec 100 0)" by (intro within_dec bound_ok_numeral) simp_all
  have cap: "of_uw (100 :: 16 word) = dec 100 0" by (simp add: of_uw_def dec_def)
  show ?thesis unfolding impact_score_def
  proof (rule f_as_word_le)
    assume "\<not> is_nan (fclamp 0 (dec 100 0) ?x)"
    then have "\<not> is_nan ?x" by (metis fclamp_nan is_nan.elims(2))
    then have "in_range (fval 0) (fval (dec 100 0)) (fclamp 0 (dec 100 0) ?x)"
      using hundred by (intro within_clamp) (auto simp: in_range_def)
    then show "fclamp 0 (dec 100 0) ?x \<le> of_uw (100 :: 16 word)"
      using hundred by (simp add: cap in_range_def less_eq_f64_iff)
  qed simp
qed

text \<open>
  Outside scavenger mode the quality gate looks at the return alone: its limit on the price impact
  never rejects, because the score it compares with 100 was clamped to 100, so the gate passes exactly the
  payloads whose return reaches the minimum, whatever their price impact.
\<close>

theorem quality_gate_ignores_impact:
  assumes "opportunity_mode (mev cfg) \<noteq> Scavenger"
  shows "passes_quality_gate cfg payload cost \<longleftrightarrow> effective_min_roi_bps (mev cfg) \<le> roi_bps (pl_expected_profit_wei payload) cost"
  using assms impact_score_le [of cfg payload]
  by (auto simp: passes_quality_gate_def quality_gate_diagnostic_def Let_def not_less)

lemma fmax_one_threshold: "dec 120 0 \<le> fmax x 1 \<longleftrightarrow> dec 120 0 \<le> x" and fmax_one_above: "dec 120 0 \<le> x \<Longrightarrow> fmax x 1 = x"
proof -
  have big: "in_range 120 120 (dec 120 0)" by (intro within_dec bound_ok_numeral) simp_all
  then have one: "\<not> dec 120 0 \<le> 1" by (simp add: less_eq_f64_iff in_range_def)
  show above: "fmax x 1 = x" if "dec 120 0 \<le> x" for x
  proof (cases "is_finite x")
    case True
    with that big have "120 \<le> fval x" by (simp add: less_eq_f64_iff in_range_def)
    with True show ?thesis by (cases x) (simp_all add: fmax_def less_f64_iff del: less_f64.simps fval.simps)
  next
    case False
    moreover obtain m e where "dec 120 0 = Fin False m e"
      using big positive_form [of "dec 120 0"] by (auto simp: in_range_def)
    ultimately have "x = Infty False" using that by (cases x) auto
    then show ?thesis by (simp add: fmax_def one_f64_def)
  qed
  show "dec 120 0 \<le> fmax x 1 \<longleftrightarrow> dec 120 0 \<le> x"
    using above one by (metis fmax_def)
qed

lemma fclamp_between:
  assumes "lo \<le> hi"
  shows "is_nan (fclamp lo hi x) \<or> lo \<le> fclamp lo hi x \<and> fclamp lo hi x \<le> hi"
  using le_f64_not_nan [OF assms] not_less_f64 [of x lo] not_less_f64 [of lo x] not_less_f64 [of x hi] not_less_f64 [of hi x]
    less_f64_imp_le [of hi x] assms
  by (auto simp: fclamp_def Let_def le_f64_refl)

theorem quality_gate_ignores_impact_witness:
  "opportunity_mode (mev demo_config) = Aggressive
   \<and> (\<forall>payload cost. passes_quality_gate demo_config payload cost
        \<longleftrightarrow> effective_min_roi_bps (mev demo_config) \<le> roi_bps (pl_expected_profit_wei payload) cost)"
proof -
  have mode: "opportunity_mode (mev demo_config) = Aggressive" by code_simp
  then show ?thesis using quality_gate_ignores_impact [of demo_config] by simp
qed

text \<open>
  The adaptive gas cap panics for every candidate, whatever its expected value and size, exactly
  when the configured hard cap is not at least 120 gwei; otherwise the cap lies between 120 gwei and the
  hard cap, or the estimate was not a number.
\<close>

lemma adaptive_gas_cap_panics:
  "case adaptive_gas_cap_gwei ev notional hard_cap of
     Inl p \<Rightarrow> p = AssertionFailed \<and> \<not> dec 120 0 \<le> hard_cap
   | Inr cap \<Rightarrow> dec 120 0 \<le> hard_cap \<and> (is_nan cap \<or> dec 120 0 \<le> cap \<and> cap \<le> hard_cap)"
proof (cases "dec 120 0 \<le> hard_cap")
  case True
  then show ?thesis
    using fclamp_between [OF True] by (auto simp: adaptive_gas_cap_gwei_def clamp_checked_def Let_def fmax_one_above)
next
  case False
  then show ?thesis by (simp add: adaptive_gas_cap_gwei_def clamp_checked_def Let_def fmax_one_threshold)
qed

end
