(* ===== verification/EvalSafety.thy ===== *)
theory EvalSafety
  imports RuntimeEval RuntimeSafety PayloadSafety
begin

text \<open>
  Correctness of the evaluation pipeline: a candidate that reaches the batch has passed every gate with
  the payload that it carries; the stages are counted consistently; two kinds of candidate can never
  reach it, and a low gas cap stops every evaluation.
\<close>

section \<open>Stages\<close>

named_theorems stage_simps \<open>results of a chain of stages\<close>

lemma stage_then_Inr [stage_simps]:
  "stage_then r k = (st', Inr y) \<longleftrightarrow> (\<exists>st x. r = (st, Inr x) \<and> k st x = (st', Inr y))"
  by (cases "(r, k)" rule: stage_then.cases) auto

lemma reject_Inr [simp]: "reject stages st r \<noteq> (st', Inr y)"
  by (simp add: reject_def)

section \<open>Payloads that the runtime builds\<close>

lemma v2_payload_unsigned:
  assumes "build_fee_extraction_v2 px cfg inp = Inr payload"
  shows "pl_tx payload = []"
  using assms by (elim build_v2_InrD) (auto simp: v2_finish_def and_then_eq_Inr Let_def split: if_splits)

lemma simulate_keeps_ticks:
  "simulate_exact_in lm p token_in token_out amount = Some (p', r) \<Longrightarrow> v3_initialized_ticks p' = v3_initialized_ticks p"
  by (auto simp: simulate_exact_in_def Let_def split: if_splits prod.splits option.splits)

fun without_ticks :: "amm_state \<Rightarrow> bool" where
  "without_ticks (AmmUniswapV3 pool) = (v3_initialized_ticks pool = [])"
| "without_ticks (AmmUniswapV2 pool) = False"

lemma v3_without_ticks: "without_ticks (fi_state_before inp) \<Longrightarrow> build_fee_extraction_v3 px cfg inp \<noteq> Inr payload"
  using simulate_keeps_ticks
  by (cases "fi_state_before inp") (auto simp: simulate_victim_exact_in_def elim!: build_v3_InrD)

text \<open>What holds of the payload of a build, if there is one.\<close>

definition built_with :: "(execution_payload \<Rightarrow> bool) \<Rightarrow> 'e + execution_payload \<Rightarrow> bool" where
  "built_with P r \<longleftrightarrow> (\<forall>payload. r = Inr payload \<longrightarrow> P payload)"

lemma built_with_simps [simp]:
  "built_with P (Inl e)"
  "built_with (\<lambda>payload. pl_tx payload = []) (map_sum BuilderFailed id (build_fee_extraction_v2 px cfg inp))"
  "without_ticks (fi_state_before inp) \<Longrightarrow> built_with P (map_sum BuilderFailed id (build_fee_extraction_v3 px cfg inp))"
  "built_with P (and_then a k) \<longleftrightarrow> (\<forall>x. a = Inr x \<longrightarrow> built_with P (k x))"
  by (auto simp: built_with_def map_sum_eq_Inr and_then_eq_Inr v2_payload_unsigned v3_without_ticks)

lemma build_v2_payload_unsigned:
  "built_with (\<lambda>payload. pl_tx payload = []) (snd (build_v2_payload px env cv cfg s gas_price ctx cache now block))"
  unfolding build_v2_payload_def Let_def by (simp split: list.split sum.split prod.split option.split)

lemma build_v3_payload_fails:
  "built_with P (snd (build_v3_payload px env cv cfg s gas_price ctx fee_tier encoded cache now block))"
  unfolding build_v3_payload_def Let_def
  by (simp add: pool_of_cached_v3_def split: list.split sum.split prod.split option.split)

lemma build_payload_form:
  assumes "build_payload px env cv cfg s gas_price ctx cache now block = (cache', Inr payload)"
  shows "sg_kind s = KindV2 \<and> pl_tx payload = []"
proof (cases "sg_kind s")
  case KindV2
  then show ?thesis
    using assms build_v2_payload_unsigned [of px env cv cfg s gas_price ctx cache now block]
    by (simp add: build_payload_def built_with_def)
next
  case (KindV3 fee_tier encoded hops exact_out)
  then show ?thesis
    using assms build_v3_payload_fails [of "\<lambda>_. False" px env cv cfg s gas_price ctx fee_tier encoded cache now block]
    by (simp add: build_payload_def built_with_def)
qed

lemma builder_tasks_form:
  assumes "builder_tasks px env bn cfg s gas_price ctx now block hs fc errors = (fc', Inr payload)"
  shows "sg_kind s = KindV2 \<and> pl_tx payload = []"
  using assms
proof (induction hs arbitrary: fc errors)
  case Nil
  then show ?case by simp
next
  case (Cons h hs)
  show ?case
    using Cons.prems by (cases fc) (auto simp: Let_def dest: Cons.IH build_payload_form split: prod.splits sum.splits)
qed

lemma built_payload_form:
  assumes "build_payload_with_fallback_parallel px env bn cfg s gas_price ctx now block fc = (fc', Inr payload)"
  shows "sg_kind s = KindV2 \<and> pl_tx payload = []"
  using assms
  by (auto simp: build_payload_with_fallback_parallel_def Let_def dest: builder_tasks_form split: prod.splits if_splits)

section \<open>What a ready candidate has passed\<close>

definition built_by_runtime :: "'db eval_ext \<Rightarrow> config \<Rightarrow> lookup_decoded_candidate \<Rightarrow> execution_payload \<Rightarrow> bool" where
  "built_by_runtime ex cfg c payload \<longleftrightarrow>
     (\<exists>fc fc'. build_payload_with_fallback_parallel (ex_px ex) (ex_env ex) (ex_net ex) cfg (lc_signal c) (lc_gas_price c)
        (lc_context_signal c) (ex_now ex) (lc_block_number c) fc = (fc', Inr payload))"

lemma payload_stage_built: "payload_stage ex cfg st c = (st', Inr payload) \<Longrightarrow> built_by_runtime ex cfg c payload"
  by (auto simp: payload_stage_def built_by_runtime_def Let_def reject_def split: prod.splits sum.splits if_splits)

lemma built_by_runtime_form: "built_by_runtime ex cfg c payload \<Longrightarrow> sg_kind (lc_signal c) = KindV2 \<and> pl_tx payload = []"
  by (auto simp: built_by_runtime_def dest: built_payload_form)

lemma scavenger_stage_unsigned: "pl_tx payload = [] \<Longrightarrow> scavenger_stage ex cfg gate st c payload economic \<noteq> (st', Inr cand)"
  by (simp add: scavenger_stage_def passes_scavenger_sanity_gate_def)

lemma ready_Inr:
  "ready ex cfg stages st c payload relay ev p score priority = (st', Inr cand) \<Longrightarrow>
     op_execution_payload (pc_opportunity cand) = Some payload \<and> op_victim_tx (pc_opportunity cand) = ptx_hash (lc_tx c)
     \<and> op_router (pc_opportunity cand) = sg_router (lc_signal c) \<and> pc_ev_real_usd cand = ev \<and> st' = funnel stages st"
  by (auto simp: ready_def build_opportunity_def split: list.splits)

text \<open>The quote that lets a candidate through: it executes, or the mode overrides its refusal.\<close>

definition quote_accepted :: "config \<Rightarrow> adaptive_quote \<Rightarrow> bool" where
  "quote_accepted cfg q \<longleftrightarrow> aq_should_execute q \<or> should_override_adaptive_reject cfg q"

lemma quote_stage_Inr:
  "quote_stage ex cfg st c payload cost = (st', Inr q) \<Longrightarrow>
     \<exists>model model'. es_adaptive st = Healthy model \<and> quote_accepted cfg q
       \<and> quote_for_relays (px_libm (ex_px ex)) (ex_quote_times ex) model (adaptive_input cfg c payload cost) (builder_relays cfg)
           = (model', q)"
  by (auto simp: quote_stage_def Let_def funnel_def reject_def quote_accepted_def split: lock.splits prod.splits if_splits)

lemma standard_stage_Inr:
  assumes "standard_stage ex cfg min_profit st c payload = (st', Inr cand)"
  shows "passes_ev_gate (ex_env ex) cfg payload (lc_signal c) (lc_lookup_latency c) min_profit
    \<and> passes_quality_gate cfg payload (safety_gas_cost cfg payload (lc_gas_price c))
    \<and> op_execution_payload (pc_opportunity cand) = Some payload \<and> op_victim_tx (pc_opportunity cand) = ptx_hash (lc_tx c)
    \<and> (\<exists>model model' q. quote_accepted cfg q \<and> pc_ev_real_usd cand = aq_ev_real_usd q
        \<and> quote_for_relays (px_libm (ex_px ex)) (ex_quote_times ex) model
            (adaptive_input cfg c payload (safety_gas_cost cfg payload (lc_gas_price c))) (builder_relays cfg) = (model', q))"
  using assms
  by (auto simp: standard_stage_def Let_def stage_simps passes_ev_gate_def passes_quality_gate_def
      dest!: quote_stage_Inr ready_Inr split: if_splits)

lemma evm_stage_Inr:
  "evm_stage ex cfg st c payload = (st', Inr u) \<Longrightarrow> rv_evm_preflight_enabled (ex_env ex) \<Longrightarrow>
     opportunity_mode (mev cfg) \<noteq> Scavenger \<Longrightarrow> \<exists>r. runtime_evm_preflight ex cfg c payload = Inr r \<and> pf_success r"
  by (auto simp: evm_stage_def split: if_splits sum.splits preflight_error.splits)


definition min_profit_for :: "'db eval_ext \<Rightarrow> config \<Rightarrow> u256 \<Rightarrow> u256" where
  "min_profit_for ex cfg fallback =
     (case rv_parse_ether_shown (ex_env ex) (effective_min_net_profit_eth (mev cfg)) of Inr v \<Rightarrow> v | Inl _ \<Rightarrow> fallback)"

lemma economic_stage_Inr:
  "economic_stage ex cfg st c payload = (st', Inr diag) \<Longrightarrow> diag = None \<longleftrightarrow> opportunity_mode (mev cfg) \<noteq> Scavenger"
  by (auto simp: economic_stage_def Let_def split: if_splits)

lemma validation_stage_Inr:
  "validation_stage ex cfg st c payload = (st', Inr u) \<Longrightarrow>
     vr_pass (validate_payload_ev (px_libm (ex_px ex)) cfg payload (lc_signal c) (lc_gas_price c))"
  by (auto simp: validation_stage_def Let_def split: if_splits)

lemma evaluation_stages:
  assumes "process_evaluation_task ex cfg large_default profit_default st c = (st', Inr cand)"
  obtains st1 payload where "built_by_runtime ex cfg c payload" "opportunity_mode (mev cfg) \<noteq> Scavenger"
    "vr_pass (validate_payload_ev (px_libm (ex_px ex)) cfg payload (lc_signal c) (lc_gas_price c))"
    "rv_evm_preflight_enabled (ex_env ex) \<longrightarrow> (\<exists>r. runtime_evm_preflight ex cfg c payload = Inr r \<and> pf_success r)"
    "standard_stage ex cfg (min_profit_for ex cfg profit_default) st1 c payload = (st', Inr cand)"
proof -
  obtain gate st3 payload st4 st5 diag st6 st2 where p: "payload_stage ex cfg st2 c = (st3, Inr payload)"
    and v: "validation_stage ex cfg st3 c payload = (st4, Inr ())"
    and d: "economic_stage ex cfg st4 c payload = (st5, Inr diag)"
    and e: "evm_stage ex cfg st5 c payload = (st6, Inr ())"
    and f: "(case diag of Some economic \<Rightarrow> scavenger_stage ex cfg gate st6 c payload economic
              | None \<Rightarrow> standard_stage ex cfg (min_profit_for ex cfg profit_default) st6 c payload) = (st', Inr cand)"
    using assms unfolding process_evaluation_task_def Let_def stage_simps min_profit_for_def by auto
  note built = payload_stage_built [OF p]
  have none: "diag = None"
    using f built_by_runtime_form [OF built] by (cases diag) (simp_all add: scavenger_stage_unsigned)
  then have mode: "opportunity_mode (mev cfg) \<noteq> Scavenger" using economic_stage_Inr [OF d] by simp
  show ?thesis
    using that [OF built mode validation_stage_Inr [OF v] _ f [unfolded none option.case]] evm_stage_Inr [OF e _ mode] by blast
qed

text \<open>
  A candidate that leaves the evaluation has passed every gate with the payload that it carries:
  the payload came from the builder, its expected value validated, the virtual machine executed it
  wherever the preflight is enabled, it passed the expected-value gate and the quality gate, and the
  adaptive quote for it executes or is overridden by the mode; the candidate is ranked by that quote.
\<close>

lemma evaluation_sound:
  assumes "process_evaluation_task ex cfg large_default profit_default st c = (st', Inr cand)"
  shows "\<exists>payload model model' q.
      op_execution_payload (pc_opportunity cand) = Some payload \<and> op_victim_tx (pc_opportunity cand) = ptx_hash (lc_tx c)
    \<and> built_by_runtime ex cfg c payload
    \<and> vr_pass (validate_payload_ev (px_libm (ex_px ex)) cfg payload (lc_signal c) (lc_gas_price c))
    \<and> (rv_evm_preflight_enabled (ex_env ex) \<longrightarrow> (\<exists>r. runtime_evm_preflight ex cfg c payload = Inr r \<and> pf_success r))
    \<and> passes_ev_gate (ex_env ex) cfg payload (lc_signal c) (lc_lookup_latency c) (min_profit_for ex cfg profit_default)
    \<and> passes_quality_gate cfg payload (safety_gas_cost cfg payload (lc_gas_price c))
    \<and> quote_for_relays (px_libm (ex_px ex)) (ex_quote_times ex) model
        (adaptive_input cfg c payload (safety_gas_cost cfg payload (lc_gas_price c))) (builder_relays cfg) = (model', q)
    \<and> quote_accepted cfg q \<and> pc_ev_real_usd cand = aq_ev_real_usd q"
  using assms by (elim evaluation_stages) (drule standard_stage_Inr, blast)

text \<open>
  Only V2 swaps outside scavenger mode can become ready. In scavenger mode the sanity gate asks for
  the bytes of a signed transaction, which every payload gets only later, in the executor; and a V3
  payload is never built, because the runtime gives the builder a pool without tick data.
\<close>

lemma ready_only_v2_outside_scavenger:
  assumes "opportunity_mode (mev cfg) = Scavenger \<or> sg_kind (lc_signal c) \<noteq> KindV2"
  shows "\<exists>reason. snd (process_evaluation_task ex cfg large_default profit_default st c) = Inl reason"
proof (cases "snd (process_evaluation_task ex cfg large_default profit_default st c)")
  case (Inr cand)
  then obtain st' where "process_evaluation_task ex cfg large_default profit_default st c = (st', Inr cand)"
    by (metis prod.collapse)
  then show ?thesis using assms by (elim evaluation_stages) (auto dest: built_by_runtime_form)
qed simp

section \<open>Stage counters\<close>

definition ready_count :: "eval_state \<Rightarrow> nat" where
  "ready_count st = count_list (es_funnel st) ''execution_ready''"

definition quiet :: "eval_state \<Rightarrow> 'a stage \<Rightarrow> bool" where
  "quiet st r \<longleftrightarrow> ready_count (fst r) = ready_count st"

definition counted :: "eval_state \<Rightarrow> 'a stage \<Rightarrow> bool" where
  "counted st r \<longleftrightarrow> ready_count (fst r) = ready_count st + (case snd r of Inr _ \<Rightarrow> 1 | Inl _ \<Rightarrow> 0)"

lemma ready_count_funnel [simp]:
  "''execution_ready'' \<notin> set stages \<Longrightarrow> ready_count (funnel stages st) = ready_count st"
  by (simp add: ready_count_def funnel_def count_list_append)

lemma ready_count_fields [simp]:
  "ready_count (st\<lparr>es_fleet := f\<rparr>) = ready_count st" "ready_count (st\<lparr>es_cache := k\<rparr>) = ready_count st"
  "ready_count (st\<lparr>es_adaptive := a\<rparr>) = ready_count st" "ready_count (st\<lparr>es_replay_counts := n\<rparr>) = ready_count st"
  "ready_count (st\<lparr>es_replay_queue := q\<rparr>) = ready_count st" "ready_count (st\<lparr>es_small_budget := b\<rparr>) = ready_count st"
  by (simp_all add: ready_count_def)

lemma quiet_simps [simp]:
  "quiet st (st', r) \<longleftrightarrow> ready_count st' = ready_count st"
  "counted st (st', Inl e) \<longleftrightarrow> ready_count st' = ready_count st"
  "''execution_ready'' \<notin> set stages \<Longrightarrow> quiet st (reject stages st' x) \<longleftrightarrow> ready_count st' = ready_count st"
  "''execution_ready'' \<notin> set stages \<Longrightarrow> counted st (reject stages st' x) \<longleftrightarrow> ready_count st' = ready_count st"
  by (simp_all add: quiet_def counted_def reject_def)

lemma counted_then:
  "quiet st0 r \<Longrightarrow> ready_count st0 = ready_count st \<Longrightarrow> (\<And>st' x. ready_count st' = ready_count st \<Longrightarrow> counted st (k st' x)) \<Longrightarrow> counted st (stage_then r k)"
  by (cases "(r, k)" rule: stage_then.cases) auto

lemma quiet_stages:
  "quiet st (fast_stage ex cfg min_large st c)" "quiet st (policy_stage ex cfg st c)"
  "quiet st (payload_stage ex cfg st c)" "quiet st (validation_stage ex cfg st c payload)"
  "quiet st (economic_stage ex cfg st c payload)" "quiet st (evm_stage ex cfg st c payload)"
  "quiet st (quote_stage ex cfg st c payload cost)"
  by (auto simp: fast_stage_def policy_stage_def payload_stage_def validation_stage_def economic_stage_def
      maybe_enqueue_replay_candidate_def evm_stage_def quote_stage_def Let_def
      split: option.split sum.split lock.split prod.split preflight_error.split)


lemma ready_counted:
  "count_list stages ''execution_ready'' = 1 \<Longrightarrow> ready_count st' = ready_count st \<Longrightarrow>
     counted st (ready ex cfg stages st' c payload relay ev p score priority)"
  by (auto simp: ready_def counted_def ready_count_def funnel_def count_list_append split: sum.split)

lemma scavenger_counted:
  "ready_count st' = ready_count st \<Longrightarrow> counted st (scavenger_stage ex cfg gate st' c payload economic)"
  unfolding scavenger_stage_def Let_def by (auto intro!: ready_counted split: sum.split)

lemma standard_counted:
  assumes "ready_count st' = ready_count st"
  shows "counted st (standard_stage ex cfg min_profit st' c payload)"
proof -
  have "counted st (stage_then (quote_stage ex cfg (funnel [''ev_gate_pass''] st') c payload cost)
      (\<lambda>st2 q. ready ex cfg [''execution_ready_candidate'', ''execution_ready''] st2 c payload (aq_selected_relay q)
         (aq_ev_real_usd q) (aq_p_positive q) (aq_builder_pressure q) (aq_context_priority_score q)))" for cost
    using quiet_stages(7) [of "funnel [''ev_gate_pass''] st'" ex cfg c payload cost] assms
    by (intro counted_then [of "funnel [''ev_gate_pass''] st'"] ready_counted) auto
  then show ?thesis using assms by (simp add: standard_stage_def Let_def)
qed

text \<open>
  The funnel agrees with the outcome: an evaluation records \<open>execution_ready\<close> exactly once when it
  returns a candidate for the batch and never when it stops, whatever the reason.
\<close>

lemma funnel_counts_ready:
  "count_list (es_funnel (fst (process_evaluation_task ex cfg large_default profit_default st c))) ''execution_ready''
     = count_list (es_funnel st) ''execution_ready''
       + (case snd (process_evaluation_task ex cfg large_default profit_default st c) of Inr _ \<Rightarrow> 1 | Inl _ \<Rightarrow> 0)"
proof -
  have "counted st (process_evaluation_task ex cfg large_default profit_default st c)"
    unfolding process_evaluation_task_def Let_def
    by ((rule counted_then, rule quiet_stages, (rule refl | assumption))+)
      (auto simp: scavenger_counted standard_counted split: option.split)
  then show ?thesis by (simp add: counted_def ready_count_def)
qed

section \<open>A low gas cap\<close>

lemma of_uw_below_120: "uint (cap :: u64) < 120 \<Longrightarrow> \<not> dec 120 0 \<le> of_uw cap"
proof -
  assume "uint cap < 120"
  then have "real_of_int (uint cap) \<le> of_int 119" "real_of_int 0 \<le> of_int (uint cap)"
    by (simp_all only: of_int_le_iff uint_ge_0)
  then have "in_range 0 (of_int 119) (of_uw cap)"
    by (intro rounds_to_within_ok [OF of_uw_rounds_to _ _ bound_ok_0 bound_ok_int]) simp_all
  moreover have "in_range 120 120 (dec 120 0)" by (intro within_dec bound_ok_numeral) simp_all
  ultimately show ?thesis by (simp add: less_eq_f64_iff in_range_def)
qed

text \<open>
  C33: with a maximum gas price below 120 gwei the evaluation panics on every candidate, before any gate
  has been asked: the adaptive cap is clamped between 120 and that maximum, and \<open>f64::clamp\<close> asserts
  that its bounds are in order.
\<close>

theorem low_gas_cap_stops_evaluation:
  assumes "max_gas_price_gwei (mev cfg) = Some cap" and "cap < 120"
  shows "process_evaluation_task ex cfg large_default profit_default st c = (st, Inl (Panics AssertionFailed))"
proof -
  have "\<not> dec 120 0 \<le> of_uw cap" using assms(2) by (intro of_uw_below_120) (simp add: word_less_def)
  then have "adaptive_gas_cap_gwei ev notional (of_uw cap) = Inl AssertionFailed" for ev notional
    by (simp add: adaptive_gas_cap_gwei_def clamp_checked_def Let_def fmax_one_threshold)
  then show ?thesis by (simp add: process_evaluation_task_def fast_stage_def assms(1) Let_def)
qed


theorem low_gas_cap_stops_evaluation_witness:
  "\<forall>(ex :: unit eval_ext) st c. max_gas_price_gwei (mev demo_config) = Some 60
     \<and> process_evaluation_task ex demo_config 0 0 st c = (st, Inl (Panics AssertionFailed))"
proof -
  have "max_gas_price_gwei (mev demo_config) = Some 60" by (simp add: demo_config_def demo_mev_def)
  then show ?thesis by (intro allI conjI low_gas_cap_stops_evaluation [of _ 60]) simp_all
qed

end
