(* ===== verification/NeverReady.thy ===== *)
theory NeverReady
  imports EvalSafety
begin

text \<open>
  Outside scavenger mode the runtime prices both legs of the flash swap on one pair: the borrowed token
  is sold at the reserves before the victim and repaid at the reserves after it. That never pays, so no
  payload is built; with the two results of \<open>EvalSafety\<close> no evaluation ever hands a candidate to the
  batch.
\<close>

section \<open>Both legs on one pair\<close>

lemma repayment_saturated:
  assumes r: "v2_repayment_amount_in_profit_token rb rp b = Some r"
    and big: "2 ^ 256 \<le> uint rp * uint b * 1000" and rb: "uint rb < 2 ^ 112"
  shows "2 ^ 112 \<le> uint r"
proof -
  let ?num = "sat_mul (sat_mul rp b) 1000" and ?den = "sat_mul (sat_sub rb b) 997"
  have nz: "?den \<noteq> 0" "\<not> rb \<le> b" and rv: "r = sat_add (?num div ?den) 1"
    using r by (auto simp: v2_repayment_amount_in_profit_token_def Let_def split: if_splits)
  have num: "uint ?num = 2 ^ 256 - 1"
    using big by (auto simp: uint_sat_mul min_def mult.commute [of "uint b"])
  have "uint (sat_sub rb b) < 2 ^ 112" 
  proof -
    have "uint (sat_sub rb b) \<le> uint rb" by (simp add: uint_sat_sub)
    then show ?thesis using rb by linarith
  qed
  then have den: "uint ?den \<le> 2 ^ 112 * 997" "0 < uint ?den" using nz by (auto simp: uint_sat_mul word_pos_iff)
  have "(2 ^ 256 - 1) div (2 ^ 112 * 997) \<le> (2 ^ 256 - 1) div uint ?den" using den by (intro zdiv_mono2) auto
  then have "2 ^ 112 \<le> uint (?num div ?den)" by (simp add: uint_div_word num)
  then show ?thesis by (simp add: rv uint_sat_add)
qed

lemma repayment_exceeds_output:
  assumes rep: "v2_repayment_amount_in_profit_token rb rp x = Some r"
    and out: "amount_out_exact_in x ro ri fee = Some out"
    and small: "uint ro < 2 ^ 112" "uint ri < 2 ^ 112"
    and moved: "uint rb \<le> uint ro" "uint ri \<le> uint rp"
  shows "out \<le> r"
proof -
  have x: "uint x < uint rb" using rep by (auto simp: v2_repayment_amount_in_profit_token_def word_le_def split: if_splits)
  have fits: "fits ro x" using x moved small by (simp add: fits_def)
  note bound = v2_quoter.quote_bound [OF out fits] and below = v2_quoter.quote_below_reserve [OF out fits]
  have "uint out \<le> uint r"
  proof (cases "uint rp * uint x * 1000 < 2 ^ 256")
    case True
    have "uint rb * 997 < 2 ^ 256" using moved small by simp
    note v = v2_repayment_value [OF rep True this]
    let ?n = "uint rp * uint x * 1000" and ?d = "(uint rb - uint x) * 997"
    have d: "0 < ?d" using v(2) by simp
    have "?n < ?d * (?n div ?d + 1)"
      using pos_mod_bound [OF d, of ?n] mult_div_mod_eq [of ?d ?n] unfolding distrib_left by linarith
    then have above: "1000 * (uint rp * uint x) < 997 * (uint r * (uint rb - uint x))" using v(3) by (simp add: algebra_simps)
    have "uint ri * uint x \<le> uint rp * uint x" using moved by (intro mult_right_mono) auto
    then have "997 * (uint x * uint ri) \<le> 1000 * (uint rp * uint x)" by (simp add: mult.commute) (smt (verit) mult_nonneg_nonneg uint_nonneg)
    with above bound have cmp: "997 * (uint out * (uint ro + uint x)) < 997 * (uint r * (uint rb - uint x))" by linarith
    show ?thesis
    proof (rule ccontr)
      assume "\<not> uint out \<le> uint r"
      then have "uint r * (uint rb - uint x) \<le> uint out * (uint ro + uint x)"
        using v(2) moved uint_nonneg [of x] uint_nonneg [of out] by (intro mult_mono) linarith+
      then show False using cmp by linarith
    qed
  next
    case False
    then have "2 ^ 112 \<le> uint r" using moved small by (intro repayment_saturated [OF rep]) auto
    then show ?thesis using below small by linarith
  qed
  then show ?thesis by (simp add: word_le_def)
qed


text \<open>The pair before the victim, seen from the reverse direction: more to sell into, less to pay out of.\<close>

lemma reverse_after_victim:
  assumes swap: "apply_swap_exact_in p ti to a = Some (p', res)" and "reserves_for p' to ti = Some (rb, rp)" and "ti \<noteq> to"
  obtains ro ri where "reserves_for p to ti = Some (ro, ri)" "uint rb \<le> uint ro" "uint ri \<le> uint rp"
  using swap
proof (rule apply_swap_exact_in_SomeD)
  fix rin rout out
  assume r: "reserves_for p ti to = Some (rin, rout)"
    and p': "p' = (if ti = v2_token0 p then p\<lparr>v2_reserve0 := sat_add rin a, v2_reserve1 := sat_sub rout out\<rparr>
           else p\<lparr>v2_reserve1 := sat_add rin a, v2_reserve0 := sat_sub rout out\<rparr>)"
  have "reserves_for p to ti = Some (rout, rin)" "rb = sat_sub rout out" "rp = sat_add rin a"
    using r p' assms(2,3) by (auto simp: reserves_for_def split: if_splits)
  moreover have "uint (sat_sub rout out) \<le> uint rout" "uint rin \<le> uint (sat_add rin a)"
    using uint_nonneg [of out] uint_nonneg [of a] uint_bounded [of rin] by (auto simp: uint_sat_sub uint_sat_add)
  ultimately show ?thesis using that by simp
qed

lemma zero_quotient:
  assumes x: "is_finite x" "fval x = 0" and q: "is_finite (x / y)"
  shows "fval (x / y) = 0"
proof -
  obtain s m e where xf: "x = Fin s m e" using x(1) by (cases x) auto
  have m: "m = 0" using x(2) xf by (auto simp: signed_def split: if_splits)
  show ?thesis
  proof (cases y)
    case (Fin t b f)
    have "b \<noteq> 0" using q by (auto simp: xf m Fin)
    then have "fval y \<noteq> 0" by (auto simp: Fin signed_def)
    then have "fval (x / y) = rnd (fval x / fval y)" using fval_divide [OF q x(1)] Fin by simp
    then show ?thesis by (simp only: x(2) div_0 rnd_0)
  qed (use q in \<open>simp_all add: xf signed_def\<close>)
qed

lemma floor_zero: "is_finite x \<Longrightarrow> fval x = 0 \<Longrightarrow> fval (ffloor x) = 0"
  by (cases x) (auto simp: signed_def split: if_splits)

lemma zero_has_no_value: "token_amount_to_native_wei cfg token 0 = Some w \<Longrightarrow> w = 0"
proof -
  assume "token_amount_to_native_wei cfg token 0 = Some w"
  then obtain price scale where
      f: "is_finite (of_uw (0 :: u256) / scale * price * dec (10 ^ 18) 0)"
    and w: "fmt0_u256 (ffloor (of_uw (0 :: u256) / scale * price * dec (10 ^ 18) 0)) = Some w"
    by (auto simp: token_amount_to_native_wei_def token_amount_to_native_f64_def f64_to_u256_floor_def Let_def
        split: option.splits if_splits)
  let ?u = "of_uw (0 :: u256) / scale"
  have u: "is_finite (?u * price)" "is_finite ?u" using f finite_timesD by blast+
  have "fval ?u = 0" using zero_quotient [OF of_uw_u256(1) _ u(2)] by (simp add: of_uw_u256)
  then have "fval (?u * price * dec (10 ^ 18) 0) = 0" using f u by (simp add: fval_times)
  then have "fval (ffloor (?u * price * dec (10 ^ 18) 0)) = 0" using f by (rule floor_zero [rotated])
  then have "uint w = rne_real 0" using fmt0_u256_value(2) [OF w] by simp
  then show "w = 0" using rne_real_of_int [of 0] by (simp add: uint_0_iff)
qed


lemma sat_sub_le: "a \<le> b \<Longrightarrow> sat_sub a b = 0"
  by (simp add: sat_sub_def)

lemma same_pair_never_pays:
  assumes state: "fi_state_before inp = AmmUniswapV2 p" and route: "fi_v2_swap_path inp = Some [fi_token_out inp, fi_token_in inp]"
    and pools: "fi_v2_swap_pools inp = [p]" and tokens: "fi_token_in inp \<noteq> fi_token_out inp"
    and small: "uint (v2_reserve0 p) < 2 ^ 112" "uint (v2_reserve1 p) < 2 ^ 112"
  shows "build_fee_extraction_v2 px cfg inp \<noteq> Inr payload"
proof
  assume "build_fee_extraction_v2 px cfg inp = Inr payload"
  then show False
  proof (rule build_v2_InrD)
    fix pv pool rb rp path route_pools c
    assume pv: "simulate_victim_exact_in (px_libm px) (fi_state_before inp) (fi_token_in inp) (fi_token_out inp)
        (fi_victim_amount_in inp) = Some pv" "state_after pv = AmmUniswapV2 pool"
      and r: "reserves_for pool (fi_token_out inp) (fi_token_in inp) = Some (rb, rp)"
      and path: "path = (case fi_v2_swap_path inp of Some p \<Rightarrow> p | None \<Rightarrow> [fi_token_out inp, fi_token_in inp])"
      and rpools: "route_pools = (if fi_v2_swap_pools inp = [] then [pool] else fi_v2_swap_pools inp)"
      and sel: "v2_select px cfg inp pool (slippage_impact_bps pv) rb rp path route_pools (v2_gas_estimate cfg) = Inr c"
    obtain res where "apply_swap_exact_in p (fi_token_in inp) (fi_token_out inp) (fi_victim_amount_in inp) = Some (pool, res)"
      using pv by (auto simp: simulate_victim_exact_in_def state)
    from reverse_after_victim [OF this r tokens]
    obtain ro ri where rev: "reserves_for p (fi_token_out inp) (fi_token_in inp) = Some (ro, ri)"
      and moved: "uint rb \<le> uint ro" "uint ri \<le> uint rp" .
    have small': "uint ro < 2 ^ 112" "uint ri < 2 ^ 112"
      using reserves_for_cases [OF rev] small by auto
    obtain cap where c: "sound_v2_candidate cfg rb rp path route_pools cap (fi_token_in inp)
        (payload_gas_cost cfg (fi_gas_price_wei inp) (v2_gas_estimate cfg)) (v2_fee_bps pool)
        (opportunity_mode (mev cfg) = Scavenger) c"
      using sel by (rule v2_select_InrD)
    obtain rep where rep: "v2_repayment_amount_in_profit_token rb rp (sc_amount_in c) = Some rep"
      and gross: "token_amount_to_native_wei cfg (fi_token_in inp) (sat_sub (sc_amount_out c) rep) = Some (sc_gross_profit_wei c)"
      using c by (auto simp: sound_v2_candidate_def)
    obtain fee where "amount_out_exact_in (sc_amount_in c) ro ri fee = Some (sc_amount_out c)"
      using c rev by (auto simp: sound_v2_candidate_def path rpools route pools quote_v2_route_exact_in_def split: option.splits)
    from repayment_exceeds_output [OF rep this small' moved] have "sat_sub (sc_amount_out c) rep = 0" by (rule sat_sub_le)
    then have "sc_gross_profit_wei c = 0" using gross zero_has_no_value by metis
    then show False using c by (auto simp: sound_v2_candidate_def sat_sub_def split: if_splits)
  qed
qed

section \<open>Cached reserves\<close>

text \<open>A pair answers with reserves of 112 bits, so the cache holds no larger ones.\<close>

definition cache_fits :: "pool_cache \<Rightarrow> bool" where
  "cache_fits cache \<longleftrightarrow> (\<forall>pair e. v2_pools cache pair = Some e \<longrightarrow>
     uint (c2_reserve0 (pce_data e)) < 2 ^ 112 \<and> uint (c2_reserve1 (pce_data e)) < 2 ^ 112)"

lemma cache_fits_new: "cache_fits (pool_cache_new ttl)"
  by (simp add: cache_fits_def pool_cache_new_def)

lemma uint_ucast_112: "uint (ucast (w :: 112 word) :: u256) < 2 ^ 112"
  using uint_bounded [of w] by (simp add: unsigned_ucast_eq take_bit_int_eq_self)

lemma build_v2_fits:
  "uint (c2_reserve0 (build_v2 built pair block a)) < 2 ^ 112" "uint (c2_reserve1 (build_v2 built pair block a)) < 2 ^ 112"
  using uint_ucast_112 by (auto simp: build_v2_def split: prod.split)

lemma fetch_v2_fits:
  assumes "cache_fits cache" "get_or_fetch_v2 cache now built stored pair block answer = (cache', found)"
  shows "cache_fits cache'"
    and "found = Some c \<Longrightarrow> uint (c2_reserve0 c) < 2 ^ 112 \<and> uint (c2_reserve1 c) < 2 ^ 112"
  using assms build_v2_fits
  by (auto simp: get_or_fetch_v2_def check_v2_def store_v2_def cache_fits_def Let_def split: option.splits if_splits prod.splits)

lemma fetch_v3_fits:
  "cache_fits cache \<Longrightarrow> cache_fits (fst (get_or_fetch_v3 cache now built stored pool block answer))"
  by (auto simp: get_or_fetch_v3_def check_v3_def store_v3_def cache_fits_def Let_def split: option.splits if_splits)


lemma cached_v2_fits:
  assumes "cache_fits cache" "cached_v2 cv cache now pair block = (cache', found)"
  shows "cache_fits cache'"
    and "found = Some c \<Longrightarrow> uint (c2_reserve0 c) < 2 ^ 112 \<and> uint (c2_reserve1 c) < 2 ^ 112"
  using fetch_v2_fits assms unfolding cached_v2_def by blast+

lemma load_edges_fits:
  "cache_fits cache \<Longrightarrow> cache_fits (fst (load_edges cv cfg router multi victim_pair now block edges cache))"
  by (induction cv cfg router multi victim_pair now block edges cache rule: load_edges.induct)
    (auto dest: cached_v2_fits split: sum.split prod.split option.split)

lemma best_route_fits:
  "cache_fits cache \<Longrightarrow> cache_fits (fst (best_route cv cfg router probe victim_pair now block routes cache best))"
proof (induction routes arbitrary: cache best)
  case (Cons route routes)
  have "cache_fits (fst (load_v2_route_pools cv cfg router route victim_pair cache now block))"
    using load_edges_fits Cons.prems by (simp add: load_v2_route_pools_def)
  then show ?case using Cons.IH by (auto simp: Let_def split: prod.split option.split)
qed simp

lemma reverse_route_fits:
  "cache_fits cache \<Longrightarrow>
     cache_fits (fst (best_scavenger_v2_reverse_route cv cfg s token_in token_out pair router capital cache now block))"
  using best_route_fits by (auto simp: best_scavenger_v2_reverse_route_def Let_def split: prod.split) (metis fst_conv)

text \<open>The runtime's own builds keep the cache and, outside scavenger mode, never succeed.\<close>

definition swaps_two_tokens :: "swap_signal \<Rightarrow> bool" where
  "swaps_two_tokens s = (case sg_path s of a # b # _ \<Rightarrow> a \<noteq> b | _ \<Rightarrow> True)"

lemma built_same_pair:
  assumes "fi_state_before inp = AmmUniswapV2 p" and "fi_v2_swap_path inp = Some [fi_token_out inp, fi_token_in inp]"
    and "fi_v2_swap_pools inp = [p]" and "fi_token_in inp \<noteq> fi_token_out inp"
    and "uint (v2_reserve0 p) < 2 ^ 112" "uint (v2_reserve1 p) < 2 ^ 112"
  shows "built_with P (map_sum BuilderFailed id (build_fee_extraction_v2 px cfg inp))"
  using same_pair_never_pays [OF assms] by (auto simp: built_with_def map_sum_eq_Inr)

lemma build_v2_payload_never:
  assumes cache: "cache_fits cache" and mode: "opportunity_mode (mev cfg) \<noteq> Scavenger" and two: "swaps_two_tokens s"
  shows "built_with P (snd (build_v2_payload px env cv cfg s gas_price ctx cache now block))"
proof (cases "sg_path s")
  case (Cons token_in rest)
  show ?thesis
  proof (cases rest)
    case (Cons token_out more)
    have path: "sg_path s = token_in # token_out # more" and ne: "token_in \<noteq> token_out"
      using Cons \<open>sg_path s = token_in # rest\<close> two by (auto simp: swaps_two_tokens_def)
    show ?thesis
      unfolding build_v2_payload_def Let_def path list.case
      using mode ne
      by (auto simp: pool_of_cached_v2_def intro!: built_same_pair dest: cached_v2_fits(2) [OF cache _ refl]
          split: sum.split prod.split option.split)
  qed (use Cons in \<open>simp add: build_v2_payload_def\<close>)
qed (simp add: build_v2_payload_def)


lemma build_v2_payload_fits:
  assumes cache: "cache_fits cache"
  shows "cache_fits (fst (build_v2_payload px env cv cfg s gas_price ctx cache now block))"
  unfolding build_v2_payload_def Let_def
  using cache reverse_route_fits cached_v2_fits(1) [OF cache]
  by (auto split: list.split sum.split prod.split option.split) (metis fst_conv)+

lemma build_v3_payload_fits:
  assumes "cache_fits cache"
  shows "cache_fits (fst (build_v3_payload px env cv cfg s gas_price ctx fee_tier encoded cache now block))"
  unfolding build_v3_payload_def Let_def
  using assms fetch_v3_fits by (auto split: list.split sum.split prod.split option.split) (metis fst_conv)+

lemma build_payload_fits:
  "cache_fits cache \<Longrightarrow> build_payload px env cv cfg s gas_price ctx cache now block = (cache', r) \<Longrightarrow> cache_fits cache'"
  using build_v2_payload_fits build_v3_payload_fits
  by (cases "sg_kind s") (auto simp: build_payload_def, (metis fst_conv)+)

lemma build_payload_never:
  assumes "cache_fits cache" "opportunity_mode (mev cfg) \<noteq> Scavenger" "swaps_two_tokens s"
  shows "build_payload px env cv cfg s gas_price ctx cache now block \<noteq> (cache', Inr payload)"
proof
  assume b: "build_payload px env cv cfg s gas_price ctx cache now block = (cache', Inr payload)"
  then have "build_v2_payload px env cv cfg s gas_price ctx cache now block = (cache', Inr payload)"
    using build_payload_form [OF b] by (simp add: build_payload_def)
  then show False
    using build_v2_payload_never [OF assms, of "\<lambda>_. False" px env cv gas_price ctx now block] by (simp add: built_with_def)
qed

lemma builder_tasks_fits:
  "cache_fits cache \<Longrightarrow> builder_tasks px env bn cfg s gas_price ctx now block hs (fleet, cache) errors = ((fleet', cache'), r) \<Longrightarrow>
     cache_fits cache' \<and> (opportunity_mode (mev cfg) \<noteq> Scavenger \<and> swaps_two_tokens s \<longrightarrow> (\<exists>report. r = Inl report))"
proof (induction hs arbitrary: fleet cache errors)
  case (Cons h hs)
  obtain cache1 b where b: "build_payload px env (bn_views bn (rh_id h)) cfg s gas_price ctx cache now block = (cache1, b)"
    by (meson surj_pair)
  note fits = build_payload_fits [OF Cons.prems(1) b]
  show ?case
  proof (cases b)
    case (Inr payload)
    then show ?thesis
      using Cons.prems b fits Cons.IH [OF fits] build_payload_never [OF Cons.prems(1)]
      by (auto split: sum.splits)
  next
    case (Inl err)
    then show ?thesis using Cons.prems b Cons.IH [OF fits] by (simp add: Let_def)
  qed
qed auto

lemma build_with_fallback_fits:
  assumes "cache_fits cache"
    "build_payload_with_fallback_parallel px env bn cfg s gas_price ctx now block (fleet, cache) = ((fleet', cache'), r)"
  shows "cache_fits cache' \<and> (opportunity_mode (mev cfg) \<noteq> Scavenger \<and> swaps_two_tokens s \<longrightarrow> (\<exists>report. r = Inl report))"
  using assms builder_tasks_fits
  by (auto simp: build_payload_with_fallback_parallel_def Let_def split: prod.splits if_splits)

section \<open>Evaluations\<close>

lemma payload_stage_fits:
  assumes "cache_fits (es_cache st)" "payload_stage ex cfg st c = (st', r)"
  shows "cache_fits (es_cache st') \<and> (opportunity_mode (mev cfg) \<noteq> Scavenger \<and> swaps_two_tokens (lc_signal c) \<longrightarrow> (\<exists>e. r = Inl e))"
  using assms build_with_fallback_fits
  by (fastforce simp: payload_stage_def reject_def funnel_def Let_def split: prod.splits sum.splits if_splits)


definition stage_fits :: "'a stage \<Rightarrow> bool" where
  "stage_fits r = cache_fits (es_cache (fst r))"

lemma stage_fits_simps [simp]:
  "stage_fits (st, r) = cache_fits (es_cache st)"
  "stage_fits (reject stages st e) = cache_fits (es_cache st)"
  "es_cache (funnel stages st) = es_cache st"
  by (simp_all add: stage_fits_def reject_def funnel_def)

lemma fits_then:
  "stage_fits r \<Longrightarrow> (\<And>st x. cache_fits (es_cache st) \<Longrightarrow> stage_fits (k st x)) \<Longrightarrow> stage_fits (stage_then r k)"
  by (cases "(r, k)" rule: stage_then.cases) auto

lemma stages_fit:
  assumes fits: "cache_fits (es_cache st)"
  shows "stage_fits (fast_stage ex cfg min_large st c)" "stage_fits (policy_stage ex cfg st c)"
    "stage_fits (payload_stage ex cfg st c)" "stage_fits (validation_stage ex cfg st c payload)"
    "stage_fits (economic_stage ex cfg st c payload)" "stage_fits (evm_stage ex cfg st c payload)"
    "stage_fits (quote_stage ex cfg st c payload cost)"
    "stage_fits (ready ex cfg stages st c payload relay ev p score priority)"
proof -
  show "stage_fits (payload_stage ex cfg st c)"
    using payload_stage_fits [OF fits surjective_pairing, of ex cfg c] by (simp add: stage_fits_def)
qed (use fits in \<open>auto simp: fast_stage_def policy_stage_def validation_stage_def economic_stage_def ready_def
    maybe_enqueue_replay_candidate_def evm_stage_def quote_stage_def Let_def
    split: option.split sum.split lock.split prod.split preflight_error.split\<close>)

lemma last_stages_fit:
  assumes "cache_fits (es_cache st)"
  shows "stage_fits (scavenger_stage ex cfg gate st c payload economic)" "stage_fits (standard_stage ex cfg min_profit st c payload)"
proof -
  show "stage_fits (scavenger_stage ex cfg gate st c payload economic)"
    using assms by (auto simp: scavenger_stage_def Let_def intro!: stages_fit split: sum.split)
  show "stage_fits (standard_stage ex cfg min_profit st c payload)"
    using assms by (auto simp: standard_stage_def Let_def intro!: stages_fit fits_then)
qed

lemma evaluation_fits:
  assumes "cache_fits (es_cache st)"
  shows "stage_fits (process_evaluation_task ex cfg large_default profit_default st c)"
  unfolding process_evaluation_task_def Let_def
  using assms by (intro fits_then stages_fit) (auto intro: last_stages_fit split: option.split)

lemma evaluation_stops:
  assumes fits: "cache_fits (es_cache st)" and two: "swaps_two_tokens (lc_signal c)"
  shows "isl (snd (process_evaluation_task ex cfg large_default profit_default st c))"
proof (rule ccontr)
  assume "\<not> isl (snd (process_evaluation_task ex cfg large_default profit_default st c))"
  then obtain st' cand where e: "process_evaluation_task ex cfg large_default profit_default st c = (st', Inr cand)"
    by (metis isl_def prod.collapse sum.exhaust)
  then obtain st1 st2 st3 gate payload where s: "fast_stage ex cfg
        (case rv_parse_ether_shown (ex_env ex) (effective_min_large_swap_eth (mev cfg)) of Inr v \<Rightarrow> v | Inl _ \<Rightarrow> large_default) st c
        = (st1, Inr gate)" "policy_stage ex cfg st1 c = (st2, Inr ())" "payload_stage ex cfg st2 c = (st3, Inr payload)"
    unfolding process_evaluation_task_def Let_def stage_simps by auto
  have mode: "opportunity_mode (mev cfg) \<noteq> Scavenger" using e by (rule evaluation_stages)
  have "cache_fits (es_cache st2)"
    using stages_fit(1) [OF fits] stages_fit(2) s(1,2) by (metis stage_fits_simps(1))
  from payload_stage_fits [OF this s(3)] mode two show False by blast
qed

text \<open>Evaluations one after the other, sharing the pool cache; whatever else changes between them.\<close>

fun evaluations ::
  "pool_cache \<Rightarrow> ('db eval_ext \<times> config \<times> u256 \<times> u256 \<times> eval_state \<times> lookup_decoded_candidate) list
    \<Rightarrow> (eval_stop + pending_execution_candidate) list" where
  "evaluations cache [] = []"
| "evaluations cache ((ex, cfg, large_default, profit_default, st, c) # tasks) =
     (case process_evaluation_task ex cfg large_default profit_default (st\<lparr>es_cache := cache\<rparr>) c of
        (st', r) \<Rightarrow> r # evaluations (es_cache st') tasks)"

text \<open>
  C4: the runtime never hands a candidate to the batch. From an empty cache, over any sequence of
  evaluations of swaps between two different tokens, in any modes, with any answers of the nodes, every
  evaluation stops: in scavenger mode at the sanity gate, for V3 for want of tick data, and otherwise
  because the borrowed token is sold on the pair it was borrowed from, at the reserves before the
  victim, which is always worth less than the repayment at the reserves after it.
\<close>

theorem nothing_ever_ready:
  assumes "list_all (\<lambda>(ex, cfg, large_default, profit_default, st, c). swaps_two_tokens (lc_signal c)) tasks"
  shows "list_all isl (evaluations (pool_cache_new ttl) tasks)"
proof -
  have "list_all isl (evaluations cache tasks)" if "cache_fits cache" for cache
    using that assms
  proof (induction tasks arbitrary: cache)
    case (Cons t tasks)
    obtain ex cfg ld pd st c where t: "t = (ex, cfg, ld, pd, st, c)" by (cases t)
    let ?st = "st\<lparr>es_cache := cache\<rparr>"
    obtain st' r where p: "process_evaluation_task ex cfg ld pd ?st c = (st', r)" by (meson surj_pair)
    have fits: "cache_fits (es_cache ?st)" using Cons.prems(1) by simp
    have "cache_fits (es_cache st')" using evaluation_fits [OF fits, of ex cfg ld pd c] p by simp
    moreover have "isl r" using evaluation_stops [OF fits, of c ex cfg ld pd] Cons.prems(2) p t by simp
    ultimately show ?case using Cons.IH Cons.prems(2) p t by simp
  qed simp
  then show ?thesis using cache_fits_new by blast
qed


definition demo_swap :: lookup_decoded_candidate where
  "demo_swap = \<lparr>lc_tx = \<lparr>tx_from = 1, tx_to = Some 2, tx_input = [], tx_value = 0, tx_gas_price = Some 1, tx_gas = 0,
       tx_nonce = 0, tx_chain_id = None, ptx_hash = 5, ptx_max_fee_per_gas = None, ptx_block_number = None\<rparr>,
     lc_signal = \<lparr>sg_selector = SWAP_EXACT_TOKENS_FOR_TOKENS, sg_amount_in = 1000000, sg_amount_out_min = None,
       sg_notional_wei = 1000000000000000000, sg_path = [1, 2], sg_router = 30, sg_kind = KindV2,
       sg_decode_confidence = 1, sg_decode_source = ''abi''\<rparr>,
     lc_lane = LaneLarge, lc_hour_utc = 0, lc_gas_price = 1, lc_context_signal = neutral_context,
     lc_cluster = \<lparr>ck_router = 30, ck_token_in = 1, ck_token_out = 2, ck_selector = SWAP_EXACT_TOKENS_FOR_TOKENS\<rparr>,
     lc_lookup_latency = 0, lc_block_number = 100\<rparr>"

theorem nothing_ever_ready_witness:
  "\<forall>(ex :: unit eval_ext) st. list_all isl (evaluations (pool_cache_new 400) [(ex, demo_payload_config, 0, 0, st, demo_swap)])"
proof (intro allI)
  fix ex :: "unit eval_ext" and st
  have "swaps_two_tokens (lc_signal demo_swap)" by (simp add: swaps_two_tokens_def demo_swap_def)
  then show "list_all isl (evaluations (pool_cache_new 400) [(ex, demo_payload_config, 0, 0, st, demo_swap)])"
    by (intro nothing_ever_ready) simp
qed

end
