(* ===== verification/DecodeSafety.thy ===== *)
theory DecodeSafety
  imports RuntimeDecode
begin

text \<open>
  Correctness of the decoders: packed V3 paths are read back, decoded signals are well formed, the nested
  decoding satisfies the recursive equation of the source and ends, and the one way in which a
  transaction makes a decoder panic.
\<close>

section \<open>Packed paths\<close>

lemma be_bytes_Suc: "be_bytes (Suc n) w = ucast (drop_bit (8 * n) w) # be_bytes n w"
  by (simp add: be_bytes_def)

lemma length_be_bytes [simp]: "length (be_bytes n w) = n"
  by (simp add: be_bytes_def)

lemma be_value_acc:
  "foldl (\<lambda>acc b. acc * 256 + uint b) a bs = a * 256 ^ length bs + foldl (\<lambda>acc b. acc * 256 + uint (b :: u8)) (0 :: int) bs"
proof (induction bs arbitrary: a)
  case Nil
  then show ?case by simp
next
  case (Cons b bs)
  have "foldl (\<lambda>acc b. acc * 256 + uint b) a (b # bs)
      = (a * 256 + uint b) * 256 ^ length bs + foldl (\<lambda>acc b. acc * 256 + uint b) 0 bs"
    using Cons.IH [of "a * 256 + uint b"] by simp
  moreover have "foldl (\<lambda>acc b. acc * 256 + uint b) 0 (b # bs)
      = uint b * 256 ^ length bs + foldl (\<lambda>acc b. acc * 256 + uint b) 0 bs"
    using Cons.IH [of "uint b"] by simp
  ultimately show ?case by (simp add: algebra_simps)
qed

lemma byte_at: "uint (ucast (drop_bit (8 * n) w) :: u8) = uint (w :: 'a::len word) div 256 ^ n mod 256"
proof -
  have "uint (ucast (drop_bit (8 * n) w) :: u8) = uint (drop_bit (8 * n) w) mod 2 ^ 8"
    by (simp add: unsigned_ucast_eq take_bit_eq_mod [of _ "uint _"])
  also have "uint (drop_bit (8 * n) w) = drop_bit (8 * n) (take_bit LENGTH('a) (uint w))"
    by (rule unsigned_drop_bit_eq)
  also have "take_bit LENGTH('a) (uint w) = uint w" by (simp add: take_bit_int_eq_self)
  also have "drop_bit (8 * n) (uint w) = uint w div 2 ^ (8 * n)" by (rule drop_bit_eq_div)
  also have "(2 :: int) ^ (8 * n) = 256 ^ n" by (simp add: power_mult)
  finally show ?thesis by simp
qed

lemma be_value: "foldl (\<lambda>acc b. acc * 256 + uint b) 0 (be_bytes n w) = uint (w :: 'a::len word) mod 256 ^ n"
proof (induction n)
  case 0
  then show ?case by (simp add: be_bytes_def)
next
  case (Suc n)
  let ?x = "uint w"
  have "foldl (\<lambda>acc b. acc * 256 + uint b) 0 (be_bytes (Suc n) w) = ?x div 256 ^ n mod 256 * 256 ^ n + ?x mod 256 ^ n"
    using be_value_acc [of "?x div 256 ^ n mod 256" "be_bytes n w"] by (simp add: be_bytes_Suc byte_at Suc)
  also have "\<dots> = ?x mod (256 ^ n * 256)"
    using zmod_zmult2_eq [of 256 ?x "256 ^ n"] by (simp add: mult.commute [of "256 ^ n"])
  finally show ?case by (simp add: mult.commute)
qed

lemma from_be_be_bytes:
  assumes "uint w < 256 ^ n"
  shows "from_be (be_bytes n w) = (w :: 'a::len word)"
  using assms by (simp add: from_be_def be_value)

lemma from_be_address [simp]: "from_be (be_bytes 20 a) = (a :: address)"
  using uint_lt2p [of a] by (intro from_be_be_bytes) simp

lemma from_be_fee: "uint f < 2 ^ 24 \<Longrightarrow> from_be (0 # be_bytes 3 f) = (f :: u32)"
  using from_be_be_bytes [of f 3] by (simp add: from_be_def)

text \<open>The packed path of Uniswap V3: a token, then a fee and a token per hop.\<close>

fun encode_hops :: "address \<Rightarrow> (u32 \<times> address) list \<Rightarrow> bytes" where
  "encode_hops t [] = be_bytes 20 t"
| "encode_hops t ((fee, next) # hops) = be_bytes 20 t @ be_bytes 3 fee @ encode_hops next hops"

fun hop_segments :: "address \<Rightarrow> (u32 \<times> address) list \<Rightarrow> v3_path_segment list" where
  "hop_segments t [] = []"
| "hop_segments t ((fee, next) # hops) = \<lparr>vs_token_in = t, vs_token_out = next, vs_fee_tier = fee\<rparr> # hop_segments next hops"

lemma length_encode_hops [simp]: "length (encode_hops t hops) = 20 + 23 * length hops"
  by (induction t hops rule: encode_hops.induct) auto

lemma take_encode_hops: "take 20 (encode_hops t hops) = be_bytes 20 t"
  by (cases hops) auto

text \<open>A segment read at the front of a path, and the shift of all offsets by one hop.\<close>

lemma segments_shift:
  "length pre = 23 \<Longrightarrow> segments_from (pre @ path) (map Suc hops) = segments_from path hops"
  by (induction hops) (simp_all add: slice_def Let_def algebra_simps)

lemma segments_encode_hops:
  assumes "\<forall>(fee, next) \<in> set hops. uint fee < 2 ^ 24"
  shows "segments_from (encode_hops t hops) [0..<length hops] = hop_segments t hops"
  using assms
proof (induction t hops rule: encode_hops.induct)
  case (1 t)
  then show ?case by simp
next
  case (2 t fee "next" hops)
  have idx: "[0..<length ((fee, next) # hops)] = 0 # map Suc [0..<length hops]"
    by (simp add: upt_conv_Cons map_Suc_upt del: upt_Suc)
  have rest: "segments_from (encode_hops t ((fee, next) # hops)) (map Suc [0..<length hops]) = hop_segments next hops"
    using segments_shift [of "be_bytes 20 t @ be_bytes 3 fee" "encode_hops next hops"] 2 by simp
  show ?case
    using 2(2) by (simp only: idx) (simp add: rest [simplified] slice_def Let_def take_encode_hops from_be_fee)
qed


lemma parse_v3_path_Some:
  "parse_v3_path path = Some parsed \<Longrightarrow> 43 \<le> length path \<and> 1 \<le> vp_hops parsed
     \<and> vp_token_in parsed = from_be (slice 0 20 path) \<and> vp_edge_token_out parsed = from_be (slice 23 43 path)"
  by (auto simp: parse_v3_path_def split: if_splits)

lemma parse_encode_hops:
  assumes "uint fee < 2 ^ 24"
  shows "parse_v3_path (encode_hops t ((fee, next) # hops))
       = Some \<lparr>vp_token_in = t, vp_edge_token_out = next, vp_first_fee_tier = fee, vp_hops = Suc (length hops)\<rparr>"
proof -
  have "(20 + 23 * length ((fee, next) # hops) - 20) div 23 = Suc (length hops)" by simp
  then show ?thesis
    using assms by (simp add: parse_v3_path_def slice_def take_encode_hops from_be_fee)
qed

lemma encode_v3_path_hops: "encode_v3_path a fee b = encode_hops a [(fee, b)]"
  by (simp add: encode_v3_path_def)

text \<open>
  C36: a packed V3 path is read back exactly, whatever its number of hops: the segments are the hops in
  order, the parsed head is the first hop with the number of hops, and the exact-output reading of a
  single hop is that hop reversed.
\<close>

theorem v3_path_round_trip:
  assumes fees: "\<forall>(fee, next) \<in> set ((fee0, next0) # hops). uint fee < 2 ^ 24"
  shows "parse_v3_path_segments (encode_hops t ((fee0, next0) # hops)) = hop_segments t ((fee0, next0) # hops)
    \<and> parse_v3_path (encode_hops t ((fee0, next0) # hops))
        = Some \<lparr>vp_token_in = t, vp_edge_token_out = next0, vp_first_fee_tier = fee0, vp_hops = Suc (length hops)\<rparr>
    \<and> parse_v3_exact_out_path (encode_v3_path t fee0 next0)
        = Some \<lparr>vp_token_in = next0, vp_edge_token_out = t, vp_first_fee_tier = fee0, vp_hops = 1\<rparr>"
proof (intro conjI)
  have len: "(length (encode_hops t ((fee0, next0) # hops)) - 20) div 23 = length ((fee0, next0) # hops)"
    and enough: "\<not> length (encode_hops t ((fee0, next0) # hops)) < 43"
    by simp_all
  show "parse_v3_path_segments (encode_hops t ((fee0, next0) # hops)) = hop_segments t ((fee0, next0) # hops)"
    unfolding parse_v3_path_segments_def if_not_P [OF enough] len by (rule segments_encode_hops [OF fees])
  show "parse_v3_path (encode_hops t ((fee0, next0) # hops))
      = Some \<lparr>vp_token_in = t, vp_edge_token_out = next0, vp_first_fee_tier = fee0, vp_hops = Suc (length hops)\<rparr>"
    using fees by (intro parse_encode_hops) simp
  show "parse_v3_exact_out_path (encode_v3_path t fee0 next0)
      = Some \<lparr>vp_token_in = next0, vp_edge_token_out = t, vp_first_fee_tier = fee0, vp_hops = 1\<rparr>"
    using fees parse_encode_hops [of fee0 t next0 "[]"]
    by (simp add: parse_v3_exact_out_path_def encode_v3_path_hops del: encode_hops.simps)
qed

theorem v3_path_round_trip_witness:
  "parse_v3_path_segments (encode_hops 7 [(500, 8), (3000, 9)])
     = [\<lparr>vs_token_in = 7, vs_token_out = 8, vs_fee_tier = 500\<rparr>, \<lparr>vs_token_in = 8, vs_token_out = 9, vs_fee_tier = 3000\<rparr>]"
  using v3_path_round_trip [of 500 8 "[(3000, 9)]" 7] by simp

section \<open>Well-formed signals\<close>

text \<open>A V3 signal names one edge, and the path it carries for execution is that edge reversed.\<close>

definition path_matches_kind :: "swap_signal \<Rightarrow> bool" where
  "path_matches_kind s =
     (case sg_kind s of KindV2 \<Rightarrow> True
      | KindV3 fee_tier encoded hops exact_out \<Rightarrow>
          (case sg_path s of [a, b] \<Rightarrow> encoded = encode_v3_path b fee_tier a \<and> 1 \<le> hops | _ \<Rightarrow> False))"

named_theorems signal_ok \<open>decoders that return well-formed signals\<close>

lemma path_matches_signal [simp]:
  "path_matches_kind (v2_signal sel router amount out path confidence source)"
  "path_matches_kind (v3_signal sel router amount out a b fee hops exact confidence source) = (1 \<le> hops)"
  "path_matches_kind (s\<lparr>sg_notional_wei := n\<rparr>) = path_matches_kind s"
  "path_matches_kind (relabel sel cap source s) = path_matches_kind s"
  by (simp_all add: path_matches_kind_def v2_signal_def v3_signal_def relabel_def split: swap_kind.split)

lemma first_segment:
  "parse_v3_path path = Some parsed \<Longrightarrow>
     \<exists>g gs. parse_v3_path_segments path = g # gs \<and> vs_token_in g = vp_token_in parsed \<and> vs_token_out g = vp_edge_token_out parsed"
proof -
  assume p: "parse_v3_path path = Some parsed"
  then have len: "43 \<le> length path" by (simp add: parse_v3_path_Some)
  then have "1 \<le> (length path - 20) div 23" using div_le_mono [of 23 "length path - 20" 23] by simp
  then obtain n where n: "(length path - 20) div 23 = Suc n" by (cases "(length path - 20) div 23") auto
  show ?thesis
    using parse_v3_path_Some [OF p] len
    by (simp add: parse_v3_path_segments_def n upt_conv_Cons Let_def slice_def not_less [THEN iffD2] del: upt_Suc)
qed

lemma single_call_ok [signal_ok]:
  "decode_eth_swap ad sel router v args = Some s \<Longrightarrow> path_matches_kind s"
  "decode_token_swap ad sel router args = Some s \<Longrightarrow> path_matches_kind s"
  "decode_algebra_exact_input_single ad sel router args = Some s \<Longrightarrow> path_matches_kind s"
  "decode_zero_ex_sell_to_uniswap ad sel router args = Some s \<Longrightarrow> path_matches_kind s"
  "decode_universal_router_v2_exact_in ad sel router args = Some s \<Longrightarrow> path_matches_kind s"
  "decode_universal_router_v2_exact_out ad sel router args = Some s \<Longrightarrow> path_matches_kind s"
  "universal_router_hop_to_signal sel router hop = Some s \<Longrightarrow> path_matches_kind s"
  by (auto simp: decode_eth_swap_def decode_token_swap_def decode_algebra_exact_input_single_def
      decode_zero_ex_sell_to_uniswap_def decode_universal_router_v2_exact_in_def decode_universal_router_v2_exact_out_def
      universal_router_hop_to_signal_def split: option.splits if_splits)

lemma parsed_call_ok [signal_ok]:
  "decode_v3_exact_input ad sel router args = Some s \<Longrightarrow> path_matches_kind s"
  "decode_universal_router_v3_exact_in ad sel router args = Some s \<Longrightarrow> path_matches_kind s"
  "decode_universal_router_v3_exact_out ad sel router args = Some s \<Longrightarrow> path_matches_kind s"
  by (auto simp: decode_v3_exact_input_def decode_universal_router_v3_exact_in_def
      decode_universal_router_v3_exact_out_def parse_v3_exact_out_path_def Option.bind_eq_Some_conv
      dest: parse_v3_path_Some split: option.splits if_splits)

lemma single_values_ok [signal_ok]:
  "decode_v3_exact_input_single_values sel router values i j confidence source = Inr (Some s) \<Longrightarrow> path_matches_kind s"
  by (auto simp: decode_v3_exact_input_single_values_def and_then_eq_Inr split: option.splits)

lemma exact_input_single_ok [signal_ok]:
  "decode_v3_exact_input_single_with_deadline ad sel router args = Inr (Some s) \<Longrightarrow> path_matches_kind s"
  "decode_v3_exact_input_single_no_deadline ad sel router args = Inr (Some s) \<Longrightarrow> path_matches_kind s"
  by (auto simp: decode_v3_exact_input_single_with_deadline_def decode_v3_exact_input_single_no_deadline_def
      dest: single_values_ok split: option.splits)

lemma partial_ok [signal_ok]:
  "decode_partial_swap_from_monitored_tokens sel router v args monitored confidence source = Some s \<Longrightarrow> path_matches_kind s"
  "decode_transit_v5_v2_partial ad sel router v args monitored = Some s \<Longrightarrow> path_matches_kind s"
  "decode_swap_exact_eth_for_token_partial ad sel router v args monitored = Some s \<Longrightarrow> path_matches_kind s"
  by (auto simp: decode_partial_swap_from_monitored_tokens_def decode_transit_v5_v2_partial_def
      decode_swap_exact_eth_for_token_partial_def Let_def split: option.splits list.splits if_splits)

lemma safe_inner_ok [signal_ok]:
  "decode_safe_inner_aggregator_partial sel router v args monitored = Some s \<Longrightarrow> path_matches_kind s"
  by (auto simp: decode_safe_inner_aggregator_partial_def dest: partial_ok split: if_splits)

lemma transit_v3_ok [signal_ok]:
  assumes "decode_transit_v5_v3_partial ad sel router v args monitored = Some s"
  shows "path_matches_kind s"
proof -
  obtain path parsed where "parse_v3_path path = Some parsed"
    and s: "s = v3_signal sel router (hinted_amount v args) None (vp_token_in parsed) (vp_edge_token_out parsed)
       (vp_first_fee_tier parsed) (vp_hops parsed) False (dec 72 2) ''transit_v5_v3_path_partial''
       \<lparr>sg_path := case parse_v3_path_segments path of g # _ \<Rightarrow> [vs_token_in g, vs_token_out g]
          | [] \<Rightarrow> [vp_token_in parsed, vp_edge_token_out parsed]\<rparr>"
    using assms by (auto simp: decode_transit_v5_v3_partial_def Let_def split: option.splits if_splits)
  then show ?thesis
    using first_segment parse_v3_path_Some by (fastforce simp: path_matches_kind_def v3_signal_def)
qed


lemma swap_of_command_ok: "s \<in> set (swap_of_command ad sel router opcode input) \<Longrightarrow> path_matches_kind s"
  by (auto simp: swap_of_command_def dest: signal_ok signal_ok [OF sym] split: option.splits if_splits)

lemma router_parts_ok:
  "s \<in> set (decode_universal_router_parts ad sel router commands inputs depth) \<Longrightarrow> path_matches_kind s"
proof (induction ad sel router commands inputs depth rule: decode_universal_router_parts.induct)
  case (1 ad sel router commands inputs depth)
  note IH = "1.IH"
  show ?case
  proof (cases "3 < depth \<or> commands = [] \<or> inputs = []")
    case True
    then show ?thesis
      using "1.prems" by (subst (asm) decode_universal_router_parts.simps) (auto split: if_splits list.splits)
  next
    case False
    then obtain command cs token ins where c: "commands = command # cs" "inputs = token # ins" "\<not> 3 < depth"
      by (cases commands; cases inputs) auto
    note unfold = decode_universal_router_parts.simps [of ad sel router "command # cs" _ depth]
    note ih = IH [OF c(3) refl c(1,2)]
    show ?thesis
    proof (cases token)
      case (TBytes input)
      with "1.prems" consider
          (sub) sub_commands sub_inputs where "opcode_of command = 0x21"
            "decode_universal_router_sub_plan ad input = Some (sub_commands, sub_inputs)"
            "s \<in> set (decode_universal_router_parts ad sel router sub_commands sub_inputs (depth + 1))"
        | (swap) "s \<in> set (swap_of_command ad sel router (opcode_of command) input)"
        | (rest) "s \<in> set (decode_universal_router_parts ad sel router cs ins depth)"
        unfolding c by (auto simp: unfold c(3) split: if_splits option.splits) (metis)
      then show ?thesis
        using ih(3) [OF TBytes _ _ refl] ih(4) [OF TBytes] swap_of_command_ok by cases blast+
    qed (use "1.prems" ih c(3) in \<open>simp_all add: unfold c\<close>)
  qed
qed

lemma router_candidates_ok:
  "s \<in> set (decode_universal_router_swap_candidates ad sel router args) \<Longrightarrow> path_matches_kind s"
  by (auto simp: decode_universal_router_swap_candidates_def decode_universal_router_graph_candidates_def Let_def
      List.map_filter_def dest: router_parts_ok signal_ok split: option.splits if_splits)

lemma total_rank: "total_comparison (\<lambda>l r. rank_le (universal_router_candidate_rank l) (universal_router_candidate_rank r))"
  by unfold_locales (auto simp: rank_le_def)

lemma with_notionals_in:
  "with_notionals env monitored ss = Inr ts \<Longrightarrow> t \<in> set ts \<Longrightarrow> \<exists>s \<in> set ss. \<exists>n. t = s\<lparr>sg_notional_wei := n\<rparr>"
proof (induction ss arbitrary: ts)
  case (Cons s ss)
  then show ?case by (fastforce simp: and_then_eq_Inr split: option.splits)
qed simp

lemma router_swap_ok [signal_ok]:
  "decode_universal_router_swap ad sel router args = Some s \<Longrightarrow> path_matches_kind s"
  "decode_universal_router_swap_for_monitored ad env sel router args monitored = Inr (Some s) \<Longrightarrow> path_matches_kind s"
proof -
  note candidate = router_candidates_ok [of _ ad sel router args]
  show "path_matches_kind s" if "decode_universal_router_swap ad sel router args = Some s"
    using that candidate by (auto simp: decode_universal_router_swap_def split: list.splits)
  show "path_matches_kind s" if d: "decode_universal_router_swap_for_monitored ad env sel router args monitored = Inr (Some s)"
  proof -
    obtain ts where "with_notionals env monitored (decode_universal_router_swap_candidates ad sel router args) = Inr ts"
      and "max_by (\<lambda>l r. rank_le (universal_router_candidate_rank l) (universal_router_candidate_rank r)) ts = Some s"
      using d by (cases "with_notionals env monitored (decode_universal_router_swap_candidates ad sel router args)")
        (auto simp: decode_universal_router_swap_for_monitored_def)
    then show ?thesis
      using with_notionals_in candidate by (fastforce dest!: total_comparison.max_by_in [OF total_rank])
  qed
qed

text \<open>Attempts: what holds of the results of both alternatives, or of every element, holds of the whole.\<close>

lemma or_try_cases: "or_try a b = Inr (Some s) \<Longrightarrow> a = Inr (Some s) \<or> b = Inr (Some s)"
  by (cases "(a, b)" rule: or_try.cases) auto

lemma or_try_panic: "or_try a b = Inl p \<Longrightarrow> a = Inl p \<or> b = Inl p"
  by (cases "(a, b)" rule: or_try.cases) auto

lemma first_attempt_Some: "first_attempt f xs = Inr (Some s) \<Longrightarrow> \<exists>x \<in> set xs. f x = Inr (Some s)"
  by (induction xs) (auto dest: or_try_cases)

lemma first_attempt_panic: "first_attempt f xs = Inl p \<Longrightarrow> \<exists>x \<in> set xs. f x = Inl p"
  by (induction xs) (auto dest: or_try_panic)

lemma map_attempt_eq [simp]:
  "map_attempt f a = Inr (Some s) \<longleftrightarrow> (\<exists>t. a = Inr (Some t) \<and> s = f t)"
  "map_attempt f a = Inl p \<longleftrightarrow> a = Inl p"
  by (cases a; auto simp: map_attempt_def)+

lemma scan_ok:
  assumes "\<And>sel router v args s. rec sel router v args = Inr (Some s) \<Longrightarrow> path_matches_kind s"
  shows "decode_nested_swap_from_calldata rec router v args monitored = Inr (Some s) \<Longrightarrow> path_matches_kind s"
  by (induction args) (auto intro: assms split: if_splits sum.splits option.splits)

lemma decode_step_ok:
  assumes rec: "\<And>sel router v args s. rec sel router v args = Inr (Some s) \<Longrightarrow> path_matches_kind s"
    and step: "decode_step rec ad env monitored sel router v args = Inr (Some s)"
  shows "path_matches_kind s"
proof -
  have scan: "decode_nested_swap_from_calldata rec target w bs monitored = Inr (Some u) \<Longrightarrow> path_matches_kind u" for target w bs u
    by (rule scan_ok [of rec]) (rule rec)
  have child: "child_call rec target w calldata = Inr (Some u) \<Longrightarrow> path_matches_kind u" for target w calldata u
    by (auto simp: child_call_def intro: rec split: if_splits)
  have multi: "decode_multicall_nested_swap rec ad sel router v args monitored = Inr (Some s) \<Longrightarrow> path_matches_kind s" for sel
    by (auto simp: decode_multicall_nested_swap_def dest!: or_try_cases first_attempt_Some
        split: option.splits token.splits) (erule child | erule scan)+
  have batch: "decode_batch_execute_nested_swap rec ad sel router v args monitored = Inr (Some s) \<Longrightarrow> path_matches_kind s" for sel
    by (auto simp: decode_batch_execute_nested_swap_def batch_call_def dest!: or_try_cases first_attempt_Some
        split: option.splits token.splits) (erule child | erule scan)+
  have safe: "decode_safe_exec_transaction_swap rec ad args monitored = Inr (Some s) \<Longrightarrow> path_matches_kind s"
    by (auto simp: decode_safe_exec_transaction_swap_def dest!: or_try_cases dest: rec signal_ok split: option.splits if_splits)
  have wrapper: "decode_private_swap_wrapper rec sel router v args monitored = Inr (Some s) \<Longrightarrow> path_matches_kind s" for sel
    by (auto simp: decode_private_swap_wrapper_def dest: scan)
  have aggregator: "decode_known_aggregator_partial rec ad sel router v args monitored = Inr (Some s) \<Longrightarrow> path_matches_kind s" for sel
    by (auto simp: decode_known_aggregator_partial_def decode_private_searcher_fingerprint_def Let_def
        dest!: or_try_cases dest: signal_ok split: if_splits) (erule scan)+
  show ?thesis
    using step unfolding decode_step_def
    by (auto dest!: or_try_cases dest: signal_ok multi batch safe wrapper aggregator split: if_splits)
qed

lemma decode_with_ok: "decode_with n ad env monitored sel router v args = Inr (Some s) \<Longrightarrow> path_matches_kind s"
proof (induction n arbitrary: sel router v args s)
  case 0
  then show ?case by simp
next
  case (Suc n)
  show ?case using Suc.prems by (auto intro: decode_step_ok [of "decode_with n ad env monitored"] Suc.IH)
qed

text \<open>
  C11: every decoded signal is well formed: its path has at least two tokens, outside scavenger mode its
  notional reaches the configured minimum, and a V3 signal, however deeply it was nested, names one edge
  whose reversal is the encoded path it carries for the execution.
\<close>

theorem decoded_signal_well_formed:
  assumes "decode_relevant_swap avx2 ad env tx monitored min_large_swap_wei mode = Inr (Some s)"
  shows "2 \<le> length (sg_path s) \<and> path_matches_kind s \<and> (mode \<noteq> Scavenger \<longrightarrow> min_large_swap_wei \<le> sg_notional_wei s)"
proof -
  obtain sel router where r: "selector_of avx2 tx = Inr (Some sel)" "tx_to tx = Some router"
    using assms by (auto simp: decode_relevant_swap_def and_then_eq_Inr split: option.splits)
  obtain t where d: "decode_swap_signal ad env monitored sel router (tx_value tx) (drop 4 (tx_input tx)) = Inr (Some t)"
    using assms by (auto simp: decode_relevant_swap_def r and_then_eq_Inr split: option.splits)
  obtain e where e: "estimate_notional_wei env t monitored = Inr e"
    using assms by (cases "estimate_notional_wei env t monitored") (auto simp: decode_relevant_swap_def r d)
  obtain n where t: "2 \<le> length (sg_path t)" "mode \<noteq> Scavenger \<longrightarrow> min_large_swap_wei \<le> n" "s = t\<lparr>sg_notional_wei := n\<rparr>"
    using assms by (auto simp: decode_relevant_swap_def r d e not_less split: option.splits if_splits)
  from d have "path_matches_kind t" unfolding decode_swap_signal_def by (rule decode_with_ok)
  then show ?thesis using t by simp
qed


text \<open>A transaction to the V3 router, decoded by an ABI decoder that reads a swap of token 7 for token 8.\<close>

definition single_swap_abi :: "u256 \<Rightarrow> abi_decoder" where
  "single_swap_abi fee params args =
     (if params = [PTuple [PAddress, PAddress, PUint 24, PAddress, PUint 256, PUint 256, PUint 256, PUint 160]]
      then Some [TTuple [TAddress 7, TAddress 8, TUint fee, TAddress 1, TUint 99, TUint 5000, TUint 0, TUint 0]] else None)"

definition single_swap_tx :: pending_transaction where
  "single_swap_tx = \<lparr>tx_from = 1, tx_to = Some 2, tx_input = V3_EXACT_INPUT_SINGLE, tx_value = 0, tx_gas_price = None, tx_gas = 0,
     tx_nonce = 0, tx_chain_id = None, ptx_hash = 0, ptx_max_fee_per_gas = None, ptx_block_number = None\<rparr>"

definition fixed_ether_env :: "u256 \<Rightarrow> runtime_env" where
  "fixed_ether_env wei = \<lparr>rv_pending_lookup_max_per_sec = None, rv_scavenger_min_gas_fraction_bps = None,
     rv_scavenger_min_economic_edge_usd = None, rv_scavenger_require_net_positive = True,
     rv_scavenger_gas_cap_research_bypass = False, rv_scavenger_research_max_gas_ratio = 1,
     rv_pre_decode_gas_cap_multiplier = 1, rv_ws_reconnect_base_ms = None, rv_ws_reconnect_max_secs = None,
     rv_payload_build_fanout = None, rv_unhealthy_rpc_fallback = False, rv_evm_preflight_enabled = False,
     rv_parse_ether_shown = (\<lambda>_. Inr wei), rv_ether_overflows = (\<lambda>_. False), rv_parse_ether_18 = (\<lambda>_. Inr wei)\<rparr>"

lemma single_swap_selector [simp]: "selector_of False single_swap_tx = Inr (Some V3_EXACT_INPUT_SINGLE)"
  by (simp add: selector_of_def single_swap_tx_def find_selector_def find_selector_scalar_def first4_cases
      SELECTORS_def V3_EXACT_INPUT_SINGLE_def)

lemma single_swap_fields [simp]:
  "tx_to single_swap_tx = Some 2"
  "rv_parse_ether_shown (fixed_ether_env wei) x = Inr wei"
  "\<not> rv_ether_overflows (fixed_ether_env wei) x"
  "V3_EXACT_INPUT_SINGLE \<noteq> SWAP_EXACT_ETH_FOR_TOKENS"
  "V3_EXACT_INPUT_SINGLE \<noteq> SWAP_EXACT_ETH_FOR_TOKENS_SUPPORTING_FEE"
  by (simp_all add: single_swap_tx_def fixed_ether_env_def V3_EXACT_INPUT_SINGLE_def SWAP_EXACT_ETH_FOR_TOKENS_def
      SWAP_EXACT_ETH_FOR_TOKENS_SUPPORTING_FEE_def)

lemma decode_exact_input_single:
  "decode_swap_signal ad env monitored V3_EXACT_INPUT_SINGLE router v args
     = decode_v3_exact_input_single_with_deadline ad V3_EXACT_INPUT_SINGLE router args"
  by (simp add: decode_swap_signal_def decode_step_def V3_EXACT_INPUT_SINGLE_def SWAP_EXACT_ETH_FOR_TOKENS_def
      SWAP_EXACT_ETH_FOR_TOKENS_SUPPORTING_FEE_def SWAP_EXACT_TOKENS_FOR_TOKENS_def SWAP_EXACT_TOKENS_FOR_ETH_def
      SWAP_EXACT_TOKENS_FOR_TOKENS_SUPPORTING_FEE_def SWAP_EXACT_TOKENS_FOR_ETH_SUPPORTING_FEE_def)

lemma single_swap_decodes [simp]:
  "decode_swap_signal (single_swap_abi fee) env monitored V3_EXACT_INPUT_SINGLE router v args
     = map_sum id (\<lambda>tier. Some (v3_signal V3_EXACT_INPUT_SINGLE router 5000 (Some 0) 7 8 tier 1 False 1 ''abi'')) (as_u32 fee)"
  by (cases "as_u32 fee")
    (simp_all add: decode_exact_input_single decode_v3_exact_input_single_with_deadline_def single_tuple_def
      single_swap_abi_def field_def decode_v3_exact_input_single_values_def)

theorem decoded_signal_well_formed_witness:
  "\<exists>s. decode_relevant_swap False (single_swap_abi 500) (fixed_ether_env 90) single_swap_tx
          [\<lparr>mt_address = 7, mt_decimals = 18, mt_price_eth = 1\<rparr>] 50 Aggressive = Inr (Some s)
     \<and> path_matches_kind s \<and> 50 \<le> sg_notional_wei s"
proof -
  let ?d = "decode_relevant_swap False (single_swap_abi 500) (fixed_ether_env 90) single_swap_tx
          [\<lparr>mt_address = 7, mt_decimals = 18, mt_price_eth = 1\<rparr>] 50 Aggressive"
  obtain s where s: "?d = Inr (Some s)"
    by (simp add: decode_relevant_swap_def as_u32_def estimate_notional_wei_def Let_def v3_signal_def)
  from decoded_signal_well_formed [OF s] s show ?thesis by auto
qed

section \<open>The nested decoding ends\<close>

fun token_bytes :: "token \<Rightarrow> bytes list" where
  "token_bytes (TBytes bs) = [bs]"
| "token_bytes (TArray ts) = concat (map token_bytes ts)"
| "token_bytes (TFixedArray ts) = concat (map token_bytes ts)"
| "token_bytes (TTuple ts) = concat (map token_bytes ts)"
| "token_bytes _ = []"

text \<open>The ABI decoder returns byte strings that it cut out of its input.\<close>

definition abi_slices :: "abi_decoder \<Rightarrow> bool" where
  "abi_slices ad \<longleftrightarrow> (\<forall>params args ts t bs. ad params args = Some ts \<longrightarrow> t \<in> set ts \<longrightarrow> bs \<in> set (token_bytes t)
      \<longrightarrow> length bs \<le> length args)"

lemma abi_slicesD:
  "abi_slices ad \<Longrightarrow> ad params args = Some ts \<Longrightarrow> t \<in> set ts \<Longrightarrow> bs \<in> set (token_bytes t) \<Longrightarrow> length bs \<le> length args"
  by (auto simp: abi_slices_def)

definition agree_below :: "nat \<Rightarrow> decoder \<Rightarrow> decoder \<Rightarrow> bool" where
  "agree_below n f g \<longleftrightarrow> (\<forall>sel router v args. length args < n \<longrightarrow> f sel router v args = g sel router v args)"

lemma agree_belowD: "agree_below n f g \<Longrightarrow> length args < n \<Longrightarrow> f sel router v args = g sel router v args"
  by (simp add: agree_below_def)

lemma scan_cong:
  "agree_below n f g \<Longrightarrow> length args \<le> n \<Longrightarrow>
     decode_nested_swap_from_calldata f router v args monitored = decode_nested_swap_from_calldata g router v args monitored"
proof (induction args)
  case (Cons b bs)
  then have "f (take 4 (b # bs)) router v (drop 4 (b # bs)) = g (take 4 (b # bs)) router v (drop 4 (b # bs))"
    by (intro agree_belowD) auto
  then show ?case using Cons by (simp split: sum.split option.split)
qed simp

lemma child_cong: "agree_below n f g \<Longrightarrow> length calldata \<le> n \<Longrightarrow> child_call f target v calldata = child_call g target v calldata"
  by (auto simp: child_call_def intro!: agree_belowD)

lemma first_attempt_cong: "(\<And>x. x \<in> set xs \<Longrightarrow> f x = g x) \<Longrightarrow> first_attempt f xs = first_attempt g xs"
  by (induction xs) auto

lemma field_in: "field read i ts = Some y \<Longrightarrow> \<exists>t \<in> set ts. read t = Some y"
  by (auto simp: field_def split: if_splits)

lemma token_reads [simp]:
  "token_as_array t = Some ts \<longleftrightarrow> t = TArray ts"
  "token_as_bytes t = Some bs \<longleftrightarrow> t = TBytes bs"
  by (cases t; auto)+

lemma array_slices:
  assumes "abi_slices ad" and "Option.bind (ad params args) (field token_as_array i) = Some calls"
    and "call \<in> set calls" and "bs \<in> set (token_bytes call)"
  shows "length bs \<le> length args"
proof -
  obtain ts where "ad params args = Some ts" "TArray calls \<in> set ts"
    using assms(2) by (auto simp: Option.bind_eq_Some_conv dest!: field_in)
  then show ?thesis using assms by (intro abi_slicesD [of ad params args ts "TArray calls"]) auto
qed

lemma multicall_slices:
  "abi_slices ad \<Longrightarrow> multicall_calls ad sel args = Some calls \<Longrightarrow> TBytes bs \<in> set calls \<Longrightarrow> length bs \<le> length args"
  by (rule array_slices [of ad "if sel = MULTICALL_BYTES then [PArray PBytes] else [PUint 256, PArray PBytes]" args
        "if sel = MULTICALL_BYTES then 0 else 1" calls "TBytes bs"]) (auto simp: multicall_calls_def split: if_splits)


lemma batch_cong:
  assumes ad: "abi_slices ad" and fg: "agree_below (length args) f g"
    and calls: "Option.bind (ad params args) (field token_as_array 0) = Some calls" and call: "call \<in> set calls"
  shows "batch_call f sel call = batch_call g sel call"
proof -
  have "length bs \<le> length args" if "call = TTuple members" "field token_as_bytes 2 members = Some bs" for members bs
    using that by (intro array_slices [OF ad calls call]) (force dest!: field_in)
  then show ?thesis
    by (auto simp: batch_call_def intro!: arg_cong [where f = "map_attempt _"] child_cong [OF fg] split: token.split option.split)
qed

lemma safe_slices:
  "abi_slices ad \<Longrightarrow> ad params args = Some ts \<Longrightarrow> field token_as_bytes i ts = Some bs \<Longrightarrow> length bs \<le> length args"
  by (fastforce dest!: field_in elim!: abi_slicesD)

lemma decode_step_cong:
  assumes ad: "abi_slices ad" and fg: "agree_below (length args) f g"
  shows "decode_step f ad env monitored sel router v args = decode_step g ad env monitored sel router v args"
proof -
  note scan = scan_cong [OF fg order_refl]
  have multi: "decode_multicall_nested_swap f ad sel router v args monitored
      = decode_multicall_nested_swap g ad sel router v args monitored" for sel
    unfolding decode_multicall_nested_swap_def scan
    by (auto intro!: arg_cong2 [where f = or_try] first_attempt_cong arg_cong [where f = "map_attempt _"] child_cong [OF fg]
        dest: multicall_slices [OF ad] split: option.split token.split)
  have batch: "decode_batch_execute_nested_swap f ad sel router v args monitored
      = decode_batch_execute_nested_swap g ad sel router v args monitored" for sel
    unfolding decode_batch_execute_nested_swap_def scan
    by (auto intro!: arg_cong2 [where f = or_try] first_attempt_cong batch_cong [OF ad fg] split: option.split)
  have safe: "decode_safe_exec_transaction_swap f ad args monitored = decode_safe_exec_transaction_swap g ad args monitored"
    unfolding decode_safe_exec_transaction_swap_def
    by (auto intro!: arg_cong2 [where f = or_try] agree_belowD [OF fg] dest!: safe_slices [OF ad, of _ args _ 2] split: option.split)
  have aggregator: "decode_known_aggregator_partial f ad sel router v args monitored
      = decode_known_aggregator_partial g ad sel router v args monitored" for sel
    unfolding decode_known_aggregator_partial_def decode_private_searcher_fingerprint_def scan by (rule refl)
  show ?thesis
    unfolding decode_step_def decode_private_swap_wrapper_def multi batch safe scan aggregator by (rule refl)
qed

lemma decode_with_enough:
  assumes ad: "abi_slices ad"
  shows "length args < n \<Longrightarrow> length args < m \<Longrightarrow>
     decode_with n ad env monitored sel router v args = decode_with m ad env monitored sel router v args"
proof (induction "length args" arbitrary: args n m sel router v rule: less_induct)
  case less
  obtain n' m' where n: "n = Suc n'" "m = Suc m'" using less.prems by (cases n; cases m) auto
  have "agree_below (length args) (decode_with n' ad env monitored) (decode_with m' ad env monitored)"
    unfolding agree_below_def
  proof (intro allI impI)
    fix sel router v and bs :: bytes
    assume "length bs < length args"
    then show "decode_with n' ad env monitored sel router v bs = decode_with m' ad env monitored sel router v bs"
      using less.prems n by (intro less.hyps) simp_all
  qed
  from decode_step_cong [OF ad this] show ?case by (simp add: n)
qed

text \<open>
  C10: the recursive decoding ends, and its bound loses nothing: provided the ABI decoder returns byte
  strings cut out of its input, the recursive equation of the source has exactly one solution, the
  decoder that follows the nesting one level deeper than the arguments have bytes.
\<close>

theorem decode_recursion:
  assumes ad: "abi_slices ad"
  shows "(\<forall>sel router v args. f sel router v args = decode_step f ad env monitored sel router v args)
       \<longleftrightarrow> f = decode_swap_signal ad env monitored"
proof
  assume f: "\<forall>sel router v args. f sel router v args = decode_step f ad env monitored sel router v args"
  have "f sel router v args = decode_with (Suc (length args)) ad env monitored sel router v args" for sel router v args
  proof (induction "length args" arbitrary: args sel router v rule: less_induct)
    case less
    then have "agree_below (length args) f (decode_with (length args) ad env monitored)"
      unfolding agree_below_def using decode_with_enough [OF ad] by (metis Suc_n_not_le_n lessI not_le)
    from decode_step_cong [OF ad this] f show ?case by simp
  qed
  then show "f = decode_swap_signal ad env monitored" by (intro ext) (simp add: decode_swap_signal_def)
next
  assume f: "f = decode_swap_signal ad env monitored"
  have "agree_below (length args) (decode_with (length args) ad env monitored) f" for args
    unfolding f agree_below_def decode_swap_signal_def using decode_with_enough [OF ad] by (metis lessI)
  from decode_step_cong [OF ad this]
  show "\<forall>sel router v args. f sel router v args = decode_step f ad env monitored sel router v args"
    by (simp add: f decode_swap_signal_def)
qed

text \<open>A decoder of byte arrays that reads the rest of its input as the only call.\<close>

definition tail_call_abi :: abi_decoder where
  "tail_call_abi params args = (if params = [PArray PBytes] then Some [TArray [TBytes (drop 32 args)]] else None)"

theorem decode_recursion_witness:
  "\<forall>args. decode_swap_signal tail_call_abi (fixed_ether_env 1) [] MULTICALL_BYTES 2 0 args
     = decode_step (decode_swap_signal tail_call_abi (fixed_ether_env 1) []) tail_call_abi (fixed_ether_env 1) []
         MULTICALL_BYTES 2 0 args"
proof -
  have "abi_slices tail_call_abi" by (auto simp: abi_slices_def tail_call_abi_def)
  then show ?thesis
    using decode_recursion [of tail_call_abi "decode_swap_signal tail_call_abi (fixed_ether_env 1) []"] by blast
qed


section \<open>Panics\<close>

text \<open>
  The fee of a single-pool V3 swap is read as a whole word and narrowed with \<open>as_u32\<close>; the value of an
  amount is parsed with \<open>parse_ether\<close>.
\<close>

definition fee_too_wide :: "abi_decoder \<Rightarrow> selector \<times> bytes \<Rightarrow> bool" where
  "fee_too_wide ad call =
     (case (if fst call = V3_EXACT_INPUT_SINGLE
            then single_tuple ad [PAddress, PAddress, PUint 24, PAddress, PUint 256, PUint 256, PUint 256, PUint 160] (snd call)
            else if fst call = UNISWAP_V3_EXACT_INPUT_SINGLE_NO_DEADLINE
            then single_tuple ad [PAddress, PAddress, PUint 24, PAddress, PUint 256, PUint 256, PUint 160] (snd call)
            else None) of
        None \<Rightarrow> False
      | Some values \<Rightarrow> (case field token_as_uint 2 values of Some fee \<Rightarrow> 2 ^ 32 \<le> uint fee | None \<Rightarrow> False))"

definition value_overflows :: "runtime_env \<Rightarrow> monitored_token_config list \<Rightarrow> swap_signal \<Rightarrow> bool" where
  "value_overflows env monitored s = (estimate_notional_wei env s monitored = Inl IntegerOverflow)"

text \<open>The calls inside a call: at any offset of its arguments, or in a byte string the ABI decoder reads there.\<close>

inductive call_inside :: "abi_decoder \<Rightarrow> selector \<times> bytes \<Rightarrow> selector \<times> bytes \<Rightarrow> bool" for ad where
  itself: "call_inside ad c c"
| scanned: "4 \<le> length (drop i args) \<Longrightarrow> call_inside ad (take 4 (drop i args), drop 4 (drop i args)) c
    \<Longrightarrow> call_inside ad (sel, args) c"
| in_token: "ad params args = Some ts \<Longrightarrow> t \<in> set ts \<Longrightarrow> bs \<in> set (token_bytes t) \<Longrightarrow> 4 \<le> length bs
    \<Longrightarrow> call_inside ad (take 4 bs, drop 4 bs) c \<Longrightarrow> call_inside ad (sel, args) c"

definition faulty_call :: "abi_decoder \<Rightarrow> runtime_env \<Rightarrow> monitored_token_config list \<Rightarrow> selector \<times> bytes \<Rightarrow> bool" where
  "faulty_call ad env monitored c \<longleftrightarrow> fee_too_wide ad c
     \<or> (\<exists>router. \<exists>s \<in> set (decode_universal_router_swap_candidates ad (fst c) router (snd c)). value_overflows env monitored s)"

definition panic_explained ::
  "abi_decoder \<Rightarrow> runtime_env \<Rightarrow> monitored_token_config list \<Rightarrow> selector \<times> bytes \<Rightarrow> panic \<Rightarrow> bool" where
  "panic_explained ad env monitored c p \<longleftrightarrow> p = IntegerOverflow
     \<and> (\<exists>inner. call_inside ad c inner \<and> faulty_call ad env monitored inner)"

lemma explained_scanned:
  assumes "4 \<le> length (drop i args)" "panic_explained ad env monitored (take 4 (drop i args), drop 4 (drop i args)) p"
  shows "panic_explained ad env monitored (sel, args) p"
  using assms(2) call_inside.scanned [OF assms(1)] unfolding panic_explained_def by blast

lemma explained_token:
  assumes "ad params args = Some ts" "t \<in> set ts" "bs \<in> set (token_bytes t)" "4 \<le> length bs"
    and "panic_explained ad env monitored (take 4 bs, drop 4 bs) p"
  shows "panic_explained ad env monitored (sel, args) p"
  using assms(5) call_inside.in_token [of ad, OF assms(1-4)] unfolding panic_explained_def by blast

lemma and_then_eq_Inl: "and_then r f = Inl e \<longleftrightarrow> r = Inl e \<or> (\<exists>x. r = Inr x \<and> f x = Inl e)"
  by (cases r) auto

lemma estimate_panic: "estimate_notional_wei env s monitored = Inl p \<Longrightarrow> p = IntegerOverflow"
  by (auto simp: estimate_notional_wei_def Let_def split: if_splits list.splits option.splits)

lemma with_notionals_panic:
  "with_notionals env monitored ss = Inl p \<Longrightarrow> p = IntegerOverflow \<and> (\<exists>s \<in> set ss. value_overflows env monitored s)"
  by (induction ss) (auto simp: and_then_eq_Inl value_overflows_def dest: estimate_panic)

lemma single_panic:
  "decode_v3_exact_input_single_with_deadline ad V3_EXACT_INPUT_SINGLE router args = Inl p
     \<Longrightarrow> panic_explained ad env monitored (V3_EXACT_INPUT_SINGLE, args) p"
  "decode_v3_exact_input_single_no_deadline ad UNISWAP_V3_EXACT_INPUT_SINGLE_NO_DEADLINE router args = Inl p
     \<Longrightarrow> panic_explained ad env monitored (UNISWAP_V3_EXACT_INPUT_SINGLE_NO_DEADLINE, args) p"
proof -
  have differ: "UNISWAP_V3_EXACT_INPUT_SINGLE_NO_DEADLINE \<noteq> V3_EXACT_INPUT_SINGLE"
    by (simp add: UNISWAP_V3_EXACT_INPUT_SINGLE_NO_DEADLINE_def V3_EXACT_INPUT_SINGLE_def)
  have own: "fee_too_wide ad c \<Longrightarrow> panic_explained ad env monitored c IntegerOverflow" for c
    unfolding panic_explained_def faulty_call_def using call_inside.itself by blast
  show "panic_explained ad env monitored (V3_EXACT_INPUT_SINGLE, args) p"
    if "decode_v3_exact_input_single_with_deadline ad V3_EXACT_INPUT_SINGLE router args = Inl p"
    using that own [of "(V3_EXACT_INPUT_SINGLE, args)"]
    by (auto simp: decode_v3_exact_input_single_with_deadline_def decode_v3_exact_input_single_values_def
        fee_too_wide_def as_u32_def and_then_eq_Inl split: option.splits if_splits)
  show "panic_explained ad env monitored (UNISWAP_V3_EXACT_INPUT_SINGLE_NO_DEADLINE, args) p"
    if "decode_v3_exact_input_single_no_deadline ad UNISWAP_V3_EXACT_INPUT_SINGLE_NO_DEADLINE router args = Inl p"
    using that own [of "(UNISWAP_V3_EXACT_INPUT_SINGLE_NO_DEADLINE, args)"] differ
    by (auto simp: decode_v3_exact_input_single_no_deadline_def decode_v3_exact_input_single_values_def
        fee_too_wide_def as_u32_def and_then_eq_Inl split: option.splits if_splits)
qed

lemma router_panic:
  "decode_universal_router_swap_for_monitored ad env sel router args monitored = Inl p
     \<Longrightarrow> panic_explained ad env monitored (sel, args) p"
proof -
  assume d: "decode_universal_router_swap_for_monitored ad env sel router args monitored = Inl p"
  then have "with_notionals env monitored (decode_universal_router_swap_candidates ad sel router args) = Inl p"
    by (cases "with_notionals env monitored (decode_universal_router_swap_candidates ad sel router args)")
      (auto simp: decode_universal_router_swap_for_monitored_def)
  from with_notionals_panic [OF this] show "panic_explained ad env monitored (sel, args) p"
    unfolding panic_explained_def faulty_call_def using call_inside.itself by fastforce
qed

lemma scan_panic:
  "decode_nested_swap_from_calldata rec router v args monitored = Inl p
     \<Longrightarrow> \<exists>i. 4 \<le> length (drop i args) \<and> rec (take 4 (drop i args)) router v (drop 4 (drop i args)) = Inl p"
proof (induction args)
  case (Cons b bs)
  show ?case
  proof (cases "decode_nested_swap_from_calldata rec router v bs monitored = Inl p")
    case True
    from Cons.IH [OF this] obtain i where "4 \<le> length (drop i bs)" "rec (take 4 (drop i bs)) router v (drop 4 (drop i bs)) = Inl p"
      by blast
    then show ?thesis by (intro exI [of _ "Suc i"]) simp
  next
    case False
    then have "4 \<le> length (b # bs)" "rec (take 4 (b # bs)) router v (drop 4 (b # bs)) = Inl p"
      using Cons.prems by (auto split: if_splits sum.splits option.splits)
    then show ?thesis by (intro exI [of _ 0]) simp
  qed
qed simp

lemma child_panic: "child_call rec target v bs = Inl p \<Longrightarrow> 4 \<le> length bs \<and> rec (take 4 bs) target v (drop 4 bs) = Inl p"
  by (auto simp: child_call_def split: if_splits)

lemma decode_step_panic:
  assumes rec: "\<And>sel router v args p. rec sel router v args = Inl p \<Longrightarrow> panic_explained ad env monitored (sel, args) p"
    and step: "decode_step rec ad env monitored sel router v args = Inl p"
  shows "panic_explained ad env monitored (sel, args) p"
proof -
  let ?ok = "\<lambda>p. panic_explained ad env monitored (sel, args) p"
  have scan: "?ok q" if "decode_nested_swap_from_calldata rec target w args monitored = Inl q" for target w q
    using scan_panic [OF that] rec explained_scanned by blast
  have token: "?ok q" if "ad params args = Some ts" "t \<in> set ts" "bs \<in> set (token_bytes t)" "4 \<le> length bs"
      "rec (take 4 bs) target w (drop 4 bs) = Inl q" for params ts t bs target w q
    by (rule explained_token [of ad params args ts t bs]) (use that rec in \<open>blast+\<close>)
  have array: "?ok q" if h: "Option.bind (ad params args) (field token_as_array i) = Some calls" "call \<in> set calls"
      "bs \<in> set (token_bytes call)" "child_call rec target w bs = Inl q" for params i calls call bs target w q
  proof -
    obtain ts where "ad params args = Some ts" "TArray calls \<in> set ts"
      using h(1) by (auto simp: Option.bind_eq_Some_conv dest!: field_in)
    then show ?thesis using child_panic [OF h(4)] h(2,3) by (intro token [of params ts "TArray calls" bs target w]) auto
  qed
  have multi: "?ok q" if "decode_multicall_nested_swap rec ad sel' router v args monitored = Inl q" for sel' q
  proof (cases "multicall_calls ad sel' args")
    case (Some calls)
    then have "(\<exists>bs. TBytes bs \<in> set calls \<and> child_call rec router v bs = Inl q)
        \<or> decode_nested_swap_from_calldata rec router v args monitored = Inl q"
      using that by (auto simp: decode_multicall_nested_swap_def dest!: or_try_panic first_attempt_panic split: token.splits)
    moreover have "?ok q" if "TBytes bs \<in> set calls" "child_call rec router v bs = Inl q" for bs
      using Some that(2) by (intro array [of "if sel' = MULTICALL_BYTES then [PArray PBytes] else [PUint 256, PArray PBytes]"
          "if sel' = MULTICALL_BYTES then 0 else 1" calls "TBytes bs", OF _ that(1)]) (auto simp: multicall_calls_def split: if_splits)
    ultimately show ?thesis using scan by blast
  qed (use that in \<open>simp add: decode_multicall_nested_swap_def\<close>)
  have call: "\<exists>bs target w. bs \<in> set (token_bytes c) \<and> child_call rec target w bs = Inl q"
    if h: "batch_call rec sel' c = Inl q" for sel' c q
  proof -
    obtain members where c: "c = TTuple members" using h by (cases c) (auto simp: batch_call_def)
    obtain target bs w where bs: "field token_as_bytes 2 members = Some bs" "child_call rec target w bs = Inl q"
      using h by (auto simp: batch_call_def c split: option.splits)
    from field_in [OF bs(1)] have "TBytes bs \<in> set members" by auto
    then show ?thesis using bs(2) by (force simp: c)
  qed
  have batch: "?ok q" if "decode_batch_execute_nested_swap rec ad sel' router v args monitored = Inl q" for sel' q
    using that call array scan
    by (fastforce simp: decode_batch_execute_nested_swap_def dest!: or_try_panic first_attempt_panic split: option.splits)
  have safe: "?ok q" if h: "decode_safe_exec_transaction_swap rec ad args monitored = Inl q" for q
  proof -
    let ?params = "[PAddress, PUint 256, PBytes, PUint 8, PUint 256, PUint 256, PUint 256, PAddress, PAddress, PBytes]"
    obtain ts target w inner where ts: "ad ?params args = Some ts" "field token_as_bytes 2 ts = Some inner"
      "4 \<le> length inner" "rec (take 4 inner) target w (drop 4 inner) = Inl q"
      using h by (auto simp: decode_safe_exec_transaction_swap_def dest!: or_try_panic split: option.splits if_splits)
    obtain t where "t \<in> set ts" "t = TBytes inner" using field_in [OF ts(2)] by auto
    then show ?thesis using token [OF ts(1) _ _ ts(3,4)] by auto
  qed
  have aggregator: "?ok q" if "decode_known_aggregator_partial rec ad sel' router v args monitored = Inl q" for sel' q
    using that scan
    by (auto simp: decode_known_aggregator_partial_def decode_private_searcher_fingerprint_def Let_def
        dest!: or_try_panic split: if_splits)
  have "(sel = V3_EXACT_INPUT_SINGLE \<and> decode_v3_exact_input_single_with_deadline ad V3_EXACT_INPUT_SINGLE router args = Inl p)
    \<or> (sel = UNISWAP_V3_EXACT_INPUT_SINGLE_NO_DEADLINE
        \<and> decode_v3_exact_input_single_no_deadline ad UNISWAP_V3_EXACT_INPUT_SINGLE_NO_DEADLINE router args = Inl p)
    \<or> decode_universal_router_swap_for_monitored ad env sel router args monitored = Inl p
    \<or> decode_safe_exec_transaction_swap rec ad args monitored = Inl p
    \<or> decode_multicall_nested_swap rec ad sel router v args monitored = Inl p
    \<or> decode_nested_swap_from_calldata rec router v args monitored = Inl p
    \<or> decode_batch_execute_nested_swap rec ad sel router v args monitored = Inl p
    \<or> decode_known_aggregator_partial rec ad sel router v args monitored = Inl p"
    using step by (auto simp: decode_step_def decode_private_swap_wrapper_def dest!: or_try_panic split: if_splits)
  then show ?thesis
  proof (elim disjE conjE)
    assume "sel = V3_EXACT_INPUT_SINGLE" "decode_v3_exact_input_single_with_deadline ad V3_EXACT_INPUT_SINGLE router args = Inl p"
    then show ?thesis using single_panic(1) by simp
  next
    assume "sel = UNISWAP_V3_EXACT_INPUT_SINGLE_NO_DEADLINE"
      "decode_v3_exact_input_single_no_deadline ad UNISWAP_V3_EXACT_INPUT_SINGLE_NO_DEADLINE router args = Inl p"
    then show ?thesis using single_panic(2) by simp
  qed (erule router_panic safe multi scan batch aggregator)+
qed

lemma decode_with_panic: "decode_with n ad env monitored sel router v args = Inl p \<Longrightarrow> panic_explained ad env monitored (sel, args) p"
proof (induction n arbitrary: sel router v args p)
  case (Suc n)
  then show ?case by (auto intro: decode_step_panic [of "decode_with n ad env monitored"])
qed simp

lemma selector_of_no_panic: "selector_of avx2 tx \<noteq> Inl p"
  by (auto simp: selector_of_def find_selector_def find_selector_simd_def find_selector_scalar_def first4_cases
      Let_def)

text \<open>
  C34: a transaction makes the decoder panic for two reasons only. Either a call inside its calldata is an
  \<open>exactInputSingle\<close> whose fee word does not fit 32 bits (the ABI decoder does not check the width of a
  \<open>uint24\<close>), or the amount of a swap has a value that overflows when it is parsed as ether: one of the
  universal-router candidates that are compared, or the signal that was decoded. Both do happen: a
  transaction that is itself such a call panics whatever the rest of it is, and so does every decoded
  signal with such an amount. The worker that decodes has no handler.
\<close>

theorem fee_word_panics:
  "(decode_relevant_swap vector ad env tx monitored min_swap mode = Inl p \<longrightarrow> p = IntegerOverflow
      \<and> (\<exists>sel router. selector_of vector tx = Inr (Some sel) \<and> tx_to tx = Some router
          \<and> ((\<exists>inner. call_inside ad (sel, drop 4 (tx_input tx)) inner \<and> faulty_call ad env monitored inner)
             \<or> (\<exists>s. decode_swap_signal ad env monitored sel router (tx_value tx) (drop 4 (tx_input tx)) = Inr (Some s)
                  \<and> value_overflows env monitored s))))
   \<and> (selector_of vector tx = Inr (Some V3_EXACT_INPUT_SINGLE) \<and> tx_to tx = Some router \<and> 2 ^ 32 \<le> uint fee
      \<and> single_tuple ad [PAddress, PAddress, PUint 24, PAddress, PUint 256, PUint 256, PUint 256, PUint 160]
           (drop 4 (tx_input tx)) = Some (TAddress a # TAddress b # TUint fee # rest)
      \<longrightarrow> decode_relevant_swap vector ad env tx monitored min_swap mode = Inl IntegerOverflow)
   \<and> (selector_of vector tx = Inr (Some sel) \<and> tx_to tx = Some router
      \<and> decode_swap_signal ad env monitored sel router (tx_value tx) (drop 4 (tx_input tx)) = Inr (Some s)
      \<and> value_overflows env monitored s
      \<longrightarrow> decode_relevant_swap vector ad env tx monitored min_swap mode = Inl IntegerOverflow)"
proof (intro conjI impI)
  assume panics: "decode_relevant_swap vector ad env tx monitored min_swap mode = Inl p"
  then obtain sel router where st: "selector_of vector tx = Inr (Some sel)" "tx_to tx = Some router"
    using selector_of_no_panic [of vector tx]
    by (auto simp: decode_relevant_swap_def and_then_eq_Inl split: option.splits)
  let ?d = "decode_swap_signal ad env monitored sel router (tx_value tx) (drop 4 (tx_input tx))"
  have "?d = Inl p \<or> (\<exists>s. ?d = Inr (Some s) \<and> estimate_notional_wei env s monitored = Inl p)"
    using panics by (auto simp: decode_relevant_swap_def st and_then_eq_Inl split: option.splits)
  moreover have "?d = Inl p \<Longrightarrow> panic_explained ad env monitored (sel, drop 4 (tx_input tx)) p"
    unfolding decode_swap_signal_def by (rule decode_with_panic)
  ultimately show "p = IntegerOverflow"
    and "\<exists>sel router. selector_of vector tx = Inr (Some sel) \<and> tx_to tx = Some router
          \<and> ((\<exists>inner. call_inside ad (sel, drop 4 (tx_input tx)) inner \<and> faulty_call ad env monitored inner)
             \<or> (\<exists>s. decode_swap_signal ad env monitored sel router (tx_value tx) (drop 4 (tx_input tx)) = Inr (Some s)
                  \<and> value_overflows env monitored s))"
    using st estimate_panic unfolding panic_explained_def value_overflows_def by metis+
next
  assume h: "selector_of vector tx = Inr (Some V3_EXACT_INPUT_SINGLE) \<and> tx_to tx = Some router \<and> 2 ^ 32 \<le> uint fee
      \<and> single_tuple ad [PAddress, PAddress, PUint 24, PAddress, PUint 256, PUint 256, PUint 256, PUint 160]
           (drop 4 (tx_input tx)) = Some (TAddress a # TAddress b # TUint fee # rest)"
  then have "decode_swap_signal ad env monitored V3_EXACT_INPUT_SINGLE router (tx_value tx) (drop 4 (tx_input tx)) = Inl IntegerOverflow"
    by (simp add: decode_exact_input_single decode_v3_exact_input_single_with_deadline_def
        decode_v3_exact_input_single_values_def field_def as_u32_def)
  with h show "decode_relevant_swap vector ad env tx monitored min_swap mode = Inl IntegerOverflow"
    by (simp add: decode_relevant_swap_def)
next
  assume "selector_of vector tx = Inr (Some sel) \<and> tx_to tx = Some router
      \<and> decode_swap_signal ad env monitored sel router (tx_value tx) (drop 4 (tx_input tx)) = Inr (Some s)
      \<and> value_overflows env monitored s"
  then show "decode_relevant_swap vector ad env tx monitored min_swap mode = Inl IntegerOverflow"
    by (simp add: decode_relevant_swap_def value_overflows_def)
qed

definition overflowing_env :: runtime_env where
  "overflowing_env = (fixed_ether_env 1)\<lparr>rv_ether_overflows := \<lambda>x. dec 1 0 \<le> x\<rparr>"

theorem fee_word_panics_witness:
  "decode_relevant_swap False (single_swap_abi (2 ^ 40)) (fixed_ether_env 1) single_swap_tx [] 0 Aggressive = Inl IntegerOverflow
   \<and> decode_relevant_swap False (single_swap_abi 500) (fixed_ether_env 1) single_swap_tx [] 0 Aggressive \<noteq> Inl UnwrapNone
   \<and> decode_relevant_swap False (single_swap_abi 500) overflowing_env single_swap_tx
        [\<lparr>mt_address = 7, mt_decimals = 0, mt_price_eth = 1\<rparr>] 0 Aggressive = Inl IntegerOverflow"
proof (intro conjI)
  show "decode_relevant_swap False (single_swap_abi (2 ^ 40)) (fixed_ether_env 1) single_swap_tx [] 0 Aggressive = Inl IntegerOverflow"
    using fee_word_panics [where vector = False and ad = "single_swap_abi (2 ^ 40)" and tx = single_swap_tx and router = 2
        and fee = "2 ^ 40" and a = 7 and b = 8 and rest = "[TAddress 1, TUint 99, TUint 5000, TUint 0, TUint 0]"]
    by (simp add: single_tuple_def single_swap_abi_def field_def)
  show "decode_relevant_swap False (single_swap_abi 500) (fixed_ether_env 1) single_swap_tx [] 0 Aggressive \<noteq> Inl UnwrapNone"
    using fee_word_panics [where vector = False and ad = "single_swap_abi 500" and tx = single_swap_tx] by blast
  let ?s = "v3_signal V3_EXACT_INPUT_SINGLE 2 5000 (Some 0) 7 8 500 1 False 1 ''abi''"
  have "decode_swap_signal (single_swap_abi 500) overflowing_env m V3_EXACT_INPUT_SINGLE 2 v args = Inr (Some ?s)" for m v args
    by (simp add: as_u32_def)
  moreover have "dec 1 0 \<le> of_uw (5000 :: u256) / fpowi (dec 10 0) (uint (0 :: u8)) * 1" by code_simp
  then have "value_overflows overflowing_env [\<lparr>mt_address = 7, mt_decimals = 0, mt_price_eth = 1\<rparr>] ?s"
    by (simp add: value_overflows_def estimate_notional_wei_def v3_signal_def Let_def overflowing_env_def)
  ultimately show "decode_relevant_swap False (single_swap_abi 500) overflowing_env single_swap_tx
        [\<lparr>mt_address = 7, mt_decimals = 0, mt_price_eth = 1\<rparr>] 0 Aggressive = Inl IntegerOverflow"
    using fee_word_panics [where vector = False and ad = "single_swap_abi 500" and tx = single_swap_tx and router = 2
        and sel = V3_EXACT_INPUT_SINGLE and s = ?s and env = overflowing_env
        and monitored = "[\<lparr>mt_address = 7, mt_decimals = 0, mt_price_eth = 1\<rparr>]"]
    by simp
qed

end
