(* ===== verification/RunSafety.thy ===== *)
theory RunSafety
  imports EvalSafety HandleSafety DecodeSafety
begin

text \<open>
  The main loop: over any sequence of mempool items, ready candidates and timer ticks, the duplicate
  filter, the micro batch and the capital budget keep their invariants; the tasks put on the queue are
  those of fresh hashes; the loop returns an error of the executor exactly when handling a handed over
  candidate gives one.
\<close>

section \<open>Invariant of the runtime state\<close>

definition filter_ok :: "h256 set \<Rightarrow> h256 list \<Rightarrow> bool" where
  "filter_ok seen order \<longleftrightarrow> seen = set order \<and> distinct order \<and> length order \<le> 8192"

definition batch_ok :: "micro_batcher \<Rightarrow> bool" where
  "batch_ok b \<longleftrightarrow> (mb_opened_at b = None \<longleftrightarrow> mb_candidates b = [])"

definition budget_ok_at :: "config \<Rightarrow> instant \<Rightarrow> execution_engine \<Rightarrow> bool" where
  "budget_ok_at cfg t en \<longleftrightarrow> (\<exists>b. en_capital_budget en = Healthy b \<and> budget_reachable cfg t b)"

definition runtime_ok :: "config \<Rightarrow> instant \<Rightarrow> runtime_state \<Rightarrow> bool" where
  "runtime_ok cfg t rs \<longleftrightarrow> filter_ok (rs_seen rs) (rs_order rs) \<and> batch_ok (rs_batch rs) \<and> budget_ok_at cfg t (rs_engine rs)"

lemma distinct_seen_window: "distinct hs \<Longrightarrow> distinct (seen_window hs)"
  unfolding seen_window_def by (rule distinct_drop)

lemma filter_ok_mark:
  assumes "filter_ok seen order"
  shows "filter_ok (fst (fst (mark_seen_tx seen order h))) (snd (fst (mark_seen_tx seen order h)))"
proof (cases "h \<in> seen")
  case True
  then show ?thesis using assms by (simp add: mark_seen_tx_def)
next
  case False
  have "distinct (order @ [h])" "insert h seen = set (order @ [h])" using assms False by (auto simp: filter_ok_def)
  then show ?thesis
    using False evict_oldest_set [of "order @ [h]"] length_seen_window [of "order @ [h]"] distinct_seen_window [of "order @ [h]"]
    by (simp add: mark_seen_tx_def filter_ok_def)
qed

lemma batch_ok_push: "batch_ok (batch_push b now c)"
  by (auto simp: batch_ok_def batch_push_def)

lemma batch_ok_drain: "drain_best b now = (b', Some r) \<Longrightarrow> batch_ok b'"
  using drain_best_Some [of b now b'] by (cases r) (auto simp: batch_ok_def)

lemma budget_ok_wait: "budget_ok_at cfg t en \<Longrightarrow> t \<le> t' \<Longrightarrow> budget_ok_at cfg t' en"
  by (auto simp: budget_ok_at_def intro: budget_reachable.wait)

lemma budget_ok_handle:
  assumes "budget_ok_at cfg t en" "handle nt cfg en now opp = Inr (en', out)" "t \<le> nt_gate_time nt"
  shows "budget_ok_at cfg (nt_gate_time nt) en'"
proof -
  obtain b where b: "en_capital_budget en = Healthy b" "budget_reachable cfg t b" using assms(1) by (auto simp: budget_ok_at_def)
  from handle_budget_step [OF assms(2) b assms(3)] show ?thesis by (auto simp: budget_ok_at_def)
qed

lemma flush_ok:
  assumes "runtime_ok cfg t rs" "flush_candidate_batch nt cfg now rs = Inr rs'" "t \<le> nt_gate_time nt"
  shows "runtime_ok cfg (nt_gate_time nt) rs'"
  using assms budget_ok_wait
  by (auto simp: flush_candidate_batch_def runtime_ok_def dest: batch_ok_drain budget_ok_handle
      split: prod.splits option.splits sum.splits)

lemma receive_ok:
  assumes "runtime_ok cfg t rs" "receive_item avx2 env cfg now room item rs = Inr rs'"
  shows "runtime_ok cfg t rs'"
  using assms filter_ok_mark [of "rs_seen rs" "rs_order rs" "mempool_item_hash item"]
  by (auto simp: receive_item_def runtime_ok_def budget_ok_at_def Let_def
      split: prod.splits if_splits mempool_item.splits sum.splits option.splits)

lemma run_step_ok:
  assumes "runtime_ok cfg t rs" "run_step nt avx2 env cfg now room e rs = Inr rs'" "t \<le> nt_gate_time nt"
  shows "runtime_ok cfg (nt_gate_time nt) rs'"
proof (cases e)
  case (MempoolItem item)
  then have "runtime_ok cfg t rs'" using receive_ok assms by (simp add: run_step_def)
  then show ?thesis using budget_ok_wait assms(3) by (auto simp: runtime_ok_def)
next
  case (PausedItem item)
  then show ?thesis using assms budget_ok_wait by (auto simp: run_step_def runtime_ok_def)
next
  case (ReadyCandidate c)
  let ?rs1 = "rs\<lparr>rs_batch := batch_push (rs_batch rs) now c\<rparr>"
  have pushed: "runtime_ok cfg t ?rs1" using assms(1) by (simp add: runtime_ok_def batch_ok_push)
  show ?thesis
    using assms(2,3) flush_ok [OF pushed] pushed budget_ok_wait
    by (auto simp: run_step_def ReadyCandidate runtime_ok_def Let_def split: if_splits)
next
  case FlushTick
  then show ?thesis
    using assms flush_ok [OF assms(1)] budget_ok_wait by (auto simp: run_step_def runtime_ok_def split: if_splits)
qed

text \<open>
  C5: the state of the main loop stays sound over any sequence of events, whatever the network answers
  while each is handled: the duplicate filter's set is the contents of its queue, without duplicates and
  of at most 8192 hashes; the batch window is open exactly while a candidate waits; and the capital
  budget is one that reservations and releases reach, so that the exposure of the window is within the
  configured limits.
\<close>

theorem run_keeps_invariants:
  assumes "run_events avx2 env cfg es rs = Inr rs'" "runtime_ok cfg t rs"
    and "sorted (t # map (\<lambda>(nt, _). nt_gate_time nt) es)" "exposure_limits_ok cfg"
  shows "\<exists>b. filter_ok (rs_seen rs') (rs_order rs') \<and> batch_ok (rs_batch rs')
    \<and> en_capital_budget (rs_engine rs') = Healthy b \<and> exposure (\<lambda>_. True) b \<le> max_window_exposure_eth (mev cfg)"
proof -
  have "\<exists>t'. runtime_ok cfg t' rs'" using assms(1-3)
  proof (induction es arbitrary: rs t)
    case Nil
    then show ?case by auto
  next
    case (Cons x es)
    obtain nt now room e where x: "x = (nt, now, room, e)" by (cases x)
    from Cons.prems(1) obtain rs1 where s: "run_step nt avx2 env cfg now room e rs = Inr rs1"
      and rest: "run_events avx2 env cfg es rs1 = Inr rs'" by (auto simp: x and_then_eq_Inr)
    have "runtime_ok cfg (nt_gate_time nt) rs1" using run_step_ok [OF Cons.prems(2) s] Cons.prems(3) by (simp add: x)
    then show ?case using Cons.IH [OF rest] Cons.prems(3) by (simp add: x)
  qed
  then obtain t' where "runtime_ok cfg t' rs'" ..
  then obtain b where "filter_ok (rs_seen rs') (rs_order rs')" "batch_ok (rs_batch rs')"
    "en_capital_budget (rs_engine rs') = Healthy b" "budget_reachable cfg t' b"
    by (auto simp: runtime_ok_def budget_ok_at_def)
  then show ?thesis
    using budget_reachable_ok [OF _ assms(4)] by (auto simp: budget_ok_def within_limits_def)
qed

definition demo_ready :: pending_execution_candidate where
  "demo_ready = \<lparr>pc_opportunity = demo_opportunity, pc_ev_real_usd = 1, pc_p_positive = 1, pc_capital_efficiency = 1,
     pc_relay_score = 0, pc_context_priority_score = 1\<rparr>"

text \<open>An engine that has committed half an ether to the pair within the window.\<close>

definition demo_committed :: capital_budget where
  "demo_committed =
     fst (check_and_reserve demo_live [] 0 (wei_to_eth_f64 500000000000000000) (cluster_of demo_opportunity) 7 99)"

definition demo_busy_engine :: execution_engine where
  "demo_busy_engine = demo_engine\<lparr>en_capital_budget := Healthy demo_committed\<rparr>"

definition demo_runtime :: runtime_state where
  "demo_runtime = \<lparr>rs_seen = {}, rs_order = [], rs_backpressure = backpressure_new 0, rs_queue = [],
     rs_batch = \<lparr>mb_opened_at = Some (- 44000000), mb_candidates = [demo_ready]\<rparr>, rs_engine = demo_busy_engine\<rparr>"

lemma demo_batch:
  "should_flush (rs_batch demo_runtime) 1000000"
  "drain_best (rs_batch demo_runtime) 1000000 = (\<lparr>mb_opened_at = None, mb_candidates = []\<rparr>, Some (demo_ready, 0))"
  "pc_opportunity demo_ready = demo_opportunity"
  by (simp_all add: demo_runtime_def should_flush_def duration_since_def nanos_of_millis_def MICROBATCH_WINDOW_MS_def
      drain_best_def swap_remove_def demo_ready_def)

lemma demo_runtime_ok: "runtime_ok cfg 0 demo_runtime" if "cfg = demo_live"
  using budget_reachable.reserve [OF budget_reachable.start] that
  by (auto simp: runtime_ok_def demo_runtime_def filter_ok_def batch_ok_def budget_ok_at_def demo_busy_engine_def
      demo_committed_def)

text \<open>The batch's candidate passes every gate up to the budget, which refuses it.\<close>

lemma demo_blocked:
  "map_option (\<lambda>out. case out of BudgetBlocked _ \<Rightarrow> True | _ \<Rightarrow> False)
     (outcome_of (handle demo_refusing_net demo_live demo_busy_engine 1000000 demo_opportunity)) = Some True"
  by code_simp

theorem run_keeps_invariants_witness:
  "\<exists>rs' b. run_events False (fixed_ether_env 0) demo_live [(demo_refusing_net, 1000000, 0, FlushTick)] demo_runtime = Inr rs'
     \<and> batch_ok (rs_batch rs') \<and> en_capital_budget (rs_engine rs') = Healthy b
     \<and> exposure (\<lambda>_. True) b \<le> max_window_exposure_eth (mev demo_live)"
proof -
  obtain out where o: "outcome_of (handle demo_refusing_net demo_live demo_busy_engine 1000000 demo_opportunity) = Some out"
    and blocked: "case out of BudgetBlocked _ \<Rightarrow> True | _ \<Rightarrow> False"
    using demo_blocked by (auto simp del: handle_outcome.case)
  from blocked have e: "handle_error out = None" by (cases out) auto
  obtain en' where h: "handle demo_refusing_net demo_live demo_busy_engine 1000000 demo_opportunity = Inr (en', out)"
    using outcome_of_Some [OF o] by blast
  obtain rs' where run:
    "run_events False (fixed_ether_env 0) demo_live [(demo_refusing_net, 1000000, 0, FlushTick)] demo_runtime = Inr rs'"
    using demo_batch h e by (simp add: run_step_def flush_candidate_batch_def demo_runtime_def)
  have "exposure_limits_ok demo_live" by code_simp
  from run_keeps_invariants [OF run demo_runtime_ok [OF refl] _ this] run demo_net_gate show ?thesis by auto
qed

section \<open>Errors of the executor\<close>

lemma handle_error_iff:
  "handle_error out = Some err \<longleftrightarrow>
     out = WalletError err \<or> out = ContextError err \<or> out = SignError err \<or> (\<exists>tx. out = NotAccepted tx err)"
  by (cases out) auto

text \<open>The candidate that handling an event hands to the executor: the best of a batch that is due.\<close>

definition handed_over :: "instant \<Rightarrow> run_event \<Rightarrow> runtime_state \<Rightarrow> mev_opportunity option" where
  "handed_over now e rs =
     (let best = (\<lambda>b. if should_flush b now then map_option (pc_opportunity \<circ> fst) (snd (drain_best b now)) else None)
      in case e of MempoolItem _ \<Rightarrow> None | PausedItem _ \<Rightarrow> None
         | ReadyCandidate c \<Rightarrow> best (batch_push (rs_batch rs) now c) | FlushTick \<Rightarrow> best (rs_batch rs))"

text \<open>The loop returns the error of the executor, on a ready candidate as on a tick, and on no other event.\<close>

lemma step_error:
  "run_step nt avx2 env cfg now room e rs = Inl (HandleError err) \<longleftrightarrow>
     (\<exists>opp en out. handed_over now e rs = Some opp \<and> handle nt cfg (rs_engine rs) now opp = Inr (en, out)
        \<and> handle_error out = Some err)"
proof -
  have flush: "flush_candidate_batch nt cfg now s = Inl (HandleError err) \<longleftrightarrow>
      (\<exists>opp en out. map_option (pc_opportunity \<circ> fst) (snd (drain_best (rs_batch s) now)) = Some opp
         \<and> handle nt cfg (rs_engine s) now opp = Inr (en, out) \<and> handle_error out = Some err)" for s
    by (auto simp: flush_candidate_batch_def split: prod.splits option.splits sum.splits)
  have quiet: "receive_item avx2 env cfg now room item rs \<noteq> Inl (HandleError err)" for item
    by (auto simp: receive_item_def Let_def split: prod.splits mempool_item.splits sum.splits option.splits)
  show ?thesis
    by (cases e) (simp_all add: run_step_def handed_over_def Let_def flush quiet)
qed

text \<open>
  So one transaction that every path refuses ends the loop, and with it the runtime.
\<close>

lemma refused_transaction_ends_loop:
  assumes "handed_over now e rs = Some opp" "handle nt cfg (rs_engine rs) now opp = Inr (en, NotAccepted tx err)"
  shows "run_events avx2 env cfg ((nt, now, room, e) # es) rs = Inl (HandleError err)"
proof -
  have "run_step nt avx2 env cfg now room e rs = Inl (HandleError err)" unfolding step_error using assms by auto
  then show ?thesis by simp
qed

lemma final_flush_ok:
  assumes "run_loop avx2 env cfg es (nt, now) rs = Inr rs'" "runtime_ok cfg t rs"
    and "\<And>rs1. run_events avx2 env cfg es rs = Inr rs1 \<Longrightarrow> runtime_ok cfg t' rs1" "t' \<le> nt_gate_time nt"
  shows "runtime_ok cfg (nt_gate_time nt) rs'"
proof -
  obtain rs1 where r: "run_events avx2 env cfg es rs = Inr rs1"
    and f: "(if mb_candidates (rs_batch rs1) \<noteq> [] then flush_candidate_batch nt cfg now rs1 else Inr rs1) = Inr rs'"
    using assms(1) by (auto simp: run_loop_def and_then_eq_Inr cong: if_cong)
  note ok = assms(3) [OF r]
  show ?thesis
    using f flush_ok [OF ok _ assms(4)] ok assms(4) budget_ok_wait by (auto simp: runtime_ok_def split: if_splits)
qed

end
