(* ===== verification/StdText.thy ===== *)
theory StdText
  imports Rpc
begin

text \<open>
  The text routines of the standard library that the configuration and the wallet loader call:
  trimming, splitting, lines, and the parsers and the printer of numbers and socket addresses. Text
  is ASCII, so \<open>trim\<close> removes the six ASCII white-space characters and \<open>to_lowercase\<close> is
  \<open>to_ascii_lowercase\<close>. A decimal number is read with the correctly rounded result the standard
  library documents. A socket address is only recognised: the configuration keeps its text.
\<close>

section \<open>Trimming and splitting\<close>

definition is_ws :: "char \<Rightarrow> bool" where
  "is_ws c = (c \<in> {CHR '' '', CHR 0x09, CHR 0x0A, CHR 0x0B, CHR 0x0C, CHR 0x0D})"

definition strip_ends :: "(char \<Rightarrow> bool) \<Rightarrow> string \<Rightarrow> string" where
  "strip_ends p s = rev (dropWhile p (rev (dropWhile p s)))"

definition trim :: "string \<Rightarrow> string" where
  "trim = strip_ends is_ws"

definition trim_matches :: "char \<Rightarrow> string \<Rightarrow> string" where
  "trim_matches c = strip_ends (\<lambda>x. x = c)"

definition to_lowercase :: "string \<Rightarrow> string" where
  "to_lowercase = to_ascii_lowercase"

definition eq_ignore_ascii_case :: "string \<Rightarrow> string \<Rightarrow> bool" where
  "eq_ignore_ascii_case a b = (to_ascii_lowercase a = to_ascii_lowercase b)"

definition ends_with :: "string \<Rightarrow> string \<Rightarrow> bool" where
  "ends_with suf s = starts_with (rev suf) (rev s)"

fun strip_prefix :: "string \<Rightarrow> string \<Rightarrow> string option" where
  "strip_prefix [] s = Some s"
| "strip_prefix (p # ps) [] = None"
| "strip_prefix (p # ps) (c # cs) = (if p = c then strip_prefix ps cs else None)"

fun split_on :: "char \<Rightarrow> string \<Rightarrow> string list" where
  "split_on c [] = [[]]"
| "split_on c (x # xs) =
     (if x = c then [] # split_on c xs
      else case split_on c xs of [] \<Rightarrow> [[x]] | p # ps \<Rightarrow> (x # p) # ps)"

fun split_once :: "char \<Rightarrow> string \<Rightarrow> (string \<times> string) option" where
  "split_once c [] = None"
| "split_once c (x # xs) =
     (if x = c then Some ([], xs) else map_option (\<lambda>(a, b). (x # a, b)) (split_once c xs))"

text \<open>A line ends at a line feed, with the carriage return before it removed; no empty last line.\<close>

definition strip_cr :: "string \<Rightarrow> string" where
  "strip_cr l = (if l \<noteq> [] \<and> last l = CHR 0x0D then butlast l else l)"

definition str_lines :: "string \<Rightarrow> string list" where
  "str_lines s = (let ps = split_on (CHR 0x0A) s in
     map strip_cr (butlast ps) @ (if last ps = [] then [] else [last ps]))"

text \<open>\<open>value.split(',').map(str::trim).filter(|v| !v.is_empty())\<close>, which several loaders share.\<close>

definition comma_items :: "string \<Rightarrow> string list" where
  "comma_items v = filter (\<lambda>x. x \<noteq> []) (map trim (split_on (CHR '','') v))"

section \<open>Numbers\<close>

definition digit_value :: "char \<Rightarrow> int option" where
  "digit_value c = (let n = of_char c in if 48 \<le> n \<and> n \<le> 57 then Some (n - 48) else None)"

definition is_digit :: "char \<Rightarrow> bool" where
  "is_digit c = (digit_value c \<noteq> None)"

definition is_hexdigit :: "char \<Rightarrow> bool" where
  "is_hexdigit c = (let n = of_char c :: int in
     (48 \<le> n \<and> n \<le> 57) \<or> (65 \<le> n \<and> n \<le> 70) \<or> (97 \<le> n \<and> n \<le> 102))"

fun digits_from :: "int \<Rightarrow> string \<Rightarrow> int option" where
  "digits_from acc [] = Some acc"
| "digits_from acc (c # cs) =
     (case digit_value c of None \<Rightarrow> None | Some d \<Rightarrow> digits_from (acc * 10 + d) cs)"

text \<open>An unsigned integer below a bound: an optional plus sign and at least one digit.\<close>

definition parse_unsigned :: "int \<Rightarrow> string \<Rightarrow> int option" where
  "parse_unsigned bound s =
     (let t = (case s of [] \<Rightarrow> [] | c # cs \<Rightarrow> if c = CHR ''+'' then cs else s) in
      if t = [] then None
      else case digits_from 0 t of None \<Rightarrow> None | Some n \<Rightarrow> if n < bound then Some n else None)"

definition parse_u8 :: "string \<Rightarrow> u8 option" where
  "parse_u8 s = map_option word_of_int (parse_unsigned (2 ^ 8) s)"

definition parse_u32 :: "string \<Rightarrow> u32 option" where
  "parse_u32 s = map_option word_of_int (parse_unsigned (2 ^ 32) s)"

definition parse_u64 :: "string \<Rightarrow> u64 option" where
  "parse_u64 s = map_option word_of_int (parse_unsigned (2 ^ 64) s)"

definition parse_usize :: "string \<Rightarrow> int option" where
  "parse_usize s = parse_unsigned (2 ^ 64) s"

text \<open>The decimal text of a number that is not negative.\<close>

fun dec_str :: "int \<Rightarrow> string" where
  "dec_str n = (if n < 10 then [char_of (48 + n)] else dec_str (n div 10) @ [char_of (48 + n mod 10)])"

declare dec_str.simps [simp del]

text \<open>
  A float: a sign, then digits with a point and an exponent, or \<open>inf\<close>, \<open>infinity\<close>, \<open>nan\<close> in any
  case. At least one digit stands before the exponent, and at least one in it.
\<close>

definition split_sign :: "string \<Rightarrow> bool \<times> string" where
  "split_sign s = (case s of [] \<Rightarrow> (False, [])
     | c # cs \<Rightarrow> if c = CHR ''-'' then (True, cs) else if c = CHR ''+'' then (False, cs) else (False, s))"

definition parse_exponent :: "string \<Rightarrow> int option" where
  "parse_exponent s = (case s of [] \<Rightarrow> Some 0
     | c # cs \<Rightarrow> if c = CHR ''e'' \<or> c = CHR ''E'' then
         (case split_sign cs of (neg, ds) \<Rightarrow>
            if ds = [] then None
            else map_option (\<lambda>n. if neg then - n else n) (digits_from 0 ds))
       else None)"

definition fraction_digits :: "string \<Rightarrow> string \<times> string" where
  "fraction_digits s = (case s of [] \<Rightarrow> ([], [])
     | c # cs \<Rightarrow> if c = CHR ''.'' then (takeWhile is_digit cs, dropWhile is_digit cs) else ([], s))"

definition f64_of_decimal :: "bool \<Rightarrow> int \<Rightarrow> int \<Rightarrow> f64" where
  "f64_of_decimal neg n e =
     (if 0 \<le> e then fround neg (n * 10 ^ nat e) 1 else fround neg n (10 ^ nat (- e)))"

definition parse_number :: "bool \<Rightarrow> string \<Rightarrow> f64 option" where
  "parse_number neg t =
     (let ip = takeWhile is_digit t;
          (fp, r) = fraction_digits (dropWhile is_digit t)
      in if ip @ fp = [] then None
         else case (digits_from 0 (ip @ fp), parse_exponent r) of
             (Some n, Some e) \<Rightarrow> Some (f64_of_decimal neg n (e - int (length fp)))
           | _ \<Rightarrow> None)"

definition parse_inf_nan :: "bool \<Rightarrow> string \<Rightarrow> f64 option" where
  "parse_inf_nan neg t =
     (let l = to_ascii_lowercase t in
      if l = ''nan'' then Some NaN
      else if l = ''inf'' \<or> l = ''infinity'' then Some (Infty neg)
      else None)"

definition parse_f64 :: "string \<Rightarrow> f64 option" where
  "parse_f64 s = (case split_sign s of (neg, t) \<Rightarrow>
     (case parse_number neg t of Some x \<Rightarrow> Some x | None \<Rightarrow> parse_inf_nan neg t))"

section \<open>Socket addresses\<close>

text \<open>
  Recognisers return what is left of the text. A number is read to its last digit; it fails when it
  has no digit, more digits than allowed, a forbidden leading zero, or a value out of range.
\<close>

definition read_dec :: "nat option \<Rightarrow> bool \<Rightarrow> int \<Rightarrow> string \<Rightarrow> string option" where
  "read_dec max_digits zero_prefix bound s =
     (let ds = takeWhile is_digit s in
      case digits_from 0 ds of None \<Rightarrow> None
      | Some n \<Rightarrow>
          if ds = [] \<or> bound \<le> n \<or> (\<not> zero_prefix \<and> 1 < length ds \<and> hd ds = CHR ''0'')
             \<or> (case max_digits of None \<Rightarrow> False | Some k \<Rightarrow> k < length ds)
          then None else Some (dropWhile is_digit s))"

definition read_hex_group :: "string \<Rightarrow> string option" where
  "read_hex_group s = (let ds = takeWhile is_hexdigit s in
     if ds = [] \<or> 4 < length ds then None else Some (dropWhile is_hexdigit s))"

definition read_ipv4 :: "string \<Rightarrow> string option" where
  "read_ipv4 s =
     (let octet = read_dec (Some 3) False 256;
          dotted = (\<lambda>t. Option.bind (strip_prefix ''.'' t) octet)
      in Option.bind (octet s) (\<lambda>a. Option.bind (dotted a) (\<lambda>b. Option.bind (dotted b) dotted)))"

definition read_separated :: "nat \<Rightarrow> (string \<Rightarrow> string option) \<Rightarrow> string \<Rightarrow> string option" where
  "read_separated i p s = (if i = 0 then p s else Option.bind (strip_prefix '':'' s) p)"

text \<open>Up to \<open>n\<close> further groups after the first \<open>i\<close>; the last two may be an IPv4 address.\<close>

fun read_groups :: "nat \<Rightarrow> nat \<Rightarrow> string \<Rightarrow> nat \<times> bool \<times> string" where
  "read_groups 0 i s = (i, False, s)"
| "read_groups (Suc n) i s =
     (case (if 1 \<le> n then read_separated i read_ipv4 s else None) of
        Some t \<Rightarrow> (i + 2, True, t)
      | None \<Rightarrow> (case read_separated i read_hex_group s of
            Some t \<Rightarrow> read_groups n (Suc i) t
          | None \<Rightarrow> (i, False, s)))"

definition read_ipv6 :: "string \<Rightarrow> string option" where
  "read_ipv6 s = (case read_groups 8 0 s of (k, v4, t) \<Rightarrow>
     if k = 8 then Some t
     else if v4 then None
     else Option.bind (strip_prefix ''::'' t) (\<lambda>u. Some (snd (snd (read_groups (7 - k) 0 u)))))"

definition read_port :: "string \<Rightarrow> string option" where
  "read_port s = Option.bind (strip_prefix '':'' s) (read_dec None True 65536)"

definition read_scope :: "string \<Rightarrow> string option" where
  "read_scope s = (case strip_prefix ''%'' s of None \<Rightarrow> Some s | Some t \<Rightarrow>
     (case read_dec None True (2 ^ 32) t of None \<Rightarrow> Some s | Some u \<Rightarrow> Some u))"

definition read_socket_v6 :: "string \<Rightarrow> string option" where
  "read_socket_v6 s =
     Option.bind (strip_prefix ''['' s) (\<lambda>a. Option.bind (read_ipv6 a) (\<lambda>b.
       Option.bind (read_scope b) (\<lambda>c. Option.bind (strip_prefix '']'' c) read_port)))"

definition is_socket_addr :: "string \<Rightarrow> bool" where
  "is_socket_addr s =
     (case Option.bind (read_ipv4 s) read_port of
        Some r \<Rightarrow> r = []
      | None \<Rightarrow> read_socket_v6 s = Some [])"

section \<open>Facts\<close>

lemma digit_value_char [simp]: "0 \<le> d \<Longrightarrow> d < 10 \<Longrightarrow> digit_value (char_of (48 + d)) = Some d"
  by (simp add: digit_value_def Let_def)

lemma digits_from_append:
  "digits_from a (xs @ ys) = Option.bind (digits_from a xs) (\<lambda>b. digits_from b ys)"
  by (induction xs arbitrary: a) (auto split: option.split)

lemma dec_str_nonempty [simp]: "dec_str n \<noteq> []"
  by (subst dec_str.simps) simp

lemma digits_from_dec_str: "0 \<le> n \<Longrightarrow> digits_from 0 (dec_str n) = Some n"
proof (induction n rule: dec_str.induct)
  case (1 n)
  show ?case
  proof (cases "n < 10")
    case True
    then show ?thesis using 1(2) by (subst dec_str.simps) simp
  next
    case False
    then show ?thesis using 1 by (subst dec_str.simps) (simp add: digits_from_append)
  qed
qed

lemma dec_str_inject [simp]: "0 \<le> m \<Longrightarrow> 0 \<le> n \<Longrightarrow> dec_str m = dec_str n \<longleftrightarrow> m = n"
  by (metis digits_from_dec_str option.inject)

lemma hd_dec_str: "0 \<le> n \<Longrightarrow> is_digit (hd (dec_str n))"
proof (induction n rule: dec_str.induct)
  case (1 n)
  show ?case
  proof (cases "n < 10")
    case True
    then show ?thesis using 1(2) by (subst dec_str.simps) (simp add: is_digit_def)
  next
    case False
    then show ?thesis using 1 by (subst dec_str.simps) simp
  qed
qed

lemma not_digits [simp]: "\<not> is_digit (CHR ''+'')" "\<not> is_digit (CHR ''-'')" "\<not> is_digit (CHR ''.'')"
  by (simp_all add: is_digit_def digit_value_def)

lemma parse_unsigned_dec_str: "0 \<le> n \<Longrightarrow> parse_unsigned b (dec_str n) = (if n < b then Some n else None)"
proof -
  assume n: "0 \<le> n"
  obtain c cs where s: "dec_str n = c # cs" by (cases "dec_str n") auto
  with hd_dec_str [OF n] have "c \<noteq> CHR ''+''" by auto
  with s show ?thesis
    using digits_from_dec_str [OF n] by (simp add: parse_unsigned_def Let_def)
qed

lemma parse_u64_dec_str [simp]: "parse_u64 (dec_str (uint w)) = Some w"
  using uint_bounded [of w] by (simp add: parse_u64_def parse_unsigned_dec_str)

lemma eq_ignore_ascii_case_refl [simp]: "eq_ignore_ascii_case s s"
  by (simp add: eq_ignore_ascii_case_def)

lemma starts_with_append [simp]: "starts_with p (p @ s)"
  by (induction p) auto

lemma starts_with_iff: "starts_with p s \<longleftrightarrow> (\<exists>t. s = p @ t)"
  by (induction p s rule: starts_with.induct) auto

end
