(* ===== verification/ConfigLoad.thy ===== *)
theory ConfigLoad
  imports StdText
begin

text \<open>
  The loading of the configuration, the rest of \<open>src/config.rs\<close>: the parsers of environment
  variables, \<open>Config::load\<close> with every early return in its order, the environment file written by the
  replay tuner, and the endpoint lists. The environment after \<open>dotenv\<close> and the command line after
  \<open>Cli::parse\<close> are arguments, as are the files that exist; the parsers of private keys and addresses
  belong to the \<open>ethers\<close> crate and are the fields of \<open>ethers_text\<close>.
\<close>

section \<open>Environment, files and errors\<close>

type_synonym environment = "string \<rightharpoonup> string"

text \<open>A private key is read as the address of its wallet.\<close>

record ethers_text =
  parse_wallet :: "string \<Rightarrow> address option"
  parse_address :: "string \<Rightarrow> address option"

datatype file_content = TextFile string | UnreadableFile

type_synonym file_system = "string \<rightharpoonup> file_content"

record cli =
  cli_wallets :: string
  cli_network :: string

text \<open>\<open>env::set_var\<close> panics on a NUL character: that is \<open>LePanic\<close>.\<close>

datatype load_error = LeVar string | LeNotConfigured string | LeNoExecutorKey | LeWallet
  | LeInvalidAddress string | LeInt | LeFloat | LeSocketAddr | LeIo | LeJson | LePanic
  | LeTokenAddress string string | LeTokenEntry string string
  | LeRpcPreference string | LeOpportunityMode string

definition var_or :: "environment \<Rightarrow> string \<Rightarrow> string \<Rightarrow> string" where
  "var_or env name d = (case env name of Some v \<Rightarrow> v | None \<Rightarrow> d)"

definition is_true :: "string \<Rightarrow> bool" where
  "is_true v = eq_ignore_ascii_case (trim v) ''true''"

definition env_flag :: "environment \<Rightarrow> string \<Rightarrow> bool" where
  "env_flag env name = is_true (var_or env name ''false'')"

text \<open>\<open>env::var(name).unwrap_or_else(|_| default).parse()?\<close> at the types the loader uses.\<close>

definition env_f64 :: "environment \<Rightarrow> string \<Rightarrow> string \<Rightarrow> load_error + f64" where
  "env_f64 env name d = ok_or LeFloat (parse_f64 (var_or env name d))"

definition env_u64 :: "environment \<Rightarrow> string \<Rightarrow> string \<Rightarrow> load_error + u64" where
  "env_u64 env name d = ok_or LeInt (parse_u64 (var_or env name d))"

definition env_u32 :: "environment \<Rightarrow> string \<Rightarrow> string \<Rightarrow> load_error + u32" where
  "env_u32 env name d = ok_or LeInt (parse_u32 (var_or env name d))"

definition env_usize :: "environment \<Rightarrow> string \<Rightarrow> string \<Rightarrow> load_error + int" where
  "env_usize env name d = ok_or LeInt (parse_usize (var_or env name d))"

text \<open>\<open>env::var(name).ok().map(trim).filter(p)\<close>.\<close>

definition trimmed_var :: "(string \<Rightarrow> bool) \<Rightarrow> environment \<Rightarrow> string \<Rightarrow> string option" where
  "trimmed_var p env name =
     (case env name of None \<Rightarrow> None | Some v \<Rightarrow> if p (trim v) then Some (trim v) else None)"

section \<open>Placeholders, addresses and defaults\<close>

definition is_placeholder :: "string \<Rightarrow> bool" where
  "is_placeholder value =
     (let trimmed = trim value; lower = to_ascii_lowercase trimmed in
      trimmed = [] \<or> lower = ''sua_chave_hex_aqui'' \<or> lower = ''0xseucontratoalvo''
      \<or> starts_with ''sua_'' lower \<or> starts_with ''seu_'' lower \<or> starts_with ''your_'' lower
      \<or> starts_with ''change_me'' lower \<or> starts_with ''replace_me'' lower
      \<or> str_contains ''placeholder'' lower)"

definition required_env :: "environment \<Rightarrow> string \<Rightarrow> load_error + string" where
  "required_env env name =
     (case env name of None \<Rightarrow> Inl (LeVar name)
      | Some v \<Rightarrow> if is_placeholder (trim v) then Inl (LeNotConfigured name) else Inr (trim v))"

definition parse_optional_address_env ::
  "ethers_text \<Rightarrow> environment \<Rightarrow> string \<Rightarrow> bool \<Rightarrow> load_error + address option" where
  "parse_optional_address_env et env name tolerate_invalid =
     (case env name of None \<Rightarrow> Inr None
      | Some v \<Rightarrow>
          if is_placeholder (trim v) then Inr None
          else case parse_address et (trim v) of
              Some a \<Rightarrow> Inr (Some a)
            | None \<Rightarrow> if tolerate_invalid then Inr None else Inl (LeInvalidAddress name))"

definition default_chain_id :: "string \<Rightarrow> u64" where
  "default_chain_id network =
     (if network = ''ethereum'' then 1 else if network = ''bsc'' then 56
      else if network = ''polygon'' then 137 else if network = ''arbitrum'' then 42161 else 1)"

definition alchemy_url_for_network :: "string \<Rightarrow> string \<Rightarrow> string option" where
  "alchemy_url_for_network network key =
     (if network \<in> {''bsc'', ''bnb''} then Some (''https://bnb-mainnet.g.alchemy.com/v2/'' @ key)
      else if network = ''ethereum'' then Some (''https://eth-mainnet.g.alchemy.com/v2/'' @ key)
      else if network = ''arbitrum'' then Some (''https://arb-mainnet.g.alchemy.com/v2/'' @ key)
      else if network = ''polygon'' then Some (''https://polygon-mainnet.g.alchemy.com/v2/'' @ key)
      else None)"

definition alchemy_ws_url_for_network :: "string \<Rightarrow> string \<Rightarrow> string option" where
  "alchemy_ws_url_for_network network key =
     (if network = ''ethereum'' then Some (''wss://eth-mainnet.g.alchemy.com/v2/'' @ key)
      else if network = ''arbitrum'' then Some (''wss://arb-mainnet.g.alchemy.com/v2/'' @ key)
      else if network = ''polygon'' then Some (''wss://polygon-mainnet.g.alchemy.com/v2/'' @ key)
      else None)"

definition default_finality_confirmations :: "string \<Rightarrow> u64" where
  "default_finality_confirmations network = (if network \<in> {''polygon'', ''bsc'', ''bnb''} then 1 else 0)"

definition supports_default_alchemy_mempool_ws :: "string \<Rightarrow> bool" where
  "supports_default_alchemy_mempool_ws network = (network \<in> {''ethereum'', ''arbitrum'', ''polygon''})"

definition is_allowed_mempool_ws_url :: "string \<Rightarrow> string \<Rightarrow> bool" where
  "is_allowed_mempool_ws_url network url =
     (network \<notin> {''bsc'', ''bnb''} \<or> \<not> str_contains ''bnb-mainnet.g.alchemy.com'' (to_ascii_lowercase url))"

definition mempool_ws_alchemy_disabled :: "environment \<Rightarrow> string \<Rightarrow> bool" where
  "mempool_ws_alchemy_disabled env url =
     (env_flag env ''MEMPOOL_WS_DISABLE_DEFAULT_ALCHEMY'' \<and> str_contains ''alchemy.com'' (to_ascii_lowercase url))"

definition infura_url_for_network :: "string \<Rightarrow> string \<Rightarrow> string option" where
  "infura_url_for_network network key =
     (if network \<in> {''bsc'', ''bnb''} then Some (''https://bsc-mainnet.infura.io/v3/'' @ key)
      else if network = ''ethereum'' then Some (''https://mainnet.infura.io/v3/'' @ key)
      else if network = ''arbitrum'' then Some (''https://arbitrum-mainnet.infura.io/v3/'' @ key)
      else if network = ''polygon'' then Some (''https://polygon-mainnet.infura.io/v3/'' @ key)
      else None)"

section \<open>Keys of a network\<close>

definition network_env_keys :: "string \<Rightarrow> string list" where
  "network_env_keys base_name =
     map ((@) base_name) [''_BSC'', ''_BNB'', ''_POLYGON'', ''_ETHEREUM'', ''_ARBITRUM'', '''']"

definition network_suffixes :: "string \<Rightarrow> string list" where
  "network_suffixes network =
     (if network = ''bsc'' then [''_BSC'', ''_BNB''] else if network = ''polygon'' then [''_POLYGON'']
      else if network = ''ethereum'' then [''_ETHEREUM''] else if network = ''arbitrum'' then [''_ARBITRUM'']
      else [])"

definition is_network_specific :: "string \<Rightarrow> bool" where
  "is_network_specific key =
     (\<exists>suffix \<in> set [''_BSC'', ''_BNB'', ''_POLYGON'', ''_ETHEREUM'', ''_ARBITRUM'']. str_contains suffix key)"

definition push_new :: "string \<Rightarrow> string list \<Rightarrow> string list" where
  "push_new key acc = (if key \<in> set acc then acc else acc @ [key])"

definition prioritize ::
  "(string \<Rightarrow> string \<Rightarrow> bool) \<Rightarrow> string \<Rightarrow> string list \<Rightarrow> string list" where
  "prioritize matches network keys =
     (let specific = fold (\<lambda>suffix. fold push_new (filter (matches suffix) keys)) (network_suffixes network) []
      in fold push_new (filter (\<lambda>key. \<not> is_network_specific key) keys) specific)"

text \<open>The two copies of the routine differ in how a suffix is matched.\<close>

definition prioritized_network_key_names :: "string \<Rightarrow> string list \<Rightarrow> string list" where
  "prioritized_network_key_names = prioritize ends_with"

definition prioritized_network_keys :: "string \<Rightarrow> string list \<Rightarrow> string list" where
  "prioritized_network_keys = prioritize str_contains"

fun first_nonblank :: "environment \<Rightarrow> string list \<Rightarrow> string option" where
  "first_nonblank env [] = None"
| "first_nonblank env (key # keys) =
     (case env key of
        Some v \<Rightarrow> if trim v \<noteq> [] then Some v else first_nonblank env keys
      | None \<Rightarrow> first_nonblank env keys)"

definition parse_network_optional_u64 ::
  "environment \<Rightarrow> string \<Rightarrow> string list \<Rightarrow> load_error + u64 option" where
  "parse_network_optional_u64 env network keys =
     (case first_nonblank env (prioritized_network_keys network keys) of
        None \<Rightarrow> Inr None
      | Some v \<Rightarrow> and_then (ok_or LeInt (parse_u64 (trim v))) (\<lambda>n. Inr (Some n)))"

section \<open>Preferences and modes\<close>

definition parse_rpc_preference :: "string \<Rightarrow> load_error + rpc_preference" where
  "parse_rpc_preference value =
     (let s = to_lowercase (trim value) in
      if s = ''auto'' then Inr Auto else if s = ''getblock'' then Inr GetBlock
      else if s = ''alchemy'' then Inr Alchemy else if s = ''infura'' then Inr Infura
      else Inl (LeRpcPreference s))"

definition parse_opportunity_mode :: "string \<Rightarrow> load_error + opportunity_mode" where
  "parse_opportunity_mode value =
     (let s = to_lowercase (trim (trim_matches (CHR 0x27) (trim_matches (CHR 0x22) (trim value)))) in
      if s \<in> {''conservative'', ''safe'', ''atual''} then Inr Conservative
      else if s \<in> {''aggressive'', ''bloody'', ''sangrento''} then Inr Aggressive
      else if s \<in> {''scavenger'', ''bypass'', ''farelo'', ''farelo-extractor'', ''crumbs''} then Inr Scavenger
      else Inl (LeOpportunityMode s))"

definition parse_network_rpc_preference :: "environment \<Rightarrow> string \<Rightarrow> string \<Rightarrow> load_error + rpc_preference" where
  "parse_network_rpc_preference env network base_name =
     (case first_nonblank env (prioritized_network_key_names network (network_env_keys base_name)) of
        None \<Rightarrow> Inr Auto | Some v \<Rightarrow> parse_rpc_preference (trim v))"

section \<open>Provider filter\<close>

definition rpc_provider_filter :: "environment \<Rightarrow> string \<Rightarrow> string list option" where
  "rpc_provider_filter env network =
     (case first_nonblank env (prioritized_network_key_names network
             (network_env_keys ''RPC_PROVIDER_FILTER'' @ network_env_keys ''RPC_ENABLED_PROVIDERS'')) of
        None \<Rightarrow> None
      | Some raw \<Rightarrow>
          (let providers = filter (\<lambda>v. v \<noteq> [] \<and> v \<noteq> ''auto'' \<and> v \<noteq> ''all'')
                 (map (\<lambda>v. to_ascii_lowercase (trim v)) (split_on (CHR '','') raw))
           in if providers \<noteq> [] then Some providers else None))"

definition rpc_name_matches_filter :: "string \<Rightarrow> string list \<Rightarrow> bool" where
  "rpc_name_matches_filter name providers =
     (let lower = to_ascii_lowercase name in
      list_ex (\<lambda>provider. lower = provider \<or> starts_with (provider @ ''-'') lower) providers)"

definition rpc_name_allowed_for_network :: "string \<Rightarrow> string \<Rightarrow> bool" where
  "rpc_name_allowed_for_network network name =
     (let lower = to_ascii_lowercase name in
      if network \<in> {''bsc'', ''bnb''} then starts_with ''getblock-'' lower
      else if network = ''polygon'' then
        starts_with ''alchemy-'' lower \<or> starts_with ''getblock-'' lower \<or> starts_with ''rpc-'' lower
      else True)"

section \<open>Keys and URLs\<close>

text \<open>Keys and relays are kept in order, each value once up to case.\<close>

definition known_url :: "string \<Rightarrow> (string \<times> string) list \<Rightarrow> bool" where
  "known_url item urls = list_ex (\<lambda>(name, existing). eq_ignore_ascii_case existing item) urls"

definition push_distinct :: "string \<Rightarrow> string list \<Rightarrow> string list" where
  "push_distinct item acc = (if list_ex (\<lambda>e. eq_ignore_ascii_case e item) acc then acc else acc @ [item])"

definition parse_alchemy_keys :: "environment \<Rightarrow> (string \<times> string) list" where
  "parse_alchemy_keys env =
     fold (\<lambda>idx keys.
         case env (''ALCHEMY_KEY_'' @ dec_str idx) of None \<Rightarrow> keys
         | Some v \<Rightarrow> if trim v \<noteq> [] \<and> \<not> known_url (trim v) keys
                       then keys @ [(''alchemy-'' @ dec_str idx, trim v)] else keys)
       [2..8] []"

definition mempool_ws_keys :: "string list" where
  "mempool_ws_keys =
     [''MEMPOOL_WS_URL'', ''MEMPOOL_WS_URL_2'', ''MEMPOOL_WS_URL_3'', ''MEMPOOL_WS_URL_4'', ''MEMPOOL_WS_URL_5'',
      ''MEMPOOL_WS_URL_6'', ''MEMPOOL_WS_URL_BSC'', ''MEMPOOL_WS_URL_BNB'', ''MEMPOOL_WS_URL_POLYGON'',
      ''MEMPOOL_WS_URL_POLYGON_2'', ''MEMPOOL_WS_URL_POLYGON_3'', ''MEMPOOL_WS_URL_POLYGON_4'',
      ''MEMPOOL_WS_URL_POLYGON_5'', ''MEMPOOL_WS_URL_POLYGON_6'', ''MEMPOOL_WS_URL_POLYGON2'',
      ''MEMPOOL_WS_URL_POLYGON3'', ''MEMPOOL_WS_URL_POLYGON4'', ''MEMPOOL_WS_URL_POLYGON5'',
      ''MEMPOOL_WS_URL_POLYGON6'']"

definition ws_items :: "environment \<Rightarrow> string \<Rightarrow> string \<Rightarrow> string list" where
  "ws_items env network key =
     (case env key of None \<Rightarrow> []
      | Some v \<Rightarrow> filter (\<lambda>u. is_allowed_mempool_ws_url network u \<and> \<not> mempool_ws_alchemy_disabled env u)
                    (comma_items v))"

definition parse_mempool_ws_urls ::
  "environment \<Rightarrow> string \<Rightarrow> bool \<Rightarrow> (string \<times> string) list \<Rightarrow> string list" where
  "parse_mempool_ws_urls env network tenderly_only keys =
     (let urls = fold (\<lambda>key. fold push_distinct (ws_items env network key))
                   (prioritized_network_keys network mempool_ws_keys) []
      in if urls = [] \<and> \<not> tenderly_only \<and> supports_default_alchemy_mempool_ws network
            \<and> \<not> env_flag env ''MEMPOOL_WS_DISABLE_DEFAULT_ALCHEMY''
         then List.map_filter (\<lambda>(name, key). alchemy_ws_url_for_network network key) keys
         else urls)"

definition rpc_url_keys :: "string list" where
  "rpc_url_keys =
     [''RPC_URL'', ''RPC_URL_2'', ''RPC_URL_3'', ''RPC_URL_4'', ''RPC_URL_BSC'', ''RPC_URL_BNB'',
      ''RPC_URL_POLYGON'', ''RPC_URL_POLYGON_2'', ''RPC_URL_POLYGON_3'', ''RPC_URL_POLYGON_4'',
      ''RPC_URL_POLYGON_5'', ''RPC_URL_POLYGON_6'', ''RPC_URL_ETHEREUM'', ''RPC_URL_ARBITRUM'']"

definition getblock_url_keys :: "string list" where
  "getblock_url_keys =
     [''GETBLOCK_RPC_URL'', ''GETBLOCK_RPC_URL_2'', ''GETBLOCK_RPC_URL_3'', ''GETBLOCK_RPC_URL_BSC'',
      ''GETBLOCK_RPC_URL_BNB'', ''GETBLOCK_RPC_URL_POLYGON'', ''GETBLOCK_RPC_URL_POLYGON_2'',
      ''GETBLOCK_RPC_URL_POLYGON_3'', ''GETBLOCK_RPC_URL_POLYGON_4'', ''GETBLOCK_RPC_URL_POLYGON_5'',
      ''GETBLOCK_RPC_URL_POLYGON_6'', ''GETBLOCK_RPC_URL_ETHEREUM'', ''GETBLOCK_RPC_URL_ARBITRUM'',
      ''GETBLOCK_BSC'', ''GETBLOCK_BNB'', ''GETBLOCK_POLYGON'', ''GETBLOCK_POLYGON_2'', ''GETBLOCK_POLYGON_3'',
      ''GETBLOCK_POLYGON_4'', ''GETBLOCK_POLYGON_5'', ''GETBLOCK_POLYGON_6'', ''GETBLOCK_ETHEREUM'',
      ''GETBLOCK_ARBITRUM'']"

definition looks_like_getblock_url :: "string \<Rightarrow> bool" where
  "looks_like_getblock_url url = str_contains ''getblock.io'' (to_ascii_lowercase url)"

definition label_index :: "string \<Rightarrow> (string \<times> string) list \<Rightarrow> int" where
  "label_index label urls = int (length (filter (\<lambda>(name, url). starts_with label name) urls)) + 1"

definition push_rpc_url :: "string \<Rightarrow> string \<Rightarrow> (string \<times> string) list \<Rightarrow> (string \<times> string) list" where
  "push_rpc_url label item urls =
     (if known_url item urls then urls
      else let effective_label = (if label = ''rpc'' \<and> looks_like_getblock_url item then ''getblock'' else label)
           in urls @ [(effective_label @ ''-'' @ dec_str (label_index effective_label urls), item)])"

definition env_items :: "environment \<Rightarrow> string \<Rightarrow> string list" where
  "env_items env key = (case env key of None \<Rightarrow> [] | Some v \<Rightarrow> comma_items v)"

definition push_rpc_url_entries ::
  "environment \<Rightarrow> string \<Rightarrow> string \<Rightarrow> string list \<Rightarrow> (string \<times> string) list \<Rightarrow> (string \<times> string) list" where
  "push_rpc_url_entries env network label keys urls =
     fold (\<lambda>key. fold (push_rpc_url label) (env_items env key)) (prioritized_network_keys network keys) urls"

definition push_alias_url :: "string \<Rightarrow> (string \<times> string) list \<Rightarrow> (string \<times> string) list" where
  "push_alias_url item urls =
     (if known_url item urls then urls
      else urls @ [(''getblock-polygon-bnb-alias-'' @ dec_str (label_index ''getblock'' urls), item)])"

definition push_polygon_getblock_bnb_alias ::
  "environment \<Rightarrow> string \<Rightarrow> (string \<times> string) list \<Rightarrow> (string \<times> string) list" where
  "push_polygon_getblock_bnb_alias env network urls =
     (if network \<noteq> ''polygon'' \<or> \<not> env_flag env ''GETBLOCK_BNB_FOR_POLYGON'' then urls
      else fold (\<lambda>key. fold push_alias_url (env_items env key))
             [''GETBLOCK_BNB'', ''GETBLOCK_BSC'', ''GETBLOCK_RPC_URL_BNB'', ''GETBLOCK_RPC_URL_BSC''] urls)"

definition parse_rpc_urls :: "environment \<Rightarrow> string \<Rightarrow> (string \<times> string) list" where
  "parse_rpc_urls env network =
     push_polygon_getblock_bnb_alias env network
       (push_rpc_url_entries env network ''getblock'' getblock_url_keys
         (push_rpc_url_entries env network ''rpc'' rpc_url_keys []))"

definition parse_builder_relays :: "environment \<Rightarrow> string \<Rightarrow> string list" where
  "parse_builder_relays env primary =
     fold push_distinct (env_items env ''BUILDER_RELAYS'') (if trim primary \<noteq> [] then [trim primary] else [])"

section \<open>Monitored tokens\<close>

definition default_monitored_tokens :: "string \<Rightarrow> string" where
  "default_monitored_tokens network =
     (if network = ''bsc'' then ''WBNB:0xbb4CdB9CBd36B01bD1cBaEBF2De08d9173bc095c:18:1.0''
      else if network = ''polygon'' then ''WPOL:0x0d500B1d8E8eF31E21C99d1Db9A6444d3ADf1270:18:1.0''
      else if network = ''ethereum'' then ''WETH:0xC02aaA39b223FE8D0A0e5C4F27eAD9083C756Cc2:18:1.0''
      else if network = ''arbitrum'' then ''WETH:0x82aF49447D8a07e3bd95BD0d56f35241523fBab1:18:1.0''
      else [])"

definition monitored_tokens_env_name :: "string \<Rightarrow> string option" where
  "monitored_tokens_env_name network =
     (if network = ''arbitrum'' then Some ''MONITORED_TOKENS_ARBITRUM''
      else if network = ''bsc'' then Some ''MONITORED_TOKENS_BSC''
      else if network = ''polygon'' then Some ''MONITORED_TOKENS_POLYGON''
      else if network = ''ethereum'' then Some ''MONITORED_TOKENS_ETHEREUM''
      else None)"

definition token_of_parts ::
  "ethers_text \<Rightarrow> string \<Rightarrow> string \<Rightarrow> string \<Rightarrow> string \<Rightarrow> load_error + monitored_token_config" where
  "token_of_parts et env_name a d p =
     and_then (ok_or (LeTokenAddress env_name a) (parse_address et a)) (\<lambda>addr.
     and_then (ok_or LeInt (parse_u8 d)) (\<lambda>decimals.
     and_then (ok_or LeFloat (parse_f64 p)) (\<lambda>price.
       Inr \<lparr>mt_address = addr, mt_decimals = decimals, mt_price_eth = price\<rparr>)))"

definition parse_token_entry :: "ethers_text \<Rightarrow> string \<Rightarrow> string \<Rightarrow> load_error + monitored_token_config" where
  "parse_token_entry et env_name entry =
     (case map trim (split_on (CHR '':'') entry) of
        [a, d, p] \<Rightarrow> token_of_parts et env_name a d p
      | [symbol, a, d, p] \<Rightarrow> token_of_parts et env_name a d p
      | [symbol, cls, a, d, p] \<Rightarrow> token_of_parts et env_name a d p
      | parts \<Rightarrow> Inl (LeTokenEntry env_name entry))"

fun parse_token_entries ::
  "ethers_text \<Rightarrow> string \<Rightarrow> string list \<Rightarrow> load_error + monitored_token_config list" where
  "parse_token_entries et env_name [] = Inr []"
| "parse_token_entries et env_name (entry # rest) =
     (if trim entry = [] then parse_token_entries et env_name rest
      else and_then (parse_token_entry et env_name (trim entry)) (\<lambda>t.
           and_then (parse_token_entries et env_name rest) (\<lambda>ts. Inr (t # ts))))"

definition parse_monitored_tokens ::
  "ethers_text \<Rightarrow> environment \<Rightarrow> string \<Rightarrow> load_error + monitored_token_config list" where
  "parse_monitored_tokens et env network =
     (case monitored_tokens_env_name network of None \<Rightarrow> Inr []
      | Some env_name \<Rightarrow>
          (let given = var_or env env_name [];
               raw = (if trim given = [] then default_monitored_tokens network else given)
           in if trim raw = [] then Inr [] else parse_token_entries et env_name (split_on (CHR '','') raw)))"

section \<open>The environment of the replay tuner\<close>

text \<open>A line of the file: blank lines, comments and lines without a key or a value change nothing.\<close>

definition tuned_line :: "string \<Rightarrow> (string \<times> string) option" where
  "tuned_line raw =
     (let line = trim raw in
      if line = [] \<or> starts_with ''#'' line then None
      else case split_once (CHR ''='') line of None \<Rightarrow> None
        | Some (k, v) \<Rightarrow> if trim k = [] \<or> trim v = [] then None else Some (trim k, trim v))"

fun set_tuned_vars :: "string list \<Rightarrow> environment \<Rightarrow> load_error + environment" where
  "set_tuned_vars [] env = Inr env"
| "set_tuned_vars (raw # rest) env =
     (case tuned_line raw of None \<Rightarrow> set_tuned_vars rest env
      | Some (k, v) \<Rightarrow> if CHR 0x00 \<in> set (k @ v) then Inl LePanic else set_tuned_vars rest (env(k \<mapsto> v)))"

definition tuned_env_path :: "environment \<Rightarrow> string" where
  "tuned_env_path env =
     (case trimmed_var (\<lambda>v. v \<noteq> []) env ''REPLAY_AUTO_TUNE_RUNTIME_ENV_PATH'' of Some p \<Rightarrow> p
      | None \<Rightarrow> (case trimmed_var (\<lambda>v. v \<noteq> []) env ''REPLAY_AUTO_TUNE_APPLY_PATH'' of Some p \<Rightarrow> p
          | None \<Rightarrow> ''exports/replay_auto_tune.env''))"

definition apply_replay_tuned_runtime_env :: "file_system \<Rightarrow> environment \<Rightarrow> load_error + environment" where
  "apply_replay_tuned_runtime_env fs env =
     (if \<not> env_flag env ''REPLAY_AUTO_TUNE_USE_IN_RUNTIME'' then Inr env
      else case fs (tuned_env_path env) of None \<Rightarrow> Inr env
        | Some UnreadableFile \<Rightarrow> Inl LeIo
        | Some (TextFile raw) \<Rightarrow> set_tuned_vars (str_lines raw) env)"

section \<open>Loading\<close>

definition load_network :: "cli \<Rightarrow> environment \<Rightarrow> string" where
  "load_network c env =
     (case trimmed_var (\<lambda>v. v \<noteq> []) env ''NETWORK'' of
        Some v \<Rightarrow> to_lowercase v | None \<Rightarrow> to_lowercase (cli_network c))"

definition test_private_key :: string where
  "test_private_key = replicate 63 (CHR ''0'') @ ''1''"

definition executor_private_key_candidate :: "environment \<Rightarrow> bool \<Rightarrow> load_error + string" where
  "executor_private_key_candidate env test_mode =
     (let key = trimmed_var (\<lambda>v. \<not> is_placeholder v) env in
      case key ''EXECUTOR_PRIVATE_KEY'' of Some k \<Rightarrow> Inr k
      | None \<Rightarrow> (case key ''SENDER_PRIVATE_KEY'' of Some k \<Rightarrow> Inr k
        | None \<Rightarrow> (case key ''CONTROL_PRIVATE_KEY'' of Some k \<Rightarrow> Inr k
          | None \<Rightarrow> if test_mode then Inr test_private_key else Inl LeNoExecutorKey)))"

definition load_control_address ::
  "ethers_text \<Rightarrow> environment \<Rightarrow> bool \<Rightarrow> address \<Rightarrow> load_error + address" where
  "load_control_address et env test_mode executor =
     (case env ''CONTROL_ADDRESS'' of None \<Rightarrow> Inr executor
      | Some v \<Rightarrow> (case parse_address et (trim v) of Some a \<Rightarrow> Inr a
          | None \<Rightarrow> if test_mode then Inr executor else Inl (LeInvalidAddress ''CONTROL_ADDRESS'')))"

definition load_infura_ids :: "environment \<Rightarrow> string list" where
  "load_infura_ids env = List.map_filter (\<lambda>idx. trimmed_var (\<lambda>v. v \<noteq> []) env (''INFURA_ID_'' @ dec_str idx)) [1..10]"

definition load_dashboard_addr :: "environment \<Rightarrow> load_error + string" where
  "load_dashboard_addr env =
     (let addr = (case env ''PORT'' of Some port \<Rightarrow> ''0.0.0.0:'' @ port | None \<Rightarrow> var_or env ''DASHBOARD_ADDR'' ''127.0.0.1:8787'')
      in if is_socket_addr addr then Inr addr else Inl LeSocketAddr)"

definition load_mev ::
  "ethers_text \<Rightarrow> environment \<Rightarrow> string \<Rightarrow> bool \<Rightarrow> opportunity_thresholds \<Rightarrow> load_error + mev_config" where
  "load_mev et env network test_mode thresholds =
     (and_then (parse_opportunity_mode (var_or env ''MEV_OPPORTUNITY_MODE'' ''conservative'')) (\<lambda>opportunity_mode_v.
     and_then (env_f64 env ''MEV_CAPITAL_ETH'' ''0.05'') (\<lambda>capital_eth_v.
     and_then (env_u64 env ''MEV_CAPITAL_WINDOW_SECS'' ''90'') (\<lambda>capital_window_secs_v.
     and_then (env_f64 env ''MEV_MAX_WINDOW_EXPOSURE_ETH'' ''0.15'') (\<lambda>max_window_exposure_eth_v.
     and_then (env_f64 env ''MEV_MAX_CLUSTER_WINDOW_EXPOSURE_ETH'' ''0.08'') (\<lambda>max_cluster_window_exposure_eth_v.
     and_then (env_f64 env ''MEV_MAX_PAIR_WINDOW_EXPOSURE_ETH'' ''0.10'') (\<lambda>max_pair_window_exposure_eth_v.
     and_then (env_u64 env ''MEV_MIN_ROI_BPS'' ''1500'') (\<lambda>min_roi_bps_v.
     and_then (env_u64 env ''MEV_GAS_SAFETY_MARGIN_BPS'' ''12500'') (\<lambda>gas_safety_margin_bps_v.
     and_then (env_u64 env ''MEV_MAX_PENDING_AGE_MS'' ''1500'') (\<lambda>max_pending_age_ms_v.
     and_then (env_u64 env ''MEV_MAX_GAS_PER_TX'' ''260000'') (\<lambda>max_gas_per_tx_v.
     and_then (parse_network_optional_u64 env network [''MEV_MAX_GAS_PRICE_GWEI'', ''MEV_MAX_GAS_PRICE_GWEI_BSC'',
         ''MEV_MAX_GAS_PRICE_GWEI_BNB'', ''MEV_MAX_GAS_PRICE_GWEI_POLYGON'']) (\<lambda>max_gas_price_gwei_v.
     and_then (env_u64 env ''MEV_MAX_PRICE_IMPACT_BPS'' ''250'') (\<lambda>max_price_impact_bps_v.
     and_then (env_u64 env ''MEV_SLIPPAGE_PROTECTION_BPS'' ''50'') (\<lambda>slippage_protection_bps_v.
     and_then (env_f64 env ''MEV_ETH_USD_PRICE'' ''3200.0'') (\<lambda>eth_usd_price_v.
     and_then (env_u64 env ''MEV_LATENCY_TRACE_WARN_US'' ''5000'') (\<lambda>latency_trace_warn_us_v.
     and_then (env_u64 env ''MEV_POOL_STATE_CACHE_TTL_MS'' ''120'') (\<lambda>pool_state_cache_ttl_ms_v.
     and_then (env_f64 env ''MEV_EXECUTOR_MIN_BUFFER_ETH'' ''0.20'') (\<lambda>executor_min_buffer_eth_v.
     and_then (env_f64 env ''MEV_EXECUTOR_TARGET_BUFFER_ETH'' ''0.50'') (\<lambda>executor_target_buffer_eth_v.
     and_then (env_f64 env ''MEV_EXECUTOR_MAX_BUFFER_ETH'' ''1.00'') (\<lambda>executor_max_buffer_eth_v.
     and_then (env_usize env ''MEV_RELAY_FANOUT_COUNT'' ''3'') (\<lambda>relay_fanout_count_v.
     and_then (env_usize env ''MEV_RPC_FANOUT_COUNT'' ''2'') (\<lambda>rpc_fanout_count_v.
     and_then (env_u64 env ''MEV_GAS_OVERPAY_BASE_EXTRA_BPS'' ''500'') (\<lambda>gas_overpay_base_extra_bps_v.
     and_then (env_u64 env ''MEV_GAS_OVERPAY_MISS_EXTRA_BPS'' ''2500'') (\<lambda>gas_overpay_miss_extra_bps_v.
     and_then (env_u64 env ''MEV_GAS_OVERPAY_REVERT_EXTRA_BPS'' ''1200'') (\<lambda>gas_overpay_revert_extra_bps_v.
     and_then (env_u64 env ''MEV_GAS_OVERPAY_SUBMIT_FAILURE_EXTRA_BPS'' ''1500'') (\<lambda>gas_overpay_submit_failure_extra_bps_v.
     and_then (env_u64 env ''MEV_GAS_OVERPAY_MAX_EXTRA_BPS'' ''5000'') (\<lambda>gas_overpay_max_extra_bps_v.
     and_then (env_u64 env ''MEV_FINALITY_CONFIRMATIONS''
         (dec_str (uint (default_finality_confirmations network)))) (\<lambda>finality_confirmations_v.
     and_then (env_u32 env ''MEV_STOP_LOSS_CONSECUTIVE_LOSSES'' ''3'') (\<lambda>stop_loss_consecutive_losses_v.
     and_then (env_u64 env ''MEV_STOP_LOSS_FREEZE_SECS'' ''300'') (\<lambda>stop_loss_freeze_secs_v.
     and_then (env_u32 env ''MEV_CONTEXT_STOP_LOSS_CONSECUTIVE_LOSSES'' ''2'') (\<lambda>context_stop_loss_consecutive_losses_v.
     and_then (env_u64 env ''MEV_CONTEXT_STOP_LOSS_FREEZE_SECS'' ''180'') (\<lambda>context_stop_loss_freeze_secs_v.
     and_then (env_f64 env ''MEV_CAPITAL_MULTIPLIER_AGGRESSIVE'' ''2.0'') (\<lambda>capital_multiplier_aggressive_v.
     and_then (env_f64 env ''MEV_CAPITAL_MULTIPLIER_NEUTRAL'' ''1.0'') (\<lambda>capital_multiplier_neutral_v.
     and_then (env_f64 env ''MEV_CAPITAL_MULTIPLIER_DEFENSIVE'' ''0.3'') (\<lambda>capital_multiplier_defensive_v.
     and_then (env_f64 env ''MEV_CAPITAL_MULTIPLIER_PRIORITY_THRESHOLD'' ''0.60'') (\<lambda>capital_multiplier_priority_threshold_v.
     and_then (env_f64 env ''MEV_CAPITAL_MULTIPLIER_TOXICITY_THRESHOLD'' ''0.65'') (\<lambda>capital_multiplier_toxicity_threshold_v.
     and_then (parse_optional_address_env et env ''MEV_UNISWAP_V2_FACTORY'' test_mode) (\<lambda>uniswap_v2_factory_v.
     and_then (parse_optional_address_env et env ''MEV_UNISWAP_V3_FACTORY'' test_mode) (\<lambda>uniswap_v3_factory_v.
     and_then (parse_optional_address_env et env ''MEV_EXECUTOR_ADDRESS'' test_mode) (\<lambda>mev_executor_v.
     and_then (parse_optional_address_env et env ''MEV_EXECUTOR_V3_ADDRESS'' test_mode) (\<lambda>mev_executor_v3_v.
       Inr \<lparr>enabled = is_true (var_or env ''MEV_ENGINE_ENABLED'' ''false''), opportunity_mode_lock = Healthy
         opportunity_mode_v, runtime_thresholds_lock = Healthy thresholds, capital_eth = capital_eth_v,
         capital_window_secs = capital_window_secs_v, max_window_exposure_eth = max_window_exposure_eth_v,
         max_cluster_window_exposure_eth = max_cluster_window_exposure_eth_v, max_pair_window_exposure_eth =
         max_pair_window_exposure_eth_v, min_net_profit_eth = th_min_net_profit_eth thresholds, min_roi_bps =
         min_roi_bps_v, min_large_swap_eth = th_min_large_swap_eth thresholds, gas_safety_margin_bps =
         gas_safety_margin_bps_v, max_pending_age_ms = max_pending_age_ms_v, max_gas_per_tx = max_gas_per_tx_v,
         max_gas_price_gwei = max_gas_price_gwei_v, max_price_impact_bps = max_price_impact_bps_v,
         slippage_protection_bps = slippage_protection_bps_v, min_profit_usd = th_min_profit_usd thresholds,
         eth_usd_price = eth_usd_price_v, min_liquidity_eth = th_min_liquidity_eth thresholds, latency_trace =
         is_true (var_or env ''MEV_LATENCY_TRACE'' ''false''), latency_trace_warn_us = latency_trace_warn_us_v,
         pool_state_cache_ttl_ms = pool_state_cache_ttl_ms_v, executor_min_buffer_eth = executor_min_buffer_eth_v,
         executor_target_buffer_eth = executor_target_buffer_eth_v, executor_max_buffer_eth =
         executor_max_buffer_eth_v, relay_fanout_count = max 1 relay_fanout_count_v, rpc_fanout_count = max 1
         rpc_fanout_count_v, gas_overpay_base_extra_bps = gas_overpay_base_extra_bps_v, gas_overpay_miss_extra_bps
         = gas_overpay_miss_extra_bps_v, gas_overpay_revert_extra_bps = gas_overpay_revert_extra_bps_v,
         gas_overpay_submit_failure_extra_bps = gas_overpay_submit_failure_extra_bps_v, gas_overpay_max_extra_bps
         = gas_overpay_max_extra_bps_v, finality_confirmations = finality_confirmations_v,
         stop_loss_consecutive_losses = max 1 stop_loss_consecutive_losses_v, stop_loss_freeze_secs =
         stop_loss_freeze_secs_v, context_stop_loss_consecutive_losses = max 1
         context_stop_loss_consecutive_losses_v, context_stop_loss_freeze_secs = context_stop_loss_freeze_secs_v,
         capital_multiplier_aggressive = capital_multiplier_aggressive_v, capital_multiplier_neutral =
         capital_multiplier_neutral_v, capital_multiplier_defensive = capital_multiplier_defensive_v,
         capital_multiplier_priority_threshold = capital_multiplier_priority_threshold_v,
         capital_multiplier_toxicity_threshold = capital_multiplier_toxicity_threshold_v, uniswap_v2_factory =
         uniswap_v2_factory_v, uniswap_v3_factory = uniswap_v3_factory_v, mev_executor = mev_executor_v,
         mev_executor_v3 = mev_executor_v3_v\<rparr>)))))))))))))))))))))))))))))))))))))))))"

definition load_thresholds :: "environment \<Rightarrow> load_error + opportunity_thresholds" where
  "load_thresholds env =
     and_then (env_f64 env ''MEV_MIN_NET_PROFIT_ETH'' ''0.0025'') (\<lambda>net_profit.
     and_then (env_f64 env ''MEV_MIN_LARGE_SWAP_ETH'' ''25.0'') (\<lambda>large_swap.
     and_then (env_f64 env ''MEV_MIN_PROFIT_USD'' ''2.0'') (\<lambda>profit_usd.
     and_then (env_f64 env ''MEV_MIN_LIQUIDITY_ETH'' ''25.0'') (\<lambda>liquidity.
       Inr \<lparr>th_min_large_swap_eth = large_swap, th_min_net_profit_eth = net_profit,
            th_min_profit_usd = profit_usd, th_min_liquidity_eth = liquidity\<rparr>))))"

definition load_from :: "ethers_text \<Rightarrow> cli \<Rightarrow> environment \<Rightarrow> load_error + config" where
  "load_from et c env =
     (let network = load_network c env;
          test_mode = env_flag env ''RUN_RUNTIME_LOAD_TEST'';
          tenderly_only = is_true (var_or env ''USE_TENDERLY_RPC_ONLY'' ''false'');
          send = is_true (var_or env ''ALLOW_SEND'' ''false'');
          keys = parse_alchemy_keys env
      in
     and_then (if network = ''ethereum'' then required_env env ''FLASHBOTS_RELAY''
               else Inr (trim (var_or env ''FLASHBOTS_RELAY'' []))) (\<lambda>relay.
     let relays = parse_builder_relays env relay;
         chain = (case Option.bind (env ''CHAIN_ID'') (\<lambda>v. parse_u64 (trim v)) of
                    Some n \<Rightarrow> n | None \<Rightarrow> default_chain_id network)
     in
     and_then (executor_private_key_candidate env test_mode) (\<lambda>candidate.
     let private_key = (if test_mode \<and> parse_wallet et candidate = None then test_private_key else candidate) in
     and_then (ok_or LeWallet (parse_wallet et private_key)) (\<lambda>executor.
     and_then (load_control_address et env test_mode executor) (\<lambda>control.
     and_then (parse_optional_address_env et env ''VAULT_ADDRESS'' test_mode) (\<lambda>vault.
     and_then (parse_optional_address_env et env ''PROFIT_ADDRESS'' test_mode) (\<lambda>profit.
     and_then (parse_optional_address_env et env ''MEV_SEARCHER_RECIPIENT'' test_mode) (\<lambda>recipient.
     and_then (parse_monitored_tokens et env network) (\<lambda>tokens.
     and_then (case env ''ESTIMATED_EXEC_GAS'' of None \<Rightarrow> Inr 250000
               | Some v \<Rightarrow> ok_or LeInt (parse_u64 (trim v))) (\<lambda>exec_gas.
     and_then (env_u64 env ''ESTIMATED_BUNDLE_OVERHEAD_GAS'' ''25000'') (\<lambda>overhead_gas.
     and_then (env_usize env ''MAX_INFURA_ENDPOINTS'' (if network = ''polygon'' then ''0'' else ''2'')) (\<lambda>max_infura.
     and_then (parse_network_rpc_preference env network ''RPC_READ_PREFERENCE'') (\<lambda>read_pref.
     and_then (parse_network_rpc_preference env network ''RPC_SEND_PREFERENCE'') (\<lambda>send_pref.
     and_then (load_dashboard_addr env) (\<lambda>dashboard.
     let explicit_urls = parse_rpc_urls env network;
         ws_urls = parse_mempool_ws_urls env network tenderly_only keys
     in
     and_then (load_thresholds env) (\<lambda>thresholds.
     and_then (load_mev et env network test_mode thresholds) (\<lambda>m.
       Inr \<lparr>cfg_wallets = cli_wallets c, cfg_network = network, chain_id = chain, allow_send = send,
            tenderly_rpc_only = tenderly_only, alchemy_keys = keys, infura_ids = load_infura_ids env,
            flashbots_relay = relay, builder_relays = relays, executor_private_key = private_key,
            executor_address = executor,
            vault_address = (case vault of Some a \<Rightarrow> a | None \<Rightarrow> control),
            profit_address = (case profit of Some a \<Rightarrow> a
               | None \<Rightarrow> (case recipient of Some a \<Rightarrow> a | None \<Rightarrow> control)),
            control_address = control, monitored_tokens = tokens, estimated_exec_gas = exec_gas,
            estimated_bundle_overhead_gas = overhead_gas, max_infura_endpoints = max_infura,
            rpc_read_preference = read_pref, rpc_send_preference = send_pref,
            storage_path = var_or env ''STORAGE_PATH'' ''bot_state.sqlite'', dashboard_addr = dashboard,
            explicit_rpc_urls = explicit_urls, mempool_ws_urls = ws_urls, mev = m\<rparr>)))))))))))))))))"

text \<open>The environment that the tuner's file changes stays in force while the program runs.\<close>

definition load_config ::
  "ethers_text \<Rightarrow> file_system \<Rightarrow> cli \<Rightarrow> environment \<Rightarrow> load_error + environment \<times> config" where
  "load_config et fs c env =
     and_then (apply_replay_tuned_runtime_env fs env) (\<lambda>env'.
     and_then (load_from et c env') (\<lambda>cfg. Inr (env', cfg)))"

section \<open>Endpoints\<close>

definition fork_rpc_url :: "environment \<Rightarrow> config \<Rightarrow> string option" where
  "fork_rpc_url env c =
     (if cfg_network c = ''ethereum'' then trimmed_var (\<lambda>v. v \<noteq> []) env ''TENDERLY_FORK_URL_ETHEREUM''
      else if cfg_network c = ''arbitrum'' then trimmed_var (\<lambda>v. v \<noteq> []) env ''TENDERLY_FORK_URL_ARBITRUM''
      else if cfg_network c = ''bsc'' then trimmed_var (\<lambda>v. v \<noteq> []) env ''TENDERLY_FORK_URL_BNB''
      else if cfg_network c = ''polygon'' then trimmed_var (\<lambda>v. v \<noteq> []) env ''TENDERLY_FORK_URL_POLYGON''
      else None)"

definition alchemy_entries :: "config \<Rightarrow> (string \<times> string) list" where
  "alchemy_entries c =
     List.map_filter (\<lambda>(name, key). map_option (Pair name) (alchemy_url_for_network (cfg_network c) key)) (alchemy_keys c)"

definition infura_entries :: "config \<Rightarrow> (string \<times> string) list" where
  "infura_entries c =
     List.map_filter (\<lambda>(idx, key). map_option (Pair (''infura-'' @ dec_str (int idx + 1))) (infura_url_for_network (cfg_network c) key))
       (enumerate 0 (take (nat (max_infura_endpoints c)) (infura_ids c)))"

definition rpc_urls :: "environment \<Rightarrow> config \<Rightarrow> (string \<times> string) list" where
  "rpc_urls env c =
     (if tenderly_rpc_only c then
        (case fork_rpc_url env c of None \<Rightarrow> [] | Some url \<Rightarrow> [(''tenderly-'' @ cfg_network c, url)])
      else let urls = explicit_rpc_urls c @ alchemy_entries c @ infura_entries c;
               kept = (case rpc_provider_filter env (cfg_network c) of None \<Rightarrow> urls
                       | Some providers \<Rightarrow> filter (\<lambda>(name, url). rpc_name_matches_filter name providers) urls)
           in filter (\<lambda>(name, url). rpc_name_allowed_for_network (cfg_network c) name) kept)"

definition config_mempool_ws_urls :: "environment \<Rightarrow> config \<Rightarrow> string list" where
  "config_mempool_ws_urls env c =
     (if tenderly_rpc_only c then mempool_ws_urls c
      else if mempool_ws_urls c \<noteq> [] then mempool_ws_urls c
      else if \<not> supports_default_alchemy_mempool_ws (cfg_network c) then []
      else if env_flag env ''MEMPOOL_WS_DISABLE_DEFAULT_ALCHEMY'' then []
      else List.map_filter (\<lambda>(name, key). alchemy_ws_url_for_network (cfg_network c) key) (alchemy_keys c))"

end
