(* ===== verification/Replay.thy ===== *)
theory Replay
  imports RuntimeEval ConfigLoad
begin

text \<open>
  The replay harness of \<open>src/replay.rs\<close>: it runs recorded transactions through the decoder, the gates,
  the payload builder and the adaptive policy of the runtime, keeps a report, and searches a grid of
  tunings for the best one. Counters are natural numbers, since each case adds at most one. The node
  of the fork, the parsers of hashes, addresses, numbers and JSON, and the clock are arguments; the
  time a stage of a case took is \<open>ry_elapsed\<close>. Reports on the terminal are left out.
\<close>

section \<open>Cases, tunings and outside answers\<close>

record replay_input_case =
  ri_tx_hash :: "string option"
  ri_to :: string
  ri_input :: string
  ri_value_wei :: "string option"
  ri_gas_price_wei :: "string option"
  ri_max_fee_per_gas_wei :: "string option"
  ri_lookup_latency_ms :: "f64 option"
  ri_hour_utc :: "u8 option"
  ri_known_outcome :: "string option"
  ri_realized_profit_eth :: "f64 option"

record replay_tuning =
  rt_threshold_multiplier :: f64
  rt_priority_shift :: f64
  rt_toxicity_shift :: f64
  rt_gas_extra_bps :: u64

definition default_tuning :: replay_tuning where
  "default_tuning = \<lparr>rt_threshold_multiplier = 1, rt_priority_shift = 0, rt_toxicity_shift = 0, rt_gas_extra_bps = 0\<rparr>"

record fork_execution_outcome =
  fo_tx_hash :: h256
  fo_success :: bool
  fo_gas_used :: u64
  fo_realized_profit_eth :: f64

text \<open>The answers of the fork to one execution, in the order of the requests.\<close>

record fork_view =
  fv_nonce :: "string + u256"
  fv_raw_tx :: "execution_payload \<Rightarrow> u256 \<Rightarrow> u256 \<Rightarrow> string + bytes"
  fv_pre_balance :: "string + u256"
  fv_send :: "bytes \<Rightarrow> string + h256"
  fv_receipt :: "string + receipt option"
  fv_post_balance :: "u64 \<Rightarrow> string + u256"

datatype replay_error = ReplayPanic panic | BadHash | BadAddress | BadHex | ForkFailed string
  | ForkWallet | ForkNotMined h256 | ForkNoBlock h256 | ForkReverted h256
  | ReplayIo | ReplayJson | NoForkUrl string | NoInputPath | ChainMismatch u64 u64 | NotEther | NoCandidates

record replay_ext =
  ry_px :: payload_ext
  ry_env :: runtime_env
  ry_avx2 :: bool
  ry_abi :: abi_decoder
  ry_view :: chain_view
  ry_text :: ethers_text
  ry_h256 :: "string \<Rightarrow> h256 option"
  ry_hex_decode :: "string \<Rightarrow> bytes option"
  ry_u256_hex :: "string \<Rightarrow> u256 option"
  ry_u256_dec :: "string \<Rightarrow> u256 option"
  ry_environment :: environment
  ry_now :: "nat \<Rightarrow> instant"
  ry_quote_clock :: "nat \<Rightarrow> nat \<Rightarrow> instant"
  ry_hour :: "nat \<Rightarrow> u8"
  ry_elapsed :: "nat \<Rightarrow> string \<Rightarrow> u64"
  ry_fork :: "nat \<Rightarrow> fork_view"

section \<open>Transactions\<close>

definition parse_u256 :: "replay_ext \<Rightarrow> string option \<Rightarrow> u256 option" where
  "parse_u256 ex value =
     Option.bind value (\<lambda>raw. let v = trim raw in
       if v = [] then None
       else case strip_prefix ''0x'' v of Some hex \<Rightarrow> ry_u256_hex ex hex | None \<Rightarrow> ry_u256_dec ex v)"

fun trim_start_0x :: "string \<Rightarrow> string" where
  "trim_start_0x (a # b # s) = (if a = CHR ''0'' \<and> b = CHR ''x'' then trim_start_0x s else a # b # s)"
| "trim_start_0x s = s"

definition replay_transaction ::
  "replay_ext \<Rightarrow> replay_input_case \<Rightarrow> u64 \<Rightarrow> replay_error + pending_transaction" where
  "replay_transaction ex c fallback_nonce =
     and_then (case ri_tx_hash c of None \<Rightarrow> Inr (ucast fallback_nonce) | Some h \<Rightarrow> ok_or BadHash (ry_h256 ex h)) (\<lambda>hash.
     and_then (ok_or BadAddress (parse_address (ry_text ex) (ri_to c))) (\<lambda>to_addr.
     and_then (ok_or BadHex (ry_hex_decode ex (trim_start_0x (ri_input c)))) (\<lambda>input.
       Inr \<lparr>tx_from = 0, tx_to = Some to_addr, tx_input = input,
            tx_value = (case parse_u256 ex (ri_value_wei c) of Some v \<Rightarrow> v | None \<Rightarrow> 0),
            tx_gas_price = parse_u256 ex (ri_gas_price_wei c), tx_gas = 300000, tx_nonce = ucast fallback_nonce,
            tx_chain_id = None, ptx_hash = hash, ptx_max_fee_per_gas = parse_u256 ex (ri_max_fee_per_gas_wei c),
            ptx_block_number = None\<rparr>)))"

section \<open>Report\<close>

definition is_positive_outcome :: "string \<Rightarrow> bool" where
  "is_positive_outcome outcome = (outcome \<in> {''included_success'', ''execute'', ''profitable''})"

definition case_realized :: "replay_input_case \<Rightarrow> f64" where
  "case_realized c = (case ri_realized_profit_eth c of Some x \<Rightarrow> x | None \<Rightarrow> 0)"

definition case_profitable :: "replay_input_case \<Rightarrow> bool" where
  "case_profitable c =
     ((case ri_known_outcome c of Some outcome \<Rightarrow> is_positive_outcome outcome | None \<Rightarrow> False) \<or> 0 < case_realized c)"

record toxicity_replay_stats =
  tx_samples :: nat
  tx_rejected :: nat
  tx_executed :: nat
  tx_profitable_labels :: nat
  tx_false_positive :: nat
  tx_false_negative :: nat
  tx_expected_profit_wei :: u256
  tx_realized_profit_eth :: f64
  tx_last_stage :: string

definition toxicity_default :: toxicity_replay_stats where
  "toxicity_default = \<lparr>tx_samples = 0, tx_rejected = 0, tx_executed = 0, tx_profitable_labels = 0, tx_false_positive = 0,
     tx_false_negative = 0, tx_expected_profit_wei = 0, tx_realized_profit_eth = 0, tx_last_stage = []\<rparr>"

definition toxicity_observe ::
  "bool \<Rightarrow> replay_input_case \<Rightarrow> u256 option \<Rightarrow> string \<Rightarrow> toxicity_replay_stats \<Rightarrow> toxicity_replay_stats" where
  "toxicity_observe executed c expected stage t =
     (let t1 = t\<lparr>tx_samples := tx_samples t + 1, tx_last_stage := stage\<rparr>;
          t2 = (if case_profitable c then t1\<lparr>tx_profitable_labels := tx_profitable_labels t1 + 1\<rparr> else t1)
      in if executed
         then (let t3 = t2\<lparr>tx_executed := tx_executed t2 + 1,
                   tx_expected_profit_wei := sat_add (tx_expected_profit_wei t2) (case expected of Some w \<Rightarrow> w | None \<Rightarrow> 0),
                   tx_realized_profit_eth := tx_realized_profit_eth t2 + case_realized c\<rparr>
               in if \<not> case_profitable c then t3\<lparr>tx_false_positive := tx_false_positive t3 + 1\<rparr> else t3)
         else (let t3 = t2\<lparr>tx_rejected := tx_rejected t2 + 1\<rparr>
               in if case_profitable c then t3\<lparr>tx_false_negative := tx_false_negative t3 + 1\<rparr> else t3))"

definition of_count :: "nat \<Rightarrow> f64" where
  "of_count n = fround False (int n) 1"

definition replay_toxicity_score :: "toxicity_replay_stats \<Rightarrow> f64" where
  "replay_toxicity_score t =
     (if tx_samples t = 0 then 0
      else let sample = of_count (tx_samples t);
               reject_rate = of_count (tx_rejected t) / sample;
               false_positive_rate = of_count (tx_false_positive t) / sample;
               false_negative_rate = of_count (tx_false_negative t) / sample;
               realized_capture = (if 0 < tx_expected_profit_wei t
                 then fclamp 0 (dec 125 2) (tx_realized_profit_eth t / wei_to_eth_f64 (tx_expected_profit_wei t)) else 0)
           in fclamp 0 1 (reject_rate * dec 35 2 + false_positive_rate * dec 30 2 + false_negative_rate * dec 20 2
                + fclamp 0 1 (1 - realized_capture) * dec 15 2))"

type_synonym toxicity_replay_key = "address \<times> address \<times> u8"

record replay_latency_trace =
  lt_decode_swap_us :: "u64 option"
  lt_context_signal_us :: "u64 option"
  lt_fast_preflight_us :: "u64 option"
  lt_adaptive_preflight_us :: "u64 option"
  lt_payload_build_us :: "u64 option"
  lt_ev_gate_us :: "u64 option"
  lt_quality_gate_us :: "u64 option"
  lt_adaptive_quote_us :: "u64 option"
  lt_total_internal_us :: "u64 option"

definition empty_trace :: replay_latency_trace where
  "empty_trace = \<lparr>lt_decode_swap_us = None, lt_context_signal_us = None, lt_fast_preflight_us = None,
     lt_adaptive_preflight_us = None, lt_payload_build_us = None, lt_ev_gate_us = None, lt_quality_gate_us = None,
     lt_adaptive_quote_us = None, lt_total_internal_us = None\<rparr>"

type_synonym replay_latency_summary = "string \<rightharpoonup> u64 list"

definition latency_push :: "string \<Rightarrow> u64 option \<Rightarrow> replay_latency_summary \<Rightarrow> replay_latency_summary" where
  "latency_push stage us m =
     (case us of None \<Rightarrow> m | Some d \<Rightarrow> m(stage \<mapsto> (case m stage of Some xs \<Rightarrow> xs | None \<Rightarrow> []) @ [d]))"

definition latency_observe :: "replay_latency_trace \<Rightarrow> replay_latency_summary \<Rightarrow> replay_latency_summary" where
  "latency_observe tr m =
     latency_push ''total_internal'' (lt_total_internal_us tr) (latency_push ''adaptive_quote'' (lt_adaptive_quote_us tr)
     (latency_push ''quality_gate'' (lt_quality_gate_us tr) (latency_push ''ev_gate'' (lt_ev_gate_us tr)
     (latency_push ''payload_build'' (lt_payload_build_us tr) (latency_push ''adaptive_preflight'' (lt_adaptive_preflight_us tr)
     (latency_push ''fast_preflight'' (lt_fast_preflight_us tr) (latency_push ''context_signal'' (lt_context_signal_us tr)
     (latency_push ''decode_swap'' (lt_decode_swap_us tr) m))))))))"

record replay_report =
  rr_total :: nat
  rr_decoded :: nat
  rr_fast_preflight_pass :: nat
  rr_adaptive_preflight_pass :: nat
  rr_payload_built :: nat
  rr_ev_gate_pass :: nat
  rr_quality_gate_pass :: nat
  rr_adaptive_quote_pass :: nat
  rr_execute_candidates :: nat
  rr_true_positive :: nat
  rr_false_positive :: nat
  rr_true_negative :: nat
  rr_false_negative :: nat
  rr_fork_execution_attempts :: nat
  rr_fork_execution_success :: nat
  rr_fork_execution_reverts :: nat
  rr_fork_realized_profit_eth :: f64
  rr_estimated_gas_avoided_wei :: u256
  rr_expected_profit_wei :: u256
  rr_realized_profit_eth :: f64
  rr_reasons :: "string \<rightharpoonup> nat"
  rr_latency :: replay_latency_summary
  rr_toxicity :: "toxicity_replay_key \<rightharpoonup> toxicity_replay_stats"

definition empty_report :: replay_report where
  "empty_report = \<lparr>rr_total = 0, rr_decoded = 0, rr_fast_preflight_pass = 0, rr_adaptive_preflight_pass = 0,
     rr_payload_built = 0, rr_ev_gate_pass = 0, rr_quality_gate_pass = 0, rr_adaptive_quote_pass = 0,
     rr_execute_candidates = 0, rr_true_positive = 0, rr_false_positive = 0, rr_true_negative = 0,
     rr_false_negative = 0, rr_fork_execution_attempts = 0, rr_fork_execution_success = 0,
     rr_fork_execution_reverts = 0, rr_fork_realized_profit_eth = 0, rr_estimated_gas_avoided_wei = 0,
     rr_expected_profit_wei = 0, rr_realized_profit_eth = 0, rr_reasons = Map.empty, rr_latency = Map.empty,
     rr_toxicity = Map.empty\<rparr>"

definition bump :: "string \<Rightarrow> replay_report \<Rightarrow> replay_report" where
  "bump key r = r\<lparr>rr_reasons := (rr_reasons r)(key \<mapsto> (case rr_reasons r key of Some n \<Rightarrow> n | None \<Rightarrow> 0) + 1)\<rparr>"

definition bump_reason :: "string \<Rightarrow> string \<Rightarrow> replay_report \<Rightarrow> replay_report" where
  "bump_reason stage reason = bump (stage @ '':'' @ reason)"

definition observe_labeled_outcome :: "bool \<Rightarrow> replay_input_case \<Rightarrow> replay_report \<Rightarrow> replay_report" where
  "observe_labeled_outcome executed c r =
     (case (executed, case_profitable c) of
        (True, True) \<Rightarrow> r\<lparr>rr_true_positive := rr_true_positive r + 1\<rparr>
      | (True, False) \<Rightarrow> r\<lparr>rr_false_positive := rr_false_positive r + 1\<rparr>
      | (False, True) \<Rightarrow> r\<lparr>rr_false_negative := rr_false_negative r + 1\<rparr>
      | (False, False) \<Rightarrow> r\<lparr>rr_true_negative := rr_true_negative r + 1\<rparr>)"

definition observe_latency :: "replay_latency_trace \<Rightarrow> replay_report \<Rightarrow> replay_report" where
  "observe_latency tr r = r\<lparr>rr_latency := latency_observe tr (rr_latency r)\<rparr>"

definition observe_reject_gas :: "u256 \<Rightarrow> u64 \<Rightarrow> replay_report \<Rightarrow> replay_report" where
  "observe_reject_gas gas_price gas_limit r =
     r\<lparr>rr_estimated_gas_avoided_wei := sat_add (rr_estimated_gas_avoided_wei r) (sat_mul gas_price (ucast gas_limit))\<rparr>"

definition observe_expected_profit :: "u256 \<Rightarrow> replay_report \<Rightarrow> replay_report" where
  "observe_expected_profit w r = r\<lparr>rr_expected_profit_wei := sat_add (rr_expected_profit_wei r) w\<rparr>"

definition observe_realized :: "replay_input_case \<Rightarrow> replay_report \<Rightarrow> replay_report" where
  "observe_realized c r = r\<lparr>rr_realized_profit_eth := rr_realized_profit_eth r + case_realized c\<rparr>"

definition observe_toxicity ::
  "toxicity_replay_key \<Rightarrow> (toxicity_replay_stats \<Rightarrow> toxicity_replay_stats) \<Rightarrow> replay_report \<Rightarrow> replay_report" where
  "observe_toxicity key upd r =
     r\<lparr>rr_toxicity := (rr_toxicity r)(key \<mapsto> upd (case rr_toxicity r key of Some t \<Rightarrow> t | None \<Rightarrow> toxicity_default))\<rparr>"

text \<open>The fallback \<open>signal.path[0]\<close> is evaluated in any case, and panics on an empty path.\<close>

definition observe_toxicity_reject ::
  "swap_signal \<Rightarrow> u8 \<Rightarrow> replay_input_case \<Rightarrow> string \<Rightarrow> replay_report \<Rightarrow> panic + replay_report" where
  "observe_toxicity_reject s hour c stage r =
     (if sg_path s = [] then Inl IndexOutOfBounds
      else Inr (observe_toxicity (sg_router s, last (sg_path s), hour) (toxicity_observe False c None stage) r))"

definition observe_toxicity_execute ::
  "swap_signal \<Rightarrow> address \<Rightarrow> u8 \<Rightarrow> replay_input_case \<Rightarrow> u256 \<Rightarrow> replay_report \<Rightarrow> replay_report" where
  "observe_toxicity_execute s pair hour c expected r =
     observe_toxicity (sg_router s, pair, hour) (toxicity_observe True c (Some expected) ''execute'') r"

record replay_decision_row =
  dr_tx_hash :: string
  dr_stage :: string
  dr_decision :: string
  dr_reason :: string
  dr_expected_profit_eth :: f64
  dr_ev_real_usd :: f64
  dr_threshold_usd :: f64
  dr_total_latency_us :: u64

definition case_hash :: "replay_input_case \<Rightarrow> string" where
  "case_hash c = (case ri_tx_hash c of Some h \<Rightarrow> h | None \<Rightarrow> ''synthetic'')"

definition row_reject :: "replay_input_case \<Rightarrow> string \<Rightarrow> string \<Rightarrow> replay_decision_row" where
  "row_reject c stage reason =
     \<lparr>dr_tx_hash = case_hash c, dr_stage = stage, dr_decision = ''reject'', dr_reason = reason,
      dr_expected_profit_eth = 0, dr_ev_real_usd = 0, dr_threshold_usd = 0, dr_total_latency_us = 0\<rparr>"

definition row_execute :: "replay_input_case \<Rightarrow> u256 \<Rightarrow> adaptive_quote \<Rightarrow> u64 \<Rightarrow> replay_decision_row" where
  "row_execute c expected q us =
     \<lparr>dr_tx_hash = case_hash c, dr_stage = ''adaptive'', dr_decision = ''execute'', dr_reason = ''passed'',
      dr_expected_profit_eth = wei_to_eth_f64 expected, dr_ev_real_usd = aq_ev_real_usd q,
      dr_threshold_usd = aq_threshold_dynamic_usd q, dr_total_latency_us = us\<rparr>"

section \<open>Tuning\<close>

definition tuned_context_signal :: "context_signal \<Rightarrow> replay_tuning \<Rightarrow> context_signal" where
  "tuned_context_signal base t =
     \<lparr>cs_priority_score = fclamp 0 1 (cs_priority_score base + rt_priority_shift t),
      cs_toxicity_score = fclamp 0 1 (cs_toxicity_score base + rt_toxicity_shift t),
      cs_samples = cs_samples base\<rparr>"

definition should_execute_with_tuning :: "adaptive_quote \<Rightarrow> replay_tuning \<Rightarrow> bool" where
  "should_execute_with_tuning q t =
     (let threshold_pass = aq_threshold_dynamic_usd q * fmax (rt_threshold_multiplier t) (dec 1 2) < aq_ev_real_usd q
      in if aq_should_execute q then threshold_pass
         else aq_reject_reason q = Some ''ev_real_below_threshold'' \<and> threshold_pass)"

definition env_f64_grid :: "environment \<Rightarrow> string \<Rightarrow> f64 list \<Rightarrow> f64 list" where
  "env_f64_grid env name defaults =
     (case env name of None \<Rightarrow> defaults
      | Some v \<Rightarrow> (let xs = List.map_filter (\<lambda>item. parse_f64 (trim item)) (split_on (CHR '','') v)
                   in if xs = [] then defaults else xs))"

definition env_u64_grid :: "environment \<Rightarrow> string \<Rightarrow> u64 list \<Rightarrow> u64 list" where
  "env_u64_grid env name defaults =
     (case env name of None \<Rightarrow> defaults
      | Some v \<Rightarrow> (let xs = List.map_filter (\<lambda>item. parse_u64 (trim item)) (split_on (CHR '','') v)
                   in if xs = [] then defaults else xs))"

definition replay_tuning_grid :: "environment \<Rightarrow> replay_tuning list" where
  "replay_tuning_grid env =
     (let multipliers = env_f64_grid env ''REPLAY_TUNE_THRESHOLD_MULTIPLIERS'' [dec 90 2, dec 100 2, dec 110 2];
          priority = env_f64_grid env ''REPLAY_TUNE_PRIORITY_SHIFTS'' [- dec 5 2, 0, dec 5 2];
          toxicity = env_f64_grid env ''REPLAY_TUNE_TOXICITY_SHIFTS'' [- dec 5 2, 0, dec 5 2];
          gas = env_u64_grid env ''REPLAY_TUNE_GAS_EXTRA_BPS'' [0, 500, 1000, 2000];
          grid = concat (map (\<lambda>m. concat (map (\<lambda>p. concat (map (\<lambda>t. map (\<lambda>g.
              \<lparr>rt_threshold_multiplier = m, rt_priority_shift = p, rt_toxicity_shift = t, rt_gas_extra_bps = g\<rparr>)
              gas) toxicity)) priority)) multipliers)
      in if grid = [] then [default_tuning] else grid)"

section \<open>Execution on the fork\<close>

definition execute_payload_on_fork ::
  "replay_ext \<Rightarrow> config \<Rightarrow> fork_view \<Rightarrow> execution_payload \<Rightarrow> u256 \<Rightarrow> replay_error + fork_execution_outcome" where
  "execute_payload_on_fork ex cfg fv payload gas_price =
     and_then (ok_or ForkWallet (parse_wallet (ry_text ex) (executor_private_key cfg))) (\<lambda>from.
     and_then (map_sum ForkFailed id (fv_nonce fv)) (\<lambda>nonce.
     and_then (map_sum ForkFailed id (fv_raw_tx fv payload nonce gas_price)) (\<lambda>raw_tx.
     and_then (map_sum ForkFailed id (fv_pre_balance fv)) (\<lambda>pre_balance.
     and_then (map_sum ForkFailed id (fv_send fv raw_tx)) (\<lambda>tx_hash.
     and_then (map_sum ForkFailed id (fv_receipt fv)) (\<lambda>mined.
     and_then (ok_or (ForkNotMined tx_hash) mined) (\<lambda>rx.
     and_then (ok_or (ForkNoBlock tx_hash) (rx_block_number rx)) (\<lambda>block.
     and_then (map_sum ForkFailed id (fv_post_balance fv block)) (\<lambda>post_balance.
       let gas_used = (case rx_gas_used rx of Some g \<Rightarrow> g | None \<Rightarrow> 0);
           gas_paid_wei = sat_mul (case rx_effective_gas_price rx of Some g \<Rightarrow> g | None \<Rightarrow> gas_price) gas_used;
           delta = sat_sub post_balance pre_balance;
           gross_eth = (case find (\<lambda>t. mt_address t = pl_profit_token payload) (monitored_tokens cfg) of
               Some token_meta \<Rightarrow> of_uw delta / fpowi (dec 10 0) (uint (mt_decimals token_meta)) * mt_price_eth token_meta
             | None \<Rightarrow> wei_to_eth_f64 delta)
       in and_then (map_sum ReplayPanic id (as_u64 gas_used)) (\<lambda>used.
            Inr \<lparr>fo_tx_hash = tx_hash, fo_success = (rx_status rx = Some 1), fo_gas_used = used,
                 fo_realized_profit_eth = gross_eth - wei_to_eth_f64 gas_paid_wei\<rparr>))))))))))"

section \<open>One case\<close>

record replay_state =
  rs_report :: replay_report
  rs_rows :: "replay_decision_row list"
  rs_adaptive :: "adaptive_policy lock"
  rs_cache :: pool_cache

text \<open>What the stages of a case share.\<close>

record replay_ctx =
  rk_index :: nat
  rk_case :: replay_input_case
  rk_signal :: swap_signal
  rk_hour :: u8
  rk_context :: context_signal
  rk_gas_price :: u256
  rk_cluster :: cluster_key
  rk_lookup_latency_ms :: f64

definition upd_report :: "(replay_report \<Rightarrow> replay_report) \<Rightarrow> replay_state \<Rightarrow> replay_state" where
  "upd_report f st = st\<lparr>rs_report := f (rs_report st)\<rparr>"

definition finish_trace :: "replay_ext \<Rightarrow> nat \<Rightarrow> replay_latency_trace \<Rightarrow> replay_latency_trace" where
  "finish_trace ex i tr = tr\<lparr>lt_total_internal_us := Some (ry_elapsed ex i ''total_internal'')\<rparr>"

text \<open>The end of a case that is dropped without a label: only the reason and the latency are recorded.\<close>

definition replay_drop :: "replay_ext \<Rightarrow> nat \<Rightarrow> string \<Rightarrow> replay_latency_trace \<Rightarrow> replay_state \<Rightarrow> replay_state" where
  "replay_drop ex i key tr st = upd_report (\<lambda>r. observe_latency (finish_trace ex i tr) (bump key r)) st"

text \<open>The end of a case that a gate rejects.\<close>

definition replay_reject ::
  "replay_ext \<Rightarrow> replay_ctx \<Rightarrow> u64 \<Rightarrow> string \<Rightarrow> string \<Rightarrow> string \<Rightarrow> replay_latency_trace \<Rightarrow> replay_state
    \<Rightarrow> replay_error + replay_state" where
  "replay_reject ex k gas_limit key stage reason tr st =
     and_then (map_sum ReplayPanic id (observe_toxicity_reject (rk_signal k) (rk_hour k) (rk_case k) stage
         (bump key (observe_reject_gas (rk_gas_price k) gas_limit
           (observe_labeled_outcome False (rk_case k) (rs_report st)))))) (\<lambda>r.
       Inr (st\<lparr>rs_report := observe_latency (finish_trace ex (rk_index k) tr) r,
               rs_rows := rs_rows st @ [row_reject (rk_case k) stage reason]\<rparr>))"

definition fork_bookkeeping ::
  "bool \<Rightarrow> replay_error + fork_execution_outcome \<Rightarrow> replay_report \<Rightarrow> replay_error + replay_report" where
  "fork_bookkeeping hard_fail outcome r =
     (case outcome of
        Inr fo \<Rightarrow>
          if \<not> fo_success fo \<and> hard_fail then Inl (ForkReverted (fo_tx_hash fo))
          else (let r1 = (if fo_success fo then r\<lparr>rr_fork_execution_success := rr_fork_execution_success r + 1\<rparr>
                          else r\<lparr>rr_fork_execution_reverts := rr_fork_execution_reverts r + 1\<rparr>)
                in Inr (r1\<lparr>rr_fork_realized_profit_eth := rr_fork_realized_profit_eth r1 + fo_realized_profit_eth fo\<rparr>))
      | Inl (ReplayPanic p) \<Rightarrow> Inl (ReplayPanic p)
      | Inl err \<Rightarrow>
          if hard_fail then Inl err else Inr (r\<lparr>rr_fork_execution_reverts := rr_fork_execution_reverts r + 1\<rparr>))"

definition replay_fork ::
  "replay_ext \<Rightarrow> config \<Rightarrow> replay_ctx \<Rightarrow> execution_payload \<Rightarrow> u256 \<Rightarrow> replay_report \<Rightarrow> replay_error + replay_report" where
  "replay_fork ex cfg k payload gas_price r =
     (if \<not> env_flag (ry_environment ex) ''REPLAY_EXECUTE_ON_FORK'' then Inr r
      else fork_bookkeeping (env_flag (ry_environment ex) ''REPLAY_FORK_HARD_FAIL'')
             (execute_payload_on_fork ex cfg (ry_fork ex (rk_index k)) payload gas_price)
             (r\<lparr>rr_fork_execution_attempts := rr_fork_execution_attempts r + 1\<rparr>))"

definition replay_execute ::
  "replay_ext \<Rightarrow> config \<Rightarrow> replay_ctx \<Rightarrow> execution_payload \<Rightarrow> u256 \<Rightarrow> adaptive_quote \<Rightarrow> replay_latency_trace \<Rightarrow> replay_state
    \<Rightarrow> replay_error + replay_state" where
  "replay_execute ex cfg k payload gas_price q tr st =
     (let r0 = rs_report st;
          r1 = r0\<lparr>rr_execute_candidates := rr_execute_candidates r0 + 1,
                  rr_adaptive_quote_pass := rr_adaptive_quote_pass r0 + 1\<rparr>;
          us = ry_elapsed ex (rk_index k) ''total_internal''
      in and_then (replay_fork ex cfg k payload gas_price r1) (\<lambda>r2.
           Inr (st\<lparr>rs_report := observe_latency (finish_trace ex (rk_index k) tr)
                     (observe_toxicity_execute (rk_signal k) (pl_pair payload) (rk_hour k) (rk_case k)
                       (pl_expected_profit_wei payload)
                       (observe_realized (rk_case k) (observe_labeled_outcome True (rk_case k) r2))),
                   rs_rows := rs_rows st @ [row_execute (rk_case k) (pl_expected_profit_wei payload) q us]\<rparr>)))"

text \<open>In a release build \<open>10_000u64 + gas_extra_bps\<close> wraps.\<close>

definition gas_price_for_tuning :: "replay_tuning \<Rightarrow> u256 \<Rightarrow> u256" where
  "gas_price_for_tuning t gas_price = sat_mul gas_price (ucast (10000 + rt_gas_extra_bps t)) div 10000"

definition replay_execution_cost :: "config \<Rightarrow> execution_payload \<Rightarrow> u256 \<Rightarrow> u256" where
  "replay_execution_cost cfg payload gas_price =
     sat_mul (sat_mul gas_price (ucast (pl_gas_limit payload))) (ucast (gas_safety_margin_bps (mev cfg))) div 10000"

definition replay_relay_paths :: "config \<Rightarrow> string list" where
  "replay_relay_paths cfg = (if builder_relays cfg = [] then [''rpc://'' @ cfg_network cfg] else builder_relays cfg)"

definition replay_quote ::
  "replay_ext \<Rightarrow> config \<Rightarrow> replay_tuning \<Rightarrow> replay_ctx \<Rightarrow> execution_payload \<Rightarrow> u256 \<Rightarrow> replay_latency_trace \<Rightarrow> replay_state
    \<Rightarrow> replay_error + replay_state" where
  "replay_quote ex cfg t k payload cost tr st =
     (case rs_adaptive st of
        Poisoned _ \<Rightarrow> Inr (replay_drop ex (rk_index k) ''adaptive_lock_error'' tr st)
      | Healthy model \<Rightarrow>
          (case quote_for_relays (px_libm (ry_px ex)) (ry_quote_clock ex (rk_index k)) model
                  \<lparr>qi_cluster = rk_cluster k, qi_pair = pl_pair payload, qi_hour_utc = rk_hour k,
                   qi_context_priority_score = cs_priority_score (rk_context k),
                   qi_context_toxicity_score = cs_toxicity_score (rk_context k),
                   qi_expected_profit_wei = pl_expected_profit_wei payload, qi_execution_cost_wei = cost,
                   qi_gas_price_wei = gas_price_for_tuning t (rk_gas_price k),
                   qi_lookup_latency_ms = rk_lookup_latency_ms k,
                   qi_notional_eth = wei_to_eth_f64 (sg_notional_wei (rk_signal k)),
                   qi_price_impact_bps = pl_price_impact_bps payload, qi_relay_pressure_override = None\<rparr>
                  (replay_relay_paths cfg) of
             (model', q) \<Rightarrow>
               (let st1 = st\<lparr>rs_adaptive := Healthy model'\<rparr>;
                    tr1 = tr\<lparr>lt_adaptive_quote_us := Some (ry_elapsed ex (rk_index k) ''adaptive_quote'')\<rparr>;
                    reason = (case aq_reject_reason q of Some r \<Rightarrow> r | None \<Rightarrow> ''reject'')
                in if \<not> should_execute_with_tuning q t
                   then replay_reject ex k (pl_gas_limit payload) (''adaptive:'' @ reason) ''adaptive'' reason tr1 st1
                   else replay_execute ex cfg k payload (gas_price_for_tuning t (rk_gas_price k)) q tr1 st1)))"

definition replay_gates ::
  "replay_ext \<Rightarrow> config \<Rightarrow> u256 \<Rightarrow> replay_tuning \<Rightarrow> replay_ctx \<Rightarrow> execution_payload \<Rightarrow> replay_latency_trace \<Rightarrow> replay_state
    \<Rightarrow> replay_error + replay_state" where
  "replay_gates ex cfg min_profit_wei t k payload tr st =
     (let tr1 = tr\<lparr>lt_ev_gate_us := Some (ry_elapsed ex (rk_index k) ''ev_gate'')\<rparr>;
          latency = nanos_of_millis (uint (f_as_word (rk_lookup_latency_ms k) :: u64))
      in if \<not> passes_ev_gate (ry_env ex) cfg payload (rk_signal k) latency min_profit_wei
         then replay_reject ex k (pl_gas_limit payload) ''ev_gate_reject'' ''ev_gate'' ''ev_gate_reject'' tr1 st
         else let st1 = upd_report (\<lambda>r. r\<lparr>rr_ev_gate_pass := rr_ev_gate_pass r + 1\<rparr>) st;
                  cost = replay_execution_cost cfg payload (gas_price_for_tuning t (rk_gas_price k));
                  tr2 = tr1\<lparr>lt_quality_gate_us := Some (ry_elapsed ex (rk_index k) ''quality_gate'')\<rparr>
              in if \<not> passes_quality_gate cfg payload cost
                 then replay_reject ex k (pl_gas_limit payload) ''quality_gate_reject'' ''quality_gate'' ''quality_gate_reject'' tr2 st1
                 else replay_quote ex cfg t k payload cost tr2
                        (upd_report (\<lambda>r. r\<lparr>rr_quality_gate_pass := rr_quality_gate_pass r + 1\<rparr>) st1))"

text \<open>A panic of the builder is one of the harness; any other failure rejects the case.\<close>

fun build_panic :: "build_failure \<Rightarrow> panic option" where
  "build_panic (BuilderFailed (BuildPanic p)) = Some p"
| "build_panic _ = None"

definition replay_build ::
  "replay_ext \<Rightarrow> config \<Rightarrow> u64 \<Rightarrow> u256 \<Rightarrow> replay_tuning \<Rightarrow> replay_ctx \<Rightarrow> replay_latency_trace \<Rightarrow> replay_state
    \<Rightarrow> replay_error + replay_state" where
  "replay_build ex cfg block min_profit_wei t k tr st =
     (case build_payload (ry_px ex) (ry_env ex) (ry_view ex) cfg (rk_signal k) (rk_gas_price k) (rk_context k)
             (rs_cache st) (ry_now ex (rk_index k)) block of
        (cache, built) \<Rightarrow>
          (let st1 = st\<lparr>rs_cache := cache\<rparr>;
               tr1 = tr\<lparr>lt_payload_build_us := Some (ry_elapsed ex (rk_index k) ''payload_build'')\<rparr>
           in case built of
                Inr payload \<Rightarrow>
                  replay_gates ex cfg min_profit_wei t k payload tr1
                    (upd_report (\<lambda>r. observe_expected_profit (pl_expected_profit_wei payload)
                       (r\<lparr>rr_payload_built := rr_payload_built r + 1\<rparr>)) st1)
              | Inl failure \<Rightarrow>
                  (case build_panic failure of
                     Some p \<Rightarrow> Inl (ReplayPanic p)
                   | None \<Rightarrow> replay_reject ex k (estimated_exec_gas cfg) ''payload_build_reject'' ''payload''
                               ''payload_build_reject'' tr1 st1)))"

definition replay_preflight ::
  "replay_ext \<Rightarrow> config \<Rightarrow> u64 \<Rightarrow> u256 \<Rightarrow> replay_tuning \<Rightarrow> replay_ctx \<Rightarrow> replay_latency_trace \<Rightarrow> replay_state
    \<Rightarrow> replay_error + replay_state" where
  "replay_preflight ex cfg block min_profit_wei t k tr st =
     (case rs_adaptive st of
        Poisoned _ \<Rightarrow> Inr (replay_drop ex (rk_index k) ''adaptive_lock_error'' tr st)
      | Healthy model \<Rightarrow>
          (case preflight_score (px_libm (ry_px ex))
                  (observe_candidate_flow (observe_lookup_latency model (rk_lookup_latency_ms k)) (ry_now ex (rk_index k))
                     (rk_cluster k) (sg_notional_wei (rk_signal k)) (rk_gas_price k)) (ry_now ex (rk_index k))
                  \<lparr>pi_cluster = rk_cluster k, pi_notional_eth = wei_to_eth_f64 (sg_notional_wei (rk_signal k)),
                   pi_gas_price_wei = rk_gas_price k, pi_path_len = int (path_len (rk_signal k))\<rparr> of
             (model', q) \<Rightarrow>
               (let st1 = st\<lparr>rs_adaptive := Healthy model'\<rparr>;
                    tr1 = tr\<lparr>lt_adaptive_preflight_us := Some (ry_elapsed ex (rk_index k) ''adaptive_preflight'')\<rparr>;
                    reason = (case pq_reject_reason q of Some r \<Rightarrow> r | None \<Rightarrow> ''reject'')
                in if \<not> pq_should_continue q
                   then replay_reject ex k (estimated_exec_gas cfg) (''preflight:'' @ reason) ''preflight'' reason tr1 st1
                   else replay_build ex cfg block min_profit_wei t k tr1
                          (upd_report (\<lambda>r. r\<lparr>rr_adaptive_preflight_pass := rr_adaptive_preflight_pass r + 1\<rparr>) st1))))"

text \<open>A decoded case. The cluster is only formed, and its index only panics, after the first gate.\<close>

definition replay_decoded ::
  "replay_ext \<Rightarrow> config \<Rightarrow> u64 \<Rightarrow> u256 \<Rightarrow> u256 \<Rightarrow> replay_tuning \<Rightarrow> nat \<Rightarrow> replay_input_case \<Rightarrow> pending_transaction
    \<Rightarrow> swap_signal \<Rightarrow> replay_state \<Rightarrow> replay_error + replay_state" where
  "replay_decoded ex cfg block min_swap min_profit t i c tx s st =
     (let hour = (case ri_hour_utc c of Some h \<Rightarrow> h | None \<Rightarrow> ry_hour ex i);
          base = (case read_lock (rs_adaptive st) of
                    Some model \<Rightarrow> context_signal_for model (sg_router s) hour | None \<Rightarrow> neutral_context);
          ctx = tuned_context_signal base t;
          tr = empty_trace\<lparr>lt_decode_swap_us := Some (ry_elapsed ex i ''decode_swap''),
                           lt_context_signal_us := Some (ry_elapsed ex i ''context_signal'')\<rparr>;
          gas_price = victim_gas_price tx;
          st1 = upd_report (\<lambda>r. r\<lparr>rr_decoded := rr_decoded r + 1\<rparr>) st
      in if gas_price = 0 then Inr (replay_drop ex i ''missing_gas'' tr st1)
         else let gate = fast_preflight_gate s gas_price min_swap cfg ctx;
                  tr1 = tr\<lparr>lt_fast_preflight_us := Some (ry_elapsed ex i ''fast_preflight'')\<rparr>;
                  k = \<lparr>rk_index = i, rk_case = c, rk_signal = s, rk_hour = hour, rk_context = ctx, rk_gas_price = gas_price,
                       rk_cluster = \<lparr>ck_router = sg_router s, ck_token_in = hd (sg_path s), ck_token_out = last (sg_path s),
                                     ck_selector = sg_selector s\<rparr>,
                       rk_lookup_latency_ms = (case ri_lookup_latency_ms c of Some ms \<Rightarrow> ms | None \<Rightarrow> dec 75 0)\<rparr>;
                  reason = (case fp_reject_reason gate of Some r \<Rightarrow> r | None \<Rightarrow> ''reject'')
              in if \<not> fp_should_continue gate
                 then replay_reject ex k (estimated_exec_gas cfg) (''fast_preflight:'' @ reason) ''fast_preflight'' reason tr1 st1
                 else if sg_path s = [] then Inl (ReplayPanic IndexOutOfBounds)
                 else replay_preflight ex cfg block min_profit t k tr1
                        (upd_report (\<lambda>r. r\<lparr>rr_fast_preflight_pass := rr_fast_preflight_pass r + 1\<rparr>) st1))"

definition replay_case ::
  "replay_ext \<Rightarrow> config \<Rightarrow> u64 \<Rightarrow> u256 \<Rightarrow> u256 \<Rightarrow> replay_tuning \<Rightarrow> nat \<Rightarrow> replay_input_case \<Rightarrow> replay_state
    \<Rightarrow> replay_error + replay_state" where
  "replay_case ex cfg block min_swap min_profit t i c st =
     (let st1 = upd_report (\<lambda>r. r\<lparr>rr_total := rr_total r + 1\<rparr>) st in
      and_then (replay_transaction ex c (of_nat i)) (\<lambda>tx.
        case decode_relevant_swap (ry_avx2 ex) (ry_abi ex) (ry_env ex) tx (monitored_tokens cfg) min_swap
               (opportunity_mode (mev cfg)) of
          Inl p \<Rightarrow> Inl (ReplayPanic p)
        | Inr None \<Rightarrow> Inr (replay_drop ex i ''decode_reject'' empty_trace st1)
        | Inr (Some s) \<Rightarrow> replay_decoded ex cfg block min_swap min_profit t i c tx s st1))"

fun replay_cases ::
  "replay_ext \<Rightarrow> config \<Rightarrow> u64 \<Rightarrow> u256 \<Rightarrow> u256 \<Rightarrow> replay_tuning \<Rightarrow> nat \<Rightarrow> replay_input_case list \<Rightarrow> replay_state
    \<Rightarrow> replay_error + replay_state" where
  "replay_cases ex cfg block min_swap min_profit t i [] st = Inr st"
| "replay_cases ex cfg block min_swap min_profit t i (c # cs) st =
     and_then (replay_case ex cfg block min_swap min_profit t i c st)
       (replay_cases ex cfg block min_swap min_profit t (Suc i) cs)"

section \<open>Runs and the tuning\<close>

record replay_run_output =
  ro_report :: replay_report
  ro_rows :: "replay_decision_row list"

text \<open>Every run starts with a new policy; the pool cache outlives it.\<close>

definition run_replay_cases ::
  "replay_ext \<Rightarrow> config \<Rightarrow> u64 \<Rightarrow> replay_input_case list \<Rightarrow> historical_outcome_profile list \<Rightarrow> u256 \<Rightarrow> u256 \<Rightarrow> replay_tuning
    \<Rightarrow> pool_cache \<Rightarrow> replay_error + replay_run_output \<times> pool_cache" where
  "run_replay_cases ex cfg block cs profiles min_swap min_profit t cache =
     and_then (replay_cases ex cfg block min_swap min_profit t 0 cs
         \<lparr>rs_report = empty_report, rs_rows = [],
          rs_adaptive = Healthy (apply_historical_profiles (adaptive_policy_new cfg) profiles), rs_cache = cache\<rparr>) (\<lambda>st.
       Inr (\<lparr>ro_report = rs_report st, ro_rows = rs_rows st\<rparr>, rs_cache st))"

record replay_tuning_result =
  tr_tuning :: replay_tuning
  tr_objective_score :: f64
  tr_realized_profit_eth :: f64
  tr_execute_candidates :: nat
  tr_false_positive :: nat
  tr_false_negative :: nat
  tr_capture_ratio :: f64

definition tuning_from_report :: "replay_tuning \<Rightarrow> replay_report \<Rightarrow> replay_tuning_result" where
  "tuning_from_report t r =
     \<lparr>tr_tuning = t,
      tr_objective_score = rr_realized_profit_eth r - of_count (rr_false_positive r) * dec 25 4
        - of_count (rr_false_negative r) * dec 15 4 - of_count (rr_execute_candidates r) * dec 2 4
        - of_uw (rt_gas_extra_bps t) * dec 15 7,
      tr_realized_profit_eth = rr_realized_profit_eth r, tr_execute_candidates = rr_execute_candidates r,
      tr_false_positive = rr_false_positive r, tr_false_negative = rr_false_negative r,
      tr_capture_ratio = (if rr_expected_profit_wei r = 0 then 0
        else rr_realized_profit_eth r / fmax (wei_to_eth_f64 (rr_expected_profit_wei r)) (dec 1 12))\<rparr>"

type_synonym best_run = "(replay_tuning_result \<times> replay_run_output) option"

definition better_run :: "replay_tuning_result \<Rightarrow> replay_run_output \<Rightarrow> best_run \<Rightarrow> best_run" where
  "better_run candidate run best =
     (case best of None \<Rightarrow> Some (candidate, run)
      | Some (b, _) \<Rightarrow> if tr_objective_score b < tr_objective_score candidate then Some (candidate, run) else best)"

fun tune_runs ::
  "(replay_tuning \<Rightarrow> pool_cache \<Rightarrow> replay_error + replay_run_output \<times> pool_cache) \<Rightarrow> replay_tuning list \<Rightarrow> pool_cache
    \<Rightarrow> best_run \<Rightarrow> replay_tuning_result list \<Rightarrow> replay_error + best_run \<times> replay_tuning_result list" where
  "tune_runs run [] cache best candidates = Inr (best, candidates)"
| "tune_runs run (t # ts) cache best candidates =
     and_then (run t cache) (\<lambda>(out, cache1).
       let candidate = tuning_from_report t (ro_report out)
       in tune_runs run ts cache1 (better_run candidate out best) (candidates @ [candidate]))"

text \<open>A number printed with two places: the nearest, ties to even, with the sign of the value.\<close>

fun show_fixed2 :: "f64 \<Rightarrow> string" where
  "show_fixed2 NaN = ''NaN''"
| "show_fixed2 (Infty s) = (if s then ''-inf'' else ''inf'')"
| "show_fixed2 (Fin s m e) =
     (let n = (if 0 \<le> e then \<bar>m\<bar> * 2 ^ nat e * 100 else rne (\<bar>m\<bar> * 100) (2 ^ nat (- e)));
          hundredths = n mod 100
      in (if s then ''-'' else []) @ dec_str (n div 100) @ ''.'' @ dec_str (hundredths div 10) @ dec_str (hundredths mod 10))"

text \<open>The entries of the map in the order of their keys.\<close>

definition recommended_env :: "replay_tuning_result \<Rightarrow> (string \<times> string) list" where
  "recommended_env best =
     [(''REPLAY_TUNE_GAS_EXTRA_BPS'', dec_str (uint (rt_gas_extra_bps (tr_tuning best)))),
      (''REPLAY_TUNE_PRIORITY_SHIFTS'', show_fixed2 (rt_priority_shift (tr_tuning best))),
      (''REPLAY_TUNE_THRESHOLD_MULTIPLIERS'', show_fixed2 (rt_threshold_multiplier (tr_tuning best))),
      (''REPLAY_TUNE_TOXICITY_SHIFTS'', show_fixed2 (rt_toxicity_shift (tr_tuning best)))]"

definition env_file_text :: "(string \<times> string) list \<Rightarrow> string" where
  "env_file_text entries = concat (map (\<lambda>(key, value). key @ ''='' @ value @ [CHR 0x0A]) entries)"

definition auto_apply_env_path :: "environment \<Rightarrow> string option" where
  "auto_apply_env_path env = trimmed_var (\<lambda>v. v \<noteq> []) env ''REPLAY_AUTO_TUNE_APPLY_PATH''"

text \<open>\<open>exports\<close> is the directory \<open>ensure_exports_dir\<close> gives; the result is the file that is written.\<close>

definition maybe_apply_recommended_env ::
  "environment \<Rightarrow> string \<Rightarrow> (string \<times> string) list \<Rightarrow> (string \<times> string) option" where
  "maybe_apply_recommended_env env exports entries =
     (if \<not> env_flag env ''REPLAY_AUTO_TUNE_APPLY'' then None
      else Some (case auto_apply_env_path env of Some p \<Rightarrow> p | None \<Rightarrow> exports @ ''/replay_auto_tune.env'', env_file_text entries))"

text \<open>The readers of one JSON value stand for \<open>serde_json\<close>.\<close>

definition take_nonblank :: "nat \<Rightarrow> string \<Rightarrow> string list" where
  "take_nonblank limit raw = take limit (filter (\<lambda>l. trim l \<noteq> []) (str_lines raw))"

fun parse_lines :: "(string \<Rightarrow> replay_input_case option) \<Rightarrow> string list \<Rightarrow> replay_error + replay_input_case list" where
  "parse_lines parse [] = Inr []"
| "parse_lines parse (l # ls) =
     and_then (ok_or ReplayJson (parse l)) (\<lambda>c. and_then (parse_lines parse ls) (\<lambda>cs. Inr (c # cs)))"

definition load_replay_cases ::
  "(string \<Rightarrow> replay_input_case list option) \<Rightarrow> (string \<Rightarrow> replay_input_case option) \<Rightarrow> file_system \<Rightarrow> string \<Rightarrow> nat
    \<Rightarrow> replay_error + replay_input_case list" where
  "load_replay_cases parse_array parse_line fs path limit =
     (case fs path of
        Some (TextFile raw) \<Rightarrow>
          if starts_with ''['' (dropWhile is_ws raw)
          then and_then (ok_or ReplayJson (parse_array raw)) (\<lambda>items. Inr (take limit items))
          else parse_lines parse_line (take_nonblank limit raw)
      | _ \<Rightarrow> Inl ReplayIo)"

definition replay_env_usize :: "environment \<Rightarrow> string \<Rightarrow> int \<Rightarrow> int" where
  "replay_env_usize env name d =
     (case Option.bind (env name) (\<lambda>v. parse_usize (trim v)) of Some n \<Rightarrow> n | None \<Rightarrow> d)"

text \<open>The tuned run, or the run with the default tuning; with the file to write, when one is.\<close>

definition replay_select ::
  "replay_ext \<Rightarrow> config \<Rightarrow> u64 \<Rightarrow> replay_input_case list \<Rightarrow> historical_outcome_profile list \<Rightarrow> u256 \<Rightarrow> u256 \<Rightarrow> string
    \<Rightarrow> replay_error + replay_run_output \<times> (string \<times> string) option" where
  "replay_select ex cfg block cs profiles min_swap min_profit exports =
     (let run = run_replay_cases ex cfg block cs profiles min_swap min_profit;
          cache = pool_cache_new (pool_state_cache_ttl_ms (mev cfg)); env = ry_environment ex
      in if env_flag env ''REPLAY_AUTO_TUNE''
         then and_then (tune_runs run (replay_tuning_grid env) cache None []) (\<lambda>(best_run, candidates).
                and_then (ok_or NoCandidates best_run) (\<lambda>(best, out).
                  Inr (out, maybe_apply_recommended_env env exports (recommended_env best))))
         else and_then (run default_tuning cache) (\<lambda>(out, _). Inr (out, None)))"

text \<open>
  The whole harness: \<open>None\<close> when it is not asked for. \<open>block\<close> and \<open>remote_chain\<close> are the answers of the
  fork, \<open>profiles\<close> that of the store.
\<close>

definition maybe_run_replay_harness ::
  "replay_ext \<Rightarrow> (string \<Rightarrow> replay_input_case list option) \<Rightarrow> (string \<Rightarrow> replay_input_case option) \<Rightarrow> file_system
    \<Rightarrow> config \<Rightarrow> u64 \<Rightarrow> u64 \<Rightarrow> historical_outcome_profile list \<Rightarrow> string
    \<Rightarrow> replay_error + (replay_run_output \<times> (string \<times> string) option) option" where
  "maybe_run_replay_harness ex parse_array parse_line fs cfg block remote_chain profiles exports =
     (let env = ry_environment ex in
      if \<not> env_flag env ''RUN_REPLAY_HARNESS'' then Inr None
      else
        and_then (ok_or (NoForkUrl (cfg_network cfg)) (fork_rpc_url env cfg)) (\<lambda>_.
        and_then (ok_or NoInputPath (env ''REPLAY_INPUT_PATH'')) (\<lambda>path.
        if remote_chain \<noteq> chain_id cfg then Inl (ChainMismatch (chain_id cfg) remote_chain)
        else
        and_then (map_sum (\<lambda>_. NotEther) id (rv_parse_ether_shown (ry_env ex) (min_large_swap_eth (mev cfg)))) (\<lambda>min_swap.
        and_then (map_sum (\<lambda>_. NotEther) id (rv_parse_ether_shown (ry_env ex) (min_net_profit_eth (mev cfg)))) (\<lambda>min_profit.
        and_then (load_replay_cases parse_array parse_line fs path (nat (max 1 (replay_env_usize env ''REPLAY_LIMIT'' 500)))) (\<lambda>cs.
        and_then (replay_select ex cfg block cs profiles min_swap min_profit exports) (\<lambda>result. Inr (Some result))))))))"

section \<open>Latency figures\<close>

definition percentile_us :: "u64 list \<Rightarrow> f64 \<Rightarrow> u64" where
  "percentile_us xs p =
     (if xs = [] then 0
      else let i = unat (f_as_word (fround_away (of_count (length xs - 1) * p)) :: u64)
           in xs ! min i (length xs - 1))"

record latency_snapshot_us =
  ls_samples :: nat
  ls_avg_us :: u64
  ls_p50_us :: u64
  ls_p95_us :: u64
  ls_max_us :: u64

definition latency_snapshot :: "u64 list \<Rightarrow> latency_snapshot_us" where
  "latency_snapshot samples =
     (let ordered = sort samples in
      \<lparr>ls_samples = length samples,
       ls_avg_us = word_of_int (sum_list (map uint ordered) div int (max 1 (length ordered))),
       ls_p50_us = percentile_us ordered (dec 50 2), ls_p95_us = percentile_us ordered (dec 95 2),
       ls_max_us = (if ordered = [] then 0 else last ordered)\<rparr>)"

definition percent :: "nat \<Rightarrow> nat \<Rightarrow> f64" where
  "percent numerator denominator =
     (if denominator = 0 then 0 else of_count numerator * dec 100 0 / of_count denominator)"

end
