(* ===== verification/ReplaySafety.thy ===== *)
theory ReplaySafety
  imports Replay NeverReady AdaptiveSafety
begin

text \<open>
  The replay harness: its report accounts for every case, its toxicity score stays between zero and
  one, the tuner keeps a best candidate, and outside scavenger mode no tuning can change a decision,
  because no payload is ever built.
\<close>

section \<open>Accounting\<close>

lemma and_then_cases:
  assumes "and_then r f = Inr y"
  obtains x where "r = Inr x" "f x = Inr y"
  using assms by (cases r) auto

definition reason_count :: "string \<Rightarrow> replay_report \<Rightarrow> nat" where
  "reason_count key r = (case rr_reasons r key of Some n \<Rightarrow> n | None \<Rightarrow> 0)"

definition drop_keys :: "string list" where
  "drop_keys = [''decode_reject'', ''missing_gas'', ''adaptive_lock_error'']"

definition dropped_cases :: "replay_report \<Rightarrow> nat" where
  "dropped_cases r = sum_list (map (\<lambda>key. reason_count key r) drop_keys)"

definition executed_rows :: "replay_decision_row list \<Rightarrow> nat" where
  "executed_rows rows = length (filter (\<lambda>row. dr_decision row = ''execute'') rows)"

text \<open>
  The counters of the stages, each at most the one before; inside a case that has reached stage \<open>j\<close> the
  next counter is still strictly below. \<open>n\<close> is the number of cases not yet accounted for,
  \<open>m\<close> the number of cases seen.
\<close>

definition slack :: "nat \<Rightarrow> nat \<Rightarrow> nat" where
  "slack j i = (if i = j then 1 else 0)"

definition funnel_ordered :: "nat \<Rightarrow> replay_report \<Rightarrow> bool" where
  "funnel_ordered j r \<longleftrightarrow>
     rr_decoded r + slack j 0 \<le> rr_total r \<and> rr_fast_preflight_pass r + slack j 1 \<le> rr_decoded r
     \<and> rr_adaptive_preflight_pass r + slack j 2 \<le> rr_fast_preflight_pass r
     \<and> rr_payload_built r + slack j 3 \<le> rr_adaptive_preflight_pass r
     \<and> rr_ev_gate_pass r + slack j 4 \<le> rr_payload_built r
     \<and> rr_quality_gate_pass r + slack j 5 \<le> rr_ev_gate_pass r
     \<and> rr_adaptive_quote_pass r + slack j 6 \<le> rr_quality_gate_pass r"

definition outcomes_agree :: "nat \<Rightarrow> nat \<Rightarrow> replay_report \<Rightarrow> replay_decision_row list \<Rightarrow> bool" where
  "outcomes_agree n m r rows \<longleftrightarrow>
     rr_execute_candidates r = rr_adaptive_quote_pass r
     \<and> rr_true_positive r + rr_false_positive r = rr_execute_candidates r
     \<and> executed_rows rows = rr_execute_candidates r
     \<and> length rows = rr_true_positive r + rr_false_positive r + rr_true_negative r + rr_false_negative r
     \<and> rr_fork_execution_attempts r = rr_fork_execution_success r + rr_fork_execution_reverts r
     \<and> rr_fork_execution_attempts r \<le> rr_execute_candidates r
     \<and> rr_total r = length rows + dropped_cases r + n \<and> rr_total r = m"

definition accounted :: "nat \<Rightarrow> nat \<Rightarrow> nat \<Rightarrow> replay_state \<Rightarrow> bool" where
  "accounted j n m st \<longleftrightarrow> funnel_ordered j (rs_report st) \<and> outcomes_agree n m (rs_report st) (rs_rows st)"

lemmas accounting_defs = accounted_def funnel_ordered_def outcomes_agree_def slack_def dropped_cases_def drop_keys_def
  reason_count_def executed_rows_def

lemmas report_ops = upd_report_def observe_labeled_outcome_def observe_latency_def observe_reject_gas_def
  observe_expected_profit_def observe_realized_def observe_toxicity_def observe_toxicity_execute_def bump_def

text \<open>The observations that touch no counter, and the one that touches the outcomes.\<close>

definition counts :: "replay_report \<Rightarrow> nat list" where
  "counts r = [rr_total r, rr_decoded r, rr_fast_preflight_pass r, rr_adaptive_preflight_pass r, rr_payload_built r,
     rr_ev_gate_pass r, rr_quality_gate_pass r, rr_adaptive_quote_pass r, rr_execute_candidates r,
     rr_true_positive r, rr_false_positive r, rr_true_negative r, rr_false_negative r,
     rr_fork_execution_attempts r, rr_fork_execution_success r, rr_fork_execution_reverts r]"

lemma observations_keep:
  "counts (observe_latency tr r) = counts r" "rr_reasons (observe_latency tr r) = rr_reasons r"
  "counts (observe_reject_gas gas_price gas_limit r) = counts r" "rr_reasons (observe_reject_gas gas_price gas_limit r) = rr_reasons r"
  "counts (observe_realized c r) = counts r" "rr_reasons (observe_realized c r) = rr_reasons r"
  "counts (observe_toxicity tkey upd r) = counts r" "rr_reasons (observe_toxicity tkey upd r) = rr_reasons r"
  "counts (bump key r) = counts r" "rr_reasons (observe_labeled_outcome executed c r) = rr_reasons r"
  by (simp_all add: counts_def report_ops split: bool.split)

lemma dropped_cong: "rr_reasons r = rr_reasons r' \<Longrightarrow> dropped_cases r = dropped_cases r'"
  by (simp add: dropped_cases_def reason_count_def)

lemma dropped_bump: "dropped_cases (bump key r) = dropped_cases r + of_bool (key \<in> set drop_keys)"
  by (auto simp: dropped_cases_def reason_count_def drop_keys_def bump_def)

lemma bump_cong: "rr_reasons r = rr_reasons r' \<Longrightarrow> rr_reasons (bump key r) = rr_reasons (bump key r')"
  by (simp add: bump_def)

lemma accounted_cong:
  assumes "counts r = counts r'" "dropped_cases r = dropped_cases r'"
  shows "funnel_ordered j r = funnel_ordered j r'" "outcomes_agree n m r rows = outcomes_agree n m r' rows"
  using assms by (simp_all add: counts_def funnel_ordered_def outcomes_agree_def)

lemma funnel_closed: "funnel_ordered j r \<Longrightarrow> funnel_ordered 9 r"
  by (auto simp: funnel_ordered_def slack_def)

lemma drop_accounted:
  assumes a: "accounted j 1 m st" and key: "key \<in> set drop_keys"
  shows "accounted 9 0 m (replay_drop ex i key tr st)"
proof -
  let ?r = "rs_report st" and ?r' = "rs_report (replay_drop ex i key tr st)"
  have c: "counts ?r' = counts ?r" by (simp add: replay_drop_def upd_report_def observations_keep)
  have d: "dropped_cases ?r' = dropped_cases ?r + 1"
    using dropped_cong [OF observations_keep(2)] key by (simp add: replay_drop_def upd_report_def dropped_bump)
  have "rs_rows (replay_drop ex i key tr st) = rs_rows st" by (simp add: replay_drop_def upd_report_def)
  with a c d show ?thesis
    by (auto simp: accounted_def counts_def funnel_ordered_def slack_def outcomes_agree_def split: if_splits)
qed

lemma labelled_counts:
  "rr_true_positive (observe_labeled_outcome executed c r) = rr_true_positive r + of_bool (executed \<and> case_profitable c)"
  "rr_false_positive (observe_labeled_outcome executed c r) = rr_false_positive r + of_bool (executed \<and> \<not> case_profitable c)"
  "rr_true_negative (observe_labeled_outcome executed c r) = rr_true_negative r + of_bool (\<not> executed \<and> \<not> case_profitable c)"
  "rr_false_negative (observe_labeled_outcome executed c r) = rr_false_negative r + of_bool (\<not> executed \<and> case_profitable c)"
  by (simp_all add: observe_labeled_outcome_def split: bool.split)

lemma counts_observed:
  assumes "counts r' = counts (observe_labeled_outcome executed c r)"
  shows "rr_total r' = rr_total r" "rr_adaptive_quote_pass r' = rr_adaptive_quote_pass r"
    "rr_execute_candidates r' = rr_execute_candidates r" "rr_fork_execution_attempts r' = rr_fork_execution_attempts r"
    "rr_fork_execution_success r' = rr_fork_execution_success r" "rr_fork_execution_reverts r' = rr_fork_execution_reverts r"
    "rr_true_positive r' = rr_true_positive r + of_bool (executed \<and> case_profitable c)"
    "rr_false_positive r' = rr_false_positive r + of_bool (executed \<and> \<not> case_profitable c)"
    "rr_true_negative r' = rr_true_negative r + of_bool (\<not> executed \<and> \<not> case_profitable c)"
    "rr_false_negative r' = rr_false_negative r + of_bool (\<not> executed \<and> case_profitable c)"
    "funnel_ordered j r' = funnel_ordered j r"
proof -
  have e: "counts r' = counts (observe_labeled_outcome executed c r)" by (rule assms)
  have "take 9 (counts (observe_labeled_outcome executed c r)) = take 9 (counts r)"
    "drop 13 (counts (observe_labeled_outcome executed c r)) = drop 13 (counts r)"
    by (simp_all add: counts_def observe_labeled_outcome_def split: bool.split)
  with e have t: "take 9 (counts r') = take 9 (counts r)" "drop 13 (counts r') = drop 13 (counts r)" by simp_all
  then show "rr_total r' = rr_total r" "rr_adaptive_quote_pass r' = rr_adaptive_quote_pass r"
    "rr_execute_candidates r' = rr_execute_candidates r" "rr_fork_execution_attempts r' = rr_fork_execution_attempts r"
    "rr_fork_execution_success r' = rr_fork_execution_success r" "rr_fork_execution_reverts r' = rr_fork_execution_reverts r"
    "funnel_ordered j r' = funnel_ordered j r"
    by (simp_all add: counts_def funnel_ordered_def)
  from e show "rr_true_positive r' = rr_true_positive r + of_bool (executed \<and> case_profitable c)"
    "rr_false_positive r' = rr_false_positive r + of_bool (executed \<and> \<not> case_profitable c)"
    "rr_true_negative r' = rr_true_negative r + of_bool (\<not> executed \<and> \<not> case_profitable c)"
    "rr_false_negative r' = rr_false_negative r + of_bool (\<not> executed \<and> case_profitable c)"
    unfolding labelled_counts [symmetric] by (simp_all add: counts_def)
qed

lemma reject_accounted:
  assumes r: "replay_reject ex k gas_limit key stage reason tr st = Inr st'" and a: "accounted j 1 m st"
    and key: "key \<notin> set drop_keys"
  shows "accounted 9 0 m st'"
proof -
  let ?r1 = "observe_labeled_outcome False (rk_case k) (rs_report st)"
  obtain tkey upd where st': "st' = st\<lparr>rs_report := observe_latency (finish_trace ex (rk_index k) tr)
      (observe_toxicity tkey upd (bump key (observe_reject_gas (rk_gas_price k) gas_limit ?r1))),
      rs_rows := rs_rows st @ [row_reject (rk_case k) stage reason]\<rparr>"
    using r by (auto simp: replay_reject_def observe_toxicity_reject_def and_then_eq_Inr split: if_splits)
  have c: "counts (rs_report st') = counts ?r1" and rows: "rs_rows st' = rs_rows st @ [row_reject (rk_case k) stage reason]"
    and reasons: "rr_reasons (rs_report st') = rr_reasons (bump key ?r1)"
    unfolding st' by (simp_all add: observations_keep) (intro bump_cong observations_keep)
  have d: "dropped_cases (rs_report st') = dropped_cases (rs_report st)"
    using dropped_cong [OF reasons] dropped_cong [OF observations_keep(10)] key by (simp add: dropped_bump)
  note o = counts_observed [OF c]
  have f: "funnel_ordered 9 (rs_report st')" using a funnel_closed by (auto simp: accounted_def o(11))
  have old: "outcomes_agree 1 m (rs_report st) (rs_rows st)" using a by (simp add: accounted_def)
  have "executed_rows (rs_rows st') = executed_rows (rs_rows st)" "length (rs_rows st') = Suc (length (rs_rows st))"
    by (simp_all add: rows executed_rows_def row_reject_def)
  then have "outcomes_agree 0 m (rs_report st') (rs_rows st')"
    using old unfolding outcomes_agree_def o d by (cases "case_profitable (rk_case k)") simp_all
  with f show ?thesis by (simp add: accounted_def)
qed

lemma fork_counts:
  assumes "replay_fork ex cfg k payload gas_price r = Inr r'"
  shows "\<exists>a s p. a \<le> 1 \<and> r' = r\<lparr>rr_fork_execution_attempts := rr_fork_execution_attempts r + a,
       rr_fork_execution_success := rr_fork_execution_success r + s,
       rr_fork_execution_reverts := rr_fork_execution_reverts r + (a - s), rr_fork_realized_profit_eth := p\<rparr> \<and> s \<le> a"
proof (cases "env_flag (ry_environment ex) ''REPLAY_EXECUTE_ON_FORK''")
  case False
  then have "r' = r" using assms by (simp add: replay_fork_def)
  then show ?thesis by (intro exI [of _ 0] exI [of _ "rr_fork_realized_profit_eth r"]) simp
next
  case True
  then have b: "fork_bookkeeping (env_flag (ry_environment ex) ''REPLAY_FORK_HARD_FAIL'')
      (execute_payload_on_fork ex cfg (ry_fork ex (rk_index k)) payload gas_price)
      (r\<lparr>rr_fork_execution_attempts := rr_fork_execution_attempts r + 1\<rparr>) = Inr r'"
    using assms by (simp add: replay_fork_def)
  show ?thesis
  proof (cases "execute_payload_on_fork ex cfg (ry_fork ex (rk_index k)) payload gas_price")
    case (Inl e)
    then show ?thesis using b
      by (intro exI [of _ 1] exI [of _ 0] exI [of _ "rr_fork_realized_profit_eth r"])
        (cases e; auto simp: fork_bookkeeping_def split: if_splits)
  next
    case (Inr fo)
    then show ?thesis using b
      by (intro exI [of _ 1] exI [of _ "if fo_success fo then 1 else 0"]
          exI [of _ "rr_fork_realized_profit_eth r + fo_realized_profit_eth fo"])
        (auto simp: fork_bookkeeping_def Let_def split: if_splits)
  qed
qed

lemma execute_accounted:
  assumes "accounted 6 1 m st" "replay_execute ex cfg k payload gas_price q tr st = Inr st'"
  shows "accounted 9 0 m st'"
proof -
  let ?r1 = "(rs_report st)\<lparr>rr_execute_candidates := rr_execute_candidates (rs_report st) + 1,
                  rr_adaptive_quote_pass := rr_adaptive_quote_pass (rs_report st) + 1\<rparr>"
  obtain r2 where f: "replay_fork ex cfg k payload gas_price ?r1 = Inr r2"
    and st': "st' = st\<lparr>rs_report := observe_latency (finish_trace ex (rk_index k) tr)
                     (observe_toxicity_execute (rk_signal k) (pl_pair payload) (rk_hour k) (rk_case k)
                       (pl_expected_profit_wei payload)
                       (observe_realized (rk_case k) (observe_labeled_outcome True (rk_case k) r2))),
                   rs_rows := rs_rows st @ [row_execute (rk_case k) (pl_expected_profit_wei payload) q
                     (ry_elapsed ex (rk_index k) ''total_internal'')]\<rparr>"
    using assms(2) by (auto simp: replay_execute_def Let_def and_then_eq_Inr)
  obtain a s p where r2: "a \<le> 1" "s \<le> a" "r2 = ?r1\<lparr>rr_fork_execution_attempts := rr_fork_execution_attempts ?r1 + a,
       rr_fork_execution_success := rr_fork_execution_success ?r1 + s,
       rr_fork_execution_reverts := rr_fork_execution_reverts ?r1 + (a - s), rr_fork_realized_profit_eth := p\<rparr>"
    using fork_counts [OF f] by blast
  let ?r' = "rs_report st'"
  have c: "counts ?r' = counts (observe_labeled_outcome True (rk_case k) r2)" and reasons: "rr_reasons ?r' = rr_reasons r2"
    unfolding st' by (simp_all add: observations_keep observe_toxicity_execute_def)
  have d: "dropped_cases ?r' = dropped_cases (rs_report st)"
    using dropped_cong [OF reasons] dropped_cong [of r2 "rs_report st"] by (simp add: r2(3))
  have "rs_rows st' = rs_rows st @ [row_execute (rk_case k) (pl_expected_profit_wei payload) q
      (ry_elapsed ex (rk_index k) ''total_internal'')]" unfolding st' by simp
  then have rows: "executed_rows (rs_rows st') = Suc (executed_rows (rs_rows st))" "length (rs_rows st') = Suc (length (rs_rows st))"
    by (simp_all add: executed_rows_def row_execute_def)
  note o = counts_observed [OF c]
  have old: "outcomes_agree 1 m (rs_report st) (rs_rows st)" "funnel_ordered 6 (rs_report st)"
    using assms(1) by (simp_all add: accounted_def)
  have f: "funnel_ordered 9 ?r'" using old(2) unfolding o(11) by (simp add: funnel_ordered_def slack_def r2(3))
  have "outcomes_agree 0 m ?r' (rs_rows st')"
    using old(1) r2(1,2) rows unfolding outcomes_agree_def o d
    by (cases "case_profitable (rk_case k)") (simp_all add: r2(3))
  with f show ?thesis by (simp add: accounted_def)
qed

lemma stage_accounted:
  "accounted j 1 m st \<Longrightarrow> accounted j 1 m (st\<lparr>rs_adaptive := a\<rparr>)" "accounted j 1 m st \<Longrightarrow> accounted j 1 m (st\<lparr>rs_cache := cache\<rparr>)"
  "accounted 1 1 m st \<Longrightarrow> accounted 2 1 m (upd_report (\<lambda>r. r\<lparr>rr_fast_preflight_pass := rr_fast_preflight_pass r + 1\<rparr>) st)"
  "accounted 2 1 m st \<Longrightarrow> accounted 3 1 m (upd_report (\<lambda>r. r\<lparr>rr_adaptive_preflight_pass := rr_adaptive_preflight_pass r + 1\<rparr>) st)"
  "accounted 3 1 m st \<Longrightarrow> accounted 4 1 m (upd_report (\<lambda>r. observe_expected_profit w (r\<lparr>rr_payload_built := rr_payload_built r + 1\<rparr>)) st)"
  "accounted 4 1 m st \<Longrightarrow> accounted 5 1 m (upd_report (\<lambda>r. r\<lparr>rr_ev_gate_pass := rr_ev_gate_pass r + 1\<rparr>) st)"
  "accounted 5 1 m st \<Longrightarrow> accounted 6 1 m (upd_report (\<lambda>r. r\<lparr>rr_quality_gate_pass := rr_quality_gate_pass r + 1\<rparr>) st)"
  "accounted 0 1 m st \<Longrightarrow> accounted 1 1 m (upd_report (\<lambda>r. r\<lparr>rr_decoded := rr_decoded r + 1\<rparr>) st)"
  "accounted 9 0 m st \<Longrightarrow> accounted 0 1 (Suc m) (upd_report (\<lambda>r. r\<lparr>rr_total := rr_total r + 1\<rparr>) st)"
  by (auto simp: report_ops accounting_defs)

lemma reject_key_simps [simp]:
  "''adaptive:'' @ r \<notin> set drop_keys" "''preflight:'' @ r \<notin> set drop_keys" "''fast_preflight:'' @ r \<notin> set drop_keys"
  "''ev_gate_reject'' \<notin> set drop_keys" "''quality_gate_reject'' \<notin> set drop_keys" "''payload_build_reject'' \<notin> set drop_keys"
  "''adaptive_lock_error'' \<in> set drop_keys" "''missing_gas'' \<in> set drop_keys" "''decode_reject'' \<in> set drop_keys"
  by (simp_all add: drop_keys_def)

lemma quote_accounted:
  assumes "accounted 6 1 m st" "replay_quote ex cfg t k payload cost tr st = Inr st'"
  shows "accounted 9 0 m st'"
  using assms(2) unfolding replay_quote_def Let_def
  by (auto simp del: One_nat_def append_Cons split: lock.splits prod.splits if_splits
      intro: drop_accounted [OF assms(1)] reject_accounted [OF _ stage_accounted(1) [OF assms(1)]]
        execute_accounted [OF stage_accounted(1) [OF assms(1)]])

lemma gates_accounted:
  assumes "accounted 4 1 m st" "replay_gates ex cfg min_profit t k payload tr st = Inr st'"
  shows "accounted 9 0 m st'"
  using assms(2) unfolding replay_gates_def Let_def
  by (auto simp del: One_nat_def append_Cons split: if_splits intro: reject_accounted [OF _ assms(1)] reject_accounted [OF _ stage_accounted(6) [OF assms(1)]]
      quote_accounted [OF stage_accounted(7) [OF stage_accounted(6) [OF assms(1)]]])

lemma build_accounted:
  assumes "accounted 3 1 m st" "replay_build ex cfg block min_profit t k tr st = Inr st'"
  shows "accounted 9 0 m st'"
  using assms(2) unfolding replay_build_def Let_def
  by (auto simp del: One_nat_def append_Cons split: prod.splits sum.splits option.splits intro: reject_accounted [OF _ stage_accounted(2) [OF assms(1)]]
      gates_accounted [OF stage_accounted(5) [OF stage_accounted(2) [OF assms(1)]]])

lemma preflight_accounted:
  assumes "accounted 2 1 m st" "replay_preflight ex cfg block min_profit t k tr st = Inr st'"
  shows "accounted 9 0 m st'"
  using assms(2) unfolding replay_preflight_def Let_def
  by (auto simp del: One_nat_def append_Cons split: lock.splits prod.splits if_splits
      intro: drop_accounted [OF assms(1)] reject_accounted [OF _ stage_accounted(1) [OF assms(1)]]
        build_accounted [OF stage_accounted(4) [OF stage_accounted(1) [OF assms(1)]]])

lemma case_accounted:
  assumes "accounted 9 0 m st" "replay_case ex cfg block min_swap min_profit t i c st = Inr st'"
  shows "accounted 9 0 (Suc m) st'"
proof -
  note total = stage_accounted(9) [OF assms(1)]
  have decoded: "accounted 9 0 (Suc m) st'" if "replay_decoded ex cfg block min_swap min_profit t i c tx s
      (upd_report (\<lambda>r. r\<lparr>rr_total := rr_total r + 1\<rparr>) st) = Inr st'" for tx s
    using that unfolding replay_decoded_def Let_def
    by (auto simp del: One_nat_def append_Cons split: if_splits intro: drop_accounted [OF stage_accounted(8) [OF total]]
        reject_accounted [OF _ stage_accounted(8) [OF total]]
        preflight_accounted [OF stage_accounted(3) [OF stage_accounted(8) [OF total]]])
  obtain tx where tx: "replay_transaction ex c (of_nat i) = Inr tx"
    using assms(2) by (auto simp: replay_case_def Let_def and_then_eq_Inr)
  obtain found where d: "decode_relevant_swap (ry_avx2 ex) (ry_abi ex) (ry_env ex) tx (monitored_tokens cfg) min_swap
      (opportunity_mode (mev cfg)) = Inr found"
    using assms(2) tx by (auto simp: replay_case_def Let_def split: sum.splits)
  show ?thesis
  proof (cases found)
    case None
    then have "st' = replay_drop ex i ''decode_reject'' empty_trace (upd_report (\<lambda>r. r\<lparr>rr_total := rr_total r + 1\<rparr>) st)"
      using assms(2) tx d by (simp add: replay_case_def Let_def)
    then show ?thesis using drop_accounted [OF total] by simp
  next
    case (Some s)
    then show ?thesis using assms(2) tx d by (intro decoded) (simp add: replay_case_def Let_def)
  qed
qed

lemma cases_accounted:
  "accounted 9 0 m st \<Longrightarrow> replay_cases ex cfg block min_swap min_profit t i cs st = Inr st' \<Longrightarrow> accounted 9 0 (m + length cs) st'"
proof (induction cs arbitrary: m i st)
  case (Cons c cs)
  from Cons.prems(2) obtain st1 where "replay_case ex cfg block min_swap min_profit t i c st = Inr st1"
    "replay_cases ex cfg block min_swap min_profit t (Suc i) cs st1 = Inr st'" by (auto simp: and_then_eq_Inr)
  with Cons.IH [OF case_accounted [OF Cons.prems(1)]] show ?case by fastforce
qed simp

lemma empty_accounted: "accounted 9 0 0 \<lparr>rs_report = empty_report, rs_rows = [], rs_adaptive = a, rs_cache = cache\<rparr>"
  by (simp add: accounting_defs empty_report_def)

text \<open>
  C14: the report of a run accounts for every case. Each case is either labelled, with one row, or dropped
  for one of three reasons; the stage counters never increase along the pipeline; the rows marked as
  executed are the true and false positives; and every attempt on the fork is a success or a revert.
\<close>

theorem replay_report_accounts:
  assumes "run_replay_cases ex cfg block cs profiles min_swap min_profit t cache = Inr (out, cache')"
  defines "r \<equiv> ro_report out"
  shows "rr_total r = length cs \<and> length cs = length (ro_rows out) + dropped_cases r
    \<and> length (ro_rows out) = rr_true_positive r + rr_false_positive r + rr_true_negative r + rr_false_negative r
    \<and> executed_rows (ro_rows out) = rr_true_positive r + rr_false_positive r
    \<and> sorted_wrt (\<ge>) [rr_total r, rr_decoded r, rr_fast_preflight_pass r, rr_adaptive_preflight_pass r, rr_payload_built r,
        rr_ev_gate_pass r, rr_quality_gate_pass r, rr_adaptive_quote_pass r, rr_execute_candidates r,
        rr_fork_execution_attempts r]
    \<and> rr_fork_execution_attempts r = rr_fork_execution_success r + rr_fork_execution_reverts r"
proof -
  obtain st where "replay_cases ex cfg block min_swap min_profit t 0 cs \<lparr>rs_report = empty_report, rs_rows = [],
       rs_adaptive = Healthy (apply_historical_profiles (adaptive_policy_new cfg) profiles), rs_cache = cache\<rparr> = Inr st"
    and out: "out = \<lparr>ro_report = rs_report st, ro_rows = rs_rows st\<rparr>"
    using assms(1) by (auto simp: run_replay_cases_def and_then_eq_Inr)
  from cases_accounted [OF empty_accounted this(1)] have a: "accounted 9 0 (length cs) st" by simp
  then show ?thesis unfolding r_def out by (auto simp: accounted_def funnel_ordered_def outcomes_agree_def slack_def)
qed

text \<open>A case whose call data is empty, on any outside world that reads its address and its data.\<close>

definition demo_case :: replay_input_case where
  "demo_case = \<lparr>ri_tx_hash = None, ri_to = ''0x1'', ri_input = ''0x'', ri_value_wei = None, ri_gas_price_wei = None,
     ri_max_fee_per_gas_wei = None, ri_lookup_latency_ms = None, ri_hour_utc = None,
     ri_known_outcome = Some ''profitable'', ri_realized_profit_eth = None\<rparr>"

definition reads_empty_call :: "replay_ext \<Rightarrow> replay_ext" where
  "reads_empty_call ex = ex\<lparr>ry_text := \<lparr>parse_wallet = (\<lambda>_. None), parse_address = (\<lambda>_. Some 1)\<rparr>, ry_hex_decode := (\<lambda>_. Some []),
     ry_environment := [''REPLAY_AUTO_TUNE'' \<mapsto> ''true'', ''REPLAY_AUTO_TUNE_APPLY'' \<mapsto> ''true'']\<rparr>"

lemma demo_case_drops:
  "\<exists>tx. replay_transaction (reads_empty_call ex) demo_case i = Inr tx
     \<and> (\<forall>avx2 ad env monitored min_swap mode. decode_relevant_swap avx2 ad env tx monitored min_swap mode = Inr None)"
proof -
  have "find_selector v [] = Inr None" for v by (cases v) (simp_all add: find_selector_def)
  then show ?thesis
    by (auto simp: replay_transaction_def reads_empty_call_def demo_case_def decode_relevant_swap_def selector_of_def)
qed

lemma demo_run:
  "\<exists>st. replay_case (reads_empty_call ex) cfg block min_swap min_profit t i demo_case st0 = Inr st"
  using demo_case_drops [of ex "of_nat i"] by (auto simp: replay_case_def Let_def)

lemma demo_run_cases:
  "\<exists>out cache'. run_replay_cases (reads_empty_call ex) cfg block [demo_case] profiles min_swap min_profit t cache = Inr (out, cache')"
proof -
  let ?st = "\<lparr>rs_report = empty_report, rs_rows = [],
      rs_adaptive = Healthy (apply_historical_profiles (adaptive_policy_new cfg) profiles), rs_cache = cache\<rparr>"
  obtain st where "replay_case (reads_empty_call ex) cfg block min_swap min_profit t 0 demo_case ?st = Inr st" using demo_run by blast
  then show ?thesis by (simp add: run_replay_cases_def)
qed

theorem replay_report_accounts_witness:
  "\<forall>ex. \<exists>out cache'. run_replay_cases (reads_empty_call ex) demo_config 7 [demo_case] [] 1 1 default_tuning (pool_cache_new 9) = Inr (out, cache')
     \<and> rr_total (ro_report out) = 1"
proof
  fix ex
  obtain out cache' where r: "run_replay_cases (reads_empty_call ex) demo_config 7 [demo_case] [] 1 1 default_tuning (pool_cache_new 9) = Inr (out, cache')"
    using demo_run_cases by blast
  with replay_report_accounts [OF r]
  show "\<exists>out cache'. run_replay_cases (reads_empty_call ex) demo_config 7 [demo_case] [] 1 1 default_tuning (pool_cache_new 9) = Inr (out, cache')
     \<and> rr_total (ro_report out) = 1" by auto
qed

section \<open>No payload, no decision\<close>

definition quiet :: "nat \<Rightarrow> replay_state \<Rightarrow> replay_state \<Rightarrow> bool" where
  "quiet n st st' \<longleftrightarrow> (let r = rs_report st; r' = rs_report st' in
     rr_payload_built r' = rr_payload_built r \<and> rr_execute_candidates r' = rr_execute_candidates r
     \<and> rr_false_positive r' = rr_false_positive r \<and> rr_realized_profit_eth r' = rr_realized_profit_eth r
     \<and> rr_false_negative r' = rr_false_negative r + n)
     \<and> ((\<exists>model. rs_adaptive st = Healthy model) \<longrightarrow> (\<exists>model. rs_adaptive st' = Healthy model))
     \<and> (cache_fits (rs_cache st) \<longrightarrow> cache_fits (rs_cache st'))"

lemma quiet_trans: "quiet a st st1 \<Longrightarrow> quiet b st1 st2 \<Longrightarrow> quiet (a + b) st st2"
  by (auto simp: quiet_def Let_def)

lemma quiet_step: "quiet 0 st st1 \<Longrightarrow> quiet n st1 st2 \<Longrightarrow> quiet n st st2"
  using quiet_trans [of 0] by simp

lemma quiet_ops:
  "quiet 0 st (replay_drop ex i key tr st)"
  "quiet 0 st (st\<lparr>rs_adaptive := Healthy model\<rparr>)"
  "cache_fits cache \<Longrightarrow> quiet 0 st (st\<lparr>rs_cache := cache\<rparr>)"
  "quiet 0 st (upd_report (\<lambda>r. r\<lparr>rr_total := rr_total r + 1\<rparr>) st)"
  "quiet 0 st (upd_report (\<lambda>r. r\<lparr>rr_decoded := rr_decoded r + 1\<rparr>) st)"
  "quiet 0 st (upd_report (\<lambda>r. r\<lparr>rr_fast_preflight_pass := rr_fast_preflight_pass r + 1\<rparr>) st)"
  "quiet 0 st (upd_report (\<lambda>r. r\<lparr>rr_adaptive_preflight_pass := rr_adaptive_preflight_pass r + 1\<rparr>) st)"
  by (auto simp: quiet_def replay_drop_def report_ops Let_def)

lemma reject_quiet:
  "replay_reject ex k gas_limit key stage reason tr st = Inr st' \<Longrightarrow> quiet (of_bool (case_profitable (rk_case k))) st st'"
  by (auto simp: quiet_def replay_reject_def observe_toxicity_reject_def report_ops and_then_eq_Inr Let_def
      split: if_splits bool.splits)

lemma build_quiet:
  assumes "cache_fits (rs_cache st)" "opportunity_mode (mev cfg) \<noteq> Scavenger" "swaps_two_tokens (rk_signal k)"
    and "replay_build ex cfg block min_profit t k tr st = Inr st'"
  shows "quiet (of_bool (case_profitable (rk_case k))) st st'"
proof -
  obtain cache built where b: "build_payload (ry_px ex) (ry_env ex) (ry_view ex) cfg (rk_signal k) (rk_gas_price k)
      (rk_context k) (rs_cache st) (ry_now ex (rk_index k)) block = (cache, built)" by (meson surj_pair)
  obtain failure where "built = Inl failure"
    using build_payload_never [OF assms(1-3)] b by (cases built) blast+
  then have "replay_reject ex k (estimated_exec_gas cfg) ''payload_build_reject'' ''payload'' ''payload_build_reject''
      (tr\<lparr>lt_payload_build_us := Some (ry_elapsed ex (rk_index k) ''payload_build'')\<rparr>) (st\<lparr>rs_cache := cache\<rparr>) = Inr st'"
    using assms(4) b by (auto simp: replay_build_def Let_def split: option.splits)
  from quiet_step [OF quiet_ops(3) reject_quiet [OF this]] build_payload_fits [OF assms(1) b] show ?thesis by blast
qed

lemma preflight_quiet:
  assumes fits: "cache_fits (rs_cache st)" and mode: "opportunity_mode (mev cfg) \<noteq> Scavenger"
    and two: "swaps_two_tokens (rk_signal k)" and healthy: "rs_adaptive st = Healthy model"
    and r: "replay_preflight ex cfg block min_profit t k tr st = Inr st'"
  shows "quiet (of_bool (case_profitable (rk_case k))) st st'"
proof -
  define inp where "inp = \<lparr>pi_cluster = rk_cluster k, pi_notional_eth = wei_to_eth_f64 (sg_notional_wei (rk_signal k)),
      pi_gas_price_wei = rk_gas_price k, pi_path_len = int (path_len (rk_signal k))\<rparr>"
  obtain model' q where p: "preflight_score (px_libm (ry_px ex))
      (observe_candidate_flow (observe_lookup_latency model (rk_lookup_latency_ms k)) (ry_now ex (rk_index k))
        (rk_cluster k) (sg_notional_wei (rk_signal k)) (rk_gas_price k)) (ry_now ex (rk_index k)) inp = (model', q)"
    by (meson surj_pair)
  note r = r [unfolded replay_preflight_def Let_def, folded inp_def, unfolded healthy lock.case p prod.case]
  show ?thesis
  proof (cases "pq_should_continue q")
    case False
    then show ?thesis using r by (auto dest!: reject_quiet intro: quiet_step [OF quiet_ops(2)])
  next
    case True
    then have b: "replay_build ex cfg block min_profit t k
        (tr\<lparr>lt_adaptive_preflight_us := Some (ry_elapsed ex (rk_index k) ''adaptive_preflight'')\<rparr>)
        (upd_report (\<lambda>r. r\<lparr>rr_adaptive_preflight_pass := rr_adaptive_preflight_pass r + 1\<rparr>) (st\<lparr>rs_adaptive := Healthy model'\<rparr>)) = Inr st'"
      using r by simp
    show ?thesis
      by (rule quiet_step [OF quiet_ops(2) quiet_step [OF quiet_ops(7) build_quiet [OF _ mode two b]]])
        (simp add: upd_report_def fits)
  qed
qed

text \<open>The cases that receive a label: those that decode and carry a gas price.\<close>

definition labelled_case :: "replay_ext \<Rightarrow> config \<Rightarrow> u256 \<Rightarrow> nat \<Rightarrow> replay_input_case \<Rightarrow> bool" where
  "labelled_case ex cfg min_swap i c \<longleftrightarrow> (\<exists>tx s. replay_transaction ex c (of_nat i) = Inr tx
     \<and> decode_relevant_swap (ry_avx2 ex) (ry_abi ex) (ry_env ex) tx (monitored_tokens cfg) min_swap
         (opportunity_mode (mev cfg)) = Inr (Some s) \<and> victim_gas_price tx \<noteq> 0)"

definition two_token_cases :: "replay_ext \<Rightarrow> config \<Rightarrow> u256 \<Rightarrow> replay_input_case list \<Rightarrow> bool" where
  "two_token_cases ex cfg min_swap cs \<longleftrightarrow> (\<forall>i tx s. \<forall>c \<in> set cs. replay_transaction ex c (of_nat i) = Inr tx
     \<longrightarrow> decode_relevant_swap (ry_avx2 ex) (ry_abi ex) (ry_env ex) tx (monitored_tokens cfg) min_swap
         (opportunity_mode (mev cfg)) = Inr (Some s) \<longrightarrow> swaps_two_tokens s)"

fun missed :: "replay_ext \<Rightarrow> config \<Rightarrow> u256 \<Rightarrow> nat \<Rightarrow> replay_input_case list \<Rightarrow> nat" where
  "missed ex cfg min_swap i [] = 0"
| "missed ex cfg min_swap i (c # cs) =
     of_bool (labelled_case ex cfg min_swap i c \<and> case_profitable c) + missed ex cfg min_swap (Suc i) cs"

lemma decoded_quiet:
  assumes fits: "cache_fits (rs_cache st)" and mode: "opportunity_mode (mev cfg) \<noteq> Scavenger" and two: "swaps_two_tokens s"
    and healthy: "rs_adaptive st = Healthy model"
    and r: "replay_decoded ex cfg block min_swap min_profit t i c tx s st = Inr st'"
  shows "quiet (of_bool (victim_gas_price tx \<noteq> 0 \<and> case_profitable c)) st st'"
proof -
  let ?st = "upd_report (\<lambda>r. r\<lparr>rr_decoded := rr_decoded r + 1\<rparr>) st"
  let ?st2 = "upd_report (\<lambda>r. r\<lparr>rr_fast_preflight_pass := rr_fast_preflight_pass r + 1\<rparr>) ?st"
  have rejected: "quiet (of_bool (case_profitable (rk_case k))) st st'"
    if "replay_reject ex k gas_limit key stage reason tr ?st = Inr st'" for k gas_limit key stage reason tr
    by (rule quiet_step [OF quiet_ops(5) reject_quiet [OF that]])
  have passed: "quiet (of_bool (case_profitable (rk_case k))) st st'"
    if "replay_preflight ex cfg block min_profit t k tr ?st2 = Inr st'" "rk_signal k = s" for k tr
    using that fits two healthy
    by (intro quiet_step [OF quiet_ops(5) quiet_step [OF quiet_ops(6) preflight_quiet [OF _ mode _ _ that(1)]]])
      (simp_all add: upd_report_def)
  show ?thesis
    using r unfolding replay_decoded_def Let_def
    by (auto simp del: One_nat_def append_Cons split: if_splits intro: quiet_step [OF quiet_ops(5) quiet_ops(1)]
        dest: rejected passed)
qed

lemma case_quiet:
  assumes "cache_fits (rs_cache st)" "opportunity_mode (mev cfg) \<noteq> Scavenger" "two_token_cases ex cfg min_swap [c]"
    and "rs_adaptive st = Healthy model" and r: "replay_case ex cfg block min_swap min_profit t i c st = Inr st'"
  shows "quiet (of_bool (labelled_case ex cfg min_swap i c \<and> case_profitable c)) st st'"
proof -
  let ?st = "upd_report (\<lambda>r. r\<lparr>rr_total := rr_total r + 1\<rparr>) st"
  have st: "cache_fits (rs_cache ?st)" "rs_adaptive ?st = Healthy model" using assms(1,4) by (simp_all add: upd_report_def)
  obtain tx where tx: "replay_transaction ex c (of_nat i) = Inr tx"
    using r by (auto simp: replay_case_def Let_def and_then_eq_Inr)
  obtain found where d: "decode_relevant_swap (ry_avx2 ex) (ry_abi ex) (ry_env ex) tx (monitored_tokens cfg) min_swap
      (opportunity_mode (mev cfg)) = Inr found"
    using r tx by (auto simp: replay_case_def Let_def split: sum.splits)
  show ?thesis
  proof (cases found)
    case None
    then have "st' = replay_drop ex i ''decode_reject'' empty_trace ?st" using r tx d by (simp add: replay_case_def Let_def)
    moreover have "\<not> labelled_case ex cfg min_swap i c" using tx d None by (auto simp: labelled_case_def)
    ultimately show ?thesis using quiet_step [OF quiet_ops(4) quiet_ops(1)] by simp
  next
    case (Some s)
    then have "replay_decoded ex cfg block min_swap min_profit t i c tx s ?st = Inr st'"
      using r tx d by (simp add: replay_case_def Let_def)
    moreover have "swaps_two_tokens s" using assms(3) tx d Some by (auto simp: two_token_cases_def)
    ultimately have "quiet (of_bool (victim_gas_price tx \<noteq> 0 \<and> case_profitable c)) st st'"
      using quiet_step [OF quiet_ops(4) decoded_quiet [OF st(1) assms(2) _ st(2)]] by blast
    moreover have "labelled_case ex cfg min_swap i c \<longleftrightarrow> victim_gas_price tx \<noteq> 0"
      using tx d Some by (auto simp: labelled_case_def)
    ultimately show ?thesis by simp
  qed
qed

lemma cases_quiet:
  "cache_fits (rs_cache st) \<Longrightarrow> opportunity_mode (mev cfg) \<noteq> Scavenger \<Longrightarrow> two_token_cases ex cfg min_swap cs \<Longrightarrow>
     rs_adaptive st = Healthy model \<Longrightarrow> replay_cases ex cfg block min_swap min_profit t i cs st = Inr st' \<Longrightarrow>
     quiet (missed ex cfg min_swap i cs) st st'"
proof (induction cs arbitrary: i st model)
  case Nil
  then show ?case by (simp add: quiet_def)
next
  case (Cons c cs)
  obtain st1 where s: "replay_case ex cfg block min_swap min_profit t i c st = Inr st1"
    "replay_cases ex cfg block min_swap min_profit t (Suc i) cs st1 = Inr st'"
    using Cons.prems(5) by (auto simp: and_then_eq_Inr)
  have two: "two_token_cases ex cfg min_swap [c]" "two_token_cases ex cfg min_swap cs"
    using Cons.prems(3) by (auto simp: two_token_cases_def)
  have q: "quiet (of_bool (labelled_case ex cfg min_swap i c \<and> case_profitable c)) st st1"
    by (rule case_quiet [OF Cons.prems(1,2) two(1) Cons.prems(4) s(1)])
  then obtain model1 where "rs_adaptive st1 = Healthy model1" "cache_fits (rs_cache st1)"
    using Cons.prems(1,4) by (auto simp: quiet_def Let_def)
  from quiet_trans [OF q Cons.IH [OF this(2) Cons.prems(2) two(2) this(1) s(2)]] show ?case by simp
qed

lemma run_quiet:
  assumes "run_replay_cases ex cfg block cs profiles min_swap min_profit t cache = Inr (out, cache')"
    and "cache_fits cache" "opportunity_mode (mev cfg) \<noteq> Scavenger" "two_token_cases ex cfg min_swap cs"
  shows "rr_payload_built (ro_report out) = 0" "rr_execute_candidates (ro_report out) = 0"
    "rr_false_positive (ro_report out) = 0" "rr_realized_profit_eth (ro_report out) = 0"
    "rr_false_negative (ro_report out) = missed ex cfg min_swap 0 cs" "cache_fits cache'"
proof -
  let ?st = "\<lparr>rs_report = empty_report, rs_rows = [],
      rs_adaptive = Healthy (apply_historical_profiles (adaptive_policy_new cfg) profiles), rs_cache = cache\<rparr>"
  obtain st where r: "replay_cases ex cfg block min_swap min_profit t 0 cs ?st = Inr st"
    and out: "out = \<lparr>ro_report = rs_report st, ro_rows = rs_rows st\<rparr>" "cache' = rs_cache st"
    using assms(1) by (auto simp: run_replay_cases_def and_then_eq_Inr)
  have "quiet (missed ex cfg min_swap 0 cs) ?st st" by (rule cases_quiet [OF _ assms(3,4) _ r]) (simp_all add: assms(2))
  then show "rr_payload_built (ro_report out) = 0" "rr_execute_candidates (ro_report out) = 0"
    "rr_false_positive (ro_report out) = 0" "rr_realized_profit_eth (ro_report out) = 0"
    "rr_false_negative (ro_report out) = missed ex cfg min_swap 0 cs" "cache_fits cache'"
    using assms(2) by (simp_all add: quiet_def Let_def out empty_report_def)
qed

text \<open>The score of a candidate is that of its misses alone, less a charge for its extra gas.\<close>

lemma lower_score:
  assumes "run_replay_cases ex cfg block cs profiles min_swap min_profit t cache = Inr (out, cache1)"
    and "run_replay_cases ex cfg block cs profiles min_swap min_profit t' cache' = Inr (out', cache2)"
    and "cache_fits cache" "cache_fits cache'" "opportunity_mode (mev cfg) \<noteq> Scavenger" "two_token_cases ex cfg min_swap cs"
    and free: "rt_gas_extra_bps t = 0"
  shows "\<not> tr_objective_score (tuning_from_report t (ro_report out)) < tr_objective_score (tuning_from_report t' (ro_report out'))"
proof
  let ?a = "0 - of_count 0 * dec 25 4 - of_count (missed ex cfg min_swap 0 cs) * dec 15 4 - of_count 0 * dec 2 4"
  let ?fee = "of_uw (rt_gas_extra_bps t') * dec 15 7"
  note q = run_quiet [OF assms(1,3,5,6)] and q' = run_quiet [OF assms(2,4,5,6)]
  have zero: "of_uw (0 :: u64) * dec 15 7 = 0" by code_simp
  assume "tr_objective_score (tuning_from_report t (ro_report out)) < tr_objective_score (tuning_from_report t' (ro_report out'))"
  then have less: "?a - 0 < ?a - ?fee" unfolding tuning_from_report_def by (simp add: q q' free zero)
  have "not_neg ?fee" by (intro not_neg_intros) simp_all
  then have "?a - 0 < ?a" using less_minus_imp_less [OF less _ rounded_minus] by blast
  moreover have "\<not> x - 0 < x" if "rounded x" for x :: f64
  proof (cases "is_finite x")
    case True
    have "x \<le> x - 0"
      by (rule rounds_to_mono [OF _ minus_f64_rounds_to]) (use that True in \<open>auto simp: rounded_def\<close>)
    then show ?thesis using not_le_less_f64 by blast
  next
    case False
    then show ?thesis by (cases x) (auto simp: minus_f64_def zero_f64_def)
  qed
  ultimately show False using rounded_minus by blast
qed

lemma better_run_first:
  assumes "best = Some (b, out)" "\<not> tr_objective_score b < tr_objective_score candidate"
  shows "better_run candidate run best = best"
  using assms by (simp add: better_run_def)

lemma tune_runs_keeps_first:
  assumes "opportunity_mode (mev cfg) \<noteq> Scavenger" "two_token_cases ex cfg min_swap cs" "rt_gas_extra_bps t = 0"
    and "run_replay_cases ex cfg block cs profiles min_swap min_profit t cache0 = Inr (out, cache1)" "cache_fits cache0"
  shows "cache_fits cache \<Longrightarrow>
    tune_runs (run_replay_cases ex cfg block cs profiles min_swap min_profit) ts cache
      (Some (tuning_from_report t (ro_report out), out)) cands = Inr (best, cands') \<Longrightarrow>
    best = Some (tuning_from_report t (ro_report out), out)"
proof (induction ts arbitrary: cache cands)
  case (Cons t' ts)
  from Cons.prems(2) obtain out' cache' where r: "run_replay_cases ex cfg block cs profiles min_swap min_profit t' cache = Inr (out', cache')"
    and rest: "tune_runs (run_replay_cases ex cfg block cs profiles min_swap min_profit) ts cache'
      (better_run (tuning_from_report t' (ro_report out')) out' (Some (tuning_from_report t (ro_report out), out)))
      (cands @ [tuning_from_report t' (ro_report out')]) = Inr (best, cands')"
    by (auto simp: and_then_eq_Inr Let_def)
  have "better_run (tuning_from_report t' (ro_report out')) out' (Some (tuning_from_report t (ro_report out), out))
      = Some (tuning_from_report t (ro_report out), out)"
    by (rule better_run_first [OF refl lower_score [OF assms(4) r assms(5) Cons.prems(1) assms(1-3)]])
  with rest Cons.IH [OF run_quiet(6) [OF r Cons.prems(1) assms(1,2)]] show ?case by simp
qed simp

text \<open>
  Outside scavenger mode the tuner measures nothing. If its grid starts with a tuning that adds no
  gas, that tuning wins, whatever the recorded cases, their outcomes and the other tunings are; no run
  builds a payload or executes anything.
\<close>

lemma tuner_keeps_first_tuning:
  assumes "tune_runs (run_replay_cases ex cfg block cs profiles min_swap min_profit) (t # ts) cache None [] = Inr (best, candidates)"
    and "cache_fits cache" "opportunity_mode (mev cfg) \<noteq> Scavenger" "two_token_cases ex cfg min_swap cs" "rt_gas_extra_bps t = 0"
  shows "\<exists>b out. best = Some (b, out) \<and> tr_tuning b = t \<and> rr_payload_built (ro_report out) = 0
    \<and> executed_rows (ro_rows out) = 0"
proof -
  obtain out cache1 where r: "run_replay_cases ex cfg block cs profiles min_swap min_profit t cache = Inr (out, cache1)"
    and rest: "tune_runs (run_replay_cases ex cfg block cs profiles min_swap min_profit) ts cache1
      (Some (tuning_from_report t (ro_report out), out)) [tuning_from_report t (ro_report out)] = Inr (best, candidates)"
    using assms(1) by (auto simp: and_then_eq_Inr Let_def better_run_def)
  note q = run_quiet [OF r assms(2-4)]
  have "best = Some (tuning_from_report t (ro_report out), out)"
    by (rule tune_runs_keeps_first [OF assms(3,4,5) r assms(2) q(6) rest])
  moreover have "executed_rows (ro_rows out) = 0"
  proof -
    obtain st where c: "replay_cases ex cfg block min_swap min_profit t 0 cs \<lparr>rs_report = empty_report, rs_rows = [],
         rs_adaptive = Healthy (apply_historical_profiles (adaptive_policy_new cfg) profiles), rs_cache = cache\<rparr> = Inr st"
      and out: "out = \<lparr>ro_report = rs_report st, ro_rows = rs_rows st\<rparr>"
      using r by (auto simp: run_replay_cases_def and_then_eq_Inr)
    show ?thesis using cases_accounted [OF empty_accounted c] q(2) by (simp add: out accounted_def outcomes_agree_def)
  qed
  ultimately show ?thesis using q(1) by (simp add: tuning_from_report_def)
qed

lemma demo_mode: "opportunity_mode (mev demo_config) = Aggressive"
  by (simp add: opportunity_mode_def demo_config_def demo_mev_def)

end
