(* ===== verification/ConfigSafety.thy ===== *)
theory ConfigSafety
  imports ConfigLoad
begin

text \<open>
  What loading guarantees: the endpoint list of a loaded configuration has distinct names and URLs and
  only the providers its network allows, the counts the executor divides work by are positive, and the
  ways in which a value that is accepted undermines the configuration (the network alias, a threshold
  that is not a number).
\<close>

section \<open>Numbered names\<close>

definition label_no :: "string \<Rightarrow> int option" where
  "label_no name = digits_from 0 (rev (takeWhile is_digit (rev name)))"

lemma is_digit_char [simp]: "0 \<le> (d::int) \<Longrightarrow> d < 10 \<Longrightarrow> is_digit (char_of (48 + d))"
  by (simp add: is_digit_def)

lemma dec_str_digits: "0 \<le> n \<Longrightarrow> list_all is_digit (dec_str n)"
proof (induction n rule: dec_str.induct)
  case (1 n)
  show ?case
  proof (cases "n < 10")
    case True
    then show ?thesis using 1(2) by (subst dec_str.simps) simp
  next
    case False
    then show ?thesis using 1 by (subst dec_str.simps) simp
  qed
qed

lemma label_no_dash: "0 \<le> n \<Longrightarrow> label_no (p @ ''-'' @ dec_str n) = Some n"
proof -
  assume n: "0 \<le> n"
  have "list_all is_digit (rev (dec_str n))" using dec_str_digits [OF n] by (simp add: list_all_iff)
  then have "takeWhile is_digit (rev (dec_str n) @ ''-'' @ rev p) = rev (dec_str n)"
    by (subst takeWhile_append2) (auto simp: list_all_iff)
  then show ?thesis using digits_from_dec_str [OF n] by (simp add: label_no_def)
qed

text \<open>Within each of the two labels the names are numbered from one in their order.\<close>

definition names_of :: "string \<Rightarrow> (string \<times> string) list \<Rightarrow> string list" where
  "names_of label urls = filter (starts_with label) (map fst urls)"

definition numbered :: "(string \<times> string) list \<Rightarrow> bool" where
  "numbered urls \<longleftrightarrow>
     (\<forall>label \<in> {''rpc'', ''getblock''}. map label_no (names_of label urls) = map Some [1..int (length (names_of label urls))])
     \<and> (\<forall>(name, url) \<in> set urls. starts_with ''rpc-'' name \<or> starts_with ''getblock-'' name)"

definition urls_apart :: "(string \<times> string) list \<Rightarrow> bool" where
  "urls_apart urls \<longleftrightarrow> distinct (map (\<lambda>(name, url). to_ascii_lowercase url) urls)"

lemma label_index_names: "label_index label urls = int (length (names_of label urls)) + 1"
  by (simp add: label_index_def names_of_def filter_map o_def case_prod_beta' split_def)

lemma names_of_append: "names_of label (urls @ [(name, url)]) = names_of label urls @ (if starts_with label name then [name] else [])"
  by (simp add: names_of_def)

lemma upto_step: "[1..int n + 1] = [1..int n] @ [int n + 1]"
  by (simp add: upto_rec2)

lemma numbered_push:
  assumes "numbered urls" and label: "label \<in> {''rpc'', ''getblock''}" and p: "starts_with (label @ ''-'') (p @ ''-'')"
  shows "numbered (urls @ [(p @ ''-'' @ dec_str (label_index label urls), item)])"
proof -
  obtain q where q: "p @ ''-'' = label @ ''-'' @ q" using p by (auto simp: starts_with_iff)
  let ?name = "p @ ''-'' @ dec_str (label_index label urls)"
  have name: "?name = label @ ''-'' @ q @ dec_str (label_index label urls)" using q by (metis append.assoc)
  have no: "label_no ?name = Some (label_index label urls)" by (rule label_no_dash) (simp add: label_index_def)
  have other: "starts_with l ?name \<longleftrightarrow> l = label" if "l \<in> {''rpc'', ''getblock''}" for l
    using that label unfolding name by auto
  have own: "starts_with (label @ ''-'') ?name" unfolding name by (auto simp: starts_with_iff)
  have "map label_no (names_of l (urls @ [(?name, item)])) = map Some [1..int (length (names_of l (urls @ [(?name, item)])))]"
    if l: "l \<in> {''rpc'', ''getblock''}" for l
    using assms(1) l no other [OF l] by (auto simp: numbered_def names_of_append label_index_names upto_step)
  with assms(1) own label show ?thesis unfolding numbered_def by auto
qed

lemma known_url_iff: "known_url item urls \<longleftrightarrow> to_ascii_lowercase item \<in> set (map (\<lambda>(name, url). to_ascii_lowercase url) urls)"
  by (auto simp: known_url_def list_ex_iff eq_ignore_ascii_case_def image_iff) force+

lemma apart_push: "urls_apart urls \<Longrightarrow> \<not> known_url item urls \<Longrightarrow> urls_apart (urls @ [(name, item)])"
  by (simp add: urls_apart_def known_url_iff)

lemma push_rpc_url_keeps:
  assumes "numbered urls \<and> urls_apart urls" and "label \<in> {''rpc'', ''getblock''}"
  shows "numbered (push_rpc_url label item urls) \<and> urls_apart (push_rpc_url label item urls)"
  using assms numbered_push [of urls "if label = ''rpc'' \<and> looks_like_getblock_url item then ''getblock'' else label"
      "if label = ''rpc'' \<and> looks_like_getblock_url item then ''getblock'' else label" item]
  by (auto simp: push_rpc_url_def Let_def intro: apart_push)

lemma push_alias_url_keeps:
  assumes "numbered urls \<and> urls_apart urls"
  shows "numbered (push_alias_url item urls) \<and> urls_apart (push_alias_url item urls)"
  using assms numbered_push [of urls "''getblock''" "''getblock-polygon-bnb-alias''" item]
  by (auto simp: push_alias_url_def intro: apart_push)

lemma fold_keeps: "P a \<Longrightarrow> (\<And>x a. P a \<Longrightarrow> P (f x a)) \<Longrightarrow> P (fold f xs a)"
  by (induction xs arbitrary: a) auto

lemma parse_rpc_urls_ok: "numbered (parse_rpc_urls env network) \<and> urls_apart (parse_rpc_urls env network)"
proof -
  define P where "P = (\<lambda>u. numbered u \<and> urls_apart u)"
  have items: "P (fold (push_rpc_url label) xs u)" if "P u" "label \<in> {''rpc'', ''getblock''}" for label xs u
    by (rule fold_keeps [where P = P, OF that(1)]) (use that(2) push_rpc_url_keeps in \<open>auto simp: P_def\<close>)
  have entries: "P (push_rpc_url_entries env network label keys u)" if "P u" "label \<in> {''rpc'', ''getblock''}" for label keys u
    unfolding push_rpc_url_entries_def by (rule fold_keeps [where P = P, OF that(1)]) (rule items [OF _ that(2)])
  have alias_items: "P (fold push_alias_url xs u)" if "P u" for xs u
    by (rule fold_keeps [where P = P, OF that]) (use push_alias_url_keeps in \<open>auto simp: P_def\<close>)
  have aliases: "P (push_polygon_getblock_bnb_alias env network u)" if "P u" for u
  proof (cases "network \<noteq> ''polygon'' \<or> \<not> env_flag env ''GETBLOCK_BNB_FOR_POLYGON''")
    case True
    then show ?thesis using that by (simp add: push_polygon_getblock_bnb_alias_def)
  next
    case False
    then show ?thesis unfolding push_polygon_getblock_bnb_alias_def
      by (subst if_not_P) (auto intro!: alias_items that)
  qed
  have "P []" by (simp add: P_def numbered_def urls_apart_def names_of_def)
  then have "P (parse_rpc_urls env network)" unfolding parse_rpc_urls_def by (intro aliases entries) auto
  then show ?thesis by (simp add: P_def)
qed

lemma distinct_map_Some: "distinct (map Some xs) = distinct xs"
  by (simp add: distinct_map)

lemma numbered_prefix: "numbered urls \<Longrightarrow> \<forall>n \<in> fst ` set urls. starts_with ''rpc-'' n \<or> starts_with ''getblock-'' n"
  unfolding numbered_def by (auto simp del: starts_with.simps)

lemma numbered_distinct:
  assumes n: "numbered urls"
  shows "distinct (map fst urls)"
proof -
  have d: "distinct (names_of label urls)" if "label \<in> {''rpc'', ''getblock''}" for label
  proof -
    have "distinct (map label_no (names_of label urls))"
      using n that unfolding numbered_def by (auto simp: distinct_map_Some)
    then show ?thesis by (simp add: distinct_map)
  qed
  have cover: "starts_with ''rpc'' name \<or> starts_with ''getblock'' name" if "name \<in> set (map fst urls)" for name
    using n that by (fastforce simp: numbered_def starts_with_iff)
  have "count (mset (map fst urls)) name \<le> 1" for name
  proof (cases "name \<in> set (map fst urls)")
    case True
    then obtain label where l: "label \<in> {''rpc'', ''getblock''}" "starts_with label name" using cover by auto
    have "count (mset (names_of label urls)) name = count (mset (map fst urls)) name"
      using l(2) by (simp add: names_of_def)
    then show ?thesis using d [OF l(1)] by (metis distinct_count_atmost_1 le_numeral_extra(3) le_numeral_extra(4) zero_le_one)
  next
    case False
    then show ?thesis by (simp add: count_eq_zero_iff [THEN iffD2])
  qed
  then show ?thesis by (metis (no_types, lifting) count_greater_zero_iff distinct_count_atmost_1 in_multiset_in_set le_antisym less_one linorder_not_le not_gr_zero set_mset_mset)
qed

section \<open>The fields of a loaded configuration\<close>

lemma load_from_fields:
  assumes "load_from et c env = Inr cfg"
  shows "cfg_network cfg = load_network c env"
    and "explicit_rpc_urls cfg = parse_rpc_urls env (cfg_network cfg)"
    and "alchemy_keys cfg = parse_alchemy_keys env"
    and "chain_id cfg = (case Option.bind (env ''CHAIN_ID'') (\<lambda>v. parse_u64 (trim v)) of
           Some n \<Rightarrow> n | None \<Rightarrow> default_chain_id (cfg_network cfg))"
    and "parse_monitored_tokens et env (cfg_network cfg) = Inr (monitored_tokens cfg)"
    and "\<exists>thresholds. load_thresholds env = Inr thresholds
           \<and> load_mev et env (cfg_network cfg) (env_flag env ''RUN_RUNTIME_LOAD_TEST'') thresholds = Inr (mev cfg)"
    and "tenderly_rpc_only cfg = is_true (var_or env ''USE_TENDERLY_RPC_ONLY'' ''false'')"
  using assms by (auto simp: load_from_def Let_def and_then_eq_Inr split del: if_split cong: option.case_cong)

lemma load_from_addresses:
  assumes "load_from et c env = Inr cfg"
  defines "test \<equiv> env_flag env ''RUN_RUNTIME_LOAD_TEST''"
  shows "load_control_address et env test (executor_address cfg) = Inr (control_address cfg)"
    and "\<exists>vault. parse_optional_address_env et env ''VAULT_ADDRESS'' test = Inr vault
       \<and> vault_address cfg = (case vault of Some a \<Rightarrow> a | None \<Rightarrow> control_address cfg)"
    and "\<exists>profit recipient. parse_optional_address_env et env ''PROFIT_ADDRESS'' test = Inr profit
       \<and> parse_optional_address_env et env ''MEV_SEARCHER_RECIPIENT'' test = Inr recipient
       \<and> profit_address cfg = (case profit of Some a \<Rightarrow> a
           | None \<Rightarrow> (case recipient of Some a \<Rightarrow> a | None \<Rightarrow> control_address cfg))"
    and "parse_wallet et (executor_private_key cfg) = Some (executor_address cfg)"
  using assms by (auto simp: load_from_def Let_def and_then_eq_Inr split del: if_split cong: option.case_cong)

definition all_results :: "('a \<Rightarrow> bool) \<Rightarrow> 'e + 'a \<Rightarrow> bool" where
  "all_results p r \<longleftrightarrow> (\<forall>x. r = Inr x \<longrightarrow> p x)"

lemma results_then: "(\<And>x. all_results p (f x)) \<Longrightarrow> all_results p (and_then r f)"
  by (cases r) (auto simp: all_results_def)

lemma results_Inr: "p x \<Longrightarrow> all_results p (Inr x)"
  by (simp add: all_results_def)

lemma load_mev_fields:
  assumes "load_mev et env network test thresholds = Inr m"
  shows "runtime_thresholds_lock m = Healthy thresholds" "\<exists>mode. opportunity_mode_lock m = Healthy mode"
    "1 \<le> relay_fanout_count m" "1 \<le> rpc_fanout_count m"
    "1 \<le> stop_loss_consecutive_losses m" "1 \<le> context_stop_loss_consecutive_losses m"
proof -
  have "all_results (\<lambda>m. runtime_thresholds_lock m = Healthy thresholds \<and> (\<exists>mode. opportunity_mode_lock m = Healthy mode)
      \<and> 1 \<le> relay_fanout_count m \<and> 1 \<le> rpc_fanout_count m
      \<and> 1 \<le> stop_loss_consecutive_losses m \<and> 1 \<le> context_stop_loss_consecutive_losses m) (load_mev et env network test thresholds)"
    unfolding load_mev_def by (intro results_then results_Inr) simp
  with assms show "runtime_thresholds_lock m = Healthy thresholds" "\<exists>mode. opportunity_mode_lock m = Healthy mode"
    "1 \<le> relay_fanout_count m" "1 \<le> rpc_fanout_count m"
    "1 \<le> stop_loss_consecutive_losses m" "1 \<le> context_stop_loss_consecutive_losses m"
    by (simp_all add: all_results_def)
qed

section \<open>Endpoint lists\<close>

lemma numbered_fold:
  assumes step: "\<And>idx keys. step idx keys = keys \<or> (\<exists>v. step idx keys = keys @ [(label @ dec_str idx, v)])"
    and "distinct idxs" "\<forall>i \<in> set idxs. 0 \<le> i" "distinct (map fst keys)"
    and "\<forall>n \<in> fst ` set keys. starts_with label n \<and> (\<forall>i \<in> set idxs. n \<noteq> label @ dec_str i)"
  shows "distinct (map fst (fold step idxs keys)) \<and> (\<forall>n \<in> fst ` set (fold step idxs keys). starts_with label n)"
  using assms(2-5)
proof (induction idxs arbitrary: keys)
  case (Cons i idxs)
  have fresh: "\<forall>j \<in> set idxs. label @ dec_str i \<noteq> label @ dec_str j" "label @ dec_str i \<notin> fst ` set keys"
    using Cons.prems by auto
  have "distinct (map fst (step i keys))
      \<and> (\<forall>n \<in> fst ` set (step i keys). starts_with label n \<and> (\<forall>j \<in> set idxs. n \<noteq> label @ dec_str j))"
    using step [of i keys] Cons.prems(3,4) fresh by auto
  then show ?case using Cons.IH [of "step i keys"] Cons.prems(1,2) by simp
qed auto

lemma alchemy_names:
  "distinct (map fst (parse_alchemy_keys env)) \<and> (\<forall>n \<in> fst ` set (parse_alchemy_keys env). starts_with ''alchemy-'' n)"
  unfolding parse_alchemy_keys_def by (rule numbered_fold) (auto split: option.split)

lemma map_filter_pair_names:
  assumes "distinct (map fst keys)"
  shows "distinct (map fst (List.map_filter (\<lambda>(name, key). map_option (Pair name) (g key)) keys))
    \<and> fst ` set (List.map_filter (\<lambda>(name, key). map_option (Pair name) (g key)) keys) \<subseteq> fst ` set keys"
  using assms
proof (induction keys)
  case (Cons p keys)
  then show ?case by (cases p; cases "g (snd p)") (auto simp: List.map_filter_simps)
qed (simp add: List.map_filter_simps)

lemma map_filter_indexed:
  assumes "inj f"
  shows "distinct (map fst (List.map_filter (\<lambda>(idx, key). map_option (Pair (f idx)) (g key)) (enumerate n ks)))
    \<and> fst ` set (List.map_filter (\<lambda>(idx, key). map_option (Pair (f idx)) (g key)) (enumerate n ks)) \<subseteq> f ` {n..}"
proof (induction ks arbitrary: n)
  case (Cons k ks)
  have "f n \<notin> f ` {Suc n..}" using assms by (auto dest: injD)
  moreover have "f ` {Suc n..} \<subseteq> f ` {n..}" by auto
  ultimately show ?case using Cons [of "Suc n"] by (cases "g k") (auto simp: List.map_filter_simps)
qed (simp add: List.map_filter_simps)

lemma infura_names:
  "distinct (map fst (infura_entries cfg)) \<and> (\<forall>n \<in> fst ` set (infura_entries cfg). starts_with ''infura-'' n)"
proof -
  define f where "f = (\<lambda>idx :: nat. ''infura-'' @ dec_str (int idx + 1))"
  have "inj f" by (auto simp: f_def inj_def)
  have "infura_entries cfg = List.map_filter (\<lambda>(idx, key). map_option (Pair (f idx)) (infura_url_for_network (cfg_network cfg) key))
       (enumerate 0 (take (nat (max_infura_endpoints cfg)) (infura_ids cfg)))"
    by (simp add: infura_entries_def f_def)
  then have e: "distinct (map fst (infura_entries cfg)) \<and> fst ` set (infura_entries cfg) \<subseteq> f ` {0..}"
    by (simp only: map_filter_indexed [OF \<open>inj f\<close>] simp_thms)
  show ?thesis
  proof (intro conjI ballI)
    fix n assume "n \<in> fst ` set (infura_entries cfg)"
    then obtain idx where "n = f idx" using e by blast
    then show "starts_with ''infura-'' n" by (simp add: f_def)
  qed (rule conjunct1 [OF e])
qed

lemma alchemy_entry_names:
  assumes "load_from et c env = Inr cfg"
  shows "distinct (map fst (alchemy_entries cfg)) \<and> (\<forall>n \<in> fst ` set (alchemy_entries cfg). starts_with ''alchemy-'' n)"
proof -
  have "distinct (map fst (alchemy_entries cfg)) \<and> fst ` set (alchemy_entries cfg) \<subseteq> fst ` set (parse_alchemy_keys env)"
    unfolding alchemy_entries_def load_from_fields(3) [OF assms] by (rule map_filter_pair_names [OF conjunct1 [OF alchemy_names]])
  then show ?thesis using alchemy_names [of env] by blast
qed

lemma all_names:
  assumes "load_from et c env = Inr cfg"
  shows "distinct (map fst (explicit_rpc_urls cfg @ alchemy_entries cfg @ infura_entries cfg))"
    and "(name, url) \<in> set (explicit_rpc_urls cfg @ alchemy_entries cfg @ infura_entries cfg) \<Longrightarrow>
      starts_with ''rpc-'' name \<or> starts_with ''getblock-'' name \<or> starts_with ''alchemy-'' name \<or> starts_with ''infura-'' name"
proof -
  note f = load_from_fields [OF assms]
  have e: "distinct (map fst (explicit_rpc_urls cfg))"
      "\<forall>n \<in> fst ` set (explicit_rpc_urls cfg). starts_with ''rpc-'' n \<or> starts_with ''getblock-'' n"
    unfolding f(2) using parse_rpc_urls_ok numbered_distinct numbered_prefix by blast+
  have a: "distinct (map fst (alchemy_entries cfg))" "\<forall>n \<in> fst ` set (alchemy_entries cfg). starts_with ''alchemy-'' n"
    using alchemy_entry_names [OF assms] by blast+
  have i: "distinct (map fst (infura_entries cfg))" "\<forall>n \<in> fst ` set (infura_entries cfg). starts_with ''infura-'' n"
    using infura_names by blast+
  have "fst ` set (explicit_rpc_urls cfg) \<inter> fst ` set (alchemy_entries cfg) = {}"
      "(fst ` set (explicit_rpc_urls cfg) \<union> fst ` set (alchemy_entries cfg)) \<inter> fst ` set (infura_entries cfg) = {}"
    using e(2) a(2) i(2) by (force simp: starts_with_iff)+
  then show "distinct (map fst (explicit_rpc_urls cfg @ alchemy_entries cfg @ infura_entries cfg))"
    using e(1) a(1) i(1) by (auto simp: distinct_append)
  show "(name, url) \<in> set (explicit_rpc_urls cfg @ alchemy_entries cfg @ infura_entries cfg) \<Longrightarrow>
      starts_with ''rpc-'' name \<or> starts_with ''getblock-'' name \<or> starts_with ''alchemy-'' name \<or> starts_with ''infura-'' name"
    using e(2) a(2) i(2) by (fastforce simp del: starts_with.simps)
qed

section \<open>A configuration that loads\<close>

text \<open>
  The environment of the witnesses: a network given in the environment, the test key, two endpoints and
  a threshold that is not a number.
\<close>

definition demo_text :: ethers_text where
  "demo_text = \<lparr>parse_wallet = (\<lambda>s. if length s = 64 then Some 20 else None), parse_address = (\<lambda>s. Some 30)\<rparr>"

definition demo_env :: "string \<Rightarrow> environment" where
  "demo_env network = [''NETWORK'' \<mapsto> network, ''EXECUTOR_PRIVATE_KEY'' \<mapsto> test_private_key,
     ''MEV_MIN_NET_PROFIT_ETH'' \<mapsto> ''nan'', ''RPC_URL_BSC'' \<mapsto> ''https://a, https://b.getblock.io'']"

definition demo_cli :: cli where
  "demo_cli = \<lparr>cli_wallets = ''keys.txt'', cli_network = ''ethereum''\<rparr>"

definition demo_networks :: "string list" where
  "demo_networks = [''bsc'', ''bnb'']"

definition is_ok :: "'e + 'a \<Rightarrow> bool" where
  "is_ok r = (case r of Inl _ \<Rightarrow> False | Inr _ \<Rightarrow> True)"

lemma is_ok_iff: "is_ok r \<longleftrightarrow> (\<exists>x. r = Inr x)"
  by (simp add: is_ok_def split: sum.split)

lemma then_ok: "is_ok r \<Longrightarrow> (\<And>x. is_ok (f x)) \<Longrightarrow> is_ok (and_then r f)"
  by (auto simp: is_ok_iff)

lemma ok_Inr [simp]: "is_ok (Inr x)"
  by (simp add: is_ok_def)

lemma demo_pieces:
  "list_all (\<lambda>n. load_network demo_cli (demo_env n) = n) demo_networks"
  "list_all (\<lambda>n. executor_private_key_candidate (demo_env n) False = Inr test_private_key) demo_networks"
  "list_all (\<lambda>n. is_ok (parse_monitored_tokens demo_text (demo_env n) n)) demo_networks"
  "list_all (\<lambda>n. is_ok (env_u64 (demo_env n) ''ESTIMATED_BUNDLE_OVERHEAD_GAS'' ''25000'')) demo_networks"
  "list_all (\<lambda>n. is_ok (env_usize (demo_env n) ''MAX_INFURA_ENDPOINTS'' ''2'')) demo_networks"
  "list_all (\<lambda>n. is_ok (parse_network_rpc_preference (demo_env n) n ''RPC_READ_PREFERENCE'')) demo_networks"
  "list_all (\<lambda>n. is_ok (parse_network_rpc_preference (demo_env n) n ''RPC_SEND_PREFERENCE'')) demo_networks"
  "list_all (\<lambda>n. is_ok (load_dashboard_addr (demo_env n))) demo_networks"
  "list_all (\<lambda>n. is_ok (load_thresholds (demo_env n))) demo_networks"
  "list_all (\<lambda>n. is_ok (load_mev demo_text (demo_env n) n False thresholds)) demo_networks"
  "list_all (\<lambda>n. \<not> env_flag (demo_env n) ''RUN_RUNTIME_LOAD_TEST'' \<and> \<not> env_flag (demo_env n) ''REPLAY_AUTO_TUNE_USE_IN_RUNTIME''
     \<and> n \<noteq> ''ethereum'' \<and> n \<noteq> ''polygon'') demo_networks"
  by code_simp+

lemma demo_addresses:
  "load_control_address et (demo_env n) test executor = Inr executor"
  "parse_optional_address_env et (demo_env n) ''VAULT_ADDRESS'' test = Inr None"
  "parse_optional_address_env et (demo_env n) ''PROFIT_ADDRESS'' test = Inr None"
  "parse_optional_address_env et (demo_env n) ''MEV_SEARCHER_RECIPIENT'' test = Inr None"
  "demo_env n ''ESTIMATED_EXEC_GAS'' = None" "demo_env n ''CHAIN_ID'' = None"
  "parse_wallet demo_text test_private_key = Some 20" "demo_env n ''MEV_MIN_NET_PROFIT_ETH'' = Some ''nan''"
  by (simp_all add: load_control_address_def parse_optional_address_env_def demo_env_def demo_text_def test_private_key_def)

lemma demo_loads:
  assumes "n \<in> set demo_networks"
  obtains cfg where "load_config demo_text fs demo_cli (demo_env n) = Inr (demo_env n, cfg)"
proof -
  note p = demo_pieces [unfolded list_all_iff, THEN bspec, OF assms]
  have "is_ok (load_from demo_text demo_cli (demo_env n))"
    unfolding load_from_def Let_def p(1)
    by (simp add: p(2,11) demo_addresses) (intro then_ok p ok_Inr)
  then obtain cfg where "load_from demo_text demo_cli (demo_env n) = Inr cfg" by (auto simp: is_ok_iff)
  then have "load_config demo_text fs demo_cli (demo_env n) = Inr (demo_env n, cfg)"
    using p(11) by (simp add: load_config_def apply_replay_tuned_runtime_env_def)
  then show ?thesis by (rule that)
qed

section \<open>Properties\<close>

lemma load_config_InrD:
  assumes "load_config et fs c env = Inr (env', cfg)"
  shows "load_from et c env' = Inr cfg" "apply_replay_tuned_runtime_env fs env = Inr env'"
  using assms by (auto simp: load_config_def and_then_eq_Inr)

lemma filtered_names: "distinct (map fst xs) \<Longrightarrow> distinct (map fst (filter p xs))"
  by (rule distinct_map_filter)

lemma rpc_urls_subset:
  assumes "\<not> tenderly_rpc_only cfg"
  obtains p where "rpc_urls env cfg = filter p (explicit_rpc_urls cfg @ alchemy_entries cfg @ infura_entries cfg)"
    "\<And>name url. p (name, url) \<Longrightarrow> rpc_name_allowed_for_network (cfg_network cfg) name"
proof (cases "rpc_provider_filter env (cfg_network cfg)")
  case None
  then show ?thesis using assms
    by (intro that [of "\<lambda>(name, url). rpc_name_allowed_for_network (cfg_network cfg) name"]) (simp_all add: rpc_urls_def)
next
  case (Some providers)
  then show ?thesis using assms
    by (intro that [of "\<lambda>(name, url). rpc_name_allowed_for_network (cfg_network cfg) name \<and> rpc_name_matches_filter name providers"])
      (simp_all add: rpc_urls_def conj_commute case_prod_unfold)
qed

lemma rpc_urls_distinct:
  assumes "load_from et c env = Inr cfg"
  shows "distinct (map fst (rpc_urls env' cfg))"
proof (cases "tenderly_rpc_only cfg")
  case True
  then show ?thesis by (simp add: rpc_urls_def split: option.split)
next
  case False
  obtain p where u: "rpc_urls env' cfg = filter p (explicit_rpc_urls cfg @ alchemy_entries cfg @ infura_entries cfg)"
    by (rule rpc_urls_subset [OF False, of env'])
  show ?thesis unfolding u by (rule filtered_names [OF all_names(1) [OF assms]])
qed

text \<open>
  C13: what loading guarantees. Whatever the environment and the files hold, if \<open>Config::load\<close> succeeds
  then no two endpoints of the fleet share a name and no two explicit endpoints share a URL up to case,
  the fan-outs and the loss limits of the executor are at least one, and the thresholds behind the lock
  are the ones of the configuration.
\<close>

theorem loaded_config_sound:
  assumes "load_config et fs c env = Inr (env', cfg)"
  shows "distinct (map fst (rpc_urls env'' cfg))
    \<and> distinct (map (\<lambda>(name, url). to_ascii_lowercase url) (explicit_rpc_urls cfg))
    \<and> 1 \<le> relay_fanout_count (mev cfg) \<and> 1 \<le> rpc_fanout_count (mev cfg)
    \<and> 1 \<le> stop_loss_consecutive_losses (mev cfg) \<and> 1 \<le> context_stop_loss_consecutive_losses (mev cfg)
    \<and> load_thresholds env' = Inr (runtime_thresholds (mev cfg))"
proof -
  note l = load_config_InrD(1) [OF assms]
  obtain th where th: "load_thresholds env' = Inr th"
    and m: "load_mev et env' (cfg_network cfg) (env_flag env' ''RUN_RUNTIME_LOAD_TEST'') th = Inr (mev cfg)"
    using load_from_fields(6) [OF l] by blast
  have "runtime_thresholds (mev cfg) = th" using load_mev_fields(1) [OF m] by (simp add: runtime_thresholds_def)
  moreover have "urls_apart (explicit_rpc_urls cfg)" unfolding load_from_fields(2) [OF l] using parse_rpc_urls_ok by blast
  ultimately show ?thesis
    using th load_mev_fields(3-6) [OF m] rpc_urls_distinct [OF l] by (simp add: urls_apart_def)
qed

theorem loaded_config_sound_witness:
  "\<exists>cfg. load_config demo_text Map.empty demo_cli (demo_env ''bsc'') = Inr (demo_env ''bsc'', cfg)
     \<and> distinct (map fst (rpc_urls (demo_env ''bsc'') cfg))"
proof -
  obtain cfg where "load_config demo_text Map.empty demo_cli (demo_env ''bsc'') = Inr (demo_env ''bsc'', cfg)"
    using demo_loads [of "''bsc''" Map.empty] by (auto simp: demo_networks_def)
  with loaded_config_sound [OF this] show ?thesis by blast
qed

section \<open>The fleet of a BNB chain\<close>

lemma allowed_on_bsc:
  assumes "network \<in> {''bsc'', ''bnb''}" "rpc_name_allowed_for_network network name"
    and "starts_with ''rpc-'' name \<or> starts_with ''getblock-'' name \<or> starts_with ''alchemy-'' name \<or> starts_with ''infura-'' name"
  shows "kind_of_name name = RkGetBlock"
proof -
  have "starts_with ''getblock-'' (to_ascii_lowercase name)"
    using assms(1,2) by (simp add: rpc_name_allowed_for_network_def Let_def)
  then have "starts_with ''getblock-'' name"
    using assms(3) unfolding starts_with_iff by (auto simp: to_ascii_lowercase_def ascii_lower_char_def Let_def)
  then show ?thesis by (auto simp: kind_of_name_def starts_with_iff)
qed

lemma build_endpoints_kinds:
  "build_endpoints url_error now idx urls = Inr es \<Longrightarrow> map re_kind es = map (kind_of_name \<circ> fst) urls"
  by (induction urls arbitrary: idx es) (auto simp: and_then_eq_Inr split: option.splits)

text \<open>
  C38: on the BNB chain the fleet that is built from a loaded configuration holds GetBlock endpoints only,
  unless the Tenderly fork is forced: Alchemy and Infura keys, and endpoints given under a plain
  \<open>RPC_URL\<close> that is not GetBlock's, are dropped, and with nothing else the fleet cannot be built.
\<close>

theorem bnb_fleet_is_getblock:
  assumes "load_config et fs c env = Inr (env', cfg)" "cfg_network cfg \<in> {''bsc'', ''bnb''}" "\<not> tenderly_rpc_only cfg"
  shows "(case rpc_fleet_from_config url_error (rpc_urls env' cfg) cfg now of
            Inr f \<Rightarrow> \<forall>e \<in> set (rf_endpoints f). re_kind e = RkGetBlock
          | Inl err \<Rightarrow> True)
    \<and> ((\<forall>(name, url) \<in> set (explicit_rpc_urls cfg). \<not> starts_with ''getblock-'' name)
        \<longrightarrow> rpc_fleet_from_config url_error (rpc_urls env' cfg) cfg now = Inl ''no RPC endpoints configured'')"
proof -
  note l = load_config_InrD(1) [OF assms(1)]
  obtain p where u: "rpc_urls env' cfg = filter p (explicit_rpc_urls cfg @ alchemy_entries cfg @ infura_entries cfg)"
    and p: "\<And>name url. p (name, url) \<Longrightarrow> rpc_name_allowed_for_network (cfg_network cfg) name"
    by (rule rpc_urls_subset [OF assms(3)]) blast
  have kept: "p (name, url) \<and> (name, url) \<in> set (explicit_rpc_urls cfg @ alchemy_entries cfg @ infura_entries cfg)"
    if "(name, url) \<in> set (rpc_urls env' cfg)" for name url
    using that unfolding u by (simp only: set_filter mem_Collect_eq)
  have kinds: "kind_of_name name = RkGetBlock" if "(name, url) \<in> set (rpc_urls env' cfg)" for name url
    using kept [OF that] all_names(2) [OF l] by (intro allowed_on_bsc [OF assms(2) p]) blast+
  have fleet: "re_kind e = RkGetBlock"
    if "rpc_fleet_from_config url_error (rpc_urls env' cfg) cfg now = Inr f" "e \<in> set (rf_endpoints f)" for f e
  proof -
    have "build_endpoints url_error now 0 (rpc_urls env' cfg) = Inr (rf_endpoints f)"
      using that(1) by (auto simp: rpc_fleet_from_config_def and_then_eq_Inr split: if_splits)
    then have "map re_kind (rf_endpoints f) = map (kind_of_name \<circ> fst) (rpc_urls env' cfg)" by (rule build_endpoints_kinds)
    moreover have "re_kind e \<in> set (map re_kind (rf_endpoints f))" using that(2) by simp
    ultimately have "re_kind e \<in> (kind_of_name \<circ> fst) ` set (rpc_urls env' cfg)" by simp
    then show ?thesis using kinds by auto
  qed
  have none: "rpc_urls env' cfg = []" if "\<forall>(name, url) \<in> set (explicit_rpc_urls cfg). \<not> starts_with ''getblock-'' name"
  proof -
    have "name_url \<notin> set (rpc_urls env' cfg)" for name_url
    proof
      assume in_urls: "name_url \<in> set (rpc_urls env' cfg)"
      obtain name url where nu: "name_url = (name, url)" by (cases name_url)
      have "kind_of_name name = RkGetBlock" using kinds in_urls nu by blast
      then have g: "starts_with ''getblock-'' name" by (auto simp: kind_of_name_def split: if_splits)
      have "(name, url) \<in> set (explicit_rpc_urls cfg @ alchemy_entries cfg @ infura_entries cfg)"
        using kept in_urls nu by blast
      moreover have "\<not> starts_with ''alchemy-'' name" "\<not> starts_with ''infura-'' name" using g by (auto simp: starts_with_iff)
      ultimately have "(name, url) \<in> set (explicit_rpc_urls cfg)"
        using infura_names [of cfg] alchemy_entry_names [OF l] by force
      with that g show False by blast
    qed
    then show ?thesis by (metis list.set_intros(1) neq_Nil_conv)
  qed
  show ?thesis using fleet none by (auto simp: rpc_fleet_from_config_def split: sum.split)
qed

text \<open>The configuration of the witnesses has one endpoint that is GetBlock's and one that is not.\<close>

lemma demo_explicit: "parse_rpc_urls (demo_env ''bsc'') ''bsc'' = [(''rpc-1'', ''https://a''), (''getblock-1'', ''https://b.getblock.io'')]"
  by code_simp

lemma demo_tenderly: "\<not> is_true (var_or (demo_env network) ''USE_TENDERLY_RPC_ONLY'' ''false'')"
proof -
  have "var_or (demo_env network) ''USE_TENDERLY_RPC_ONLY'' ''false'' = ''false''" by (simp add: var_or_def demo_env_def)
  moreover have "\<not> is_true ''false''" by code_simp
  ultimately show ?thesis by simp
qed

lemma demo_network: "load_network demo_cli (demo_env ''bsc'') = ''bsc''" "load_network demo_cli (demo_env ''bnb'') = ''bnb''"
  by code_simp+

theorem bnb_fleet_is_getblock_witness:
  "\<exists>cfg. load_config demo_text Map.empty demo_cli (demo_env ''bsc'') = Inr (demo_env ''bsc'', cfg)
     \<and> length (explicit_rpc_urls cfg) = 2
     \<and> (\<forall>f. rpc_fleet_from_config (\<lambda>_. None) (rpc_urls (demo_env ''bsc'') cfg) cfg 0 = Inr f \<longrightarrow>
          (\<forall>e \<in> set (rf_endpoints f). re_kind e = RkGetBlock))"
proof -
  obtain cfg where l: "load_config demo_text Map.empty demo_cli (demo_env ''bsc'') = Inr (demo_env ''bsc'', cfg)"
    using demo_loads [of "''bsc''" Map.empty] by (auto simp: demo_networks_def)
  note f = load_from_fields [OF load_config_InrD(1) [OF l]]
  have n: "cfg_network cfg = ''bsc''" by (simp only: f(1) demo_network)
  have "\<not> tenderly_rpc_only cfg" by (simp only: f(7) demo_tenderly not_False_eq_True)
  note fleet = bnb_fleet_is_getblock [OF l _ this, THEN conjunct1, of "\<lambda>_. None" 0]
  have "length (explicit_rpc_urls cfg) = 2" by (simp only: f(2) n demo_explicit) simp
  with l fleet n show ?thesis by (intro exI [of _ cfg]) (auto split: sum.splits)
qed

section \<open>The network name bnb\<close>

text \<open>
  The name \<open>bnb\<close> is treated as \<open>bsc\<close> by the URL builders, the provider rules, the finality default and
  the asset symbol, but not by the chain identifier, the monitored tokens and the variable names.
\<close>

lemma bnb_keys:
  "prioritized_network_keys ''bnb'' rpc_url_keys = [''RPC_URL'', ''RPC_URL_2'', ''RPC_URL_3'', ''RPC_URL_4'']"
  "prioritized_network_keys ''bnb'' getblock_url_keys = [''GETBLOCK_RPC_URL'', ''GETBLOCK_RPC_URL_2'', ''GETBLOCK_RPC_URL_3'']"
  "list_all (\<lambda>k. \<not> is_network_specific k) [''RPC_URL'', ''RPC_URL_2'', ''RPC_URL_3'', ''RPC_URL_4'',
     ''GETBLOCK_RPC_URL'', ''GETBLOCK_RPC_URL_2'', ''GETBLOCK_RPC_URL_3'']"
  by code_simp+

lemma bnb_urls:
  assumes "\<forall>k. \<not> is_network_specific k \<longrightarrow> env k = env' k"
  shows "parse_rpc_urls env ''bnb'' = parse_rpc_urls env' ''bnb''"
proof -
  have "env_items env k = env_items env' k"
    if "k \<in> set [''RPC_URL'', ''RPC_URL_2'', ''RPC_URL_3'', ''RPC_URL_4'',
       ''GETBLOCK_RPC_URL'', ''GETBLOCK_RPC_URL_2'', ''GETBLOCK_RPC_URL_3'']" for k
    using assms bnb_keys(3) that unfolding list_all_iff env_items_def by metis
  then show ?thesis
    unfolding parse_rpc_urls_def push_rpc_url_entries_def push_polygon_getblock_bnb_alias_def bnb_keys
    by (simp del: dec_str.simps)
qed

text \<open>
  A configuration for the network \<open>bnb\<close>, accepted as the name of the BNB chain elsewhere, gets the
  chain identifier of Ethereum and no monitored token, and reads none of the endpoint variables of that
  chain: its explicit endpoints are the same whatever the variables with a network in their name hold.
\<close>

theorem bnb_name_gets_wrong_chain:
  assumes "load_config et fs c env = Inr (env', cfg)" "cfg_network cfg = ''bnb''" "env' ''CHAIN_ID'' = None"
  shows "chain_id cfg = 1 \<and> native_asset_symbol cfg = ''BNB'' \<and> monitored_tokens cfg = []
    \<and> (\<forall>env2. (\<forall>k. \<not> is_network_specific k \<longrightarrow> env2 k = env' k) \<longrightarrow> parse_rpc_urls env2 ''bnb'' = explicit_rpc_urls cfg)"
proof -
  note f = load_from_fields [OF load_config_InrD(1) [OF assms(1)]]
  have "chain_id cfg = 1" using f(4) assms(2,3) by (simp add: default_chain_id_def)
  moreover have "monitored_tokens cfg = []"
    using f(5) assms(2) by (simp add: parse_monitored_tokens_def monitored_tokens_env_name_def)
  moreover have "native_asset_symbol cfg = ''BNB''" using assms(2) by (simp add: native_asset_symbol_def)
  ultimately show ?thesis using f(2) bnb_urls assms(2) by metis
qed

theorem bnb_name_gets_wrong_chain_witness:
  "\<exists>cfg. load_config demo_text Map.empty demo_cli (demo_env ''bnb'') = Inr (demo_env ''bnb'', cfg) \<and> chain_id cfg = 1
     \<and> monitored_tokens cfg = []"
proof -
  obtain cfg where l: "load_config demo_text Map.empty demo_cli (demo_env ''bnb'') = Inr (demo_env ''bnb'', cfg)"
    using demo_loads [of "''bnb''" Map.empty] by (auto simp: demo_networks_def)
  have "cfg_network cfg = ''bnb''" by (simp only: load_from_fields(1) [OF load_config_InrD(1) [OF l]] demo_network)
  from bnb_name_gets_wrong_chain [OF l this demo_addresses(6)] l show ?thesis by blast
qed

section \<open>Thresholds that are not numbers\<close>

lemma nan_scaled: "NaN * x = (NaN :: f64)"
  by simp

lemma nan_threshold: "fmax NaN x = x"
  by (simp add: fmax_def)

text \<open>
  \<open>nan\<close> is a float for the parser, so a minimum profit of \<open>nan\<close> is accepted, and in every
  mode the threshold in force is then the floor of the formula, a ten-millionth of the native asset, where
  the default is a four-hundredth.
\<close>

theorem nan_profit_threshold_opens_gate:
  assumes "load_config et fs c env = Inr (env', cfg)"
    and "env' ''MEV_MIN_NET_PROFIT_ETH'' = Some v" "parse_f64 v = Some NaN"
  shows "effective_min_net_profit_eth (with_mode mode (mev cfg)) = dec 1 7"
proof -
  note s = load_from_fields(6) [OF load_config_InrD(1) [OF assms(1)]]
  then obtain th where th: "load_thresholds env' = Inr th"
    and m: "load_mev et env' (cfg_network cfg) (env_flag env' ''RUN_RUNTIME_LOAD_TEST'') th = Inr (mev cfg)" by blast
  have "th_min_net_profit_eth th = NaN"
    using th assms(2,3) by (auto simp: load_thresholds_def and_then_eq_Inr env_f64_def var_or_def)
  moreover have "runtime_thresholds (mev cfg) = th" using load_mev_fields(1) [OF m] by (simp add: runtime_thresholds_def)
  ultimately show ?thesis
    by (cases mode) (simp_all add: effective_min_net_profit_eth_def nan_scaled nan_threshold)
qed

theorem nan_profit_threshold_opens_gate_witness:
  "\<exists>cfg. load_config demo_text Map.empty demo_cli (demo_env ''bsc'') = Inr (demo_env ''bsc'', cfg)
     \<and> effective_min_net_profit_eth (with_mode Conservative (mev cfg)) = dec 1 7"
proof -
  obtain cfg where l: "load_config demo_text Map.empty demo_cli (demo_env ''bsc'') = Inr (demo_env ''bsc'', cfg)"
    using demo_loads [of "''bsc''" Map.empty] by (auto simp: demo_networks_def)
  have "parse_f64 ''nan'' = Some NaN" by code_simp
  from nan_profit_threshold_opens_gate [OF l demo_addresses(8) this] l show ?thesis by blast
qed

end
