(* ===== verification/TunerSafety.thy ===== *)
theory TunerSafety
  imports ReplaySafety ConfigSafety DecodeSafety
begin

text \<open>
  The loop from the replay tuner to the runtime: what the tuner writes into its environment file, and
  what loading that file changes in the configuration of the runtime.
\<close>

section \<open>What the tuner writes\<close>

definition tune_variables :: "string list" where
  "tune_variables = [''REPLAY_TUNE_THRESHOLD_MULTIPLIERS'', ''REPLAY_TUNE_PRIORITY_SHIFTS'',
     ''REPLAY_TUNE_TOXICITY_SHIFTS'', ''REPLAY_TUNE_GAS_EXTRA_BPS'']"

definition first_default_tuning :: replay_tuning where
  "first_default_tuning = \<lparr>rt_threshold_multiplier = dec 90 2, rt_priority_shift = - dec 5 2,
     rt_toxicity_shift = - dec 5 2, rt_gas_extra_bps = 0\<rparr>"

definition constant_env_file :: string where
  "constant_env_file =
     ''REPLAY_TUNE_GAS_EXTRA_BPS=0'' @ [CHR 0x0A] @ ''REPLAY_TUNE_PRIORITY_SHIFTS=-0.05'' @ [CHR 0x0A]
     @ ''REPLAY_TUNE_THRESHOLD_MULTIPLIERS=0.90'' @ [CHR 0x0A] @ ''REPLAY_TUNE_TOXICITY_SHIFTS=-0.05'' @ [CHR 0x0A]"

lemma default_grid:
  assumes "\<forall>k \<in> set tune_variables. env k = None"
  obtains ts where "replay_tuning_grid env = first_default_tuning # ts"
  using assms
  by (simp add: replay_tuning_grid_def env_f64_grid_def env_u64_grid_def tune_variables_def first_default_tuning_def Let_def)

lemma first_default_file: "env_file_text (recommended_env b) = constant_env_file" if "tr_tuning b = first_default_tuning"
proof -
  have "show_fixed2 (dec 90 2) = ''0.90''" "show_fixed2 (- dec 5 2) = ''-0.05''" "dec_str (uint (0 :: u64)) = ''0''"
    by code_simp+
  then show ?thesis
    using that by (simp add: env_file_text_def recommended_env_def first_default_tuning_def constant_env_file_def)
qed

text \<open>
  C22: with the default grid and outside scavenger mode, the environment file that the tuner writes is a
  constant: its content does not depend on the cases it was tuned on, as long as the first two tokens of
  the path differ in every case that decodes.
\<close>

theorem tuner_file_is_constant:
  assumes "replay_select ex cfg block cs profiles min_swap min_profit exports = Inr (out, Some (path, written))"
    and "\<forall>k \<in> set tune_variables. ry_environment ex k = None"
    and "opportunity_mode (mev cfg) \<noteq> Scavenger" "two_token_cases ex cfg min_swap cs"
  shows "written = constant_env_file"
proof -
  obtain ts where grid: "replay_tuning_grid (ry_environment ex) = first_default_tuning # ts"
    by (rule default_grid [OF assms(2)])
  obtain best candidates b where run: "tune_runs (run_replay_cases ex cfg block cs profiles min_swap min_profit)
      (first_default_tuning # ts) (pool_cache_new (pool_state_cache_ttl_ms (mev cfg))) None [] = Inr (best, candidates)"
    and b: "best = Some (b, out)" "written = env_file_text (recommended_env b)"
    using assms(1) unfolding replay_select_def Let_def grid
    by (auto simp: and_then_eq_Inr maybe_apply_recommended_env_def split: if_splits)
  have "rt_gas_extra_bps first_default_tuning = 0" by (simp add: first_default_tuning_def)
  from tuner_keeps_first_tuning [OF run cache_fits_new assms(3,4) this] b(1) have "tr_tuning b = first_default_tuning" by auto
  then show ?thesis using b(2) first_default_file by simp
qed

text \<open>A case that decodes, a swap of token 7 for token 8 through the V3 router, recorded without a gas price.\<close>

definition swap_case :: replay_input_case where
  "swap_case = demo_case\<lparr>ri_input := ''0x414bf389''\<rparr>"

definition swap_config :: config where
  "swap_config = demo_config\<lparr>monitored_tokens := [\<lparr>mt_address = 7, mt_decimals = 18, mt_price_eth = 1\<rparr>]\<rparr>"

definition reads_swap_call :: "replay_ext \<Rightarrow> replay_ext" where
  "reads_swap_call ex = (reads_empty_call ex)\<lparr>ry_text := \<lparr>parse_wallet = (\<lambda>_. None), parse_address = (\<lambda>_. Some 2)\<rparr>,
     ry_hex_decode := (\<lambda>_. Some V3_EXACT_INPUT_SINGLE), ry_avx2 := False, ry_abi := single_swap_abi 500,
     ry_env := fixed_ether_env 90\<rparr>"

definition swap_tx :: "u64 \<Rightarrow> pending_transaction" where
  "swap_tx i = single_swap_tx\<lparr>tx_from := 0, tx_gas := 300000, tx_nonce := ucast i, ptx_hash := ucast i\<rparr>"

lemma swap_case_decodes:
  "replay_transaction (reads_swap_call ex) swap_case i = Inr (swap_tx i)" "victim_gas_price (swap_tx i) = 0"
  "\<exists>s. decode_relevant_swap (ry_avx2 (reads_swap_call ex)) (ry_abi (reads_swap_call ex)) (ry_env (reads_swap_call ex)) (swap_tx i)
     (monitored_tokens swap_config) 50 (opportunity_mode (mev swap_config)) = Inr (Some s) \<and> swaps_two_tokens s"
proof -
  show "replay_transaction (reads_swap_call ex) swap_case i = Inr (swap_tx i)"
    by (simp add: replay_transaction_def reads_swap_call_def swap_case_def demo_case_def swap_tx_def single_swap_tx_def parse_u256_def)
  show "victim_gas_price (swap_tx i) = 0" by (simp add: victim_gas_price_def swap_tx_def single_swap_tx_def)
  have "tx_input (swap_tx i) = tx_input single_swap_tx" by (simp add: swap_tx_def)
  then have sel: "selector_of False (swap_tx i) = selector_of False single_swap_tx"
    by (simp add: selector_of_def cong: option.case_cong)
  have tx: "tx_to (swap_tx i) = Some 2" "tx_value (swap_tx i) = 0" by (simp_all add: swap_tx_def single_swap_tx_def)
  show "\<exists>s. decode_relevant_swap (ry_avx2 (reads_swap_call ex)) (ry_abi (reads_swap_call ex)) (ry_env (reads_swap_call ex)) (swap_tx i)
     (monitored_tokens swap_config) 50 (opportunity_mode (mev swap_config)) = Inr (Some s) \<and> swaps_two_tokens s"
    by (simp add: decode_relevant_swap_def reads_swap_call_def sel tx swap_config_def demo_mode as_u32_def estimate_notional_wei_def
        Let_def v3_signal_def swaps_two_tokens_def)
qed

lemma swap_two_tokens: "two_token_cases (reads_swap_call ex) swap_config 50 [swap_case]"
  unfolding two_token_cases_def
proof (intro allI ballI impI)
  fix i tx s c
  assume "c \<in> set [swap_case]" and tx: "replay_transaction (reads_swap_call ex) c (of_nat i) = Inr tx"
    and d: "decode_relevant_swap (ry_avx2 (reads_swap_call ex)) (ry_abi (reads_swap_call ex)) (ry_env (reads_swap_call ex)) tx
      (monitored_tokens swap_config) 50 (opportunity_mode (mev swap_config)) = Inr (Some s)"
  then have "tx = swap_tx (of_nat i)" using swap_case_decodes(1) [of ex "of_nat i"] by simp
  then show "swaps_two_tokens s" using d swap_case_decodes(3) [of ex "of_nat i"] by auto
qed

lemma swap_runs:
  "\<exists>out cache'. run_replay_cases (reads_swap_call ex) swap_config block [swap_case] profiles 50 min_profit t cache = Inr (out, cache')"
  using swap_case_decodes(3) [of ex 0]
  by (auto simp: run_replay_cases_def replay_case_def replay_decoded_def Let_def swap_case_decodes(1,2))

lemma swap_tunes:
  "\<exists>best' cands'. tune_runs (run_replay_cases (reads_swap_call ex) swap_config block [swap_case] profiles 50 min_profit)
     ts cache best cands = Inr (best', cands') \<and> (best \<noteq> None \<or> ts \<noteq> [] \<longrightarrow> best' \<noteq> None)"
proof (induction ts arbitrary: cache best cands)
  case (Cons t ts)
  obtain out cache1 where r: "run_replay_cases (reads_swap_call ex) swap_config block [swap_case] profiles 50 min_profit t cache = Inr (out, cache1)"
    using swap_runs by blast
  have "better_run (tuning_from_report t (ro_report out)) out best \<noteq> None" by (auto simp: better_run_def split: option.splits)
  with r Cons [of cache1 "better_run (tuning_from_report t (ro_report out)) out best"
      "cands @ [tuning_from_report t (ro_report out)]"] show ?case by (auto simp: Let_def)
qed simp

theorem tuner_file_is_constant_witness:
  "\<forall>ex. \<exists>out path written. replay_select (reads_swap_call ex) swap_config 7 [swap_case] [] 50 1 ''exports''
       = Inr (out, Some (path, written)) \<and> written = constant_env_file"
proof
  fix ex
  let ?ex = "reads_swap_call ex"
  have mode: "opportunity_mode (mev swap_config) \<noteq> Scavenger" by (simp add: demo_mode swap_config_def)
  have env: "ry_environment ?ex = ry_environment (reads_empty_call ex)" by (simp add: reads_swap_call_def)
  have unset: "\<forall>k \<in> set tune_variables. ry_environment ?ex k = None"
    by (simp add: env tune_variables_def reads_empty_call_def)
  have flags: "env_flag (ry_environment ?ex) ''REPLAY_AUTO_TUNE''" "env_flag (ry_environment ?ex) ''REPLAY_AUTO_TUNE_APPLY''"
    by (simp add: env reads_empty_call_def, code_simp)+
  obtain ts where grid: "replay_tuning_grid (ry_environment ?ex) = first_default_tuning # ts"
    by (rule default_grid [OF unset])
  obtain b out candidates where "tune_runs (run_replay_cases ?ex swap_config 7 [swap_case] [] 50 1)
      (first_default_tuning # ts) (pool_cache_new (pool_state_cache_ttl_ms (mev swap_config))) None [] = Inr (Some (b, out), candidates)"
    using swap_tunes [of ex 7 "[]" 1 "first_default_tuning # ts"] by fastforce
  then obtain path where r: "replay_select ?ex swap_config 7 [swap_case] [] 50 1 ''exports''
      = Inr (out, Some (path, env_file_text (recommended_env b)))"
    by (simp add: replay_select_def grid flags maybe_apply_recommended_env_def)
  from tuner_file_is_constant [OF r unset mode swap_two_tokens] r
  show "\<exists>out path written. replay_select ?ex swap_config 7 [swap_case] [] 50 1 ''exports''
       = Inr (out, Some (path, written)) \<and> written = constant_env_file" by blast
qed

section \<open>What loading it changes\<close>

text \<open>The environment without the variables of the tuner.\<close>

definition untuned :: "environment \<Rightarrow> environment" where
  "untuned env = (\<lambda>k. if starts_with ''REPLAY_TUNE_'' k then None else env k)"

lemma untuned_var: "\<not> starts_with ''REPLAY_TUNE_'' k \<Longrightarrow> untuned env k = env k"
  by (simp add: untuned_def)

lemma untuned_reads:
  assumes "\<not> starts_with ''REPLAY_TUNE_'' k"
  shows "var_or (untuned env) k d = var_or env k d" "trimmed_var p (untuned env) k = trimmed_var p env k"
    "env_flag (untuned env) k = env_flag env k" "env_items (untuned env) k = env_items env k"
    "env_f64 (untuned env) k d = env_f64 env k d" "env_u64 (untuned env) k d = env_u64 env k d"
    "env_u32 (untuned env) k d = env_u32 env k d" "env_usize (untuned env) k d = env_usize env k d"
    "required_env (untuned env) k = required_env env k"
    "parse_optional_address_env et (untuned env) k test = parse_optional_address_env et env k test"
  using untuned_var [OF assms, of env]
  by (simp_all add: var_or_def trimmed_var_def env_flag_def env_items_def env_f64_def env_u64_def env_u32_def env_usize_def
      required_env_def parse_optional_address_env_def)

lemma untuned_nonblank:
  "list_all (\<lambda>k. \<not> starts_with ''REPLAY_TUNE_'' k) keys \<Longrightarrow> first_nonblank (untuned env) keys = first_nonblank env keys"
  by (induction keys) (simp_all add: untuned_var split: option.split)

lemma push_new_set: "set (fold ConfigLoad.push_new xs acc) = set xs \<union> set acc"
  by (induction xs arbitrary: acc) (auto simp: ConfigLoad.push_new_def)

lemma prioritize_set: "set (prioritize m network keys) \<subseteq> set keys"
proof -
  have "set (fold (\<lambda>suffix. fold ConfigLoad.push_new (filter (m suffix) keys)) ss acc) \<subseteq> set keys \<union> set acc" for ss acc
  proof (induction ss arbitrary: acc)
    case (Cons a ss)
    from Cons [of "fold ConfigLoad.push_new (filter (m a) keys) acc"] show ?case by (auto simp: push_new_set)
  qed simp
  from this [of "network_suffixes network" "[]"] show ?thesis
    by (auto simp: prioritize_def push_new_set Let_def)
qed

lemma prioritized_all:
  "list_all p keys \<Longrightarrow> list_all p (prioritized_network_keys network keys)"
  "list_all p keys \<Longrightarrow> list_all p (prioritized_network_key_names network keys)"
  using prioritize_set unfolding prioritized_network_keys_def prioritized_network_key_names_def list_all_iff by blast+

lemma fold_env_items:
  assumes "list_all (\<lambda>k. \<not> starts_with ''REPLAY_TUNE_'' k) keys"
  shows "fold (\<lambda>key. fold f (env_items (untuned env) key)) keys acc = fold (\<lambda>key. fold f (env_items env key)) keys acc"
  using assms by (induction keys arbitrary: acc) (simp_all add: untuned_reads)

lemma plain_keys:
  "list_all (\<lambda>k. \<not> starts_with ''REPLAY_TUNE_'' k) rpc_url_keys"
  "list_all (\<lambda>k. \<not> starts_with ''REPLAY_TUNE_'' k) getblock_url_keys"
  "list_all (\<lambda>k. \<not> starts_with ''REPLAY_TUNE_'' k) mempool_ws_keys"
  by code_simp+

lemma untuned_urls: "parse_rpc_urls (untuned env) network = parse_rpc_urls env network"
  unfolding parse_rpc_urls_def push_rpc_url_entries_def push_polygon_getblock_bnb_alias_def
  by (simp add: fold_env_items prioritized_all plain_keys untuned_reads del: fold_simps)

lemma untuned_ws_items: "\<not> starts_with ''REPLAY_TUNE_'' k \<Longrightarrow> ws_items (untuned env) network k = ws_items env network k"
  by (simp add: ws_items_def untuned_var mempool_ws_alchemy_disabled_def untuned_reads cong: option.case_cong)

lemma untuned_ws: "parse_mempool_ws_urls (untuned env) network tenderly keys = parse_mempool_ws_urls env network tenderly keys"
proof -
  have "fold (\<lambda>key. fold push_distinct (ws_items (untuned env) network key)) ks acc
      = fold (\<lambda>key. fold push_distinct (ws_items env network key)) ks acc"
    if "list_all (\<lambda>k. \<not> starts_with ''REPLAY_TUNE_'' k) ks" for ks acc
    using that by (induction ks arbitrary: acc) (simp_all add: untuned_ws_items)
  from this [OF prioritized_all(1) [OF plain_keys(3)]] show ?thesis
    by (simp add: parse_mempool_ws_urls_def untuned_reads)
qed

lemma untuned_keys:
  "parse_alchemy_keys (untuned env) = parse_alchemy_keys env" "load_infura_ids (untuned env) = load_infura_ids env"
  "parse_builder_relays (untuned env) relay = parse_builder_relays env relay"
  by (simp_all add: parse_alchemy_keys_def load_infura_ids_def parse_builder_relays_def untuned_var untuned_reads)

lemma untuned_preference:
  "parse_network_rpc_preference (untuned env) network ''RPC_READ_PREFERENCE'' = parse_network_rpc_preference env network ''RPC_READ_PREFERENCE''"
  "parse_network_rpc_preference (untuned env) network ''RPC_SEND_PREFERENCE'' = parse_network_rpc_preference env network ''RPC_SEND_PREFERENCE''"
  by (simp_all add: parse_network_rpc_preference_def untuned_nonblank prioritized_all network_env_keys_def)

lemma untuned_tokens: "parse_monitored_tokens et (untuned env) network = parse_monitored_tokens et env network"
  by (simp add: parse_monitored_tokens_def monitored_tokens_env_name_def untuned_reads)

lemma untuned_loaders:
  "load_network c (untuned env) = load_network c env"
  "executor_private_key_candidate (untuned env) test = executor_private_key_candidate env test"
  "load_control_address et (untuned env) test executor = load_control_address et env test executor"
  "load_dashboard_addr (untuned env) = load_dashboard_addr env"
  "load_thresholds (untuned env) = load_thresholds env"
  by (simp_all add: load_network_def executor_private_key_candidate_def load_control_address_def load_dashboard_addr_def
      load_thresholds_def untuned_var untuned_reads Let_def cong: option.case_cong)

lemma untuned_mev: "load_mev et (untuned env) network test th = load_mev et env network test th"
  unfolding load_mev_def
  by (simp add: untuned_reads parse_network_optional_u64_def untuned_nonblank prioritized_all)

lemma load_from_untuned: "load_from et c (untuned env) = load_from et c env"
  unfolding load_from_def
  by (simp add: untuned_loaders untuned_mev untuned_tokens untuned_preference untuned_keys untuned_ws untuned_urls
      untuned_reads untuned_var cong: if_cong)

section \<open>Reading the file back\<close>

definition plain :: "char \<Rightarrow> bool" where
  "plain ch \<longleftrightarrow> \<not> is_ws ch \<and> ch \<noteq> CHR 0x00 \<and> ch \<noteq> CHR ''=''"

lemma digit_plain: "is_digit ch \<Longrightarrow> plain ch"
  by (auto simp: plain_def is_ws_def is_digit_def digit_value_def)

lemma dec_str_plain: "0 \<le> n \<Longrightarrow> list_all plain (dec_str n)"
  using dec_str_digits digit_plain unfolding list_all_iff by blast

lemma rne_nonneg: "0 \<le> n \<Longrightarrow> 0 < d \<Longrightarrow> 0 \<le> rne n d"
  by (simp add: rne_def Let_def pos_imp_zdiv_nonneg_iff add_nonneg_nonneg)

lemma marks_plain: "plain (CHR ''-'')" "plain (CHR ''.'')" "plain (CHR ''N'')" "plain (CHR ''a'')" "plain (CHR ''i'')"
  "plain (CHR ''n'')" "plain (CHR ''f'')"
  by (simp_all add: plain_def is_ws_def)

lemma show_fixed2_plain: "list_all plain (show_fixed2 x)" "show_fixed2 x \<noteq> []"
proof -
  show "list_all plain (show_fixed2 x)"
  proof (cases x)
    case (Fin s m e)
    define n where "n = (if 0 \<le> e then \<bar>m\<bar> * 2 ^ nat e * 100 else rne (\<bar>m\<bar> * 100) (2 ^ nat (- e)))"
    have "0 \<le> n" by (simp add: n_def rne_nonneg)
    then have "list_all plain (dec_str (n div 100))" "list_all plain (dec_str (n mod 100 div 10))"
      "list_all plain (dec_str (n mod 100 mod 10))"
      by (intro dec_str_plain; simp add: pos_imp_zdiv_nonneg_iff)+
    moreover have "show_fixed2 x = (if s then ''-'' else []) @ dec_str (n div 100) @ ''.''
        @ dec_str (n mod 100 div 10) @ dec_str (n mod 100 mod 10)"
      by (simp add: Fin n_def Let_def)
    ultimately show ?thesis by (simp add: marks_plain)
  qed (auto simp: marks_plain)
  show "show_fixed2 x \<noteq> []" by (cases x) (simp_all add: Let_def)
qed

lemma trim_plain: "list_all (\<lambda>ch. \<not> is_ws ch) s \<Longrightarrow> trim s = s"
proof -
  assume a: "list_all (\<lambda>ch. \<not> is_ws ch) s"
  have d: "list_all (\<lambda>ch. \<not> is_ws ch) t \<Longrightarrow> dropWhile is_ws t = t" for t by (cases t) auto
  have "list_all (\<lambda>ch. \<not> is_ws ch) (rev s)" using a by (simp add: list_all_iff)
  with d a show ?thesis by (simp add: trim_def strip_ends_def)
qed

lemma split_once_at: "c \<notin> set k \<Longrightarrow> split_once c (k @ c # v) = Some (k, v)"
  by (induction k) auto

lemma tuned_line_entry:
  assumes "list_all plain k" "list_all plain v" "k \<noteq> []" "v \<noteq> []" "hd k \<noteq> CHR ''#''"
  shows "tuned_line (k @ ''='' @ v) = Some (k, v)"
proof -
  have eq: "\<not> is_ws (CHR ''='')" by (simp add: is_ws_def)
  have k: "list_all (\<lambda>ch. \<not> is_ws ch) k" and v: "list_all (\<lambda>ch. \<not> is_ws ch) v"
    using assms(1,2) unfolding list_all_iff plain_def by blast+
  have "list_all (\<lambda>ch. \<not> is_ws ch) (k @ ''='' @ v)" using k v eq by simp
  from trim_plain [OF this] trim_plain [OF k] trim_plain [OF v]
  have "trim (k @ ''='' @ v) = k @ ''='' @ v" "trim k = k" "trim v = v" by simp_all
  moreover have "CHR ''='' \<notin> set k" using assms(1) unfolding list_all_iff plain_def by blast
  moreover obtain a t where "k = a # t" using assms(3) by (cases k) auto
  ultimately show ?thesis using assms(3-5) split_once_at [of "CHR ''=''" k v] by (simp add: tuned_line_def Let_def)
qed

lemma split_on_lines: "\<forall>l \<in> set ls. c \<notin> set l \<Longrightarrow> split_on c (concat (map (\<lambda>l. l @ [c]) ls)) = ls @ [[]]"
proof (induction ls)
  case (Cons l ls)
  have "c \<notin> set l \<Longrightarrow> split_on c (l @ c # rest) = l # split_on c rest" for rest
    by (induction l) (auto split: list.split)
  with Cons show ?case by simp
qed simp

lemma entry_lines:
  assumes "\<forall>(k, v) \<in> set entries. list_all plain k \<and> list_all plain v"
  shows "str_lines (env_file_text entries) = map (\<lambda>(k, v). k @ ''='' @ v) entries"
proof -
  have nl: "\<not> plain (CHR 0x0A)" "\<not> plain (CHR 0x0D)" by (simp_all add: plain_def is_ws_def)
  have t: "env_file_text entries = concat (map (\<lambda>l. l @ [CHR 0x0A]) (map (\<lambda>(k, v). k @ ''='' @ v) entries))"
    by (simp add: env_file_text_def o_def case_prod_unfold)
  have lines: "CHR 0x0A \<notin> set l \<and> CHR 0x0D \<notin> set l" if "l \<in> set (map (\<lambda>(k, v). k @ ''='' @ v) entries)" for l
    using that assms nl by (fastforce simp: list_all_iff)
  then have "strip_cr l = l" if "l \<in> set (map (\<lambda>(k, v). k @ ''='' @ v) entries)" for l
    using that unfolding strip_cr_def by (metis last_in_set)
  then have "map strip_cr (map (\<lambda>(k, v). k @ ''='' @ v) entries) = map (\<lambda>(k, v). k @ ''='' @ v) entries"
    by (intro map_idI) blast
  with lines show ?thesis unfolding str_lines_def t by (subst split_on_lines) (auto simp: Let_def)
qed

lemma set_entries:
  assumes "\<forall>(k, v) \<in> set entries. list_all plain k \<and> list_all plain v \<and> k \<noteq> [] \<and> v \<noteq> [] \<and> hd k \<noteq> CHR ''#''"
  shows "set_tuned_vars (map (\<lambda>(k, v). k @ ''='' @ v) entries) env = Inr (env ++ map_of (rev entries))"
  using assms
proof (induction entries arbitrary: env)
  case (Cons p entries)
  obtain k v where p: "p = (k, v)" by (cases p)
  have "CHR 0x00 \<notin> set (k @ v)" using Cons.prems p by (auto simp: list_all_iff plain_def)
  moreover have "tuned_line (k @ ''='' @ v) = Some (k, v)" using Cons.prems p by (intro tuned_line_entry) auto
  ultimately show ?case using Cons p by (simp add: map_add_upd_left)
qed simp

lemma recommended_plain:
  "\<forall>(k, v) \<in> set (recommended_env b). list_all plain k \<and> list_all plain v \<and> k \<noteq> [] \<and> v \<noteq> [] \<and> hd k \<noteq> CHR ''#''
     \<and> starts_with ''REPLAY_TUNE_'' k"
proof -
  have keys: "list_all (\<lambda>k. list_all plain k \<and> k \<noteq> [] \<and> hd k \<noteq> CHR ''#'' \<and> starts_with ''REPLAY_TUNE_'' k) tune_variables"
    by code_simp
  have "fst ` set (recommended_env b) \<subseteq> set tune_variables" by (auto simp: recommended_env_def tune_variables_def)
  moreover have "list_all plain v \<and> v \<noteq> []" if "(k, v) \<in> set (recommended_env b)" for k v
    using that dec_str_plain [of "uint (rt_gas_extra_bps (tr_tuning b))"] by (auto simp: recommended_env_def show_fixed2_plain)
  ultimately show ?thesis using keys unfolding list_all_iff by fastforce
qed

text \<open>
  C21: the file of the tuner, the best tuning whatever it may be, changes nothing in the runtime. With
  \<open>REPLAY_AUTO_TUNE_USE_IN_RUNTIME\<close> set and the file in place, loading gives the configuration it gives
  without: the file sets only variables that the replay harness reads.
\<close>

theorem tuner_file_changes_nothing:
  assumes "fs (tuned_env_path env) = Some (TextFile (env_file_text (recommended_env b)))"
  shows "map_sum id snd (load_config et fs c env) = load_from et c env"
proof (cases "env_flag env ''REPLAY_AUTO_TUNE_USE_IN_RUNTIME''")
  case False
  then show ?thesis by (cases "load_from et c env") (simp_all add: load_config_def apply_replay_tuned_runtime_env_def)
next
  case True
  let ?env = "env ++ map_of (rev (recommended_env b))"
  have "str_lines (env_file_text (recommended_env b)) = map (\<lambda>(k, v). k @ ''='' @ v) (recommended_env b)"
    using recommended_plain [of b] by (intro entry_lines) blast
  moreover have "set_tuned_vars (map (\<lambda>(k, v). k @ ''='' @ v) (recommended_env b)) env = Inr ?env"
    using recommended_plain [of b] by (intro set_entries) blast
  ultimately have a: "apply_replay_tuned_runtime_env fs env = Inr ?env"
    using True assms by (simp add: apply_replay_tuned_runtime_env_def)
  have "map_of (rev (recommended_env b)) k = None" if "\<not> starts_with ''REPLAY_TUNE_'' k" for k
    using that recommended_plain [of b] by (fastforce simp: map_of_eq_None_iff)
  then have "untuned ?env = untuned env" by (auto simp: untuned_def map_add_def)
  then have "load_from et c ?env = load_from et c env" by (metis load_from_untuned)
  then show ?thesis using a by (cases "load_from et c env") (simp_all add: load_config_def)
qed

text \<open>On an environment that asks for the file, which carries any best tuning.\<close>

definition tuned_env :: environment where
  "tuned_env = (demo_env ''bsc'')(''REPLAY_AUTO_TUNE_USE_IN_RUNTIME'' \<mapsto> ''true'')"

theorem tuner_file_changes_nothing_witness:
  "env_flag tuned_env ''REPLAY_AUTO_TUNE_USE_IN_RUNTIME''
   \<and> (\<forall>b. map_sum id snd (load_config demo_text [tuned_env_path tuned_env \<mapsto> TextFile (env_file_text (recommended_env b))]
         demo_cli tuned_env) = load_from demo_text demo_cli tuned_env)"
proof (intro conjI allI)
  show "env_flag tuned_env ''REPLAY_AUTO_TUNE_USE_IN_RUNTIME''" by (simp add: tuned_env_def) code_simp
  show "map_sum id snd (load_config demo_text [tuned_env_path tuned_env \<mapsto> TextFile (env_file_text (recommended_env b))]
         demo_cli tuned_env) = load_from demo_text demo_cli tuned_env" for b
    by (rule tuner_file_changes_nothing [of _ _ b]) simp
qed

end
