(* ===== verification/Wallets.thy ===== *)
theory Wallets
  imports ConfigLoad
begin

text \<open>
  The wallet loader of \<open>src/wallets.rs\<close> and the wallet monitor of \<open>src/main.rs\<close>. Private keys are
  parsed by the \<open>ethers\<close> crate, and the JSON file by \<open>serde_json\<close>: the parser of the array of
  entries is an argument that gives the private keys. Counters are natural numbers, since each is at
  most the number of lines read.
\<close>

section \<open>Keys\<close>

record local_wallet =
  lw_key :: string
  lw_address :: address
  lw_chain_id :: u64

record loaded_wallets =
  wl_wallets :: "local_wallet list"
  wl_total_read :: nat
  wl_unique :: nat
  wl_duplicates :: nat
  wl_invalid :: nat

definition normalize_private_key :: "string \<Rightarrow> string option" where
  "normalize_private_key value =
     (let trimmed = (case strip_prefix ''0x'' (trim value) of Some t \<Rightarrow> t | None \<Rightarrow> trim value) in
      if length trimmed \<noteq> 64 \<or> \<not> list_all is_hexdigit trimmed then None
      else Some (''0x'' @ to_lowercase trimmed))"

definition empty_wallets :: loaded_wallets where
  "empty_wallets = \<lparr>wl_wallets = [], wl_total_read = 0, wl_unique = 0, wl_duplicates = 0, wl_invalid = 0\<rparr>"

text \<open>The body both loaders run for one key: \<open>seen\<close>, the wallets, the duplicates and the invalid keys.\<close>

record wallet_scan =
  ws_seen :: "string list"
  ws_wallets :: "local_wallet list"
  ws_duplicates :: nat
  ws_invalid :: nat

definition scan_key :: "ethers_text \<Rightarrow> u64 \<Rightarrow> string \<Rightarrow> wallet_scan \<Rightarrow> wallet_scan" where
  "scan_key et chain key s =
     (case normalize_private_key key of None \<Rightarrow> s\<lparr>ws_invalid := ws_invalid s + 1\<rparr>
      | Some normalized \<Rightarrow>
          if normalized \<in> set (ws_seen s) then s\<lparr>ws_duplicates := ws_duplicates s + 1\<rparr>
          else let s1 = s\<lparr>ws_seen := normalized # ws_seen s\<rparr>
               in case parse_wallet et normalized of
                    Some a \<Rightarrow> s1\<lparr>ws_wallets := ws_wallets s1 @
                        [\<lparr>lw_key = normalized, lw_address = a, lw_chain_id = chain\<rparr>]\<rparr>
                  | None \<Rightarrow> s1\<lparr>ws_invalid := ws_invalid s1 + 1\<rparr>)"

definition scan_keys :: "ethers_text \<Rightarrow> u64 \<Rightarrow> string list \<Rightarrow> wallet_scan" where
  "scan_keys et chain keys =
     fold (scan_key et chain) keys \<lparr>ws_seen = [], ws_wallets = [], ws_duplicates = 0, ws_invalid = 0\<rparr>"

definition load_from_keys_txt ::
  "ethers_text \<Rightarrow> file_system \<Rightarrow> string \<Rightarrow> u64 \<Rightarrow> load_error + loaded_wallets" where
  "load_from_keys_txt et fs path chain =
     (case fs path of None \<Rightarrow> Inr empty_wallets
      | Some UnreadableFile \<Rightarrow> Inl LeIo
      | Some (TextFile content) \<Rightarrow>
          (let keys = filter (\<lambda>l. l \<noteq> []) (map trim (str_lines content));
               s = scan_keys et chain keys
           in Inr \<lparr>wl_wallets = ws_wallets s, wl_total_read = length keys, wl_unique = length (ws_wallets s),
                   wl_duplicates = ws_duplicates s, wl_invalid = ws_invalid s\<rparr>))"

text \<open>\<open>entries\<close> stands for \<open>serde_json::from_str\<close>; no value is a parse error.\<close>

definition load_from_json ::
  "ethers_text \<Rightarrow> (string \<Rightarrow> string list option) \<Rightarrow> file_system \<Rightarrow> string \<Rightarrow> u64 \<Rightarrow> load_error + loaded_wallets" where
  "load_from_json et entries fs path chain =
     (case fs path of None \<Rightarrow> Inr empty_wallets
      | Some UnreadableFile \<Rightarrow> Inl LeIo
      | Some (TextFile content) \<Rightarrow>
          (case entries content of None \<Rightarrow> Inl LeJson
           | Some keys \<Rightarrow>
               (let s = scan_keys et chain keys; unique = length (ws_wallets s)
                in Inr \<lparr>wl_wallets = ws_wallets s, wl_total_read = unique + ws_duplicates s + ws_invalid s,
                        wl_unique = unique, wl_duplicates = ws_duplicates s, wl_invalid = ws_invalid s\<rparr>)))"

text \<open>\<open>Path::file_name\<close> and \<open>Path::extension\<close>.\<close>

definition file_name :: "string \<Rightarrow> string option" where
  "file_name path =
     (let parts = filter (\<lambda>c. c \<noteq> [] \<and> c \<noteq> ''.'') (split_on (CHR ''/'') path) in
      if parts = [] \<or> last parts = ''..'' then None else Some (last parts))"

definition path_extension :: "string \<Rightarrow> string option" where
  "path_extension path =
     (case file_name path of None \<Rightarrow> None
      | Some name \<Rightarrow>
          (case split_once (CHR ''.'') (rev name) of None \<Rightarrow> None
           | Some (ext, stem) \<Rightarrow> if stem = [] then None else Some (rev ext)))"

definition load_wallets ::
  "ethers_text \<Rightarrow> (string \<Rightarrow> string list option) \<Rightarrow> file_system \<Rightarrow> string \<Rightarrow> u64 \<Rightarrow> load_error + loaded_wallets" where
  "load_wallets et entries fs path chain =
     (if path_extension path = Some ''json'' then load_from_json et entries fs path chain
      else load_from_keys_txt et fs path chain)"

section \<open>The wallet monitor\<close>

definition executor_buffer_status :: "config \<Rightarrow> f64 \<Rightarrow> string" where
  "executor_buffer_status cfg balance =
     (if balance < executor_min_buffer_eth (mev cfg) then ''underfunded''
      else if executor_max_buffer_eth (mev cfg) < balance then ''overfunded''
      else if balance < executor_target_buffer_eth (mev cfg) then ''below_target''
      else ''healthy'')"

text \<open>The amount is printed in decimal and parsed again before the division.\<close>

definition main_wei_to_eth_f64 :: "u256 \<Rightarrow> f64" where
  "main_wei_to_eth_f64 value =
     (case parse_f64 (dec_str (uint value)) of Some x \<Rightarrow> x | None \<Rightarrow> 0) / dec (10 ^ 18) 0"

text \<open>A snapshot keeps the address and the balance; the dashboard prints the latter with six places.\<close>

record wallet_snapshot =
  sn_role :: string
  sn_address :: address
  sn_balance_eth :: f64
  sn_rpc :: string
  sn_status :: string
  sn_note :: string

record wallet_monitor =
  wm_fleet :: rpc_fleet
  wm_failure_streak :: u32
  wm_next_sleep :: duration
  wm_events :: "string list"
  wm_snapshots :: "wallet_snapshot list"
  wm_executor_balance :: "(f64 \<times> string) option"

text \<open>The answers of the node in one round: the block number, then the four balances.\<close>

record monitor_answers =
  ma_block_latency :: duration
  ma_block :: "string + u64"
  ma_executor :: "u256 option"
  ma_vault :: "u256 option"
  ma_profit :: "u256 option"
  ma_control :: "u256 option"

definition balance_snapshot ::
  "string \<Rightarrow> string \<Rightarrow> address \<Rightarrow> (f64 \<Rightarrow> string) \<Rightarrow> string \<Rightarrow> u256 option \<Rightarrow> wallet_snapshot list" where
  "balance_snapshot rpc role a status note answer =
     (case answer of None \<Rightarrow> []
      | Some wei \<Rightarrow> (let b = main_wei_to_eth_f64 wei
          in [\<lparr>sn_role = role, sn_address = a, sn_balance_eth = b, sn_rpc = rpc, sn_status = status b, sn_note = note\<rparr>]))"

definition monitor_snapshots :: "config \<Rightarrow> string \<Rightarrow> monitor_answers \<Rightarrow> wallet_snapshot list" where
  "monitor_snapshots cfg rpc ans =
     balance_snapshot rpc ''executor'' (executor_address cfg) (executor_buffer_status cfg) ''hot execution wallet'' (ma_executor ans)
     @ balance_snapshot rpc ''profit'' (profit_address cfg) (\<lambda>b. if 0 < b then ''harvesting'' else ''idle'')
         ''realized pnl destination'' (ma_profit ans)
     @ balance_snapshot rpc ''vault'' (vault_address cfg) (\<lambda>_. ''reserve'') ''cold treasury reserve'' (ma_vault ans)
     @ balance_snapshot rpc ''control'' (control_address cfg) (\<lambda>_. ''control'') ''coordination / admin path'' (ma_control ans)"

text \<open>After a good block number: the balances, the executor's status and the time to sleep.\<close>

definition monitor_balances :: "config \<Rightarrow> string \<Rightarrow> monitor_answers \<Rightarrow> wallet_monitor \<Rightarrow> wallet_monitor" where
  "monitor_balances cfg rpc ans m =
     (let m1 = (case ma_executor ans of None \<Rightarrow> m
            | Some wei \<Rightarrow>
                (let b = main_wei_to_eth_f64 wei; status = executor_buffer_status cfg b
                 in m\<lparr>wm_next_sleep := nanos_of_secs (if status = ''underfunded'' then 30 else 5),
                      wm_executor_balance := Some (b, status)\<rparr>));
          snapshots = monitor_snapshots cfg rpc ans
      in (if snapshots = [] then m1 else m1\<lparr>wm_snapshots := snapshots\<rparr>)\<lparr>wm_failure_streak := 0\<rparr>)"

text \<open>
  One round of \<open>wallet_monitor_loop\<close> with the time it sleeps after. \<open>answers\<close> are those of the endpoint
  that was chosen. The outcome of the panicking arithmetic of \<open>record_success\<close> is the panic.
\<close>

definition wallet_monitor_round ::
  "libm \<Rightarrow> nat option \<Rightarrow> config \<Rightarrow> bool \<Rightarrow> instant \<Rightarrow> (nat \<Rightarrow> monitor_answers) \<Rightarrow> wallet_monitor \<Rightarrow> panic + wallet_monitor \<times> duration" where
  "wallet_monitor_round lm rotate_env cfg paused now answers m =
     (if paused then Inr (m, nanos_of_secs 5)
      else case read_candidates lm rotate_env (wm_fleet m) now 1 of (fleet, handles) \<Rightarrow>
        (let m1 = m\<lparr>wm_fleet := fleet\<rparr> in
         case handles of [] \<Rightarrow> Inr (m1, nanos_of_secs 3)
         | h # _ \<Rightarrow>
             (let ans = answers (rh_id h) in
              case ma_block ans of
                Inr block \<Rightarrow>
                  and_then (rpc_record_success fleet now (rh_id h) (ma_block_latency ans) (Some block)) (\<lambda>fleet1.
                    let m2 = monitor_balances cfg (rh_name h) ans (m1\<lparr>wm_fleet := fleet1\<rparr>)
                    in Inr (m2, wm_next_sleep m2))
              | Inl err \<Rightarrow>
                  (let streak = sat_add (wm_failure_streak m1) 1;
                       m2 = m1\<lparr>wm_fleet := rpc_record_failure fleet now (rh_id h) (classify_failure err),
                               wm_failure_streak := streak\<rparr>
                   in Inr (if streak \<le> 3 \<or> streak mod 10 = 0
                           then m2\<lparr>wm_events := wm_events m2 @
                                  [''wallet monitor rpc probe failed endpoint='' @ rh_name h @ '': '' @ err]\<rparr> else m2,
                           nanos_of_secs 4)))))"

section \<open>Warnings at start\<close>

definition wallet_layout_events :: "config \<Rightarrow> string list" where
  "wallet_layout_events cfg =
     (if control_address cfg = executor_address cfg
        then [''control wallet matches executor wallet; hot/cold segregation is compromised''] else [])
     @ (if vault_address cfg = executor_address cfg
        then [''vault wallet matches executor wallet; hot/cold segregation is compromised''] else [])
     @ (if profit_address cfg = executor_address cfg
        then [''profit wallet matches executor wallet; hot-wallet profit isolation is compromised''] else [])
     @ (if control_address cfg = vault_address cfg \<and> vault_address cfg = profit_address cfg
        then [''initial two-wallet layout active: executor hot wallet is separated; control/vault/profit share one cold wallet'']
        else if vault_address cfg = profit_address cfg \<or> control_address cfg = vault_address cfg
                \<or> control_address cfg = profit_address cfg
        then [''partial cold-wallet overlap detected; acceptable for bootstrap, split control/vault/profit before larger capital'']
        else [])"

end
