(* ===== verification/WalletSafety.thy ===== *)
theory WalletSafety
  imports Wallets ConfigSafety
begin

text \<open>
  The wallet loader accounts for every key it reads, and what the warnings at start say of the layout
  that loading gives when no address is configured.
\<close>

section \<open>Every key is accounted for\<close>

definition scan_ok :: "ethers_text \<Rightarrow> u64 \<Rightarrow> nat \<Rightarrow> wallet_scan \<Rightarrow> bool" where
  "scan_ok et chain n s \<longleftrightarrow> n = length (ws_wallets s) + ws_duplicates s + ws_invalid s
     \<and> distinct (map lw_key (ws_wallets s)) \<and> set (map lw_key (ws_wallets s)) \<subseteq> set (ws_seen s)
     \<and> (\<forall>w \<in> set (ws_wallets s). parse_wallet et (lw_key w) = Some (lw_address w) \<and> lw_chain_id w = chain)"

lemma scan_key_ok: "scan_ok et chain n s \<Longrightarrow> scan_ok et chain (Suc n) (scan_key et chain key s)"
  by (auto simp: scan_ok_def scan_key_def Let_def split: option.split)

lemma scan_fold_ok: "scan_ok et chain n s \<Longrightarrow> scan_ok et chain (n + length keys) (fold (scan_key et chain) keys s)"
proof (induction keys arbitrary: n s)
  case (Cons key keys)
  from Cons.IH [OF scan_key_ok [OF Cons.prems]] show ?case by simp
qed simp

lemma scan_keys_ok: "scan_ok et chain (length keys) (scan_keys et chain keys)"
  unfolding scan_keys_def by (rule scan_fold_ok [of et chain 0, simplified]) (simp add: scan_ok_def)

definition wallets_ok :: "ethers_text \<Rightarrow> u64 \<Rightarrow> loaded_wallets \<Rightarrow> bool" where
  "wallets_ok et chain w \<longleftrightarrow>
     wl_total_read w = wl_unique w + wl_duplicates w + wl_invalid w \<and> wl_unique w = length (wl_wallets w)
     \<and> distinct (map lw_key (wl_wallets w))
     \<and> (\<forall>x \<in> set (wl_wallets w). parse_wallet et (lw_key x) = Some (lw_address x) \<and> lw_chain_id x = chain)"

lemma loaders_ok:
  "load_from_keys_txt et fs path chain = Inr w \<Longrightarrow> wallets_ok et chain w"
  "load_from_json et entries fs path chain = Inr w \<Longrightarrow> wallets_ok et chain w"
  using scan_keys_ok [of et chain] unfolding load_from_keys_txt_def load_from_json_def scan_ok_def
  by (auto simp: Let_def wallets_ok_def empty_wallets_def
      split: option.splits file_content.splits)

text \<open>
  C37: whatever the file holds, the counters of the loader add up to the keys it read, the wallets it
  keeps are as many as it reports, no key is kept twice, and each wallet has the address of its key and
  the chain it was loaded for.
\<close>

theorem wallet_keys_accounted:
  assumes "load_wallets et entries fs path chain = Inr w"
  shows "wl_total_read w = wl_unique w + wl_duplicates w + wl_invalid w \<and> wl_unique w = length (wl_wallets w)
    \<and> distinct (map lw_key (wl_wallets w))
    \<and> (\<forall>x \<in> set (wl_wallets w). parse_wallet et (lw_key x) = Some (lw_address x) \<and> lw_chain_id x = chain)"
proof -
  have "wallets_ok et chain w" using assms loaders_ok by (auto simp: load_wallets_def split: if_splits)
  then show ?thesis by (simp add: wallets_ok_def)
qed

text \<open>A file of three lines: a key, the same key in capitals, and a line that is no key.\<close>

definition key_lines :: string where
  "key_lines = replicate 64 (CHR ''a'') @ [CHR 0x0A] @ ''0x'' @ replicate 64 (CHR ''A'') @ [CHR 0x0A] @ ''secret''"

definition accepts_keys :: ethers_text where
  "accepts_keys = \<lparr>parse_wallet = (\<lambda>s. if length s = 66 then Some 20 else None), parse_address = (\<lambda>_. None)\<rparr>"

theorem wallet_keys_accounted_witness:
  "\<exists>w. load_wallets accepts_keys (\<lambda>_. None) [''keys.txt'' \<mapsto> TextFile key_lines] ''keys.txt'' 1 = Inr w
     \<and> wl_total_read w = 3 \<and> wl_unique w + wl_duplicates w + wl_invalid w = 3"
proof -
  have ext: "path_extension ''keys.txt'' = Some ''txt''" by code_simp
  have n: "length (filter (\<lambda>l. l \<noteq> []) (map trim (str_lines key_lines))) = 3" by code_simp
  obtain w where w: "load_wallets accepts_keys (\<lambda>_. None) [''keys.txt'' \<mapsto> TextFile key_lines] ''keys.txt'' 1 = Inr w"
    and "wl_total_read w = 3"
    using n by (simp add: load_wallets_def ext load_from_keys_txt_def Let_def)
  then show ?thesis using wallet_keys_accounted [OF w] by auto
qed

section \<open>The default layout\<close>

text \<open>
  When the four addresses are not configured they are all the executor's, and the warnings at start
  contradict one another: three say that the segregation of hot and cold wallets is compromised, the
  last that the executor's hot wallet is separated.
\<close>

theorem default_layout_contradicts:
  assumes "load_config et fs c env = Inr (env', cfg)"
    and "\<forall>k \<in> {''CONTROL_ADDRESS'', ''VAULT_ADDRESS'', ''PROFIT_ADDRESS'', ''MEV_SEARCHER_RECIPIENT''}. env' k = None"
  shows "wallet_layout_events cfg =
     [''control wallet matches executor wallet; hot/cold segregation is compromised'',
      ''vault wallet matches executor wallet; hot/cold segregation is compromised'',
      ''profit wallet matches executor wallet; hot-wallet profit isolation is compromised'',
      ''initial two-wallet layout active: executor hot wallet is separated; control/vault/profit share one cold wallet'']"
proof -
  note a = load_from_addresses [OF load_config_InrD(1) [OF assms(1)]]
  have "control_address cfg = executor_address cfg" using a(1) assms(2) by (simp add: load_control_address_def)
  moreover have "vault_address cfg = control_address cfg" "profit_address cfg = control_address cfg"
    using a(2,3) assms(2) by (simp_all add: parse_optional_address_env_def)
  ultimately show ?thesis by (simp add: wallet_layout_events_def)
qed

theorem default_layout_contradicts_witness:
  "\<exists>cfg. load_config demo_text Map.empty demo_cli (demo_env ''bsc'') = Inr (demo_env ''bsc'', cfg)
     \<and> length (wallet_layout_events cfg) = 4"
proof -
  obtain cfg where l: "load_config demo_text Map.empty demo_cli (demo_env ''bsc'') = Inr (demo_env ''bsc'', cfg)"
    using demo_loads [of "''bsc''" Map.empty] by (auto simp: demo_networks_def)
  have "\<forall>k \<in> {''CONTROL_ADDRESS'', ''VAULT_ADDRESS'', ''PROFIT_ADDRESS'', ''MEV_SEARCHER_RECIPIENT''}. demo_env ''bsc'' k = None"
    by (simp add: demo_env_def)
  with default_layout_contradicts [OF l] have "length (wallet_layout_events cfg) = 4" by simp
  with l show ?thesis by blast
qed

end
