(* ===== verification/LoadTest.thy ===== *)
theory LoadTest
  imports Replay
begin

text \<open>
  The runtime load test of \<open>src/benchmark.rs\<close>: synthetic transactions of seven kinds go through the
  decoder, the first gate and the adaptive policy of the runtime, on several workers with a policy each;
  their reports are merged and summarised. The clock, the time a stage takes, core pinning and the ABI
  encoder are arguments. The counters of a report and of a scenario are the same nine, kept as one record;
  they are natural numbers, since each is at most the number of iterations.
\<close>

section \<open>Scenarios\<close>

datatype runtime_load_profile = Baseline | Adversarial

datatype runtime_load_scenario = ScValid | ScMalformedCalldata | ScUnknownSelector | ScSmallNotional | ScToxicGas
  | ScLongPath | ScClusterBurst

fun load_profile_as_str :: "runtime_load_profile \<Rightarrow> string" where
  "load_profile_as_str Baseline = ''baseline''"
| "load_profile_as_str Adversarial = ''adversarial''"

fun scenario_as_str :: "runtime_load_scenario \<Rightarrow> string" where
  "scenario_as_str ScValid = ''valid''"
| "scenario_as_str ScMalformedCalldata = ''malformed_calldata''"
| "scenario_as_str ScUnknownSelector = ''unknown_selector''"
| "scenario_as_str ScSmallNotional = ''small_notional''"
| "scenario_as_str ScToxicGas = ''toxic_gas''"
| "scenario_as_str ScLongPath = ''long_path''"
| "scenario_as_str ScClusterBurst = ''cluster_burst''"

definition bench_env_u64 :: "environment \<Rightarrow> string \<Rightarrow> u64 \<Rightarrow> u64" where
  "bench_env_u64 env name d = (case Option.bind (env name) (\<lambda>v. parse_u64 (trim v)) of Some n \<Rightarrow> n | None \<Rightarrow> d)"

definition bench_env_usize :: "environment \<Rightarrow> string \<Rightarrow> nat \<Rightarrow> nat" where
  "bench_env_usize env name d = (case Option.bind (env name) (\<lambda>v. parse_usize (trim v)) of Some n \<Rightarrow> nat n | None \<Rightarrow> d)"

definition runtime_load_profile_of :: "environment \<Rightarrow> runtime_load_profile" where
  "runtime_load_profile_of env =
     (if to_ascii_lowercase (trim (var_or env ''RUNTIME_LOAD_TEST_PROFILE'' [])) = ''adversarial''
         \<or> env_flag env ''RUNTIME_LOAD_TEST_ADVERSARIAL'' then Adversarial else Baseline)"

definition runtime_load_scenario_of :: "nat \<Rightarrow> runtime_load_profile \<Rightarrow> runtime_load_scenario" where
  "runtime_load_scenario_of index profile =
     (if profile = Baseline then ScValid
      else let k = index mod 12 in
        if k = 0 then ScMalformedCalldata
        else if k = 1 then ScUnknownSelector
        else if k = 2 \<or> k = 3 then ScSmallNotional
        else if k = 4 \<or> k = 5 then ScToxicGas
        else if k = 6 \<or> k = 7 then ScLongPath
        else if k = 8 \<or> k = 9 then ScClusterBurst
        else ScValid)"

definition scenario_gas_price :: "u256 \<Rightarrow> runtime_load_scenario \<Rightarrow> u256" where
  "scenario_gas_price base sc = (if sc = ScToxicGas then sat_mul base 4 else base)"

definition runtime_load_gas_price_wei :: "environment \<Rightarrow> string \<Rightarrow> u256" where
  "runtime_load_gas_price_wei env network =
     (let default_gwei = (if network = ''arbitrum'' then 1 else if network = ''polygon'' then 80
            else if network = ''bsc'' then 3 else 25)
      in sat_mul (ucast (bench_env_u64 env ''RUNTIME_LOAD_TEST_GAS_PRICE_GWEI'' default_gwei)) 1000000000)"

section \<open>Synthetic transactions\<close>

definition low_u64 :: "u64 \<Rightarrow> 'a::len word" where
  "low_u64 x = ucast x"

definition synthetic_raw_tx :: "nat \<Rightarrow> nat \<Rightarrow> address \<Rightarrow> bytes \<Rightarrow> u256 \<Rightarrow> u256 \<Rightarrow> u64 \<Rightarrow> pending_transaction" where
  "synthetic_raw_tx worker_id index router input v gas_price_wei chain =
     \<lparr>tx_from = low_u64 (0x9000 + of_nat worker_id), tx_to = Some router, tx_input = input, tx_value = v,
      tx_gas_price = Some gas_price_wei, tx_gas = 240000, tx_nonce = of_nat index, tx_chain_id = Some (ucast chain),
      ptx_hash = low_u64 (or (push_bit 32 (of_nat worker_id)) (of_nat index)), ptx_max_fee_per_gas = None,
      ptx_block_number = None\<rparr>"

definition synthetic_path :: "nat \<Rightarrow> nat \<Rightarrow> address \<Rightarrow> address \<Rightarrow> nat \<Rightarrow> address list" where
  "synthetic_path worker_id index token_in token_out hops =
     [token_in] @ map (\<lambda>hop. low_u64 (0x3000 + of_nat (worker_id + index + hop) mod 8192)) [1..<hops - 1] @ [token_out]"

definition synthetic_v2_eth_swap_tx ::
  "abi \<Rightarrow> nat \<Rightarrow> nat \<Rightarrow> address \<Rightarrow> address \<Rightarrow> address \<Rightarrow> address \<Rightarrow> u256 \<Rightarrow> u256 \<Rightarrow> u64 \<Rightarrow> u64 \<Rightarrow> nat \<Rightarrow> pending_transaction" where
  "synthetic_v2_eth_swap_tx abi worker_id index router token_in token_out recipient base_value_wei gas_price_wei chain
       min_size_mult hops =
     (let size_mult = ucast (min_size_mult + of_nat (worker_id + index) mod 5 :: u64);
          calldata = [0x7f, 0xf3, 0x6a, 0xb5] @ abi_encode abi [TUint 0,
            TArray (map TAddress (synthetic_path worker_id index token_in token_out hops)), TAddress recipient, TUint 4102444800]
      in synthetic_raw_tx worker_id index router calldata (sat_mul base_value_wei size_mult) gas_price_wei chain)"

fun synthetic_runtime_tx ::
  "abi \<Rightarrow> runtime_load_scenario \<Rightarrow> nat \<Rightarrow> nat \<Rightarrow> address \<Rightarrow> address \<Rightarrow> address \<Rightarrow> address \<Rightarrow> u256 \<Rightarrow> u256 \<Rightarrow> u64 \<Rightarrow> pending_transaction" where
  "synthetic_runtime_tx abi ScMalformedCalldata w i router token_in token_out recipient min_swap gas_price chain =
     synthetic_raw_tx w i router [0x7f, 0xf3] min_swap gas_price chain"
| "synthetic_runtime_tx abi ScUnknownSelector w i router token_in token_out recipient min_swap gas_price chain =
     synthetic_raw_tx w i router [0xde, 0xad, 0xbe, 0xef, 0, 1, 2, 3] min_swap gas_price chain"
| "synthetic_runtime_tx abi ScSmallNotional w i router token_in token_out recipient min_swap gas_price chain =
     synthetic_v2_eth_swap_tx abi w i router token_in token_out recipient (min_swap div 10) gas_price chain 1 2"
| "synthetic_runtime_tx abi ScLongPath w i router token_in token_out recipient min_swap gas_price chain =
     synthetic_v2_eth_swap_tx abi w i router token_in token_out recipient min_swap gas_price chain 1 8"
| "synthetic_runtime_tx abi ScClusterBurst w i router token_in token_out recipient min_swap gas_price chain =
     synthetic_v2_eth_swap_tx abi w i router token_in (low_u64 0x2bad) recipient min_swap gas_price chain 3 2"
| "synthetic_runtime_tx abi sc w i router token_in token_out recipient min_swap gas_price chain =
     synthetic_v2_eth_swap_tx abi w i router token_in token_out recipient min_swap gas_price chain 3 2"

section \<open>Reports of the workers\<close>

record load_case_stats =
  lc_processed :: nat
  lc_decoded :: nat
  lc_decode_reject :: nat
  lc_fast_pass :: nat
  lc_fast_reject :: nat
  lc_preflight_pass :: nat
  lc_preflight_reject :: nat
  lc_quote_pass :: nat
  lc_quote_reject :: nat

definition no_cases :: load_case_stats where
  "no_cases = \<lparr>lc_processed = 0, lc_decoded = 0, lc_decode_reject = 0, lc_fast_pass = 0, lc_fast_reject = 0,
     lc_preflight_pass = 0, lc_preflight_reject = 0, lc_quote_pass = 0, lc_quote_reject = 0\<rparr>"

record load_samples =
  sm_decode_us :: "u64 list"
  sm_fast_preflight_us :: "u64 list"
  sm_adaptive_preflight_us :: "u64 list"
  sm_adaptive_quote_us :: "u64 list"
  sm_total_hot_gate_us :: "u64 list"

definition no_samples :: load_samples where
  "no_samples = \<lparr>sm_decode_us = [], sm_fast_preflight_us = [], sm_adaptive_preflight_us = [], sm_adaptive_quote_us = [],
     sm_total_hot_gate_us = []\<rparr>"

record load_worker_report =
  wr_counts :: load_case_stats
  wr_pinning_enabled :: bool
  wr_scenarios :: "string \<rightharpoonup> load_case_stats"
  wr_samples :: load_samples

definition empty_worker_report :: "bool \<Rightarrow> load_worker_report" where
  "empty_worker_report pinned = \<lparr>wr_counts = no_cases, wr_pinning_enabled = pinned, wr_scenarios = Map.empty, wr_samples = no_samples\<rparr>"

definition stats_or_none :: "load_case_stats option \<Rightarrow> load_case_stats" where
  "stats_or_none s = (case s of Some t \<Rightarrow> t | None \<Rightarrow> no_cases)"

text \<open>A counter goes up for the report and for the scenario.\<close>

definition count_case ::
  "(load_case_stats \<Rightarrow> load_case_stats) \<Rightarrow> runtime_load_scenario \<Rightarrow> load_worker_report \<Rightarrow> load_worker_report" where
  "count_case f sc r =
     r\<lparr>wr_counts := f (wr_counts r),
       wr_scenarios := (wr_scenarios r)(scenario_as_str sc \<mapsto> f (stats_or_none (wr_scenarios r (scenario_as_str sc))))\<rparr>"

definition sampled :: "(load_samples \<Rightarrow> load_samples) \<Rightarrow> load_worker_report \<Rightarrow> load_worker_report" where
  "sampled f r = r\<lparr>wr_samples := f (wr_samples r)\<rparr>"

definition push_total :: "u64 \<Rightarrow> load_worker_report \<Rightarrow> load_worker_report" where
  "push_total us = sampled (\<lambda>s. s\<lparr>sm_total_hot_gate_us := sm_total_hot_gate_us s @ [us]\<rparr>)"

text \<open>Warm-up iterations are not recorded.\<close>

definition recorded :: "bool \<Rightarrow> (load_worker_report \<Rightarrow> load_worker_report) \<Rightarrow> load_worker_report \<Rightarrow> load_worker_report" where
  "recorded b f r = (if b then f r else r)"

section \<open>One iteration\<close>

text \<open>A binary64 number rounded to binary32: 24 bits, exponents from -149, overflow at 2 to the 128.\<close>

fun to_f32 :: "f64 \<Rightarrow> f64" where
  "to_f32 (Fin s m e) =
     (let n = \<bar>m\<bar>; q = max (bitlen n + e - 24) (- 149);
          r = (if q \<le> e then n * 2 ^ nat (e - q) else rne n (2 ^ nat (q - e)))
      in if 128 < bitlen r + q then Infty s else fround_scaled s r 1 q)"
| "to_f32 x = x"

record load_ext =
  lx_libm :: libm
  lx_env :: runtime_env
  lx_avx2 :: bool
  lx_decoder :: abi_decoder
  lx_abi :: abi
  lx_now :: "nat \<Rightarrow> nat \<Rightarrow> instant"
  lx_quote_clock :: "nat \<Rightarrow> nat \<Rightarrow> nat \<Rightarrow> instant"
  lx_hour :: "nat \<Rightarrow> u8"
  lx_elapsed :: "nat \<Rightarrow> nat \<Rightarrow> string \<Rightarrow> u64"
  lx_pinned :: "nat \<Rightarrow> bool"

record load_ctx =
  lk_worker :: nat
  lk_index :: nat
  lk_record :: bool
  lk_scenario :: runtime_load_scenario
  lk_gas_price :: u256
  lk_min_swap :: u256
  lk_signal :: swap_signal
  lk_cluster :: cluster_key
  lk_context :: context_signal

type_synonym load_state = "adaptive_policy \<times> load_worker_report"

definition lk_elapsed :: "load_ext \<Rightarrow> load_ctx \<Rightarrow> string \<Rightarrow> u64" where
  "lk_elapsed ex k = lx_elapsed ex (lk_worker k) (lk_index k)"

definition load_execution_cost :: "config \<Rightarrow> u256 \<Rightarrow> u256" where
  "load_execution_cost cfg gas_price =
     sat_mul gas_price (ucast (max (sat_add (estimated_exec_gas cfg) (estimated_bundle_overhead_gas cfg)) 180000))"

definition load_quote :: "load_ext \<Rightarrow> config \<Rightarrow> string list \<Rightarrow> fast_preflight_decision \<Rightarrow> load_ctx \<Rightarrow> load_state \<Rightarrow> load_state" where
  "load_quote ex cfg relays fast k st =
     (case st of (policy, r) \<Rightarrow>
       (case quote_for_relays (lx_libm ex) (lx_quote_clock ex (lk_worker k) (lk_index k)) policy
               \<lparr>qi_cluster = lk_cluster k, qi_pair = ck_token_out (lk_cluster k), qi_hour_utc = lx_hour ex (lk_worker k),
                qi_context_priority_score = cs_priority_score (lk_context k),
                qi_context_toxicity_score = cs_toxicity_score (lk_context k),
                qi_expected_profit_wei = lk_min_swap k div 200,
                qi_execution_cost_wei = load_execution_cost cfg (lk_gas_price k),
                qi_gas_price_wei = lk_gas_price k, qi_lookup_latency_ms = fmax (to_f32 (fp_gas_ratio fast)) 0,
                qi_notional_eth = wei_to_eth_f64 (sg_notional_wei (lk_signal k)),
                qi_price_impact_bps = min (max_price_impact_bps (mev cfg)) 80, qi_relay_pressure_override = None\<rparr>
               relays of
          (policy1, q) \<Rightarrow>
            (let r1 = recorded (lk_record k) (\<lambda>r. push_total (lk_elapsed ex k ''total'')
                   (sampled (\<lambda>s. s\<lparr>sm_adaptive_quote_us := sm_adaptive_quote_us s @ [lk_elapsed ex k ''adaptive_quote'']\<rparr>) r)) r
             in (policy1, recorded (lk_record k)
                  (count_case (if aq_should_execute q then (\<lambda>s. s\<lparr>lc_quote_pass := lc_quote_pass s + 1\<rparr>)
                               else (\<lambda>s. s\<lparr>lc_quote_reject := lc_quote_reject s + 1\<rparr>)) (lk_scenario k)) r1))))"

definition load_preflight :: "load_ext \<Rightarrow> config \<Rightarrow> string list \<Rightarrow> fast_preflight_decision \<Rightarrow> load_ctx \<Rightarrow> load_state \<Rightarrow> load_state" where
  "load_preflight ex cfg relays fast k st =
     (case st of (policy, r) \<Rightarrow>
       (case preflight_score (lx_libm ex) policy (lx_now ex (lk_worker k) (lk_index k))
               \<lparr>pi_cluster = lk_cluster k, pi_notional_eth = wei_to_eth_f64 (sg_notional_wei (lk_signal k)),
                pi_gas_price_wei = lk_gas_price k, pi_path_len = int (path_len (lk_signal k))\<rparr> of
          (policy1, pq) \<Rightarrow>
            (let r1 = recorded (lk_record k)
                   (sampled (\<lambda>s. s\<lparr>sm_adaptive_preflight_us := sm_adaptive_preflight_us s @ [lk_elapsed ex k ''adaptive_preflight'']\<rparr>)) r
             in if \<not> pq_should_continue pq
                then (policy1, recorded (lk_record k) (\<lambda>r. push_total (lk_elapsed ex k ''total'')
                       (count_case (\<lambda>s. s\<lparr>lc_preflight_reject := lc_preflight_reject s + 1\<rparr>) (lk_scenario k) r)) r1)
                else load_quote ex cfg relays fast k (policy1,
                       recorded (lk_record k) (count_case (\<lambda>s. s\<lparr>lc_preflight_pass := lc_preflight_pass s + 1\<rparr>) (lk_scenario k)) r1))))"

definition load_decoded :: "load_ext \<Rightarrow> config \<Rightarrow> string list \<Rightarrow> load_ctx \<Rightarrow> load_state \<Rightarrow> load_state" where
  "load_decoded ex cfg relays k st =
     (case st of (policy, r) \<Rightarrow>
       (let r1 = recorded (lk_record k) (count_case (\<lambda>s. s\<lparr>lc_decoded := lc_decoded s + 1\<rparr>) (lk_scenario k)) r;
            policy1 = observe_candidate_flow policy (lx_now ex (lk_worker k) (lk_index k)) (lk_cluster k)
                        (sg_notional_wei (lk_signal k)) (lk_gas_price k);
            fast = fast_preflight_gate (lk_signal k) (lk_gas_price k) (lk_min_swap k) cfg (lk_context k);
            r2 = recorded (lk_record k)
                   (sampled (\<lambda>s. s\<lparr>sm_fast_preflight_us := sm_fast_preflight_us s @ [lk_elapsed ex k ''fast_preflight'']\<rparr>)) r1
        in if \<not> fp_should_continue fast
           then (policy1, recorded (lk_record k) (\<lambda>r. push_total (lk_elapsed ex k ''total'')
                  (count_case (\<lambda>s. s\<lparr>lc_fast_reject := lc_fast_reject s + 1\<rparr>) (lk_scenario k) r)) r2)
           else load_preflight ex cfg relays fast k (policy1,
                  recorded (lk_record k) (count_case (\<lambda>s. s\<lparr>lc_fast_pass := lc_fast_pass s + 1\<rparr>) (lk_scenario k)) r2)))"

definition load_router :: "config \<Rightarrow> nat \<Rightarrow> address" where
  "load_router cfg worker_id =
     (case mev_executor (mev cfg) of Some a \<Rightarrow> a | None \<Rightarrow> low_u64 (0x7000 + of_nat worker_id))"

definition load_token_in :: "config \<Rightarrow> address" where
  "load_token_in cfg = (case monitored_tokens cfg of [] \<Rightarrow> low_u64 0x1000 | t # _ \<Rightarrow> mt_address t)"

definition load_tx :: "load_ext \<Rightarrow> config \<Rightarrow> nat \<Rightarrow> nat \<Rightarrow> u256 \<Rightarrow> u256 \<Rightarrow> runtime_load_profile \<Rightarrow> pending_transaction" where
  "load_tx ex cfg worker_id index min_swap base_gas_price profile =
     (let sc = runtime_load_scenario_of index profile in
      synthetic_runtime_tx (lx_abi ex) sc worker_id index (load_router cfg worker_id) (load_token_in cfg)
        (low_u64 (0x2000 + of_nat (worker_id * 65537 + index) mod 4096)) (executor_address cfg) min_swap
        (scenario_gas_price base_gas_price sc) (chain_id cfg))"

definition load_iteration ::
  "load_ext \<Rightarrow> config \<Rightarrow> nat \<Rightarrow> nat \<Rightarrow> u256 \<Rightarrow> u256 \<Rightarrow> string list \<Rightarrow> runtime_load_profile \<Rightarrow> nat \<Rightarrow> load_state \<Rightarrow> panic + load_state" where
  "load_iteration ex cfg worker_id warmup min_swap base_gas_price relays profile index st =
     (let rec = (warmup \<le> index); sc = runtime_load_scenario_of index profile in
      and_then (decode_relevant_swap (lx_avx2 ex) (lx_decoder ex) (lx_env ex)
          (load_tx ex cfg worker_id index min_swap base_gas_price profile) (monitored_tokens cfg) min_swap
          (opportunity_mode (mev cfg))) (\<lambda>decoded.
        (case st of (policy, r) \<Rightarrow>
          (let r1 = recorded rec (\<lambda>r. count_case (\<lambda>s. s\<lparr>lc_processed := lc_processed s + 1\<rparr>) sc
                 (sampled (\<lambda>s. s\<lparr>sm_decode_us := sm_decode_us s @ [lx_elapsed ex worker_id index ''decode'']\<rparr>) r)) r
           in case decoded of
                None \<Rightarrow> Inr (policy, recorded rec (\<lambda>r. push_total (lx_elapsed ex worker_id index ''total'')
                          (count_case (\<lambda>s. s\<lparr>lc_decode_reject := lc_decode_reject s + 1\<rparr>) sc r)) r1)
              | Some s \<Rightarrow>
                  Inr (load_decoded ex cfg relays
                    \<lparr>lk_worker = worker_id, lk_index = index, lk_record = rec, lk_scenario = sc,
                     lk_gas_price = scenario_gas_price base_gas_price sc, lk_min_swap = min_swap, lk_signal = s,
                     lk_cluster = \<lparr>ck_router = sg_router s,
                       ck_token_in = (case sg_path s of [] \<Rightarrow> 0 | t # _ \<Rightarrow> t),
                       ck_token_out = (if sg_path s = [] then 0 else last (sg_path s)), ck_selector = sg_selector s\<rparr>,
                     lk_context = context_signal_for policy (sg_router s) (lx_hour ex worker_id)\<rparr>
                    (policy, r1))))))"

fun load_iterations ::
  "(nat \<Rightarrow> load_state \<Rightarrow> panic + load_state) \<Rightarrow> nat list \<Rightarrow> load_state \<Rightarrow> panic + load_state" where
  "load_iterations step [] st = Inr st"
| "load_iterations step (i # is) st = and_then (step i st) (load_iterations step is)"

definition runtime_load_worker ::
  "load_ext \<Rightarrow> config \<Rightarrow> nat \<Rightarrow> nat \<Rightarrow> nat \<Rightarrow> u256 \<Rightarrow> u256 \<Rightarrow> string list \<Rightarrow> runtime_load_profile \<Rightarrow> panic + load_worker_report" where
  "runtime_load_worker ex cfg worker_id cases warmup min_swap base_gas_price relays profile =
     map_sum id snd
       (load_iterations (load_iteration ex cfg worker_id warmup min_swap base_gas_price relays profile)
          [0..<min (cases + warmup) (2 ^ 64 - 1)]
          (adaptive_policy_new cfg, empty_worker_report (lx_pinned ex worker_id)))"

section \<open>The combined report\<close>

definition merge_case_stats :: "load_case_stats \<Rightarrow> load_case_stats \<Rightarrow> load_case_stats" where
  "merge_case_stats t s =
     \<lparr>lc_processed = lc_processed t + lc_processed s, lc_decoded = lc_decoded t + lc_decoded s,
      lc_decode_reject = lc_decode_reject t + lc_decode_reject s, lc_fast_pass = lc_fast_pass t + lc_fast_pass s,
      lc_fast_reject = lc_fast_reject t + lc_fast_reject s, lc_preflight_pass = lc_preflight_pass t + lc_preflight_pass s,
      lc_preflight_reject = lc_preflight_reject t + lc_preflight_reject s, lc_quote_pass = lc_quote_pass t + lc_quote_pass s,
      lc_quote_reject = lc_quote_reject t + lc_quote_reject s\<rparr>"

definition append_samples :: "load_samples \<Rightarrow> load_samples \<Rightarrow> load_samples" where
  "append_samples a b =
     \<lparr>sm_decode_us = sm_decode_us a @ sm_decode_us b, sm_fast_preflight_us = sm_fast_preflight_us a @ sm_fast_preflight_us b,
      sm_adaptive_preflight_us = sm_adaptive_preflight_us a @ sm_adaptive_preflight_us b,
      sm_adaptive_quote_us = sm_adaptive_quote_us a @ sm_adaptive_quote_us b,
      sm_total_hot_gate_us = sm_total_hot_gate_us a @ sm_total_hot_gate_us b\<rparr>"

text \<open>Every entry of the worker's map is merged into the entry of the same name.\<close>

definition merge_report :: "load_worker_report \<Rightarrow> load_worker_report \<Rightarrow> load_worker_report" where
  "merge_report a b =
     \<lparr>wr_counts = merge_case_stats (wr_counts a) (wr_counts b),
      wr_pinning_enabled = (wr_pinning_enabled a \<or> wr_pinning_enabled b),
      wr_scenarios = (\<lambda>k. case wr_scenarios b k of None \<Rightarrow> wr_scenarios a k
        | Some s \<Rightarrow> Some (merge_case_stats (stats_or_none (wr_scenarios a k)) s)),
      wr_samples = append_samples (wr_samples a) (wr_samples b)\<rparr>"

definition worker_share :: "nat \<Rightarrow> nat \<Rightarrow> nat \<Rightarrow> nat" where
  "worker_share n concurrency worker_id = n div concurrency + (if worker_id < n mod concurrency then 1 else 0)"

fun join_workers :: "(nat \<Rightarrow> panic + load_worker_report) \<Rightarrow> nat list \<Rightarrow> load_worker_report \<Rightarrow> panic + load_worker_report" where
  "join_workers worker [] combined = Inr combined"
| "join_workers worker (w # ws) combined =
     and_then (worker w) (\<lambda>r. join_workers worker ws (merge_report combined r))"

definition run_load_workers ::
  "load_ext \<Rightarrow> config \<Rightarrow> nat \<Rightarrow> nat \<Rightarrow> nat \<Rightarrow> u256 \<Rightarrow> u256 \<Rightarrow> string list \<Rightarrow> runtime_load_profile \<Rightarrow> panic + load_worker_report" where
  "run_load_workers ex cfg cases warmup concurrency min_swap base_gas_price relays profile =
     join_workers (\<lambda>w. runtime_load_worker ex cfg w (worker_share cases concurrency w) (worker_share warmup concurrency w)
         min_swap base_gas_price relays profile) [0..<concurrency] (empty_worker_report False)"

record latency_us_summary =
  us_count :: nat
  us_avg :: f64
  us_min :: u64
  us_p50 :: u64
  us_p95 :: u64
  us_p99 :: u64
  us_max :: u64

definition percentile_u64 :: "'a::zero list \<Rightarrow> nat \<Rightarrow> 'a" where
  "percentile_u64 values percentile =
     (if values = [] then 0 else values ! ((length values - 1) * percentile div 100))"

definition summarize_us :: "u64 list \<Rightarrow> latency_us_summary" where
  "summarize_us unsorted =
     (if unsorted = [] then \<lparr>us_count = 0, us_avg = 0, us_min = 0, us_p50 = 0, us_p95 = 0, us_p99 = 0, us_max = 0\<rparr>
      else let values = sort unsorted in
        \<lparr>us_count = length values, us_avg = foldl (+) 0 (map of_uw values) / of_count (length values), us_min = hd values,
         us_p50 = percentile_u64 values 50, us_p95 = percentile_u64 values 95, us_p99 = percentile_u64 values 99,
         us_max = last values\<rparr>)"

definition rate :: "nat \<Rightarrow> nat \<Rightarrow> f64" where
  "rate numerator denominator =
     (if denominator = 0 then 0 else of_count numerator * dec 100 0 / of_count denominator)"

definition all_rejects :: "load_case_stats \<Rightarrow> nat" where
  "all_rejects s = lc_decode_reject s + lc_fast_reject s + lc_preflight_reject s + lc_quote_reject s"

definition scenario_rejection_rate :: "(string \<rightharpoonup> load_case_stats) \<Rightarrow> string \<Rightarrow> f64" where
  "scenario_rejection_rate scenarios sc =
     (case scenarios sc of None \<Rightarrow> 0 | Some s \<Rightarrow> rate (all_rejects s) (lc_processed s))"

record runtime_load_report =
  lr_network :: string
  lr_profile :: string
  lr_cases :: nat
  lr_warmup :: nat
  lr_concurrency :: nat
  lr_wall_ms :: f64
  lr_throughput_tps :: f64
  lr_latency_budget_p99_us :: u64
  lr_budget_pass :: bool
  lr_merged :: load_worker_report
  lr_rejection_rate :: f64
  lr_malformed_rejection_rate :: f64
  lr_small_notional_rejection_rate :: f64
  lr_toxic_gas_rejection_rate :: f64
  lr_long_path_rejection_rate :: f64
  lr_cluster_burst_rejection_rate :: f64
  lr_decode :: latency_us_summary
  lr_fast_preflight :: latency_us_summary
  lr_adaptive_preflight :: latency_us_summary
  lr_adaptive_quote :: latency_us_summary
  lr_total_hot_gate :: latency_us_summary

text \<open>The summary sorts the samples of the report where they are.\<close>

definition sorted_samples :: "load_samples \<Rightarrow> load_samples" where
  "sorted_samples s =
     \<lparr>sm_decode_us = sort (sm_decode_us s), sm_fast_preflight_us = sort (sm_fast_preflight_us s),
      sm_adaptive_preflight_us = sort (sm_adaptive_preflight_us s), sm_adaptive_quote_us = sort (sm_adaptive_quote_us s),
      sm_total_hot_gate_us = sort (sm_total_hot_gate_us s)\<rparr>"

definition finalize_report ::
  "string \<Rightarrow> runtime_load_profile \<Rightarrow> nat \<Rightarrow> nat \<Rightarrow> nat \<Rightarrow> u64 \<Rightarrow> f64 \<Rightarrow> load_worker_report \<Rightarrow> runtime_load_report" where
  "finalize_report network profile cases warmup concurrency budget wall_ms merged =
     (let s = wr_samples merged; c = wr_counts merged; total = summarize_us (sm_total_hot_gate_us s) in
      \<lparr>lr_network = network, lr_profile = load_profile_as_str profile, lr_cases = cases, lr_warmup = warmup,
       lr_concurrency = concurrency, lr_wall_ms = wall_ms,
       lr_throughput_tps = (if wall_ms \<le> epsilon then 0 else of_count (lc_processed c) / (wall_ms / dec 1000 0)),
       lr_latency_budget_p99_us = budget, lr_budget_pass = (us_p99 total \<le> budget), lr_merged = merged\<lparr>wr_samples := sorted_samples s\<rparr>,
       lr_rejection_rate = rate (all_rejects c) (lc_processed c),
       lr_malformed_rejection_rate = scenario_rejection_rate (wr_scenarios merged) ''malformed_calldata'',
       lr_small_notional_rejection_rate = scenario_rejection_rate (wr_scenarios merged) ''small_notional'',
       lr_toxic_gas_rejection_rate = scenario_rejection_rate (wr_scenarios merged) ''toxic_gas'',
       lr_long_path_rejection_rate = scenario_rejection_rate (wr_scenarios merged) ''long_path'',
       lr_cluster_burst_rejection_rate = scenario_rejection_rate (wr_scenarios merged) ''cluster_burst'',
       lr_decode = summarize_us (sm_decode_us s), lr_fast_preflight = summarize_us (sm_fast_preflight_us s),
       lr_adaptive_preflight = summarize_us (sm_adaptive_preflight_us s),
       lr_adaptive_quote = summarize_us (sm_adaptive_quote_us s), lr_total_hot_gate = total\<rparr>)"

datatype load_test_error = LoadNotEther | LoadTaskFailed panic

text \<open>The whole test; \<open>None\<close> when it is not asked for. \<open>parallelism\<close> is the answer of the system.\<close>

definition maybe_run_runtime_load_test ::
  "load_ext \<Rightarrow> environment \<Rightarrow> nat \<Rightarrow> f64 \<Rightarrow> config \<Rightarrow> load_test_error + runtime_load_report option" where
  "maybe_run_runtime_load_test ex env parallelism wall_ms cfg =
     (if \<not> env_flag env ''RUN_RUNTIME_LOAD_TEST'' then Inr None
      else let cases = max (bench_env_usize env ''RUNTIME_LOAD_TEST_CASES'' 100000) 1;
               warmup = bench_env_usize env ''RUNTIME_LOAD_TEST_WARMUP'' 5000;
               concurrency = min (max (bench_env_usize env ''RUNTIME_LOAD_TEST_CONCURRENCY'' parallelism) 1) cases;
               budget = bench_env_u64 env ''RUNTIME_LOAD_TEST_LATENCY_BUDGET_US'' 250;
               profile = runtime_load_profile_of env;
               relays = (if builder_relays cfg = [] then [''direct-rpc''] else builder_relays cfg)
           in and_then (map_sum (\<lambda>_. LoadNotEther) id (rv_parse_ether_shown (lx_env ex) (min_large_swap_eth (mev cfg)))) (\<lambda>min_swap.
              and_then (map_sum LoadTaskFailed id (run_load_workers ex cfg cases warmup concurrency min_swap
                  (runtime_load_gas_price_wei env (cfg_network cfg)) relays profile)) (\<lambda>merged.
                Inr (Some (finalize_report (cfg_network cfg) profile cases warmup concurrency budget wall_ms merged)))))"

end
