(* ===== verification/NetBench.thy ===== *)
theory NetBench
  imports LoadTest Rpc
begin

text \<open>
  The network benchmark of \<open>src/benchmark.rs\<close>: probes of every endpoint, their summary, the score of an
  endpoint, and the rankings. The answer to the \<open>n\<close>-th call of a probe is an argument: its latency, or
  the text of its error.
\<close>

section \<open>Probes\<close>

record probe_metrics =
  pm_latencies :: "duration list"
  pm_errors :: "string list"
  pm_timeout_count :: nat

definition no_metrics :: probe_metrics where
  "no_metrics = \<lparr>pm_latencies = [], pm_errors = [], pm_timeout_count = 0\<rparr>"

definition single_error :: "string \<Rightarrow> probe_metrics" where
  "single_error message = \<lparr>pm_latencies = [], pm_errors = [message], pm_timeout_count = 0\<rparr>"

definition is_timeout_error :: "string \<Rightarrow> bool" where
  "is_timeout_error error =
     (let lower = to_ascii_lowercase error in str_contains ''timeout'' lower \<or> str_contains ''timed out'' lower)"

definition observe_answer :: "string + duration \<Rightarrow> probe_metrics \<Rightarrow> probe_metrics" where
  "observe_answer answer m =
     (case answer of
        Inr latency \<Rightarrow> m\<lparr>pm_latencies := pm_latencies m @ [latency]\<rparr>
      | Inl err \<Rightarrow>
          (let m1 = (if is_timeout_error err then m\<lparr>pm_timeout_count := pm_timeout_count m + 1\<rparr> else m)
           in m1\<lparr>pm_errors := pm_errors m1 @ [err]\<rparr>))"

text \<open>The calls of one round, from the number \<open>first\<close> on.\<close>

definition measure_async :: "(nat \<Rightarrow> string + duration) \<Rightarrow> nat \<Rightarrow> nat \<Rightarrow> probe_metrics" where
  "measure_async f first samples = fold (\<lambda>n. observe_answer (f n)) [first..<first + samples] no_metrics"

definition extend_metrics :: "probe_metrics \<Rightarrow> probe_metrics \<Rightarrow> probe_metrics" where
  "extend_metrics combined r =
     \<lparr>pm_latencies = pm_latencies combined @ pm_latencies r, pm_errors = pm_errors combined @ pm_errors r,
      pm_timeout_count = pm_timeout_count combined + pm_timeout_count r\<rparr>"

definition measure_rounds :: "nat \<Rightarrow> nat \<Rightarrow> (nat \<Rightarrow> string + duration) \<Rightarrow> probe_metrics" where
  "measure_rounds rounds samples f =
     fold (\<lambda>r combined. extend_metrics combined (measure_async f (r * samples) samples)) [0..<rounds] no_metrics"

section \<open>Summary and scores\<close>

record probe_summary =
  ps_avg_ms :: f64
  ps_min_ms :: int
  ps_max_ms :: int
  ps_p50_ms :: int
  ps_p95_ms :: int
  ps_jitter_ms :: f64
  ps_success_rate :: f64
  ps_ok_count :: nat
  ps_err_count :: nat
  ps_timeout_count :: nat

text \<open>\<open>u128 as f64\<close>.\<close>

definition of_u128 :: "int \<Rightarrow> f64" where
  "of_u128 n = fround False n 1"

fun total_delta :: "int list \<Rightarrow> f64 \<Rightarrow> f64" where
  "total_delta (a # b # rest) acc = total_delta (b # rest) (acc + \<bar>of_u128 b - of_u128 a\<bar>)"
| "total_delta rest acc = acc"

definition probe_summary_of :: "probe_metrics \<Rightarrow> probe_summary option" where
  "probe_summary_of m =
     (if pm_latencies m = [] then None
      else let millis = sort (map as_millis (pm_latencies m)); n = length millis; total = n + length (pm_errors m) in
        Some \<lparr>ps_avg_ms = of_u128 (sum_list millis) / of_count n, ps_min_ms = hd millis, ps_max_ms = last millis,
              ps_p50_ms = percentile_u64 millis 50, ps_p95_ms = percentile_u64 millis 95,
              ps_jitter_ms = (if n \<le> 1 then 0 else total_delta millis 0 / of_count (n - 1)),
              ps_success_rate = (if total = 0 then 0 else of_count n / of_count total),
              ps_ok_count = n, ps_err_count = length (pm_errors m), ps_timeout_count = pm_timeout_count m\<rparr>)"

definition probe_penalty :: "probe_summary \<Rightarrow> f64" where
  "probe_penalty s =
     of_u128 (ps_p50_ms s) * dec 20 2 + of_u128 (ps_p95_ms s) * dec 45 2 + ps_jitter_ms s * dec 15 2
       + (1 - ps_success_rate s) * dec 500 0 + of_count (ps_timeout_count s) * dec 25 0"

fun blend :: "probe_metrics list \<Rightarrow> f64 \<Rightarrow> nat \<Rightarrow> f64 \<times> nat" where
  "blend [] score counted = (score, counted)"
| "blend (m # ms) score counted =
     (case probe_summary_of m of None \<Rightarrow> blend ms score counted
      | Some s \<Rightarrow> blend ms (score + probe_penalty s) (counted + 1))"

definition blended_score :: "probe_metrics list \<Rightarrow> f64" where
  "blended_score metrics =
     (case blend metrics 0 0 of (score, counted) \<Rightarrow> if counted = 0 then Infty False else score / of_count counted)"

section \<open>Endpoints\<close>

text \<open>The answers of one endpoint. The bundle probe fails as a whole on a bad key or relay URL.\<close>

record bench_answers =
  ba_block :: "nat \<Rightarrow> string + duration"
  ba_gas :: "nat \<Rightarrow> string + duration"
  ba_batch :: "nat \<Rightarrow> string + duration"
  ba_nonce :: "nat \<Rightarrow> string + duration"
  ba_logs :: "nat \<Rightarrow> string + duration"
  ba_call :: "nat \<Rightarrow> string + duration"
  ba_recent_hash :: "h256 option"
  ba_receipt :: "nat \<Rightarrow> string + duration"
  ba_relay_url_error :: "string option"
  ba_bundle :: "nat \<Rightarrow> string + duration"

record endpoint_benchmark_report =
  eb_id :: nat
  eb_kind :: string
  eb_name :: string
  eb_url :: string
  eb_read_score :: f64
  eb_send_score :: f64
  eb_probes :: "(string \<times> probe_metrics) list"

definition benchmark_bundle_submission ::
  "ethers_text \<Rightarrow> environment \<Rightarrow> config \<Rightarrow> string \<Rightarrow> bench_answers \<Rightarrow> probe_metrics" where
  "benchmark_bundle_submission et env cfg key_error ans =
     (case parse_wallet et (executor_private_key cfg) of
        None \<Rightarrow> single_error (''failed to load sponsor wallet: '' @ key_error)
      | Some _ \<Rightarrow>
          (case ba_relay_url_error ans of
             Some err \<Rightarrow> single_error (''invalid relay url: '' @ err)
           | None \<Rightarrow> measure_async (ba_bundle ans) 0 (unat (bench_env_u64 env ''NETWORK_BENCHMARK_BUNDLE_SAMPLES'' 3))))"

definition benchmark_endpoint ::
  "ethers_text \<Rightarrow> environment \<Rightarrow> config \<Rightarrow> string \<Rightarrow> rpc_endpoint_snapshot \<Rightarrow> address list \<Rightarrow> nat \<Rightarrow> nat \<Rightarrow> bool \<Rightarrow> bench_answers
    \<Rightarrow> endpoint_benchmark_report" where
  "benchmark_endpoint et env cfg key_error snap addresses samples rounds bench_bundle ans =
     (let probe = measure_rounds rounds samples;
          with_wallets = (\<lambda>f. if addresses = [] then single_error ''skipped: no wallets loaded'' else probe f);
          block = probe (ba_block ans); gas = probe (ba_gas ans); batch = with_wallets (ba_batch ans);
          nonce = with_wallets (ba_nonce ans); logs = probe (ba_logs ans); call = probe (ba_call ans);
          receipt = (case ba_recent_hash ans of Some _ \<Rightarrow> probe (ba_receipt ans)
            | None \<Rightarrow> single_error ''skipped: no recent transaction hash available'');
          bundle = (if bench_bundle then benchmark_bundle_submission et env cfg key_error ans
            else single_error ''skipped: set NETWORK_BENCHMARK_BUNDLE=true'')
      in \<lparr>eb_id = sn_id snap, eb_kind = sn_kind snap, eb_name = sn_name snap, eb_url = sn_url snap,
          eb_read_score = blended_score [block, gas, batch, nonce, logs, call, receipt],
          eb_send_score = (if bench_bundle then blended_score [bundle] else blended_score [block, nonce, call]),
          eb_probes = [(''get_block_number'', block), (''get_gas_price'', gas), (''get_balances_batch'', batch),
            (''get_transaction_count'', nonce), (''get_logs'', logs), (''eth_call'', call),
            (''get_transaction_receipt'', receipt), (''send_bundle'', bundle)]\<rparr>)"

text \<open>The addresses probed and the number of calls.\<close>

definition bench_addresses :: "environment \<Rightarrow> address list \<Rightarrow> address list" where
  "bench_addresses env wallets =
     (let size = min (max (bench_env_usize env ''NETWORK_BENCHMARK_WALLETS'' 25) 1) (max (length wallets) 1)
      in take (min size (length wallets)) wallets)"

definition bench_samples :: "environment \<Rightarrow> nat" where
  "bench_samples env = unat (bench_env_u64 env ''NETWORK_BENCHMARK_SAMPLES'' 12)"

definition bench_rounds :: "environment \<Rightarrow> nat" where
  "bench_rounds env = max (bench_env_usize env ''NETWORK_BENCHMARK_ROUNDS'' 1) 1"

fun collect_reports :: "(string + endpoint_benchmark_report) list \<Rightarrow> string + endpoint_benchmark_report list" where
  "collect_reports [] = Inr []"
| "collect_reports (r # rs) = and_then r (\<lambda>x. and_then (collect_reports rs) (\<lambda>xs. Inr (x # xs)))"

text \<open>
  The reports in the order of the endpoints. \<open>order\<close> is the order in which the tasks finish; a task that
  was cancelled or panicked gives an error.
\<close>

definition run_network_benchmark ::
  "ethers_text \<Rightarrow> environment \<Rightarrow> config \<Rightarrow> string \<Rightarrow> address list \<Rightarrow> (nat \<Rightarrow> string + bench_answers)
    \<Rightarrow> rpc_endpoint_snapshot list \<Rightarrow> string + endpoint_benchmark_report list" where
  "run_network_benchmark et env cfg key_error wallets answers order =
     (let bundle = (env_flag env ''NETWORK_BENCHMARK_BUNDLE'' \<and> uses_bundle_relays cfg);
          task = (\<lambda>h. map_sum id (benchmark_endpoint et env cfg key_error h (bench_addresses env wallets) (bench_samples env)
            (bench_rounds env) bundle) (answers (sn_id h)))
      in and_then (collect_reports (map task order)) (\<lambda>reports. Inr (sort_by (\<lambda>a b. eb_id a \<le> eb_id b) reports)))"

text \<open>The rankings: the smaller score is the better one.\<close>

definition read_ranking :: "endpoint_benchmark_report list \<Rightarrow> endpoint_benchmark_report list" where
  "read_ranking = sort_by (\<lambda>a b. total_le (eb_read_score a) (eb_read_score b))"

definition send_ranking :: "endpoint_benchmark_report list \<Rightarrow> endpoint_benchmark_report list" where
  "send_ranking = sort_by (\<lambda>a b. total_le (eb_send_score a) (eb_send_score b))"

end
