(* ===== verification/BenchSafety.thy ===== *)
theory BenchSafety
  imports NetBench DecodeSafety
begin

text \<open>
  The benchmarks: the merged report of the load test accounts for every recorded iteration on every
  counter, sample and scenario, whatever the number of workers; passing the latency budget bounds the
  tail; and the jitter of a probe is the range of its latencies.
\<close>

section \<open>Accounting\<close>

definition all_scenarios :: "runtime_load_scenario list" where
  "all_scenarios = [ScValid, ScMalformedCalldata, ScUnknownSelector, ScSmallNotional, ScToxicGas, ScLongPath, ScClusterBurst]"

text \<open>What one recorded iteration adds, for each of its five ways out.\<close>

datatype load_outcome = DecodeReject | FastReject | PreflightReject | QuotePass | QuoteReject

abbreviation "plus_processed \<equiv> (\<lambda>s. s\<lparr>lc_processed := lc_processed s + 1\<rparr>)"
abbreviation "plus_decoded \<equiv> (\<lambda>s. s\<lparr>lc_decoded := lc_decoded s + 1\<rparr>)"
abbreviation "plus_fast_pass \<equiv> (\<lambda>s. s\<lparr>lc_fast_pass := lc_fast_pass s + 1\<rparr>)"
abbreviation "plus_preflight_pass \<equiv> (\<lambda>s. s\<lparr>lc_preflight_pass := lc_preflight_pass s + 1\<rparr>)"

fun add_outcome :: "load_outcome \<Rightarrow> load_case_stats \<Rightarrow> load_case_stats" where
  "add_outcome DecodeReject s = (let t = plus_processed s in t\<lparr>lc_decode_reject := lc_decode_reject t + 1\<rparr>)"
| "add_outcome FastReject s = (let t = plus_decoded (plus_processed s) in t\<lparr>lc_fast_reject := lc_fast_reject t + 1\<rparr>)"
| "add_outcome PreflightReject s =
     (let t = plus_fast_pass (plus_decoded (plus_processed s)) in t\<lparr>lc_preflight_reject := lc_preflight_reject t + 1\<rparr>)"
| "add_outcome QuotePass s =
     (let t = plus_preflight_pass (plus_fast_pass (plus_decoded (plus_processed s))) in t\<lparr>lc_quote_pass := lc_quote_pass t + 1\<rparr>)"
| "add_outcome QuoteReject s =
     (let t = plus_preflight_pass (plus_fast_pass (plus_decoded (plus_processed s))) in t\<lparr>lc_quote_reject := lc_quote_reject t + 1\<rparr>)"

definition sample_counts :: "load_samples \<Rightarrow> nat list" where
  "sample_counts s = [length (sm_decode_us s), length (sm_fast_preflight_us s), length (sm_adaptive_preflight_us s),
     length (sm_adaptive_quote_us s), length (sm_total_hot_gate_us s)]"

definition expected_samples :: "load_case_stats \<Rightarrow> nat list" where
  "expected_samples c = [lc_processed c, lc_decoded c, lc_fast_pass c, lc_preflight_pass c, lc_processed c]"

definition balanced :: "load_case_stats \<Rightarrow> bool" where
  "balanced c \<longleftrightarrow> lc_processed c = lc_decoded c + lc_decode_reject c \<and> lc_decoded c = lc_fast_pass c + lc_fast_reject c
     \<and> lc_fast_pass c = lc_preflight_pass c + lc_preflight_reject c \<and> lc_preflight_pass c = lc_quote_pass c + lc_quote_reject c"

definition scenario_stats :: "load_worker_report \<Rightarrow> runtime_load_scenario \<Rightarrow> load_case_stats" where
  "scenario_stats r sc = stats_or_none (wr_scenarios r (scenario_as_str sc))"

definition scenario_sum :: "load_worker_report \<Rightarrow> load_case_stats" where
  "scenario_sum r = foldr merge_case_stats (map (scenario_stats r) all_scenarios) no_cases"

definition report_ok :: "nat \<Rightarrow> load_worker_report \<Rightarrow> bool" where
  "report_ok n r \<longleftrightarrow> lc_processed (wr_counts r) = n \<and> balanced (wr_counts r)
     \<and> sample_counts (wr_samples r) = expected_samples (wr_counts r)
     \<and> (\<forall>sc. balanced (scenario_stats r sc)) \<and> scenario_sum r = wr_counts r"

definition adds_outcome :: "load_outcome \<Rightarrow> runtime_load_scenario \<Rightarrow> load_worker_report \<Rightarrow> load_worker_report \<Rightarrow> bool" where
  "adds_outcome a sc r r' \<longleftrightarrow> wr_counts r' = add_outcome a (wr_counts r)
     \<and> wr_scenarios r' = (wr_scenarios r)(scenario_as_str sc \<mapsto> add_outcome a (scenario_stats r sc))
     \<and> (sample_counts (wr_samples r) = expected_samples (wr_counts r)
          \<longrightarrow> sample_counts (wr_samples r') = expected_samples (wr_counts r'))"

lemmas load_report_ops = count_case_def sampled_def push_total_def recorded_def stats_or_none_def

lemma scenario_name_inject [simp]: "scenario_as_str a = scenario_as_str b \<longleftrightarrow> a = b"
  by (cases a; cases b) simp_all

lemma balanced_add: "balanced c \<Longrightarrow> balanced (add_outcome a c)"
  by (cases a) (simp_all add: balanced_def Let_def)

lemma sum_add:
  assumes "\<And>k. g k = (if k = sc then add_outcome a (f k) else f k)"
  shows "foldr merge_case_stats (map g all_scenarios) no_cases = add_outcome a (foldr merge_case_stats (map f all_scenarios) no_cases)"
  by (cases sc; cases a; simp add: all_scenarios_def assms merge_case_stats_def no_cases_def Let_def)

lemma report_ok_add:
  assumes "report_ok n r" "adds_outcome a sc r r'"
  shows "report_ok (Suc n) r'"
proof -
  have st: "scenario_stats r' k = (if k = sc then add_outcome a (scenario_stats r k) else scenario_stats r k)" for k
    using assms(2) by (simp add: adds_outcome_def scenario_stats_def stats_or_none_def)
  have "lc_processed (add_outcome a c) = Suc (lc_processed c)" for c by (cases a) (simp_all add: Let_def)
  moreover have "scenario_sum r' = add_outcome a (scenario_sum r)"
    unfolding scenario_sum_def by (rule sum_add [OF st])
  ultimately show ?thesis using assms balanced_add by (auto simp: report_ok_def adds_outcome_def st)
qed

lemma quote_report:
  "\<exists>policy' b. load_quote ex cfg relays fast k (policy, r) = (policy', if lk_record k then
     count_case (if b then (\<lambda>s. s\<lparr>lc_quote_pass := lc_quote_pass s + 1\<rparr>) else (\<lambda>s. s\<lparr>lc_quote_reject := lc_quote_reject s + 1\<rparr>))
       (lk_scenario k) (push_total (lk_elapsed ex k ''total'')
         (sampled (\<lambda>s. s\<lparr>sm_adaptive_quote_us := sm_adaptive_quote_us s @ [lk_elapsed ex k ''adaptive_quote'']\<rparr>) r)) else r)"
  unfolding load_quote_def recorded_def by (auto split: prod.split simp: Let_def)

lemma preflight_adds:
  assumes "load_preflight ex cfg relays fast k (policy, r) = (policy', r')" "lk_record k"
    and "wr_counts r = plus_fast_pass (plus_decoded (plus_processed (wr_counts r0)))"
    and "wr_scenarios r = (wr_scenarios r0)(scenario_as_str (lk_scenario k) \<mapsto>
           plus_fast_pass (plus_decoded (plus_processed (scenario_stats r0 (lk_scenario k)))))"
    and "sample_counts (wr_samples r) = map2 (+) [1, 1, 0, 0, 0] (sample_counts (wr_samples r0))"
  shows "\<exists>a. adds_outcome a (lk_scenario k) r0 r'"
proof -
  obtain policy1 pq where p: "preflight_score (lx_libm ex) policy (lx_now ex (lk_worker k) (lk_index k))
      \<lparr>pi_cluster = lk_cluster k, pi_notional_eth = wei_to_eth_f64 (sg_notional_wei (lk_signal k)),
       pi_gas_price_wei = lk_gas_price k, pi_path_len = int (path_len (lk_signal k))\<rparr> = (policy1, pq)"
    by fastforce
  let ?r1 = "sampled (\<lambda>s. s\<lparr>sm_adaptive_preflight_us := sm_adaptive_preflight_us s @ [lk_elapsed ex k ''adaptive_preflight'']\<rparr>) r"
  show ?thesis
  proof (cases "pq_should_continue pq")
    case False
    then have "r' = push_total (lk_elapsed ex k ''total'')
        (count_case (\<lambda>s. s\<lparr>lc_preflight_reject := lc_preflight_reject s + 1\<rparr>) (lk_scenario k) ?r1)"
      using assms(1,2) p by (simp add: load_preflight_def recorded_def)
    then show ?thesis using assms(3-5)
      by (intro exI [of _ PreflightReject])
        (simp add: adds_outcome_def load_report_ops sample_counts_def expected_samples_def Let_def)
  next
    case True
    let ?r2 = "count_case (\<lambda>s. s\<lparr>lc_preflight_pass := lc_preflight_pass s + 1\<rparr>) (lk_scenario k) ?r1"
    have "load_quote ex cfg relays fast k (policy1, ?r2) = (policy', r')"
      using assms(1,2) p True by (simp add: load_preflight_def recorded_def)
    moreover obtain policy2 b where "load_quote ex cfg relays fast k (policy1, ?r2) = (policy2, if lk_record k then
       count_case (if b then (\<lambda>s. s\<lparr>lc_quote_pass := lc_quote_pass s + 1\<rparr>) else (\<lambda>s. s\<lparr>lc_quote_reject := lc_quote_reject s + 1\<rparr>))
         (lk_scenario k) (push_total (lk_elapsed ex k ''total'')
           (sampled (\<lambda>s. s\<lparr>sm_adaptive_quote_us := sm_adaptive_quote_us s @ [lk_elapsed ex k ''adaptive_quote'']\<rparr>) ?r2)) else ?r2)"
      using quote_report by blast
    ultimately have "r' = count_case (if b then (\<lambda>s. s\<lparr>lc_quote_pass := lc_quote_pass s + 1\<rparr>)
          else (\<lambda>s. s\<lparr>lc_quote_reject := lc_quote_reject s + 1\<rparr>)) (lk_scenario k) (push_total (lk_elapsed ex k ''total'')
        (sampled (\<lambda>s. s\<lparr>sm_adaptive_quote_us := sm_adaptive_quote_us s @ [lk_elapsed ex k ''adaptive_quote'']\<rparr>) ?r2))"
      using assms(2) by simp
    then show ?thesis using assms(3-5)
      by (intro exI [of _ "if b then QuotePass else QuoteReject"])
        (simp add: adds_outcome_def load_report_ops sample_counts_def expected_samples_def Let_def)
  qed
qed

lemma decoded_adds:
  assumes "load_decoded ex cfg relays k (policy, r) = (policy', r')" "lk_record k"
    and "wr_counts r = plus_processed (wr_counts r0)"
    and "wr_scenarios r = (wr_scenarios r0)(scenario_as_str (lk_scenario k) \<mapsto> plus_processed (scenario_stats r0 (lk_scenario k)))"
    and "sample_counts (wr_samples r) = map2 (+) [1, 0, 0, 0, 0] (sample_counts (wr_samples r0))"
  shows "\<exists>a. adds_outcome a (lk_scenario k) r0 r'"
proof -
  define policy1 where "policy1 = observe_candidate_flow policy (lx_now ex (lk_worker k) (lk_index k)) (lk_cluster k)
    (sg_notional_wei (lk_signal k)) (lk_gas_price k)"
  define fast where "fast = fast_preflight_gate (lk_signal k) (lk_gas_price k) (lk_min_swap k) cfg (lk_context k)"
  define r2 where "r2 = sampled (\<lambda>s. s\<lparr>sm_fast_preflight_us := sm_fast_preflight_us s @ [lk_elapsed ex k ''fast_preflight'']\<rparr>)
    (count_case (\<lambda>s. s\<lparr>lc_decoded := lc_decoded s + 1\<rparr>) (lk_scenario k) r)"
  note d = assms(1) [unfolded load_decoded_def Let_def prod.case, folded policy1_def fast_def] assms(2)
  have r2: "wr_counts r2 = plus_decoded (plus_processed (wr_counts r0))"
    "wr_scenarios r2 = (wr_scenarios r0)(scenario_as_str (lk_scenario k) \<mapsto> plus_decoded (plus_processed (scenario_stats r0 (lk_scenario k))))"
    "sample_counts (wr_samples r2) = map2 (+) [1, 1, 0, 0, 0] (sample_counts (wr_samples r0))"
    using assms(3-5) by (simp_all add: r2_def load_report_ops sample_counts_def)
  show ?thesis
  proof (cases "fp_should_continue fast")
    case False
    then have "r' = push_total (lk_elapsed ex k ''total'') (count_case (\<lambda>s. s\<lparr>lc_fast_reject := lc_fast_reject s + 1\<rparr>) (lk_scenario k) r2)"
      using d by (simp add: recorded_def r2_def)
    then show ?thesis using r2
      by (intro exI [of _ FastReject]) (simp add: adds_outcome_def load_report_ops sample_counts_def expected_samples_def Let_def)
  next
    case True
    then have "load_preflight ex cfg relays fast k
        (policy1, count_case (\<lambda>s. s\<lparr>lc_fast_pass := lc_fast_pass s + 1\<rparr>) (lk_scenario k) r2) = (policy', r')"
      using d by (simp add: recorded_def r2_def)
    then show ?thesis
      by (rule preflight_adds) (use assms(2) r2 in \<open>simp_all add: load_report_ops sample_counts_def\<close>)
  qed
qed

lemma quiet_quote: "\<not> lk_record k \<Longrightarrow> snd (load_quote ex cfg relays fast k (policy, r)) = r"
  using quote_report [of ex cfg relays fast k policy r] by auto

lemma unrecorded:
  "\<not> lk_record k \<Longrightarrow> snd (load_decoded ex cfg relays k (policy, r)) = r"
  by (simp add: load_decoded_def load_preflight_def recorded_def quiet_quote Let_def split: prod.split)

lemma iteration_adds:
  assumes "load_iteration ex cfg w warmup min_swap gas relays profile i (policy, r) = Inr (policy', r')"
  shows "if warmup \<le> i then \<exists>a. adds_outcome a (runtime_load_scenario_of i profile) r r' else r' = r"
proof -
  let ?sc = "runtime_load_scenario_of i profile"
  let ?r1 = "count_case (\<lambda>s. s\<lparr>lc_processed := lc_processed s + 1\<rparr>) ?sc
     (sampled (\<lambda>s. s\<lparr>sm_decode_us := sm_decode_us s @ [lx_elapsed ex w i ''decode'']\<rparr>) r)"
  obtain decoded where d: "decode_relevant_swap (lx_avx2 ex) (lx_decoder ex) (lx_env ex) (load_tx ex cfg w i min_swap gas profile)
      (monitored_tokens cfg) min_swap (opportunity_mode (mev cfg)) = Inr decoded"
    using assms by (cases "decode_relevant_swap (lx_avx2 ex) (lx_decoder ex) (lx_env ex) (load_tx ex cfg w i min_swap gas profile)
      (monitored_tokens cfg) min_swap (opportunity_mode (mev cfg))") (auto simp: load_iteration_def Let_def)
  note it = assms [unfolded load_iteration_def Let_def d and_then.simps prod.case]
  show ?thesis
  proof (cases "warmup \<le> i")
    case False
    then show ?thesis using it by (auto simp: recorded_def unrecorded split: option.splits dest!: arg_cong [where f = snd])
  next
    case True
    show ?thesis
    proof (cases decoded)
      case None
      then have "r' = push_total (lx_elapsed ex w i ''total'') (count_case (\<lambda>s. s\<lparr>lc_decode_reject := lc_decode_reject s + 1\<rparr>) ?sc ?r1)"
        using it True by (simp add: recorded_def)
      then show ?thesis using True
        by (auto simp: adds_outcome_def load_report_ops sample_counts_def expected_samples_def scenario_stats_def Let_def
            intro!: exI [of _ DecodeReject])
    next
      case (Some s)
      define k where "k = \<lparr>lk_worker = w, lk_index = i, lk_record = True, lk_scenario = ?sc,
          lk_gas_price = scenario_gas_price gas ?sc, lk_min_swap = min_swap, lk_signal = s,
          lk_cluster = \<lparr>ck_router = sg_router s, ck_token_in = (case sg_path s of [] \<Rightarrow> 0 | t # _ \<Rightarrow> t),
            ck_token_out = (if sg_path s = [] then 0 else last (sg_path s)), ck_selector = sg_selector s\<rparr>,
          lk_context = context_signal_for policy (sg_router s) (lx_hour ex w)\<rparr>"
      have "load_decoded ex cfg relays k (policy, ?r1) = (policy', r')"
        using it True Some by (simp add: recorded_def k_def)
      then have "\<exists>a. adds_outcome a (lk_scenario k) r r'"
        by (rule decoded_adds) (simp_all add: k_def load_report_ops sample_counts_def scenario_stats_def)
      then show ?thesis using True by (simp add: k_def)
    qed
  qed
qed

lemma iterations_ok:
  "report_ok n r \<Longrightarrow>
   load_iterations (load_iteration ex cfg w warmup min_swap gas relays profile) is (policy, r) = Inr (policy', r') \<Longrightarrow>
   report_ok (n + length (filter (\<lambda>i. warmup \<le> i) is)) r'"
proof (induction "is" arbitrary: n policy r)
  case (Cons i "is")
  from Cons.prems(2) obtain policy1 r1 where s: "load_iteration ex cfg w warmup min_swap gas relays profile i (policy, r) = Inr (policy1, r1)"
    "load_iterations (load_iteration ex cfg w warmup min_swap gas relays profile) is (policy1, r1) = Inr (policy', r')"
    by (auto simp: and_then_eq_Inr)
  show ?case
  proof (cases "warmup \<le> i")
    case True
    then obtain a where "adds_outcome a (runtime_load_scenario_of i profile) r r1" using iteration_adds [OF s(1)] by auto
    from Cons.IH [OF report_ok_add [OF Cons.prems(1) this] s(2)] True show ?thesis by simp
  next
    case False
    then have "r1 = r" using iteration_adds [OF s(1)] by simp
    with Cons.IH [OF _ s(2)] Cons.prems(1) False show ?thesis by simp
  qed
qed simp

lemma empty_report_ok: "report_ok 0 (empty_worker_report p)"
  by (simp add: report_ok_def empty_worker_report_def balanced_def no_cases_def no_samples_def sample_counts_def
      expected_samples_def scenario_stats_def stats_or_none_def scenario_sum_def all_scenarios_def merge_case_stats_def)

lemma recorded_count: "length (filter (\<lambda>i. warmup \<le> i) [0..<cases + warmup]) = cases"
proof -
  have "[0..<cases + warmup] = [0..<warmup] @ [warmup..<cases + warmup]"
    using upt_add_eq_append [of 0 warmup cases] by (simp add: add.commute)
  moreover have "filter (\<lambda>i. warmup \<le> i) [0..<warmup] = []" by (simp add: filter_empty_conv)
  moreover have "filter (\<lambda>i. warmup \<le> i) [warmup..<cases + warmup] = [warmup..<cases + warmup]" by (simp add: filter_id_conv)
  ultimately show ?thesis by simp
qed

lemma map_sum_InrE: "map_sum f g x = Inr y \<Longrightarrow> (\<And>z. x = Inr z \<Longrightarrow> y = g z \<Longrightarrow> P) \<Longrightarrow> P"
  by (cases x) auto

lemma worker_ok:
  assumes "runtime_load_worker ex cfg w cases warmup min_swap gas relays profile = Inr r" "cases + warmup < 2 ^ 64"
  shows "report_ok cases r"
proof -
  obtain policy where "load_iterations (load_iteration ex cfg w warmup min_swap gas relays profile) [0..<cases + warmup]
      (adaptive_policy_new cfg, empty_worker_report (lx_pinned ex w)) = Inr (policy, r)"
    using assms by (auto simp: runtime_load_worker_def min_def elim!: map_sum_InrE split: if_splits)
  from iterations_ok [OF empty_report_ok this] show ?thesis by (simp only: recorded_count add_0)
qed

lemma merge_no_cases [simp]: "merge_case_stats c no_cases = c" "merge_case_stats no_cases c = c"
  by (cases c; simp add: merge_case_stats_def no_cases_def)+

lemma merged_stats: "scenario_stats (merge_report r s) k = merge_case_stats (scenario_stats r k) (scenario_stats s k)"
  by (simp add: scenario_stats_def merge_report_def stats_or_none_def split: option.split)

lemma merged_sum: "scenario_sum (merge_report r s) = merge_case_stats (scenario_sum r) (scenario_sum s)"
  unfolding scenario_sum_def by (simp add: all_scenarios_def merged_stats) (simp add: merge_case_stats_def no_cases_def)

lemma merge_ok: "report_ok a r \<Longrightarrow> report_ok b s \<Longrightarrow> report_ok (a + b) (merge_report r s)"
proof -
  have "balanced c \<Longrightarrow> balanced d \<Longrightarrow> balanced (merge_case_stats c d)" for c d
    by (simp add: balanced_def merge_case_stats_def)
  then show "report_ok a r \<Longrightarrow> report_ok b s \<Longrightarrow> report_ok (a + b) (merge_report r s)"
    by (auto simp: report_ok_def merged_stats merged_sum)
      (auto simp: merge_report_def merge_case_stats_def sample_counts_def expected_samples_def append_samples_def)
qed

lemma join_ok:
  assumes "\<And>w r. worker w = Inr r \<Longrightarrow> report_ok (share w) r"
  shows "report_ok n combined \<Longrightarrow> join_workers worker ws combined = Inr r \<Longrightarrow> report_ok (n + sum_list (map share ws)) r"
proof (induction ws arbitrary: n combined)
  case (Cons w ws)
  from Cons.prems(2) obtain rw where w: "worker w = Inr rw" "join_workers worker ws (merge_report combined rw) = Inr r"
    by (auto simp: and_then_eq_Inr)
  from Cons.IH [OF merge_ok [OF Cons.prems(1) assms [OF w(1)]] w(2)] show ?case by (simp add: add.assoc)
qed simp

lemma sum_below: "sum_list (map (\<lambda>w. if w < m then 1 else 0) [0..<c]) = (min m c :: nat)"
  by (induction c) auto

lemma shares_sum: "0 < c \<Longrightarrow> sum_list (map (worker_share n c) [0..<c]) = n"
proof -
  assume c: "0 < c"
  have "sum_list (map (worker_share n c) [0..<c]) = c * (n div c) + sum_list (map (\<lambda>w. if w < n mod c then 1 else 0) [0..<c])"
    unfolding worker_share_def sum_list_addf by (simp add: sum_list_triv)
  also have "sum_list (map (\<lambda>w. if w < n mod c then 1 else 0) [0..<c]) = n mod c"
    unfolding sum_below using c by (simp add: min_absorb1 less_imp_le)
  finally show ?thesis by simp
qed

lemma share_le: "0 < c \<Longrightarrow> worker_share n c w \<le> n"
proof (cases "w < n mod c")
  case True
  assume c: "0 < c"
  have "n div c + 1 \<le> c * (n div c) + n mod c" using True c by (cases c) auto
  then show ?thesis using True by (simp add: worker_share_def)
next
  case False
  then show ?thesis by (simp add: worker_share_def div_le_dividend)
qed

text \<open>
  C16: whatever the number of workers, the merged report of the load test accounts for every recorded
  iteration, once: as many are processed as were asked for; at each stage those that come in are those
  that pass and those that are rejected, in total and in every scenario; the scenarios add up to the
  totals; and there is one latency sample for every stage that ran.
\<close>

theorem load_test_accounts:
  assumes "run_load_workers ex cfg cases warmup concurrency min_swap gas relays profile = Inr r"
    and "0 < concurrency" "cases + warmup < 2 ^ 64"
  shows "lc_processed (wr_counts r) = cases \<and> cases = lc_quote_pass (wr_counts r) + all_rejects (wr_counts r)
    \<and> balanced (wr_counts r) \<and> (\<forall>sc. balanced (scenario_stats r sc)) \<and> scenario_sum r = wr_counts r
    \<and> sample_counts (wr_samples r) = expected_samples (wr_counts r)"
proof -
  have "report_ok (worker_share cases concurrency w) s"
    if "runtime_load_worker ex cfg w (worker_share cases concurrency w) (worker_share warmup concurrency w) min_swap gas relays profile = Inr s" for w s
    using worker_ok [OF that] share_le [OF assms(2), of cases w] share_le [OF assms(2), of warmup w] assms(3) by linarith
  from join_ok [where share = "worker_share cases concurrency", OF this empty_report_ok assms(1) [unfolded run_load_workers_def]]
  have "report_ok cases r" by (simp add: shares_sum [OF assms(2)])
  then show ?thesis by (auto simp: report_ok_def balanced_def all_rejects_def)
qed

lemma malformed_rejected:
  "decode_relevant_swap avx2 ad env (load_tx ex cfg w 0 min_swap gas Adversarial) monitored min_swap mode = Inr None"
proof -
  have "find_selector v [0x7f, 0xf3] = Inr None" for v by (cases v) code_simp+
  then show ?thesis
    by (simp add: load_tx_def runtime_load_scenario_of_def synthetic_raw_tx_def decode_relevant_swap_def selector_of_def Let_def)
qed

theorem load_test_accounts_witness:
  "\<forall>ex. \<exists>r. run_load_workers ex demo_config 1 0 1 7 9 [] Adversarial = Inr r \<and> lc_processed (wr_counts r) = 1"
proof
  fix ex
  obtain r where r: "run_load_workers ex demo_config 1 0 1 7 9 [] Adversarial = Inr r"
    by (simp add: run_load_workers_def worker_share_def runtime_load_worker_def load_iteration_def malformed_rejected Let_def)
  have "(1 :: nat) + 0 < 2 ^ 64" by simp
  from load_test_accounts [OF r _ this] r
  show "\<exists>r. run_load_workers ex demo_config 1 0 1 7 9 [] Adversarial = Inr r \<and> lc_processed (wr_counts r) = 1" by auto
qed

section \<open>The latency budget\<close>

lemma above_rank:
  assumes "sorted xs" "j < length xs" "xs ! j \<le> b"
  shows "length (filter (\<lambda>x. b < x) xs) \<le> length xs - Suc j"
proof -
  have "filter (\<lambda>x. b < x) (take (Suc j) xs) = []"
    using assms by (auto simp: filter_empty_conv in_set_conv_nth not_less intro!: order_trans [OF _ assms(3)] sorted_nth_mono)
  then have "filter (\<lambda>x. b < x) xs = filter (\<lambda>x. b < x) (drop (Suc j) xs)"
    by (metis append_Nil append_take_drop_id filter_append)
  then show ?thesis by (metis length_drop length_filter_le)
qed

lemma p99_bounds_tail:
  assumes "us_p99 (summarize_us xs) \<le> b"
  shows "100 * length (filter (\<lambda>us. b < us) xs) \<le> length xs + 98"
proof (cases "xs = []")
  case False
  define n where "n = length xs"
  define j where "j = (n - 1) * 99 div 100"
  have n: "0 < n" using False by (simp add: n_def)
  have j: "j < n" unfolding j_def using n by linarith
  have l: "length (sort xs) = length xs" by simp
  with False have "sort xs \<noteq> []" by (metis length_0_conv)
  then have "sort xs ! j \<le> b"
    using assms False l by (simp add: summarize_us_def percentile_u64_def Let_def j_def n_def)
  from above_rank [OF sorted_sort _ this] j
  have "length (filter (\<lambda>us. b < us) (sort xs)) \<le> n - Suc j" by (simp add: n_def)
  then have "length (filter (\<lambda>us. b < us) xs) \<le> n - Suc j" by (simp add: filter_sort)
  moreover have "100 * (n - Suc j) \<le> n + 98" unfolding j_def using n by linarith
  ultimately show ?thesis unfolding n_def by linarith
qed simp

text \<open>
  C39: when a load test passes its latency budget, at most one in a hundred of the recorded iterations,
  and one more for the rounding of the rank, took longer than the budget.
\<close>

theorem budget_pass_bounds_tail:
  assumes "maybe_run_runtime_load_test ex env parallelism wall cfg = Inr (Some rep)" "lr_budget_pass rep"
  shows "100 * length (filter (\<lambda>us. lr_latency_budget_p99_us rep < us) (sm_total_hot_gate_us (wr_samples (lr_merged rep))))
    \<le> length (sm_total_hot_gate_us (wr_samples (lr_merged rep))) + 98"
proof -
  obtain us where us: "us_p99 (summarize_us us) \<le> lr_latency_budget_p99_us rep"
    "sm_total_hot_gate_us (wr_samples (lr_merged rep)) = sort us"
    using assms by (auto simp: maybe_run_runtime_load_test_def and_then_eq_Inr finalize_report_def sorted_samples_def Let_def split: if_splits)
  from p99_bounds_tail [OF us(1)] show ?thesis unfolding us(2) by (simp add: filter_sort)
qed

text \<open>One iteration that takes no time on the clock passes a budget of zero.\<close>

definition one_case_env :: environment where
  "one_case_env = [''RUN_RUNTIME_LOAD_TEST'' \<mapsto> ''true'', ''RUNTIME_LOAD_TEST_CASES'' \<mapsto> ''1'',
     ''RUNTIME_LOAD_TEST_WARMUP'' \<mapsto> ''0'', ''RUNTIME_LOAD_TEST_CONCURRENCY'' \<mapsto> ''1'',
     ''RUNTIME_LOAD_TEST_LATENCY_BUDGET_US'' \<mapsto> ''0'', ''RUNTIME_LOAD_TEST_PROFILE'' \<mapsto> ''adversarial'']"

lemma one_case:
  "env_flag one_case_env ''RUN_RUNTIME_LOAD_TEST''" "bench_env_usize one_case_env ''RUNTIME_LOAD_TEST_CASES'' a = 1"
  "bench_env_usize one_case_env ''RUNTIME_LOAD_TEST_WARMUP'' b = 0"
  "bench_env_usize one_case_env ''RUNTIME_LOAD_TEST_CONCURRENCY'' c = 1"
  "bench_env_u64 one_case_env ''RUNTIME_LOAD_TEST_LATENCY_BUDGET_US'' d = 0"
  "runtime_load_profile_of one_case_env = Adversarial"
proof -
  have p: "parse_usize (trim ''0'') = Some 0" "parse_usize (trim ''1'') = Some 1" "parse_u64 (trim ''0'') = Some 0"
    "is_true ''true''" "to_ascii_lowercase (trim ''adversarial'') = ''adversarial''" by code_simp+
  show "env_flag one_case_env ''RUN_RUNTIME_LOAD_TEST''" "bench_env_usize one_case_env ''RUNTIME_LOAD_TEST_CASES'' a = 1"
    "bench_env_usize one_case_env ''RUNTIME_LOAD_TEST_WARMUP'' b = 0"
    "bench_env_usize one_case_env ''RUNTIME_LOAD_TEST_CONCURRENCY'' c = 1"
    "bench_env_u64 one_case_env ''RUNTIME_LOAD_TEST_LATENCY_BUDGET_US'' d = 0"
    "runtime_load_profile_of one_case_env = Adversarial"
    by (simp_all add: one_case_env_def env_flag_def var_or_def bench_env_usize_def bench_env_u64_def runtime_load_profile_of_def p)
qed

definition idle_load :: "libm \<Rightarrow> abi_decoder \<Rightarrow> abi \<Rightarrow> load_ext" where
  "idle_load lm ad abi = \<lparr>lx_libm = lm, lx_env = fixed_ether_env 7, lx_avx2 = False, lx_decoder = ad, lx_abi = abi,
     lx_now = (\<lambda>_ _. 0), lx_quote_clock = (\<lambda>_ _ _. 0), lx_hour = (\<lambda>_. 0), lx_elapsed = (\<lambda>_ _ _. 0), lx_pinned = (\<lambda>_. False)\<rparr>"

theorem budget_pass_bounds_tail_witness:
  "\<forall>lm ad abi. \<exists>rep. maybe_run_runtime_load_test (idle_load lm ad abi) one_case_env 1 0 demo_config = Inr (Some rep)
     \<and> lr_budget_pass rep
     \<and> 100 * length (filter (\<lambda>us. lr_latency_budget_p99_us rep < us) (sm_total_hot_gate_us (wr_samples (lr_merged rep))))
         \<le> length (sm_total_hot_gate_us (wr_samples (lr_merged rep))) + 98"
proof (intro allI)
  fix lm ad abi
  let ?ex = "idle_load lm ad abi"
  have e: "lx_env ?ex = fixed_ether_env 7" "lx_elapsed ?ex w i stage = 0" for w i stage by (simp_all add: idle_load_def)
  have run: "run_load_workers ?ex demo_config 1 0 1 7 gas relays Adversarial = Inr (merge_report (empty_worker_report False)
      (push_total 0 (count_case (\<lambda>s. s\<lparr>lc_decode_reject := lc_decode_reject s + 1\<rparr>) ScMalformedCalldata
        (count_case (\<lambda>s. s\<lparr>lc_processed := lc_processed s + 1\<rparr>) ScMalformedCalldata
          (sampled (\<lambda>s. s\<lparr>sm_decode_us := sm_decode_us s @ [0]\<rparr>) (empty_worker_report (lx_pinned ?ex 0)))))))" for gas relays
    by (simp add: run_load_workers_def worker_share_def runtime_load_worker_def load_iteration_def malformed_rejected e
        recorded_def runtime_load_scenario_of_def Let_def)
  obtain rep where rep: "maybe_run_runtime_load_test ?ex one_case_env 1 0 demo_config = Inr (Some rep)" "lr_budget_pass rep"
    by (simp add: maybe_run_runtime_load_test_def one_case e single_swap_fields run [unfolded One_nat_def] finalize_report_def summarize_us_def
        percentile_u64_def merge_report_def append_samples_def push_total_def sampled_def count_case_def
        empty_worker_report_def no_samples_def sorted_samples_def Let_def)
  from budget_pass_bounds_tail [OF rep] rep
  show "\<exists>rep. maybe_run_runtime_load_test ?ex one_case_env 1 0 demo_config = Inr (Some rep) \<and> lr_budget_pass rep
     \<and> 100 * length (filter (\<lambda>us. lr_latency_budget_p99_us rep < us) (sm_total_hot_gate_us (wr_samples (lr_merged rep))))
         \<le> length (sm_total_hot_gate_us (wr_samples (lr_merged rep))) + 98"
    by blast
qed

section \<open>Probes\<close>

text \<open>Rounds of samples are one run of samples.\<close>

lemma observe_extends: "fold (\<lambda>n. observe_answer (f n)) ns (extend_metrics a b) = extend_metrics a (fold (\<lambda>n. observe_answer (f n)) ns b)"
proof (induction ns arbitrary: b)
  case (Cons n ns)
  have "observe_answer (f n) (extend_metrics a b) = extend_metrics a (observe_answer (f n) b)"
    by (simp add: observe_answer_def extend_metrics_def Let_def split: sum.split)
  with Cons show ?case by simp
qed simp

lemma extend_no_metrics [simp]: "extend_metrics a no_metrics = a"
  by (cases a) (simp add: extend_metrics_def no_metrics_def)

lemma measure_rounds_flat: "measure_rounds rounds samples f = measure_async f 0 (rounds * samples)"
proof (induction rounds)
  case 0
  then show ?case by (simp add: measure_rounds_def measure_async_def)
next
  case (Suc rounds)
  have "[0..<Suc rounds * samples] = [0..<rounds * samples] @ [rounds * samples..<rounds * samples + samples]"
    using upt_add_eq_append [of 0 "rounds * samples" samples] by (simp add: add.commute)
  moreover have "measure_rounds (Suc rounds) samples f = extend_metrics (measure_rounds rounds samples f) (measure_async f (rounds * samples) samples)"
    by (simp add: measure_rounds_def)
  ultimately show ?case using Suc observe_extends [of f _ "measure_async f 0 (rounds * samples)" no_metrics]
    by (simp add: measure_async_def)
qed

text \<open>Exact sums of whole numbers.\<close>

lemma fround_same_value:
  assumes "0 < n" "0 < d" "0 < k" "real_of_int n / real_of_int d = real_of_int k"
  shows "fround s n d = fround s k 1"
proof -
  define G where "G = (\<lambda>x :: real. let m = rne_real (x / 2 powi ulpe x) in
     if m = 0 then Fin s 0 0
     else if m = 2 ^ 53 then (if 970 < ulpe x then Infty s else Fin s (2 ^ 52) (ulpe x + 1))
     else if 971 < ulpe x then Infty s else Fin s m (ulpe x))"
  have g: "fround s a b = G (of_int a / of_int b)" if "0 < a" "0 < b" for a b
    unfolding G_def by (rule fround_core [OF that])
  show ?thesis using g [OF assms(1,2)] g [OF assms(3) zero_less_one] assms(4) by (simp only: of_int_1 div_by_1)
qed

lemma plus_exact:
  assumes "is_finite x" "is_finite y" "fval x + fval y = real_of_int k" "0 < k"
  shows "x + y = of_u128 k"
proof -
  obtain s a e t b f where x: "x = Fin s a e" and y: "y = Fin t b f" using assms(1,2) by (cases x; cases y) auto
  define g where "g = min e f"
  define r where "r = signed s a * 2 ^ nat (e - g) + signed t b * 2 ^ nat (f - g)"
  have "of_int r * 2 powi g = fval x + fval y"
    unfolding r_def x y g_def of_int_add distrib_right
    by (simp only: signed_scale [OF min.cobounded1] signed_scale [OF min.cobounded2])
  then have v: "of_int r * 2 powi g = real_of_int k" using assms(3) by simp
  have r: "0 < r" using v assms(4) by (smt (verit) of_int_0_less_iff zero_less_mult_iff zero_less_power_int)
  have "fround_scaled False r 1 g = fround False k 1"
  proof (cases "0 \<le> g")
    case True
    then have "real_of_int (r * 2 ^ nat g) = real_of_int k" using v by (simp add: power_int_def)
    then have "r * 2 ^ nat g = k" by (simp only: of_int_eq_iff)
    then show ?thesis using True by (simp add: fround_scaled_def)
  next
    case False
    then have "2 powi g = inverse (2 ^ nat (- g) :: real)" by (simp only: power_int_def power_inverse if_False)
    then have "real_of_int r / real_of_int (2 ^ nat (- g)) = of_int r * 2 powi g" by (simp only: divide_inverse of_int_power of_int_numeral)
    then have q: "real_of_int r / real_of_int (2 ^ nat (- g)) = real_of_int k" by (simp only: v)
    have "fround_scaled False r 1 g = fround False r (2 ^ nat (- g))" using False by (simp add: fround_scaled_def)
    also have "\<dots> = fround False k 1" by (rule fround_same_value [OF r _ assms(4) q]) simp
    finally show ?thesis .
  qed
  moreover have "x + y = (if r = 0 then Fin (s \<and> t) 0 0 else fround_scaled (r < 0) \<bar>r\<bar> 1 g)"
    by (simp add: x y r_def g_def Let_def)
  ultimately show ?thesis using r by (simp add: of_u128_def)
qed

lemma of_u128_value:
  assumes "0 \<le> n" "n < 2 ^ 53"
  shows "is_finite (of_u128 n) \<and> fval (of_u128 n) = of_int n"
proof -
  have "rnd (real_of_int n) = of_int n" using assms by (intro rnd_repr repr_of_int) simp
  moreover have "real_of_int n < fbig"
  proof -
    have "real_of_int n < 2 powi 53" using assms(2) by (simp add: power_int_def flip: of_int_less_iff)
    also have "\<dots> \<le> fbig" unfolding fbig_def by (rule power_int_increasing) simp_all
    finally show ?thesis .
  qed
  ultimately show ?thesis using fround_spec [OF assms(1), of 1 False] by (auto simp: of_u128_def)
qed

lemma of_u128_0 [simp]: "of_u128 0 = Fin False 0 0"
  by (simp add: of_u128_def fround_def)

lemma of_u128_form: "0 \<le> n \<Longrightarrow> n < 2 ^ 53 \<Longrightarrow> \<exists>m e. of_u128 n = Fin False m e"
  using of_u128_value [of n] by (auto simp: of_u128_def fround_def Let_def split: if_splits)

lemma abs_of_u128: "0 \<le> n \<Longrightarrow> n < 2 ^ 53 \<Longrightarrow> \<bar>of_u128 n\<bar> = of_u128 n"
  using of_u128_form [of n] by auto

lemma gap_exact:
  assumes "0 \<le> a" "a \<le> b" "b < 2 ^ 53"
  shows "\<bar>of_u128 b - of_u128 a\<bar> = of_u128 (b - a)"
proof (cases "a = b")
  case True
  obtain m e where "of_u128 b = Fin False m e" using of_u128_form [of b] assms by auto
  then show ?thesis using True by (simp add: minus_f64_def signed_def Let_def)
next
  case False
  note v = of_u128_value [of a] of_u128_value [of b]
  have "of_u128 b + - of_u128 a = of_u128 (b - a)"
    by (rule plus_exact) (use assms False v in auto)
  then show ?thesis using assms by (simp add: minus_f64_def abs_of_u128)
qed

lemma add_exact:
  assumes "0 \<le> c" "0 \<le> k" "c + k < 2 ^ 53"
  shows "of_u128 c + of_u128 k = of_u128 (c + k)"
proof (cases "c + k = 0")
  case True
  then have "c = 0" "k = 0" using assms by linarith+
  then show ?thesis by (simp add: signed_def Let_def)
next
  case False
  show ?thesis by (rule plus_exact) (use assms False of_u128_value [of c] of_u128_value [of k] in auto)
qed

lemma total_delta_sorted:
  "sorted (x # xs) \<Longrightarrow> 0 \<le> x \<Longrightarrow> 0 \<le> c \<Longrightarrow> last (x # xs) < 2 ^ 53 \<Longrightarrow> c + (last (x # xs) - x) < 2 ^ 53 \<Longrightarrow>
     total_delta (x # xs) (of_u128 c) = of_u128 (c + (last (x # xs) - x))"
proof (induction xs arbitrary: x c)
  case (Cons y ys)
  have le: "x \<le> y" "y \<le> last (y # ys)" using Cons.prems(1) by (auto dest!: last_in_set)
  then have b: "0 \<le> y" "y < 2 ^ 53" "0 \<le> y - x" "c + (y - x) < 2 ^ 53" using Cons.prems by simp_all
  have "of_u128 c + \<bar>of_u128 y - of_u128 x\<bar> = of_u128 (c + (y - x))"
    unfolding gap_exact [OF Cons.prems(2) le(1) b(2)] by (rule add_exact [OF Cons.prems(3) b(3,4)])
  then have "total_delta (x # y # ys) (of_u128 c) = total_delta (y # ys) (of_u128 (c + (y - x)))" by simp
  also have "\<dots> = of_u128 (c + (y - x) + (last (y # ys) - y))"
    using Cons.prems b by (intro Cons.IH) simp_all
  finally show ?case by (simp add: algebra_simps)
qed simp

text \<open>
  C40: the jitter of a probe is computed on the sorted latencies, so that it is their range divided by
  their number less one: it does not depend on their order, and says nothing of the change from one call
  to the next.
\<close>

theorem jitter_is_range:
  assumes "probe_summary_of m = Some s" "\<forall>l \<in> set (pm_latencies m). 0 \<le> l \<and> as_millis l < 2 ^ 53"
  shows "ps_jitter_ms s = (if ps_ok_count s \<le> 1 then 0
    else of_u128 (ps_max_ms s - ps_min_ms s) / of_count (ps_ok_count s - 1))"
proof -
  have ne: "pm_latencies m \<noteq> []" using assms(1) by (auto simp: probe_summary_of_def)
  have "length (sort (map as_millis (pm_latencies m))) = length (pm_latencies m)" by simp
  with ne have "sort (map as_millis (pm_latencies m)) \<noteq> []" by (metis length_0_conv)
  then obtain x xs where millis: "sort (map as_millis (pm_latencies m)) = x # xs"
    by (cases "sort (map as_millis (pm_latencies m))") simp_all
  have "y \<in> set (map as_millis (pm_latencies m)) \<Longrightarrow> 0 \<le> y \<and> y < 2 ^ 53" for y
    using assms(2) by (auto simp: as_millis_def pos_imp_zdiv_nonneg_iff)
  then have range: "y \<in> set (x # xs) \<Longrightarrow> 0 \<le> y \<and> y < 2 ^ 53" for y unfolding millis [symmetric] by simp
  have sorted: "sorted (x # xs)" unfolding millis [symmetric] by simp
  have x: "0 \<le> x" using range by simp
  have last: "last (x # xs) < 2 ^ 53" using range last_in_set [of "x # xs"] by blast
  have "total_delta (x # xs) 0 = of_u128 (last (x # xs) - x)"
    using total_delta_sorted [OF sorted x order_refl last] last x by (simp add: zero_f64_def)
  then show ?thesis using assms(1) by (auto simp: probe_summary_of_def millis Let_def split: if_splits)
qed

text \<open>Latencies of one, nine and one milliseconds: each call differs from the next by eight, the jitter is four.\<close>

theorem jitter_is_range_witness:
  "\<exists>s. probe_summary_of \<lparr>pm_latencies = [1000000, 9000000, 1000000], pm_errors = [], pm_timeout_count = 0\<rparr> = Some s
     \<and> ps_jitter_ms s = of_u128 8 / of_count 2"
proof -
  let ?m = "\<lparr>pm_latencies = [1000000, 9000000, 1000000], pm_errors = [], pm_timeout_count = 0\<rparr>"
  obtain s where s: "probe_summary_of ?m = Some s" "ps_ok_count s = 3" "ps_max_ms s = 9" "ps_min_ms s = 1"
    by (simp add: probe_summary_of_def as_millis_def Let_def)
  have "\<forall>l \<in> set (pm_latencies ?m). 0 \<le> l \<and> as_millis l < 2 ^ 53" by (simp add: as_millis_def)
  from jitter_is_range [OF s(1) this] s show ?thesis by simp
qed

text \<open>A probe without a single success leaves the score of its endpoint as it is.\<close>

lemma blend_append: "blend (xs @ ys) score counted = (case blend xs score counted of (s, c) \<Rightarrow> blend ys s c)"
  by (induction xs arbitrary: score counted) (auto split: option.split)

lemma failing_probe_ignored: "pm_latencies m = [] \<Longrightarrow> blended_score (xs @ m # ys) = blended_score (xs @ ys)"
  by (simp add: blended_score_def blend_append probe_summary_of_def split: prod.split)

end
