(* ===== verification/EncoderSafety.thy ===== *)
theory EncoderSafety
  imports DecodeSafety
begin

text \<open>
  The calldata of the executor contract read back. A decoder is given the types in the signature whose
  hash selects the function, so what is to be shown is that the tokens the encoder is given have these
  types. That an encoder and a decoder with the assumed law exist is shown for the head and tail encoding
  of the contract ABI.
\<close>

section \<open>Types of a signature\<close>

text \<open>A token has a type and fits its width.\<close>

fun token_fits :: "param_type \<Rightarrow> token \<Rightarrow> bool" where
  "token_fits PAddress (TAddress a) = True"
| "token_fits (PUint n) (TUint v) = (uint v < 2 ^ n)"
| "token_fits PBytes (TBytes bs) = True"
| "token_fits (PArray ty) (TArray ts) = list_all (token_fits ty) ts"
| "token_fits (PTuple tys) (TTuple ts) = (tys \<noteq> [] \<and> list_all2 token_fits tys ts)"
| "token_fits _ _ = False"

fun array_suffix :: "param_type \<Rightarrow> string \<Rightarrow> param_type \<times> string" where
  "array_suffix ty (c # d # cs) = (if c = CHR ''['' \<and> d = CHR '']'' then array_suffix (PArray ty) cs else (ty, c # d # cs))"
| "array_suffix ty s = (ty, s)"

definition named_type :: "string \<Rightarrow> (param_type \<times> string) option" where
  "named_type s =
     (if starts_with ''address'' s then Some (PAddress, drop 7 s)
      else if starts_with ''uint256'' s then Some (PUint 256, drop 7 s)
      else if starts_with ''uint24'' s then Some (PUint 24, drop 6 s)
      else if starts_with ''bytes'' s then Some (PBytes, drop 5 s) else None)"

fun read_type :: "nat \<Rightarrow> string \<Rightarrow> (param_type \<times> string) option"
  and read_types :: "nat \<Rightarrow> string \<Rightarrow> (param_type list \<times> string) option" where
  "read_type 0 s = None"
| "read_type (Suc n) s =
     map_option (\<lambda>(ty, rest). array_suffix ty rest)
       (if starts_with ''('' s then map_option (\<lambda>(tys, rest). (PTuple tys, rest)) (read_types n (tl s)) else named_type s)"
| "read_types 0 s = None"
| "read_types (Suc n) s =
     (case read_type n s of
        Some (ty, c # rest) \<Rightarrow>
          if c = CHR '')'' then Some ([ty], rest)
          else if c = CHR '','' then map_option (\<lambda>(tys, r). (ty # tys, r)) (read_types n rest) else None
      | _ \<Rightarrow> None)"

definition signature_types :: "string \<Rightarrow> param_type list option" where
  "signature_types signature =
     (case read_types (length signature) (tl (dropWhile (\<lambda>c. c \<noteq> CHR ''('') signature)) of
        Some (tys, []) \<Rightarrow> Some tys | _ \<Rightarrow> None)"

definition v2_types :: "param_type list" where
  "v2_types = [PAddress, PAddress, PUint 256, PUint 256, PAddress, PAddress,
     PArray (PTuple [PAddress, PArray PAddress, PUint 256, PUint 256])]"

definition v3_types :: "param_type list" where
  "v3_types = [PAddress, PAddress, PUint 256, PUint 24, PUint 256, PAddress, PAddress,
     PArray (PTuple [PAddress, PBytes, PUint 256, PUint 256])]"

lemma signature_types_of:
  "signature_types v2_signature = Some v2_types" "signature_types v3_signature = Some v3_types"
  by code_simp+

lemma uint_fits [simp]: "token_fits (PUint 256) (TUint v)"
  using uint_lt2p [of v] by simp

lemma step_fits: "token_fits (PTuple [PAddress, PArray PAddress, PUint 256, PUint 256]) (step_token s)"
  by (simp add: step_token_def list_all_iff del: token_fits.simps(2))

lemma v3_step_fits: "token_fits (PTuple [PAddress, PBytes, PUint 256, PUint 256]) (v3_step_token s)"
  by (simp add: v3_step_token_def del: token_fits.simps(2))

lemma v2_call_fits:
  "list_all2 token_fits v2_types
     [TAddress p, TAddress b, TUint a, TUint m, TAddress pt, TAddress pr, TArray (map step_token ss)]"
  using step_fits by (simp add: v2_types_def list_all_iff del: token_fits.simps(2))

lemma fee_fits: "token_fits (PUint 24) (TUint (ucast (f :: u32))) \<longleftrightarrow> uint f < 2 ^ 24"
  by (simp add: uint_up_ucast is_up)

lemma v3_call_fits:
  "uint f < 2 ^ 24 \<Longrightarrow> list_all2 token_fits v3_types
     [TAddress p, TAddress b, TUint a, TUint (ucast (f :: u32)), TUint m, TAddress pt, TAddress pr, TArray (map v3_step_token ss)]"
  using v3_step_fits by (simp add: v3_types_def list_all_iff fee_fits del: token_fits.simps(2))

text \<open>What is assumed of the ABI: tokens that fit the types are read back from an encoding below 4 GiB.\<close>

definition abi_inverse :: "abi \<Rightarrow> abi_decoder \<Rightarrow> bool" where
  "abi_inverse ab ad \<longleftrightarrow> (\<forall>tys ts. list_all2 token_fits tys ts \<longrightarrow> length (abi_encode ab ts) < 2 ^ 32
     \<longrightarrow> ad tys (abi_encode ab ts) = Some ts)"

section \<open>The head and tail encoding\<close>

text \<open>Which tokens have their content in the tail, and the size of a value in the head.\<close>

fun tail_type :: "param_type \<Rightarrow> bool" where
  "tail_type PAddress = False"
| "tail_type (PUint n) = False"
| "tail_type (PTuple tys) = list_ex tail_type tys"
| "tail_type ty = True"

fun tail_token :: "token \<Rightarrow> bool" where
  "tail_token (TBytes bs) = True"
| "tail_token (TArray ts) = True"
| "tail_token (TTuple ts) = list_ex tail_token ts"
| "tail_token t = False"

fun head_size :: "param_type \<Rightarrow> nat" where
  "head_size (PTuple tys) = (if list_ex tail_type tys then 32 else sum_list (map head_size tys))"
| "head_size ty = 32"

definition word_bytes :: "nat \<Rightarrow> bytes" where
  "word_bytes n = be_bytes 32 (of_nat n :: u256)"

fun place :: "nat \<Rightarrow> (bool \<times> bytes) list \<Rightarrow> bytes \<times> bytes" where
  "place off [] = ([], [])"
| "place off ((in_tail, e) # es) =
     (if in_tail then (case place (off + length e) es of (h, t) \<Rightarrow> (word_bytes off @ h, e @ t))
      else (case place off es of (h, t) \<Rightarrow> (e @ h, t)))"

definition head_length :: "(bool \<times> bytes) list \<Rightarrow> nat" where
  "head_length es = sum_list (map (\<lambda>(in_tail, e). if in_tail then 32 else length e) es)"

definition heads_tails :: "(bool \<times> bytes) list \<Rightarrow> bytes" where
  "heads_tails es = (case place (head_length es) es of (h, t) \<Rightarrow> h @ t)"

definition padding :: "nat \<Rightarrow> bytes" where
  "padding n = replicate ((32 - n mod 32) mod 32) 0"

fun encode_token :: "token \<Rightarrow> bytes" where
  "encode_token (TAddress a) = be_bytes 32 a"
| "encode_token (TUint v) = be_bytes 32 v"
| "encode_token (TBytes bs) = word_bytes (length bs) @ bs @ padding (length bs)"
| "encode_token (TArray ts) = word_bytes (length ts) @ heads_tails (map (\<lambda>t. (tail_token t, encode_token t)) ts)"
| "encode_token (TTuple ts) = heads_tails (map (\<lambda>t. (tail_token t, encode_token t)) ts)"
| "encode_token t = []"

definition read_word :: "bytes \<Rightarrow> nat" where
  "read_word bs = unat (from_be (take 32 bs) :: u256)"

text \<open>A value is found at its place in the head, or where the word at that place says.\<close>

definition value_at :: "bool \<Rightarrow> nat \<Rightarrow> bytes \<Rightarrow> bytes" where
  "value_at in_tail pos bs = drop (if in_tail then read_word (drop pos bs) else pos) bs"

fun decode_token :: "param_type \<Rightarrow> bytes \<Rightarrow> token option"
  and decode_tokens :: "param_type list \<Rightarrow> nat \<Rightarrow> bytes \<Rightarrow> token list option" where
  "decode_token PAddress bs = Some (TAddress (from_be (take 32 bs)))"
| "decode_token (PUint n) bs = Some (TUint (from_be (take 32 bs)))"
| "decode_token PBytes bs = Some (TBytes (take (read_word bs) (drop 32 bs)))"
| "decode_token (PArray ty) bs =
     map_option TArray (all_some (map (\<lambda>i. decode_token ty (value_at (tail_type ty) (i * head_size ty) (drop 32 bs)))
       [0..<read_word bs]))"
| "decode_token (PTuple tys) bs = map_option TTuple (decode_tokens tys 0 bs)"
| "decode_token ty bs = None"
| "decode_tokens [] pos bs = Some []"
| "decode_tokens (ty # tys) pos bs =
     (case decode_token ty (value_at (tail_type ty) pos bs) of None \<Rightarrow> None
      | Some t \<Rightarrow> map_option ((#) t) (decode_tokens tys (pos + head_size ty) bs))"

definition standard_decoder :: abi_decoder where
  "standard_decoder tys bs = decode_tokens tys 0 bs"

definition standard_abi :: "(string \<Rightarrow> bytes) \<Rightarrow> abi" where
  "standard_abi hash = \<lparr>abi_encode = (\<lambda>ts. heads_tails (map (\<lambda>t. (tail_token t, encode_token t)) ts)), keccak256 = hash\<rparr>"

lemma read_word_bytes: "n < 2 ^ 32 \<Longrightarrow> read_word (word_bytes n @ rest) = n"
proof -
  assume n: "n < 2 ^ 32"
  have "n < 2 ^ 256" by (rule less_trans [OF n]) simp
  then have "uint (of_nat n :: u256) = int n" by (simp add: unsigned_of_nat take_bit_nat_eq_self)
  then show "read_word (word_bytes n @ rest) = n"
    using from_be_be_bytes [of "of_nat n :: u256" 32] n
    by (simp add: read_word_def word_bytes_def unat_eq_nat_uint)
qed

lemma length_word: "length (word_bytes n) = 32"
  by (simp add: word_bytes_def)

lemma place_append: "place off es = (h, t) \<Longrightarrow> length h = head_length es"
  by (induction off es arbitrary: h t rule: place.induct)
    (auto simp: head_length_def word_bytes_def split: prod.splits if_splits)

lemma fits_tail: "token_fits ty t \<Longrightarrow> tail_token t = tail_type ty"
proof (induction ty t rule: token_fits.induct)
  case (5 tys ts)
  then have "list_all2 (\<lambda>ty t. tail_token t = tail_type ty) tys ts"
    by (auto simp: list_all2_conv_all_nth in_set_conv_nth) (metis nth_mem)+
  then show ?case by (induction rule: list_all2_induct) auto
qed auto

lemma fits_head: "token_fits ty t \<Longrightarrow> \<not> tail_type ty \<Longrightarrow> length (encode_token t) = head_size ty"
proof (induction ty t rule: token_fits.induct)
  case (5 tys ts)
  let ?es = "map (\<lambda>t. (tail_token t, encode_token t)) ts"
  have all: "list_all2 (\<lambda>ty t. \<not> tail_token t \<and> length (encode_token t) = head_size ty) tys ts"
    using 5 fits_tail by (auto simp: list_all2_conv_all_nth list_ex_iff in_set_conv_nth) (metis nth_mem)+
  then have "head_length ?es = sum_list (map head_size tys)"
    by (induction rule: list_all2_induct) (auto simp: head_length_def)
  moreover have "snd (place off ?es) = []" for off
    using all by (induction rule: list_all2_induct) (auto split: prod.splits)
  ultimately show ?case
    using 5(3) place_append [of _ ?es] by (auto simp: heads_tails_def split: prod.splits) (metis snd_conv)
qed auto

lemma head_length_ge:
  "\<forall>t \<in> set ts. 32 \<le> length (encode_token t) \<Longrightarrow>
     32 * length ts \<le> head_length (map (\<lambda>t. (tail_token t, encode_token t)) ts)"
  by (induction ts) (auto simp: head_length_def)

lemma heads_tails_ge: "head_length es \<le> length (heads_tails es)"
  using place_append [of "head_length es" es] by (auto simp: heads_tails_def split: prod.split)

lemma encoding_ge: "token_fits ty t \<Longrightarrow> 32 \<le> length (encode_token t)"
proof (induction ty t rule: token_fits.induct)
  case (5 tys ts)
  then have "\<forall>t \<in> set ts. 32 \<le> length (encode_token t)"
    by (auto simp: list_all2_conv_all_nth in_set_conv_nth) (metis nth_mem)
  moreover have "ts \<noteq> []" using 5(2) by auto
  ultimately show ?case
    using head_length_ge [of ts] heads_tails_ge [of "map (\<lambda>t. (tail_token t, encode_token t)) ts"]
    by (cases ts) auto
qed (auto simp: word_bytes_def)

definition read_back :: "param_type \<Rightarrow> token \<Rightarrow> bool" where
  "read_back ty t \<longleftrightarrow> token_fits ty t
     \<and> (length (encode_token t) < 2 ^ 32 \<longrightarrow> (\<forall>rest. decode_token ty (encode_token t @ rest) = Some t))"

lemma decode_placed:
  assumes "list_all2 read_back tys ts"
    and "place off (map (\<lambda>t. (tail_token t, encode_token t)) ts) = (h, tls)"
    and "off = length (pre @ h @ mid)" "length (pre @ h @ mid @ tls) < 2 ^ 32"
  shows "decode_tokens tys (length pre) (pre @ h @ mid @ tls @ rest) = Some ts"
  using assms
proof (induction arbitrary: off h tls pre mid rule: list_all2_induct)
  case (Cons ty tys t ts)
  let ?e = "encode_token t" and ?es = "map (\<lambda>t. (tail_token t, encode_token t)) ts"
  have fits: "token_fits ty t" using Cons.hyps(1) by (simp add: read_back_def)
  show ?case
  proof (cases "tail_type ty")
    case True
    then have tail: "tail_token t" using fits_tail [OF fits] by simp
    obtain h' tls' where p: "place (off + length ?e) ?es = (h', tls')" by (cases "place (off + length ?e) ?es")
    have h: "h = word_bytes off @ h'" "tls = ?e @ tls'" using Cons.prems(1) tail p by auto
    have "value_at True (length pre) (pre @ h @ mid @ tls @ rest) = ?e @ tls' @ rest"
      using Cons.prems(2,3) by (simp add: value_at_def h read_word_bytes)
    moreover have "decode_token ty (?e @ tls' @ rest) = Some t"
      using Cons.hyps(1) Cons.prems(3) by (simp add: read_back_def h)
    moreover have "decode_tokens tys (length (pre @ word_bytes off))
        ((pre @ word_bytes off) @ h' @ (mid @ ?e) @ tls' @ rest) = Some ts"
      using Cons.prems(2,3) by (intro Cons.IH [OF p]) (simp_all add: h)
    moreover have "head_size ty = 32" using True by (cases ty) auto
    ultimately show ?thesis using True by (simp add: h word_bytes_def)
  next
    case False
    then have tail: "\<not> tail_token t" using fits_tail [OF fits] by simp
    obtain h' tls' where p: "place off ?es = (h', tls')" by (cases "place off ?es")
    have h: "h = ?e @ h'" "tls = tls'" using Cons.prems(1) tail p by auto
    have "decode_token ty (?e @ h' @ mid @ tls @ rest) = Some t"
      using Cons.hyps(1) Cons.prems(3) by (simp add: read_back_def h)
    moreover have "decode_tokens tys (length (pre @ ?e)) ((pre @ ?e) @ h' @ mid @ tls' @ rest) = Some ts"
      using Cons.prems(2,3) by (intro Cons.IH [OF p]) (simp_all add: h)
    ultimately show ?thesis using False fits_head [OF fits False] by (simp add: h value_at_def)
  qed
qed simp

lemma decode_heads_tails:
  assumes "list_all2 read_back tys ts" "length (heads_tails (map (\<lambda>t. (tail_token t, encode_token t)) ts)) < 2 ^ 32"
  shows "decode_tokens tys 0 (heads_tails (map (\<lambda>t. (tail_token t, encode_token t)) ts) @ rest) = Some ts"
proof -
  let ?es = "map (\<lambda>t. (tail_token t, encode_token t)) ts"
  obtain h tls where p: "place (head_length ?es) ?es = (h, tls)" by (cases "place (head_length ?es) ?es")
  show ?thesis
    using decode_placed [OF assms(1) p, of "[]" "[]" rest] place_append [OF p] assms(2)
    by (simp add: heads_tails_def p)
qed

lemma decode_replicate:
  "decode_tokens (replicate n ty) pos bs
     = all_some (map (\<lambda>i. decode_token ty (value_at (tail_type ty) (pos + i * head_size ty) bs)) [0..<n])"
proof (induction n arbitrary: pos)
  case (Suc n)
  have "[0..<Suc n] = 0 # map Suc [0..<n]" by (simp add: map_Suc_upt upt_conv_Cons del: upt_Suc)
  then show ?case using Suc [of "pos + head_size ty"] by (simp add: o_def algebra_simps del: upt_Suc split: option.split)
qed simp

lemma decode_encoded: "token_fits ty t \<Longrightarrow> read_back ty t"
proof (induction ty arbitrary: t)
  case PAddress
  then obtain a where "t = TAddress a" by (cases t) auto
  moreover have "uint a < 256 ^ 32" using uint_lt2p [of a] by simp
  ultimately show ?case by (simp add: read_back_def from_be_be_bytes)
next
  case PBytes
  then obtain bs where "t = TBytes bs" by (cases t) auto
  then show ?case by (auto simp: read_back_def read_word_bytes) (simp add: word_bytes_def)
next
  case (PUint n)
  then obtain v where "t = TUint v" by (cases t) auto
  moreover have "uint v < 256 ^ 32" using uint_lt2p [of v] by simp
  ultimately show ?case using PUint by (simp add: read_back_def from_be_be_bytes)
next
  case (PArray ty)
  then obtain ts where t: "t = TArray ts" "list_all (token_fits ty) ts" by (cases t) auto
  let ?body = "heads_tails (map (\<lambda>t. (tail_token t, encode_token t)) ts)"
  have "list_all2 read_back (replicate (length ts) ty) ts"
    using t(2) PArray.IH by (auto simp: list_all2_conv_all_nth list_all_length)
  from decode_heads_tails [OF this] have dec:
    "length ?body < 2 ^ 32 \<Longrightarrow> decode_tokens (replicate (length ts) ty) 0 (?body @ rest) = Some ts" for rest .
  have "32 * length ts \<le> length ?body"
    using head_length_ge [of ts] heads_tails_ge [of "map (\<lambda>t. (tail_token t, encode_token t)) ts"] t(2) encoding_ge
    by (fastforce simp: list_all_iff)
  then have len: "length ?body < 2 ^ 32 \<Longrightarrow> length ts < 2 ^ 32" by simp
  show ?case
    unfolding read_back_def
  proof (intro conjI impI allI)
    fix rest
    assume "length (encode_token t) < 2 ^ 32"
    then have short: "length ?body < 2 ^ 32" by (simp add: t)
    then show "decode_token (PArray ty) (encode_token t @ rest) = Some t"
      using dec [OF short, of rest] read_word_bytes [OF len [OF short], of "?body @ rest"]
      by (simp add: t decode_replicate length_word)
  qed (use PArray in simp)
next
  case (PTuple tys)
  then obtain ts where t: "t = TTuple ts" "list_all2 token_fits tys ts" by (cases t) auto
  have "list_all2 read_back tys ts"
    using t(2) PTuple.IH by (auto simp: list_all2_conv_all_nth)
  from decode_heads_tails [OF this] PTuple.prems show ?case by (simp add: t read_back_def)
qed auto

lemma standard_inverse: "abi_inverse (standard_abi hash) standard_decoder"
proof -
  have "list_all2 read_back tys ts" if "list_all2 token_fits tys ts" for tys ts
    using that decode_encoded by (auto elim: list_all2_mono)
  then show ?thesis
    using decode_heads_tails [where rest = "[]"] by (simp add: abi_inverse_def standard_abi_def standard_decoder_def)
qed

section \<open>Round trip\<close>

text \<open>
  C28: calldata round trip. The calldata of both flash-swap calls starts with the first four bytes of the
  hash of its signature, and the tokens behind it have the types that this signature names, so that a
  decoder for these types reads back every argument, the steps with their routers, paths and amounts
  included. The fee of the V3 call has to fit the 24 bits of the signature. The ABI is assumed to read
  back what fits its types and is shorter than 4 GiB; the encoding in heads and tails does.
\<close>

theorem calldata_round_trip:
  fixes ab :: abi and ad :: abi_decoder and ex p b pt pr :: address and a m :: u256 and fee :: u32
    and ss :: "encoded_swap_step list" and ss3 :: "encoded_v3_swap_step list"
  assumes "abi_inverse ab ad" "\<And>s. length (keccak256 ab s) = 32" "uint fee < 2 ^ 24"
  defines "call2 \<equiv> fc_calldata (build_v2_flashswap_call ab ex p b a m pt pr ss)"
    and "call3 \<equiv> fc_calldata (build_v3_flashswap_call ab ex p b a fee m pt pr ss3)"
  assumes "length call2 < 2 ^ 32" "length call3 < 2 ^ 32"
  shows "take 4 call2 = take 4 (keccak256 ab v2_signature)
    \<and> Option.bind (signature_types v2_signature) (\<lambda>tys. Option.bind (ad tys (drop 4 call2)) read_v2_call)
        = Some (p, b, a, m, pt, pr, ss)
    \<and> take 4 call3 = take 4 (keccak256 ab v3_signature)
    \<and> Option.bind (signature_types v3_signature) (\<lambda>tys. Option.bind (ad tys (drop 4 call3)) read_v3_call)
        = Some (p, b, a, ucast fee, m, pt, pr, ss3)"
proof -
  have law: "list_all2 token_fits tys ts \<Longrightarrow> length (abi_encode ab ts) < 2 ^ 32 \<Longrightarrow> ad tys (abi_encode ab ts) = Some ts" for tys ts
    using assms(1) unfolding abi_inverse_def by blast
  note parts2 = encode_v2_parts [OF assms(2), of p b a m pt pr ss]
    and parts3 = encode_v3_parts [OF assms(2), of p b a fee m pt pr ss3]
  have calls: "call2 = encode_start_v2_flash_swap ab p b a m pt pr ss" "call3 = encode_start_v3_flash_swap ab p b a fee m pt pr ss3"
    by (simp_all add: call2_def call3_def build_v2_flashswap_call_def build_v3_flashswap_call_def)
  have "length (drop 4 call2) < 2 ^ 32" "length (drop 4 call3) < 2 ^ 32"
    using assms(6,7) by (simp_all add: less_imp_diff_less)
  then have "ad v2_types (drop 4 call2) = Some [TAddress p, TAddress b, TUint a, TUint m, TAddress pt, TAddress pr, TArray (map step_token ss)]"
    and "ad v3_types (drop 4 call3) = Some [TAddress p, TAddress b, TUint a, TUint (ucast fee), TUint m, TAddress pt, TAddress pr,
           TArray (map v3_step_token ss3)]"
    using law v2_call_fits v3_call_fits [OF assms(3)] parts2 parts3 unfolding calls by metis+
  then show ?thesis
    using parts2 parts3 all_some_map [of read_step step_token] all_some_map [of read_v3_step v3_step_token]
    by (simp add: calls signature_types_of read_v2_call_def read_v3_call_def read_step_token read_v3_step_token)
qed

definition demo_abi :: abi where
  "demo_abi = standard_abi (\<lambda>s. replicate 32 (of_nat (length s)))"

definition demo_step :: encoded_swap_step where
  "demo_step = \<lparr>ss_router = 5, ss_path = [2, 1], ss_amount_in = 100, ss_min_out = 99\<rparr>"

definition demo_v3_step :: encoded_v3_swap_step where
  "demo_v3_step = \<lparr>ss3_router = 5, ss3_path = [1, 2, 3], ss3_amount_in = 100, ss3_min_out = 99\<rparr>"

theorem calldata_round_trip_witness:
  "Option.bind (standard_decoder v2_types (drop 4 (fc_calldata (build_v2_flashswap_call demo_abi 9 8 2 100 7 1 6 [demo_step])))) read_v2_call
     = Some (8, 2, 100, 7, 1, 6, [demo_step])"
proof -
  have hash: "length (keccak256 demo_abi s) = 32" for s by (simp add: demo_abi_def standard_abi_def)
  have "length (fc_calldata (build_v2_flashswap_call demo_abi 9 8 2 100 7 1 6 [demo_step])) < 1000"
    "length (fc_calldata (build_v3_flashswap_call demo_abi 9 8 2 100 500 7 1 6 [demo_v3_step])) < 1000"
    by code_simp+
  then have short: "length (fc_calldata (build_v2_flashswap_call demo_abi 9 8 2 100 7 1 6 [demo_step])) < 2 ^ 32"
    "length (fc_calldata (build_v3_flashswap_call demo_abi 9 8 2 100 500 7 1 6 [demo_v3_step])) < 2 ^ 32"
    by simp_all
  have "abi_inverse demo_abi standard_decoder" unfolding demo_abi_def by (rule standard_inverse)
  from calldata_round_trip [OF this hash _ short] show ?thesis by (simp add: signature_types_of)
qed

end
