(* ===== verification/StorageTables.thy ===== *)
theory StorageTables
  imports ConfigLoad
begin

text \<open>
  The tables of \<open>src/storage.rs\<close> and the statements that write them, which are the same for both
  database backends: plain inserts, and inserts that on a conflict of the key add to the row. Tables with
  a key are maps, the others lists in the order of their row numbers. Integer columns are integers; they
  are written from unsigned 64-bit counters as \<open>as i64\<close>. The scores computed from rows, the retention
  periods and the names and fields of the exports follow. Aggregating queries are not modelled.
\<close>

section \<open>Keys and rows\<close>

fun split_once_str :: "string \<Rightarrow> string \<Rightarrow> (string \<times> string) option" where
  "split_once_str p [] = (if p = [] then Some ([], []) else None)"
| "split_once_str p (c # cs) =
     (case strip_prefix p (c # cs) of Some rest \<Rightarrow> Some ([], rest)
      | None \<Rightarrow> map_option (\<lambda>(a, b). (c # a, b)) (split_once_str p cs))"

definition scoped_relay :: "string \<Rightarrow> string \<Rightarrow> string" where
  "scoped_relay network relay = network @ ''::'' @ relay"

definition unscoped_relay :: "string \<Rightarrow> string" where
  "unscoped_relay relay = (case split_once_str ''::'' relay of Some (_, v) \<Rightarrow> v | None \<Rightarrow> relay)"

definition as_i64 :: "u64 \<Rightarrow> int" where
  "as_i64 = sint"

text \<open>\<open>u128 as i64\<close>.\<close>

definition millis_as_i64 :: "128 word \<Rightarrow> int" where
  "millis_as_i64 n = sint (ucast n :: u64)"

record latency_row =
  lw_samples :: int
  lw_total_ms :: int
  lw_max_ms :: int
  lw_last_ms :: int

record selector_row =
  sw_count :: int
  sw_confidence_sum :: f64
  sw_gas_gwei_sum :: f64
  sw_last_seen :: string

record 'n pool_counts =
  pc_pool_found :: 'n
  pc_pool_missing :: 'n
  pc_payload_built :: 'n
  pc_shadow_ev_positive :: 'n
  pc_shadow_ev_negative :: 'n
  pc_partial_entered_payload_builder :: 'n
  pc_partial_pool_discovery_attempted :: 'n
  pc_partial_pool_found :: 'n
  pc_partial_pool_missing :: 'n
  pc_partial_shadow_ev_positive :: 'n
  pc_partial_shadow_ev_negative :: 'n
  pc_partial_replay_candidate_created :: 'n
  pc_partial_replay_candidate_rejected :: 'n

definition map_counts :: "('a \<Rightarrow> 'b) \<Rightarrow> 'a pool_counts \<Rightarrow> 'b pool_counts" where
  "map_counts f c =
     \<lparr>pc_pool_found = f (pc_pool_found c), pc_pool_missing = f (pc_pool_missing c), pc_payload_built = f (pc_payload_built c),
      pc_shadow_ev_positive = f (pc_shadow_ev_positive c), pc_shadow_ev_negative = f (pc_shadow_ev_negative c),
      pc_partial_entered_payload_builder = f (pc_partial_entered_payload_builder c),
      pc_partial_pool_discovery_attempted = f (pc_partial_pool_discovery_attempted c),
      pc_partial_pool_found = f (pc_partial_pool_found c), pc_partial_pool_missing = f (pc_partial_pool_missing c),
      pc_partial_shadow_ev_positive = f (pc_partial_shadow_ev_positive c),
      pc_partial_shadow_ev_negative = f (pc_partial_shadow_ev_negative c),
      pc_partial_replay_candidate_created = f (pc_partial_replay_candidate_created c),
      pc_partial_replay_candidate_rejected = f (pc_partial_replay_candidate_rejected c)\<rparr>"

definition add_counts :: "int pool_counts \<Rightarrow> int pool_counts \<Rightarrow> int pool_counts" where
  "add_counts a b =
     \<lparr>pc_pool_found = pc_pool_found a + pc_pool_found b, pc_pool_missing = pc_pool_missing a + pc_pool_missing b,
      pc_payload_built = pc_payload_built a + pc_payload_built b,
      pc_shadow_ev_positive = pc_shadow_ev_positive a + pc_shadow_ev_positive b,
      pc_shadow_ev_negative = pc_shadow_ev_negative a + pc_shadow_ev_negative b,
      pc_partial_entered_payload_builder = pc_partial_entered_payload_builder a + pc_partial_entered_payload_builder b,
      pc_partial_pool_discovery_attempted = pc_partial_pool_discovery_attempted a + pc_partial_pool_discovery_attempted b,
      pc_partial_pool_found = pc_partial_pool_found a + pc_partial_pool_found b,
      pc_partial_pool_missing = pc_partial_pool_missing a + pc_partial_pool_missing b,
      pc_partial_shadow_ev_positive = pc_partial_shadow_ev_positive a + pc_partial_shadow_ev_positive b,
      pc_partial_shadow_ev_negative = pc_partial_shadow_ev_negative a + pc_partial_shadow_ev_negative b,
      pc_partial_replay_candidate_created = pc_partial_replay_candidate_created a + pc_partial_replay_candidate_created b,
      pc_partial_replay_candidate_rejected = pc_partial_replay_candidate_rejected a + pc_partial_replay_candidate_rejected b\<rparr>"

record pool_row =
  pw_counts :: "int pool_counts"
  pw_expected_profit_sum :: f64
  pw_liquidity_sum :: f64
  pw_gas_gwei_sum :: f64
  pw_samples :: int
  pw_last_seen :: string

record relay_row =
  rw_network :: string
  rw_last_seen_at :: string
  rw_accepted :: int
  rw_submit_failed :: int
  rw_included_success :: int
  rw_included_revert :: int
  rw_not_included_timeout :: int
  rw_submit_latency_ms :: f64
  rw_finalization_latency_ms :: f64
  rw_score :: f64
  rw_pressure :: f64
  rw_accept_rate :: f64
  rw_inclusion_rate :: f64

record unsupported_selector_record =
  uq_target :: string
  uq_selector :: string
  uq_inner_selector :: string
  uq_token_hints :: string
  uq_input_bytes :: u64
  uq_sample_tx :: string
  uq_sample_calldata_prefix :: string
  uq_route_hint :: string

record unsupported_row =
  uw_count :: int
  uw_input_bytes :: int
  uw_first_seen :: string
  uw_last_seen :: string
  uw_sample_tx :: string
  uw_sample_calldata_prefix :: string
  uw_route_hint :: string

record replay_candidate_record =
  rc_tx_hash :: string
  rc_selector :: string
  rc_target :: string
  rc_pool :: string
  rc_path :: string
  rc_amount_in :: string
  rc_amount_out_min :: string
  rc_gas_gwei :: f64
  rc_block_number :: u64
  rc_expected_profit :: f64
  rc_confidence :: f64
  rc_decode_source :: string
  rc_status :: string
  rc_detail :: string

record replay_candidate_row =
  cw_record :: replay_candidate_record
  cw_created_at :: string
  cw_updated_at :: string

record replay_score_row =
  yw_cases :: int
  yw_success :: int
  yw_revert :: int
  yw_expected_profit_sum :: f64
  yw_simulated_profit_sum :: f64
  yw_gas_used_sum :: f64
  yw_last_seen :: string

record treasury_snapshot =
  ty_at :: string
  ty_executor_address :: string
  ty_vault_address :: string
  ty_profit_address :: string
  ty_balance_eth :: f64
  ty_min_buffer_eth :: f64
  ty_target_buffer_eth :: f64
  ty_max_buffer_eth :: f64
  ty_action :: string
  ty_recommended_amount_eth :: f64
  ty_status :: string
  ty_note :: string

record execution_outcome_snapshot =
  eo_at :: string
  eo_relay :: string
  eo_target_block :: u64
  eo_pair :: string
  eo_router :: string
  eo_token_in :: string
  eo_token_out :: string
  eo_victim_tx :: string
  eo_outcome :: string
  eo_expected_profit_eth :: f64
  eo_realized_profit_eth :: f64
  eo_gas_used :: u64
  eo_submit_latency_ms :: f64
  eo_finalization_latency_ms :: f64

record dashboard_event =
  ev_at :: string
  ev_level :: string
  ev_message :: string

record telemetry_row =
  tw_at :: string
  tw_stage :: string
  tw_duration_ms :: int
  tw_wallet :: "string option"
  tw_note :: "string option"

record database =
  tb_events :: "dashboard_event list"
  tb_telemetry :: "telemetry_row list"
  tb_latency :: "(string \<times> string \<times> string) \<rightharpoonup> latency_row"
  tb_funnel :: "(string \<times> string \<times> string) \<rightharpoonup> int"
  tb_reject :: "(string \<times> string \<times> string \<times> string) \<rightharpoonup> int"
  tb_selector :: "(string \<times> string \<times> string \<times> string \<times> string \<times> string) \<rightharpoonup> selector_row"
  tb_pool :: "(string \<times> string \<times> string \<times> string \<times> string \<times> string \<times> string \<times> u32) \<rightharpoonup> pool_row"
  tb_relay :: "string \<rightharpoonup> relay_row"
  tb_treasury :: "(string \<times> treasury_snapshot) list"
  tb_outcomes :: "(string \<times> execution_outcome_snapshot) list"
  tb_unsupported :: "(string \<times> string \<times> string \<times> string \<times> string) \<rightharpoonup> unsupported_row"
  tb_candidates :: "(string \<times> string \<times> string \<times> string \<times> string) \<rightharpoonup> replay_candidate_row"
  tb_replay_scores :: "(string \<times> string \<times> string \<times> string) \<rightharpoonup> replay_score_row"

definition empty_database :: database where
  "empty_database = \<lparr>tb_events = [], tb_telemetry = [], tb_latency = Map.empty, tb_funnel = Map.empty, tb_reject = Map.empty,
     tb_selector = Map.empty, tb_pool = Map.empty, tb_relay = Map.empty, tb_treasury = [], tb_outcomes = [],
     tb_unsupported = Map.empty, tb_candidates = Map.empty, tb_replay_scores = Map.empty\<rparr>"

section \<open>Writes\<close>

text \<open>\<open>INSERT ... ON CONFLICT DO UPDATE\<close>.\<close>

definition upsert :: "'k \<Rightarrow> 'r \<Rightarrow> ('r \<Rightarrow> 'r) \<Rightarrow> ('k \<rightharpoonup> 'r) \<Rightarrow> ('k \<rightharpoonup> 'r)" where
  "upsert k new upd t = t(k \<mapsto> (case t k of None \<Rightarrow> new | Some old \<Rightarrow> upd old))"

definition log_event :: "string \<Rightarrow> string \<Rightarrow> string \<Rightarrow> database \<Rightarrow> database" where
  "log_event now level message db =
     db\<lparr>tb_events := tb_events db @ [\<lparr>ev_at = now, ev_level = level, ev_message = message\<rparr>]\<rparr>"

definition db_clear_events :: "database \<Rightarrow> database" where
  "db_clear_events db = db\<lparr>tb_events := []\<rparr>"

definition log_telemetry ::
  "string \<Rightarrow> string \<Rightarrow> 128 word \<Rightarrow> string option \<Rightarrow> string option \<Rightarrow> database \<Rightarrow> database" where
  "log_telemetry now stage duration_ms wallet note db =
     db\<lparr>tb_telemetry := tb_telemetry db @ [\<lparr>tw_at = now, tw_stage = stage, tw_duration_ms = millis_as_i64 duration_ms,
          tw_wallet = wallet, tw_note = note\<rparr>]\<rparr>"

definition db_record_latency_rollup ::
  "string \<Rightarrow> string \<Rightarrow> string \<Rightarrow> u64 \<Rightarrow> 128 word \<Rightarrow> 128 word \<Rightarrow> 128 word \<Rightarrow> database \<Rightarrow> database" where
  "db_record_latency_rollup network bucket stage samples total_ms max_ms last_ms db =
     db\<lparr>tb_latency := upsert (network, bucket, stage)
          \<lparr>lw_samples = as_i64 samples, lw_total_ms = millis_as_i64 total_ms, lw_max_ms = millis_as_i64 max_ms,
           lw_last_ms = millis_as_i64 last_ms\<rparr>
          (\<lambda>r. \<lparr>lw_samples = lw_samples r + as_i64 samples, lw_total_ms = lw_total_ms r + millis_as_i64 total_ms,
                lw_max_ms = max (lw_max_ms r) (millis_as_i64 max_ms), lw_last_ms = millis_as_i64 last_ms\<rparr>)
          (tb_latency db)\<rparr>"

definition db_record_funnel_rollup :: "string \<Rightarrow> string \<Rightarrow> string \<Rightarrow> u64 \<Rightarrow> database \<Rightarrow> database" where
  "db_record_funnel_rollup network bucket stage n db =
     db\<lparr>tb_funnel := upsert (network, bucket, stage) (as_i64 n) (\<lambda>old. old + as_i64 n) (tb_funnel db)\<rparr>"

definition db_record_reject_reason_rollup :: "string \<Rightarrow> string \<Rightarrow> string \<Rightarrow> string \<Rightarrow> u64 \<Rightarrow> database \<Rightarrow> database" where
  "db_record_reject_reason_rollup network bucket stage reason n db =
     db\<lparr>tb_reject := upsert (network, bucket, stage, reason) (as_i64 n) (\<lambda>old. old + as_i64 n) (tb_reject db)\<rparr>"

definition db_record_selector_performance_rollup ::
  "string \<Rightarrow> string \<Rightarrow> string \<Rightarrow> string \<Rightarrow> string \<Rightarrow> string \<Rightarrow> string \<Rightarrow> u64 \<Rightarrow> f64 \<Rightarrow> f64 \<Rightarrow> database \<Rightarrow> database" where
  "db_record_selector_performance_rollup now network bucket selector target decode_source stage n confidence_sum gas_gwei_sum db =
     db\<lparr>tb_selector := upsert (network, bucket, selector, target, decode_source, stage)
          \<lparr>sw_count = as_i64 n, sw_confidence_sum = confidence_sum, sw_gas_gwei_sum = gas_gwei_sum, sw_last_seen = now\<rparr>
          (\<lambda>r. \<lparr>sw_count = sw_count r + as_i64 n, sw_confidence_sum = sw_confidence_sum r + confidence_sum,
                sw_gas_gwei_sum = sw_gas_gwei_sum r + gas_gwei_sum, sw_last_seen = now\<rparr>)
          (tb_selector db)\<rparr>"

definition db_record_selector_pool_performance_rollup ::
  "string \<Rightarrow> string \<Rightarrow> string \<Rightarrow> string \<Rightarrow> string \<Rightarrow> string \<Rightarrow> string \<Rightarrow> string \<Rightarrow> u32 \<Rightarrow> u64 pool_counts
     \<Rightarrow> f64 \<Rightarrow> f64 \<Rightarrow> f64 \<Rightarrow> u64 \<Rightarrow> database \<Rightarrow> database" where
  "db_record_selector_pool_performance_rollup now network bucket selector target token_pair pool dex_kind fee_tier counts
       expected_profit_sum liquidity_sum gas_gwei_sum samples db =
     db\<lparr>tb_pool := upsert (network, bucket, selector, target, token_pair, pool, dex_kind, fee_tier)
          \<lparr>pw_counts = map_counts as_i64 counts, pw_expected_profit_sum = expected_profit_sum, pw_liquidity_sum = liquidity_sum,
           pw_gas_gwei_sum = gas_gwei_sum, pw_samples = as_i64 samples, pw_last_seen = now\<rparr>
          (\<lambda>r. \<lparr>pw_counts = add_counts (pw_counts r) (map_counts as_i64 counts),
                pw_expected_profit_sum = pw_expected_profit_sum r + expected_profit_sum,
                pw_liquidity_sum = pw_liquidity_sum r + liquidity_sum, pw_gas_gwei_sum = pw_gas_gwei_sum r + gas_gwei_sum,
                pw_samples = pw_samples r + as_i64 samples, pw_last_seen = now\<rparr>)
          (tb_pool db)\<rparr>"

text \<open>A latency above zero enters the average; the other figures are replaced only by one above zero.\<close>

definition merged_latency :: "f64 \<Rightarrow> f64 \<Rightarrow> f64" where
  "merged_latency old new =
     (if 0 < new \<and> 0 < old then old * dec 8 1 + new * dec 2 1 else if 0 < new then new else old)"

definition if_positive :: "f64 \<Rightarrow> f64 \<Rightarrow> f64" where
  "if_positive old new = (if 0 < new then new else old)"

definition or_zero :: "f64 option \<Rightarrow> f64" where
  "or_zero x = (case x of Some v \<Rightarrow> v | None \<Rightarrow> 0)"

definition db_record_relay_outcome ::
  "string \<Rightarrow> string \<Rightarrow> string \<Rightarrow> u64 \<Rightarrow> u64 \<Rightarrow> u64 \<Rightarrow> u64 \<Rightarrow> u64 \<Rightarrow> f64 option \<Rightarrow> f64 option \<Rightarrow> f64 option \<Rightarrow> f64 option
     \<Rightarrow> f64 option \<Rightarrow> f64 option \<Rightarrow> database \<Rightarrow> database" where
  "db_record_relay_outcome now network relay accepted submit_failed included_success included_revert not_included_timeout
       submit_latency_ms finalization_latency_ms score pressure accept_rate inclusion_rate db =
     db\<lparr>tb_relay := upsert (scoped_relay network relay)
          \<lparr>rw_network = network, rw_last_seen_at = now, rw_accepted = as_i64 accepted, rw_submit_failed = as_i64 submit_failed,
           rw_included_success = as_i64 included_success, rw_included_revert = as_i64 included_revert,
           rw_not_included_timeout = as_i64 not_included_timeout, rw_submit_latency_ms = or_zero submit_latency_ms,
           rw_finalization_latency_ms = or_zero finalization_latency_ms, rw_score = or_zero score,
           rw_pressure = or_zero pressure, rw_accept_rate = or_zero accept_rate, rw_inclusion_rate = or_zero inclusion_rate\<rparr>
          (\<lambda>r. \<lparr>rw_network = network, rw_last_seen_at = now, rw_accepted = rw_accepted r + as_i64 accepted,
                rw_submit_failed = rw_submit_failed r + as_i64 submit_failed,
                rw_included_success = rw_included_success r + as_i64 included_success,
                rw_included_revert = rw_included_revert r + as_i64 included_revert,
                rw_not_included_timeout = rw_not_included_timeout r + as_i64 not_included_timeout,
                rw_submit_latency_ms = merged_latency (rw_submit_latency_ms r) (or_zero submit_latency_ms),
                rw_finalization_latency_ms = merged_latency (rw_finalization_latency_ms r) (or_zero finalization_latency_ms),
                rw_score = if_positive (rw_score r) (or_zero score), rw_pressure = if_positive (rw_pressure r) (or_zero pressure),
                rw_accept_rate = if_positive (rw_accept_rate r) (or_zero accept_rate),
                rw_inclusion_rate = if_positive (rw_inclusion_rate r) (or_zero inclusion_rate)\<rparr>)
          (tb_relay db)\<rparr>"

definition db_record_treasury :: "string \<Rightarrow> treasury_snapshot \<Rightarrow> database \<Rightarrow> database" where
  "db_record_treasury network row db = db\<lparr>tb_treasury := tb_treasury db @ [(network, row)]\<rparr>"

definition db_record_execution_outcome :: "string \<Rightarrow> execution_outcome_snapshot \<Rightarrow> database \<Rightarrow> database" where
  "db_record_execution_outcome network row db = db\<lparr>tb_outcomes := tb_outcomes db @ [(network, row)]\<rparr>"

definition db_record_unsupported_selector :: "string \<Rightarrow> string \<Rightarrow> unsupported_selector_record \<Rightarrow> database \<Rightarrow> database" where
  "db_record_unsupported_selector now network u db =
     db\<lparr>tb_unsupported := upsert (network, uq_target u, uq_selector u, uq_inner_selector u, uq_token_hints u)
          \<lparr>uw_count = 1, uw_input_bytes = as_i64 (uq_input_bytes u), uw_first_seen = now, uw_last_seen = now,
           uw_sample_tx = uq_sample_tx u, uw_sample_calldata_prefix = uq_sample_calldata_prefix u, uw_route_hint = uq_route_hint u\<rparr>
          (\<lambda>r. r\<lparr>uw_count := uw_count r + 1, uw_input_bytes := as_i64 (uq_input_bytes u), uw_last_seen := now,
                uw_sample_tx := uq_sample_tx u, uw_sample_calldata_prefix := uq_sample_calldata_prefix u,
                uw_route_hint := uq_route_hint u\<rparr>)
          (tb_unsupported db)\<rparr>"

definition db_record_replay_candidate :: "string \<Rightarrow> string \<Rightarrow> replay_candidate_record \<Rightarrow> database \<Rightarrow> database" where
  "db_record_replay_candidate now network c db =
     db\<lparr>tb_candidates := upsert (network, rc_tx_hash c, rc_selector c, rc_target c, rc_pool c)
          \<lparr>cw_record = c, cw_created_at = now, cw_updated_at = now\<rparr>
          (\<lambda>r. r\<lparr>cw_record := (cw_record r)\<lparr>rc_status := rc_status c, rc_detail := rc_detail c,
                    rc_expected_profit := rc_expected_profit c, rc_confidence := rc_confidence c, rc_gas_gwei := rc_gas_gwei c\<rparr>,
                cw_updated_at := now\<rparr>)
          (tb_candidates db)\<rparr>"

definition db_record_selector_replay_score ::
  "string \<Rightarrow> string \<Rightarrow> string \<Rightarrow> string \<Rightarrow> string \<Rightarrow> bool \<Rightarrow> bool \<Rightarrow> f64 \<Rightarrow> f64 \<Rightarrow> f64 \<Rightarrow> database \<Rightarrow> database" where
  "db_record_selector_replay_score now network selector target pool success reverted expected_profit simulated_profit gas_used db =
     db\<lparr>tb_replay_scores := upsert (network, selector, target, pool)
          \<lparr>yw_cases = 1, yw_success = of_bool success, yw_revert = of_bool reverted, yw_expected_profit_sum = expected_profit,
           yw_simulated_profit_sum = simulated_profit, yw_gas_used_sum = gas_used, yw_last_seen = now\<rparr>
          (\<lambda>r. \<lparr>yw_cases = yw_cases r + 1, yw_success = yw_success r + of_bool success,
                yw_revert = yw_revert r + of_bool reverted,
                yw_expected_profit_sum = yw_expected_profit_sum r + expected_profit,
                yw_simulated_profit_sum = yw_simulated_profit_sum r + simulated_profit,
                yw_gas_used_sum = yw_gas_used_sum r + gas_used, yw_last_seen = now\<rparr>)
          (tb_replay_scores db)\<rparr>"

section \<open>Retention\<close>

definition parse_i64 :: "string \<Rightarrow> int option" where
  "parse_i64 s =
     (case s of CHR ''-'' # ds \<Rightarrow>
        (case (if ds = [] then None else digits_from 0 ds) of Some n \<Rightarrow> if n \<le> 2 ^ 63 then Some (- n) else None | None \<Rightarrow> None)
      | _ \<Rightarrow> parse_unsigned (2 ^ 63) s)"

definition env_i64 :: "environment \<Rightarrow> string \<Rightarrow> int \<Rightarrow> int" where
  "env_i64 env name d = (case Option.bind (env name) (\<lambda>v. parse_i64 (trim v)) of Some n \<Rightarrow> n | None \<Rightarrow> d)"

definition runtime_retention_hours :: "environment \<Rightarrow> string \<Rightarrow> int \<Rightarrow> int" where
  "runtime_retention_hours env name d = max 1 (min (24 * 30) (env_i64 env name d))"

definition runtime_retention_days :: "environment \<Rightarrow> string \<Rightarrow> int \<Rightarrow> int" where
  "runtime_retention_days env name d = max 1 (min 365 (env_i64 env name d))"

text \<open>The order of texts in the database, byte by byte.\<close>

fun text_less :: "string \<Rightarrow> string \<Rightarrow> bool" where
  "text_less s [] = False"
| "text_less [] (d # ds) = True"
| "text_less (c # cs) (d # ds) =
     (if c = d then text_less cs ds else (of_char c :: nat) < of_char d)"

definition keep_rows :: "('k \<Rightarrow> 'r \<Rightarrow> bool) \<Rightarrow> ('k \<rightharpoonup> 'r) \<Rightarrow> ('k \<rightharpoonup> 'r)" where
  "keep_rows P t k = (case t k of Some r \<Rightarrow> if P k r then Some r else None | None \<Rightarrow> None)"

text \<open>\<open>cutoff\<close> is the time so many hours ago, as text. An error of a deletion leaves out the rest.\<close>

definition prune_steps :: "environment \<Rightarrow> (int \<Rightarrow> string) \<Rightarrow> (database \<Rightarrow> database) list" where
  "prune_steps env cutoff =
     (let events_cutoff = cutoff (runtime_retention_hours env ''STORAGE_EVENTS_RETENTION_HOURS'' 24);
          telemetry_cutoff = cutoff (runtime_retention_hours env ''STORAGE_TELEMETRY_RETENTION_HOURS'' 6);
          rollup_cutoff = cutoff (24 * runtime_retention_days env ''STORAGE_ROLLUP_RETENTION_DAYS'' 14)
      in [\<lambda>db. db\<lparr>tb_events := filter (\<lambda>e. \<not> text_less (ev_at e) events_cutoff) (tb_events db)\<rparr>,
          \<lambda>db. db\<lparr>tb_telemetry := filter (\<lambda>r. \<not> text_less (tw_at r) telemetry_cutoff) (tb_telemetry db)\<rparr>,
          \<lambda>db. db\<lparr>tb_latency := keep_rows (\<lambda>(_, bucket, _) _. \<not> text_less bucket rollup_cutoff) (tb_latency db)\<rparr>,
          \<lambda>db. db\<lparr>tb_funnel := keep_rows (\<lambda>(_, bucket, _) _. \<not> text_less bucket rollup_cutoff) (tb_funnel db)\<rparr>,
          \<lambda>db. db\<lparr>tb_reject := keep_rows (\<lambda>(_, bucket, _) _. \<not> text_less bucket rollup_cutoff) (tb_reject db)\<rparr>,
          \<lambda>db. db\<lparr>tb_selector := keep_rows (\<lambda>(_, bucket, _) _. \<not> text_less bucket rollup_cutoff) (tb_selector db)\<rparr>,
          \<lambda>db. db\<lparr>tb_pool := keep_rows (\<lambda>(_, bucket, _) _. \<not> text_less bucket rollup_cutoff) (tb_pool db)\<rparr>,
          \<lambda>db. db\<lparr>tb_candidates := keep_rows (\<lambda>_ r. \<not> (text_less (cw_created_at r) rollup_cutoff
             \<and> rc_status (cw_record r) \<in> {''queued'', ''deferred'', ''replay_candidate''})) (tb_candidates db)\<rparr>])"

definition prune_runtime_tables :: "environment \<Rightarrow> (int \<Rightarrow> string) \<Rightarrow> nat \<Rightarrow> database \<Rightarrow> database" where
  "prune_runtime_tables env cutoff succeeded db = fold (\<lambda>step. step) (take succeeded (prune_steps env cutoff)) db"

section \<open>Queries\<close>

definition recent_events :: "nat \<Rightarrow> database \<Rightarrow> dashboard_event list" where
  "recent_events limit db = take limit (rev (tb_events db))"

definition treasury_rebalance_trail :: "string \<Rightarrow> nat \<Rightarrow> database \<Rightarrow> treasury_snapshot list" where
  "treasury_rebalance_trail network limit db =
     take limit (rev (map snd (filter (\<lambda>(n, _). n = network) (tb_treasury db))))"

definition execution_outcomes :: "string \<Rightarrow> nat \<Rightarrow> database \<Rightarrow> execution_outcome_snapshot list" where
  "execution_outcomes network limit db =
     take limit (rev (map snd (filter (\<lambda>(n, _). n = network) (tb_outcomes db))))"

text \<open>
  Per stage the number of samples since the cutoff, the last, the average and the maximum; both backends
  average as floating point. The result is a hash map; the model lists the stages by their last row.
\<close>

definition window_rows :: "string \<Rightarrow> database \<Rightarrow> telemetry_row list" where
  "window_rows cutoff db = filter (\<lambda>r. \<not> text_less (tw_at r) cutoff) (tb_telemetry db)"

definition as_u128 :: "int \<Rightarrow> 128 word" where
  "as_u128 = word_of_int"

definition stage_figures :: "telemetry_row list \<Rightarrow> u64 \<times> 128 word \<times> 128 word \<times> 128 word" where
  "stage_figures rows =
     (let ms = map tw_duration_ms rows in
      (of_nat (length ms), as_u128 (last ms), f_as_word (of_usize (sum_list ms) / of_usize (int (length ms))),
       as_u128 (fold max ms (hd ms))))"

definition telemetry_window_summary ::
  "string \<Rightarrow> database \<Rightarrow> (string \<times> u64 \<times> 128 word \<times> 128 word \<times> 128 word) list" where
  "telemetry_window_summary cutoff db =
     (let rows = window_rows cutoff db in
      map (\<lambda>stage. (stage, stage_figures (filter (\<lambda>r. tw_stage r = stage) rows))) (remdups (map tw_stage rows)))"

section \<open>Scores\<close>

definition percent_of :: "u64 \<Rightarrow> u64 \<Rightarrow> f64" where
  "percent_of part whole = (if whole = 0 then 0 else of_uw part / of_uw whole * dec 100 0)"

definition mean_of :: "f64 \<Rightarrow> u64 \<Rightarrow> f64" where
  "mean_of whole n = (if n = 0 then 0 else whole / of_uw n)"

record selector_performance_snapshot =
  sp_selector :: string
  sp_target :: string
  sp_decode_source :: string
  sp_partial_signal :: u64
  sp_payload_built :: u64
  sp_payload_reject :: u64
  sp_confidence_reject :: u64
  sp_ev_gate_pass :: u64
  sp_ev_gate_reject :: u64
  sp_execution_ready :: u64
  sp_submit_attempted :: u64
  sp_total :: u64
  sp_avg_confidence :: f64
  sp_avg_gas_gwei :: f64
  sp_built_rate_pct :: f64
  sp_reject_rate_pct :: f64
  sp_classification :: string
  sp_last_seen :: string

definition build_selector_performance_snapshot ::
  "string \<Rightarrow> string \<Rightarrow> string \<Rightarrow> u64 \<Rightarrow> u64 \<Rightarrow> u64 \<Rightarrow> u64 \<Rightarrow> u64 \<Rightarrow> u64 \<Rightarrow> u64 \<Rightarrow> u64 \<Rightarrow> u64 \<Rightarrow> f64 \<Rightarrow> f64 \<Rightarrow> string
     \<Rightarrow> selector_performance_snapshot" where
  "build_selector_performance_snapshot selector target decode_source partial_signal payload_built payload_reject
       confidence_reject ev_gate_pass ev_gate_reject execution_ready submit_attempted whole confidence_sum gas_gwei_sum last_seen =
     (let avg_confidence = mean_of confidence_sum whole; avg_gas_gwei = mean_of gas_gwei_sum whole;
          built_rate_pct = percent_of payload_built whole;
          reject_rate_pct = percent_of (sat_add payload_reject confidence_reject) whole
      in \<lparr>sp_selector = selector, sp_target = target, sp_decode_source = decode_source, sp_partial_signal = partial_signal,
          sp_payload_built = payload_built, sp_payload_reject = payload_reject, sp_confidence_reject = confidence_reject,
          sp_ev_gate_pass = ev_gate_pass, sp_ev_gate_reject = ev_gate_reject, sp_execution_ready = execution_ready,
          sp_submit_attempted = submit_attempted, sp_total = whole, sp_avg_confidence = avg_confidence,
          sp_avg_gas_gwei = avg_gas_gwei, sp_built_rate_pct = built_rate_pct, sp_reject_rate_pct = reject_rate_pct,
          sp_classification =
            (if 0 < payload_built \<and> dec 5 0 \<le> built_rate_pct then ''good''
             else if sat_add payload_built payload_reject < confidence_reject \<and> 3 \<le> confidence_reject then ''noisy''
             else if dec 500 0 \<le> avg_gas_gwei \<and> payload_built = 0 then ''expensive''
             else if 3 \<le> partial_signal \<and> payload_built = 0 then ''promising''
             else ''watch''),
          sp_last_seen = last_seen\<rparr>)"

record selector_pool_performance_snapshot =
  pp_selector :: string
  pp_target :: string
  pp_token_pair :: string
  pp_pool :: string
  pp_dex_kind :: string
  pp_fee_tier :: u32
  pp_counts :: "u64 pool_counts"
  pp_total :: u64
  pp_avg_expected_profit :: f64
  pp_avg_liquidity :: f64
  pp_avg_gas_gwei :: f64
  pp_classification :: string
  pp_last_seen :: string

definition build_selector_pool_performance_snapshot ::
  "string \<Rightarrow> string \<Rightarrow> string \<Rightarrow> string \<Rightarrow> string \<Rightarrow> u32 \<Rightarrow> u64 pool_counts \<Rightarrow> u64 \<Rightarrow> f64 \<Rightarrow> f64 \<Rightarrow> f64 \<Rightarrow> string
     \<Rightarrow> selector_pool_performance_snapshot" where
  "build_selector_pool_performance_snapshot selector target token_pair pool dex_kind fee_tier c whole
       expected_profit_sum liquidity_sum gas_gwei_sum last_seen =
     (let unverified = (eq_ignore_ascii_case dex_kind ''v3'' \<and> pc_partial_replay_candidate_created c = 0);
          trusted_positive = (if unverified then 0 else pc_shadow_ev_positive c);
          trusted_sum = (if unverified then 0 else expected_profit_sum);
          profit_samples = max trusted_positive 1
      in \<lparr>pp_selector = selector, pp_target = target, pp_token_pair = token_pair, pp_pool = pool, pp_dex_kind = dex_kind,
          pp_fee_tier = fee_tier, pp_counts = c, pp_total = whole,
          pp_avg_expected_profit = (if trusted_positive = 0 then 0 else trusted_sum / of_uw profit_samples),
          pp_avg_liquidity = mean_of liquidity_sum whole, pp_avg_gas_gwei = mean_of gas_gwei_sum whole,
          pp_classification =
            (if unverified \<and> 0 < pc_shadow_ev_positive c then ''v3_shadow_ev_unverified''
             else if 0 < pc_shadow_ev_positive c then ''evolve_decoder''
             else if 0 < pc_payload_built c then ''pool_real_payload_ready''
             else if 0 < pc_pool_found c \<and> 0 < pc_shadow_ev_negative c then ''pool_real_no_edge''
             else if 0 < pc_pool_found c \<and> pc_pool_missing c = 0 then ''pool_real_watch''
             else if pc_pool_found c < pc_pool_missing c then ''pool_missing_or_wrong_path''
             else ''watch''),
          pp_last_seen = last_seen\<rparr>)"

record selector_replay_score_snapshot =
  sc_selector :: string
  sc_target :: string
  sc_pool :: string
  sc_replay_cases :: u64
  sc_replay_success_count :: u64
  sc_replay_revert_count :: u64
  sc_avg_expected_profit :: f64
  sc_avg_simulated_profit :: f64
  sc_avg_gas_used :: f64
  sc_success_rate_pct :: f64
  sc_revert_rate_pct :: f64
  sc_recommendation :: string
  sc_last_seen :: string

definition build_selector_replay_score_snapshot ::
  "string \<Rightarrow> string \<Rightarrow> string \<Rightarrow> u64 \<Rightarrow> u64 \<Rightarrow> u64 \<Rightarrow> f64 \<Rightarrow> f64 \<Rightarrow> f64 \<Rightarrow> string \<Rightarrow> selector_replay_score_snapshot" where
  "build_selector_replay_score_snapshot selector target pool cases successes reverts expected_sum simulated_sum gas_sum last_seen =
     (let success_rate_pct = percent_of successes cases; revert_rate_pct = percent_of reverts cases
      in \<lparr>sc_selector = selector, sc_target = target, sc_pool = pool, sc_replay_cases = cases,
          sc_replay_success_count = successes, sc_replay_revert_count = reverts,
          sc_avg_expected_profit = mean_of expected_sum cases, sc_avg_simulated_profit = mean_of simulated_sum cases,
          sc_avg_gas_used = mean_of gas_sum cases, sc_success_rate_pct = success_rate_pct, sc_revert_rate_pct = revert_rate_pct,
          sc_recommendation =
            (if 3 \<le> cases \<and> dec 70 0 \<le> success_rate_pct \<and> revert_rate_pct \<le> dec 20 0 then ''canary_ready''
             else if 3 \<le> cases \<and> dec 20 0 < revert_rate_pct then ''reject_revert''
             else if 0 < successes then ''replay_more''
             else ''watch''),
          sc_last_seen = last_seen\<rparr>)"

text \<open>A column read as \<open>i64\<close> and taken as unsigned; the rows in the order of the query are an argument.\<close>

definition column_u64 :: "int \<Rightarrow> u64" where
  "column_u64 n = word_of_int (max n 0)"

definition replay_score_of_row :: "string \<times> string \<times> string \<times> string \<Rightarrow> replay_score_row \<Rightarrow> selector_replay_score_snapshot" where
  "replay_score_of_row key r =
     (case key of (network, selector, target, pool) \<Rightarrow>
        build_selector_replay_score_snapshot selector target pool (column_u64 (yw_cases r)) (column_u64 (yw_success r))
          (column_u64 (yw_revert r)) (yw_expected_profit_sum r) (yw_simulated_profit_sum r) (yw_gas_used_sum r) (yw_last_seen r))"

record toxicity_snapshot =
  tox_hour_utc :: u8
  tox_pair :: string
  tox_router :: string
  tox_samples :: u64
  tox_success_rate :: f64
  tox_miss_rate :: f64
  tox_revert_rate :: f64
  tox_realized_capture :: f64
  tox_score :: f64

definition profile_toxicity_score :: "f64 \<Rightarrow> f64 \<Rightarrow> f64 \<Rightarrow> f64 \<Rightarrow> f64" where
  "profile_toxicity_score success_rate miss_rate revert_rate realized_capture =
     fclamp 0 1 (fclamp 0 1 (1 - success_rate) * dec 30 2 + fclamp 0 1 miss_rate * dec 30 2 + fclamp 0 1 revert_rate * dec 25 2
        + fclamp 0 1 (1 - realized_capture) * dec 15 2)"

section \<open>Exports\<close>

record realized_vs_expected_row =
  rx_outcome :: execution_outcome_snapshot
  rx_delta_profit_eth :: f64
  rx_capture_ratio :: f64

definition row_of_snapshot :: "execution_outcome_snapshot \<Rightarrow> realized_vs_expected_row" where
  "row_of_snapshot s =
     \<lparr>rx_outcome = s, rx_delta_profit_eth = eo_realized_profit_eth s - eo_expected_profit_eth s,
      rx_capture_ratio = (if \<bar>eo_expected_profit_eth s\<bar> \<le> epsilon then 0
        else eo_realized_profit_eth s / eo_expected_profit_eth s)\<rparr>"

definition double_quotes :: "string \<Rightarrow> string" where
  "double_quotes value = concat (map (\<lambda>c. if c = CHR 0x22 then [CHR 0x22, CHR 0x22] else [c]) value)"

definition csv_field :: "string \<Rightarrow> string" where
  "csv_field value = [CHR 0x22] @ double_quotes value @ [CHR 0x22]"

text \<open>A number printed with so many places: the nearest, ties to even, with the sign of the value.\<close>

fun pad_left :: "nat \<Rightarrow> string \<Rightarrow> string" where
  "pad_left n s = replicate (n - length s) (CHR ''0'') @ s"

fun show_fixed :: "nat \<Rightarrow> f64 \<Rightarrow> string" where
  "show_fixed places NaN = ''NaN''"
| "show_fixed places (Infty s) = (if s then ''-inf'' else ''inf'')"
| "show_fixed places (Fin s m e) =
     (let scale = 10 ^ places;
          n = (if 0 \<le> e then \<bar>m\<bar> * 2 ^ nat e * scale else rne (\<bar>m\<bar> * scale) (2 ^ nat (- e)))
      in (if s then ''-'' else []) @ dec_str (n div scale)
         @ (if places = 0 then [] else CHR ''.'' # pad_left places (dec_str (n mod scale))))"

definition toxicity_csv_row :: "toxicity_snapshot \<Rightarrow> string" where
  "toxicity_csv_row p =
     csv_field (tox_router p) @ '','' @ csv_field (tox_pair p) @ '','' @ dec_str (uint (tox_hour_utc p)) @ '',''
       @ show_fixed 6 (tox_revert_rate p) @ '','' @ dec_str (uint (tox_samples p)) @ '',''
       @ show_fixed 6 (tox_success_rate p) @ '','' @ show_fixed 6 (tox_miss_rate p) @ '',''
       @ show_fixed 6 (tox_realized_capture p) @ '','' @ show_fixed 6 (tox_score p) @ [CHR 0x0A]"

definition toxicity_csv :: "toxicity_snapshot list \<Rightarrow> string" where
  "toxicity_csv profiles =
     ''router,pair,hour,revert_rate,samples,success_rate,miss_rate,realized_capture,toxicity_score'' @ [CHR 0x0A]
       @ concat (map toxicity_csv_row profiles)"

definition versioned_name :: "string \<Rightarrow> string \<Rightarrow> string \<Rightarrow> string" where
  "versioned_name network timestamp name = network @ ''.'' @ timestamp @ ''.'' @ name"

end
