(* ===== verification/DashData.thy ===== *)
theory DashData
  imports StorageTables Rpc PayloadBuilder
begin

text \<open>
  The data of \<open>src/dashboard.rs\<close>: the figures it shows, the buffers of rows still to be written to the
  storage, and the functions that update one of them. Hash maps are association lists; where the order
  of their entries is seen, it is an argument. A minute and a time of day are texts, given by the clock.
\<close>

section \<open>Switches\<close>

definition env_bool :: "environment \<Rightarrow> string \<Rightarrow> bool \<Rightarrow> bool" where
  "env_bool env name d =
     (case env name of None \<Rightarrow> d
      | Some value \<Rightarrow>
          (let v = to_ascii_lowercase (trim value) in
           if v \<in> {''1'', ''true'', ''yes'', ''on''} then True
           else if v \<in> {''0'', ''false'', ''no'', ''off''} then False
           else d))"

definition dash_env_u64 :: "environment \<Rightarrow> string \<Rightarrow> u64 \<Rightarrow> u64" where
  "dash_env_u64 env name d = (case Option.bind (env name) (\<lambda>v. parse_u64 (trim v)) of Some n \<Rightarrow> n | None \<Rightarrow> d)"

definition storage_events_enabled :: "environment \<Rightarrow> bool" where
  "storage_events_enabled env = env_bool env ''STORAGE_EVENTS_ENABLED'' False"

definition storage_telemetry_enabled :: "environment \<Rightarrow> bool" where
  "storage_telemetry_enabled env = env_bool env ''STORAGE_TELEMETRY_ENABLED'' False"

definition storage_rollups_enabled :: "environment \<Rightarrow> bool" where
  "storage_rollups_enabled env = env_bool env ''STORAGE_ROLLUPS_ENABLED'' True"

definition file_latency_enabled :: "environment \<Rightarrow> bool" where
  "file_latency_enabled env = env_bool env ''MEV_FILE_LATENCY_TELEMETRY_ENABLED'' False"

section \<open>Buffers\<close>

type_synonym u128 = "128 word"

record pending_latency =
  pl_stage :: string
  pl_duration_ms :: u128
  pl_wallet :: "string option"
  pl_note :: "string option"

record pending_latency_rollup =
  plr_bucket :: string
  plr_stage :: string
  plr_samples :: u64
  plr_total_ms :: u128
  plr_max_ms :: u128
  plr_last_ms :: u128

record pending_counter_rollup =
  pcr_bucket :: string
  pcr_stage :: string
  pcr_count :: u64

record pending_reject_reason_rollup =
  prr_bucket :: string
  prr_stage :: string
  prr_reason :: string
  prr_count :: u64

record pending_selector_performance_rollup =
  psr_bucket :: string
  psr_selector :: string
  psr_target :: string
  psr_decode_source :: string
  psr_stage :: string
  psr_count :: u64
  psr_confidence_sum :: f64
  psr_gas_gwei_sum :: f64

record pending_selector_pool_performance_rollup =
  ppr_bucket :: string
  ppr_selector :: string
  ppr_target :: string
  ppr_token_pair :: string
  ppr_pool :: string
  ppr_dex_kind :: string
  ppr_fee_tier :: u32
  ppr_counts :: "u64 pool_counts"
  ppr_expected_profit_sum :: f64
  ppr_liquidity_sum :: f64
  ppr_gas_gwei_sum :: f64
  ppr_samples :: u64

record relay_update =
  ru_relay :: string
  ru_accepted :: bool
  ru_submit_failed :: bool
  ru_included_success :: bool
  ru_included_revert :: bool
  ru_not_included_timeout :: bool
  ru_submit_latency_ms :: "f64 option"
  ru_finalization_latency_ms :: "f64 option"
  ru_score :: "f64 option"
  ru_pressure :: "f64 option"
  ru_accept_rate :: "f64 option"
  ru_inclusion_rate :: "f64 option"

text \<open>
  A treasury recommendation or an execution outcome is buffered without its time, which the storage
  sets when it writes the row; here the time is blank until then.
\<close>

record pending_storage_writes =
  pd_events :: "(string \<times> string) list"
  pd_latencies :: "pending_latency list"
  pd_latency_rollups :: "(string \<times> pending_latency_rollup) list"
  pd_funnel_rollups :: "(string \<times> pending_counter_rollup) list"
  pd_reject_reason_rollups :: "(string \<times> pending_reject_reason_rollup) list"
  pd_selector_rollups :: "(string \<times> pending_selector_performance_rollup) list"
  pd_pool_rollups :: "(string \<times> pending_selector_pool_performance_rollup) list"
  pd_relay_updates :: "relay_update list"
  pd_treasury_updates :: "treasury_snapshot list"
  pd_execution_outcomes :: "execution_outcome_snapshot list"
  pd_unsupported_selectors :: "unsupported_selector_record list"

definition empty_pending :: pending_storage_writes where
  "empty_pending =
     \<lparr>pd_events = [], pd_latencies = [], pd_latency_rollups = [], pd_funnel_rollups = [], pd_reject_reason_rollups = [],
      pd_selector_rollups = [], pd_pool_rollups = [], pd_relay_updates = [], pd_treasury_updates = [],
      pd_execution_outcomes = [], pd_unsupported_selectors = []\<rparr>"

text \<open>\<open>entry(key).or_insert_with(new)\<close>, then a change of the entry.\<close>

fun entry_update :: "'k \<Rightarrow> 'v \<Rightarrow> ('v \<Rightarrow> 'v) \<Rightarrow> ('k \<times> 'v) list \<Rightarrow> ('k \<times> 'v) list" where
  "entry_update k new f [] = [(k, f new)]"
| "entry_update k new f ((k', v) # rest) =
     (if k' = k then (k', f v) # rest else (k', v) # entry_update k new f rest)"

definition rollup_key :: "string list \<Rightarrow> string" where
  "rollup_key parts = concat (map (\<lambda>(i, p). if i = 0 then p else ''|'' @ p) (enumerate 0 parts))"

section \<open>The opportunity funnel\<close>

record opportunity_funnel_snapshot =
  fn_pending_hashes_received :: u64
  fn_tx_lookup_success :: u64
  fn_tx_lookup_miss :: u64
  fn_tx_lookup_throttled :: u64
  fn_decode_pass :: u64
  fn_decode_reject :: u64
  fn_partial_signal :: u64
  fn_block_lookup_success :: u64
  fn_block_lookup_fail :: u64
  fn_fast_preflight_pass :: u64
  fn_fast_preflight_reject :: u64
  fn_adaptive_preflight_pass :: u64
  fn_adaptive_preflight_reject :: u64
  fn_payload_built :: u64
  fn_shadow_payload_built :: u64
  fn_payload_reject :: u64
  fn_payload_to_quote_pass :: u64
  fn_payload_to_quote_reject :: u64
  fn_ev_gate_pass :: u64
  fn_ev_gate_reject :: u64
  fn_adaptive_quote_candidate :: u64
  fn_adaptive_quote_pass :: u64
  fn_adaptive_quote_reject :: u64
  fn_adaptive_quote_error :: u64
  fn_execution_ready_candidate :: u64
  fn_execution_ready :: u64
  fn_execution_ready_reject :: u64
  fn_submit_attempted :: u64
  fn_submit_succeeded :: u64
  fn_submit_failed :: u64

definition empty_funnel :: opportunity_funnel_snapshot where
  "empty_funnel =
     \<lparr>fn_pending_hashes_received = 0, fn_tx_lookup_success = 0, fn_tx_lookup_miss = 0, fn_tx_lookup_throttled = 0,
      fn_decode_pass = 0, fn_decode_reject = 0, fn_partial_signal = 0, fn_block_lookup_success = 0,
      fn_block_lookup_fail = 0, fn_fast_preflight_pass = 0, fn_fast_preflight_reject = 0,
      fn_adaptive_preflight_pass = 0, fn_adaptive_preflight_reject = 0, fn_payload_built = 0,
      fn_shadow_payload_built = 0, fn_payload_reject = 0, fn_payload_to_quote_pass = 0, fn_payload_to_quote_reject = 0,
      fn_ev_gate_pass = 0, fn_ev_gate_reject = 0, fn_adaptive_quote_candidate = 0, fn_adaptive_quote_pass = 0,
      fn_adaptive_quote_reject = 0, fn_adaptive_quote_error = 0, fn_execution_ready_candidate = 0,
      fn_execution_ready = 0, fn_execution_ready_reject = 0, fn_submit_attempted = 0, fn_submit_succeeded = 0,
      fn_submit_failed = 0\<rparr>"

definition plus_one :: "u64 \<Rightarrow> u64" where
  "plus_one n = sat_add n 1"

text \<open>A stage that is not listed is ignored.\<close>

definition bump_funnel :: "string \<Rightarrow> opportunity_funnel_snapshot \<Rightarrow> opportunity_funnel_snapshot" where
  "bump_funnel stage f =
     (if stage = ''pending_hashes_received'' then f\<lparr>fn_pending_hashes_received := plus_one (fn_pending_hashes_received f)\<rparr>
      else if stage = ''tx_lookup_success'' then f\<lparr>fn_tx_lookup_success := plus_one (fn_tx_lookup_success f)\<rparr>
      else if stage = ''tx_lookup_miss'' then f\<lparr>fn_tx_lookup_miss := plus_one (fn_tx_lookup_miss f)\<rparr>
      else if stage = ''tx_lookup_throttled'' then f\<lparr>fn_tx_lookup_throttled := plus_one (fn_tx_lookup_throttled f)\<rparr>
      else if stage = ''decode_pass'' then f\<lparr>fn_decode_pass := plus_one (fn_decode_pass f)\<rparr>
      else if stage = ''decode_reject'' then f\<lparr>fn_decode_reject := plus_one (fn_decode_reject f)\<rparr>
      else if stage = ''partial_signal'' then f\<lparr>fn_partial_signal := plus_one (fn_partial_signal f)\<rparr>
      else if stage = ''block_lookup_success'' then f\<lparr>fn_block_lookup_success := plus_one (fn_block_lookup_success f)\<rparr>
      else if stage = ''block_lookup_fail'' then f\<lparr>fn_block_lookup_fail := plus_one (fn_block_lookup_fail f)\<rparr>
      else if stage = ''fast_preflight_pass'' then f\<lparr>fn_fast_preflight_pass := plus_one (fn_fast_preflight_pass f)\<rparr>
      else if stage = ''fast_preflight_reject'' then f\<lparr>fn_fast_preflight_reject := plus_one (fn_fast_preflight_reject f)\<rparr>
      else if stage = ''adaptive_preflight_pass'' then f\<lparr>fn_adaptive_preflight_pass := plus_one (fn_adaptive_preflight_pass f)\<rparr>
      else if stage = ''adaptive_preflight_reject'' then f\<lparr>fn_adaptive_preflight_reject := plus_one (fn_adaptive_preflight_reject f)\<rparr>
      else if stage = ''payload_built'' then f\<lparr>fn_payload_built := plus_one (fn_payload_built f)\<rparr>
      else if stage = ''shadow_payload_built'' then f\<lparr>fn_shadow_payload_built := plus_one (fn_shadow_payload_built f)\<rparr>
      else if stage = ''payload_reject'' then f\<lparr>fn_payload_reject := plus_one (fn_payload_reject f)\<rparr>
      else if stage = ''payload_to_quote_pass'' then f\<lparr>fn_payload_to_quote_pass := plus_one (fn_payload_to_quote_pass f)\<rparr>
      else if stage = ''payload_to_quote_reject'' then f\<lparr>fn_payload_to_quote_reject := plus_one (fn_payload_to_quote_reject f)\<rparr>
      else if stage = ''ev_gate_pass'' then f\<lparr>fn_ev_gate_pass := plus_one (fn_ev_gate_pass f)\<rparr>
      else if stage = ''ev_gate_reject'' then f\<lparr>fn_ev_gate_reject := plus_one (fn_ev_gate_reject f)\<rparr>
      else if stage = ''adaptive_quote_candidate'' then f\<lparr>fn_adaptive_quote_candidate := plus_one (fn_adaptive_quote_candidate f)\<rparr>
      else if stage = ''adaptive_quote_pass'' then f\<lparr>fn_adaptive_quote_pass := plus_one (fn_adaptive_quote_pass f)\<rparr>
      else if stage = ''adaptive_quote_reject'' then f\<lparr>fn_adaptive_quote_reject := plus_one (fn_adaptive_quote_reject f)\<rparr>
      else if stage = ''adaptive_quote_error'' then f\<lparr>fn_adaptive_quote_error := plus_one (fn_adaptive_quote_error f)\<rparr>
      else if stage = ''execution_ready_candidate'' then f\<lparr>fn_execution_ready_candidate := plus_one (fn_execution_ready_candidate f)\<rparr>
      else if stage = ''execution_ready'' then f\<lparr>fn_execution_ready := plus_one (fn_execution_ready f)\<rparr>
      else if stage = ''execution_ready_reject'' then f\<lparr>fn_execution_ready_reject := plus_one (fn_execution_ready_reject f)\<rparr>
      else if stage = ''submit_attempted'' then f\<lparr>fn_submit_attempted := plus_one (fn_submit_attempted f)\<rparr>
      else if stage = ''submit_succeeded'' then f\<lparr>fn_submit_succeeded := plus_one (fn_submit_succeeded f)\<rparr>
      else if stage = ''submit_failed'' then f\<lparr>fn_submit_failed := plus_one (fn_submit_failed f)\<rparr>
      else f)"

definition pending_funnel :: "string \<Rightarrow> string \<Rightarrow> pending_storage_writes \<Rightarrow> pending_storage_writes" where
  "pending_funnel bucket stage p =
     p\<lparr>pd_funnel_rollups := entry_update (rollup_key [bucket, stage]) \<lparr>pcr_bucket = bucket, pcr_stage = stage, pcr_count = 0\<rparr>
          (\<lambda>r. r\<lparr>pcr_count := plus_one (pcr_count r)\<rparr>) (pd_funnel_rollups p)\<rparr>"

section \<open>Events\<close>

definition push_event :: "string \<Rightarrow> string \<Rightarrow> string \<Rightarrow> dashboard_event list \<Rightarrow> dashboard_event list" where
  "push_event tm level message queue = take 50 (\<lparr>ev_at = tm, ev_level = level, ev_message = message\<rparr> # queue)"

section \<open>Latencies\<close>

record latency_metric =
  lm_stage :: string
  lm_samples :: u64
  lm_last_ms :: "u128 option"
  lm_avg_ms :: "u128 option"
  lm_max_ms :: "u128 option"

definition updated_metric :: "u128 \<Rightarrow> latency_metric \<Rightarrow> latency_metric" where
  "updated_metric duration_ms m =
     (let samples = plus_one (lm_samples m) in
      m\<lparr>lm_samples := samples, lm_last_ms := Some duration_ms,
        lm_avg_ms := Some (case lm_avg_ms m of
            Some previous \<Rightarrow> (previous * (ucast samples - 1) + duration_ms) div ucast samples
          | None \<Rightarrow> duration_ms),
        lm_max_ms := Some (max (case lm_max_ms m of Some x \<Rightarrow> x | None \<Rightarrow> duration_ms) duration_ms)\<rparr>)"

fun upsert_latency_metric :: "latency_metric list \<Rightarrow> string \<Rightarrow> u128 \<Rightarrow> latency_metric list" where
  "upsert_latency_metric [] stage d =
     [\<lparr>lm_stage = stage, lm_samples = 1, lm_last_ms = Some d, lm_avg_ms = Some d, lm_max_ms = Some d\<rparr>]"
| "upsert_latency_metric (m # ms) stage d =
     (if lm_stage m = stage then updated_metric d m # ms else m # upsert_latency_metric ms stage d)"

definition pending_latency_sample ::
  "environment \<Rightarrow> string \<Rightarrow> string \<Rightarrow> u128 \<Rightarrow> string option \<Rightarrow> string option \<Rightarrow> pending_storage_writes \<Rightarrow> pending_storage_writes" where
  "pending_latency_sample env bucket stage d wallet note p =
     (let p1 = (if storage_telemetry_enabled env
            then p\<lparr>pd_latencies := pd_latencies p @ [\<lparr>pl_stage = stage, pl_duration_ms = d, pl_wallet = wallet, pl_note = note\<rparr>]\<rparr>
            else p)
      in if storage_rollups_enabled env
         then p1\<lparr>pd_latency_rollups := entry_update (rollup_key [bucket, stage])
                 \<lparr>plr_bucket = bucket, plr_stage = stage, plr_samples = 0, plr_total_ms = 0, plr_max_ms = 0, plr_last_ms = 0\<rparr>
                 (\<lambda>r. r\<lparr>plr_samples := plus_one (plr_samples r), plr_total_ms := sat_add (plr_total_ms r) d,
                       plr_max_ms := max (plr_max_ms r) d, plr_last_ms := d\<rparr>) (pd_latency_rollups p1)\<rparr>
         else p1)"

text \<open>A stage with its number of samples, last, average and maximum.\<close>

type_synonym stage_summary = "string \<times> u64 \<times> u128 \<times> u128 \<times> u128"

definition metric_of_summary :: "stage_summary list \<Rightarrow> string \<Rightarrow> latency_metric" where
  "metric_of_summary summary stage =
     (case map_of summary stage of
        Some (samples, last_ms, avg_ms, max_ms) \<Rightarrow>
          \<lparr>lm_stage = stage, lm_samples = samples, lm_last_ms = Some last_ms, lm_avg_ms = Some avg_ms, lm_max_ms = Some max_ms\<rparr>
      | None \<Rightarrow> \<lparr>lm_stage = stage, lm_samples = 0, lm_last_ms = None, lm_avg_ms = None, lm_max_ms = None\<rparr>)"

definition build_latency_metrics :: "stage_summary list \<Rightarrow> latency_metric list" where
  "build_latency_metrics summary =
     map (metric_of_summary summary)
       [''block_fetch'', ''scan_cycle'', ''enqueue_latency'', ''queue_wait'', ''tx_prepare'', ''bundle_attempt'']"

definition is_hot_path_latency_stage :: "string \<Rightarrow> bool" where
  "is_hot_path_latency_stage stage =
     (stage \<in> {''decode'', ''fast_preflight'', ''adaptive_preflight'', ''payload_build'', ''quote'', ''fee_pending_lookup'',
               ''tx_prepare'', ''bundle_attempt''})"

definition pressure_of :: "f64 \<Rightarrow> f64 \<Rightarrow> f64" where
  "pressure_of v budget = (if v \<le> 0 \<or> budget \<le> 0 then 0 else fclamp 0 (dec 15 1) (v / budget - dec 5 1) / dec 15 1)"

record latency_risk_snapshot =
  rsk_updated_at :: string
  rsk_window_secs :: u64
  rsk_sample_count :: u64
  rsk_hot_path_avg_ms :: u128
  rsk_hot_path_max_ms :: u128
  rsk_monitor_avg_ms :: u128
  rsk_rpc_avg_ms :: u128
  rsk_score :: f64
  rsk_level :: string
  rsk_bottleneck_stage :: string

record latency_tally =
  lt_sample_count :: u64
  lt_hot_sum :: u128
  lt_hot_samples :: u64
  lt_hot_max_ms :: u128
  lt_monitor_sum :: u128
  lt_monitor_samples :: u64
  lt_bottleneck_stage :: string
  lt_bottleneck_ms :: u128

definition empty_tally :: latency_tally where
  "empty_tally = \<lparr>lt_sample_count = 0, lt_hot_sum = 0, lt_hot_samples = 0, lt_hot_max_ms = 0, lt_monitor_sum = 0,
     lt_monitor_samples = 0, lt_bottleneck_stage = ''none'', lt_bottleneck_ms = 0\<rparr>"

fun tally_stage :: "stage_summary \<Rightarrow> latency_tally \<Rightarrow> latency_tally" where
  "tally_stage (stage, samples, last_ms, avg_ms, max_ms) t =
     (let t1 = t\<lparr>lt_sample_count := sat_add (lt_sample_count t) samples\<rparr>;
          t2 = (if lt_bottleneck_ms t1 < max_ms then t1\<lparr>lt_bottleneck_ms := max_ms, lt_bottleneck_stage := stage\<rparr> else t1);
          weight = sat_mul avg_ms (ucast samples)
      in if is_hot_path_latency_stage stage
         then t2\<lparr>lt_hot_sum := sat_add (lt_hot_sum t2) weight, lt_hot_samples := sat_add (lt_hot_samples t2) samples,
                 lt_hot_max_ms := max (lt_hot_max_ms t2) max_ms\<rparr>
         else t2\<lparr>lt_monitor_sum := sat_add (lt_monitor_sum t2) weight,
                 lt_monitor_samples := sat_add (lt_monitor_samples t2) samples\<rparr>)"

definition mean_ms :: "u128 \<Rightarrow> u64 \<Rightarrow> u128" where
  "mean_ms whole samples = (if samples = 0 then 0 else whole div ucast samples)"

definition latency_risk_score :: "f64 \<Rightarrow> f64 \<Rightarrow> f64 \<Rightarrow> f64 \<Rightarrow> f64" where
  "latency_risk_score hot_pressure tail_pressure rpc_pressure monitor_pressure =
     fclamp 0 1 (hot_pressure * dec 40 2 + tail_pressure * dec 25 2 + rpc_pressure * dec 25 2 + monitor_pressure * dec 10 2)"

text \<open>The sum of the latencies of the endpoints wraps in a release build.\<close>

definition build_latency_risk ::
  "string \<Rightarrow> stage_summary list \<Rightarrow> rpc_endpoint_snapshot list \<Rightarrow> latency_risk_snapshot" where
  "build_latency_risk tm summary endpoints =
     (let t = fold tally_stage summary empty_tally;
          rpc_latencies = map word_of_int (List.map_filter sn_avg_latency_ms (filter (\<lambda>e. \<not> sn_disabled e) endpoints)) :: u128 list;
          rpc_avg_ms = (if rpc_latencies = [] then 0 else sum_list rpc_latencies div of_nat (length rpc_latencies));
          hot_path_avg_ms = mean_ms (lt_hot_sum t) (lt_hot_samples t);
          monitor_avg_ms = mean_ms (lt_monitor_sum t) (lt_monitor_samples t);
          score = latency_risk_score (pressure_of (of_uw hot_path_avg_ms) (dec 250 0)) (pressure_of (of_uw (lt_hot_max_ms t)) (dec 750 0))
            (pressure_of (of_uw rpc_avg_ms) (dec 350 0)) (pressure_of (of_uw monitor_avg_ms) (dec 700 0) * dec 5 1)
      in \<lparr>rsk_updated_at = tm, rsk_window_secs = 300, rsk_sample_count = lt_sample_count t,
          rsk_hot_path_avg_ms = hot_path_avg_ms, rsk_hot_path_max_ms = lt_hot_max_ms t, rsk_monitor_avg_ms = monitor_avg_ms,
          rsk_rpc_avg_ms = rpc_avg_ms, rsk_score = score,
          rsk_level = (if dec 75 2 \<le> score then ''BREACH'' else if dec 45 2 \<le> score then ''WARN'' else ''OK''),
          rsk_bottleneck_stage = lt_bottleneck_stage t\<rparr>)"

section \<open>Reasons of rejection\<close>

record reject_reason_snapshot =
  rj_stage :: string
  rj_reason :: string
  rj_count :: u64

fun bump_reject_reason :: "string \<Rightarrow> string \<Rightarrow> reject_reason_snapshot list \<Rightarrow> reject_reason_snapshot list" where
  "bump_reject_reason stage reason [] = [\<lparr>rj_stage = stage, rj_reason = reason, rj_count = 1\<rparr>]"
| "bump_reject_reason stage reason (r # rs) =
     (if rj_stage r = stage \<and> rj_reason r = reason then r\<lparr>rj_count := plus_one (rj_count r)\<rparr> # rs
      else r # bump_reject_reason stage reason rs)"

text \<open>The most frequent first; equal ones keep their order.\<close>

definition ranked_reasons :: "reject_reason_snapshot list \<Rightarrow> reject_reason_snapshot list" where
  "ranked_reasons rs = take 8 (sort_by (\<lambda>a b. rj_count b \<le> rj_count a) rs)"

definition pending_reject_reason :: "string \<Rightarrow> string \<Rightarrow> string \<Rightarrow> pending_storage_writes \<Rightarrow> pending_storage_writes" where
  "pending_reject_reason bucket stage reason p =
     p\<lparr>pd_reject_reason_rollups := entry_update (rollup_key [bucket, stage, reason])
          \<lparr>prr_bucket = bucket, prr_stage = stage, prr_reason = reason, prr_count = 0\<rparr>
          (\<lambda>r. r\<lparr>prr_count := plus_one (prr_count r)\<rparr>) (pd_reject_reason_rollups p)\<rparr>"

definition mentions_any :: "string list \<Rightarrow> string \<Rightarrow> bool" where
  "mentions_any words haystack = list_ex (\<lambda>w. str_contains w haystack) words"

definition reject_breakdown_category :: "string \<Rightarrow> string \<Rightarrow> string" where
  "reject_breakdown_category stage reason =
     (let haystack = to_ascii_lowercase (stage @ '' '' @ reason) in
      if mentions_any [''gas_price_cap'', ''adaptive_cap'', ''gas price'', ''gas_too_high'', ''gas_limit''] haystack then ''gas_cap''
      else if mentions_any [''economic_no_positive_gross_edge'', ''no_positive'', ''no positive'', ''gross_edge'', ''edge_below'',
                        ''profit_below''] haystack then ''economic_no_edge''
      else if mentions_any [''price_impact'', ''impact too high'', ''impact_above''] haystack then ''price_impact''
      else if mentions_any [''decode'', ''selector''] haystack then ''decode_fail''
      else if mentions_any [''adaptive'', ''quote''] haystack then ''adaptive_quote''
      else if mentions_any [''submit'', ''relay'', ''rpc_submit''] haystack then ''submit''
      else if mentions_any [''preflight''] haystack then ''preflight''
      else ''other'')"

record reject_breakdown_snapshot =
  bd_category :: string
  bd_count :: u64
  bd_pct :: f64
  bd_top_reason :: string

type_synonym category_bucket = "u64 \<times> string \<times> u64"

definition add_to_bucket :: "reject_reason_snapshot \<Rightarrow> category_bucket \<Rightarrow> category_bucket" where
  "add_to_bucket r b =
     (case b of (n, best, best_count) \<Rightarrow>
        if best_count \<le> rj_count r then (sat_add n (rj_count r), rj_stage r @ '':'' @ rj_reason r, rj_count r)
        else (sat_add n (rj_count r), best, best_count))"

definition breakdown_buckets :: "reject_reason_snapshot list \<Rightarrow> (string \<times> category_bucket) list" where
  "breakdown_buckets reasons =
     fold (\<lambda>r. entry_update (reject_breakdown_category (rj_stage r) (rj_reason r)) (0, [], 0) (add_to_bucket r)) reasons []"

text \<open>\<open>order\<close> gives the entries of the map in the order the hash map yields them.\<close>

definition build_reject_breakdown ::
  "((string \<times> category_bucket) list \<Rightarrow> (string \<times> category_bucket) list) \<Rightarrow> reject_reason_snapshot list
     \<Rightarrow> reject_breakdown_snapshot list" where
  "build_reject_breakdown order reasons =
     (let buckets = breakdown_buckets reasons;
          whole = max (sum_list (map (\<lambda>(_, n, _, _). n) buckets)) 1 :: u64
      in take 8 (sort_by (\<lambda>a b. bd_count b \<le> bd_count a)
           (map (\<lambda>(category, n, best, _). \<lparr>bd_category = category, bd_count = n,
                   bd_pct = of_uw n / of_uw whole * dec 100 0, bd_top_reason = best\<rparr>) (order buckets))))"

section \<open>Selectors\<close>

definition pending_selector_performance ::
  "string \<Rightarrow> string \<Rightarrow> string \<Rightarrow> string \<Rightarrow> string \<Rightarrow> f64 \<Rightarrow> f64 \<Rightarrow> pending_storage_writes \<Rightarrow> pending_storage_writes" where
  "pending_selector_performance bucket selector target decode_source stage confidence gas_gwei p =
     p\<lparr>pd_selector_rollups := entry_update (rollup_key [bucket, selector, target, decode_source, stage])
          \<lparr>psr_bucket = bucket, psr_selector = selector, psr_target = target, psr_decode_source = decode_source,
           psr_stage = stage, psr_count = 0, psr_confidence_sum = 0, psr_gas_gwei_sum = 0\<rparr>
          (\<lambda>r. r\<lparr>psr_count := plus_one (psr_count r), psr_confidence_sum := psr_confidence_sum r + fclamp 0 1 confidence,
                psr_gas_gwei_sum := psr_gas_gwei_sum r + fmax gas_gwei 0\<rparr>)
          (pd_selector_rollups p)\<rparr>"

definition zero_counts :: "u64 pool_counts" where
  "zero_counts = \<lparr>pc_pool_found = 0, pc_pool_missing = 0, pc_payload_built = 0, pc_shadow_ev_positive = 0,
     pc_shadow_ev_negative = 0, pc_partial_entered_payload_builder = 0, pc_partial_pool_discovery_attempted = 0,
     pc_partial_pool_found = 0, pc_partial_pool_missing = 0, pc_partial_shadow_ev_positive = 0,
     pc_partial_shadow_ev_negative = 0, pc_partial_replay_candidate_created = 0, pc_partial_replay_candidate_rejected = 0\<rparr>"

definition bump_pool_stage :: "string \<Rightarrow> u64 pool_counts \<Rightarrow> u64 pool_counts" where
  "bump_pool_stage stage c =
     (if stage = ''pool_found'' then c\<lparr>pc_pool_found := plus_one (pc_pool_found c)\<rparr>
      else if stage = ''pool_missing'' then c\<lparr>pc_pool_missing := plus_one (pc_pool_missing c)\<rparr>
      else if stage = ''payload_built'' then c\<lparr>pc_payload_built := plus_one (pc_payload_built c)\<rparr>
      else if stage = ''shadow_payload_built'' then c\<lparr>pc_payload_built := plus_one (pc_payload_built c)\<rparr>
      else if stage = ''shadow_ev_positive'' then c\<lparr>pc_shadow_ev_positive := plus_one (pc_shadow_ev_positive c)\<rparr>
      else if stage = ''shadow_ev_negative'' then c\<lparr>pc_shadow_ev_negative := plus_one (pc_shadow_ev_negative c)\<rparr>
      else if stage = ''partial_entered_payload_builder'' then c\<lparr>pc_partial_entered_payload_builder := plus_one (pc_partial_entered_payload_builder c)\<rparr>
      else if stage = ''partial_pool_discovery_attempted'' then c\<lparr>pc_partial_pool_discovery_attempted := plus_one (pc_partial_pool_discovery_attempted c)\<rparr>
      else if stage = ''partial_pool_found'' then c\<lparr>pc_partial_pool_found := plus_one (pc_partial_pool_found c), pc_pool_found := plus_one (pc_pool_found c)\<rparr>
      else if stage = ''partial_pool_missing'' then c\<lparr>pc_partial_pool_missing := plus_one (pc_partial_pool_missing c), pc_pool_missing := plus_one (pc_pool_missing c)\<rparr>
      else if stage = ''partial_shadow_ev_positive'' then c\<lparr>pc_partial_shadow_ev_positive := plus_one (pc_partial_shadow_ev_positive c), pc_shadow_ev_positive := plus_one (pc_shadow_ev_positive c)\<rparr>
      else if stage = ''partial_shadow_ev_negative'' then c\<lparr>pc_partial_shadow_ev_negative := plus_one (pc_partial_shadow_ev_negative c), pc_shadow_ev_negative := plus_one (pc_shadow_ev_negative c)\<rparr>
      else if stage = ''partial_replay_candidate_created'' then c\<lparr>pc_partial_replay_candidate_created := plus_one (pc_partial_replay_candidate_created c)\<rparr>
      else if stage = ''partial_replay_candidate_rejected'' then c\<lparr>pc_partial_replay_candidate_rejected := plus_one (pc_partial_replay_candidate_rejected c)\<rparr>
      else c)"

definition bump_pool_rollup ::
  "string \<Rightarrow> f64 \<Rightarrow> f64 \<Rightarrow> f64 \<Rightarrow> pending_selector_pool_performance_rollup \<Rightarrow> pending_selector_pool_performance_rollup" where
  "bump_pool_rollup stage expected_profit liquidity gas_gwei r =
     r\<lparr>ppr_counts := bump_pool_stage stage (ppr_counts r),
       ppr_expected_profit_sum := (if stage \<in> {''shadow_ev_positive'', ''partial_shadow_ev_positive''}
         then ppr_expected_profit_sum r + fmax expected_profit 0 else ppr_expected_profit_sum r),
       ppr_liquidity_sum := ppr_liquidity_sum r + fmax liquidity 0,
       ppr_gas_gwei_sum := ppr_gas_gwei_sum r + fmax gas_gwei 0,
       ppr_samples := plus_one (ppr_samples r)\<rparr>"

definition pending_selector_pool_performance ::
  "string \<Rightarrow> string \<Rightarrow> string \<Rightarrow> string \<Rightarrow> string \<Rightarrow> string \<Rightarrow> u32 \<Rightarrow> string \<Rightarrow> f64 \<Rightarrow> f64 \<Rightarrow> f64
     \<Rightarrow> pending_storage_writes \<Rightarrow> pending_storage_writes" where
  "pending_selector_pool_performance bucket selector target token_pair pool dex_kind fee_tier stage expected_profit liquidity gas_gwei p =
     p\<lparr>pd_pool_rollups := entry_update
          (rollup_key [bucket, selector, target, token_pair, pool, dex_kind, dec_str (uint fee_tier)])
          \<lparr>ppr_bucket = bucket, ppr_selector = selector, ppr_target = target, ppr_token_pair = token_pair, ppr_pool = pool,
           ppr_dex_kind = dex_kind, ppr_fee_tier = fee_tier, ppr_counts = zero_counts, ppr_expected_profit_sum = 0,
           ppr_liquidity_sum = 0, ppr_gas_gwei_sum = 0, ppr_samples = 0\<rparr>
          (bump_pool_rollup stage expected_profit liquidity gas_gwei)
          (pd_pool_rollups p)\<rparr>"

section \<open>Edge samples\<close>

record edge_sample_snapshot =
  eg_observed_at :: string
  eg_victim_tx :: string
  eg_selector :: string
  eg_status :: string
  eg_reason :: string
  eg_route_kind :: string
  eg_path :: "string list"
  eg_hops :: u64
  eg_impacted_pools :: "string list"
  eg_slippage_window_score :: f64
  eg_pool_imbalance_score :: f64
  eg_cross_dex_deviation_bps :: int
  eg_gas_estimate :: u64
  eg_simulated_extraction_native :: f64
  eg_aggregator_type :: string
  eg_route_complexity :: u64
  eg_split_ratio_bps :: u64
  eg_dex_sequence :: "string list"
  eg_route_inefficiency_score :: f64
  eg_liquidity_distortion_score :: f64
  eg_hop_profitability_rank :: "string list"
  eg_best_size_bps :: u64
  eg_amount_in_wei :: string
  eg_amount_out_wei :: string
  eg_gross_edge_wei :: string
  eg_gross_edge_native :: f64
  eg_repayment_wei :: string
  eg_repayment_native :: f64
  eg_price_impact_bps :: u64
  eg_self_slippage_bps :: u64
  eg_pool :: string
  eg_factory :: string
  eg_router :: string
  eg_token_in :: string
  eg_token_out :: string

definition edge_snapshot :: "(message \<Rightarrow> string) \<Rightarrow> string \<Rightarrow> edge_metadata \<Rightarrow> edge_sample_snapshot" where
  "edge_snapshot show_message tm s =
     \<lparr>eg_observed_at = tm, eg_victim_tx = show_message (em_victim_tx s), eg_selector = show_message (em_selector s),
      eg_status = show_message (em_status s), eg_reason = show_message (em_reason s),
      eg_route_kind = show_message (em_route_kind s), eg_path = map show_message (em_path s), eg_hops = em_hops s,
      eg_impacted_pools = map show_message (em_impacted_pools s),
      eg_slippage_window_score = em_slippage_window_score s, eg_pool_imbalance_score = em_pool_imbalance_score s,
      eg_cross_dex_deviation_bps = em_cross_dex_deviation_bps s, eg_gas_estimate = em_gas_estimate s,
      eg_simulated_extraction_native = em_simulated_extraction_native s,
      eg_aggregator_type = show_message (em_aggregator_type s), eg_route_complexity = em_route_complexity s,
      eg_split_ratio_bps = em_split_ratio_bps s, eg_dex_sequence = map show_message (em_dex_sequence s),
      eg_route_inefficiency_score = em_route_inefficiency_score s,
      eg_liquidity_distortion_score = em_liquidity_distortion_score s,
      eg_hop_profitability_rank = map show_message (em_hop_profitability_rank s),
      eg_best_size_bps = em_best_size_bps s, eg_amount_in_wei = show_message (em_amount_in_wei s),
      eg_amount_out_wei = show_message (em_amount_out_wei s), eg_gross_edge_wei = show_message (em_gross_edge_wei s),
      eg_gross_edge_native = em_gross_edge_native s, eg_repayment_wei = show_message (em_repayment_wei s),
      eg_repayment_native = em_repayment_native s, eg_price_impact_bps = em_price_impact_bps s,
      eg_self_slippage_bps = em_self_slippage_bps s, eg_pool = show_message (em_pool s),
      eg_factory = show_message (em_factory s), eg_router = show_message (em_router s),
      eg_token_in = show_message (em_token_in s), eg_token_out = show_message (em_token_out s)\<rparr>"

record unsupported_selector_snapshot =
  un_selector :: string
  un_target :: string
  un_monitored_token_hint :: string
  un_input_bytes :: u64
  un_count :: u64
  un_first_seen :: string
  un_last_seen :: string
  un_sample_tx :: string
  un_sample_reason :: string

record edge_telemetry_snapshot =
  tel_sample_count :: u64
  tel_payload_ready_count :: u64
  tel_blocked_count :: u64
  tel_last_sample :: "edge_sample_snapshot option"
  tel_samples :: "edge_sample_snapshot list"
  tel_unsupported_selectors :: "unsupported_selector_snapshot list"

definition empty_telemetry :: edge_telemetry_snapshot where
  "empty_telemetry = \<lparr>tel_sample_count = 0, tel_payload_ready_count = 0, tel_blocked_count = 0, tel_last_sample = None,
     tel_samples = [], tel_unsupported_selectors = []\<rparr>"

fun split_whitespace_from :: "string \<Rightarrow> string \<Rightarrow> string list" where
  "split_whitespace_from word [] = (if word = [] then [] else [word])"
| "split_whitespace_from word (c # cs) =
     (if is_ws c then (if word = [] then split_whitespace_from [] cs else word # split_whitespace_from [] cs)
      else split_whitespace_from (word @ [c]) cs)"

definition split_whitespace :: "string \<Rightarrow> string list" where
  "split_whitespace s = split_whitespace_from [] s"

fun first_with_prefix :: "string \<Rightarrow> string list \<Rightarrow> string option" where
  "first_with_prefix p [] = None"
| "first_with_prefix p (x # xs) = (case strip_prefix p x of Some rest \<Rightarrow> Some rest | None \<Rightarrow> first_with_prefix p xs)"

text \<open>\<open>key=value\<close> in a reason, without the punctuation around the value.\<close>

definition reason_field :: "string \<Rightarrow> string \<Rightarrow> string option" where
  "reason_field reason key =
     (case first_with_prefix (key @ ''='') (split_whitespace reason) of None \<Rightarrow> None
      | Some value \<Rightarrow>
          (let v = strip_ends (\<lambda>c. c \<in> {CHR '','', CHR '';'', CHR '')'', CHR ''(''}) value in if v = [] then None else Some v))"

definition compact_dashboard_text :: "string \<Rightarrow> nat \<Rightarrow> string" where
  "compact_dashboard_text value max_chars = take max_chars value @ (if max_chars < length value then ''...'' else [])"

fun join_with :: "string \<Rightarrow> string list \<Rightarrow> string" where
  "join_with sep [] = []"
| "join_with sep [x] = x"
| "join_with sep (x # xs) = x @ sep @ join_with sep xs"

definition seen_again ::
  "edge_sample_snapshot \<Rightarrow> string \<Rightarrow> u64 \<Rightarrow> unsupported_selector_snapshot \<Rightarrow> unsupported_selector_snapshot" where
  "seen_again s hint input_bytes u =
     u\<lparr>un_count := plus_one (un_count u), un_last_seen := eg_observed_at s, un_sample_tx := eg_victim_tx s,
       un_sample_reason := compact_dashboard_text (eg_reason s) 180,
       un_monitored_token_hint := (if un_monitored_token_hint u = ''unknown'' \<and> hint \<noteq> ''unknown'' then hint
         else un_monitored_token_hint u),
       un_input_bytes := (if un_input_bytes u = 0 then input_bytes else un_input_bytes u)\<rparr>"

fun upsert_unsupported ::
  "edge_sample_snapshot \<Rightarrow> string \<Rightarrow> string \<Rightarrow> string \<Rightarrow> u64 \<Rightarrow> unsupported_selector_snapshot list \<Rightarrow> unsupported_selector_snapshot list" where
  "upsert_unsupported s selector target hint input_bytes [] =
     [\<lparr>un_selector = selector, un_target = target, un_monitored_token_hint = hint, un_input_bytes = input_bytes, un_count = 1,
       un_first_seen = eg_observed_at s, un_last_seen = eg_observed_at s, un_sample_tx = eg_victim_tx s,
       un_sample_reason = compact_dashboard_text (eg_reason s) 180\<rparr>]"
| "upsert_unsupported s selector target hint input_bytes (u # us) =
     (if un_selector u = selector \<and> un_target u = target then seen_again s hint input_bytes u # us
      else u # upsert_unsupported s selector target hint input_bytes us)"

text \<open>The more frequent first, then by the text of the selector.\<close>

definition unsupported_le :: "unsupported_selector_snapshot \<Rightarrow> unsupported_selector_snapshot \<Rightarrow> bool" where
  "unsupported_le a b =
     (un_count b < un_count a \<or> un_count a = un_count b \<and> \<not> text_less (un_selector b) (un_selector a))"

definition or_else_opt :: "'a option \<Rightarrow> 'a option \<Rightarrow> 'a option" where
  "or_else_opt a b = (case a of Some x \<Rightarrow> Some x | None \<Rightarrow> b)"

definition or_default :: "'a option \<Rightarrow> 'a \<Rightarrow> 'a" where
  "or_default a d = (case a of Some x \<Rightarrow> x | None \<Rightarrow> d)"

definition record_unsupported_selector ::
  "edge_telemetry_snapshot \<Rightarrow> edge_sample_snapshot \<Rightarrow> edge_telemetry_snapshot \<times> unsupported_selector_record option" where
  "record_unsupported_selector t s =
     (let reason = to_ascii_lowercase (eg_reason s) in
      if eg_status s \<noteq> ''decode_reject'' then (t, None)
      else if \<not> str_contains ''selector_unsupported'' reason \<and> \<not> str_contains ''unsupported selector'' reason then (t, None)
      else let selector = (if trim (eg_selector s) = [] then ''unknown'' else eg_selector s);
               target = or_default (or_else_opt (reason_field (eg_reason s) ''target'') (reason_field (eg_reason s) ''to'')) (eg_router s);
               inner_selector =
                 or_default (or_else_opt (reason_field (eg_reason s) ''inner_selector'') (reason_field (eg_reason s) ''inner'')) [];
               joined = join_with '','' (take 6 (eg_path s));
               hint = (if joined \<noteq> [] then joined else ''unknown'');
               input_bytes = or_default (Option.bind (reason_field (eg_reason s) ''input_bytes'') parse_u64)
                 (sat_add (sat_mul (eg_route_complexity s) 128) 4)
           in (t\<lparr>tel_unsupported_selectors := take 20 (sort_by unsupported_le
                   (upsert_unsupported s selector target hint input_bytes (tel_unsupported_selectors t)))\<rparr>,
               Some \<lparr>uq_target = target, uq_selector = selector, uq_inner_selector = inner_selector, uq_token_hints = hint,
                     uq_input_bytes = input_bytes, uq_sample_tx = eg_victim_tx s,
                     uq_sample_calldata_prefix = or_default (reason_field (eg_reason s) ''calldata_prefix'') ''unknown'',
                     uq_route_hint = join_with '' | '' (take 4 (eg_hop_profitability_rank s))\<rparr>))"

definition count_sample :: "edge_sample_snapshot \<Rightarrow> edge_telemetry_snapshot \<Rightarrow> edge_telemetry_snapshot" where
  "count_sample s t =
     t\<lparr>tel_sample_count := plus_one (tel_sample_count t),
       tel_payload_ready_count := (if eg_status s = ''payload_built'' then plus_one (tel_payload_ready_count t)
         else tel_payload_ready_count t),
       tel_blocked_count := (if eg_status s = ''payload_built'' then tel_blocked_count t else plus_one (tel_blocked_count t)),
       tel_last_sample := Some s,
       tel_samples := take 50 (s # tel_samples t)\<rparr>"

section \<open>Relays\<close>

record relay_snapshot =
  rly_relay :: string
  rly_score :: f64
  rly_pressure :: f64
  rly_accept_rate :: f64
  rly_inclusion_rate :: f64
  rly_accepted :: u64
  rly_submit_failed :: u64
  rly_included_success :: u64
  rly_included_revert :: u64
  rly_not_included_timeout :: u64
  rly_submit_latency_ms :: f64
  rly_finalization_latency_ms :: f64

definition smoothed :: "f64 \<Rightarrow> f64 option \<Rightarrow> f64" where
  "smoothed old new =
     (case new of None \<Rightarrow> old | Some v \<Rightarrow> if old \<le> 0 then v else old * dec 8 1 + v * dec 2 1)"

definition updated_relay :: "relay_update \<Rightarrow> relay_snapshot \<Rightarrow> relay_snapshot" where
  "updated_relay u e =
     e\<lparr>rly_accepted := sat_add (rly_accepted e) (of_bool (ru_accepted u)),
       rly_submit_failed := sat_add (rly_submit_failed e) (of_bool (ru_submit_failed u)),
       rly_included_success := sat_add (rly_included_success e) (of_bool (ru_included_success u)),
       rly_included_revert := sat_add (rly_included_revert e) (of_bool (ru_included_revert u)),
       rly_not_included_timeout := sat_add (rly_not_included_timeout e) (of_bool (ru_not_included_timeout u)),
       rly_submit_latency_ms := smoothed (rly_submit_latency_ms e) (ru_submit_latency_ms u),
       rly_finalization_latency_ms := smoothed (rly_finalization_latency_ms e) (ru_finalization_latency_ms u),
       rly_score := or_default (ru_score u) (rly_score e), rly_pressure := or_default (ru_pressure u) (rly_pressure e),
       rly_accept_rate := or_default (ru_accept_rate u) (rly_accept_rate e),
       rly_inclusion_rate := or_default (ru_inclusion_rate u) (rly_inclusion_rate e)\<rparr>"

definition new_relay :: "relay_update \<Rightarrow> relay_snapshot" where
  "new_relay u =
     \<lparr>rly_relay = ru_relay u, rly_score = or_zero (ru_score u), rly_pressure = or_zero (ru_pressure u),
      rly_accept_rate = or_zero (ru_accept_rate u), rly_inclusion_rate = or_zero (ru_inclusion_rate u),
      rly_accepted = of_bool (ru_accepted u), rly_submit_failed = of_bool (ru_submit_failed u),
      rly_included_success = of_bool (ru_included_success u), rly_included_revert = of_bool (ru_included_revert u),
      rly_not_included_timeout = of_bool (ru_not_included_timeout u),
      rly_submit_latency_ms = or_zero (ru_submit_latency_ms u), rly_finalization_latency_ms = or_zero (ru_finalization_latency_ms u)\<rparr>"

fun find_or_push_relay :: "relay_update \<Rightarrow> relay_snapshot list \<Rightarrow> relay_snapshot list" where
  "find_or_push_relay u [] = [new_relay u]"
| "find_or_push_relay u (e # es) =
     (if rly_relay e = ru_relay u then updated_relay u e # es else e # find_or_push_relay u es)"

definition upsert_relay_snapshot :: "relay_snapshot list \<Rightarrow> relay_update \<Rightarrow> relay_snapshot list" where
  "upsert_relay_snapshot relays u =
     take 12 (sort_by (\<lambda>a b. total_le (rly_score a) (rly_score b)) (find_or_push_relay u relays))"

section \<open>Wallets with residues\<close>

record wallet_residual_snapshot =
  wx_wallet :: string
  wx_asset_class :: string
  wx_detections :: u64
  wx_successful_sweeps :: u64
  wx_detected_profit_eth :: string
  wx_realized_profit_eth :: string
  wx_residual_score :: u64
  wx_last_seen_at :: string

definition wei_str_to_eth :: "string \<Rightarrow> f64" where
  "wei_str_to_eth value = or_zero (parse_f64 value) / dec (10 ^ 18) 0"

type_synonym residual_row = "string \<times> string \<times> u64 \<times> u64 \<times> string \<times> string \<times> string"

fun residual_snapshot :: "residual_row \<Rightarrow> wallet_residual_snapshot" where
  "residual_snapshot (wallet, asset_class, detections, successful_sweeps, detected_wei, realized_wei, last_seen_at) =
     (let detected = wei_str_to_eth detected_wei; realized = wei_str_to_eth realized_wei in
      \<lparr>wx_wallet = wallet, wx_asset_class = asset_class, wx_detections = detections, wx_successful_sweeps = successful_sweeps,
       wx_detected_profit_eth = show_fixed 6 detected, wx_realized_profit_eth = show_fixed 6 realized,
       wx_residual_score = sat_add (sat_add (sat_mul detections 100) (sat_mul successful_sweeps 250))
         (f_as_word (detected * dec 10000 0)),
       wx_last_seen_at = last_seen_at\<rparr>)"

end
