(* ===== verification/DashObserver.thy ===== *)
theory DashObserver
  imports DashData
begin

text \<open>
  The scavenger observer of \<open>src/dashboard.rs\<close>: every snapshot of the dashboard adds a sample; after
  fifteen minutes a cycle is closed with a report, and the report of the running cycle is part of every
  snapshot.
\<close>

record scavenger_observer_sample =
  so_observed_at :: instant
  so_funnel :: opportunity_funnel_snapshot
  so_edge_sample_count :: u64
  so_healthy_rpc :: u64
  so_active_rpc :: u64
  so_disabled_rpc :: u64
  so_penalized_rpc :: u64
  so_max_block_age_secs :: u64

text \<open>The report of the cycle before is part of the current one; a completed report has none.\<close>

record cycle_report =
  cy_status :: string
  cy_phase :: string
  cy_rpc_capacity_limited :: bool
  cy_observed_secs :: u64
  cy_sample_count :: u64
  cy_healthy_rpc_now :: u64
  cy_active_rpc_now :: u64
  cy_disabled_rpc_now :: u64
  cy_penalized_rpc_now :: u64
  cy_avg_healthy_rpc :: f64
  cy_max_block_age_secs :: u64
  cy_pending_delta :: u64
  cy_lookup_ok_delta :: u64
  cy_lookup_miss_delta :: u64
  cy_lookup_shed_delta :: u64
  cy_decode_pass_delta :: u64
  cy_block_fail_delta :: u64
  cy_payload_reject_delta :: u64
  cy_edge_samples_delta :: u64
  cy_lookup_hit_rate_pct :: f64
  cy_shed_rate_pct :: f64
  cy_decode_pass_rate_pct :: f64
  cy_block_fail_rate_pct :: f64
  cy_recommendation :: string
  cy_notes :: "string list"

record scavenger_observer_report =
  or_cycle :: cycle_report
  or_last_completed :: "cycle_report option"

definition blank_cycle :: "string \<Rightarrow> cycle_report" where
  "blank_cycle phase =
     \<lparr>cy_status = [], cy_phase = phase, cy_rpc_capacity_limited = False, cy_observed_secs = 0, cy_sample_count = 0,
      cy_healthy_rpc_now = 0, cy_active_rpc_now = 0, cy_disabled_rpc_now = 0, cy_penalized_rpc_now = 0,
      cy_avg_healthy_rpc = 0, cy_max_block_age_secs = 0, cy_pending_delta = 0, cy_lookup_ok_delta = 0,
      cy_lookup_miss_delta = 0, cy_lookup_shed_delta = 0, cy_decode_pass_delta = 0, cy_block_fail_delta = 0,
      cy_payload_reject_delta = 0, cy_edge_samples_delta = 0, cy_lookup_hit_rate_pct = 0, cy_shed_rate_pct = 0,
      cy_decode_pass_rate_pct = 0, cy_block_fail_rate_pct = 0, cy_recommendation = [], cy_notes = []\<rparr>"

definition pct :: "u64 \<Rightarrow> u64 \<Rightarrow> f64" where
  "pct part whole = (if whole = 0 then 0 else of_uw part / of_uw whole * dec 100 0)"

record cycle_figures =
  cf_observed_secs :: int
  cf_healthy_rpc :: u64
  cf_penalized_rpc :: u64
  cf_avg_healthy_rpc :: f64
  cf_pending_delta :: u64
  cf_lookup_ok_delta :: u64
  cf_decode_pass_delta :: u64
  cf_edge_samples_delta :: u64
  cf_lookup_hit_rate_pct :: f64
  cf_shed_rate_pct :: f64
  cf_block_fail_rate_pct :: f64
  cf_rpc_capacity_limited :: bool

definition cycle_status :: "cycle_figures \<Rightarrow> string" where
  "cycle_status c =
     (if 15 * 60 \<le> cf_observed_secs c \<and> 1 \<le> cf_healthy_rpc c \<and> 1 \<le> cf_avg_healthy_rpc c
         \<and> cf_block_fail_rate_pct c \<le> dec 5 0 \<and> dec 15 0 \<le> cf_lookup_hit_rate_pct c \<and> 0 < cf_edge_samples_delta c
      then ''READY''
      else if cf_observed_secs c < 15 * 60 then ''WARMING''
      else if 1 \<le> cf_healthy_rpc c \<and> cf_block_fail_rate_pct c \<le> dec 10 0 \<and> dec 10 0 \<le> cf_lookup_hit_rate_pct c
         \<and> 0 < cf_decode_pass_delta c
      then ''WATCH''
      else ''NOT_READY'')"

definition cycle_recommendation :: "string \<Rightarrow> string" where
  "cycle_recommendation status =
     (if status = ''READY'' then ''current cycle stable for contract deploy test; keep low capital and fanout=1''
      else if status = ''WATCH'' then ''current cycle improved; continue one more clean 15m cycle before live execution''
      else if status = ''WARMING'' then ''new clean 15m cycle running; wait for this cycle to close''
      else ''do not deploy live execution yet; reduce lookup budget or disable degraded rpc'')"

definition cycle_notes :: "cycle_figures \<Rightarrow> string list" where
  "cycle_notes c =
     (if cf_observed_secs c < 15 * 60
      then [''warming up current cycle: '' @ dec_str (cf_observed_secs c) @ ''s observed, target 900s''] else [])
     @ (if cf_healthy_rpc c = 0 then [''no healthy rpc at last sample''] else [])
     @ (if cf_avg_healthy_rpc c < 1 then [''average healthy rpc below 1.0''] else [])
     @ (if 0 < cf_penalized_rpc c then [dec_str (uint (cf_penalized_rpc c)) @ '' rpc in cooldown/rate-limit''] else [])
     @ (if dec 5 0 < cf_block_fail_rate_pct c
        then [''block lookup fail rate high: '' @ show_fixed 1 (cf_block_fail_rate_pct c) @ ''%''] else [])
     @ (if cf_shed_rate_pct c < dec 25 0 \<and> 1000 < cf_pending_delta c
        then [''shed rate low for high pending flow; rpc may be over-reading''] else [])
     @ (if cf_rpc_capacity_limited c
        then [''rpc_capacity_limited=true: pending shed is budget admission, not an RPC failure''] else [])
     @ (if cf_decode_pass_delta c = 0 \<and> 200 < cf_lookup_ok_delta c
        then [''lookup ok but decode pass zero; parser/scope may be too narrow''] else [])
     @ (if cf_edge_samples_delta c = 0 \<and> 0 < cf_decode_pass_delta c
        then [''decode passes without edge samples; payload instrumentation gap''] else [])"

definition max_block_age :: "scavenger_observer_sample list \<Rightarrow> u64" where
  "max_block_age samples = fold max (map so_max_block_age_secs samples) 0"

text \<open>\<open>u64::saturating_sub\<close> of a counter at two samples.\<close>

definition delta :: "(opportunity_funnel_snapshot \<Rightarrow> u64) \<Rightarrow> scavenger_observer_sample \<Rightarrow> scavenger_observer_sample \<Rightarrow> u64" where
  "delta f last_s first_s = sat_sub (f (so_funnel last_s)) (f (so_funnel first_s))"

definition build_cycle_report :: "scavenger_observer_sample list \<Rightarrow> string \<Rightarrow> cycle_report" where
  "build_cycle_report samples phase =
     (if samples = [] then blank_cycle phase
      else let first_s = hd samples; last_s = last samples;
               observed_secs = as_secs (duration_since (so_observed_at last_s) (so_observed_at first_s));
               avg_healthy_rpc = foldl (+) 0 (map (\<lambda>s. of_uw (so_healthy_rpc s)) samples) / of_usize (int (length samples));
               block_age = max_block_age samples;
               pending_delta = delta fn_pending_hashes_received last_s first_s;
               lookup_ok_delta = delta fn_tx_lookup_success last_s first_s;
               lookup_miss_delta = delta fn_tx_lookup_miss last_s first_s;
               lookup_shed_delta = delta fn_tx_lookup_throttled last_s first_s;
               decode_pass_delta = delta fn_decode_pass last_s first_s;
               block_fail_delta = delta fn_block_lookup_fail last_s first_s;
               payload_reject_delta = delta fn_payload_reject last_s first_s;
               edge_samples_delta = sat_sub (so_edge_sample_count last_s) (so_edge_sample_count first_s);
               lookup_hit_rate_pct = pct lookup_ok_delta (sat_add lookup_ok_delta lookup_miss_delta);
               shed_rate_pct = pct lookup_shed_delta pending_delta;
               decode_pass_rate_pct = pct decode_pass_delta lookup_ok_delta;
               block_fail_rate_pct = pct block_fail_delta (sat_add (delta fn_block_lookup_success last_s first_s) block_fail_delta);
               capacity_limited = (0 < lookup_shed_delta \<and> 0 < pending_delta \<and> 1 \<le> so_healthy_rpc last_s
                 \<and> so_penalized_rpc last_s = 0 \<and> block_age \<le> 15 \<and> block_fail_rate_pct \<le> dec 5 0);
               c = \<lparr>cf_observed_secs = observed_secs, cf_healthy_rpc = so_healthy_rpc last_s,
                    cf_penalized_rpc = so_penalized_rpc last_s, cf_avg_healthy_rpc = avg_healthy_rpc,
                    cf_pending_delta = pending_delta, cf_lookup_ok_delta = lookup_ok_delta,
                    cf_decode_pass_delta = decode_pass_delta, cf_edge_samples_delta = edge_samples_delta,
                    cf_lookup_hit_rate_pct = lookup_hit_rate_pct, cf_shed_rate_pct = shed_rate_pct,
                    cf_block_fail_rate_pct = block_fail_rate_pct, cf_rpc_capacity_limited = capacity_limited\<rparr>
           in \<lparr>cy_status = cycle_status c, cy_phase = phase, cy_rpc_capacity_limited = capacity_limited,
               cy_observed_secs = word_of_int observed_secs, cy_sample_count = of_nat (length samples),
               cy_healthy_rpc_now = so_healthy_rpc last_s, cy_active_rpc_now = so_active_rpc last_s,
               cy_disabled_rpc_now = so_disabled_rpc last_s, cy_penalized_rpc_now = so_penalized_rpc last_s,
               cy_avg_healthy_rpc = avg_healthy_rpc, cy_max_block_age_secs = block_age, cy_pending_delta = pending_delta,
               cy_lookup_ok_delta = lookup_ok_delta, cy_lookup_miss_delta = lookup_miss_delta,
               cy_lookup_shed_delta = lookup_shed_delta, cy_decode_pass_delta = decode_pass_delta,
               cy_block_fail_delta = block_fail_delta, cy_payload_reject_delta = payload_reject_delta,
               cy_edge_samples_delta = edge_samples_delta, cy_lookup_hit_rate_pct = lookup_hit_rate_pct,
               cy_shed_rate_pct = shed_rate_pct, cy_decode_pass_rate_pct = decode_pass_rate_pct,
               cy_block_fail_rate_pct = block_fail_rate_pct, cy_recommendation = cycle_recommendation (cycle_status c),
               cy_notes = cycle_notes c\<rparr>)"

record scavenger_observer =
  ob_samples :: "scavenger_observer_sample list"
  ob_current_started_at :: "instant option"
  ob_last_completed :: "cycle_report option"

definition empty_observer :: scavenger_observer where
  "empty_observer = \<lparr>ob_samples = [], ob_current_started_at = None, ob_last_completed = None\<rparr>"

definition count_endpoints :: "(rpc_endpoint_snapshot \<Rightarrow> bool) \<Rightarrow> rpc_endpoint_snapshot list \<Rightarrow> u64" where
  "count_endpoints P endpoints = of_nat (length (filter P endpoints))"

definition observer_sample ::
  "instant \<Rightarrow> rpc_endpoint_snapshot list \<Rightarrow> opportunity_funnel_snapshot \<Rightarrow> u64 \<Rightarrow> scavenger_observer_sample" where
  "observer_sample now endpoints funnel edge_samples =
     \<lparr>so_observed_at = now, so_funnel = funnel, so_edge_sample_count = edge_samples,
      so_healthy_rpc = count_endpoints (\<lambda>e. \<not> sn_disabled e \<and> sn_cooldown_remaining_secs e = 0
        \<and> sn_rate_limit_failures e = 0 \<and> sn_failures e = 0) endpoints,
      so_active_rpc = count_endpoints (\<lambda>e. \<not> sn_disabled e) endpoints,
      so_disabled_rpc = count_endpoints sn_disabled endpoints,
      so_penalized_rpc = count_endpoints (\<lambda>e. \<not> sn_disabled e
        \<and> (0 < sn_cooldown_remaining_secs e \<or> 0 < sn_rate_limit_failures e)) endpoints,
      so_max_block_age_secs = fold max (map word_of_int (List.map_filter sn_block_age_secs
        (filter (\<lambda>e. \<not> sn_disabled e) endpoints))) 0\<rparr>"

definition observer_push :: "instant \<Rightarrow> scavenger_observer_sample \<Rightarrow> scavenger_observer \<Rightarrow> scavenger_observer" where
  "observer_push now s ob =
     (let started = or_default (ob_current_started_at ob) now; samples = ob_samples ob @ [s] in
      if nanos_of_secs (15 * 60) \<le> duration_since now started \<and> 2 \<le> length samples
      then \<lparr>ob_samples = [s], ob_current_started_at = Some now, ob_last_completed = Some (build_cycle_report samples ''completed'')\<rparr>
      else ob\<lparr>ob_samples := samples, ob_current_started_at := Some started\<rparr>)"

definition observer_report :: "scavenger_observer \<Rightarrow> scavenger_observer_report" where
  "observer_report ob =
     \<lparr>or_cycle = build_cycle_report (ob_samples ob) ''current'', or_last_completed = ob_last_completed ob\<rparr>"

definition default_report :: scavenger_observer_report where
  "default_report = \<lparr>or_cycle = blank_cycle [], or_last_completed = None\<rparr>"

end
