(* ===== verification/TelemetryFile.thy ===== *)
theory TelemetryFile
  imports DashData Wallets
begin

text \<open>
  The telemetry file of \<open>src/dashboard.rs\<close>: lines of JSON appended to a file that is rotated when it has
  grown, with a limit on how often a rejected decode is written. The files are a map from paths to their
  text; \<open>json\<close> renders a record.
\<close>

type_synonym log_files = "string \<rightharpoonup> string"

record file_telemetry =
  ft_enabled :: bool
  ft_path :: string
  ft_max_bytes :: u64
  ft_keep_files :: nat
  ft_sample_rate :: u64
  ft_edge_samples_seen :: u64
  ft_seen_keys :: "string set"

datatype telemetry_record = EdgeLine string edge_sample_snapshot | EventLine string string string
  | LatencyLine string string u128 "string option" "string option"

definition path_join :: "string \<Rightarrow> string \<Rightarrow> string" where
  "path_join dir name = (if dir = [] \<or> last dir = CHR ''/'' then dir @ name else dir @ ''/'' @ name)"

definition telemetry_from_env :: "environment \<Rightarrow> file_telemetry" where
  "telemetry_from_env env =
     \<lparr>ft_enabled = env_bool env ''MEV_FILE_TELEMETRY_ENABLED'' False,
      ft_path = path_join (var_or env ''MEV_FILE_TELEMETRY_DIR'' ''logs'') ''edge-shadow.jsonl'',
      ft_max_bytes = sat_mul (max (dash_env_u64 env ''MEV_FILE_TELEMETRY_MAX_MB'' 25) 1) (1024 * 1024),
      ft_keep_files = unat (clampw 1 100 (dash_env_u64 env ''MEV_FILE_TELEMETRY_KEEP_FILES'' 5)),
      ft_sample_rate = max (dash_env_u64 env ''MEV_DECODE_REJECT_SAMPLE_RATE'' 20) 1,
      ft_edge_samples_seen = 0, ft_seen_keys = {}\<rparr>"

text \<open>\<open>Path::with_extension\<close> on a path that ends in its file name.\<close>

definition file_stem :: "string \<Rightarrow> string" where
  "file_stem name =
     (case split_once (CHR ''.'') (rev name) of None \<Rightarrow> name
      | Some (ext, stem) \<Rightarrow> if stem = [] then name else rev stem)"

definition with_extension :: "string \<Rightarrow> string \<Rightarrow> string" where
  "with_extension path ext =
     (case file_name path of None \<Rightarrow> path
      | Some name \<Rightarrow> take (length path - length name) path @ file_stem name @ (if ext = [] then [] else ''.'' @ ext))"

definition rotated_path :: "string \<Rightarrow> nat \<Rightarrow> string" where
  "rotated_path path idx = with_extension path (dec_str (int idx) @ ''.'' @ or_default (path_extension path) ''jsonl'')"

definition rename_file :: "string \<Rightarrow> string \<Rightarrow> log_files \<Rightarrow> log_files" where
  "rename_file old new fs =
     (case fs old of None \<Rightarrow> fs | Some content \<Rightarrow> if old = new then fs else (fs(new \<mapsto> content))(old := None))"

definition shift_file :: "file_telemetry \<Rightarrow> nat \<Rightarrow> log_files \<Rightarrow> log_files" where
  "shift_file ft idx fs =
     (let old = rotated_path (ft_path ft) idx in
      if fs old = None then fs
      else if idx = ft_keep_files ft then fs(old := None)
      else rename_file old (rotated_path (ft_path ft) (idx + 1)) fs)"

definition rotate_if_needed :: "file_telemetry \<Rightarrow> log_files \<Rightarrow> log_files" where
  "rotate_if_needed ft fs =
     (case fs (ft_path ft) of None \<Rightarrow> fs
      | Some content \<Rightarrow>
          if length content < unat (ft_max_bytes ft) then fs
          else rename_file (ft_path ft) (rotated_path (ft_path ft) 1)
                 (fold (shift_file ft) (rev [1..<ft_keep_files ft + 1]) fs))"

text \<open>\<open>dir_ok\<close> and \<open>open_ok\<close>: creating the directory and opening the file succeed.\<close>

definition write_json_line :: "bool \<Rightarrow> bool \<Rightarrow> file_telemetry \<Rightarrow> string \<Rightarrow> log_files \<Rightarrow> log_files" where
  "write_json_line dir_ok open_ok ft line fs =
     (if \<not> dir_ok then fs
      else let fs1 = rotate_if_needed ft fs in
        if \<not> open_ok then fs1
        else fs1(ft_path ft \<mapsto> or_default (fs1 (ft_path ft)) [] @ line @ [CHR 0x0A]))"

definition should_write_edge_sample :: "file_telemetry \<Rightarrow> edge_sample_snapshot \<Rightarrow> file_telemetry \<times> bool" where
  "should_write_edge_sample ft s =
     (if eg_status s \<noteq> ''decode_reject'' then (ft, True)
      else let key = eg_selector s @ ''|'' @ eg_reason s;
               ft1 = ft\<lparr>ft_edge_samples_seen := plus_one (ft_edge_samples_seen ft)\<rparr>
           in if key \<notin> ft_seen_keys ft then (ft1\<lparr>ft_seen_keys := insert key (ft_seen_keys ft)\<rparr>, True)
              else (ft1, ft_edge_samples_seen ft1 mod ft_sample_rate ft = 0))"

definition file_edge_sample ::
  "bool \<Rightarrow> bool \<Rightarrow> (telemetry_record \<Rightarrow> string) \<Rightarrow> string \<Rightarrow> edge_sample_snapshot \<Rightarrow> file_telemetry \<times> log_files
     \<Rightarrow> file_telemetry \<times> log_files" where
  "file_edge_sample dir_ok open_ok json tm s st =
     (case st of (ft, fs) \<Rightarrow>
        if \<not> ft_enabled ft then (ft, fs)
        else case should_write_edge_sample ft s of (ft1, write) \<Rightarrow>
          (ft1, if write then write_json_line dir_ok open_ok ft1 (json (EdgeLine tm s)) fs else fs))"

definition file_event ::
  "bool \<Rightarrow> bool \<Rightarrow> (telemetry_record \<Rightarrow> string) \<Rightarrow> string \<Rightarrow> string \<Rightarrow> string \<Rightarrow> file_telemetry \<Rightarrow> log_files \<Rightarrow> log_files" where
  "file_event dir_ok open_ok json tm level message ft fs =
     (if ft_enabled ft then write_json_line dir_ok open_ok ft (json (EventLine tm level message)) fs else fs)"

definition file_latency ::
  "environment \<Rightarrow> bool \<Rightarrow> bool \<Rightarrow> (telemetry_record \<Rightarrow> string) \<Rightarrow> string \<Rightarrow> string \<Rightarrow> u128 \<Rightarrow> string option \<Rightarrow> string option
     \<Rightarrow> file_telemetry \<Rightarrow> log_files \<Rightarrow> log_files" where
  "file_latency env dir_ok open_ok json tm stage d wallet note ft fs =
     (if ft_enabled ft \<and> file_latency_enabled env
      then write_json_line dir_ok open_ok ft (json (LatencyLine tm stage d wallet note)) fs else fs)"

end
