(* ===== verification/Dashboard.thy ===== *)
theory Dashboard
  imports DashObserver TelemetryFile Executor
begin

text \<open>
  The dashboard of \<open>src/dashboard.rs\<close>: its handle with every operation the engine calls, the flush of its
  buffers into the storage, the snapshot it serves, and the requests of its HTTP interface. The fields of
  \<open>DashboardState\<close> that never change after the start are kept in \<open>dashboard_header\<close>. None of the locks
  of the handle is held over code that panics, so they are left out, but for the two it shares with the
  configuration. Formatting of numbers and the order of hash maps are arguments (\<open>dash_ext\<close>); so are the
  clock (\<open>dash_now\<close>) and which accesses to files and database succeed (\<open>dash_io\<close>).
\<close>

section \<open>State\<close>

record dashboard_header =
  dh_runtime_mode :: string
  dh_allow_send :: bool
  dh_network :: string
  dh_native_asset_symbol :: string
  dh_control_address :: address
  dh_vault_address :: address
  dh_executor_address :: address
  dh_profit_address :: address
  dh_executor_min_buffer_eth :: string
  dh_executor_target_buffer_eth :: string
  dh_executor_max_buffer_eth :: string
  dh_private_relay_only :: bool
  dh_scan_interval_ms :: u64
  dh_wallet_count :: nat
  dh_total_keys_read :: nat
  dh_duplicate_keys :: nat
  dh_invalid_keys :: nat
  dh_sweeps_attempted :: u64
  dh_sweeps_succeeded :: u64
  dh_sweeps_failed :: u64

record dashboard_state =
  ds_header :: dashboard_header
  ds_market_regime :: string
  ds_runtime_paused :: bool
  ds_min_candidate_eth :: string
  ds_min_net_profit_eth :: string
  ds_min_profit_usd :: string
  ds_min_liquidity_eth :: string
  ds_executor_balance_eth :: "string option"
  ds_executor_buffer_status :: string
  ds_treasury_action :: string
  ds_treasury_recommended_amount_eth :: string
  ds_treasury_status :: string
  ds_treasury_note :: string
  ds_opportunity_mode :: string
  ds_hot_wallets :: "wallet_snapshot list"
  ds_top_residual_wallets :: "wallet_residual_snapshot list"
  ds_rpc_endpoints :: "rpc_endpoint_snapshot list"
  ds_recent_events :: "dashboard_event list"
  ds_latency_metrics :: "latency_metric list"
  ds_latency_risk :: latency_risk_snapshot
  ds_opportunity_funnel :: opportunity_funnel_snapshot
  ds_edge_telemetry :: edge_telemetry_snapshot
  ds_selector_scores :: "selector_performance_snapshot list"
  ds_selector_pool_scores :: "selector_pool_performance_snapshot list"
  ds_selector_replay_scores :: "selector_replay_score_snapshot list"
  ds_scavenger_observer :: scavenger_observer_report
  ds_reject_reasons :: "reject_reason_snapshot list"
  ds_reject_breakdown :: "reject_breakdown_snapshot list"
  ds_relay_rankings :: "relay_snapshot list"
  ds_toxicity_profiles :: "toxicity_snapshot list"
  ds_treasury_rebalance_trail :: "treasury_snapshot list"
  ds_execution_outcomes :: "execution_outcome_snapshot list"

record storage =
  sto_network :: string
  sto_db :: database

record dashboard =
  dash_state :: dashboard_state
  dash_storage :: storage
  dash_fleet :: rpc_fleet
  dash_mode :: "opportunity_mode lock"
  dash_thresholds :: "opportunity_thresholds lock"
  dash_paused :: bool
  dash_pending :: pending_storage_writes
  dash_observer :: scavenger_observer
  dash_last_prune :: instant
  dash_file :: file_telemetry
  dash_files :: log_files

record dash_ext =
  dx_env :: environment
  dx_show_f64 :: "f64 \<Rightarrow> string"
  dx_show_message :: "message \<Rightarrow> string"
  dx_json :: "telemetry_record \<Rightarrow> string"
  dx_bucket_order :: "(string \<times> category_bucket) list \<Rightarrow> (string \<times> category_bucket) list"
  dx_summary_order :: "stage_summary list \<Rightarrow> stage_summary list"

text \<open>\<open>dn_ago\<close>: the time so many seconds ago.\<close>

record dash_now =
  dn_now :: instant
  dn_at :: string
  dn_minute :: string
  dn_ago :: "int \<Rightarrow> string"

text \<open>Directory and file of the telemetry; whether a row can be written to a table; deletions done.\<close>

record dash_io =
  io_dir :: bool
  io_open :: bool
  io_write :: "string \<Rightarrow> string \<Rightarrow> bool"
  io_prune :: nat

text \<open>What the storage answers: \<open>None\<close> is an error.\<close>

record storage_answers =
  sa_up :: bool
  sa_telemetry :: "stage_summary list"
  sa_sweeps :: "(u64 \<times> u64 \<times> u64) option"
  sa_residuals :: "residual_row list option"
  sa_relays :: "relay_snapshot list option"
  sa_toxicity :: "toxicity_snapshot list option"
  sa_selectors :: "selector_performance_snapshot list option"
  sa_selector_pools :: "selector_pool_performance_snapshot list option"
  sa_selector_replays :: "selector_replay_score_snapshot list option"

definition window_summary :: "dash_ext \<Rightarrow> dash_now \<Rightarrow> storage_answers \<Rightarrow> storage \<Rightarrow> stage_summary list" where
  "window_summary ex dn sa sto =
     (if sa_up sa then dx_summary_order ex (telemetry_window_summary (dn_ago dn 300) (sto_db sto)) else [])"

definition stored_trail :: "storage_answers \<Rightarrow> storage \<Rightarrow> treasury_snapshot list option" where
  "stored_trail sa sto = (if sa_up sa then Some (treasury_rebalance_trail (sto_network sto) 12 (sto_db sto)) else None)"

definition stored_outcomes :: "storage_answers \<Rightarrow> storage \<Rightarrow> execution_outcome_snapshot list option" where
  "stored_outcomes sa sto = (if sa_up sa then Some (execution_outcomes (sto_network sto) 12 (sto_db sto)) else None)"

definition dashboard_header_of :: "config \<Rightarrow> storage_answers \<Rightarrow> nat \<Rightarrow> nat \<Rightarrow> nat \<Rightarrow> nat \<Rightarrow> dashboard_header" where
  "dashboard_header_of cfg sa wallet_count total_keys_read duplicate_keys invalid_keys =
     (case or_default (sa_sweeps sa) (0, 0, 0) of (attempted, succeeded, failed) \<Rightarrow>
       \<lparr>dh_runtime_mode = ''fee-extraction'', dh_allow_send = allow_send cfg, dh_network = cfg_network cfg,
        dh_native_asset_symbol = native_asset_symbol cfg, dh_control_address = control_address cfg,
        dh_vault_address = vault_address cfg, dh_executor_address = executor_address cfg,
        dh_profit_address = profit_address cfg,
        dh_executor_min_buffer_eth = show_fixed 4 (executor_min_buffer_eth (mev cfg)),
        dh_executor_target_buffer_eth = show_fixed 4 (executor_target_buffer_eth (mev cfg)),
        dh_executor_max_buffer_eth = show_fixed 4 (executor_max_buffer_eth (mev cfg)), dh_private_relay_only = True,
        dh_scan_interval_ms = max_pending_age_ms (mev cfg), dh_wallet_count = wallet_count,
        dh_total_keys_read = total_keys_read, dh_duplicate_keys = duplicate_keys, dh_invalid_keys = invalid_keys,
        dh_sweeps_attempted = attempted, dh_sweeps_succeeded = succeeded, dh_sweeps_failed = failed\<rparr>)"

definition shown_thresholds :: "dash_ext \<Rightarrow> opportunity_thresholds \<Rightarrow> dashboard_state \<Rightarrow> dashboard_state" where
  "shown_thresholds ex t st =
     st\<lparr>ds_min_candidate_eth := dx_show_f64 ex (th_min_large_swap_eth t),
        ds_min_net_profit_eth := dx_show_f64 ex (th_min_net_profit_eth t),
        ds_min_profit_usd := dx_show_f64 ex (th_min_profit_usd t),
        ds_min_liquidity_eth := dx_show_f64 ex (th_min_liquidity_eth t)\<rparr>"

definition treasury_fields :: "treasury_snapshot list \<Rightarrow> string \<times> string \<times> string \<times> string" where
  "treasury_fields trail =
     (case trail of
        entry # _ \<Rightarrow> (ty_action entry, show_fixed 6 (ty_recommended_amount_eth entry), ty_status entry, ty_note entry)
      | [] \<Rightarrow> (''hold'', ''0.000000'', ''unknown'', ''no treasury signals yet''))"

definition dashboard_new ::
  "dash_ext \<Rightarrow> dash_now \<Rightarrow> storage_answers \<Rightarrow> config \<Rightarrow> nat \<Rightarrow> nat \<Rightarrow> nat \<Rightarrow> nat \<Rightarrow> storage \<Rightarrow> rpc_fleet \<Rightarrow> log_files
     \<Rightarrow> dashboard" where
  "dashboard_new ex dn sa cfg wallet_count total_keys_read duplicate_keys invalid_keys sto fleet files =
     (let trail = or_default (stored_trail sa sto) [];
          endpoints = rpc_snapshot fleet (dn_now dn);
          risk = build_latency_risk (dn_at dn) (window_summary ex dn sa sto) (snd endpoints)
      in case treasury_fields trail of (action, amount, status, note) \<Rightarrow>
        \<lparr>dash_state = shown_thresholds ex (runtime_thresholds (mev cfg))
           \<lparr>ds_header = dashboard_header_of cfg sa wallet_count total_keys_read duplicate_keys invalid_keys,
            ds_market_regime = ''normal'', ds_runtime_paused = False, ds_min_candidate_eth = [], ds_min_net_profit_eth = [],
            ds_min_profit_usd = [], ds_min_liquidity_eth = [], ds_executor_balance_eth = None,
            ds_executor_buffer_status = ''unknown'', ds_treasury_action = action, ds_treasury_recommended_amount_eth = amount,
            ds_treasury_status = status, ds_treasury_note = note,
            ds_opportunity_mode = opportunity_mode_as_str (opportunity_mode (mev cfg)), ds_hot_wallets = [],
            ds_top_residual_wallets = map residual_snapshot (or_default (sa_residuals sa) []),
            ds_rpc_endpoints = snd endpoints,
            ds_recent_events = (if sa_up sa then recent_events 50 (sto_db sto) else []),
            ds_latency_metrics = build_latency_metrics (sa_telemetry sa), ds_latency_risk = risk,
            ds_opportunity_funnel = empty_funnel, ds_edge_telemetry = empty_telemetry,
            ds_selector_scores = or_default (sa_selectors sa) [], ds_selector_pool_scores = or_default (sa_selector_pools sa) [],
            ds_selector_replay_scores = or_default (sa_selector_replays sa) [], ds_scavenger_observer = default_report,
            ds_reject_reasons = [], ds_reject_breakdown = [], ds_relay_rankings = or_default (sa_relays sa) [],
            ds_toxicity_profiles = or_default (sa_toxicity sa) [], ds_treasury_rebalance_trail = trail,
            ds_execution_outcomes = or_default (stored_outcomes sa sto) []\<rparr>,
         dash_storage = sto, dash_fleet = fst endpoints, dash_mode = opportunity_mode_lock (mev cfg),
         dash_thresholds = runtime_thresholds_lock (mev cfg), dash_paused = False, dash_pending = empty_pending,
         dash_observer = empty_observer, dash_last_prune = dn_now dn - nanos_of_secs 120,
         dash_file = telemetry_from_env (dx_env ex), dash_files = files\<rparr>)"

section \<open>Operations\<close>

definition with_state :: "(dashboard_state \<Rightarrow> dashboard_state) \<Rightarrow> dashboard \<Rightarrow> dashboard" where
  "with_state f d = d\<lparr>dash_state := f (dash_state d)\<rparr>"

definition with_pending :: "(pending_storage_writes \<Rightarrow> pending_storage_writes) \<Rightarrow> dashboard \<Rightarrow> dashboard" where
  "with_pending f d = d\<lparr>dash_pending := f (dash_pending d)\<rparr>"

definition set_runtime_paused :: "bool \<Rightarrow> dashboard \<Rightarrow> dashboard" where
  "set_runtime_paused paused d = with_state (\<lambda>st. st\<lparr>ds_runtime_paused := paused\<rparr>) (d\<lparr>dash_paused := paused\<rparr>)"

definition event :: "dash_ext \<Rightarrow> dash_now \<Rightarrow> dash_io \<Rightarrow> string \<Rightarrow> string \<Rightarrow> dashboard \<Rightarrow> dashboard" where
  "event ex dn io level message d =
     (let d1 = with_pending (\<lambda>p. p\<lparr>pd_events := pd_events p @ [(level, message)]\<rparr>) d;
          d2 = d1\<lparr>dash_files := file_event (io_dir io) (io_open io) (dx_json ex) (dn_at dn) level message (dash_file d1) (dash_files d1)\<rparr>
      in with_state (\<lambda>st. st\<lparr>ds_recent_events := push_event (dn_at dn) level message (ds_recent_events st)\<rparr>) d2)"

text \<open>The answer says whether the stored events could be deleted.\<close>

definition clear_events :: "bool \<Rightarrow> dashboard \<Rightarrow> dashboard \<times> bool" where
  "clear_events deleted d =
     (let d1 = with_pending (\<lambda>p. p\<lparr>pd_events := []\<rparr>) d in
      if \<not> deleted then (d1, False)
      else let d2 = d1\<lparr>dash_storage := (dash_storage d1)\<lparr>sto_db := db_clear_events (sto_db (dash_storage d1))\<rparr>\<rparr>
        in (with_state (\<lambda>st. st\<lparr>ds_recent_events := []\<rparr>) d2, True))"

definition record_latency ::
  "dash_ext \<Rightarrow> dash_now \<Rightarrow> dash_io \<Rightarrow> string \<Rightarrow> u128 \<Rightarrow> string option \<Rightarrow> string option \<Rightarrow> dashboard \<Rightarrow> dashboard" where
  "record_latency ex dn io stage ms wallet note d =
     (let d1 = with_pending (pending_latency_sample (dx_env ex) (dn_minute dn) stage ms wallet note) d;
          d2 = d1\<lparr>dash_files := file_latency (dx_env ex) (io_dir io) (io_open io) (dx_json ex) (dn_at dn) stage ms wallet note
                 (dash_file d1) (dash_files d1)\<rparr>
      in with_state (\<lambda>st. st\<lparr>ds_latency_metrics := upsert_latency_metric (ds_latency_metrics st) stage ms\<rparr>) d2)"

definition set_market_regime :: "string \<Rightarrow> dashboard \<Rightarrow> dashboard" where
  "set_market_regime regime = with_state (\<lambda>st. st\<lparr>ds_market_regime := regime\<rparr>)"

definition record_reject_reason :: "dash_ext \<Rightarrow> dash_now \<Rightarrow> string \<Rightarrow> string \<Rightarrow> dashboard \<Rightarrow> dashboard" where
  "record_reject_reason ex dn stage reason d =
     (let d1 = (if storage_rollups_enabled (dx_env ex) then with_pending (pending_reject_reason (dn_minute dn) stage reason) d else d)
      in with_state (\<lambda>st. st\<lparr>ds_reject_reasons := ranked_reasons (bump_reject_reason stage reason (ds_reject_reasons st))\<rparr>) d1)"

definition record_selector_performance ::
  "dash_ext \<Rightarrow> dash_now \<Rightarrow> string \<Rightarrow> string \<Rightarrow> string \<Rightarrow> string \<Rightarrow> f64 \<Rightarrow> f64 \<Rightarrow> dashboard \<Rightarrow> dashboard" where
  "record_selector_performance ex dn selector target decode_source stage confidence gas_gwei d =
     (if \<not> storage_rollups_enabled (dx_env ex) then d
      else with_pending (pending_selector_performance (dn_minute dn) selector target decode_source stage confidence gas_gwei) d)"

definition record_selector_pool_performance ::
  "dash_ext \<Rightarrow> dash_now \<Rightarrow> string \<Rightarrow> string \<Rightarrow> string \<Rightarrow> string \<Rightarrow> string \<Rightarrow> u32 \<Rightarrow> string \<Rightarrow> f64 \<Rightarrow> f64 \<Rightarrow> f64
     \<Rightarrow> dashboard \<Rightarrow> dashboard" where
  "record_selector_pool_performance ex dn selector target token_pair pool dex_kind fee_tier stage expected_profit liquidity gas_gwei d =
     (if \<not> storage_rollups_enabled (dx_env ex) then d
      else with_pending (pending_selector_pool_performance (dn_minute dn) selector target token_pair pool dex_kind fee_tier stage
             expected_profit liquidity gas_gwei) d)"

definition record_opportunity_funnel :: "dash_ext \<Rightarrow> dash_now \<Rightarrow> string \<Rightarrow> dashboard \<Rightarrow> dashboard" where
  "record_opportunity_funnel ex dn stage d =
     (let d1 = (if storage_rollups_enabled (dx_env ex) then with_pending (pending_funnel (dn_minute dn) stage) d else d)
      in with_state (\<lambda>st. st\<lparr>ds_opportunity_funnel := bump_funnel stage (ds_opportunity_funnel st)\<rparr>) d1)"

definition sample_event :: "dash_now \<Rightarrow> dashboard_state \<Rightarrow> dashboard_state" where
  "sample_event dn st =
     (let n = tel_sample_count (ds_edge_telemetry st) in
      if n \<le> 3 \<or> n mod 25 = 0
      then st\<lparr>ds_recent_events := push_event (dn_at dn) ''info''
             (''edge telemetry sample recorded count='' @ dec_str (uint n)) (ds_recent_events st)\<rparr>
      else st)"

definition record_edge_sample :: "dash_ext \<Rightarrow> dash_now \<Rightarrow> dash_io \<Rightarrow> edge_metadata \<Rightarrow> dashboard \<Rightarrow> dashboard" where
  "record_edge_sample ex dn io sample d =
     (let s = edge_snapshot (dx_show_message ex) (dn_at dn) sample in
      case record_unsupported_selector (count_sample s (ds_edge_telemetry (dash_state d))) s of (telemetry, unsupported) \<Rightarrow>
        (let d1 = with_state (\<lambda>st. sample_event dn (st\<lparr>ds_edge_telemetry := telemetry\<rparr>)) d;
             d2 = (case unsupported of None \<Rightarrow> d1
               | Some u \<Rightarrow> with_pending (\<lambda>p. p\<lparr>pd_unsupported_selectors := pd_unsupported_selectors p @ [u]\<rparr>) d1)
         in case file_edge_sample (io_dir io) (io_open io) (dx_json ex) (dn_at dn) s (dash_file d2, dash_files d2) of
              (file, files) \<Rightarrow> d2\<lparr>dash_file := file, dash_files := files\<rparr>))"

definition set_relay_rankings :: "relay_snapshot list \<Rightarrow> dashboard \<Rightarrow> dashboard" where
  "set_relay_rankings relays = with_state (\<lambda>st. st\<lparr>ds_relay_rankings := relays\<rparr>)"

definition record_relay_outcome :: "relay_update \<Rightarrow> dashboard \<Rightarrow> dashboard" where
  "record_relay_outcome u d =
     with_state (\<lambda>st. st\<lparr>ds_relay_rankings := upsert_relay_snapshot (ds_relay_rankings st) u\<rparr>)
       (with_pending (\<lambda>p. p\<lparr>pd_relay_updates := pd_relay_updates p @ [u]\<rparr>) d)"

definition set_executor_balance :: "f64 \<Rightarrow> string \<Rightarrow> dashboard \<Rightarrow> dashboard" where
  "set_executor_balance balance_eth status =
     with_state (\<lambda>st. st\<lparr>ds_executor_balance_eth := Some (show_fixed 6 balance_eth), ds_executor_buffer_status := status\<rparr>)"

definition set_hot_wallets :: "wallet_snapshot list \<Rightarrow> dashboard \<Rightarrow> dashboard" where
  "set_hot_wallets wallets = with_state (\<lambda>st. st\<lparr>ds_hot_wallets := wallets\<rparr>)"

definition record_treasury_recommendation :: "dash_now \<Rightarrow> treasury_snapshot \<Rightarrow> dashboard \<Rightarrow> dashboard" where
  "record_treasury_recommendation dn u d =
     with_state (\<lambda>st. st\<lparr>ds_treasury_action := ty_action u,
         ds_treasury_recommended_amount_eth := show_fixed 6 (ty_recommended_amount_eth u),
         ds_treasury_status := ty_status u, ds_treasury_note := ty_note u,
         ds_treasury_rebalance_trail := take 12 (u\<lparr>ty_at := dn_at dn\<rparr> # ds_treasury_rebalance_trail st)\<rparr>)
       (with_pending (\<lambda>p. p\<lparr>pd_treasury_updates := pd_treasury_updates p @ [u]\<rparr>) d)"

definition record_execution_outcome :: "dash_now \<Rightarrow> execution_outcome_snapshot \<Rightarrow> dashboard \<Rightarrow> dashboard" where
  "record_execution_outcome dn u d =
     with_state (\<lambda>st. st\<lparr>ds_execution_outcomes := take 12 (u\<lparr>eo_at := dn_at dn\<rparr> # ds_execution_outcomes st)\<rparr>)
       (with_pending (\<lambda>p. p\<lparr>pd_execution_outcomes := pd_execution_outcomes p @ [u]\<rparr>) d)"

section \<open>Flushing the buffers\<close>

text \<open>A write that fails is dropped. The rows of one map have different keys, so their order is of no account.\<close>

definition try_write :: "bool \<Rightarrow> (database \<Rightarrow> database) \<Rightarrow> database \<Rightarrow> database" where
  "try_write ok f db = (if ok then f db else db)"

definition write_event :: "dash_now \<Rightarrow> dash_io \<Rightarrow> string \<times> string \<Rightarrow> database \<Rightarrow> database" where
  "write_event dn io e = try_write (io_write io ''events'' (snd e)) (log_event (dn_at dn) (fst e) (snd e))"

definition write_latency :: "dash_now \<Rightarrow> dash_io \<Rightarrow> pending_latency \<Rightarrow> database \<Rightarrow> database" where
  "write_latency dn io l =
     try_write (io_write io ''telemetry'' (pl_stage l)) (log_telemetry (dn_at dn) (pl_stage l) (pl_duration_ms l) (pl_wallet l) (pl_note l))"

definition write_latency_rollup :: "dash_io \<Rightarrow> string \<Rightarrow> string \<times> pending_latency_rollup \<Rightarrow> database \<Rightarrow> database" where
  "write_latency_rollup io network e =
     try_write (io_write io ''latency_rollups'' (fst e)) (db_record_latency_rollup network (plr_bucket (snd e)) (plr_stage (snd e))
       (plr_samples (snd e)) (plr_total_ms (snd e)) (plr_max_ms (snd e)) (plr_last_ms (snd e)))"

definition write_funnel_rollup :: "dash_io \<Rightarrow> string \<Rightarrow> string \<times> pending_counter_rollup \<Rightarrow> database \<Rightarrow> database" where
  "write_funnel_rollup io network e =
     try_write (io_write io ''funnel_rollups'' (fst e))
       (db_record_funnel_rollup network (pcr_bucket (snd e)) (pcr_stage (snd e)) (pcr_count (snd e)))"

definition write_reject_rollup :: "dash_io \<Rightarrow> string \<Rightarrow> string \<times> pending_reject_reason_rollup \<Rightarrow> database \<Rightarrow> database" where
  "write_reject_rollup io network e =
     try_write (io_write io ''reject_reason_rollups'' (fst e)) (db_record_reject_reason_rollup network (prr_bucket (snd e))
       (prr_stage (snd e)) (prr_reason (snd e)) (prr_count (snd e)))"

definition write_selector_rollup ::
  "dash_now \<Rightarrow> dash_io \<Rightarrow> string \<Rightarrow> string \<times> pending_selector_performance_rollup \<Rightarrow> database \<Rightarrow> database" where
  "write_selector_rollup dn io network e =
     try_write (io_write io ''selector_performance_rollups'' (fst e)) (db_record_selector_performance_rollup (dn_at dn) network
       (psr_bucket (snd e)) (psr_selector (snd e)) (psr_target (snd e)) (psr_decode_source (snd e)) (psr_stage (snd e))
       (psr_count (snd e)) (psr_confidence_sum (snd e)) (psr_gas_gwei_sum (snd e)))"

definition write_pool_rollup ::
  "dash_now \<Rightarrow> dash_io \<Rightarrow> string \<Rightarrow> string \<times> pending_selector_pool_performance_rollup \<Rightarrow> database \<Rightarrow> database" where
  "write_pool_rollup dn io network e =
     try_write (io_write io ''selector_pool_performance_rollups'' (fst e)) (db_record_selector_pool_performance_rollup (dn_at dn) network
       (ppr_bucket (snd e)) (ppr_selector (snd e)) (ppr_target (snd e)) (ppr_token_pair (snd e)) (ppr_pool (snd e))
       (ppr_dex_kind (snd e)) (ppr_fee_tier (snd e)) (ppr_counts (snd e)) (ppr_expected_profit_sum (snd e))
       (ppr_liquidity_sum (snd e)) (ppr_gas_gwei_sum (snd e)) (ppr_samples (snd e)))"

definition write_relay :: "dash_now \<Rightarrow> dash_io \<Rightarrow> string \<Rightarrow> relay_update \<Rightarrow> database \<Rightarrow> database" where
  "write_relay dn io network u =
     try_write (io_write io ''relay_metrics'' (ru_relay u)) (db_record_relay_outcome (dn_at dn) network (ru_relay u)
       (of_bool (ru_accepted u)) (of_bool (ru_submit_failed u)) (of_bool (ru_included_success u)) (of_bool (ru_included_revert u))
       (of_bool (ru_not_included_timeout u)) (ru_submit_latency_ms u) (ru_finalization_latency_ms u) (ru_score u)
       (ru_pressure u) (ru_accept_rate u) (ru_inclusion_rate u))"

definition write_treasury :: "dash_now \<Rightarrow> dash_io \<Rightarrow> string \<Rightarrow> treasury_snapshot \<Rightarrow> database \<Rightarrow> database" where
  "write_treasury dn io network t =
     try_write (io_write io ''treasury_rebalance'' (ty_action t)) (db_record_treasury network (t\<lparr>ty_at := dn_at dn\<rparr>))"

definition write_outcome :: "dash_now \<Rightarrow> dash_io \<Rightarrow> string \<Rightarrow> execution_outcome_snapshot \<Rightarrow> database \<Rightarrow> database" where
  "write_outcome dn io network t =
     try_write (io_write io ''execution_outcomes'' (eo_victim_tx t)) (db_record_execution_outcome network (t\<lparr>eo_at := dn_at dn\<rparr>))"

definition write_unsupported :: "dash_now \<Rightarrow> dash_io \<Rightarrow> string \<Rightarrow> unsupported_selector_record \<Rightarrow> database \<Rightarrow> database" where
  "write_unsupported dn io network u =
     try_write (io_write io ''unsupported_selectors'' (uq_selector u)) (db_record_unsupported_selector (dn_at dn) network u)"

definition flush_before_prune ::
  "environment \<Rightarrow> dash_now \<Rightarrow> dash_io \<Rightarrow> string \<Rightarrow> pending_storage_writes \<Rightarrow> database \<Rightarrow> database" where
  "flush_before_prune env dn io network p db =
     (let db1 = (if storage_events_enabled env then fold (write_event dn io) (pd_events p) db else db);
          db2 = (if storage_telemetry_enabled env then fold (write_latency dn io) (pd_latencies p) db1 else db1);
          db3 = fold (write_latency_rollup io network) (pd_latency_rollups p) db2;
          db4 = fold (write_funnel_rollup io network) (pd_funnel_rollups p) db3;
          db5 = fold (write_reject_rollup io network) (pd_reject_reason_rollups p) db4;
          db6 = fold (write_selector_rollup dn io network) (pd_selector_rollups p) db5;
          db7 = fold (write_pool_rollup dn io network) (pd_pool_rollups p) db6
      in fold (write_relay dn io network) (pd_relay_updates p) db7)"

definition flush_after_prune ::
  "dash_now \<Rightarrow> dash_io \<Rightarrow> string \<Rightarrow> pending_storage_writes \<Rightarrow> database \<Rightarrow> database" where
  "flush_after_prune dn io network p db =
     (let db1 = fold (write_treasury dn io network) (pd_treasury_updates p) db;
          db2 = fold (write_outcome dn io network) (pd_execution_outcomes p) db1
      in fold (write_unsupported dn io network) (pd_unsupported_selectors p) db2)"

definition prune_due :: "dash_now \<Rightarrow> dashboard \<Rightarrow> bool" where
  "prune_due dn d = (nanos_of_secs 60 \<le> duration_since (dn_now dn) (dash_last_prune d))"

definition flush_storage_buffers :: "dash_ext \<Rightarrow> dash_now \<Rightarrow> dash_io \<Rightarrow> dashboard \<Rightarrow> dashboard" where
  "flush_storage_buffers ex dn io d =
     (let p = dash_pending d; network = sto_network (dash_storage d);
          db1 = flush_before_prune (dx_env ex) dn io network p (sto_db (dash_storage d));
          db2 = (if prune_due dn d
                 then prune_runtime_tables (dx_env ex) (\<lambda>hours. dn_ago dn (hours * 3600)) (io_prune io) db1 else db1);
          db3 = flush_after_prune dn io network p db2
      in d\<lparr>dash_pending := empty_pending, dash_storage := (dash_storage d)\<lparr>sto_db := db3\<rparr>,
           dash_last_prune := (if prune_due dn d then dn_now dn else dash_last_prune d)\<rparr>)"

section \<open>The snapshot\<close>

definition if_some :: "'a option \<Rightarrow> ('a \<Rightarrow> dashboard_state \<Rightarrow> dashboard_state) \<Rightarrow> dashboard_state \<Rightarrow> dashboard_state" where
  "if_some x f st = (case x of Some v \<Rightarrow> f v st | None \<Rightarrow> st)"

text \<open>The stored rows replace what is held in memory, as far as they can be read.\<close>

definition with_stored :: "storage_answers \<Rightarrow> storage \<Rightarrow> dashboard_state \<Rightarrow> dashboard_state" where
  "with_stored sa sto st =
     if_some (sa_selector_replays sa) (\<lambda>v st. st\<lparr>ds_selector_replay_scores := v\<rparr>)
      (if_some (sa_selector_pools sa) (\<lambda>v st. st\<lparr>ds_selector_pool_scores := v\<rparr>)
       (if_some (sa_selectors sa) (\<lambda>v st. st\<lparr>ds_selector_scores := v\<rparr>)
        (if_some (stored_outcomes sa sto) (\<lambda>v st. st\<lparr>ds_execution_outcomes := v\<rparr>)
         (if_some (stored_trail sa sto) (\<lambda>v st. st\<lparr>ds_treasury_rebalance_trail := v\<rparr>)
          (if_some (sa_residuals sa) (\<lambda>v st. st\<lparr>ds_top_residual_wallets := map residual_snapshot v\<rparr>)
           (if_some (sa_relays sa) (\<lambda>v st. st\<lparr>ds_relay_rankings := v\<rparr>)
            (if_some (sa_toxicity sa) (\<lambda>v st. st\<lparr>ds_toxicity_profiles := v\<rparr>) st)))))))"

text \<open>The snapshot is served; of the handle only the observer and the counters of the fleet change.\<close>

definition snapshot :: "dash_ext \<Rightarrow> dash_now \<Rightarrow> storage_answers \<Rightarrow> dashboard \<Rightarrow> dashboard \<times> dashboard_state" where
  "snapshot ex dn sa d =
     (case rpc_snapshot (dash_fleet d) (dn_now dn) of (fleet, endpoints) \<Rightarrow>
       (let st1 = with_stored sa (dash_storage d) ((dash_state d)\<lparr>ds_runtime_paused := dash_paused d, ds_rpc_endpoints := endpoints\<rparr>);
            st2 = st1\<lparr>ds_opportunity_mode := (case read_lock (dash_mode d) of Some m \<Rightarrow> opportunity_mode_as_str m
                    | None \<Rightarrow> ''conservative'')\<rparr>;
            st3 = (case read_lock (dash_thresholds d) of Some t \<Rightarrow> shown_thresholds ex t st2 | None \<Rightarrow> st2);
            st4 = st3\<lparr>ds_latency_risk := build_latency_risk (dn_at dn) (window_summary ex dn sa (dash_storage d)) endpoints,
                    ds_reject_breakdown := build_reject_breakdown (dx_bucket_order ex) (ds_reject_reasons st3)\<rparr>;
            observer = observer_push (dn_now dn) (observer_sample (dn_now dn) endpoints (ds_opportunity_funnel st4)
                    (tel_sample_count (ds_edge_telemetry st4))) (dash_observer d)
        in (d\<lparr>dash_fleet := fleet, dash_observer := observer\<rparr>, st4\<lparr>ds_scavenger_observer := observer_report observer\<rparr>)))"

section \<open>Requests\<close>

record threshold_request =
  tq_min_large_swap_eth :: "f64 option"
  tq_min_net_profit_eth :: "f64 option"
  tq_min_profit_usd :: "f64 option"
  tq_min_liquidity_eth :: "f64 option"

datatype api_request = StatusRequest | RpcEnabledRequest nat bool "string option" | OnlyGetblockRequest
  | PauseRequest bool | ClearEventsRequest | ModeRequest string | ThresholdsRequest threshold_request

datatype api_body = StateBody dashboard_state | EndpointsBody "rpc_endpoint_snapshot list" | PausedBody bool
  | ModeBody string | ThresholdsBody opportunity_thresholds | NoBody

record api_response =
  ar_code :: nat
  ar_ok :: bool
  ar_message :: string
  ar_body :: api_body

definition endpoints_response :: "dash_now \<Rightarrow> nat \<Rightarrow> bool \<Rightarrow> string \<Rightarrow> dashboard \<Rightarrow> dashboard \<times> api_response" where
  "endpoints_response dn code ok message d =
     (case rpc_snapshot (dash_fleet d) (dn_now dn) of (fleet, endpoints) \<Rightarrow>
        (d\<lparr>dash_fleet := fleet\<rparr>, \<lparr>ar_code = code, ar_ok = ok, ar_message = message, ar_body = EndpointsBody endpoints\<rparr>))"

definition api_rpc_enabled ::
  "dash_ext \<Rightarrow> dash_now \<Rightarrow> dash_io \<Rightarrow> nat \<Rightarrow> bool \<Rightarrow> string option \<Rightarrow> dashboard \<Rightarrow> dashboard \<times> api_response" where
  "api_rpc_enabled ex dn io endpoint_id on reason d =
     (case set_endpoint_enabled (dash_fleet d) (dn_now dn) endpoint_id on reason of
        Inr fleet \<Rightarrow>
          (let status = (if on then ''enabled'' else ''disabled'');
               d1 = event ex dn io ''warn'' (''rpc endpoint '' @ dec_str (int endpoint_id) @ '' '' @ status @ '' from dashboard'')
                 (d\<lparr>dash_fleet := fleet\<rparr>)
           in endpoints_response dn 200 True (''rpc endpoint '' @ dec_str (int endpoint_id) @ '' '' @ status) d1)
      | Inl unknown \<Rightarrow> endpoints_response dn 404 False (''unknown RPC endpoint id '' @ dec_str (int unknown)) d)"

definition api_only_getblock :: "dash_ext \<Rightarrow> dash_now \<Rightarrow> dash_io \<Rightarrow> dashboard \<Rightarrow> dashboard \<times> api_response" where
  "api_only_getblock ex dn io d =
     (case keep_only_getblock_enabled (dash_fleet d) (dn_now dn) of (fleet, disabled) \<Rightarrow>
       (let d1 = event ex dn io ''warn'' (''getblock-only mode enabled from dashboard; disabled '' @ dec_str (int disabled)
              @ '' rpc endpoints'') (d\<lparr>dash_fleet := fleet\<rparr>)
        in endpoints_response dn 200 True (''getblock-only mode enabled; disabled '' @ dec_str (int disabled) @ '' rpc endpoints'') d1))"

definition api_clear_events :: "bool \<Rightarrow> string \<Rightarrow> dashboard \<Rightarrow> dashboard \<times> api_response" where
  "api_clear_events deleted err d =
     (case clear_events deleted d of (d1, True) \<Rightarrow>
        (d1, \<lparr>ar_code = 200, ar_ok = True, ar_message = ''events feed cleared'', ar_body = NoBody\<rparr>)
      | (d1, False) \<Rightarrow> (d1, \<lparr>ar_code = 500, ar_ok = False, ar_message = err, ar_body = NoBody\<rparr>))"

definition api_pause :: "dash_ext \<Rightarrow> dash_now \<Rightarrow> dash_io \<Rightarrow> bool \<Rightarrow> dashboard \<Rightarrow> dashboard \<times> api_response" where
  "api_pause ex dn io paused d =
     (let action = (if paused then ''paused'' else ''resumed'');
          d1 = event ex dn io ''warn'' (''runtime '' @ action @ '' from dashboard'') (set_runtime_paused paused d)
      in (d1, \<lparr>ar_code = 200, ar_ok = True, ar_message = ''runtime '' @ action, ar_body = PausedBody paused\<rparr>))"

definition api_mode :: "dash_ext \<Rightarrow> dash_now \<Rightarrow> dash_io \<Rightarrow> string \<Rightarrow> dashboard \<Rightarrow> dashboard \<times> api_response" where
  "api_mode ex dn io mode d =
     (case parse_opportunity_mode mode of
        Inr parsed \<Rightarrow>
          (let d1 = with_state (\<lambda>st. st\<lparr>ds_opportunity_mode := opportunity_mode_as_str parsed\<rparr>)
                 (d\<lparr>dash_mode := update_lock (\<lambda>_. parsed) (dash_mode d)\<rparr>);
               d2 = event ex dn io ''warn'' (''opportunity mode switched to '' @ opportunity_mode_as_str parsed) d1
           in (d2, \<lparr>ar_code = 200, ar_ok = True, ar_message = ''opportunity mode set to '' @ opportunity_mode_as_str parsed,
                    ar_body = ModeBody (opportunity_mode_as_str parsed)\<rparr>))
      | Inl err \<Rightarrow>
          (d, \<lparr>ar_code = 400, ar_ok = False,
               ar_message = (case err of LeOpportunityMode s \<Rightarrow> ''unsupported opportunity mode: '' @ s | _ \<Rightarrow> []),
               ar_body = ModeBody (case read_lock (dash_mode d) of Some m \<Rightarrow> opportunity_mode_as_str m
                 | None \<Rightarrow> ''conservative'')\<rparr>))"

definition default_thresholds :: opportunity_thresholds where
  "default_thresholds = \<lparr>th_min_large_swap_eth = dec 25 0, th_min_net_profit_eth = dec 25 4, th_min_profit_usd = dec 2 0,
     th_min_liquidity_eth = dec 25 0\<rparr>"

definition requested_thresholds :: "threshold_request \<Rightarrow> opportunity_thresholds \<Rightarrow> opportunity_thresholds" where
  "requested_thresholds q current =
     \<lparr>th_min_large_swap_eth = or_default (tq_min_large_swap_eth q) (th_min_large_swap_eth current),
      th_min_net_profit_eth = or_default (tq_min_net_profit_eth q) (th_min_net_profit_eth current),
      th_min_profit_usd = or_default (tq_min_profit_usd q) (th_min_profit_usd current),
      th_min_liquidity_eth = or_default (tq_min_liquidity_eth q) (th_min_liquidity_eth current)\<rparr>"

definition threshold_refused :: "opportunity_thresholds \<Rightarrow> bool" where
  "threshold_refused t =
     (th_min_large_swap_eth t \<le> 0 \<or> th_min_net_profit_eth t \<le> 0 \<or> th_min_profit_usd t \<le> 0 \<or> th_min_liquidity_eth t \<le> 0)"

definition api_thresholds ::
  "dash_ext \<Rightarrow> dash_now \<Rightarrow> dash_io \<Rightarrow> threshold_request \<Rightarrow> dashboard \<Rightarrow> dashboard \<times> api_response" where
  "api_thresholds ex dn io q d =
     (let current = or_default (read_lock (dash_thresholds d)) default_thresholds;
          next = requested_thresholds q current
      in if threshold_refused next
         then (d, \<lparr>ar_code = 400, ar_ok = False, ar_message = ''threshold values must be positive'',
                   ar_body = ThresholdsBody current\<rparr>)
         else let d1 = with_state (shown_thresholds ex next) (d\<lparr>dash_thresholds := update_lock (\<lambda>_. next) (dash_thresholds d)\<rparr>);
                  d2 = event ex dn io ''warn'' (''opportunity thresholds updated min_swap='' @ show_fixed 6 (th_min_large_swap_eth next)
                    @ '' min_profit='' @ show_fixed 8 (th_min_net_profit_eth next) @ '' min_usd='' @ show_fixed 4 (th_min_profit_usd next)
                    @ '' min_liquidity='' @ show_fixed 6 (th_min_liquidity_eth next)) d1
              in (d2, \<lparr>ar_code = 200, ar_ok = True, ar_message = ''opportunity thresholds updated'', ar_body = ThresholdsBody next\<rparr>))"

definition handle_request ::
  "dash_ext \<Rightarrow> dash_now \<Rightarrow> dash_io \<Rightarrow> storage_answers \<Rightarrow> api_request \<Rightarrow> dashboard \<Rightarrow> dashboard \<times> api_response" where
  "handle_request ex dn io sa request d =
     (case request of
        StatusRequest \<Rightarrow> (case snapshot ex dn sa d of (d1, st) \<Rightarrow>
          (d1, \<lparr>ar_code = 200, ar_ok = True, ar_message = [], ar_body = StateBody st\<rparr>))
      | RpcEnabledRequest endpoint_id on reason \<Rightarrow> api_rpc_enabled ex dn io endpoint_id on reason d
      | OnlyGetblockRequest \<Rightarrow> api_only_getblock ex dn io d
      | PauseRequest paused \<Rightarrow> api_pause ex dn io paused d
      | ClearEventsRequest \<Rightarrow> api_clear_events (sa_up sa) ''storage unavailable'' d
      | ModeRequest mode \<Rightarrow> api_mode ex dn io mode d
      | ThresholdsRequest q \<Rightarrow> api_thresholds ex dn io q d)"

section \<open>Downloads\<close>

text \<open>The two artifacts that can be downloaded; an error of the export or of reading it is a 500.\<close>

definition export_limit :: "int option \<Rightarrow> int" where
  "export_limit limit = max 1 (min 10000 (or_default limit 512))"

record download_response =
  dr_code :: nat
  dr_content_type :: string
  dr_disposition :: "string option"
  dr_body :: string

definition plain_response :: "nat \<Rightarrow> string \<Rightarrow> download_response" where
  "plain_response code body =
     \<lparr>dr_code = code, dr_content_type = ''text/plain; charset=utf-8'', dr_disposition = None, dr_body = body\<rparr>"

definition database_download ::
  "(int \<Rightarrow> string + string) \<Rightarrow> (int \<Rightarrow> string + string) \<Rightarrow> string \<Rightarrow> int option \<Rightarrow> download_response" where
  "database_download toxicity_text realized_text artifact limit =
     (let answer = (\<lambda>result. case result of Inl err \<Rightarrow> plain_response 500 err
            | Inr body \<Rightarrow> \<lparr>dr_code = 200,
                dr_content_type = (if ends_with ''.csv'' artifact then ''text/csv; charset=utf-8'' else ''application/json; charset=utf-8''),
                dr_disposition = Some (''attachment; filename='' @ [CHR 0x22] @ artifact @ [CHR 0x22]), dr_body = body\<rparr>)
      in if artifact = ''toxicity_profiles.csv'' then answer (toxicity_text (export_limit limit))
         else if artifact = ''realized_vs_expected.json'' then answer (realized_text (export_limit limit))
         else plain_response 404 ''unknown database artifact'')"

end
