(* ===== verification/DashInvariant.thy ===== *)
theory DashInvariant
  imports Dashboard
begin

text \<open>
  What holds of the dashboard whatever the engine and the operator ask of it, in any order: its lists keep
  their bounds, its counters agree, the reasons of rejection stay ranked, and the observer's samples belong
  to the running cycle. Two consequences are not what the code means: the running report can say nothing
  but \<open>WARMING\<close>, and a ninth reason is never counted.
\<close>

section \<open>Calls in any order\<close>

inductive dash_step :: "dash_ext \<Rightarrow> dashboard \<Rightarrow> dashboard \<Rightarrow> bool" for ex where
  paused: "dash_step ex d (set_runtime_paused b d)"
| event: "dash_step ex d (event ex dn io level message d)"
| clear: "dash_step ex d (fst (clear_events deleted d))"
| latency: "dash_step ex d (record_latency ex dn io stage ms wallet note d)"
| regime: "dash_step ex d (set_market_regime regime d)"
| reject: "dash_step ex d (record_reject_reason ex dn stage reason d)"
| selector: "dash_step ex d (record_selector_performance ex dn s target source stage confidence gas d)"
| pool: "dash_step ex d (record_selector_pool_performance ex dn s target pair p dex fee stage profit liquidity gas d)"
| funnel: "dash_step ex d (record_opportunity_funnel ex dn stage d)"
| sample: "dash_step ex d (record_edge_sample ex dn io sample d)"
| relays: "dash_step ex d (set_relay_rankings relays d)"
| outcome: "dash_step ex d (record_relay_outcome u d)"
| balance: "dash_step ex d (set_executor_balance balance status d)"
| wallets: "dash_step ex d (set_hot_wallets ws d)"
| treasury: "dash_step ex d (record_treasury_recommendation dn t d)"
| execution: "dash_step ex d (record_execution_outcome dn x d)"
| flush: "dash_step ex d (flush_storage_buffers ex dn io d)"
| request: "dash_step ex d (fst (handle_request ex dn io sa request d))"

inductive dash_reachable :: "dash_ext \<Rightarrow> dashboard \<Rightarrow> bool" for ex where
  start: "dash_reachable ex (dashboard_new ex dn sa cfg wallets keys duplicates invalid sto fleet files)"
| step: "dash_reachable ex d \<Longrightarrow> dash_step ex d d' \<Longrightarrow> dash_reachable ex d'"

definition reasons_ok :: "reject_reason_snapshot list \<Rightarrow> bool" where
  "reasons_ok rs = (length rs \<le> 8 \<and> sorted_wrt (\<lambda>a b. rj_count b \<le> rj_count a) rs
     \<and> distinct (map (\<lambda>r. (rj_stage r, rj_reason r)) rs) \<and> (\<forall>r \<in> set rs. 1 \<le> rj_count r))"

definition samples_ok :: "edge_telemetry_snapshot \<Rightarrow> bool" where
  "samples_ok t =
     (uint (tel_sample_count t) = min (2 ^ 64 - 1) (uint (tel_payload_ready_count t) + uint (tel_blocked_count t))
      \<and> length (tel_samples t) = min 50 (unat (tel_sample_count t))
      \<and> tel_last_sample t = (case tel_samples t of [] \<Rightarrow> None | s # _ \<Rightarrow> Some s)
      \<and> length (tel_unsupported_selectors t) \<le> 20)"

definition observer_ok :: "scavenger_observer \<Rightarrow> bool" where
  "observer_ok ob =
     (ob_current_started_at ob = (case ob_samples ob of [] \<Rightarrow> None | s # _ \<Rightarrow> Some (so_observed_at s))
      \<and> (case ob_last_completed ob of None \<Rightarrow> True | Some r \<Rightarrow> cy_status r \<in> {''READY'', ''WATCH'', ''NOT_READY''}))"

definition dash_ok :: "dashboard \<Rightarrow> bool" where
  "dash_ok d =
     (let st = dash_state d in
      length (ds_recent_events st) \<le> 50 \<and> reasons_ok (ds_reject_reasons st) \<and> samples_ok (ds_edge_telemetry st)
      \<and> distinct (map lm_stage (ds_latency_metrics st)) \<and> length (ds_treasury_rebalance_trail st) \<le> 12
      \<and> length (ds_execution_outcomes st) \<le> 12 \<and> observer_ok (dash_observer d))"

section \<open>The operations keep it\<close>

lemma uint_plus_one: "uint (plus_one n) = min (2 ^ 64 - 1) (uint n + 1)"
  using uint_bounded [of n] by (simp add: plus_one_def uint_sat_add)

lemma unat_plus_one: "unat (plus_one n) = min (2 ^ 64 - 1) (unat n + 1)"
proof -
  have "int (unat (plus_one n)) = min (2 ^ 64 - 1) (int (unat n) + 1)"
    using uint_plus_one [of n] by (simp only: uint_nat)
  moreover have "(2 ^ 64 - 1 :: nat) = 18446744073709551615" "(2 ^ 64 - 1 :: int) = 18446744073709551615" by simp_all
  ultimately show ?thesis by linarith
qed

lemma saturated_sum: "0 \<le> b \<Longrightarrow> min m (min m (r + 1) + b) = min m (min m (r + b) + (1 :: int))"
  by linarith

lemma length_push_event: "length (push_event tm level message q) \<le> 50"
  by (simp add: push_event_def)

interpretation reason_order: total_comparison "\<lambda>a b. rj_count b \<le> rj_count a"
  by unfold_locales auto

lemma bump_reason_keys:
  "set (map (\<lambda>r. (rj_stage r, rj_reason r)) (bump_reject_reason stage reason rs))
     = insert (stage, reason) (set (map (\<lambda>r. (rj_stage r, rj_reason r)) rs))"
  by (induction rs) auto

lemma bump_reason_distinct:
  "distinct (map (\<lambda>r. (rj_stage r, rj_reason r)) rs)
     \<Longrightarrow> distinct (map (\<lambda>r. (rj_stage r, rj_reason r)) (bump_reject_reason stage reason rs))"
proof (induction rs)
  case (Cons r rs)
  then show ?case using bump_reason_keys [of stage reason rs] by (auto simp del: set_map)
qed simp

lemma bump_reason_positive:
  "\<forall>r \<in> set rs. 1 \<le> rj_count r \<Longrightarrow> \<forall>r \<in> set (bump_reject_reason stage reason rs). 1 \<le> rj_count r"
proof (induction rs)
  case (Cons r rs)
  have "1 \<le> plus_one n" if "1 \<le> n" for n
    using that uint_bounded [of n] by (simp add: word_le_def uint_plus_one)
  then show ?case using Cons by auto
qed simp

lemma reasons_ok_record:
  assumes "reasons_ok rs"
  shows "reasons_ok (ranked_reasons (bump_reject_reason stage reason rs))"
proof -
  let ?b = "bump_reject_reason stage reason rs"
  let ?s = "sort_by (\<lambda>a b. rj_count b \<le> rj_count a) ?b"
  let ?k = "\<lambda>r. (rj_stage r, rj_reason r)"
  have "distinct (map ?k ?b)" and pos: "\<forall>r \<in> set ?b. 1 \<le> rj_count r"
    using assms bump_reason_distinct bump_reason_positive by (auto simp: reasons_ok_def)
  moreover have "mset (map ?k ?s) = mset (map ?k ?b)" by (simp only: mset_map mset_sort_by)
  ultimately have "distinct (map ?k ?s)" using mset_eq_imp_distinct_iff by blast
  then have "distinct (map ?k (take 8 ?s))" by (simp add: take_map [symmetric])
  moreover have "sorted_wrt (\<lambda>a b. rj_count b \<le> rj_count a) (take 8 ?s)"
    by (rule sorted_wrt_take) (rule reason_order.sorted_sort_by)
  moreover have "\<forall>r \<in> set (take 8 ?s). 1 \<le> rj_count r" using pos set_take_subset by fastforce
  ultimately show ?thesis by (simp add: reasons_ok_def ranked_reasons_def)
qed

lemma kept_samples: "Suc (min (min 50 (unat c)) 49) = min 50 (unat (plus_one c))"
  by (simp add: unat_plus_one min_def)

lemma samples_ok_count:
  assumes "samples_ok t"
  shows "samples_ok (count_sample s t)"
proof -
  let ?n = "tel_sample_count t" and ?r = "tel_payload_ready_count t" and ?b = "tel_blocked_count t"
  have n: "uint ?n = min (2 ^ 64 - 1) (uint ?r + uint ?b)" using assms by (simp add: samples_ok_def)
  have "uint (plus_one ?n) = min (2 ^ 64 - 1) (uint (plus_one ?r) + uint ?b)"
    unfolding uint_plus_one n by (rule saturated_sum [symmetric]) simp
  moreover have "uint (plus_one ?n) = min (2 ^ 64 - 1) (uint ?r + uint (plus_one ?b))"
    unfolding uint_plus_one n using saturated_sum [of "uint ?r" "2 ^ 64 - 1" "uint ?b"] by (simp only: add.commute uint_nonneg)
  ultimately show ?thesis using assms by (simp add: samples_ok_def count_sample_def kept_samples)
qed

lemma samples_ok_unsupported:
  assumes "samples_ok t"
  shows "samples_ok (fst (record_unsupported_selector t s))"
proof -
  have "samples_ok (t\<lparr>tel_unsupported_selectors := take 20 us\<rparr>)" for us
    using assms by (simp add: samples_ok_def)
  then show ?thesis using assms by (simp add: record_unsupported_selector_def Let_def)
qed

lemma metric_stages:
  "set (map lm_stage (upsert_latency_metric ms stage x)) = insert stage (set (map lm_stage ms))"
  by (induction ms) (auto simp: updated_metric_def Let_def)

lemma metric_distinct:
  "distinct (map lm_stage ms) \<Longrightarrow> distinct (map lm_stage (upsert_latency_metric ms stage x))"
proof (induction ms)
  case (Cons m ms)
  then show ?case using metric_stages [of ms stage x] by (auto simp: updated_metric_def Let_def simp del: set_map)
qed simp

lemma cycle_status_cases:
  "cycle_status c \<in> (if cf_observed_secs c < 15 * 60 then {''WARMING''} else {''READY'', ''WATCH'', ''NOT_READY''})"
  by (simp add: cycle_status_def)

lemma cycle_report_status:
  assumes "samples \<noteq> []"
  defines "secs \<equiv> as_secs (duration_since (so_observed_at (last samples)) (so_observed_at (hd samples)))"
  shows "cy_status (build_cycle_report samples phase) \<in> (if secs < 15 * 60 then {''WARMING''} else {''READY'', ''WATCH'', ''NOT_READY''})"
proof -
  obtain c where "cy_status (build_cycle_report samples phase) = cycle_status c" "cf_observed_secs c = secs"
    using assms by (simp add: build_cycle_report_def Let_def)
  then show ?thesis using cycle_status_cases [of c] by simp
qed

lemma observer_ok_push:
  assumes "observer_ok ob" "so_observed_at s = now"
  shows "observer_ok (observer_push now s ob)"
proof (cases "ob_samples ob")
  case Nil
  then show ?thesis using assms by (simp add: observer_ok_def observer_push_def Let_def or_default_def duration_since_def nanos_of_secs_def)
next
  case (Cons x xs)
  then have started: "ob_current_started_at ob = Some (so_observed_at x)" using assms by (simp add: observer_ok_def)
  show ?thesis
  proof (cases "nanos_of_secs (15 * 60) \<le> duration_since now (so_observed_at x)")
    case True
    then have "\<not> as_secs (duration_since now (so_observed_at x)) < 15 * 60"
      by (simp add: as_secs_def nanos_of_secs_def duration_since_def)
    then have "cy_status (build_cycle_report (ob_samples ob @ [s]) ''completed'') \<in> {''READY'', ''WATCH'', ''NOT_READY''}"
      using cycle_report_status [of "ob_samples ob @ [s]" "''completed''"] assms Cons by simp
    then show ?thesis using assms started Cons True by (simp add: observer_ok_def observer_push_def Let_def or_default_def)
  next
    case False
    then show ?thesis using assms started Cons by (simp add: observer_ok_def observer_push_def Let_def or_default_def)
  qed
qed

lemma dash_ok_new: "dash_ok (dashboard_new ex dn sa cfg wallets keys duplicates invalid sto fleet files)"
proof -
  have "length (or_default (stored_trail sa sto) []) \<le> 12" "length (or_default (stored_outcomes sa sto) []) \<le> 12"
    by (auto simp: stored_trail_def stored_outcomes_def or_default_def treasury_rebalance_trail_def execution_outcomes_def)
  moreover have "length (if sa_up sa then recent_events 50 (sto_db sto) else []) \<le> 50" by (simp add: recent_events_def)
  moreover have "distinct (map lm_stage (build_latency_metrics summary))" for summary
    by (simp add: build_latency_metrics_def metric_of_summary_def split: option.splits)
  ultimately show ?thesis
    by (simp add: dash_ok_def dashboard_new_def Let_def split_beta shown_thresholds_def reasons_ok_def samples_ok_def
        empty_telemetry_def observer_ok_def empty_observer_def)
qed

lemma dash_ok_event [simp]: "dash_ok d \<Longrightarrow> dash_ok (event ex dn io level message d)"
  by (simp add: dash_ok_def event_def Let_def with_state_def with_pending_def length_push_event)

lemma dash_ok_fleet [simp]: "dash_ok (d\<lparr>dash_fleet := f\<rparr>) = dash_ok d"
  by (simp add: dash_ok_def)

lemma dash_ok_snapshot:
  assumes "dash_ok d"
  shows "dash_ok (fst (snapshot ex dn sa d))"
  using assms by (simp add: dash_ok_def snapshot_def split_beta Let_def observer_ok_push observer_sample_def)

lemma dash_ok_edge_sample:
  assumes "dash_ok d"
  shows "dash_ok (record_edge_sample ex dn io sample d)"
proof -
  have samples: "samples_ok (fst (record_unsupported_selector (count_sample s (ds_edge_telemetry (dash_state d))) s))" for s
    using assms by (intro samples_ok_unsupported samples_ok_count) (simp add: dash_ok_def Let_def)
  show ?thesis
    using assms samples [of "edge_snapshot (dx_show_message ex) (dn_at dn) sample"]
    by (simp add: dash_ok_def record_edge_sample_def Let_def with_state_def with_pending_def sample_event_def
        length_push_event split_beta split: option.split)
qed

lemma dash_ok_request:
  assumes "dash_ok d"
  shows "dash_ok (fst (handle_request ex dn io sa request d))"
proof (cases request)
  case StatusRequest
  then show ?thesis using dash_ok_snapshot [OF assms] by (simp add: handle_request_def split_beta)
next
  case (RpcEnabledRequest endpoint_id on reason)
  then show ?thesis using assms
    by (simp add: handle_request_def api_rpc_enabled_def endpoints_response_def split_beta Let_def split: sum.split)
next
  case OnlyGetblockRequest
  then show ?thesis using assms
    by (simp add: handle_request_def api_only_getblock_def endpoints_response_def split_beta Let_def)
next
  case (PauseRequest b)
  have "dash_ok (set_runtime_paused b d)" using assms by (simp add: dash_ok_def set_runtime_paused_def with_state_def Let_def)
  then show ?thesis using PauseRequest by (simp add: handle_request_def api_pause_def Let_def)
next
  case ClearEventsRequest
  then show ?thesis using assms
    by (simp add: handle_request_def api_clear_events_def clear_events_def dash_ok_def with_state_def with_pending_def Let_def)
next
  case (ModeRequest mode)
  have "dash_ok (with_state (\<lambda>st. st\<lparr>ds_opportunity_mode := m\<rparr>) (d\<lparr>dash_mode := l\<rparr>))" for m l
    using assms by (simp add: dash_ok_def with_state_def Let_def)
  then show ?thesis using ModeRequest assms by (simp add: handle_request_def api_mode_def Let_def split: sum.split)
next
  case (ThresholdsRequest q)
  have "dash_ok (with_state (shown_thresholds ex t) (d\<lparr>dash_thresholds := l\<rparr>))" for t l
    using assms by (simp add: dash_ok_def with_state_def shown_thresholds_def Let_def)
  then show ?thesis using ThresholdsRequest assms by (simp add: handle_request_def api_thresholds_def Let_def)
qed

lemmas operation_defs = set_runtime_paused_def clear_events_def record_latency_def set_market_regime_def
  record_reject_reason_def record_selector_performance_def record_selector_pool_performance_def
  record_opportunity_funnel_def set_relay_rankings_def record_relay_outcome_def set_executor_balance_def
  set_hot_wallets_def record_treasury_recommendation_def record_execution_outcome_def flush_storage_buffers_def
  with_state_def with_pending_def Let_def

lemma dash_ok_step: "dash_step ex d d' \<Longrightarrow> dash_ok d \<Longrightarrow> dash_ok d'"
proof (induction rule: dash_step.induct)
  case (sample d dn io sample)
  then show ?case by (simp add: dash_ok_edge_sample)
next
  case (request d dn io sa request)
  then show ?case by (simp add: dash_ok_request)
next
  case (event d dn io level message)
  then show ?case by simp
next
  case (latency d dn io stage ms w n)
  then show ?case by (simp add: dash_ok_def operation_defs metric_distinct)
next
  case (reject d dn stage reason)
  then show ?case by (simp add: dash_ok_def operation_defs reasons_ok_record)
qed (simp_all add: dash_ok_def operation_defs)

section \<open>Properties\<close>

lemma dash_reachable_ok: "dash_reachable ex d \<Longrightarrow> dash_ok d"
  by (induction rule: dash_reachable.induct) (simp_all add: dash_ok_new dash_ok_step)

definition no_answers :: storage_answers where
  "no_answers = \<lparr>sa_up = False, sa_telemetry = [], sa_sweeps = None, sa_residuals = None, sa_relays = None, sa_toxicity = None,
     sa_selectors = None, sa_selector_pools = None, sa_selector_replays = None\<rparr>"

definition demo_ext :: dash_ext where
  "demo_ext = \<lparr>dx_env = Map.empty, dx_show_f64 = (\<lambda>_. ''1''), dx_show_message = (\<lambda>_. ''x''), dx_json = (\<lambda>_. ''{}''),
     dx_bucket_order = (\<lambda>bs. bs), dx_summary_order = (\<lambda>ss. ss)\<rparr>"

definition demo_at :: "int \<Rightarrow> dash_now" where
  "demo_at secs = \<lparr>dn_now = nanos_of_secs secs, dn_at = ''12:00:00'', dn_minute = ''2026-01-01T12:00'', dn_ago = (\<lambda>_. ''2026-01-01'')\<rparr>"

definition demo_io :: dash_io where
  "demo_io = \<lparr>io_dir = True, io_open = True, io_write = (\<lambda>_ _. True), io_prune = 8\<rparr>"

definition demo_dashboard :: dashboard where
  "demo_dashboard = dashboard_new demo_ext (demo_at 0) no_answers demo_config 1 1 0 0
     \<lparr>sto_network = ''eth'', sto_db = empty_database\<rparr> 
     (projr (rpc_fleet_from_config (\<lambda>_. None) [(''infura-1'', ''https://a'')] demo_config 0)) Map.empty"


text \<open>
  Whatever is asked of the dashboard, in any order, its lists keep their bounds (50 events, 8 reasons
  of rejection in descending order and without repetition, 12 rows of the trail and of the outcomes), every
  latency stage has one entry, the last edge sample is the head of the kept ones, the number of samples is
  that of the ready and the blocked ones together, and the running cycle of the observer started with
  its first sample.
\<close>

theorem dash_state_bounded:
  assumes "dash_reachable ex d"
  defines "st \<equiv> dash_state d"
  shows "length (ds_recent_events st) \<le> 50 \<and> reasons_ok (ds_reject_reasons st) \<and> samples_ok (ds_edge_telemetry st)
      \<and> distinct (map lm_stage (ds_latency_metrics st)) \<and> length (ds_treasury_rebalance_trail st) \<le> 12
      \<and> length (ds_execution_outcomes st) \<le> 12 \<and> observer_ok (dash_observer d)"
  using dash_reachable_ok [OF assms(1)] by (simp add: dash_ok_def st_def Let_def)

theorem dash_state_bounded_witness:
  "reasons_ok (ds_reject_reasons (dash_state (record_reject_reason demo_ext (demo_at 1) ''decode'' ''x'' demo_dashboard)))"
proof -
  have "dash_reachable demo_ext (record_reject_reason demo_ext (demo_at 1) ''decode'' ''x'' demo_dashboard)"
    unfolding demo_dashboard_def by (rule dash_reachable.step [OF dash_reachable.start dash_step.reject])
  then show ?thesis by (rule dash_state_bounded [THEN conjunct2, THEN conjunct1])
qed

lemma observer_push_warming:
  assumes "observer_ok ob" "so_observed_at s = now"
  shows "cy_status (build_cycle_report (ob_samples (observer_push now s ob)) phase) = ''WARMING''"
proof -
  let ?xs = "ob_samples (observer_push now s ob)"
  have "?xs \<noteq> []" by (simp add: observer_push_def Let_def)
  moreover have "duration_since (so_observed_at (last ?xs)) (so_observed_at (hd ?xs)) < nanos_of_secs (15 * 60)"
    using assms by (cases "ob_samples ob")
      (auto simp: observer_ok_def observer_push_def Let_def or_default_def duration_since_def nanos_of_secs_def)
  then have "as_secs (duration_since (so_observed_at (last ?xs)) (so_observed_at (hd ?xs))) < 15 * 60"
    by (simp add: as_secs_def nanos_of_secs_def)
  ultimately show ?thesis using cycle_report_status [of ?xs phase] by simp
qed

text \<open>
  The report of the running cycle in every snapshot has the status \<open>WARMING\<close>, however long the program
  has run and however good its figures are: the sample that completes the fifteen minutes closes the cycle
  and starts the next one before the report is made. \<open>READY\<close> and \<open>WATCH\<close> are only ever seen in the
  report of the last completed cycle.
\<close>

theorem live_report_always_warming:
  assumes "dash_reachable ex d"
  shows "cy_status (or_cycle (ds_scavenger_observer (snd (snapshot ex dn sa d)))) = ''WARMING''"
proof -
  have "observer_ok (dash_observer d)" using dash_reachable_ok [OF assms] by (simp add: dash_ok_def Let_def)
  then show ?thesis
    by (simp add: snapshot_def split_beta Let_def observer_report_def observer_push_warming observer_sample_def)
qed

theorem live_report_always_warming_witness:
  "cy_status (or_cycle (ds_scavenger_observer (snd (snapshot demo_ext (demo_at 90000) no_answers demo_dashboard)))) = ''WARMING''"
  by (rule live_report_always_warming) (simp add: demo_dashboard_def dash_reachable.start)

lemma sort_by_sorted: "sorted_wrt le xs \<Longrightarrow> sort_by le xs = xs"
proof (induction xs)
  case (Cons x xs)
  then show ?case by (cases xs) auto
qed simp

lemma bump_new_reason:
  "(stage, reason) \<notin> (\<lambda>r. (rj_stage r, rj_reason r)) ` set rs
     \<Longrightarrow> bump_reject_reason stage reason rs = rs @ [\<lparr>rj_stage = stage, rj_reason = reason, rj_count = 1\<rparr>]"
  by (induction rs) auto

lemma new_reason_dropped:
  assumes ok: "reasons_ok rs" and full: "length rs = 8"
    and new: "(stage, reason) \<notin> (\<lambda>r. (rj_stage r, rj_reason r)) ` set rs"
  shows "ranked_reasons (bump_reject_reason stage reason rs) = rs"
proof -
  have "sorted_wrt (\<lambda>a b. rj_count b \<le> rj_count a) (bump_reject_reason stage reason rs)"
    using ok by (simp add: bump_new_reason [OF new] reasons_ok_def sorted_wrt_append)
  then have "ranked_reasons (bump_reject_reason stage reason rs) = take 8 (bump_reject_reason stage reason rs)"
    by (simp add: ranked_reasons_def sort_by_sorted)
  then show ?thesis using full by (simp add: bump_new_reason [OF new])
qed

lemma reasons_of_record:
  "ds_reject_reasons (dash_state (record_reject_reason ex dn stage reason d))
     = ranked_reasons (bump_reject_reason stage reason (ds_reject_reasons (dash_state d)))"
  by (simp add: operation_defs)

text \<open>
  Once eight reasons of rejection are held, no other reason is ever counted, however often it occurs:
  it enters with a count of one, is ranked behind the eight and cut off again, each time anew. The list
  the operator sees is that of the first eight reasons of the run, not of the most frequent ones.
\<close>

theorem ninth_reason_never_enters:
  assumes reach: "dash_reachable ex d" and full: "length (ds_reject_reasons (dash_state d)) = 8"
    and new: "\<forall>(dn, stage, reason) \<in> set calls.
      (stage, reason) \<notin> (\<lambda>r. (rj_stage r, rj_reason r)) ` set (ds_reject_reasons (dash_state d))"
  shows "ds_reject_reasons (dash_state (fold (\<lambda>(dn, stage, reason). record_reject_reason ex dn stage reason) calls d))
           = ds_reject_reasons (dash_state d)"
proof -
  have "reasons_ok (ds_reject_reasons (dash_state d))" using dash_reachable_ok [OF reach] by (simp add: dash_ok_def Let_def)
  then show ?thesis
    using full new
  proof (induction calls arbitrary: d)
    case (Cons call calls)
    obtain dn stage reason where call: "call = (dn, stage, reason)" by (cases call) auto
    have "ds_reject_reasons (dash_state (record_reject_reason ex dn stage reason d)) = ds_reject_reasons (dash_state d)"
      unfolding reasons_of_record using Cons.prems call by (intro new_reason_dropped) auto
    then show ?case using Cons call by simp
  qed simp
qed

definition eight_reasons :: dashboard where
  "eight_reasons = fold (\<lambda>r. record_reject_reason demo_ext (demo_at 1) ''decode'' r)
     [''a'', ''b'', ''c'', ''d'', ''e'', ''f'', ''g'', ''h''] demo_dashboard"

lemma eight_reasons_shown:
  "ds_reject_reasons (dash_state eight_reasons)
     = map (\<lambda>r. \<lparr>rj_stage = ''decode'', rj_reason = r, rj_count = 1\<rparr>) [''a'', ''b'', ''c'', ''d'', ''e'', ''f'', ''g'', ''h'']"
proof -
  have "ds_reject_reasons (dash_state demo_dashboard) = []"
    by (simp add: demo_dashboard_def dashboard_new_def Let_def split_beta shown_thresholds_def)
  then show ?thesis by (simp add: eight_reasons_def reasons_of_record ranked_reasons_def)
qed

lemma eight_reasons_reachable: "dash_reachable demo_ext eight_reasons"
  unfolding eight_reasons_def demo_dashboard_def
  by (auto intro!: dash_reachable.start dash_reachable.step [OF _ dash_step.reject])

theorem ninth_reason_never_enters_witness:
  "ds_reject_reasons (dash_state (fold (\<lambda>(dn, stage, reason). record_reject_reason demo_ext dn stage reason)
       (replicate 1000 (demo_at 2, ''preflight'', ''no pool'')) eight_reasons)) = ds_reject_reasons (dash_state eight_reasons)"
  by (rule ninth_reason_never_enters [OF eight_reasons_reachable]) (auto simp: eight_reasons_shown)

text \<open>
  A request that is refused changes nothing. A mode or thresholds that are not accepted are a 400 and
  leave the dashboard as it was, an unknown endpoint is a 404 that only lets the answer read the endpoints.
  The exception is a feed that could not be cleared: its 500 has already lost the events not yet stored.
\<close>

theorem refused_request_changes_nothing:
  assumes "handle_request ex dn io sa request d = (d', r)" "ar_code r \<noteq> 200"
  shows "(ar_code r = 400 \<and> d' = d)
     \<or> (ar_code r = 404 \<and> d' = d\<lparr>dash_fleet := fst (rpc_snapshot (dash_fleet d) (dn_now dn))\<rparr>)
     \<or> (ar_code r = 500 \<and> request = ClearEventsRequest \<and> \<not> sa_up sa \<and> d' = with_pending (\<lambda>p. p\<lparr>pd_events := []\<rparr>) d)"
proof (cases request)
  case (RpcEnabledRequest endpoint_id on reason)
  then show ?thesis using assms
    by (auto simp: handle_request_def api_rpc_enabled_def endpoints_response_def split_beta Let_def split: sum.splits)
next
  case (ThresholdsRequest q)
  then show ?thesis using assms by (auto simp: handle_request_def api_thresholds_def Let_def split: if_splits)
next
  case (ModeRequest mode)
  then show ?thesis using assms by (auto simp: handle_request_def api_mode_def Let_def split: sum.splits)
next
  case ClearEventsRequest
  then show ?thesis using assms by (auto simp: handle_request_def api_clear_events_def clear_events_def Let_def split: if_splits)
qed (insert assms, auto simp: handle_request_def api_only_getblock_def api_pause_def endpoints_response_def split_beta Let_def)

theorem refused_request_changes_nothing_witness:
  "fst (handle_request demo_ext (demo_at 1) demo_io no_answers (ModeRequest ''turbo'') demo_dashboard) = demo_dashboard"
proof -
  let ?x = "handle_request demo_ext (demo_at 1) demo_io no_answers (ModeRequest ''turbo'') demo_dashboard"
  have "parse_opportunity_mode ''turbo'' = Inl (LeOpportunityMode ''turbo'')" by code_simp
  then have "ar_code (snd ?x) = 400" by (simp add: handle_request_def api_mode_def)
  then show ?thesis using refused_request_changes_nothing [of demo_ext "demo_at 1" demo_io no_answers "ModeRequest ''turbo''" demo_dashboard "fst ?x" "snd ?x"] by simp
qed

end
