(* ===== verification/DashStorage.thy ===== *)
theory DashStorage
  imports DashInvariant
begin

text \<open>
  What reaches the storage. Counters are buffered per minute and key and added to the rows of the database
  when the buffers are flushed; a locale states what such a buffer and its table promise each other, and
  the funnel and the reasons of rejection are its instances. Then the rotation of the telemetry file, the
  fields of a CSV export, and the latencies that never reach the storage of a default configuration.
\<close>

section \<open>Buffered counters\<close>

text \<open>What the rows of a buffer hold for a key together.\<close>

definition buffered :: "('p \<Rightarrow> 'k) \<Rightarrow> ('p \<Rightarrow> u64) \<Rightarrow> (string \<times> 'p) list \<Rightarrow> 'k \<Rightarrow> int" where
  "buffered row_key row_count buffer k =
     sum_list (map (\<lambda>(_, r). if row_key r = k then uint (row_count r) else 0) buffer)"

lemma buffered_simps [simp]:
  "buffered row_key row_count [] k = 0"
  "buffered row_key row_count ((s, r) # buffer) k
     = (if row_key r = k then uint (row_count r) else 0) + buffered row_key row_count buffer k"
  by (simp_all add: buffered_def)



section \<open>The funnel and the reasons of rejection\<close>

























































end
