(* ===== verification/Spec2Isabelle.thy ===== *)
theory Spec2Isabelle
  imports PayloadSafety PoolCache SelectorScan AdaptiveRuns RpcSafety HandleSafety NeverReady RunSafety
    TunerSafety WalletSafety BenchSafety EncoderSafety DashStorage
begin

text \<open>
  A verification library for the arbitrage runtime in \<open>src/\<close>, a Rust program that watches pending
  transactions for large swaps, sizes a flash swap around them, scores the opportunity and submits a
  transaction or a bundle.

  \<^bold>\<open>The program and its parts.\<close> The runtime decodes a pending swap, reads the pool through the pool
  cache, simulates the victim on the pool model, asks the payload builder for a sized call and the
  adaptive policy for a verdict; the executor then takes the opportunity through its gates, picks an
  endpoint or relay, signs, submits, waits for the receipt and feeds the result back into the stop
  loss, the profit tracker and the adaptive policy. All of them read one configuration.

  \<^bold>\<open>Theories and sources.\<close>
  \<^item> \<open>Prelude\<close>: machine words with saturating and checked operations, errors as sums (\<open>and_then\<close> is
    the question-mark operator), mutexes that may be poisoned, instants and durations in nanoseconds,
    stable sorting and maximum by a comparison, and the locales \<open>total_comparison\<close> and
    \<open>windowed_queue\<close> that the components instantiate.
  \<^item> \<open>F64\<close>: binary64 numbers as sign, mantissa and exponent with infinities and one NaN; the operations
    round to nearest even. \<open>rounds_to\<close> relates a result to the exact real value and is what the
    numeric proofs use. The functions of the mathematical library are a parameter, \<open>libm\<close>.
  \<^item> \<open>UniswapV2\<close>, \<open>UniswapV3\<close> (\<open>src/mev/amm\<close>): pool states, quotes, swaps, sizes.
  \<^item> \<open>Opportunity\<close> (\<open>src/mev/opportunity.rs\<close>, \<open>src/mev/pnl/tracker.rs\<close>).
  \<^item> \<open>Config\<close>, \<open>ConfigLoad\<close>, \<open>ConfigSafety\<close> (\<open>src/config.rs\<close>): the configuration record and the methods
    for the thresholds in force; \<open>load_config\<close> from the environment, the command line and the tuned
    environment file; the endpoint lists. \<open>StdText\<close> holds the string functions of the standard library
    that this needs: trimming, splitting, and the exact parsers of integers and floats.
  \<^item> \<open>Wallets\<close>, \<open>WalletSafety\<close> (\<open>src/wallets.rs\<close>, \<open>src/main.rs\<close>): the wallet loaders, one round of the
    wallet monitor, and the warnings at start.
  \<^item> \<open>PoolCache\<close> (\<open>src/mev/cache/pool_cache.rs\<close>), \<open>StateSimulator\<close> (\<open>src/mev/simulation\<close>),
    \<open>SelectorScan\<close> (\<open>src/mev/decoder/simd.rs\<close>).
  \<^item> \<open>ContractEncoder\<close>, \<open>EncoderSafety\<close>, \<open>PayloadBuilder\<close>, \<open>PayloadSafety\<close> (\<open>src/mev/execution/contract_encoder.rs\<close>,
    \<open>flashloan_builder.rs\<close>, \<open>payload_builder.rs\<close>).
  \<^item> \<open>Adaptive\<close>, \<open>AdaptiveSafety\<close>, \<open>AdaptiveRuns\<close> (\<open>src/mev/adaptive.rs\<close>): the policy record with its
    moving averages, relay statistics and flow window, one definition per method. Runs are the step
    relation \<open>policy_step\<close> with an explicit clock.
  \<^item> \<open>Rpc\<close>, \<open>RpcSafety\<close> (\<open>src/rpc.rs\<close>): the endpoint fleet with counters, cooldowns, burst window, score
    cache and rotation cursors; \<open>fleet_step\<close> is one call of any public method, \<open>overlapped_refresh\<close> a
    refresh of the score cache into which other calls fall.
  \<^item> \<open>Executor\<close>, \<open>ExecutorHandle\<close>, \<open>ExecutorSafety\<close>, \<open>HandleSafety\<close>
    (\<open>src/mev/execution/executor.rs\<close>): guards, budget, gas, submit paths, receipts, and \<open>handle\<close> from its
    first check to the recorded result; \<open>handle_outcome\<close> has a constructor per way out.
  \<^item> \<open>RuntimeGates\<close>, \<open>RuntimeBuild\<close>, \<open>RuntimeDecode\<close>, \<open>RuntimeEval\<close> (\<open>src/mev/runtime.rs\<close>): the duplicate
    filter, throttle, micro batch and gates; pool discovery and payload building over several nodes;
    the decoders of calldata, nested ones included; the two worker bodies as chains of stages over
    \<open>eval_state\<close>, and the main loop over \<open>runtime_state\<close> with \<open>run_step\<close> for one event, an item that
    arrives while the runtime is paused included, and \<open>run_loop\<close> for the loop with its last flush.
  \<^item> \<open>Replay\<close>, \<open>ReplaySafety\<close>, \<open>TunerSafety\<close> (\<open>src/replay.rs\<close>): one definition per stage of a recorded case
    over \<open>replay_state\<close>, which carries the report, the rows, the policy and the pool cache; the search
    over the grid of tunings, and the environment file it writes.
  \<^item> \<open>LoadTest\<close>, \<open>NetBench\<close>, \<open>BenchSafety\<close> (\<open>src/benchmark.rs\<close>): the load test, which sends synthetic
    transactions through decoder, gate and policy on several workers and merges their reports; the
    probes of the endpoints with their summaries, scores and rankings.
  \<^item> \<open>StorageTables\<close> (\<open>src/storage.rs\<close>): the tables as maps from keys to rows, with the statement of
    every write, the retention, the queries by time, the scores computed of rows, and CSV text.
    \<open>DashData\<close>, \<open>DashObserver\<close>, \<open>TelemetryFile\<close>, \<open>Dashboard\<close> (\<open>src/dashboard.rs\<close>): the parts of the
    dashboard's state, the scavenger observer, the rotated telemetry file, and the handle with every
    operation the engine calls, the flush into the storage, the snapshot and the requests of the HTTP
    interface. \<open>DashInvariant\<close> and \<open>DashStorage\<close> hold what is proved of them.
  \<^item> \<open>DecodeSafety\<close>, \<open>RuntimeSafety\<close>, \<open>EvalSafety\<close>, \<open>NeverReady\<close>, \<open>RunSafety\<close>: what is proved of them.

  \<^bold>\<open>What the lemmas show.\<close>
  \<^item> Pools: a V2 swap never lowers the product of the reserves and a round trip never gains; the V3
    price moves with the trade, the output is within the virtual reserve and the liquidity after a
    move is the sum over exactly the ticks crossed.
  \<^item> Payloads: every payload built is within its caps and repays the flash loan; calldata decodes to its
    arguments, where the decoder is told the types and arguments fit them (an ABI encoding in words, with
    heads and tails, is the instance); the errors and the panic of sizing are characterised.
  \<^item> Cache and simulator: a hit is fresh and of the pair asked for under any interleaving; the
    preflight profit is the sum of the matching transfers and independent of the override order.
  \<^item> Policy: a quote that executes pays for its gas and threshold in every reachable policy; learned
    rates stay in the unit interval; the relay loop refines a fold over the quotes.
  \<^item> Fleet: as long as its calls do not overlap, a selection returns available endpoints only, though it
    reads cached scores, and returns one whenever the cache has expired and one is available; failures
    quarantine. A lemma shows the overlap after which an endpoint is served during its cooldown.
  \<^item> Executor: exposure stays within the limits under any interleaving of reservations and releases;
    over any recorded results and looks at the stop loss, its counter is the number of losses since the
    last win or lifted freeze, and it blocks handling while frozen; a transaction is
    submitted only behind every gate; the escalated gas price is bounded. Three lemmas show code that
    does not do what it means to: capital kept reserved after a refusal, frozen paths still
    submitted to, and a signed fee above the cap.
  \<^item> Decoders: packed paths are read back, decoded signals are well formed however deeply they were
    nested, the recursion has one solution, and a transaction makes the decoder panic only if one of its
    byte strings holds a fee word that does not fit or a swap whose value overflows.
  \<^item> Runtime: the duplicate filter refines a bounded window, the batch hands out its candidates best
    first and loses none, the throttle keeps to its budget, the main loop keeps all invariants, those
    of the executor's budget included. Four lemmas show what does not work: no evaluation ever hands a
    candidate to the batch, a low gas cap makes every evaluation panic, the quality gate ignores the
    price impact, and one executor error, a transaction that every path refuses included, ends the loop.
  \<^item> Configuration: a loaded configuration has distinct endpoints and positive fan-outs and limits; on
    the BNB chain its fleet is GetBlock's alone. Two lemmas show what does not work: the network name
    \<open>bnb\<close> gets the chain of Ethereum, and a threshold of \<open>nan\<close> is accepted.
  \<^item> Wallets: the loader accounts for every key; the warnings on the default layout contradict.
  \<^item> Replay: the report accounts for every case. Composed with the runtime and the configuration, two
    lemmas show that the tuning loop does nothing: the file it writes is a constant, and loading it
    changes nothing.
  \<^item> Benchmarks: the merged report of the load test accounts for every iteration, a passed latency
    budget bounds the tail, and the jitter of a probe is the range of its latencies.
  \<^item> Dashboard: in any order of calls its lists keep their bounds and its counters agree; between the
    buffers and the tables no count is lost or doubled; a refused request changes nothing. Two lemmas
    show what does not work: the running report always says \<open>WARMING\<close>, and once eight reasons of
    rejection are ranked, no ninth ever enters.

  \<^bold>\<open>Parameters.\<close> Code outside the repository is an argument: \<open>libm\<close>, the virtual machine (\<open>revm\<close>), the
  ABI encoder and hash (\<open>abi\<close>), prices and metadata of the payload builder (\<open>payload_ext\<close>), and what
  the network, the wallet library and the environment answer to the executor (\<open>net\<close>). Where a
  theorem relies on such code, the assumption is a named predicate (\<open>exp_not_negative\<close>,
  \<open>accounts_independent\<close>, \<open>abi_slices\<close> and others) and a witness shows an instance. For the runtime the
  parameters are the ABI decoder (\<open>abi_decoder\<close>), the environment variables (\<open>runtime_env\<close>), what the
  nodes answer (\<open>chain_view\<close>, \<open>build_net\<close>, \<open>eval_ext\<close>) and the order in which tasks finish. For loading and replay
  they are the parsers of keys and addresses (\<open>ethers_text\<close>) and of JSON, the files (\<open>file_system\<close>), and
  the recorded run's clock, node and fork (\<open>replay_ext\<close>); for the benchmarks the clock and the answers
  of the endpoints (\<open>load_ext\<close>, \<open>bench_answers\<close>); for the dashboard the clock, the success of writes and
  the aggregating queries (\<open>dash_now\<close>, \<open>dash_io\<close>, \<open>storage_answers\<close>).

  \<^bold>\<open>Conventions.\<close> Integers keep their width, with wrap-around and saturation as in a release build.
  The clock is an argument; the readings inside one locked section are one instant. Concurrent tasks
  are sequences of the steps that hold a lock, in any order, or a list of completions in the order of
  arrival. Every loop is structural recursion or a fold over a list; \<open>observe_rounds\<close> counts down the
  ten rounds of the source. Fuel is used once: the nested decoders recurse without a bound in the
  source, \<open>decode_swap_signal\<close> follows them one level deeper than the arguments have bytes, and
  \<open>decode_recursion\<close> shows that this is the only solution of the recursive equation.

  \<^bold>\<open>Not modelled.\<close> Of \<open>storage.rs\<close> the SQL engine, opening and migrating a database, the aggregating
  queries and the export files; of \<open>dashboard.rs\<close> the HTTP server and the HTML; \<open>ingest.rs\<close> and
  \<open>pinning.rs\<close> (a channel wrapper and operating-system calls): what they do is what the library under
  them does. The configuration is fixed while one evaluation runs. Configured thresholds are taken to
  be below the \<open>1e59\<close> at which \<open>parse_ether\<close> overflows; amounts from a transaction are not. Of
  \<open>runtime.rs\<close> the samples and reports written to the log and the connection handling of the mempool
  stream are left out; of \<open>main.rs\<close> the start-up; of \<open>replay.rs\<close> printing and the JSON reports; of
  \<open>benchmark.rs\<close> printing, the JSON exports and the description of the hardware; and of \<open>adaptive.rs\<close>
  the estimators at its end.
\<close>

end
